(* ===== verification/Prelude.thy ===== *)
theory Prelude
  imports Complex_Main "HOL-Library.Multiset"
begin

text \<open>
  What every component shares: the theorem collections, lemmas on lists that are read and
  written as SQL tables, and the parts of Go's \<open>strings\<close>, \<open>strconv\<close> and \<open>fmt\<close> packages
  the source uses. A Go string is the list of its bytes. Upper and lower case are those of
  ASCII: a letter outside ASCII is left as it is.
\<close>

named_theorems table_simps \<open>reading a table after a write\<close>
named_theorems outcome_simps \<open>the ways a database operation can end\<close>
named_theorems atomic_intros \<open>operations that change nothing when they fail\<close>

section \<open>Tables as lists of rows\<close>

definition sql_update :: "('r \<Rightarrow> bool) \<Rightarrow> ('r \<Rightarrow> 'r) \<Rightarrow> 'r list \<Rightarrow> 'r list" where
  "sql_update P f rows = map (\<lambda>r. if P r then f r else r) rows"

definition sql_delete :: "('r \<Rightarrow> bool) \<Rightarrow> 'r list \<Rightarrow> 'r list" where
  "sql_delete P rows = filter (\<lambda>r. \<not> P r) rows"

definition sql_count :: "('r \<Rightarrow> bool) \<Rightarrow> 'r list \<Rightarrow> nat" where
  "sql_count P rows = length (filter P rows)"

definition sql_desc :: "('r \<Rightarrow> int) \<Rightarrow> 'r list \<Rightarrow> 'r list" where
  "sql_desc key rows = sort_key (\<lambda>r. - key r) rows"

text \<open>ORDER BY several columns: a stable sort by a strict comparison. TEXT columns compare by bytes.\<close>

fun order_insert :: "('r \<Rightarrow> 'r \<Rightarrow> bool) \<Rightarrow> 'r \<Rightarrow> 'r list \<Rightarrow> 'r list" where
  "order_insert lt x [] = [x]"
| "order_insert lt x (y # ys) = (if lt y x then y # order_insert lt x ys else x # y # ys)"

definition order_by :: "('r \<Rightarrow> 'r \<Rightarrow> bool) \<Rightarrow> 'r list \<Rightarrow> 'r list" where
  "order_by lt rows = foldr (order_insert lt) rows []"

fun text_less :: "string \<Rightarrow> string \<Rightarrow> bool" where
  "text_less s [] = False"
| "text_less [] (c # t) = True"
| "text_less (b # s) (c # t) = ((of_char b :: nat) < of_char c \<or> (b = c \<and> text_less s t))"

lemma set_order_insert [simp]: "set (order_insert lt x xs) = insert x (set xs)"
  by (induction lt x xs rule: order_insert.induct) auto

lemma set_order_by [simp]: "set (order_by lt xs) = set xs"
  by (induction xs) (auto simp: order_by_def)

lemma mset_order_insert: "mset (order_insert lt x xs) = add_mset x (mset xs)"
  by (induction lt x xs rule: order_insert.induct) auto

lemma mset_order_by: "mset (order_by lt xs) = mset xs"
  by (induction xs) (auto simp: order_by_def mset_order_insert)

lemma sql_update_simps [simp, table_simps]:
  "sql_update P f [] = []"
  "sql_update P f (r # rows) = (if P r then f r else r) # sql_update P f rows"
  "sql_update P f (xs @ ys) = sql_update P f xs @ sql_update P f ys"
  by (simp_all add: sql_update_def)

lemma length_sql_update [simp]: "length (sql_update P f rows) = length rows"
  by (simp add: sql_update_def)

lemma set_sql_update: "set (sql_update P f rows) = (\<lambda>r. if P r then f r else r) ` set rows"
  by (simp add: sql_update_def)

lemma sql_update_id: "(\<And>r. r \<in> set rows \<Longrightarrow> \<not> P r) \<Longrightarrow> sql_update P f rows = rows"
  by (induction rows) auto

lemma map_sql_update_same:
  "(\<And>r. P r \<Longrightarrow> g (f r) = g r) \<Longrightarrow> map g (sql_update P f rows) = map g rows"
  by (induction rows) auto

lemma filter_sql_update_same:
  "(\<And>r. P r \<Longrightarrow> \<not> Q r) \<Longrightarrow> (\<And>r. P r \<Longrightarrow> \<not> Q (f r)) \<Longrightarrow> filter Q (sql_update P f rows) = filter Q rows"
  by (induction rows) auto

lemma set_sql_delete [simp]: "set (sql_delete P rows) = {r \<in> set rows. \<not> P r}"
  by (auto simp: sql_delete_def)

lemma sql_delete_simps [simp, table_simps]:
  "sql_delete P [] = []"
  "sql_delete P (r # rows) = (if P r then sql_delete P rows else r # sql_delete P rows)"
  by (simp_all add: sql_delete_def)

lemma sql_count_simps [simp, table_simps]:
  "sql_count P [] = 0"
  "sql_count P (r # rows) = (if P r then Suc (sql_count P rows) else sql_count P rows)"
  "sql_count P (xs @ ys) = sql_count P xs + sql_count P ys"
  by (simp_all add: sql_count_def)

lemma sql_count_0_iff: "sql_count P rows = 0 \<longleftrightarrow> (\<forall>r \<in> set rows. \<not> P r)"
  by (induction rows) auto

lemma set_sql_desc [simp]: "set (sql_desc key rows) = set rows"
  by (simp add: sql_desc_def)

lemma sql_desc_sorted: "sorted_wrt (\<lambda>a b. key b \<le> key a) (sql_desc key rows)"
proof -
  have "sorted (map (\<lambda>r. - key r) (sql_desc key rows))"
    by (simp add: sql_desc_def)
  then show ?thesis by (simp add: sorted_map)
qed

text \<open>A table whose keys were handed out in order lists newest first by reversing it.\<close>

lemma sql_desc_rev:
  assumes "sorted_wrt (<) (map f xs)"
  shows "sql_desc f xs = rev xs"
  unfolding sql_desc_def
proof (rule sort_key_inj_key_eq)
  have "sorted_wrt (\<lambda>a b. - f a \<le> - f b) (rev xs)"
    using assms by (auto simp: sorted_wrt_rev sorted_wrt_map intro: sorted_wrt_mono_rel[rotated])
  then show "sorted (map (\<lambda>r. - f r) (rev xs))" by (simp add: sorted_map)
  have "distinct (map f xs)" using assms strict_sorted_iff[of "map f xs"] by simp
  then show "inj_on (\<lambda>r. - f r) (set xs)" by (simp add: distinct_map inj_on_def)
qed simp

subsection \<open>A table with a key\<close>

lemma sql_update_mem:
  "r \<in> set (sql_update P f rows) \<longleftrightarrow> (\<exists>r0 \<in> set rows. r = (if P r0 then f r0 else r0))"
  by (auto simp: set_sql_update)

lemma ball_sql_update:
  "(\<forall>r \<in> set (sql_update P f rows). Q r) \<longleftrightarrow> (\<forall>r \<in> set rows. if P r then Q (f r) else Q r)"
  by (auto simp: set_sql_update)

lemma bex_sql_update:
  "(\<exists>r \<in> set (sql_update P f rows). Q r) \<longleftrightarrow> (\<exists>r \<in> set rows. if P r then Q (f r) else Q r)"
  by (auto simp: set_sql_update)

lemma distinct_map_sql_update_one:
  "distinct (map key rows) \<Longrightarrow> distinct (map val rows) \<Longrightarrow>
   (\<And>r. r \<in> set rows \<Longrightarrow> key r \<noteq> k \<Longrightarrow> val r \<noteq> v) \<Longrightarrow>
   (\<And>r. val (f r) = v) \<Longrightarrow>
   distinct (map val (sql_update (\<lambda>r. key r = k) f rows))"
proof (induction rows)
  case (Cons r rows)
  then have IH: "distinct (map val (sql_update (\<lambda>r. key r = k) f rows))" by simp
  show ?case
  proof (cases "key r = k")
    case True
    with Cons.prems(1) have "\<And>r'. r' \<in> set rows \<Longrightarrow> key r' \<noteq> k" by (auto simp: image_iff)
    moreover from this have "sql_update (\<lambda>r. key r = k) f rows = rows" by (intro sql_update_id)
    ultimately show ?thesis using True Cons.prems IH by (auto simp: image_iff)
  next
    case False
    then have "val r \<noteq> v" using Cons.prems(3) by simp
    with False Cons.prems IH show ?thesis by (auto simp: set_sql_update image_iff)
  qed
qed simp

lemma distinct_sql_delete: "distinct (map f rows) \<Longrightarrow> distinct (map f (sql_delete P rows))"
  by (simp add: sql_delete_def distinct_map_filter)

lemma find_sql_update:
  "(\<And>r. P r \<Longrightarrow> key (f r) = key r) \<Longrightarrow>
   find (\<lambda>r. key r = k) (sql_update P f rows) =
     map_option (\<lambda>r. if P r then f r else r) (find (\<lambda>r. key r = k) rows)"
  by (induction rows) auto

lemma find_append: "find P (xs @ ys) = (case find P xs of None \<Rightarrow> find P ys | Some x \<Rightarrow> Some x)"
  by (induction xs) auto

lemma find_Some_mem: "find P xs = Some x \<Longrightarrow> x \<in> set xs \<and> P x"
  by (induction xs) (auto split: if_splits)

lemma find_key_unique:
  "distinct (map key rows) \<Longrightarrow> r \<in> set rows \<Longrightarrow> key r = k \<Longrightarrow> find (\<lambda>r. key r = k) rows = Some r"
  by (induction rows) auto

lemma foldl_snoc: "foldl f a (xs @ [x]) = f (foldl f a xs) x"
  by simp

section \<open>Go strings\<close>

text \<open>The UTF-8 encodings of the runes \<open>unicode.IsSpace\<close> accepts.\<close>

definition space_runes :: "string list" where
  "space_runes = [[CHR 0x09], [CHR 0x0A], [CHR 0x0B], [CHR 0x0C], [CHR 0x0D], [CHR 0x20], [CHR 0xC2, CHR 0x85],
     [CHR 0xC2, CHR 0xA0], [CHR 0xE1, CHR 0x9A, CHR 0x80], [CHR 0xE2, CHR 0x80, CHR 0xA8],
     [CHR 0xE2, CHR 0x80, CHR 0xA9], [CHR 0xE2, CHR 0x80, CHR 0xAF],
     [CHR 0xE2, CHR 0x81, CHR 0x9F], [CHR 0xE3, CHR 0x80, CHR 0x80],
     [CHR 0xE2, CHR 0x80, CHR 0x80], [CHR 0xE2, CHR 0x80, CHR 0x81],
     [CHR 0xE2, CHR 0x80, CHR 0x82], [CHR 0xE2, CHR 0x80, CHR 0x83],
     [CHR 0xE2, CHR 0x80, CHR 0x84], [CHR 0xE2, CHR 0x80, CHR 0x85],
     [CHR 0xE2, CHR 0x80, CHR 0x86], [CHR 0xE2, CHR 0x80, CHR 0x87],
     [CHR 0xE2, CHR 0x80, CHR 0x88], [CHR 0xE2, CHR 0x80, CHR 0x89],
     [CHR 0xE2, CHR 0x80, CHR 0x8A]]"

fun strip_prefix :: "string \<Rightarrow> string \<Rightarrow> string option" where
  "strip_prefix [] s = Some s"
| "strip_prefix (p # ps) [] = None"
| "strip_prefix (p # ps) (c # s) = (if p = c then strip_prefix ps s else None)"

definition has_prefix :: "string \<Rightarrow> string \<Rightarrow> bool" where
  "has_prefix s p = (strip_prefix p s \<noteq> None)"

fun drop_one :: "string list \<Rightarrow> string \<Rightarrow> string option" where
  "drop_one [] s = None"
| "drop_one (p # ps) s = (case strip_prefix p s of Some r \<Rightarrow> Some r | None \<Rightarrow> drop_one ps s)"

lemma strip_prefix_append: "strip_prefix p s = Some r \<longleftrightarrow> s = p @ r"
  by (induction p s rule: strip_prefix.induct) auto

lemma drop_one_shorter:
  "drop_one ps s = Some r \<Longrightarrow> [] \<notin> set ps \<Longrightarrow> length r < length s"
  by (induction ps) (auto simp: strip_prefix_append split: option.splits)

text \<open>The fuel is the length of the string: each step drops at least one byte.\<close>

fun drop_runes :: "string list \<Rightarrow> nat \<Rightarrow> string \<Rightarrow> string" where
  "drop_runes ps 0 s = s"
| "drop_runes ps (Suc n) s = (case drop_one ps s of None \<Rightarrow> s | Some r \<Rightarrow> drop_runes ps n r)"

definition trim_left_space :: "string \<Rightarrow> string" where
  "trim_left_space s = drop_runes space_runes (length s) s"

definition trim_right_space :: "string \<Rightarrow> string" where
  "trim_right_space s = rev (drop_runes (map rev space_runes) (length s) (rev s))"

definition trim_space :: "string \<Rightarrow> string" where
  "trim_space s = trim_right_space (trim_left_space s)"

definition trim_right_byte :: "char \<Rightarrow> string \<Rightarrow> string" where
  "trim_right_byte c s = rev (dropWhile (\<lambda>x. x = c) (rev s))"

definition trim_byte :: "char \<Rightarrow> string \<Rightarrow> string" where
  "trim_byte c s = trim_right_byte c (dropWhile (\<lambda>x. x = c) s)"

definition lower_char :: "char \<Rightarrow> char" where
  "lower_char c = (let n = (of_char c :: nat) in if 65 \<le> n \<and> n \<le> 90 then char_of (n + 32) else c)"

definition upper_char :: "char \<Rightarrow> char" where
  "upper_char c = (let n = (of_char c :: nat) in if 97 \<le> n \<and> n \<le> 122 then char_of (n - 32) else c)"

definition to_lower :: "string \<Rightarrow> string" where "to_lower = map lower_char"
definition to_upper :: "string \<Rightarrow> string" where "to_upper = map upper_char"

definition equal_fold :: "string \<Rightarrow> string \<Rightarrow> bool" where
  "equal_fold a b = (to_lower a = to_lower b)"

text \<open>\<open>strings.IndexByte\<close>: the first position of a byte, or \<open>-1\<close>.\<close>

fun index_byte_from :: "int \<Rightarrow> string \<Rightarrow> char \<Rightarrow> int" where
  "index_byte_from i [] c = -1"
| "index_byte_from i (x # xs) c = (if x = c then i else index_byte_from (i + 1) xs c)"

definition index_byte :: "string \<Rightarrow> char \<Rightarrow> int" where
  "index_byte = index_byte_from 0"

fun contains_str :: "string \<Rightarrow> string \<Rightarrow> bool" where
  "contains_str [] p = (p = [])"
| "contains_str (c # s) p = (has_prefix (c # s) p \<or> contains_str s p)"

lemma index_byte_from_bounds:
  "index_byte_from i s c = -1 \<or> (i \<le> index_byte_from i s c \<and> index_byte_from i s c < i + int (length s))"
  by (induction i s c rule: index_byte_from.induct) auto

lemma index_byte_from_none: "0 \<le> i \<Longrightarrow> index_byte_from i s c = -1 \<longleftrightarrow> c \<notin> set s"
  by (induction i s c rule: index_byte_from.induct) auto

section \<open>Decimal numbers\<close>

function nat_digits :: "nat \<Rightarrow> string" where
  "nat_digits n = (if n < 10 then [char_of (48 + n)] else nat_digits (n div 10) @ [char_of (48 + n mod 10)])"
  by pat_completeness auto
termination by (relation "measure id") auto

declare nat_digits.simps [simp del]

definition itoa :: "int \<Rightarrow> string" where
  "itoa i = (if i < 0 then ''-'' @ nat_digits (nat (- i)) else nat_digits (nat i))"

fun digits_value :: "nat \<Rightarrow> string \<Rightarrow> nat option" where
  "digits_value acc [] = Some acc"
| "digits_value acc (c # s) = (let n = (of_char c :: nat) in
     if 48 \<le> n \<and> n \<le> 57 then digits_value (acc * 10 + (n - 48)) s else None)"

lemma digits_value_append:
  "digits_value acc (s @ t) = (case digits_value acc s of None \<Rightarrow> None | Some a \<Rightarrow> digits_value a t)"
  by (induction acc s rule: digits_value.induct) (auto simp: Let_def)

lemma digits_value_nat_digits: "digits_value 0 (nat_digits n) = Some n"
proof (induction n rule: nat_digits.induct)
  case (1 n)
  show ?case
  proof (cases "n < 10")
    case True
    then show ?thesis by (subst nat_digits.simps) (simp add: Let_def)
  next
    case False
    then have "digits_value 0 (nat_digits (n div 10)) = Some (n div 10)" by (rule "1.IH")
    moreover have "n mod 10 < 10" by simp
    ultimately show ?thesis using False
      by (subst nat_digits.simps) (simp add: digits_value_append Let_def)
  qed
qed

lemma nat_digits_inj: "nat_digits m = nat_digits n \<Longrightarrow> m = n"
  by (metis digits_value_nat_digits option.inject)

lemma nat_digits_nonempty [simp]: "nat_digits n \<noteq> []"
  by (subst nat_digits.simps) simp

end
