(* ===== verification/Float64.thy ===== *)
theory Float64
  imports Complex_Main "HOL-Library.Log_Nat"
begin

text \<open>
  Go's \<open>float64\<close> (and SQLite's REAL): a finite double is modelled by the rational it
  denotes, and every arithmetic operation of the source is the exact operation followed by
  \<open>rnd\<close>, the IEEE 754 rounding to nearest, ties to even, at 53 bits of precision with
  gradual underflow. Overflow to infinity and NaN are outside the model: the monetary
  amounts of the program stay far below the overflow threshold, and the one handler that
  reads an amount from a client rejects both before computing with it. The floats of the
  configuration file, which may be no number, have a type of their own in \<open>Config\<close>.
  The theory gives the operations, the conversion \<open>int64(x)\<close> and the laws the
  components rest on: rounding is monotone, odd and idempotent, exact on small integers,
  and its error is at most half a unit in the last place.
\<close>

type_synonym float64 = rat

section \<open>Rounding to the nearest integer, ties to even\<close>

definition rne :: "rat \<Rightarrow> int" where
  "rne x = (let n = \<lfloor>x\<rfloor>; d = x - of_int n in
     if d < 1 / 2 then n else if d > 1 / 2 then n + 1 else if even n then n else n + 1)"

text \<open>The binary exponent: the \<open>e\<close> with \<open>2 ^ e \<le> \<bar>x\<bar> < 2 ^ (e + 1)\<close>.\<close>

definition expo :: "rat \<Rightarrow> int" where
  "expo x = (case quotient_of \<bar>x\<bar> of (p, q) \<Rightarrow>
     let e = bitlen p - bitlen q in
     if q * 2 ^ nat e \<le> p * 2 ^ nat (- e) then e else e - 1)"

text \<open>The exponent of a unit in the last place, never below that of the subnormals.\<close>

definition ulp_expo :: "rat \<Rightarrow> int" where
  "ulp_expo x = max (expo x - 52) (- 1074)"

definition pow2 :: "int \<Rightarrow> rat" where
  "pow2 e = (if 0 \<le> e then of_int (2 ^ nat e) else 1 / of_int (2 ^ nat (- e)))"

definition rnd :: "rat \<Rightarrow> float64" where
  "rnd x = (if x = 0 then 0 else let u = ulp_expo x in of_int (rne (x / pow2 u)) * pow2 u)"

definition fadd :: "float64 \<Rightarrow> float64 \<Rightarrow> float64" where "fadd a b = rnd (a + b)"
definition fsub :: "float64 \<Rightarrow> float64 \<Rightarrow> float64" where "fsub a b = rnd (a - b)"
definition fmul :: "float64 \<Rightarrow> float64 \<Rightarrow> float64" where "fmul a b = rnd (a * b)"
definition fdiv :: "float64 \<Rightarrow> float64 \<Rightarrow> float64" where "fdiv a b = rnd (a / b)"

text \<open>\<open>int64(x)\<close> truncates towards zero.\<close>

definition to_int64 :: "float64 \<Rightarrow> int" where
  "to_int64 x = (if 0 \<le> x then \<lfloor>x\<rfloor> else \<lceil>x\<rceil>)"

section \<open>Laws of \<open>rne\<close>\<close>

lemma rne_of_int [simp]: "rne (of_int n) = n"
  by (simp add: rne_def)

lemma rne_bounds: "\<bar>of_int (rne x) - x\<bar> \<le> 1 / 2"
proof -
  define n where "n = \<lfloor>x\<rfloor>"
  have "of_int n \<le> x" "x < of_int n + 1" unfolding n_def by linarith+
  then show ?thesis unfolding rne_def n_def [symmetric] Let_def
    by (auto simp: abs_le_iff)
qed

lemma rne_mono: "x \<le> y \<Longrightarrow> rne x \<le> rne y"
proof -
  assume le: "x \<le> y"
  then have fl: "\<lfloor>x\<rfloor> \<le> \<lfloor>y\<rfloor>" by (rule floor_mono)
  have x1: "rne x \<le> \<lfloor>x\<rfloor> + 1" and y0: "\<lfloor>y\<rfloor> \<le> rne y"
    by (auto simp: rne_def Let_def)
  show ?thesis
  proof (cases "\<lfloor>x\<rfloor> = \<lfloor>y\<rfloor>")
    case True
    with le show ?thesis by (auto simp: rne_def Let_def)
  next
    case False
    with fl x1 y0 show ?thesis by linarith
  qed
qed

lemma rne_minus: "rne (- x) = - rne x"
proof (cases "x = of_int \<lfloor>x\<rfloor>")
  case True
  then obtain n where "x = of_int n" by blast
  then have "rne (- x) = rne (of_int (- n))" by simp
  also have "\<dots> = - rne x" unfolding rne_of_int using \<open>x = of_int n\<close> by simp
  finally show ?thesis .
next
  case False
  have fl: "\<lfloor>- x\<rfloor> = - \<lfloor>x\<rfloor> - 1"
  proof (rule floor_unique)
    show "of_int (- \<lfloor>x\<rfloor> - 1) \<le> - x" by (simp, linarith)
    have "of_int \<lfloor>x\<rfloor> < x" using False by (metis of_int_floor_le order_le_less)
    then show "- x < of_int (- \<lfloor>x\<rfloor> - 1) + 1" by simp
  qed
  show ?thesis unfolding rne_def Let_def fl by auto
qed

lemma rne_le_of_int: "x \<le> of_int k \<Longrightarrow> rne x \<le> k"
  using rne_mono[of x "of_int k"] by simp

lemma rne_ge_of_int: "of_int k \<le> x \<Longrightarrow> k \<le> rne x"
  using rne_mono[of "of_int k" x] by simp

section \<open>Powers of two and the exponent\<close>

lemma pow2_powi: "pow2 e = 2 powi e"
  by (auto simp: pow2_def power_int_def power_one_over)

lemma pow2_pos [simp]: "0 < pow2 e"
  by (simp add: pow2_powi)

lemma pow2_nonzero [simp]: "pow2 e \<noteq> 0"
  using pow2_pos[of e] by linarith

lemma pow2_not_le_0 [simp]: "\<not> pow2 e \<le> 0"
  using pow2_pos[of e] by linarith

lemma pow2_add: "pow2 (a + b) = pow2 a * pow2 b"
  by (simp add: pow2_powi power_int_add)

lemma pow2_diff: "pow2 (a - b) = pow2 a / pow2 b"
  by (simp add: pow2_powi power_int_diff)

lemma pow2_mono: "a \<le> b \<Longrightarrow> pow2 a \<le> pow2 b"
  by (simp add: pow2_powi power_int_increasing)

lemma pow2_less_iff: "pow2 a < pow2 b \<longleftrightarrow> a < b"
  by (metis linorder_not_less pow2_mono order_less_le pow2_powi power_int_strict_increasing one_less_numeral_iff semiring_norm(76))

lemma pow2_nat: "pow2 (int n) = of_int (2 ^ n)"
  by (simp add: pow2_def)

lemma pow2_int_nonneg: "0 \<le> e \<Longrightarrow> pow2 e = of_int (2 ^ nat e)"
  by (simp add: pow2_def)

lemma expo_bounds:
  assumes "x \<noteq> 0"
  shows "pow2 (expo x) \<le> \<bar>x\<bar>" and "\<bar>x\<bar> < pow2 (expo x + 1)"
proof -
  obtain p q where pq: "quotient_of \<bar>x\<bar> = (p, q)" by (cases "quotient_of \<bar>x\<bar>")
  have q: "0 < q" using pq by (rule quotient_of_denom_pos)
  have xpq: "\<bar>x\<bar> = of_int p / of_int q" using pq by (rule quotient_of_div)
  have p: "0 < p" using assms q xpq by (metis divide_pos_pos of_int_0_less_iff zero_less_abs_iff zero_less_divide_iff order_less_asym)
  have bp: "pow2 (bitlen p - 1) \<le> of_int p" "of_int p < pow2 (bitlen p)"
    using bitlen_bounds[OF p] p
    by (simp_all add: pow2_def bitlen_def nat_diff_distrib' flip: of_int_power)
  have bq: "pow2 (bitlen q - 1) \<le> of_int q" "of_int q < pow2 (bitlen q)"
    using bitlen_bounds[OF q] q
    by (simp_all add: pow2_def bitlen_def nat_diff_distrib' flip: of_int_power)
  define e where "e = bitlen p - bitlen q"
  have "\<bar>x\<bar> < pow2 (bitlen p) / pow2 (bitlen q - 1)"
    unfolding xpq using bp bq p q by (intro frac_less) auto
  then have up: "\<bar>x\<bar> < pow2 (e + 1)"
    by (simp add: e_def flip: pow2_diff) (simp add: algebra_simps)
  have "pow2 (bitlen p - 1) / pow2 (bitlen q) < \<bar>x\<bar>"
    unfolding xpq using bp bq p q by (intro frac_less2) auto
  then have lo: "pow2 (e - 1) < \<bar>x\<bar>"
    by (simp add: e_def flip: pow2_diff) (simp add: algebra_simps)
  have test: "q * 2 ^ nat e \<le> p * 2 ^ nat (- e) \<longleftrightarrow> pow2 e \<le> \<bar>x\<bar>"
  proof (cases "0 \<le> e")
    case True
    have "q * 2 ^ nat e \<le> p \<longleftrightarrow> (of_int (q * 2 ^ nat e) :: rat) \<le> of_int p"
      by (simp only: of_int_le_iff)
    also have "\<dots> \<longleftrightarrow> pow2 e \<le> \<bar>x\<bar>"
      using q True by (simp add: xpq pow2_def field_simps)
    finally show ?thesis using True by simp
  next
    case False
    have "q \<le> p * 2 ^ nat (- e) \<longleftrightarrow> (of_int q :: rat) \<le> of_int (p * 2 ^ nat (- e))"
      by (simp only: of_int_le_iff)
    also have "\<dots> \<longleftrightarrow> pow2 e \<le> \<bar>x\<bar>"
      using q False by (simp add: xpq pow2_def field_simps)
    finally show ?thesis using False by simp
  qed
  have ex: "expo x = (if pow2 e \<le> \<bar>x\<bar> then e else e - 1)"
    using test by (simp add: expo_def pq e_def)
  show "pow2 (expo x) \<le> \<bar>x\<bar>" using lo by (auto simp: ex)
  show "\<bar>x\<bar> < pow2 (expo x + 1)" using up by (auto simp: ex)
qed

lemma expo_unique:
  assumes "pow2 e \<le> \<bar>x\<bar>" "\<bar>x\<bar> < pow2 (e + 1)"
  shows "expo x = e"
proof -
  have "x \<noteq> 0" using assms(1) pow2_pos[of e] by auto
  from expo_bounds[OF this] assms have "pow2 (expo x) < pow2 (e + 1)" "pow2 e < pow2 (expo x + 1)"
    by linarith+
  then show ?thesis by (simp add: pow2_less_iff)
qed

lemma expo_mono:
  assumes "x \<noteq> 0" "\<bar>x\<bar> \<le> \<bar>y\<bar>"
  shows "expo x \<le> expo y"
proof -
  have "y \<noteq> 0" using assms by auto
  with assms expo_bounds[of x] expo_bounds[of y] have "pow2 (expo x) < pow2 (expo y + 1)"
    by linarith
  then show ?thesis by (simp add: pow2_less_iff)
qed

lemma expo_minus [simp]: "expo (- x) = expo x"
  by (simp add: expo_def)

section \<open>Laws of \<open>rnd\<close>\<close>

lemma rnd_0 [simp]: "rnd 0 = 0"
  by (simp add: rnd_def)

lemma rnd_eq: "x \<noteq> 0 \<Longrightarrow> rnd x = of_int (rne (x / pow2 (ulp_expo x))) * pow2 (ulp_expo x)"
  by (simp add: rnd_def Let_def)

lemma rnd_minus [simp]: "rnd (- x) = - rnd x"
  by (cases "x = 0") (simp_all add: rnd_eq ulp_expo_def rne_minus)

lemma rnd_error: "x \<noteq> 0 \<Longrightarrow> \<bar>rnd x - x\<bar> \<le> pow2 (ulp_expo x) / 2"
proof -
  assume x: "x \<noteq> 0"
  define u where "u = ulp_expo x"
  have "\<bar>rnd x - x\<bar> = \<bar>of_int (rne (x / pow2 u)) - x / pow2 u\<bar> * pow2 u"
    using x by (simp add: rnd_eq u_def abs_mult_pos [symmetric] less_imp_le field_simps)
  also have "\<dots> \<le> (1 / 2) * pow2 u"
    by (rule mult_right_mono [OF rne_bounds]) (simp add: less_imp_le)
  finally show ?thesis by (simp add: u_def)
qed

lemma rnd_nonneg: "0 \<le> x \<Longrightarrow> 0 \<le> rnd x"
  by (cases "x = 0") (auto simp: rnd_eq less_imp_le intro!: mult_nonneg_nonneg rne_ge_of_int)

lemma rnd_nonpos: "x \<le> 0 \<Longrightarrow> rnd x \<le> 0"
  using rnd_nonneg[of "- x"] by simp

text \<open>A power of two bounds a rounded value whenever it bounds the exact one.\<close>

lemma rnd_le_pow2:
  assumes "0 < x" "x \<le> pow2 m" "ulp_expo x \<le> m"
  shows "rnd x \<le> pow2 m"
proof -
  define u where "u = ulp_expo x"
  have k: "pow2 (m - u) = of_int (2 ^ nat (m - u))" using assms(3) by (simp add: pow2_int_nonneg u_def)
  have "x / pow2 u \<le> of_int (2 ^ nat (m - u))" unfolding k [symmetric]
    using assms(2) by (simp add: pow2_diff divide_right_mono less_imp_le)
  then have "rne (x / pow2 u) \<le> 2 ^ nat (m - u)" by (rule rne_le_of_int)
  then have "of_int (rne (x / pow2 u)) \<le> pow2 (m - u)"
    unfolding k by (simp only: of_int_le_iff)
  then have "of_int (rne (x / pow2 u)) * pow2 u \<le> pow2 (m - u) * pow2 u"
    by (rule mult_right_mono) (simp add: less_imp_le)
  with assms(1) show ?thesis by (simp add: rnd_eq u_def pow2_diff)
qed

lemma rnd_ge_pow2:
  assumes "pow2 m \<le> x" "ulp_expo x \<le> m"
  shows "pow2 m \<le> rnd x"
proof -
  define u where "u = ulp_expo x"
  have x: "x \<noteq> 0" using assms(1) pow2_pos[of m] by auto
  have k: "pow2 (m - u) = of_int (2 ^ nat (m - u))" using assms(2) by (simp add: pow2_int_nonneg u_def)
  have "of_int (2 ^ nat (m - u)) \<le> x / pow2 u" unfolding k [symmetric]
    using assms(1) by (simp add: pow2_diff divide_right_mono less_imp_le)
  then have "2 ^ nat (m - u) \<le> rne (x / pow2 u)" by (rule rne_ge_of_int)
  then have "pow2 (m - u) \<le> of_int (rne (x / pow2 u))"
    unfolding k by (simp only: of_int_le_iff)
  then have "pow2 (m - u) * pow2 u \<le> of_int (rne (x / pow2 u)) * pow2 u"
    by (rule mult_right_mono) (simp add: less_imp_le)
  with x show ?thesis by (simp add: rnd_eq u_def pow2_diff)
qed

lemma rnd_mono_pos:
  assumes "0 < x" "x \<le> y"
  shows "rnd x \<le> rnd y"
proof -
  have ex: "expo x \<le> expo y" using assms by (intro expo_mono) auto
  then have u: "ulp_expo x \<le> ulp_expo y" by (simp add: ulp_expo_def)
  show ?thesis
  proof (cases "ulp_expo x = ulp_expo y")
    case True
    have "x / pow2 (ulp_expo x) \<le> y / pow2 (ulp_expo x)"
      using assms by (simp add: divide_right_mono less_imp_le)
    then have "rne (x / pow2 (ulp_expo x)) \<le> rne (y / pow2 (ulp_expo x))" by (rule rne_mono)
    with True assms show ?thesis by (simp add: rnd_eq mult_right_mono less_imp_le)
  next
    case False
    then have y: "ulp_expo y = expo y - 52" and lt: "expo x < expo y"
      using u by (auto simp: ulp_expo_def max_def split: if_splits)
    have "rnd x \<le> pow2 (expo y)"
    proof (rule rnd_le_pow2)
      have "x < pow2 (expo x + 1)" using expo_bounds(2)[of x] assms by simp
      also have "\<dots> \<le> pow2 (expo y)" using lt by (intro pow2_mono) simp
      finally show "x \<le> pow2 (expo y)" by simp
      show "ulp_expo x \<le> expo y" using u y by simp
    qed (rule assms)
    also have "pow2 (expo y) \<le> rnd y"
      using expo_bounds(1)[of y] assms y by (intro rnd_ge_pow2) auto
    finally show ?thesis .
  qed
qed

lemma rnd_mono: "x \<le> y \<Longrightarrow> rnd x \<le> rnd y"
proof -
  assume le: "x \<le> y"
  consider "0 < x" | "x \<le> 0" "0 \<le> y" | "y < 0" by linarith
  then show ?thesis
  proof cases
    case 1 with le show ?thesis by (rule rnd_mono_pos[rotated])
  next
    case 2 with rnd_nonpos rnd_nonneg show ?thesis by (meson order_trans)
  next
    case 3 with le have "rnd (- y) \<le> rnd (- x)" by (intro rnd_mono_pos) auto
    then show ?thesis by simp
  qed
qed

section \<open>Exact values, idempotence and error bounds\<close>

lemma rnd_exact:
  assumes x: "x = of_int k * pow2 v" and k: "\<bar>k\<bar> \<le> 2 ^ 53" and v: "- 1074 \<le> v"
  shows "rnd x = x"
proof (cases "k = 0")
  case True with x show ?thesis by simp
next
  case False
  then have x0: "x \<noteq> 0" by (simp add: x)
  define u where "u = ulp_expo x"
  have "\<exists>n. x / pow2 u = of_int n"
  proof (cases "\<bar>k\<bar> = 2 ^ 53")
    case True
    have ab: "\<bar>x\<bar> = pow2 (v + 53)"
      using True by (simp add: x abs_mult pow2_add pow2_nat [of 53, simplified] less_imp_le flip: of_int_abs)
    then have "expo x = v + 53" by (intro expo_unique) (simp_all add: pow2_less_iff)
    then have "u = v + 1" using v by (simp add: u_def ulp_expo_def)
    then have "x / pow2 u = of_int k / 2" by (simp add: x pow2_add pow2_def[of 1])
    moreover have "even k" using True by (metis abs_if dvd_minus_iff even_numeral even_power zero_less_numeral)
    ultimately show ?thesis by (metis dvd_def nonzero_mult_div_cancel_left of_int_mult of_int_numeral zero_neq_numeral)
  next
    case False
    with k have "\<bar>k\<bar> < 2 ^ 53" by simp
    then have "(of_int \<bar>k\<bar> :: rat) < of_int (2 ^ 53)" by (simp only: of_int_less_iff)
    then have "\<bar>x\<bar> < pow2 (53 + v)"
      by (simp add: x abs_mult pow2_add pow2_nat [of 53, simplified] less_imp_le)
    with expo_bounds(1)[OF x0] have "pow2 (expo x) < pow2 (53 + v)" by linarith
    then have "u \<le> v" using v by (simp add: pow2_less_iff u_def ulp_expo_def)
    then have "pow2 (v - u) = of_int (2 ^ nat (v - u))" by (intro pow2_int_nonneg) simp
    then have "x / pow2 u = of_int (k * 2 ^ nat (v - u))"
      by (simp add: x flip: pow2_diff times_divide_eq_right)
    then show ?thesis by blast
  qed
  then obtain n where n: "x / pow2 u = of_int n" by blast
  then show ?thesis using x0 by (simp add: rnd_eq flip: u_def) (simp add: n [symmetric])
qed

lemma rnd_of_int: "\<bar>n\<bar> \<le> 2 ^ 53 \<Longrightarrow> rnd (of_int n) = of_int n"
  by (rule rnd_exact [of _ n 0]) (simp_all add: pow2_def)

lemma rnd_numeral [simp]:
  "(numeral n :: int) \<le> 9007199254740992 \<Longrightarrow> rnd (numeral n) = numeral n"
  using rnd_of_int [of "numeral n"] by simp

lemma rnd_1 [simp]: "rnd 1 = 1"
  using rnd_of_int [of 1] by simp

lemma rnd_idem [simp]: "rnd (rnd x) = rnd x"
proof (cases "x = 0")
  case True then show ?thesis by simp
next
  case False
  define u where "u = ulp_expo x"
  have "\<bar>x\<bar> < pow2 (u + 53)"
  proof (rule less_le_trans)
    show "\<bar>x\<bar> < pow2 (expo x + 1)" using False by (rule expo_bounds(2))
    show "pow2 (expo x + 1) \<le> pow2 (u + 53)" by (rule pow2_mono) (simp add: u_def ulp_expo_def)
  qed
  then have b: "\<bar>x / pow2 u\<bar> \<le> of_int (2 ^ 53)"
    by (simp add: pow2_add pow2_nat [of 53, simplified] abs_divide field_simps less_imp_le)
  have "rne (x / pow2 u) \<le> 2 ^ 53" using b by (intro rne_le_of_int) linarith
  moreover have "- (2 ^ 53) \<le> rne (x / pow2 u)" using b by (intro rne_ge_of_int) linarith
  ultimately have "\<bar>rne (x / pow2 u)\<bar> \<le> 2 ^ 53" by simp
  moreover have "- 1074 \<le> u" by (simp add: u_def ulp_expo_def)
  ultimately show ?thesis using False rnd_exact rnd_eq u_def by metis
qed

lemma rnd_error_abs:
  assumes "\<bar>x\<bar> \<le> pow2 m" "- 1020 \<le> m"
  shows "\<bar>rnd x - x\<bar> \<le> pow2 (m - 54)"
proof (cases "x = 0 \<or> \<bar>x\<bar> = pow2 m")
  case True
  then have "rnd x = x"
  proof
    assume "\<bar>x\<bar> = pow2 m"
    then consider "x = pow2 m" | "x = - pow2 m" by linarith
    then show ?thesis
    proof cases
      case 1 with assms(2) show ?thesis by (intro rnd_exact[of x 1 m]) auto
    next
      case 2 with assms(2) show ?thesis by (intro rnd_exact[of x "- 1" m]) auto
    qed
  qed simp
  then show ?thesis by (simp add: less_imp_le)
next
  case False
  then have x: "x \<noteq> 0" and lt: "\<bar>x\<bar> < pow2 m" using assms(1) by auto
  from expo_bounds(1)[OF x] lt have "pow2 (expo x) < pow2 m" by linarith
  then have "expo x < m" by (simp add: pow2_less_iff)
  then have "ulp_expo x \<le> m - 53" using assms(2) by (simp add: ulp_expo_def)
  then have "pow2 (ulp_expo x) \<le> pow2 (m - 53)" by (rule pow2_mono)
  with rnd_error[OF x] have "\<bar>rnd x - x\<bar> \<le> pow2 (m - 53) / 2" by linarith
  also have "pow2 (m - 53) / 2 = pow2 (m - 53 - 1)" by (subst pow2_diff) (simp add: pow2_def)
  finally show ?thesis by simp
qed

lemma to_int64_of_int [simp]: "to_int64 (of_int n) = n"
  by (simp add: to_int64_def)

lemma to_int64_bounds: "0 \<le> x \<Longrightarrow> of_int (to_int64 x) \<le> x \<and> x < of_int (to_int64 x) + 1"
  by (simp add: to_int64_def) linarith

lemma to_int64_mono: "x \<le> y \<Longrightarrow> to_int64 x \<le> to_int64 y"
proof (cases "0 \<le> x \<or> y < 0")
  case True
  then show "x \<le> y \<Longrightarrow> to_int64 x \<le> to_int64 y"
    by (auto simp: to_int64_def floor_mono ceiling_mono)
next
  case False
  then have "\<lceil>x\<rceil> \<le> 0" "0 \<le> \<lfloor>y\<rfloor>" by simp_all
  then have "\<lceil>x\<rceil> \<le> \<lfloor>y\<rfloor>" by linarith
  with False show "to_int64 x \<le> to_int64 y" by (simp add: to_int64_def)
qed

section \<open>Laws of the operations\<close>

lemma fadd_0 [simp]: "fadd x 0 = rnd x" "fadd 0 x = rnd x"
  by (simp_all add: fadd_def)

lemma fsub_0 [simp]: "fsub x 0 = rnd x"
  by (simp add: fsub_def)

lemma fsub_self [simp]: "fsub x x = 0"
  by (simp add: fsub_def)

lemma fadd_minus: "fadd x (- y) = fsub x y"
  by (simp add: fadd_def fsub_def)

lemma fsub_nonneg: "y \<le> x \<Longrightarrow> 0 \<le> fsub x y"
  by (simp add: fsub_def rnd_nonneg)

lemma fadd_mono: "a \<le> b \<Longrightarrow> c \<le> d \<Longrightarrow> fadd a c \<le> fadd b d"
  by (simp add: fadd_def rnd_mono)

lemma fadd_nonneg: "0 \<le> a \<Longrightarrow> 0 \<le> b \<Longrightarrow> 0 \<le> fadd a b"
  by (simp add: fadd_def rnd_nonneg)

lemma rnd_fops [simp]:
  "rnd (fadd a b) = fadd a b" "rnd (fsub a b) = fsub a b"
  "rnd (fmul a b) = fmul a b" "rnd (fdiv a b) = fdiv a b"
  by (simp_all add: fadd_def fsub_def fmul_def fdiv_def)

section \<open>Closeness in the range of money\<close>

text \<open>Below \<open>10^12\<close> a rounding is off by at most \<open>2^-14\<close>.\<close>

lemma rnd_close: "\<bar>x\<bar> \<le> 1000000000000 \<Longrightarrow> \<bar>rnd x - x\<bar> \<le> 1 / 16384"
  using rnd_error_abs[of x 40] by (simp add: pow2_def)

lemma fop_close:
  "\<bar>a + b\<bar> \<le> 1000000000000 \<Longrightarrow> \<bar>fadd a b - (a + b)\<bar> \<le> 1 / 16384"
  "\<bar>a - b\<bar> \<le> 1000000000000 \<Longrightarrow> \<bar>fsub a b - (a - b)\<bar> \<le> 1 / 16384"
  "\<bar>a * b\<bar> \<le> 1000000000000 \<Longrightarrow> \<bar>fmul a b - a * b\<bar> \<le> 1 / 16384"
  "\<bar>a / b\<bar> \<le> 1000000000000 \<Longrightarrow> \<bar>fdiv a b - a / b\<bar> \<le> 1 / 16384"
  unfolding fadd_def fsub_def fmul_def fdiv_def by (rule rnd_close, assumption)+

end
