(* ===== verification/Store.thy ===== *)
theory Store
  imports Prelude Float64
begin

text \<open>
  The SQLite store of \<open>internal/saas/db\<close>: one record per table row (the columns of
  \<open>migrations.go\<close>, in its order), the database as a record of tables, and the shape every
  operation of the package has, a sequence of SQL statements of which any may fail.

  A \<^emph>\<open>session\<close> pairs the database with a \<open>plan\<close>, a list that says for each coming
  statement whether the driver fails on it (an I/O error, a cancelled context, a busy
  lock); past its end every statement succeeds. A theorem about an arbitrary session is
  therefore a theorem about every place an operation can be cut short. \<open>in_tx\<close> is a
  transaction: any error between BEGIN and COMMIT, the COMMIT included, restores the
  database of the BEGIN. The write lock is taken at BEGIN (\<open>_txlock=immediate\<close>), so a
  transaction runs alone and one value of the session is enough for it.

  A \<open>time.Time\<close> column is the Unix second it stores; \<open>time.Now().Unix()\<close> is an argument.
  \<open>sqlite\<close> holds what the queries take from the SQLite library: \<open>SUM\<close> over a non-empty
  column of REALs and \<open>LIKE\<close>.
\<close>

section \<open>Rows\<close>

record pricing_group =
  g_id :: int
  g_name :: string
  g_description :: string
  g_codex_multiplier :: float64
  g_claude_multiplier :: float64
  g_credential_group :: string
  g_is_default :: bool
  g_created_at :: int
  g_updated_at :: int

record wallet =
  w_token :: string
  w_balance_usd :: float64
  w_group_id :: int
  w_created_at :: int
  w_updated_at :: int

record wallet_tx =
  wt_id :: int
  wt_token :: string
  wt_kind :: string
  wt_amount_usd :: float64
  wt_ref :: string
  wt_note :: string
  wt_created_at :: int

record alipay_order =
  o_out_trade_no :: string
  o_token :: string
  o_cny_amount :: float64
  o_usd_credit :: float64
  o_rate :: float64
  o_status :: string
  o_trade_no :: string
  o_qr_code :: string
  o_workspace_id :: int
  o_created_at :: int
  o_paid_at :: int

record workspace =
  ws_id :: int
  ws_name :: string
  ws_balance_usd :: float64
  ws_disabled :: bool
  ws_created_at :: int
  ws_updated_at :: int

record workspace_member =
  m_workspace_id :: int
  m_token :: string
  m_role :: string
  m_daily_usd_cap :: float64
  m_monthly_usd_cap :: float64
  m_created_at :: int
  m_updated_at :: int

record workspace_tx =
  wst_id :: int
  wst_workspace_id :: int
  wst_token :: string
  wst_kind :: string
  wst_amount_usd :: float64
  wst_ref :: string
  wst_note :: string
  wst_created_at :: int

record invoice_title =
  it_id :: int
  it_token :: string
  it_name :: string
  it_tax_no :: string
  it_address :: string
  it_phone :: string
  it_bank :: string
  it_bank_account :: string
  it_last_used_at :: int
  it_created_at :: int

record invoice =
  i_id :: int
  i_token :: string
  i_cny_amount :: float64
  i_title_name :: string
  i_title_snapshot :: "(string \<times> string) list"
  i_contact_email :: string
  i_status :: string
  i_pdf_path :: string
  i_note :: string
  i_created_at :: int
  i_issued_at :: int
  i_rejected_at :: int
  i_workspace_id :: int

record invoice_allocation =
  a_invoice_id :: int
  a_token :: string
  a_cny_amount :: float64

record inbound_attachment =
  ia_id :: string
  ia_filename :: string
  ia_content_type :: string
  ia_content_disposition :: string
  ia_content_id :: string

record inbound_email =
  ie_id :: int
  ie_resend_email_id :: string
  ie_message_id :: string
  ie_from :: string
  ie_to :: "string list"
  ie_cc :: "string list"
  ie_subject :: string
  ie_received_at :: int
  ie_body_html :: string
  ie_body_text :: string
  ie_attachments :: "inbound_attachment list"
  ie_raw_event :: string
  ie_fetched_at :: int
  ie_read_at :: int
  ie_created_at :: int

section \<open>The database\<close>

text \<open>The AUTOINCREMENT counters (\<open>sqlite_sequence\<close>), one per table that has one.\<close>

datatype seq_table = Seq_groups | Seq_wallet_tx | Seq_workspaces | Seq_workspace_tx
  | Seq_titles | Seq_invoices | Seq_inbound

record db =
  pricing_groups :: "pricing_group list"
  wallets :: "wallet list"
  wallet_txs :: "wallet_tx list"
  alipay_orders :: "alipay_order list"
  workspaces :: "workspace list"
  workspace_members :: "workspace_member list"
  workspace_txs :: "workspace_tx list"
  invoice_titles :: "invoice_title list"
  invoices :: "invoice list"
  invoice_allocations :: "invoice_allocation list"
  inbound_emails :: "inbound_email list"
  sequences :: "seq_table \<Rightarrow> int"

definition next_id :: "seq_table \<Rightarrow> db \<Rightarrow> int" where
  "next_id t d = sequences d t + 1"

definition bump_seq :: "seq_table \<Rightarrow> db \<Rightarrow> db" where
  "bump_seq t d = d\<lparr>sequences := (sequences d)(t := sequences d t + 1)\<rparr>"

text \<open>The database a fresh install has after the migrations: the default pricing group.\<close>

definition seed_group :: "int \<Rightarrow> pricing_group" where
  "seed_group now = \<lparr>g_id = 1, g_name = ''default'', g_description = ''Default pricing group'',
     g_codex_multiplier = rnd (2 / 100), g_claude_multiplier = rnd (5 / 100),
     g_credential_group = [], g_is_default = True, g_created_at = now, g_updated_at = now\<rparr>"

definition initial_db :: "int \<Rightarrow> db" where
  "initial_db now = \<lparr>pricing_groups = [seed_group now], wallets = [], wallet_txs = [], alipay_orders = [],
     workspaces = [], workspace_members = [], workspace_txs = [], invoice_titles = [], invoices = [],
     invoice_allocations = [], inbound_emails = [],
     sequences = (\<lambda>_. 0)(Seq_groups := 1)\<rparr>"

section \<open>What the queries take from SQLite\<close>

record sqlite =
  sql_sum :: "float64 list \<Rightarrow> float64"
  sql_like :: "string \<Rightarrow> string \<Rightarrow> bool"

text \<open>\<open>COALESCE(SUM(x), 0)\<close>: the sum of no rows is NULL.\<close>

definition coalesce_sum :: "sqlite \<Rightarrow> float64 list \<Rightarrow> float64" where
  "coalesce_sum q xs = (if xs = [] then 0 else sql_sum q xs)"

section \<open>Statements, errors and transactions\<close>

datatype db_error = DriverError | ErrNotFound | ErrNoRows | UniqueViolation | ForeignKeyViolation
  | ErrInsufficientBalance | ErrOrderNotPending | ErrMemberExists | ErrInsufficientInvoiceable float64 float64
  | ErrMessage string

record session =
  store :: db
  plan :: "bool list"

type_synonym 'a dbm = "session \<Rightarrow> (db_error + 'a) \<times> session"

definition ret :: "'a \<Rightarrow> 'a dbm" where
  "ret x s = (Inr x, s)"

definition throw :: "db_error \<Rightarrow> 'a dbm" where
  "throw e s = (Inl e, s)"

text \<open>\<open>x, err := m(); if err != nil { return err }; k(x)\<close>\<close>

definition bnd :: "'a dbm \<Rightarrow> ('a \<Rightarrow> 'b dbm) \<Rightarrow> 'b dbm" where
  "bnd m k s = (case m s of (Inl e, s') \<Rightarrow> (Inl e, s') | (Inr x, s') \<Rightarrow> k x s')"

text \<open>\<open>x, err := m()\<close> with the error inspected by what follows.\<close>

definition attempt :: "'a dbm \<Rightarrow> (db_error + 'a) dbm" where
  "attempt m s = (case m s of (r, s') \<Rightarrow> (Inr r, s'))"

text \<open>\<open>x, _ := m()\<close>: the zero value where the call failed.\<close>

definition or_zero :: "'a \<Rightarrow> 'a dbm \<Rightarrow> 'a dbm" where
  "or_zero z m = bnd (attempt m) (\<lambda>r. case r of Inl _ \<Rightarrow> ret z | Inr x \<Rightarrow> ret x)"

definition faulty :: "session \<Rightarrow> bool" where
  "faulty s = (case plan s of [] \<Rightarrow> False | b # _ \<Rightarrow> b)"

definition tick :: "session \<Rightarrow> session" where
  "tick s = s\<lparr>plan := tl (plan s)\<rparr>"

text \<open>One SQL statement: it fails in the driver, or on the rows, or changes the rows.\<close>

definition stmt :: "(db \<Rightarrow> db_error + ('a \<times> db)) \<Rightarrow> 'a dbm" where
  "stmt f s = (if faulty s then (Inl DriverError, tick s)
     else case f (store s) of Inl e \<Rightarrow> (Inl e, tick s)
          | Inr (x, d) \<Rightarrow> (Inr x, (tick s)\<lparr>store := d\<rparr>))"

definition query :: "(db \<Rightarrow> 'a) \<Rightarrow> 'a dbm" where
  "query f = stmt (\<lambda>d. Inr (f d, d))"

text \<open>\<open>QueryRow(...).Scan(...)\<close> with \<open>e\<close> for a query that finds no row.\<close>

definition query_row :: "db_error \<Rightarrow> (db \<Rightarrow> 'a option) \<Rightarrow> 'a dbm" where
  "query_row e f = stmt (\<lambda>d. case f d of None \<Rightarrow> Inl e | Some x \<Rightarrow> Inr (x, d))"

definition exec :: "(db \<Rightarrow> db) \<Rightarrow> unit dbm" where
  "exec f = stmt (\<lambda>d. Inr ((), f d))"

text \<open>An UPDATE or DELETE whose \<open>RowsAffected\<close> the code reads.\<close>

definition exec_count :: "(db \<Rightarrow> nat) \<Rightarrow> (db \<Rightarrow> db) \<Rightarrow> nat dbm" where
  "exec_count n f = stmt (\<lambda>d. Inr (n d, f d))"

definition in_tx :: "'a dbm \<Rightarrow> 'a dbm" where
  "in_tx m s = (if faulty s then (Inl DriverError, tick s)
     else case m (tick s) of
       (Inl e, s') \<Rightarrow> (Inl e, s'\<lparr>store := store s\<rparr>)
     | (Inr x, s') \<Rightarrow> if faulty s' then (Inl DriverError, (tick s')\<lparr>store := store s\<rparr>)
                       else (Inr x, tick s'))"

definition fresh_session :: "db \<Rightarrow> session" where
  "fresh_session d = \<lparr>store = d, plan = []\<rparr>"

section \<open>How an operation can end\<close>

lemma store_tick [simp]: "store (tick s) = store s"
  by (simp add: tick_def)

lemma ret_iff [outcome_simps]: "ret x s = (r, s') \<longleftrightarrow> r = Inr x \<and> s' = s"
  by (auto simp: ret_def)

lemma throw_iff [outcome_simps]: "throw e s = (r, s') \<longleftrightarrow> r = Inl e \<and> s' = s"
  by (auto simp: throw_def)

lemma bnd_Inr [outcome_simps]:
  "bnd m k s = (Inr y, s') \<longleftrightarrow> (\<exists>x s1. m s = (Inr x, s1) \<and> k x s1 = (Inr y, s'))"
  by (auto simp: bnd_def split: prod.splits sum.splits)

lemma bnd_Inl [outcome_simps]:
  "bnd m k s = (Inl e, s') \<longleftrightarrow> m s = (Inl e, s') \<or> (\<exists>x s1. m s = (Inr x, s1) \<and> k x s1 = (Inl e, s'))"
  by (auto simp: bnd_def split: prod.splits sum.splits)

lemma attempt_iff [outcome_simps]:
  "attempt m s = (r, s') \<longleftrightarrow> (\<exists>r0. r = Inr r0 \<and> m s = (r0, s'))"
  by (auto simp: attempt_def split: prod.splits)

lemma bnd_attempt: "bnd (attempt m) k s = (Inr y, s') \<longleftrightarrow> (\<exists>r s1. m s = (r, s1) \<and> k r s1 = (Inr y, s'))"
  by (auto simp: bnd_Inr attempt_iff)

lemma stmt_Inr [outcome_simps]:
  "stmt f s = (Inr x, s') \<longleftrightarrow> \<not> faulty s \<and> (\<exists>d. f (store s) = Inr (x, d) \<and> s' = (tick s)\<lparr>store := d\<rparr>)"
  by (auto simp: stmt_def split: sum.splits)

lemma stmt_Inl [outcome_simps]:
  "stmt f s = (Inl e, s') \<longleftrightarrow> s' = tick s \<and> (if faulty s then e = DriverError else f (store s) = Inl e)"
  by (auto simp: stmt_def split: sum.splits)

lemma tick_store_id [simp]: "(tick s)\<lparr>store := store s\<rparr> = tick s"
  by (simp add: tick_def)

lemma query_Inr [outcome_simps]: "query f s = (Inr x, s') \<longleftrightarrow> \<not> faulty s \<and> x = f (store s) \<and> s' = tick s"
  by (auto simp: query_def stmt_def)

lemma query_Inl [outcome_simps]: "query f s = (Inl e, s') \<longleftrightarrow> faulty s \<and> e = DriverError \<and> s' = tick s"
  by (auto simp: query_def stmt_def)

lemma query_row_Inr [outcome_simps]:
  "query_row e0 f s = (Inr x, s') \<longleftrightarrow> \<not> faulty s \<and> f (store s) = Some x \<and> s' = tick s"
  by (auto simp: query_row_def stmt_def split: option.splits)

lemma query_row_Inl [outcome_simps]:
  "query_row e0 f s = (Inl e, s') \<longleftrightarrow> s' = tick s \<and> (if faulty s then e = DriverError else f (store s) = None \<and> e = e0)"
  by (auto simp: query_row_def stmt_def split: option.splits)

lemma exec_Inr [outcome_simps]:
  "exec f s = (Inr x, s') \<longleftrightarrow> \<not> faulty s \<and> s' = (tick s)\<lparr>store := f (store s)\<rparr>"
  by (auto simp: exec_def stmt_def)

lemma exec_Inl [outcome_simps]: "exec f s = (Inl e, s') \<longleftrightarrow> faulty s \<and> e = DriverError \<and> s' = tick s"
  by (auto simp: exec_def stmt_def)

lemma exec_count_Inr [outcome_simps]:
  "exec_count n f s = (Inr x, s') \<longleftrightarrow> \<not> faulty s \<and> x = n (store s) \<and> s' = (tick s)\<lparr>store := f (store s)\<rparr>"
  by (auto simp: exec_count_def stmt_def)

lemma exec_count_Inl [outcome_simps]:
  "exec_count n f s = (Inl e, s') \<longleftrightarrow> faulty s \<and> e = DriverError \<and> s' = tick s"
  by (auto simp: exec_count_def stmt_def)

lemma in_tx_Inr:
  "in_tx m s = (Inr x, s') \<longleftrightarrow>
     \<not> faulty s \<and> (\<exists>s1. m (tick s) = (Inr x, s1) \<and> \<not> faulty s1 \<and> s' = tick s1)"
  by (auto simp: in_tx_def split: prod.splits sum.splits)

lemma in_tx_Inl_store: "in_tx m s = (Inl e, s') \<Longrightarrow> store s' = store s"
  by (auto simp: in_tx_def split: prod.splits sum.splits if_splits)

text \<open>An operation is \<^emph>\<open>atomic\<close> when a failure leaves the database as it was.\<close>

definition atomic :: "'a dbm \<Rightarrow> bool" where
  "atomic m \<longleftrightarrow> (\<forall>s e s'. m s = (Inl e, s') \<longrightarrow> store s' = store s)"

text \<open>It is \<^emph>\<open>read-only\<close> when no outcome changes the database.\<close>

definition read_only :: "'a dbm \<Rightarrow> bool" where
  "read_only m \<longleftrightarrow> (\<forall>s r s'. m s = (r, s') \<longrightarrow> store s' = store s)"

text \<open>It \<^emph>\<open>maintains\<close> a predicate when every outcome, failures included, keeps it.\<close>

definition maintains :: "(db \<Rightarrow> bool) \<Rightarrow> 'a dbm \<Rightarrow> bool" where
  "maintains P m \<longleftrightarrow> (\<forall>s r s'. P (store s) \<longrightarrow> m s = (r, s') \<longrightarrow> P (store s'))"

lemma atomic_in_tx [atomic_intros]: "atomic (in_tx m)"
  by (auto simp: atomic_def dest: in_tx_Inl_store)

lemma atomic_stmt [atomic_intros]: "atomic (stmt f)"
  by (auto simp: atomic_def outcome_simps)

lemma read_only_atomic: "read_only m \<Longrightarrow> atomic m"
  by (auto simp: atomic_def read_only_def)

lemma read_only_query [atomic_intros]: "read_only (query f)"
  by (auto simp: read_only_def query_def stmt_def split: if_splits)

lemma read_only_query_row [atomic_intros]: "read_only (query_row e f)"
  by (auto simp: read_only_def query_row_def stmt_def split: if_splits option.splits)

lemma read_only_ret [atomic_intros]: "read_only (ret x)"
  by (simp add: read_only_def ret_def)

lemma read_only_throw [atomic_intros]: "read_only (throw e)"
  by (simp add: read_only_def throw_def)

lemma read_onlyD: "read_only m \<Longrightarrow> m s = (r, s') \<Longrightarrow> store s' = store s"
  by (auto simp: read_only_def)

lemma bnd_cases:
  assumes "bnd m k s = (r, s')"
  obtains (Stop) e where "m s = (Inl e, s')" "r = Inl e"
  | (Go) x s1 where "m s = (Inr x, s1)" "k x s1 = (r, s')"
  using assms by (auto simp: bnd_def split: prod.splits sum.splits)

lemma read_only_bnd [atomic_intros]:
  assumes "read_only m" "\<And>x. read_only (k x)"
  shows "read_only (bnd m k)"
  unfolding read_only_def
proof (intro allI impI)
  fix s r s' assume "bnd m k s = (r, s')"
  then show "store s' = store s"
  proof (cases rule: bnd_cases)
    case (Stop e) with assms(1) show ?thesis by (auto dest: read_onlyD)
  next
    case (Go x s1) with assms show ?thesis by (metis read_onlyD)
  qed
qed

lemma read_only_attempt [atomic_intros]: "read_only m \<Longrightarrow> read_only (attempt m)"
  by (auto simp: read_only_def attempt_def split: prod.splits)

lemma read_only_or_zero [atomic_intros]: "read_only m \<Longrightarrow> read_only (or_zero z m)"
  unfolding or_zero_def by (intro atomic_intros) (auto split: sum.splits intro: atomic_intros)

lemma atomicD: "atomic m \<Longrightarrow> m s = (Inl e, s') \<Longrightarrow> store s' = store s"
  by (auto simp: atomic_def)

lemma atomic_bnd:
  assumes "read_only m" "\<And>x. atomic (k x)"
  shows "atomic (bnd m k)"
  unfolding atomic_def
proof (intro allI impI)
  fix s e s' assume "bnd m k s = (Inl e, s')"
  then show "store s' = store s"
  proof (cases rule: bnd_cases)
    case (Stop e') with assms(1) show ?thesis by (auto dest: read_onlyD)
  next
    case (Go x s1) with assms show ?thesis by (metis atomicD read_onlyD)
  qed
qed

lemma maintains_read_only: "read_only m \<Longrightarrow> maintains P m"
  by (auto simp: read_only_def maintains_def)

lemma maintainsD: "maintains P m \<Longrightarrow> P (store s) \<Longrightarrow> m s = (r, s') \<Longrightarrow> P (store s')"
  by (auto simp: maintains_def)

lemma maintains_bnd:
  assumes "maintains P m" "\<And>x. maintains P (k x)"
  shows "maintains P (bnd m k)"
  unfolding maintains_def
proof (intro allI impI)
  fix s r s' assume P: "P (store s)" and "bnd m k s = (r, s')"
  from this(2) show "P (store s')"
  proof (cases rule: bnd_cases)
    case (Stop e') with assms(1) P show ?thesis by (blast dest: maintainsD)
  next
    case (Go x s1) with assms P show ?thesis by (blast dest: maintainsD)
  qed
qed

lemma maintains_attempt: "maintains P m \<Longrightarrow> maintains P (attempt m)"
  by (auto simp: maintains_def attempt_def split: prod.splits)

lemma maintains_exec: "(\<And>d. P d \<Longrightarrow> P (f d)) \<Longrightarrow> maintains P (exec f)"
  by (auto simp: maintains_def exec_def stmt_def split: if_splits)

lemma maintains_exec_count: "(\<And>d. P d \<Longrightarrow> P (f d)) \<Longrightarrow> maintains P (exec_count n f)"
  by (auto simp: maintains_def exec_count_def stmt_def split: if_splits)

lemma maintains_stmt: "(\<And>d x d'. P d \<Longrightarrow> f d = Inr (x, d') \<Longrightarrow> P d') \<Longrightarrow> maintains P (stmt f)"
  by (auto simp: maintains_def stmt_def split: if_splits sum.splits prod.splits)

lemma maintains_in_tx:
  assumes "\<And>s x s'. P (store s) \<Longrightarrow> m s = (Inr x, s') \<Longrightarrow> P (store s')"
  shows "maintains P (in_tx m)"
  unfolding maintains_def
proof (intro allI impI)
  fix s r s' assume P: "P (store s)" and run: "in_tx m s = (r, s')"
  show "P (store s')"
  proof (cases r)
    case (Inl e)
    with run P show ?thesis by (auto dest: in_tx_Inl_store)
  next
    case (Inr x)
    with run assms[of "tick s"] P show ?thesis by (auto simp: in_tx_Inr)
  qed
qed

end
