(* ===== verification/PricingGroups.thy ===== *)
theory PricingGroups
  imports Store
begin

text \<open>
  Pricing groups (\<open>internal/saas/db/groups.go\<close>): the multipliers a request is billed at and
  the group every wallet points to. The invariant \<open>groups_ok\<close> says that keys are unique,
  that there is a default group, that no multiplier is zero or negative (a zero would bill
  every request at nothing) and that no wallet points to a group that is gone.
\<close>

section \<open>Reading\<close>

definition group_by_id :: "db \<Rightarrow> int \<Rightarrow> pricing_group option" where
  "group_by_id d gid = find (\<lambda>g. g_id g = gid) (pricing_groups d)"

definition get_group :: "int \<Rightarrow> pricing_group dbm" where
  "get_group gid = query_row ErrNotFound (\<lambda>d. group_by_id d gid)"

definition default_group :: "pricing_group dbm" where
  "default_group = query_row ErrNotFound (\<lambda>d. find g_is_default (pricing_groups d))"

definition list_groups :: "pricing_group list dbm" where
  "list_groups = query (\<lambda>d. sort_key g_id (pricing_groups d))"

section \<open>Writing\<close>

record group_params =
  gp_name :: string
  gp_description :: string
  gp_codex_multiplier :: float64
  gp_claude_multiplier :: float64
  gp_credential_group :: string

definition default_claude_multiplier :: float64 where "default_claude_multiplier = rnd (5 / 100)"
definition default_codex_multiplier :: float64 where "default_codex_multiplier = rnd (2 / 100)"

definition apply_multiplier_defaults :: "group_params \<Rightarrow> group_params" where
  "apply_multiplier_defaults p =
     (let p = (if gp_claude_multiplier p \<le> 0 then p\<lparr>gp_claude_multiplier := default_claude_multiplier\<rparr> else p)
      in if gp_codex_multiplier p \<le> 0 then p\<lparr>gp_codex_multiplier := default_codex_multiplier\<rparr> else p)"

definition insert_group :: "int \<Rightarrow> group_params \<Rightarrow> db \<Rightarrow> db_error + int \<times> db" where
  "insert_group now p d =
     (if \<exists>g \<in> set (pricing_groups d). g_name g = gp_name p then Inl UniqueViolation
      else let gid = next_id Seq_groups d in
        Inr (gid, (bump_seq Seq_groups d)\<lparr>pricing_groups := pricing_groups d @
          [\<lparr>g_id = gid, g_name = gp_name p, g_description = gp_description p,
            g_codex_multiplier = gp_codex_multiplier p, g_claude_multiplier = gp_claude_multiplier p,
            g_credential_group = gp_credential_group p, g_is_default = False,
            g_created_at = now, g_updated_at = now\<rparr>]\<rparr>))"

definition create_group :: "int \<Rightarrow> group_params \<Rightarrow> pricing_group dbm" where
  "create_group now p0 = (let p = apply_multiplier_defaults p0 in
     bnd (stmt (insert_group now p)) (\<lambda>gid. get_group gid))"

definition update_group_row :: "int \<Rightarrow> int \<Rightarrow> group_params \<Rightarrow> db \<Rightarrow> db_error + unit \<times> db" where
  "update_group_row now gid p d =
     (if (\<exists>g \<in> set (pricing_groups d). g_id g = gid) \<and>
         (\<exists>g \<in> set (pricing_groups d). g_id g \<noteq> gid \<and> g_name g = gp_name p) then Inl UniqueViolation
      else Inr ((), d\<lparr>pricing_groups := sql_update (\<lambda>g. g_id g = gid)
        (\<lambda>g. g\<lparr>g_name := gp_name p, g_description := gp_description p,
               g_codex_multiplier := gp_codex_multiplier p, g_claude_multiplier := gp_claude_multiplier p,
               g_credential_group := gp_credential_group p, g_updated_at := now\<rparr>) (pricing_groups d)\<rparr>))"

definition update_group :: "int \<Rightarrow> int \<Rightarrow> group_params \<Rightarrow> pricing_group dbm" where
  "update_group now gid p0 = (let p = apply_multiplier_defaults p0 in
     bnd (stmt (update_group_row now gid p)) (\<lambda>_. get_group gid))"

definition reassign_wallets :: "int \<Rightarrow> int \<Rightarrow> db \<Rightarrow> db" where
  "reassign_wallets from_id to_id d =
     d\<lparr>wallets := sql_update (\<lambda>w. w_group_id w = from_id) (\<lambda>w. w\<lparr>w_group_id := to_id\<rparr>) (wallets d)\<rparr>"

definition reassign_stmt :: "int \<Rightarrow> int \<Rightarrow> db \<Rightarrow> db_error + unit \<times> db" where
  "reassign_stmt from_id to_id d =
     (if (\<exists>w \<in> set (wallets d). w_group_id w = from_id) \<and> (\<forall>g \<in> set (pricing_groups d). g_id g \<noteq> to_id)
      then Inl ForeignKeyViolation else Inr ((), reassign_wallets from_id to_id d))"

definition delete_group_row :: "int \<Rightarrow> db \<Rightarrow> db_error + unit \<times> db" where
  "delete_group_row gid d =
     (if \<exists>w \<in> set (wallets d). w_group_id w = gid then Inl ForeignKeyViolation
      else Inr ((), d\<lparr>pricing_groups := sql_delete (\<lambda>g. g_id g = gid) (pricing_groups d)\<rparr>))"

definition delete_group :: "int \<Rightarrow> unit dbm" where
  "delete_group gid =
     bnd (get_group gid) (\<lambda>g.
     if g_is_default g then throw (ErrMessage ''cannot delete default group'')
     else bnd default_group (\<lambda>def.
       in_tx (
         bnd (stmt (reassign_stmt gid (g_id def))) (\<lambda>_.
         stmt (delete_group_row gid)))))"

definition multiplier_for :: "pricing_group \<Rightarrow> string \<Rightarrow> float64" where
  "multiplier_for g provider =
     (if provider = ''openai'' \<or> provider = ''codex'' then g_codex_multiplier g else g_claude_multiplier g)"

section \<open>The invariant\<close>

definition groups_ok :: "db \<Rightarrow> bool" where
  "groups_ok d \<longleftrightarrow>
     distinct (map g_id (pricing_groups d)) \<and>
     distinct (map g_name (pricing_groups d)) \<and>
     (\<forall>g \<in> set (pricing_groups d). g_id g \<le> sequences d Seq_groups) \<and>
     (\<exists>g \<in> set (pricing_groups d). g_is_default g) \<and>
     (\<forall>g \<in> set (pricing_groups d). 0 < g_codex_multiplier g \<and> 0 < g_claude_multiplier g) \<and>
     (\<forall>w \<in> set (wallets d). \<exists>g \<in> set (pricing_groups d). g_id g = w_group_id w)"

lemma default_multipliers_pos: "0 < default_claude_multiplier" "0 < default_codex_multiplier"
  by (code_simp, code_simp)

lemma defaults_pos:
  "0 < gp_codex_multiplier (apply_multiplier_defaults p) \<and> 0 < gp_claude_multiplier (apply_multiplier_defaults p)"
  using default_multipliers_pos by (auto simp: apply_multiplier_defaults_def Let_def not_le)

lemma groups_ok_initial: "groups_ok (initial_db now)"
  unfolding groups_ok_def initial_db_def seed_group_def by (simp, code_simp)

lemma groups_ok_insert:
  assumes ok: "groups_ok d" and ins: "insert_group now (apply_multiplier_defaults p) d = Inr (gid, d')"
  shows "groups_ok d'"
proof -
  have fresh: "\<forall>g \<in> set (pricing_groups d). g_id g \<noteq> sequences d Seq_groups + 1"
    using ok by (fastforce simp: groups_ok_def)
  show ?thesis using ok ins fresh defaults_pos [of p]
    unfolding groups_ok_def insert_group_def
    by (auto simp: Let_def next_id_def bump_seq_def split: if_splits) fastforce+
qed

lemma groups_ok_update:
  assumes ok: "groups_ok d" and upd: "update_group_row now gid (apply_multiplier_defaults p) d = Inr (x, d')"
  shows "groups_ok d'"
proof -
  define q where "q = apply_multiplier_defaults p"
  define f where "f = (\<lambda>g :: pricing_group. g\<lparr>g_name := gp_name q, g_description := gp_description q,
     g_codex_multiplier := gp_codex_multiplier q, g_claude_multiplier := gp_claude_multiplier q,
     g_credential_group := gp_credential_group q, g_updated_at := now\<rparr>)"
  have pos: "0 < gp_codex_multiplier q" "0 < gp_claude_multiplier q" using defaults_pos [of p] by (simp_all add: q_def)
  have d': "d' = d\<lparr>pricing_groups := sql_update (\<lambda>g. g_id g = gid) f (pricing_groups d)\<rparr>"
    and names: "(\<exists>g \<in> set (pricing_groups d). g_id g = gid) \<Longrightarrow>
       \<forall>g \<in> set (pricing_groups d). g_id g \<noteq> gid \<longrightarrow> g_name g \<noteq> gp_name q"
    using upd by (auto simp: update_group_row_def q_def [symmetric] f_def split: if_splits)
  have ids: "map g_id (pricing_groups d') = map g_id (pricing_groups d)"
    by (simp add: d' f_def map_sql_update_same)
  have dn: "distinct (map g_name (pricing_groups d'))"
  proof (cases "\<exists>g \<in> set (pricing_groups d). g_id g = gid")
    case True
    show ?thesis using ok names[OF True] unfolding d' groups_ok_def
      by (auto intro!: distinct_map_sql_update_one[where v = "gp_name q"] simp: f_def)
  next
    case False
    then have "pricing_groups d' = pricing_groups d" by (auto simp: d' intro!: sql_update_id)
    with ok show ?thesis by (simp add: groups_ok_def)
  qed
  show ?thesis using ok pos ids dn
    unfolding groups_ok_def by (auto simp: d' f_def ball_sql_update bex_sql_update)
qed

lemma groups_ok_delete:
  assumes ok: "groups_ok d" and def: "\<exists>g \<in> set (pricing_groups d). g_is_default g \<and> g_id g \<noteq> gid"
    and re: "reassign_stmt gid did d = Inr (x, d1)" and del: "delete_group_row gid d1 = Inr (y, d')"
  shows "groups_ok d'"
proof -
  have d1: "d1 = reassign_wallets gid did d" and
       tgt: "(\<exists>w \<in> set (wallets d). w_group_id w = gid) \<Longrightarrow> \<exists>g \<in> set (pricing_groups d). g_id g = did"
    using re by (auto simp: reassign_stmt_def split: if_splits)
  have d': "d' = d1\<lparr>pricing_groups := sql_delete (\<lambda>g. g_id g = gid) (pricing_groups d)\<rparr>"
    and none: "\<forall>w \<in> set (wallets d1). w_group_id w \<noteq> gid"
    using del by (auto simp: delete_group_row_def d1 reassign_wallets_def split: if_splits)
  have fk: "\<forall>w \<in> set (wallets d1). \<exists>g \<in> set (pricing_groups d). g_id g = w_group_id w"
    using ok tgt by (auto simp: d1 reassign_wallets_def groups_ok_def ball_sql_update)
  have "\<forall>w \<in> set (wallets d'). \<exists>g \<in> set (pricing_groups d'). g_id g = w_group_id w"
    using fk none by (auto simp: d') metis
  then show ?thesis using ok def
    by (auto simp: groups_ok_def d' d1 reassign_wallets_def distinct_sql_delete)
qed

lemma read_only_get_group [atomic_intros]: "read_only (get_group gid)"
  unfolding get_group_def by (rule read_only_query_row)

lemma read_only_default_group [atomic_intros]: "read_only default_group"
  unfolding default_group_def by (rule read_only_query_row)

lemma create_group_maintains: "maintains groups_ok (create_group now p)"
  unfolding create_group_def Let_def
  by (intro maintains_bnd maintains_stmt maintains_read_only read_only_get_group) (rule groups_ok_insert)

lemma update_group_maintains: "maintains groups_ok (update_group now gid p)"
  unfolding update_group_def Let_def
  by (intro maintains_bnd maintains_stmt maintains_read_only read_only_get_group) (rule groups_ok_update)

lemma get_group_Some:
  "get_group gid s = (Inr g, s') \<Longrightarrow> g \<in> set (pricing_groups (store s)) \<and> g_id g = gid \<and> store s' = store s"
  by (auto simp: get_group_def query_row_Inr group_by_id_def dest: find_Some_mem)

lemma default_group_Some:
  "default_group s = (Inr g, s') \<Longrightarrow> g \<in> set (pricing_groups (store s)) \<and> g_is_default g \<and> store s' = store s"
  by (auto simp: default_group_def query_row_Inr dest: find_Some_mem)

lemma delete_group_maintains: "maintains groups_ok (delete_group gid)"
  unfolding maintains_def
proof (intro allI impI)
  fix s r s' assume ok: "groups_ok (store s)" and run: "delete_group gid s = (r, s')"
  show "groups_ok (store s')"
  proof (cases r)
    case (Inl e)
    have "atomic (delete_group gid)"
      unfolding delete_group_def
      by (intro atomic_bnd read_only_get_group)
         (auto intro!: atomic_bnd atomic_intros read_only_atomic [OF read_only_throw])
    with run ok Inl show ?thesis by (auto dest: atomicD)
  next
    case (Inr x)
    from run[unfolded Inr delete_group_def bnd_Inr] obtain g s1 where g: "get_group gid s = (Inr g, s1)"
      and rest: "(if g_is_default g then throw (ErrMessage ''cannot delete default group'') else
        bnd default_group (\<lambda>def. in_tx (bnd (stmt (reassign_stmt gid (g_id def))) (\<lambda>_. stmt (delete_group_row gid))))) s1 = (Inr x, s')"
      by blast
    then have nd: "\<not> g_is_default g" by (auto simp: throw_def)
    with rest obtain def s2 where def: "default_group s1 = (Inr def, s2)"
      and tx: "in_tx (bnd (stmt (reassign_stmt gid (g_id def))) (\<lambda>_. stmt (delete_group_row gid))) s2 = (Inr x, s')"
      by (auto simp: bnd_Inr)
    from get_group_Some[OF g] default_group_Some[OF def]
    have st: "store s2 = store s" "g \<in> set (pricing_groups (store s))" "g_id g = gid"
      "def \<in> set (pricing_groups (store s))" "g_is_default def" by auto
    with nd ok have "g_id def \<noteq> gid" by (metis groups_ok_def distinct_map inj_onD)
    with st have ex: "\<exists>g \<in> set (pricing_groups (store s)). g_is_default g \<and> g_id g \<noteq> gid" by blast
    from tx show ?thesis using groups_ok_delete[OF ok ex] st
      by (auto simp: in_tx_Inr bnd_Inr stmt_Inr)
  qed
qed

text \<open>The multiplier of a group is positive whatever the provider.\<close>

lemma multiplier_for_pos: "groups_ok d \<Longrightarrow> g \<in> set (pricing_groups d) \<Longrightarrow> 0 < multiplier_for g p"
  by (simp add: groups_ok_def multiplier_for_def)

end
