(* ===== verification/Ledger.thy ===== *)
theory Ledger
  imports Store
begin

text \<open>
  The contract of an account kept as a balance column plus an append-only ledger, which the
  personal wallets and the workspace pools both follow. A \<open>post\<close> adds an amount to the
  balance (in \<open>float64\<close>) and appends the same amount to the ledger; opening an account
  starts it at zero with no entries. \<open>balanced\<close> says that every balance is the
  \<open>float64\<close> sum of its ledger in the order the rows were written, and that an account
  which does not exist has no entries. The locale proves once that the operations keep it.
\<close>

definition balanced :: "(db \<Rightarrow> 'k \<Rightarrow> float64 option) \<Rightarrow> (db \<Rightarrow> 'k \<Rightarrow> float64 list) \<Rightarrow> db \<Rightarrow> bool" where
  "balanced bal ent d \<longleftrightarrow>
     (\<forall>k. bal d k = None \<longrightarrow> ent d k = []) \<and>
     (\<forall>k b. bal d k = Some b \<longrightarrow> b = foldl fadd 0 (ent d k))"

lemma balancedD: "balanced bal ent d \<Longrightarrow> bal d k = Some b \<Longrightarrow> b = foldl fadd 0 (ent d k)"
  by (simp add: balanced_def)

lemma balanced_orphan: "balanced bal ent d \<Longrightarrow> bal d k = None \<Longrightarrow> ent d k = []"
  by (simp add: balanced_def)

lemma balanced_cong: "bal d' = bal d \<Longrightarrow> ent d' = ent d \<Longrightarrow> balanced bal ent d' = balanced bal ent d"
  by (simp add: balanced_def)

locale ledger_account =
  fixes bal :: "db \<Rightarrow> 'k \<Rightarrow> float64 option"
    and ent :: "db \<Rightarrow> 'k \<Rightarrow> float64 list"
    and post :: "'k \<Rightarrow> float64 \<Rightarrow> 'm \<Rightarrow> db \<Rightarrow> db"
    and keyed :: "db \<Rightarrow> bool"
  assumes bal_post: "keyed d \<Longrightarrow> bal d k = Some b \<Longrightarrow> bal (post k x m d) = (bal d)(k \<mapsto> fadd b x)"
    and ent_post: "ent (post k x m d) = (ent d)(k := ent d k @ [x])"
    and keyed_post: "keyed d \<Longrightarrow> keyed (post k x m d)"
begin

lemma post_balanced:
  assumes "keyed d" "balanced bal ent d" "bal d k = Some b"
  shows "balanced bal ent (post k x m d)"
  using assms(2) balancedD[OF assms(2,3)]
  by (simp add: balanced_def bal_post[OF assms(1,3)] ent_post)

lemma post_balance: "keyed d \<Longrightarrow> bal d k = Some b \<Longrightarrow> bal (post k x m d) k = Some (fadd b x)"
  by (simp add: bal_post)

lemma post_other: "keyed d \<Longrightarrow> bal d k = Some b \<Longrightarrow> k' \<noteq> k \<Longrightarrow> bal (post k x m d) k' = bal d k'"
  by (simp add: bal_post)

lemma posts_balance:
  "keyed d \<Longrightarrow> bal d k = Some b \<Longrightarrow>
   bal (foldl (\<lambda>d (x, m). post k x m d) d xs) k = Some (foldl fadd b (map fst xs))"
proof (induction xs arbitrary: d b)
  case (Cons p xs)
  obtain x m where p: "p = (x, m)" by (cases p)
  have "bal (post k x m d) k = Some (fadd b x)" using Cons.prems by (rule post_balance)
  then show ?case using Cons.IH[OF keyed_post[OF Cons.prems(1)]] by (simp add: p)
qed simp

end

section \<open>Operations that leave part of the database alone\<close>

text \<open>\<open>preserves v m\<close>: whatever \<open>m\<close> does, and however it fails, the view \<open>v\<close> is unchanged.\<close>

named_theorems preserves_intros \<open>composing operations that keep a view\<close>

definition preserves :: "(db \<Rightarrow> 'v) \<Rightarrow> 'a dbm \<Rightarrow> bool" where
  "preserves v m \<longleftrightarrow> (\<forall>s r s'. m s = (r, s') \<longrightarrow> v (store s') = v (store s))"

lemma preservesD: "preserves v m \<Longrightarrow> m s = (r, s') \<Longrightarrow> v (store s') = v (store s)"
  by (auto simp: preserves_def)

lemma preserves_read_only [preserves_intros]: "read_only m \<Longrightarrow> preserves v m"
  by (auto simp: preserves_def read_only_def)

lemma preserves_bnd [preserves_intros]:
  assumes "preserves v m" "\<And>x. preserves v (k x)"
  shows "preserves v (bnd m k)"
  unfolding preserves_def
proof (intro allI impI)
  fix s r s' assume "bnd m k s = (r, s')"
  then show "v (store s') = v (store s)"
  proof (cases rule: bnd_cases)
    case (Stop e) with assms(1) show ?thesis by (auto dest: preservesD)
  next
    case (Go x s1) with assms show ?thesis by (metis preservesD)
  qed
qed

lemma preserves_in_tx [preserves_intros]: "preserves v m \<Longrightarrow> preserves v (in_tx m)"
  unfolding preserves_def
proof (intro allI impI)
  fix s r s' assume m: "\<forall>s r s'. m s = (r, s') \<longrightarrow> v (store s') = v (store s)" and run: "in_tx m s = (r, s')"
  show "v (store s') = v (store s)"
    by (cases r) (use run m in \<open>auto simp: in_tx_Inr dest: in_tx_Inl_store\<close>)
qed

lemma preserves_attempt [preserves_intros]: "preserves v m \<Longrightarrow> preserves v (attempt m)"
  by (auto simp: preserves_def attempt_def split: prod.splits)

lemma preserves_exec [preserves_intros]: "(\<And>d. v (f d) = v d) \<Longrightarrow> preserves v (exec f)"
  by (auto simp: preserves_def exec_def stmt_def split: if_splits)

lemma preserves_exec_count [preserves_intros]: "(\<And>d. v (f d) = v d) \<Longrightarrow> preserves v (exec_count n f)"
  by (auto simp: preserves_def exec_count_def stmt_def split: if_splits)

lemma preserves_stmt [preserves_intros]:
  "(\<And>d x d'. f d = Inr (x, d') \<Longrightarrow> v d' = v d) \<Longrightarrow> preserves v (stmt f)"
  by (auto simp: preserves_def stmt_def split: if_splits sum.splits prod.splits)

lemma preserves_if [preserves_intros]:
  "preserves v m \<Longrightarrow> preserves v n \<Longrightarrow> preserves v (if b then m else n)"
  by simp

lemma preserves_maintains: "preserves v m \<Longrightarrow> (\<And>d. P d = Q (v d)) \<Longrightarrow> maintains P m"
  by (auto simp: preserves_def maintains_def)

lemma maintains_preserved:
  assumes "preserves v m" "\<And>d d'. v d' = v d \<Longrightarrow> P d' = P d"
  shows "maintains P m"
  unfolding maintains_def
proof (intro allI impI)
  fix s r s' assume "P (store s)" "m s = (r, s')"
  with preservesD[OF assms(1)] assms(2) show "P (store s')" by metis
qed

lemma preserves_or_zero [preserves_intros]: "preserves v m \<Longrightarrow> preserves v (or_zero z m)"
  unfolding or_zero_def
  by (rule preserves_bnd, erule preserves_attempt)
    (auto split: sum.split intro: preserves_read_only read_only_ret)

text \<open>\<open>x, _ := m()\<close> returns a value whatever happens.\<close>

lemma or_zero_Inr: "or_zero z m s = (r, s') \<Longrightarrow> \<exists>x. r = Inr x"
  by (auto simp: or_zero_def bnd_def attempt_def ret_def split: prod.splits sum.splits)

lemma or_zero_query: "or_zero z (query f) s = (Inr (if faulty s then z else f (store s)), tick s)"
  by (simp add: or_zero_def bnd_def attempt_def ret_def query_def stmt_def)

section \<open>Operations on a sound driver\<close>

text \<open>A session whose plan is over meets no driver fault, and no operation brings one back.\<close>

named_theorems calm_intros \<open>operations that bring no driver fault\<close>

definition calm :: "'a dbm \<Rightarrow> bool" where
  "calm m \<longleftrightarrow> (\<forall>s r s'. plan s = [] \<longrightarrow> m s = (r, s') \<longrightarrow> plan s' = [])"

lemma calmD: "calm m \<Longrightarrow> plan s = [] \<Longrightarrow> m s = (r, s') \<Longrightarrow> plan s' = []"
  unfolding calm_def by blast

lemma plan_tick [simp]: "plan (tick s) = tl (plan s)"
  by (simp add: tick_def)

lemma calmI: "(\<And>s. plan s = [] \<Longrightarrow> plan (snd (m s)) = []) \<Longrightarrow> calm m"
  unfolding calm_def by (metis snd_conv)

lemma calm_snd: "calm m \<Longrightarrow> plan s = [] \<Longrightarrow> plan (snd (m s)) = []"
  by (metis calmD prod.collapse)

lemma calm_stmt [calm_intros]: "calm (stmt f)"
  by (rule calmI) (simp add: stmt_def split: sum.split prod.split)

lemma calm_basic [calm_intros]:
  "calm (query g)" "calm (query_row e h)" "calm (exec k)" "calm (exec_count n k)" "calm (ret x)" "calm (throw e)"
  unfolding query_def query_row_def exec_def exec_count_def
  by (rule calm_stmt)+ (rule calmI, simp add: ret_def throw_def)+

lemma calm_bnd [calm_intros]:
  assumes "calm m" "\<And>x. calm (k x)"
  shows "calm (bnd m k)"
  unfolding calm_def
proof (intro allI impI)
  fix s r s' assume p: "plan s = []" and run: "bnd m k s = (r, s')"
  from run show "plan s' = []"
  proof (cases rule: bnd_cases)
    case (Stop e) with p assms(1) show ?thesis by (blast dest: calmD)
  next
    case (Go x s1) with p assms show ?thesis by (blast dest: calmD)
  qed
qed

lemma calm_in_tx [calm_intros]:
  assumes "calm m" shows "calm (in_tx m)"
proof (rule calmI)
  fix s :: session assume p: "plan s = []"
  obtain r s1 where run: "m (tick s) = (r, s1)" by (cases "m (tick s)")
  have "plan (tick s) = []" using p by simp
  then have "plan s1 = []" by (rule calmD[OF assms _ run])
  then show "plan (snd (in_tx m s)) = []" using p run by (simp add: in_tx_def split: sum.split)
qed

lemma calm_attempt [calm_intros]: "calm m \<Longrightarrow> calm (attempt m)"
proof (rule calmI)
  fix s :: session assume "calm m" "plan s = []"
  then show "plan (snd (attempt m s)) = []" by (simp add: attempt_def calm_snd split: prod.split) (metis calm_snd snd_conv)
qed

lemma calm_if [calm_intros]: "calm m \<Longrightarrow> calm n \<Longrightarrow> calm (if b then m else n)"
  by simp

lemma calm_sum [calm_intros]: "(\<And>e. calm (f e)) \<Longrightarrow> (\<And>x. calm (g x)) \<Longrightarrow> calm (case r of Inl e \<Rightarrow> f e | Inr x \<Rightarrow> g x)"
  by (simp split: sum.split)

lemma calm_option [calm_intros]: "calm m \<Longrightarrow> (\<And>x. calm (g x)) \<Longrightarrow> calm (case r of None \<Rightarrow> m | Some x \<Rightarrow> g x)"
  by (simp split: option.split)

lemma calm_or_zero [calm_intros]: "calm m \<Longrightarrow> calm (or_zero z m)"
  unfolding or_zero_def by (intro calm_intros)

lemma not_faulty: "plan s = [] \<Longrightarrow> \<not> faulty s"
  by (simp add: faulty_def)

end
