(* ===== verification/Wallet.thy ===== *)
theory Wallet
  imports PricingGroups Ledger
begin

text \<open>
  Personal wallets and their ledger (\<open>internal/saas/db/wallet.go\<close>, token rekeying apart).
  \<open>wallets_ok\<close> is the ledger invariant: one wallet per token, ledger ids in the order the
  rows were written, and every balance the \<open>float64\<close> sum of its ledger.
\<close>

definition TxKindTopup :: string where "TxKindTopup = ''topup''"
definition TxKindCharge :: string where "TxKindCharge = ''charge''"
definition TxKindAdjust :: string where "TxKindAdjust = ''adjust''"
definition TxKindRefund :: string where "TxKindRefund = ''refund''"

lemmas tx_kinds = TxKindTopup_def TxKindCharge_def TxKindAdjust_def TxKindRefund_def

section \<open>Rows\<close>

definition wallet_row :: "db \<Rightarrow> string \<Rightarrow> wallet option" where
  "wallet_row d tok = find (\<lambda>w. w_token w = tok) (wallets d)"

definition wallet_balance :: "db \<Rightarrow> string \<Rightarrow> float64 option" where
  "wallet_balance d tok = map_option w_balance_usd (wallet_row d tok)"

definition wallet_entries :: "db \<Rightarrow> string \<Rightarrow> float64 list" where
  "wallet_entries d tok = map wt_amount_usd (filter (\<lambda>t. wt_token t = tok) (wallet_txs d))"

definition set_wallet_balance :: "string \<Rightarrow> float64 \<Rightarrow> int \<Rightarrow> db \<Rightarrow> db" where
  "set_wallet_balance tok bal now d = d\<lparr>wallets :=
     sql_update (\<lambda>w. w_token w = tok) (\<lambda>w. w\<lparr>w_balance_usd := bal, w_updated_at := now\<rparr>) (wallets d)\<rparr>"

definition insert_wallet_tx :: "string \<Rightarrow> string \<Rightarrow> float64 \<Rightarrow> string \<Rightarrow> string \<Rightarrow> int \<Rightarrow> db \<Rightarrow> db" where
  "insert_wallet_tx tok kind amount ref note now d = (bump_seq Seq_wallet_tx d)\<lparr>wallet_txs := wallet_txs d @
     [\<lparr>wt_id = next_id Seq_wallet_tx d, wt_token = tok, wt_kind = kind, wt_amount_usd = amount,
       wt_ref = ref, wt_note = note, wt_created_at = now\<rparr>]\<rparr>"

text \<open>INSERT OR IGNORE: nothing when the token has a wallet; a missing group is not ignored.\<close>

definition insert_wallet :: "string \<Rightarrow> int \<Rightarrow> int \<Rightarrow> db \<Rightarrow> db_error + unit \<times> db" where
  "insert_wallet tok gid now d =
     (if wallet_row d tok \<noteq> None then Inr ((), d)
      else if group_by_id d gid = None then Inl ForeignKeyViolation
      else Inr ((), d\<lparr>wallets := wallets d @ [\<lparr>w_token = tok, w_balance_usd = 0, w_group_id = gid,
                       w_created_at = now, w_updated_at = now\<rparr>]\<rparr>))"

section \<open>Operations\<close>

definition get_wallet :: "string \<Rightarrow> wallet dbm" where
  "get_wallet tok = query_row ErrNotFound (\<lambda>d. wallet_row d tok)"

definition ensure_wallet :: "int \<Rightarrow> string \<Rightarrow> wallet dbm" where
  "ensure_wallet now tok =
     bnd (attempt (get_wallet tok)) (\<lambda>r. case r of
       Inr w \<Rightarrow> ret w
     | Inl e \<Rightarrow> if e \<noteq> ErrNotFound then throw e
         else bnd default_group (\<lambda>def.
              bnd (stmt (insert_wallet tok (g_id def) now)) (\<lambda>_.
              get_wallet tok)))"

definition get_balance :: "string \<Rightarrow> float64 dbm" where
  "get_balance tok = query_row ErrNotFound (\<lambda>d. wallet_balance d tok)"

definition add_balance_tx :: "int \<Rightarrow> string \<Rightarrow> string \<Rightarrow> float64 \<Rightarrow> string \<Rightarrow> string \<Rightarrow> bool \<Rightarrow> float64 dbm" where
  "add_balance_tx now tok kind delta ref note allow_negative = in_tx (
     bnd (query_row ErrNotFound (\<lambda>d. wallet_balance d tok)) (\<lambda>bal0.
     let bal = fadd bal0 delta in
     if bal < 0 \<and> \<not> allow_negative then throw ErrInsufficientBalance
     else bnd (exec (set_wallet_balance tok bal now)) (\<lambda>_.
          bnd (exec (insert_wallet_tx tok kind delta ref note now)) (\<lambda>_.
          ret bal))))"

definition add_balance :: "int \<Rightarrow> string \<Rightarrow> string \<Rightarrow> float64 \<Rightarrow> string \<Rightarrow> string \<Rightarrow> bool \<Rightarrow> float64 dbm" where
  "add_balance now tok kind delta ref note allow_negative =
     bnd (ensure_wallet now tok) (\<lambda>_. add_balance_tx now tok kind delta ref note allow_negative)"

definition list_wallet_tx :: "string \<Rightarrow> int \<Rightarrow> wallet_tx list dbm" where
  "list_wallet_tx tok limit0 = (let limit = (if limit0 \<le> 0 then 50 else limit0) in
     query (\<lambda>d. take (nat limit) (sql_desc wt_id (filter (\<lambda>t. wt_token t = tok) (wallet_txs d)))))"

definition charged_personal :: "sqlite \<Rightarrow> string \<Rightarrow> int \<Rightarrow> int \<Rightarrow> db \<Rightarrow> float64" where
  "charged_personal q tok lo hi d = - coalesce_sum q (map wt_amount_usd (filter
     (\<lambda>t. wt_token t = tok \<and> wt_kind t = ''charge'' \<and> lo \<le> wt_created_at t \<and> wt_created_at t < hi) (wallet_txs d)))"

definition charged_pool :: "sqlite \<Rightarrow> string \<Rightarrow> int \<Rightarrow> int \<Rightarrow> db \<Rightarrow> float64" where
  "charged_pool q tok lo hi d = - coalesce_sum q (map wst_amount_usd (filter
     (\<lambda>t. wst_token t = tok \<and> wst_kind t = ''charge'' \<and> lo \<le> wst_created_at t \<and> wst_created_at t < hi) (workspace_txs d)))"

definition charged_usd_between :: "sqlite \<Rightarrow> string \<Rightarrow> int \<Rightarrow> int \<Rightarrow> float64 dbm" where
  "charged_usd_between q tok lo hi =
     (if tok = [] then ret 0
      else bnd (query (charged_personal q tok lo hi)) (\<lambda>personal.
           bnd (query (charged_pool q tok lo hi)) (\<lambda>pool.
           ret (fadd personal pool))))"

definition paid_cny_rows :: "string \<Rightarrow> db \<Rightarrow> float64 list" where
  "paid_cny_rows tok d = map o_cny_amount (filter (\<lambda>r. o_token r = tok \<and> o_status r = ''paid'') (alipay_orders d))"

definition total_paid_cny :: "sqlite \<Rightarrow> string \<Rightarrow> float64 dbm" where
  "total_paid_cny q tok = (if tok = [] then ret 0 else query (\<lambda>d. coalesce_sum q (paid_cny_rows tok d)))"

definition all_wallets :: "(string \<rightharpoonup> wallet) dbm" where
  "all_wallets = query (\<lambda>d. map_of (rev (map (\<lambda>w. (w_token w, w)) (wallets d))))"

definition set_wallet_group_row :: "string \<Rightarrow> int \<Rightarrow> int \<Rightarrow> db \<Rightarrow> db_error + unit \<times> db" where
  "set_wallet_group_row tok gid now d =
     (if wallet_row d tok \<noteq> None \<and> group_by_id d gid = None then Inl ForeignKeyViolation
      else Inr ((), d\<lparr>wallets := sql_update (\<lambda>w. w_token w = tok)
                        (\<lambda>w. w\<lparr>w_group_id := gid, w_updated_at := now\<rparr>) (wallets d)\<rparr>))"

definition set_wallet_group :: "int \<Rightarrow> string \<Rightarrow> int \<Rightarrow> unit dbm" where
  "set_wallet_group now tok gid =
     bnd (get_group gid) (\<lambda>_.
     bnd (ensure_wallet now tok) (\<lambda>_.
     stmt (set_wallet_group_row tok gid now)))"

record fleet_wallet_totals =
  ft_user_paid_usd :: float64
  ft_topups_usd :: float64
  ft_charge_count :: int

definition fleet_totals :: "sqlite \<Rightarrow> fleet_wallet_totals dbm" where
  "fleet_totals q = query (\<lambda>d. \<lparr>
     ft_user_paid_usd = coalesce_sum q (map (\<lambda>t. if wt_kind t = ''charge'' then - wt_amount_usd t else 0) (wallet_txs d)),
     ft_topups_usd = coalesce_sum q (map (\<lambda>t. if wt_kind t = ''topup'' then wt_amount_usd t else 0) (wallet_txs d)),
     ft_charge_count = sum_list (map (\<lambda>t. if wt_kind t = ''charge'' then 1 else 0) (wallet_txs d))\<rparr>)"

section \<open>Net effects and the ledger contract\<close>

type_synonym tx_meta = "string \<times> string \<times> string \<times> int"

definition wallet_post :: "string \<Rightarrow> float64 \<Rightarrow> tx_meta \<Rightarrow> db \<Rightarrow> db" where
  "wallet_post tok x m d = (case m of (kind, ref, note, now) \<Rightarrow>
     insert_wallet_tx tok kind x ref note now
       (set_wallet_balance tok (fadd (case wallet_balance d tok of None \<Rightarrow> 0 | Some b \<Rightarrow> b) x) now d))"

definition wallets_keyed :: "db \<Rightarrow> bool" where
  "wallets_keyed d \<longleftrightarrow> distinct (map w_token (wallets d))"

lemma bump_seq_sel [simp]:
  "wallets (bump_seq t d) = wallets d" "wallet_txs (bump_seq t d) = wallet_txs d"
  "pricing_groups (bump_seq t d) = pricing_groups d" "alipay_orders (bump_seq t d) = alipay_orders d"
  "workspaces (bump_seq t d) = workspaces d" "workspace_members (bump_seq t d) = workspace_members d"
  "workspace_txs (bump_seq t d) = workspace_txs d" "invoices (bump_seq t d) = invoices d"
  "invoice_titles (bump_seq t d) = invoice_titles d" "invoice_allocations (bump_seq t d) = invoice_allocations d"
  "inbound_emails (bump_seq t d) = inbound_emails d"
  "sequences (bump_seq t d) = (sequences d)(t := sequences d t + 1)"
  by (simp_all add: bump_seq_def)

lemma wallet_row_set:
  "wallet_row (set_wallet_balance tok x now d) k =
     map_option (\<lambda>w. if w_token w = tok then w\<lparr>w_balance_usd := x, w_updated_at := now\<rparr> else w) (wallet_row d k)"
  by (simp add: wallet_row_def set_wallet_balance_def find_sql_update)

lemma wallet_row_token: "wallet_row d k = Some w \<Longrightarrow> w_token w = k"
  by (auto simp: wallet_row_def dest: find_Some_mem)

lemma wallet_balance_set:
  "wallet_balance d tok = Some b \<Longrightarrow>
   wallet_balance (set_wallet_balance tok x now d) = (wallet_balance d)(tok \<mapsto> x)"
  by (auto simp: fun_eq_iff wallet_balance_def wallet_row_set option.map_comp dest: wallet_row_token
      intro!: map_option_cong)

lemma wallet_balance_insert_tx [simp]:
  "wallet_balance (insert_wallet_tx tok kind x ref note now d) = wallet_balance d"
  by (simp add: fun_eq_iff wallet_balance_def wallet_row_def insert_wallet_tx_def)

lemma wallet_entries_insert_tx:
  "wallet_entries (insert_wallet_tx tok kind x ref note now d) = (wallet_entries d)(tok := wallet_entries d tok @ [x])"
  by (simp add: fun_eq_iff wallet_entries_def insert_wallet_tx_def)

lemma wallet_entries_set [simp]: "wallet_entries (set_wallet_balance tok x now d) = wallet_entries d"
  by (simp add: fun_eq_iff wallet_entries_def set_wallet_balance_def)

lemma wallets_keyed_set [simp]: "wallets_keyed (set_wallet_balance tok x now d) = wallets_keyed d"
  by (simp add: wallets_keyed_def set_wallet_balance_def map_sql_update_same)

lemma wallets_keyed_insert_tx [simp]: "wallets_keyed (insert_wallet_tx tok kind x ref note now d) = wallets_keyed d"
  by (simp add: wallets_keyed_def insert_wallet_tx_def)

interpretation wallet_ledger: ledger_account wallet_balance wallet_entries wallet_post wallets_keyed
  by unfold_locales
    (auto simp: wallet_post_def wallet_balance_set wallet_entries_insert_tx split: prod.splits)

definition wallets_ok :: "db \<Rightarrow> bool" where
  "wallets_ok d \<longleftrightarrow> wallets_keyed d \<and> sorted_wrt (<) (map wt_id (wallet_txs d)) \<and>
     (\<forall>t \<in> set (wallet_txs d). wt_id t \<le> sequences d Seq_wallet_tx) \<and>
     balanced wallet_balance wallet_entries d"

lemma wallets_ok_initial: "wallets_ok (initial_db now)"
  by (simp add: wallets_ok_def wallets_keyed_def initial_db_def balanced_def wallet_balance_def
      wallet_row_def wallet_entries_def)

lemma wallets_ok_post:
  assumes "wallets_ok d" "wallet_balance d tok = Some b"
  shows "wallets_ok (wallet_post tok x m d)"
proof -
  obtain kind ref nt now where m: "m = (kind, ref, nt, now)" by (cases m)
  have "balanced wallet_balance wallet_entries (wallet_post tok x m d)"
    using assms by (auto simp: wallets_ok_def intro: wallet_ledger.post_balanced)
  moreover have "wallets_keyed (wallet_post tok x m d)"
    using assms by (auto simp: wallets_ok_def intro: wallet_ledger.keyed_post)
  moreover have "wallet_txs (wallet_post tok x m d) = wallet_txs d @
      [\<lparr>wt_id = sequences d Seq_wallet_tx + 1, wt_token = tok, wt_kind = kind, wt_amount_usd = x,
        wt_ref = ref, wt_note = nt, wt_created_at = now\<rparr>]"
    "sequences (wallet_post tok x m d) Seq_wallet_tx = sequences d Seq_wallet_tx + 1"
    by (simp_all add: m wallet_post_def insert_wallet_tx_def set_wallet_balance_def next_id_def)
  ultimately show ?thesis using assms(1)
    by (fastforce simp: wallets_ok_def sorted_wrt_append)
qed

lemma wallets_ok_insert_wallet:
  assumes ok: "wallets_ok d" and ins: "insert_wallet tok gid now d = Inr (x, d')"
  shows "wallets_ok d'"
proof (cases "wallet_row d tok")
  case (Some w) with assms show ?thesis by (simp add: insert_wallet_def)
next
  case None
  then have d': "d' = d\<lparr>wallets := wallets d @ [\<lparr>w_token = tok, w_balance_usd = 0, w_group_id = gid,
                       w_created_at = now, w_updated_at = now\<rparr>]\<rparr>"
    using ins by (auto simp: insert_wallet_def split: if_splits)
  have bal: "wallet_balance d' = (wallet_balance d)(tok \<mapsto> 0)"
    using None by (auto simp: d' fun_eq_iff wallet_balance_def wallet_row_def find_append split: option.splits)
  have ent: "wallet_entries d' = wallet_entries d" by (simp add: d' fun_eq_iff wallet_entries_def)
  have "wallet_balance d tok = None" using None by (simp add: wallet_balance_def)
  with ok have "wallet_entries d tok = []" by (auto simp: wallets_ok_def dest: balanced_orphan)
  with ok have "balanced wallet_balance wallet_entries d'"
    by (simp add: wallets_ok_def balanced_def bal ent)
  moreover have "tok \<notin> w_token ` set (wallets d)"
    using None by (auto simp: wallet_row_def find_None_iff)
  ultimately show ?thesis using ok by (auto simp: wallets_ok_def wallets_keyed_def d')
qed

lemma wallets_ok_set_group:
  assumes "wallets_ok d" "set_wallet_group_row tok gid now d = Inr (x, d')"
  shows "wallets_ok d'"
proof -
  have d': "d' = d\<lparr>wallets := sql_update (\<lambda>w. w_token w = tok)
                        (\<lambda>w. w\<lparr>w_group_id := gid, w_updated_at := now\<rparr>) (wallets d)\<rparr>"
    using assms(2) by (auto simp: set_wallet_group_row_def split: if_splits)
  have "wallet_balance d' = wallet_balance d"
    by (auto simp: fun_eq_iff wallet_balance_def wallet_row_def d' find_sql_update option.map_comp
        intro!: map_option_cong)
  then show ?thesis using assms(1)
    by (simp add: wallets_ok_def wallets_keyed_def d' map_sql_update_same balanced_def wallet_entries_def)
qed

section \<open>Outcomes of the operations\<close>

definition wallet_open :: "string \<Rightarrow> int \<Rightarrow> int \<Rightarrow> db \<Rightarrow> db" where
  "wallet_open tok gid now d = d\<lparr>wallets := wallets d @ [\<lparr>w_token = tok, w_balance_usd = 0, w_group_id = gid,
                       w_created_at = now, w_updated_at = now\<rparr>]\<rparr>"

lemma insert_wallet_Inr:
  "insert_wallet tok gid now d = Inr (x, d') \<Longrightarrow>
     (wallet_row d tok \<noteq> None \<and> d' = d) \<or>
     (wallet_row d tok = None \<and> group_by_id d gid \<noteq> None \<and> d' = wallet_open tok gid now d)"
  by (auto simp: insert_wallet_def wallet_open_def split: if_splits)

lemma wallet_row_open:
  "wallet_row d tok = None \<Longrightarrow> wallet_row (wallet_open tok gid now d) tok = Some \<lparr>w_token = tok, w_balance_usd = 0,
     w_group_id = gid, w_created_at = now, w_updated_at = now\<rparr>"
  by (simp add: wallet_row_def wallet_open_def find_append)

lemma wallet_row_open_other: "k \<noteq> tok \<Longrightarrow> wallet_row (wallet_open tok gid now d) k = wallet_row d k"
  by (simp add: wallet_row_def wallet_open_def find_append split: option.split)

lemma read_only_get_wallet [atomic_intros]: "read_only (get_wallet tok)"
  unfolding get_wallet_def by (rule read_only_query_row)

text \<open>Whatever happens, \<open>EnsureWallet\<close> at most opens the wallet; on success it is there.\<close>

lemma ensure_wallet_cases:
  assumes "ensure_wallet now tok s = (r, s')"
  obtains (Same) "store s' = store s" "case r of Inl _ \<Rightarrow> True | Inr w \<Rightarrow> wallet_row (store s) tok = Some w"
  | (Opened) g where "wallet_row (store s) tok = None" "g \<in> set (pricing_groups (store s))" "g_is_default g"
      "store s' = wallet_open tok (g_id g) now (store s)"
      "case r of Inl _ \<Rightarrow> True | Inr w \<Rightarrow> wallet_row (store s') tok = Some w"
proof -
  from assms obtain r1 s1 where g: "get_wallet tok s = (r1, s1)" and
    rest: "(case r1 of Inr w \<Rightarrow> ret w | Inl e \<Rightarrow> if e \<noteq> ErrNotFound then throw e
         else bnd default_group (\<lambda>def. bnd (stmt (insert_wallet tok (g_id def) now)) (\<lambda>_. get_wallet tok))) s1 = (r, s')"
    by (auto simp: ensure_wallet_def bnd_def attempt_def split: prod.splits)
  have s1: "store s1 = store s" using read_onlyD[OF read_only_get_wallet g] .
  show thesis
  proof (cases r1)
    case (Inr w)
    with g rest s1 show thesis by (intro Same) (auto simp: ret_def get_wallet_def query_row_Inr)
  next
    case (Inl e)
    show thesis
    proof (cases "e = ErrNotFound")
      case False
      with Inl rest s1 show thesis by (intro Same) (auto simp: throw_def)
    next
      case True
      from rest[unfolded Inl True, simplified]
      have "bnd default_group (\<lambda>def. bnd (stmt (insert_wallet tok (g_id def) now)) (\<lambda>_. get_wallet tok)) s1 = (r, s')" .
      then show thesis
      proof (cases rule: bnd_cases)
        case (Stop e') with s1 show thesis
          by (intro Same) (auto dest: read_onlyD[OF read_only_default_group])
      next
        case (Go def s2)
        from default_group_Some[OF Go(1)] s1 have def: "def \<in> set (pricing_groups (store s))" "g_is_default def"
          and s2: "store s2 = store s" by auto
        from Go(2) show thesis
        proof (cases rule: bnd_cases)
          case (Stop e') with s2 show thesis by (intro Same) (auto simp: stmt_Inl)
        next
          case (Go x s3)
          then obtain d where d: "insert_wallet tok (g_id def) now (store s) = Inr (x, d)" "store s3 = d"
            using s2 by (auto simp: stmt_Inr)
          have s': "store s' = store s3" using read_onlyD[OF read_only_get_wallet Go(2)] .
          have r: "case r of Inl _ \<Rightarrow> True | Inr w \<Rightarrow> wallet_row (store s3) tok = Some w"
            using Go(2) by (auto simp: get_wallet_def query_row_Inr split: sum.split)
          from insert_wallet_Inr[OF d(1)] show thesis
          proof
            assume "wallet_row (store s) tok \<noteq> None \<and> d = store s"
            with s' d r show thesis by (intro Same) (auto split: sum.splits)
          next
            assume "wallet_row (store s) tok = None \<and> group_by_id (store s) (g_id def) \<noteq> None \<and>
              d = wallet_open tok (g_id def) now (store s)"
            with s' d r def show thesis by (intro Opened) (auto split: sum.splits)
          qed
        qed
      qed
    qed
  qed
qed

lemma calm_ensure_wallet [calm_intros]: "calm (ensure_wallet now tok)"
  unfolding ensure_wallet_def get_wallet_def default_group_def by (intro calm_intros)

lemma wallets_ok_open:
  "wallets_ok d \<Longrightarrow> wallet_row d tok = None \<Longrightarrow> wallets_ok (wallet_open tok gid now d)"
  using wallets_ok_insert_wallet[of "d\<lparr>pricing_groups := [\<lparr>g_id = gid, g_name = [], g_description = [], g_codex_multiplier = 1,
     g_claude_multiplier = 1, g_credential_group = [], g_is_default = True, g_created_at = 0, g_updated_at = 0\<rparr>]\<rparr>" tok gid now]
  by (auto simp: wallets_ok_def wallets_keyed_def balanced_def wallet_balance_def wallet_row_def wallet_entries_def
      insert_wallet_def group_by_id_def wallet_open_def fun_eq_iff)

lemma groups_ok_open:
  "groups_ok d \<Longrightarrow> g \<in> set (pricing_groups d) \<Longrightarrow> groups_ok (wallet_open tok (g_id g) now d)"
  by (auto simp: groups_ok_def wallet_open_def)

lemma ensure_wallet_maintains: "maintains wallets_ok (ensure_wallet now tok)" "maintains groups_ok (ensure_wallet now tok)"
  unfolding maintains_def
  by (auto elim!: ensure_wallet_cases simp: wallets_ok_open groups_ok_open)

lemma ensure_wallet_exists:
  "ensure_wallet now tok s = (Inr w, s') \<Longrightarrow> wallet_row (store s') tok = Some w"
  by (auto elim!: ensure_wallet_cases)

lemma add_balance_tx_Inr:
  assumes "add_balance_tx now tok kind delta ref note allow s = (Inr r, s')"
  shows "\<exists>b. wallet_balance (store s) tok = Some b \<and> r = fadd b delta \<and> (allow \<or> 0 \<le> r) \<and>
     store s' = wallet_post tok delta (kind, ref, note, now) (store s)"
  using assms
  by (auto simp: add_balance_tx_def in_tx_Inr bnd_Inr query_row_Inr Let_def throw_def exec_Inr ret_iff
      wallet_post_def split: if_splits)

lemma atomic_add_balance_tx: "atomic (add_balance_tx now tok kind delta ref note allow)"
  unfolding add_balance_tx_def by (rule atomic_in_tx)

lemma groups_ok_post [simp]: "groups_ok (wallet_post tok x m d) = groups_ok d"
  by (auto simp: groups_ok_def wallet_post_def insert_wallet_tx_def set_wallet_balance_def ball_sql_update
      split: prod.splits if_splits)

lemma add_balance_tx_maintains:
  "maintains wallets_ok (add_balance_tx now tok kind delta ref note allow)"
  "maintains groups_ok (add_balance_tx now tok kind delta ref note allow)"
  unfolding maintains_def
  by (metis (no_types, lifting) add_balance_tx_Inr atomicD[OF atomic_add_balance_tx] wallets_ok_post groups_ok_post
      old.sum.exhaust)+

lemma add_balance_maintains:
  "maintains wallets_ok (add_balance now tok kind delta ref note allow)"
  "maintains groups_ok (add_balance now tok kind delta ref note allow)"
  unfolding add_balance_def by (intro maintains_bnd ensure_wallet_maintains add_balance_tx_maintains)+

lemma groups_ok_set_group:
  assumes "groups_ok d" "set_wallet_group_row tok gid now d = Inr (x, d')" 
  shows "groups_ok d'"
proof (cases "group_by_id d gid")
  case None
  with assms(2) have "wallet_row d tok = None" "d' = d\<lparr>wallets := sql_update (\<lambda>w. w_token w = tok)
                        (\<lambda>w. w\<lparr>w_group_id := gid, w_updated_at := now\<rparr>) (wallets d)\<rparr>"
    by (auto simp: set_wallet_group_row_def split: if_splits)
  moreover from this(1) have "sql_update (\<lambda>w. w_token w = tok)
      (\<lambda>w. w\<lparr>w_group_id := gid, w_updated_at := now\<rparr>) (wallets d) = wallets d"
    by (intro sql_update_id) (auto simp: wallet_row_def find_None_iff)
  ultimately have "d' = d" by simp
  with assms(1) show ?thesis by simp
next
  case (Some g)
  then have "g \<in> set (pricing_groups d)" "g_id g = gid" by (auto simp: group_by_id_def dest: find_Some_mem)
  then have ex: "\<exists>g \<in> set (pricing_groups d). g_id g = gid" by blast
  have "d' = d\<lparr>wallets := sql_update (\<lambda>w. w_token w = tok)
                        (\<lambda>w. w\<lparr>w_group_id := gid, w_updated_at := now\<rparr>) (wallets d)\<rparr>"
    using assms(2) by (auto simp: set_wallet_group_row_def split: if_splits)
  with assms(1) ex show ?thesis by (simp add: groups_ok_def ball_sql_update)
qed

lemma set_wallet_group_maintains:
  "maintains wallets_ok (set_wallet_group now tok gid)" "maintains groups_ok (set_wallet_group now tok gid)"
  unfolding set_wallet_group_def
  by (intro maintains_bnd ensure_wallet_maintains maintains_stmt maintains_read_only read_only_get_group;
      fast intro: wallets_ok_set_group groups_ok_set_group)+

text \<open>The ledger listing is the wallet's own rows, the newest first, at most \<open>limit\<close> of them.\<close>

lemma list_wallet_tx_newest_first:
  assumes "wallets_ok (store s)" "list_wallet_tx tok n s = (Inr rows, s')"
  shows "rows = take (nat (if n \<le> 0 then 50 else n)) (rev (filter (\<lambda>t. wt_token t = tok) (wallet_txs (store s))))"
proof -
  have "sorted_wrt (<) (map wt_id (filter (\<lambda>t. wt_token t = tok) (wallet_txs (store s))))"
    using assms(1) by (auto simp: wallets_ok_def sorted_wrt_map intro: sorted_wrt_filter)
  then show ?thesis using assms(2)
    by (auto simp: list_wallet_tx_def query_Inr sql_desc_rev)
qed

end
