(* ===== verification/Orders.thy ===== *)
theory Orders
  imports Wallet
begin

text \<open>
  Alipay top-up orders (\<open>internal/saas/db/orders.go\<close>): a pending order becomes paid exactly
  once, in the transaction that also credits the wallet, or is dropped while still pending.
  \<open>orders_ok\<close>: one row per trade number and a status the code knows.
\<close>

definition OrderPending :: string where "OrderPending = ''pending''"
definition OrderPaid :: string where "OrderPaid = ''paid''"
definition OrderExpired :: string where "OrderExpired = ''expired''"
definition OrderFailed :: string where "OrderFailed = ''failed''"

lemmas order_states = OrderPending_def OrderPaid_def OrderExpired_def OrderFailed_def

definition order_row :: "db \<Rightarrow> string \<Rightarrow> alipay_order option" where
  "order_row d no = find (\<lambda>r. o_out_trade_no r = no) (alipay_orders d)"

section \<open>Operations\<close>

definition insert_order :: "int \<Rightarrow> alipay_order \<Rightarrow> db \<Rightarrow> db_error + unit \<times> db" where
  "insert_order now r d =
     (if order_row d (o_out_trade_no r) \<noteq> None then Inl UniqueViolation
      else Inr ((), d\<lparr>alipay_orders := alipay_orders d @
        [r\<lparr>o_status := OrderPending, o_trade_no := [], o_created_at := now, o_paid_at := 0\<rparr>]\<rparr>))"

definition create_order :: "int \<Rightarrow> alipay_order \<Rightarrow> unit dbm" where
  "create_order now r = stmt (insert_order now r)"

definition get_order :: "string \<Rightarrow> alipay_order dbm" where
  "get_order no = query_row ErrNotFound (\<lambda>d. order_row d no)"

definition is_pending :: "string \<Rightarrow> alipay_order \<Rightarrow> bool" where
  "is_pending no r = (o_out_trade_no r = no \<and> o_status r = OrderPending)"

definition mark_order_paid :: "string \<Rightarrow> string \<Rightarrow> int \<Rightarrow> nat dbm" where
  "mark_order_paid no trade_no now = exec_count
     (\<lambda>d. sql_count (is_pending no) (alipay_orders d))
     (\<lambda>d. d\<lparr>alipay_orders := sql_update (is_pending no)
             (\<lambda>r. r\<lparr>o_status := OrderPaid, o_trade_no := trade_no, o_paid_at := now\<rparr>) (alipay_orders d)\<rparr>)"

definition credit_paid_order :: "int \<Rightarrow> string \<Rightarrow> string \<Rightarrow> string \<Rightarrow> float64 \<Rightarrow> string \<Rightarrow> string \<Rightarrow> float64 dbm" where
  "credit_paid_order now no trade_no tok usd_credit ref note =
     bnd (ensure_wallet now tok) (\<lambda>_. in_tx (
     bnd (mark_order_paid no trade_no now) (\<lambda>n.
     if n = 0 then throw ErrOrderNotPending
     else bnd (query_row ErrNotFound (\<lambda>d. wallet_balance d tok)) (\<lambda>bal0.
          let bal = fadd bal0 usd_credit in
          bnd (exec (set_wallet_balance tok bal now)) (\<lambda>_.
          bnd (exec (insert_wallet_tx tok TxKindTopup usd_credit ref note now)) (\<lambda>_.
          ret bal))))))"

definition mark_order_expired :: "string \<Rightarrow> unit dbm" where
  "mark_order_expired no = exec (\<lambda>d. d\<lparr>alipay_orders :=
     sql_update (is_pending no) (\<lambda>r. r\<lparr>o_status := OrderExpired\<rparr>) (alipay_orders d)\<rparr>)"

definition expire_pending_orders_before :: "int \<Rightarrow> nat dbm" where
  "expire_pending_orders_before cutoff = exec_count
     (\<lambda>d. sql_count (\<lambda>r. o_status r = OrderPending \<and> o_created_at r < cutoff) (alipay_orders d))
     (\<lambda>d. d\<lparr>alipay_orders := sql_delete (\<lambda>r. o_status r = OrderPending \<and> o_created_at r < cutoff) (alipay_orders d)\<rparr>)"

definition delete_pending_order :: "string \<Rightarrow> string \<Rightarrow> unit dbm" where
  "delete_pending_order no tok =
     bnd (exec_count (\<lambda>d. sql_count (\<lambda>r. is_pending no r \<and> o_token r = tok) (alipay_orders d))
           (\<lambda>d. d\<lparr>alipay_orders := sql_delete (\<lambda>r. is_pending no r \<and> o_token r = tok) (alipay_orders d)\<rparr>))
       (\<lambda>n. if n = 0 then throw ErrNotFound else ret ())"

definition count_pending_orders :: "string \<Rightarrow> nat dbm" where
  "count_pending_orders tok = query (\<lambda>d. sql_count (\<lambda>r. o_token r = tok \<and> o_status r = OrderPending) (alipay_orders d))"

definition list_orders :: "string \<Rightarrow> int \<Rightarrow> alipay_order list dbm" where
  "list_orders tok limit0 = (let limit = (if limit0 \<le> 0 then 50 else limit0) in
     query (\<lambda>d. take (nat limit) (sql_desc o_created_at
       (filter (\<lambda>r. o_token r = tok \<and> o_status r \<notin> {OrderExpired, OrderFailed}) (alipay_orders d)))))"

definition list_all_orders :: "string \<Rightarrow> int \<Rightarrow> alipay_order list dbm" where
  "list_all_orders status limit0 = (let limit = (if limit0 \<le> 0 then 100 else limit0) in
     query (\<lambda>d. take (nat limit) (sql_desc o_created_at
       (filter (\<lambda>r. status = [] \<or> o_status r = status) (alipay_orders d)))))"

definition paid_order_totals :: "sqlite \<Rightarrow> (float64 \<times> float64 \<times> nat) dbm" where
  "paid_order_totals q = query (\<lambda>d. let rows = filter (\<lambda>r. o_status r = OrderPaid) (alipay_orders d) in
     (coalesce_sum q (map o_cny_amount rows), coalesce_sum q (map o_usd_credit rows), length rows))"

section \<open>The order table\<close>

definition order_status_known :: "string \<Rightarrow> bool" where
  "order_status_known s \<longleftrightarrow> s \<in> {OrderPending, OrderPaid, OrderExpired, OrderFailed}"

definition orders_ok :: "db \<Rightarrow> bool" where
  "orders_ok d \<longleftrightarrow> distinct (map o_out_trade_no (alipay_orders d)) \<and>
     (\<forall>r \<in> set (alipay_orders d). order_status_known (o_status r))"

lemma order_status_known [simp]:
  "order_status_known OrderPending" "order_status_known OrderPaid" "order_status_known OrderExpired"
  by (simp_all add: order_status_known_def)

lemma orders_ok_initial: "orders_ok (initial_db now)"
  by (simp add: orders_ok_def initial_db_def)

lemma orders_ok_cong: "alipay_orders d' = alipay_orders d \<Longrightarrow> orders_ok d' = orders_ok d"
  by (simp add: orders_ok_def)

definition pay_order :: "string \<Rightarrow> string \<Rightarrow> int \<Rightarrow> db \<Rightarrow> db" where
  "pay_order no trade_no now d = d\<lparr>alipay_orders := sql_update (is_pending no)
     (\<lambda>r. r\<lparr>o_status := OrderPaid, o_trade_no := trade_no, o_paid_at := now\<rparr>) (alipay_orders d)\<rparr>"

lemma pay_order_sel [simp]:
  "wallets (pay_order no t now d) = wallets d" "wallet_txs (pay_order no t now d) = wallet_txs d"
  "pricing_groups (pay_order no t now d) = pricing_groups d" "sequences (pay_order no t now d) = sequences d"
  "workspaces (pay_order no t now d) = workspaces d" "workspace_txs (pay_order no t now d) = workspace_txs d"
  "workspace_members (pay_order no t now d) = workspace_members d"
  by (simp_all add: pay_order_def)

lemma wallet_view_pay [simp]:
  "wallet_row (pay_order no t now d) = wallet_row d" "wallet_balance (pay_order no t now d) = wallet_balance d"
  "wallet_entries (pay_order no t now d) = wallet_entries d" "wallets_ok (pay_order no t now d) = wallets_ok d"
  "groups_ok (pay_order no t now d) = groups_ok d"
  by (simp_all add: fun_eq_iff wallet_row_def wallet_balance_def wallet_entries_def wallets_ok_def
      wallets_keyed_def groups_ok_def balanced_def)

lemma orders_post [simp]: "alipay_orders (wallet_post tok x m d) = alipay_orders d"
  by (simp add: wallet_post_def insert_wallet_tx_def set_wallet_balance_def split: prod.splits)

lemma orders_open [simp]: "alipay_orders (wallet_open tok gid now d) = alipay_orders d"
  by (simp add: wallet_open_def)

lemma orders_ok_pay: "orders_ok d \<Longrightarrow> orders_ok (pay_order no t now d)"
  by (auto simp: orders_ok_def pay_order_def map_sql_update_same sql_update_mem)

lemma order_row_pay:
  "order_row (pay_order no t now d) k = map_option (\<lambda>r. if is_pending no r
     then r\<lparr>o_status := OrderPaid, o_trade_no := t, o_paid_at := now\<rparr> else r) (order_row d k)"
  by (simp add: order_row_def pay_order_def find_sql_update)

lemma pending_count_0: "orders_ok d \<Longrightarrow> sql_count (is_pending no) (alipay_orders d) = 0 \<longleftrightarrow>
    (case order_row d no of None \<Rightarrow> True | Some r \<Rightarrow> o_status r \<noteq> OrderPending)"
  by (auto simp: sql_count_0_iff orders_ok_def order_row_def is_pending_def find_None_iff
      dest: find_Some_mem find_key_unique split: option.split)

lemma order_row_no: "order_row d no = Some r \<Longrightarrow> o_out_trade_no r = no \<and> r \<in> set (alipay_orders d)"
  by (auto simp: order_row_def dest: find_Some_mem)

section \<open>Crediting a paid order\<close>

definition credit_tx :: "int \<Rightarrow> string \<Rightarrow> string \<Rightarrow> string \<Rightarrow> float64 \<Rightarrow> string \<Rightarrow> string \<Rightarrow> float64 dbm" where
  "credit_tx now no trade_no tok usd_credit ref note = in_tx (
     bnd (mark_order_paid no trade_no now) (\<lambda>n.
     if n = 0 then throw ErrOrderNotPending
     else bnd (query_row ErrNotFound (\<lambda>d. wallet_balance d tok)) (\<lambda>bal0.
          let bal = fadd bal0 usd_credit in
          bnd (exec (set_wallet_balance tok bal now)) (\<lambda>_.
          bnd (exec (insert_wallet_tx tok TxKindTopup usd_credit ref note now)) (\<lambda>_.
          ret bal)))))"

lemma credit_paid_order_split:
  "credit_paid_order now no t tok usd ref nt = bnd (ensure_wallet now tok) (\<lambda>_. credit_tx now no t tok usd ref nt)"
  by (simp add: credit_paid_order_def credit_tx_def)

lemma credit_tx_Inr:
  assumes "credit_tx now no t tok usd ref nt s = (Inr bal, s')"
  shows "\<exists>b. sql_count (is_pending no) (alipay_orders (store s)) \<noteq> 0 \<and> wallet_balance (store s) tok = Some b \<and>
     bal = fadd b usd \<and> store s' = wallet_post tok usd (TxKindTopup, ref, nt, now) (pay_order no t now (store s))"
  using assms
  by (auto simp: credit_tx_def in_tx_Inr bnd_Inr query_row_Inr Let_def throw_def exec_Inr ret_iff
      mark_order_paid_def exec_count_Inr pay_order_def[symmetric] wallet_post_def split: if_splits)

lemma atomic_credit_tx: "atomic (credit_tx now no t tok usd ref nt)"
  unfolding credit_tx_def by (rule atomic_in_tx)

lemma credit_paid_order_store:
  assumes "credit_paid_order now no t tok usd ref nt s = (r, s')"
  obtains (Fail) e where "r = Inl e" "store s' = store s"
  | (Opened) e g where "r = Inl e" "wallet_row (store s) tok = None" "g \<in> set (pricing_groups (store s))"
      "store s' = wallet_open tok (g_id g) now (store s)"
  | (Done) bal d b where "r = Inr bal" "d = store s \<or> (\<exists>g \<in> set (pricing_groups (store s)). wallet_row (store s) tok = None \<and> d = wallet_open tok (g_id g) now (store s))"
      "sql_count (is_pending no) (alipay_orders (store s)) \<noteq> 0" "wallet_balance d tok = Some b" "bal = fadd b usd"
      "store s' = wallet_post tok usd (TxKindTopup, ref, nt, now) (pay_order no t now d)"
  using assms unfolding credit_paid_order_split
proof (cases rule: bnd_cases)
  case (Stop e)
  from Stop(1) show thesis
    by (cases rule: ensure_wallet_cases) (use Stop in \<open>auto intro: that\<close>)
next
  case (Go w s1)
  have s1: "store s1 = store s \<or> (\<exists>g \<in> set (pricing_groups (store s)). wallet_row (store s) tok = None \<and>
      store s1 = wallet_open tok (g_id g) now (store s))"
    using Go(1) by (cases rule: ensure_wallet_cases) auto
  then have orders: "alipay_orders (store s1) = alipay_orders (store s)" by auto
  show thesis
  proof (cases r)
    case (Inl e)
    with Go(2) have "store s' = store s1" by (auto dest: atomicD[OF atomic_credit_tx])
    with s1 Inl show thesis by (auto intro: that)
  next
    case (Inr bal)
    from credit_tx_Inr[OF Go(2)[unfolded Inr]] obtain b where
      "sql_count (is_pending no) (alipay_orders (store s1)) \<noteq> 0" "wallet_balance (store s1) tok = Some b"
      "bal = fadd b usd" "store s' = wallet_post tok usd (TxKindTopup, ref, nt, now) (pay_order no t now (store s1))" by blast
    with s1 orders Inr show thesis by (intro Done[of bal "store s1" b]) auto
  qed
qed

lemma credit_paid_order_maintains:
  "maintains wallets_ok (credit_paid_order now no t tok usd ref nt)"
  "maintains groups_ok (credit_paid_order now no t tok usd ref nt)"
  "maintains orders_ok (credit_paid_order now no t tok usd ref nt)"
  unfolding maintains_def
  by (auto elim!: credit_paid_order_store simp: wallets_ok_open groups_ok_open wallets_ok_post
      orders_ok_cong[OF orders_post] orders_ok_cong[OF orders_open] orders_ok_pay)

lemma mark_order_expired_maintains: "maintains orders_ok (mark_order_expired no)"
  unfolding mark_order_expired_def
  by (intro maintains_exec) (auto simp: orders_ok_def map_sql_update_same sql_update_mem)

lemma expire_pending_maintains: "maintains orders_ok (expire_pending_orders_before cutoff)"
  unfolding expire_pending_orders_before_def
  by (intro maintains_exec_count) (auto simp: orders_ok_def distinct_sql_delete)

lemma delete_pending_maintains: "maintains orders_ok (delete_pending_order no tok)"
  unfolding delete_pending_order_def
  by (intro maintains_bnd maintains_exec_count)
    (auto simp: orders_ok_def distinct_sql_delete intro: maintains_read_only atomic_intros)

lemma create_order_maintains: "maintains orders_ok (create_order now r)"
  unfolding create_order_def
  by (intro maintains_stmt)
    (auto simp: insert_order_def orders_ok_def order_row_def find_None_iff split: if_splits, metis)

section \<open>Paid is final\<close>

text \<open>The rows that carry money. No operation of this file takes one away or alters it.\<close>

definition paid_orders :: "db \<Rightarrow> alipay_order list" where
  "paid_orders d = filter (\<lambda>r. o_status r = OrderPaid) (alipay_orders d)"

lemma paid_orders_sql_delete:
  "(\<And>r. P r \<Longrightarrow> o_status r = OrderPending) \<Longrightarrow>
   filter (\<lambda>r. o_status r = OrderPaid) (sql_delete P rows) = filter (\<lambda>r. o_status r = OrderPaid) rows"
  by (induction rows) (auto simp: order_states)

lemma preserves_paid:
  "preserves paid_orders (create_order now r)" "preserves paid_orders (mark_order_expired no)"
  "preserves paid_orders (expire_pending_orders_before cutoff)" "preserves paid_orders (delete_pending_order no tok)"
proof -
  show "preserves paid_orders (create_order now r)"
    unfolding create_order_def
    by (rule preserves_stmt) (auto simp: insert_order_def paid_orders_def order_states split: if_splits)
  show "preserves paid_orders (mark_order_expired no)"
    unfolding mark_order_expired_def
    by (rule preserves_exec) (auto simp: paid_orders_def is_pending_def order_states intro!: filter_sql_update_same)
  show "preserves paid_orders (expire_pending_orders_before cutoff)"
    unfolding expire_pending_orders_before_def
    by (rule preserves_exec_count) (auto simp: paid_orders_def intro!: paid_orders_sql_delete)
  show "preserves paid_orders (delete_pending_order no tok)"
    unfolding delete_pending_order_def
    by (rule preserves_bnd, rule preserves_exec_count)
      (auto simp: paid_orders_def is_pending_def intro!: paid_orders_sql_delete intro: preserves_read_only atomic_intros)
qed

end
