(* ===== verification/GoTime.thy ===== *)
theory GoTime
  imports Prelude
begin

text \<open>
  The calendar behind the cap windows (\<open>dayStartUnix\<close>, \<open>monthStartUnix\<close> of
  \<open>internal/saas/db/workspace.go\<close>): the proleptic Gregorian calendar of Go's \<open>time\<close> package
  on whole days since 1 January 1970, in the fixed zone UTC+8. An instant is a Unix second.
\<close>

definition leap_year :: "int \<Rightarrow> bool" where
  "leap_year y \<longleftrightarrow> y mod 4 = 0 \<and> (y mod 100 \<noteq> 0 \<or> y mod 400 = 0)"

text \<open>Days from 1 January 1970 to 1 January of the year.\<close>

definition days_before_year :: "int \<Rightarrow> int" where
  "days_before_year y = 365 * (y - 1970) + ((y - 1) div 4 - 492) - ((y - 1) div 100 - 19) + ((y - 1) div 400 - 4)"

definition month_lengths :: "int \<Rightarrow> int list" where
  "month_lengths y = [31, if leap_year y then 29 else 28, 31, 30, 31, 30, 31, 31, 30, 31, 30, 31]"

lemma div_pred_step:
  assumes "0 < (k :: int)"
  shows "y div k - (y - 1) div k = (if y mod k = 0 then 1 else 0)"
proof (cases "y mod k = 0")
  case True
  then obtain q where y: "y = k * q" by (auto simp: mod_eq_0_iff_dvd elim: dvdE)
  have "y - 1 = k * (q - 1) + (k - 1)" by (simp add: y right_diff_distrib)
  then have "(y - 1) div k = q - 1" by (rule int_div_pos_eq) (use assms in auto)
  with assms show ?thesis by (simp add: y)
next
  case False
  then have "y - 1 = k * (y div k) + (y mod k - 1)" by simp
  moreover have "0 \<le> y mod k - 1" "y mod k - 1 < k"
    using False assms pos_mod_sign[of k y] pos_mod_bound[of k y] by linarith+
  ultimately have "(y - 1) div k = y div k" by (rule int_div_pos_eq)
  with False show ?thesis by simp
qed

lemma inclusion_count:
  "(r \<Longrightarrow> q) \<Longrightarrow> (q \<Longrightarrow> p) \<Longrightarrow> (if p \<and> (\<not> q \<or> r) then 1 else 0) =
     (if p then 1 else 0) - (if q then 1 else 0) + (if r then 1 else (0 :: int))"
  by (cases p; cases q; cases r) simp_all

lemma leap_count: "(if leap_year y then 1 else 0) =
   (if y mod 4 = 0 then 1 else 0) - (if y mod 100 = 0 then 1 else 0) + (if y mod 400 = 0 then 1 else (0 :: int))"
  unfolding leap_year_def
proof (rule inclusion_count)
  show "y mod 100 = 0" if "y mod 400 = 0"
    using that unfolding mod_eq_0_iff_dvd by (rule dvd_trans[rotated]) simp
  show "y mod 4 = 0" if "y mod 100 = 0"
    using that unfolding mod_eq_0_iff_dvd by (rule dvd_trans[rotated]) simp
qed

lemma days_before_year_step: "days_before_year (y + 1) = days_before_year y + (if leap_year y then 366 else 365)"
proof -
  have "days_before_year (y + 1) - days_before_year y =
      365 + ((y div 4 - (y - 1) div 4) - (y div 100 - (y - 1) div 100) + (y div 400 - (y - 1) div 400))"
    by (simp add: days_before_year_def)
  also have "\<dots> = 365 + (if leap_year y then 1 else 0)"
    by (simp only: div_pred_step zero_less_numeral leap_count)
  finally show ?thesis by (cases "leap_year y") simp_all
qed

lemma sum_month_lengths: "days_before_year y + sum_list (month_lengths y) = days_before_year (y + 1)"
  by (simp add: days_before_year_step month_lengths_def)

lemma days_before_year_mono_strict: "y < y' \<Longrightarrow> days_before_year y < days_before_year y'"
proof (induction "nat (y' - y)" arbitrary: y')
  case (Suc n)
  have s: "days_before_year (y' - 1) < days_before_year y'"
    using days_before_year_step[of "y' - 1"] by auto
  show ?case
  proof (cases "y = y' - 1")
    case False
    then have "days_before_year y < days_before_year (y' - 1)" using Suc by (intro Suc.hyps(1)) auto
    with s show ?thesis by simp
  qed (use s in simp)
qed simp

section \<open>From a day to a date and back\<close>

function year_down :: "int \<Rightarrow> int \<Rightarrow> int" where
  "year_down y z = (if z < days_before_year y then year_down (y - 1) z else y)"
  by pat_completeness auto
termination
proof (relation "measure (\<lambda>(y, z). nat (days_before_year y - z))", goal_cases)
  case (2 y z) then show ?case using days_before_year_mono_strict[of "y - 1" y] by auto
qed simp

function year_up :: "int \<Rightarrow> int \<Rightarrow> int" where
  "year_up y z = (if days_before_year (y + 1) \<le> z then year_up (y + 1) z else y)"
  by pat_completeness auto
termination
proof (relation "measure (\<lambda>(y, z). nat (z - days_before_year y))", goal_cases)
  case (2 y z) then show ?case using days_before_year_mono_strict[of y "y + 1"] by auto
qed simp

declare year_down.simps [simp del] year_up.simps [simp del]

fun month_walk :: "int \<Rightarrow> int list \<Rightarrow> int \<Rightarrow> int \<times> int" where
  "month_walk m [] d = (m, d + 1)"
| "month_walk m (l # ls) d = (if d < l then (m, d + 1) else month_walk (m + 1) ls (d - l))"

definition civil_year :: "int \<Rightarrow> int" where
  "civil_year z = year_up (year_down 1970 z) z"

definition civil :: "int \<Rightarrow> int \<times> int \<times> int" where
  "civil z = (let y = civil_year z; (m, d) = month_walk 1 (month_lengths y) (z - days_before_year y) in (y, m, d))"

definition date_days :: "int \<Rightarrow> int \<Rightarrow> int \<Rightarrow> int" where
  "date_days y m d = days_before_year y + sum_list (take (nat (m - 1)) (month_lengths y)) + (d - 1)"

lemma year_down_le: "days_before_year (year_down y z) \<le> z"
  by (induction y z rule: year_down.induct) (subst year_down.simps, simp)

lemma year_up_bounds:
  "days_before_year y \<le> z \<Longrightarrow> days_before_year (year_up y z) \<le> z \<and> z < days_before_year (year_up y z + 1)"
  by (induction y z rule: year_up.induct) (subst (1 2) year_up.simps, simp)

lemma civil_year_bounds: "days_before_year (civil_year z) \<le> z" "z < days_before_year (civil_year z + 1)"
  using year_up_bounds[OF year_down_le] by (simp_all add: civil_year_def)

lemma civil_year_unique:
  assumes "days_before_year y \<le> z" "z < days_before_year (y + 1)"
  shows "civil_year z = y"
proof (rule ccontr)
  assume "civil_year z \<noteq> y"
  then consider "civil_year z + 1 \<le> y" | "y + 1 \<le> civil_year z" by linarith
  then show False
    using assms civil_year_bounds[of z] days_before_year_mono_strict[of "civil_year z + 1" y]
      days_before_year_mono_strict[of "y + 1" "civil_year z"]
    by cases (force simp: le_less)+
qed

lemma month_walk_spec:
  assumes "month_walk m ls d = (m', d')" "0 \<le> d" "d < sum_list ls" "\<forall>l \<in> set ls. 0 < (l :: int)"
  shows "\<exists>i < length ls. m' = m + int i \<and> d = sum_list (take i ls) + (d' - 1) \<and> 1 \<le> d' \<and> d' \<le> ls ! i"
  using assms
proof (induction m ls d rule: month_walk.induct)
  case (2 m l ls d)
  show ?case
  proof (cases "d < l")
    case True with 2 show ?thesis by auto
  next
    case False
    with 2 obtain i where "i < length ls" "m' = m + 1 + int i" "d - l = sum_list (take i ls) + (d' - 1)"
      "1 \<le> d'" "d' \<le> ls ! i" by auto
    then show ?thesis by (intro exI[of _ "Suc i"]) auto
  qed
qed simp

lemma civil_spec:
  assumes "civil z = (y, m, d)"
  shows "z = date_days y m d" "1 \<le> m" "m \<le> 12" "1 \<le> d" "d \<le> month_lengths y ! nat (m - 1)" "y = civil_year z"
proof -
  obtain m' d' where w: "month_walk 1 (month_lengths (civil_year z)) (z - days_before_year (civil_year z)) = (m', d')"
    by fastforce
  with assms have eq: "y = civil_year z" "m = m'" "d = d'" by (auto simp: civil_def)
  have pos: "\<forall>l \<in> set (month_lengths y). 0 < l" by (simp add: month_lengths_def)
  have "z - days_before_year y < sum_list (month_lengths y)"
    using civil_year_bounds[of z] sum_month_lengths[of y] eq by simp
  with month_walk_spec[OF w[folded eq], of] civil_year_bounds(1)[of z] pos eq obtain i where
    "i < length (month_lengths y)" "m = 1 + int i" "z - days_before_year y = sum_list (take i (month_lengths y)) + (d - 1)"
    "1 \<le> d" "d \<le> month_lengths y ! i" by auto
  then show "z = date_days y m d" "1 \<le> m" "m \<le> 12" "1 \<le> d" "d \<le> month_lengths y ! nat (m - 1)" "y = civil_year z"
    by (auto simp: date_days_def month_lengths_def eq)
qed

section \<open>The windows of the caps\<close>

definition cst_offset :: int where "cst_offset = 8 * 3600"

definition cst_day :: "int \<Rightarrow> int" where "cst_day now = (now + cst_offset) div 86400"

definition day_start_unix :: "int \<Rightarrow> int" where
  "day_start_unix now = (case civil (cst_day now) of (y, m, d) \<Rightarrow> date_days y m d * 86400 - cst_offset)"

definition month_start_unix :: "int \<Rightarrow> int" where
  "month_start_unix now = (case civil (cst_day now) of (y, m, d) \<Rightarrow> date_days y m 1 * 86400 - cst_offset)"

lemma day_start_eq: "day_start_unix now = cst_day now * 86400 - cst_offset"
  by (auto simp: day_start_unix_def dest: civil_spec(1) split: prod.split)

lemma day_start_bounds: "day_start_unix now \<le> now" "now < day_start_unix now + 86400"
  using pos_mod_sign[of 86400 "now + cst_offset"] pos_mod_bound[of 86400 "now + cst_offset"]
    div_mult_mod_eq[of "now + cst_offset" 86400]
  unfolding day_start_eq cst_day_def by linarith+

lemma month_start_day_start: "month_start_unix now \<le> day_start_unix now"
proof -
  obtain y m d where c: "civil (cst_day now) = (y, m, d)" by (cases "civil (cst_day now)")
  have "date_days y m 1 \<le> date_days y m d" using civil_spec(4)[OF c] by (simp add: date_days_def)
  then show ?thesis by (simp add: day_start_unix_def month_start_unix_def c)
qed

lemma month_start_le: "month_start_unix now \<le> now"
  using month_start_day_start day_start_bounds(1) by (rule order_trans)

lemma date_days_month_mono:
  assumes "1 \<le> m" "m < m'" "m' \<le> 12" "d \<le> month_lengths y ! nat (m - 1)" "1 \<le> d'"
  shows "date_days y m d < date_days y m' d'"
proof -
  let ?L = "month_lengths y"
  have len: "length ?L = 12" by (simp add: month_lengths_def)
  have "take (nat m) ?L = take (nat (m - 1)) ?L @ [?L ! nat (m - 1)]"
    using assms len take_Suc_conv_app_nth[of "nat (m - 1)" ?L] by (simp add: Suc_nat_eq_nat_zadd1)
  then have "sum_list (take (nat m) ?L) = sum_list (take (nat (m - 1)) ?L) + ?L ! nat (m - 1)" by simp
  moreover have "sum_list (take (nat m) ?L) \<le> sum_list (take (nat (m' - 1)) ?L)"
  proof -
    have "take (nat (m' - 1)) ?L = take (nat m) ?L @ take (nat (m' - 1) - nat m) (drop (nat m) ?L)"
      using assms take_add[of "nat m" "nat (m' - 1) - nat m" ?L] by simp
    moreover have "0 \<le> sum_list (take (nat (m' - 1) - nat m) (drop (nat m) ?L))"
      by (rule sum_list_nonneg) (auto simp: month_lengths_def dest!: in_set_takeD in_set_dropD split: if_splits)
    ultimately show ?thesis by simp
  qed
  ultimately show ?thesis using assms by (simp add: date_days_def)
qed

lemma date_days_in_year:
  assumes "1 \<le> m" "m \<le> 12" "1 \<le> d" "d \<le> month_lengths y ! nat (m - 1)"
  shows "days_before_year y \<le> date_days y m d" "date_days y m d < days_before_year (y + 1)"
proof -
  have nn: "0 \<le> sum_list (take (nat (m - 1)) (month_lengths y))"
    by (rule sum_list_nonneg) (auto simp: month_lengths_def dest!: in_set_takeD split: if_splits)
  then show "days_before_year y \<le> date_days y m d" using assms by (simp add: date_days_def)
  have "date_days y m d \<le> date_days y 12 31"
  proof (cases "m = 12")
    case True with assms show ?thesis by (simp add: date_days_def month_lengths_def)
  next
    case False
    with assms date_days_month_mono[of m 12 d y 31] show ?thesis by simp
  qed
  also have "date_days y 12 31 < days_before_year (y + 1)"
    using sum_month_lengths[of y] by (simp add: date_days_def month_lengths_def)
  finally show "date_days y m d < days_before_year (y + 1)" .
qed

text \<open>A date names one day: the calendar is a bijection between days and valid dates.\<close>

lemma civil_date_days:
  assumes "1 \<le> m" "m \<le> 12" "1 \<le> d" "d \<le> month_lengths y ! nat (m - 1)"
  shows "civil (date_days y m d) = (y, m, d)"
proof -
  obtain y' m' d' where c: "civil (date_days y m d) = (y', m', d')" by (cases "civil (date_days y m d)")
  have y: "y' = y" using civil_spec(6)[OF c] civil_year_unique[OF date_days_in_year[OF assms]] by simp
  note s = civil_spec[OF c, unfolded y]
  have "m' = m"
    using date_days_month_mono[of m m' d y d'] date_days_month_mono[of m' m d' y d] s assms by force
  with s(1) y c show ?thesis by (simp add: date_days_def)
qed

end
