(* ===== verification/Workspace.thy ===== *)
theory Workspace
  imports Orders GoTime
begin

text \<open>
  Workspaces (\<open>internal/saas/db/workspace.go\<close>): a shared pool, its ledger, the members with
  their caps, and the charge that draws on the pool before the member's own wallet.
  The pool follows the same ledger contract as a wallet (\<open>pool_ledger\<close>).
\<close>

definition WSRoleAdmin :: string where "WSRoleAdmin = ''admin''"
definition WSRoleMember :: string where "WSRoleMember = ''member''"

lemma roles_differ [simp]: "WSRoleAdmin \<noteq> WSRoleMember" "WSRoleMember \<noteq> WSRoleAdmin"
  by (simp_all add: WSRoleAdmin_def WSRoleMember_def)

section \<open>Rows\<close>

definition workspace_row :: "db \<Rightarrow> int \<Rightarrow> workspace option" where
  "workspace_row d wsid = find (\<lambda>w. ws_id w = wsid) (workspaces d)"

definition member_row :: "db \<Rightarrow> string \<Rightarrow> workspace_member option" where
  "member_row d tok = find (\<lambda>m. m_token m = tok) (workspace_members d)"

definition pool_balance :: "db \<Rightarrow> int \<Rightarrow> float64 option" where
  "pool_balance d wsid = map_option ws_balance_usd (workspace_row d wsid)"

definition pool_entries :: "db \<Rightarrow> int \<Rightarrow> float64 list" where
  "pool_entries d wsid = map wst_amount_usd (filter (\<lambda>t. wst_workspace_id t = wsid) (workspace_txs d))"

definition update_workspace_row :: "int \<Rightarrow> (workspace \<Rightarrow> workspace) \<Rightarrow> db \<Rightarrow> db" where
  "update_workspace_row wsid f d = d\<lparr>workspaces := sql_update (\<lambda>w. ws_id w = wsid) f (workspaces d)\<rparr>"

definition set_pool_balance :: "int \<Rightarrow> float64 \<Rightarrow> int \<Rightarrow> db \<Rightarrow> db" where
  "set_pool_balance wsid bal now = update_workspace_row wsid (\<lambda>w. w\<lparr>ws_balance_usd := bal, ws_updated_at := now\<rparr>)"

text \<open>The workspace of the row has been read in the same transaction, so its foreign key holds.\<close>

definition insert_workspace_tx :: "int \<Rightarrow> string \<Rightarrow> string \<Rightarrow> float64 \<Rightarrow> string \<Rightarrow> string \<Rightarrow> int \<Rightarrow> db \<Rightarrow> db" where
  "insert_workspace_tx wsid tok kind amount ref note now d = (bump_seq Seq_workspace_tx d)\<lparr>workspace_txs := workspace_txs d @
     [\<lparr>wst_id = next_id Seq_workspace_tx d, wst_workspace_id = wsid, wst_token = tok, wst_kind = kind,
       wst_amount_usd = amount, wst_ref = ref, wst_note = note, wst_created_at = now\<rparr>]\<rparr>"

section \<open>Workspaces\<close>

definition get_workspace :: "int \<Rightarrow> workspace dbm" where
  "get_workspace wsid = query_row ErrNotFound (\<lambda>d. workspace_row d wsid)"

definition insert_workspace :: "string \<Rightarrow> int \<Rightarrow> db \<Rightarrow> db_error + int \<times> db" where
  "insert_workspace name now d = (let wsid = next_id Seq_workspaces d in
     Inr (wsid, (bump_seq Seq_workspaces d)\<lparr>workspaces := workspaces d @
       [\<lparr>ws_id = wsid, ws_name = name, ws_balance_usd = 0, ws_disabled = False,
         ws_created_at = now, ws_updated_at = now\<rparr>]\<rparr>))"

definition create_workspace :: "int \<Rightarrow> string \<Rightarrow> workspace dbm" where
  "create_workspace now name0 = (let name = trim_space name0 in
     if name = [] then throw (ErrMessage ''workspace name required'')
     else bnd (stmt (insert_workspace name now)) (\<lambda>wsid. get_workspace wsid))"

text \<open>Each workspace with its numbers of members and of admins.\<close>

definition list_workspaces :: "(workspace \<times> nat \<times> nat) list dbm" where
  "list_workspaces = query (\<lambda>d. map (\<lambda>w. (w,
       sql_count (\<lambda>m. m_workspace_id m = ws_id w) (workspace_members d),
       sql_count (\<lambda>m. m_workspace_id m = ws_id w \<and> m_role m = ''admin'') (workspace_members d)))
     (sql_desc ws_id (workspaces d)))"

definition update_workspace :: "int \<Rightarrow> int \<Rightarrow> string option \<Rightarrow> bool option \<Rightarrow> unit dbm" where
  "update_workspace now wsid name disabled =
     bnd (get_workspace wsid) (\<lambda>_.
     bnd (case name of None \<Rightarrow> ret ()
          | Some nm \<Rightarrow> let n = trim_space nm in
              if n = [] then throw (ErrMessage ''workspace name required'')
              else exec (update_workspace_row wsid (\<lambda>w. w\<lparr>ws_name := n, ws_updated_at := now\<rparr>))) (\<lambda>_.
     case disabled of None \<Rightarrow> ret ()
     | Some b \<Rightarrow> exec (update_workspace_row wsid (\<lambda>w. w\<lparr>ws_disabled := b, ws_updated_at := now\<rparr>))))"

definition adjust_workspace_balance :: "int \<Rightarrow> int \<Rightarrow> float64 \<Rightarrow> string \<Rightarrow> string \<Rightarrow> string \<Rightarrow> float64 dbm" where
  "adjust_workspace_balance now wsid delta kind0 ref note = in_tx (
     bnd (query_row ErrNotFound (\<lambda>d. pool_balance d wsid)) (\<lambda>bal0.
     let bal = fadd bal0 delta in
     bnd (exec (set_pool_balance wsid bal now)) (\<lambda>_.
     let kind = (if kind0 = [] then TxKindAdjust else kind0) in
     bnd (exec (insert_workspace_tx wsid [] kind delta ref note now)) (\<lambda>_.
     ret bal))))"

section \<open>Members\<close>

definition member_for :: "string \<Rightarrow> workspace_member dbm" where
  "member_for tok = query_row ErrNotFound (\<lambda>d. member_row d tok)"

definition insert_member :: "workspace_member \<Rightarrow> db \<Rightarrow> db_error + unit \<times> db" where
  "insert_member m d =
     (if member_row d (m_token m) \<noteq> None then Inl UniqueViolation
      else if workspace_row d (m_workspace_id m) = None then Inl ForeignKeyViolation
      else Inr ((), d\<lparr>workspace_members := workspace_members d @ [m]\<rparr>))"

definition add_member :: "int \<Rightarrow> int \<Rightarrow> string \<Rightarrow> string \<Rightarrow> float64 \<Rightarrow> float64 \<Rightarrow> unit dbm" where
  "add_member now wsid tok role0 daily0 monthly0 =
     bnd (get_workspace wsid) (\<lambda>_.
     let role = (if role0 \<noteq> WSRoleAdmin then WSRoleMember else role0);
         daily = (if daily0 < 0 then 0 else daily0);
         monthly = (if monthly0 < 0 then 0 else monthly0) in
     bnd (attempt (stmt (insert_member \<lparr>m_workspace_id = wsid, m_token = tok, m_role = role,
            m_daily_usd_cap = daily, m_monthly_usd_cap = monthly, m_created_at = now, m_updated_at = now\<rparr>))) (\<lambda>r.
     case r of Inr _ \<Rightarrow> ret ()
     | Inl e \<Rightarrow> if e = UniqueViolation then throw ErrMemberExists else throw e))"

definition update_member_row :: "string \<Rightarrow> (workspace_member \<Rightarrow> workspace_member) \<Rightarrow> db \<Rightarrow> db" where
  "update_member_row tok f d = d\<lparr>workspace_members := sql_update (\<lambda>m. m_token m = tok) f (workspace_members d)\<rparr>"

definition update_member :: "int \<Rightarrow> string \<Rightarrow> string option \<Rightarrow> float64 option \<Rightarrow> float64 option \<Rightarrow> unit dbm" where
  "update_member now tok role daily monthly =
     bnd (member_for tok) (\<lambda>_.
     bnd (case role of None \<Rightarrow> ret ()
          | Some r0 \<Rightarrow> let r = (if r0 = WSRoleAdmin then WSRoleAdmin else WSRoleMember) in
              exec (update_member_row tok (\<lambda>m. m\<lparr>m_role := r, m_updated_at := now\<rparr>))) (\<lambda>_.
     bnd (case daily of None \<Rightarrow> ret ()
          | Some v0 \<Rightarrow> let v = (if v0 < 0 then 0 else v0) in
              exec (update_member_row tok (\<lambda>m. m\<lparr>m_daily_usd_cap := v, m_updated_at := now\<rparr>))) (\<lambda>_.
     case monthly of None \<Rightarrow> ret ()
     | Some v0 \<Rightarrow> let v = (if v0 < 0 then 0 else v0) in
         exec (update_member_row tok (\<lambda>m. m\<lparr>m_monthly_usd_cap := v, m_updated_at := now\<rparr>)))))"

definition remove_member :: "string \<Rightarrow> unit dbm" where
  "remove_member tok =
     bnd (exec_count (\<lambda>d. sql_count (\<lambda>m. m_token m = tok) (workspace_members d))
           (\<lambda>d. d\<lparr>workspace_members := sql_delete (\<lambda>m. m_token m = tok) (workspace_members d)\<rparr>))
       (\<lambda>n. if n = 0 then throw ErrNotFound else ret ())"

definition list_members :: "int \<Rightarrow> workspace_member list dbm" where
  "list_members wsid = query (\<lambda>d. order_by
     (\<lambda>a b. text_less (m_role b) (m_role a) \<or> (m_role a = m_role b \<and> m_created_at a < m_created_at b))
     (filter (\<lambda>m. m_workspace_id m = wsid) (workspace_members d)))"

definition workspace_admin_for :: "string \<Rightarrow> workspace dbm" where
  "workspace_admin_for tok =
     bnd (query_row ErrNotFound (\<lambda>d. map_option m_workspace_id
           (find (\<lambda>m. m_token m = tok \<and> m_role m = WSRoleAdmin) (workspace_members d)))) (\<lambda>wsid.
     get_workspace wsid)"

definition count_workspace_admins :: "int \<Rightarrow> nat dbm" where
  "count_workspace_admins wsid =
     query (\<lambda>d. sql_count (\<lambda>m. m_workspace_id m = wsid \<and> m_role m = WSRoleAdmin) (workspace_members d))"

definition sole_admin_workspace :: "string \<Rightarrow> (int \<times> bool) dbm" where
  "sole_admin_workspace tok =
     bnd (attempt (member_for tok)) (\<lambda>r. case r of
       Inl e \<Rightarrow> if e = ErrNotFound then ret (0, False) else throw e
     | Inr m \<Rightarrow> if m_role m \<noteq> WSRoleAdmin then ret (0, False)
         else bnd (count_workspace_admins (m_workspace_id m)) (\<lambda>n. ret (m_workspace_id m, n \<le> 1)))"

section \<open>What was drawn from the pool\<close>

definition pool_spent_since :: "sqlite \<Rightarrow> string \<Rightarrow> int \<Rightarrow> db \<Rightarrow> float64" where
  "pool_spent_since q tok since d = - coalesce_sum q (map wst_amount_usd
     (filter (\<lambda>t. wst_token t = tok \<and> wst_kind t = ''charge'' \<and> since \<le> wst_created_at t) (workspace_txs d)))"

definition member_period_pool_spend :: "sqlite \<Rightarrow> int \<Rightarrow> string \<Rightarrow> (float64 \<times> float64) dbm" where
  "member_period_pool_spend q now tok =
     bnd (or_zero 0 (query (pool_spent_since q tok (day_start_unix now)))) (\<lambda>day.
     bnd (or_zero 0 (query (pool_spent_since q tok (month_start_unix now)))) (\<lambda>month.
     ret (day, month)))"

text \<open>GROUP BY token, keyed by the token; the rows with no token are dropped.\<close>

definition grouped_spend :: "sqlite \<Rightarrow> (string \<times> float64) list \<Rightarrow> string \<rightharpoonup> float64" where
  "grouped_spend q rows tok =
     (if tok = [] \<or> tok \<notin> fst ` set rows then None
      else Some (- coalesce_sum q (map snd (filter (\<lambda>r. fst r = tok) rows))))"

definition member_pool_spend_between :: "sqlite \<Rightarrow> int \<Rightarrow> int \<Rightarrow> int \<Rightarrow> (string \<rightharpoonup> float64) dbm" where
  "member_pool_spend_between q wsid lo hi = query (\<lambda>d. grouped_spend q (map (\<lambda>t. (wst_token t, wst_amount_usd t))
     (filter (\<lambda>t. wst_workspace_id t = wsid \<and> wst_kind t = ''charge'' \<and> lo \<le> wst_created_at t \<and> wst_created_at t < hi)
       (workspace_txs d))))"

definition member_personal_spend_between :: "sqlite \<Rightarrow> int \<Rightarrow> int \<Rightarrow> int \<Rightarrow> (string \<rightharpoonup> float64) dbm" where
  "member_personal_spend_between q wsid lo hi = query (\<lambda>d. grouped_spend q (map (\<lambda>t. (wt_token t, wt_amount_usd t))
     (filter (\<lambda>t. (\<exists>m \<in> set (workspace_members d). m_token m = wt_token t \<and> m_workspace_id m = wsid) \<and>
                  wt_kind t = ''charge'' \<and> lo \<le> wt_created_at t \<and> wt_created_at t < hi)
       (wallet_txs d))))"

definition list_workspace_tx :: "int \<Rightarrow> int \<Rightarrow> workspace_tx list dbm" where
  "list_workspace_tx wsid limit0 = (let limit = (if limit0 \<le> 0 then 100 else limit0) in
     query (\<lambda>d. take (nat limit) (sql_desc wst_id (filter (\<lambda>t. wst_workspace_id t = wsid) (workspace_txs d)))))"

section \<open>Charging\<close>

definition cap_avail :: "float64 \<Rightarrow> float64 \<Rightarrow> float64 \<Rightarrow> float64 \<Rightarrow> float64 \<Rightarrow> float64" where
  "cap_avail wsBal dailyCap usedDay monthlyCap usedMonth =
     (let avail = wsBal;
          avail = (if 0 < dailyCap then let left = fsub dailyCap usedDay in if left < avail then left else avail else avail);
          avail = (if 0 < monthlyCap then let left = fsub monthlyCap usedMonth in if left < avail then left else avail else avail)
      in if avail < 0 then 0 else avail)"

definition pool_avail :: "sqlite \<Rightarrow> int \<Rightarrow> string \<Rightarrow> workspace_member \<Rightarrow> float64 \<Rightarrow> float64 dbm" where
  "pool_avail q now tok m wsBal =
     bnd (if 0 < m_daily_usd_cap m then or_zero 0 (query (pool_spent_since q tok (day_start_unix now))) else ret 0) (\<lambda>usedDay.
     bnd (if 0 < m_monthly_usd_cap m then or_zero 0 (query (pool_spent_since q tok (month_start_unix now))) else ret 0) (\<lambda>usedMonth.
     ret (cap_avail wsBal (m_daily_usd_cap m) usedDay (m_monthly_usd_cap m) usedMonth)))"

definition member_pool_avail :: "sqlite \<Rightarrow> int \<Rightarrow> string \<Rightarrow> float64 dbm" where
  "member_pool_avail q now tok = or_zero 0 (
     bnd (query_row ErrNoRows (\<lambda>d. member_row d tok)) (\<lambda>m.
     bnd (query_row ErrNoRows (\<lambda>d. workspace_row d (m_workspace_id m))) (\<lambda>w.
     if ws_disabled w \<or> ws_balance_usd w \<le> 0 then ret 0
     else pool_avail q now tok m (ws_balance_usd w))))"

text \<open>The pool's part of a charge, with the workspace it is drawn from.\<close>

definition pool_part :: "sqlite \<Rightarrow> int \<Rightarrow> string \<Rightarrow> float64 \<Rightarrow> (float64 \<times> int) dbm" where
  "pool_part q now tok cost =
     bnd (query (\<lambda>d. member_row d tok)) (\<lambda>mr. case mr of
       None \<Rightarrow> ret (0, 0)
     | Some m \<Rightarrow> bnd (query (\<lambda>d. workspace_row d (m_workspace_id m))) (\<lambda>wr. case wr of
         None \<Rightarrow> ret (0, m_workspace_id m)
       | Some w \<Rightarrow> if \<not> ws_disabled w \<and> 0 < ws_balance_usd w
           then bnd (pool_avail q now tok m (ws_balance_usd w)) (\<lambda>avail.
                ret (if avail < cost then avail else cost, m_workspace_id m))
           else ret (0, m_workspace_id m)))"

definition debit_pool :: "int \<Rightarrow> string \<Rightarrow> int \<Rightarrow> float64 \<Rightarrow> string \<Rightarrow> string \<Rightarrow> unit dbm" where
  "debit_pool now tok wsid poolPaid ref note =
     bnd (exec (update_workspace_row wsid
           (\<lambda>w. w\<lparr>ws_balance_usd := fsub (ws_balance_usd w) poolPaid, ws_updated_at := now\<rparr>))) (\<lambda>_.
     exec (insert_workspace_tx wsid tok ''charge'' (- poolPaid) ref note now))"

definition debit_wallet :: "int \<Rightarrow> string \<Rightarrow> float64 \<Rightarrow> float64 \<Rightarrow> string \<Rightarrow> string \<Rightarrow> unit dbm" where
  "debit_wallet now tok poolPaid personalPaid ref note =
     bnd (query_row ErrNoRows (\<lambda>d. wallet_balance d tok)) (\<lambda>bal0.
     let bal = fsub bal0 personalPaid in
     bnd (exec (set_wallet_balance tok bal now)) (\<lambda>_.
     let pnote = (if 0 < poolPaid then note @ '' (personal fallback)'' else note) in
     exec (insert_wallet_tx tok TxKindCharge (- personalPaid) ref pnote now)))"

definition charge_tx :: "sqlite \<Rightarrow> int \<Rightarrow> string \<Rightarrow> float64 \<Rightarrow> string \<Rightarrow> string \<Rightarrow> (float64 \<times> float64) dbm" where
  "charge_tx q now tok cost ref note = in_tx (
     bnd (pool_part q now tok cost) (\<lambda>(poolPaid, wsid).
     bnd (if 0 < poolPaid then debit_pool now tok wsid poolPaid ref note else ret ()) (\<lambda>_.
     let personalPaid = fsub cost poolPaid in
     bnd (if 0 < personalPaid then debit_wallet now tok poolPaid personalPaid ref note else ret ()) (\<lambda>_.
     ret (poolPaid, personalPaid)))))"

text \<open>The query that does nothing is \<open>db.Conn\<close>, which fails like a statement and changes nothing.\<close>

definition charge_member_first :: "sqlite \<Rightarrow> int \<Rightarrow> string \<Rightarrow> float64 \<Rightarrow> string \<Rightarrow> string \<Rightarrow> (float64 \<times> float64) dbm" where
  "charge_member_first q now tok cost ref note =
     (if tok = [] \<or> cost \<le> 0 then ret (0, 0)
      else bnd (ensure_wallet now tok) (\<lambda>_.
           bnd (query (\<lambda>_. ())) (\<lambda>_.
           charge_tx q now tok cost ref note)))"

definition credit_paid_order_to_workspace :: "int \<Rightarrow> string \<Rightarrow> string \<Rightarrow> int \<Rightarrow> float64 \<Rightarrow> string \<Rightarrow> string \<Rightarrow> float64 dbm" where
  "credit_paid_order_to_workspace now no trade_no wsid usd_credit ref note = in_tx (
     bnd (mark_order_paid no trade_no now) (\<lambda>n.
     if n = 0 then throw ErrOrderNotPending
     else bnd (query_row ErrNotFound (\<lambda>d. pool_balance d wsid)) (\<lambda>bal0.
          let bal = fadd bal0 usd_credit in
          bnd (exec (set_pool_balance wsid bal now)) (\<lambda>_.
          bnd (exec (insert_workspace_tx wsid [] TxKindTopup usd_credit ref note now)) (\<lambda>_.
          ret bal)))))"

section \<open>Net effects and the ledger contract\<close>

type_synonym pool_meta = "string \<times> string \<times> string \<times> string \<times> int"

definition pool_post :: "int \<Rightarrow> float64 \<Rightarrow> pool_meta \<Rightarrow> db \<Rightarrow> db" where
  "pool_post wsid x m d = (case m of (tok, kind, ref, note, now) \<Rightarrow>
     insert_workspace_tx wsid tok kind x ref note now
       (set_pool_balance wsid (fadd (case pool_balance d wsid of None \<Rightarrow> 0 | Some b \<Rightarrow> b) x) now d))"

definition workspaces_keyed :: "db \<Rightarrow> bool" where
  "workspaces_keyed d \<longleftrightarrow> distinct (map ws_id (workspaces d))"

lemma workspace_row_id: "workspace_row d k = Some w \<Longrightarrow> ws_id w = k"
  by (auto simp: workspace_row_def dest: find_Some_mem)

lemma workspace_row_update:
  "(\<And>w. ws_id (f w) = ws_id w) \<Longrightarrow> workspace_row (update_workspace_row wsid f d) k =
     map_option (\<lambda>w. if ws_id w = wsid then f w else w) (workspace_row d k)"
  by (simp add: workspace_row_def update_workspace_row_def find_sql_update)

lemma pool_balance_set:
  "pool_balance d wsid = Some b \<Longrightarrow> pool_balance (set_pool_balance wsid x now d) = (pool_balance d)(wsid \<mapsto> x)"
  by (auto simp: fun_eq_iff pool_balance_def set_pool_balance_def workspace_row_update option.map_comp
      dest: workspace_row_id intro!: map_option_cong)

lemma pool_balance_insert_tx [simp]:
  "pool_balance (insert_workspace_tx wsid tok kind x ref note now d) = pool_balance d"
  by (simp add: fun_eq_iff pool_balance_def workspace_row_def insert_workspace_tx_def)

lemma pool_entries_insert_tx:
  "pool_entries (insert_workspace_tx wsid tok kind x ref note now d) = (pool_entries d)(wsid := pool_entries d wsid @ [x])"
  by (simp add: fun_eq_iff pool_entries_def insert_workspace_tx_def)

lemma pool_entries_update [simp]: "pool_entries (update_workspace_row wsid f d) = pool_entries d"
  by (simp add: fun_eq_iff pool_entries_def update_workspace_row_def)

lemma workspaces_keyed_update:
  "(\<And>w. ws_id (f w) = ws_id w) \<Longrightarrow> workspaces_keyed (update_workspace_row wsid f d) = workspaces_keyed d"
  by (simp add: workspaces_keyed_def update_workspace_row_def map_sql_update_same)

lemma workspaces_keyed_insert_tx [simp]:
  "workspaces_keyed (insert_workspace_tx wsid tok kind x ref note now d) = workspaces_keyed d"
  by (simp add: workspaces_keyed_def insert_workspace_tx_def)

lemma set_pool_views [simp]:
  "pool_entries (set_pool_balance wsid x now d) = pool_entries d"
  "workspaces_keyed (set_pool_balance wsid x now d) = workspaces_keyed d"
  by (simp_all add: set_pool_balance_def workspaces_keyed_update)

interpretation pool_ledger: ledger_account pool_balance pool_entries pool_post workspaces_keyed
  by unfold_locales
    (auto simp: pool_post_def pool_balance_set pool_entries_insert_tx simp del: fun_upd_apply split: prod.splits)

definition member_role_known :: "string \<Rightarrow> bool" where
  "member_role_known r \<longleftrightarrow> r = WSRoleAdmin \<or> r = WSRoleMember"

lemma member_role_known [simp]: "member_role_known WSRoleAdmin" "member_role_known WSRoleMember"
  by (simp_all add: member_role_known_def)

definition members_ok :: "db \<Rightarrow> bool" where
  "members_ok d \<longleftrightarrow> distinct (map m_token (workspace_members d)) \<and>
     (\<forall>m \<in> set (workspace_members d). m_workspace_id m \<in> ws_id ` set (workspaces d) \<and>
        member_role_known (m_role m) \<and> 0 \<le> m_daily_usd_cap m \<and> 0 \<le> m_monthly_usd_cap m)"

definition pools_ok :: "db \<Rightarrow> bool" where
  "pools_ok d \<longleftrightarrow> workspaces_keyed d \<and> (\<forall>i \<in> ws_id ` set (workspaces d). i \<le> sequences d Seq_workspaces) \<and>
     sorted_wrt (<) (map wst_id (workspace_txs d)) \<and>
     (\<forall>t \<in> set (workspace_txs d). wst_id t \<le> sequences d Seq_workspace_tx \<and>
        wst_workspace_id t \<in> ws_id ` set (workspaces d)) \<and>
     balanced pool_balance pool_entries d"

definition workspaces_ok :: "db \<Rightarrow> bool" where
  "workspaces_ok d \<longleftrightarrow> pools_ok d \<and> members_ok d"

lemma workspaces_ok_initial: "workspaces_ok (initial_db now)"
  by (simp add: workspaces_ok_def pools_ok_def members_ok_def workspaces_keyed_def initial_db_def balanced_def
      pool_balance_def workspace_row_def pool_entries_def)

lemma pool_balance_mem: "pool_balance d wsid = Some b \<Longrightarrow> wsid \<in> ws_id ` set (workspaces d)"
  by (force simp: pool_balance_def workspace_row_def dest: find_Some_mem)

lemma pool_post_sel [simp]:
  "wallets (pool_post wsid x m d) = wallets d" "wallet_txs (pool_post wsid x m d) = wallet_txs d"
  "pricing_groups (pool_post wsid x m d) = pricing_groups d" "alipay_orders (pool_post wsid x m d) = alipay_orders d"
  "workspace_members (pool_post wsid x m d) = workspace_members d"
  "invoices (pool_post wsid x m d) = invoices d" "invoice_allocations (pool_post wsid x m d) = invoice_allocations d"
  by (simp_all add: pool_post_def insert_workspace_tx_def set_pool_balance_def update_workspace_row_def split: prod.splits)

lemma pool_post_ids: "ws_id ` set (workspaces (pool_post wsid x m d)) = ws_id ` set (workspaces d)"
proof -
  have "map ws_id (workspaces (pool_post wsid x m d)) = map ws_id (workspaces d)"
    by (simp add: pool_post_def insert_workspace_tx_def set_pool_balance_def update_workspace_row_def
        map_sql_update_same split: prod.splits)
  then show ?thesis by (metis set_map)
qed

lemma pools_ok_post:
  assumes ok: "pools_ok d" and b: "pool_balance d wsid = Some b"
  shows "pools_ok (pool_post wsid x m d)"
proof -
  obtain tok kind ref nt now where m: "m = (tok, kind, ref, nt, now)" by (cases m)
  have "balanced pool_balance pool_entries (pool_post wsid x m d)" "workspaces_keyed (pool_post wsid x m d)"
    using assms by (auto simp: pools_ok_def intro: pool_ledger.post_balanced pool_ledger.keyed_post)
  moreover have "workspace_txs (pool_post wsid x m d) = workspace_txs d @
      [\<lparr>wst_id = sequences d Seq_workspace_tx + 1, wst_workspace_id = wsid, wst_token = tok, wst_kind = kind,
        wst_amount_usd = x, wst_ref = ref, wst_note = nt, wst_created_at = now\<rparr>]"
    "sequences (pool_post wsid x m d) = (sequences d)(Seq_workspace_tx := sequences d Seq_workspace_tx + 1)"
    by (simp_all add: m pool_post_def insert_workspace_tx_def set_pool_balance_def update_workspace_row_def next_id_def)
  moreover have "\<forall>i \<in> ws_id ` set (workspaces (pool_post wsid x m d)). i \<le> sequences d Seq_workspaces"
    using ok unfolding pools_ok_def pool_post_ids by blast
  ultimately show ?thesis using ok pool_balance_mem[OF b]
    by (fastforce simp: pools_ok_def sorted_wrt_append pool_post_ids)
qed

lemma workspaces_ok_post:
  "workspaces_ok d \<Longrightarrow> pool_balance d wsid = Some b \<Longrightarrow> workspaces_ok (pool_post wsid x m d)"
  by (auto simp: workspaces_ok_def pools_ok_post members_ok_def pool_post_ids)

lemma debit_row_set:
  assumes "workspaces_keyed d" "workspace_row d wsid = Some w"
  shows "update_workspace_row wsid (\<lambda>w. w\<lparr>ws_balance_usd := fsub (ws_balance_usd w) p, ws_updated_at := now\<rparr>) d =
         set_pool_balance wsid (fsub (ws_balance_usd w) p) now d"
proof -
  have "w' = w" if "w' \<in> set (workspaces d)" "ws_id w' = wsid" for w'
    using assms that find_key_unique[of ws_id "workspaces d" w' wsid]
    by (auto simp: workspaces_keyed_def workspace_row_def)
  then show ?thesis
    by (auto simp: update_workspace_row_def set_pool_balance_def sql_update_def)
qed

section \<open>Outcomes of the charge\<close>

lemma cap_avail_nonneg: "0 \<le> cap_avail b dc ud mc um"
  by (simp add: cap_avail_def Let_def)

lemma cap_avail_bounds:
  assumes "0 \<le> b"
  shows "cap_avail b dc ud mc um \<le> b"
    and "0 < dc \<Longrightarrow> cap_avail b dc ud mc um \<le> max 0 (fsub dc ud)"
    and "0 < mc \<Longrightarrow> cap_avail b dc ud mc um \<le> max 0 (fsub mc um)"
  using assms by (auto simp: cap_avail_def Let_def)

lemma read_only_pool_avail: "read_only (pool_avail q now tok m b)"
  unfolding pool_avail_def by (intro atomic_intros) (auto intro: atomic_intros)

lemma pool_avail_result:
  assumes "pool_avail q now tok m b s = (Inr a, s')"
  obtains ud um where "a = cap_avail b (m_daily_usd_cap m) ud (m_monthly_usd_cap m) um"
    "plan s = [] \<Longrightarrow> 0 < m_daily_usd_cap m \<Longrightarrow> ud = pool_spent_since q tok (day_start_unix now) (store s)"
    "plan s = [] \<Longrightarrow> 0 < m_monthly_usd_cap m \<Longrightarrow> um = pool_spent_since q tok (month_start_unix now) (store s)"
proof -
  from assms obtain ud s1 um s2 where
    d: "(if 0 < m_daily_usd_cap m then or_zero 0 (query (pool_spent_since q tok (day_start_unix now))) else ret 0) s = (Inr ud, s1)"
    and mo: "(if 0 < m_monthly_usd_cap m then or_zero 0 (query (pool_spent_since q tok (month_start_unix now))) else ret 0) s1 = (Inr um, s2)"
    and a: "a = cap_avail b (m_daily_usd_cap m) ud (m_monthly_usd_cap m) um"
    by (auto simp: pool_avail_def bnd_Inr ret_iff)
  have s1: "s1 = s \<or> s1 = tick s" using d by (auto simp: or_zero_query ret_iff split: if_splits)
  show thesis
    by (rule that[OF a])
      (use d mo s1 in \<open>auto simp: or_zero_query ret_iff faulty_def tick_def split: if_splits\<close>)
qed

lemma read_only_pool_part: "read_only (pool_part q now tok cost)"
  unfolding pool_part_def
  by (intro read_only_bnd read_only_query)
    (auto split: option.split intro!: read_only_bnd read_only_query read_only_ret read_only_pool_avail)

text \<open>What the pool pays, when it pays: within the charge, the pool, and the caps.\<close>

definition pool_draw_ok :: "sqlite \<Rightarrow> int \<Rightarrow> string \<Rightarrow> float64 \<Rightarrow> float64 \<Rightarrow> int \<Rightarrow> session \<Rightarrow> bool" where
  "pool_draw_ok q now tok cost p wsid s \<longleftrightarrow> (\<exists>m w. member_row (store s) tok = Some m \<and> m_workspace_id m = wsid \<and>
     workspace_row (store s) wsid = Some w \<and> \<not> ws_disabled w \<and> p \<le> ws_balance_usd w \<and> p \<le> cost \<and>
     (plan s = [] \<longrightarrow> 0 < m_daily_usd_cap m \<longrightarrow> p \<le> max 0 (fsub (m_daily_usd_cap m) (pool_spent_since q tok (day_start_unix now) (store s)))) \<and>
     (plan s = [] \<longrightarrow> 0 < m_monthly_usd_cap m \<longrightarrow> p \<le> max 0 (fsub (m_monthly_usd_cap m) (pool_spent_since q tok (month_start_unix now) (store s)))))"

lemma pool_part_result:
  assumes run: "pool_part q now tok cost s = (Inr (p, wsid), s')" and cost: "0 < cost"
  shows "0 \<le> p" "p = 0 \<or> pool_draw_ok q now tok cost p wsid s"
proof -
  from run obtain mr s1 where m: "query (\<lambda>d. member_row d tok) s = (Inr mr, s1)"
    and rest: "(case mr of None \<Rightarrow> ret (0, 0)
     | Some m \<Rightarrow> bnd (query (\<lambda>d. workspace_row d (m_workspace_id m))) (\<lambda>wr. case wr of
         None \<Rightarrow> ret (0, m_workspace_id m)
       | Some w \<Rightarrow> if \<not> ws_disabled w \<and> 0 < ws_balance_usd w
           then bnd (pool_avail q now tok m (ws_balance_usd w)) (\<lambda>avail.
                ret (if avail < cost then avail else cost, m_workspace_id m))
           else ret (0, m_workspace_id m))) s1 = (Inr (p, wsid), s')"
    by (auto simp: pool_part_def bnd_Inr)
  have "0 \<le> p \<and> (p = 0 \<or> pool_draw_ok q now tok cost p wsid s)"
  proof (cases mr)
    case None with rest show ?thesis by (simp add: ret_iff)
  next
    case (Some mm)
    with m have mrow: "member_row (store s) tok = Some mm" and s1: "s1 = tick s" by (auto simp: query_Inr)
    from rest Some obtain wr s2 where w: "query (\<lambda>d. workspace_row d (m_workspace_id mm)) s1 = (Inr wr, s2)"
      and rest2: "(case wr of None \<Rightarrow> ret (0, m_workspace_id mm)
       | Some w \<Rightarrow> if \<not> ws_disabled w \<and> 0 < ws_balance_usd w
           then bnd (pool_avail q now tok mm (ws_balance_usd w)) (\<lambda>avail.
                ret (if avail < cost then avail else cost, m_workspace_id mm))
           else ret (0, m_workspace_id mm)) s2 = (Inr (p, wsid), s')" by (auto simp: bnd_Inr)
    show ?thesis
    proof (cases "\<exists>ww. wr = Some ww \<and> \<not> ws_disabled ww \<and> 0 < ws_balance_usd ww")
      case False with rest2 show ?thesis by (auto simp: ret_iff split: option.splits if_splits)
    next
      case True
      then obtain ww where ww: "wr = Some ww" "\<not> ws_disabled ww" "0 < ws_balance_usd ww" by blast
      with w s1 have wrow: "workspace_row (store s) (m_workspace_id mm) = Some ww" and s2: "s2 = tick (tick s)"
        by (auto simp: query_Inr)
      from rest2 ww obtain a where a: "pool_avail q now tok mm (ws_balance_usd ww) s2 = (Inr a, s')"
        and p: "p = (if a < cost then a else cost)" and wsid: "wsid = m_workspace_id mm"
        by (auto simp: bnd_Inr ret_iff)
      have st: "store s2 = store s" "plan s = [] \<Longrightarrow> plan s2 = []" by (simp_all add: s2 tick_def)
      from pool_avail_result[OF a] obtain ud um where
        av: "a = cap_avail (ws_balance_usd ww) (m_daily_usd_cap mm) ud (m_monthly_usd_cap mm) um"
        and ud: "plan s2 = [] \<Longrightarrow> 0 < m_daily_usd_cap mm \<Longrightarrow> ud = pool_spent_since q tok (day_start_unix now) (store s2)"
        and um: "plan s2 = [] \<Longrightarrow> 0 < m_monthly_usd_cap mm \<Longrightarrow> um = pool_spent_since q tok (month_start_unix now) (store s2)"
        by blast
      have pa: "p \<le> a" "p \<le> cost" by (simp_all add: p)
      note b = cap_avail_bounds[OF less_imp_le[OF ww(3)], where dc = "m_daily_usd_cap mm" and ud = ud
          and mc = "m_monthly_usd_cap mm" and um = um, folded av]
      have day: "p \<le> max 0 (fsub (m_daily_usd_cap mm) (pool_spent_since q tok (day_start_unix now) (store s)))"
        if "plan s = []" "0 < m_daily_usd_cap mm"
        using pa(1) b(2)[OF that(2)] unfolding ud[OF st(2)[OF that(1)] that(2), unfolded st(1)] by (rule order_trans)
      have month: "p \<le> max 0 (fsub (m_monthly_usd_cap mm) (pool_spent_since q tok (month_start_unix now) (store s)))"
        if "plan s = []" "0 < m_monthly_usd_cap mm"
        using pa(1) b(3)[OF that(2)] unfolding um[OF st(2)[OF that(1)] that(2), unfolded st(1)] by (rule order_trans)
      have "pool_draw_ok q now tok cost p wsid s"
        unfolding pool_draw_ok_def wsid
        by (intro exI[of _ mm] exI[of _ ww] conjI impI day month mrow wrow ww(2) refl pa(2) order_trans[OF pa(1) b(1)])
      moreover have "0 \<le> p" using cost cap_avail_nonneg[of "ws_balance_usd ww"] by (auto simp: p av)
      ultimately show ?thesis by blast
    qed
  qed
  then show "0 \<le> p" "p = 0 \<or> pool_draw_ok q now tok cost p wsid s" by blast+
qed

text \<open>What a charge does to the rows, once it succeeds.\<close>

definition charge_effect :: "int \<Rightarrow> string \<Rightarrow> int \<Rightarrow> float64 \<Rightarrow> float64 \<Rightarrow> string \<Rightarrow> string \<Rightarrow> db \<Rightarrow> db" where
  "charge_effect now tok wsid pool personal ref note d =
     (let d1 = (if 0 < pool then pool_post wsid (- pool) (tok, ''charge'', ref, note, now) d else d)
      in if 0 < personal then wallet_post tok (- personal)
           (TxKindCharge, ref, (if 0 < pool then note @ '' (personal fallback)'' else note), now) d1 else d1)"

lemma wallet_view_pool_post [simp]:
  "wallet_row (pool_post wsid x m d) = wallet_row d" "wallet_balance (pool_post wsid x m d) = wallet_balance d"
  "wallet_entries (pool_post wsid x m d) = wallet_entries d"
  by (simp_all add: fun_eq_iff wallet_row_def wallet_balance_def wallet_entries_def)

lemma debit_pool_Inr:
  assumes "debit_pool now tok wsid p ref nt s = (Inr x, s')" "workspaces_keyed (store s)"
    "workspace_row (store s) wsid = Some w"
  shows "store s' = pool_post wsid (- p) (tok, ''charge'', ref, nt, now) (store s)"
  using assms(1) debit_row_set[OF assms(2,3), where p = p and now = now] assms(3)
  by (simp add: debit_pool_def bnd_Inr exec_Inr pool_post_def pool_balance_def fadd_minus)

lemma debit_wallet_Inr:
  assumes "debit_wallet now tok pool p ref nt s = (Inr x, s')"
  shows "\<exists>b. wallet_balance (store s) tok = Some b \<and> store s' = wallet_post tok (- p)
     (TxKindCharge, ref, (if 0 < pool then nt @ '' (personal fallback)'' else nt), now) (store s)"
  using assms
  by (auto simp: debit_wallet_def bnd_Inr exec_Inr query_row_Inr Let_def wallet_post_def fadd_minus)

lemma atomic_charge_tx: "atomic (charge_tx q now tok cost ref nt)"
  unfolding charge_tx_def by (rule atomic_in_tx)

lemma charge_tx_Inr:
  assumes run: "charge_tx q now tok cost ref nt s = (Inr (pool, personal), s')" and cost: "0 < cost"
    and keyed: "workspaces_keyed (store s)"
  obtains wsid where "personal = fsub cost pool" "0 \<le> pool" "pool = 0 \<or> pool_draw_ok q now tok cost pool wsid s"
    "0 < personal \<longrightarrow> (\<exists>b. wallet_balance (store s) tok = Some b)"
    "store s' = charge_effect now tok wsid pool personal ref nt (store s)"
proof -
  from run obtain wsid s1 s2 s3 where
    p: "pool_part q now tok cost (tick s) = (Inr (pool, wsid), s1)"
    and d: "(if 0 < pool then debit_pool now tok wsid pool ref nt else ret ()) s1 = (Inr (), s2)"
    and w: "(if 0 < personal then debit_wallet now tok pool personal ref nt else ret ()) s2 = (Inr (), s3)"
    and personal: "personal = fsub cost pool" and s': "store s' = store s3"
    by (auto simp: charge_tx_def in_tx_Inr bnd_Inr ret_iff Let_def split: prod.splits)
  have st1: "store s1 = store s" using read_onlyD[OF read_only_pool_part p] by simp
  note pp = pool_part_result[OF p cost]
  have draw: "pool_draw_ok q now tok cost pool wsid s" if "pool \<noteq> 0"
    using pp(2) that unfolding pool_draw_ok_def by (auto simp: tick_def)
  have s2: "store s2 = (if 0 < pool then pool_post wsid (- pool) (tok, ''charge'', ref, nt, now) (store s) else store s)"
  proof (cases "0 < pool")
    case True
    with draw obtain w where "workspace_row (store s) wsid = Some w" by (auto simp: pool_draw_ok_def)
    with True d st1 keyed show ?thesis by (simp add: debit_pool_Inr)
  next
    case False with d st1 show ?thesis by (simp add: ret_iff)
  qed
  have wb: "wallet_balance (store s2) = wallet_balance (store s)" by (simp add: s2)
  have "store s3 = charge_effect now tok wsid pool personal ref nt (store s) \<and>
      (0 < personal \<longrightarrow> (\<exists>b. wallet_balance (store s) tok = Some b))"
  proof (cases "0 < personal")
    case True
    with w obtain b where b: "wallet_balance (store s2) tok = Some b"
      "store s3 = wallet_post tok (- personal) (TxKindCharge, ref, (if 0 < pool then nt @ '' (personal fallback)'' else nt), now) (store s2)"
      by (auto dest: debit_wallet_Inr)
    with True wb show ?thesis by (simp add: charge_effect_def s2)
  next
    case False with w show ?thesis by (simp add: charge_effect_def s2 ret_iff)
  qed
  with personal pp(1) draw s' show thesis by (intro that[of wsid]) auto
qed

text \<open>The four invariants together, and what keeps them.\<close>

definition accounts_ok :: "db \<Rightarrow> bool" where
  "accounts_ok d \<longleftrightarrow> groups_ok d \<and> wallets_ok d \<and> orders_ok d \<and> workspaces_ok d"

definition accounts_view :: "db \<Rightarrow> _" where
  "accounts_view d = (pricing_groups d, wallets d, wallet_txs d, alipay_orders d, workspaces d,
     workspace_members d, workspace_txs d,
     sequences d Seq_groups, sequences d Seq_wallet_tx, sequences d Seq_workspaces, sequences d Seq_workspace_tx)"

lemma accounts_ok_cong: "accounts_view d' = accounts_view d \<Longrightarrow> accounts_ok d' = accounts_ok d"
  by (simp add: accounts_view_def accounts_ok_def groups_ok_def wallets_ok_def orders_ok_def workspaces_ok_def
      pools_ok_def members_ok_def wallets_keyed_def workspaces_keyed_def balanced_def wallet_balance_def
      wallet_row_def wallet_entries_def pool_balance_def workspace_row_def pool_entries_def)

lemma accounts_ok_initial: "accounts_ok (initial_db now)"
  by (simp add: accounts_ok_def groups_ok_initial wallets_ok_initial orders_ok_initial workspaces_ok_initial)

lemma workspaces_ok_cong:
  assumes "workspaces d' = workspaces d" "workspace_members d' = workspace_members d" "workspace_txs d' = workspace_txs d"
    "sequences d' Seq_workspaces = sequences d Seq_workspaces" "sequences d' Seq_workspace_tx = sequences d Seq_workspace_tx"
  shows "workspaces_ok d' = workspaces_ok d"
  using assms by (simp add: workspaces_ok_def pools_ok_def members_ok_def workspaces_keyed_def balanced_def
      pool_balance_def workspace_row_def pool_entries_def)

lemma workspaces_ok_wallet_post [simp]: "workspaces_ok (wallet_post tok x m d) = workspaces_ok d"
  by (rule workspaces_ok_cong)
    (simp_all add: wallet_post_def insert_wallet_tx_def set_wallet_balance_def split: prod.splits)

lemma workspaces_ok_open [simp]: "workspaces_ok (wallet_open tok gid now d) = workspaces_ok d"
  by (rule workspaces_ok_cong) (simp_all add: wallet_open_def)

lemma workspaces_ok_pay [simp]: "workspaces_ok (pay_order no t now d) = workspaces_ok d"
  by (rule workspaces_ok_cong) (simp_all)

lemma wallets_ok_pool_post [simp]: "wallets_ok (pool_post wsid x m d) = wallets_ok d"
  by (simp add: wallets_ok_def wallets_keyed_def balanced_def)
    (simp add: pool_post_def insert_workspace_tx_def set_pool_balance_def update_workspace_row_def split: prod.splits)

lemma groups_ok_pool_post [simp]: "groups_ok (pool_post wsid x m d) = groups_ok d"
  by (simp add: groups_ok_def)
    (simp add: pool_post_def insert_workspace_tx_def set_pool_balance_def update_workspace_row_def split: prod.splits)

lemma accounts_ok_wallet_post:
  "accounts_ok d \<Longrightarrow> wallet_balance d tok = Some b \<Longrightarrow> accounts_ok (wallet_post tok x m d)"
  by (simp add: accounts_ok_def wallets_ok_post orders_ok_cong[OF orders_post])

lemma accounts_ok_pool_post:
  "accounts_ok d \<Longrightarrow> pool_balance d wsid = Some b \<Longrightarrow> accounts_ok (pool_post wsid x m d)"
  by (simp add: accounts_ok_def workspaces_ok_post orders_ok_cong[OF pool_post_sel(4)])

lemma accounts_ok_pay: "accounts_ok d \<Longrightarrow> accounts_ok (pay_order no t now d)"
  by (simp add: accounts_ok_def orders_ok_pay)

text \<open>\<open>ensured\<close>: what \<open>EnsureWallet\<close> may have done.\<close>

definition ensured :: "int \<Rightarrow> string \<Rightarrow> db \<Rightarrow> db \<Rightarrow> bool" where
  "ensured now tok d d' \<longleftrightarrow> d' = d \<or>
     (wallet_row d tok = None \<and> (\<exists>g \<in> set (pricing_groups d). d' = wallet_open tok (g_id g) now d))"

lemma ensure_wallet_ensured: "ensure_wallet now tok s = (r, s') \<Longrightarrow> ensured now tok (store s) (store s')"
  by (elim ensure_wallet_cases) (auto simp: ensured_def)

lemma ensured_refl [simp]: "ensured now tok d d"
  by (simp add: ensured_def)

lemma accounts_ok_ensured: "ensured now tok d d' \<Longrightarrow> accounts_ok d \<Longrightarrow> accounts_ok d'"
  by (auto simp: ensured_def accounts_ok_def groups_ok_open wallets_ok_open orders_ok_cong[OF orders_open])

lemma ensured_pool_view: "ensured now tok d d' \<Longrightarrow> pool_balance d' = pool_balance d"
  by (auto simp: ensured_def fun_eq_iff pool_balance_def workspace_row_def wallet_open_def)

lemma accounts_ok_keyed: "accounts_ok d \<Longrightarrow> workspaces_keyed d"
  by (simp add: accounts_ok_def workspaces_ok_def pools_ok_def)

lemma charge_effect_ok:
  assumes "accounts_ok d" "pool = 0 \<or> (\<exists>b. pool_balance d wsid = Some b)"
    "0 < personal \<longrightarrow> (\<exists>b. wallet_balance d tok = Some b)"
  shows "accounts_ok (charge_effect now tok wsid pool personal ref nt d)"
  using assms by (auto simp: charge_effect_def Let_def intro!: accounts_ok_wallet_post accounts_ok_pool_post)

lemma pool_draw_balance: "pool_draw_ok q now tok cost p wsid s \<Longrightarrow> \<exists>b. pool_balance (store s) wsid = Some b \<and> p \<le> b"
  by (auto simp: pool_draw_ok_def pool_balance_def)

lemma charge_member_first_cases:
  assumes run: "charge_member_first q now tok cost ref nt s = (r, s')" and keyed: "accounts_ok (store s)"
  obtains (Nothing) "r = Inr (0, 0)" "s' = s" "tok = [] \<or> cost \<le> 0"
  | (Failed) e where "r = Inl e" "ensured now tok (store s) (store s')"
  | (Charged) pool personal wsid s1 where "tok \<noteq> []" "0 < cost" "r = Inr (pool, personal)" "ensured now tok (store s) (store s1)"
      "plan s = [] \<Longrightarrow> plan s1 = []"
      "personal = fsub cost pool" "0 \<le> pool" "pool = 0 \<or> pool_draw_ok q now tok cost pool wsid s1"
      "0 < personal \<longrightarrow> (\<exists>b. wallet_balance (store s1) tok = Some b)"
      "store s' = charge_effect now tok wsid pool personal ref nt (store s1)"
proof (cases "tok = [] \<or> cost \<le> 0")
  case True
  then show thesis using run by (intro Nothing) (auto simp: charge_member_first_def ret_iff)
next
  case False
  with run have "bnd (ensure_wallet now tok) (\<lambda>_. bnd (query (\<lambda>_. ())) (\<lambda>_. charge_tx q now tok cost ref nt)) s = (r, s')"
    by (auto simp: charge_member_first_def)
  then show thesis
  proof (cases rule: bnd_cases)
    case (Stop e) then show thesis by (intro Failed[of e]) (auto dest: ensure_wallet_ensured)
  next
    case (Go w s1)
    have e: "ensured now tok (store s) (store s1)" using Go(1) by (rule ensure_wallet_ensured)
    have pl: "plan s1 = []" if "plan s = []"
      by (rule calmD[OF calm_ensure_wallet that Go(1)])
    from Go(2) show thesis
    proof (cases rule: bnd_cases)
      case (Stop e') with e show thesis by (intro Failed[of e']) (auto simp: query_Inl)
    next
      case (Go u s2)
      then have s2: "store s2 = store s1" "plan s1 = [] \<Longrightarrow> plan s2 = []" by (auto simp: query_Inr tick_def)
      show thesis
      proof (cases r)
        case (Inl e') with Go(2) e s2 show thesis
          by (intro Failed[of e']) (auto dest: atomicD[OF atomic_charge_tx])
      next
        case (Inr pp)
        obtain pool personal where r: "r = Inr (pool, personal)" using Inr by (cases pp) auto
        have k: "workspaces_keyed (store s2)" "0 < cost" "tok \<noteq> []"
          using accounts_ok_keyed[OF accounts_ok_ensured[OF e keyed]] s2 False by auto
        from charge_tx_Inr[OF Go(2)[unfolded r] k(2,1)] obtain wsid where
          "personal = fsub cost pool" "0 \<le> pool" "pool = 0 \<or> pool_draw_ok q now tok cost pool wsid s2"
          "0 < personal \<longrightarrow> (\<exists>b. wallet_balance (store s2) tok = Some b)"
          "store s' = charge_effect now tok wsid pool personal ref nt (store s2)" .
        with e s2 pl k r show thesis by (intro Charged[of pool personal s2 wsid]) auto
      qed
    qed
  qed
qed

lemma charge_member_first_maintains: "maintains accounts_ok (charge_member_first q now tok cost ref nt)"
  unfolding maintains_def
proof (intro allI impI)
  fix s r s' assume ok: "accounts_ok (store s)" and run: "charge_member_first q now tok cost ref nt s = (r, s')"
  show "accounts_ok (store s')"
  proof (rule charge_member_first_cases[OF run ok])
    fix pool personal wsid s1
    assume "ensured now tok (store s) (store s1)" "pool = 0 \<or> pool_draw_ok q now tok cost pool wsid s1"
      "0 < personal \<longrightarrow> (\<exists>b. wallet_balance (store s1) tok = Some b)"
      "store s' = charge_effect now tok wsid pool personal ref nt (store s1)"
    with ok show ?thesis
      by (auto intro!: charge_effect_ok dest: accounts_ok_ensured pool_draw_balance)
  qed (use ok in \<open>auto dest: accounts_ok_ensured\<close>)
qed

section \<open>The other operations\<close>

lemma adjust_workspace_balance_Inr:
  assumes "adjust_workspace_balance now wsid delta kind ref nt s = (Inr r, s')"
  shows "\<exists>b. pool_balance (store s) wsid = Some b \<and> r = fadd b delta \<and>
     store s' = pool_post wsid delta ([], if kind = [] then TxKindAdjust else kind, ref, nt, now) (store s)"
  using assms
  by (auto simp: adjust_workspace_balance_def in_tx_Inr bnd_Inr query_row_Inr Let_def exec_Inr ret_iff pool_post_def)

lemma atomic_adjust_workspace_balance: "atomic (adjust_workspace_balance now wsid delta kind ref nt)"
  unfolding adjust_workspace_balance_def by (rule atomic_in_tx)

lemma credit_to_workspace_Inr:
  assumes "credit_paid_order_to_workspace now no t wsid usd ref nt s = (Inr r, s')"
  shows "\<exists>b. sql_count (is_pending no) (alipay_orders (store s)) \<noteq> 0 \<and> pool_balance (store s) wsid = Some b \<and>
     r = fadd b usd \<and> store s' = pool_post wsid usd ([], TxKindTopup, ref, nt, now) (pay_order no t now (store s))"
proof -
  have view: "pool_balance (pay_order no t now d) = pool_balance d" for d
    by (simp add: fun_eq_iff pool_balance_def workspace_row_def)
  show ?thesis using assms
    by (auto simp: credit_paid_order_to_workspace_def in_tx_Inr bnd_Inr query_row_Inr Let_def exec_Inr ret_iff throw_def
        mark_order_paid_def exec_count_Inr pay_order_def[symmetric] view pool_post_def split: if_splits)
qed

lemma atomic_credit_to_workspace: "atomic (credit_paid_order_to_workspace now no t wsid usd ref nt)"
  unfolding credit_paid_order_to_workspace_def by (rule atomic_in_tx)

lemma maintains_atomic:
  assumes "atomic m" "\<And>s x s'. P (store s) \<Longrightarrow> m s = (Inr x, s') \<Longrightarrow> P (store s')"
  shows "maintains P m"
  unfolding maintains_def
proof (intro allI impI)
  fix s r s' assume "P (store s)" "m s = (r, s')"
  with assms show "P (store s')" by (cases r) (auto dest: atomicD)
qed

lemma adjust_workspace_balance_maintains: "maintains accounts_ok (adjust_workspace_balance now wsid delta kind ref nt)"
  by (rule maintains_atomic[OF atomic_adjust_workspace_balance])
    (auto dest!: adjust_workspace_balance_Inr intro: accounts_ok_pool_post)

lemma credit_to_workspace_maintains: "maintains accounts_ok (credit_paid_order_to_workspace now no t wsid usd ref nt)"
proof (rule maintains_atomic[OF atomic_credit_to_workspace])
  fix s x s' assume ok: "accounts_ok (store s)" and run: "credit_paid_order_to_workspace now no t wsid usd ref nt s = (Inr x, s')"
  from credit_to_workspace_Inr[OF run] obtain b where b: "pool_balance (store s) wsid = Some b"
    and s': "store s' = pool_post wsid usd ([], TxKindTopup, ref, nt, now) (pay_order no t now (store s))" by blast
  have "pool_balance (pay_order no t now (store s)) wsid = Some b"
    using b by (simp add: pool_balance_def workspace_row_def)
  then show "accounts_ok (store s')" unfolding s' by (rule accounts_ok_pool_post[OF accounts_ok_pay[OF ok]])
qed

section \<open>Properties\<close>

lemma ensured_views:
  assumes "ensured now tok d d'"
  shows "member_row d' = member_row d" "workspace_row d' = workspace_row d"
    "pool_spent_since q k since d' = pool_spent_since q k since d" "pool_entries d' = pool_entries d"
    "wallet_entries d' = wallet_entries d" "workspace_txs d' = workspace_txs d" "wallet_txs d' = wallet_txs d"
  using assms by (auto simp: ensured_def fun_eq_iff member_row_def workspace_row_def pool_spent_since_def
      wallet_open_def pool_entries_def wallet_entries_def)

text \<open>What a token owns, an account not opened yet owning nothing.\<close>

definition wallet_funds :: "db \<Rightarrow> string \<Rightarrow> float64" where
  "wallet_funds d k = (case wallet_balance d k of None \<Rightarrow> 0 | Some b \<Rightarrow> b)"

lemma ensured_funds:
  assumes "ensured now tok d d'"
  shows "wallet_funds d' k = wallet_funds d k"
proof -
  have "wallet_balance (wallet_open tok gid now d) = (wallet_balance d)(tok \<mapsto> 0)" if "wallet_row d tok = None" for gid
    using that by (auto simp: fun_eq_iff wallet_balance_def wallet_row_open wallet_row_open_other)
  moreover have "wallet_balance d tok = None" if "wallet_row d tok = None" using that by (simp add: wallet_balance_def)
  ultimately show ?thesis using assms by (auto simp: ensured_def wallet_funds_def)
qed

text \<open>A small fleet the witnesses run on: a pool of 10 with one member, who has drawn 3 of a
  daily cap of 5.\<close>

definition demo_sqlite :: sqlite where
  "demo_sqlite = \<lparr>sql_sum = foldl fadd 0, sql_like = (\<lambda>_ _. True)\<rparr>"

definition demo_db :: db where
  "demo_db = (initial_db 0)\<lparr>
     wallets := [\<lparr>w_token = ''alice'', w_balance_usd = 20, w_group_id = 1, w_created_at = 0, w_updated_at = 0\<rparr>],
     wallet_txs := [\<lparr>wt_id = 1, wt_token = ''alice'', wt_kind = ''topup'', wt_amount_usd = 20, wt_ref = [], wt_note = [], wt_created_at = 0\<rparr>],
     workspaces := [\<lparr>ws_id = 1, ws_name = ''lab'', ws_balance_usd = 10, ws_disabled = False, ws_created_at = 0, ws_updated_at = 0\<rparr>],
     workspace_members := [\<lparr>m_workspace_id = 1, m_token = ''alice'', m_role = ''admin'', m_daily_usd_cap = 5,
        m_monthly_usd_cap = 0, m_created_at = 0, m_updated_at = 0\<rparr>],
     workspace_txs := [\<lparr>wst_id = 1, wst_workspace_id = 1, wst_token = [], wst_kind = ''topup'', wst_amount_usd = 13, wst_ref = [], wst_note = [], wst_created_at = 0\<rparr>,
        \<lparr>wst_id = 2, wst_workspace_id = 1, wst_token = ''alice'', wst_kind = ''charge'', wst_amount_usd = -3, wst_ref = [], wst_note = [], wst_created_at = 1000\<rparr>],
     alipay_orders := [\<lparr>o_out_trade_no = ''t1'', o_token = ''alice'', o_cny_amount = 14, o_usd_credit = 2, o_rate = 7,
        o_status = ''pending'', o_trade_no = [], o_qr_code = [], o_workspace_id = 0, o_created_at = 900, o_paid_at = 0\<rparr>],
     sequences := (\<lambda>_. 0)(Seq_groups := 1, Seq_wallet_tx := 1, Seq_workspaces := 1, Seq_workspace_tx := 2)\<rparr>"

lemma demo_rnd: "rnd (2 / 100) > 0" "rnd (5 / 100) > 0"
  by code_simp+

lemma demo_accounts_ok: "accounts_ok demo_db"
proof -
  have "groups_ok demo_db"
    using demo_rnd by (simp add: groups_ok_def demo_db_def initial_db_def seed_group_def)
  moreover have "wallets_ok demo_db"
    by (simp add: wallets_ok_def wallets_keyed_def demo_db_def balanced_def wallet_balance_def wallet_row_def wallet_entries_def)
  moreover have "orders_ok demo_db"
    by (simp add: orders_ok_def demo_db_def order_status_known_def OrderPending_def)
  moreover have "workspaces_ok demo_db"
    by (simp add: workspaces_ok_def pools_ok_def members_ok_def workspaces_keyed_def demo_db_def balanced_def
        pool_balance_def workspace_row_def pool_entries_def member_role_known_def WSRoleAdmin_def fadd_def)
  ultimately show ?thesis by (simp add: accounts_ok_def)
qed

lemma charge_effect_views:
  assumes ok: "accounts_ok d" and pool: "pool = 0 \<or> (0 < pool \<and> pool_balance d wsid = Some b)"
    and personal: "0 < personal \<longrightarrow> (\<exists>b. wallet_balance d tok = Some b)"
  shows "pool_balance (charge_effect now tok wsid pool personal ref nt d) =
      (if 0 < pool then (pool_balance d)(wsid \<mapsto> fsub b pool) else pool_balance d)"
    and "wallet_funds (charge_effect now tok wsid pool personal ref nt d) k =
      (if 0 < personal \<and> k = tok then fsub (wallet_funds d k) personal else wallet_funds d k)"
proof -
  have keyed: "workspaces_keyed d" "wallets_keyed d"
    using ok by (auto simp: accounts_ok_def workspaces_ok_def pools_ok_def wallets_ok_def)
  have wp: "pool_balance (wallet_post tok x m d) = pool_balance d" for x m d
    by (simp add: fun_eq_iff pool_balance_def workspace_row_def wallet_post_def insert_wallet_tx_def
        set_wallet_balance_def split: prod.split)
  show "pool_balance (charge_effect now tok wsid pool personal ref nt d) =
      (if 0 < pool then (pool_balance d)(wsid \<mapsto> fsub b pool) else pool_balance d)"
    using pool pool_ledger.bal_post[OF keyed(1)] by (auto simp: charge_effect_def Let_def wp fadd_minus)
  have k2: "wallets_keyed (if 0 < pool then pool_post wsid (- pool) m d else d)" for m
    using keyed(2) by (simp add: wallets_keyed_def)
  show "wallet_funds (charge_effect now tok wsid pool personal ref nt d) k =
      (if 0 < personal \<and> k = tok then fsub (wallet_funds d k) personal else wallet_funds d k)"
  proof (cases "0 < personal")
    case True
    with personal obtain w where "wallet_balance d tok = Some w" by blast
    with True wallet_ledger.bal_post[OF k2] show ?thesis
      by (simp add: charge_effect_def Let_def wallet_funds_def fadd_minus)
  qed (simp add: charge_effect_def Let_def wallet_funds_def)
qed

lemma pool_draw_ensured:
  assumes "ensured now tok (store s) (store s1)" "plan s = [] \<Longrightarrow> plan s1 = []"
    "pool_draw_ok q now tok cost pool wsid s1" "plan s = []"
  shows "pool_draw_ok q now tok cost pool wsid s"
  using assms ensured_views[OF assms(1)] by (auto simp: pool_draw_ok_def)

lemma charge_splits:
  assumes ok: "accounts_ok (store s)" and tok: "tok \<noteq> []" and cost: "0 < cost"
    and run: "charge_member_first q now tok cost ref nt s = (Inr (pool, personal), s')"
  shows "personal = fsub cost pool \<and> 0 \<le> pool \<and>
    (\<forall>k. wallet_funds (store s') k =
       (if 0 < personal \<and> k = tok then fsub (wallet_funds (store s) k) personal else wallet_funds (store s) k)) \<and>
    (if pool = 0 then pool_balance (store s') = pool_balance (store s)
     else \<exists>m b. member_row (store s) tok = Some m \<and> pool_balance (store s) (m_workspace_id m) = Some b \<and>
       pool \<le> b \<and> pool \<le> cost \<and> 0 \<le> fsub b pool \<and>
       pool_balance (store s') = (pool_balance (store s))(m_workspace_id m \<mapsto> fsub b pool))"
proof (rule charge_member_first_cases[OF run ok])
  fix p c wsid s1
  assume r: "Inr (pool, personal) = (Inr (p, c) :: db_error + _)" and e: "ensured now tok (store s) (store s1)"
    and c: "c = fsub cost p" and p: "0 \<le> p" "p = 0 \<or> pool_draw_ok q now tok cost p wsid s1"
    and w: "0 < c \<longrightarrow> (\<exists>b. wallet_balance (store s1) tok = Some b)"
    and s': "store s' = charge_effect now tok wsid p c ref nt (store s1)"
  have eq: "p = pool" "c = personal" using r by auto
  have ok1: "accounts_ok (store s1)" by (rule accounts_ok_ensured[OF e ok])
  note views = ensured_views[OF e] ensured_funds[OF e] ensured_pool_view[OF e]
  show ?thesis
  proof (cases "pool = 0")
    case True
    then show ?thesis using c p s' eq views charge_effect_views[OF ok1 _ w, of p] by auto
  next
    case False
    with p eq obtain m ws where m: "member_row (store s1) tok = Some m" "m_workspace_id m = wsid"
      "workspace_row (store s1) wsid = Some ws" "pool \<le> ws_balance_usd ws" "pool \<le> cost"
      by (auto simp: pool_draw_ok_def)
    then have b: "p = 0 \<or> (0 < p \<and> pool_balance (store s1) wsid = Some (ws_balance_usd ws))"
      using p by (auto simp: pool_balance_def)
    from False p eq have "0 < pool" by simp
    with m b views charge_effect_views[OF ok1 b w] fsub_nonneg[OF m(4)] c p s' eq show ?thesis by auto
  qed
qed (use tok cost in auto)

text \<open>C2. A successful charge moves exactly its cost: the pool pays at most what it holds and the
  wallet the rest, in \<open>float64\<close>; the balances of everyone else and of the other pools stay.\<close>

theorem charge_moves_its_cost:
  assumes ok: "accounts_ok (store s)" and tok: "tok \<noteq> []" and cost: "0 < cost"
    and run: "charge_member_first q now tok cost ref nt s = (Inr (pool, personal), s')"
  shows "personal = fsub cost pool \<and> 0 \<le> pool \<and>
    (\<forall>k. wallet_funds (store s') k =
       (if 0 < personal \<and> k = tok then fsub (wallet_funds (store s) k) personal else wallet_funds (store s) k)) \<and>
    (if pool = 0 then pool_balance (store s') = pool_balance (store s)
     else \<exists>m b. member_row (store s) tok = Some m \<and> pool_balance (store s) (m_workspace_id m) = Some b \<and>
       pool \<le> b \<and> pool \<le> cost \<and> 0 \<le> fsub b pool \<and>
       pool_balance (store s') = (pool_balance (store s))(m_workspace_id m \<mapsto> fsub b pool))"
  by (rule charge_splits[OF assms])

text \<open>C3. With a driver that does not fail, no charge draws more from the pool than either of the
  member's caps leaves, as the ledger of the current Beijing day and month has it.\<close>

theorem charge_respects_caps:
  assumes ok: "accounts_ok (store s)" and driver: "plan s = []"
    and run: "charge_member_first q now tok cost ref nt s = (Inr (pool, personal), s')" and drawn: "0 < pool"
  shows "\<exists>m w. member_row (store s) tok = Some m \<and> workspace_row (store s) (m_workspace_id m) = Some w \<and>
    \<not> ws_disabled w \<and>
    (0 < m_daily_usd_cap m \<longrightarrow>
       pool \<le> max 0 (fsub (m_daily_usd_cap m) (pool_spent_since q tok (day_start_unix now) (store s)))) \<and>
    (0 < m_monthly_usd_cap m \<longrightarrow>
       pool \<le> max 0 (fsub (m_monthly_usd_cap m) (pool_spent_since q tok (month_start_unix now) (store s))))"
proof (rule charge_member_first_cases[OF run ok])
  fix p c wsid s1
  assume r: "Inr (pool, personal) = (Inr (p, c) :: db_error + _)" and e: "ensured now tok (store s) (store s1)"
    and pl: "plan s = [] \<Longrightarrow> plan s1 = []" and p: "p = 0 \<or> pool_draw_ok q now tok cost p wsid s1"
  from r p drawn have "pool_draw_ok q now tok cost pool wsid s1" by auto
  from pool_draw_ensured[OF e pl this driver] driver show ?thesis by (auto simp: pool_draw_ok_def)
qed (use drawn in auto)

lemma failed_charge:
  assumes ok: "accounts_ok (store s)" and run: "charge_member_first q now tok cost ref nt s = (Inl e, s')"
  shows "wallet_funds (store s') = wallet_funds (store s) \<and> pool_balance (store s') = pool_balance (store s) \<and>
    wallet_txs (store s') = wallet_txs (store s) \<and> workspace_txs (store s') = workspace_txs (store s)"
proof (rule charge_member_first_cases[OF run ok])
  assume "ensured now tok (store s) (store s')"
  then show ?thesis by (simp add: ensured_views ensured_funds ensured_pool_view fun_eq_iff)
qed auto

text \<open>C4. A charge that fails, wherever it fails, has moved no money and written no ledger row.\<close>

theorem failed_charge_moves_nothing:
  assumes ok: "accounts_ok (store s)" and run: "charge_member_first q now tok cost ref nt s = (Inl e, s')"
  shows "wallet_funds (store s') = wallet_funds (store s) \<and> pool_balance (store s') = pool_balance (store s) \<and>
    wallet_txs (store s') = wallet_txs (store s) \<and> workspace_txs (store s') = workspace_txs (store s)"
  by (rule failed_charge[OF assms])

lemma demo_charge:
  "charge_member_first demo_sqlite 2000 ''alice'' 6 ''r'' ''n'' (fresh_session demo_db) =
     (Inr (2, 4), snd (charge_member_first demo_sqlite 2000 ''alice'' 6 ''r'' ''n'' (fresh_session demo_db)))"
  "charge_member_first demo_sqlite 2000 ''alice'' 6 ''r'' ''n'' \<lparr>store = demo_db, plan = [False, False, False, False, False, False, False, True]\<rparr> =
     (Inl DriverError, snd (charge_member_first demo_sqlite 2000 ''alice'' 6 ''r'' ''n''
        \<lparr>store = demo_db, plan = [False, False, False, False, False, False, False, True]\<rparr>))"
proof -
  have "fst (charge_member_first demo_sqlite 2000 ''alice'' 6 ''r'' ''n'' (fresh_session demo_db)) = Inr (2, 4)"
    by code_simp
  then show "charge_member_first demo_sqlite 2000 ''alice'' 6 ''r'' ''n'' (fresh_session demo_db) =
     (Inr (2, 4), snd (charge_member_first demo_sqlite 2000 ''alice'' 6 ''r'' ''n'' (fresh_session demo_db)))"
    by (metis prod.collapse)
  have "fst (charge_member_first demo_sqlite 2000 ''alice'' 6 ''r'' ''n''
     \<lparr>store = demo_db, plan = [False, False, False, False, False, False, False, True]\<rparr>) = Inl DriverError" by code_simp
  then show "charge_member_first demo_sqlite 2000 ''alice'' 6 ''r'' ''n'' \<lparr>store = demo_db, plan = [False, False, False, False, False, False, False, True]\<rparr> =
     (Inl DriverError, snd (charge_member_first demo_sqlite 2000 ''alice'' 6 ''r'' ''n''
        \<lparr>store = demo_db, plan = [False, False, False, False, False, False, False, True]\<rparr>))"
    by (metis prod.collapse)
qed

lemma demo_fresh: "store (fresh_session demo_db) = demo_db" "plan (fresh_session demo_db) = []"
  by (simp_all add: fresh_session_def)

theorem charge_moves_its_cost_witness:
  "wallet_funds (store (snd (charge_member_first demo_sqlite 2000 ''alice'' 6 ''r'' ''n'' (fresh_session demo_db)))) ''alice'' = 16"
proof -
  have "wallet_funds demo_db ''alice'' = 20" by code_simp
  with charge_moves_its_cost[OF _ _ _ demo_charge(1)] demo_accounts_ok show ?thesis by (simp add: demo_fresh fsub_def)
qed

theorem charge_respects_caps_witness:
  "(2 :: float64) \<le> max 0 (fsub 5 (pool_spent_since demo_sqlite ''alice'' (day_start_unix 2000) demo_db))"
proof -
  have m: "member_row demo_db ''alice'' = Some \<lparr>m_workspace_id = 1, m_token = ''alice'', m_role = ''admin'',
      m_daily_usd_cap = 5, m_monthly_usd_cap = 0, m_created_at = 0, m_updated_at = 0\<rparr>"
    by (simp add: member_row_def demo_db_def)
  show ?thesis
    using charge_respects_caps[OF _ _ demo_charge(1), simplified demo_fresh, OF demo_accounts_ok refl] by (auto simp: m)
qed

theorem failed_charge_moves_nothing_witness:
  "pool_balance (store (snd (charge_member_first demo_sqlite 2000 ''alice'' 6 ''r'' ''n''
     \<lparr>store = demo_db, plan = [False, False, False, False, False, False, False, True]\<rparr>))) = pool_balance demo_db"
  using failed_charge_moves_nothing[OF _ demo_charge(2)] demo_accounts_ok by simp

end
