(* ===== verification/Invoices.thy ===== *)
theory Invoices
  imports Workspace
begin

text \<open>
  Invoices (\<open>internal/saas/db/invoices.go\<close> and \<open>invoices_workspace.go\<close>): a request is gated,
  inside its transaction, by what the token paid less what pending and issued invoices have
  already claimed; a team invoice draws on its members in the order they joined. Amounts are
  CNY. \<open>invoices_ok\<close>: ids in order, a known state, allocations that belong to a team invoice
  and name each member once.
\<close>

definition InvoicePending :: string where "InvoicePending = ''pending''"
definition InvoiceIssued :: string where "InvoiceIssued = ''issued''"
definition InvoiceRejected :: string where "InvoiceRejected = ''rejected''"

lemmas invoice_states = InvoicePending_def InvoiceIssued_def InvoiceRejected_def

lemma invoice_states_differ [simp]:
  "InvoicePending \<noteq> InvoiceIssued" "InvoiceIssued \<noteq> InvoicePending" "InvoicePending \<noteq> InvoiceRejected"
  "InvoiceRejected \<noteq> InvoicePending" "InvoiceIssued \<noteq> InvoiceRejected" "InvoiceRejected \<noteq> InvoiceIssued"
  by (simp_all add: invoice_states)

definition invoice_epsilon :: float64 where "invoice_epsilon = rnd (5 / 1000)"

definition is_team :: "invoice \<Rightarrow> bool" where "is_team v = (0 < i_workspace_id v)"

definition round2 :: "float64 \<Rightarrow> float64" where
  "round2 v = fdiv (rnd (of_int (to_int64 (fadd (fmul v 100) (1 / 2))))) 100"

definition signed_round2 :: "float64 \<Rightarrow> float64" where
  "signed_round2 v = (if v < 0 then - round2 (- v) else round2 v)"

text \<open>Go marshals a map with its keys in order.\<close>

definition invoice_title_payload :: "invoice_title \<Rightarrow> (string \<times> string) list" where
  "invoice_title_payload t = [(''address'', it_address t), (''bank'', it_bank t), (''bank_account'', it_bank_account t),
     (''name'', it_name t), (''phone'', it_phone t), (''tax_no'', it_tax_no t)]"

text \<open>A call for each element, in order, stopping at the first error.\<close>

fun dbm_map :: "('a \<Rightarrow> 'b dbm) \<Rightarrow> 'a list \<Rightarrow> 'b list dbm" where
  "dbm_map f [] = ret []"
| "dbm_map f (x # xs) = bnd (f x) (\<lambda>y. bnd (dbm_map f xs) (\<lambda>ys. ret (y # ys)))"

section \<open>What a token can still invoice\<close>

record invoice_summary =
  paid_cny :: float64
  locked_cny :: float64
  issued_cny :: float64
  available_cny :: float64

definition own_claims :: "string \<Rightarrow> string \<Rightarrow> db \<Rightarrow> float64 list" where
  "own_claims status tok d = map (\<lambda>i. if i_status i = status then i_cny_amount i else 0)
     (filter (\<lambda>i. i_token i = tok \<and> i_workspace_id i = 0) (invoices d))"

definition team_claims :: "string \<Rightarrow> string \<Rightarrow> db \<Rightarrow> float64 list" where
  "team_claims status tok d = concat (map (\<lambda>a. map (\<lambda>i. if i_status i = status then a_cny_amount a else 0)
     (filter (\<lambda>i. i_id i = a_invoice_id a \<and> a_token a = tok \<and>
                  (i_status i = InvoicePending \<or> i_status i = InvoiceIssued)) (invoices d))) (invoice_allocations d))"

definition available_amount :: "float64 \<Rightarrow> float64 \<Rightarrow> float64 \<Rightarrow> float64" where
  "available_amount paid locked issued =
     (let a = round2 (fsub (fsub paid locked) issued) in if a < 0 then 0 else a)"

definition invoice_summary_for :: "sqlite \<Rightarrow> string \<Rightarrow> invoice_summary dbm" where
  "invoice_summary_for q tok =
     bnd (query (\<lambda>d. coalesce_sum q (paid_cny_rows tok d))) (\<lambda>paid.
     bnd (query (\<lambda>d. (coalesce_sum q (own_claims InvoicePending tok d), coalesce_sum q (own_claims InvoiceIssued tok d)))) (\<lambda>(locked, issued).
     bnd (query (\<lambda>d. (coalesce_sum q (team_claims InvoicePending tok d), coalesce_sum q (team_claims InvoiceIssued tok d)))) (\<lambda>(teamLocked, teamIssued).
     let locked = fadd locked teamLocked; issued = fadd issued teamIssued in
     ret \<lparr>paid_cny = paid, locked_cny = locked, issued_cny = issued, available_cny = available_amount paid locked issued\<rparr>)))"

definition invoiceable_cny :: "sqlite \<Rightarrow> string \<Rightarrow> invoice_summary dbm" where
  "invoiceable_cny q tok = invoice_summary_for q tok"

section \<open>Requests\<close>

definition invoice_row :: "db \<Rightarrow> int \<Rightarrow> invoice option" where
  "invoice_row d iid = find (\<lambda>i. i_id i = iid) (invoices d)"

definition get_invoice :: "int \<Rightarrow> invoice dbm" where
  "get_invoice iid = query_row ErrNotFound (\<lambda>d. invoice_row d iid)"

definition insert_invoice :: "string \<Rightarrow> float64 \<Rightarrow> invoice_title \<Rightarrow> string \<Rightarrow> int \<Rightarrow> int \<Rightarrow> db \<Rightarrow> db" where
  "insert_invoice tok cny title email wsid now d = (bump_seq Seq_invoices d)\<lparr>invoices := invoices d @
     [\<lparr>i_id = next_id Seq_invoices d, i_token = tok, i_cny_amount = cny, i_title_name = trim_space (it_name title),
       i_title_snapshot = invoice_title_payload title, i_contact_email = trim_space email, i_status = InvoicePending,
       i_pdf_path = [], i_note = [], i_created_at = now, i_issued_at = 0, i_rejected_at = 0, i_workspace_id = wsid\<rparr>]\<rparr>"

definition upsert_title_row :: "string \<Rightarrow> invoice_title \<Rightarrow> int \<Rightarrow> db \<Rightarrow> db" where
  "upsert_title_row tok t now d =
     (let name = trim_space (it_name t) in
      if \<exists>r \<in> set (invoice_titles d). it_token r = tok \<and> it_name r = name
      then d\<lparr>invoice_titles := sql_update (\<lambda>r. it_token r = tok \<and> it_name r = name)
             (\<lambda>r. r\<lparr>it_tax_no := trim_space (it_tax_no t), it_address := trim_space (it_address t),
                    it_phone := trim_space (it_phone t), it_bank := trim_space (it_bank t),
                    it_bank_account := trim_space (it_bank_account t), it_last_used_at := now\<rparr>) (invoice_titles d)\<rparr>
      else (bump_seq Seq_titles d)\<lparr>invoice_titles := invoice_titles d @
             [\<lparr>it_id = next_id Seq_titles d, it_token = tok, it_name = name, it_tax_no = trim_space (it_tax_no t),
               it_address = trim_space (it_address t), it_phone = trim_space (it_phone t), it_bank = trim_space (it_bank t),
               it_bank_account = trim_space (it_bank_account t), it_last_used_at = now, it_created_at = now\<rparr>]\<rparr>)"

text \<open>\<open>LastInsertId\<close>: the id the insert has just used.\<close>

definition insert_invoice_stmt :: "string \<Rightarrow> float64 \<Rightarrow> invoice_title \<Rightarrow> string \<Rightarrow> int \<Rightarrow> int \<Rightarrow> int dbm" where
  "insert_invoice_stmt tok cny title email wsid now =
     stmt (\<lambda>d. Inr (next_id Seq_invoices d, insert_invoice tok cny title email wsid now d))"

definition create_invoice :: "sqlite \<Rightarrow> int \<Rightarrow> string \<Rightarrow> float64 \<Rightarrow> invoice_title \<Rightarrow> string \<Rightarrow> invoice dbm" where
  "create_invoice q now tok cny title email =
     (if cny \<le> 0 then throw (ErrMessage ''cny amount must be positive'')
      else bnd (in_tx (
             bnd (invoice_summary_for q tok) (\<lambda>sum.
             if fadd (available_cny sum) invoice_epsilon < cny then throw (ErrInsufficientInvoiceable cny (available_cny sum))
             else bnd (insert_invoice_stmt tok cny title email 0 now) (\<lambda>iid.
                  bnd (exec (upsert_title_row tok title now)) (\<lambda>_.
                  ret iid)))))
           (\<lambda>iid. get_invoice iid))"

section \<open>Team requests\<close>

record invoice_member =
  im_token :: string
  im_role :: string

record member_invoice_summary =
  mis_member :: invoice_member
  mis_summary :: invoice_summary

record workspace_invoice_summary =
  wis_workspace_id :: int
  wis_total :: invoice_summary
  wis_members :: "member_invoice_summary list"

definition list_members_for_invoice :: "int \<Rightarrow> invoice_member list dbm" where
  "list_members_for_invoice wsid = query (\<lambda>d. map (\<lambda>m. \<lparr>im_token = m_token m, im_role = m_role m\<rparr>)
     (order_by (\<lambda>a b. m_created_at a < m_created_at b \<or> (m_created_at a = m_created_at b \<and> text_less (m_token a) (m_token b)))
       (filter (\<lambda>m. m_workspace_id m = wsid) (workspace_members d))))"

definition zero_summary :: invoice_summary where
  "zero_summary = \<lparr>paid_cny = 0, locked_cny = 0, issued_cny = 0, available_cny = 0\<rparr>"

definition add_summary :: "invoice_summary \<Rightarrow> invoice_summary \<Rightarrow> invoice_summary" where
  "add_summary t s = \<lparr>paid_cny = fadd (paid_cny t) (paid_cny s), locked_cny = fadd (locked_cny t) (locked_cny s),
     issued_cny = fadd (issued_cny t) (issued_cny s), available_cny = fadd (available_cny t) (available_cny s)\<rparr>"

definition workspace_invoiceable_cny :: "sqlite \<Rightarrow> int \<Rightarrow> workspace_invoice_summary dbm" where
  "workspace_invoiceable_cny q wsid =
     bnd (list_members_for_invoice wsid) (\<lambda>members.
     bnd (dbm_map (\<lambda>m. invoice_summary_for q (im_token m)) members) (\<lambda>smrs.
     let t = foldl add_summary zero_summary smrs in
     ret \<lparr>wis_workspace_id = wsid,
          wis_total = \<lparr>paid_cny = round2 (paid_cny t), locked_cny = round2 (locked_cny t),
                       issued_cny = round2 (issued_cny t), available_cny = round2 (available_cny t)\<rparr>,
          wis_members = map2 (\<lambda>m s. \<lparr>mis_member = m, mis_summary = s\<rparr>) members smrs\<rparr>))"

fun alloc_loop :: "(invoice_member \<times> float64) list \<Rightarrow> float64 \<Rightarrow> (string \<times> float64) list" where
  "alloc_loop [] remaining = []"
| "alloc_loop ((m, a) # rest) remaining =
     (if remaining \<le> invoice_epsilon then []
      else let take0 = (if remaining < a then remaining else a);
               take1 = round2 take0
           in if take1 \<le> 0 then alloc_loop rest remaining
              else let take2 = (if remaining < take1 then remaining else take1)
                   in (im_token m, take2) # alloc_loop rest (fsub remaining take2))"

definition residue_tolerance :: float64 where "residue_tolerance = rnd (1 / 1000000000)"

definition absorb_residue :: "float64 \<Rightarrow> (string \<times> float64) list \<Rightarrow> (string \<times> float64) list" where
  "absorb_residue cny out =
     (if out = [] then out
      else let d = fsub cny (foldl fadd 0 (map snd out)) in
        if residue_tolerance < d \<or> d < - residue_tolerance
        then butlast out @ [(fst (last out), signed_round2 (fadd (snd (last out)) d))]
        else out)"

definition allocate_invoice :: "invoice_member list \<Rightarrow> float64 list \<Rightarrow> float64 \<Rightarrow> (string \<times> float64) list" where
  "allocate_invoice members avail cny = absorb_residue cny (alloc_loop (zip members avail) cny)"

definition insert_allocation :: "int \<Rightarrow> string \<times> float64 \<Rightarrow> db \<Rightarrow> db_error + unit \<times> db" where
  "insert_allocation iid p d =
     (if \<exists>a \<in> set (invoice_allocations d). a_invoice_id a = iid \<and> a_token a = fst p then Inl UniqueViolation
      else Inr ((), d\<lparr>invoice_allocations := invoice_allocations d @
             [\<lparr>a_invoice_id = iid, a_token = fst p, a_cny_amount = snd p\<rparr>]\<rparr>))"

definition create_workspace_invoice ::
  "sqlite \<Rightarrow> int \<Rightarrow> int \<Rightarrow> string \<Rightarrow> float64 \<Rightarrow> invoice_title \<Rightarrow> string \<Rightarrow> invoice dbm" where
  "create_workspace_invoice q now wsid initiator cny title email =
     (if cny \<le> 0 then throw (ErrMessage ''cny amount must be positive'')
      else if wsid \<le> 0 then throw (ErrMessage ''workspace id required'')
      else bnd (query (\<lambda>_. ())) (\<lambda>_. bnd (in_tx (
             bnd (list_members_for_invoice wsid) (\<lambda>members.
             bnd (dbm_map (\<lambda>m. invoice_summary_for q (im_token m)) members) (\<lambda>smrs.
             let avail = map available_cny smrs;
                 total = round2 (foldl fadd 0 avail) in
             if fadd total invoice_epsilon < cny then throw (ErrInsufficientInvoiceable cny total)
             else bnd (insert_invoice_stmt initiator cny title email wsid now) (\<lambda>iid.
                  bnd (dbm_map (\<lambda>p. stmt (insert_allocation iid p)) (allocate_invoice members avail cny)) (\<lambda>_.
                  bnd (exec (upsert_title_row initiator title now)) (\<lambda>_.
                  ret iid)))))))
           (\<lambda>iid. get_invoice iid)))"

section \<open>Listings\<close>

definition workspace_name :: "db \<Rightarrow> int \<Rightarrow> string" where
  "workspace_name d wsid = (case workspace_row d wsid of None \<Rightarrow> [] | Some w \<Rightarrow> ws_name w)"

definition allocation_of :: "db \<Rightarrow> invoice \<Rightarrow> string \<Rightarrow> invoice_allocation option" where
  "allocation_of d i tok = find (\<lambda>a. a_invoice_id a = i_id i \<and> a_token a = tok) (invoice_allocations d)"

text \<open>Each invoice with what the token contributed and the workspace's name.\<close>

definition list_invoices_by_token :: "string \<Rightarrow> int \<Rightarrow> (invoice \<times> float64 \<times> string) list dbm" where
  "list_invoices_by_token tok limit0 = (let limit = (if limit0 \<le> 0 then 100 else limit0) in
     query (\<lambda>d. map (\<lambda>i. (i, if i_workspace_id i = 0 then i_cny_amount i
                            else (case allocation_of d i tok of None \<Rightarrow> 0 | Some a \<Rightarrow> a_cny_amount a),
                          workspace_name d (i_workspace_id i)))
       (take (nat limit) (sql_desc i_id (filter
         (\<lambda>i. (i_workspace_id i = 0 \<and> i_token i = tok) \<or>
              (0 < i_workspace_id i \<and> (allocation_of d i tok \<noteq> None \<or> i_token i = tok))) (invoices d))))))"

definition joined_at :: "db \<Rightarrow> string \<Rightarrow> int" where
  "joined_at d tok = (case member_row d tok of None \<Rightarrow> 0 | Some m \<Rightarrow> m_created_at m)"

definition allocation_before :: "db \<Rightarrow> invoice_allocation \<Rightarrow> invoice_allocation \<Rightarrow> bool" where
  "allocation_before d a b = (joined_at d (a_token a) < joined_at d (a_token b) \<or>
     (joined_at d (a_token a) = joined_at d (a_token b) \<and> text_less (a_token a) (a_token b)))"

definition invoice_allocations_of :: "int \<Rightarrow> invoice_allocation list dbm" where
  "invoice_allocations_of iid = query (\<lambda>d. order_by (allocation_before d)
     (filter (\<lambda>a. a_invoice_id a = iid) (invoice_allocations d)))"

definition allocations_by_invoice :: "int list \<Rightarrow> (int \<Rightarrow> invoice_allocation list) dbm" where
  "allocations_by_invoice ids =
     (if ids = [] then ret (\<lambda>_. [])
      else query (\<lambda>d iid. if iid \<in> set ids
             then order_by (allocation_before d) (filter (\<lambda>a. a_invoice_id a = iid) (invoice_allocations d)) else []))"

definition list_workspace_invoices :: "int \<Rightarrow> int \<Rightarrow> invoice list dbm" where
  "list_workspace_invoices wsid limit0 = (let limit = (if limit0 \<le> 0 then 100 else limit0) in
     query (\<lambda>d. take (nat limit) (sql_desc i_id (filter (\<lambda>i. i_workspace_id i = wsid \<and> 0 < i_workspace_id i) (invoices d)))))"

definition like_pattern :: "string \<Rightarrow> string" where "like_pattern s = ''%'' @ s @ ''%''"

definition list_invoices :: "sqlite \<Rightarrow> string \<Rightarrow> string \<Rightarrow> int \<Rightarrow> int \<Rightarrow> (invoice \<times> string) list dbm" where
  "list_invoices q status search0 wsid limit0 =
     (let limit = (if limit0 \<le> 0 \<or> 1000 < limit0 then 200 else limit0); search = trim_space search0 in
      query (\<lambda>d. map (\<lambda>i. (i, workspace_name d (i_workspace_id i))) (take (nat limit) (sql_desc i_id (filter
        (\<lambda>i. (status = [] \<or> i_status i = status) \<and>
             (0 < wsid \<longrightarrow> i_workspace_id i = wsid) \<and>
             (search \<noteq> [] \<longrightarrow> sql_like q (like_pattern search) (i_title_name i) \<or>
                sql_like q (like_pattern search) (i_contact_email i) \<or> sql_like q (like_pattern search) (i_token i)))
        (invoices d))))))"

section \<open>Transitions and titles\<close>

definition invoice_pending :: "int \<Rightarrow> invoice \<Rightarrow> bool" where
  "invoice_pending iid i = (i_id i = iid \<and> i_status i = InvoicePending)"

definition transition_invoice :: "int \<Rightarrow> (invoice \<Rightarrow> invoice) \<Rightarrow> invoice dbm" where
  "transition_invoice iid f =
     bnd (exec_count (\<lambda>d. sql_count (invoice_pending iid) (invoices d))
           (\<lambda>d. d\<lparr>invoices := sql_update (invoice_pending iid) f (invoices d)\<rparr>))
       (\<lambda>n. if n = 0 then throw ErrNotFound else get_invoice iid)"

definition mark_invoice_issued :: "int \<Rightarrow> int \<Rightarrow> string \<Rightarrow> string \<Rightarrow> invoice dbm" where
  "mark_invoice_issued now iid pdf note = transition_invoice iid
     (\<lambda>i. i\<lparr>i_status := InvoiceIssued, i_pdf_path := pdf, i_note := note, i_issued_at := now\<rparr>)"

definition mark_invoice_rejected :: "int \<Rightarrow> int \<Rightarrow> string \<Rightarrow> invoice dbm" where
  "mark_invoice_rejected now iid note = transition_invoice iid
     (\<lambda>i. i\<lparr>i_status := InvoiceRejected, i_note := note, i_rejected_at := now\<rparr>)"

definition list_invoice_titles :: "sqlite \<Rightarrow> string \<Rightarrow> string \<Rightarrow> int \<Rightarrow> invoice_title list dbm" where
  "list_invoice_titles q tok search0 limit0 =
     (let limit = (if limit0 \<le> 0 \<or> 50 < limit0 then 20 else limit0); search = trim_space search0 in
      query (\<lambda>d. take (nat limit) (sql_desc it_last_used_at (filter
        (\<lambda>t. it_token t = tok \<and> (search \<noteq> [] \<longrightarrow> sql_like q (like_pattern search) (it_name t) \<or>
             sql_like q (like_pattern search) (it_tax_no t))) (invoice_titles d)))))"

definition upsert_invoice_title :: "int \<Rightarrow> invoice_title \<Rightarrow> unit dbm" where
  "upsert_invoice_title now t =
     (if trim_space (it_name t) = [] then throw (ErrMessage ''name required'')
      else exec (upsert_title_row (it_token t) t now))"

definition delete_invoice_title :: "string \<Rightarrow> int \<Rightarrow> unit dbm" where
  "delete_invoice_title tok tid =
     exec (\<lambda>d. d\<lparr>invoice_titles := sql_delete (\<lambda>t. it_id t = tid \<and> it_token t = tok) (invoice_titles d)\<rparr>)"

section \<open>The invoice tables\<close>

definition invoices_ok :: "db \<Rightarrow> bool" where
  "invoices_ok d \<longleftrightarrow> sorted_wrt (<) (map i_id (invoices d)) \<and>
     (\<forall>i \<in> i_id ` set (invoices d). i \<le> sequences d Seq_invoices) \<and>
     (\<forall>i \<in> set (invoices d). i_status i \<in> {InvoicePending, InvoiceIssued, InvoiceRejected}) \<and>
     (\<forall>a \<in> set (invoice_allocations d). \<exists>i \<in> set (invoices d). i_id i = a_invoice_id a \<and> 0 < i_workspace_id i) \<and>
     distinct (map (\<lambda>a. (a_invoice_id a, a_token a)) (invoice_allocations d))"

definition invoice_view :: "db \<Rightarrow> _" where
  "invoice_view d = (invoices d, invoice_allocations d, sequences d Seq_invoices)"

lemma invoices_ok_cong: "invoice_view d' = invoice_view d \<Longrightarrow> invoices_ok d' = invoices_ok d"
  by (simp add: invoice_view_def invoices_ok_def)

lemma invoices_ok_initial: "invoices_ok (initial_db now)"
  by (simp add: invoices_ok_def initial_db_def)

lemma invoices_ok_insert: "invoices_ok d \<Longrightarrow> invoices_ok (insert_invoice tok cny t email wsid now d)"
  by (force simp: invoices_ok_def insert_invoice_def next_id_def sorted_wrt_append)

lemma invoices_ok_title [simp]: "invoices_ok (upsert_title_row tok t now d) = invoices_ok d"
  by (rule invoices_ok_cong) (simp add: invoice_view_def upsert_title_row_def Let_def)

lemma invoices_ok_allocation:
  assumes "invoices_ok d" "insert_allocation iid p d = Inr (x, d')" "\<exists>i \<in> set (invoices d). i_id i = iid \<and> 0 < i_workspace_id i"
  shows "invoices_ok d' \<and> invoices d' = invoices d"
proof -
  have d': "d' = d\<lparr>invoice_allocations := invoice_allocations d @ [\<lparr>a_invoice_id = iid, a_token = fst p, a_cny_amount = snd p\<rparr>]\<rparr>"
    and new: "(iid, fst p) \<notin> set (map (\<lambda>a. (a_invoice_id a, a_token a)) (invoice_allocations d))"
    using assms(2) by (auto simp: insert_allocation_def split: if_splits)
  show ?thesis using assms(1,3) new by (simp add: d' invoices_ok_def)
qed

lemma read_only_summary [atomic_intros]: "read_only (invoice_summary_for q tok)"
  unfolding invoice_summary_for_def
  by (intro read_only_bnd read_only_query) (auto simp: Let_def intro!: read_only_bnd read_only_query read_only_ret)

lemma read_only_dbm_map: "(\<And>x. read_only (f x)) \<Longrightarrow> read_only (dbm_map f xs)"
  by (induction xs) (auto intro!: atomic_intros)

lemma read_only_get_invoice [atomic_intros]: "read_only (get_invoice iid)"
  unfolding get_invoice_def by (rule read_only_query_row)

lemma dbm_map_allocations:
  assumes "dbm_map (\<lambda>p. stmt (insert_allocation iid p)) ps s = (Inr ys, s')" "invoices_ok (store s)"
    "\<exists>i \<in> set (invoices (store s)). i_id i = iid \<and> 0 < i_workspace_id i"
  shows "invoices_ok (store s') \<and> store s' = (store s)\<lparr>invoice_allocations := invoice_allocations (store s) @
     map (\<lambda>p. \<lparr>a_invoice_id = iid, a_token = fst p, a_cny_amount = snd p\<rparr>) ps\<rparr>"
  using assms
proof (induction ps arbitrary: s ys)
  case Nil then show ?case by (simp add: ret_iff)
next
  case (Cons p ps)
  then obtain x s1 ys' where 1: "stmt (insert_allocation iid p) s = (Inr x, s1)"
    and 2: "dbm_map (\<lambda>p. stmt (insert_allocation iid p)) ps s1 = (Inr ys', s')"
    by (auto simp: bnd_Inr ret_iff)
  from 1 obtain d where d: "insert_allocation iid p (store s) = Inr (x, d)" "store s1 = d" by (auto simp: stmt_Inr)
  with invoices_ok_allocation[OF Cons.prems(2) d(1) Cons.prems(3)]
  have s1: "invoices_ok (store s1)" "invoices (store s1) = invoices (store s)"
    "store s1 = (store s)\<lparr>invoice_allocations := invoice_allocations (store s) @ [\<lparr>a_invoice_id = iid, a_token = fst p, a_cny_amount = snd p\<rparr>]\<rparr>"
    by (auto simp: insert_allocation_def split: if_splits)
  have ih: "invoices_ok (store s') \<and> store s' = (store s1)\<lparr>invoice_allocations := invoice_allocations (store s1) @
     map (\<lambda>p. \<lparr>a_invoice_id = iid, a_token = fst p, a_cny_amount = snd p\<rparr>) ps\<rparr>"
    by (rule Cons.IH[OF 2 s1(1)]) (use Cons.prems(3) s1(2) in simp)
  show ?case
  proof
    show "invoices_ok (store s')" using ih by blast
    show "store s' = (store s)\<lparr>invoice_allocations := invoice_allocations (store s) @
     map (\<lambda>p. \<lparr>a_invoice_id = iid, a_token = fst p, a_cny_amount = snd p\<rparr>) (p # ps)\<rparr>"
      using ih s1(3) by simp
  qed
qed

section \<open>Outcomes of the requests\<close>

definition summary_at :: "sqlite \<Rightarrow> string \<Rightarrow> db \<Rightarrow> invoice_summary" where
  "summary_at q tok d =
     (let paid = coalesce_sum q (paid_cny_rows tok d);
          locked = fadd (coalesce_sum q (own_claims InvoicePending tok d)) (coalesce_sum q (team_claims InvoicePending tok d));
          issued = fadd (coalesce_sum q (own_claims InvoiceIssued tok d)) (coalesce_sum q (team_claims InvoiceIssued tok d))
      in \<lparr>paid_cny = paid, locked_cny = locked, issued_cny = issued, available_cny = available_amount paid locked issued\<rparr>)"

lemma invoice_summary_Inr:
  "invoice_summary_for q tok s = (Inr r, s') \<Longrightarrow> r = summary_at q tok (store s) \<and> store s' = store s"
  by (auto simp: invoice_summary_for_def bnd_Inr query_Inr ret_iff Let_def summary_at_def)

lemma dbm_map_summaries:
  "dbm_map (\<lambda>m. invoice_summary_for q (im_token m)) ms s = (Inr ys, s') \<Longrightarrow>
     ys = map (\<lambda>m. summary_at q (im_token m) (store s)) ms \<and> store s' = store s"
proof (induction ms arbitrary: s ys)
  case Nil then show ?case by (simp add: ret_iff)
next
  case (Cons m ms)
  then obtain y s1 ys' where "invoice_summary_for q (im_token m) s = (Inr y, s1)"
    "dbm_map (\<lambda>m. invoice_summary_for q (im_token m)) ms s1 = (Inr ys', s')" "ys = y # ys'"
    by (auto simp: bnd_Inr ret_iff)
  with Cons.IH invoice_summary_Inr show ?case by fastforce
qed

definition invoice_tx :: "sqlite \<Rightarrow> int \<Rightarrow> string \<Rightarrow> float64 \<Rightarrow> invoice_title \<Rightarrow> string \<Rightarrow> int dbm" where
  "invoice_tx q now tok cny title email = in_tx (
     bnd (invoice_summary_for q tok) (\<lambda>sum.
     if fadd (available_cny sum) invoice_epsilon < cny then throw (ErrInsufficientInvoiceable cny (available_cny sum))
     else bnd (insert_invoice_stmt tok cny title email 0 now) (\<lambda>iid.
          bnd (exec (upsert_title_row tok title now)) (\<lambda>_. ret iid))))"

lemma create_invoice_split: "create_invoice q now tok cny title email =
     (if cny \<le> 0 then throw (ErrMessage ''cny amount must be positive'')
      else bnd (invoice_tx q now tok cny title email) get_invoice)"
  by (simp add: create_invoice_def invoice_tx_def)

lemma invoice_tx_Inr:
  assumes "invoice_tx q now tok cny title email s = (Inr iid, s')"
  shows "cny \<le> fadd (available_cny (summary_at q tok (store s))) invoice_epsilon \<and> iid = next_id Seq_invoices (store s) \<and>
     store s' = upsert_title_row tok title now (insert_invoice tok cny title email 0 now (store s))"
proof -
  from assms obtain sm s1 where g: "invoice_summary_for q tok (tick s) = (Inr sm, s1)"
    and rest: "\<exists>s2. (if fadd (available_cny sm) invoice_epsilon < cny then throw (ErrInsufficientInvoiceable cny (available_cny sm))
     else bnd (insert_invoice_stmt tok cny title email 0 now) (\<lambda>iid.
          bnd (exec (upsert_title_row tok title now)) (\<lambda>_. ret iid))) s1 = (Inr iid, s2) \<and> store s' = store s2"
    by (auto simp: invoice_tx_def in_tx_Inr bnd_Inr)
  from invoice_summary_Inr[OF g] have sm: "sm = summary_at q tok (store s)" "store s1 = store s" by simp_all
  from rest sm show ?thesis
    by (auto simp: throw_def bnd_Inr insert_invoice_stmt_def stmt_Inr exec_Inr ret_iff split: if_splits)
qed

lemma atomic_invoice_tx: "atomic (invoice_tx q now tok cny title email)"
  unfolding invoice_tx_def by (rule atomic_in_tx)

lemma create_invoice_maintains: "maintains invoices_ok (create_invoice q now tok cny title email)"
proof -
  have "maintains invoices_ok (invoice_tx q now tok cny title email)"
    by (rule maintains_atomic[OF atomic_invoice_tx]) (auto dest!: invoice_tx_Inr simp: invoices_ok_insert)
  then show ?thesis unfolding create_invoice_split
    by (cases "cny \<le> 0") (simp_all add: maintains_bnd maintains_read_only read_only_get_invoice read_only_throw)
qed

definition workspace_invoice_tx ::
  "sqlite \<Rightarrow> int \<Rightarrow> int \<Rightarrow> string \<Rightarrow> float64 \<Rightarrow> invoice_title \<Rightarrow> string \<Rightarrow> int dbm" where
  "workspace_invoice_tx q now wsid initiator cny title email = in_tx (
     bnd (list_members_for_invoice wsid) (\<lambda>members.
     bnd (dbm_map (\<lambda>m. invoice_summary_for q (im_token m)) members) (\<lambda>smrs.
     let avail = map available_cny smrs; total = round2 (foldl fadd 0 avail) in
     if fadd total invoice_epsilon < cny then throw (ErrInsufficientInvoiceable cny total)
     else bnd (insert_invoice_stmt initiator cny title email wsid now) (\<lambda>iid.
          bnd (dbm_map (\<lambda>p. stmt (insert_allocation iid p)) (allocate_invoice members avail cny)) (\<lambda>_.
          bnd (exec (upsert_title_row initiator title now)) (\<lambda>_.
          ret iid))))))"

lemma create_workspace_invoice_split: "create_workspace_invoice q now wsid initiator cny title email =
     (if cny \<le> 0 then throw (ErrMessage ''cny amount must be positive'')
      else if wsid \<le> 0 then throw (ErrMessage ''workspace id required'')
      else bnd (query (\<lambda>_. ())) (\<lambda>_. bnd (workspace_invoice_tx q now wsid initiator cny title email) get_invoice))"
  by (simp add: create_workspace_invoice_def workspace_invoice_tx_def)

lemma atomic_workspace_invoice_tx: "atomic (workspace_invoice_tx q now wsid initiator cny title email)"
  unfolding workspace_invoice_tx_def by (rule atomic_in_tx)

definition members_in_order :: "int \<Rightarrow> db \<Rightarrow> invoice_member list" where
  "members_in_order wsid d = map (\<lambda>m. \<lparr>im_token = m_token m, im_role = m_role m\<rparr>)
     (order_by (\<lambda>a b. m_created_at a < m_created_at b \<or> (m_created_at a = m_created_at b \<and> text_less (m_token a) (m_token b)))
       (filter (\<lambda>m. m_workspace_id m = wsid) (workspace_members d)))"

definition member_avail :: "sqlite \<Rightarrow> int \<Rightarrow> db \<Rightarrow> float64 list" where
  "member_avail q wsid d = map (\<lambda>m. available_cny (summary_at q (im_token m) d)) (members_in_order wsid d)"

lemma workspace_invoice_tx_Inr:
  assumes run: "workspace_invoice_tx q now wsid initiator cny title email s = (Inr iid, s')"
    and ok: "invoices_ok (store s)" and ws: "0 < wsid"
  shows "cny \<le> fadd (round2 (foldl fadd 0 (member_avail q wsid (store s)))) invoice_epsilon \<and>
     iid = next_id Seq_invoices (store s) \<and> invoices_ok (store s') \<and>
     store s' = upsert_title_row initiator title now
       ((insert_invoice initiator cny title email wsid now (store s))\<lparr>invoice_allocations := invoice_allocations (store s) @
          map (\<lambda>p. \<lparr>a_invoice_id = iid, a_token = fst p, a_cny_amount = snd p\<rparr>)
            (allocate_invoice (members_in_order wsid (store s)) (member_avail q wsid (store s)) cny)\<rparr>)"
proof -
  from run obtain ms s1 smrs s2 sE where l: "list_members_for_invoice wsid (tick s) = (Inr ms, s1)"
    and sm: "dbm_map (\<lambda>m. invoice_summary_for q (im_token m)) ms s1 = (Inr smrs, s2)"
    and rest: "(let avail = map available_cny smrs; total = round2 (foldl fadd 0 avail) in
     if fadd total invoice_epsilon < cny then throw (ErrInsufficientInvoiceable cny total)
     else bnd (insert_invoice_stmt initiator cny title email wsid now) (\<lambda>iid.
          bnd (dbm_map (\<lambda>p. stmt (insert_allocation iid p)) (allocate_invoice ms avail cny)) (\<lambda>_.
          bnd (exec (upsert_title_row initiator title now)) (\<lambda>_. ret iid)))) s2 = (Inr iid, sE)" and s': "store s' = store sE"
    by (auto simp: workspace_invoice_tx_def in_tx_Inr bnd_Inr)
  from l have ms: "ms = members_in_order wsid (store s)" and s1: "store s1 = store s"
    by (auto simp: list_members_for_invoice_def query_Inr members_in_order_def)
  from dbm_map_summaries[OF sm] ms s1 have avail: "map available_cny smrs = member_avail q wsid (store s)" and s2: "store s2 = store s"
    by (simp_all add: member_avail_def)
  define gate where "gate = fadd (round2 (foldl fadd 0 (member_avail q wsid (store s)))) invoice_epsilon"
  from rest have g: "cny \<le> gate"
    by (auto simp: Let_def avail gate_def throw_def split: if_splits)
  with rest obtain s3 ys s4 where ins: "insert_invoice_stmt initiator cny title email wsid now s2 = (Inr iid, s3)"
    and al: "dbm_map (\<lambda>p. stmt (insert_allocation iid p)) (allocate_invoice ms (member_avail q wsid (store s)) cny) s3 = (Inr ys, s4)"
    and up: "store sE = upsert_title_row initiator title now (store s4)"
    by (auto simp: Let_def avail gate_def bnd_Inr exec_Inr ret_iff)
  from ins s2 have iid: "iid = next_id Seq_invoices (store s)"
    and s3: "store s3 = insert_invoice initiator cny title email wsid now (store s)"
    by (auto simp: insert_invoice_stmt_def stmt_Inr)
  have "invoices_ok (store s3)" using ok by (simp add: s3 invoices_ok_insert)
  moreover have "\<exists>i \<in> set (invoices (store s3)). i_id i = iid \<and> 0 < i_workspace_id i"
    using ws by (simp add: s3 insert_invoice_def iid)
  ultimately have s4: "invoices_ok (store s4)" "store s4 = (store s3)\<lparr>invoice_allocations := invoice_allocations (store s3) @
     map (\<lambda>p. \<lparr>a_invoice_id = iid, a_token = fst p, a_cny_amount = snd p\<rparr>) (allocate_invoice ms (member_avail q wsid (store s)) cny)\<rparr>"
    using dbm_map_allocations[OF al] by blast+
  have "invoice_allocations (store s3) = invoice_allocations (store s)" by (simp add: s3 insert_invoice_def)
  with s4 up s' g iid ms s3 show ?thesis by (simp add: gate_def)
qed

lemma create_workspace_invoice_maintains: "maintains invoices_ok (create_workspace_invoice q now wsid initiator cny title email)"
proof (cases "cny \<le> 0 \<or> wsid \<le> 0")
  case True then show ?thesis
    by (auto simp: create_workspace_invoice_split intro: maintains_read_only read_only_throw)
next
  case False
  have "maintains invoices_ok (workspace_invoice_tx q now wsid initiator cny title email)"
    by (rule maintains_atomic[OF atomic_workspace_invoice_tx]) (use False in \<open>auto dest!: workspace_invoice_tx_Inr\<close>)
  with False show ?thesis unfolding create_workspace_invoice_split
    by (simp add: maintains_bnd maintains_read_only read_only_get_invoice read_only_query)
qed

lemma transition_maintains:
  assumes "\<And>i. i_id (f i) = i_id i" "\<And>i. i_workspace_id (f i) = i_workspace_id i"
    "\<And>i. i_status (f i) \<in> {InvoiceIssued, InvoiceRejected}"
  shows "maintains invoices_ok (transition_invoice iid f)"
proof -
  have ids: "map i_id (sql_update (invoice_pending iid) f rows) = map i_id rows" for rows
    by (rule map_sql_update_same) (simp add: assms(1))
  have "invoices_ok (d\<lparr>invoices := sql_update (invoice_pending iid) f (invoices d)\<rparr>)" if ok: "invoices_ok d" for d
  proof -
    have imgs: "i_id ` set (sql_update (invoice_pending iid) f (invoices d)) = i_id ` set (invoices d)"
      by (metis ids set_map)
    have st: "\<forall>i \<in> set (sql_update (invoice_pending iid) f (invoices d)). i_status i \<in> {InvoicePending, InvoiceIssued, InvoiceRejected}"
      using ok assms(3) unfolding invoices_ok_def ball_sql_update by (metis insertI2)
    have al: "(\<exists>i \<in> set (sql_update (invoice_pending iid) f (invoices d)). i_id i = k \<and> 0 < i_workspace_id i) =
        (\<exists>i \<in> set (invoices d). i_id i = k \<and> 0 < i_workspace_id i)" for k
      unfolding bex_sql_update by (simp add: assms)
    show ?thesis using ok imgs st al by (simp add: invoices_ok_def ids)
  qed
  then show ?thesis unfolding transition_invoice_def
    by (intro maintains_bnd maintains_exec_count) (auto intro: maintains_read_only read_only_get_invoice read_only_throw)
qed

lemma mark_invoice_maintains:
  "maintains invoices_ok (mark_invoice_issued now iid pdf nt)" "maintains invoices_ok (mark_invoice_rejected now iid nt)"
  unfolding mark_invoice_issued_def mark_invoice_rejected_def by (rule transition_maintains; simp)+

section \<open>What is claimed against what was paid\<close>

lemma to_int64_less_1: "x < 1 \<Longrightarrow> to_int64 x \<le> 0"
  by (simp add: to_int64_def floor_less_iff)

lemma round2_upper:
  assumes "0 < round2 v" "v \<le> 8000000000"
  shows "round2 v \<le> v + 6 / 1000"
proof -
  define y where "y = fadd (fmul v 100) (1 / 2)"
  have r: "round2 v = rnd (rnd (of_int (to_int64 y)) / 100)" by (simp add: round2_def fdiv_def y_def)
  have n: "0 < to_int64 y"
  proof (rule ccontr)
    assume "\<not> 0 < to_int64 y"
    then have "rnd (of_int (to_int64 y)) \<le> 0" by (intro rnd_nonpos) simp
    then have "round2 v \<le> 0" unfolding r by (intro rnd_nonpos) simp
    with assms(1) show False by simp
  qed
  then have "1 \<le> y" using to_int64_less_1[of y] by linarith
  then have yb: "of_int (to_int64 y) \<le> y" using to_int64_bounds[of y] by simp
  have v0: "0 \<le> v"
  proof (rule ccontr)
    assume "\<not> 0 \<le> v"
    then have "fmul v 100 \<le> 0" unfolding fmul_def by (intro rnd_nonpos) simp
    then have "y \<le> fadd 0 (1 / 2)" unfolding y_def by (rule fadd_mono) simp
    also have "fadd 0 (1 / 2) < 1" by code_simp
    finally show False using \<open>1 \<le> y\<close> by simp
  qed
  have "\<bar>fmul v 100 - v * 100\<bar> \<le> 1 / 16384" using v0 assms(2) by (intro fop_close) simp
  moreover from this have "\<bar>y - (fmul v 100 + 1 / 2)\<bar> \<le> 1 / 16384"
    unfolding y_def using v0 assms(2) by (intro fop_close) linarith
  ultimately have yv: "y \<le> v * 100 + 1 / 2 + 2 / 16384" by linarith
  with yb assms(2) have small: "(of_int (to_int64 y) :: rat) \<le> 900000000000" by linarith
  then have "to_int64 y \<le> 900000000000" by (metis of_int_le_iff of_int_numeral)
  with n have "rnd (of_int (to_int64 y)) = of_int (to_int64 y)" by (intro rnd_of_int) simp
  with r have r': "round2 v = rnd (of_int (to_int64 y) / 100)" by simp
  have "\<bar>rnd (of_int (to_int64 y) / 100) - of_int (to_int64 y) / 100\<bar> \<le> 1 / 16384"
    using n small by (intro rnd_close) simp
  with r' yb yv show ?thesis by linarith
qed

text \<open>The exact total a token has paid, and the exact total its invoices claim.\<close>

definition paid_total :: "string \<Rightarrow> db \<Rightarrow> rat" where
  "paid_total tok d = sum_list (paid_cny_rows tok d)"

definition claimed_total :: "string \<Rightarrow> db \<Rightarrow> rat" where
  "claimed_total tok d = sum_list (own_claims InvoicePending tok d) + sum_list (own_claims InvoiceIssued tok d) +
     sum_list (team_claims InvoicePending tok d) + sum_list (team_claims InvoiceIssued tok d)"

text \<open>The five \<open>SUM\<close>s of the quota are right to a tenth of a fen, on totals below a billion.\<close>

definition sums_accurate :: "sqlite \<Rightarrow> string \<Rightarrow> db \<Rightarrow> bool" where
  "sums_accurate q tok d \<longleftrightarrow> (\<forall>col \<in> {paid_cny_rows tok d, own_claims InvoicePending tok d, own_claims InvoiceIssued tok d,
       team_claims InvoicePending tok d, team_claims InvoiceIssued tok d}.
     \<bar>coalesce_sum q col - sum_list col\<bar> \<le> 1 / 1000 \<and> \<bar>sum_list col\<bar> \<le> 1000000000)"

lemma invoice_epsilon_bounds: "0 < invoice_epsilon" "invoice_epsilon \<le> 501 / 100000"
  by code_simp+

lemma available_upper:
  assumes "sums_accurate q tok d" "0 < available_cny (summary_at q tok d)"
  shows "available_cny (summary_at q tok d) \<le> paid_total tok d - claimed_total tok d + 12 / 1000"
proof -
  define p lo lt io it where defs: "p = coalesce_sum q (paid_cny_rows tok d)"
    "lo = coalesce_sum q (own_claims InvoicePending tok d)" "lt = coalesce_sum q (team_claims InvoicePending tok d)"
    "io = coalesce_sum q (own_claims InvoiceIssued tok d)" "it = coalesce_sum q (team_claims InvoiceIssued tok d)"
  define x where "x = fsub (fsub p (fadd lo lt)) (fadd io it)"
  have av: "available_cny (summary_at q tok d) = round2 x"
    using assms(2) by (auto simp: summary_at_def Let_def available_amount_def x_def defs split: if_splits)
  have c: "\<bar>p - paid_total tok d\<bar> \<le> 1 / 1000" "\<bar>paid_total tok d\<bar> \<le> 1000000000"
    "\<bar>lo - sum_list (own_claims InvoicePending tok d)\<bar> \<le> 1 / 1000" "\<bar>sum_list (own_claims InvoicePending tok d)\<bar> \<le> 1000000000"
    "\<bar>io - sum_list (own_claims InvoiceIssued tok d)\<bar> \<le> 1 / 1000" "\<bar>sum_list (own_claims InvoiceIssued tok d)\<bar> \<le> 1000000000"
    "\<bar>lt - sum_list (team_claims InvoicePending tok d)\<bar> \<le> 1 / 1000" "\<bar>sum_list (team_claims InvoicePending tok d)\<bar> \<le> 1000000000"
    "\<bar>it - sum_list (team_claims InvoiceIssued tok d)\<bar> \<le> 1 / 1000" "\<bar>sum_list (team_claims InvoiceIssued tok d)\<bar> \<le> 1000000000"
    using assms(1) by (simp_all add: sums_accurate_def defs paid_total_def)
  note c = c[unfolded abs_le_iff]
  have 1: "\<bar>fadd lo lt - (lo + lt)\<bar> \<le> 1 / 16384"
    by (rule fop_close, unfold abs_le_iff, intro conjI) (use c in linarith)+
  have 2: "\<bar>fadd io it - (io + it)\<bar> \<le> 1 / 16384"
    by (rule fop_close, unfold abs_le_iff, intro conjI) (use c in linarith)+
  note e = 1[unfolded abs_le_iff] 2[unfolded abs_le_iff]
  have 3: "\<bar>fsub p (fadd lo lt) - (p - fadd lo lt)\<bar> \<le> 1 / 16384"
    by (rule fop_close, unfold abs_le_iff, intro conjI) (use c e in linarith)+
  note e = e 3[unfolded abs_le_iff]
  have 4: "\<bar>x - (fsub p (fadd lo lt) - fadd io it)\<bar> \<le> 1 / 16384"
    unfolding x_def by (rule fop_close, unfold abs_le_iff, intro conjI) (use c e in linarith)+
  note e = e 4[unfolded abs_le_iff]
  have "x \<le> 8000000000" using c e by linarith
  with assms(2) have "round2 x \<le> x + 6 / 1000" by (intro round2_upper) (simp_all add: av)
  with c e show ?thesis unfolding av claimed_total_def by linarith
qed

lemma available_nonneg: "0 \<le> available_cny (summary_at q tok d)"
  by (simp add: summary_at_def Let_def available_amount_def)

lemma gate_upper:
  assumes "sums_accurate q tok d" "cny \<le> fadd (available_cny (summary_at q tok d)) invoice_epsilon" "invoice_epsilon < cny"
  shows "claimed_total tok d + cny \<le> paid_total tok d + 2 / 100"
proof -
  let ?a = "available_cny (summary_at q tok d)"
  have "?a \<noteq> 0" using assms(2,3) by (auto simp: invoice_epsilon_def)
  with available_nonneg[of q tok d] have a: "0 < ?a" by simp
  note u = available_upper[OF assms(1) a]
  have "- 1000000000 \<le> sum_list (own_claims InvoicePending tok d)" "- 1000000000 \<le> sum_list (own_claims InvoiceIssued tok d)"
    "- 1000000000 \<le> sum_list (team_claims InvoicePending tok d)" "- 1000000000 \<le> sum_list (team_claims InvoiceIssued tok d)"
    "paid_total tok d \<le> 1000000000"
    using assms(1) by (simp_all add: sums_accurate_def paid_total_def abs_le_iff)
  then have "- 4000000000 \<le> claimed_total tok d" "paid_total tok d \<le> 1000000000"
    unfolding claimed_total_def by linarith+
  then have "?a \<le> 6000000000" using u by linarith
  with a invoice_epsilon_bounds have "\<bar>fadd ?a invoice_epsilon - (?a + invoice_epsilon)\<bar> \<le> 1 / 16384"
    by (intro fop_close) linarith
  with u assms(2) invoice_epsilon_bounds show ?thesis by linarith
qed

lemma claims_views:
  "own_claims st k (upsert_title_row tok t now d) = own_claims st k d"
  "team_claims st k (upsert_title_row tok t now d) = team_claims st k d"
  "paid_total k (upsert_title_row tok t now d) = paid_total k d"
  "claimed_total k (upsert_title_row tok t now d) = claimed_total k d"
  "paid_total k (insert_invoice tok cny t email wsid now d) = paid_total k d"
  "paid_total k (d\<lparr>invoice_allocations := al\<rparr>) = paid_total k d"
  by (simp_all add: own_claims_def team_claims_def paid_total_def paid_cny_rows_def claimed_total_def
      upsert_title_row_def Let_def insert_invoice_def)

lemma own_claims_insert: "own_claims st k (insert_invoice tok cny t email wsid now d) =
    own_claims st k d @ (if k = tok \<and> wsid = 0 then [if st = InvoicePending then cny else 0] else [])"
  by (auto simp: own_claims_def insert_invoice_def)

lemma team_claims_insert:
  assumes "invoices_ok d"
  shows "team_claims st k (insert_invoice tok cny t email wsid now d) = team_claims st k d"
proof -
  have "next_id Seq_invoices d \<noteq> a_invoice_id a" if "a \<in> set (invoice_allocations d)" for a
    using assms that by (fastforce simp: invoices_ok_def next_id_def)
  then show ?thesis
    by (auto simp: team_claims_def insert_invoice_def intro!: arg_cong[where f = concat] map_cong)
qed

lemma claimed_total_insert:
  "invoices_ok d \<Longrightarrow> claimed_total k (insert_invoice tok cny t email 0 now d) =
     claimed_total k d + (if k = tok then cny else 0)"
  by (simp add: claimed_total_def own_claims_insert team_claims_insert)

lemma create_invoice_Inr:
  assumes "create_invoice q now tok cny title email s = (Inr v, s')"
  shows "0 < cny \<and> cny \<le> fadd (available_cny (summary_at q tok (store s))) invoice_epsilon \<and>
     store s' = upsert_title_row tok title now (insert_invoice tok cny title email 0 now (store s)) \<and>
     invoice_row (store s') (next_id Seq_invoices (store s)) = Some v"
proof -
  from assms have c: "0 < cny" by (auto simp: create_invoice_split throw_def split: if_splits)
  with assms obtain iid s1 where t: "invoice_tx q now tok cny title email s = (Inr iid, s1)" and g: "get_invoice iid s1 = (Inr v, s')"
    by (auto simp: create_invoice_split bnd_Inr)
  from invoice_tx_Inr[OF t] g c show ?thesis by (auto simp: get_invoice_def query_row_Inr)
qed

text \<open>With a sound driver a request within the gate goes through.\<close>

lemma create_invoice_calm:
  assumes p: "plan s = []" and c: "0 < cny" "cny \<le> fadd (available_cny (summary_at q tok (store s))) invoice_epsilon"
  shows "\<exists>v s'. create_invoice q now tok cny title email s = (Inr v, s')"
proof -
  have f: "faulty t = False" if "plan t = []" for t :: session using that by (rule not_faulty[THEN Eq_FalseI, THEN meta_eq_to_obj_eq])
  have sm: "invoice_summary_for q tok (tick s) = (Inr (summary_at q tok (store s)), tick (tick (tick (tick s))))"
    using p by (simp add: invoice_summary_for_def bnd_def query_def stmt_def f ret_def summary_at_def Let_def)
  obtain v where v: "invoice_row (insert_invoice tok cny title email 0 now (store s)) (next_id Seq_invoices (store s)) = Some v"
    by (cases "find (\<lambda>i. i_id i = next_id Seq_invoices (store s)) (invoices (store s))")
      (simp_all add: invoice_row_def insert_invoice_def find_append)
  have "invoice_row (upsert_title_row tok title now d) k = invoice_row d k" for d k
    by (simp add: invoice_row_def upsert_title_row_def Let_def)
  then show ?thesis
    using p c sm v by (simp add: create_invoice_split invoice_tx_def in_tx_def bnd_def f insert_invoice_stmt_def stmt_def
        exec_def ret_def get_invoice_def query_row_def)
qed

section \<open>Properties\<close>

text \<open>C6. A token cannot invoice more than it paid: a personal request that goes through leaves
  everything the token has claimed within two fen of its paid orders, whatever the rounding of
  the sums did, and leaves every other token's claims alone. The amounts in question are above
  the half-fen tolerance, as the endpoint requires, and the SUMs are right to a tenth of a fen.\<close>

theorem personal_invoice_within_paid:
  assumes "invoices_ok (store s)" "sums_accurate q tok (store s)" "invoice_epsilon < cny"
    and run: "create_invoice q now tok cny title email s = (Inr v, s')"
  shows "claimed_total tok (store s') = claimed_total tok (store s) + cny \<and>
    claimed_total tok (store s') \<le> paid_total tok (store s') + 2 / 100 \<and>
    (\<forall>k. k \<noteq> tok \<longrightarrow> claimed_total k (store s') = claimed_total k (store s)) \<and>
    (\<forall>k. paid_total k (store s') = paid_total k (store s))"
  using create_invoice_Inr[OF run] gate_upper[OF assms(2) _ assms(3)] assms(1)
  by (simp add: claims_views claimed_total_insert)

definition demo_paid_db :: db where
  "demo_paid_db = pay_order ''t1'' ''x'' 950 demo_db"

definition demo_title :: invoice_title where
  "demo_title = \<lparr>it_id = 0, it_token = ''alice'', it_name = ''ACME'', it_tax_no = ''91'', it_address = [], it_phone = [],
     it_bank = [], it_bank_account = [], it_last_used_at = 0, it_created_at = 0\<rparr>"

lemma demo_invoices_ok: "invoices_ok demo_db" "invoices_ok demo_paid_db"
  by (simp_all add: invoices_ok_def demo_paid_db_def pay_order_def demo_db_def initial_db_def)

lemma demo_sums: "sums_accurate demo_sqlite ''alice'' demo_paid_db"
  by (simp add: sums_accurate_def demo_paid_db_def demo_db_def pay_order_def initial_db_def paid_cny_rows_def own_claims_def
      team_claims_def coalesce_sum_def demo_sqlite_def is_pending_def OrderPending_def OrderPaid_def)

theorem personal_invoice_within_paid_witness:
  "claimed_total ''alice'' (store (snd (create_invoice demo_sqlite 960 ''alice'' 14 demo_title ''a'' (fresh_session demo_paid_db)))) = 14"
proof -
  define r where "r = create_invoice demo_sqlite 960 ''alice'' 14 demo_title ''a'' (fresh_session demo_paid_db)"
  have "14 \<le> fadd (available_cny (summary_at demo_sqlite ''alice'' demo_paid_db)) invoice_epsilon" by code_simp
  then obtain v where run: "r = (Inr v, snd r)"
    using create_invoice_calm[of "fresh_session demo_paid_db" 14 demo_sqlite "''alice''" 960 demo_title "''a''"]
    by (auto simp: r_def fresh_session_def)
  have e: "invoice_epsilon < 14" using invoice_epsilon_bounds by simp
  have z: "claimed_total ''alice'' demo_paid_db = 0"
    by (simp add: claimed_total_def own_claims_def team_claims_def demo_paid_db_def demo_db_def pay_order_def initial_db_def)
  have st: "store (fresh_session demo_paid_db) = demo_paid_db" by (simp add: fresh_session_def)
  have "claimed_total ''alice'' (store (snd r)) = claimed_total ''alice'' demo_paid_db + 14"
    unfolding r_def
    by (rule conjunct1[OF personal_invoice_within_paid[OF _ _ e run[unfolded r_def], unfolded st, OF demo_invoices_ok(2) demo_sums]])
  then show ?thesis unfolding r_def z by simp
qed

lemma invoice_pending_count_0:
  assumes "invoices_ok d" "invoice_row d iid = Some i" "i_status i \<noteq> InvoicePending"
  shows "sql_count (invoice_pending iid) (invoices d) = 0"
proof -
  have "distinct (map i_id (invoices d))" using assms(1) strict_sorted_iff by (auto simp: invoices_ok_def)
  then show ?thesis using assms(2,3)
    by (auto simp: sql_count_0_iff invoice_row_def invoice_pending_def dest: find_key_unique)
qed

lemma transition_not_pending:
  assumes "sql_count (invoice_pending iid) (invoices (store s)) = 0" "\<And>i. i_id (f i) = i_id i"
  shows "store (snd (transition_invoice iid f s)) = store s \<and> (\<exists>e. fst (transition_invoice iid f s) = Inl e)"
proof -
  have "sql_update (invoice_pending iid) f (invoices (store s)) = invoices (store s)"
    using assms(1) by (intro sql_update_id) (auto simp: sql_count_0_iff)
  then show ?thesis using assms(1)
    by (simp add: transition_invoice_def bnd_def exec_count_def stmt_def throw_def)
qed

text \<open>An invoice that was issued or rejected stays as it is: a second decision on it is an
  error and changes nothing, whatever the driver does.\<close>

theorem settled_invoice_is_final:
  assumes "invoices_ok (store s)" "invoice_row (store s) iid = Some i" "i_status i \<noteq> InvoicePending"
  shows "store (snd (mark_invoice_issued now iid pdf nt s)) = store s \<and> (\<exists>e. fst (mark_invoice_issued now iid pdf nt s) = Inl e) \<and>
    store (snd (mark_invoice_rejected now iid nt s)) = store s \<and> (\<exists>e. fst (mark_invoice_rejected now iid nt s) = Inl e)"
  unfolding mark_invoice_issued_def mark_invoice_rejected_def
  using transition_not_pending[OF invoice_pending_count_0[OF assms]] by simp

definition demo_issued_db :: db where
  "demo_issued_db = demo_paid_db\<lparr>invoices := [\<lparr>i_id = 1, i_token = ''alice'', i_cny_amount = 14, i_title_name = ''ACME'',
     i_title_snapshot = [], i_contact_email = ''a'', i_status = ''issued'', i_pdf_path = ''p'', i_note = [], i_created_at = 960,
     i_issued_at = 970, i_rejected_at = 0, i_workspace_id = 0\<rparr>], sequences := (sequences demo_paid_db)(Seq_invoices := 1)\<rparr>"

theorem settled_invoice_is_final_witness:
  "store (snd (mark_invoice_rejected 980 1 ''no'' (fresh_session demo_issued_db))) = demo_issued_db"
proof -
  have "invoices_ok demo_issued_db"
    by (simp add: invoices_ok_def demo_issued_db_def invoice_states demo_paid_db_def pay_order_def demo_db_def initial_db_def)
  moreover have "invoice_row demo_issued_db 1 = Some (hd (invoices demo_issued_db))"
    by (simp add: invoice_row_def demo_issued_db_def)
  moreover have "i_status (hd (invoices demo_issued_db)) \<noteq> InvoicePending"
    by (simp add: demo_issued_db_def invoice_states)
  ultimately show ?thesis
    using settled_invoice_is_final[of "fresh_session demo_issued_db" 1 "hd (invoices demo_issued_db)" 980]
    by (simp add: fresh_session_def)
qed

end
