(* ===== verification/Rekey.thy ===== *)
theory Rekey
  imports Invoices
begin

text \<open>
  Token rotation (\<open>RekeyToken\<close> of \<open>internal/saas/db/wallet.go\<close>): one transaction moves every
  row that names a token to a new token, after checking that the new one is free. The unique
  keys of the tables cannot clash, because the same transaction has counted no row of the new
  token in them.
\<close>

record rekey_report =
  rr_wallet_rows :: nat
  rr_wallet_tx_rows :: nat
  rr_order_rows :: nat
  rr_member_rows :: nat
  rr_workspace_tx_rows :: nat
  rr_invoice_rows :: nat
  rr_allocation_rows :: nat
  rr_title_rows :: nat
  rr_old_balance :: float64
  rr_new_balance :: float64
  rr_backup_path :: string

section \<open>The tables keyed on a token\<close>

datatype token_table = T_wallet_tx | T_orders | T_members | T_workspace_tx | T_invoices | T_allocations | T_titles

fun table_name :: "token_table \<Rightarrow> string" where
  "table_name T_wallet_tx = ''wallet_tx''"
| "table_name T_orders = ''alipay_orders''"
| "table_name T_members = ''workspace_members''"
| "table_name T_workspace_tx = ''workspace_tx''"
| "table_name T_invoices = ''invoices''"
| "table_name T_allocations = ''invoice_allocations''"
| "table_name T_titles = ''invoice_titles''"

fun count_token :: "token_table \<Rightarrow> string \<Rightarrow> db \<Rightarrow> nat" where
  "count_token T_wallet_tx tok d = sql_count (\<lambda>r. wt_token r = tok) (wallet_txs d)"
| "count_token T_orders tok d = sql_count (\<lambda>r. o_token r = tok) (alipay_orders d)"
| "count_token T_members tok d = sql_count (\<lambda>r. m_token r = tok) (workspace_members d)"
| "count_token T_workspace_tx tok d = sql_count (\<lambda>r. wst_token r = tok) (workspace_txs d)"
| "count_token T_invoices tok d = sql_count (\<lambda>r. i_token r = tok) (invoices d)"
| "count_token T_allocations tok d = sql_count (\<lambda>r. a_token r = tok) (invoice_allocations d)"
| "count_token T_titles tok d = sql_count (\<lambda>r. it_token r = tok) (invoice_titles d)"

fun move_token :: "string \<Rightarrow> string \<Rightarrow> token_table \<Rightarrow> db \<Rightarrow> db" where
  "move_token old new T_wallet_tx d = d\<lparr>wallet_txs := sql_update (\<lambda>r. wt_token r = old) (\<lambda>r. r\<lparr>wt_token := new\<rparr>) (wallet_txs d)\<rparr>"
| "move_token old new T_orders d = d\<lparr>alipay_orders := sql_update (\<lambda>r. o_token r = old) (\<lambda>r. r\<lparr>o_token := new\<rparr>) (alipay_orders d)\<rparr>"
| "move_token old new T_members d = d\<lparr>workspace_members := sql_update (\<lambda>r. m_token r = old) (\<lambda>r. r\<lparr>m_token := new\<rparr>) (workspace_members d)\<rparr>"
| "move_token old new T_workspace_tx d = d\<lparr>workspace_txs := sql_update (\<lambda>r. wst_token r = old) (\<lambda>r. r\<lparr>wst_token := new\<rparr>) (workspace_txs d)\<rparr>"
| "move_token old new T_invoices d = d\<lparr>invoices := sql_update (\<lambda>r. i_token r = old) (\<lambda>r. r\<lparr>i_token := new\<rparr>) (invoices d)\<rparr>"
| "move_token old new T_allocations d = d\<lparr>invoice_allocations := sql_update (\<lambda>r. a_token r = old) (\<lambda>r. r\<lparr>a_token := new\<rparr>) (invoice_allocations d)\<rparr>"
| "move_token old new T_titles d = d\<lparr>invoice_titles := sql_update (\<lambda>r. it_token r = old) (\<lambda>r. r\<lparr>it_token := new\<rparr>) (invoice_titles d)\<rparr>"

definition source_tables :: "token_table list" where
  "source_tables = [T_wallet_tx, T_orders, T_members, T_workspace_tx, T_invoices, T_allocations, T_titles]"

definition count_wallets :: "string \<Rightarrow> db \<Rightarrow> nat" where
  "count_wallets tok d = sql_count (\<lambda>w. w_token w = tok) (wallets d)"

definition move_wallet :: "string \<Rightarrow> string \<Rightarrow> int \<Rightarrow> db \<Rightarrow> db" where
  "move_wallet old new now d = d\<lparr>wallets := sql_update (\<lambda>w. w_token w = old)
     (\<lambda>w. w\<lparr>w_token := new, w_updated_at := now\<rparr>) (wallets d)\<rparr>"

definition touch_member :: "string \<Rightarrow> int \<Rightarrow> db \<Rightarrow> db" where
  "touch_member tok now = update_member_row tok (\<lambda>m. m\<lparr>m_updated_at := now\<rparr>)"

section \<open>The operation\<close>

text \<open>One table: the rows moved must be the rows counted.\<close>

definition move_checked :: "string \<Rightarrow> string \<Rightarrow> token_table \<times> nat \<Rightarrow> nat dbm" where
  "move_checked old new p = (case p of (t, pre) \<Rightarrow>
     bnd (exec_count (count_token t old) (move_token old new t)) (\<lambda>n.
     if n \<noteq> pre then throw (ErrMessage (table_name t @ '' conservation broken: pre='' @ itoa (int pre) @ '' post='' @ itoa (int n)))
     else ret n))"

text \<open>The counts, in the order of the source: the source tables, then the destination's.\<close>

definition count_queries :: "string \<Rightarrow> string \<Rightarrow> (db \<Rightarrow> nat) list" where
  "count_queries old new = map (\<lambda>t. count_token t old) source_tables @
     [count_wallets new, count_token T_members new, count_token T_invoices new, count_token T_allocations new,
      count_token T_titles new]"

definition move_wallet_checked :: "int \<Rightarrow> string \<Rightarrow> string \<Rightarrow> nat dbm" where
  "move_wallet_checked now old new =
     bnd (exec_count (count_wallets old) (move_wallet old new now)) (\<lambda>n.
     if n \<noteq> 1 then throw (ErrMessage (''wallets rekey expected 1 row, got '' @ itoa (int n))) else ret n)"

definition read_back :: "string \<Rightarrow> float64 \<Rightarrow> float64 dbm" where
  "read_back new b = bnd (query_row (ErrMessage ''balance readback failed'') (\<lambda>d. wallet_balance d new)) (\<lambda>b'.
     if b' \<noteq> b then throw (ErrMessage ''balance mismatch'') else ret b')"

definition rekey_tx :: "int \<Rightarrow> string \<Rightarrow> string \<Rightarrow> (nat \<times> nat list \<times> float64 \<times> float64) dbm" where
  "rekey_tx now old new = in_tx (
     bnd (query (\<lambda>d. wallet_balance d old)) (\<lambda>old_bal.
     bnd (dbm_map query (count_queries old new)) (\<lambda>counts.
     let pre = take 7 counts; dst = drop 7 counts in
     if 0 < dst ! 0 then throw (ErrMessage ''destination token already has a wallet; refusing to overwrite'')
     else if 0 < dst ! 1 then throw (ErrMessage ''destination token already belongs to a workspace; refusing to overwrite'')
     else if 0 < dst ! 2 \<or> 0 < dst ! 3 \<or> 0 < dst ! 4
     then throw (ErrMessage ''destination token already has invoice state; refusing to overwrite'')
     else bnd (if old_bal \<noteq> None then move_wallet_checked now old new else ret 0) (\<lambda>moved.
     bnd (exec (touch_member old now)) (\<lambda>_.
     bnd (dbm_map (move_checked old new) (zip source_tables pre)) (\<lambda>rows.
     bnd (case old_bal of None \<Rightarrow> ret (0, 0) | Some b \<Rightarrow> bnd (read_back new b) (\<lambda>b'. ret (b, b'))) (\<lambda>(b, b').
     ret (moved, rows, b, b'))))))))"

definition rekey_result :: "string \<Rightarrow> nat \<times> nat list \<times> float64 \<times> float64 \<Rightarrow> rekey_report" where
  "rekey_result bk r = (case r of (moved, rows, b, b') \<Rightarrow>
     \<lparr>rr_wallet_rows = moved, rr_wallet_tx_rows = rows ! 0, rr_order_rows = rows ! 1, rr_member_rows = rows ! 2,
      rr_workspace_tx_rows = rows ! 3, rr_invoice_rows = rows ! 4, rr_allocation_rows = rows ! 5,
      rr_title_rows = rows ! 6, rr_old_balance = b, rr_new_balance = b', rr_backup_path = bk\<rparr>)"

text \<open>\<open>stamp\<close> is the formatted time of the backup. \<open>VACUUM INTO\<close> copies the file and changes no row.\<close>

definition rekey_token :: "string \<Rightarrow> string \<Rightarrow> int \<Rightarrow> string \<Rightarrow> string \<Rightarrow> rekey_report dbm" where
  "rekey_token path stamp now old new =
     (if old = [] \<or> new = [] \<or> old = new then throw (ErrMessage ''oldToken and newToken must differ and be non-empty'')
      else bnd (if path \<noteq> [] then bnd (query (\<lambda>_. ())) (\<lambda>_. ret (path @ ''.pre-rekey-'' @ stamp @ ''.bak'')) else ret []) (\<lambda>bk.
           bnd (rekey_tx now old new) (\<lambda>r. ret (rekey_result bk r))))"

section \<open>The net effect\<close>

definition rekeyed :: "int \<Rightarrow> string \<Rightarrow> string \<Rightarrow> db \<Rightarrow> db" where
  "rekeyed now old new d = foldl (\<lambda>d t. move_token old new t d)
     (touch_member old now (if wallet_balance d old = None then d else move_wallet old new now d)) source_tables"

definition token_free :: "string \<Rightarrow> db \<Rightarrow> bool" where
  "token_free tok d \<longleftrightarrow> wallet_balance d tok = None \<and> member_row d tok = None \<and>
     (\<forall>i \<in> set (invoices d). i_token i \<noteq> tok) \<and> (\<forall>a \<in> set (invoice_allocations d). a_token a \<noteq> tok) \<and>
     (\<forall>t \<in> set (invoice_titles d). it_token t \<noteq> tok)"

lemma atomic_rekey_tx: "atomic (rekey_tx now old new)"
  unfolding rekey_tx_def by (rule atomic_in_tx)

lemma dbm_map_queries:
  "dbm_map query fs s = (Inr ys, s') \<Longrightarrow> ys = map (\<lambda>f. f (store s)) fs \<and> store s' = store s"
proof (induction fs arbitrary: s ys)
  case Nil then show ?case by (simp add: ret_iff)
next
  case (Cons f fs)
  then obtain s1 ys' where "dbm_map query fs s1 = (Inr ys', s')" "ys = f (store s) # ys'" "store s1 = store s"
    by (auto simp: bnd_Inr query_Inr ret_iff)
  with Cons.IH show ?case by fastforce
qed

lemma move_checked_Inr: "move_checked old new (t, pre) s = (Inr n, s') \<Longrightarrow>
    n = pre \<and> n = count_token t old (store s) \<and> store s' = move_token old new t (store s)"
  by (auto simp: move_checked_def bnd_Inr exec_count_Inr throw_def ret_iff split: if_splits)

lemma dbm_map_moves:
  "dbm_map (move_checked old new) ps s = (Inr ys, s') \<Longrightarrow>
   ys = map snd ps \<and> store s' = foldl (\<lambda>d t. move_token old new t d) (store s) (map fst ps)"
proof (induction ps arbitrary: s ys)
  case Nil then show ?case by (simp add: ret_iff)
next
  case (Cons p ps)
  obtain t pre where p: "p = (t, pre)" by (cases p)
  from Cons.prems obtain s1 ys' where r: "dbm_map (move_checked old new) ps s1 = (Inr ys', s')"
    "ys = pre # ys'" "store s1 = move_token old new t (store s)"
    by (auto simp: bnd_Inr p ret_iff dest!: move_checked_Inr)
  from Cons.IH[OF r(1)] r show ?case by (simp add: p)
qed

lemma find_none_count: "sql_count P xs = 0 \<Longrightarrow> find P xs = None"
  by (simp add: sql_count_0_iff find_None_iff)

lemma rekey_counts_free:
  assumes "0 = count_wallets new d" "0 = count_token T_members new d" "0 = count_token T_invoices new d"
    "0 = count_token T_allocations new d" "0 = count_token T_titles new d"
  shows "token_free new d"
  using assms[symmetric]
  by (simp add: token_free_def wallet_balance_def wallet_row_def member_row_def count_wallets_def find_none_count)
    (simp add: sql_count_0_iff)

lemma rekey_tx_Inr:
  assumes "rekey_tx now old new s = (Inr (moved, rows, b, b'), s')"
  shows "token_free new (store s) \<and> store s' = rekeyed now old new (store s) \<and>
     rows = map (\<lambda>t. count_token t old (store s)) source_tables \<and>
     moved = (if wallet_balance (store s) old = None then 0 else 1) \<and>
     (case wallet_balance (store s) old of None \<Rightarrow> b = 0 | Some x \<Rightarrow> b = x \<and> b' = x)"
proof -
  from assms obtain counts s1 s2 where
    q: "dbm_map query (count_queries old new) (tick (tick s)) = (Inr counts, s1)"
    and run: "(let pre = take 7 counts; dst = drop 7 counts in
     if 0 < dst ! 0 then throw (ErrMessage ''destination token already has a wallet; refusing to overwrite'')
     else if 0 < dst ! 1 then throw (ErrMessage ''destination token already belongs to a workspace; refusing to overwrite'')
     else if 0 < dst ! 2 \<or> 0 < dst ! 3 \<or> 0 < dst ! 4
     then throw (ErrMessage ''destination token already has invoice state; refusing to overwrite'')
     else bnd (if wallet_balance (store s) old \<noteq> None then move_wallet_checked now old new else ret 0) (\<lambda>moved.
     bnd (exec (touch_member old now)) (\<lambda>_.
     bnd (dbm_map (move_checked old new) (zip source_tables pre)) (\<lambda>rows.
     bnd (case wallet_balance (store s) old of None \<Rightarrow> ret (0, 0) | Some b \<Rightarrow> bnd (read_back new b) (\<lambda>b'. ret (b, b'))) (\<lambda>(b, b').
     ret (moved, rows, b, b')))))) s1 = (Inr (moved, rows, b, b'), s2)" and s': "store s' = store s2"
    unfolding rekey_tx_def in_tx_Inr by (auto simp: bnd_Inr query_Inr)
  from dbm_map_queries[OF q] have counts: "counts = map (\<lambda>f. f (store s)) (count_queries old new)" and st1: "store s1 = store s" by simp_all
  have split: "take 7 counts = map (\<lambda>t. count_token t old (store s)) source_tables"
    "drop 7 counts = [count_wallets new (store s), count_token T_members new (store s), count_token T_invoices new (store s),
       count_token T_allocations new (store s), count_token T_titles new (store s)]"
    by (simp_all add: counts count_queries_def source_tables_def)
  from run have zero: "count_wallets new (store s) = 0" "count_token T_members new (store s) = 0" "count_token T_invoices new (store s) = 0"
      "count_token T_allocations new (store s) = 0" "count_token T_titles new (store s) = 0"
    unfolding Let_def split by (simp_all add: throw_def split: if_splits)
  with run obtain s3 s4 s5 where
    w: "(if wallet_balance (store s) old \<noteq> None then move_wallet_checked now old new else ret 0) s1 = (Inr moved, s3)"
    and m: "dbm_map (move_checked old new) (zip source_tables (map (\<lambda>t. count_token t old (store s)) source_tables)) s4 = (Inr rows, s5)"
    and s4: "store s4 = touch_member old now (store s3)"
    and rb: "(case wallet_balance (store s) old of None \<Rightarrow> ret (0, 0) | Some b \<Rightarrow> bnd (read_back new b) (\<lambda>b'. ret (b, b'))) s5 = (Inr (b, b'), s2)"
    unfolding Let_def split by (auto simp: bnd_Inr exec_Inr ret_iff)
  have s3: "store s3 = (if wallet_balance (store s) old = None then store s else move_wallet old new now (store s))"
    "moved = (if wallet_balance (store s) old = None then 0 else 1)"
    using w st1 by (auto simp: ret_iff move_wallet_checked_def bnd_Inr exec_count_Inr throw_def split: if_splits)
  from dbm_map_moves[OF m] have rows: "rows = map (\<lambda>t. count_token t old (store s)) source_tables"
    and s5: "store s5 = foldl (\<lambda>d t. move_token old new t d) (store s4) source_tables"
    by (simp_all add: source_tables_def)
  have s2: "store s2 = store s5" "case wallet_balance (store s) old of None \<Rightarrow> b = 0 | Some x \<Rightarrow> b = x \<and> b' = x"
    using rb by (auto simp: ret_iff bnd_Inr read_back_def query_row_Inr throw_def split: option.splits if_splits)
  show ?thesis
    using rekey_counts_free[of new "store s"] zero s' s2 s5 s4 s3 rows by (simp add: rekeyed_def)
qed

lemma rekeyed_sel:
  "wallet_txs (rekeyed now old new d) = sql_update (\<lambda>r. wt_token r = old) (\<lambda>r. r\<lparr>wt_token := new\<rparr>) (wallet_txs d)"
  "alipay_orders (rekeyed now old new d) = sql_update (\<lambda>r. o_token r = old) (\<lambda>r. r\<lparr>o_token := new\<rparr>) (alipay_orders d)"
  "workspace_members (rekeyed now old new d) = sql_update (\<lambda>r. m_token r = old) (\<lambda>r. r\<lparr>m_token := new\<rparr>)
     (sql_update (\<lambda>m. m_token m = old) (\<lambda>m. m\<lparr>m_updated_at := now\<rparr>) (workspace_members d))"
  "workspace_txs (rekeyed now old new d) = sql_update (\<lambda>r. wst_token r = old) (\<lambda>r. r\<lparr>wst_token := new\<rparr>) (workspace_txs d)"
  "invoices (rekeyed now old new d) = sql_update (\<lambda>r. i_token r = old) (\<lambda>r. r\<lparr>i_token := new\<rparr>) (invoices d)"
  "invoice_allocations (rekeyed now old new d) = sql_update (\<lambda>r. a_token r = old) (\<lambda>r. r\<lparr>a_token := new\<rparr>) (invoice_allocations d)"
  "workspaces (rekeyed now old new d) = workspaces d" "pricing_groups (rekeyed now old new d) = pricing_groups d"
  "sequences (rekeyed now old new d) = sequences d"
  by (simp_all add: rekeyed_def source_tables_def touch_member_def update_member_row_def move_wallet_def)

lemma rekeyed_wallets:
  "wallets (rekeyed now old new d) =
     sql_update (\<lambda>w. w_token w = old) (\<lambda>w. w\<lparr>w_token := new, w_updated_at := now\<rparr>) (wallets d)"
proof (cases "wallet_balance d old")
  case None
  then have "sql_update (\<lambda>w. w_token w = old) (\<lambda>w. w\<lparr>w_token := new, w_updated_at := now\<rparr>) (wallets d) = wallets d"
    by (intro sql_update_id) (auto simp: wallet_balance_def wallet_row_def find_None_iff)
  with None show ?thesis by (simp add: rekeyed_def source_tables_def touch_member_def update_member_row_def)
next
  case (Some b) then show ?thesis
    by (simp add: rekeyed_def source_tables_def touch_member_def update_member_row_def move_wallet_def)
qed

text \<open>Rows keyed by a renamed column: what was under \<open>old\<close> is found under \<open>new\<close>, in the same order.\<close>

lemma filter_renamed:
  assumes "\<And>r. key (f r) = new" "old \<noteq> new"
  shows "filter (\<lambda>r. key r = k) (sql_update (\<lambda>r. key r = old) f rows) =
    (if k = old then [] else if k = new then map (\<lambda>r. if key r = old then f r else r) (filter (\<lambda>r. key r = old \<or> key r = new) rows)
     else filter (\<lambda>r. key r = k) rows)"
  using assms by (induction rows) auto

lemma find_renamed:
  assumes "\<And>r. key (f r) = new" "old \<noteq> new" "\<forall>r \<in> set rows. key r \<noteq> new"
  shows "find (\<lambda>r. key r = k) (sql_update (\<lambda>r. key r = old) f rows) =
    (if k = old then None else if k = new then map_option f (find (\<lambda>r. key r = old) rows) else find (\<lambda>r. key r = k) rows)"
  using assms by (induction rows) auto

lemma token_free_rows:
  "token_free new d \<Longrightarrow> (\<forall>w \<in> set (wallets d). w_token w \<noteq> new) \<and> (\<forall>m \<in> set (workspace_members d). m_token m \<noteq> new)"
  by (auto simp: token_free_def wallet_balance_def wallet_row_def member_row_def find_None_iff)

lemma rekeyed_balance:
  assumes "token_free new d" "old \<noteq> new"
  shows "wallet_balance (rekeyed now old new d) k =
    (if k = old then None else if k = new then wallet_balance d old else wallet_balance d k)"
  using token_free_rows[OF assms(1)] assms(2)
  by (simp add: wallet_balance_def wallet_row_def rekeyed_wallets find_renamed option.map_comp)
    (simp add: comp_def)

lemma rekeyed_entries:
  assumes "old \<noteq> new" "wallet_entries d new = []"
  shows "wallet_entries (rekeyed now old new d) k =
    (if k = old then [] else if k = new then wallet_entries d old else wallet_entries d k)"
proof -
  have "filter (\<lambda>r. wt_token r = old \<or> wt_token r = new) (wallet_txs d) = filter (\<lambda>r. wt_token r = old) (wallet_txs d)"
    using assms(2) by (intro filter_cong) (auto simp: wallet_entries_def filter_empty_conv)
  then show ?thesis using assms(1)
    by (auto simp: wallet_entries_def rekeyed_sel filter_renamed)
qed

lemma rekeyed_pool [simp]: "pool_balance (rekeyed now old new d) = pool_balance d"
  by (simp add: fun_eq_iff pool_balance_def workspace_row_def rekeyed_sel)

lemma rekeyed_pool_entries [simp]: "pool_entries (rekeyed now old new d) = pool_entries d"
proof -
  have "map wst_amount_usd (filter (\<lambda>t. wst_workspace_id t = k) (sql_update (\<lambda>r. wst_token r = old) (\<lambda>r. r\<lparr>wst_token := new\<rparr>) rows)) =
    map wst_amount_usd (filter (\<lambda>t. wst_workspace_id t = k) rows)" for k and rows :: "workspace_tx list"
    by (induction rows) auto
  then show ?thesis by (simp add: fun_eq_iff pool_entries_def rekeyed_sel)
qed

lemma sum_own_renamed:
  "old \<noteq> new \<Longrightarrow> \<forall>i \<in> set rows. i_token i \<noteq> new \<Longrightarrow>
   map (\<lambda>i. if i_status i = st then i_cny_amount i else 0) (filter (\<lambda>i. i_token i = k \<and> i_workspace_id i = 0)
     (sql_update (\<lambda>r. i_token r = old) (\<lambda>r. r\<lparr>i_token := new\<rparr>) rows)) =
   (if k = old then [] else map (\<lambda>i. if i_status i = st then i_cny_amount i else 0)
     (filter (\<lambda>i. i_token i = (if k = new then old else k) \<and> i_workspace_id i = 0) rows))"
  by (induction rows) auto

lemma rekeyed_own_claims:
  assumes "token_free new d" "old \<noteq> new"
  shows "own_claims st k (rekeyed now old new d) =
    (if k = old then [] else if k = new then own_claims st old d else own_claims st k d)"
  using assms unfolding own_claims_def rekeyed_sel by (subst sum_own_renamed) (auto simp: token_free_def)

lemma paid_renamed:
  "old \<noteq> new \<Longrightarrow> sum_list (map o_cny_amount (filter (\<lambda>r. o_token r = k \<and> o_status r = st)
     (sql_update (\<lambda>r. o_token r = old) (\<lambda>r. r\<lparr>o_token := new\<rparr>) rows))) =
   (if k = old then 0 else if k = new then
      sum_list (map o_cny_amount (filter (\<lambda>r. o_token r = old \<and> o_status r = st) rows)) +
      sum_list (map o_cny_amount (filter (\<lambda>r. o_token r = new \<and> o_status r = st) rows))
    else sum_list (map o_cny_amount (filter (\<lambda>r. o_token r = k \<and> o_status r = st) rows)))"
  by (induction rows) auto

lemma rekeyed_paid:
  "old \<noteq> new \<Longrightarrow> paid_total k (rekeyed now old new d) =
    (if k = old then 0 else if k = new then paid_total old d + paid_total new d else paid_total k d)"
  unfolding paid_total_def paid_cny_rows_def rekeyed_sel by (simp add: paid_renamed)

lemma join_renamed:
  "map (\<lambda>i. if i_status i = st then x else 0) (filter (\<lambda>i. i_id i = n \<and> b \<and> (i_status i = p \<or> i_status i = p'))
     (sql_update (\<lambda>r. i_token r = old) (\<lambda>r. r\<lparr>i_token := new\<rparr>) rows)) =
   map (\<lambda>i. if i_status i = st then x else 0) (filter (\<lambda>i. i_id i = n \<and> b \<and> (i_status i = p \<or> i_status i = p')) rows)"
  by (induction rows) auto

lemma rekeyed_team_claims:
  assumes "token_free new d" "old \<noteq> new"
  shows "team_claims st k (rekeyed now old new d) =
    (if k = old then [] else if k = new then team_claims st old d else team_claims st k d)"
proof -
  have free: "\<forall>a \<in> set (invoice_allocations d). a_token a \<noteq> new" using assms(1) by (simp add: token_free_def)
  define J where "J = (\<lambda>k (a :: invoice_allocation). map (\<lambda>i. if i_status i = st then a_cny_amount a else 0)
     (filter (\<lambda>i. i_id i = a_invoice_id a \<and> a_token a = k \<and> (i_status i = InvoicePending \<or> i_status i = InvoiceIssued)) (invoices d)))"
  have tc: "team_claims st k' d = concat (map (J k') (invoice_allocations d))" for k' by (simp add: team_claims_def J_def)
  have tc': "team_claims st k (rekeyed now old new d) = concat (map (J k)
      (sql_update (\<lambda>r. a_token r = old) (\<lambda>r. r\<lparr>a_token := new\<rparr>) (invoice_allocations d)))"
    unfolding team_claims_def rekeyed_sel join_renamed J_def by (rule refl)
  have J: "J k (a\<lparr>a_token := new\<rparr>) = (if k = new then J old a else [])" if "a_token a = old" for a
    using that by (simp add: J_def)
  have J0: "a_token a \<noteq> k' \<Longrightarrow> J k' a = []" for k' a by (simp add: J_def)
  have "concat (map (J k) (sql_update (\<lambda>r. a_token r = old) (\<lambda>r. r\<lparr>a_token := new\<rparr>) rows)) =
      (if k = old then [] else if k = new then concat (map (J old) rows) else concat (map (J k) rows))"
    if "\<forall>a \<in> set rows. a_token a \<noteq> new" for rows
    using that
  proof (induction rows)
    case (Cons a rows)
    then have "a_token a \<noteq> new" by simp
    with Cons assms(2) show ?case
      by (cases "a_token a = old") (simp_all add: J J0)
  qed simp
  from this[OF free] show ?thesis by (simp add: tc tc')
qed

lemma rekeyed_claimed:
  assumes "token_free new d" "old \<noteq> new"
  shows "claimed_total k (rekeyed now old new d) =
    (if k = old then 0 else if k = new then claimed_total old d else claimed_total k d)"
  using assms by (simp add: claimed_total_def rekeyed_own_claims rekeyed_team_claims)

lemma token_free_entries: "wallets_ok d \<Longrightarrow> token_free new d \<Longrightarrow> wallet_entries d new = []"
  by (auto simp: wallets_ok_def token_free_def dest: balanced_orphan)

lemma distinct_renamed:
  assumes "distinct (map key rows)" "\<forall>r \<in> set rows. key r \<noteq> new" "\<And>r. key (f r) = new"
  shows "distinct (map key (sql_update (\<lambda>r. key r = old) f rows))"
  by (rule distinct_map_sql_update_one[OF assms(1,1)]) (use assms in auto)

lemma rekeyed_ok:
  assumes ok: "accounts_ok d" "invoices_ok d" and free: "token_free new d" and ne: "old \<noteq> new"
  shows "accounts_ok (rekeyed now old new d)" "invoices_ok (rekeyed now old new d)"
proof -
  let ?d = "rekeyed now old new d"
  note rows = token_free_rows[OF free]
  have w: "wallets_ok d" "groups_ok d" "orders_ok d" "pools_ok d" "members_ok d"
    using ok(1) by (auto simp: accounts_ok_def workspaces_ok_def)
  have "groups_ok ?d" using w(2) by (simp add: groups_ok_def rekeyed_sel rekeyed_wallets ball_sql_update)
  moreover have "wallets_ok ?d"
  proof -
    have "balanced wallet_balance wallet_entries ?d"
      using w(1) rekeyed_balance[OF free ne] rekeyed_entries[OF ne token_free_entries[OF w(1) free]]
      by (auto simp: wallets_ok_def balanced_def)
    moreover have "wallets_keyed ?d" using w(1) rows
      by (auto simp: wallets_ok_def wallets_keyed_def rekeyed_wallets intro!: distinct_renamed)
    ultimately show ?thesis using w(1)
      by (simp add: wallets_ok_def rekeyed_sel map_sql_update_same ball_sql_update)
  qed
  moreover have "orders_ok ?d" using w(3) by (simp add: orders_ok_def rekeyed_sel map_sql_update_same ball_sql_update)
  moreover have "pools_ok ?d" using w(4)
    by (simp add: pools_ok_def workspaces_keyed_def balanced_def rekeyed_sel map_sql_update_same ball_sql_update)
  moreover have "members_ok ?d"
    unfolding members_ok_def rekeyed_sel
  proof
    show "distinct (map m_token (sql_update (\<lambda>r. m_token r = old) (\<lambda>r. r\<lparr>m_token := new\<rparr>)
       (sql_update (\<lambda>m. m_token m = old) (\<lambda>m. m\<lparr>m_updated_at := now\<rparr>) (workspace_members d))))"
      by (rule distinct_renamed) (use w(5) rows ne in \<open>simp_all add: members_ok_def map_sql_update_same ball_sql_update\<close>)
  qed (use w(5) in \<open>simp add: members_ok_def ball_sql_update\<close>)
  ultimately show "accounts_ok ?d" by (simp add: accounts_ok_def workspaces_ok_def)
  have "distinct (map (\<lambda>a. (a_invoice_id a, a_token a)) (sql_update (\<lambda>r. a_token r = old) (\<lambda>r. r\<lparr>a_token := new\<rparr>) rows))"
    if "distinct (map (\<lambda>a. (a_invoice_id a, a_token a)) rows)" "\<forall>a \<in> set rows. a_token a \<noteq> new"
    for rows :: "invoice_allocation list"
  proof -
    have "map (\<lambda>a. (a_invoice_id a, a_token a)) (sql_update (\<lambda>r. a_token r = old) (\<lambda>r. r\<lparr>a_token := new\<rparr>) rows) =
        map (apsnd (\<lambda>t. if t = old then new else t)) (map (\<lambda>a. (a_invoice_id a, a_token a)) rows)"
      by (simp add: sql_update_def)
    moreover have "inj_on (apsnd (\<lambda>t. if t = old then new else t)) (set (map (\<lambda>a. (a_invoice_id a, a_token a)) rows))"
      using that(2) by (auto simp: inj_on_def split: if_splits)
    ultimately show ?thesis using that(1) by (simp only: distinct_map[of "apsnd _"])
  qed
  with ok(2) free have "distinct (map (\<lambda>a. (a_invoice_id a, a_token a)) (invoice_allocations ?d))"
    by (simp add: invoices_ok_def rekeyed_sel token_free_def)
  moreover have ids: "map i_id (invoices ?d) = map i_id (invoices d)" by (simp add: rekeyed_sel map_sql_update_same)
  then have "i_id ` set (invoices ?d) = i_id ` set (invoices d)" by (metis set_map)
  moreover have "\<forall>a \<in> set (invoice_allocations ?d). \<exists>i \<in> set (invoices ?d). i_id i = a_invoice_id a \<and> 0 < i_workspace_id i"
    using ok(2) unfolding rekeyed_sel ball_sql_update bex_sql_update by (simp add: invoices_ok_def)
  moreover have "\<forall>i \<in> set (invoices ?d). i_status i \<in> {InvoicePending, InvoiceIssued, InvoiceRejected}"
    using ok(2) unfolding rekeyed_sel ball_sql_update by (simp add: invoices_ok_def)
  ultimately show "invoices_ok ?d" using ok(2) ids unfolding invoices_ok_def by (simp add: rekeyed_sel(9))
qed

lemma rekey_token_Inr:
  assumes "rekey_token path stamp now old new s = (Inr rep, s')"
  shows "old \<noteq> new \<and> token_free new (store s) \<and> store s' = rekeyed now old new (store s) \<and>
    (wallet_balance (store s) old \<noteq> None \<longrightarrow> wallet_balance (store s) old = Some (rr_old_balance rep) \<and> rr_new_balance rep = rr_old_balance rep)"
proof -
  from assms have c: "\<not> (old = [] \<or> new = [] \<or> old = new)" by (auto simp: rekey_token_def throw_def)
  with assms obtain bk s1 where
    b: "(if path \<noteq> [] then bnd (query (\<lambda>_. ())) (\<lambda>_. ret (path @ ''.pre-rekey-'' @ stamp @ ''.bak'')) else ret []) s = (Inr bk, s1)"
    and t: "bnd (rekey_tx now old new) (\<lambda>r. ret (rekey_result bk r)) s1 = (Inr rep, s')"
    unfolding rekey_token_def by (simp only: if_False bnd_Inr) blast
  have s1: "store s1 = store s" using b by (auto simp: bnd_Inr query_Inr ret_iff split: if_splits)
  from t obtain moved rows x y where r: "rekey_tx now old new s1 = (Inr (moved, rows, x, y), s')"
    and rep: "rr_old_balance rep = x" "rr_new_balance rep = y"
    by (auto simp: bnd_Inr ret_iff rekey_result_def split: prod.splits)
  from rekey_tx_Inr[OF r] s1 rep c show ?thesis by (auto split: option.splits)
qed

lemma atomic_bnd_ret: "atomic m \<Longrightarrow> atomic (bnd m (\<lambda>x. ret (g x)))"
  by (auto simp: atomic_def bnd_Inl ret_iff)

lemma atomic_rekey_token: "atomic (rekey_token path stamp now old new)"
proof (cases "old = [] \<or> new = [] \<or> old = new")
  case False
  have "atomic (bnd (rekey_tx now old new) (\<lambda>r. ret (rekey_result bk r)))" for bk
    by (rule atomic_bnd_ret[OF atomic_rekey_tx])
  then show ?thesis unfolding rekey_token_def if_not_P[OF False]
    by (rule atomic_bnd[rotated]) (auto intro!: read_only_bnd read_only_query read_only_ret)
qed (simp add: rekey_token_def atomic_def throw_def)

lemma rekey_token_maintains:
  "maintains (\<lambda>d. accounts_ok d \<and> invoices_ok d) (rekey_token path stamp now old new)"
  by (rule maintains_atomic[OF atomic_rekey_token]) (metis rekey_token_Inr rekeyed_ok)

lemma rekeyed_member:
  assumes free: "token_free new d" and ne: "old \<noteq> new"
  shows "member_row (rekeyed now old new d) k = (if k = old then None else if k = new
    then map_option (\<lambda>m. m\<lparr>m_token := new, m_updated_at := now\<rparr>) (member_row d old) else member_row d k)"
proof -
  have upd: "find (\<lambda>m. m_token m = k) (sql_update (\<lambda>m. m_token m = old) (\<lambda>m. m\<lparr>m_updated_at := now\<rparr>) ms) =
      map_option (\<lambda>m. if m_token m = old then m\<lparr>m_updated_at := now\<rparr> else m) (find (\<lambda>m. m_token m = k) ms)" for k ms
    by (rule find_sql_update) simp
  have old: "map_option (\<lambda>m. (if m_token m = old then m\<lparr>m_updated_at := now\<rparr> else m)\<lparr>m_token := new\<rparr>) (find (\<lambda>m. m_token m = old) ms) =
      map_option (\<lambda>m. m\<lparr>m_token := new, m_updated_at := now\<rparr>) (find (\<lambda>m. m_token m = old) ms)" for ms
    by (cases "find (\<lambda>m. m_token m = old) ms") (auto dest: find_Some_mem)
  have oth: "k \<noteq> old \<Longrightarrow> map_option (\<lambda>m. if m_token m = old then m\<lparr>m_updated_at := now\<rparr> else m) (find (\<lambda>m. m_token m = k) ms) =
      find (\<lambda>m. m_token m = k) ms" for ms
    by (cases "find (\<lambda>m. m_token m = k) ms") (auto dest: find_Some_mem)
  show ?thesis
    unfolding member_row_def rekeyed_sel
    by (subst find_renamed) (use ne free token_free_rows[OF free] old oth in
      \<open>auto simp: ball_sql_update upd option.map_comp comp_def\<close>)
qed

lemma rekeyed_account:
  assumes ok: "accounts_ok (store s)" and run: "rekey_token path stamp now old new s = (Inr rep, s')"
  shows "wallet_balance (store s') = (wallet_balance (store s))(old := None, new := wallet_balance (store s) old) \<and>
    wallet_entries (store s') = (wallet_entries (store s))(old := [], new := wallet_entries (store s) old) \<and>
    (\<forall>k. claimed_total k (store s') = ((\<lambda>k. claimed_total k (store s))(old := 0, new := claimed_total old (store s))) k) \<and>
    paid_total old (store s') = 0 \<and> paid_total new (store s') = paid_total old (store s) + paid_total new (store s) \<and>
    map_option m_workspace_id (member_row (store s') new) = map_option m_workspace_id (member_row (store s) old) \<and>
    member_row (store s') old = None \<and> pool_balance (store s') = pool_balance (store s)"
proof -
  from rekey_token_Inr[OF run] have ne: "old \<noteq> new" and free: "token_free new (store s)"
    and s': "store s' = rekeyed now old new (store s)" by auto
  have w: "wallets_ok (store s)" using ok by (simp add: accounts_ok_def)
  show ?thesis
    using ne rekeyed_balance[OF free ne] rekeyed_entries[OF ne token_free_entries[OF w free]]
      rekeyed_claimed[OF free ne] rekeyed_paid[OF ne] rekeyed_member[OF free ne]
    by (auto simp: s' fun_eq_iff option.map_comp comp_def)
qed

section \<open>Properties\<close>

text \<open>Rotating a token moves its whole account and nothing else: afterwards the new token has
  the old one's balance, ledger, membership, payments and invoice claims, the old token has none
  of them, and every other account and every pool is as it was.\<close>

theorem rekey_moves_the_account:
  assumes ok: "accounts_ok (store s)" and run: "rekey_token path stamp now old new s = (Inr rep, s')"
  shows "wallet_balance (store s') = (wallet_balance (store s))(old := None, new := wallet_balance (store s) old) \<and>
    wallet_entries (store s') = (wallet_entries (store s))(old := [], new := wallet_entries (store s) old) \<and>
    (\<forall>k. claimed_total k (store s') = ((\<lambda>k. claimed_total k (store s))(old := 0, new := claimed_total old (store s))) k) \<and>
    paid_total old (store s') = 0 \<and> paid_total new (store s') = paid_total old (store s) + paid_total new (store s) \<and>
    map_option m_workspace_id (member_row (store s') new) = map_option m_workspace_id (member_row (store s) old) \<and>
    member_row (store s') old = None \<and> pool_balance (store s') = pool_balance (store s)"
  using assms by (rule rekeyed_account)

text \<open>A rotation that fails, at any statement, changes no row.\<close>

theorem failed_rekey_changes_nothing:
  "rekey_token path stamp now old new s = (Inl e, s') \<Longrightarrow> store s' = store s"
  using atomic_rekey_token by (rule atomicD)

lemma demo_rekey:
  "\<exists>rep. rekey_token ''db'' ''now'' 2000 ''alice'' ''bob'' (fresh_session demo_db) =
     (Inr rep, snd (rekey_token ''db'' ''now'' 2000 ''alice'' ''bob'' (fresh_session demo_db)))"
proof -
  have "case fst (rekey_token ''db'' ''now'' 2000 ''alice'' ''bob'' (fresh_session demo_db)) of Inl _ \<Rightarrow> False | Inr _ \<Rightarrow> True"
    by code_simp
  then show ?thesis
    by (cases "rekey_token ''db'' ''now'' 2000 ''alice'' ''bob'' (fresh_session demo_db)") (auto split: sum.splits)
qed

theorem rekey_moves_the_account_witness:
  "wallet_balance (store (snd (rekey_token ''db'' ''now'' 2000 ''alice'' ''bob'' (fresh_session demo_db)))) ''bob'' = Some 20"
proof -
  obtain rep where run: "rekey_token ''db'' ''now'' 2000 ''alice'' ''bob'' (fresh_session demo_db) =
     (Inr rep, snd (rekey_token ''db'' ''now'' 2000 ''alice'' ''bob'' (fresh_session demo_db)))" using demo_rekey by blast
  have ok: "accounts_ok (store (fresh_session demo_db))" by (simp add: demo_fresh demo_accounts_ok)
  have "wallet_balance demo_db ''alice'' = Some 20" by (simp add: wallet_balance_def wallet_row_def demo_db_def)
  with conjunct1[OF rekey_moves_the_account[OF ok run]] show ?thesis by (simp add: demo_fresh)
qed

theorem failed_rekey_changes_nothing_witness:
  "store (snd (rekey_token ''db'' ''now'' 2000 ''alice'' ''alice'' (fresh_session demo_db))) = demo_db"
proof -
  have "rekey_token ''db'' ''now'' 2000 ''alice'' ''alice'' (fresh_session demo_db) =
    (Inl (ErrMessage ''oldToken and newToken must differ and be non-empty''), fresh_session demo_db)"
    by (simp add: rekey_token_def throw_def)
  from failed_rekey_changes_nothing[OF this] this show ?thesis by (simp add: demo_fresh)
qed

end
