(* ===== verification/Inbox.thy ===== *)
theory Inbox
  imports Invoices
begin

text \<open>
  The inbound mail box (\<open>internal/saas/db/inbox.go\<close>). Resend may deliver one mail twice, so
  an event is stored once per \<open>resend_email_id\<close>. The JSON columns hold the lists they encode.
\<close>

definition inbound_row :: "db \<Rightarrow> int \<Rightarrow> inbound_email option" where
  "inbound_row d mid = find (\<lambda>e. ie_id e = mid) (inbound_emails d)"

definition inbound_by_resend :: "db \<Rightarrow> string \<Rightarrow> inbound_email option" where
  "inbound_by_resend d rid = find (\<lambda>e. ie_resend_email_id e = rid) (inbound_emails d)"

definition insert_inbound_row :: "int \<Rightarrow> inbound_email \<Rightarrow> db \<Rightarrow> db_error + int option \<times> db" where
  "insert_inbound_row now e d =
     (if inbound_by_resend d (ie_resend_email_id e) \<noteq> None then Inr (None, d)
      else Inr (Some (next_id Seq_inbound d), (bump_seq Seq_inbound d)\<lparr>inbound_emails := inbound_emails d @
        [e\<lparr>ie_id := next_id Seq_inbound d, ie_body_html := [], ie_body_text := [], ie_fetched_at := 0,
           ie_read_at := 0, ie_created_at := now\<rparr>]\<rparr>))"

definition insert_inbound :: "int \<Rightarrow> inbound_email \<Rightarrow> int dbm" where
  "insert_inbound now e =
     bnd (stmt (insert_inbound_row now e)) (\<lambda>r. case r of
       Some mid \<Rightarrow> ret mid
     | None \<Rightarrow> or_zero 0 (query_row ErrNoRows (\<lambda>d. map_option ie_id (inbound_by_resend d (ie_resend_email_id e)))))"

definition patch_inbound_body :: "int \<Rightarrow> int \<Rightarrow> string \<Rightarrow> string \<Rightarrow> inbound_attachment list \<Rightarrow> unit dbm" where
  "patch_inbound_body now mid html text_body atts = exec (\<lambda>d. d\<lparr>inbound_emails := sql_update (\<lambda>e. ie_id e = mid)
     (\<lambda>e. e\<lparr>ie_body_html := html, ie_body_text := text_body, ie_attachments := atts, ie_fetched_at := now\<rparr>) (inbound_emails d)\<rparr>)"

definition mark_inbound_read :: "int \<Rightarrow> int \<Rightarrow> unit dbm" where
  "mark_inbound_read now mid = exec (\<lambda>d. d\<lparr>inbound_emails := sql_update (\<lambda>e. ie_id e = mid \<and> ie_read_at e = 0)
     (\<lambda>e. e\<lparr>ie_read_at := now\<rparr>) (inbound_emails d)\<rparr>)"

definition delete_inbound :: "int \<Rightarrow> unit dbm" where
  "delete_inbound mid = exec (\<lambda>d. d\<lparr>inbound_emails := sql_delete (\<lambda>e. ie_id e = mid) (inbound_emails d)\<rparr>)"

definition get_inbound :: "int \<Rightarrow> inbound_email dbm" where
  "get_inbound mid = query_row ErrNotFound (\<lambda>d. inbound_row d mid)"

definition list_inbound :: "sqlite \<Rightarrow> string \<Rightarrow> string \<Rightarrow> int \<Rightarrow> inbound_email list dbm" where
  "list_inbound q status search0 limit0 =
     (let limit = (if limit0 \<le> 0 \<or> 1000 < limit0 then 200 else limit0); search = trim_space search0 in
      query (\<lambda>d. take (nat limit) (sql_desc ie_received_at (filter
        (\<lambda>e. (status = ''unread'' \<longrightarrow> ie_read_at e = 0) \<and>
             (search \<noteq> [] \<longrightarrow> sql_like q (like_pattern search) (ie_subject e) \<or> sql_like q (like_pattern search) (ie_from e)))
        (inbound_emails d)))))"

definition count_inbound_unread :: "nat dbm" where
  "count_inbound_unread = query (\<lambda>d. sql_count (\<lambda>e. ie_read_at e = 0) (inbound_emails d))"

section \<open>The mail box\<close>

definition inbox_ok :: "db \<Rightarrow> bool" where
  "inbox_ok d \<longleftrightarrow> distinct (map ie_resend_email_id (inbound_emails d)) \<and> distinct (map ie_id (inbound_emails d)) \<and>
     (\<forall>i \<in> ie_id ` set (inbound_emails d). 0 < i \<and> i \<le> sequences d Seq_inbound) \<and> 0 \<le> sequences d Seq_inbound"

lemma inbox_ok_initial: "inbox_ok (initial_db now)"
  by (simp add: inbox_ok_def initial_db_def)

lemma inbox_ok_insert: "inbox_ok d \<Longrightarrow> insert_inbound_row now e d = Inr (r, d') \<Longrightarrow> inbox_ok d'"
  by (fastforce simp: inbox_ok_def insert_inbound_row_def inbound_by_resend_def find_None_iff next_id_def split: if_splits)

lemma inbox_ok_update:
  assumes "inbox_ok d" "\<And>e. ie_id (f e) = ie_id e" "\<And>e. ie_resend_email_id (f e) = ie_resend_email_id e"
  shows "inbox_ok (d\<lparr>inbound_emails := sql_update P f (inbound_emails d)\<rparr>)"
proof -
  have ids: "map ie_id (sql_update P f (inbound_emails d)) = map ie_id (inbound_emails d)"
    by (rule map_sql_update_same) (rule assms)
  then have "ie_id ` set (sql_update P f (inbound_emails d)) = ie_id ` set (inbound_emails d)" by (metis set_map)
  with ids assms show ?thesis by (simp add: inbox_ok_def map_sql_update_same)
qed

lemma inbox_maintains:
  "maintains inbox_ok (insert_inbound now e)" "maintains inbox_ok (patch_inbound_body now mid h t a)"
  "maintains inbox_ok (mark_inbound_read now mid)" "maintains inbox_ok (delete_inbound mid)"
proof -
  show "maintains inbox_ok (insert_inbound now e)"
    unfolding insert_inbound_def
    by (rule maintains_bnd, rule maintains_stmt, erule inbox_ok_insert, assumption)
      (auto intro: maintains_read_only read_only_ret read_only_or_zero read_only_query_row split: option.split)
  show "maintains inbox_ok (patch_inbound_body now mid h t a)" "maintains inbox_ok (mark_inbound_read now mid)"
    unfolding patch_inbound_body_def mark_inbound_read_def by (rule maintains_exec, rule inbox_ok_update; simp)+
  show "maintains inbox_ok (delete_inbound mid)"
    unfolding delete_inbound_def by (rule maintains_exec) (auto simp: inbox_ok_def distinct_sql_delete)
qed

section \<open>Properties\<close>

lemma demo_session: "plan s = [] \<Longrightarrow> faulty s = False" "plan s = [] \<Longrightarrow> plan (tick s) = []"
  by (simp_all add: not_faulty)

text \<open>A mail delivered again is not stored again: the second delivery of an event changes no
  row and reports the id of the first, also when the two payloads differ.\<close>

theorem inbound_mail_stored_once:
  assumes driver: "plan s = []" and run: "insert_inbound now e s = (Inr mid, s1)"
    and again: "ie_resend_email_id e' = ie_resend_email_id e"
    and ok: "inbox_ok (store s)"
  shows "insert_inbound now' e' s1 = (Inr mid, tick (tick s1)) \<and> store (tick (tick s1)) = store s1 \<and>
    inbound_row (store s1) mid \<noteq> None"
proof -
  have f: "\<not> faulty s" "plan (tick s) = []" using driver by (simp_all add: not_faulty)
  have step: "\<exists>m. inbound_by_resend (store s1) (ie_resend_email_id e) = Some m \<and> ie_id m = mid \<and> plan s1 = []"
  proof (cases "inbound_by_resend (store s) (ie_resend_email_id e)")
    case None
    with run f show ?thesis
      by (auto simp: insert_inbound_def bnd_def stmt_def insert_inbound_row_def ret_def inbound_by_resend_def find_append)
  next
    case (Some m)
    with run f show ?thesis
      by (auto simp: insert_inbound_def bnd_def stmt_def insert_inbound_row_def or_zero_def attempt_def query_row_def
          ret_def not_faulty)
  qed
  then obtain m where m: "inbound_by_resend (store s1) (ie_resend_email_id e) = Some m" "ie_id m = mid" "plan s1 = []" by blast
  have "\<not> faulty s1" "\<not> faulty (tick s1)" using m(3) by (simp_all add: not_faulty)
  then have "insert_inbound now' e' s1 = (Inr mid, tick (tick s1))"
    using m again by (simp add: insert_inbound_def bnd_def stmt_def insert_inbound_row_def or_zero_def attempt_def query_row_def ret_def)
  moreover have "m \<in> set (inbound_emails (store s1))" using m(1) by (auto simp: inbound_by_resend_def dest: find_Some_mem)
  then have "inbound_row (store s1) mid \<noteq> None" using m(2) by (auto simp: inbound_row_def find_None_iff)
  ultimately show ?thesis by simp
qed

definition demo_mail :: inbound_email where
  "demo_mail = \<lparr>ie_id = 0, ie_resend_email_id = ''r1'', ie_message_id = ''m'', ie_from = ''a'', ie_to = [''b''], ie_cc = [],
     ie_subject = ''hi'', ie_received_at = 5, ie_body_html = [], ie_body_text = [], ie_attachments = [], ie_raw_event = [],
     ie_fetched_at = 0, ie_read_at = 0, ie_created_at = 0\<rparr>"

theorem inbound_mail_stored_once_witness:
  "fst (insert_inbound 9 (demo_mail\<lparr>ie_subject := ''other''\<rparr>) (snd (insert_inbound 7 demo_mail (fresh_session (initial_db 0))))) = Inr 1"
proof -
  have "fst (insert_inbound 7 demo_mail (fresh_session (initial_db 0))) = Inr 1" by code_simp
  then have "insert_inbound 7 demo_mail (fresh_session (initial_db 0)) = (Inr 1, snd (insert_inbound 7 demo_mail (fresh_session (initial_db 0))))"
    by (metis prod.collapse)
  from inbound_mail_stored_once[OF _ this, of "demo_mail\<lparr>ie_subject := ''other''\<rparr>" 9] inbox_ok_initial show ?thesis
    by (simp add: fresh_session_def)
qed

text \<open>Opening a mail again keeps the time it was first read.\<close>

theorem read_time_is_the_first:
  assumes "inbound_row (store s) mid = Some e" "ie_read_at e \<noteq> 0" and run: "mark_inbound_read now mid s = (r, s')"
    and ok: "inbox_ok (store s)"
  shows "store s' = store s"
proof -
  have "\<not> (ie_id e' = mid \<and> ie_read_at e' = 0)" if "e' \<in> set (inbound_emails (store s))" for e'
    using assms(1,2) that ok by (auto simp: inbound_row_def inbox_ok_def dest: find_key_unique)
  then have "sql_update (\<lambda>e. ie_id e = mid \<and> ie_read_at e = 0) (\<lambda>e. e\<lparr>ie_read_at := now\<rparr>) (inbound_emails (store s)) = inbound_emails (store s)"
    by (rule sql_update_id)
  with run show ?thesis by (auto simp: mark_inbound_read_def exec_def stmt_def split: if_splits)
qed

theorem read_time_is_the_first_witness:
  "store (snd (mark_inbound_read 9 1 (fresh_session ((initial_db 0)\<lparr>inbound_emails := [demo_mail\<lparr>ie_id := 1, ie_read_at := 7\<rparr>],
     sequences := (\<lambda>_. 1)\<rparr>)))) = (initial_db 0)\<lparr>inbound_emails := [demo_mail\<lparr>ie_id := 1, ie_read_at := 7\<rparr>], sequences := (\<lambda>_. 1)\<rparr>"
  by (rule trans[OF read_time_is_the_first[OF _ _ prod.collapse[symmetric],
        where e = "demo_mail\<lparr>ie_id := 1, ie_read_at := 7\<rparr>"]])
    (simp_all add: fresh_session_def inbound_row_def inbox_ok_def)

end
