(* ===== verification/System.thy ===== *)
theory System
  imports Rekey Inbox
begin

text \<open>
  The store as a transition system: every operation of the package that writes, under any
  driver faults, takes one database to the next. \<open>db_ok\<close>, the conjunction of the components'
  invariants, holds of every database reachable from a fresh install.
\<close>

definition db_ok :: "db \<Rightarrow> bool" where
  "db_ok d \<longleftrightarrow> accounts_ok d \<and> invoices_ok d"

lemma db_ok_parts: "db_ok d \<longleftrightarrow> groups_ok d \<and> wallets_ok d \<and> orders_ok d \<and> workspaces_ok d \<and> invoices_ok d"
  by (auto simp: db_ok_def accounts_ok_def)

lemma maintains_conj: "maintains P m \<Longrightarrow> maintains Q m \<Longrightarrow> maintains (\<lambda>d. P d \<and> Q d) m"
  unfolding maintains_def by blast

lemma maintains_db_ok:
  "maintains groups_ok m \<Longrightarrow> maintains wallets_ok m \<Longrightarrow> maintains orders_ok m \<Longrightarrow> maintains workspaces_ok m \<Longrightarrow>
   maintains invoices_ok m \<Longrightarrow> maintains db_ok m"
  unfolding maintains_def db_ok_parts by blast

lemma maintains_db_ok2: "maintains accounts_ok m \<Longrightarrow> maintains invoices_ok m \<Longrightarrow> maintains db_ok m"
  unfolding maintains_def db_ok_def by blast

section \<open>What each group of operations leaves alone\<close>

definition money_view :: "db \<Rightarrow> _" where
  "money_view d = (map (\<lambda>w. (w_token w, w_balance_usd w)) (wallets d), wallet_txs d, sequences d Seq_wallet_tx)"

definition workspace_view :: "db \<Rightarrow> _" where
  "workspace_view d = (workspaces d, workspace_members d, workspace_txs d, sequences d Seq_workspaces, sequences d Seq_workspace_tx)"

definition wallet_view :: "db \<Rightarrow> _" where
  "wallet_view d = (pricing_groups d, wallets d, wallet_txs d, sequences d Seq_groups, sequences d Seq_wallet_tx)"

definition rest_view :: "db \<Rightarrow> _" where
  "rest_view d = (alipay_orders d, workspace_view d, invoice_view d)"

lemma wallet_balance_map_of:
  "wallet_balance d k = map_of (map (\<lambda>w. (w_token w, w_balance_usd w)) (wallets d)) k"
proof -
  have "map_option w_balance_usd (find (\<lambda>w. w_token w = k) ws) = map_of (map (\<lambda>w. (w_token w, w_balance_usd w)) ws) k"
    for ws :: "wallet list" by (induction ws) auto
  then show ?thesis by (simp add: wallet_balance_def wallet_row_def)
qed

lemma wallets_ok_money: "money_view d' = money_view d \<Longrightarrow> wallets_ok d' = wallets_ok d"
proof -
  have keyed: "wallets_keyed d = distinct (map fst (map (\<lambda>w. (w_token w, w_balance_usd w)) (wallets d)))" for d
    by (simp add: wallets_keyed_def comp_def)
  assume "money_view d' = money_view d"
  then show ?thesis unfolding wallets_ok_def keyed balanced_def wallet_balance_map_of wallet_entries_def money_view_def
    by simp
qed

lemma rest_view_ok:
  "rest_view d' = rest_view d \<Longrightarrow> orders_ok d' = orders_ok d"
  "rest_view d' = rest_view d \<Longrightarrow> workspaces_ok d' = workspaces_ok d"
  "rest_view d' = rest_view d \<Longrightarrow> invoices_ok d' = invoices_ok d"
proof -
  assume v: "rest_view d' = rest_view d"
  show "orders_ok d' = orders_ok d" by (rule orders_ok_cong) (use v in \<open>simp add: rest_view_def\<close>)
  show "workspaces_ok d' = workspaces_ok d"
    by (rule workspaces_ok_cong) (use v in \<open>simp_all add: rest_view_def workspace_view_def\<close>)
  show "invoices_ok d' = invoices_ok d" by (rule invoices_ok_cong) (use v in \<open>simp add: rest_view_def\<close>)
qed

lemma wallet_view_ok:
  "wallet_view d' = wallet_view d \<Longrightarrow> groups_ok d' = groups_ok d"
  "wallet_view d' = wallet_view d \<Longrightarrow> wallets_ok d' = wallets_ok d"
proof -
  assume v: "wallet_view d' = wallet_view d"
  then show "groups_ok d' = groups_ok d" by (simp add: wallet_view_def groups_ok_def)
  from v have "money_view d' = money_view d" by (simp add: wallet_view_def money_view_def)
  then show "wallets_ok d' = wallets_ok d" by (rule wallets_ok_money)
qed

lemma maintains_rest:
  assumes "preserves rest_view m" "maintains groups_ok m" "maintains wallets_ok m"
  shows "maintains db_ok m"
proof (rule maintains_db_ok)
  show "maintains orders_ok m" by (rule maintains_preserved[OF assms(1)]) (rule rest_view_ok)
  show "maintains workspaces_ok m" by (rule maintains_preserved[OF assms(1)]) (rule rest_view_ok)
  show "maintains invoices_ok m" by (rule maintains_preserved[OF assms(1)]) (rule rest_view_ok)
qed fact+

subsection \<open>Groups and wallets\<close>

lemma preserves_ensure_wallet: "preserves rest_view (ensure_wallet now tok)"
proof -
  have "rest_view d' = rest_view d" if "ensured now tok d d'" for d d'
    using that by (auto simp: ensured_def rest_view_def workspace_view_def invoice_view_def wallet_open_def)
  then show ?thesis unfolding preserves_def using ensure_wallet_ensured by blast
qed

lemma rest_view_wallet_writes [simp]:
  "rest_view (set_wallet_balance tok b now d) = rest_view d"
  "rest_view (insert_wallet_tx tok kind x ref nt now d) = rest_view d"
  "rest_view (wallet_post tok x mt d) = rest_view d"
  by (simp_all add: rest_view_def workspace_view_def invoice_view_def set_wallet_balance_def insert_wallet_tx_def
      wallet_post_def split: prod.split)

lemma preserves_wallet_ops:
  "preserves rest_view (add_balance now tok kind x ref nt allow)" "preserves rest_view (set_wallet_group now tok gid)"
proof -
  have "preserves rest_view (add_balance_tx now tok kind x ref nt allow)"
    unfolding add_balance_tx_def Let_def
    by (intro preserves_intros read_only_query_row) (simp_all add: preserves_read_only atomic_intros)
  then show "preserves rest_view (add_balance now tok kind x ref nt allow)"
    unfolding add_balance_def by (intro preserves_bnd preserves_ensure_wallet)
  have "preserves rest_view (stmt (set_wallet_group_row tok gid now))"
    by (rule preserves_stmt)
      (auto simp: set_wallet_group_row_def rest_view_def workspace_view_def invoice_view_def split: if_splits)
  then show "preserves rest_view (set_wallet_group now tok gid)"
    unfolding set_wallet_group_def
    by (rule preserves_bnd[OF preserves_read_only[OF read_only_get_group] preserves_bnd[OF preserves_ensure_wallet]])
qed

lemma add_balance_db_ok: "maintains db_ok (add_balance now tok kind x ref nt allow)"
  by (rule maintains_rest[OF preserves_wallet_ops(1)]) (rule add_balance_maintains)+

lemma set_wallet_group_db_ok: "maintains db_ok (set_wallet_group now tok gid)"
  by (rule maintains_rest[OF preserves_wallet_ops(2)]) (rule set_wallet_group_maintains)+

lemma ensure_wallet_db_ok: "maintains db_ok (ensure_wallet now tok)"
  by (rule maintains_rest[OF preserves_ensure_wallet]) (rule ensure_wallet_maintains)+

lemma preserves_groups:
  "preserves (\<lambda>d. (money_view d, rest_view d)) (create_group now p)"
  "preserves (\<lambda>d. (money_view d, rest_view d)) (update_group now gid p)"
  "preserves (\<lambda>d. (money_view d, rest_view d)) (delete_group gid)"
proof -
  note views = money_view_def rest_view_def workspace_view_def invoice_view_def
  show "preserves (\<lambda>d. (money_view d, rest_view d)) (create_group now p)"
    unfolding create_group_def Let_def
    by (intro preserves_bnd preserves_stmt preserves_read_only read_only_get_group)
      (auto simp: views insert_group_def Let_def split: if_splits)
  show "preserves (\<lambda>d. (money_view d, rest_view d)) (update_group now gid p)"
    unfolding update_group_def Let_def
    by (intro preserves_bnd preserves_stmt preserves_read_only read_only_get_group)
      (auto simp: views update_group_row_def split: if_splits)
  have 1: "preserves (\<lambda>d. (money_view d, rest_view d)) (stmt (reassign_stmt a b))" for a b
    by (rule preserves_stmt) (auto simp: views reassign_stmt_def reassign_wallets_def map_sql_update_same split: if_splits)
  have 2: "preserves (\<lambda>d. (money_view d, rest_view d)) (stmt (delete_group_row a))" for a
    by (rule preserves_stmt) (auto simp: views delete_group_row_def split: if_splits)
  show "preserves (\<lambda>d. (money_view d, rest_view d)) (delete_group gid)"
    unfolding delete_group_def
    by (intro preserves_bnd preserves_if preserves_in_tx 1 2 preserves_read_only read_only_get_group read_only_default_group read_only_throw)
qed

lemma groups_db_ok:
  assumes "preserves (\<lambda>d. (money_view d, rest_view d)) m" "maintains groups_ok m"
  shows "maintains db_ok m"
proof (rule maintains_rest)
  show "preserves rest_view m" using assms(1) unfolding preserves_def prod.inject by blast
  show "maintains wallets_ok m"
    by (rule maintains_preserved[OF assms(1)], rule wallets_ok_money) (simp only: prod.inject)
qed fact

subsection \<open>Orders\<close>

definition but_orders :: "db \<Rightarrow> _" where
  "but_orders d = (wallet_view d, workspace_view d, invoice_view d)"

lemma workspace_view_ok: "workspace_view d' = workspace_view d \<Longrightarrow> workspaces_ok d' = workspaces_ok d"
  by (rule workspaces_ok_cong) (simp_all add: workspace_view_def)

lemma orders_db_ok:
  assumes "preserves but_orders m" "maintains orders_ok m"
  shows "maintains db_ok m"
proof (rule maintains_db_ok)
  show "maintains groups_ok m" "maintains wallets_ok m" "maintains workspaces_ok m" "maintains invoices_ok m"
    by (rule maintains_preserved[OF assms(1)],
        rule wallet_view_ok workspace_view_ok invoices_ok_cong, simp only: but_orders_def prod.inject)+
qed fact

lemma but_orders_update [simp]: "but_orders (d\<lparr>alipay_orders := rows\<rparr>) = but_orders d"
  by (simp add: but_orders_def wallet_view_def workspace_view_def invoice_view_def)

lemma order_ops_db_ok:
  "maintains db_ok (create_order now r)" "maintains db_ok (mark_order_expired no)"
  "maintains db_ok (expire_pending_orders_before cutoff)" "maintains db_ok (delete_pending_order no tok)"
proof -
  have "preserves but_orders (create_order now r)"
    unfolding create_order_def by (rule preserves_stmt) (auto simp: insert_order_def split: if_splits)
  then show "maintains db_ok (create_order now r)" by (rule orders_db_ok[OF _ create_order_maintains])
  have "preserves but_orders (mark_order_expired no)"
    unfolding mark_order_expired_def by (rule preserves_exec) simp
  then show "maintains db_ok (mark_order_expired no)" by (rule orders_db_ok[OF _ mark_order_expired_maintains])
  have "preserves but_orders (expire_pending_orders_before cutoff)"
    unfolding expire_pending_orders_before_def by (rule preserves_exec_count) simp
  then show "maintains db_ok (expire_pending_orders_before cutoff)" by (rule orders_db_ok[OF _ expire_pending_maintains])
  have "preserves but_orders (delete_pending_order no tok)"
    unfolding delete_pending_order_def
    by (rule preserves_bnd, rule preserves_exec_count, simp)
      (simp add: preserves_read_only read_only_throw read_only_ret)
  then show "maintains db_ok (delete_pending_order no tok)" by (rule orders_db_ok[OF _ delete_pending_maintains])
qed

lemma invoice_view_writes [simp]:
  "invoice_view (wallet_post tok x mt d) = invoice_view d" "invoice_view (pay_order no t now d) = invoice_view d"
  "invoice_view (wallet_open tok gid now d) = invoice_view d" "invoice_view (pool_post wsid x pm d) = invoice_view d"
  by (simp_all add: invoice_view_def wallet_post_def insert_wallet_tx_def set_wallet_balance_def pay_order_def wallet_open_def
      pool_post_def insert_workspace_tx_def set_pool_balance_def update_workspace_row_def split: prod.split)

lemma credit_paid_order_db_ok: "maintains db_ok (credit_paid_order now no t tok usd ref nt)"
proof (rule maintains_db_ok)
  show "maintains workspaces_ok (credit_paid_order now no t tok usd ref nt)"
    unfolding maintains_def by (auto elim!: credit_paid_order_store)
  have "invoice_view (store s') = invoice_view (store s)" if "credit_paid_order now no t tok usd ref nt s = (r, s')" for s r s'
    using that by (auto elim!: credit_paid_order_store)
  then show "maintains invoices_ok (credit_paid_order now no t tok usd ref nt)"
    unfolding maintains_def using invoices_ok_cong by blast
qed (rule credit_paid_order_maintains)+

subsection \<open>Workspaces\<close>

definition but_workspaces :: "db \<Rightarrow> _" where
  "but_workspaces d = (wallet_view d, alipay_orders d, invoice_view d)"

lemma workspaces_db_ok:
  assumes "preserves but_workspaces m" "maintains workspaces_ok m"
  shows "maintains db_ok m"
proof (rule maintains_db_ok)
  show "maintains groups_ok m" "maintains wallets_ok m" "maintains orders_ok m" "maintains invoices_ok m"
    by (rule maintains_preserved[OF assms(1)],
        rule wallet_view_ok orders_ok_cong invoices_ok_cong, simp only: but_workspaces_def prod.inject)+
qed fact

lemma but_workspaces_writes [simp]:
  "but_workspaces (update_workspace_row wsid f d) = but_workspaces d"
  "but_workspaces (update_member_row tok g d) = but_workspaces d"
  "but_workspaces (d\<lparr>workspace_members := ms\<rparr>) = but_workspaces d"
  by (simp_all add: but_workspaces_def wallet_view_def invoice_view_def update_workspace_row_def update_member_row_def)

lemma pools_ok_row:
  assumes "\<And>w. ws_id (f w) = ws_id w" "\<And>w. ws_balance_usd (f w) = ws_balance_usd w" "workspaces_ok d"
  shows "workspaces_ok (update_workspace_row wsid f d)"
proof -
  let ?d = "update_workspace_row wsid f d"
  have ids: "map ws_id (workspaces ?d) = map ws_id (workspaces d)"
    by (simp add: update_workspace_row_def map_sql_update_same assms(1))
  then have img: "ws_id ` set (workspaces ?d) = ws_id ` set (workspaces d)" by (metis set_map)
  have "pool_balance ?d = pool_balance d"
    by (auto simp: fun_eq_iff pool_balance_def workspace_row_update assms option.map_comp comp_def intro!: map_option_cong)
  moreover have "workspace_members ?d = workspace_members d" "workspace_txs ?d = workspace_txs d" "sequences ?d = sequences d"
    by (simp_all add: update_workspace_row_def)
  ultimately show ?thesis using assms(3)
    by (simp add: workspaces_ok_def pools_ok_def members_ok_def workspaces_keyed_def ids img balanced_def)
qed

lemma members_ok_row:
  assumes "\<And>m. m_token (f m) = m_token m" "\<And>m. m_workspace_id (f m) = m_workspace_id m"
    "\<And>m. member_role_known (m_role m) \<Longrightarrow> member_role_known (m_role (f m))"
    "\<And>m. 0 \<le> m_daily_usd_cap m \<Longrightarrow> 0 \<le> m_daily_usd_cap (f m)" "\<And>m. 0 \<le> m_monthly_usd_cap m \<Longrightarrow> 0 \<le> m_monthly_usd_cap (f m)"
    "workspaces_ok d"
  shows "workspaces_ok (update_member_row tok f d)"
proof -
  have "members_ok (update_member_row tok f d)"
    using assms by (auto simp: workspaces_ok_def members_ok_def update_member_row_def map_sql_update_same sql_update_mem)
  moreover have "pools_ok (update_member_row tok f d) = pools_ok d"
    by (simp add: pools_ok_def update_member_row_def workspaces_keyed_def balanced_def pool_balance_def workspace_row_def pool_entries_def)
  ultimately show ?thesis using assms(6) by (simp add: workspaces_ok_def)
qed

lemma preserves_create_workspace: "preserves but_workspaces (create_workspace now name)"
  unfolding create_workspace_def Let_def get_workspace_def
  by (intro preserves_if preserves_bnd preserves_stmt preserves_read_only read_only_throw read_only_query_row)
    (auto simp: insert_workspace_def Let_def but_workspaces_def wallet_view_def invoice_view_def)

lemma create_workspace_db_ok: "maintains db_ok (create_workspace now name)"
proof (rule workspaces_db_ok)
  show "preserves but_workspaces (create_workspace now name)" by (rule preserves_create_workspace)
  have "workspaces_ok d'" if ok: "workspaces_ok d" and ins: "insert_workspace nm now d = Inr (x, d')" for d x d' nm
  proof -
    have d': "d' = (bump_seq Seq_workspaces d)\<lparr>workspaces := workspaces d @ [\<lparr>ws_id = next_id Seq_workspaces d, ws_name = nm,
        ws_balance_usd = 0, ws_disabled = False, ws_created_at = now, ws_updated_at = now\<rparr>]\<rparr>"
      using ins by (auto simp: insert_workspace_def Let_def)
    let ?n = "sequences d Seq_workspaces + 1"
    have fresh: "?n \<notin> ws_id ` set (workspaces d)" using ok by (fastforce simp: workspaces_ok_def pools_ok_def)
    then have none: "pool_balance d ?n = None" by (force simp: pool_balance_def workspace_row_def find_None_iff)
    have bal: "pool_balance d' = (pool_balance d)(?n \<mapsto> 0)"
      using none by (auto simp: fun_eq_iff d' pool_balance_def workspace_row_def find_append next_id_def split: option.splits)
    have ent: "pool_entries d' = pool_entries d" by (simp add: fun_eq_iff d' pool_entries_def)
    have "balanced pool_balance pool_entries d'"
      using ok none balanced_orphan[of pool_balance pool_entries d ?n]
      by (auto simp: workspaces_ok_def pools_ok_def balanced_def bal ent)
    moreover have "workspaces_keyed d'" using ok fresh
      by (auto simp: workspaces_ok_def pools_ok_def workspaces_keyed_def d' next_id_def)
    ultimately show ?thesis using ok
      by (auto simp: workspaces_ok_def pools_ok_def members_ok_def d' next_id_def)
  qed
  then show "maintains workspaces_ok (create_workspace now name)"
    unfolding create_workspace_def Let_def get_workspace_def
    by (cases "trim_space name = []")
      (simp_all add: maintains_read_only read_only_throw maintains_bnd maintains_stmt read_only_query_row)
qed

lemma workspaces_ok_bnd_case:
  "maintains P m \<Longrightarrow> (\<And>x. maintains P (f x)) \<Longrightarrow> maintains P (case v of None \<Rightarrow> m | Some x \<Rightarrow> f x)"
  by (simp split: option.split)

lemma preserves_case:
  "preserves v m \<Longrightarrow> (\<And>x. preserves v (f x)) \<Longrightarrow> preserves v (case o' of None \<Rightarrow> m | Some x \<Rightarrow> f x)"
  by (simp split: option.split)

lemma preserves_update_workspace: "preserves but_workspaces (update_workspace now wsid name disabled)"
  unfolding update_workspace_def Let_def get_workspace_def
  by (intro preserves_bnd preserves_case preserves_if preserves_exec but_workspaces_writes
      preserves_read_only[OF read_only_query_row] preserves_read_only[OF read_only_ret] preserves_read_only[OF read_only_throw])

lemma update_workspace_db_ok: "maintains db_ok (update_workspace now wsid name disabled)"
proof (rule workspaces_db_ok)
  show "preserves but_workspaces (update_workspace now wsid name disabled)" by (rule preserves_update_workspace)
  show "maintains workspaces_ok (update_workspace now wsid name disabled)"
    unfolding update_workspace_def get_workspace_def
    by (intro maintains_bnd workspaces_ok_bnd_case maintains_read_only[OF read_only_query_row] maintains_read_only[OF read_only_ret])
      (auto simp: Let_def intro!: maintains_exec pools_ok_row intro: maintains_read_only[OF read_only_throw])
qed

lemma preserves_update_member: "preserves but_workspaces (update_member now tok role daily monthly)"
  unfolding update_member_def Let_def member_for_def
  by (intro preserves_bnd preserves_case preserves_exec but_workspaces_writes
      preserves_read_only[OF read_only_query_row] preserves_read_only[OF read_only_ret])

lemma update_member_db_ok: "maintains db_ok (update_member now tok role daily monthly)"
proof (rule workspaces_db_ok)
  show "preserves but_workspaces (update_member now tok role daily monthly)" by (rule preserves_update_member)
  show "maintains workspaces_ok (update_member now tok role daily monthly)"
    unfolding update_member_def member_for_def
    by (intro maintains_bnd workspaces_ok_bnd_case maintains_read_only[OF read_only_query_row] maintains_read_only[OF read_only_ret])
      (auto simp: Let_def intro!: maintains_exec members_ok_row)
qed

lemma preserves_remove_member: "preserves but_workspaces (remove_member tok)"
  unfolding remove_member_def
  by (intro preserves_bnd preserves_exec_count but_workspaces_writes preserves_if
      preserves_read_only[OF read_only_ret] preserves_read_only[OF read_only_throw])

lemma remove_member_db_ok: "maintains db_ok (remove_member tok)"
proof (rule workspaces_db_ok)
  show "preserves but_workspaces (remove_member tok)" by (rule preserves_remove_member)
  have "workspaces_ok (d\<lparr>workspace_members := sql_delete (\<lambda>m. m_token m = tok) (workspace_members d)\<rparr>)" if "workspaces_ok d" for d
    using that by (simp add: workspaces_ok_def members_ok_def pools_ok_def workspaces_keyed_def balanced_def pool_balance_def
        workspace_row_def pool_entries_def distinct_sql_delete)
  then show "maintains workspaces_ok (remove_member tok)"
    unfolding remove_member_def
    by (intro maintains_bnd maintains_exec_count) (auto intro: maintains_read_only[OF read_only_throw] maintains_read_only[OF read_only_ret])
qed

lemma read_only_member_exists:
  "read_only (case r of Inr _ \<Rightarrow> ret () | Inl e \<Rightarrow> if e = UniqueViolation then throw ErrMemberExists else throw e)"
  for r :: "db_error + unit" by (auto intro: read_only_ret read_only_throw split: sum.split)

lemma preserves_add_member: "preserves but_workspaces (add_member now wsid tok role daily monthly)"
proof -
  have ins: "but_workspaces d' = but_workspaces d" if "insert_member m d = Inr (x, d')" for m d x d'
    using that by (auto simp: insert_member_def split: if_splits)
  show ?thesis
    unfolding add_member_def Let_def get_workspace_def
    by (intro preserves_bnd preserves_attempt preserves_stmt preserves_read_only[OF read_only_query_row] preserves_read_only[OF read_only_member_exists])
      (erule ins)
qed

lemma add_member_db_ok: "maintains db_ok (add_member now wsid tok role daily monthly)"
proof (rule workspaces_db_ok)
  show "preserves but_workspaces (add_member now wsid tok role daily monthly)" by (rule preserves_add_member)
  have ok: "workspaces_ok d'" if "workspaces_ok d" "insert_member m d = Inr (x, d')" "member_role_known (m_role m)"
    "0 \<le> m_daily_usd_cap m" "0 \<le> m_monthly_usd_cap m" for m d x d'
  proof -
    have d': "d' = d\<lparr>workspace_members := workspace_members d @ [m]\<rparr>" and no: "member_row d (m_token m) = None"
      and w: "workspace_row d (m_workspace_id m) \<noteq> None"
      using that(2) by (auto simp: insert_member_def split: if_splits)
    have "m_token m \<notin> m_token ` set (workspace_members d)" using no by (auto simp: member_row_def find_None_iff)
    moreover have "m_workspace_id m \<in> ws_id ` set (workspaces d)" using w
      by (auto simp: workspace_row_def dest!: find_Some_mem intro: rev_image_eqI)
    ultimately have "members_ok d'" using that by (auto simp: workspaces_ok_def members_ok_def d')
    then show ?thesis using that(1)
      by (simp add: workspaces_ok_def d' pools_ok_def workspaces_keyed_def balanced_def pool_balance_def workspace_row_def pool_entries_def)
  qed
  show "maintains workspaces_ok (add_member now wsid tok role daily monthly)"
    unfolding add_member_def Let_def get_workspace_def
    by (intro maintains_bnd maintains_attempt maintains_stmt maintains_read_only[OF read_only_query_row] maintains_read_only[OF read_only_member_exists])
      (erule ok, assumption, auto)
qed

lemma pool_ops_db_ok:
  "maintains db_ok (adjust_workspace_balance now wsid delta kind ref nt)"
  "maintains db_ok (credit_paid_order_to_workspace now no t wsid usd ref nt)"
proof -
  have "maintains invoices_ok (adjust_workspace_balance now wsid delta kind ref nt)"
    by (rule maintains_atomic[OF atomic_adjust_workspace_balance])
      (auto dest!: adjust_workspace_balance_Inr simp: invoices_ok_cong[OF invoice_view_writes(4)])
  then show "maintains db_ok (adjust_workspace_balance now wsid delta kind ref nt)"
    by (rule maintains_db_ok2[OF adjust_workspace_balance_maintains])
  have "maintains invoices_ok (credit_paid_order_to_workspace now no t wsid usd ref nt)"
    by (rule maintains_atomic[OF atomic_credit_to_workspace])
      (auto dest!: credit_to_workspace_Inr simp: invoices_ok_cong[OF invoice_view_writes(4)] invoices_ok_cong[OF invoice_view_writes(2)])
  then show "maintains db_ok (credit_paid_order_to_workspace now no t wsid usd ref nt)"
    by (rule maintains_db_ok2[OF credit_to_workspace_maintains])
qed

lemma charge_db_ok: "maintains db_ok (charge_member_first q now tok cost ref nt)"
  unfolding maintains_def
proof (intro allI impI)
  fix s r s' assume ok: "db_ok (store s)" and run: "charge_member_first q now tok cost ref nt s = (r, s')"
  then have acc: "accounts_ok (store s)" by (simp add: db_ok_def)
  have ens: "invoice_view d' = invoice_view d" if "ensured now tok d d'" for d d'
    using that by (auto simp: ensured_def)
  have eff: "invoice_view (charge_effect now tok wsid p c ref nt d) = invoice_view d" for wsid p c d
    by (simp add: charge_effect_def Let_def)
  have "invoice_view (store s') = invoice_view (store s)"
    by (rule charge_member_first_cases[OF run acc]) (simp_all add: ens eff)
  then have "invoices_ok (store s')" using ok by (simp add: db_ok_def invoices_ok_cong[of "store s'" "store s"])
  then show "db_ok (store s')" using maintainsD[OF charge_member_first_maintains acc run] by (simp add: db_ok_def)
qed

subsection \<open>Invoices and titles\<close>

lemma accounts_invoice_writes [simp]:
  "accounts_ok (d\<lparr>invoices := rows\<rparr>) = accounts_ok d" "accounts_ok (d\<lparr>invoice_allocations := al\<rparr>) = accounts_ok d"
  "accounts_ok (d\<lparr>invoice_titles := ts\<rparr>) = accounts_ok d"
  "accounts_ok (insert_invoice tok cny t email wsid now d) = accounts_ok d"
  "accounts_ok (upsert_title_row tok t now d) = accounts_ok d"
  by (rule accounts_ok_cong, simp add: accounts_view_def insert_invoice_def upsert_title_row_def Let_def)+

lemma create_invoice_db_ok: "maintains db_ok (create_invoice q now tok cny title email)"
proof (rule maintains_db_ok2[OF _ create_invoice_maintains])
  have "maintains accounts_ok (invoice_tx q now tok cny title email)"
    by (rule maintains_atomic[OF atomic_invoice_tx]) (auto dest!: invoice_tx_Inr)
  then show "maintains accounts_ok (create_invoice q now tok cny title email)"
    unfolding create_invoice_split
    by (cases "cny \<le> 0") (simp_all add: maintains_bnd maintains_read_only read_only_get_invoice read_only_throw)
qed

lemma create_workspace_invoice_db_ok: "maintains db_ok (create_workspace_invoice q now wsid ini cny title email)"
proof (cases "cny \<le> 0 \<or> wsid \<le> 0")
  case True then show ?thesis
    by (auto simp: create_workspace_invoice_split intro: maintains_read_only read_only_throw)
next
  case False
  have "maintains db_ok (workspace_invoice_tx q now wsid ini cny title email)"
  proof (rule maintains_atomic[OF atomic_workspace_invoice_tx])
    fix s iid s' assume ok: "db_ok (store s)" and run: "workspace_invoice_tx q now wsid ini cny title email s = (Inr iid, s')"
    then have i: "invoices_ok (store s)" by (simp add: db_ok_def)
    from False have ws: "0 < wsid" by simp
    have "invoices_ok (store s')" using workspace_invoice_tx_Inr[OF run i ws] by blast
    moreover have "accounts_ok (store s')" using workspace_invoice_tx_Inr[OF run i ws] ok by (simp add: db_ok_def)
    ultimately show "db_ok (store s')" by (simp add: db_ok_def)
  qed
  with False show ?thesis unfolding create_workspace_invoice_split
    by (simp add: maintains_bnd maintains_read_only read_only_get_invoice read_only_query)
qed

lemma transition_db_ok:
  assumes "maintains invoices_ok (transition_invoice iid f)" shows "maintains db_ok (transition_invoice iid f)"
proof (rule maintains_db_ok2[OF _ assms])
  show "maintains accounts_ok (transition_invoice iid f)"
    unfolding transition_invoice_def
    by (intro maintains_bnd maintains_exec_count) (auto intro: maintains_read_only read_only_get_invoice read_only_throw)
qed

lemma mark_invoice_db_ok:
  "maintains db_ok (mark_invoice_issued now iid pdf nt)" "maintains db_ok (mark_invoice_rejected now iid nt)"
  using transition_db_ok mark_invoice_maintains unfolding mark_invoice_issued_def mark_invoice_rejected_def by blast+

lemma title_ops_db_ok: "maintains db_ok (upsert_invoice_title now t)" "maintains db_ok (delete_invoice_title tok tid)"
proof -
  have "db_ok (upsert_title_row k t now d) = db_ok d" for k d by (simp add: db_ok_def)
  then show "maintains db_ok (upsert_invoice_title now t)"
    unfolding upsert_invoice_title_def by (auto intro: maintains_exec maintains_read_only read_only_throw)
  have "invoices_ok (d\<lparr>invoice_titles := ts\<rparr>) = invoices_ok d" for d ts
    by (rule invoices_ok_cong) (simp add: invoice_view_def)
  then show "maintains db_ok (delete_invoice_title tok tid)"
    unfolding delete_invoice_title_def by (intro maintains_exec) (simp add: db_ok_def)
qed

lemma rekey_db_ok: "maintains db_ok (rekey_token path stamp now old new)"
  using rekey_token_maintains unfolding db_ok_def .

subsection \<open>The inbox\<close>

definition but_inbox :: "db \<Rightarrow> _" where
  "but_inbox d = (accounts_view d, invoice_view d)"

lemma but_inbox_update [simp]: "but_inbox (d\<lparr>inbound_emails := rows\<rparr>) = but_inbox d"
  by (simp add: but_inbox_def accounts_view_def invoice_view_def)

lemma preserves_inbox:
  "preserves but_inbox (insert_inbound now e)" "preserves but_inbox (patch_inbound_body now mid h t a)"
  "preserves but_inbox (mark_inbound_read now mid)" "preserves but_inbox (delete_inbound mid)"
proof -
  have "but_inbox d' = but_inbox d" if "insert_inbound_row now e d = Inr (x, d')" for x d d'
    using that by (auto simp: insert_inbound_row_def but_inbox_def accounts_view_def invoice_view_def split: if_splits)
  then have "preserves but_inbox (stmt (insert_inbound_row now e))" by (rule preserves_stmt)
  then show "preserves but_inbox (insert_inbound now e)"
    unfolding insert_inbound_def
    by (rule preserves_bnd) (auto intro: preserves_read_only read_only_ret read_only_or_zero read_only_query_row split: option.split)
  show "preserves but_inbox (patch_inbound_body now mid h t a)" "preserves but_inbox (mark_inbound_read now mid)" "preserves but_inbox (delete_inbound mid)"
    unfolding patch_inbound_body_def mark_inbound_read_def delete_inbound_def by (rule preserves_exec, simp)+
qed

lemma inbox_db_ok:
  assumes "preserves but_inbox m" shows "maintains db_ok m"
proof (rule maintains_preserved[OF assms])
  fix d d' assume "but_inbox d' = but_inbox d"
  then have "accounts_view d' = accounts_view d" "invoice_view d' = invoice_view d" by (simp_all only: but_inbox_def prod.inject)
  from accounts_ok_cong[OF this(1)] invoices_ok_cong[OF this(2)] show "db_ok d' = db_ok d" by (simp only: db_ok_def)
qed

section \<open>Reachable databases\<close>

text \<open>\<open>runs m d d'\<close>: the operation, under some pattern of driver faults, takes \<open>d\<close> to \<open>d'\<close>.\<close>

definition runs :: "'a dbm \<Rightarrow> db \<Rightarrow> db \<Rightarrow> bool" where
  "runs m d d' \<longleftrightarrow> (\<exists>p. store (snd (m \<lparr>store = d, plan = p\<rparr>)) = d')"

inductive db_step :: "sqlite \<Rightarrow> db \<Rightarrow> db \<Rightarrow> bool" for q where
  s_create_group: "runs (create_group now p) d d' \<Longrightarrow> db_step q d d'"
| s_update_group: "runs (update_group now gid p) d d' \<Longrightarrow> db_step q d d'"
| s_delete_group: "runs (delete_group gid) d d' \<Longrightarrow> db_step q d d'"
| s_ensure_wallet: "runs (ensure_wallet now tok) d d' \<Longrightarrow> db_step q d d'"
| s_add_balance: "runs (add_balance now tok kind x ref nt allow) d d' \<Longrightarrow> db_step q d d'"
| s_set_group: "runs (set_wallet_group now tok gid) d d' \<Longrightarrow> db_step q d d'"
| s_rekey: "runs (rekey_token path stamp now old new) d d' \<Longrightarrow> db_step q d d'"
| s_create_order: "runs (create_order now r) d d' \<Longrightarrow> db_step q d d'"
| s_credit: "runs (credit_paid_order now no t tok usd ref nt) d d' \<Longrightarrow> db_step q d d'"
| s_expire: "runs (mark_order_expired no) d d' \<Longrightarrow> db_step q d d'"
| s_sweep: "runs (expire_pending_orders_before cutoff) d d' \<Longrightarrow> db_step q d d'"
| s_drop_order: "runs (delete_pending_order no tok) d d' \<Longrightarrow> db_step q d d'"
| s_create_workspace: "runs (create_workspace now name) d d' \<Longrightarrow> db_step q d d'"
| s_update_workspace: "runs (update_workspace now wsid nm dis) d d' \<Longrightarrow> db_step q d d'"
| s_adjust: "runs (adjust_workspace_balance now wsid x kind ref nt) d d' \<Longrightarrow> db_step q d d'"
| s_add_member: "runs (add_member now wsid tok role daily monthly) d d' \<Longrightarrow> db_step q d d'"
| s_update_member: "runs (update_member now tok r dc mc) d d' \<Longrightarrow> db_step q d d'"
| s_remove_member: "runs (remove_member tok) d d' \<Longrightarrow> db_step q d d'"
| s_charge: "runs (charge_member_first q now tok cost ref nt) d d' \<Longrightarrow> db_step q d d'"
| s_credit_workspace: "runs (credit_paid_order_to_workspace now no t wsid usd ref nt) d d' \<Longrightarrow> db_step q d d'"
| s_invoice: "runs (create_invoice q now tok cny title email) d d' \<Longrightarrow> db_step q d d'"
| s_team_invoice: "runs (create_workspace_invoice q now wsid tok cny title email) d d' \<Longrightarrow> db_step q d d'"
| s_issue: "runs (mark_invoice_issued now iid pdf nt) d d' \<Longrightarrow> db_step q d d'"
| s_reject: "runs (mark_invoice_rejected now iid nt) d d' \<Longrightarrow> db_step q d d'"
| s_title: "runs (upsert_invoice_title now ti) d d' \<Longrightarrow> db_step q d d'"
| s_drop_title: "runs (delete_invoice_title tok tid) d d' \<Longrightarrow> db_step q d d'"
| s_mail: "runs (insert_inbound now e) d d' \<Longrightarrow> db_step q d d'"
| s_mail_body: "runs (patch_inbound_body now mid h t a) d d' \<Longrightarrow> db_step q d d'"
| s_mail_read: "runs (mark_inbound_read now mid) d d' \<Longrightarrow> db_step q d d'"
| s_drop_mail: "runs (delete_inbound mid) d d' \<Longrightarrow> db_step q d d'"

inductive reachable :: "sqlite \<Rightarrow> db \<Rightarrow> bool" for q where
  r_install: "reachable q (initial_db now)"
| r_step: "reachable q d \<Longrightarrow> db_step q d d' \<Longrightarrow> reachable q d'"

lemma runs_maintains: "runs m d d' \<Longrightarrow> maintains P m \<Longrightarrow> P d \<Longrightarrow> P d'"
  unfolding runs_def maintains_def by (metis prod.collapse session.select_convs(1))

lemma db_step_ok: "db_step q d d' \<Longrightarrow> db_ok d \<Longrightarrow> db_ok d'"
  by (induction rule: db_step.induct)
    (erule runs_maintains, (rule groups_db_ok preserves_groups create_group_maintains update_group_maintains delete_group_maintains
      ensure_wallet_db_ok add_balance_db_ok set_wallet_group_db_ok rekey_db_ok order_ops_db_ok credit_paid_order_db_ok
      create_workspace_db_ok update_workspace_db_ok pool_ops_db_ok add_member_db_ok update_member_db_ok remove_member_db_ok
      charge_db_ok create_invoice_db_ok create_workspace_invoice_db_ok mark_invoice_db_ok title_ops_db_ok
      inbox_db_ok preserves_inbox)+, assumption)+

lemma reachable_ok: "reachable q d \<Longrightarrow> db_ok d"
proof (induction rule: reachable.induct)
  case (r_install now)
  show ?case by (simp add: db_ok_def accounts_ok_initial invoices_ok_initial)
next
  case (r_step d d')
  then show ?case by (blast intro: db_step_ok)
qed

section \<open>An order that is paid stays paid\<close>

definition order_paid :: "db \<Rightarrow> string \<Rightarrow> bool" where
  "order_paid d no \<longleftrightarrow> no \<in> o_out_trade_no ` set (paid_orders d)"

lemma order_paid_cong: "alipay_orders d' = alipay_orders d \<Longrightarrow> order_paid d' no = order_paid d no"
  by (simp add: order_paid_def paid_orders_def)

lemma order_paid_pending:
  assumes "orders_ok d" "order_paid d no"
  shows "sql_count (is_pending no) (alipay_orders d) = 0"
proof -
  from assms(2) obtain r where r: "r \<in> set (alipay_orders d)" "o_out_trade_no r = no" "o_status r = OrderPaid"
    by (auto simp: order_paid_def paid_orders_def)
  have "inj_on o_out_trade_no (set (alipay_orders d))" using assms(1) by (simp add: orders_ok_def distinct_map)
  then have "o_status r2 = OrderPaid" if "r2 \<in> set (alipay_orders d)" "o_out_trade_no r2 = no" for r2
    using inj_onD[of o_out_trade_no "set (alipay_orders d)" r2 r] that r by force
  then show ?thesis by (auto simp: sql_count_0_iff is_pending_def order_states)
qed

lemma order_paid_pay: "order_paid d no \<Longrightarrow> order_paid (pay_order no' t now d) no"
proof -
  assume "order_paid d no"
  then obtain r where r: "r \<in> set (alipay_orders d)" "o_out_trade_no r = no" "o_status r = OrderPaid" by (auto simp: order_paid_def paid_orders_def)
  then have "\<not> is_pending no' r" by (simp add: is_pending_def order_states)
  with r(1) have "r \<in> set (alipay_orders (pay_order no' t now d))" by (force simp: pay_order_def sql_update_def)
  with r show ?thesis by (auto simp: order_paid_def paid_orders_def)
qed

lemma alipay_orders_writes [simp]:
  "alipay_orders (pool_post wsid x m d) = alipay_orders d" "alipay_orders (insert_invoice tok cny ti email wsid now d) = alipay_orders d"
  "alipay_orders (upsert_title_row tok ti now d) = alipay_orders d" "alipay_orders (charge_effect now tok wsid p c ref nt d) = alipay_orders d"
  by (simp_all add: pool_post_def insert_workspace_tx_def set_pool_balance_def update_workspace_row_def insert_invoice_def upsert_title_row_def
      charge_effect_def Let_def split: prod.split)

lemma keeps_paid_view:
  assumes "preserves v m" "\<And>d d'. v d' = v d \<Longrightarrow> alipay_orders d' = alipay_orders d"
  shows "maintains (\<lambda>d. order_paid d no) m"
  by (rule maintains_preserved[OF assms(1)]) (rule order_paid_cong[OF assms(2)])

lemma keeps_paid_orders: "preserves paid_orders m \<Longrightarrow> maintains (\<lambda>d. order_paid d no) m"
  by (erule maintains_preserved) (simp only: order_paid_def)

lemma keeps_paid:
  "maintains (\<lambda>d. order_paid d no) (create_group now p)" "maintains (\<lambda>d. order_paid d no) (update_group now gid p)"
  "maintains (\<lambda>d. order_paid d no) (delete_group gid)" "maintains (\<lambda>d. order_paid d no) (ensure_wallet now tok)"
  "maintains (\<lambda>d. order_paid d no) (add_balance now tok kind x ref nt allow)" "maintains (\<lambda>d. order_paid d no) (set_wallet_group now tok gid)"
  by (rule keeps_paid_view, (rule preserves_groups preserves_ensure_wallet preserves_wallet_ops), simp add: rest_view_def)+

lemma keeps_paid_workspaces:
  "maintains (\<lambda>d. order_paid d no) (create_workspace now name)" "maintains (\<lambda>d. order_paid d no) (update_workspace now wsid nm dis)"
  "maintains (\<lambda>d. order_paid d no) (add_member now wsid tok role daily monthly)"
  "maintains (\<lambda>d. order_paid d no) (update_member now tok r dc mc)" "maintains (\<lambda>d. order_paid d no) (remove_member tok)"
  by (rule keeps_paid_view, (rule preserves_create_workspace preserves_update_workspace preserves_add_member preserves_update_member
      preserves_remove_member), simp add: but_workspaces_def)+

lemma keeps_paid_order_ops:
  "maintains (\<lambda>d. order_paid d no) (create_order now row)" "maintains (\<lambda>d. order_paid d no) (mark_order_expired no')"
  "maintains (\<lambda>d. order_paid d no) (expire_pending_orders_before cutoff)" "maintains (\<lambda>d. order_paid d no) (delete_pending_order no' tok)"
  by (rule keeps_paid_orders, rule preserves_paid)+

lemma keeps_paid_credit:
  "maintains (\<lambda>d. order_paid d no) (credit_paid_order now no' t tok usd ref nt)"
  unfolding maintains_def
  by (auto elim!: credit_paid_order_store simp: order_paid_cong[OF orders_post] order_paid_cong[OF orders_open] order_paid_pay)

lemma keeps_paid_pool:
  "maintains (\<lambda>d. order_paid d no) (adjust_workspace_balance now wsid x kind ref nt)"
  "maintains (\<lambda>d. order_paid d no) (credit_paid_order_to_workspace now no' t wsid usd ref nt)"
  by (rule maintains_atomic, (rule atomic_adjust_workspace_balance atomic_credit_to_workspace),
      auto dest!: adjust_workspace_balance_Inr credit_to_workspace_Inr simp: order_paid_cong[OF alipay_orders_writes(1)] order_paid_pay)+

lemma keeps_paid_invoices:
  "maintains (\<lambda>d. order_paid d no) (create_invoice q now tok cny title email)"
  "maintains (\<lambda>d. order_paid d no) (transition_invoice iid f)"
  "maintains (\<lambda>d. order_paid d no) (upsert_invoice_title now ti)" "maintains (\<lambda>d. order_paid d no) (delete_invoice_title tok tid)"
proof -
  have row: "order_paid (upsert_title_row k t now d) no = order_paid d no" for k t now d by (rule order_paid_cong) simp
  have "maintains (\<lambda>d. order_paid d no) (invoice_tx q now tok cny title email)"
    by (rule maintains_atomic[OF atomic_invoice_tx]) (auto dest!: invoice_tx_Inr simp: row order_paid_cong[OF alipay_orders_writes(2)])
  then show "maintains (\<lambda>d. order_paid d no) (create_invoice q now tok cny title email)"
    unfolding create_invoice_split
    by (cases "cny \<le> 0") (simp_all add: maintains_bnd maintains_read_only read_only_get_invoice read_only_throw)
  show "maintains (\<lambda>d. order_paid d no) (transition_invoice iid f)"
    unfolding transition_invoice_def
    by (intro maintains_bnd maintains_exec_count) (auto simp: order_paid_def paid_orders_def intro: maintains_read_only read_only_get_invoice read_only_throw)
  show "maintains (\<lambda>d. order_paid d no) (upsert_invoice_title now ti)"
    unfolding upsert_invoice_title_def by (auto simp: row intro: maintains_exec maintains_read_only read_only_throw)
  show "maintains (\<lambda>d. order_paid d no) (delete_invoice_title tok tid)"
    unfolding delete_invoice_title_def by (intro maintains_exec) (simp add: order_paid_def paid_orders_def)
qed

lemma keeps_paid_rekey: "maintains (\<lambda>d. order_paid d no) (rekey_token path stamp now old new)"
proof (rule maintains_atomic[OF atomic_rekey_token])
  fix s x s' assume paid: "order_paid (store s) no" and "rekey_token path stamp now old new s = (Inr x, s')"
  then have "store s' = rekeyed now old new (store s)" using rekey_token_Inr by blast
  moreover have "map o_out_trade_no (filter (\<lambda>r. o_status r = OrderPaid) (sql_update (\<lambda>r. o_token r = old) (\<lambda>r. r\<lparr>o_token := new\<rparr>) rows)) =
      map o_out_trade_no (filter (\<lambda>r. o_status r = OrderPaid) rows)" for rows
    by (induction rows) auto
  ultimately have "map o_out_trade_no (paid_orders (store s')) = map o_out_trade_no (paid_orders (store s))"
    by (simp add: paid_orders_def rekeyed_sel)
  with paid show "order_paid (store s') no" unfolding order_paid_def by (metis set_map)
qed

lemma maintains_conj_run:
  assumes "maintains P m" "\<And>s r s'. P (store s) \<Longrightarrow> Q (store s) \<Longrightarrow> m s = (r, s') \<Longrightarrow> Q (store s')"
  shows "maintains (\<lambda>d. P d \<and> Q d) m"
  using assms unfolding maintains_def by blast

lemma keeps_paid_charge: "maintains (\<lambda>d. accounts_ok d \<and> order_paid d no) (charge_member_first q now tok cost ref nt)"
proof (rule maintains_conj_run)
  show "maintains accounts_ok (charge_member_first q now tok cost ref nt)" by (rule charge_member_first_maintains)
  fix s r s' assume acc: "accounts_ok (store s)" and paid: "order_paid (store s) no" and run: "charge_member_first q now tok cost ref nt s = (r, s')"
  have ens: "alipay_orders d' = alipay_orders d" if "ensured now tok d d'" for d d' using that by (auto simp: ensured_def)
  from run acc have "alipay_orders (store s') = alipay_orders (store s)"
  proof (cases rule: charge_member_first_cases)
    case Failed
    then show ?thesis using ens by blast
  next
    case Charged
    then show ?thesis using ens by (metis alipay_orders_writes(4))
  qed simp
  then show "order_paid (store s') no" using paid order_paid_cong by blast
qed

lemma keeps_paid_team_invoice:
  "maintains (\<lambda>d. invoices_ok d \<and> order_paid d no) (create_workspace_invoice q now wsid ini cny title email)"
proof (cases "cny \<le> 0 \<or> wsid \<le> 0")
  case True then show ?thesis
    by (auto simp: create_workspace_invoice_split intro: maintains_read_only read_only_throw)
next
  case False
  have "maintains (\<lambda>d. invoices_ok d \<and> order_paid d no) (workspace_invoice_tx q now wsid ini cny title email)"
  proof (rule maintains_atomic[OF atomic_workspace_invoice_tx])
    fix s iid s' assume P: "invoices_ok (store s) \<and> order_paid (store s) no"
      and tx: "workspace_invoice_tx q now wsid ini cny title email s = (Inr iid, s')"
    from False have ws: "0 < wsid" by simp
    from P have "invoices_ok (store s)" by blast
    note made = workspace_invoice_tx_Inr[OF tx this ws]
    from made have "alipay_orders (store s') = alipay_orders (store s)" by (elim conjE) simp
    moreover from made have "invoices_ok (store s')" by blast
    ultimately show "invoices_ok (store s') \<and> order_paid (store s') no" using P order_paid_cong by blast
  qed
  with False show ?thesis unfolding create_workspace_invoice_split
    by (simp add: maintains_bnd maintains_read_only read_only_get_invoice read_only_query)
qed

lemma keeps_paid_mark:
  "maintains (\<lambda>d. order_paid d no) (mark_invoice_issued now iid pdf nt)" "maintains (\<lambda>d. order_paid d no) (mark_invoice_rejected now iid nt)"
  unfolding mark_invoice_issued_def mark_invoice_rejected_def by (rule keeps_paid_invoices(2))+

lemma keeps_paid_inbox: "preserves but_inbox m \<Longrightarrow> maintains (\<lambda>d. order_paid d no) m"
  by (erule keeps_paid_view) (simp add: but_inbox_def accounts_view_def)

lemma db_step_keeps_paid: "db_step q d d' \<Longrightarrow> db_ok d \<Longrightarrow> order_paid d no \<Longrightarrow> order_paid d' no"
proof (induction rule: db_step.induct)
  case (s_charge now tok cost ref nt d d')
  have "accounts_ok d \<and> order_paid d no" using s_charge by (simp add: db_ok_def)
  with runs_maintains[OF s_charge(1) keeps_paid_charge] show ?case by blast
next
  case (s_team_invoice now wsid tok cny title email d d')
  have "invoices_ok d \<and> order_paid d no" using s_team_invoice by (simp add: db_ok_def)
  with runs_maintains[OF s_team_invoice(1) keeps_paid_team_invoice] show ?case by blast
qed (erule runs_maintains, (rule keeps_paid keeps_paid_workspaces keeps_paid_order_ops keeps_paid_credit keeps_paid_pool
      keeps_paid_invoices(1) keeps_paid_mark keeps_paid_invoices(3,4) keeps_paid_rekey
      keeps_paid_inbox[OF preserves_inbox(1)] keeps_paid_inbox[OF preserves_inbox(2)] keeps_paid_inbox[OF preserves_inbox(3)] keeps_paid_inbox[OF preserves_inbox(4)]), assumption)+

lemma db_steps_keep_paid: "(db_step q)\<^sup>*\<^sup>* d d' \<Longrightarrow> db_ok d \<Longrightarrow> order_paid d no \<Longrightarrow> db_ok d' \<and> order_paid d' no"
  by (induction rule: rtranclp_induct) (blast intro: db_step_ok db_step_keeps_paid)+

text \<open>No credit for the order succeeds, by the wallet or the pool, whatever the driver does; all that can remain of one is
  an empty wallet opened for its token.\<close>

definition refuses_credit :: "string \<Rightarrow> db \<Rightarrow> bool" where
  "refuses_credit no d \<longleftrightarrow> (\<forall>plan now t tok usd ref nt wsid.
     (\<exists>e. fst (credit_paid_order now no t tok usd ref nt \<lparr>store = d, plan = plan\<rparr>) = Inl e) \<and>
     ensured now tok d (store (snd (credit_paid_order now no t tok usd ref nt \<lparr>store = d, plan = plan\<rparr>))) \<and>
     (\<exists>e. fst (credit_paid_order_to_workspace now no t wsid usd ref nt \<lparr>store = d, plan = plan\<rparr>) = Inl e) \<and>
     store (snd (credit_paid_order_to_workspace now no t wsid usd ref nt \<lparr>store = d, plan = plan\<rparr>)) = d)"

lemma paid_refuses_credit:
  assumes "orders_ok d" "order_paid d no"
  shows "refuses_credit no d"
  unfolding refuses_credit_def
proof (intro allI conjI)
  fix plan now t tok usd ref nt wsid
  note z = order_paid_pending[OF assms]
  obtain r s where run: "credit_paid_order now no t tok usd ref nt \<lparr>store = d, plan = plan\<rparr> = (r, s)" by fastforce
  from run show "\<exists>e. fst (credit_paid_order now no t tok usd ref nt \<lparr>store = d, plan = plan\<rparr>) = Inl e"
    by (cases rule: credit_paid_order_store) (use run z in simp_all)
  from run show "ensured now tok d (store (snd (credit_paid_order now no t tok usd ref nt \<lparr>store = d, plan = plan\<rparr>)))"
    by (cases rule: credit_paid_order_store) (use run z in \<open>auto simp: ensured_def\<close>)
  obtain r2 s2 where run2: "credit_paid_order_to_workspace now no t wsid usd ref nt \<lparr>store = d, plan = plan\<rparr> = (r2, s2)" by fastforce
  have e: "\<exists>e. r2 = Inl e"
  proof (cases r2)
    case (Inr x)
    with credit_to_workspace_Inr[of now no t wsid usd ref nt "\<lparr>store = d, plan = plan\<rparr>" x s2] run2 z show ?thesis by simp
  qed simp
  with run2 show "\<exists>e. fst (credit_paid_order_to_workspace now no t wsid usd ref nt \<lparr>store = d, plan = plan\<rparr>) = Inl e" by simp
  from e run2 atomicD[OF atomic_credit_to_workspace] show "store (snd (credit_paid_order_to_workspace now no t wsid usd ref nt \<lparr>store = d, plan = plan\<rparr>)) = d"
    by fastforce
qed

section \<open>Properties\<close>

text \<open>C1. In every database the package can reach from a fresh install, whatever operations ran and
  wherever the driver failed, every wallet balance and every pool balance is the \<open>float64\<close> sum of
  its ledger in the order written, an account that does not exist has no ledger, every wallet is
  in a pricing group that exists, and no group bills at a zero or negative multiplier.\<close>

theorem reachable_ledgers_balance:
  assumes "reachable q d"
  shows "(\<forall>k b. wallet_balance d k = Some b \<longrightarrow> b = foldl fadd 0 (wallet_entries d k)) \<and>
    (\<forall>k. wallet_balance d k = None \<longrightarrow> wallet_entries d k = []) \<and>
    (\<forall>k b. pool_balance d k = Some b \<longrightarrow> b = foldl fadd 0 (pool_entries d k)) \<and>
    (\<forall>k. pool_balance d k = None \<longrightarrow> pool_entries d k = []) \<and>
    (\<forall>w \<in> set (wallets d). \<exists>g \<in> set (pricing_groups d). g_id g = w_group_id w \<and> (\<forall>p. 0 < multiplier_for g p))"
proof -
  have ok: "groups_ok d" "wallets_ok d" "workspaces_ok d" using reachable_ok[OF assms] by (simp_all add: db_ok_parts)
  have "balanced wallet_balance wallet_entries d" "balanced pool_balance pool_entries d"
    using ok by (simp_all add: wallets_ok_def workspaces_ok_def pools_ok_def)
  moreover have "\<forall>w \<in> set (wallets d). \<exists>g \<in> set (pricing_groups d). g_id g = w_group_id w \<and> (\<forall>p. 0 < multiplier_for g p)"
    using ok(1) multiplier_for_pos[OF ok(1)] unfolding groups_ok_def by blast
  ultimately show ?thesis unfolding balanced_def by blast
qed

text \<open>A wallet topped up by five dollars.\<close>

definition demo_step :: db where
  "demo_step = store (snd (add_balance 10 ''alice'' ''topup'' 5 [] [] True (fresh_session (initial_db 0))))"

theorem reachable_ledgers_balance_witness:
  "wallet_balance demo_step ''alice'' = Some 5 \<and> 5 = foldl fadd 0 (wallet_entries demo_step ''alice'')"
proof -
  have "db_step demo_sqlite (initial_db 0) demo_step"
    unfolding demo_step_def fresh_session_def by (rule s_add_balance) (auto simp: runs_def)
  then have r: "reachable demo_sqlite demo_step" by (rule r_step[OF r_install])
  have b: "wallet_balance demo_step ''alice'' = Some 5" by code_simp
  from conjunct1[OF reachable_ledgers_balance[OF r]] b show ?thesis by simp
qed

text \<open>C5. A paid order credits once: a credit that succeeds found the order pending, makes it paid with the trade number and
  the time, and adds exactly the order's credit to the one wallet and one topup row to its ledger. From then on, whatever
  operations of the package follow and wherever the driver fails, every credit of the order is refused, to a wallet or to
  a pool, and leaves the database as it was, save that an empty wallet may have been opened for the token it names.\<close>

theorem paid_order_credits_once:
  assumes ok: "db_ok (store s)" and run: "credit_paid_order now no t tok usd ref nt s = (Inr bal, s')"
  shows "(\<exists>r. order_row (store s) no = Some r \<and> o_status r = OrderPending \<and>
      order_row (store s') no = Some (r\<lparr>o_status := OrderPaid, o_trade_no := t, o_paid_at := now\<rparr>)) \<and>
    wallet_balance (store s') tok = Some bal \<and> bal = fadd (wallet_funds (store s) tok) usd \<and>
    wallet_entries (store s') = (wallet_entries (store s))(tok := wallet_entries (store s) tok @ [usd]) \<and>
    (\<forall>q d. (db_step q)\<^sup>*\<^sup>* (store s') d \<longrightarrow> refuses_credit no d)"
  using run
proof (cases rule: credit_paid_order_store)
  case (Done bal' d b)
  have acc: "accounts_ok (store s)" and o: "orders_ok (store s)" using ok by (simp_all add: db_ok_def accounts_ok_def)
  have ens: "ensured now tok (store s) d" using Done(2) by (auto simp: ensured_def)
  have w: "wallets_keyed d" using accounts_ok_ensured[OF ens acc] by (simp add: accounts_ok_def wallets_ok_def)
  from Done(3) pending_count_0[OF o, of no] obtain r where r: "order_row (store s) no = Some r" "o_status r = OrderPending"
    by (auto split: option.splits)
  have orders: "alipay_orders d = alipay_orders (store s)" using Done(2) by auto
  have rows: "order_row (store s') no = Some (r\<lparr>o_status := OrderPaid, o_trade_no := t, o_paid_at := now\<rparr>)"
  proof -
    have "order_row (store s') = order_row (pay_order no t now d)" by (simp add: fun_eq_iff Done(6) order_row_def)
    moreover have "order_row d no = Some r" using r(1) orders by (simp add: order_row_def)
    ultimately show ?thesis using r(2) order_row_no[OF r(1)] by (simp add: order_row_pay is_pending_def)
  qed
  have funds: "b = wallet_funds (store s) tok"
    using Done(4) ensured_funds[OF ens, of tok] by (simp add: wallet_funds_def)
  have bal: "wallet_balance (store s') tok = Some bal"
    using wallet_ledger.post_balance[of "pay_order no t now d" tok b usd] w Done by (simp add: wallets_keyed_def)
  have entr: "wallet_entries (store s') = (wallet_entries (store s))(tok := wallet_entries (store s) tok @ [usd])"
    using ensured_views(5)[OF ens] by (simp add: Done(6) wallet_ledger.ent_post)
  have ok': "db_ok (store s')" using maintainsD[OF credit_paid_order_db_ok ok run] .
  have "order_paid (store s') no" using order_row_no[OF rows] unfolding order_paid_def paid_orders_def
    by (intro image_eqI[of _ _ "r\<lparr>o_status := OrderPaid, o_trade_no := t, o_paid_at := now\<rparr>"]) simp_all
  then have "refuses_credit no d'" if "(db_step q)\<^sup>*\<^sup>* (store s') d'" for q d'
    using db_steps_keep_paid[OF that ok'] paid_refuses_credit by (simp add: db_ok_parts)
  then show ?thesis using r rows bal funds entr Done by auto
qed simp_all

theorem paid_order_credits_once_witness:
  "wallet_balance (store (snd (credit_paid_order 950 ''t1'' ''x'' ''alice'' 2 [] [] (fresh_session demo_db)))) ''alice'' = Some 22 \<and>
   refuses_credit ''t1'' (store (snd (credit_paid_order 950 ''t1'' ''x'' ''alice'' 2 [] [] (fresh_session demo_db))))"
proof -
  have "fst (credit_paid_order 950 ''t1'' ''x'' ''alice'' 2 [] [] (fresh_session demo_db)) = Inr 22" by code_simp
  then have run: "credit_paid_order 950 ''t1'' ''x'' ''alice'' 2 [] [] (fresh_session demo_db) =
     (Inr 22, snd (credit_paid_order 950 ''t1'' ''x'' ''alice'' 2 [] [] (fresh_session demo_db)))" by (metis prod.collapse)
  have ok: "db_ok (store (fresh_session demo_db))" by (simp add: demo_fresh demo_accounts_ok demo_invoices_ok db_ok_def)
  from paid_order_credits_once[OF ok run] show ?thesis by blast
qed

end
