(* ===== verification/Migrate.thy ===== *)
theory Migrate
  imports Prelude
begin

text \<open>
  Schema migrations (\<open>migrate\<close> of \<open>internal/saas/db/migrations.go\<close>). The SQL texts are run by
  SQLite, so what a text does to a schema is a parameter: \<open>sql v\<close> is the effect of migration
  \<open>v\<close>, or \<open>None\<close> when SQLite rejects it. \<open>mg_faults\<close> says which statements the driver fails on,
  as in \<open>Store\<close>. The backup before a migration is a file copy whose failure is only logged; it
  touches neither the schema nor the versions and is left out.
\<close>

record 's migration_state =
  mg_versions :: "nat list"
  mg_schema :: 's
  mg_faults :: "bool list"

datatype migrate_error = MigrateDriver | RefuseDowngrade nat nat | MigrationFailed nat

text \<open>\<open>n\<close> statements in a row: whether all went through, and the faults left.\<close>

fun run_stmts :: "nat \<Rightarrow> bool list \<Rightarrow> bool \<times> bool list" where
  "run_stmts 0 fs = (True, fs)"
| "run_stmts (Suc n) [] = (True, [])"
| "run_stmts (Suc n) (f # fs) = (if f then (False, fs) else run_stmts n fs)"

definition current_version :: "'s migration_state \<Rightarrow> nat" where
  "current_version s = foldr max (mg_versions s) 0"

text \<open>One migration is one transaction: its SQL and the version row, or neither.\<close>

definition apply_migration :: "(nat \<Rightarrow> 's \<Rightarrow> 's option) \<Rightarrow> nat \<Rightarrow> 's migration_state \<Rightarrow> (migrate_error + unit) \<times> 's migration_state" where
  "apply_migration sql v s =
     (case run_stmts 2 (mg_faults s) of (False, fs) \<Rightarrow> (Inl (MigrationFailed v), s\<lparr>mg_faults := fs\<rparr>)
      | (True, fs) \<Rightarrow> (case sql v (mg_schema s) of
          None \<Rightarrow> (Inl (MigrationFailed v), s\<lparr>mg_faults := fs\<rparr>)
        | Some sc \<Rightarrow> if v \<in> set (mg_versions s) then (Inl (MigrationFailed v), s\<lparr>mg_faults := fs\<rparr>)
            else (case run_stmts 2 fs of (False, fs) \<Rightarrow> (Inl (MigrationFailed v), s\<lparr>mg_faults := fs\<rparr>)
                  | (True, fs) \<Rightarrow> (Inr (), s\<lparr>mg_versions := mg_versions s @ [v], mg_schema := sc, mg_faults := fs\<rparr>))))"

fun apply_migrations :: "(nat \<Rightarrow> 's \<Rightarrow> 's option) \<Rightarrow> nat list \<Rightarrow> 's migration_state \<Rightarrow> (migrate_error + unit) \<times> 's migration_state" where
  "apply_migrations sql [] s = (Inr (), s)"
| "apply_migrations sql (v # vs) s = (case apply_migration sql v s of
     (Inl e, s') \<Rightarrow> (Inl e, s') | (Inr _, s') \<Rightarrow> apply_migrations sql vs s')"

definition migrate :: "(nat \<Rightarrow> 's \<Rightarrow> 's option) \<Rightarrow> nat \<Rightarrow> 's migration_state \<Rightarrow> (migrate_error + unit) \<times> 's migration_state" where
  "migrate sql target s =
     (case run_stmts 2 (mg_faults s) of (False, fs) \<Rightarrow> (Inl MigrateDriver, s\<lparr>mg_faults := fs\<rparr>)
      | (True, fs) \<Rightarrow> let s = s\<lparr>mg_faults := fs\<rparr>; current = current_version s in
          if target = current then (Inr (), s)
          else if target < current then (Inl (RefuseDowngrade target current), s)
          else apply_migrations sql (filter (\<lambda>v. \<not> v \<le> current) [1..<Suc target]) s)"

section \<open>Versions and schema move together\<close>

text \<open>The schema after the first \<open>n\<close> migrations of an empty database \<open>z\<close>.\<close>

fun schema_at :: "(nat \<Rightarrow> 's \<Rightarrow> 's option) \<Rightarrow> 's \<Rightarrow> nat \<Rightarrow> 's option" where
  "schema_at sql z 0 = Some z"
| "schema_at sql z (Suc n) = (case schema_at sql z n of None \<Rightarrow> None | Some sc \<Rightarrow> sql (Suc n) sc)"

definition migrated :: "(nat \<Rightarrow> 's \<Rightarrow> 's option) \<Rightarrow> 's \<Rightarrow> 's migration_state \<Rightarrow> bool" where
  "migrated sql z s \<longleftrightarrow> mg_versions s = [1..<Suc (current_version s)] \<and> schema_at sql z (current_version s) = Some (mg_schema s)"

lemma foldr_max_ub: "x \<in> set xs \<Longrightarrow> x \<le> foldr max xs (0 :: nat)"
  by (induction xs) auto

lemma foldr_max_upt: "foldr max [1..<Suc n] (0 :: nat) = n"
proof -
  have "foldr max xs (0 :: nat) \<le> n" if "\<forall>x \<in> set xs. x \<le> n" for xs using that by (induction xs) auto
  from this[of "[1..<Suc n]"] have "foldr max [1..<Suc n] 0 \<le> n" by (simp del: upt_Suc)
  moreover have "n \<le> foldr max [1..<Suc n] 0" by (cases n) (auto intro: foldr_max_ub simp del: upt_Suc)
  ultimately show ?thesis by simp
qed

lemma current_upt: "mg_versions s = [1..<Suc n] \<Longrightarrow> current_version s = n"
  using foldr_max_upt[of n] by (simp add: current_version_def)

lemma apply_migration_step:
  assumes "migrated sql z s" "apply_migration sql (Suc (current_version s)) s = (r, s')"
  shows "migrated sql z s' \<and> (r = Inr () \<longrightarrow> current_version s' = Suc (current_version s)) \<and>
    (r \<noteq> Inr () \<longrightarrow> mg_versions s' = mg_versions s \<and> mg_schema s' = mg_schema s)"
proof -
  let ?n = "current_version s"
  have s: "mg_versions s = [1..<Suc ?n]" "schema_at sql z ?n = Some (mg_schema s)" using assms(1) by (auto simp: migrated_def)
  consider (kept) "r \<noteq> Inr ()" "mg_versions s' = mg_versions s" "mg_schema s' = mg_schema s"
    | (recorded) sc where "r = Inr ()" "sql (Suc ?n) (mg_schema s) = Some sc" "mg_versions s' = mg_versions s @ [Suc ?n]" "mg_schema s' = sc"
    using assms(2) by (auto simp: apply_migration_def split: prod.splits bool.splits option.splits if_splits)
  then show ?thesis
  proof cases
    case kept
    then have "current_version s' = ?n" by (simp add: current_version_def)
    with kept s show ?thesis by (simp add: migrated_def)
  next
    case recorded
    with s have v: "mg_versions s' = [1..<Suc (Suc ?n)]" by simp
    from current_upt[OF v] v recorded s show ?thesis by (simp add: migrated_def)
  qed
qed

lemma apply_migrations_spec:
  assumes "migrated sql z s" "apply_migrations sql [Suc (current_version s)..<Suc t] s = (r, s')" "current_version s \<le> t"
  shows "migrated sql z s' \<and> current_version s \<le> current_version s' \<and> current_version s' \<le> t \<and>
    (r = Inr () \<longrightarrow> current_version s' = t)"
  using assms
proof (induction "t - current_version s" arbitrary: s)
  case 0 then show ?case by simp
next
  case (Suc k)
  then have lt: "current_version s < t" by simp
  then have l: "[Suc (current_version s)..<Suc t] = Suc (current_version s) # [Suc (Suc (current_version s))..<Suc t]"
    by (simp add: upt_conv_Cons)
  obtain r1 s1 where 1: "apply_migration sql (Suc (current_version s)) s = (r1, s1)" by fastforce
  note st = apply_migration_step[OF Suc.prems(1) 1]
  show ?case
  proof (cases "r1 = Inr ()")
    case True
    with st have c: "current_version s1 = Suc (current_version s)" "migrated sql z s1" by auto
    have run: "apply_migrations sql [Suc (current_version s1)..<Suc t] s1 = (r, s')"
      using Suc.prems(2) unfolding l by (simp add: 1 True c)
    have "k = t - current_version s1" using Suc.hyps(2) c by simp
    from Suc.hyps(1)[OF this c(2) run] lt c show ?thesis by simp
  next
    case False
    then have "r = r1 \<and> s' = s1" using Suc.prems(2) unfolding l by (cases r1) (auto simp: 1)
    with False st lt show ?thesis by (auto simp: current_version_def)
  qed
qed

section \<open>Properties\<close>

text \<open>Starting the server never leaves the schema between two versions: whatever fails, the
  recorded versions are 1 to some \<open>n\<close> and the schema is that of exactly those migrations; nothing
  is undone, and a start that succeeds ends at the version the program was built for. A
  database that is newer is refused and left as it is.\<close>

theorem migrate_keeps_version_and_schema:
  assumes ok: "migrated sql z s" and run: "migrate sql target s = (r, s')"
  shows "migrated sql z s' \<and> current_version s \<le> current_version s' \<and>
    (r = Inr () \<longrightarrow> current_version s' = target) \<and>
    (target < current_version s \<longrightarrow> (\<exists>e. r = Inl e) \<and> mg_schema s' = mg_schema s \<and> mg_versions s' = mg_versions s)"
proof (cases "run_stmts 2 (mg_faults s)")
  case (Pair b fs)
  let ?s = "s\<lparr>mg_faults := fs\<rparr>"
  have cur: "current_version ?s = current_version s" by (simp add: current_version_def)
  have ok': "migrated sql z ?s" using ok by (simp add: migrated_def cur)
  have fil: "filter (\<lambda>v. \<not> v \<le> current_version s) [1..<Suc target] = [Suc (current_version s)..<Suc target]"
    if "current_version s < target"
  proof -
    have "[1..<Suc target] = [1..<Suc (current_version s)] @ [Suc (current_version s)..<Suc target]"
      using that upt_add_eq_append[of 1 "Suc (current_version s)" "target - current_version s"] by simp
    then show ?thesis by (simp add: filter_empty_conv del: upt_Suc)
  qed
  show ?thesis
  proof (cases "b \<and> current_version s < target")
    case True
    with run Pair have "apply_migrations sql [Suc (current_version ?s)..<Suc target] ?s = (r, s')"
      by (simp add: migrate_def Let_def cur fil[unfolded One_nat_def] del: upt_Suc)
    from apply_migrations_spec[OF ok' this] True show ?thesis by (simp add: cur)
  next
    case False
    with run Pair ok' cur show ?thesis
      by (auto simp: migrate_def Let_def migrated_def current_version_def split: if_splits bool.splits)
  qed
qed

theorem migrate_keeps_version_and_schema_witness:
  "current_version (snd (migrate (\<lambda>v sc. Some (sc + v)) 6 \<lparr>mg_versions = [1, 2], mg_schema = 3, mg_faults = []\<rparr>)) = 6"
proof -
  let ?s = "\<lparr>mg_versions = [1, 2], mg_schema = 3 :: nat, mg_faults = []\<rparr>"
  let ?sql = "\<lambda>v sc. Some (sc + v :: nat)"
  have "migrated ?sql 0 ?s" by (simp add: migrated_def current_version_def eval_nat_numeral)
  moreover have "fst (migrate ?sql 6 ?s) = Inr ()" by code_simp
  then have "migrate ?sql 6 ?s = (Inr (), snd (migrate ?sql 6 ?s))" by (metis prod.collapse)
  ultimately show ?thesis using migrate_keeps_version_and_schema[of ?sql 0 ?s 6 "Inr ()" "snd (migrate ?sql 6 ?s)"] by simp
qed

end
