(* ===== verification/GoLib.thy ===== *)
theory GoLib
  imports Prelude Float64
begin

text \<open>
  More of Go's standard library as the handlers use it: \<open>%.2f\<close> and \<open>%.4f\<close> of \<open>fmt\<close>,
  \<open>strconv.ParseFloat\<close>, \<open>hex.EncodeToString\<close>, \<open>time.Time\<close> instants as nanoseconds since 1970,
  and the JSON bodies the handlers answer with. \<open>ParseFloat\<close> reads decimal and hexadecimal
  floats; the spellings of infinity and NaN, a value out of range and digits separated by
  underscores are all \<open>None\<close>: the one caller rejects an infinite or NaN amount with the same
  error as a malformed one.
\<close>

section \<open>Formatting\<close>

fun pad_digits :: "nat \<Rightarrow> nat \<Rightarrow> string" where
  "pad_digits 0 n = []"
| "pad_digits (Suc k) n = pad_digits k (n div 10) @ [char_of (48 + n mod 10)]"

text \<open>\<open>fmt.Sprintf("%.kf", x)\<close>: the exact value rounded to \<open>k\<close> decimals, ties to even.\<close>

definition fmt_fixed :: "nat \<Rightarrow> float64 \<Rightarrow> string" where
  "fmt_fixed k x = (let n = nat (rne (\<bar>x\<bar> * 10 ^ k)) in
     (if x < 0 then ''-'' else []) @ nat_digits (n div 10 ^ k) @
     (if k = 0 then [] else ''.'' @ pad_digits k (n mod 10 ^ k)))"

definition hex_digit :: "nat \<Rightarrow> char" where
  "hex_digit n = (if n < 10 then char_of (48 + n) else char_of (87 + n))"

definition hex_encode :: "nat list \<Rightarrow> string" where
  "hex_encode bs = concat (map (\<lambda>b. [hex_digit (b div 16 mod 16), hex_digit (b mod 16)]) bs)"

section \<open>\<open>strconv.ParseFloat\<close>\<close>

definition digit_value :: "nat \<Rightarrow> char \<Rightarrow> nat option" where
  "digit_value base c = (let n = (of_char c :: nat);
     v = (if 48 \<le> n \<and> n \<le> 57 then Some (n - 48)
          else if 97 \<le> n \<and> n \<le> 102 then Some (n - 87)
          else if 65 \<le> n \<and> n \<le> 70 then Some (n - 55) else None) in
     case v of None \<Rightarrow> None | Some d \<Rightarrow> if d < base then Some d else None)"

text \<open>The mantissa: its digits as a number, how many follow the point, whether there is one
  point, whether there is a digit, and what is left of the text.\<close>

fun scan_mantissa :: "nat \<Rightarrow> nat \<Rightarrow> nat \<Rightarrow> bool \<Rightarrow> bool \<Rightarrow> string \<Rightarrow> nat \<times> nat \<times> bool \<times> string" where
  "scan_mantissa base v k dot dig [] = (v, k, dig, [])"
| "scan_mantissa base v k dot dig (c # s) =
     (if c = CHR ''.'' then (if dot then (v, k, dig, c # s) else scan_mantissa base v k True dig s)
      else case digit_value base c of None \<Rightarrow> (v, k, dig, c # s)
        | Some d \<Rightarrow> scan_mantissa base (v * base + d) (if dot then Suc k else k) dot True s)"

definition split_sign :: "string \<Rightarrow> bool \<times> string" where
  "split_sign s = (case s of c # r \<Rightarrow> if c = CHR ''-'' then (True, r) else if c = CHR ''+'' then (False, r) else (False, s)
     | [] \<Rightarrow> (False, []))"

definition scan_exponent :: "string \<Rightarrow> int option" where
  "scan_exponent s = (case split_sign s of (neg, ds) \<Rightarrow> if ds = [] then None else
     case digits_value 0 ds of None \<Rightarrow> None | Some e \<Rightarrow> Some (if neg then - int e else int e))"

definition scale_pow :: "rat \<Rightarrow> int \<Rightarrow> rat" where
  "scale_pow b e = (if 0 \<le> e then b ^ nat e else 1 / b ^ nat (- e))"

definition max_float :: rat where "max_float = of_int ((2 ^ 53 - 1) * 2 ^ 971)"

definition finite_float :: "rat \<Rightarrow> float64 option" where
  "finite_float x = (let r = rnd x in if \<bar>r\<bar> \<le> max_float then Some r else None)"

definition parse_unsigned :: "string \<Rightarrow> rat option" where
  "parse_unsigned s =
     (if has_prefix (to_lower s) ''0x'' then
        case scan_mantissa 16 0 0 False False (drop 2 s) of (v, k, dig, rest) \<Rightarrow>
          (case rest of c # r \<Rightarrow> if dig \<and> lower_char c = CHR ''p''
             then map_option (\<lambda>e. of_nat v * scale_pow 2 (e - 4 * int k)) (scan_exponent r) else None
           | [] \<Rightarrow> None)
      else case scan_mantissa 10 0 0 False False s of (v, k, dig, rest) \<Rightarrow>
        if \<not> dig then None else
        case rest of [] \<Rightarrow> Some (of_nat v / 10 ^ k)
        | c # r \<Rightarrow> if lower_char c = CHR ''e''
            then map_option (\<lambda>e. of_nat v * scale_pow 10 (e - int k)) (scan_exponent r) else None)"

definition parse_float :: "string \<Rightarrow> float64 option" where
  "parse_float s = (case split_sign s of (neg, u) \<Rightarrow>
     case parse_unsigned u of None \<Rightarrow> None | Some x \<Rightarrow> finite_float (if neg then - x else x))"

section \<open>Instants\<close>

text \<open>A \<open>time.Time\<close> compared by the clock is its nanoseconds since 1970; the zero time is year 1.\<close>

definition second_ns :: int where "second_ns = 1000000000"
definition zero_time :: int where "zero_time = - 62135596800 * second_ns"

section \<open>JSON bodies\<close>

datatype json = JNull | JStr string | JNum float64 | JInt int | JBool bool
  | JArr "json list" | JObj "(string \<times> json) list"

type_synonym response = "int \<times> (string \<times> json) list"

definition error_body :: "int \<Rightarrow> string \<Rightarrow> response" where
  "error_body code msg = (code, [(''error'', JStr msg)])"

section \<open>Reading back what was printed\<close>

lemma length_pad_digits [simp]: "length (pad_digits k n) = k"
  by (induction k n rule: pad_digits.induct) auto

definition decimal_char :: "char \<Rightarrow> bool" where
  "decimal_char c \<longleftrightarrow> 48 \<le> (of_char c :: nat) \<and> (of_char c :: nat) \<le> 57"

lemma digit_char [simp]: "n < 10 \<Longrightarrow> decimal_char (char_of (48 + n))"
  "n < 10 \<Longrightarrow> digit_value 10 (char_of (48 + n)) = Some n"
  by (simp_all add: decimal_char_def digit_value_def Let_def)

lemma decimal_char_values:
  "decimal_char c \<Longrightarrow> c \<noteq> CHR ''.'' \<and> c \<noteq> CHR ''-'' \<and> c \<noteq> CHR ''+'' \<and> digit_value 10 c = Some (of_char c - 48)"
  by (auto simp: decimal_char_def digit_value_def Let_def)

lemma nat_digits_decimal: "c \<in> set (nat_digits n) \<Longrightarrow> decimal_char c"
proof (induction n rule: nat_digits.induct)
  case (1 n)
  show ?case
  proof (cases "n < 10")
    case True with 1 show ?thesis by (subst (asm) nat_digits.simps) simp
  next
    case False
    with "1.prems" have "c \<in> set (nat_digits (n div 10)) \<or> c = char_of (48 + n mod 10)"
      by (subst (asm) nat_digits.simps) auto
    then show ?thesis
    proof
      assume "c = char_of (48 + n mod 10)"
      moreover have "n mod 10 < 10" by simp
      ultimately show ?thesis by (simp only: digit_char(1))
    qed (rule "1.IH"[OF False])
  qed
qed

lemma pad_digits_decimal: "c \<in> set (pad_digits k n) \<Longrightarrow> decimal_char c"
proof (induction k n rule: pad_digits.induct)
  case (2 k n)
  have "n mod 10 < 10" by simp
  with 2 show ?case by (auto simp del: digit_char intro: digit_char(1))
qed simp

text \<open>Scanning a run of digits reads its decimal value.\<close>

lemma scan_digits:
  assumes "\<forall>c \<in> set ds. decimal_char c"
  shows "scan_mantissa 10 v k dot dig (ds @ rest) =
    scan_mantissa 10 (the (digits_value v ds)) (if dot then k + length ds else k) dot (dig \<or> ds \<noteq> []) rest"
  using assms
proof (induction ds arbitrary: v k dig)
  case (Cons c ds)
  have c: "decimal_char c" using Cons.prems by simp
  then show ?case using Cons decimal_char_values[OF c] by (auto simp: Let_def decimal_char_def)
qed simp

lemma digits_value_pad: "digits_value v (pad_digits k n) = Some (v * 10 ^ k + n mod 10 ^ k)"
proof (induction k n arbitrary: v rule: pad_digits.induct)
  case (2 k n)
  have "n mod 10 < 10" by simp
  then have "digits_value v (pad_digits (Suc k) n) = Some ((v * 10 ^ k + n div 10 mod 10 ^ k) * 10 + n mod 10)"
    using 2 by (simp add: digits_value_append Let_def)
  moreover have "n mod (10 * 10 ^ k) = 10 * (n div 10 mod 10 ^ k) + n mod 10" by (rule mod_mult2_eq)
  ultimately show ?case by (simp add: algebra_simps)
qed simp

lemma digits_not_hex:
  assumes "\<forall>c \<in> set ds. decimal_char c"
  shows "\<not> has_prefix (to_lower (ds @ CHR ''.'' # r)) ''0x''"
proof
  assume h: "has_prefix (to_lower (ds @ CHR ''.'' # r)) ''0x''"
  show False
  proof (cases ds)
    case Nil with h show False by (simp add: has_prefix_def to_lower_def lower_char_def)
  next
    case (Cons a ds')
    show False
    proof (cases ds')
      case Nil with h Cons show False
        by (auto simp: has_prefix_def to_lower_def lower_char_def split: if_splits)
    next
      case (Cons b ds'')
      with \<open>ds = a # ds'\<close> assms have "decimal_char b" by simp
      moreover have "lower_char b = CHR ''x''"
        using h \<open>ds = a # ds'\<close> Cons by (auto simp: has_prefix_def to_lower_def split: if_splits)
      ultimately show False by (auto simp: decimal_char_def lower_char_def Let_def split: if_splits)
    qed
  qed
qed

lemma parse_fmt_fixed:
  assumes "0 \<le> x" "0 < k"
  shows "parse_float (fmt_fixed k x) = finite_float (of_int (rne (x * 10 ^ k)) / 10 ^ k)"
proof -
  define n where "n = nat (rne (x * 10 ^ k))"
  define ip where "ip = nat_digits (n div 10 ^ k)"
  define fp where "fp = pad_digits k (n mod 10 ^ k)"
  have r: "0 \<le> rne (x * 10 ^ k)" using rne_ge_of_int[of 0] assms(1) by simp
  have shape: "fmt_fixed k x = ip @ CHR ''.'' # fp"
    using assms by (simp add: fmt_fixed_def Let_def n_def ip_def fp_def)
  have dec: "\<forall>c \<in> set ip. decimal_char c" "\<forall>c \<in> set fp. decimal_char c"
    unfolding ip_def fp_def by (auto dest: nat_digits_decimal pad_digits_decimal)
  obtain c0 ip' where ip: "ip = c0 # ip'" unfolding ip_def by (meson nat_digits_nonempty neq_Nil_conv)
  have sign: "split_sign (ip @ CHR ''.'' # fp) = (False, ip @ CHR ''.'' # fp)"
    using decimal_char_values[of c0] dec(1) ip by (simp add: split_sign_def)
  have val: "digits_value 0 ip = Some (n div 10 ^ k)" unfolding ip_def by (rule digits_value_nat_digits)
  have scan: "scan_mantissa 10 0 0 False False (ip @ CHR ''.'' # fp) = (n, k, True, [])"
    using scan_digits[OF dec(1), where v = 0 and k = 0 and dot = False and dig = False and rest = "CHR ''.'' # fp"]
      scan_digits[OF dec(2), where v = "n div 10 ^ k" and k = 0 and dot = True and dig = True and rest = "[]"]
    unfolding fp_def by (simp add: val digits_value_pad ip_def digits_value_nat_digits div_mult_mod_eq)
  have "parse_unsigned (ip @ CHR ''.'' # fp) = Some (of_nat n / 10 ^ k)"
    using digits_not_hex[OF dec(1), where r = fp] by (simp add: parse_unsigned_def scan)
  moreover have "of_nat n = (of_int (rne (x * 10 ^ k)) :: rat)" using r by (simp add: n_def)
  ultimately show ?thesis by (simp add: parse_float_def shape sign)
qed

lemma rne_near: "\<bar>x - of_int n\<bar> < 1 / 2 \<Longrightarrow> rne x = n"
proof -
  assume near: "\<bar>x - of_int n\<bar> < 1 / 2"
  have "\<bar>of_int (rne x) - (of_int n :: rat)\<bar> < 1" using near rne_bounds[of x] by linarith
  then show ?thesis by linarith
qed

text \<open>An amount of whole hundredths survives \<open>%.2f\<close> and \<open>ParseFloat\<close>.\<close>

lemma money_text:
  assumes "0 \<le> n" "n \<le> 100000000000000"
  shows "parse_float (fmt_fixed 2 (rnd (of_int n / 100))) = Some (rnd (of_int n / 100))"
proof -
  let ?x = "rnd (of_int n / 100)"
  have n: "0 \<le> (of_int n :: rat)" "(of_int n :: rat) \<le> 100000000000000"
    using assms by simp (metis assms(2) of_int_le_iff of_int_numeral)
  have pos: "0 \<le> ?x" using n(1) by (simp add: rnd_nonneg)
  have close: "\<bar>?x - of_int n / 100\<bar> \<le> 1 / 16384" by (rule rnd_close) (use n in simp)
  note c = close[unfolded abs_le_iff]
  have "rne (?x * 100) = n" by (rule rne_near, unfold abs_less_iff) (use c in auto)
  moreover have "\<bar>?x\<bar> \<le> max_float"
  proof -
    have "?x \<le> 1000000000001" using c n by linarith
    also have "(1000000000001 :: rat) \<le> max_float" by (simp add: max_float_def)
    finally show ?thesis using pos by simp
  qed
  ultimately show ?thesis using pos by (simp add: parse_fmt_fixed finite_float_def Let_def)
qed

section \<open>Evaluating the printers\<close>

text \<open>The kernel computes with binary integers; natural numbers would be unfolded to successors.\<close>

definition int_digits :: "int \<Rightarrow> string" where "int_digits i = nat_digits (nat i)"
definition int_pad :: "nat \<Rightarrow> int \<Rightarrow> string" where "int_pad k i = pad_digits k (nat i)"

lemma char_of_nat_int: "0 \<le> i \<Longrightarrow> char_of (nat i) = (char_of i :: char)"
  by (simp add: char_of_def bit_simps flip: nat_mod_distrib)

lemma digit_int: "0 \<le> i \<Longrightarrow> char_of (48 + nat i mod 10) = (char_of (48 + i mod 10) :: char)"
  using char_of_nat_int[of "48 + i mod 10"] by (simp add: nat_add_distrib nat_mod_distrib)

lemma int_digits_code [code]:
  "int_digits i = (case i < 10 of True \<Rightarrow> [char_of (48 + max 0 i)]
     | False \<Rightarrow> int_digits (i div 10) @ [char_of (48 + i mod 10)])"
proof (cases "i < 10")
  case True
  have "char_of (48 + nat i) = (char_of (48 + max 0 i) :: char)"
    using char_of_nat_int[of "48 + max 0 i"] by (cases "0 \<le> i") (simp_all add: nat_add_distrib)
  with True show ?thesis unfolding int_digits_def by (subst nat_digits.simps) simp
next
  case False
  then have "\<not> nat i < 10" by linarith
  with False show ?thesis unfolding int_digits_def
    by (subst nat_digits.simps) (simp add: digit_int nat_div_distrib)
qed

lemma int_pad_code [code]:
  "int_pad 0 i = []"
  "int_pad (Suc k) i = int_pad k (max 0 i div 10) @ [char_of (48 + max 0 i mod 10)]"
  using digit_int[of "max 0 i"] by (auto simp: int_pad_def nat_div_distrib max_def)

lemma itoa_code [code]: "itoa i = (case i < 0 of True \<Rightarrow> ''-'' @ int_digits (- i) | False \<Rightarrow> int_digits i)"
  by (simp add: itoa_def int_digits_def split: bool.split)

lemma fmt_fixed_code [code]:
  "fmt_fixed k x = (let i = rne (\<bar>x\<bar> * 10 ^ k); p = 10 ^ k in
     (if x < 0 then ''-'' else []) @ int_digits (i div p) @
     (if k = 0 then [] else ''.'' @ int_pad k (i mod p)))"
proof -
  have "0 \<le> rne (\<bar>x\<bar> * 10 ^ k)" using rne_ge_of_int[of 0] by simp
  then show ?thesis
    by (simp add: fmt_fixed_def Let_def int_digits_def int_pad_def nat_div_distrib nat_mod_distrib nat_power_eq)
qed

end
