(* ===== verification/Settlement.thy ===== *)
theory Settlement
  imports Workspace GoLib
begin

text \<open>
  What a request costs: the scaling of \<open>internal/saas/billing/cost.go\<close>, the promotions of
  \<open>internal/config/config.go\<close> and \<open>internal/server/promo.go\<close>, and the glue of
  \<open>internal/server/saas_billing.go\<close> between the proxy and the wallet store. A server with
  SaaS disabled is \<open>None\<close>. The provider aliases, the price catalogue and the quantisation
  of a charge belong to the library cc-core and are fields of \<open>cc_core\<close>. \<open>time.Now\<close> is an
  argument in nanoseconds; the store is given its seconds.
\<close>

record cc_core =
  normalize_provider :: "string \<Rightarrow> string"
  quantize_usd :: "float64 \<Rightarrow> float64"

record pricing_promotion =
  pp_name :: string
  pp_provider :: string
  pp_multiplier :: float64
  pp_start :: int
  pp_end :: int

record saas_billing =
  sb_promos :: "pricing_promotion list"

section \<open>The price\<close>

definition charge_from_official :: "cc_core \<Rightarrow> float64 \<Rightarrow> float64 \<Rightarrow> float64" where
  "charge_from_official cc official multiplier0 =
     (let multiplier = (if multiplier0 \<le> 0 then 1 else multiplier0) in quantize_usd cc (fmul official multiplier))"

text \<open>The catalogue is the function from a provider, a model and the counts to the official cost.\<close>

definition charge :: "cc_core \<Rightarrow> (string \<Rightarrow> string \<Rightarrow> 'c \<Rightarrow> float64) option \<Rightarrow> string \<Rightarrow> string \<Rightarrow> 'c \<Rightarrow> float64 \<Rightarrow> float64" where
  "charge cc catalog provider model counts multiplier = (case catalog of None \<Rightarrow> 0
     | Some cost \<Rightarrow> charge_from_official cc (cost provider model counts) multiplier)"

definition covers :: "pricing_promotion \<Rightarrow> string \<Rightarrow> int \<Rightarrow> bool" where
  "covers p provider now =
     (if pp_provider p \<noteq> provider \<or> pp_multiplier p \<le> 0 then False
      else if pp_start p = zero_time \<or> pp_end p = zero_time \<or> \<not> pp_start p < pp_end p then False
      else \<not> now < pp_start p \<and> now < pp_end p)"

fun promo_loop :: "string \<Rightarrow> int \<Rightarrow> float64 \<Rightarrow> bool \<Rightarrow> pricing_promotion list \<Rightarrow> float64 \<times> bool" where
  "promo_loop provider now best found [] = (best, found)"
| "promo_loop provider now best found (p # ps) =
     (if pp_multiplier p \<le> 0 \<or> \<not> covers p provider now then promo_loop provider now best found ps
      else if \<not> found \<or> pp_multiplier p < best then promo_loop provider now (pp_multiplier p) True ps
      else promo_loop provider now best found ps)"

definition promo_for :: "cc_core \<Rightarrow> pricing_promotion list \<Rightarrow> string \<Rightarrow> int \<Rightarrow> float64 \<times> bool" where
  "promo_for cc promos provider now = promo_loop (normalize_provider cc provider) now 0 False promos"

definition promo_multiplier :: "cc_core \<Rightarrow> pricing_promotion list option \<Rightarrow> int \<Rightarrow> string \<Rightarrow> float64 \<times> bool" where
  "promo_multiplier cc cfg now provider = (case cfg of None \<Rightarrow> (0, False) | Some promos \<Rightarrow> promo_for cc promos provider now)"

definition display_multiplier :: "cc_core \<Rightarrow> pricing_promotion list option \<Rightarrow> int \<Rightarrow> string \<Rightarrow> float64 \<Rightarrow> float64" where
  "display_multiplier cc cfg now provider group_mult =
     (case promo_multiplier cc cfg now provider of (rate, hit) \<Rightarrow> if hit then rate else group_mult)"

text \<open>The multiplication sign of the note is U+00D7.\<close>

definition rate_note :: "string \<Rightarrow> string \<Rightarrow> float64 \<Rightarrow> string" where
  "rate_note provider model rate = provider @ ''/'' @ model @ '' '' @ [CHR 0xC3, CHR 0x97] @ '' '' @ fmt_fixed 4 rate"

definition effective_multiplier ::
    "cc_core \<Rightarrow> saas_billing \<Rightarrow> int \<Rightarrow> pricing_group \<Rightarrow> string \<Rightarrow> string \<Rightarrow> float64 \<Rightarrow> float64 \<times> string" where
  "effective_multiplier cc b now g provider model override_mult =
     (case promo_for cc (sb_promos b) provider now of (rate, hit) \<Rightarrow>
      if hit then (rate, rate_note provider model rate @ '' (promo)'')
      else if 0 < override_mult then (override_mult, rate_note provider model override_mult @ '' (upstream key)'')
      else (multiplier_for g provider, rate_note provider model (multiplier_for g provider)))"

section \<open>Operations\<close>

definition unix_seconds :: "int \<Rightarrow> int" where "unix_seconds now = now div second_ns"

definition group_rate :: "cc_core \<Rightarrow> saas_billing option \<Rightarrow> int \<Rightarrow> string \<Rightarrow> string \<Rightarrow> (float64 \<times> bool \<times> bool) dbm" where
  "group_rate cc sb now tok provider = (case sb of None \<Rightarrow> ret (0, False, False)
     | Some b \<Rightarrow> if snd (promo_for cc (sb_promos b) provider now) then ret (0, True, True)
       else bnd (attempt (get_wallet tok)) (\<lambda>r. case r of Inl _ \<Rightarrow> ret (0, False, False)
         | Inr w \<Rightarrow> bnd (attempt (get_group (w_group_id w))) (\<lambda>r. case r of Inl _ \<Rightarrow> ret (0, False, False)
             | Inr g \<Rightarrow> ret (multiplier_for g provider, False, True))))"

definition precheck_balance :: "sqlite \<Rightarrow> saas_billing option \<Rightarrow> int \<Rightarrow> string \<Rightarrow> float64 dbm" where
  "precheck_balance q sb now tok = (case sb of None \<Rightarrow> ret 1
     | Some _ \<Rightarrow> bnd (ensure_wallet (unix_seconds now) tok) (\<lambda>w.
         bnd (member_pool_avail q (unix_seconds now) tok) (\<lambda>avail.
         ret (fadd (w_balance_usd w) avail))))"

definition debit_settled :: "sqlite \<Rightarrow> int \<Rightarrow> string \<Rightarrow> float64 \<Rightarrow> float64 \<Rightarrow> string \<Rightarrow> string \<Rightarrow> (float64 \<times> float64) dbm" where
  "debit_settled q now tok rate cost ref note =
     (if cost \<le> 0 then ret (rate, 0)
      else bnd (attempt (charge_member_first q (unix_seconds now) tok cost ref note)) (\<lambda>r. case r of
             Inl _ \<Rightarrow> ret (rate, 0) | Inr _ \<Rightarrow> ret (rate, cost)))"

definition settle_charge :: "sqlite \<Rightarrow> cc_core \<Rightarrow> saas_billing option \<Rightarrow> int \<Rightarrow> string \<Rightarrow> string \<Rightarrow> string \<Rightarrow>
    float64 \<Rightarrow> float64 \<Rightarrow> string \<Rightarrow> (float64 \<times> float64) dbm" where
  "settle_charge q cc sb now tok provider model official override_mult ref = (case sb of None \<Rightarrow> ret (1, 0)
     | Some b \<Rightarrow> if tok = [] \<or> official \<le> 0 then ret (1, 0)
       else bnd (attempt (get_wallet tok)) (\<lambda>r. case r of Inl _ \<Rightarrow> ret (1, 0)
         | Inr w \<Rightarrow> bnd (attempt (get_group (w_group_id w))) (\<lambda>r. case r of Inl _ \<Rightarrow> ret (1, 0)
             | Inr g \<Rightarrow> case effective_multiplier cc b now g provider model override_mult of (rate, note) \<Rightarrow>
                 debit_settled q now tok rate (charge_from_official cc official rate) ref note)))"

section \<open>Which rate applies\<close>

definition live :: "pricing_promotion \<Rightarrow> string \<Rightarrow> int \<Rightarrow> bool" where
  "live p provider now \<longleftrightarrow> 0 < pp_multiplier p \<and> covers p provider now"

lemma promo_loop_spec:
  "promo_loop pr now best found ps = (m, hit) \<Longrightarrow>
   hit = (found \<or> (\<exists>p \<in> set ps. live p pr now)) \<and>
   (hit \<longrightarrow> (found \<and> m = best) \<or> (\<exists>p \<in> set ps. live p pr now \<and> m = pp_multiplier p)) \<and>
   (found \<longrightarrow> m \<le> best) \<and> (\<forall>p \<in> set ps. live p pr now \<longrightarrow> m \<le> pp_multiplier p)"
proof (induction pr now best found ps rule: promo_loop.induct)
  case (2 pr now best found p ps)
  show ?case
  proof (cases "live p pr now")
    case False
    then have "promo_loop pr now best found ps = (m, hit)" using 2(4) by (auto simp: live_def split: if_splits)
    with 2(1) False show ?thesis by (auto simp: live_def)
  next
    case True
    then have l: "\<not> (pp_multiplier p \<le> 0 \<or> \<not> covers p pr now)" by (auto simp: live_def)
    show ?thesis
    proof (cases "\<not> found \<or> pp_multiplier p < best")
      case c: True
      then have "promo_loop pr now (pp_multiplier p) True ps = (m, hit)" using 2(4) l by auto
      from 2(2)[OF l c this] True c show ?thesis by auto
    next
      case c: False
      then have "promo_loop pr now best found ps = (m, hit)" using 2(4) l by auto
      from 2(3)[OF l c this] True c show ?thesis by auto
    qed
  qed
qed auto

lemma promo_for_pos: "promo_for cc ps p now = (m, True) \<Longrightarrow> 0 < m"
  unfolding promo_for_def by (drule promo_loop_spec) (auto simp: live_def)

text \<open>Of the promotions open for a provider the cheapest is taken; with none open, none is.\<close>

theorem promotion_is_the_cheapest_open_one:
  "case promo_for cc ps p now of (m, hit) \<Rightarrow>
     hit = (\<exists>x \<in> set ps. live x (normalize_provider cc p) now) \<and>
     (hit \<longrightarrow> (\<exists>x \<in> set ps. live x (normalize_provider cc p) now \<and> m = pp_multiplier x) \<and>
        (\<forall>x \<in> set ps. live x (normalize_provider cc p) now \<longrightarrow> m \<le> pp_multiplier x))"
  using promo_loop_spec[of "normalize_provider cc p" now 0 False ps] by (auto simp: promo_for_def split: prod.split)

definition demo_cc :: cc_core where
  "demo_cc = \<lparr>normalize_provider = (\<lambda>p. if p = ''claude'' then ''anthropic'' else p), quantize_usd = (\<lambda>x. x)\<rparr>"

definition demo_promos :: "pricing_promotion list" where
  "demo_promos = [\<lparr>pp_name = ''a'', pp_provider = ''anthropic'', pp_multiplier = 1 / 2, pp_start = 10, pp_end = 20\<rparr>,
     \<lparr>pp_name = ''b'', pp_provider = ''anthropic'', pp_multiplier = 1 / 4, pp_start = 15, pp_end = 30\<rparr>]"

theorem promotion_is_the_cheapest_open_one_witness:
  "promo_for demo_cc demo_promos ''claude'' 16 = (1 / 4, True) \<and> 1 / 4 \<le> pp_multiplier (hd demo_promos)"
proof -
  have "promo_for demo_cc demo_promos ''claude'' 16 = (1 / 4, True)" by code_simp
  with promotion_is_the_cheapest_open_one[where cc = demo_cc and ps = demo_promos and p = "''claude''" and now = 16] show ?thesis
    by (auto simp: demo_promos_def)
qed

text \<open>The rate the wallet page shows a user for a provider is the rate a request of theirs is
  charged at when the serving credential carries no multiplier of its own; the router's
  \<open>GroupRate\<close> answers with the same rate.\<close>

theorem shown_rate_is_charged_rate:
  "fst (effective_multiplier cc b now g provider model 0) =
     display_multiplier cc (Some (sb_promos b)) now provider (multiplier_for g provider) \<and>
   fst (group_rate cc (Some b) now tok provider s) \<in>
     {Inr (0, False, False), Inr (0, True, True)} \<union>
     {Inr (display_multiplier cc (Some (sb_promos b)) now provider (multiplier_for g provider), False, True) | g.
        g \<in> set (pricing_groups (store s))}"
proof -
  have "fst (group_rate cc (Some b) now tok provider s) \<in>
     {Inr (0, False, False), Inr (0, True, True)} \<union>
     {Inr (multiplier_for g provider, False, True) | g. g \<in> set (pricing_groups (store s))}"
    if "\<not> snd (promo_for cc (sb_promos b) provider now)"
    using that by (auto simp: group_rate_def bnd_def attempt_def ret_def get_wallet_def get_group_def query_row_def
        stmt_def group_by_id_def dest!: find_Some_mem split: sum.split prod.split option.splits if_splits)
  moreover have "fst (group_rate cc (Some b) now tok provider s) = Inr (0, True, True)"
    if "snd (promo_for cc (sb_promos b) provider now)"
    using that by (simp add: group_rate_def ret_def)
  ultimately show ?thesis
    by (cases "promo_for cc (sb_promos b) provider now")
      (auto simp: effective_multiplier_def display_multiplier_def promo_multiplier_def)
qed

section \<open>What a settlement moves\<close>

text \<open>Nothing of what anybody owns has moved and no ledger row was written.\<close>

definition unmoved :: "db \<Rightarrow> db \<Rightarrow> bool" where
  "unmoved d d' \<longleftrightarrow> wallet_funds d' = wallet_funds d \<and> pool_balance d' = pool_balance d \<and>
     wallet_txs d' = wallet_txs d \<and> workspace_txs d' = workspace_txs d"

text \<open>The pool of the token's workspace paid \<open>pool\<close> and its wallet \<open>personal\<close>, and nobody else anything.\<close>

definition moved :: "string \<Rightarrow> float64 \<Rightarrow> float64 \<Rightarrow> db \<Rightarrow> db \<Rightarrow> bool" where
  "moved tok pool personal d d' \<longleftrightarrow> 0 \<le> pool \<and>
     (\<forall>k. wallet_funds d' k = (if 0 < personal \<and> k = tok then fsub (wallet_funds d k) personal else wallet_funds d k)) \<and>
     (if pool = 0 then pool_balance d' = pool_balance d
      else \<exists>m b. member_row d tok = Some m \<and> pool_balance d (m_workspace_id m) = Some b \<and> pool \<le> b \<and>
        pool_balance d' = (pool_balance d)(m_workspace_id m \<mapsto> fsub b pool))"

lemma charge_moved:
  assumes "accounts_ok (store s)" "tok \<noteq> []" "0 < cost"
    and "charge_member_first q now tok cost ref nt s = (Inr x, s')"
  shows "\<exists>pool. moved tok pool (fsub cost pool) (store s) (store s')"
proof -
  obtain pool personal where x: "x = (pool, personal)" by (cases x)
  show ?thesis using charge_splits[OF assms(1,2,3) assms(4)[unfolded x]]
    by (intro exI[of _ pool]) (simp add: moved_def, metis)
qed

lemma read_store:
  "get_wallet tok s = (r, s') \<Longrightarrow> store s' = store s" "get_group g s = (r', s') \<Longrightarrow> store s' = store s"
  by (auto simp: get_wallet_def get_group_def dest: read_onlyD[OF read_only_query_row])

lemma debit_settled_cases:
  assumes ok: "accounts_ok (store s)" and tok: "tok \<noteq> []"
    and run: "debit_settled q now tok rate cost ref nt s = (r, s')"
  obtains (Free) "r = Inr (rate, 0)" "unmoved (store s) (store s')"
  | (Billed) pool where "r = Inr (rate, cost)" "0 < cost" "moved tok pool (fsub cost pool) (store s) (store s')"
proof (cases "cost \<le> 0")
  case True
  with run show thesis by (intro Free) (auto simp: debit_settled_def ret_iff unmoved_def)
next
  case False
  obtain c s1 where c: "charge_member_first q (unix_seconds now) tok cost ref nt s = (c, s1)" by fastforce
  with False run have s': "s' = s1" and r: "r = Inr (rate, case c of Inl _ \<Rightarrow> 0 | Inr _ \<Rightarrow> cost)"
    by (auto simp: debit_settled_def bnd_def attempt_def ret_def split: sum.splits)
  show thesis
  proof (cases c)
    case (Inl e)
    with failed_charge[OF ok] c r s' show thesis by (intro Free) (auto simp: unmoved_def)
  next
    case (Inr x)
    with charge_moved[OF ok tok] c False obtain pool where "moved tok pool (fsub cost pool) (store s) (store s')"
      unfolding s' by (metis not_le)
    with False r Inr show thesis by (intro Billed) auto
  qed
qed

lemma settle_charge_cases:
  assumes ok: "accounts_ok (store s)" and run: "settle_charge q cc sb now tok provider model official ov ref s = (r, s')"
  obtains (Free) rate where "r = Inr (rate, 0)" "unmoved (store s) (store s')"
  | (Billed) b w g rate pool where "sb = Some b" "wallet_row (store s) tok = Some w"
      "group_by_id (store s) (w_group_id w) = Some g" "rate = fst (effective_multiplier cc b now g provider model ov)"
      "r = Inr (rate, charge_from_official cc official rate)" "0 < charge_from_official cc official rate"
      "moved tok pool (fsub (charge_from_official cc official rate) pool) (store s) (store s')"
proof -
  have un: "unmoved d d" for d by (simp add: unmoved_def)
  show thesis
  proof (cases "sb = None \<or> tok = [] \<or> official \<le> 0")
    case True
    with run show thesis by (intro Free) (auto simp: settle_charge_def ret_iff un split: option.splits)
  next
    case False
    then obtain b where b: "sb = Some b" and tok: "tok \<noteq> []" and off: "\<not> official \<le> 0" by auto
    obtain wr s1 where w: "get_wallet tok s = (wr, s1)" by fastforce
    note s1 = read_store(1)[OF w]
    show thesis
    proof (cases wr)
      case (Inl e)
      with run w s1 b tok off show thesis
        by (intro Free) (auto simp: settle_charge_def bnd_def attempt_def ret_def un)
    next
      case (Inr ww)
      obtain gr s2 where g: "get_group (w_group_id ww) s1 = (gr, s2)" by fastforce
      note s2 = read_store(2)[OF g]
      show thesis
      proof (cases gr)
        case (Inl e)
        with run w s1 b tok off Inr g s2 show thesis
          by (intro Free) (auto simp: settle_charge_def bnd_def attempt_def ret_def un)
      next
        case gg: (Inr g')
        obtain rate nt where e: "effective_multiplier cc b now g' provider model ov = (rate, nt)" by fastforce
        have d: "debit_settled q now tok rate (charge_from_official cc official rate) ref nt s2 = (r, s')"
          using run w b tok off Inr g gg e by (auto simp: settle_charge_def bnd_def attempt_def)
        have ok2: "accounts_ok (store s2)" using ok s1 s2 by simp
        have rows: "wallet_row (store s) tok = Some ww" "group_by_id (store s) (w_group_id ww) = Some g'"
          using w g Inr gg s1 by (auto simp: get_wallet_def get_group_def query_row_Inr)
        show thesis
        proof (rule debit_settled_cases[OF ok2 tok d])
          assume "r = Inr (rate, 0)" "unmoved (store s2) (store s')"
          then show thesis using s1 s2 that(1) by simp
        next
          fix pool assume "r = Inr (rate, charge_from_official cc official rate)" "0 < charge_from_official cc official rate"
            "moved tok pool (fsub (charge_from_official cc official rate) pool) (store s2) (store s')"
          then show thesis using that(2)[OF b rows] e s1 s2 by simp
        qed
      qed
    qed
  qed
qed

text \<open>C7. Settling a request never fails: it answers a bill of zero and has moved no money, or it
  answers the official cost at the rate in force for the token's group, and exactly that has been
  paid by the token's pool and wallet.\<close>

theorem settlement_bills_what_it_moves:
  assumes "accounts_ok (store s)" and "settle_charge q cc sb now tok provider model official ov ref s = (r, s')"
  shows "\<exists>rate billed. r = Inr (rate, billed) \<and> 0 \<le> billed \<and>
    (if billed = 0 then unmoved (store s) (store s')
     else (\<exists>b w g pool. sb = Some b \<and> wallet_row (store s) tok = Some w \<and>
       group_by_id (store s) (w_group_id w) = Some g \<and>
       rate = fst (effective_multiplier cc b now g provider model ov) \<and>
       billed = charge_from_official cc official rate \<and> moved tok pool (fsub billed pool) (store s) (store s')))"
  using assms
proof (cases rule: settle_charge_cases)
  case (Billed b w g rate pool)
  then show ?thesis by (intro exI[of _ rate] exI[of _ "charge_from_official cc official rate"]) auto
qed auto

definition demo_settle :: "(db_error + float64 \<times> float64) \<times> session" where
  "demo_settle = settle_charge demo_sqlite demo_cc (Some \<lparr>sb_promos = []\<rparr>) (2000 * second_ns) ''alice'' ''anthropic''
     ''sonnet'' 6 1 ''r'' (fresh_session demo_db)"

theorem settlement_bills_what_it_moves_witness:
  "fst demo_settle = Inr (1, 6) \<and>
   (\<exists>pool. moved ''alice'' pool (fsub 6 pool) demo_db (store (snd demo_settle)))"
proof -
  have f: "fst demo_settle = Inr (1, 6)" unfolding demo_settle_def by code_simp
  then have run: "settle_charge demo_sqlite demo_cc (Some \<lparr>sb_promos = []\<rparr>) (2000 * second_ns) ''alice'' ''anthropic''
     ''sonnet'' 6 1 ''r'' (fresh_session demo_db) = (Inr (1, 6), snd demo_settle)"
    by (metis demo_settle_def prod.collapse)
  have ok: "accounts_ok (store (fresh_session demo_db))" by (simp add: demo_fresh demo_accounts_ok)
  show ?thesis using f settlement_bills_what_it_moves[OF ok run] unfolding demo_fresh(1)
    by (metis Inr_inject prod.inject zero_neq_numeral)
qed

end
