(* ===== verification/Md5.thy ===== *)
theory Md5
  imports GoLib "HOL-Library.Word"
begin

unbundle bit_operations_syntax

text \<open>
  \<open>crypto/md5\<close>, the digest under the Z-Pay signature, on strings of bytes: padding to whole
  blocks of 64 bytes, the 64 steps of a block on four 32-bit words, and the digest as its 16
  bytes in little-endian order.
\<close>

type_synonym word32 = "32 word"

definition md5_sines :: "word32 list" where
  "md5_sines = [0xd76aa478, 0xe8c7b756, 0x242070db, 0xc1bdceee, 0xf57c0faf, 0x4787c62a, 0xa8304613, 0xfd469501,
     0x698098d8, 0x8b44f7af, 0xffff5bb1, 0x895cd7be, 0x6b901122, 0xfd987193, 0xa679438e, 0x49b40821,
     0xf61e2562, 0xc040b340, 0x265e5a51, 0xe9b6c7aa, 0xd62f105d, 0x2441453, 0xd8a1e681, 0xe7d3fbc8,
     0x21e1cde6, 0xc33707d6, 0xf4d50d87, 0x455a14ed, 0xa9e3e905, 0xfcefa3f8, 0x676f02d9, 0x8d2a4c8a,
     0xfffa3942, 0x8771f681, 0x6d9d6122, 0xfde5380c, 0xa4beea44, 0x4bdecfa9, 0xf6bb4b60, 0xbebfbc70,
     0x289b7ec6, 0xeaa127fa, 0xd4ef3085, 0x4881d05, 0xd9d4d039, 0xe6db99e5, 0x1fa27cf8, 0xc4ac5665,
     0xf4292244, 0x432aff97, 0xab9423a7, 0xfc93a039, 0x655b59c3, 0x8f0ccc92, 0xffeff47d, 0x85845dd1,
     0x6fa87e4f, 0xfe2ce6e0, 0xa3014314, 0x4e0811a1, 0xf7537e82, 0xbd3af235, 0x2ad7d2bb, 0xeb86d391]"

definition md5_shifts :: "nat list" where
  "md5_shifts = concat (replicate 4 [7, 12, 17, 22]) @ concat (replicate 4 [5, 9, 14, 20]) @
     concat (replicate 4 [4, 11, 16, 23]) @ concat (replicate 4 [6, 10, 15, 21])"

definition rotl32 :: "nat \<Rightarrow> word32 \<Rightarrow> word32" where
  "rotl32 n w = (push_bit n w OR drop_bit (32 - n) w)"

type_synonym md5_state = "word32 \<times> word32 \<times> word32 \<times> word32"

text \<open>One step: its number, its constant, its shift and the message word it reads.\<close>

definition md5_mix :: "nat \<Rightarrow> md5_state \<Rightarrow> word32 \<times> nat" where
  "md5_mix i st = (case st of (a, b, c, d) \<Rightarrow>
     if i < 16 then ((b AND c) OR (NOT b AND d), i)
     else if i < 32 then ((d AND b) OR (NOT d AND c), (5 * i + 1) mod 16)
     else if i < 48 then (xor (xor b c) d, (3 * i + 5) mod 16)
     else (xor c (b OR NOT d), (7 * i) mod 16))"

definition md5_step :: "word32 list \<Rightarrow> nat \<times> word32 \<times> nat \<Rightarrow> md5_state \<Rightarrow> md5_state" where
  "md5_step blk x st = (case x of (i, k, r) \<Rightarrow> case st of (a, b, c, d) \<Rightarrow>
     case md5_mix i st of (f, g) \<Rightarrow> (d, b + rotl32 r (f + a + k + blk ! g), b, c))"

definition md5_rounds :: "(nat \<times> word32 \<times> nat) list" where
  "md5_rounds = zip [0..<64] (zip md5_sines md5_shifts)"

definition md5_block :: "md5_state \<Rightarrow> word32 list \<Rightarrow> md5_state" where
  "md5_block st blk = (case st of (a, b, c, d) \<Rightarrow> case fold (md5_step blk) md5_rounds st of
     (a', b', c', d') \<Rightarrow> (a + a', b + b', c + c', d + d'))"

type_synonym byte = "8 word"

fun le_words :: "byte list \<Rightarrow> word32 list" where
  "le_words (a # b # c # d # r) = (ucast a OR push_bit 8 (ucast b) OR push_bit 16 (ucast c) OR push_bit 24 (ucast d)) # le_words r"
| "le_words _ = []"

definition le_bytes :: "nat \<Rightarrow> 'a::len word \<Rightarrow> byte list" where
  "le_bytes k w = map (\<lambda>i. ucast (drop_bit (8 * i) w)) [0..<k]"

definition md5_pad :: "byte list \<Rightarrow> byte list" where
  "md5_pad bs = (let r = length bs mod 64 in
     bs @ [128] @ replicate (if r < 56 then 55 - r else 119 - r) 0 @ le_bytes 8 (word_of_nat (8 * length bs) :: 64 word))"

fun md5_blocks :: "nat \<Rightarrow> md5_state \<Rightarrow> word32 list \<Rightarrow> md5_state" where
  "md5_blocks 0 st ws = st"
| "md5_blocks (Suc n) st ws = md5_blocks n (md5_block st (take 16 ws)) (drop 16 ws)"

definition md5_sum :: "string \<Rightarrow> byte list" where
  "md5_sum s = (let bs = md5_pad (map of_char s) in
     case md5_blocks (length bs div 64) (0x67452301, 0xefcdab89, 0x98badcfe, 0x10325476) (le_words bs) of
       (a, b, c, d) \<Rightarrow> concat (map (le_bytes 4) [a, b, c, d]))"

lemma length_le_bytes [simp]: "length (le_bytes k w) = k"
  by (simp add: le_bytes_def)

lemma md5_sum_length [simp]: "length (md5_sum s) = 16"
  by (simp add: md5_sum_def Let_def split: prod.split)

text \<open>A padded message is whole blocks.\<close>

lemma md5_pad_blocks: "length (md5_pad bs) mod 64 = 0"
proof -
  define q r where "q = length bs div 64" and "r = length bs mod 64"
  have n: "length bs = 64 * q + r" and r: "r < 64" by (simp_all add: q_def r_def)
  have "length (md5_pad bs) = 64 * (q + (if r < 56 then 1 else 2))"
    using n r by (simp add: md5_pad_def flip: r_def)
  then show ?thesis by simp
qed

end
