(* ===== verification/ZPay.thy ===== *)
theory ZPay
  imports Md5
begin

text \<open>
  The Z-Pay gateway (\<open>internal/saas/billing/zpay.go\<close>): the signature over the sorted
  parameters, the payment request with its bounded retry, the check of a notification and
  the order query. A Go \<open>map\<close> is the list of its entries in the order the iteration visits
  them, which Go leaves open. The network is what it answers to each attempt, and
  \<open>json.Unmarshal\<close> the fields it found.
\<close>

type_synonym params = "(string \<times> string) list"

text \<open>\<open>params[k]\<close>: the empty string for a key that is not there.\<close>

definition lookup :: "params \<Rightarrow> string \<Rightarrow> string" where
  "lookup ps k = (case map_of ps k of None \<Rightarrow> [] | Some v \<Rightarrow> v)"

section \<open>The signature\<close>

definition signed_key :: "string \<times> string \<Rightarrow> bool" where
  "signed_key kv = (case kv of (k, v) \<Rightarrow> \<not> (k = ''sign'' \<or> k = ''sign_type'' \<or> v = []))"

definition signed_keys :: "params \<Rightarrow> string list" where
  "signed_keys ps = order_by text_less (map fst (filter signed_key ps))"

fun join_params :: "params \<Rightarrow> string list \<Rightarrow> string" where
  "join_params ps [] = []"
| "join_params ps [k] = k @ ''='' @ lookup ps k"
| "join_params ps (k # ks) = k @ ''='' @ lookup ps k @ ''&'' @ join_params ps ks"

definition sign_zpay :: "params \<Rightarrow> string \<Rightarrow> string" where
  "sign_zpay ps merchant_key = hex_encode (map unat (md5_sum (join_params ps (signed_keys ps) @ merchant_key)))"

section \<open>The gateway\<close>

record zpay_gateway =
  z_base_url :: string
  z_pid :: string
  z_key :: string
  z_notify_url :: string
  z_return_url :: string

definition new_zpay_gateway :: "zpay_gateway \<Rightarrow> string + zpay_gateway" where
  "new_zpay_gateway p =
     (if trim_space (z_pid p) = [] then Inl ''zpay: pid is required''
      else if trim_space (z_key p) = [] then Inl ''zpay: key is required''
      else let base = trim_right_byte CHR ''/'' (trim_space (z_base_url p)) in
        Inr \<lparr>z_base_url = (if base = [] then ''https://zpayz.cn'' else base), z_pid = trim_space (z_pid p),
             z_key = trim_space (z_key p), z_notify_url = trim_space (z_notify_url p),
             z_return_url = trim_space (z_return_url p)\<rparr>)"

record pay_params =
  p_out_trade_no :: string
  p_subject :: string
  p_total_cny :: float64
  p_method :: string
  p_client_ip :: string

record pay_result =
  pr_qr_code :: string
  pr_pay_url :: string
  pr_img :: string

record notification =
  n_out_trade_no :: string
  n_trade_no :: string
  n_trade_status :: string
  n_total_amount :: string
  n_app_id :: string

text \<open>\<open>url.Values.Encode\<close> of a form with one value per key.\<close>

definition unreserved :: "char \<Rightarrow> bool" where
  "unreserved c = (let n = (of_char c :: nat) in (48 \<le> n \<and> n \<le> 57) \<or> (65 \<le> n \<and> n \<le> 90) \<or> (97 \<le> n \<and> n \<le> 122) \<or>
     c = CHR ''-'' \<or> c = CHR ''_'' \<or> c = CHR ''.'' \<or> c = CHR ''~'')"

definition query_escape :: "string \<Rightarrow> string" where
  "query_escape s = concat (map (\<lambda>c. if unreserved c then [c] else if c = CHR '' '' then ''+''
     else CHR ''%'' # map upper_char (hex_encode [of_char c])) s)"

fun join_with :: "string \<Rightarrow> string list \<Rightarrow> string" where
  "join_with sep [] = []"
| "join_with sep [x] = x"
| "join_with sep (x # xs) = x @ sep @ join_with sep xs"

definition encode_form :: "params \<Rightarrow> string" where
  "encode_form ps = join_with ''&'' (map (\<lambda>k. query_escape k @ ''='' @ query_escape (lookup ps k))
     (order_by text_less (map fst ps)))"

text \<open>What one POST to \<open>mapi.php\<close> can come to: no request can be built from the URL, the
  transport or the body fails, with or without the caller's context being over, or a body.\<close>

datatype post_outcome = Bad_request string | Transport_failed string bool | Read_failed string bool | Body string

definition max_attempts :: nat where "max_attempts = 3"

function post_mapi :: "(nat \<Rightarrow> post_outcome) \<Rightarrow> nat \<Rightarrow> string \<Rightarrow> (string + string) \<times> nat" where
  "post_mapi net attempt last_err =
     (if max_attempts < attempt then (Inl last_err, attempt - 1)
      else case net attempt of
        Bad_request e \<Rightarrow> (Inl e, attempt)
      | Transport_failed e over \<Rightarrow> if over then (Inl e, attempt)
          else if attempt < max_attempts then post_mapi net (Suc attempt) e else (Inl e, attempt)
      | Read_failed e over \<Rightarrow> if over then (Inl e, attempt)
          else if attempt < max_attempts then post_mapi net (Suc attempt) e else (Inl e, attempt)
      | Body b \<Rightarrow> (Inr b, attempt))"
  by pat_completeness auto
termination by (relation "measure (\<lambda>(_, n, _). Suc max_attempts - n)") auto

declare post_mapi.simps [simp del]

definition post_mapi_with_retry :: "(nat \<Rightarrow> post_outcome) \<Rightarrow> (string + string) \<times> nat" where
  "post_mapi_with_retry net = post_mapi net 1 []"

record mapi_response =
  mr_code :: string
  mr_msg :: string
  mr_payurl :: string
  mr_payurl2 :: string
  mr_qrcode :: string
  mr_img :: string

text \<open>\<open>strings.Trim(s, "\"")\<close>, and the literal 1 or \<open>"1"\<close>.\<close>

definition raw_text :: "string \<Rightarrow> string" where
  "raw_text raw = trim_byte (CHR 0x22) (trim_space raw)"

definition raw_is_one :: "string \<Rightarrow> bool" where
  "raw_is_one raw = (raw_text raw = ''1'')"

text \<open>\<open>%v\<close> of a \<open>json.RawMessage\<close>, which is a slice of bytes with no \<open>String\<close> method: the bytes as numbers.\<close>

definition fmt_bytes :: "string \<Rightarrow> string" where
  "fmt_bytes raw = ''['' @ join_with '' '' (map (\<lambda>c. nat_digits (of_char c)) raw) @ '']''"

definition payment_params :: "zpay_gateway \<Rightarrow> pay_params \<Rightarrow> string \<Rightarrow> params" where
  "payment_params g p pay_method =
     [(''pid'', z_pid g), (''type'', pay_method), (''out_trade_no'', p_out_trade_no p), (''notify_url'', z_notify_url g),
      (''name'', p_subject p), (''money'', fmt_fixed 2 (p_total_cny p)),
      (''clientip'', let ip = trim_space (p_client_ip p) in if ip = [] then ''127.0.0.1'' else ip)] @
     (if z_return_url g \<noteq> [] then [(''return_url'', z_return_url g)] else [])"

definition signed_payment :: "zpay_gateway \<Rightarrow> pay_params \<Rightarrow> string \<Rightarrow> params" where
  "signed_payment g p pay_method = (let ps = payment_params g p pay_method in
     ps @ [(''sign'', sign_zpay ps (z_key g)), (''sign_type'', ''MD5'')])"

definition pay_surface :: "mapi_response \<Rightarrow> string + pay_result" where
  "pay_surface r =
     (if \<not> raw_is_one (mr_code r) then Inl (''zpay: '' @ mr_msg r @ '' (code='' @ fmt_bytes (mr_code r) @ '')'')
      else let out = \<lparr>pr_qr_code = mr_qrcode r,
             pr_pay_url = (if mr_payurl r = [] \<and> mr_payurl2 r \<noteq> [] then mr_payurl2 r else mr_payurl r), pr_img = mr_img r\<rparr> in
        if pr_qr_code out = [] \<and> pr_pay_url out = [] \<and> pr_img out = []
        then Inl ''zpay: empty payment surface in response'' else Inr out)"

text \<open>\<open>net\<close> maps the encoded form and the attempt to what the network does.\<close>

definition zpay_create_payment :: "(string \<Rightarrow> mapi_response option) \<Rightarrow> (string \<Rightarrow> nat \<Rightarrow> post_outcome) \<Rightarrow>
    zpay_gateway \<Rightarrow> pay_params \<Rightarrow> string + pay_result" where
  "zpay_create_payment unmarshal net g p =
     (let m = to_lower (trim_space (p_method p)); pay_method = (if m = [] then ''alipay'' else m) in
      if pay_method \<noteq> ''alipay'' \<and> pay_method \<noteq> ''wxpay'' then Inl (''zpay: unsupported method '' @ pay_method)
      else case fst (post_mapi_with_retry (net (encode_form (signed_payment g p pay_method)))) of
        Inl e \<Rightarrow> Inl e
      | Inr body \<Rightarrow> (case unmarshal body of None \<Rightarrow> Inl ''zpay: bad response'' | Some r \<Rightarrow> pay_surface r))"

section \<open>Notifications and queries\<close>

definition flatten :: "(string \<times> string list) list \<Rightarrow> params" where
  "flatten form = concat (map (\<lambda>(k, vs). case vs of [] \<Rightarrow> [] | v # _ \<Rightarrow> [(k, v)]) form)"

definition zpay_verify_notify :: "zpay_gateway \<Rightarrow> (string \<times> string list) list \<Rightarrow> string + notification" where
  "zpay_verify_notify g form =
     (let flat = flatten form; signed = sign_zpay flat (z_key g); got = to_lower (trim_space (lookup flat ''sign'')) in
      if got = [] then Inl ''zpay: missing sign''
      else if got \<noteq> signed then Inl ''zpay: signature mismatch''
      else Inr \<lparr>n_out_trade_no = lookup flat ''out_trade_no'', n_trade_no = lookup flat ''trade_no'',
        n_trade_status = lookup flat ''trade_status'', n_total_amount = lookup flat ''money'', n_app_id = lookup flat ''pid''\<rparr>)"

text \<open>\<open>pid\<close> and \<open>status\<close> are \<open>json.RawMessage\<close>, the bytes of the field.\<close>

record query_response =
  qr_code :: string
  qr_msg :: string
  qr_trade_no :: string
  qr_out_trade_no :: string
  qr_pid :: string
  qr_money :: string
  qr_status :: string

definition status_int :: "query_response \<Rightarrow> int" where
  "status_int r = (let s = raw_text (qr_status r) in if s = ''1'' then 1 else if s = ''0'' then 0 else - 1)"

definition zpay_query_trade :: "(string \<Rightarrow> query_response option) \<Rightarrow> string + string \<Rightarrow> string + notification" where
  "zpay_query_trade unmarshal fetched = (case fetched of Inl e \<Rightarrow> Inl e
     | Inr body \<Rightarrow> (case unmarshal body of None \<Rightarrow> Inl ''zpay query: bad response''
       | Some r \<Rightarrow> if \<not> raw_is_one (qr_code r) then Inl (''zpay query: '' @ qr_msg r @ '' (code='' @ fmt_bytes (qr_code r) @ '')'')
           else Inr \<lparr>n_out_trade_no = qr_out_trade_no r, n_trade_no = qr_trade_no r,
             n_trade_status = (if status_int r = 1 then ''TRADE_SUCCESS'' else if status_int r = 0 then ''WAIT_BUYER_PAY''
               else ''UNKNOWN('' @ fmt_bytes (qr_status r) @ '')''),
             n_total_amount = qr_money r, n_app_id = fmt_bytes (qr_pid r)\<rparr>))"

section \<open>The order of the keys\<close>

lemma text_less_irrefl [simp]: "\<not> text_less s s"
  by (induction s) auto

lemma text_less_trans: "text_less a b \<Longrightarrow> text_less b c \<Longrightarrow> text_less a c"
proof (induction a b arbitrary: c rule: text_less.induct)
  case (2 y t)
  then show ?case by (cases c) auto
next
  case (3 x s y t)
  then show ?case by (cases c) auto
qed simp

lemma text_less_total: "a \<noteq> b \<Longrightarrow> text_less a b \<or> text_less b a"
proof (induction a b rule: text_less.induct)
  case (1 s)
  then show ?case by (cases s) auto
next
  case (3 x s y t)
  then show ?case by (metis linorder_neqE_nat of_char_eq_iff text_less.simps(3))
qed auto

lemma sorted_order_insert:
  "sorted_wrt text_less ys \<Longrightarrow> x \<notin> set ys \<Longrightarrow> sorted_wrt text_less (order_insert text_less x ys)"
proof (induction ys)
  case (Cons y ys)
  show ?case
  proof (cases "text_less y x")
    case False
    with Cons.prems text_less_total[of x y] have xy: "text_less x y" by auto
    then have "\<forall>z \<in> set ys. text_less x z" using Cons.prems by (auto intro: text_less_trans)
    with False xy Cons.prems show ?thesis by simp
  qed (use Cons in auto)
qed simp

lemma sorted_order_by: "distinct xs \<Longrightarrow> sorted_wrt text_less (order_by text_less xs)"
proof (induction xs)
  case (Cons x xs)
  have "order_by text_less (x # xs) = order_insert text_less x (order_by text_less xs)" by (simp add: order_by_def)
  with Cons show ?case by (auto intro: sorted_order_insert)
qed (simp add: order_by_def)

lemma sorted_text_unique:
  "sorted_wrt text_less xs \<Longrightarrow> sorted_wrt text_less ys \<Longrightarrow> set xs = set ys \<Longrightarrow> xs = ys"
proof (induction xs arbitrary: ys)
  case (Cons x xs)
  then obtain y ys' where ys: "ys = y # ys'" by (cases ys) auto
  have xy: "x = y"
  proof (rule ccontr)
    assume ne: "x \<noteq> y"
    then have "x \<in> set ys'" "y \<in> set xs" using Cons.prems(3) ys by auto
    then have "text_less y x" "text_less x y" using Cons.prems(1,2) ys by auto
    then show False using text_less_trans text_less_irrefl by blast
  qed
  have "x \<notin> set xs" "x \<notin> set ys'" using Cons.prems(1,2) ys xy by auto
  then have "set xs = set ys'" using Cons.prems(3) ys xy by auto
  with Cons ys xy show ?case by auto
qed simp

lemma order_by_text_cong: "distinct xs \<Longrightarrow> distinct ys \<Longrightarrow> set xs = set ys \<Longrightarrow> order_by text_less xs = order_by text_less ys"
  by (rule sorted_text_unique) (auto intro: sorted_order_by)

section \<open>What the signature depends on\<close>

lemma join_params_cong: "(\<And>k. k \<in> set ks \<Longrightarrow> lookup ps k = lookup qs k) \<Longrightarrow> join_params ps ks = join_params qs ks"
  by (induction ps ks rule: join_params.induct) auto

lemma lookup_mem: "distinct (map fst ps) \<Longrightarrow> (k, v) \<in> set ps \<Longrightarrow> lookup ps k = v"
  by (simp add: lookup_def)

lemma distinct_signed: "distinct (map fst ps) \<Longrightarrow> distinct (map fst (filter signed_key ps))"
  by (induction ps) auto

lemma sign_cong:
  assumes "distinct (map fst ps)" "distinct (map fst qs)" "set (filter signed_key ps) = set (filter signed_key qs)"
  shows "sign_zpay ps key = sign_zpay qs key"
proof -
  have keys: "signed_keys ps = signed_keys qs" unfolding signed_keys_def
    by (rule order_by_text_cong) (use assms distinct_signed in \<open>simp_all\<close>)
  have "lookup ps k = lookup qs k" if "k \<in> set (signed_keys ps)" for k
  proof -
    from that obtain v where "(k, v) \<in> set (filter signed_key ps)" by (auto simp: signed_keys_def)
    moreover from this have "(k, v) \<in> set (filter signed_key qs)" using assms(3) by blast
    ultimately show ?thesis using assms(1,2) by (simp add: lookup_mem)
  qed
  then show ?thesis unfolding sign_zpay_def keys[symmetric] by (metis join_params_cong)
qed

section \<open>Properties\<close>

lemma hex_digit_lower: "n < 16 \<Longrightarrow> lower_char (hex_digit n) = hex_digit n \<and> 33 < (of_char (hex_digit n) :: nat) \<and> (of_char (hex_digit n) :: nat) < 127"
  by (simp add: hex_digit_def lower_char_def Let_def)

lemma sign_digit: "c \<in> set (sign_zpay ps key) \<Longrightarrow> lower_char c = c \<and> 33 < (of_char c :: nat) \<and> (of_char c :: nat) < 127"
  by (auto simp: sign_zpay_def hex_encode_def hex_digit_lower)

lemma sign_nonempty: "sign_zpay ps key \<noteq> []"
proof -
  have "md5_sum x \<noteq> []" for x using md5_sum_length[of x] by (metis list.size(3) zero_neq_numeral)
  then show ?thesis by (auto simp: sign_zpay_def hex_encode_def)
qed

lemma space_runes_head: "p \<in> set space_runes \<Longrightarrow> p \<noteq> [] \<and> \<not> (33 < (of_char (hd p) :: nat) \<and> (of_char (hd p) :: nat) < 127)"
  by (auto simp: space_runes_def)

lemma space_runes_last: "p \<in> set space_runes \<Longrightarrow> \<not> (33 < (of_char (last p) :: nat) \<and> (of_char (last p) :: nat) < 127)"
  by (auto simp: space_runes_def)

lemma drop_one_none: "(\<And>p. p \<in> set ps \<Longrightarrow> p \<noteq> [] \<and> hd p \<noteq> c) \<Longrightarrow> drop_one ps (c # s) = None"
proof (induction ps)
  case (Cons p ps)
  then obtain x p' where "p = x # p'" "x \<noteq> c" by (cases p) (auto, metis list.sel(1))
  with Cons show ?case by simp
qed simp

lemma drop_one_nil: "(\<And>p. p \<in> set ps \<Longrightarrow> p \<noteq> []) \<Longrightarrow> drop_one ps [] = None"
proof (induction ps)
  case (Cons p ps)
  then show ?case by (cases p) auto
qed simp

lemma drop_runes_none: "(\<And>p. p \<in> set ps \<Longrightarrow> p \<noteq> [] \<and> hd p \<noteq> hd s) \<Longrightarrow> drop_runes ps n s = s"
  by (cases s; cases n) (simp_all add: drop_one_none drop_one_nil)

text \<open>Printable ASCII is not trimmed.\<close>

lemma trim_space_printable:
  assumes "s \<noteq> []" "\<And>c. c \<in> set s \<Longrightarrow> 33 < (of_char c :: nat) \<and> (of_char c :: nat) < 127"
  shows "trim_space s = s"
proof -
  have "hd s \<in> set s" "hd (rev s) \<in> set s" using assms(1) by (simp_all add: hd_rev)
  then have h: "33 < (of_char (hd s) :: nat) \<and> (of_char (hd s) :: nat) < 127"
    "33 < (of_char (hd (rev s)) :: nat) \<and> (of_char (hd (rev s)) :: nat) < 127" using assms(2) by blast+
  have "trim_left_space s = s" unfolding trim_left_space_def
    by (rule drop_runes_none) (metis h(1) space_runes_head)
  moreover have "drop_runes (map rev space_runes) (length s) (rev s) = rev s"
  proof (rule drop_runes_none)
    fix p assume "p \<in> set (map rev space_runes)"
    then obtain q where q: "q \<in> set space_runes" "p = rev q" by auto
    with space_runes_head[OF q(1)] space_runes_last[OF q(1)] show "p \<noteq> [] \<and> hd p \<noteq> hd (rev s)"
      using h(2) by (metis hd_rev rev_is_Nil_conv)
  qed
  ultimately show ?thesis by (simp add: trim_space_def trim_right_space_def)
qed

lemma clean_sign: "to_lower (trim_space (sign_zpay ps key)) = sign_zpay ps key"
proof -
  have "trim_space (sign_zpay ps key) = sign_zpay ps key"
    by (rule trim_space_printable) (use sign_nonempty sign_digit in blast)+
  moreover have "map lower_char (sign_zpay ps key) = sign_zpay ps key"
    by (rule map_idI) (use sign_digit in blast)
  ultimately show ?thesis by (simp add: to_lower_def)
qed

text \<open>C10. A notification that carries the signature of its own parameters under the merchant's key is
  accepted, in whatever order the map is visited and the form lists its fields, and the
  notification read from it has exactly the fields that were signed.\<close>

theorem signed_notification_is_accepted:
  assumes fields: "distinct (map fst ps)" "''sign'' \<notin> fst ` set ps"
    and form: "set (flatten form) = set (ps @ [(''sign'', sign_zpay qs (z_key g)), (''sign_type'', ''MD5'')])"
      "distinct (map fst (flatten form))" and order: "set qs = set ps" "distinct (map fst qs)"
  shows "zpay_verify_notify g form = Inr \<lparr>n_out_trade_no = lookup ps ''out_trade_no'', n_trade_no = lookup ps ''trade_no'',
     n_trade_status = lookup ps ''trade_status'', n_total_amount = lookup ps ''money'', n_app_id = lookup ps ''pid''\<rparr>"
proof -
  have "set (filter signed_key (flatten form)) = set (filter signed_key qs)"
    using form(1) order(1) by (auto simp: signed_key_def)
  then have sign: "sign_zpay (flatten form) (z_key g) = sign_zpay qs (z_key g)"
    by (rule sign_cong[OF form(2) order(2)])
  have got: "lookup (flatten form) ''sign'' = sign_zpay qs (z_key g)"
    using form by (intro lookup_mem) auto
  have "lookup (flatten form) k = lookup ps k" if "k \<noteq> ''sign''" "k \<noteq> ''sign_type''" for k
  proof (cases "map_of ps k")
    case None
    then have "k \<notin> fst ` set (flatten form)" using form(1) that by (force simp: map_of_eq_None_iff)
    then have "map_of (flatten form) k = None" by (simp add: map_of_eq_None_iff)
    with None show ?thesis by (simp add: lookup_def)
  next
    case (Some v)
    then have "(k, v) \<in> set (flatten form)" using form(1) by (auto dest: map_of_SomeD)
    with Some show ?thesis using form(2) by (simp add: lookup_def)
  qed
  then show ?thesis
    by (simp add: zpay_verify_notify_def Let_def sign got clean_sign sign_nonempty)
qed

definition demo_gateway :: zpay_gateway where
  "demo_gateway = \<lparr>z_base_url = ''https://zpayz.cn'', z_pid = ''20260101'', z_key = ''secret'', z_notify_url = [], z_return_url = []\<rparr>"

theorem signed_notification_is_accepted_witness:
  "let ps = [(''money'', ''14.00''), (''out_trade_no'', ''t1''), (''pid'', ''20260101'')] in
   zpay_verify_notify demo_gateway (map (\<lambda>(k, v). (k, [v])) ([(''sign_type'', ''MD5''), (''sign'', sign_zpay (rev ps) ''secret'')] @ rev ps)) =
     Inr \<lparr>n_out_trade_no = ''t1'', n_trade_no = [], n_trade_status = [], n_total_amount = ''14.00'', n_app_id = ''20260101''\<rparr>"
  unfolding Let_def
  by (subst signed_notification_is_accepted[where ps = "[(''money'', ''14.00''), (''out_trade_no'', ''t1''), (''pid'', ''20260101'')]"
        and qs = "rev [(''money'', ''14.00''), (''out_trade_no'', ''t1''), (''pid'', ''20260101'')]"])
    (auto simp: flatten_def demo_gateway_def lookup_def)

lemma post_mapi_bounded:
  "post_mapi net attempt e = (r, n) \<Longrightarrow> 1 \<le> attempt \<Longrightarrow> attempt \<le> max_attempts \<Longrightarrow>
   attempt \<le> n \<and> n \<le> max_attempts \<and>
   (\<forall>b. r = Inr b \<longleftrightarrow> net n = Body b) \<and>
   (\<forall>i. attempt \<le> i \<and> i < n \<longrightarrow> (\<exists>e. net i = Transport_failed e False \<or> net i = Read_failed e False))"
proof (induction net attempt e rule: post_mapi.induct)
  case (1 net attempt e)
  note unf = "1.prems"(1)[unfolded post_mapi.simps[of net attempt e]]
  have retry: ?case if o: "net attempt = Transport_failed f False \<or> net attempt = Read_failed f False" and lt: "attempt < max_attempts" for f
  proof -
    have "post_mapi net (Suc attempt) f = (r, n)" using unf o lt by auto
    then have ih: "Suc attempt \<le> n \<and> n \<le> max_attempts \<and> (\<forall>b. r = Inr b \<longleftrightarrow> net n = Body b) \<and>
        (\<forall>i. Suc attempt \<le> i \<and> i < n \<longrightarrow> (\<exists>e. net i = Transport_failed e False \<or> net i = Read_failed e False))"
      using "1.IH"(1)[OF _ _ _ lt, of f False] "1.IH"(2)[OF _ _ _ lt, of f False] o lt by auto
    have "\<exists>e. net i = Transport_failed e False \<or> net i = Read_failed e False" if "attempt \<le> i" "i < n" for i
      using ih o that by (cases "i = attempt") auto
    with ih show ?thesis by (meson Suc_leD)
  qed
  show ?case
  proof (cases "\<exists>f. (net attempt = Transport_failed f False \<or> net attempt = Read_failed f False) \<and> attempt < max_attempts")
    case True
    then show ?thesis using retry by blast
  next
    case False
    with unf "1.prems"(3) have "n = attempt \<and> (\<forall>b. r = Inr b \<longleftrightarrow> net attempt = Body b)"
      by (auto split: post_outcome.splits if_splits)
    with "1.prems"(3) show ?thesis by auto
  qed
qed

text \<open>A payment request is sent at most three times; it is sent again only after an attempt that
  failed in transport with the caller still there, and it succeeds exactly when the last attempt
  returned a body.\<close>

theorem retry_is_bounded:
  "case post_mapi_with_retry net of (r, n) \<Rightarrow> 1 \<le> n \<and> n \<le> 3 \<and> (\<forall>b. r = Inr b \<longleftrightarrow> net n = Body b) \<and>
     (\<forall>i \<in> {1..<n}. \<exists>e. net i = Transport_failed e False \<or> net i = Read_failed e False)"
  using post_mapi_bounded[of net 1 "[]"] by (auto simp: post_mapi_with_retry_def max_attempts_def split: prod.split)

theorem retry_is_bounded_witness:
  "snd (post_mapi_with_retry (\<lambda>i. if i < 3 then Transport_failed ''dial'' False else Body ''ok'')) = 3"
proof -
  let ?net = "\<lambda>i. if i < 3 then Transport_failed ''dial'' False else Body ''ok''"
  obtain r n where rn: "post_mapi_with_retry ?net = (r, n)" by fastforce
  have "r = Inr ''ok''" using rn by (simp add: post_mapi_with_retry_def post_mapi.simps max_attempts_def)
  with retry_is_bounded[of ?net] rn show ?thesis by (auto split: if_splits)
qed

section \<open>What was signed can be read off the signed text\<close>

definition entry_text :: "string \<times> string \<Rightarrow> string" where
  "entry_text kv = fst kv @ ''='' @ snd kv"

lemma join_params_entries: "join_params ps ks = join_with ''&'' (map (\<lambda>k. entry_text (k, lookup ps k)) ks)"
  by (induction ps ks rule: join_params.induct) (simp_all add: entry_text_def)

lemma split_at_char: "c \<notin> set a \<Longrightarrow> c \<notin> set b \<Longrightarrow> a @ c # x = b @ c # y \<Longrightarrow> a = b \<and> x = y"
proof (induction a arbitrary: b)
  case Nil
  then show ?case by (cases b) auto
next
  case (Cons d a)
  then show ?case by (cases b) auto
qed

lemma join_with_Cons: "ys \<noteq> [] \<Longrightarrow> join_with sep (x # ys) = x @ sep @ join_with sep ys"
  by (cases ys) auto

lemma join_with_inj:
  "\<forall>x \<in> set xs. c \<notin> set x \<and> x \<noteq> [] \<Longrightarrow> \<forall>y \<in> set ys. c \<notin> set y \<and> y \<noteq> [] \<Longrightarrow>
   join_with [c] xs = join_with [c] ys \<Longrightarrow> xs = ys"
proof (induction xs arbitrary: ys)
  case Nil
  have "join_with [c] ys \<noteq> []" if "ys = y # ys'" for y ys'
    using that Nil.prems(2) by (cases ys') auto
  with Nil.prems(3) show ?case by (cases ys) auto
next
  case (Cons x xs)
  then obtain y ys' where ys: "ys = y # ys'" by (cases ys; cases xs) auto
  have cx: "c \<notin> set x" "c \<notin> set y" using Cons.prems ys by auto
  show ?case
  proof (cases "xs = [] \<or> ys' = []")
    case True
    then show ?thesis
    proof
      assume xs: "xs = []"
      with Cons.prems(3) ys cx have "ys' = []" by (cases ys') (auto simp: join_with_Cons)
      with xs Cons.prems(3) ys show ?thesis by simp
    next
      assume y: "ys' = []"
      with Cons.prems(3) ys cx have "xs = []" by (cases xs) (auto simp: join_with_Cons)
      with y Cons.prems(3) ys show ?thesis by simp
    qed
  next
    case False
    then have "x @ c # join_with [c] xs = y @ c # join_with [c] ys'"
      using Cons.prems(3) ys by (simp add: join_with_Cons)
    with split_at_char[OF cx] have "x = y" "join_with [c] xs = join_with [c] ys'" by blast+
    moreover have "xs = ys'" by (rule Cons.IH) (use Cons.prems ys calculation in auto)
    ultimately show ?thesis using ys by simp
  qed
qed

text \<open>Keys free of \<open>=\<close> and \<open>&\<close>, values free of \<open>&\<close>.\<close>

definition clean_params :: "params \<Rightarrow> bool" where
  "clean_params ps \<longleftrightarrow> distinct (map fst ps) \<and>
     (\<forall>(k, v) \<in> set ps. CHR ''='' \<notin> set k \<and> CHR ''&'' \<notin> set k \<and> CHR ''&'' \<notin> set v)"

definition signed_entries :: "params \<Rightarrow> params" where
  "signed_entries ps = map (\<lambda>k. (k, lookup ps k)) (signed_keys ps)"

lemma set_signed_entries: "distinct (map fst ps) \<Longrightarrow> set (signed_entries ps) = set (filter signed_key ps)"
  by (force simp: signed_entries_def signed_keys_def lookup_mem)

lemma clean_entry:
  assumes "clean_params ps" "kv \<in> set (signed_entries ps)"
  shows "CHR ''='' \<notin> set (fst kv)" "CHR ''&'' \<notin> set (entry_text kv)"
proof -
  have "kv \<in> set ps" using assms set_signed_entries by (auto simp: clean_params_def)
  then show "CHR ''='' \<notin> set (fst kv)" "CHR ''&'' \<notin> set (entry_text kv)"
    using assms(1) by (auto simp: clean_params_def entry_text_def)
qed

lemma entry_text_inj:
  "CHR ''='' \<notin> set (fst a) \<Longrightarrow> CHR ''='' \<notin> set (fst b) \<Longrightarrow> entry_text a = entry_text b \<Longrightarrow> a = b"
  using split_at_char[of "CHR ''=''" "fst a" "fst b" "snd a" "snd b"] by (simp add: entry_text_def prod_eq_iff)

lemma map_entry_text_inj:
  "\<forall>a \<in> set xs. CHR ''='' \<notin> set (fst a) \<Longrightarrow> \<forall>b \<in> set ys. CHR ''='' \<notin> set (fst b) \<Longrightarrow>
   map entry_text xs = map entry_text ys \<Longrightarrow> xs = ys"
proof (induction xs arbitrary: ys)
  case (Cons x xs)
  then obtain y ys' where "ys = y # ys'" by (cases ys) auto
  with Cons show ?case by (auto dest: entry_text_inj)
qed simp

text \<open>The text that is hashed names the signed parameters unambiguously: two sets of parameters
  with the same text agree on every key that is signed and on its value, provided no key holds
  \<open>=\<close> or \<open>&\<close> and no value holds \<open>&\<close>.\<close>

theorem signed_text_is_unambiguous:
  assumes "clean_params ps" "clean_params qs"
    and same: "join_params ps (signed_keys ps) @ key = join_params qs (signed_keys qs) @ key"
  shows "set (filter signed_key ps) = set (filter signed_key qs)"
proof -
  let ?t = "\<lambda>ps. map entry_text (signed_entries ps)"
  have "join_with ''&'' (?t ps) = join_with ''&'' (?t qs)"
    using same by (simp add: join_params_entries signed_entries_def comp_def)
  then have "?t ps = ?t qs"
    by (rule join_with_inj[rotated 2]) (use assms(1,2) clean_entry(2) in \<open>auto simp: entry_text_def\<close>)
  then have "signed_entries ps = signed_entries qs"
    by (rule map_entry_text_inj[rotated 2]) (use assms(1,2) clean_entry(1) in blast)+
  then show ?thesis using assms set_signed_entries by (metis clean_params_def)
qed

theorem signed_text_is_unambiguous_witness:
  "set (filter signed_key [(''pid'', ''7''), (''money'', ''1''), (''sign'', ''x'')]) = set (filter signed_key [(''money'', ''1''), (''pid'', ''7'')])"
  by (rule signed_text_is_unambiguous[where key = "''k''"])
    (simp_all add: clean_params_def signed_keys_def signed_key_def order_by_def lookup_def)

end
