(* ===== verification/ExchangeRate.thy ===== *)
theory ExchangeRate
  imports GoLib
begin

text \<open>
  The cached CNY/USD rate (\<open>internal/saas/billing/exchange.go\<close>). A fetch is what came back:
  a transport or request error, a status, a body that does not decode, or the decoded map
  of currencies. The lock makes each method one step.
\<close>

record rate_cache =
  rc_cny_per_usd :: float64
  rc_as_of :: int
  rc_url :: string
  rc_fallback :: float64

datatype fetched = Fetch_error string | Fetch_status int | Fetch_undecodable string
  | Fetched "string \<Rightarrow> float64 option"

datatype fetch_error = Fetch_failed string | Err_fetch_status int | Err_no_cny_field

definition default_exchange_url :: string where
  "default_exchange_url = ''https://cdn.jsdelivr.net/npm/@fawazahmed0/currency-api@latest/v1/currencies/usd.json''"

definition new_rate :: "string \<Rightarrow> float64 \<Rightarrow> rate_cache" where
  "new_rate url0 fallback0 =
     (let url = (if url0 = [] then default_exchange_url else url0);
          fallback = (if fallback0 \<le> 0 then rnd (72 / 10) else fallback0) in
      \<lparr>rc_cny_per_usd = fallback, rc_as_of = zero_time, rc_url = url, rc_fallback = fallback\<rparr>)"

definition cny_per_usd :: "rate_cache \<Rightarrow> float64" where
  "cny_per_usd r = (if 0 < rc_cny_per_usd r then rc_cny_per_usd r else rc_fallback r)"

definition refresh_rate :: "int \<Rightarrow> fetched \<Rightarrow> rate_cache \<Rightarrow> fetch_error option \<times> rate_cache" where
  "refresh_rate now f r = (case f of
       Fetch_error e \<Rightarrow> (Some (Fetch_failed e), r)
     | Fetch_status c \<Rightarrow> (Some (Err_fetch_status c), r)
     | Fetch_undecodable e \<Rightarrow> (Some (Fetch_failed e), r)
     | Fetched usd \<Rightarrow> (case usd ''cny'' of
         Some v \<Rightarrow> if 0 < v then (None, r\<lparr>rc_cny_per_usd := v, rc_as_of := now\<rparr>) else (Some Err_no_cny_field, r)
       | None \<Rightarrow> (Some Err_no_cny_field, r)))"

text \<open>A status other than 200 is an error before the body is read.\<close>

definition fetch_of_response :: "int \<Rightarrow> (string + (string \<Rightarrow> float64 option)) \<Rightarrow> fetched" where
  "fetch_of_response code body = (if code \<noteq> 200 then Fetch_status code
     else case body of Inl e \<Rightarrow> Fetch_undecodable e | Inr usd \<Rightarrow> Fetched usd)"

text \<open>The refresher: one fetch at the start, one per tick.\<close>

fun run_refresher :: "(int \<times> fetched) list \<Rightarrow> rate_cache \<Rightarrow> rate_cache" where
  "run_refresher [] r = r"
| "run_refresher ((now, f) # fs) r = run_refresher fs (snd (refresh_rate now f r))"

lemma refresh_rate_keeps:
  "rc_fallback (snd (refresh_rate now f r)) = rc_fallback r"
  "0 < rc_cny_per_usd r \<Longrightarrow> 0 < rc_cny_per_usd (snd (refresh_rate now f r))"
  by (auto simp: refresh_rate_def split: fetched.split option.split)

lemma run_refresher_pos: "0 < rc_cny_per_usd r \<Longrightarrow> 0 < rc_cny_per_usd (run_refresher fs r)"
  by (induction fs r rule: run_refresher.induct) (auto simp: refresh_rate_keeps)

lemma run_refresher_snoc:
  "run_refresher (fs @ [(now, f)]) r = snd (refresh_rate now f (run_refresher fs r))"
  by (induction fs r rule: run_refresher.induct) auto

lemma new_rate_pos: "0 < rc_cny_per_usd (new_rate url fallback)"
proof -
  have "0 < rnd (72 / 10)" by code_simp
  then show ?thesis by (simp add: new_rate_def Let_def)
qed

text \<open>Whatever the fetches bring, in whatever order, the rate a top-up is priced at is positive:
  the fallback until a first fetch succeeds, then the rate of the last one that did.\<close>

theorem rate_is_always_positive:
  "0 < cny_per_usd (run_refresher fs (new_rate url fallback)) \<and>
   cny_per_usd (run_refresher [] (new_rate url fallback)) = (if fallback \<le> 0 then rnd (72 / 10) else fallback) \<and>
   cny_per_usd (run_refresher (fs @ [(now, f)]) (new_rate url fallback)) =
     (case f of Fetched usd \<Rightarrow> (case usd ''cny'' of
          Some v \<Rightarrow> if 0 < v then v else cny_per_usd (run_refresher fs (new_rate url fallback))
        | None \<Rightarrow> cny_per_usd (run_refresher fs (new_rate url fallback)))
      | _ \<Rightarrow> cny_per_usd (run_refresher fs (new_rate url fallback)))"
proof -
  note pos = run_refresher_pos[OF new_rate_pos, of _ url fallback]
  have "cny_per_usd (run_refresher [] (new_rate url fallback)) = (if fallback \<le> 0 then rnd (72 / 10) else fallback)"
    using new_rate_pos[of url fallback] by (simp add: cny_per_usd_def new_rate_def Let_def)
  then show ?thesis using pos[of fs]
    by (auto simp: run_refresher_snoc cny_per_usd_def refresh_rate_def split: fetched.split option.split)
qed

end
