(* ===== verification/Topup.thy ===== *)
theory Topup
  imports Settlement ZPay ExchangeRate
begin

text \<open>
  The wallet endpoints and the payment flow (\<open>internal/saas/billing/handlers.go\<close>): order
  creation with its rate limit, the one funnel through which a gateway's word credits an
  order, and the endpoints that show wallets and orders. A handler is given the token its
  caller authenticated as, empty when it did not; \<open>now\<close> is \<open>time.Now\<close> in nanoseconds. What
  the store answers is in the session; the per-token creation stamps are returned updated.
  \<open>encoding/json\<close> of the stored payment surface is a pair of functions of the environment.
\<close>

datatype gateway = Mock_gateway | ZPay_gateway zpay_gateway

record handler =
  h_site :: string
  h_gateway :: gateway
  h_order_ttl :: int
  h_max_pending :: nat

definition new_handler :: "string \<Rightarrow> gateway \<Rightarrow> handler" where
  "new_handler site gw = \<lparr>h_site = site, h_gateway = gw, h_order_ttl = 24 * 3600 * second_ns, h_max_pending = 5\<rparr>"

text \<open>\<open>buildPaymentGateway\<close>: credentials missing, or refused, mean the mock.\<close>

definition build_payment_gateway :: "zpay_gateway \<Rightarrow> gateway" where
  "build_payment_gateway p =
     (if trim_space (z_pid p) = [] \<or> trim_space (z_key p) = [] then Mock_gateway
      else case new_zpay_gateway p of Inl _ \<Rightarrow> Mock_gateway | Inr g \<Rightarrow> ZPay_gateway g)"

definition MockAppID :: string where "MockAppID = ''mock-app-id''"

definition app_id :: "gateway \<Rightarrow> string" where
  "app_id gw = (case gw of Mock_gateway \<Rightarrow> MockAppID | ZPay_gateway g \<Rightarrow> z_pid g)"

definition verify_notify :: "gateway \<Rightarrow> (string \<times> string list) list \<Rightarrow> string + notification" where
  "verify_notify gw form = (case gw of
     Mock_gateway \<Rightarrow> Inl ''mock gateway does not receive notifications'' | ZPay_gateway g \<Rightarrow> zpay_verify_notify g form)"

definition query_trade :: "(string \<Rightarrow> query_response option) \<Rightarrow> string + string \<Rightarrow> gateway \<Rightarrow> string + notification" where
  "query_trade unmarshal fetched gw = (case gw of
     Mock_gateway \<Rightarrow> Inl ''mock gateway does not support query'' | ZPay_gateway _ \<Rightarrow> zpay_query_trade unmarshal fetched)"

text \<open>The network of a top-up: what the form is answered with at each attempt, and its decoding.\<close>

record topup_env =
  te_unmarshal :: "string \<Rightarrow> mapi_response option"
  te_net :: "string \<Rightarrow> nat \<Rightarrow> post_outcome"
  te_marshal_pay :: "pay_result \<Rightarrow> string"
  te_unmarshal_pay :: "string \<Rightarrow> pay_result"
  te_client_ip :: string
  te_random :: "nat list option"
  te_zone_offset :: int

definition create_payment :: "topup_env \<Rightarrow> gateway \<Rightarrow> pay_params \<Rightarrow> string + pay_result" where
  "create_payment env gw p = (case gw of
     Mock_gateway \<Rightarrow> Inr \<lparr>pr_qr_code = ''https://example.com/mock-pay-qr/'' @ p_out_trade_no p, pr_pay_url = [], pr_img = []\<rparr>
   | ZPay_gateway g \<Rightarrow> zpay_create_payment (te_unmarshal env) (te_net env) g p)"

section \<open>Crediting an order on a gateway's word\<close>

datatype notify_error = Order_unknown | Order_expired | Order_tampered | Not_settled | Store_failed db_error

definition same_money :: "float64 \<Rightarrow> float64 \<Rightarrow> bool" where
  "same_money a b = (\<bar>fsub a b\<bar> < rnd (5 / 1000))"

definition settled_status :: "string \<Rightarrow> bool" where
  "settled_status s = (equal_fold s ''TRADE_SUCCESS'' \<or> equal_fold s ''TRADE_FINISHED'')"

text \<open>The yen sign of the note is U+00A5.\<close>

definition topup_note :: "alipay_order \<Rightarrow> string \<Rightarrow> string" where
  "topup_note ord source = ''zpay top-up '' @ [CHR 0xC2, CHR 0xA5] @ fmt_fixed 2 (o_cny_amount ord) @ '' @ '' @
     fmt_fixed 4 (o_rate ord) @ '' ('' @ source @ '')''"

definition credit_outcome :: "db_error + 'a \<Rightarrow> notify_error option" where
  "credit_outcome r = (case r of Inr _ \<Rightarrow> None | Inl e \<Rightarrow> if e = ErrOrderNotPending then None else Some (Store_failed e))"

definition credit_order :: "int \<Rightarrow> alipay_order \<Rightarrow> notification \<Rightarrow> string \<Rightarrow> notify_error option dbm" where
  "credit_order now ord n source = (let no = o_out_trade_no ord; note = topup_note ord source; t = unix_seconds now in
     if 0 < o_workspace_id ord
     then bnd (attempt (credit_paid_order_to_workspace t no (n_trade_no n) (o_workspace_id ord) (o_usd_credit ord) no note))
            (\<lambda>r. ret (credit_outcome r))
     else bnd (attempt (credit_paid_order t no (n_trade_no n) (o_token ord) (o_usd_credit ord) no note))
            (\<lambda>r. ret (credit_outcome r)))"

text \<open>The checks of \<open>applyNotification\<close> that need no statement: the error they stop with.\<close>

definition notification_verdict :: "handler \<Rightarrow> alipay_order \<Rightarrow> notification \<Rightarrow> notify_error option" where
  "notification_verdict h ord n =
     (let want = app_id (h_gateway h) in
      if o_status ord = OrderExpired \<or> o_status ord = OrderFailed then Some Order_expired
      else if \<not> settled_status (n_trade_status n) then Some Not_settled
      else if want \<noteq> [] \<and> n_app_id n \<noteq> [] \<and> n_app_id n \<noteq> want then Some Order_tampered
      else case parse_float (trim_space (n_total_amount n)) of None \<Rightarrow> Some Order_tampered
        | Some got \<Rightarrow> if \<not> same_money got (o_cny_amount ord) then Some Order_tampered else None)"

definition order_stale :: "handler \<Rightarrow> int \<Rightarrow> alipay_order \<Rightarrow> bool" where
  "order_stale h now ord = (0 < h_order_ttl h \<and> h_order_ttl h < now - o_created_at ord * second_ns)"

definition apply_notification :: "handler \<Rightarrow> int \<Rightarrow> notification \<Rightarrow> string \<Rightarrow> notify_error option dbm" where
  "apply_notification h now n source =
     bnd (attempt (get_order (n_out_trade_no n))) (\<lambda>r. case r of
       Inl e \<Rightarrow> ret (Some (if e = ErrNotFound then Order_unknown else Store_failed e))
     | Inr ord \<Rightarrow> if o_status ord = OrderPaid then ret None
         else case notification_verdict h ord n of Some e \<Rightarrow> ret (Some e)
           | None \<Rightarrow> if order_stale h now ord
               then bnd (attempt (mark_order_expired (o_out_trade_no ord))) (\<lambda>_. ret (Some Order_expired))
               else credit_order now ord n source)"

text \<open>The webhook. \<open>None\<close> is a request whose form does not parse.\<close>

definition notify :: "handler \<Rightarrow> int \<Rightarrow> (string \<times> string list) list option \<Rightarrow> (int \<times> string) dbm" where
  "notify h now form = (case form of None \<Rightarrow> ret (400, ''fail'')
     | Some f \<Rightarrow> (case verify_notify (h_gateway h) f of Inl _ \<Rightarrow> ret (400, ''fail'')
       | Inr n \<Rightarrow> bnd (apply_notification h now n ''gateway-notify'') (\<lambda>e. case e of
           None \<Rightarrow> ret (200, ''success'')
         | Some x \<Rightarrow> if x = Order_tampered \<or> x = Order_expired \<or> x = Order_unknown then ret (200, ''success'')
             else ret (500, ''fail''))))"

datatype reconcile_error = Query_failed string | Apply_failed notify_error

definition reconcile_order :: "handler \<Rightarrow> int \<Rightarrow> (string \<Rightarrow> query_response option) \<Rightarrow> string + string \<Rightarrow>
    (reconcile_error + string) dbm" where
  "reconcile_order h now unmarshal fetched = (case query_trade unmarshal fetched (h_gateway h) of
       Inl e \<Rightarrow> ret (Inl (Query_failed e))
     | Inr n \<Rightarrow> if \<not> settled_status (n_trade_status n) then ret (Inr (n_trade_status n))
         else bnd (apply_notification h now n ''admin-reconcile'') (\<lambda>e. case e of
                Some x \<Rightarrow> ret (Inl (Apply_failed x)) | None \<Rightarrow> ret (Inr ''credited'')))"

text \<open>The mock gateway's own notification, two seconds after the order.\<close>

definition mock_notification :: "alipay_order \<Rightarrow> notification" where
  "mock_notification ord = \<lparr>n_out_trade_no = o_out_trade_no ord, n_trade_no = ''MOCK-'' @ o_out_trade_no ord,
     n_trade_status = ''TRADE_SUCCESS'', n_total_amount = fmt_fixed 2 (o_cny_amount ord), n_app_id = MockAppID\<rparr>"

definition auto_confirm :: "handler \<Rightarrow> int \<Rightarrow> string \<Rightarrow> unit dbm" where
  "auto_confirm h now out = bnd (attempt (get_order out)) (\<lambda>r. case r of Inl _ \<Rightarrow> ret ()
     | Inr ord \<Rightarrow> bnd (apply_notification h now (mock_notification ord) ''mock-gateway'') (\<lambda>_. ret ()))"

text \<open>One tick of the sweeper; a handler without a time to live has none.\<close>

definition expiry_sweep :: "handler \<Rightarrow> int \<Rightarrow> unit dbm" where
  "expiry_sweep h now = (if h_order_ttl h \<le> 0 then ret ()
     else bnd (attempt (expire_pending_orders_before ((now - h_order_ttl h) div second_ns))) (\<lambda>_. ret ()))"

section \<open>Creating an order\<close>

type_synonym stamps = "string \<Rightarrow> int list"

definition hour_ns :: int where "hour_ns = 3600 * second_ns"
definition max_per_hour :: nat where "max_per_hour = 10"

definition allow_create :: "int \<Rightarrow> string \<Rightarrow> stamps \<Rightarrow> (bool \<times> int) \<times> stamps" where
  "allow_create now tok st =
     (let cutoff = now - hour_ns; kept = filter (\<lambda>t. cutoff < t) (st tok) in
      if max_per_hour \<le> length kept
      then let retry = (hd kept + hour_ns - now) div second_ns in
        ((False, if retry < 1 then 1 else retry), st(tok := kept))
      else ((True, 0), st(tok := kept @ [now])))"

definition billing_round2 :: "float64 \<Rightarrow> float64" where
  "billing_round2 v = fdiv (rnd (of_int (to_int64 (fadd (fmul v 100) (1 / 2))))) 100"

definition min_invoice_cny :: float64 where "min_invoice_cny = rnd (1 / 100)"

fun fnv_fold :: "64 word \<Rightarrow> string \<Rightarrow> 64 word" where
  "fnv_fold h [] = h"
| "fnv_fold h (c # s) = fnv_fold (xor h (of_char c) * 1099511628211) s"

definition token_short :: "string \<Rightarrow> string" where
  "token_short tok = (let h = fnv_fold 1469598103934665603 tok; lo = (ucast h :: 32 word) in
     hex_encode (map unat (rev (le_bytes 4 lo))))"

text \<open>\<open>time.Now().Format("20060102150405")\<close> in the server's zone.\<close>

definition compact_time :: "int \<Rightarrow> int \<Rightarrow> string" where
  "compact_time offset now = (let s = unix_seconds now + offset; (y, m, d) = civil (s div 86400); r = s mod 86400 in
     int_pad 4 y @ int_pad 2 m @ int_pad 2 d @ int_pad 2 (r div 3600) @ int_pad 2 (r mod 3600 div 60) @ int_pad 2 (r mod 60))"

definition gen_out_trade_no :: "topup_env \<Rightarrow> int \<Rightarrow> string \<Rightarrow> string option" where
  "gen_out_trade_no env now tok = (case te_random env of None \<Rightarrow> None
     | Some b \<Rightarrow> Some (''CPA'' @ token_short tok @ compact_time (te_zone_offset env) now @ take 6 (hex_encode b)))"

record topup_reply =
  tr_out_trade_no :: string
  tr_cny_amount :: float64
  tr_usd_credit :: float64
  tr_rate :: float64
  tr_surface :: pay_result

datatype topup_error = Amount_below_1 | Amount_above_1000 | Rate_limited int | Too_many_pending nat
  | Topup_store db_error | No_random | Gateway_failed string

definition topup_subject :: "handler \<Rightarrow> int \<Rightarrow> float64 \<Rightarrow> string" where
  "topup_subject h wsid usd = h_site h @ (if 0 < wsid then '' team pool top-up: $'' else '' wallet top-up: $'') @ fmt_fixed 2 usd"

text \<open>From the gateway on: the payment, the order row and the answer.\<close>

definition place_order :: "handler \<Rightarrow> topup_env \<Rightarrow> int \<Rightarrow> string \<Rightarrow> int \<Rightarrow> float64 \<Rightarrow> float64 \<Rightarrow> string \<Rightarrow>
    (int \<times> (topup_error + topup_reply)) dbm" where
  "place_order h env now initiator wsid usd rate out =
     (let cny = billing_round2 (fmul usd rate) in
      case create_payment env (h_gateway h) \<lparr>p_out_trade_no = out, p_subject = topup_subject h wsid usd,
             p_total_cny = cny, p_method = ''alipay'', p_client_ip = te_client_ip env\<rparr> of
        Inl e \<Rightarrow> ret (500, Inl (Gateway_failed e))
      | Inr pr \<Rightarrow> bnd (attempt (create_order (unix_seconds now) \<lparr>o_out_trade_no = out, o_token = initiator,
            o_cny_amount = cny, o_usd_credit = usd, o_rate = rate, o_status = [], o_trade_no = [],
            o_qr_code = te_marshal_pay env pr, o_workspace_id = wsid, o_created_at = 0, o_paid_at = 0\<rparr>)) (\<lambda>r. case r of
          Inl e \<Rightarrow> ret (500, Inl (Topup_store e))
        | Inr _ \<Rightarrow> ret (200, Inr \<lparr>tr_out_trade_no = out, tr_cny_amount = cny, tr_usd_credit = usd, tr_rate = rate, tr_surface = pr\<rparr>)))"

definition open_order :: "handler \<Rightarrow> topup_env \<Rightarrow> rate_cache \<Rightarrow> int \<Rightarrow> string \<Rightarrow> int \<Rightarrow> float64 \<Rightarrow>
    (int \<times> (topup_error + topup_reply)) dbm" where
  "open_order h env rc now initiator wsid usd =
     bnd (or_zero 0 (count_pending_orders initiator)) (\<lambda>pending.
     if h_max_pending h \<le> pending then ret (429, Inl (Too_many_pending pending))
     else bnd (attempt (ensure_wallet (unix_seconds now) initiator)) (\<lambda>r. case r of
         Inl e \<Rightarrow> ret (500, Inl (Topup_store e))
       | Inr _ \<Rightarrow> (case gen_out_trade_no env now initiator of
             None \<Rightarrow> ret (500, Inl No_random)
           | Some out \<Rightarrow> place_order h env now initiator wsid usd (cny_per_usd rc) out)))"

text \<open>The amount is finite: a body cannot carry an infinity or a NaN.\<close>

definition create_topup :: "handler \<Rightarrow> topup_env \<Rightarrow> rate_cache \<Rightarrow> int \<Rightarrow> string \<Rightarrow> int \<Rightarrow> float64 \<Rightarrow> stamps \<Rightarrow>
    ((int \<times> (topup_error + topup_reply)) \<times> stamps) dbm" where
  "create_topup h env rc now initiator wsid usd st =
     (if usd < 1 then ret ((400, Inl Amount_below_1), st)
      else if 1000 < usd then ret ((400, Inl Amount_above_1000), st)
      else case allow_create now initiator st of ((allowed, retry), st') \<Rightarrow>
        if \<not> allowed then ret ((429, Inl (Rate_limited retry)), st')
        else bnd (open_order h env rc now initiator wsid usd) (\<lambda>r. ret (r, st')))"

text \<open>An environment for the witnesses.\<close>

definition demo_env :: topup_env where
  "demo_env = \<lparr>te_unmarshal = (\<lambda>_. None), te_net = (\<lambda>_ _. Body []), te_marshal_pay = pr_qr_code,
     te_unmarshal_pay = (\<lambda>s. \<lparr>pr_qr_code = s, pr_pay_url = [], pr_img = []\<rparr>), te_client_ip = [],
     te_random = Some [1, 2, 3, 4, 5, 6, 7, 8], te_zone_offset = 0\<rparr>"

end
