(* ===== verification/WalletPages.thy ===== *)
theory WalletPages
  imports Topup
begin

text \<open>
  The endpoints through which a user reads their wallet (\<open>internal/saas/billing/handlers.go\<close>,
  and the group list of \<open>internal/server/saas_billing.go\<close>). Each answers a status and a JSON
  body; \<open>tok\<close> is the token the request authenticated as, empty for none. \<open>show\<close> is the
  \<open>EffectiveMultiplier\<close> hook.
\<close>

definition unauthorized :: response where "unauthorized = error_body 401 ''missing bearer token''"

fun db_error_text :: "db_error \<Rightarrow> string" where
  "db_error_text ErrNotFound = ''not found''"
| "db_error_text ErrNoRows = ''sql: no rows in result set''"
| "db_error_text ErrInsufficientBalance = ''insufficient balance''"
| "db_error_text ErrOrderNotPending = ''order not pending''"
| "db_error_text ErrMemberExists = ''token already belongs to a workspace''"
| "db_error_text (ErrInsufficientInvoiceable cny avail) = ''requested CNY exceeds invoiceable balance: requested '' @
     fmt_fixed 2 cny @ '' available '' @ fmt_fixed 2 avail"
| "db_error_text (ErrMessage m) = m"
| "db_error_text _ = ''sql: driver error''"

definition store_error :: "db_error \<Rightarrow> response" where
  "store_error e = error_body 500 (db_error_text e)"

type_synonym rate_hook = "(string \<Rightarrow> float64 \<Rightarrow> float64) option"

definition effective :: "rate_hook \<Rightarrow> string \<Rightarrow> float64 \<Rightarrow> float64" where
  "effective show provider stored = (case show of None \<Rightarrow> stored | Some f \<Rightarrow> f provider stored)"

definition membership :: "sqlite \<Rightarrow> int \<Rightarrow> string \<Rightarrow> (string \<times> json) list option dbm" where
  "membership q now tok = bnd (attempt (member_for tok)) (\<lambda>r. case r of Inl _ \<Rightarrow> ret None
     | Inr m \<Rightarrow>
         bnd (member_period_pool_spend q now tok) (\<lambda>(day, month).
         bnd (member_pool_avail q now tok) (\<lambda>avail.
         bnd (attempt (get_workspace (m_workspace_id m))) (\<lambda>wr.
         ret (Some ([(''id'', JInt (m_workspace_id m)), (''role'', JStr (m_role m)),
           (''daily_usd_cap'', JNum (m_daily_usd_cap m)), (''monthly_usd_cap'', JNum (m_monthly_usd_cap m)),
           (''used_day_usd'', JNum day), (''used_month_usd'', JNum month), (''pool_avail_usd'', JNum avail),
           (''period_timezone'', JStr ''Asia/Shanghai''), (''joined_at'', JInt (m_created_at m))] @
          (case wr of Inl _ \<Rightarrow> [] | Inr ws \<Rightarrow> [(''name'', JStr (ws_name ws)), (''disabled'', JBool (ws_disabled ws)),
             (''pool_balance_usd'', JNum (ws_balance_usd ws))])))))))"

definition balance :: "sqlite \<Rightarrow> rate_hook \<Rightarrow> int \<Rightarrow> string \<Rightarrow> response dbm" where
  "balance q show now tok = (if tok = [] then ret unauthorized
     else bnd (attempt (ensure_wallet now tok)) (\<lambda>r. case r of Inl e \<Rightarrow> ret (store_error e)
       | Inr w \<Rightarrow> bnd (attempt (get_group (w_group_id w))) (\<lambda>gr. bnd (membership q now tok) (\<lambda>ws.
           ret (200, [(''balance_usd'', JNum (w_balance_usd w)), (''group_id'', JInt (w_group_id w))] @
             (case gr of Inl _ \<Rightarrow> [] | Inr g \<Rightarrow> [(''group_name'', JStr (g_name g)),
                (''claude_multiplier'', JNum (effective show ''anthropic'' (g_claude_multiplier g))),
                (''codex_multiplier'', JNum (effective show ''openai'' (g_codex_multiplier g)))]) @
             (case ws of None \<Rightarrow> [] | Some o' \<Rightarrow> [(''workspace'', JObj o')]))))))"

definition exchange_rate :: "rate_cache \<Rightarrow> response" where
  "exchange_rate rc = (200, [(''cny_per_usd'', JNum (cny_per_usd rc)), (''as_of'', JInt (unix_seconds (rc_as_of rc)))])"

definition transaction_view :: "wallet_tx \<Rightarrow> json" where
  "transaction_view t = JObj [(''id'', JInt (wt_id t)), (''kind'', JStr (wt_kind t)), (''amount_usd'', JNum (wt_amount_usd t)),
     (''ref'', JStr (wt_ref t)), (''note'', JStr (wt_note t)), (''created_at'', JInt (wt_created_at t))]"

definition transactions :: "string \<Rightarrow> response dbm" where
  "transactions tok = (if tok = [] then ret unauthorized
     else bnd (attempt (list_wallet_tx tok 1000)) (\<lambda>r. case r of Inl e \<Rightarrow> ret (store_error e)
       | Inr txs \<Rightarrow> ret (200, [(''transactions'', JArr (map transaction_view (filter (\<lambda>t. wt_kind t \<noteq> TxKindCharge) txs)))])))"

definition stored_surface :: "topup_env \<Rightarrow> alipay_order \<Rightarrow> pay_result" where
  "stored_surface env ord = (let s = trim_space (o_qr_code ord) in
     if has_prefix s [CHR 0x7B] then te_unmarshal_pay env s else \<lparr>pr_qr_code = s, pr_pay_url = [], pr_img = []\<rparr>)"

definition order_view :: "topup_env \<Rightarrow> alipay_order \<Rightarrow> (string \<times> json) list" where
  "order_view env ord = (let pr = stored_surface env ord in
     [(''out_trade_no'', JStr (o_out_trade_no ord)), (''cny_amount'', JNum (o_cny_amount ord)),
      (''usd_credit'', JNum (o_usd_credit ord)), (''rate'', JNum (o_rate ord)), (''status'', JStr (o_status ord)),
      (''trade_no'', JStr (o_trade_no ord)), (''qr_code'', JStr (pr_qr_code pr)), (''pay_url'', JStr (pr_pay_url pr)),
      (''img'', JStr (pr_img pr)), (''created_at'', JInt (o_created_at ord)), (''paid_at'', JInt (o_paid_at ord))])"

text \<open>The names of the workspaces the listed orders fund, one lookup per workspace, in the order
  the map is visited; a failed lookup leaves the name empty.\<close>

fun workspace_names :: "int list \<Rightarrow> (int \<Rightarrow> string) \<Rightarrow> (int \<Rightarrow> string) dbm" where
  "workspace_names [] names = ret names"
| "workspace_names (i # is) names = bnd (attempt (get_workspace i)) (\<lambda>r.
     workspace_names is (case r of Inl _ \<Rightarrow> names | Inr ws \<Rightarrow> names(i := ws_name ws)))"

definition orders :: "topup_env \<Rightarrow> string \<Rightarrow> response dbm" where
  "orders env tok = (if tok = [] then ret unauthorized
     else bnd (attempt (list_orders tok 100)) (\<lambda>r. case r of Inl e \<Rightarrow> ret (store_error e)
       | Inr os \<Rightarrow> bnd (workspace_names (remdups (filter (\<lambda>i. 0 < i) (map o_workspace_id os))) (\<lambda>_. [])) (\<lambda>names.
           ret (200, [(''orders'', JArr (map (\<lambda>ord. JObj (order_view env ord @
             (if 0 < o_workspace_id ord then [(''workspace_id'', JInt (o_workspace_id ord)),
                (''workspace_name'', JStr (names (o_workspace_id ord)))] else []))) os))]))))"

definition order_status :: "topup_env \<Rightarrow> string \<Rightarrow> string \<Rightarrow> response dbm" where
  "order_status env tok out = (if tok = [] then ret unauthorized
     else bnd (attempt (get_order out)) (\<lambda>r. case r of Inl _ \<Rightarrow> ret (error_body 404 ''not found'')
       | Inr ord \<Rightarrow> if o_token ord \<noteq> tok then ret (error_body 404 ''not found'') else ret (200, order_view env ord)))"

definition order_cancel :: "string \<Rightarrow> string \<Rightarrow> response dbm" where
  "order_cancel tok out = (if tok = [] then ret unauthorized
     else bnd (attempt (delete_pending_order out tok)) (\<lambda>r. case r of
         Inl _ \<Rightarrow> ret (error_body 404 ''order not found or not pending'')
       | Inr _ \<Rightarrow> ret (200, [(''status'', JStr ''deleted'')])))"

definition topup_error_text :: "nat \<Rightarrow> topup_error \<Rightarrow> string" where
  "topup_error_text cap e = (case e of Amount_below_1 \<Rightarrow> ''min top-up is $1'' | Amount_above_1000 \<Rightarrow> ''max top-up is $1000''
     | Rate_limited r \<Rightarrow> ''too many top-up requests; retry after '' @ itoa r @ ''s''
     | Too_many_pending n \<Rightarrow> ''too many pending orders ('' @ itoa (int n) @ ''/'' @ itoa (int cap) @ ''); close or wait for existing orders''
     | Topup_store x \<Rightarrow> db_error_text x | No_random \<Rightarrow> ''crypto/rand'' | Gateway_failed m \<Rightarrow> ''gateway: '' @ m)"

definition reply_body :: "topup_reply \<Rightarrow> (string \<times> json) list" where
  "reply_body r = [(''out_trade_no'', JStr (tr_out_trade_no r)), (''cny_amount'', JNum (tr_cny_amount r)),
     (''usd_credit'', JNum (tr_usd_credit r)), (''rate'', JNum (tr_rate r)), (''method'', JStr ''alipay''),
     (''qr_code'', JStr (pr_qr_code (tr_surface r))), (''pay_url'', JStr (pr_pay_url (tr_surface r))),
     (''img'', JStr (pr_img (tr_surface r)))]"

text \<open>\<open>None\<close> is a body that does not bind.\<close>

definition topup :: "handler \<Rightarrow> topup_env \<Rightarrow> rate_cache \<Rightarrow> int \<Rightarrow> string \<Rightarrow> float64 option \<Rightarrow> stamps \<Rightarrow> (response \<times> stamps) dbm" where
  "topup h env rc now tok body st = (if tok = [] then ret (unauthorized, st)
     else case body of None \<Rightarrow> ret (error_body 400 ''bad request'', st)
       | Some usd \<Rightarrow> bnd (create_topup h env rc now tok 0 usd st) (\<lambda>((status, r), st'). ret (case r of
             Inl e \<Rightarrow> error_body status (topup_error_text (h_max_pending h) e)
           | Inr rep \<Rightarrow> (status, reply_body rep), st')))"

text \<open>The public catalogue of groups, at the rates in force.\<close>

definition groups_catalog :: "cc_core \<Rightarrow> pricing_promotion list option \<Rightarrow> bool \<Rightarrow> int \<Rightarrow> response dbm" where
  "groups_catalog cc cfg saas now = (if \<not> saas then ret (200, [(''groups'', JArr [])])
     else bnd (attempt list_groups) (\<lambda>r. case r of Inl e \<Rightarrow> ret (store_error e)
       | Inr gs \<Rightarrow> ret (200, [(''groups'', JArr (map (\<lambda>g. JObj [(''id'', JInt (g_id g)), (''name'', JStr (g_name g)),
            (''description'', JStr (g_description g)),
            (''codex_multiplier'', JNum (display_multiplier cc cfg now ''openai'' (g_codex_multiplier g))),
            (''claude_multiplier'', JNum (display_multiplier cc cfg now ''anthropic'' (g_claude_multiplier g))),
            (''is_default'', JBool (g_is_default g))]) gs))])))"

section \<open>What a user can see and change\<close>

lemma workspace_names_reads: "read_only (workspace_names is names)"
proof (induction "is" arbitrary: names)
  case (Cons i "is")
  then show ?case by (auto simp: get_workspace_def intro!: atomic_intros)
qed (simp add: read_only_ret)

lemma pages_read_only:
  "read_only (transactions tok)" "read_only (orders env tok)" "read_only (order_status env tok out)"
  "read_only (groups_catalog cc cfg saas now)"
  unfolding transactions_def orders_def order_status_def groups_catalog_def list_wallet_tx_def list_orders_def get_order_def
    list_groups_def Let_def
  by (auto split: sum.split intro!: atomic_intros workspace_names_reads)

text \<open>The order page answers only about the caller's own orders, and cancelling removes exactly the
  caller's own pending order: any other row of the order table, paid ones above all, stays.\<close>

theorem order_pages_are_the_owners:
  "(order_status env tok out s = (Inr (200, body), s1) \<longrightarrow>
      (\<exists>ord. order_row (store s) out = Some ord \<and> o_token ord = tok \<and> body = order_view env ord)) \<and>
   (order_cancel tok out s = (r, s2) \<longrightarrow>
      alipay_orders (store s2) = alipay_orders (store s) \<or>
      (alipay_orders (store s2) = filter (\<lambda>ord. \<not> (o_out_trade_no ord = out \<and> o_token ord = tok \<and> o_status ord = OrderPending))
          (alipay_orders (store s)) \<and>
       (\<exists>ord \<in> set (alipay_orders (store s)). o_out_trade_no ord = out \<and> o_token ord = tok \<and> o_status ord = OrderPending)))"
proof (intro conjI impI)
  assume "order_status env tok out s = (Inr (200, body), s1)"
  then show "\<exists>ord. order_row (store s) out = Some ord \<and> o_token ord = tok \<and> body = order_view env ord"
    by (cases "fst (get_order out s)")
      (auto simp: order_status_def bnd_def attempt_def ret_def unauthorized_def error_body_def get_order_def query_row_def
        stmt_def split: if_splits option.splits)
next
  assume run: "order_cancel tok out s = (r, s2)"
  let ?P = "\<lambda>ord. o_out_trade_no ord = out \<and> o_token ord = tok \<and> o_status ord = OrderPending"
  show "alipay_orders (store s2) = alipay_orders (store s) \<or>
      (alipay_orders (store s2) = filter (\<lambda>ord. \<not> ?P ord) (alipay_orders (store s)) \<and> (\<exists>ord \<in> set (alipay_orders (store s)). ?P ord))"
  proof (cases "tok = []")
    case False
    obtain x s' where d: "delete_pending_order out tok s = (x, s')" by fastforce
    with run False have s2: "s2 = s'" by (auto simp: order_cancel_def bnd_def attempt_def ret_def split: sum.splits)
    have eq: "(\<lambda>ord. is_pending out ord \<and> o_token ord = tok) = ?P" by (auto simp: is_pending_def fun_eq_iff)
    show ?thesis
    proof (cases "\<exists>ord \<in> set (alipay_orders (store s)). ?P ord")
      case True
      from d have "store s' = store s \<or> alipay_orders (store s') = filter (\<lambda>ord. \<not> ?P ord) (alipay_orders (store s))"
        unfolding delete_pending_order_def eq
        by (auto simp: bnd_def exec_count_def stmt_def sql_delete_def ret_def throw_def split: if_splits)
      with True s2 show ?thesis by auto
    next
      case none: False
      then have "sql_delete ?P (alipay_orders (store s)) = alipay_orders (store s)"
        by (auto simp: sql_delete_def filter_id_conv)
      with d have "alipay_orders (store s') = alipay_orders (store s)"
        unfolding delete_pending_order_def eq
        by (auto simp: bnd_def exec_count_def stmt_def ret_def throw_def split: if_splits)
      with s2 show ?thesis by simp
    qed
  qed (use run in \<open>simp add: order_cancel_def ret_iff\<close>)
qed

theorem order_pages_are_the_owners_witness:
  "alipay_orders (store (snd (order_cancel ''alice'' ''t1'' (fresh_session demo_db)))) = []"
proof -
  let ?s = "fresh_session demo_db"
  obtain r s2 where run: "order_cancel ''alice'' ''t1'' ?s = (r, s2)" by fastforce
  have "filter (\<lambda>ord. \<not> (o_out_trade_no ord = ''t1'' \<and> o_token ord = ''alice'' \<and> o_status ord = OrderPending)) (alipay_orders demo_db) = []"
    by (simp add: demo_db_def OrderPending_def)
  with order_pages_are_the_owners[THEN conjunct2, rule_format, OF run]
  have "alipay_orders (store s2) = alipay_orders demo_db \<or> alipay_orders (store s2) = []"
    unfolding demo_fresh(1) by argo
  moreover have "alipay_orders (store (snd (order_cancel ''alice'' ''t1'' ?s))) \<noteq> alipay_orders demo_db"
  proof -
    have "length (alipay_orders (store (snd (order_cancel ''alice'' ''t1'' ?s)))) \<noteq> length (alipay_orders demo_db)"
      by code_simp
    then show ?thesis by metis
  qed
  moreover have "s2 = snd (order_cancel ''alice'' ''t1'' ?s)" by (simp only: run snd_conv)
  ultimately show ?thesis by blast
qed

end
