(* ===== verification/Payments.thy ===== *)
theory Payments
  imports Topup System
begin

text \<open>
  What the payment flow of \<^theory_text>\<open>Topup\<close> guarantees: a notification moves money only for a pending
  order it agrees with, and then exactly the order's credit; the same notification again changes
  nothing; the mock gateway's orders are credited; no token creates more than ten orders in
  any hour; and a trade queried from Z-Pay is never credited.
\<close>

section \<open>The effect of a credit\<close>

lemma credit_wallet_effect:
  assumes ok: "accounts_ok (store s)" and run: "credit_paid_order now no t tok usd ref nt s = (Inr bal, s')"
  shows "\<exists>r. order_row (store s) no = Some r \<and> o_status r = OrderPending \<and>
      order_row (store s') no = Some (r\<lparr>o_status := OrderPaid, o_trade_no := t, o_paid_at := now\<rparr>)"
    and "wallet_funds (store s') = (wallet_funds (store s))(tok := fadd (wallet_funds (store s) tok) usd)"
    and "pool_balance (store s') = pool_balance (store s)"
proof -
  from run obtain bal' d b where d: "d = store s \<or> (\<exists>g \<in> set (pricing_groups (store s)). wallet_row (store s) tok = None \<and> d = wallet_open tok (g_id g) now (store s))"
      "sql_count (is_pending no) (alipay_orders (store s)) \<noteq> 0" "wallet_balance d tok = Some b"
      "store s' = wallet_post tok usd (TxKindTopup, ref, nt, now) (pay_order no t now d)"
    by (cases rule: credit_paid_order_store) auto
  have o: "orders_ok (store s)" using ok by (simp add: accounts_ok_def)
  have ens: "ensured now tok (store s) d" using d(1) by (auto simp: ensured_def)
  have w: "wallets_keyed d" using accounts_ok_ensured[OF ens ok] by (simp add: accounts_ok_def wallets_ok_def)
  from d(2) pending_count_0[OF o, of no] obtain r where r: "order_row (store s) no = Some r" "o_status r = OrderPending"
    by (auto split: option.splits)
  have "order_row (store s') = order_row (pay_order no t now d)" by (simp add: fun_eq_iff d(4) order_row_def)
  moreover have "order_row d no = Some r" using r(1) d(1) by (auto simp: order_row_def)
  ultimately have "order_row (store s') no = Some (r\<lparr>o_status := OrderPaid, o_trade_no := t, o_paid_at := now\<rparr>)"
    using r(2) order_row_no[OF r(1)] by (simp add: order_row_pay is_pending_def)
  with r show "\<exists>r. order_row (store s) no = Some r \<and> o_status r = OrderPending \<and>
      order_row (store s') no = Some (r\<lparr>o_status := OrderPaid, o_trade_no := t, o_paid_at := now\<rparr>)" by blast
  have "wallet_balance (pay_order no t now d) = wallet_balance d" by (simp add: fun_eq_iff wallet_balance_def wallet_row_def)
  moreover have "wallets_keyed (pay_order no t now d)" using w by (simp add: wallets_keyed_def)
  ultimately have "wallet_balance (store s') = (wallet_balance d)(tok \<mapsto> fadd b usd)"
    using wallet_ledger.bal_post[of "pay_order no t now d" tok b usd] d(3,4) by simp
  then show "wallet_funds (store s') = (wallet_funds (store s))(tok := fadd (wallet_funds (store s) tok) usd)"
    using ensured_funds[OF ens] d(3) by (metis (no_types, lifting) fun_upd_def option.simps(4,5) wallet_funds_def ext)
  show "pool_balance (store s') = pool_balance (store s)"
    using ensured_pool_view[OF ens] by (simp add: fun_eq_iff d(4) pool_balance_def workspace_row_def wallet_post_def
        insert_wallet_tx_def set_wallet_balance_def split: prod.split)
qed

lemma credit_pool_effect:
  assumes ok: "accounts_ok (store s)" and run: "credit_paid_order_to_workspace now no t wsid usd ref nt s = (Inr bal, s')"
  shows "\<exists>r. order_row (store s) no = Some r \<and> o_status r = OrderPending \<and>
      order_row (store s') no = Some (r\<lparr>o_status := OrderPaid, o_trade_no := t, o_paid_at := now\<rparr>)"
    and "\<exists>b. pool_balance (store s) wsid = Some b \<and> pool_balance (store s') = (pool_balance (store s))(wsid \<mapsto> fadd b usd)"
    and "wallet_funds (store s') = wallet_funds (store s)"
proof -
  from credit_to_workspace_Inr[OF run] obtain b where d: "sql_count (is_pending no) (alipay_orders (store s)) \<noteq> 0"
    "pool_balance (store s) wsid = Some b" "store s' = pool_post wsid usd ([], TxKindTopup, ref, nt, now) (pay_order no t now (store s))"
    by blast
  have o: "orders_ok (store s)" using ok by (simp add: accounts_ok_def)
  from d(1) pending_count_0[OF o, of no] obtain r where r: "order_row (store s) no = Some r" "o_status r = OrderPending"
    by (auto split: option.splits)
  have "order_row (store s') = order_row (pay_order no t now (store s))" by (simp add: fun_eq_iff d(3) order_row_def)
  then have "order_row (store s') no = Some (r\<lparr>o_status := OrderPaid, o_trade_no := t, o_paid_at := now\<rparr>)"
    using r order_row_no[OF r(1)] by (simp add: order_row_pay is_pending_def)
  with r show "\<exists>r. order_row (store s) no = Some r \<and> o_status r = OrderPending \<and>
      order_row (store s') no = Some (r\<lparr>o_status := OrderPaid, o_trade_no := t, o_paid_at := now\<rparr>)" by blast
  have view: "pool_balance (pay_order no t now (store s)) = pool_balance (store s)"
    by (simp add: fun_eq_iff pool_balance_def workspace_row_def)
  have "workspaces_keyed (pay_order no t now (store s))" using accounts_ok_keyed[OF ok] by (simp add: workspaces_keyed_def)
  from pool_ledger.bal_post[OF this, of wsid b usd] d(2,3) view
  show "\<exists>b. pool_balance (store s) wsid = Some b \<and> pool_balance (store s') = (pool_balance (store s))(wsid \<mapsto> fadd b usd)"
    by auto
  show "wallet_funds (store s') = wallet_funds (store s)"
    by (simp add: fun_eq_iff d(3) wallet_funds_def wallet_balance_def wallet_row_def)
qed

section \<open>The funnel\<close>

text \<open>The order the notification names agrees with it, is pending and is not stale.\<close>

definition verified :: "handler \<Rightarrow> int \<Rightarrow> notification \<Rightarrow> alipay_order \<Rightarrow> bool" where
  "verified h now n ord \<longleftrightarrow> o_status ord = OrderPending \<and> settled_status (n_trade_status n) \<and>
     (app_id (h_gateway h) = [] \<or> n_app_id n = [] \<or> n_app_id n = app_id (h_gateway h)) \<and>
     (\<exists>got. parse_float (trim_space (n_total_amount n)) = Some got \<and> \<bar>fsub got (o_cny_amount ord)\<bar> < rnd (5 / 1000)) \<and>
     (h_order_ttl h \<le> 0 \<or> now - o_created_at ord * second_ns \<le> h_order_ttl h)"

text \<open>The order became paid with the notification's trade number, and its credit reached the pool
  it names or else its owner's wallet, and nothing else.\<close>

definition credited :: "int \<Rightarrow> notification \<Rightarrow> alipay_order \<Rightarrow> db \<Rightarrow> db \<Rightarrow> bool" where
  "credited now n ord d d' \<longleftrightarrow>
     order_row d' (o_out_trade_no ord) = Some (ord\<lparr>o_status := OrderPaid, o_trade_no := n_trade_no n, o_paid_at := unix_seconds now\<rparr>) \<and>
     (if 0 < o_workspace_id ord
      then wallet_funds d' = wallet_funds d \<and> (\<exists>b. pool_balance d (o_workspace_id ord) = Some b \<and>
         pool_balance d' = (pool_balance d)(o_workspace_id ord \<mapsto> fadd b (o_usd_credit ord)))
      else pool_balance d' = pool_balance d \<and>
         wallet_funds d' = (wallet_funds d)(o_token ord := fadd (wallet_funds d (o_token ord)) (o_usd_credit ord)))"

lemma unmoved_refl [simp]: "unmoved d d"
  by (simp add: unmoved_def)

lemma unmoved_ensured: "ensured now tok d d' \<Longrightarrow> unmoved d d'"
  by (simp add: unmoved_def ensured_views ensured_funds ensured_pool_view fun_eq_iff)

lemma credit_order_cases:
  assumes ok: "accounts_ok (store s)" and row: "order_row (store s) no = Some ord"
    and run: "credit_order now ord n src s = (r, s')"
  obtains (Quiet) e where "r = Inr e" "unmoved (store s) (store s')"
  | (Credited) "r = Inr None" "o_status ord = OrderPending" "credited now n ord (store s) (store s')"
proof (cases "0 < o_workspace_id ord")
  case True
  obtain x s1 where c: "credit_paid_order_to_workspace (unix_seconds now) (o_out_trade_no ord) (n_trade_no n) (o_workspace_id ord)
      (o_usd_credit ord) (o_out_trade_no ord) (topup_note ord src) s = (x, s1)" by fastforce
  with run True have s': "s' = s1" and r: "r = Inr (credit_outcome x)"
    by (auto simp: credit_order_def Let_def bnd_def attempt_def ret_def)
  show thesis
  proof (cases x)
    case (Inl e)
    with c s' r show thesis by (intro Quiet) (auto dest: atomicD[OF atomic_credit_to_workspace])
  next
    case (Inr bal)
    note eff = credit_pool_effect[OF ok c[unfolded Inr]]
    show thesis using eff order_row_no[OF row] row True r Inr s'
      by (intro Credited) (auto simp: credit_outcome_def credited_def)
  qed
next
  case False
  obtain x s1 where c: "credit_paid_order (unix_seconds now) (o_out_trade_no ord) (n_trade_no n) (o_token ord)
      (o_usd_credit ord) (o_out_trade_no ord) (topup_note ord src) s = (x, s1)" by fastforce
  with run False have s': "s' = s1" and r: "r = Inr (credit_outcome x)"
    by (auto simp: credit_order_def Let_def bnd_def attempt_def ret_def)
  show thesis
  proof (cases x)
    case (Inl e)
    from c[unfolded Inl] have "store s1 = store s \<or> ensured (unix_seconds now) (o_token ord) (store s) (store s1)"
      by (cases rule: credit_paid_order_store) (auto simp: ensured_def)
    with s' r show thesis by (intro Quiet) (auto intro: unmoved_ensured)
  next
    case (Inr bal)
    note eff = credit_wallet_effect[OF ok c[unfolded Inr]]
    show thesis using eff order_row_no[OF row] row False r Inr s'
      by (intro Credited) (auto simp: credit_outcome_def credited_def)
  qed
qed

lemma mark_order_expired_unmoved: "mark_order_expired no s = (r, s') \<Longrightarrow> unmoved (store s) (store s')"
  by (auto simp: mark_order_expired_def exec_def stmt_def unmoved_def fun_eq_iff wallet_funds_def wallet_balance_def
      wallet_row_def pool_balance_def workspace_row_def split: if_splits)

lemma verdict_None:
  "notification_verdict h ord n = None \<Longrightarrow> o_status ord \<noteq> OrderExpired \<and> o_status ord \<noteq> OrderFailed \<and>
     settled_status (n_trade_status n) \<and> (app_id (h_gateway h) = [] \<or> n_app_id n = [] \<or> n_app_id n = app_id (h_gateway h)) \<and>
     (\<exists>got. parse_float (trim_space (n_total_amount n)) = Some got \<and> \<bar>fsub got (o_cny_amount ord)\<bar> < rnd (5 / 1000))"
  by (auto simp: notification_verdict_def Let_def same_money_def split: if_splits option.splits)

lemma apply_notification_cases:
  assumes ok: "accounts_ok (store s)" and run: "apply_notification h now n src s = (r, s')"
  obtains (Quiet) e where "r = Inr e" "unmoved (store s) (store s')"
  | (Credited) ord where "r = Inr None" "order_row (store s) (n_out_trade_no n) = Some ord" "verified h now n ord"
      "credited now n ord (store s) (store s')"
proof -
  obtain x s1 where g: "get_order (n_out_trade_no n) s = (x, s1)" by fastforce
  have s1: "store s1 = store s" using g by (auto simp: get_order_def dest: read_onlyD[OF read_only_query_row])
  show thesis
  proof (cases x)
    case (Inl e)
    with run g s1 show thesis by (intro Quiet) (auto simp: apply_notification_def bnd_def attempt_def ret_def)
  next
    case (Inr ord)
    have row: "order_row (store s1) (n_out_trade_no n) = Some ord"
      using g Inr s1 by (auto simp: get_order_def query_row_Inr)
    show thesis
    proof (cases "o_status ord = OrderPaid \<or> notification_verdict h ord n \<noteq> None")
      case True
      then have "\<exists>e. r = Inr e \<and> s' = s1"
        using run g Inr by (auto simp: apply_notification_def bnd_def attempt_def ret_def split: if_splits)
      with s1 show thesis by (auto intro: Quiet)
    next
      case False
      then have v: "o_status ord \<noteq> OrderPaid" "notification_verdict h ord n = None" by auto
      note run2 = run[unfolded apply_notification_def bnd_def attempt_def g Inr prod.case sum.case]
      show thesis
      proof (cases "order_stale h now ord")
        case True
        obtain y s2 where m: "mark_order_expired (o_out_trade_no ord) s1 = (y, s2)" by fastforce
        from mark_order_expired_unmoved[OF m] run2 m v True s1 show thesis
          by (intro Quiet) (auto simp: ret_def)
      next
        case f: False
        with run2 v have c: "credit_order now ord n src s1 = (r, s')" by simp
        have "accounts_ok (store s1)" using ok s1 by simp
        from this row c show thesis
        proof (cases rule: credit_order_cases)
          case (Quiet e)
          then show thesis using that(1) s1 by simp
        next
          case Credited
          then have "verified h now n ord" using verdict_None[OF v(2)] f by (auto simp: verified_def order_stale_def)
          with Credited show thesis using that(2) row s1 by simp
        qed
      qed
    qed
  qed
qed

text \<open>C8. A notification, from the webhook, a reconciliation or the mock, moves money only if it names
  a pending order, says it is settled, comes from this merchant, carries the order's amount to
  within half a fen and is in time; then the order is paid and exactly its credit is added, to the
  pool the order names or to its owner's wallet, and to nothing else.\<close>

theorem notification_moves_only_verified_money:
  assumes "accounts_ok (store s)" and "apply_notification h now n src s = (r, s')"
  shows "unmoved (store s) (store s') \<or>
    (r = Inr None \<and> (\<exists>ord. order_row (store s) (n_out_trade_no n) = Some ord \<and> verified h now n ord \<and>
       credited now n ord (store s) (store s')))"
  using assms by (cases rule: apply_notification_cases) auto

section \<open>A sound driver credits what is verified\<close>

lemma ensure_wallet_calm:
  assumes "groups_ok (store s)" "plan s = []"
  shows "\<exists>w s'. ensure_wallet now tok s = (Inr w, s') \<and> plan s' = []"
proof (cases "wallet_row (store s) tok")
  case (Some w)
  with assms show ?thesis
    by (auto simp: ensure_wallet_def get_wallet_def query_row_def stmt_def bnd_def attempt_def ret_def faulty_def tick_def)
next
  case None
  from assms(1) obtain g where g: "find g_is_default (pricing_groups (store s)) = Some g" and "g \<in> set (pricing_groups (store s))"
    unfolding groups_ok_def by (metis find_None_iff find_Some_mem option.exhaust)
  then have "group_by_id (store s) (g_id g) \<noteq> None" by (auto simp: group_by_id_def find_None_iff)
  with None g assms(2) show ?thesis
    by (auto simp: ensure_wallet_def get_wallet_def query_row_def stmt_def bnd_def attempt_def ret_def faulty_def tick_def
        default_group_def insert_wallet_def wallet_row_def find_append)
qed

lemma credit_paid_order_calm:
  assumes ok: "accounts_ok (store s)" and pl: "plan s = []" and pending: "order_row (store s) no = Some ord" "o_status ord = OrderPending"
  shows "\<exists>bal s'. credit_paid_order now no t tok usd ref nt s = (Inr bal, s')"
proof -
  have g: "groups_ok (store s)" and o: "orders_ok (store s)" using ok by (simp_all add: accounts_ok_def)
  obtain w s1 where w: "ensure_wallet now tok s = (Inr w, s1)" "plan s1 = []" using ensure_wallet_calm[OF g pl] by blast
  have row: "wallet_row (store s1) tok = Some w" and orders: "alipay_orders (store s1) = alipay_orders (store s)"
    using w(1) by (cases rule: ensure_wallet_cases; auto)+
  have "sql_count (is_pending no) (alipay_orders (store s1)) \<noteq> 0"
    using pending_count_0[OF o, of no] pending orders by simp
  then show ?thesis using w row
    by (simp add: credit_paid_order_split bnd_def credit_tx_def in_tx_def faulty_def tick_def mark_order_paid_def exec_count_def
        stmt_def query_row_def exec_def Let_def ret_def wallet_balance_def wallet_row_def)
qed

lemma credit_pool_calm:
  assumes ok: "accounts_ok (store s)" and pl: "plan s = []" and pending: "order_row (store s) no = Some ord" "o_status ord = OrderPending"
    and pool: "pool_balance (store s) wsid \<noteq> None"
  shows "\<exists>bal s'. credit_paid_order_to_workspace now no t wsid usd ref nt s = (Inr bal, s')"
proof -
  have o: "orders_ok (store s)" using ok by (simp add: accounts_ok_def)
  have "sql_count (is_pending no) (alipay_orders (store s)) \<noteq> 0"
    using pending_count_0[OF o, of no] pending by simp
  then show ?thesis using pl pool
    by (auto simp: credit_paid_order_to_workspace_def bnd_def in_tx_def faulty_def tick_def mark_order_paid_def exec_count_def
        stmt_def query_row_def exec_def Let_def ret_def pool_balance_def workspace_row_def)
qed

lemma verified_verdict: "verified h now n ord \<Longrightarrow> notification_verdict h ord n = None \<and> \<not> order_stale h now ord \<and> o_status ord \<noteq> OrderPaid"
  by (auto simp: verified_def notification_verdict_def Let_def same_money_def order_stale_def order_states)

lemma verified_is_credited:
  assumes ok: "accounts_ok (store s)" and pl: "plan s = []" and row: "order_row (store s) (n_out_trade_no n) = Some ord"
    and v: "verified h now n ord" and pool: "0 < o_workspace_id ord \<longrightarrow> pool_balance (store s) (o_workspace_id ord) \<noteq> None"
  shows "\<exists>s'. apply_notification h now n src s = (Inr None, s') \<and> credited now n ord (store s) (store s')"
proof -
  obtain s1 where g: "get_order (n_out_trade_no n) s = (Inr ord, s1)" and s1: "store s1 = store s" "plan s1 = []"
    using row pl by (auto simp: get_order_def query_row_def stmt_def faulty_def tick_def)
  have no: "order_row (store s1) (o_out_trade_no ord) = Some ord" using order_row_no[OF row] row s1 by simp
  have st: "o_status ord = OrderPending" using v by (simp add: verified_def)
  have ok1: "accounts_ok (store s1)" and pool1: "0 < o_workspace_id ord \<longrightarrow> pool_balance (store s1) (o_workspace_id ord) \<noteq> None"
    using ok pool s1 by simp_all
  have "\<exists>s'. credit_order now ord n src s1 = (Inr None, s') \<and> credited now n ord (store s1) (store s')"
  proof (cases "0 < o_workspace_id ord")
    case True
    obtain bal s' where c: "credit_paid_order_to_workspace (unix_seconds now) (o_out_trade_no ord) (n_trade_no n) (o_workspace_id ord)
        (o_usd_credit ord) (o_out_trade_no ord) (topup_note ord src) s1 = (Inr bal, s')"
      using credit_pool_calm[OF ok1 s1(2) no st pool1[rule_format, OF True]] by blast
    with True have "credit_order now ord n src s1 = (Inr None, s')"
      by (simp add: credit_order_def Let_def bnd_def attempt_def ret_def credit_outcome_def)
    with credit_pool_effect[OF ok1 c] True no show ?thesis by (auto simp: credited_def)
  next
    case False
    obtain bal s' where c: "credit_paid_order (unix_seconds now) (o_out_trade_no ord) (n_trade_no n) (o_token ord)
        (o_usd_credit ord) (o_out_trade_no ord) (topup_note ord src) s1 = (Inr bal, s')"
      using credit_paid_order_calm[OF ok1 s1(2) no st] by blast
    with False have "credit_order now ord n src s1 = (Inr None, s')"
      by (simp add: credit_order_def Let_def bnd_def attempt_def ret_def credit_outcome_def)
    with credit_wallet_effect[OF ok1 c] False no show ?thesis by (auto simp: credited_def)
  qed
  then obtain s' where c: "credit_order now ord n src s1 = (Inr None, s')" "credited now n ord (store s1) (store s')" by blast
  have "apply_notification h now n src s = (Inr None, s')"
    using g c(1) verified_verdict[OF v] by (simp add: apply_notification_def bnd_def attempt_def)
  with c(2) s1 show ?thesis by auto
qed

text \<open>A small order table for the witnesses: the pending order \<open>t1\<close> of \<^theory_text>\<open>Workspace\<close>'s fleet.\<close>

definition demo_handler :: handler where
  "demo_handler = new_handler ''site'' Mock_gateway"

definition demo_notification :: notification where
  "demo_notification = \<lparr>n_out_trade_no = ''t1'', n_trade_no = ''z9'', n_trade_status = ''trade_success'',
     n_total_amount = ''14.00'', n_app_id = MockAppID\<rparr>"

definition demo_applied :: "(db_error + notify_error option) \<times> session" where
  "demo_applied = apply_notification demo_handler (1000 * second_ns) demo_notification ''test'' (fresh_session demo_db)"

definition demo_order :: alipay_order where
  "demo_order = hd (alipay_orders demo_db)"

lemma demo_row: "order_row demo_db (n_out_trade_no demo_notification) = Some demo_order"
  by (simp add: order_row_def demo_order_def demo_db_def demo_notification_def)

lemma demo_verified: "verified demo_handler (1000 * second_ns) demo_notification demo_order"
proof -
  have "trim_space (n_total_amount demo_notification) = ''14.00''" unfolding demo_notification_def
    by (simp, rule trim_space_printable) auto
  moreover have "parse_float ''14.00'' = Some 14"
    by (simp add: parse_float_def split_sign_def parse_unsigned_def has_prefix_def to_lower_def lower_char_def digit_value_def
        finite_float_def max_float_def)
  moreover have "0 < rnd (5 / 1000)" by code_simp
  moreover have "equal_fold ''trade_success'' ''TRADE_SUCCESS''" by code_simp
  ultimately show ?thesis
    by (simp add: verified_def demo_order_def demo_db_def OrderPending_def demo_handler_def new_handler_def demo_notification_def
        settled_status_def second_ns_def app_id_def)
qed

lemma demo_ok: "accounts_ok (store (fresh_session demo_db))"
  by (simp add: demo_fresh demo_accounts_ok)

lemma demo_applied_run:
  "apply_notification demo_handler (1000 * second_ns) demo_notification ''test'' (fresh_session demo_db) = (Inr None, snd demo_applied)"
  "credited (1000 * second_ns) demo_notification demo_order demo_db (store (snd demo_applied))"
proof -
  have "o_workspace_id demo_order = 0" by (simp add: demo_order_def demo_db_def)
  from verified_is_credited[OF demo_ok demo_fresh(2) _ demo_verified, unfolded demo_fresh, OF demo_row] this
  obtain s' where "apply_notification demo_handler (1000 * second_ns) demo_notification ''test'' (fresh_session demo_db) = (Inr None, s')"
    "credited (1000 * second_ns) demo_notification demo_order demo_db (store s')" by force
  then show "apply_notification demo_handler (1000 * second_ns) demo_notification ''test'' (fresh_session demo_db) = (Inr None, snd demo_applied)"
    "credited (1000 * second_ns) demo_notification demo_order demo_db (store (snd demo_applied))"
    by (simp_all add: demo_applied_def)
qed

lemma demo_applied_moved: "\<not> unmoved demo_db (store (snd demo_applied))"
proof
  assume u: "unmoved demo_db (store (snd demo_applied))"
  have "o_workspace_id demo_order = 0" "o_token demo_order = ''alice''" "o_usd_credit demo_order = 2"
    by (simp_all add: demo_order_def demo_db_def)
  with demo_applied_run(2) u have "wallet_funds demo_db ''alice'' = fadd (wallet_funds demo_db ''alice'') 2"
    by (simp add: credited_def unmoved_def) (metis fun_upd_same)
  moreover have "wallet_funds demo_db ''alice'' = 20" by code_simp
  ultimately show False by (simp add: fadd_def)
qed

theorem notification_moves_only_verified_money_witness:
  "\<exists>ord. order_row demo_db ''t1'' = Some ord \<and> verified demo_handler (1000 * second_ns) demo_notification ord \<and>
     credited (1000 * second_ns) demo_notification ord demo_db (store (snd demo_applied))"
proof -
  have "n_out_trade_no demo_notification = ''t1''" by (simp add: demo_notification_def)
  with notification_moves_only_verified_money[OF demo_ok demo_applied_run(1)] demo_applied_moved
  show ?thesis unfolding demo_fresh(1) by metis
qed

section \<open>At most once\<close>

lemma paid_order_is_quiet:
  assumes "order_row (store s) (n_out_trade_no n) = Some ord" "o_status ord = OrderPaid"
    and "apply_notification h now n src s = (r, s')"
  shows "store s' = store s"
proof -
  obtain x s1 where g: "get_order (n_out_trade_no n) s = (x, s1)" by fastforce
  have s1: "store s1 = store s" using g by (auto simp: get_order_def dest: read_onlyD[OF read_only_query_row])
  show ?thesis
  proof (cases x)
    case (Inl e)
    with assms(3) g s1 show ?thesis by (auto simp: apply_notification_def bnd_def attempt_def ret_def)
  next
    case (Inr ord')
    with g assms(1) have "ord' = ord" by (auto simp: get_order_def query_row_Inr)
    with assms g s1 Inr show ?thesis by (auto simp: apply_notification_def bnd_def attempt_def ret_def)
  qed
qed

text \<open>C9. Money follows an order once: after a notification that moved money, any notification that
  names the same order, whatever it claims, at any time, through any handler and with any driver
  failures, leaves the database as it is.\<close>

theorem order_moves_money_once:
  assumes "accounts_ok (store s)" and "apply_notification h now n src s = (r, s1)" and "\<not> unmoved (store s) (store s1)"
    and again: "apply_notification h2 now2 n2 src2 (s1\<lparr>plan := faults\<rparr>) = (r2, s2)" "n_out_trade_no n2 = n_out_trade_no n"
  shows "store s2 = store s1"
  using assms(1,2)
proof (cases rule: apply_notification_cases)
  case (Credited ord)
  then have no: "o_out_trade_no ord = n_out_trade_no n" using order_row_no by blast
  have "order_row (store (s1\<lparr>plan := faults\<rparr>)) (n_out_trade_no n2) =
      Some (ord\<lparr>o_status := OrderPaid, o_trade_no := n_trade_no n, o_paid_at := unix_seconds now\<rparr>)"
    using Credited(4) again(2) no by (simp add: credited_def)
  from paid_order_is_quiet[OF this _ again(1)] show ?thesis by simp
qed (use assms(3) in simp)

theorem order_moves_money_once_witness:
  "store (snd (apply_notification demo_handler (1001 * second_ns) demo_notification ''again'' ((snd demo_applied)\<lparr>plan := [True]\<rparr>))) =
     store (snd demo_applied)"
proof -
  let ?r = "apply_notification demo_handler (1001 * second_ns) demo_notification ''again'' ((snd demo_applied)\<lparr>plan := [True]\<rparr>)"
  have "?r = (fst ?r, snd ?r)" by simp
  from order_moves_money_once[OF demo_ok demo_applied_run(1) _ this refl] demo_applied_moved show ?thesis
    by (simp only: demo_fresh not_False_eq_True)
qed

section \<open>The rate limit\<close>

text \<open>Requests in the order they take the lock, each with its token; those that were let through.\<close>

fun run_creates :: "(int \<times> string) list \<Rightarrow> stamps \<Rightarrow> (int \<times> string) list" where
  "run_creates [] st = []"
| "run_creates ((now, tok) # rs) st = (case allow_create now tok st of ((ok, _), st') \<Rightarrow>
     if ok then (now, tok) # run_creates rs st' else run_creates rs st')"

definition grants_in :: "int \<Rightarrow> int list \<Rightarrow> nat" where
  "grants_in t gs = length (filter (\<lambda>g. t - hour_ns < g \<and> g \<le> t) gs)"

text \<open>What the stamps remember of the grants of a token, up to a time.\<close>

definition remembers :: "int \<Rightarrow> int list \<Rightarrow> int list \<Rightarrow> bool" where
  "remembers prev gs ts \<longleftrightarrow> (\<forall>g \<in> set gs. g \<le> prev) \<and>
     filter (\<lambda>g. prev - hour_ns < g) gs = filter (\<lambda>g. prev - hour_ns < g) ts \<and> (\<forall>t. grants_in t gs \<le> max_per_hour)"

lemma remembers_later:
  assumes "remembers prev gs ts" "prev \<le> now"
  shows "remembers now gs ts"
proof -
  have "filter (\<lambda>g. now - hour_ns < g) xs = filter (\<lambda>g. now - hour_ns < g) (filter (\<lambda>g. prev - hour_ns < g) xs)" for xs :: "int list"
    unfolding filter_filter by (rule filter_cong) (use assms(2) in auto)
  with assms show ?thesis unfolding remembers_def by (metis order_trans)
qed

lemma remembers_prune: "remembers now gs ts \<Longrightarrow> remembers now gs (filter (\<lambda>t. now - hour_ns < t) ts)"
  by (simp add: remembers_def)

lemma remembers_grant:
  assumes r: "remembers now gs ts" and few: "length (filter (\<lambda>t. now - hour_ns < t) ts) < max_per_hour"
  shows "remembers now (gs @ [now]) (filter (\<lambda>t. now - hour_ns < t) ts @ [now])"
proof -
  have "grants_in t (gs @ [now]) \<le> max_per_hour" for t
  proof (cases "now \<le> t \<and> t - hour_ns < now")
    case False
    then have "grants_in t (gs @ [now]) = grants_in t gs" by (auto simp: grants_in_def)
    with r show ?thesis by (simp add: remembers_def)
  next
    case True
    have "grants_in t gs = length (filter (\<lambda>g. t - hour_ns < g \<and> g \<le> t) (filter (\<lambda>g. now - hour_ns < g) gs))"
      unfolding grants_in_def filter_filter by (rule arg_cong[where f = length], rule filter_cong) (use True in auto)
    also have "\<dots> \<le> length (filter (\<lambda>g. now - hour_ns < g) gs)" by (rule length_filter_le)
    also have "\<dots> < max_per_hour" using r few by (simp add: remembers_def)
    finally show ?thesis using True by (simp add: grants_in_def)
  qed
  with r show ?thesis by (auto simp: remembers_def)
qed

lemma run_creates_limited:
  assumes "sorted (prev # map fst rs)" "remembers prev gs (st tok)"
  shows "grants_in t (gs @ map fst (filter (\<lambda>r. snd r = tok) (run_creates rs st))) \<le> max_per_hour"
  using assms
proof (induction rs arbitrary: prev gs st)
  case Nil
  then show ?case by (simp add: remembers_def)
next
  case (Cons r rs)
  obtain now k where r: "r = (now, k)" by (cases r)
  have srt: "sorted (now # map fst rs)" and le: "prev \<le> now" using Cons.prems(1) r by auto
  have rem: "remembers now gs (st tok)" by (rule remembers_later[OF Cons.prems(2) le])
  let ?kept = "filter (\<lambda>t. now - hour_ns < t) (st k)"
  show ?case
  proof (cases "max_per_hour \<le> length ?kept")
    case True
    have "remembers now gs ((st(k := ?kept)) tok)" using rem remembers_prune by (cases "k = tok") auto
    from Cons.IH[OF srt, where st = "st(k := ?kept)", OF this] True r show ?thesis by (simp add: allow_create_def Let_def fun_upd_def)
  next
    case few: False
    show ?thesis
    proof (cases "k = tok")
      case True
      have "remembers now (gs @ [now]) ((st(k := ?kept @ [now])) tok)"
        using remembers_grant[OF rem] few True by simp
      from Cons.IH[OF srt, where st = "st(k := ?kept @ [now])", OF this] few r True show ?thesis by (simp add: allow_create_def Let_def fun_upd_def)
    next
      case False
      then have "remembers now gs ((st(k := ?kept @ [now])) tok)" using rem by simp
      from Cons.IH[OF srt, where st = "st(k := ?kept @ [now])", OF this] few r False show ?thesis by (simp add: allow_create_def Let_def fun_upd_def)
    qed
  qed
qed

text \<open>However the requests of all tokens interleave, no token is let through to create more than
  ten orders within any hour, and a refused request is told to come back in at least a second and
  at most an hour.\<close>

theorem order_creation_is_limited:
  assumes "sorted (map fst reqs)"
  shows "grants_in t (map fst (filter (\<lambda>r. snd r = tok) (run_creates reqs (\<lambda>_. [])))) \<le> 10 \<and>
    (\<forall>now st retry st'. allow_create now tok st = ((False, retry), st') \<longrightarrow>
       1 \<le> retry \<and> (list_all (\<lambda>x. x \<le> now) (st tok) \<longrightarrow> retry \<le> 3600))"
proof
  obtain prev where prev: "sorted (prev # map fst reqs)"
    using assms by (cases reqs) (auto intro: that)
  have "remembers prev [] ((\<lambda>_. []) tok)" by (simp add: remembers_def grants_in_def)
  from run_creates_limited[OF prev this] show "grants_in t (map fst (filter (\<lambda>r. snd r = tok) (run_creates reqs (\<lambda>_. [])))) \<le> 10"
    by (simp add: max_per_hour_def)
  show "\<forall>now st retry st'. allow_create now tok st = ((False, retry), st') \<longrightarrow>
       1 \<le> retry \<and> (list_all (\<lambda>x. x \<le> now) (st tok) \<longrightarrow> retry \<le> 3600)"
  proof (intro allI impI)
    fix now st retry st' assume a: "allow_create now tok st = ((False, retry), st')"
    let ?kept = "filter (\<lambda>t. now - hour_ns < t) (st tok)"
    have many: "max_per_hour \<le> length ?kept" and r: "retry = max 1 ((hd ?kept + hour_ns - now) div second_ns)"
      using a by (auto simp: allow_create_def Let_def split: if_splits)
    from many have "?kept \<noteq> []" by (auto simp: max_per_hour_def)
    then have "hd ?kept \<in> set (st tok)" using hd_in_set[of ?kept] by simp
    moreover have "(hd ?kept + hour_ns - now) div second_ns \<le> 3600" if "hd ?kept \<le> now"
    proof -
      have "(hd ?kept + hour_ns - now) div second_ns \<le> hour_ns div second_ns"
        by (rule zdiv_mono1) (use that in \<open>simp_all add: second_ns_def\<close>)
      then show ?thesis by (simp add: hour_ns_def second_ns_def)
    qed
    ultimately show "1 \<le> retry \<and> (list_all (\<lambda>x. x \<le> now) (st tok) \<longrightarrow> retry \<le> 3600)"
      using r by (auto simp: list_all_iff)
  qed
qed

theorem order_creation_is_limited_witness:
  "grants_in 12 (map fst (filter (\<lambda>r. snd r = ''a'') (run_creates (map (\<lambda>i. (i, ''a'')) [1, 2, 3, 4, 5, 6, 7, 8, 9, 10, 11, 12]) (\<lambda>_. [])))) \<le> 10"
  by (rule conjunct1[OF order_creation_is_limited]) simp

section \<open>The mock gateway\<close>

lemma fmt_fixed_printable: "c \<in> set (fmt_fixed k x) \<Longrightarrow> 33 < (of_char c :: nat) \<and> (of_char c :: nat) < 127"
  by (auto simp: fmt_fixed_def Let_def split: if_splits dest!: nat_digits_decimal pad_digits_decimal simp: decimal_char_def)

lemma fmt_fixed_nonempty: "fmt_fixed k x \<noteq> []"
  by (simp add: fmt_fixed_def Let_def)

text \<open>An order's amount is a whole number of fen.\<close>

lemma billing_round2_fen:
  assumes "0 \<le> v" "v \<le> 1000000000"
  shows "\<exists>n. 0 \<le> n \<and> n \<le> 1000000000000 \<and> billing_round2 v = rnd (of_int n / 100)"
proof -
  define w where "w = fadd (fmul v 100) (1 / 2)"
  have m: "\<bar>fmul v 100 - v * 100\<bar> \<le> 1 / 16384" by (rule fop_close(3)) (use assms in simp)
  note m = m[unfolded abs_le_iff]
  have m0: "0 \<le> fmul v 100" using assms by (simp add: fmul_def rnd_nonneg)
  have "\<bar>w - (fmul v 100 + 1 / 2)\<bar> \<le> 1 / 16384" unfolding w_def by (rule fop_close(1)) (use assms m m0 in simp)
  then have w: "w \<le> 100000000003" using m assms unfolding abs_le_iff by simp
  have w0: "0 \<le> w" using m0 by (simp add: w_def fadd_nonneg)
  have n0: "0 \<le> to_int64 w" using to_int64_mono[OF w0] by (simp add: to_int64_def)
  have "to_int64 w \<le> to_int64 (of_int 100000000003)" by (rule to_int64_mono) (use w in simp)
  then have n1: "to_int64 w \<le> 100000000003" by (simp only: to_int64_of_int)
  have "rnd (of_int (to_int64 w)) = of_int (to_int64 w)" by (rule rnd_of_int) (use n0 n1 in simp)
  then have "billing_round2 v = rnd (of_int (to_int64 w) / 100)" by (simp add: billing_round2_def fdiv_def w_def)
  with n0 n1 show ?thesis by (intro exI[of _ "to_int64 w"]) simp
qed

lemma mock_verified:
  assumes "h_gateway h = Mock_gateway" "o_status ord = OrderPending" "o_cny_amount ord = billing_round2 v" "0 \<le> v" "v \<le> 1000000000"
    and "h_order_ttl h \<le> 0 \<or> now - o_created_at ord * second_ns \<le> h_order_ttl h"
  shows "verified h now (mock_notification ord) ord"
proof -
  obtain n where n: "0 \<le> n" "n \<le> 1000000000000" "o_cny_amount ord = rnd (of_int n / 100)"
    using billing_round2_fen[OF assms(4,5)] assms(3) by auto
  have "trim_space (fmt_fixed 2 (o_cny_amount ord)) = fmt_fixed 2 (o_cny_amount ord)"
    by (rule trim_space_printable[OF fmt_fixed_nonempty]) (rule fmt_fixed_printable)
  moreover have "parse_float (fmt_fixed 2 (o_cny_amount ord)) = Some (o_cny_amount ord)"
    unfolding n(3) by (rule money_text) (use n in auto)
  moreover have "0 < rnd (5 / 1000)" "settled_status ''TRADE_SUCCESS''" by (code_simp, simp add: settled_status_def equal_fold_def)
  ultimately show ?thesis using assms by (simp add: verified_def mock_notification_def app_id_def)
qed

text \<open>The mock gateway pays: with a sound driver, two seconds after an order of an amount the
  top-up endpoint prices, its owner's wallet, or the pool it names, has the credit.\<close>

theorem mock_order_is_credited:
  assumes "accounts_ok (store s)" "plan s = []" "h_gateway h = Mock_gateway"
    and "order_row (store s) out = Some ord" "o_status ord = OrderPending"
    and "o_cny_amount ord = billing_round2 v" "0 \<le> v" "v \<le> 1000000000"
    and "h_order_ttl h \<le> 0 \<or> now - o_created_at ord * second_ns \<le> h_order_ttl h"
    and "0 < o_workspace_id ord \<longrightarrow> pool_balance (store s) (o_workspace_id ord) \<noteq> None"
  shows "\<exists>s'. auto_confirm h now out s = (Inr (), s') \<and> credited now (mock_notification ord) ord (store s) (store s')"
proof -
  obtain s1 where g: "get_order out s = (Inr ord, s1)" and s1: "store s1 = store s" "plan s1 = []"
    using assms(2,4) by (auto simp: get_order_def query_row_def stmt_def faulty_def tick_def)
  have "order_row (store s1) (n_out_trade_no (mock_notification ord)) = Some ord"
    using order_row_no[OF assms(4)] assms(4) s1 by (simp add: mock_notification_def)
  with verified_is_credited[OF _ s1(2) this mock_verified] assms s1
  obtain s' where "apply_notification h now (mock_notification ord) ''mock-gateway'' s1 = (Inr None, s')"
    "credited now (mock_notification ord) ord (store s1) (store s')" by metis
  with g s1 show ?thesis by (auto simp: auto_confirm_def bnd_def attempt_def ret_def)
qed

theorem mock_order_is_credited_witness:
  "\<exists>s'. auto_confirm demo_handler (1000 * second_ns) ''t1'' (fresh_session demo_db) = (Inr (), s') \<and>
     wallet_funds (store s') ''alice'' = fadd (wallet_funds demo_db ''alice'') 2"
proof -
  have d: "o_status demo_order = OrderPending" "o_workspace_id demo_order = 0" "o_token demo_order = ''alice''"
    "o_usd_credit demo_order = 2" "o_created_at demo_order = 900" "o_cny_amount demo_order = 14"
    by (simp_all add: demo_order_def demo_db_def OrderPending_def)
  have amount: "o_cny_amount demo_order = billing_round2 14" unfolding d(6) by code_simp
  have row: "order_row (store (fresh_session demo_db)) ''t1'' = Some demo_order"
    using demo_row by (simp add: demo_fresh demo_notification_def)
  have gw: "h_gateway demo_handler = Mock_gateway" by (simp add: demo_handler_def new_handler_def)
  have "\<exists>s'. auto_confirm demo_handler (1000 * second_ns) ''t1'' (fresh_session demo_db) = (Inr (), s') \<and>
     credited (1000 * second_ns) (mock_notification demo_order) demo_order (store (fresh_session demo_db)) (store s')"
    by (rule mock_order_is_credited[OF demo_ok demo_fresh(2) gw row d(1) amount])
      (simp_all add: d demo_handler_def new_handler_def second_ns_def)
  then show ?thesis using d unfolding demo_fresh(1) credited_def by auto
qed

section \<open>Reconciliation through Z-Pay\<close>

lemma query_trade_fields:
  "zpay_query_trade um fetched = Inr n \<Longrightarrow> n_app_id n \<noteq> [] \<and> hd (n_app_id n) = CHR ''['' \<and> n_trade_status n \<noteq> ''credited''"
  by (auto simp: zpay_query_trade_def fmt_bytes_def split: sum.splits option.splits if_splits)

text \<open>C11. A reconciliation through Z-Pay moves no money, and never reports a credit of an order that
  is not paid: the query reports the merchant's id as the list of its bytes, which the check of
  the notification takes for another merchant's, unless the id itself begins with a bracket.\<close>

theorem reconciliation_through_zpay_moves_nothing:
  assumes "accounts_ok (store s)" "h_gateway h = ZPay_gateway g" "z_pid g \<noteq> []" "hd (z_pid g) \<noteq> CHR ''[''"
    and run: "reconcile_order h now um fetched s = (r, s')"
  shows "unmoved (store s) (store s') \<and> (r = Inr (Inr ''credited'') \<longrightarrow>
    (\<exists>no ord. order_row (store s) no = Some ord \<and> o_status ord = OrderPaid))"
proof (cases "query_trade um fetched (h_gateway h)")
  case (Inl e)
  with run show ?thesis by (auto simp: reconcile_order_def ret_def)
next
  case (Inr n)
  show ?thesis
  proof (cases "settled_status (n_trade_status n)")
    case False
    with run Inr query_trade_fields assms(2) show ?thesis by (auto simp: reconcile_order_def ret_def query_trade_def)
  next
    case True
    obtain e s1 where a: "apply_notification h now n ''admin-reconcile'' s = (e, s1)" by fastforce
    have s': "s' = s1" and r: "r = (case e of Inl x \<Rightarrow> Inl x | Inr None \<Rightarrow> Inr (Inr ''credited'') | Inr (Some x) \<Rightarrow> Inr (Inl (Apply_failed x)))"
      using run Inr True a by (auto simp: reconcile_order_def bnd_def ret_def split: sum.splits option.splits)
    have id: "n_app_id n \<noteq> []" "n_app_id n \<noteq> z_pid g"
      using query_trade_fields[of um fetched n] Inr assms(2-4) by (auto simp: query_trade_def)
    then have nv: "\<not> verified h now n ord" for ord using assms(2,3) by (auto simp: verified_def app_id_def)
    have "unmoved (store s) (store s')" using assms(1) a unfolding s' by (cases rule: apply_notification_cases) (use nv in auto)
    moreover have "\<exists>ord. order_row (store s) (n_out_trade_no n) = Some ord \<and> o_status ord = OrderPaid" if "e = Inr None"
    proof -
      obtain x s0 where g: "get_order (n_out_trade_no n) s = (x, s0)" by fastforce
      have nv: "\<exists>y. notification_verdict h ord n = Some y" for ord
        using id assms(2,3) by (auto simp: notification_verdict_def Let_def app_id_def)
      have "\<exists>ord. x = Inr ord \<and> o_status ord = OrderPaid"
      proof (cases x)
        case (Inl y)
        with a that g show ?thesis by (simp add: apply_notification_def bnd_def attempt_def ret_def)
      next
        case (Inr ord)
        with a that g nv[of ord] show ?thesis
          by (auto simp: apply_notification_def bnd_def attempt_def ret_def split: if_splits)
      qed
      then obtain ord where "x = Inr ord" "o_status ord = OrderPaid" by blast
      with g show ?thesis by (auto simp: get_order_def query_row_Inr)
    qed
    ultimately show ?thesis using r by (auto split: sum.splits option.splits)
  qed
qed

definition demo_zpay_handler :: handler where
  "demo_zpay_handler = new_handler ''site'' (ZPay_gateway demo_gateway)"

definition demo_query :: "string \<Rightarrow> query_response option" where
  "demo_query _ = Some \<lparr>qr_code = ''1'', qr_msg = [], qr_trade_no = ''z9'', qr_out_trade_no = ''t1'', qr_pid = ''20260101'',
     qr_money = ''14.00'', qr_status = ''1''\<rparr>"

theorem reconciliation_through_zpay_moves_nothing_witness:
  "unmoved demo_db (store (snd (reconcile_order demo_zpay_handler (1000 * second_ns) demo_query (Inr []) (fresh_session demo_db))))"
proof -
  let ?r = "reconcile_order demo_zpay_handler (1000 * second_ns) demo_query (Inr []) (fresh_session demo_db)"
  have run: "?r = (fst ?r, snd ?r)" by simp
  show ?thesis
    using reconciliation_through_zpay_moves_nothing[OF demo_ok _ _ _ run, of demo_gateway] unfolding demo_fresh(1)
    by (simp add: demo_zpay_handler_def new_handler_def demo_gateway_def)
qed

section \<open>Opening an order\<close>

lemma create_order_store:
  "create_order t ord s = (r, s') \<Longrightarrow> (case r of Inl _ \<Rightarrow> store s' = store s
   | Inr _ \<Rightarrow> order_row (store s) (o_out_trade_no ord) = None \<and> store s' = (store s)\<lparr>alipay_orders := alipay_orders (store s) @
       [ord\<lparr>o_status := OrderPending, o_trade_no := [], o_created_at := t, o_paid_at := 0\<rparr>]\<rparr>)"
  by (auto simp: create_order_def stmt_def insert_order_def split: if_splits)

lemma unmoved_orders: "unmoved d d' \<Longrightarrow> unmoved d (d'\<lparr>alipay_orders := os\<rparr>)"
  by (simp add: unmoved_def fun_eq_iff wallet_funds_def wallet_balance_def wallet_row_def pool_balance_def workspace_row_def)

text \<open>The order a top-up opens.\<close>

definition opened_order :: "int \<Rightarrow> string \<Rightarrow> int \<Rightarrow> float64 \<Rightarrow> float64 \<Rightarrow> db \<Rightarrow> db \<Rightarrow> bool" where
  "opened_order now initiator wsid usd rate d d' \<longleftrightarrow> (\<exists>ord. alipay_orders d' = alipay_orders d @ [ord] \<and>
     order_row d (o_out_trade_no ord) = None \<and> o_status ord = OrderPending \<and> o_token ord = initiator \<and>
     o_workspace_id ord = wsid \<and> o_usd_credit ord = usd \<and> o_rate ord = rate \<and>
     o_cny_amount ord = billing_round2 (fmul usd rate) \<and> o_created_at ord = unix_seconds now)"

lemma place_order_cases:
  assumes "place_order h env now initiator wsid usd rate out s = (r, s')"
  obtains (Failed) e where "r = Inr (500, Inl e)" "store s' = store s"
  | (Opened) rep where "r = Inr (200, Inr rep)" "unmoved (store s) (store s')"
      "opened_order now initiator wsid usd rate (store s) (store s')"
proof (cases "create_payment env (h_gateway h) \<lparr>p_out_trade_no = out, p_subject = topup_subject h wsid usd,
             p_total_cny = billing_round2 (fmul usd rate), p_method = ''alipay'', p_client_ip = te_client_ip env\<rparr>")
  case (Inl e)
  with assms show thesis by (intro Failed) (auto simp: place_order_def Let_def ret_def)
next
  case (Inr pr)
  let ?ord = "\<lparr>o_out_trade_no = out, o_token = initiator, o_cny_amount = billing_round2 (fmul usd rate), o_usd_credit = usd,
     o_rate = rate, o_status = [], o_trade_no = [], o_qr_code = te_marshal_pay env pr, o_workspace_id = wsid, o_created_at = 0, o_paid_at = 0\<rparr>"
  obtain x s1 where c: "create_order (unix_seconds now) ?ord s = (x, s1)" by fastforce
  with assms Inr have s': "s' = s1" and r: "r = (case x of Inl e \<Rightarrow> Inr (500, Inl (Topup_store e)) | Inr _ \<Rightarrow> Inr (200, Inr
      \<lparr>tr_out_trade_no = out, tr_cny_amount = billing_round2 (fmul usd rate), tr_usd_credit = usd, tr_rate = rate, tr_surface = pr\<rparr>))"
    by (auto simp: place_order_def Let_def bnd_def attempt_def ret_def split: sum.splits)
  note st = create_order_store[OF c]
  show thesis
  proof (cases x)
    case (Inl e)
    with st r s' show thesis by (intro Failed) auto
  next
    case (Inr u)
    with st s' have "unmoved (store s) (store s')" "opened_order now initiator wsid usd rate (store s) (store s')"
      by (auto simp: opened_order_def intro: unmoved_orders)
    with r Inr show thesis by (auto intro: Opened)
  qed
qed

lemma unmoved_trans: "unmoved a b \<Longrightarrow> unmoved b c \<Longrightarrow> unmoved a c"
  by (simp add: unmoved_def)

lemma ensured_orders: "ensured now tok d d' \<Longrightarrow> alipay_orders d' = alipay_orders d"
  by (auto simp: ensured_def wallet_open_def)

lemma open_order_cases:
  assumes run: "open_order h env rc now initiator wsid usd s = (r, s')"
  obtains (Failed) status e where "r = Inr (status, Inl e)" "status \<noteq> 200" "unmoved (store s) (store s')"
      "alipay_orders (store s') = alipay_orders (store s)"
  | (Opened) rep where "r = Inr (200, Inr rep)" "unmoved (store s) (store s')"
      "opened_order now initiator wsid usd (cny_per_usd rc) (store s) (store s')"
proof -
  obtain pending s1 where p: "or_zero 0 (count_pending_orders initiator) s = (Inr pending, s1)"
    by (cases "faulty s") (auto simp: or_zero_def bnd_def attempt_def ret_def count_pending_orders_def query_def stmt_def)
  have s1: "store s1 = store s"
    using p by (auto dest!: read_onlyD[rotated] simp: count_pending_orders_def intro!: atomic_intros)
  show thesis
  proof (cases "h_max_pending h \<le> pending")
    case True
    with run p s1 show thesis by (intro Failed) (auto simp: open_order_def bnd_def ret_def)
  next
    case False
    obtain x s2 where e: "ensure_wallet (unix_seconds now) initiator s1 = (x, s2)" by fastforce
    have ens: "ensured (unix_seconds now) initiator (store s) (store s2)" using ensure_wallet_ensured[OF e] s1 by simp
    note u = unmoved_ensured[OF ens] and ords = ensured_orders[OF ens]
    show thesis
    proof (cases "\<exists>w. x = Inr w \<and> gen_out_trade_no env now initiator \<noteq> None")
      case False
      with \<open>\<not> h_max_pending h \<le> pending\<close> run p e have "\<exists>status er. r = Inr (status, Inl er) \<and> status \<noteq> 200 \<and> s' = s2"
        by (auto simp: open_order_def bnd_def attempt_def ret_def split: sum.splits option.splits)
      then show thesis using u ords by (auto intro: that(1))
    next
      case True
      then obtain w out where x: "x = Inr w" "gen_out_trade_no env now initiator = Some out" by blast
      have "place_order h env now initiator wsid usd (cny_per_usd rc) out s2 = (r, s')"
        using run p e x False by (simp add: open_order_def bnd_def attempt_def)
      then show thesis
      proof (cases rule: place_order_cases)
        case (Failed er)
        then show thesis using that(1) u ords by simp
      next
        case (Opened rep)
        have "order_row (store s2) = order_row (store s)" using ords by (simp add: fun_eq_iff order_row_def)
        then show thesis using that(2) Opened unmoved_trans[OF u] ords by (auto simp: opened_order_def)
      qed
    qed
  qed
qed

text \<open>A top-up request moves no money. Answered 200 it has added one pending order, under a number
  no order had, for between one and a thousand dollars, at the cached rate and in whole fen, owned
  by the initiator and naming the workspace it funds; answered otherwise the orders are as before.\<close>

theorem topup_opens_one_pending_order:
  assumes run: "create_topup h env rc now initiator wsid usd st s = (r, s')"
  shows "unmoved (store s) (store s') \<and> (\<exists>status res st'. r = Inr ((status, res), st') \<and>
    (case res of Inl _ \<Rightarrow> status \<noteq> 200 \<and> alipay_orders (store s') = alipay_orders (store s)
     | Inr _ \<Rightarrow> status = 200 \<and> 1 \<le> usd \<and> usd \<le> 1000 \<and>
         opened_order now initiator wsid usd (cny_per_usd rc) (store s) (store s')))"
proof -
  obtain allowed retry st' where a: "allow_create now initiator st = ((allowed, retry), st')" by (metis prod.collapse)
  show ?thesis
  proof (cases "usd < 1 \<or> 1000 < usd \<or> \<not> allowed")
    case True
    with run a show ?thesis by (auto simp: create_topup_def ret_def split: if_splits)
  next
    case False
    obtain x s1 where ord: "open_order h env rc now initiator wsid usd s = (x, s1)" by fastforce
    show ?thesis using ord
    proof (cases rule: open_order_cases)
      case (Failed status e)
      with run a False ord show ?thesis by (auto simp: create_topup_def bnd_def ret_def)
    next
      case (Opened rep)
      with run a False ord show ?thesis by (auto simp: create_topup_def bnd_def ret_def)
    qed
  qed
qed

theorem topup_opens_one_pending_order_witness:
  "unmoved demo_db (store (snd (create_topup demo_handler demo_env (new_rate [] 7) 0 ''alice'' 0 5 (\<lambda>_. []) (fresh_session demo_db))))"
proof -
  let ?r = "create_topup demo_handler demo_env (new_rate [] 7) 0 ''alice'' 0 5 (\<lambda>_. []) (fresh_session demo_db)"
  have "?r = (fst ?r, snd ?r)" by simp
  from topup_opens_one_pending_order[OF this] show ?thesis by (simp only: demo_fresh)
qed

end
