(* ===== verification/CodexSession.thy ===== *)
theory CodexSession
  imports Topup
begin

text \<open>
  Naming the conversation of a request (\<open>internal/server/relay_fanout.go\<close>) and keeping it on one
  credential and one upstream session (\<open>internal/server/codex_session.go\<close>). The decoding of JSON,
  the client's account key and cc-core's \<open>SessionID\<close> are arguments. A store is a map with the
  clock read by its operations as an argument; the janitor is an operation of the store.
\<close>

section \<open>The anchor of a conversation\<close>

record anchor_peek =
  prompt_cache_key :: string
  meta_session_id :: string
  meta_thread_id :: string
  conversation_id :: string
  previous_response_id :: string
  meta_user_id :: string
  peek_input :: string
  peek_messages :: string

text \<open>\<open>json.Unmarshal\<close> into an \<open>anchorPeek\<close>, a string, a list of role and raw content; none is an error.\<close>

record anchor_json =
  decode_peek :: "string \<Rightarrow> anchor_peek option"
  decode_text :: "string \<Rightarrow> string option"
  decode_items :: "string \<Rightarrow> (string \<times> string) list option"

datatype anchor_source = AnchorNone | AnchorCacheKey | AnchorMetadata | AnchorContent | AnchorChainNoSession

fun first_item :: "(string \<times> string) list \<Rightarrow> string" where
  "first_item [] = []"
| "first_item ((role, content) # items) = (if role = ''user'' \<and> content \<noteq> [] then content else first_item items)"

definition first_user_content :: "anchor_json \<Rightarrow> string \<Rightarrow> string" where
  "first_user_content js raw = (if raw = [] then [] else
     case decode_text js raw of Some s \<Rightarrow> s
     | None \<Rightarrow> (case decode_items js raw of None \<Rightarrow> [] | Some items \<Rightarrow> first_item items))"

definition first_set :: "string list \<Rightarrow> string" where
  "first_set xs = (case filter (\<lambda>s. s \<noteq> []) xs of [] \<Rightarrow> [] | s # _ \<Rightarrow> s)"

definition conversation_anchor_of :: "anchor_json \<Rightarrow> string \<Rightarrow> bool \<Rightarrow> string \<times> anchor_source" where
  "conversation_anchor_of js body user_id =
     (if body = [] then ([], AnchorNone) else case decode_peek js body of None \<Rightarrow> ([], AnchorNone) | Some p \<Rightarrow>
      if prompt_cache_key p \<noteq> [] then (prompt_cache_key p, AnchorCacheKey) else
      let ids = [meta_session_id p, meta_thread_id p, conversation_id p] @ (if user_id then [meta_user_id p] else []);
          x = first_set ids in
      if x \<noteq> [] then (x, AnchorMetadata) else
      if previous_response_id p \<noteq> [] then ([], AnchorChainNoSession) else
      let a = first_set (map (first_user_content js) [peek_input p, peek_messages p]) in
      if a \<noteq> [] then (a, AnchorContent) else ([], AnchorNone))"

definition conversation_anchor :: "anchor_json \<Rightarrow> string \<Rightarrow> string \<times> anchor_source" where
  "conversation_anchor js body = conversation_anchor_of js body True"

definition codex_conversation_anchor :: "anchor_json \<Rightarrow> string \<Rightarrow> string \<times> anchor_source" where
  "codex_conversation_anchor js body = conversation_anchor_of js body False"

section \<open>Counting the sources\<close>

definition anchor_index :: "anchor_source \<Rightarrow> nat" where
  "anchor_index s = (case s of AnchorNone \<Rightarrow> 0 | AnchorCacheKey \<Rightarrow> 1 | AnchorMetadata \<Rightarrow> 2 | AnchorContent \<Rightarrow> 3 | AnchorChainNoSession \<Rightarrow> 4)"

definition anchor_source_names :: "string list" where
  "anchor_source_names = [''none'', ''prompt_cache_key'', ''client_metadata'', ''first_user_message'', ''response_chain(no session)'']"

record anchor_stats =
  as_label :: string
  as_counts :: "64 word list"
  as_since :: int

definition new_anchor_stats :: "string \<Rightarrow> anchor_stats" where
  "new_anchor_stats label = \<lparr>as_label = label, as_counts = replicate 5 0, as_since = zero_time\<rparr>"

definition tally_line :: "string \<Rightarrow> 64 word list \<Rightarrow> string option" where
  "tally_line label counts = (let shown = filter (\<lambda>(name, n). n \<noteq> 0) (zip anchor_source_names counts) in
     if 0 < sum_list (map snd shown)
     then Some (''fanout: '' @ label @ '' anchors over the last minute: '' @
       join_with '' '' (map (\<lambda>(name, n). name @ ''='' @ nat_digits (unat n)) shown)) else None)"

definition record_anchor :: "int \<Rightarrow> anchor_source \<Rightarrow> anchor_stats \<Rightarrow> anchor_stats \<times> string option" where
  "record_anchor now src st =
     (let i = anchor_index src; counts = (as_counts st)[i := as_counts st ! i + 1];
          since = (if as_since st = zero_time then now else as_since st) in
      if now - since < 60 * second_ns then (st\<lparr>as_counts := counts, as_since := since\<rparr>, None)
      else (st\<lparr>as_counts := replicate 5 0, as_since := now\<rparr>, tally_line (as_label st) counts))"

section \<open>Scheduler slots of a caller without sessions\<close>

definition fnv1a64 :: "string \<Rightarrow> 64 word" where
  "fnv1a64 = fnv_fold 14695981039346656037"

definition sessionlessFanoutWidth :: int where "sessionlessFanoutWidth = 8"

definition fanout_slot_id :: "anchor_json \<Rightarrow> int \<Rightarrow> string \<Rightarrow> int \<Rightarrow> anchor_stats \<Rightarrow> string \<times> anchor_stats" where
  "fanout_slot_id js now body width st = (if width \<le> 1 then ([], st) else
     case conversation_anchor js body of (anchor, src) \<Rightarrow>
     let st = fst (record_anchor now src st) in
     if anchor = [] then ([], st)
     else (''fanout-'' @ nat_digits (unat (fnv1a64 anchor mod word_of_int width)), st))"

section \<open>The upstream session\<close>

text \<open>The text that cc-core turns into a session id.\<close>

definition session_anchor :: "string \<Rightarrow> string \<Rightarrow> string \<Rightarrow> string \<Rightarrow> string" where
  "session_anchor account token slot conv = account @ ''|'' @ token @ ''|'' @ slot @ ''|'' @ conv"

definition codex_upstream_session_id :: "(string \<Rightarrow> string) \<Rightarrow> anchor_json \<Rightarrow> int \<Rightarrow> string \<Rightarrow> string \<Rightarrow> string \<Rightarrow> string \<Rightarrow>
    anchor_stats \<Rightarrow> string \<times> anchor_stats" where
  "codex_upstream_session_id session_id_of js now account token slot body st =
     (case codex_conversation_anchor js body of (conv, src) \<Rightarrow>
      (session_id_of (session_anchor account token slot conv), fst (record_anchor now src st)))"

section \<open>The account that holds a response\<close>

record resp_account_entry =
  ra_auth_id :: string
  ra_exp :: int

record resp_account_store =
  rs_entries :: "string \<rightharpoonup> resp_account_entry"
  rs_ttl :: int

definition codexRespAccountTTL :: int where "codexRespAccountTTL = 3600 * second_ns"

definition new_resp_account_store :: "int \<Rightarrow> resp_account_store" where
  "new_resp_account_store ttl = \<lparr>rs_entries = (\<lambda>_. None), rs_ttl = (if ttl \<le> 0 then codexRespAccountTTL else ttl)\<rparr>"

definition codex_resp_key :: "string \<Rightarrow> string \<Rightarrow> string" where
  "codex_resp_key grp resp = grp @ ''|'' @ resp"

definition bind_resp :: "int \<Rightarrow> string \<Rightarrow> string \<Rightarrow> string \<Rightarrow> resp_account_store \<Rightarrow> resp_account_store" where
  "bind_resp now grp resp auth s = (if resp = [] \<or> auth = [] then s else
     s\<lparr>rs_entries := (rs_entries s)(codex_resp_key grp resp \<mapsto> \<lparr>ra_auth_id = auth, ra_exp = now + rs_ttl s\<rparr>)\<rparr>)"

definition get_resp :: "int \<Rightarrow> string \<Rightarrow> string \<Rightarrow> resp_account_store \<Rightarrow> string option" where
  "get_resp now grp resp s = (if resp = [] then None else
     case rs_entries s (codex_resp_key grp resp) of None \<Rightarrow> None
     | Some e \<Rightarrow> if ra_exp e < now then None else Some (ra_auth_id e))"

definition janitor_tick :: "int \<Rightarrow> resp_account_store \<Rightarrow> resp_account_store" where
  "janitor_tick now s = s\<lparr>rs_entries := (\<lambda>k. case rs_entries s k of None \<Rightarrow> None | Some e \<Rightarrow> if ra_exp e < now then None else Some e)\<rparr>"


section \<open>What the names guarantee\<close>

lemma fanout_slot_mem:
  "fst (fanout_slot_id js now body sessionlessFanoutWidth st) \<in> insert [] ((\<lambda>k. ''fanout-'' @ nat_digits k) ` {..<8})"
proof (cases "conversation_anchor js body")
  case (Pair anchor src)
  have "unat (w mod 8) < 8" for w :: "64 word" by (simp add: unat_mod)
  then show ?thesis by (simp add: fanout_slot_id_def sessionlessFanoutWidth_def Let_def Pair)
qed

text \<open>A caller without sessions occupies at most as many scheduler slots as the fan-out is wide,
  besides the empty one, whatever bodies it sends: the slots of all bodies together are few.\<close>

theorem fanout_slots_are_bounded:
  "finite {fst (fanout_slot_id js now body sessionlessFanoutWidth st) |js now body st. True} \<and>
   card {fst (fanout_slot_id js now body sessionlessFanoutWidth st) |js now body st. True} \<le> 9"
proof -
  let ?S = "insert [] ((\<lambda>k. ''fanout-'' @ nat_digits k) ` {..<8})"
  have "fst (fanout_slot_id js now body sessionlessFanoutWidth st) \<in> ?S" for js now body st
    by (rule fanout_slot_mem)
  then have "{fst (fanout_slot_id js now body sessionlessFanoutWidth st) |js now body st. True} \<subseteq> ?S" by blast
  moreover have "card ?S \<le> 9"
    using card_image_le[of "{..<8}" "\<lambda>k. ''fanout-'' @ nat_digits k"] by (simp add: card_insert_if)
  moreover have "finite ?S" by simp
  ultimately show ?thesis by (meson card_mono finite_subset le_trans)
qed

text \<open>A turn that continues a response chain and names no session of its own gets no slot and an
  anchor of its own content is never used for it, in either dialect; a turn that carries its
  client's cache key keeps one anchor, and so one slot, whatever else the body holds.\<close>

lemma anchor_prefers_the_clients_own_id:
  assumes "body \<noteq> []" "decode_peek js body = Some p"
  shows "(prompt_cache_key p = [] \<and> meta_session_id p = [] \<and> meta_thread_id p = [] \<and> conversation_id p = [] \<and>
       previous_response_id p \<noteq> [] \<longrightarrow>
       codex_conversation_anchor js body = ([], AnchorChainNoSession) \<and>
       (meta_user_id p = [] \<longrightarrow> fst (fanout_slot_id js now body width st) = [])) \<and>
    (prompt_cache_key p \<noteq> [] \<longrightarrow>
       codex_conversation_anchor js body = (prompt_cache_key p, AnchorCacheKey) \<and>
       conversation_anchor js body = (prompt_cache_key p, AnchorCacheKey))"
  using assms by (auto simp: codex_conversation_anchor_def conversation_anchor_def conversation_anchor_of_def
      fanout_slot_id_def first_set_def Let_def)

definition chain_peek :: anchor_peek where
  "chain_peek = \<lparr>prompt_cache_key = [], meta_session_id = [], meta_thread_id = [], conversation_id = [],
     previous_response_id = ''resp_1'', meta_user_id = [], peek_input = ''hi'', peek_messages = []\<rparr>"

definition chain_json :: anchor_json where
  "chain_json = \<lparr>decode_peek = (\<lambda>_. Some chain_peek), decode_text = (\<lambda>_. None), decode_items = (\<lambda>_. None)\<rparr>"

definition session_text :: "anchor_json \<Rightarrow> string \<Rightarrow> string \<Rightarrow> string \<Rightarrow> string \<Rightarrow> string" where
  "session_text js account token slot body = session_anchor account token slot (fst (codex_conversation_anchor js body))"

text \<open>C23. The upstream session of a turn is cc-core's id of one text: credential, client token, slot and conversation.
  Two tenants never give cc-core the same text, however they choose their slots and bodies, so long as neither the keys of
  the credentials nor the tokens hold a bar; one tenant gives the same text exactly if slot and conversation read the
  same. So two tenants share an upstream session only if cc-core gives one id to two texts.\<close>

theorem sessions_separate_tenants:
  assumes "CHR ''|'' \<notin> set account" "CHR ''|'' \<notin> set account'" "CHR ''|'' \<notin> set token" "CHR ''|'' \<notin> set token'"
  shows "fst (codex_upstream_session_id session_id_of js now account token slot body st) = session_id_of (session_text js account token slot body) \<and>
    fst (codex_upstream_session_id session_id_of js' now' account' token' slot' body' st') = session_id_of (session_text js' account' token' slot' body') \<and>
    (session_text js account token slot body = session_text js' account' token' slot' body' \<longleftrightarrow> account = account' \<and> token = token' \<and>
       slot @ ''|'' @ fst (codex_conversation_anchor js body) = slot' @ ''|'' @ fst (codex_conversation_anchor js' body'))"
proof -
  let ?text = "session_text js account token slot body" and ?text' = "session_text js' account' token' slot' body'"
  have "?text = ?text' \<longleftrightarrow> account = account' \<and> token @ CHR ''|'' # slot @ ''|'' @ fst (codex_conversation_anchor js body) =
      token' @ CHR ''|'' # slot' @ ''|'' @ fst (codex_conversation_anchor js' body')"
    using split_at_char[OF assms(1,2)] by (auto simp: session_text_def session_anchor_def)
  then have "?text = ?text' \<longleftrightarrow> account = account' \<and> token = token' \<and>
       slot @ ''|'' @ fst (codex_conversation_anchor js body) = slot' @ ''|'' @ fst (codex_conversation_anchor js' body')"
    using split_at_char[OF assms(3,4)] by auto
  then show ?thesis by (simp add: codex_upstream_session_id_def session_text_def split: prod.split)
qed

text \<open>Two tokens on one credential in one conversation, with ids of one byte.\<close>

theorem sessions_separate_tenants_witness:
  "fst (codex_upstream_session_id (\<lambda>s. [char_of (sum_list (map of_char s) mod 256 :: nat)]) chain_json 0 ''acct'' ''tok1'' ''s'' ''{}'' (new_anchor_stats [])) \<noteq>
   fst (codex_upstream_session_id (\<lambda>s. [char_of (sum_list (map of_char s) mod 256 :: nat)]) chain_json 0 ''acct'' ''tok2'' ''s'' ''{}'' (new_anchor_stats [])) \<and>
   session_text chain_json ''acct'' ''tok1'' ''s'' ''{}'' \<noteq> session_text chain_json ''acct'' ''tok2'' ''s'' ''{}''"
proof -
  let ?h = "\<lambda>s. [char_of (sum_list (map of_char s) mod 256 :: nat)]"
  have ids: "?h (session_text chain_json ''acct'' ''tok1'' ''s'' ''{}'') \<noteq> ?h (session_text chain_json ''acct'' ''tok2'' ''s'' ''{}'')" by code_simp
  from sessions_separate_tenants[of "''acct''" "''acct''" "''tok1''" "''tok2''" ?h chain_json 0 "''s''" "''{}''" "new_anchor_stats []" chain_json 0 "''s''" "''{}''"
      "new_anchor_stats []"] ids
  show ?thesis by simp
qed

section \<open>The store against its history\<close>

datatype chain_event = Bound int string string string | Swept int

text \<open>Events newest first.\<close>

fun chain_store :: "int \<Rightarrow> chain_event list \<Rightarrow> resp_account_store" where
  "chain_store ttl [] = new_resp_account_store ttl"
| "chain_store ttl (Bound now grp resp auth # es) = bind_resp now grp resp auth (chain_store ttl es)"
| "chain_store ttl (Swept now # es) = janitor_tick now (chain_store ttl es)"

text \<open>What a caller is promised: the newest binding of the response in the group.\<close>

fun newest_binding :: "string \<Rightarrow> string \<Rightarrow> chain_event list \<Rightarrow> (string \<times> int) option" where
  "newest_binding grp resp [] = None"
| "newest_binding grp resp (Bound now g r auth # es) =
     (if g = grp \<and> r = resp \<and> r \<noteq> [] \<and> auth \<noteq> [] then Some (auth, now) else newest_binding grp resp es)"
| "newest_binding grp resp (Swept now # es) = newest_binding grp resp es"

definition plain_groups :: "chain_event list \<Rightarrow> bool" where
  "plain_groups es = list_all (\<lambda>e. case e of Bound _ g _ _ \<Rightarrow> CHR ''|'' \<notin> set g | Swept _ \<Rightarrow> True) es"

definition swept_by :: "int \<Rightarrow> chain_event list \<Rightarrow> bool" where
  "swept_by now es = list_all (\<lambda>e. case e of Bound _ _ _ _ \<Rightarrow> True | Swept t \<Rightarrow> t \<le> now) es"

lemma chain_store_ttl: "rs_ttl (chain_store ttl es) = (if ttl \<le> 0 then codexRespAccountTTL else ttl)"
proof (induction es)
  case (Cons e es)
  then show ?case by (cases e) (simp_all add: bind_resp_def janitor_tick_def)
qed (simp add: new_resp_account_store_def)

lemma get_bind:
  assumes "CHR ''|'' \<notin> set g" "CHR ''|'' \<notin> set grp"
  shows "get_resp now grp resp (bind_resp t g r auth s) =
    (if g = grp \<and> r = resp \<and> r \<noteq> [] \<and> auth \<noteq> [] then (if t + rs_ttl s < now then None else Some auth)
     else get_resp now grp resp s)"
  using split_at_char[OF assms, of r resp] by (auto simp: get_resp_def bind_resp_def codex_resp_key_def)

lemma get_swept: "t \<le> now \<Longrightarrow> get_resp now grp resp (janitor_tick t s) = get_resp now grp resp s"
  by (auto simp: get_resp_def janitor_tick_def split: option.splits)

text \<open>C22. The store answers as its history: with group names that hold no bar, looking a response
  up gives the account of its newest binding in the same group while that binding lives, and
  nothing otherwise, whatever other groups bound and however often the janitor ran.\<close>

theorem response_store_refines_history:
  assumes "plain_groups es" "CHR ''|'' \<notin> set grp" "swept_by now es"
  shows "get_resp now grp resp (chain_store ttl es) =
    (case newest_binding grp resp es of None \<Rightarrow> None
     | Some (auth, t) \<Rightarrow> if t + (if ttl \<le> 0 then codexRespAccountTTL else ttl) < now then None else Some auth)"
  using assms(1,3)
proof (induction es)
  case Nil
  show ?case by (simp add: get_resp_def new_resp_account_store_def)
next
  case (Cons e es)
  then have IH: "get_resp now grp resp (chain_store ttl es) =
    (case newest_binding grp resp es of None \<Rightarrow> None
     | Some (auth, t) \<Rightarrow> if t + (if ttl \<le> 0 then codexRespAccountTTL else ttl) < now then None else Some auth)"
    by (simp add: plain_groups_def swept_by_def)
  show ?case
  proof (cases e)
    case (Bound t g r auth)
    then have "CHR ''|'' \<notin> set g" using Cons.prems by (simp add: plain_groups_def)
    note get = get_bind[OF this assms(2)]
    show ?thesis
    proof (cases "g = grp \<and> r = resp \<and> r \<noteq> [] \<and> auth \<noteq> []")
      case True
      then have "resp \<noteq> []" by blast
      then show ?thesis using True get by (simp add: Bound chain_store_ttl)
    next
      case False
      then have "newest_binding grp resp (e # es) = newest_binding grp resp es" by (auto simp: Bound)
      with False get IH show ?thesis by (simp only: Bound chain_store.simps if_False)
    qed
  next
    case (Swept t)
    then have "t \<le> now" using Cons.prems by (simp add: swept_by_def)
    from get_swept[OF this] Swept IH show ?thesis by simp
  qed
qed

theorem response_store_refines_history_witness:
  "get_resp 5 ''b'' ''r'' (chain_store 10 [Swept 4, Bound 3 ''a'' ''r'' ''x'', Bound 1 ''b'' ''r'' ''y'']) = Some ''y''"
  using response_store_refines_history[of "[Swept 4, Bound 3 ''a'' ''r'' ''x'', Bound 1 ''b'' ''r'' ''y'']" "''b''" 5 "''r''" 10]
  by (simp add: plain_groups_def swept_by_def)

end
