(* ===== verification/ModelGuard.thy ===== *)
theory ModelGuard
  imports ZPay
begin

text \<open>
  The Codex model guard (\<open>internal/server/codex_model_guard.go\<close>): whether a requested model
  can be served by the pool's subscriptions, needs an API key, or is refused with the nearest
  name that exists. A Go \<open>map[string]bool\<close> used as a set is the list of its keys. The plan
  tiers, the context-mode suffix and the relays' answers belong to cc-core and the network and
  are arguments.
\<close>

section \<open>Edit distance\<close>

text \<open>\<open>cur[1..]\<close> from \<open>cur[j-1]\<close>, the rest of \<open>b\<close> and \<open>prev[j-1..]\<close>.\<close>

fun lev_row :: "char \<Rightarrow> nat \<Rightarrow> string \<Rightarrow> nat list \<Rightarrow> nat list" where
  "lev_row x left (y # ys) (p0 # p1 # ps) =
     (let cost = (if x = y then 0 else 1); m = p1 + 1;
          m = (if left + 1 < m then left + 1 else m);
          m = (if p0 + cost < m then p0 + cost else m) in m # lev_row x m ys (p1 # ps))"
| "lev_row x left _ _ = []"

fun lev_rows :: "nat \<Rightarrow> string \<Rightarrow> string \<Rightarrow> nat list \<Rightarrow> nat list" where
  "lev_rows i [] b prev = prev"
| "lev_rows i (x # a) b prev = lev_rows (Suc i) a b (i # lev_row x i b prev)"

definition levenshtein :: "string \<Rightarrow> string \<Rightarrow> nat" where
  "levenshtein a b = (if a = b then 0 else if a = [] then length b else if b = [] then length a
     else lev_rows 1 a b [0..<Suc (length b)] ! length b)"

text \<open>What the distance is: the fewest single-byte edits that turn one string into the other.\<close>

inductive edits :: "nat \<Rightarrow> string \<Rightarrow> string \<Rightarrow> bool" where
  edits_empty: "edits 0 [] []"
| edits_keep: "edits n a b \<Longrightarrow> edits n (x # a) (x # b)"
| edits_replace: "edits n a b \<Longrightarrow> edits (Suc n) (x # a) (y # b)"
| edits_delete: "edits n a b \<Longrightarrow> edits (Suc n) (x # a) b"
| edits_insert: "edits n a b \<Longrightarrow> edits (Suc n) a (y # b)"

lemma edits_same: "edits 0 a a"
  by (induction a) (auto intro: edits.intros)

lemma edits_snoc: "edits n a b \<Longrightarrow> edits n (a @ [x]) (b @ [x])"
  by (induction rule: edits.induct) (auto intro: edits.intros)

lemma edits_snoc_replace: "edits n a b \<Longrightarrow> edits (Suc n) (a @ [x]) (b @ [y])"
  by (induction rule: edits.induct) (auto intro: edits.intros)

lemma edits_snoc_delete: "edits n a b \<Longrightarrow> edits (Suc n) (a @ [x]) b"
  by (induction rule: edits.induct) (auto intro: edits.intros)

lemma edits_snoc_insert: "edits n a b \<Longrightarrow> edits (Suc n) a (b @ [y])"
  by (induction rule: edits.induct) (auto intro: edits.intros)

lemma edits_rev: "edits n a b \<Longrightarrow> edits n (rev a) (rev b)"
  by (induction rule: edits.induct)
    (auto intro: edits.intros edits_snoc edits_snoc_replace edits_snoc_delete edits_snoc_insert)

text \<open>The textbook recursion, on the reversed prefixes the rows stand for.\<close>

fun ed :: "string \<Rightarrow> string \<Rightarrow> nat" where
  "ed [] w = length w"
| "ed (x # u) [] = Suc (length u)"
| "ed (x # u) (y # w) = min (min (Suc (ed u (y # w))) (Suc (ed (x # u) w))) (ed u w + (if x = y then 0 else 1))"

lemma edits_ed: "edits (ed a b) a b"
proof (induction a b rule: ed.induct)
  case (1 w) show ?case by (induction w) (auto intro: edits.intros)
next
  case (2 x u)
  have "edits (length s) s []" for s by (induction s) (auto intro: edits.intros)
  from this[of "x # u"] show ?case by simp
next
  case (3 x u y w)
  then show ?case by (auto simp: min_def intro: edits.intros)
qed

lemma ed_empty_right [simp]: "ed u [] = length u"
  by (cases u) auto

lemma ed_delete_le: "ed (x # u) w \<le> Suc (ed u w)"
  by (cases w) auto

lemma ed_insert_le: "ed u (y # w) \<le> Suc (ed u w)"
  by (cases u) auto

lemma ed_least: "edits n a b \<Longrightarrow> ed a b \<le> n"
proof (induction rule: edits.induct)
  case (edits_delete n a b x)
  then show ?case using ed_delete_le[of x a b] by simp
next
  case (edits_insert n a b y)
  then show ?case using ed_insert_le[of a y b] by simp
qed auto

fun ed_row :: "string \<Rightarrow> string \<Rightarrow> string \<Rightarrow> nat list" where
  "ed_row u w [] = [ed u w]"
| "ed_row u w (y # ys) = ed u w # ed_row u (y # w) ys"

lemma ed_row_not_empty [simp]: "ed_row u w ys \<noteq> []"
  by (cases ys) auto

lemma ed_row_hd: "ed u w # tl (ed_row u w ys) = ed_row u w ys"
  by (cases ys) auto

lemma lev_row_is_ed_row: "lev_row x (ed (x # u) w) ys (ed_row u w ys) = tl (ed_row (x # u) w ys)"
proof (induction ys arbitrary: w)
  case (Cons y ys)
  obtain r where r: "ed_row u (y # w) ys = ed u (y # w) # r" by (cases ys) auto
  have m: "ed (x # u) (y # w) = (let cost = (if x = y then 0 else 1); m = ed u (y # w) + 1;
          m = (if ed (x # u) w + 1 < m then ed (x # u) w + 1 else m) in
          (if ed u w + cost < m then ed u w + cost else m))"
    by (auto simp: Let_def min_def)
  show ?case using Cons[of "y # w"] ed_row_hd[of "x # u" "y # w" ys] unfolding ed_row.simps r
    by (simp add: Let_def m del: ed.simps)
qed simp

lemma lev_rows_is_ed_row: "lev_rows (Suc (length u)) a b (ed_row u [] b) = ed_row (rev a @ u) [] b"
proof (induction a arbitrary: u)
  case (Cons x a)
  have "ed (x # u) [] # lev_row x (ed (x # u) []) b (ed_row u [] b) = ed_row (x # u) [] b"
    unfolding lev_row_is_ed_row by (rule ed_row_hd)
  then show ?case using Cons[of "x # u"] by simp
qed simp

lemma ed_row_first: "ed_row [] w ys = [length w..<Suc (length w + length ys)]"
  by (induction ys arbitrary: w) (auto simp: upt_conv_Cons simp del: upt_Suc)

lemma ed_row_nth: "ed_row u w ys ! length ys = ed u (rev ys @ w)"
  by (induction ys arbitrary: w) auto

lemma levenshtein_ed: "levenshtein a b = ed (rev a) (rev b)"
proof -
  have "\<And>s. ed s s = 0" using ed_least[OF edits_same] by simp
  moreover have "ed (rev a) [] = length a" by (cases "rev a") auto
  moreover have "lev_rows 1 a b [0..<Suc (length b)] ! length b = ed (rev a) (rev b)"
    using lev_rows_is_ed_row[of "[]" a b] ed_row_first[of "[]" b] by (simp add: ed_row_nth del: upt_Suc)
  ultimately show ?thesis by (simp add: levenshtein_def del: upt_Suc)
qed

section \<open>Candidate names\<close>

definition add_candidate :: "string \<Rightarrow> string list \<Rightarrow> string list" where
  "add_candidate m0 out = (let m = trim_space m0 in if m \<noteq> [] \<and> m \<notin> set out then out @ [m] else out)"

fun last_index_from :: "int \<Rightarrow> string \<Rightarrow> char \<Rightarrow> int" where
  "last_index_from i [] c = -1"
| "last_index_from i (x # xs) c = (let r = last_index_from (i + 1) xs c in if r \<noteq> -1 then r else if x = c then i else -1)"

definition last_index :: "string \<Rightarrow> char \<Rightarrow> int" where
  "last_index = last_index_from 0"

lemma last_index_from_bound: "0 \<le> i \<Longrightarrow> last_index_from i s c < i + int (length s)"
  by (induction i s c rule: last_index_from.induct) (auto simp: Let_def)

lemma last_index_bound: "last_index s c < int (length s) \<or> last_index s c = -1"
  using last_index_from_bound[of 0 s c] by (simp add: last_index_def)

text \<open>\<open>for i := LastIndex(base, "-"); i > 0; i = LastIndex(base[:i], "-") { add(base[:i]) }\<close>\<close>

function add_prefixes :: "string \<Rightarrow> int \<Rightarrow> string list \<Rightarrow> string list" where
  "add_prefixes base i out = (if i \<le> 0 then out
     else add_prefixes base (last_index (take (nat i) base) CHR ''-'') (add_candidate (take (nat i) base) out))"
  by pat_completeness auto
termination
proof (relation "measure (\<lambda>(_, i, _). nat i)")
  fix base :: string and i :: int and out :: "string list"
  assume "\<not> i \<le> 0"
  then show "((base, last_index (take (nat i) base) CHR ''-'', add_candidate (take (nat i) base) out), base, i, out)
      \<in> measure (\<lambda>(_, i, _). nat i)"
    using last_index_bound[of "take (nat i) base" "CHR ''-''"] by auto
qed simp

declare add_prefixes.simps [simp del]

definition base_model :: "(string \<Rightarrow> string) \<Rightarrow> string \<Rightarrow> string" where
  "base_model strip_context model = (let base = trim_space model; i = index_byte base CHR ''('';
     base = (if 0 < i then trim_space (take (nat i) base) else base) in strip_context base)"

definition codex_model_candidates :: "(string \<Rightarrow> string) \<Rightarrow> string \<Rightarrow> string list" where
  "codex_model_candidates strip_context model = (let base = base_model strip_context model in
     add_prefixes base (last_index base CHR ''-'') (add_candidate base [model]))"

definition codex_model_servable :: "(string \<Rightarrow> string) \<Rightarrow> string \<Rightarrow> string list list \<Rightarrow> bool" where
  "codex_model_servable strip_context model sets =
     list_ex (\<lambda>cand. list_ex (\<lambda>s. cand \<in> set s) sets) (codex_model_candidates strip_context model)"

section \<open>The nearest name\<close>

definition normalize_model_name :: "string \<Rightarrow> string" where
  "normalize_model_name s = filter (\<lambda>c. let n = (of_char c :: nat) in (97 \<le> n \<and> n \<le> 122) \<or> (48 \<le> n \<and> n \<le> 57)) (to_lower s)"

definition pass_matches :: "nat \<Rightarrow> string \<Rightarrow> string \<Rightarrow> bool" where
  "pass_matches pass w n = (if pass = 0 then n = w else contains_str n w \<or> contains_str w n)"

fun closest_pass :: "nat \<Rightarrow> string \<Rightarrow> string \<Rightarrow> int \<Rightarrow> string list \<Rightarrow> string" where
  "closest_pass pass w best score [] = best"
| "closest_pass pass w best score (m # ms) = (let n = normalize_model_name m; sc = - int (length n) in
     if \<not> pass_matches pass w n then closest_pass pass w best score ms
     else if best = [] \<or> score < sc then closest_pass pass w m sc ms
     else closest_pass pass w best score ms)"

fun closest_distance :: "string \<Rightarrow> string \<Rightarrow> nat \<Rightarrow> string list \<Rightarrow> string" where
  "closest_distance w best limit [] = best"
| "closest_distance w best limit (m # ms) = (let d = levenshtein w (normalize_model_name m) in
     if d < limit then closest_distance w m d ms else closest_distance w best limit ms)"

definition distance_budget :: "string \<Rightarrow> nat" where
  "distance_budget w = (let b = length w div 4 in if b < 2 then 2 else b)"

definition closest_model_name :: "string \<Rightarrow> string list \<Rightarrow> string" where
  "closest_model_name want available = (let w = normalize_model_name want in
     if available = [] \<or> w = [] then []
     else let exact = closest_pass 0 w [] 0 available in if exact \<noteq> [] then exact
     else let part = closest_pass 1 w [] 0 available in if part \<noteq> [] then part
     else closest_distance w [] (distance_budget w + 1) available)"

record codex_model_reject =
  rj_status :: int
  rj_code :: string
  rj_message :: string
  rj_model :: string
  rj_suggestion :: string

record codex_model_route =
  api_key_only :: bool
  reject :: "codex_model_reject option"

definition quote_model :: "string \<Rightarrow> string" where "quote_model m = [CHR 0x22] @ m @ [CHR 0x22]"

definition available_models :: "string list list \<Rightarrow> string list" where
  "available_models sets = order_by text_less (remdups (concat sets))"

definition codex_unknown_model_error :: "string \<Rightarrow> string list list \<Rightarrow> codex_model_reject" where
  "codex_unknown_model_error model sets = (let near = closest_model_name model (available_models sets) in
     \<lparr>rj_status = 404, rj_code = ''model_not_found'',
      rj_message = ''Unknown model '' @ quote_model model @ ''.'' @ (if near \<noteq> [] then '' Did you mean '' @ quote_model near @ ''?'' else []) @
        '' Call /v1/models for the models this gateway serves.'',
      rj_model = model, rj_suggestion = near\<rparr>)"

section \<open>The relays' catalogue\<close>

record model_catalog =
  mc_models :: "string list option"
  mc_fetched_at :: int
  mc_last_attempt :: int
  mc_refreshing :: bool

definition empty_catalog :: model_catalog where
  "empty_catalog = \<lparr>mc_models = None, mc_fetched_at = zero_time, mc_last_attempt = zero_time, mc_refreshing = False\<rparr>"

definition codexAPIKeyModelTTL :: int where "codexAPIKeyModelTTL = 5 * 60 * second_ns"
definition codexAPIKeyProbeMinInterval :: int where "codexAPIKeyProbeMinInterval = 30 * second_ns"

text \<open>The cached models, and whether this call starts a probe.\<close>

definition api_key_models :: "int \<Rightarrow> model_catalog \<Rightarrow> string list option \<times> bool \<times> model_catalog" where
  "api_key_models now cat =
     (let stale = codexAPIKeyModelTTL < now - mc_fetched_at cat; cooled = codexAPIKeyProbeMinInterval < now - mc_last_attempt cat in
      if stale \<and> cooled \<and> \<not> mc_refreshing cat
      then (mc_models cat, True, cat\<lparr>mc_refreshing := True, mc_last_attempt := now\<rparr>)
      else (mc_models cat, False, cat))"

text \<open>The union of what the relays answered, or none if one of them failed.\<close>

fun probe_union :: "(string + string list) list \<Rightarrow> string list \<Rightarrow> string list option" where
  "probe_union [] acc = Some acc"
| "probe_union (Inl e # ps) acc = None"
| "probe_union (Inr ms # ps) acc = probe_union ps (ms @ acc)"

definition refresh_api_key_models :: "int \<Rightarrow> (string + string list) list \<Rightarrow> model_catalog \<Rightarrow> model_catalog" where
  "refresh_api_key_models now probes cat = (case probe_union probes [] of
       None \<Rightarrow> cat\<lparr>mc_refreshing := False\<rparr>
     | Some ms \<Rightarrow> cat\<lparr>mc_refreshing := False, mc_models := Some (remdups ms), mc_fetched_at := now\<rparr>)"

section \<open>The guard\<close>

definition codex_hidden_models :: "string list" where "codex_hidden_models = [''codex-auto-review'', ''gpt-reserve'']"

text \<open>A credential of the pool: its status row, and what \<open>FindByID\<close> finds of it, if it does.\<close>

record pool_credential =
  pc_id :: string
  pc_provider :: string
  pc_disabled :: bool
  pc_live :: bool
  pc_oauth :: bool
  pc_plan :: string
  pc_base_url :: string
  pc_price_multiplier :: float64
  pc_quota_reset_at :: int
  pc_max_concurrent :: int
  pc_active_clients :: int
  pc_healthy :: bool
  pc_hard_failed :: bool

definition openai_live :: "(string \<Rightarrow> string) \<Rightarrow> pool_credential \<Rightarrow> bool" where
  "openai_live provider_of c = (provider_of (pc_provider c) = ''openai'' \<and> \<not> pc_disabled c \<and> pc_live c)"

definition codex_oauth_model_set :: "(string \<Rightarrow> string) \<Rightarrow> (string \<Rightarrow> string list) \<Rightarrow> pool_credential list \<Rightarrow> string list \<times> pool_credential list" where
  "codex_oauth_model_set provider_of models_for_plan creds =
     (remdups (concat (map (\<lambda>c. models_for_plan (pc_plan c)) (filter (\<lambda>c. openai_live provider_of c \<and> pc_oauth c) creds)) @ codex_hidden_models),
      filter (\<lambda>c. openai_live provider_of c \<and> \<not> pc_oauth c) creds)"

definition no_route :: codex_model_route where "no_route = \<lparr>api_key_only = False, reject = None\<rparr>"

definition guard_codex_model :: "(string \<Rightarrow> string) \<Rightarrow> int \<Rightarrow> string \<Rightarrow> string list \<times> pool_credential list \<Rightarrow> model_catalog \<Rightarrow>
    codex_model_route \<times> bool \<times> model_catalog" where
  "guard_codex_model strip_context now model pool cat = (case pool of (oauth_set, api_keys) \<Rightarrow>
     if model = [] \<or> model = ''unknown'' then (no_route, False, cat)
     else if codex_model_servable strip_context model [oauth_set] then (no_route, False, cat)
     else if api_keys = [] then (\<lparr>api_key_only = False, reject = Some (codex_unknown_model_error model [oauth_set])\<rparr>, False, cat)
     else case api_key_models now cat of (relay_set, probe, cat') \<Rightarrow> case relay_set of
         None \<Rightarrow> (\<lparr>api_key_only = True, reject = None\<rparr>, probe, cat')
       | Some rs \<Rightarrow> if codex_model_servable strip_context model [rs] then (\<lparr>api_key_only = True, reject = None\<rparr>, probe, cat')
           else (\<lparr>api_key_only = False, reject = Some (codex_unknown_model_error model [oauth_set, rs])\<rparr>, probe, cat'))"


section \<open>What the guard guarantees\<close>

lemma add_candidate_mono: "set out \<subseteq> set (add_candidate m out)"
  by (auto simp: add_candidate_def Let_def)

lemma add_prefixes_mono: "set out \<subseteq> set (add_prefixes base i out)"
proof (induction base i out rule: add_prefixes.induct)
  case (1 base i out)
  then show ?case using add_candidate_mono[of out] by (subst add_prefixes.simps) fastforce
qed

lemma model_is_candidate: "model \<in> set (codex_model_candidates sc model)"
  using add_prefixes_mono add_candidate_mono by (fastforce simp: codex_model_candidates_def Let_def)

lemma last_index_from_append: "c \<notin> set t \<Longrightarrow> 0 \<le> i \<Longrightarrow> last_index_from i (s @ c # t) c = i + int (length s)"
proof (induction s arbitrary: i)
  case Nil
  have "last_index_from j t c = -1" if "c \<notin> set t" for j t using that by (induction t arbitrary: j) (auto simp: Let_def)
  then show ?case using Nil by (simp add: Let_def)
qed (simp add: Let_def)

lemma base_is_candidate:
  assumes base: "base_model sc (m @ CHR ''-'' # x) = m @ CHR ''-'' # x" and x: "CHR ''-'' \<notin> set x"
    and m: "m \<noteq> []" "trim_space m = m"
  shows "m \<in> set (codex_model_candidates sc (m @ CHR ''-'' # x))"
proof -
  have i: "last_index (m @ CHR ''-'' # x) CHR ''-'' = int (length m)"
    using last_index_from_append[OF x, of 0 m] by (simp add: last_index_def)
  have "m \<in> set (add_candidate m out)" for out using m by (auto simp: add_candidate_def Let_def)
  then have "m \<in> set (add_prefixes (m @ CHR ''-'' # x) (int (length m)) out)" for out
    using m(1) add_prefixes_mono by (subst add_prefixes.simps) fastforce
  then show ?thesis by (simp add: codex_model_candidates_def base Let_def i)
qed

lemma servable_iff: "codex_model_servable sc model sets \<longleftrightarrow> (\<exists>c \<in> set (codex_model_candidates sc model). \<exists>s \<in> set sets. c \<in> set s)"
  by (auto simp: codex_model_servable_def list_ex_iff)

lemma closest_pass_mem: "closest_pass p w b sc ms \<in> insert b (set ms)"
proof (induction ms arbitrary: b sc)
  case (Cons m ms)
  show ?case using Cons[of m "- int (length (normalize_model_name m))"] Cons[of b sc] by (auto simp: Let_def)
qed simp

lemma closest_distance_mem: "closest_distance w b k ms \<in> insert b (set ms)"
  by (induction w b k ms rule: closest_distance.induct) (auto simp: Let_def)

lemma closest_model_name_mem: "closest_model_name want ms = [] \<or> closest_model_name want ms \<in> set ms"
  using closest_pass_mem[of 0 "normalize_model_name want" "[]" 0 ms] closest_pass_mem[of 1 "normalize_model_name want" "[]" 0 ms]
    closest_distance_mem[of "normalize_model_name want" "[]" "distance_budget (normalize_model_name want) + 1" ms]
  by (auto simp: closest_model_name_def Let_def)

lemma set_available_models: "set (available_models sets) = \<Union> (set ` set sets)"
  by (auto simp: available_models_def)

lemma unknown_model_error: "rj_model (codex_unknown_model_error model sets) = model" "rj_status (codex_unknown_model_error model sets) = 404"
  "rj_suggestion (codex_unknown_model_error model sets) = [] \<or> (\<exists>s \<in> set sets. rj_suggestion (codex_unknown_model_error model sets) \<in> set s)"
  using closest_model_name_mem[of model "available_models sets"]
  by (auto simp: codex_unknown_model_error_def Let_def set_available_models)

text \<open>C24. The distance the guard ranks misspelt model names by is the edit distance: some sequence
  of that many single-byte edits turns one name into the other, and no shorter one does.\<close>

theorem levenshtein_is_edit_distance:
  "edits (levenshtein a b) a b \<and> (\<nexists>n. n < levenshtein a b \<and> edits n a b)"
proof -
  have "edits (levenshtein a b) a b"
    using edits_rev[OF edits_ed, of "rev a" "rev b"] by (simp add: levenshtein_ed)
  moreover have "levenshtein a b \<le> n" if "edits n a b" for n
    using ed_least[OF edits_rev[OF that]] by (simp add: levenshtein_ed)
  ultimately show ?thesis by (auto simp: not_le[symmetric])
qed

text \<open>The guard refuses a model only on full knowledge: no subscription serves any of its
  candidate names, and either the pool has no API key or a whole answer of the relays is cached and
  serves none of them either. A name it suggests instead is one that the gateway serves.\<close>

theorem model_refused_on_full_knowledge:
  assumes "guard_codex_model sc now model (oauth, keys) cat = (route, probe, cat')" and "reject route = Some rj"
  shows "(\<forall>c \<in> set (codex_model_candidates sc model). c \<notin> set oauth) \<and>
    (keys = [] \<or> (\<exists>rs. mc_models cat = Some rs \<and> (\<forall>c \<in> set (codex_model_candidates sc model). c \<notin> set rs))) \<and>
    rj_model rj = model \<and> rj_status rj = 404 \<and>
    (rj_suggestion rj = [] \<or> rj_suggestion rj \<in> set oauth \<or>
      (\<exists>rs. mc_models cat = Some rs \<and> rj_suggestion rj \<in> set rs))"
proof (cases "keys = [] \<or> mc_models cat = None")
  case True
  then show ?thesis using assms unknown_model_error[of model "[oauth]"]
    by (auto simp: guard_codex_model_def no_route_def api_key_models_def servable_iff Let_def split: if_splits)
next
  case False
  then obtain rs where rs: "mc_models cat = Some rs" "keys \<noteq> []" by auto
  then show ?thesis using assms unknown_model_error[of model "[oauth, rs]"]
    by (auto simp: guard_codex_model_def no_route_def api_key_models_def servable_iff Let_def split: if_splits)
qed

definition guard_example :: "codex_model_route \<times> bool \<times> model_catalog" where
  "guard_example = guard_codex_model (\<lambda>s. s) 0 ''GPT-6'' ([''gpt-6-astra''], []) empty_catalog"

lemma guard_example_value: "guard_example = (\<lparr>api_key_only = False, reject = Some (codex_unknown_model_error ''GPT-6'' [[''gpt-6-astra'']])\<rparr>, False, empty_catalog)"
  by (simp add: guard_example_def guard_codex_model_def servable_iff codex_model_candidates_def base_model_def trim_space_def
      trim_left_space_def trim_right_space_def space_runes_def index_byte_def last_index_def add_candidate_def add_prefixes.simps Let_def)

theorem model_refused_on_full_knowledge_witness:
  "set (codex_model_candidates (\<lambda>s. s) ''GPT-6'') \<inter> {''gpt-6-astra''} = {}"
  using model_refused_on_full_knowledge[OF guard_example_value[unfolded guard_example_def]] by auto

text \<open>A variant of a served model is served: when the pool serves \<open>m\<close>, it serves \<open>m-x\<close> for
  every suffix \<open>x\<close> without a dash, and the guard routes it without asking any relay.\<close>

theorem variant_of_served_model_is_routed:
  assumes "m \<in> set oauth" "m \<noteq> []" "trim_space m = m" "CHR ''-'' \<notin> set x"
    and "base_model sc (m @ CHR ''-'' # x) = m @ CHR ''-'' # x"
  shows "guard_codex_model sc now (m @ CHR ''-'' # x) (oauth, keys) cat = (\<lparr>api_key_only = False, reject = None\<rparr>, False, cat)"
proof -
  have "codex_model_servable sc (m @ CHR ''-'' # x) [oauth]"
    using base_is_candidate[OF assms(5,4,2,3)] assms(1) by (auto simp: servable_iff)
  then show ?thesis by (simp add: guard_codex_model_def no_route_def)
qed

theorem variant_of_served_model_is_routed_witness:
  "guard_codex_model (\<lambda>s. s) 0 ''gpt-5.4-high'' ([''gpt-5.4''], []) empty_catalog = (\<lparr>api_key_only = False, reject = None\<rparr>, False, empty_catalog)"
  using variant_of_served_model_is_routed[of "''gpt-5.4''" "[''gpt-5.4'']" "''high''" "\<lambda>s. s"]
  by (simp add: base_model_def trim_space_def trim_left_space_def trim_right_space_def space_runes_def index_byte_def Let_def)

section \<open>The catalogue over time\<close>

text \<open>A request asks for the catalogue, or the probe a request started ends. The run collects
  the times at which probes started, newest first.\<close>

datatype catalog_event = Ask int | Probed int "(string + string list) list"

definition catalog_step :: "catalog_event \<Rightarrow> model_catalog \<times> int list \<Rightarrow> model_catalog \<times> int list" where
  "catalog_step e st = (case st of (cat, starts) \<Rightarrow> case e of
       Ask now \<Rightarrow> (case api_key_models now cat of (_, probe, cat') \<Rightarrow> (cat', if probe then now # starts else starts))
     | Probed now probes \<Rightarrow> (if mc_refreshing cat then refresh_api_key_models now probes cat else cat, starts))"

definition catalog_run :: "catalog_event list \<Rightarrow> model_catalog \<times> int list" where
  "catalog_run es = foldl (\<lambda>st e. catalog_step e st) (empty_catalog, []) es"

lemma probe_union_set: "probe_union ps acc = Some ms \<Longrightarrow> set ms = \<Union> {set m |m. Inr m \<in> set ps} \<union> set acc \<and> (\<forall>e. Inl e \<notin> set ps)"
proof (induction ps acc rule: probe_union.induct)
  case (3 xs ps acc)
  then show ?case by simp blast
qed auto

definition whole_answer :: "catalog_event list \<Rightarrow> string list option \<Rightarrow> bool" where
  "whole_answer es c = (case c of None \<Rightarrow> True
     | Some ms \<Rightarrow> \<exists>now ps. Probed now ps \<in> set es \<and> (\<forall>e. Inl e \<notin> set ps) \<and> set ms = \<Union> {set m |m. Inr m \<in> set ps})"

lemma whole_answer_more: "whole_answer es c \<Longrightarrow> whole_answer (es @ [e]) c"
  by (fastforce simp: whole_answer_def split: option.splits)

lemma refreshed_is_whole:
  assumes "whole_answer es (mc_models cat)"
  shows "whole_answer (es @ [Probed now ps]) (mc_models (refresh_api_key_models now ps cat))"
proof (cases "probe_union ps []")
  case None
  then show ?thesis using whole_answer_more[OF assms] by (simp add: refresh_api_key_models_def)
next
  case (Some ms)
  then show ?thesis using probe_union_set[OF Some]
    by (auto simp: refresh_api_key_models_def whole_answer_def intro!: exI[of _ now] exI[of _ ps])
qed

definition catalog_ok :: "catalog_event list \<Rightarrow> model_catalog \<times> int list \<Rightarrow> bool" where
  "catalog_ok es st \<longleftrightarrow> whole_answer es (mc_models (fst st)) \<and>
     sorted_wrt (\<lambda>new old. codexAPIKeyProbeMinInterval < new - old) (snd st) \<and>
     (\<forall>x \<in> set (snd st). x \<le> mc_last_attempt (fst st))"

lemma catalog_step_ok:
  assumes "catalog_ok es (cat, starts)"
  shows "catalog_ok (es @ [e]) (catalog_step e (cat, starts))"
proof (cases e)
  case (Ask now)
  then show ?thesis using assms whole_answer_more[of es "mc_models cat" e]
    by (fastforce simp: catalog_step_def catalog_ok_def api_key_models_def Let_def codexAPIKeyProbeMinInterval_def second_ns_def)
next
  case (Probed now ps)
  have "mc_last_attempt (refresh_api_key_models now ps cat) = mc_last_attempt cat"
    by (simp add: refresh_api_key_models_def split: option.split)
  then show ?thesis using assms whole_answer_more[of es "mc_models cat" e] refreshed_is_whole[of es cat now ps] Probed
    by (simp add: catalog_step_def catalog_ok_def)
qed

lemma catalog_run_ok: "catalog_ok es (catalog_run es)"
proof (induction es rule: rev_induct)
  case Nil
  show ?case by (simp add: catalog_run_def catalog_ok_def whole_answer_def empty_catalog_def)
next
  case (snoc e es)
  then show ?case using catalog_step_ok[of es "fst (catalog_run es)" "snd (catalog_run es)" e]
    by (simp add: catalog_run_def)
qed

text \<open>Whatever requests ask and however probes end, the cached catalogue is the union of one
  round in which every relay answered, never a partial one, and two probes start more than the
  minimum interval apart.\<close>

theorem catalogue_is_whole_and_probes_are_spaced:
  "whole_answer es (mc_models (fst (catalog_run es))) \<and>
    sorted_wrt (\<lambda>new old. codexAPIKeyProbeMinInterval < new - old) (snd (catalog_run es))"
  using catalog_run_ok[of es] by (simp add: catalog_ok_def)

end
