(* ===== verification/Upstream.thy ===== *)
theory Upstream
  imports ModelGuard
begin

text \<open>
  What an upstream answer says about the credential and the request: \<open>upstream_health.go\<close>, the
  classification of Anthropic errors in \<open>proxy.go\<close>, \<open>codex_auth_reject.go\<close>, \<open>token_count.go\<close>,
  \<open>codexquota\<close> and \<open>tokenmask\<close>. A credential and the pool belong to cc-core: what the code tells
  them is a list of \<open>health_action\<close>s. Headers are a function that gives the empty string for an absent one.
\<close>

section \<open>Faults\<close>

datatype upstream_fault = FaultNone | FaultClient | FaultUpstream | FaultCredential

definition retryable :: "upstream_fault \<Rightarrow> bool" where
  "retryable f = (f = FaultUpstream \<or> f = FaultCredential)"

definition classify_upstream_status :: "int \<Rightarrow> upstream_fault" where
  "classify_upstream_status status =
     (if status < 400 then FaultNone
      else if status = 401 \<or> status = 402 \<or> status = 403 then FaultCredential
      else if status = 408 \<or> status = 429 then FaultUpstream
      else if 500 \<le> status then FaultUpstream else FaultClient)"

text \<open>What the code reports of a credential. An instant of \<open>zero_time\<close> is Go's zero time.\<close>

datatype health_action = MarkFailure string | MarkHardFailure string | MarkClientCancel string | MarkSuccess
  | ReportUpstreamError int int | MarkModelRateLimited string int | MarkUsageLimitReached int

definition report_api_key_fault :: "int \<Rightarrow> int \<Rightarrow> string \<Rightarrow> health_action" where
  "report_api_key_fault status reset_at detail =
     (if status = 429 then ReportUpstreamError status reset_at
      else if classify_upstream_status status = FaultCredential then MarkHardFailure (''upstream '' @ itoa status)
      else MarkFailure (if detail = [] then ''upstream '' @ itoa status else detail))"

record response_outcome =
  ro_error_payload :: bool
  ro_truncated :: bool
  ro_client_gone :: bool
  ro_detail :: string

definition mark_response_health :: "bool \<Rightarrow> int \<Rightarrow> response_outcome \<Rightarrow> health_action list" where
  "mark_response_health has_cred status out =
     (if \<not> has_cred \<or> 400 \<le> status then []
      else if ro_error_payload out then [MarkFailure (''upstream '' @ itoa status @ '' with error payload: '' @ ro_detail out)]
      else if ro_client_gone out then [MarkClientCancel (ro_detail out)]
      else if ro_truncated out then [] else [MarkSuccess])"

definition truncate_bytes :: "string \<Rightarrow> nat \<Rightarrow> string" where
  "truncate_bytes b n = (if length b \<le> n then b else take n b @ ''...(truncated)'')"

definition json_space :: "char \<Rightarrow> bool" where
  "json_space c = (c \<in> {CHR '' '', CHR 0x09, CHR 0x0D, CHR 0x0A})"

text \<open>The probe is the decoded \<open>type\<close> and the raw \<open>error\<close>, none when the body is not such an object.\<close>

definition body_looks_like_api_error :: "(string \<Rightarrow> (string \<times> string) option) \<Rightarrow> string \<Rightarrow> bool \<times> string" where
  "body_looks_like_api_error probe body = (let trimmed = dropWhile json_space body in
     if trimmed = [] \<or> hd trimmed \<noteq> CHR ''{'' then (False, []) else
     case probe trimmed of None \<Rightarrow> (False, []) | Some (ty, err) \<Rightarrow>
     let has_error = err \<noteq> [] \<and> trim_space err \<noteq> ''null'' in
     if ty = ''error'' \<or> has_error then (True, truncate_bytes trimmed 200) else (False, []))"

definition looks_like_json_object :: "string \<Rightarrow> bool" where
  "looks_like_json_object body = (let trimmed = dropWhile json_space (take 512 body) in trimmed \<noteq> [] \<and> hd trimmed = CHR ''{'')"

definition sse_field :: "string \<Rightarrow> bool" where
  "sse_field line = list_ex (has_prefix line) [''data:'', ''event:'', ''id:'', ''retry:'', '':'']"

text \<open>The first line that is not blank decides.\<close>

function sse_scan :: "string \<Rightarrow> bool" where
  "sse_scan peek = (if peek = [] then False else
     let line = trim_right_byte CHR 0x0D (takeWhile (\<lambda>c. c \<noteq> CHR 0x0A) peek);
         rest = drop 1 (dropWhile (\<lambda>c. c \<noteq> CHR 0x0A) peek) in
     if line = [] then sse_scan rest else sse_field line)"
  by pat_completeness auto
termination
proof (relation "measure length")
  fix peek line rest :: string
  assume "peek \<noteq> []" "rest = drop 1 (dropWhile (\<lambda>c. c \<noteq> CHR 0x0A) peek)"
  then show "(rest, peek) \<in> measure length"
    using length_dropWhile_le[of "\<lambda>c. c \<noteq> CHR 0x0A" peek] by (cases peek) (auto simp: le_imp_less_Suc)
qed simp

declare sse_scan.simps [simp del]

definition looks_like_sse :: "string \<Rightarrow> bool" where "looks_like_sse body = sse_scan (take 512 body)"

definition validate_anthropic_response :: "string \<Rightarrow> string \<Rightarrow> string" where
  "validate_anthropic_response content_type body =
     (if looks_like_sse body \<or> looks_like_json_object body then [] else
      let peek = take 256 body in if peek = [] then ''empty body'' else
      ''content-type='' @ (if content_type = [] then ''(none)'' else content_type) @ '' body='' @ trim_space peek)"

section \<open>When a limit ends\<close>

definition int64_of :: "int \<Rightarrow> int" where "int64_of n = sint (word_of_int n :: 64 word)"

definition parse_int64 :: "string \<Rightarrow> int option" where
  "parse_int64 s = (case split_sign s of (neg, ds) \<Rightarrow> if ds = [] then None else
     case digits_value 0 ds of None \<Rightarrow> None
     | Some n \<Rightarrow> let v = (if neg then - int n else int n) in if - (2 ^ 63) \<le> v \<and> v < 2 ^ 63 then Some v else None)"

text \<open>\<open>time.Unix(secs, 0)\<close>: a \<open>Time\<close> counts \<open>int64\<close> seconds since year 1.\<close>

definition unix_time :: "int \<Rightarrow> int" where
  "unix_time secs = (int64_of (secs + 62135596800) - 62135596800) * second_ns"

definition parse_unix_seconds :: "string \<Rightarrow> int option" where
  "parse_unix_seconds v0 = (let v = trim_space v0 in if v = [] then None else
     case parse_int64 v of None \<Rightarrow> None | Some secs \<Rightarrow> if secs \<le> 0 then None else Some (unix_time secs))"

definition thirty_days :: int where "thirty_days = 30 * 24 * 3600 * second_ns"
definition one_hour :: int where "one_hour = 3600 * second_ns"

definition clamp_reset :: "int \<Rightarrow> int \<Rightarrow> int" where
  "clamp_reset now t = (if now + thirty_days < t then now + thirty_days else t)"

text \<open>A \<open>Duration\<close> is \<open>int64\<close> nanoseconds, so the product wraps.\<close>

definition parse_retry_after :: "int \<Rightarrow> (string \<Rightarrow> int option) \<Rightarrow> string \<Rightarrow> int" where
  "parse_retry_after now http_time v0 = (let v = trim_space v0 in if v = [] then zero_time else
     case parse_int64 v of Some n \<Rightarrow> now + int64_of (n * second_ns)
     | None \<Rightarrow> (case http_time v of Some t \<Rightarrow> t | None \<Rightarrow> zero_time))"

record ratelimit_reject =
  rr_reset :: int
  rr_scope :: string
  rr_banned :: bool

definition header_rejected :: "(string \<Rightarrow> string) \<Rightarrow> string \<Rightarrow> bool" where
  "header_rejected h name = (let v = to_lower (trim_space (h name)) in v \<noteq> [] \<and> has_prefix v ''rejected'')"

definition shared_bucket :: "(string \<Rightarrow> string) \<Rightarrow> string \<times> string \<Rightarrow> bool \<times> int \<Rightarrow> bool \<times> int" where
  "shared_bucket h b acc = (case (b, acc) of ((status, reset), (rejected, latest)) \<Rightarrow>
     if \<not> header_rejected h status then (rejected, latest) else
     case parse_unix_seconds (h reset) of None \<Rightarrow> (True, latest)
     | Some t \<Rightarrow> (True, if latest < t then t else latest))"

definition shared_buckets :: "(string \<times> string) list" where
  "shared_buckets = [(''Anthropic-Ratelimit-Unified-5h-Status'', ''Anthropic-Ratelimit-Unified-5h-Reset''),
     (''Anthropic-Ratelimit-Unified-7d-Status'', ''Anthropic-Ratelimit-Unified-7d-Reset'')]"

text \<open>The decision from what the headers say: the shared buckets, the top level, its reset, the scope.\<close>

definition ratelimit_decision :: "int \<Rightarrow> bool \<times> int \<Rightarrow> bool \<Rightarrow> int option \<Rightarrow> string \<Rightarrow> ratelimit_reject option" where
  "ratelimit_decision now buckets rejected reset scope = (case buckets of (shared, shared_reset) \<Rightarrow>
      if \<not> shared \<and> \<not> rejected then None else
      let future = (case reset of Some t \<Rightarrow> now < t | None \<Rightarrow> False) in
      if \<not> shared \<and> scope \<noteq> []
      then Some \<lparr>rr_reset = (if future then clamp_reset now (the reset) else now + one_hour), rr_scope = scope, rr_banned = False\<rparr>
      else if future then Some \<lparr>rr_reset = clamp_reset now (the reset), rr_scope = [], rr_banned = False\<rparr>
      else if shared_reset \<noteq> zero_time \<and> now < shared_reset
      then Some \<lparr>rr_reset = clamp_reset now shared_reset, rr_scope = [], rr_banned = False\<rparr>
      else Some \<lparr>rr_reset = zero_time, rr_scope = [], rr_banned = True\<rparr>)"

definition parse_unified_ratelimit :: "(string \<Rightarrow> string) \<Rightarrow> int \<Rightarrow> (string \<Rightarrow> string) \<Rightarrow> string \<Rightarrow> ratelimit_reject option" where
  "parse_unified_ratelimit model_scope now h model =
     ratelimit_decision now (fold (shared_bucket h) shared_buckets (False, zero_time))
       (header_rejected h ''Anthropic-Ratelimit-Unified-Status'')
       (parse_unix_seconds (h ''Anthropic-Ratelimit-Unified-Reset'')) (model_scope model)"

text \<open>\<open>bytes.Index\<close>, and the rest of the text after the first occurrence.\<close>

fun after_str :: "string \<Rightarrow> string \<Rightarrow> nat \<Rightarrow> nat option" where
  "after_str p [] i = (if p = [] then Some i else None)"
| "after_str p (c # s) i = (if has_prefix (c # s) p then Some (i + length p) else after_str p s (Suc i))"

definition usage_limit_secs :: "string \<Rightarrow> int option" where
  "usage_limit_secs tail0 = (let tail = dropWhile (\<lambda>c. c = CHR '' '' \<or> c = CHR 0x09) tail0 in
       if tail = [] \<or> hd tail \<noteq> CHR ''|'' then None else
       let ds = takeWhile decimal_char (tl tail) in
       if ds = [] then None else parse_int64 ds)"

text \<open>Without a sane time stamp, an hour.\<close>

definition usage_limit_reset :: "int \<Rightarrow> int option \<Rightarrow> int" where
  "usage_limit_reset now secs = (case secs of None \<Rightarrow> now + one_hour
     | Some s \<Rightarrow> let t = unix_time s in if t < now \<or> now + thirty_days < t then now + one_hour else t)"

definition parse_claude_usage_limit :: "int \<Rightarrow> string \<Rightarrow> int option" where
  "parse_claude_usage_limit now b = (if b = [] then None else
     map_option (\<lambda>i. usage_limit_reset now (usage_limit_secs (drop i b)))
       (after_str (to_lower ''Claude AI usage limit reached'') (to_lower b) 0))"

definition is_long_context_rejection :: "string \<Rightarrow> bool" where
  "is_long_context_rejection b = list_ex (contains_str (to_lower b))
     [''extra usage is required'', ''usage credits are required for long context'', ''long context request'']"

definition is_account_ban :: "string \<Rightarrow> bool" where
  "is_account_ban b = list_ex (contains_str (to_lower b))
     [''organization has been disabled'', ''account has been disabled'', ''account is disabled'',
      ''organization is disabled'', ''oauth authentication is currently not allowed'']"

section \<open>The verdict on an Anthropic error\<close>

text \<open>Whether the request is retried on another credential, and what is reported of this one.\<close>

definition claude_error_verdict :: "(string \<Rightarrow> string) \<Rightarrow> (string \<Rightarrow> int option) \<Rightarrow> int \<Rightarrow> (string \<Rightarrow> string) \<Rightarrow> string \<Rightarrow> int \<Rightarrow> string \<Rightarrow>
    bool \<times> health_action list" where
  "claude_error_verdict model_scope http_time now h body status model =
     (if is_account_ban body then (True, [MarkHardFailure (''account banned (upstream '' @ itoa status @ '')'')])
      else if status = 429 \<and> is_long_context_rejection body then (False, [])
      else if status = 429 then (True,
        [case parse_unified_ratelimit model_scope now h model of
           Some r \<Rightarrow> if \<not> rr_banned r then (if rr_scope r \<noteq> [] then MarkModelRateLimited (rr_scope r) (rr_reset r)
               else MarkUsageLimitReached (rr_reset r))
             else (case parse_claude_usage_limit now body of Some t \<Rightarrow> MarkUsageLimitReached t
               | None \<Rightarrow> ReportUpstreamError status (parse_retry_after now http_time (h ''Retry-After'')))
         | None \<Rightarrow> (case parse_claude_usage_limit now body of Some t \<Rightarrow> MarkUsageLimitReached t
               | None \<Rightarrow> ReportUpstreamError status (parse_retry_after now http_time (h ''Retry-After'')))])
      else if status = 401 \<or> status = 403 then (True, [ReportUpstreamError status (parse_retry_after now http_time (h ''Retry-After''))])
      else if status = 529 \<or> 500 \<le> status then (False, [MarkFailure (''upstream '' @ itoa status)])
      else (False, []))"


section \<open>What the verdict guarantees\<close>

lemma clamp_reset_bounds: "now < t \<Longrightarrow> now < clamp_reset now t \<and> clamp_reset now t \<le> now + thirty_days"
  by (auto simp: clamp_reset_def thirty_days_def second_ns_def)

lemma hour_in_month: "0 < one_hour" "one_hour \<le> thirty_days" "0 < thirty_days"
  by (simp_all add: one_hour_def thirty_days_def second_ns_def)

lemma ratelimit_reset_bounds:
  assumes "ratelimit_decision now buckets rejected reset scope = Some r" "\<not> rr_banned r"
  shows "now < rr_reset r \<and> rr_reset r \<le> now + thirty_days"
proof -
  obtain shared latest where b: "buckets = (shared, latest)" by (cases buckets)
  show ?thesis
  proof (cases "case reset of Some t \<Rightarrow> now < t | None \<Rightarrow> False")
    case True
    then obtain t where t: "reset = Some t" "now < t" by (auto split: option.splits)
    show ?thesis using assms clamp_reset_bounds[OF t(2)]
      by (simp add: ratelimit_decision_def b t split: if_splits)
         (metis select_convs(1))+
  next
    case False
    then show ?thesis using assms clamp_reset_bounds[of now latest] hour_in_month
      by (simp add: ratelimit_decision_def b split: if_splits) fastforce+
  qed
qed

lemma usage_limit_reset_bounds: "now \<le> usage_limit_reset now s \<and> usage_limit_reset now s \<le> now + thirty_days"
  using hour_in_month by (cases s) (simp_all add: usage_limit_reset_def Let_def)

lemma guarded_reset_bounds:
  "(if P then None else map_option (\<lambda>i. usage_limit_reset now (f i)) x) = Some t \<Longrightarrow> now \<le> t \<and> t \<le> now + thirty_days"
  using usage_limit_reset_bounds by (auto split: if_splits)

lemma usage_limit_bounds: "parse_claude_usage_limit now b = Some t \<Longrightarrow> now \<le> t \<and> t \<le> now + thirty_days"
  unfolding parse_claude_usage_limit_def by (rule guarded_reset_bounds)

definition bounded_cooldown :: "int \<Rightarrow> health_action \<Rightarrow> bool" where
  "bounded_cooldown now a = (case a of MarkUsageLimitReached t \<Rightarrow> now \<le> t \<and> t \<le> now + thirty_days
     | MarkModelRateLimited scope t \<Rightarrow> scope \<noteq> [] \<and> now \<le> t \<and> t \<le> now + thirty_days | _ \<Rightarrow> True)"

text \<open>The verdict on an Anthropic error blames who is responsible: the request moves to another
  credential exactly for a ban, a 429 that is not about the request's own length, a 401 or a 403; a
  fault of the request reports nothing of the credential; and no quota signal, however malformed,
  takes a credential out for more than thirty days.\<close>

theorem error_verdict_blames_the_responsible:
  "fst (claude_error_verdict model_scope http_time now h body status model) =
     (is_account_ban body \<or> (status = 429 \<and> \<not> is_long_context_rejection body) \<or> status = 401 \<or> status = 403) \<and>
   (snd (claude_error_verdict model_scope http_time now h body status model) = []) =
     (\<not> fst (claude_error_verdict model_scope http_time now h body status model) \<and> status < 500) \<and>
   list_all (bounded_cooldown now) (snd (claude_error_verdict model_scope http_time now h body status model))"
proof -
  have "now < rr_reset r \<and> rr_reset r \<le> now + thirty_days"
    if "parse_unified_ratelimit model_scope now h model = Some r" "\<not> rr_banned r" for r
    using ratelimit_reset_bounds[OF that[unfolded parse_unified_ratelimit_def]] .
  moreover have "now \<le> t \<and> t \<le> now + thirty_days" if "parse_claude_usage_limit now body = Some t" for t
    using usage_limit_bounds[OF that] .
  ultimately show ?thesis
    by (auto simp: claude_error_verdict_def bounded_cooldown_def split: option.split)
qed

end
