(* ===== verification/Credentials.thy ===== *)
theory Credentials
  imports Upstream
begin

text \<open>
  Decisions about the credentials of the pool: re-minting a rejected bearer
  (\<open>codex_auth_reject.go\<close>), which credentials reach the vendor (\<open>token_count.go\<close>), which ones the
  quota probe asks (\<open>codexquota\<close>), what a fallback to API keys costs (\<open>proxy.go\<close>), and the mask of a
  client token (\<open>tokenmask\<close>). The credential is an argument of type \<open>'a\<close> with cc-core's operations on it.
\<close>

section \<open>A rejected bearer\<close>

text \<open>The result: whether the credential now carries another token, and the error of the exchange.\<close>

definition recover_rejected_token :: "('a \<Rightarrow> string) \<Rightarrow> ('a \<Rightarrow> string option \<times> 'a) \<Rightarrow> string \<Rightarrow> 'a \<Rightarrow> (bool \<times> string option) \<times> 'a" where
  "recover_rejected_token current refresh seen st = (if current st \<noteq> seen then ((True, None), st) else
     case refresh st of (Some e, st') \<Rightarrow> ((False, Some e), st') | (None, st') \<Rightarrow> ((current st' \<noteq> seen, None), st'))"

record 'a auth_ops =
  mark_auth_rejection :: "string \<Rightarrow> 'a \<Rightarrow> 'a"
  is_hard_failed :: "'a \<Rightarrow> bool"
  current_bearer :: "'a \<Rightarrow> string"
  force_refresh :: "'a \<Rightarrow> string option \<times> 'a"
  report_error :: "int \<Rightarrow> int \<Rightarrow> 'a \<Rightarrow> 'a"

definition reject_codex_bearer :: "'a auth_ops \<Rightarrow> string \<Rightarrow> string \<Rightarrow> 'a \<Rightarrow> 'a" where
  "reject_codex_bearer ops seen err_body st0 =
     (let st = mark_auth_rejection ops (''upstream 401 authentication rejected: '' @ truncate_bytes err_body 200) st0 in
      if is_hard_failed ops st then st else
      case recover_rejected_token (current_bearer ops) (force_refresh ops) seen st of ((rotated, err), st) \<Rightarrow>
        if err \<noteq> None then report_error ops 401 zero_time st
        else if rotated then st else report_error ops 401 zero_time st)"

text \<open>The requests that saw the same bearer rejected, one after the other under the gate: for each,
  whether it performed an exchange and whether it was told the token has changed.\<close>

fun gate_run :: "('a \<Rightarrow> string) \<Rightarrow> ('a \<Rightarrow> string option \<times> 'a) \<Rightarrow> string \<Rightarrow> nat \<Rightarrow> 'a \<Rightarrow> (bool \<times> bool) list" where
  "gate_run current refresh seen 0 st = []"
| "gate_run current refresh seen (Suc n) st = (case recover_rejected_token current refresh seen st of ((rotated, _), st') \<Rightarrow>
     (current st = seen, rotated) # gate_run current refresh seen n st')"

definition follows :: "bool \<times> bool \<Rightarrow> bool \<times> bool \<Rightarrow> bool" where
  "follows a b = (if snd a then \<not> fst b \<and> snd b else True)"

lemma gate_run_rotated: "current st \<noteq> seen \<Longrightarrow> gate_run current refresh seen n st = replicate n (False, True)"
  by (induction n) (simp_all add: recover_rejected_token_def)

text \<open>A rejected bearer is exchanged once: of all the requests that saw it rejected, in whatever
  order they pass the gate, those after the one that re-minted the token exchange nothing and are
  told that the credential is usable again.\<close>

theorem rejected_bearer_is_exchanged_once:
  "sorted_wrt follows (gate_run current refresh seen n st) \<and>
   length (filter (\<lambda>(exchanged, rotated). exchanged \<and> rotated) (gate_run current refresh seen n st)) \<le> 1"
proof (induction n arbitrary: st)
  case (Suc n)
  obtain rotated err st' where r: "recover_rejected_token current refresh seen st = ((rotated, err), st')"
    by (metis prod.exhaust)
  show ?case
  proof (cases rotated)
    case True
    then have "current st' \<noteq> seen" using r by (auto simp: recover_rejected_token_def split: if_splits prod.splits option.splits)
    then have g: "gate_run current refresh seen n st' = replicate n (False, True)" by (rule gate_run_rotated)
    have "sorted_wrt follows (replicate n (False, True))" by (induction n) (auto simp: follows_def)
    moreover have "\<forall>y \<in> set (replicate n (False, True)). follows (current st = seen, True) y" by (simp add: follows_def)
    ultimately show ?thesis by (simp add: r g True)
  next
    case False
    then show ?thesis using Suc[of st'] by (auto simp: r follows_def)
  qed
qed simp

section \<open>Which credentials reach the vendor\<close>

text \<open>\<open>st.Auth.Provider\<close> matches and the credential is enabled and still in the pool.\<close>

definition offered :: "(string \<Rightarrow> string) \<Rightarrow> string \<Rightarrow> pool_credential \<Rightarrow> bool" where
  "offered provider_of want c = (provider_of (pc_provider c) = want \<and> \<not> pc_disabled c \<and> pc_live c)"

definition at_vendor :: "string \<Rightarrow> pool_credential \<Rightarrow> bool" where
  "at_vendor want c = (let base = to_lower (trim_right_byte CHR ''/'' (pc_base_url c)) in
     if want = ''anthropic'' then (pc_oauth c \<and> base = []) \<or> base = ''https://api.anthropic.com''
     else \<not> pc_oauth c \<and> (base = [] \<or> base = ''https://api.openai.com''))"

fun vendor_scan :: "(string \<Rightarrow> string) \<Rightarrow> string \<Rightarrow> bool \<Rightarrow> pool_credential list \<Rightarrow> bool" where
  "vendor_scan provider_of want found [] = found"
| "vendor_scan provider_of want found (c # cs) =
     (if \<not> offered provider_of want c then vendor_scan provider_of want found cs
      else if \<not> at_vendor want c then False else vendor_scan provider_of want True cs)"

definition reaches_vendor :: "(string \<Rightarrow> string) \<Rightarrow> string \<Rightarrow> pool_credential list \<Rightarrow> bool" where
  "reaches_vendor provider_of provider creds = vendor_scan provider_of (provider_of provider) False creds"

definition token_count_error :: "(string \<Rightarrow> string) \<Rightarrow> string \<Rightarrow> string \<Rightarrow> response" where
  "token_count_error provider_of provider message = (if provider_of provider = ''anthropic''
     then (400, [(''type'', JStr ''error''), (''error'', JObj [(''type'', JStr ''invalid_request_error''), (''message'', JStr message)])])
     else (400, [(''error'', JObj [(''type'', JStr ''invalid_request_error''), (''code'', JStr ''invalid_request_error''), (''message'', JStr message)])]))"

text \<open>The body, none when it cannot be read, and the two estimates of cc-core.\<close>

definition answer_token_count :: "(string \<Rightarrow> string) \<Rightarrow> (string \<Rightarrow> int option) \<Rightarrow> (string \<Rightarrow> int option) \<Rightarrow> string \<Rightarrow> string option \<Rightarrow> response" where
  "answer_token_count provider_of anthropic responses provider body = (case body of
       None \<Rightarrow> token_count_error provider_of provider ''The request body could not be read. Send valid JSON and try again.''
     | Some b \<Rightarrow> (case (if provider_of provider = ''anthropic'' then anthropic b else responses b) of
         None \<Rightarrow> token_count_error provider_of provider ''The request body could not be counted. Send a valid request with a model and try again.''
       | Some n \<Rightarrow> (200, [(''input_tokens'', JInt n)])))"

datatype token_count_route = ForwardCount string string | AnswerCount response

definition handle_count_tokens :: "(string \<Rightarrow> string) \<Rightarrow> (string \<Rightarrow> int option) \<Rightarrow> (string \<Rightarrow> int option) \<Rightarrow> pool_credential list \<Rightarrow>
    string option \<Rightarrow> token_count_route" where
  "handle_count_tokens provider_of anthropic responses creds body =
     (if reaches_vendor provider_of ''anthropic'' creds then ForwardCount ''anthropic'' ''/v1/messages/count_tokens''
      else AnswerCount (answer_token_count provider_of anthropic responses ''anthropic'' body))"

definition handle_input_tokens :: "(string \<Rightarrow> string) \<Rightarrow> (string \<Rightarrow> int option) \<Rightarrow> (string \<Rightarrow> int option) \<Rightarrow> pool_credential list \<Rightarrow>
    string option \<Rightarrow> token_count_route" where
  "handle_input_tokens provider_of anthropic responses creds body =
     (if reaches_vendor provider_of ''openai'' creds then ForwardCount ''openai'' ''/v1/responses/input_tokens''
      else AnswerCount (answer_token_count provider_of anthropic responses ''openai'' body))"

lemma vendor_scan_iff: "vendor_scan provider_of want found cs \<longleftrightarrow>
    (\<forall>c \<in> set cs. offered provider_of want c \<longrightarrow> at_vendor want c) \<and> (found \<or> (\<exists>c \<in> set cs. offered provider_of want c))"
  by (induction provider_of want found cs rule: vendor_scan.induct) auto

text \<open>A count is forwarded exactly when it cannot go wrong: some credential is offered for the
  provider, and every offered one, whichever the pool picks, talks to the vendor's own API.\<close>

theorem count_forwarded_only_to_the_vendor:
  "reaches_vendor provider_of provider creds =
    ({c \<in> set creds. offered provider_of (provider_of provider) c} \<noteq> {} \<and>
     {c \<in> set creds. offered provider_of (provider_of provider) c} \<subseteq> {c. at_vendor (provider_of provider) c})"
  by (auto simp: reaches_vendor_def vendor_scan_iff)

section \<open>Probing quotas\<close>

text \<open>The credentials a round asks, in order; what an answer means is cc-core's, and an error ends nothing.\<close>

definition quota_probed :: "(string \<Rightarrow> string) \<Rightarrow> pool_credential list \<Rightarrow> pool_credential list" where
  "quota_probed provider_of creds = filter (\<lambda>c. offered provider_of ''openai'' c \<and> pc_oauth c) creds"

definition quota_interval :: "int \<Rightarrow> int" where
  "quota_interval interval = (if interval \<le> 0 then 5 * 60 * second_ns else interval)"

section \<open>Falling back to API keys\<close>

definition api_key_price_override :: "pool_credential option \<Rightarrow> float64" where
  "api_key_price_override a = (case a of Some c \<Rightarrow> if \<not> pc_oauth c then pc_price_multiplier c else 0 | None \<Rightarrow> 0)"

text \<open>The argument is what \<open>GroupRate\<close> answers, none when it is not ok; the outer none is \<open>s.saas == nil\<close>.\<close>

definition fallback_costs_more :: "(string \<Rightarrow> string) \<Rightarrow> (float64 \<times> bool) option option \<Rightarrow> string \<Rightarrow> pool_credential list \<Rightarrow> bool" where
  "fallback_costs_more provider_of rate provider creds = (case rate of None \<Rightarrow> False | Some None \<Rightarrow> True
     | Some (Some (group_mult, promo)) \<Rightarrow> if promo then False else
         list_ex (\<lambda>c. offered provider_of (provider_of provider) c \<and> \<not> pc_oauth c \<and> 0 < pc_price_multiplier c \<and> group_mult < pc_price_multiplier c) creds)"

text \<open>The token's opt-in, none for a token the store does not know.\<close>

definition allow_api_key_fallback :: "(string \<Rightarrow> string) \<Rightarrow> bool \<Rightarrow> bool option \<Rightarrow> (float64 \<times> bool) option option \<Rightarrow> string \<Rightarrow>
    pool_credential list \<Rightarrow> bool" where
  "allow_api_key_fallback provider_of has_billing opted rate provider creds =
     (if \<not> has_billing then True else case opted of None \<Rightarrow> True | Some True \<Rightarrow> True
      | Some False \<Rightarrow> \<not> fallback_costs_more provider_of rate provider creds)"

section \<open>The mask of a token\<close>

definition MinDistinguishableLen :: nat where "MinDistinguishableLen = 10"
definition Opaque :: string where "Opaque = ''***''"

definition token_mask :: "string \<Rightarrow> string" where
  "token_mask tok = (if length tok \<le> MinDistinguishableLen then Opaque
     else take 6 tok @ [CHR 0xE2, CHR 0x80, CHR 0xA6] @ drop (length tok - 4) tok)"

end
