(* ===== verification/Failover.thy ===== *)
theory Failover
  imports CodexSession Credentials
begin

text \<open>
  The path of a request through \<open>internal/server/proxy.go\<close>: the gates of \<open>forward\<close> and the credential
  loop of \<open>forwardWithFailover\<close>. What the pool, the clock, the upstream exchange and the sleep do is a
  world of type \<open>'w\<close> that the operations of \<open>failover_env\<close> advance; the limiter, the token store and
  the client guard of cc-core are arguments.
\<close>

section \<open>Naming the slot\<close>

definition client_slot_id :: "(string \<Rightarrow> string) \<Rightarrow> string" where
  "client_slot_id h = first_set (map (\<lambda>k. trim_space (h k)) [''X-Claude-Code-Session-Id'', ''session-id'', ''Session_id''])"

definition request_slot :: "anchor_json \<Rightarrow> int \<Rightarrow> (string \<Rightarrow> string) \<Rightarrow> string \<Rightarrow> anchor_stats \<Rightarrow> string \<times> anchor_stats" where
  "request_slot js now h body st = (let slot = client_slot_id h in
     if slot = [] then fanout_slot_id js now body sessionlessFanoutWidth st else (slot, st))"

section \<open>Why the pool is empty\<close>

record pool_census =
  ce_total :: int
  ce_disabled :: int
  ce_hard_failed :: int
  ce_cooling :: int
  ce_degraded :: int
  ce_saturated :: int
  ce_soonest :: int

definition census_step :: "(string \<Rightarrow> string) \<Rightarrow> string \<Rightarrow> bool \<Rightarrow> int \<Rightarrow> pool_credential \<Rightarrow> pool_census \<Rightarrow> pool_census" where
  "census_step provider_of want allow now c p =
     (if provider_of (pc_provider c) \<noteq> want \<or> (\<not> pc_oauth c \<and> \<not> allow) then p else
      let p = p\<lparr>ce_total := ce_total p + 1\<rparr> in
      if pc_disabled c then p\<lparr>ce_disabled := ce_disabled p + 1\<rparr>
      else if \<not> pc_live c then p
      else if pc_hard_failed c then p\<lparr>ce_hard_failed := ce_hard_failed p + 1\<rparr>
      else if pc_quota_reset_at c \<noteq> zero_time \<and> now < pc_quota_reset_at c
        then p\<lparr>ce_cooling := ce_cooling p + 1,
          ce_soonest := (if ce_soonest p = zero_time \<or> pc_quota_reset_at c < ce_soonest p then pc_quota_reset_at c else ce_soonest p)\<rparr>
      else if \<not> pc_healthy c then p\<lparr>ce_degraded := ce_degraded p + 1\<rparr>
      else if 0 < pc_max_concurrent c \<and> pc_max_concurrent c \<le> pc_active_clients c then p\<lparr>ce_saturated := ce_saturated p + 1\<rparr>
      else p)"

definition pool_census_of :: "(string \<Rightarrow> string) \<Rightarrow> string \<Rightarrow> bool \<Rightarrow> int \<Rightarrow> pool_credential list \<Rightarrow> pool_census" where
  "pool_census_of provider_of want allow now creds = fold (census_step provider_of want allow now) creds
     \<lparr>ce_total = 0, ce_disabled = 0, ce_hard_failed = 0, ce_cooling = 0, ce_degraded = 0, ce_saturated = 0, ce_soonest = zero_time\<rparr>"

definition poolRetryAfterCapSeconds :: int where "poolRetryAfterCapSeconds = 300"

text \<open>The message and the seconds to wait, 0 for none. \<open>Duration.String\<close> is an argument.\<close>

definition pool_unavailable :: "(string \<Rightarrow> string) \<Rightarrow> (int \<Rightarrow> string) \<Rightarrow> string \<Rightarrow> bool \<Rightarrow> int \<Rightarrow> pool_credential list \<Rightarrow> string \<times> int" where
  "pool_unavailable provider_of duration_text provider allow now creds =
     (let want = provider_of provider; p = pool_census_of provider_of want allow now creds in
      if ce_total p = 0 then (''no '' @ want @ '' credentials are configured on this proxy'', 0)
      else if ce_hard_failed p + ce_disabled p = ce_total p
        then (''all '' @ itoa (ce_total p) @ '' '' @ want @
          '' credentials are hard-failed or disabled and need an operator to clear them; retrying will not help'', 0)
      else if 0 < ce_cooling p \<and> ce_soonest p \<noteq> zero_time
        then (let wait = (ce_soonest p - now) div second_ns + 1; wait = (if wait < 1 then 1 else wait);
                  wait = (if poolRetryAfterCapSeconds < wait then poolRetryAfterCapSeconds else wait) in
          (''all '' @ itoa (ce_total p) @ '' '' @ want @ '' credentials are rate-limited or out of quota; the earliest resets in '' @
             duration_text (ce_soonest p - now), wait))
      else if 0 < ce_degraded p
        then (itoa (ce_degraded p) @ '' of '' @ itoa (ce_total p) @ '' '' @ want @
          '' credentials are temporarily degraded after upstream errors and are being re-probed; retry shortly'', 30)
      else if 0 < ce_saturated p
        then (''all '' @ itoa (ce_total p) @ '' '' @ want @
          '' credentials are at their concurrency limit; too many requests are in flight, retry shortly'', 5)
      else (''no '' @ want @ '' credential is currently available to serve this request'', 15))"

section \<open>The gates\<close>

definition int32_of :: "int \<Rightarrow> int" where "int32_of n = sint (word_of_int n :: 32 word)"

text \<open>What the gates ask: the model guard, the client guard (none when disabled, the reason when it
  blocks), the token's providers, the wallet (none without billing), the rate limiter with its
  limits, and the number of requests in flight once this one has begun.\<close>

record ingress_env =
  ig_route :: codex_model_route
  ig_blocked :: "string option"
  ig_allows :: bool
  ig_balance :: "(string + float64) option"
  ig_rpm_limit :: int
  ig_codex_multiplier :: int
  ig_rpm_allow :: "string \<Rightarrow> int \<Rightarrow> bool \<times> int"
  ig_max_concurrent :: int
  ig_begin :: "string \<Rightarrow> int"

datatype ingress_effect = LogRow int bool string | AskedRpm string int | TookSlot string

datatype ingress_verdict = Refused "(string \<times> string) list" response | Admitted bool

definition codex_budget :: "bool \<Rightarrow> int \<Rightarrow> int \<Rightarrow> int" where
  "codex_budget openai m n = (if openai \<and> 0 < m then int64_of (n * m) else n)"

definition model_refusal :: "codex_model_reject \<Rightarrow> response" where
  "model_refusal r = (rj_status r, [(''error'', JObj [(''type'', JStr ''invalid_request_error''), (''code'', JStr (rj_code r)),
     (''message'', JStr (rj_message r)), (''suggestion'', JStr (rj_suggestion r))])])"

definition client_refusal :: "string \<Rightarrow> response" where
  "client_refusal reason = (403, [(''type'', JStr ''error''), (''error'', JObj [(''type'', JStr ''forbidden''),
     (''message'', JStr ''client not allowed: this endpoint only accepts interactive Claude clients (Claude Code, Claude Desktop, Cursor). Raw SDKs, LiteLLM, and scripting clients are blocked.''),
     (''reason'', JStr reason)])])"

text \<open>The gates that spend the caller's rate and concurrency.\<close>

definition budget_gates :: "(string \<Rightarrow> string) \<Rightarrow> ingress_env \<Rightarrow> string \<Rightarrow> string \<Rightarrow> bool \<Rightarrow> ingress_effect list \<times> ingress_verdict" where
  "budget_gates provider_of env provider token key_only =
     (let openai = provider_of provider = ''openai''; key = provider_of provider @ ''|'' @ token;
          limit = ig_rpm_limit env; lim = codex_budget openai (ig_codex_multiplier env) limit;
          asked = (if 0 < limit then [AskedRpm key lim] else []);
          rpm = (if 0 < limit then ig_rpm_allow env key lim else (True, 0)) in
      if \<not> fst rpm then (asked @ [LogRow 429 False ''rpm limit exceeded''],
        Refused [(''Retry-After'', itoa (snd rpm))] (429, [(''error'', JStr ''rate limit exceeded''), (''rpm_limit'', JInt lim), (''retry_after'', JInt (snd rpm))]))
      else let conc = ig_max_concurrent env; maxc = (if 0 < conc then codex_budget openai (ig_codex_multiplier env) conc else conc) in
      if \<not> 0 < maxc then (asked, Admitted key_only)
      else let cur = ig_begin env key in
      if int32_of maxc < cur then (asked @ [TookSlot key, LogRow 429 False ''concurrent limit exceeded''],
        Refused [(''Retry-After'', ''5'')] (429, [(''error'', JStr ''too many concurrent requests''), (''max_concurrent'', JInt maxc), (''in_flight'', JInt cur)]))
      else (asked @ [TookSlot key], Admitted key_only))"

text \<open>All of \<open>forward\<close> before the credential loop, for a body that was read. \<open>is_images\<close> is \<open>codeximage.IsPath\<close>.\<close>

definition ingress_gates :: "(string \<Rightarrow> string) \<Rightarrow> ingress_env \<Rightarrow> string \<Rightarrow> string \<Rightarrow> bool \<Rightarrow> ingress_effect list \<times> ingress_verdict" where
  "ingress_gates provider_of env provider token is_images =
     (let guarded = provider_of provider = ''openai'' \<and> \<not> is_images in
      if guarded \<and> reject (ig_route env) \<noteq> None
      then (let r = the (reject (ig_route env)) in ([LogRow (rj_status r) False (rj_message r)], Refused [] (model_refusal r)))
      else if provider_of provider = ''anthropic'' \<and> ig_blocked env \<noteq> None
      then ([LogRow 403 False (''client blocked: '' @ the (ig_blocked env))],
        Refused [(''X-Client-Blocked'', ''1'')] (client_refusal (the (ig_blocked env))))
      else if \<not> ig_allows env
      then ([LogRow 403 False ''provider not allowed for token''],
        Refused [(''X-Provider-Restricted'', provider)] (error_body 403 (''this token is not permitted to use the '' @ provider @ '' endpoint'')))
      else let key_only = guarded \<and> api_key_only (ig_route env);
               balance = (if token \<noteq> [] then ig_balance env else None) in
      case balance of
        Some (Inl e) \<Rightarrow> (case budget_gates provider_of env provider token key_only of (effs, v) \<Rightarrow>
            (LogRow 0 True (''wallet pre-check failed, served anyway: '' @ e) # effs, v))
      | Some (Inr bal) \<Rightarrow> (if bal \<le> 0
          then ([LogRow 402 False ''insufficient balance''],
            Refused [(''Retry-After'', ''60'')] (402, [(''error'', JStr ''insufficient balance''), (''balance_usd'', JNum bal), (''hint'', JStr ''top up at /status/ then retry'')]))
          else budget_gates provider_of env provider token key_only)
      | None \<Rightarrow> budget_gates provider_of env provider token key_only)"

section \<open>The credential loop\<close>

record deferred_response =
  df_status :: int
  df_header :: "string \<Rightarrow> string"
  df_body :: string
  df_auth_id :: string

text \<open>The end of an exchange through the Codex path: retry, done, died on a stale socket, refused for capacity.\<close>

record codex_end =
  xe_retry :: bool
  xe_done :: bool
  xe_stale :: bool
  xe_shed :: bool

record 'w failover_env =
  fe_acquire :: "bool \<Rightarrow> bool \<Rightarrow> string list \<Rightarrow> 'w \<Rightarrow> pool_credential option \<times> 'w"
  fe_elapsed :: "'w \<Rightarrow> int"
  fe_preflight :: "pool_credential \<Rightarrow> 'w \<Rightarrow> string option \<times> 'w"
  fe_forward_codex :: "pool_credential \<Rightarrow> nat \<Rightarrow> 'w \<Rightarrow> codex_end \<times> 'w"
  fe_forward :: "pool_credential \<Rightarrow> nat \<Rightarrow> bool \<Rightarrow> 'w \<Rightarrow> (bool \<times> bool \<times> deferred_response option) \<times> 'w"
  fe_sleep :: "'w \<Rightarrow> bool \<times> 'w"
  fe_unavailable :: "bool \<Rightarrow> 'w \<Rightarrow> string \<times> int"
  fe_has_api_key :: "'w \<Rightarrow> bool"
  fe_release :: "'w \<Rightarrow> 'w"

text \<open>The local variables of the loop. The history lists the credentials taken, newest first.\<close>

record failover_state =
  fo_tried :: "string list"
  fo_attempts :: nat
  fo_deferred :: "deferred_response option"
  fo_api_key_only :: bool
  fo_prep_pending :: bool
  fo_stale_retried :: "string list"
  fo_shed_retried :: "string \<Rightarrow> nat"
  fo_history :: "string list"

datatype failover_end = Delivered | Surfaced deferred_response | PoolEmpty string int | RetriesExhausted | CallerLeft

definition maxAttempts :: nat where "maxAttempts = 12"
definition failoverDeadline :: int where "failoverDeadline = 4 * 60 * second_ns"
definition codexSameCredShedRetries :: nat where "codexSameCredShedRetries = 2"

definition start_failover :: "bool \<Rightarrow> failover_state" where
  "start_failover key_only = \<lparr>fo_tried = [], fo_attempts = 0, fo_deferred = None, fo_api_key_only = key_only,
     fo_prep_pending = False, fo_stale_retried = [], fo_shed_retried = (\<lambda>_. 0), fo_history = []\<rparr>"

definition surface_or :: "failover_state \<Rightarrow> failover_end \<Rightarrow> failover_end" where
  "surface_or fo other = (case fo_deferred fo of Some d \<Rightarrow> Surfaced d | None \<Rightarrow> other)"

definition empty_pool_end :: "'w failover_env \<Rightarrow> (string \<Rightarrow> string) \<Rightarrow> string \<Rightarrow> bool \<Rightarrow> failover_state \<Rightarrow> 'w \<Rightarrow> failover_end" where
  "empty_pool_end env provider_of provider allow fo w = surface_or fo
     (case fe_unavailable env allow w of (msg0, retry_after) \<Rightarrow>
      let msg = (if \<not> allow \<and> fe_has_api_key env w then msg0 @ ''; the only channels still available charge above your current rate, and this API key has opted out of those'' @
               [CHR 0x20, CHR 0xE2, CHR 0x80, CHR 0x94] @ '' enable the upstream fallback in your wallet settings to use them'' else msg0) in
      PoolEmpty (if fo_prep_pending fo then ''claude request preparation failed and no API-key fallback was available''
         else if fo_tried fo \<noteq> [] then ''tried all '' @ nat_digits (length (fo_tried fo)) @ '' available '' @ provider_of provider @
           '' credentials for this request and none could serve it; '' @ msg
         else msg) retry_after)"

definition remove_id :: "string \<Rightarrow> string list \<Rightarrow> string list" where "remove_id i ids = filter (\<lambda>x. x \<noteq> i) ids"

text \<open>What the OpenAI branch does after the exchange; none when the caller left during the back-off.\<close>

definition after_codex :: "'w failover_env \<Rightarrow> string \<Rightarrow> codex_end \<Rightarrow> failover_state \<Rightarrow> 'w \<Rightarrow> failover_state option \<times> 'w" where
  "after_codex env i x fo w =
     (let fo = (if xe_stale x \<and> xe_retry x \<and> i \<notin> set (fo_stale_retried fo)
          then fo\<lparr>fo_stale_retried := i # fo_stale_retried fo, fo_tried := remove_id i (fo_tried fo)\<rparr> else fo) in
      if xe_shed x \<and> xe_retry x \<and> fo_shed_retried fo i < codexSameCredShedRetries
      then (let fo = fo\<lparr>fo_shed_retried := (fo_shed_retried fo)(i := Suc (fo_shed_retried fo i)), fo_tried := remove_id i (fo_tried fo)\<rparr> in
        case fe_sleep env w of (ok, w) \<Rightarrow> (if ok then Some fo else None, w))
      else (Some fo, w))"

text \<open>One round on a credential: an end, or the state for the next round.\<close>

definition failover_round :: "'w failover_env \<Rightarrow> (string \<Rightarrow> string) \<Rightarrow> string \<Rightarrow> nat \<Rightarrow> pool_credential \<Rightarrow> failover_state \<Rightarrow> 'w \<Rightarrow>
    failover_end option \<times> failover_state \<times> 'w" where
  "failover_round env provider_of path turn a fo0 w =
     (let i = pc_id a;
          fo = fo0\<lparr>fo_tried := (if i \<in> set (fo_tried fo0) then fo_tried fo0 else i # fo_tried fo0),
            fo_attempts := Suc (fo_attempts fo0), fo_history := i # fo_history fo0\<rparr>;
          pre = (if provider_of (pc_provider a) = ''anthropic'' \<and> pc_oauth a \<and> path = ''/v1/messages'' then fe_preflight env a w else (None, w)) in
      if fst pre \<noteq> None
      then (None, fo\<lparr>fo_api_key_only := True, fo_prep_pending := True, fo_deferred := None\<rparr>, snd pre)
      else let fo = (if fo_prep_pending fo \<and> \<not> pc_oauth a then fo\<lparr>fo_prep_pending := False\<rparr> else fo) in
      if provider_of (pc_provider a) = ''openai''
      then (case fe_forward_codex env a (fo_attempts fo) (snd pre) of (x, w) \<Rightarrow>
        (case after_codex env i x fo w of
           (None, w) \<Rightarrow> (Some CallerLeft, fo, w)
         | (Some fo, w) \<Rightarrow> if xe_done x \<or> \<not> xe_retry x then (Some Delivered, fo, fe_release env w) else (None, fo, w)))
      else (case fe_forward env a (fo_attempts fo) (0 < turn) (snd pre) of ((retry, done, deferred), w) \<Rightarrow>
        if done \<or> \<not> retry then (Some Delivered, fo, fe_release env w)
        else (None, (case deferred of Some d \<Rightarrow> fo\<lparr>fo_deferred := Some d\<rparr> | None \<Rightarrow> fo), w)))"

fun failover_loop :: "'w failover_env \<Rightarrow> (string \<Rightarrow> string) \<Rightarrow> string \<Rightarrow> string \<Rightarrow> bool \<Rightarrow> nat \<Rightarrow> nat \<Rightarrow> failover_state \<Rightarrow> 'w \<Rightarrow>
    failover_end \<times> failover_state \<times> 'w" where
  "failover_loop env provider_of provider path allow turn 0 fo w = (surface_or fo RetriesExhausted, fo, w)"
| "failover_loop env provider_of provider path allow turn (Suc left) fo w =
     (if 0 < turn \<and> failoverDeadline < fe_elapsed env w then (surface_or fo RetriesExhausted, fo, w) else
      case fe_acquire env allow (fo_api_key_only fo) (fo_tried fo) w of
        (None, w) \<Rightarrow> (empty_pool_end env provider_of provider allow fo w, fo, w)
      | (Some a, w) \<Rightarrow> (case failover_round env provider_of path turn a fo w of
          (Some end_, fo, w) \<Rightarrow> (end_, fo, w)
        | (None, fo, w) \<Rightarrow> failover_loop env provider_of provider path allow (Suc turn) left fo w))"

definition forward_with_failover :: "'w failover_env \<Rightarrow> (string \<Rightarrow> string) \<Rightarrow> string \<Rightarrow> string \<Rightarrow> bool \<Rightarrow> bool \<Rightarrow> 'w \<Rightarrow>
    failover_end \<times> failover_state \<times> 'w" where
  "forward_with_failover env provider_of provider path allow key_only w =
     failover_loop env provider_of provider path allow 0 maxAttempts (start_failover key_only) w"

text \<open>The answer that ends a request the loop could not deliver; none when something else answered or nobody waits.\<close>

definition failover_answer :: "failover_end \<Rightarrow> ((string \<times> string) list \<times> response) option" where
  "failover_answer e = (case e of
       PoolEmpty msg retry_after \<Rightarrow> Some (if 0 < retry_after then [(''Retry-After'', itoa retry_after)] else [], error_body 503 msg)
     | RetriesExhausted \<Rightarrow> Some ([], error_body 503 ''upstream retries exhausted'')
     | _ \<Rightarrow> None)"


section \<open>What the gates guarantee\<close>

definition within_budget :: "(string \<Rightarrow> string) \<Rightarrow> ingress_env \<Rightarrow> string \<Rightarrow> string \<Rightarrow> bool" where
  "within_budget provider_of env provider token =
     (let openai = provider_of provider = ''openai''; key = provider_of provider @ ''|'' @ token;
          maxc = codex_budget openai (ig_codex_multiplier env) (ig_max_concurrent env) in
      (ig_rpm_limit env \<le> 0 \<or> fst (ig_rpm_allow env key (codex_budget openai (ig_codex_multiplier env) (ig_rpm_limit env)))) \<and>
      (ig_max_concurrent env \<le> 0 \<or> maxc \<le> 0 \<or> ig_begin env key \<le> int32_of maxc))"

lemma budget_gates_admit:
  "snd (budget_gates provider_of env provider token key_only) = Admitted k \<longleftrightarrow>
     within_budget provider_of env provider token \<and> k = key_only"
  by (auto simp: budget_gates_def within_budget_def Let_def not_less)

text \<open>C12. A request reaches the credentials exactly when it passed every gate: its model is served,
  its client is not blocked, its token may use the provider, its balance is positive or could not
  be read, and it is within the caller's rate and concurrency; and it is then kept to API keys
  exactly when no subscription serves its model.\<close>

theorem admitted_requests_passed_every_gate:
  "(snd (ingress_gates provider_of env provider token is_images) = Admitted k) =
     ((provider_of provider = ''openai'' \<and> \<not> is_images \<and> reject (ig_route env) \<noteq> None) = False \<and>
      (provider_of provider = ''anthropic'' \<and> ig_blocked env \<noteq> None) = False \<and> ig_allows env \<and>
      (case ig_balance env of Some (Inr bal) \<Rightarrow> token = [] \<or> 0 < bal | _ \<Rightarrow> True) \<and>
      within_budget provider_of env provider token \<and>
      k = (provider_of provider = ''openai'' \<and> \<not> is_images \<and> api_key_only (ig_route env)))"
proof -
  have *: "(snd (case budget_gates provider_of env provider token key of (effs, v) \<Rightarrow> (x # effs, v)) = Admitted k) =
      (snd (budget_gates provider_of env provider token key) = Admitted k)" for key x
    by (simp split: prod.split)
  consider "provider_of provider = ''openai'' \<and> \<not> is_images \<and> reject (ig_route env) \<noteq> None"
    | "provider_of provider = ''anthropic'' \<and> ig_blocked env \<noteq> None"
    | "\<not> (provider_of provider = ''openai'' \<and> \<not> is_images \<and> reject (ig_route env) \<noteq> None)"
      "\<not> (provider_of provider = ''anthropic'' \<and> ig_blocked env \<noteq> None)" by blast
  then show ?thesis
  proof cases
    case 1
    then show ?thesis by (simp add: ingress_gates_def Let_def)
  next
    case 2
    then show ?thesis by (simp add: ingress_gates_def Let_def)
  next
    case 3
    then show ?thesis
      by (cases "ig_allows env"; cases "token = []"; cases "ig_balance env")
        (auto simp: ingress_gates_def Let_def budget_gates_admit * split: sum.split)
  qed
qed

section \<open>What the hint guarantees\<close>

definition described :: "(string \<Rightarrow> string) \<Rightarrow> string \<Rightarrow> bool \<Rightarrow> pool_credential \<Rightarrow> bool" where
  "described provider_of want allow c = (provider_of (pc_provider c) = want \<and> (pc_oauth c \<or> allow))"

definition needs_operator :: "pool_credential \<Rightarrow> bool" where
  "needs_operator c = (pc_disabled c \<or> pc_live c \<and> pc_hard_failed c)"

text \<open>Those the census counts neither as disabled nor as hard-failed.\<close>

definition ce_hopeful :: "pool_census \<Rightarrow> int" where
  "ce_hopeful p = ce_total p - (ce_hard_failed p + ce_disabled p)"

lemma census_step_counts:
  "ce_total (census_step provider_of want allow now c p) = ce_total p + (if described provider_of want allow c then 1 else 0)"
  "ce_hopeful (census_step provider_of want allow now c p) =
     ce_hopeful p + (if described provider_of want allow c \<and> \<not> needs_operator c then 1 else 0)"
  by (simp_all add: ce_hopeful_def census_step_def described_def needs_operator_def Let_def)

lemma census_counts:
  "ce_total (fold (census_step provider_of want allow now) cs p) =
     ce_total p + int (length (filter (described provider_of want allow) cs))"
  "ce_hopeful (fold (census_step provider_of want allow now) cs p) =
     ce_hopeful p + int (length (filter (\<lambda>c. described provider_of want allow c \<and> \<not> needs_operator c) cs))"
proof (induction cs arbitrary: p)
  case (Cons c cs)
  case 1
  show ?case by (simp add: Cons.IH(1) census_step_counts)
  case 2
  show ?case by (simp add: Cons.IH(2) census_step_counts)
qed simp_all

text \<open>The hint an empty pool gives is honest and short: it asks for no wait exactly when waiting
  cannot help, since every credential the token could use is disabled or hard-failed, and
  otherwise for at least a second and at most five minutes.\<close>

theorem retry_hint_is_bounded:
  "0 \<le> snd (pool_unavailable provider_of duration_text provider allow now creds) \<and>
   snd (pool_unavailable provider_of duration_text provider allow now creds) \<le> poolRetryAfterCapSeconds \<and>
   (snd (pool_unavailable provider_of duration_text provider allow now creds) = 0) =
     ({c \<in> set creds. described provider_of (provider_of provider) allow c} \<subseteq> {c. needs_operator c})"
proof -
  let ?p = "pool_census_of provider_of (provider_of provider) allow now creds"
  have "0 \<le> snd (pool_unavailable provider_of duration_text provider allow now creds)"
    "snd (pool_unavailable provider_of duration_text provider allow now creds) \<le> poolRetryAfterCapSeconds"
    "(snd (pool_unavailable provider_of duration_text provider allow now creds) = 0) =
      (ce_total ?p = 0 \<or> ce_hopeful ?p = 0)"
    by (simp_all add: pool_unavailable_def poolRetryAfterCapSeconds_def ce_hopeful_def Let_def)
  moreover have "ce_total ?p = int (length (filter (described provider_of (provider_of provider) allow) creds))"
    "ce_hopeful ?p =
      int (length (filter (\<lambda>c. described provider_of (provider_of provider) allow c \<and> \<not> needs_operator c) creds))"
    unfolding pool_census_of_def census_counts by (simp_all add: ce_hopeful_def)
  ultimately show ?thesis by (auto simp: filter_empty_conv)
qed

section \<open>What the loop guarantees\<close>

text \<open>The pool's promise: a credential it hands out is not one of those it was told to leave out.\<close>

definition honours_exclusion :: "'w failover_env \<Rightarrow> bool" where
  "honours_exclusion env \<longleftrightarrow> (\<forall>allow key ex w a w'. fe_acquire env allow key ex w = (Some a, w') \<longrightarrow> pc_id a \<notin> set ex)"

definition tries_left :: "failover_state \<Rightarrow> string \<Rightarrow> nat" where
  "tries_left fo i = (if i \<in> set (fo_tried fo) then 1 else 0) + (if i \<in> set (fo_stale_retried fo) then 1 else 0) + fo_shed_retried fo i"

definition loop_inv :: "failover_state \<Rightarrow> bool" where
  "loop_inv fo \<longleftrightarrow> (\<forall>i. count_list (fo_history fo) i \<le> tries_left fo i \<and> fo_shed_retried fo i \<le> codexSameCredShedRetries) \<and>
     fo_attempts fo = length (fo_history fo)"

lemma loop_inv_start: "loop_inv (start_failover k)"
  by (simp add: loop_inv_def start_failover_def tries_left_def)

lemma loop_inv_flags [simp]:
  "loop_inv (fo\<lparr>fo_api_key_only := a\<rparr>) = loop_inv fo" "loop_inv (fo\<lparr>fo_prep_pending := a\<rparr>) = loop_inv fo"
  "loop_inv (fo\<lparr>fo_deferred := d\<rparr>) = loop_inv fo"
  by (simp_all add: loop_inv_def tries_left_def)

lemma loop_inv_take:
  assumes "loop_inv fo" "i \<notin> set (fo_tried fo)"
  shows "loop_inv (fo\<lparr>fo_tried := i # fo_tried fo, fo_attempts := Suc (fo_attempts fo), fo_history := i # fo_history fo\<rparr>)"
  unfolding loop_inv_def
proof (intro conjI allI)
  fix j
  have "count_list (fo_history fo) j \<le> tries_left fo j" using assms(1) by (simp add: loop_inv_def)
  then show "count_list (fo_history (fo\<lparr>fo_tried := i # fo_tried fo, fo_attempts := Suc (fo_attempts fo), fo_history := i # fo_history fo\<rparr>)) j
      \<le> tries_left (fo\<lparr>fo_tried := i # fo_tried fo, fo_attempts := Suc (fo_attempts fo), fo_history := i # fo_history fo\<rparr>) j"
    using assms(2) by (auto simp: tries_left_def split: if_splits)
qed (use assms in \<open>simp_all add: loop_inv_def\<close>)

lemma loop_inv_stale:
  assumes "loop_inv fo" "i \<notin> set (fo_stale_retried fo)"
  shows "loop_inv (fo\<lparr>fo_stale_retried := i # fo_stale_retried fo, fo_tried := remove_id i (fo_tried fo)\<rparr>)"
  unfolding loop_inv_def
proof (intro conjI allI)
  fix j
  have "count_list (fo_history fo) j \<le> tries_left fo j" using assms(1) by (simp add: loop_inv_def)
  then show "count_list (fo_history (fo\<lparr>fo_stale_retried := i # fo_stale_retried fo, fo_tried := remove_id i (fo_tried fo)\<rparr>)) j
      \<le> tries_left (fo\<lparr>fo_stale_retried := i # fo_stale_retried fo, fo_tried := remove_id i (fo_tried fo)\<rparr>) j"
    using assms(2) by (auto simp: tries_left_def remove_id_def split: if_splits)
qed (use assms in \<open>simp_all add: loop_inv_def\<close>)

lemma loop_inv_shed:
  assumes "loop_inv fo" "fo_shed_retried fo i < codexSameCredShedRetries"
  shows "loop_inv (fo\<lparr>fo_shed_retried := (fo_shed_retried fo)(i := Suc (fo_shed_retried fo i)), fo_tried := remove_id i (fo_tried fo)\<rparr>)"
  unfolding loop_inv_def
proof (intro conjI allI)
  fix j
  have "count_list (fo_history fo) j \<le> tries_left fo j" using assms(1) by (simp add: loop_inv_def)
  then show "count_list (fo_history (fo\<lparr>fo_shed_retried := (fo_shed_retried fo)(i := Suc (fo_shed_retried fo i)), fo_tried := remove_id i (fo_tried fo)\<rparr>)) j
      \<le> tries_left (fo\<lparr>fo_shed_retried := (fo_shed_retried fo)(i := Suc (fo_shed_retried fo i)), fo_tried := remove_id i (fo_tried fo)\<rparr>) j"
    by (auto simp: tries_left_def remove_id_def split: if_splits)
qed (use assms in \<open>auto simp: loop_inv_def Suc_le_eq\<close>)

lemma after_codex_inv:
  assumes "loop_inv fo" "after_codex env i x fo w = (Some fo', w')"
  shows "loop_inv fo' \<and> fo_history fo' = fo_history fo \<and> fo_deferred fo' = fo_deferred fo"
proof -
  define fo1 where "fo1 = (if xe_stale x \<and> xe_retry x \<and> i \<notin> set (fo_stale_retried fo)
          then fo\<lparr>fo_stale_retried := i # fo_stale_retried fo, fo_tried := remove_id i (fo_tried fo)\<rparr> else fo)"
  have 1: "loop_inv fo1 \<and> fo_history fo1 = fo_history fo \<and> fo_deferred fo1 = fo_deferred fo"
    using assms(1) loop_inv_stale by (auto simp: fo1_def)
  show ?thesis using assms(2) 1 loop_inv_shed[of fo1 i]
    unfolding after_codex_def fo1_def[symmetric] Let_def by (auto split: if_splits prod.splits)
qed

lemma round_inv:
  assumes "loop_inv fo" "pc_id a \<notin> set (fo_tried fo)" "failover_round env provider_of path turn a fo w = (e, fo', w')"
  shows "loop_inv fo' \<and> fo_history fo' = pc_id a # fo_history fo"
proof -
  define fo1 where "fo1 = fo\<lparr>fo_tried := pc_id a # fo_tried fo, fo_attempts := Suc (fo_attempts fo), fo_history := pc_id a # fo_history fo\<rparr>"
  define fo2 where "fo2 = (if fo_prep_pending fo1 \<and> \<not> pc_oauth a then fo1\<lparr>fo_prep_pending := False\<rparr> else fo1)"
  have "loop_inv fo1" unfolding fo1_def by (rule loop_inv_take[OF assms(1,2)])
  then have 2: "loop_inv fo2" "fo_history fo2 = pc_id a # fo_history fo" by (auto simp: fo2_def fo1_def)
  have 3: "fo\<lparr>fo_tried := (if pc_id a \<in> set (fo_tried fo) then fo_tried fo else pc_id a # fo_tried fo),
            fo_attempts := Suc (fo_attempts fo), fo_history := pc_id a # fo_history fo\<rparr> = fo1"
    using assms(2) by (simp add: fo1_def)
  have h1: "fo_history fo1 = pc_id a # fo_history fo" by (simp add: fo1_def)
  note r = assms(3)[unfolded failover_round_def Let_def 3 fo2_def[symmetric]]
  show ?thesis using r 2 \<open>loop_inv fo1\<close> h1
    by (auto split: if_splits prod.splits option.splits dest: after_codex_inv[OF 2(1)])
qed

lemma loop_spec:
  assumes "honours_exclusion env"
  shows "loop_inv fo \<Longrightarrow> failover_loop env provider_of provider path allow turn left fo w = (e, fo', w') \<Longrightarrow>
    loop_inv fo' \<and> length (fo_history fo') \<le> length (fo_history fo) + left"
proof (induction left arbitrary: turn fo w)
  case 0
  then show ?case by simp
next
  case (Suc left)
  show ?case
  proof (cases "0 < turn \<and> failoverDeadline < fe_elapsed env w")
    case True
    then show ?thesis using Suc.prems by simp
  next
    case False
    obtain ac w1 where ac: "fe_acquire env allow (fo_api_key_only fo) (fo_tried fo) w = (ac, w1)" by fastforce
    show ?thesis
    proof (cases ac)
      case None
      then show ?thesis using Suc.prems False ac by auto
    next
      case (Some a)
      obtain e1 fo1 w2 where r: "failover_round env provider_of path turn a fo w1 = (e1, fo1, w2)" by (metis prod.exhaust)
      have "pc_id a \<notin> set (fo_tried fo)" using assms ac unfolding Some honours_exclusion_def by blast
      from round_inv[OF Suc.prems(1) this r] have 1: "loop_inv fo1" "length (fo_history fo1) = Suc (length (fo_history fo))" by auto
      show ?thesis
      proof (cases e1)
        case None
        then show ?thesis using Suc.IH[OF 1(1), of "Suc turn" w2] Suc.prems False ac Some r 1(2) by simp
      next
        case (Some x)
        then show ?thesis using Suc.prems False ac \<open>ac = Some a\<close> r 1 by simp
      qed
    qed
  qed
qed

text \<open>C13. The credential loop ends after at most twelve rounds and asks no credential more than four
  times: once, once more after a stale socket, and twice more after a refusal for capacity.\<close>

theorem failover_is_bounded:
  assumes "honours_exclusion env"
  shows "length (fo_history (fst (snd (forward_with_failover env provider_of provider path allow key_only w)))) \<le> maxAttempts \<and>
    count_list (fo_history (fst (snd (forward_with_failover env provider_of provider path allow key_only w)))) i \<le> 2 + codexSameCredShedRetries"
proof -
  obtain e fo' w' where f: "forward_with_failover env provider_of provider path allow key_only w = (e, fo', w')" by (metis prod.exhaust)
  have 1: "loop_inv fo'" "length (fo_history fo') \<le> maxAttempts"
    using loop_spec[OF assms loop_inv_start f[unfolded forward_with_failover_def]] by (auto simp: start_failover_def)
  then have "count_list (fo_history fo') i \<le> tries_left fo' i" "fo_shed_retried fo' i \<le> codexSameCredShedRetries"
    by (auto simp: loop_inv_def)
  then show ?thesis using 1(2) by (simp add: f tries_left_def split: if_splits)
qed


text \<open>A pool of one credential that answers every exchange with a capacity refusal.\<close>

definition one_credential :: pool_credential where
  "one_credential = \<lparr>pc_id = ''a'', pc_provider = ''openai'', pc_disabled = False, pc_live = True, pc_oauth = True, pc_plan = ''plus'',
     pc_base_url = [], pc_price_multiplier = 0, pc_quota_reset_at = 0, pc_max_concurrent = 0, pc_active_clients = 0,
     pc_healthy = True, pc_hard_failed = False\<rparr>"

definition shedding_env :: "unit failover_env" where
  "shedding_env = \<lparr>fe_acquire = (\<lambda>_ _ ex w. (if ''a'' \<in> set ex then None else Some one_credential, w)), fe_elapsed = (\<lambda>_. 0),
     fe_preflight = (\<lambda>_ w. (None, w)),
     fe_forward_codex = (\<lambda>_ _ w. (\<lparr>xe_retry = True, xe_done = False, xe_stale = True, xe_shed = True\<rparr>, w)),
     fe_forward = (\<lambda>_ _ _ w. ((True, False, None), w)), fe_sleep = (\<lambda>w. (True, w)), fe_unavailable = (\<lambda>_ _. ([], 0)),
     fe_has_api_key = (\<lambda>_. False), fe_release = (\<lambda>w. w)\<rparr>"

theorem failover_is_bounded_witness:
  "count_list (fo_history (fst (snd (forward_with_failover shedding_env (\<lambda>s. s) ''openai'' ''/v1/responses'' True False ())))) ''a'' \<le> 4"
  using failover_is_bounded[of shedding_env "\<lambda>s. s" "''openai''" "''/v1/responses''" True False "()" "''a''"]
  by (auto simp: honours_exclusion_def shedding_env_def one_credential_def codexSameCredShedRetries_def split: if_splits)

text \<open>The rounds of one request, stated without the loop: each asks the pool, in the world the last one left and in time,
  for a credential that is not excluded, plays it, and is handed the request back. What a round leaves to be shown: a
  failed preparation forgets what upstream said before, an answer that was withheld takes its place.\<close>

datatype round_note = Forgotten | Withheld deferred_response | Unchanged

definition round_says :: "'w failover_env \<Rightarrow> (string \<Rightarrow> string) \<Rightarrow> string \<Rightarrow> nat \<Rightarrow> pool_credential \<Rightarrow> nat \<Rightarrow> 'w \<Rightarrow> round_note" where
  "round_says env provider_of path turn a tries w =
     (let subscription = provider_of (pc_provider a) = ''anthropic'' \<and> pc_oauth a \<and> path = ''/v1/messages'';
          w1 = (if subscription then snd (fe_preflight env a w) else w) in
      if subscription \<and> fst (fe_preflight env a w) \<noteq> None then Forgotten
      else if provider_of (pc_provider a) = ''openai'' then Unchanged
      else case fst (fe_forward env a tries (0 < turn) w1) of (_, _, Some d) \<Rightarrow> Withheld d | _ \<Rightarrow> Unchanged)"

inductive played :: "'w failover_env \<Rightarrow> (string \<Rightarrow> string) \<Rightarrow> string \<Rightarrow> bool \<Rightarrow> bool \<Rightarrow> 'w \<Rightarrow> (pool_credential \<times> round_note) list \<Rightarrow> failover_state \<Rightarrow> 'w \<Rightarrow> bool"
  for env provider_of path allow key_only w0 where
  none: "played env provider_of path allow key_only w0 [] (start_failover key_only) w0"
| round: "played env provider_of path allow key_only w0 ts fo w \<Longrightarrow> ts = [] \<or> fe_elapsed env w \<le> failoverDeadline \<Longrightarrow>
     fe_acquire env allow (fo_api_key_only fo) (fo_tried fo) w = (Some a, w1) \<Longrightarrow>
     failover_round env provider_of path (length ts) a fo w1 = (None, fo', w') \<Longrightarrow>
     played env provider_of path allow key_only w0 (ts @ [(a, round_says env provider_of path (length ts) a (Suc (length ts)) w1)]) fo' w'"

text \<open>The last answer an upstream gave that no failed preparation followed.\<close>

fun left_to_show :: "round_note list \<Rightarrow> deferred_response option \<Rightarrow> deferred_response option" where
  "left_to_show [] d = d"
| "left_to_show (n # ns) d = left_to_show ns (case n of Forgotten \<Rightarrow> None | Withheld d' \<Rightarrow> Some d' | Unchanged \<Rightarrow> d)"

text \<open>All the loop may do when it gives up: the pool it asked had no credential beyond those played, or the rounds were
  used up, or the deadline had passed.\<close>

definition gave_up :: "'w failover_env \<Rightarrow> bool \<Rightarrow> (pool_credential \<times> round_note) list \<Rightarrow> failover_state \<Rightarrow> 'w \<Rightarrow> bool" where
  "gave_up env allow ts fo w \<longleftrightarrow> set (fo_tried fo) \<subseteq> (\<lambda>t. pc_id (fst t)) ` set ts \<and>
     (length ts = maxAttempts \<or> ts \<noteq> [] \<and> failoverDeadline < fe_elapsed env w \<or>
      fst (fe_acquire env allow (fo_api_key_only fo) (fo_tried fo) w) = None)"

lemma left_to_show_append: "left_to_show (ns @ [n]) d = (case n of Forgotten \<Rightarrow> None | Withheld d' \<Rightarrow> Some d' | Unchanged \<Rightarrow> left_to_show ns d)"
  by (cases n; induction ns arbitrary: d) simp_all

lemma round_ends: "failover_round env provider_of path turn a fo w = (Some e, fo', w') \<Longrightarrow> e = Delivered \<or> e = CallerLeft"
  by (auto simp: failover_round_def Let_def split: if_splits prod.splits option.splits)

lemma after_codex_keeps:
  "after_codex env i x fo w = (Some fo', w') \<Longrightarrow> set (fo_tried fo') \<subseteq> set (fo_tried fo) \<and> fo_deferred fo' = fo_deferred fo \<and> fo_attempts fo' = fo_attempts fo"
  by (auto simp: after_codex_def Let_def remove_id_def split: if_splits prod.splits)

lemma round_leaves:
  assumes "failover_round env provider_of path turn a fo w = (None, fo', w')"
  shows "set (fo_tried fo') \<subseteq> insert (pc_id a) (set (fo_tried fo)) \<and> fo_attempts fo' = Suc (fo_attempts fo) \<and>
    fo_deferred fo' = (case round_says env provider_of path turn a (Suc (fo_attempts fo)) w of Forgotten \<Rightarrow> None | Withheld d \<Rightarrow> Some d | Unchanged \<Rightarrow> fo_deferred fo)"
proof -
  define fo1 where "fo1 = fo\<lparr>fo_tried := (if pc_id a \<in> set (fo_tried fo) then fo_tried fo else pc_id a # fo_tried fo),
            fo_attempts := Suc (fo_attempts fo), fo_history := pc_id a # fo_history fo\<rparr>"
  define fo2 where "fo2 = (if fo_prep_pending fo1 \<and> \<not> pc_oauth a then fo1\<lparr>fo_prep_pending := False\<rparr> else fo1)"
  have 1: "set (fo_tried fo1) = insert (pc_id a) (set (fo_tried fo))" "fo_attempts fo1 = Suc (fo_attempts fo)" "fo_deferred fo1 = fo_deferred fo"
    by (auto simp: fo1_def)
  then have 2: "set (fo_tried fo2) = insert (pc_id a) (set (fo_tried fo))" "fo_attempts fo2 = Suc (fo_attempts fo)" "fo_deferred fo2 = fo_deferred fo"
    by (simp_all add: fo2_def)
  define sub where "sub \<longleftrightarrow> provider_of (pc_provider a) = ''anthropic'' \<and> pc_oauth a \<and> path = ''/v1/messages''"
  define pre where "pre = (if sub then fe_preflight env a w else (None, w))"
  note run = assms[unfolded failover_round_def Let_def fo1_def[symmetric] sub_def[symmetric] pre_def[symmetric] fo2_def[symmetric]]
  note says = round_says_def[of env provider_of path turn a _ w, unfolded Let_def sub_def[symmetric]]
  show ?thesis
  proof (cases "fst pre = None")
    case False
    with run have "fo' = fo1\<lparr>fo_api_key_only := True, fo_prep_pending := True, fo_deferred := None\<rparr>" by simp
    moreover from False have "sub \<and> fst (fe_preflight env a w) \<noteq> None" by (simp add: pre_def split: if_splits)
    then have "round_says env provider_of path turn a n w = Forgotten" for n by (simp add: says)
    ultimately show ?thesis using 1 by simp
  next
    case pre: True
    then have p: "\<not> (sub \<and> fst (fe_preflight env a w) \<noteq> None)" "snd pre = (if sub then snd (fe_preflight env a w) else w)" by (auto simp: pre_def)
    show ?thesis
    proof (cases "provider_of (pc_provider a) = ''openai''")
      case True
      obtain x w2 where x: "fe_forward_codex env a (fo_attempts fo2) (snd pre) = (x, w2)" by fastforce
      obtain f3 w3 where a: "after_codex env (pc_id a) x fo2 w2 = (f3, w3)" by fastforce
      from run pre True x a have f3: "f3 = Some fo'" by (auto split: option.splits if_splits)
      have "round_says env provider_of path turn a n w = Unchanged" for n using p(1) True by (simp add: says)
      then show ?thesis using after_codex_keeps[OF a[unfolded f3]] 2 by auto
    next
      case False
      obtain retry don d w2 where f: "fe_forward env a (fo_attempts fo2) (0 < turn) (snd pre) = ((retry, don, d), w2)" by (metis prod.exhaust)
      with run pre False have "fo' = (case d of Some d \<Rightarrow> fo2\<lparr>fo_deferred := Some d\<rparr> | None \<Rightarrow> fo2)" by (auto split: if_splits)
      moreover have "round_says env provider_of path turn a (Suc (fo_attempts fo)) w = (case d of Some d \<Rightarrow> Withheld d | None \<Rightarrow> Unchanged)"
        using p f False 2(2) by (auto simp: says split: if_splits option.split)
      ultimately show ?thesis using 2 by (auto split: option.split)
    qed
  qed
qed

lemma played_facts:
  "played env provider_of path allow key_only w0 ts fo w \<Longrightarrow> set (fo_tried fo) \<subseteq> (\<lambda>t. pc_id (fst t)) ` set ts \<and>
     fo_attempts fo = length ts \<and> fo_deferred fo = left_to_show (map snd ts) None"
proof (induction rule: played.induct)
  case none
  show ?case by (simp add: start_failover_def)
next
  case (round ts fo w a w1 fo' w')
  from round_leaves[OF round(4)] round.IH show ?case by (auto simp: left_to_show_append split: round_note.split)
qed

definition ends_well :: "'w failover_env \<Rightarrow> bool \<Rightarrow> failover_end \<Rightarrow> (pool_credential \<times> round_note) list \<Rightarrow> failover_state \<Rightarrow> 'w \<Rightarrow> bool" where
  "ends_well env allow e ts fo w \<longleftrightarrow> gave_up env allow ts fo w \<and>
     (case left_to_show (map snd ts) None of Some d \<Rightarrow> e = Surfaced d | None \<Rightarrow> e = RetriesExhausted \<or> (\<exists>m r. e = PoolEmpty m r))"

lemma surface_ends:
  assumes "played env provider_of path allow key_only w0 ts fo w" "gave_up env allow ts fo w" "e = RetriesExhausted \<or> (\<exists>m r. e = PoolEmpty m r)"
  shows "ends_well env allow (surface_or fo e) ts fo w"
  using assms(2,3) played_facts[OF assms(1)] by (auto simp: ends_well_def surface_or_def split: option.split)

lemma empty_pool_ends:
  assumes "played env provider_of path allow key_only w0 ts fo w" "gave_up env allow ts fo w"
  shows "ends_well env allow (empty_pool_end env provider_of provider allow fo w') ts fo w"
  unfolding empty_pool_end_def by (rule surface_ends[OF assms]) (simp_all split: prod.split add: Let_def)

lemma loop_ends:
  "played env provider_of path allow key_only w0 ts fo w \<Longrightarrow> length ts + left = maxAttempts \<Longrightarrow>
    failover_loop env provider_of provider path allow (length ts) left fo w = (e, fo', w') \<Longrightarrow>
    e = Delivered \<or> e = CallerLeft \<or> (\<exists>ts w1. played env provider_of path allow key_only w0 ts fo' w1 \<and> ends_well env allow e ts fo' w1)"
proof (induction left arbitrary: ts fo w)
  case 0
  then have "gave_up env allow ts fo w" using played_facts[OF 0(1)] by (simp add: gave_up_def)
  from surface_ends[OF 0(1) this, of RetriesExhausted] 0 show ?case by auto
next
  case (Suc left)
  note pl = Suc.prems(1)
  show ?case
  proof (cases "0 < length ts \<and> failoverDeadline < fe_elapsed env w")
    case True
    then have "gave_up env allow ts fo w" using played_facts[OF pl] by (auto simp: gave_up_def)
    from surface_ends[OF pl this, of RetriesExhausted] Suc.prems(3) True pl show ?thesis by auto
  next
    case False
    obtain ac w1 where ac: "fe_acquire env allow (fo_api_key_only fo) (fo_tried fo) w = (ac, w1)" by fastforce
    show ?thesis
    proof (cases ac)
      case None
      then have "gave_up env allow ts fo w" using ac played_facts[OF pl] by (auto simp: gave_up_def)
      from empty_pool_ends[OF pl this, of provider w1] show ?thesis using Suc.prems(3) False ac None pl by auto
    next
      case (Some a)
      obtain e1 fo1 w2 where r: "failover_round env provider_of path (length ts) a fo w1 = (e1, fo1, w2)" by (metis prod.exhaust)
      show ?thesis
      proof (cases e1)
        case None
        have "ts = [] \<or> fe_elapsed env w \<le> failoverDeadline" using False by auto
        note pl1 = played.round[OF pl this ac[unfolded Some] r[unfolded None]]
        have "failover_loop env provider_of provider path allow (Suc (length ts)) left fo1 w2 = (e, fo', w')"
          using Suc.prems(3) unfolding failover_loop.simps if_not_P[OF False] ac[unfolded Some] by (simp add: r None)
        then show ?thesis using Suc.IH[OF pl1] Suc.prems(2) by simp
      next
        case (Some x)
        then show ?thesis using Suc.prems(3) False ac \<open>ac = Some a\<close> r round_ends[of env provider_of path "length ts" a fo w1 x fo1 w2] by auto
      qed
    qed
  qed
qed

text \<open>C14. A caller sees a failure only when nothing is left: unless the request was delivered or its caller left, the loop
  has played rounds, each on a credential the pool gave when asked for one not yet excluded, and stops where the pool
  has none but those it excludes, all of them played, or twelve rounds are used, or four minutes passed since the start.
  It then shows the last answer an upstream gave that no failed preparation followed, and its own 503 only if there is
  none.\<close>

theorem failure_only_when_nothing_is_left:
  assumes "forward_with_failover env provider_of provider path allow key_only w = (e, fo, w')"
  shows "e = Delivered \<or> e = CallerLeft \<or>
    (\<exists>ts w1. played env provider_of path allow key_only w ts fo w1 \<and> ends_well env allow e ts fo w1)"
  using loop_ends[OF played.none, of maxAttempts] assms by (simp add: forward_with_failover_def)

theorem failure_only_when_nothing_is_left_witness:
  "\<exists>e fo ts w1. forward_with_failover shedding_env (\<lambda>s. s) ''openai'' ''/v1/responses'' True False () = (e, fo, ()) \<and>
     e \<noteq> Delivered \<and> e \<noteq> CallerLeft \<and> played shedding_env (\<lambda>s. s) ''/v1/responses'' True False () ts fo w1 \<and> ends_well shedding_env True e ts fo w1"
proof -
  have "\<exists>e fo. x = (e, fo, ())" for x :: "failover_end \<times> failover_state \<times> unit" by (cases x) auto
  then obtain e fo where f: "forward_with_failover shedding_env (\<lambda>s. s) ''openai'' ''/v1/responses'' True False () = (e, fo, ())" by blast
  have "case fst (forward_with_failover shedding_env (\<lambda>s. s) ''openai'' ''/v1/responses'' True False ()) of PoolEmpty _ _ \<Rightarrow> True | _ \<Rightarrow> False"
    by code_simp
  with f have "e \<noteq> Delivered" "e \<noteq> CallerLeft" by auto
  with failure_only_when_nothing_is_left[OF f] f show ?thesis by blast
qed

section \<open>What opting out guarantees\<close>

lemma effective_rate:
  "promo_for cc (sb_promos b) provider now = (rate, hit) \<Longrightarrow>
   fst (effective_multiplier cc b now g provider model key_mult) = (if hit then rate else if 0 < key_mult then key_mult else multiplier_for g provider)"
  by (simp only: effective_multiplier_def prod.case if_distrib[of fst] fst_conv cong: if_cong)

text \<open>A token that opted out of dearer channels never pays more for a fallback: when the loop may
  use API keys although the token opted out, whichever offered key serves the request charges it
  at most the rate of its own group or of the running promotion.\<close>

theorem opt_out_never_pays_more:
  assumes "allow_api_key_fallback (normalize_provider cc) True (Some False)
      (Some (Some (multiplier_for g provider, snd (promo_for cc (sb_promos b) provider now)))) provider creds"
    and "c \<in> set creds" "offered (normalize_provider cc) (normalize_provider cc provider) c"
  shows "fst (effective_multiplier cc b now g provider model (api_key_price_override (Some c))) \<le>
    fst (effective_multiplier cc b now g provider model 0)"
proof (cases "promo_for cc (sb_promos b) provider now")
  case (Pair rate hit)
  have "\<not> fallback_costs_more (normalize_provider cc) (Some (Some (multiplier_for g provider, hit))) provider creds"
    using assms(1) by (simp add: allow_api_key_fallback_def Pair)
  then have "hit \<or> (\<forall>c \<in> set creds. \<not> (offered (normalize_provider cc) (normalize_provider cc provider) c \<and> \<not> pc_oauth c \<and>
      0 < pc_price_multiplier c \<and> multiplier_for g provider < pc_price_multiplier c))"
    by (simp add: fallback_costs_more_def list_ex_iff split: if_splits)
  then have "0 < pc_price_multiplier c \<Longrightarrow> \<not> hit \<Longrightarrow> \<not> pc_oauth c \<Longrightarrow> pc_price_multiplier c \<le> multiplier_for g provider"
    using assms(2,3) not_less by blast
  then show ?thesis unfolding effective_rate[OF Pair] by (simp add: api_key_price_override_def)
qed


definition plain_cc :: cc_core where
  "plain_cc = \<lparr>normalize_provider = (\<lambda>s. s), quantize_usd = (\<lambda>x. x)\<rparr>"

definition parity_group :: pricing_group where
  "parity_group = \<lparr>g_id = 1, g_name = [], g_description = [], g_codex_multiplier = 1, g_claude_multiplier = 1,
     g_credential_group = [], g_is_default = True, g_created_at = 0, g_updated_at = 0\<rparr>"

theorem opt_out_never_pays_more_witness:
  "fst (effective_multiplier plain_cc \<lparr>sb_promos = []\<rparr> 0 parity_group ''openai'' ''m''
      (api_key_price_override (Some (one_credential\<lparr>pc_oauth := False\<rparr>)))) \<le>
   fst (effective_multiplier plain_cc \<lparr>sb_promos = []\<rparr> 0 parity_group ''openai'' ''m'' 0)"
proof (rule opt_out_never_pays_more)
  let ?c = "one_credential\<lparr>pc_oauth := False\<rparr>"
  show "?c \<in> set [?c]" by simp
  show "offered (normalize_provider plain_cc) (normalize_provider plain_cc ''openai'') ?c"
    by (simp add: offered_def plain_cc_def one_credential_def)
  show "allow_api_key_fallback (normalize_provider plain_cc) True (Some False)
      (Some (Some (multiplier_for parity_group ''openai'', snd (promo_for plain_cc (sb_promos \<lparr>sb_promos = []\<rparr>) ''openai'' 0)))) ''openai'' [?c]"
    by (simp add: allow_api_key_fallback_def fallback_costs_more_def one_credential_def)
qed

end
