(* ===== verification/Exchange.thy ===== *)
theory Exchange
  imports Failover
begin

text \<open>
  One exchange with an Anthropic upstream and what it costs (\<open>doForward\<close>, \<open>doForwardAnthropicAPIKey\<close>
  and the usage accounting of \<open>internal/server/proxy.go\<close>). What the upstream sends, the decoding of
  JSON, the price catalogue, the advisor's iterations and the thinking-block matchers are arguments;
  an exchange is the list of its effects on the credential, the caller and the ledgers, in order.
\<close>

section \<open>Observed usage\<close>

text \<open>The fields of cc-core's \<open>usage.Counts\<close> the source uses.\<close>

record usage_counts =
  uc_input :: int
  uc_output :: int
  uc_cache_create :: int
  uc_cache_create_1h :: int
  uc_cache_read :: int
  uc_requests :: int

definition no_usage :: usage_counts where
  "no_usage = \<lparr>uc_input = 0, uc_output = 0, uc_cache_create = 0, uc_cache_create_1h = 0, uc_cache_read = 0, uc_requests = 0\<rparr>"

text \<open>The wire shape; \<open>'i\<close> is cc-core's \<open>IterationUsage\<close>.\<close>

record 'i usage_json =
  uj_input :: int
  uj_output :: int
  uj_cache_creation :: int
  uj_cache_read :: int
  uj_iterations :: "'i list"
  uj_ephemeral :: "(int \<times> int) option"

definition observed :: "'i usage_json \<Rightarrow> bool" where
  "observed u = (0 < uj_input u \<or> 0 < uj_output u \<or> 0 < uj_cache_creation u \<or> 0 < uj_cache_read u)"

definition to_counts :: "'i usage_json \<Rightarrow> usage_counts" where
  "to_counts u = \<lparr>uc_input = uj_input u, uc_output = uj_output u, uc_cache_create = uj_cache_creation u,
     uc_cache_create_1h = (case uj_ephemeral u of Some (_, h) \<Rightarrow> h | None \<Rightarrow> 0),
     uc_cache_read = uj_cache_read u, uc_requests = (if observed u then 1 else 0)\<rparr>"

text \<open>What a payload decodes to: not an object, a \<open>usage\<close>, a \<open>message\<close> that decodes or not, neither.\<close>

datatype 'i usage_probe = NotAnObject | TopUsage "'i usage_json" | InMessage "'i usage_json option" | NoUsage

definition merge_counts :: "'i usage_json \<Rightarrow> usage_counts \<Rightarrow> usage_counts" where
  "merge_counts u d =
     \<lparr>uc_input = (if 0 < uj_input u then uj_input u else uc_input d),
      uc_output = (if 0 < uj_output u then uj_output u else uc_output d),
      uc_cache_create = (if 0 < uj_cache_creation u then uj_cache_creation u else uc_cache_create d),
      uc_cache_create_1h = (case uj_ephemeral u of Some (_, h) \<Rightarrow> if 0 < h then h else uc_cache_create_1h d | None \<Rightarrow> uc_cache_create_1h d),
      uc_cache_read = (if 0 < uj_cache_read u then uj_cache_read u else uc_cache_read d),
      uc_requests = (if observed u then 1 else uc_requests d)\<rparr>"

definition merge_sse_usage :: "'i usage_probe \<Rightarrow> usage_counts \<times> 'i list \<Rightarrow> usage_counts \<times> 'i list" where
  "merge_sse_usage p acc = (case (case p of TopUsage u \<Rightarrow> Some u | InMessage m \<Rightarrow> m | _ \<Rightarrow> None) of
       None \<Rightarrow> acc
     | Some u \<Rightarrow> (merge_counts u (fst acc), if uj_iterations u \<noteq> [] then uj_iterations u else snd acc))"

definition extract_usage_from_json :: "'i usage_json \<Rightarrow> usage_counts \<times> 'i list" where
  "extract_usage_from_json u = (to_counts u, uj_iterations u)"

section \<open>Relaying a stream\<close>

record 'i sse_line =
  sl_line :: string
  sl_event :: string
  sl_data :: "string option"
  sl_usage :: "'i usage_probe"

record 'i sse_state =
  ss_counts :: usage_counts
  ss_sub :: "'i list"
  ss_events :: nat
  ss_terminal :: bool
  ss_error :: bool
  ss_detail :: string

definition sse_start :: "'i sse_state" where
  "sse_start = \<lparr>ss_counts = no_usage, ss_sub = [], ss_events = 0, ss_terminal = False, ss_error = False, ss_detail = []\<rparr>"

definition sse_next :: "'i sse_line \<Rightarrow> 'i sse_state \<Rightarrow> 'i sse_state" where
  "sse_next l st = (case sl_data l of None \<Rightarrow> st | Some payload \<Rightarrow>
     if sl_event l = ''message_start'' \<or> sl_event l = ''message_delta''
     then (case merge_sse_usage (sl_usage l) (ss_counts st, ss_sub st) of (counts, sub) \<Rightarrow>
       st\<lparr>ss_counts := counts, ss_sub := sub, ss_events := Suc (ss_events st)\<rparr>)
     else if sl_event l = ''message_stop'' then st\<lparr>ss_terminal := True\<rparr>
     else if sl_event l = ''error'' then st\<lparr>ss_terminal := True, ss_error := True,
       ss_detail := (if ss_detail st = [] then truncate_bytes payload 200 else ss_detail st)\<rparr>
     else st)"

text \<open>cc-core's relay reads lines until one is terminal or the stream ends.\<close>

fun stream_sse :: "'i sse_line list \<Rightarrow> 'i sse_state \<Rightarrow> 'i sse_state" where
  "stream_sse [] st = st"
| "stream_sse (l # ls) st = (let st = sse_next l st in if ss_terminal st then st else stream_sse ls st)"

section \<open>What an exchange does\<close>

datatype exchange_effect = Health health_action | FlaggedStripThinking | Unstuck
  | WroteHeaders int | WroteBody string | WroteError response
  | RecordedLoad usage_counts | RecordedClient usage_counts float64
  | Charged string string float64 float64 string
  | Row int bool string

text \<open>An upstream answer, read to its end; a client that left is known from its context.\<close>

record 'i upstream_reply =
  ur_status :: int
  ur_header :: "string \<Rightarrow> string"
  ur_body :: string
  ur_usage :: "'i usage_json"
  ur_lines :: "'i sse_line list"
  ur_wrote_any :: bool
  ur_error :: "string option"
  ur_client_gone :: bool

datatype 'i sent = Unsendable string | TransportFailed string bool | Replied "'i upstream_reply"

record 'i exchange_env =
  xe_send :: "nat \<Rightarrow> string \<Rightarrow> 'i sent"
  xe_probe :: "string \<Rightarrow> (string \<times> string) option"
  xe_scrub :: "string \<Rightarrow> string"
  xe_http_time :: "string \<Rightarrow> int option"
  xe_model_scope :: "string \<Rightarrow> string"
  xe_thinking_error :: "string \<Rightarrow> bool"
  xe_signature_error :: "string \<Rightarrow> bool"
  xe_sanitize :: "string \<Rightarrow> string"
  xe_disable :: "string \<Rightarrow> string"
  xe_strip_enabled :: bool
  xe_upstream_model :: "string option"
  xe_rewrite_request :: "string \<Rightarrow> string option"
  xe_rewrite_response :: "string \<Rightarrow> string"
  xe_relay_line :: "'i sse_line \<Rightarrow> string"
  xe_price :: "string \<Rightarrow> string \<Rightarrow> usage_counts \<Rightarrow> float64"
  xe_sub_counts :: "'i list \<Rightarrow> (string \<times> usage_counts) list"
  xe_add_counts :: "usage_counts \<Rightarrow> usage_counts \<Rightarrow> usage_counts"

text \<open>The request: the credential, provider, path, body, stream flag, model and client token.\<close>

record exchange_request =
  xr_cred :: pool_credential
  xr_provider :: string
  xr_path :: string
  xr_body :: string
  xr_stream :: bool
  xr_model :: string
  xr_token :: string

text \<open>The result: retry, done, and what was withheld.\<close>

type_synonym exchange_end = "bool \<times> bool \<times> deferred_response option"

definition rewritten_model :: "'i exchange_env \<Rightarrow> exchange_request \<Rightarrow> bool" where
  "rewritten_model env r = (case xe_upstream_model env of Some m \<Rightarrow> m \<noteq> xr_model r \<and> m \<noteq> [] | None \<Rightarrow> False)"

text \<open>A replay on the same credential counts only when it differs from the request and is accepted.\<close>

definition replay :: "'i exchange_env \<Rightarrow> exchange_request \<Rightarrow> nat \<Rightarrow> string \<Rightarrow> 'i upstream_reply option" where
  "replay env r n candidate = (if candidate = xr_body r then None else
     case xe_send env n candidate of Replied u \<Rightarrow> if ur_status u < 400 then Some u else None | _ \<Rightarrow> None)"

definition flag_strip :: "'i exchange_env \<Rightarrow> exchange_effect list" where
  "flag_strip env = (if xe_strip_enabled env then [] else [FlaggedStripThinking])"

text \<open>The two tiers of thinking-block recovery: the reply that takes over, if any.\<close>

definition recover_thinking :: "'i exchange_env \<Rightarrow> exchange_request \<Rightarrow> 'i upstream_reply \<Rightarrow> exchange_effect list \<times> 'i upstream_reply option" where
  "recover_thinking env r u = (if xr_path r = ''/v1/messages'' \<and> xe_thinking_error env (ur_body u)
     then (case (if xe_signature_error env (ur_body u) then replay env r 1 (xe_sanitize env (xr_body r)) else None) of
         Some u' \<Rightarrow> (flag_strip env, Some u')
       | None \<Rightarrow> ([], replay env r 2 (xe_disable env (xr_body r))))
     else ([], None))"

definition sse_content :: "'i upstream_reply \<Rightarrow> bool" where
  "sse_content u = contains_str (ur_header u ''Content-Type'') ''text/event-stream''"

definition stream_outcome :: "'i sse_state \<Rightarrow> 'i upstream_reply \<Rightarrow> response_outcome" where
  "stream_outcome st u = (let gone = ur_error u \<noteq> None \<and> ur_client_gone u; err = (case ur_error u of Some e \<Rightarrow> e | None \<Rightarrow> []) in
     \<lparr>ro_error_payload = ss_error st, ro_truncated = \<not> ss_terminal st, ro_client_gone = (\<not> ss_terminal st \<and> gone),
      ro_detail = (if \<not> ss_terminal st \<and> ss_detail st = [] then err else ss_detail st)\<rparr>)"

definition body_outcome :: "'i exchange_env \<Rightarrow> string \<Rightarrow> response_outcome" where
  "body_outcome env body = (case body_looks_like_api_error (xe_probe env) body of (is_err, detail) \<Rightarrow>
     \<lparr>ro_error_payload = is_err, ro_truncated = False, ro_client_gone = False, ro_detail = detail\<rparr>)"

section \<open>Paying for it\<close>

definition billing_model_for :: "'i exchange_env \<Rightarrow> exchange_request \<Rightarrow> string" where
  "billing_model_for env r = (if \<not> pc_oauth (xr_cred r) then xr_model r else
     case xe_upstream_model env of Some m \<Rightarrow> if m \<noteq> [] then m else xr_model r | None \<Rightarrow> xr_model r)"

fun record_sub_rows :: "'i exchange_env \<Rightarrow> exchange_request \<Rightarrow> int \<Rightarrow> float64 \<Rightarrow> (string \<times> usage_counts) list \<Rightarrow> float64 \<times> exchange_effect list" where
  "record_sub_rows env r status sofar [] = (sofar, [])"
| "record_sub_rows env r status sofar ((m, sc) # rest) =
     (let cost = xe_price env (xr_provider r) m sc in
      case record_sub_rows env r status (fadd sofar cost) rest of (t, effs) \<Rightarrow>
        (t, RecordedLoad sc # (if xr_token r \<noteq> [] then [Charged (xr_provider r) m cost (api_key_price_override (Some (xr_cred r)))
              (''advisor:'' @ pc_id (xr_cred r))] else []) @
            Row status False (xr_path r @ ''#advisor:'' @ m) # effs))"

definition record_sub_usage :: "'i exchange_env \<Rightarrow> exchange_request \<Rightarrow> int \<Rightarrow> 'i list \<Rightarrow> float64 \<times> exchange_effect list" where
  "record_sub_usage env r status sub = (if 400 \<le> status \<or> xe_sub_counts env sub = [] then (0, [])
     else record_sub_rows env r status 0 (xe_sub_counts env sub))"

text \<open>The ledgers and the charge of an answer below 400, priced on the given model.\<close>

definition settle_exchange :: "'i exchange_env \<Rightarrow> exchange_request \<Rightarrow> string \<Rightarrow> int \<Rightarrow> usage_counts \<Rightarrow> 'i list \<Rightarrow> exchange_effect list" where
  "settle_exchange env r price_model status counts sub =
     (let billable = 0 < uc_requests counts \<and> xr_token r \<noteq> [];
          cost = (if billable then xe_price env (xr_provider r) price_model counts else 0) in
      case record_sub_usage env r status sub of (advisor_cost, sub_effs) \<Rightarrow>
      RecordedLoad (counts\<lparr>uc_requests := 1\<rparr>) # sub_effs @
      (if billable then [RecordedClient (fold (\<lambda>(_, sc) c. xe_add_counts env c sc) (xe_sub_counts env sub) counts) (fadd cost advisor_cost),
         Charged (xr_provider r) (xr_model r) cost (api_key_price_override (Some (xr_cred r))) (''request:'' @ pc_id (xr_cred r))] else []))"


section \<open>The API-key exchange\<close>

text \<open>The lines a stream hands to the caller.\<close>

fun relayed :: "'i sse_line list \<Rightarrow> 'i sse_state \<Rightarrow> 'i sse_line list" where
  "relayed [] st = []"
| "relayed (l # ls) st = (let st = sse_next l st in l # (if ss_terminal st then [] else relayed ls st))"

definition relay_text :: "'i exchange_env \<Rightarrow> 'i sse_line list \<Rightarrow> string" where
  "relay_text env ls = concat (map (xe_relay_line env) (relayed ls sse_start))"

text \<open>An answer below 400, relayed and paid for; the status line is written first.\<close>

definition deliver_api_key :: "'i exchange_env \<Rightarrow> exchange_request \<Rightarrow> 'i upstream_reply \<Rightarrow> exchange_effect list" where
  "deliver_api_key env r u =
     (let rewrites = rewritten_model env r \<and> xe_rewrite_request env (xr_body r) \<noteq> None in
      if xr_stream r \<and> (sse_content u \<or> looks_like_sse (ur_body u))
      then (let st = stream_sse (ur_lines u) sse_start in
        [WroteHeaders (ur_status u), WroteBody (relay_text env (ur_lines u))] @
        map Health (mark_response_health True (ur_status u) (stream_outcome st u)) @
        settle_exchange env r (xr_model r) (ur_status u) (ss_counts st) (ss_sub st))
      else (let body = (if rewrites then xe_rewrite_response env (ur_body u) else ur_body u);
                (counts, sub) = extract_usage_from_json (ur_usage u) in
        [WroteHeaders (ur_status u), WroteBody body] @
        map Health (mark_response_health True (ur_status u) (body_outcome env body)) @
        settle_exchange env r (xr_model r) (ur_status u) counts sub))"

text \<open>After recovery: the contract check, the fault, and the answer or its withholding.\<close>

definition conclude_api_key :: "'i exchange_env \<Rightarrow> int \<Rightarrow> exchange_request \<Rightarrow> 'i upstream_reply \<Rightarrow> exchange_effect list \<times> exchange_end" where
  "conclude_api_key env now r u =
     (let violated = ur_status u < 400 \<and> validate_anthropic_response (ur_header u ''Content-Type'') (ur_body u) \<noteq> [];
          status = (if violated then 502 else ur_status u); fault = classify_upstream_status status;
          health = (if retryable fault then [Health (report_api_key_fault status (parse_retry_after now (xe_http_time env) (ur_header u ''Retry-After'')) [])] else []) in
      if retryable fault
      then (health, (True, False, Some \<lparr>df_status = status, df_header = ur_header u, df_body = ur_body u, df_auth_id = pc_id (xr_cred r)\<rparr>))
      else if 400 \<le> ur_status u
      then ([WroteHeaders (ur_status u), WroteBody (xe_scrub env (ur_body u)),
          Row (ur_status u) False (''upstream '' @ itoa (ur_status u) @ '': '' @ truncate_bytes (truncate_bytes (ur_body u) 500) 200)], (False, True, None))
      else (deliver_api_key env r u @ [Row (ur_status u) False []], (False, True, None)))"

definition do_forward_api_key :: "'i exchange_env \<Rightarrow> int \<Rightarrow> exchange_request \<Rightarrow> exchange_effect list \<times> exchange_end" where
  "do_forward_api_key env now r = (case xe_send env 0 (xr_body r) of
       Unsendable e \<Rightarrow> ([WroteError (error_body 500 e)], (False, True, None))
     | TransportFailed e gone \<Rightarrow> if gone
         then ([Health (MarkClientCancel e), Row 499 False ''client canceled''], (False, True, None))
         else ([Health (MarkFailure (''transport: '' @ e)), Row 502 True e], (True, False, None))
     | Replied u \<Rightarrow> (case (if 400 \<le> ur_status u then recover_thinking env r u else ([], None)) of
           (effs, Some u') \<Rightarrow> (case conclude_api_key env now r u' of (rest, end_) \<Rightarrow> (effs @ rest, end_))
         | (effs, None) \<Rightarrow> (case conclude_api_key env now r u of (rest, end_) \<Rightarrow> (effs @ rest, end_))))"

section \<open>The OAuth exchange\<close>

definition deliver_oauth :: "'i exchange_env \<Rightarrow> exchange_request \<Rightarrow> 'i upstream_reply \<Rightarrow> exchange_effect list \<times> exchange_end" where
  "deliver_oauth env r u =
     (if xr_stream r \<and> sse_content u
      then (let st = stream_sse (ur_lines u) sse_start; gone = ur_error u \<noteq> None \<and> ur_client_gone u;
                err = (case ur_error u of Some e \<Rightarrow> e | None \<Rightarrow> []) in
        if \<not> ss_terminal st \<and> \<not> ur_wrote_any u
        then (if gone then ([Health (MarkClientCancel err), Row 499 False ''client canceled before first event''], (False, True, None))
              else ([], (True, False, None)))
        else ([WroteHeaders (ur_status u), WroteBody (relay_text env (ur_lines u))] @
          map Health (mark_response_health True (ur_status u) (stream_outcome st u)) @
          settle_exchange env r (billing_model_for env r) (ur_status u) (ss_counts st) (ss_sub st) @
          [Row (ur_status u) False []], (False, True, None)))
      else (let body = (if rewritten_model env r then xe_rewrite_response env (ur_body u) else ur_body u);
                (counts, sub) = extract_usage_from_json (ur_usage u) in
        ([WroteHeaders (ur_status u), WroteBody body] @
          map Health (mark_response_health True (ur_status u) (body_outcome env body)) @
          settle_exchange env r (billing_model_for env r) (ur_status u) counts sub @
          [Row (ur_status u) False []], (False, True, None))))"

text \<open>An error that no recovery helped.\<close>

definition conclude_oauth_error :: "'i exchange_env \<Rightarrow> int \<Rightarrow> exchange_request \<Rightarrow> 'i upstream_reply \<Rightarrow> exchange_effect list \<times> exchange_end" where
  "conclude_oauth_error env now r u =
     (case claude_error_verdict (xe_model_scope env) (xe_http_time env) now (ur_header u) (ur_body u) (ur_status u) (xr_model r) of (retry, acts) \<Rightarrow>
      if retry then (map Health acts @ [Unstuck],
        (True, False, Some \<lparr>df_status = ur_status u, df_header = ur_header u, df_body = ur_body u, df_auth_id = pc_id (xr_cred r)\<rparr>))
      else (map Health acts @ [Unstuck, Row (ur_status u) False (''upstream '' @ itoa (ur_status u)),
          WroteHeaders (ur_status u), WroteBody (xe_scrub env (ur_body u))], (False, True, None)))"

definition do_forward_oauth :: "'i exchange_env \<Rightarrow> int \<Rightarrow> exchange_request \<Rightarrow> exchange_effect list \<times> exchange_end" where
  "do_forward_oauth env now r = (case xe_send env 0 (xr_body r) of
        Unsendable e \<Rightarrow> ([WroteError (error_body 500 e)], (False, True, None))
      | TransportFailed e gone \<Rightarrow> if gone
          then ([Health (MarkClientCancel e), Row 499 False ''client canceled''], (False, True, None))
          else ([Health (MarkFailure e)], (True, False, None))
      | Replied u \<Rightarrow> if ur_status u < 400 then deliver_oauth env r u
          else (case recover_thinking env r u of
            (effs, Some u') \<Rightarrow> (case deliver_oauth env r u' of (rest, end_) \<Rightarrow> (effs @ rest, end_))
          | (effs, None) \<Rightarrow> (case conclude_oauth_error env now r u of (rest, end_) \<Rightarrow> (effs @ rest, end_))))"

text \<open>The whole exchange: a switched conversation is stripped of old signatures first, and a request
  that cannot be prepared answers 500 before anything is sent.\<close>

definition do_forward :: "'i exchange_env \<Rightarrow> int \<Rightarrow> bool \<Rightarrow> bool \<Rightarrow> exchange_request \<Rightarrow> exchange_effect list \<times> exchange_end" where
  "do_forward env now switched prepared r0 =
     (let r = (if xr_path r0 = ''/v1/messages'' \<and> (switched \<or> xe_strip_enabled env) then r0\<lparr>xr_body := xe_sanitize env (xr_body r0)\<rparr> else r0) in
      if \<not> pc_oauth (xr_cred r) then do_forward_api_key env now r
      else if \<not> prepared then ([WroteError (error_body 500 ''the request could not be prepared'')], (False, True, None))
      else do_forward_oauth env now r)"

section \<open>What an exchange guarantees\<close>

text \<open>What the caller or a ledger of money can notice.\<close>

definition visible :: "exchange_effect \<Rightarrow> bool" where
  "visible e = (case e of WroteHeaders _ \<Rightarrow> True | WroteBody _ \<Rightarrow> True | WroteError _ \<Rightarrow> True
     | RecordedLoad _ \<Rightarrow> True | RecordedClient _ _ \<Rightarrow> True | Charged _ _ _ _ _ \<Rightarrow> True | Row _ attempt_only _ \<Rightarrow> \<not> attempt_only | _ \<Rightarrow> False)"

definition silent_retry :: "exchange_effect list \<times> exchange_end \<Rightarrow> bool" where
  "silent_retry x = (if fst (snd x) then fst (snd (snd x)) = False \<and> list_all (\<lambda>e. \<not> visible e) (fst x)
     else fst (snd (snd x)) \<and> snd (snd (snd x)) = None)"

lemma visible_health [simp]: "\<not> visible (Health a)"
  by (simp add: visible_def)

lemma silent_prefix:
  "silent_retry (effs, e) \<Longrightarrow> list_all (\<lambda>e. \<not> visible e) pre \<Longrightarrow> silent_retry (pre @ effs, e)"
  by (auto simp: silent_retry_def)

lemma recover_silent: "recover_thinking env r u = (effs, x) \<Longrightarrow> list_all (\<lambda>e. \<not> visible e) effs"
  by (auto simp: recover_thinking_def flag_strip_def visible_def split: if_splits option.splits)

lemma conclude_api_key_silent: "silent_retry (conclude_api_key env now r u)"
  by (simp add: conclude_api_key_def silent_retry_def Let_def)

lemma deliver_oauth_silent: "silent_retry (deliver_oauth env r u)"
  by (simp add: deliver_oauth_def silent_retry_def Let_def split: prod.split)

lemma conclude_oauth_error_silent: "silent_retry (conclude_oauth_error env now r u)"
  by (auto simp: conclude_oauth_error_def silent_retry_def visible_def list_all_iff split: prod.split)

lemma api_key_silent: "silent_retry (do_forward_api_key env now r)"
proof (cases "xe_send env 0 (xr_body r)")
  case (Replied u)
  obtain effs x where x: "(if 400 \<le> ur_status u then recover_thinking env r u else ([], None)) = (effs, x)" by fastforce
  have "list_all (\<lambda>e. \<not> visible e) effs" using x recover_silent[of env r u effs x] by (auto split: if_splits)
  then have "silent_retry (effs @ fst (conclude_api_key env now r v), snd (conclude_api_key env now r v))" for v
    using silent_prefix[of "fst (conclude_api_key env now r v)" "snd (conclude_api_key env now r v)" effs] conclude_api_key_silent[of env now r v] by simp
  then show ?thesis using Replied x by (cases x) (auto simp: do_forward_api_key_def case_prod_beta)
qed (auto simp: do_forward_api_key_def silent_retry_def visible_def)

lemma oauth_silent: "silent_retry (do_forward_oauth env now r)"
proof (cases "xe_send env 0 (xr_body r)")
  case (Replied u)
  obtain effs x where x: "recover_thinking env r u = (effs, x)" by fastforce
  note s = silent_prefix[OF _ recover_silent[OF x]]
  have "silent_retry (effs @ fst (deliver_oauth env r v), snd (deliver_oauth env r v))"
    "silent_retry (effs @ fst (conclude_oauth_error env now r v), snd (conclude_oauth_error env now r v))" for v
    by (auto intro!: s simp: deliver_oauth_silent conclude_oauth_error_silent)
  then show ?thesis using Replied x deliver_oauth_silent[of env r]
    by (cases x) (auto simp: do_forward_oauth_def case_prod_beta)
qed (auto simp: do_forward_oauth_def silent_retry_def visible_def)

lemma unprepared_silent: "silent_retry ([WroteError e], (False, True, None))"
  by (simp add: silent_retry_def)

text \<open>C15. A retry is invisible: an exchange that sends the request on to another credential has written
  nothing to the caller, logged no finished request, and recorded or charged no usage; one that
  does not is finished and withholds nothing.\<close>

theorem retried_exchange_is_invisible:
  "silent_retry (do_forward env now switched prepared r)"
  by (simp add: do_forward_def Let_def oauth_silent api_key_silent unprepared_silent)

section \<open>What is charged\<close>

definition no_advisor :: "'i exchange_env \<Rightarrow> bool" where
  "no_advisor env \<longleftrightarrow> (\<forall>sub. xe_sub_counts env sub = [])"

text \<open>The last positive value of a field over the payloads of a stream.\<close>

fun last_positive :: "int \<Rightarrow> int list \<Rightarrow> int" where
  "last_positive d [] = d"
| "last_positive d (x # xs) = last_positive (if 0 < x then x else d) xs"

text \<open>What the usages of a stream come to.\<close>

definition metered :: "'i usage_json list \<Rightarrow> usage_counts" where
  "metered us = \<lparr>uc_input = last_positive 0 (map uj_input us), uc_output = last_positive 0 (map uj_output us),
     uc_cache_create = last_positive 0 (map uj_cache_creation us),
     uc_cache_create_1h = last_positive 0 (map (\<lambda>u. case uj_ephemeral u of Some (_, h) \<Rightarrow> h | None \<Rightarrow> 0) us),
     uc_cache_read = last_positive 0 (map uj_cache_read us), uc_requests = (if list_ex observed us then 1 else 0)\<rparr>"

lemma merged_fields:
  "uc_input (fold merge_counts us d) = last_positive (uc_input d) (map uj_input us)"
  "uc_output (fold merge_counts us d) = last_positive (uc_output d) (map uj_output us)"
  "uc_cache_create (fold merge_counts us d) = last_positive (uc_cache_create d) (map uj_cache_creation us)"
  "uc_cache_create_1h (fold merge_counts us d) =
     last_positive (uc_cache_create_1h d) (map (\<lambda>u. case uj_ephemeral u of Some (_, h) \<Rightarrow> h | None \<Rightarrow> 0) us)"
  "uc_cache_read (fold merge_counts us d) = last_positive (uc_cache_read d) (map uj_cache_read us)"
  "uc_requests (fold merge_counts us d) = (if list_ex observed us then 1 else uc_requests d)"
  by (induction us arbitrary: d) (simp_all add: merge_counts_def split: option.split)

lemma merged_usage: "fold merge_counts us no_usage = metered us"
  by (rule usage_counts.equality) (simp_all add: merged_fields metered_def no_usage_def)

text \<open>The usage objects among the lines of a stream.\<close>

definition line_usage :: "'i sse_line \<Rightarrow> 'i usage_json list" where
  "line_usage l = (if sl_data l \<noteq> None \<and> (sl_event l = ''message_start'' \<or> sl_event l = ''message_delta'')
     then (case sl_usage l of TopUsage u \<Rightarrow> [u] | InMessage (Some u) \<Rightarrow> [u] | _ \<Rightarrow> []) else [])"

lemma sse_next_counts: "ss_counts (sse_next l st) = fold merge_counts (line_usage l) (ss_counts st)"
  by (simp add: sse_next_def line_usage_def merge_sse_usage_def split: option.split prod.split usage_probe.split)

lemma stream_counts: "ss_counts (stream_sse ls st) = fold merge_counts (concat (map line_usage (relayed ls st))) (ss_counts st)"
proof (induction ls arbitrary: st)
  case (Cons l ls)
  show ?case using Cons[of "sse_next l st"] by (simp add: Let_def sse_next_counts)
qed simp

definition stream_usage :: "'i sse_line list \<Rightarrow> usage_counts" where
  "stream_usage ls = metered (concat (map line_usage (relayed ls sse_start)))"

lemma stream_metered: "ss_counts (stream_sse ls sse_start) = stream_usage ls"
  using merged_usage[of "concat (map line_usage (relayed ls sse_start))"] by (simp add: stream_counts stream_usage_def sse_start_def)

text \<open>C21. A stream is metered once: each quantity of its usage, the hour-long cache writes included, is the last positive
  value reported on the lines relayed to the caller, however often the events repeat it, and the request counts as one
  exactly when some event carried one of the four quantities every usage has. No line past the end of the turn counts.\<close>

theorem stream_is_metered_once:
  "ss_counts (stream_sse ls sse_start) = metered (concat (map line_usage (relayed ls sse_start)))"
  using stream_metered[of ls] by (simp add: stream_usage_def)

text \<open>What an answer reports, and whether it is read as a stream.\<close>

definition reads_stream :: "exchange_request \<Rightarrow> 'i upstream_reply \<Rightarrow> bool" where
  "reads_stream r u = (xr_stream r \<and> (sse_content u \<or> \<not> pc_oauth (xr_cred r) \<and> looks_like_sse (ur_body u)))"

definition reply_usage :: "exchange_request \<Rightarrow> 'i upstream_reply \<Rightarrow> usage_counts" where
  "reply_usage r u = (if reads_stream r u then stream_usage (ur_lines u) else to_counts (ur_usage u))"

definition ledger :: "exchange_effect \<Rightarrow> bool" where
  "ledger e = (case e of RecordedLoad _ \<Rightarrow> True | RecordedClient _ _ \<Rightarrow> True | Charged _ _ _ _ _ \<Rightarrow> True | _ \<Rightarrow> False)"

text \<open>What the ledgers hear of one delivered answer: its usage for the credential, and, where a quantity was reported and
  the client is known, that usage and one charge of its price on the model that is billed.\<close>

definition answer_entries :: "'i exchange_env \<Rightarrow> exchange_request \<Rightarrow> 'i upstream_reply \<Rightarrow> exchange_effect list" where
  "answer_entries env r u = (let counts = reply_usage r u; cost = xe_price env (xr_provider r) (billing_model_for env r) counts in
     RecordedLoad (counts\<lparr>uc_requests := 1\<rparr>) #
     (if 0 < uc_requests counts \<and> xr_token r \<noteq> [] then [RecordedClient counts (fadd cost 0),
        Charged (xr_provider r) (xr_model r) cost (api_key_price_override (Some (xr_cred r))) (''request:'' @ pc_id (xr_cred r))] else []))"

definition charges_once :: "'i exchange_env \<Rightarrow> exchange_request \<Rightarrow> exchange_effect list \<Rightarrow> bool" where
  "charges_once env r effs \<longleftrightarrow> filter ledger effs = [] \<or>
     (\<exists>n body u. xe_send env n body = Replied u \<and> ur_status u < 400 \<and> WroteHeaders (ur_status u) \<in> set effs \<and>
        filter ledger effs = answer_entries env r u)"

lemma charges_once_free: "list_all (\<lambda>e. \<not> ledger e) effs \<Longrightarrow> charges_once env r effs"
  by (simp add: charges_once_def list_all_iff filter_empty_conv)

lemma charges_once_append:
  "list_all (\<lambda>e. \<not> ledger e) pre \<Longrightarrow> charges_once env r effs \<Longrightarrow> charges_once env r (pre @ effs)"
  by (auto simp: charges_once_def list_all_iff filter_empty_conv)

lemma free_health: "list_all (\<lambda>e. \<not> ledger e) (map Health acts)" "filter ledger (map Health acts) = []"
  by (simp_all add: list_all_iff ledger_def filter_empty_conv)

lemma free_effects: "\<not> ledger (WroteHeaders s)" "\<not> ledger (WroteBody b)" "\<not> ledger (WroteError w)" "\<not> ledger (Row s a e)"
  "\<not> ledger (Health h)" "\<not> ledger Unstuck" "\<not> ledger FlaggedStripThinking"
  by (simp_all add: ledger_def)

lemma settle_entries:
  assumes "no_advisor env" "counts = reply_usage r u" "m = billing_model_for env r"
  shows "filter ledger (settle_exchange env r m status counts sub) = answer_entries env r u"
  using assms by (simp add: settle_exchange_def record_sub_usage_def no_advisor_def ledger_def answer_entries_def Let_def)

lemma recover_free: "recover_thinking env r u = (effs, x) \<Longrightarrow> list_all (\<lambda>e. \<not> ledger e) effs"
  by (auto simp: recover_thinking_def flag_strip_def free_effects split: if_splits option.splits)

text \<open>A reply that takes over was sent, and accepted.\<close>

lemma recover_sent: "recover_thinking env r u = (effs, Some v) \<Longrightarrow> ur_status v < 400 \<and> (\<exists>n body. xe_send env n body = Replied v)"
  by (auto simp: recover_thinking_def replay_def split: if_splits option.splits sent.splits)

lemma deliver_oauth_charges_once:
  assumes "no_advisor env" "pc_oauth (xr_cred r)" "xe_send env n body = Replied u" "ur_status u < 400"
  shows "charges_once env r (fst (deliver_oauth env r u))"
proof (cases "xr_stream r \<and> sse_content u")
  case True
  then have c: "ss_counts (stream_sse (ur_lines u) sse_start) = reply_usage r u"
    by (simp add: reply_usage_def reads_stream_def stream_metered)
  show ?thesis
  proof (cases "\<not> ss_terminal (stream_sse (ur_lines u) sse_start) \<and> \<not> ur_wrote_any u")
    case True
    with \<open>xr_stream r \<and> sse_content u\<close> show ?thesis by (auto simp: deliver_oauth_def Let_def free_effects intro!: charges_once_free)
  next
    case False
    with True have "filter ledger (fst (deliver_oauth env r u)) = answer_entries env r u" "WroteHeaders (ur_status u) \<in> set (fst (deliver_oauth env r u))"
      by (auto simp: deliver_oauth_def Let_def free_effects free_health settle_entries[OF assms(1) c refl])
    with assms show ?thesis unfolding charges_once_def by blast
  qed
next
  case False
  then have c: "to_counts (ur_usage u) = reply_usage r u" using assms(2) by (auto simp: reply_usage_def reads_stream_def)
  from False have "filter ledger (fst (deliver_oauth env r u)) = answer_entries env r u" "WroteHeaders (ur_status u) \<in> set (fst (deliver_oauth env r u))"
    by (auto simp: deliver_oauth_def extract_usage_from_json_def Let_def free_effects free_health settle_entries[OF assms(1) c refl])
  with assms show ?thesis unfolding charges_once_def by blast
qed

lemma conclude_api_key_charges_once:
  assumes "no_advisor env" "\<not> pc_oauth (xr_cred r)" "xe_send env n body = Replied u"
  shows "charges_once env r (fst (conclude_api_key env now r u))"
proof -
  have m: "xr_model r = billing_model_for env r" using assms(2) by (simp add: billing_model_for_def)
  have "filter ledger (deliver_api_key env r u) = answer_entries env r u \<and> WroteHeaders (ur_status u) \<in> set (deliver_api_key env r u)"
  proof (cases "reads_stream r u")
    case True
    then have c: "ss_counts (stream_sse (ur_lines u) sse_start) = reply_usage r u" by (simp add: reply_usage_def stream_metered)
    from True assms(2) have "xr_stream r \<and> (sse_content u \<or> looks_like_sse (ur_body u))" by (auto simp: reads_stream_def)
    then show ?thesis by (simp add: deliver_api_key_def Let_def free_effects free_health settle_entries[OF assms(1) c m])
  next
    case False
    then have c: "to_counts (ur_usage u) = reply_usage r u" by (simp add: reply_usage_def)
    from False assms(2) have "\<not> (xr_stream r \<and> (sse_content u \<or> looks_like_sse (ur_body u)))" by (auto simp: reads_stream_def)
    then show ?thesis unfolding deliver_api_key_def Let_def if_not_P[OF \<open>\<not> (xr_stream r \<and> (sse_content u \<or> looks_like_sse (ur_body u)))\<close>]
      by (simp add: extract_usage_from_json_def free_effects free_health settle_entries[OF assms(1) c m])
  qed
  then have "ur_status u < 400 \<Longrightarrow> charges_once env r (deliver_api_key env r u @ [Row (ur_status u) False []])"
    using assms(3) unfolding charges_once_def by (fastforce simp: free_effects)
  then show ?thesis by (auto simp: conclude_api_key_def Let_def free_effects intro!: charges_once_free)
qed

lemma conclude_oauth_error_free: "list_all (\<lambda>e. \<not> ledger e) (fst (conclude_oauth_error env now r u))"
  by (simp add: conclude_oauth_error_def free_effects free_health split: prod.split)

lemma oauth_charges_once:
  assumes "no_advisor env" "pc_oauth (xr_cred r)"
  shows "charges_once env r (fst (do_forward_oauth env now r))"
proof (cases "xe_send env 0 (xr_body r)")
  case (Replied u)
  note deliver = deliver_oauth_charges_once[OF assms]
  obtain effs x where x: "recover_thinking env r u = (effs, x)" by fastforce
  show ?thesis
  proof (cases "ur_status u < 400")
    case True
    with Replied deliver show ?thesis by (simp add: do_forward_oauth_def)
  next
    case False
    have "charges_once env r (effs @ fst (deliver_oauth env r v))" if "x = Some v" for v
      using charges_once_append[OF recover_free[OF x] deliver] recover_sent[OF x[unfolded that]] by blast
    moreover have "charges_once env r (effs @ fst (conclude_oauth_error env now r u))"
      by (rule charges_once_append[OF recover_free[OF x] charges_once_free[OF conclude_oauth_error_free]])
    ultimately show ?thesis using Replied False x by (cases x) (auto simp: do_forward_oauth_def case_prod_beta)
  qed
qed (auto simp: do_forward_oauth_def free_effects charges_once_free)

lemma api_key_charges_once:
  assumes "no_advisor env" "\<not> pc_oauth (xr_cred r)"
  shows "charges_once env r (fst (do_forward_api_key env now r))"
proof (cases "xe_send env 0 (xr_body r)")
  case (Replied u)
  obtain effs x where x: "(if 400 \<le> ur_status u then recover_thinking env r u else ([], None)) = (effs, x)" by fastforce
  have free: "list_all (\<lambda>e. \<not> ledger e) effs" using x recover_free[of env r u effs x] by (auto split: if_splits)
  have sent: "\<exists>n body. xe_send env n body = Replied v" if "x = Some v" for v
    using x that recover_sent[of env r u effs v] by (auto split: if_splits)
  have "charges_once env r (effs @ fst (conclude_api_key env now r v))" if "x = Some v \<or> v = u" for v
    using charges_once_append[OF free] conclude_api_key_charges_once[OF assms] sent that Replied by blast
  then show ?thesis using Replied x by (cases x) (auto simp: do_forward_api_key_def case_prod_beta)
qed (auto simp: do_forward_api_key_def free_effects charges_once_free)

text \<open>None of it depends on the body that was sent.\<close>

lemma body_irrelevant [simp]:
  "billing_model_for env (r\<lparr>xr_body := b\<rparr>) = billing_model_for env r" "reply_usage (r\<lparr>xr_body := b\<rparr>) u = reply_usage r u"
  by (simp_all add: reply_usage_def reads_stream_def billing_model_for_def split: option.split)

text \<open>C16. A request is charged at most once and exactly for what its answer reported: without advisor sub-calls, whatever
  the upstream answers, the ledgers hear nothing, or they hear of one answer below 400 that an upstream sent and the
  caller was given. Then the credential is booked the usage that answer reported, field by field, and, if some quantity
  was reported and the client is known, the client is booked the same usage and charged once, at the catalogue's price of
  that usage on the model that is billed.\<close>

theorem exchange_charges_observed_usage_once:
  assumes "no_advisor env"
  shows "charges_once env r (fst (do_forward env now switched prepared r))"
proof -
  have "charges_once env (r\<lparr>xr_body := b\<rparr>) effs = charges_once env r effs" for b effs by (simp add: charges_once_def answer_entries_def Let_def cong: if_cong)
  then show ?thesis
    using oauth_charges_once[OF assms, of "r\<lparr>xr_body := _\<rparr>"] oauth_charges_once[OF assms, of r]
      api_key_charges_once[OF assms, of "r\<lparr>xr_body := _\<rparr>"] api_key_charges_once[OF assms, of r]
    by (simp add: do_forward_def Let_def free_effects charges_once_free)
qed

text \<open>An API key whose upstream answers one JSON message.\<close>

definition sample_usage :: "nat usage_json" where
  "sample_usage = \<lparr>uj_input = 10, uj_output = 5, uj_cache_creation = 0, uj_cache_read = 0, uj_iterations = [], uj_ephemeral = None\<rparr>"

definition sample_env :: "nat exchange_env" where
  "sample_env = \<lparr>xe_send = (\<lambda>_ _. Replied \<lparr>ur_status = 200, ur_header = (\<lambda>_. []), ur_body = ''{}'', ur_usage = sample_usage,
       ur_lines = [], ur_wrote_any = False, ur_error = None, ur_client_gone = False\<rparr>),
     xe_probe = (\<lambda>_. None), xe_scrub = (\<lambda>s. s), xe_http_time = (\<lambda>_. None), xe_model_scope = (\<lambda>_. []),
     xe_thinking_error = (\<lambda>_. False), xe_signature_error = (\<lambda>_. False), xe_sanitize = (\<lambda>s. s), xe_disable = (\<lambda>s. s),
     xe_strip_enabled = False, xe_upstream_model = None, xe_rewrite_request = (\<lambda>_. None), xe_rewrite_response = (\<lambda>s. s),
     xe_relay_line = sl_line, xe_price = (\<lambda>_ _ c. of_int (uc_input c)), xe_sub_counts = (\<lambda>_. []), xe_add_counts = (\<lambda>a _. a)\<rparr>"

definition sample_request :: exchange_request where
  "sample_request = \<lparr>xr_cred = one_credential\<lparr>pc_oauth := False\<rparr>, xr_provider = ''anthropic'', xr_path = ''/v1/messages'',
     xr_body = ''{}'', xr_stream = False, xr_model = ''m'', xr_token = ''t''\<rparr>"

theorem exchange_charges_observed_usage_once_witness:
  "charges_once sample_env sample_request (fst (do_forward sample_env 0 False True sample_request)) \<and>
   list_ex (\<lambda>e. case e of Charged _ m x _ _ \<Rightarrow> m = ''m'' \<and> x = 10 | _ \<Rightarrow> False) (fst (do_forward sample_env 0 False True sample_request))"
proof
  show "charges_once sample_env sample_request (fst (do_forward sample_env 0 False True sample_request))"
    by (rule exchange_charges_observed_usage_once) (simp add: no_advisor_def sample_env_def)
  show "list_ex (\<lambda>e. case e of Charged _ m x _ _ \<Rightarrow> m = ''m'' \<and> x = 10 | _ \<Rightarrow> False) (fst (do_forward sample_env 0 False True sample_request))"
    by code_simp
qed

end
