(* ===== verification/CodexStream.thy ===== *)
theory CodexStream
  imports Upstream
begin

text \<open>
  The relay of a Codex answer (\<open>internal/server/codex_oauth_proxy.go\<close>, \<open>codex_proxy.go\<close>): framing lines, withholding what
  carries no output until the stream shows what it is, refusals inside a stream, and what is observed of usage. What
  cc-core and the decoding of JSON say of a payload is the record \<open>codex_lib\<close>; a stream is the list of its lines with
  the time each arrived at and the fault it ends in. cc-core's relay calls for the next chunk until one is an error, or
  terminal where it does not drain.
\<close>

section \<open>Lines\<close>

text \<open>What the source hands over at a time, and the fault that ends it, deferred behind the bytes.\<close>

fun split_lines :: "string \<Rightarrow> string list \<times> string" where
  "split_lines [] = ([], [])"
| "split_lines (c # s) = (case split_lines s of (ls, rest) \<Rightarrow> if c = CHR 0x0A then ([c] # ls, rest)
     else case ls of [] \<Rightarrow> ([], c # rest) | l # ls' \<Rightarrow> ((c # l) # ls', rest))"

text \<open>The lines the reader frames from \<open>buf\<close> and the reads to come, and the unfinished line it ends with.\<close>

fun read_lines :: "string \<Rightarrow> string list \<Rightarrow> string list \<times> string" where
  "read_lines buf [] = split_lines buf"
| "read_lines buf (chunk # chunks) = (case split_lines buf of (ls, rest) \<Rightarrow>
     case read_lines (rest @ chunk) chunks of (ls', rest') \<Rightarrow> (ls @ ls', rest'))"

section \<open>What is said of a payload\<close>

record openai_usage =
  ou_prompt :: int
  ou_completion :: int
  ou_prompt_cached :: int
  ou_completion_reasoning :: int
  ou_input :: int
  ou_output :: int
  ou_input_cached :: int
  ou_output_reasoning :: int

record codex_counts =
  cc_input :: int
  cc_output :: int
  cc_reasoning :: int
  cc_cache_read :: int
  cc_cache_create :: int
  cc_requests :: int
  cc_errors :: int

definition zero_usage :: codex_counts where
  "zero_usage = \<lparr>cc_input = 0, cc_output = 0, cc_reasoning = 0, cc_cache_read = 0, cc_cache_create = 0, cc_requests = 0, cc_errors = 0\<rparr>"

datatype frame_class = Class_retryable | Class_fatal | Class_none

text \<open>The decodings are of the structs of the source: none where decoding fails. An error is its code and type; usage comes
  as that of \<open>response\<close> and that of the payload, and so do models.\<close>

record 'o codex_lib =
  cl_type :: "string \<Rightarrow> string option"
  cl_error :: "string \<Rightarrow> ((string \<times> string) option \<times> (string \<times> string) option) option"
  cl_usage :: "string \<Rightarrow> (openai_usage option \<times> openai_usage option) option"
  cl_model :: "string \<Rightarrow> (string \<times> string) option"
  cl_image :: "codex_counts \<Rightarrow> string \<Rightarrow> codex_counts"
  cl_add :: "codex_counts \<Rightarrow> codex_counts \<Rightarrow> codex_counts"
  cl_classify :: "string \<Rightarrow> frame_class"
  cl_demote :: "string \<Rightarrow> string option"
  cl_scrub :: "string \<Rightarrow> string option"
  cl_observe :: "string \<Rightarrow> 'o \<Rightarrow> string \<times> 'o"

definition nonzero_int :: "int \<Rightarrow> int \<Rightarrow> int" where "nonzero_int a b = (if a = 0 then b else a)"

definition openai_counts :: "openai_usage \<Rightarrow> codex_counts" where
  "openai_counts u = (let input = nonzero_int (ou_prompt u) (ou_input u); output = nonzero_int (ou_completion u) (ou_output u);
       cached = nonzero_int (ou_prompt_cached u) (ou_input_cached u)
     in if input = 0 \<and> output = 0 \<and> cached = 0 then zero_usage
     else zero_usage\<lparr>cc_input := max 0 (input - cached), cc_output := output,
       cc_reasoning := nonzero_int (ou_completion_reasoning u) (ou_output_reasoning u), cc_cache_read := cached, cc_requests := 1\<rparr>)"

definition first_usage :: "openai_usage option \<Rightarrow> openai_usage option \<Rightarrow> codex_counts" where
  "first_usage a b = (case a of Some u \<Rightarrow> openai_counts u | None \<Rightarrow> (case b of Some u \<Rightarrow> openai_counts u | None \<Rightarrow> zero_usage))"

definition extract_codex_backend_usage :: "'o codex_lib \<Rightarrow> string \<Rightarrow> codex_counts" where
  "extract_codex_backend_usage lib body = (if body = [] then zero_usage else case cl_usage lib body of None \<Rightarrow> zero_usage
     | Some (inner, outer) \<Rightarrow> cl_image lib (first_usage inner outer) body)"

definition extract_openai_usage :: "'o codex_lib \<Rightarrow> string \<Rightarrow> codex_counts" where
  "extract_openai_usage lib body = (if body = [] then zero_usage else case cl_usage lib body of None \<Rightarrow> zero_usage
     | Some (inner, outer) \<Rightarrow> cl_image lib (first_usage outer inner) body)"

definition extract_codex_upstream_model :: "'o codex_lib \<Rightarrow> string \<Rightarrow> string" where
  "extract_codex_upstream_model lib payload = (if payload = [] then [] else case cl_model lib payload of None \<Rightarrow> []
     | Some (inner, outer) \<Rightarrow> if trim_space inner \<noteq> [] then trim_space inner else trim_space outer)"

definition codex_event_type :: "'o codex_lib \<Rightarrow> string \<Rightarrow> string" where
  "codex_event_type lib payload = (case cl_type lib payload of None \<Rightarrow> [] | Some t \<Rightarrow> t)"

definition codex_terminal_event :: "'o codex_lib \<Rightarrow> string \<Rightarrow> bool" where
  "codex_terminal_event lib payload = (case cl_type lib payload of None \<Rightarrow> False
     | Some t \<Rightarrow> t \<in> {''response.completed'', ''response.failed'', ''response.incomplete'', ''response.cancelled'', ''response.canceled''})"

definition codexContentFreeEvents :: "string list" where
  "codexContentFreeEvents = [''response.created'', ''response.in_progress'', ''response.output_item.added'', ''response.content_part.added'',
     ''response.reasoning_summary_part.added'', ''keepalive'', ''codex.rate_limits'', ''codex.response.metadata'', ''responsesapi.websocket_timing'']"

definition codex_preamble_event :: "'o codex_lib \<Rightarrow> string \<Rightarrow> bool" where
  "codex_preamble_event lib payload = (case cl_type lib payload of None \<Rightarrow> False
     | Some t \<Rightarrow> t = [] \<or> t \<in> set codexContentFreeEvents)"

definition codex_error_frame_code :: "'o codex_lib \<Rightarrow> string \<Rightarrow> string" where
  "codex_error_frame_code lib payload = (case cl_error lib payload of None \<Rightarrow> []
     | Some (top', inner) \<Rightarrow> (case (case top' of Some e \<Rightarrow> Some e | None \<Rightarrow> inner) of None \<Rightarrow> []
       | Some (code, typ) \<Rightarrow> if code \<noteq> [] then code else typ))"

section \<open>One line of a Codex stream\<close>

datatype read_fault = Read_eof | Read_stalled | Read_failed string

record codex_read =
  rd_line :: string
  rd_fault :: "read_fault option"
  rd_elapsed :: int

record shed_signal =
  sg_shed :: bool
  sg_capacity :: bool

record 'o relay_state =
  rs_acc :: 'o
  rs_counts :: codex_counts
  rs_events :: nat
  rs_shedding :: bool
  rs_shed :: string
  rs_shed_code :: string
  rs_fatal :: string
  rs_demoted :: shed_signal
  rs_last_type :: string
  rs_committed_by :: string
  rs_model :: string
  rs_sent :: bool
  rs_held :: string
  rs_preamble :: string
  rs_terminal :: bool

definition relay_start :: "'o \<Rightarrow> 'o relay_state" where
  "relay_start acc = \<lparr>rs_acc = acc, rs_counts = zero_usage, rs_events = 0, rs_shedding = False, rs_shed = [], rs_shed_code = [], rs_fatal = [],
     rs_demoted = \<lparr>sg_shed = False, sg_capacity = False\<rparr>, rs_last_type = [], rs_committed_by = [], rs_model = [], rs_sent = False,
     rs_held = [], rs_preamble = [], rs_terminal = False\<rparr>"

definition codexPreOutputWithholdCap :: int where "codexPreOutputWithholdCap = 240 * second_ns"
definition codexShedPreviewBytes :: nat where "codexShedPreviewBytes = 600"
definition codexStalledShedLabel :: string where
  "codexStalledShedLabel = ''upstream parked the turn: no output within the stall budget''"

definition trim_eol :: "string \<Rightarrow> string" where
  "trim_eol s = rev (dropWhile (\<lambda>c. c = CHR 0x0A \<or> c = CHR 0x0D) (rev s))"

text \<open>From here on everything is withheld.\<close>

definition withhold :: "string \<Rightarrow> 'o relay_state \<Rightarrow> 'o relay_state" where
  "withhold why st = st\<lparr>rs_shedding := True, rs_shed := why, rs_held := [], rs_preamble := []\<rparr>"

definition latch_stall :: "codex_read \<Rightarrow> 'o relay_state \<Rightarrow> 'o relay_state" where
  "latch_stall rd st = (if rd_fault rd = Some Read_stalled \<and> \<not> rs_sent st \<and> \<not> rs_shedding st then withhold codexStalledShedLabel st else st)"

text \<open>A payload with its line, after the accumulator has repaired it; the tail is what follows the payload.\<close>

definition observed_payload :: "'o codex_lib \<Rightarrow> string \<Rightarrow> 'o relay_state \<Rightarrow> string \<times> string \<times> 'o relay_state" where
  "observed_payload lib line st = (let trim = trim_eol line; payload = trim_space (drop 5 trim); (repaired, acc) = cl_observe lib payload (rs_acc st);
       line1 = (if repaired \<noteq> payload then ''data: '' @ repaired @ drop (length trim) line else line);
       m = extract_codex_upstream_model lib repaired
     in (line1, repaired, st\<lparr>rs_acc := acc, rs_last_type := codex_event_type lib repaired, rs_events := Suc (rs_events st),
       rs_counts := cl_add lib (rs_counts st) (extract_codex_backend_usage lib repaired), rs_model := (if m \<noteq> [] then m else rs_model st)\<rparr>))"

text \<open>A refusal inside the stream: withheld, demoted or passed on.\<close>

definition on_refusal :: "'o codex_lib \<Rightarrow> string \<Rightarrow> string \<Rightarrow> 'o relay_state \<Rightarrow> string \<times> 'o relay_state" where
  "on_refusal lib line payload st = (if cl_classify lib payload \<noteq> Class_retryable then (line, st)
     else if \<not> rs_sent st then ([], (withhold (truncate_bytes payload codexShedPreviewBytes) st)\<lparr>rs_shed_code := codex_error_frame_code lib payload\<rparr>)
     else case cl_demote lib payload of
       Some demoted \<Rightarrow> (''data: '' @ demoted @ drop (length (trim_eol line)) line, st\<lparr>rs_demoted := \<lparr>sg_shed = True, sg_capacity = True\<rparr>\<rparr>)
     | None \<Rightarrow> (line, st\<lparr>rs_demoted := (rs_demoted st)\<lparr>sg_shed := True\<rparr>\<rparr>))"

text \<open>The code of a fatal frame that will commit the answer, and the end of the stream.\<close>

definition note_frame :: "'o codex_lib \<Rightarrow> string \<Rightarrow> 'o relay_state \<Rightarrow> 'o relay_state" where
  "note_frame lib payload st = (let
       st1 = (if \<not> rs_sent st \<and> cl_classify lib payload = Class_fatal then st\<lparr>rs_fatal := codex_error_frame_code lib payload\<rparr> else st)
     in if codex_terminal_event lib payload \<and> \<not> rs_shedding st1 then st1\<lparr>rs_terminal := True\<rparr> else st1)"

text \<open>The line to go on with after cc-core has scrubbed it, none when it went into the preamble.\<close>

definition scrub_or_hold :: "'o codex_lib \<Rightarrow> codex_read \<Rightarrow> string \<Rightarrow> string \<Rightarrow> 'o relay_state \<Rightarrow> string option \<times> 'o relay_state" where
  "scrub_or_hold lib rd line payload st =
     (if \<not> rs_sent st \<and> \<not> rs_shedding st \<and> codex_preamble_event lib payload \<and> rd_elapsed rd < codexPreOutputWithholdCap
      then (None, (case cl_scrub lib line of Some s \<Rightarrow> st\<lparr>rs_preamble := rs_preamble st @ rs_held st @ s, rs_held := []\<rparr>
            | None \<Rightarrow> st\<lparr>rs_held := []\<rparr>))
      else (case cl_scrub lib line of Some s \<Rightarrow> (Some s, st) | None \<Rightarrow> (Some [], st\<lparr>rs_held := []\<rparr>)))"

definition data_line :: "'o codex_lib \<Rightarrow> codex_read \<Rightarrow> 'o relay_state \<Rightarrow> string option \<times> 'o relay_state" where
  "data_line lib rd st = (let p = trim_space (drop 5 (trim_eol (rd_line rd))) in
     if p = [] \<or> hd p \<noteq> CHR ''{'' then (Some (rd_line rd), st)
     else case observed_payload lib (rd_line rd) st of (line1, payload, st1) \<Rightarrow>
       (case on_refusal lib line1 payload st1 of (line2, st2) \<Rightarrow> scrub_or_hold lib rd line2 payload (note_frame lib payload st2)))"

definition take_line :: "'o codex_lib \<Rightarrow> codex_read \<Rightarrow> 'o relay_state \<Rightarrow> string option \<times> 'o relay_state" where
  "take_line lib rd st = (let trim = trim_eol (rd_line rd) in
     if rd_line rd = [] then (Some [], st)
     else if has_prefix trim ''event:'' then (Some [], if rs_shedding st then st else st\<lparr>rs_held := rd_line rd\<rparr>)
     else if has_prefix trim ''data:'' then data_line lib rd st
     else (Some (rd_line rd), st))"

text \<open>What a line lets out: the held event line, the line, and before them the preamble.\<close>

definition let_out :: "read_fault option \<Rightarrow> string \<Rightarrow> 'o relay_state \<Rightarrow> string \<times> 'o relay_state" where
  "let_out fault line st = (let
       (out, st1) = (if line \<noteq> [] then (rs_held st @ line, st\<lparr>rs_held := []\<rparr>)
         else if fault \<noteq> None \<and> rs_held st \<noteq> [] \<and> \<not> rs_shedding st then (if rs_sent st then rs_held st else [], st\<lparr>rs_held := []\<rparr>)
         else ([], st));
       (out2, st2) = (if rs_preamble st1 \<noteq> [] \<and> \<not> rs_shedding st1 \<and> (out \<noteq> [] \<or> fault \<noteq> None)
         then (rs_preamble st1 @ out, st1\<lparr>rs_preamble := []\<rparr>) else (out, st1))
     in (out2, if out2 \<noteq> [] then st2\<lparr>rs_committed_by := (if rs_sent st2 then rs_committed_by st2 else rs_last_type st2), rs_sent := True\<rparr> else st2))"

text \<open>One turn of the loop in \<open>next\<close>: a chunk, whether it ends the turn, and the fault; or going on.\<close>

definition relay_step :: "'o codex_lib \<Rightarrow> codex_read \<Rightarrow> 'o relay_state \<Rightarrow> (string \<times> bool \<times> read_fault option) option \<times> 'o relay_state" where
  "relay_step lib rd st0 = (case take_line lib rd (latch_stall rd st0) of (None, st) \<Rightarrow> (None, st)
     | (Some line0, st1) \<Rightarrow>
       let (line, st2) = (if rs_shedding st1 then ([], st1\<lparr>rs_held := [], rs_terminal := False\<rparr>) else (line0, st1)) in
       if \<not> rs_sent st2 \<and> \<not> rs_shedding st2 \<and> line \<noteq> [] \<and> trim_space line = [] then (None, st2\<lparr>rs_preamble := rs_preamble st2 @ line\<rparr>)
       else (case let_out (rd_fault rd) line st2 of (out, st3) \<Rightarrow>
         if out \<noteq> [] \<or> rd_fault rd \<noteq> None then (Some (out, rs_terminal st3, rd_fault rd), st3\<lparr>rs_terminal := False\<rparr>) else (None, st3)))"

section \<open>A whole stream\<close>

text \<open>The chunks, whether one was terminal, and the fault that ended the relay. A reader at its end repeats its fault.\<close>

fun relay_stream :: "'o codex_lib \<Rightarrow> bool \<Rightarrow> read_fault \<Rightarrow> int \<Rightarrow> codex_read list \<Rightarrow> 'o relay_state \<Rightarrow> (string list \<times> bool \<times> read_fault option) \<times> 'o relay_state" where
  "relay_stream lib drain fin t [] st = (case relay_step lib \<lparr>rd_line = [], rd_fault = Some fin, rd_elapsed = t\<rparr> st of
     (Some (out, term, fault), st') \<Rightarrow> (([out], term, fault), st') | (None, st') \<Rightarrow> (([], False, Some fin), st'))"
| "relay_stream lib drain fin t (rd # rds) st = (case relay_step lib rd st of (None, st') \<Rightarrow> relay_stream lib drain fin t rds st'
     | (Some (out, term, fault), st') \<Rightarrow>
       if fault \<noteq> None \<or> (term \<and> \<not> drain) then (([out], term, fault), st')
       else (case relay_stream lib drain fin t rds st' of ((outs, term', fault'), st'') \<Rightarrow> ((out # outs, term \<or> term', fault'), st'')))"

record codex_result =
  cr_terminal :: bool
  cr_wrote_any :: bool
  cr_text :: string
  cr_events :: nat
  cr_bytes :: nat
  cr_fault :: "read_fault option"
  cr_shed :: string
  cr_shed_code :: string
  cr_demoted :: shed_signal
  cr_committed_by :: string
  cr_fatal :: string
  cr_model :: string
  cr_counts :: codex_counts
  cr_failure :: "string option"

text \<open>Keepalives of the relay, which follow the first byte, are neither part of the text nor counted.\<close>

definition stream_codex_backend :: "'o codex_lib \<Rightarrow> bool \<Rightarrow> 'o \<Rightarrow> read_fault \<Rightarrow> int \<Rightarrow> codex_read list \<Rightarrow> codex_result" where
  "stream_codex_backend lib drain acc fin t rds = (case relay_stream lib drain fin t rds (relay_start acc) of ((outs, term, fault), st) \<Rightarrow>
     \<lparr>cr_terminal = term, cr_wrote_any = (concat outs \<noteq> []), cr_text = concat outs, cr_events = rs_events st, cr_bytes = length (concat outs), cr_fault = fault,
      cr_shed = rs_shed st, cr_shed_code = rs_shed_code st, cr_demoted = rs_demoted st, cr_committed_by = rs_committed_by st,
      cr_fatal = rs_fatal st, cr_model = rs_model st, cr_counts = rs_counts st, cr_failure = None\<rparr>)"


section \<open>A stream made into one answer\<close>

text \<open>What an event says beyond its type: whether it starts generating an image, the item it completes, the response it
  carries (none when absent or null).\<close>

record 'o aggregate_lib =
  ag_decodes :: "string \<Rightarrow> bool"
  ag_generates :: "string \<Rightarrow> bool"
  ag_add_item :: "string \<Rightarrow> 'o \<Rightarrow> 'o"
  ag_response :: "string \<Rightarrow> string option"
  ag_patch :: "string \<Rightarrow> 'o \<Rightarrow> string + string"
  ag_failure :: "string \<Rightarrow> string option"

datatype aggregate_fault = Closed_early read_fault | No_response | Failed_response string | Unpatchable string

record 'o aggregate_state =
  as_acc :: 'o
  as_counts :: codex_counts
  as_generating :: bool

text \<open>The end a line brings about: the answer, a refusal, or a fault.\<close>

datatype aggregate_end = Aggregated string | Agg_shed string | Agg_failed aggregate_fault

definition payload_of :: "string \<Rightarrow> string option" where
  "payload_of line = (let trim = trim_eol line in if line = [] \<or> \<not> has_prefix trim ''data:'' then None
     else let p = trim_space (drop 5 trim) in if p = [] \<or> hd p \<noteq> CHR ''{'' then None else Some p)"

definition aggregate_step :: "'o codex_lib \<Rightarrow> 'o aggregate_lib \<Rightarrow> string \<Rightarrow> 'o aggregate_state \<Rightarrow> aggregate_end option \<times> 'o aggregate_state" where
  "aggregate_step lib ag line st = (case payload_of line of None \<Rightarrow> (None, st)
     | Some p \<Rightarrow> if cl_classify lib p = Class_retryable then (Some (Agg_shed (truncate_bytes p 200)), st)
       else case ag_failure ag p of Some e \<Rightarrow> (Some (Agg_failed (Failed_response e)), st)
       | None \<Rightarrow> if \<not> ag_decodes ag p then (None, st)
         else let st1 = (if ag_generates ag p then st\<lparr>as_generating := True\<rparr> else st); typ = codex_event_type lib p in
           if typ = ''response.output_item.done'' then (None, st1\<lparr>as_acc := ag_add_item ag p (as_acc st1)\<rparr>)
           else if typ = ''response.completed'' \<or> typ = ''response.incomplete'' then
             (case ag_response ag p of None \<Rightarrow> (Some (Agg_failed No_response), st1)
              | Some r \<Rightarrow> (Some (case ag_patch ag r (as_acc st1) of Inl e \<Rightarrow> Agg_failed (Unpatchable e) | Inr out \<Rightarrow> Aggregated out),
                  st1\<lparr>as_counts := cl_add lib (as_counts st1) (extract_codex_backend_usage lib p)\<rparr>))
           else (None, st1))"

fun aggregate_codex :: "'o codex_lib \<Rightarrow> 'o aggregate_lib \<Rightarrow> read_fault \<Rightarrow> codex_read list \<Rightarrow> 'o aggregate_state \<Rightarrow> aggregate_end \<times> 'o aggregate_state" where
  "aggregate_codex lib ag fin [] st = (Agg_failed (Closed_early fin), st)"
| "aggregate_codex lib ag fin (rd # rds) st = (case aggregate_step lib ag (rd_line rd) st of (Some e, st') \<Rightarrow> (e, st')
     | (None, st') \<Rightarrow> (case rd_fault rd of Some f \<Rightarrow> (Agg_failed (Closed_early f), st') | None \<Rightarrow> aggregate_codex lib ag fin rds st'))"

section \<open>The stream of an API key\<close>

record openai_state =
  os_counts :: codex_counts
  os_signal :: shed_signal

text \<open>\<open>frame\<close> is cc-core's rewriting of a refusal for the caller: the frame, whether it was one, whether for capacity;
  \<open>rename\<close> puts the caller's model name back.\<close>

definition openai_step :: "'o codex_lib \<Rightarrow> (string \<Rightarrow> string \<times> bool \<times> bool) \<Rightarrow> (string \<Rightarrow> string) option \<Rightarrow> string \<Rightarrow> openai_state \<Rightarrow>
    (string \<times> bool) \<times> openai_state" where
  "openai_step lib frame rename line st = (let trim = trim_eol line; p = trim_space (drop 5 trim) in
     if line = [] \<or> \<not> has_prefix trim ''data:'' then ((line, False), st)
     else if p = ''[DONE]'' then ((line, True), st)
     else if p = [] \<or> hd p \<noteq> CHR ''{'' then ((line, False), st)
     else let st1 = st\<lparr>os_counts := cl_add lib (os_counts st) (extract_openai_usage lib p)\<rparr>;
         st2 = (if cl_classify lib p = Class_retryable then st1\<lparr>os_signal := (os_signal st1)\<lparr>sg_shed := True\<rparr>\<rparr> else st1);
         r1 = (case rename of Some f \<Rightarrow> f p | None \<Rightarrow> p);
         (r2, st3) = (case frame r1 of (f, shed, capacity) \<Rightarrow> if shed
           then (f, if capacity then st2\<lparr>os_signal := (os_signal st2)\<lparr>sg_capacity := True\<rparr>\<rparr> else st2) else (r1, st2))
       in ((if r2 \<noteq> p then ''data: '' @ r2 @ drop (length trim) line else line, codex_terminal_event lib p), st3))"

fun openai_stream :: "'o codex_lib \<Rightarrow> (string \<Rightarrow> string \<times> bool \<times> bool) \<Rightarrow> (string \<Rightarrow> string) option \<Rightarrow> bool \<Rightarrow> read_fault \<Rightarrow> codex_read list \<Rightarrow> openai_state \<Rightarrow>
    (string \<times> bool \<times> read_fault option) \<times> openai_state" where
  "openai_stream lib frame rename drain fin [] st = (([], False, Some fin), st)"
| "openai_stream lib frame rename drain fin (rd # rds) st = (case openai_step lib frame rename (rd_line rd) st of ((out, term), st') \<Rightarrow>
     if rd_fault rd \<noteq> None \<or> (term \<and> \<not> drain) then ((out, term, rd_fault rd), st')
     else (case openai_stream lib frame rename drain fin rds st' of ((outs, term', fault), st'') \<Rightarrow> ((out @ outs, term \<or> term', fault), st'')))"

text \<open>A caller that left after the terminal event has its answer.\<close>

record openai_outcome =
  oo_text :: string
  oo_counts :: codex_counts
  oo_signal :: shed_signal
  oo_client_gone :: bool
  oo_terminal :: bool

definition stream_sse_openai :: "'o codex_lib \<Rightarrow> (string \<Rightarrow> string \<times> bool \<times> bool) \<Rightarrow> (string \<Rightarrow> string) option \<Rightarrow> bool \<Rightarrow> bool \<Rightarrow> read_fault \<Rightarrow> codex_read list \<Rightarrow> openai_outcome" where
  "stream_sse_openai lib frame rename drain client_gone fin rds =
     (case openai_stream lib frame rename drain fin rds \<lparr>os_counts = zero_usage, os_signal = \<lparr>sg_shed = False, sg_capacity = False\<rparr>\<rparr> of ((text, term, fault), st) \<Rightarrow>
        \<lparr>oo_text = text, oo_counts = os_counts st, oo_signal = os_signal st, oo_client_gone = (\<not> term \<and> fault \<noteq> None \<and> client_gone), oo_terminal = term\<rparr>)"

section \<open>A Codex stream for a chat caller\<close>

text \<open>\<open>translate\<close> makes the chat frames of an event, \<open>is_done\<close> tells the last, \<open>failure\<close> the failure an event reports.\<close>

record 'c chat_lib =
  ch_translate :: "string \<Rightarrow> 'c \<Rightarrow> string list \<times> 'c"
  ch_is_done :: "string \<Rightarrow> bool"
  ch_failure :: "string \<Rightarrow> string option"

record 'c chat_state =
  ct_conv :: 'c
  ct_counts :: codex_counts
  ct_shedding :: bool
  ct_shed :: string
  ct_demoted :: shed_signal
  ct_failure :: "string option"
  ct_sent :: bool

definition chat_step :: "'o codex_lib \<Rightarrow> 'c chat_lib \<Rightarrow> string \<Rightarrow> 'c chat_state \<Rightarrow> string list \<times> 'c chat_state" where
  "chat_step lib ch line st = (case payload_of line of None \<Rightarrow> ([], st)
     | Some p \<Rightarrow> let st1 = st\<lparr>ct_counts := cl_add lib (ct_counts st) (extract_codex_backend_usage lib p)\<rparr>;
         st2 = (if ct_shedding st1 \<or> cl_classify lib p \<noteq> Class_retryable then st1
           else if \<not> ct_sent st1 then st1\<lparr>ct_shedding := True, ct_shed := truncate_bytes p 200\<rparr>
           else st1\<lparr>ct_demoted := \<lparr>sg_shed = True, sg_capacity = (cl_demote lib p \<noteq> None)\<rparr>\<rparr>)
       in if ct_shedding st2 then ([], st2)
       else let st3 = (case ch_failure ch p of Some e \<Rightarrow> st2\<lparr>ct_failure := Some e\<rparr> | None \<Rightarrow> st2); (frames, conv) = ch_translate ch p (ct_conv st3)
         in (frames, st3\<lparr>ct_conv := conv, ct_sent := (ct_sent st3 \<or> frames \<noteq> [])\<rparr>))"

text \<open>The frames up to the last one a relay that does not drain asks for.\<close>

fun upto_done :: "(string \<Rightarrow> bool) \<Rightarrow> bool \<Rightarrow> string list \<Rightarrow> string list \<times> bool" where
  "upto_done is_done drain [] = ([], False)"
| "upto_done is_done drain (f # fs) = (if is_done f \<and> \<not> drain then ([f], True)
     else case upto_done is_done drain fs of (gs, d) \<Rightarrow> (f # gs, d \<or> is_done f))"

fun chat_stream :: "'o codex_lib \<Rightarrow> 'c chat_lib \<Rightarrow> bool \<Rightarrow> read_fault \<Rightarrow> codex_read list \<Rightarrow> 'c chat_state \<Rightarrow> (string \<times> bool \<times> read_fault option) \<times> 'c chat_state" where
  "chat_stream lib ch drain fin [] st = (([], False, Some fin), st)"
| "chat_stream lib ch drain fin (rd # rds) st = (case chat_step lib ch (rd_line rd) st of (frames, st') \<Rightarrow>
     case upto_done (ch_is_done ch) drain frames of (out, term) \<Rightarrow>
     if term \<and> \<not> drain then ((concat out, term, None), st')
     else if rd_fault rd \<noteq> None then ((concat out, term, rd_fault rd), st')
     else (case chat_stream lib ch drain fin rds st' of ((outs, term', fault), st'') \<Rightarrow> ((concat out @ outs, term \<or> term', fault), st'')))"

definition stream_codex_as_chat :: "'o codex_lib \<Rightarrow> 'c chat_lib \<Rightarrow> bool \<Rightarrow> 'c \<Rightarrow> read_fault \<Rightarrow> codex_read list \<Rightarrow> codex_result" where
  "stream_codex_as_chat lib ch drain conv fin rds =
     (case chat_stream lib ch drain fin rds \<lparr>ct_conv = conv, ct_counts = zero_usage, ct_shedding = False, ct_shed = [],
         ct_demoted = \<lparr>sg_shed = False, sg_capacity = False\<rparr>, ct_failure = None, ct_sent = False\<rparr> of ((text, term, fault), st) \<Rightarrow>
      \<lparr>cr_terminal = term, cr_wrote_any = (text \<noteq> []), cr_text = text, cr_events = 0, cr_bytes = 0, cr_fault = fault, cr_shed = ct_shed st, cr_shed_code = [],
       cr_demoted = ct_demoted st, cr_committed_by = [], cr_fatal = [], cr_model = [], cr_counts = ct_counts st, cr_failure = ct_failure st\<rparr>)"

definition codex_model_unsupported :: "int \<Rightarrow> string \<Rightarrow> bool" where
  "codex_model_unsupported status body = ((status = 400 \<or> status = 404) \<and> list_ex (\<lambda>n. contains_str (to_lower body) n)
     [''model_not_found'', ''does not exist'', ''unsupported model'', ''unknown model'', ''invalid model'', ''not supported'', ''no available channel''])"

end
