(* ===== verification/CodexForward.thy ===== *)
theory CodexForward
  imports Exchange CodexStream
begin

text \<open>
  One exchange with a Codex upstream (\<open>doForwardCodex\<close>, \<open>doForwardCodexOAuth\<close>, \<open>doForwardCodexImages\<close> and what they share
  in \<open>internal/server/codex_*.go\<close>): an exchange is the list of its effects on the credential, the caller and the ledgers,
  and the end the failover loop reads. What the upstream sends, the preparation of requests, the conversions and the
  price list of cc-core are the record \<open>codex_env\<close>.
\<close>

section \<open>What an exchange does\<close>

text \<open>\<open>Kept_alive\<close> is an early 200 with blanks behind it, \<open>Failed_alive\<close> its end in an error.\<close>

datatype codex_effect = On_credential health_action | Captured_limits | Model_shed string | Served string
  | Bearer_rejected string | Rested string int | Egress_failed string
  | Headers int | Body string | Answered response | Kept_alive | Failed_alive string
  | Used codex_counts | Used_by codex_counts float64 | Billed string float64 float64 string
  | Logged int bool string

record codex_reply =
  cy_status :: int
  cy_header :: "string \<Rightarrow> string"
  cy_body :: string
  cy_body_error :: "string option"
  cy_reads :: "codex_read list"
  cy_fin :: read_fault
  cy_at :: int
  cy_gone :: bool

datatype codex_sent = Broken_off string bool | Answered_by codex_reply

datatype stream_end = Stream_complete | Stream_client_canceled | Stream_upstream_no_usage

record ('o, 'c) codex_env =
  ce_lib :: "'o codex_lib"
  ce_agg :: "'o aggregate_lib"
  ce_chat :: "'c chat_lib"
  ce_acc :: 'o
  ce_conv :: 'c
  ce_drain :: bool
  ce_normalize :: "string \<Rightarrow> string + string"
  ce_prepare :: "string \<Rightarrow> string \<Rightarrow> string + string \<times> string"
  ce_codex_path :: "string \<Rightarrow> string"
  ce_backend_base :: string
  ce_openai_base :: string
  ce_cred_base :: string
  ce_eligible :: bool
  ce_dial :: "string \<Rightarrow> string + codex_reply \<times> bool"
  ce_http_fallback :: bool
  ce_url_error :: "string \<Rightarrow> string option"
  ce_send :: "string \<Rightarrow> string \<Rightarrow> codex_sent"
  ce_transient :: "string \<Rightarrow> bool"
  ce_reset :: "string \<Rightarrow> (string \<times> int \<times> float64) option"
  ce_http_time :: "string \<Rightarrow> int option"
  ce_wants_usage :: "string \<Rightarrow> bool"
  ce_to_chat :: "string \<Rightarrow> string option"
  ce_heartbeat :: bool
  ce_join :: "string \<Rightarrow> string \<Rightarrow> string"
  ce_stream_usage :: "string \<Rightarrow> string option"
  ce_rewrite :: "string \<Rightarrow> string \<Rightarrow> string option"
  ce_rename :: "string \<Rightarrow> string \<Rightarrow> string"
  ce_frame :: "string \<Rightarrow> string \<times> bool \<times> bool"
  ce_upstream_model :: "string option"
  ce_should_pause :: "int \<Rightarrow> string \<Rightarrow> bool"
  ce_outcome :: "codex_counts \<Rightarrow> bool \<Rightarrow> stream_end"
  ce_billable :: "stream_end \<Rightarrow> codex_counts \<Rightarrow> bool"
  ce_missing :: "codex_counts \<Rightarrow> bool"
  ce_outcome_error :: "stream_end \<Rightarrow> string"
  ce_canceled_error :: string
  ce_missing_error :: string
  ce_price :: "string \<Rightarrow> codex_counts \<Rightarrow> float64"

text \<open>Counts of images are the library's; \<open>ci_usage\<close> gives the counts of an answer and whether it holds any for images.\<close>

record image_lib =
  ci_path :: "string \<Rightarrow> bool"
  ci_model :: "string \<Rightarrow> bool"
  ci_streams :: "string \<Rightarrow> bool"
  ci_body :: "string \<Rightarrow> string option + string"
  ci_backend :: "string \<Rightarrow> string"
  ci_slow :: bool
  ci_valid :: "string \<Rightarrow> bool"
  ci_usage :: "string \<Rightarrow> codex_counts \<times> bool"

text \<open>The request: the credential, path, body, stream flag, model and client token.\<close>

record codex_request =
  cq_cred :: pool_credential
  cq_path :: string
  cq_body :: string
  cq_stream :: bool
  cq_model :: string
  cq_token :: string

definition cx_done :: codex_end where "cx_done = \<lparr>xe_retry = False, xe_done = True, xe_stale = False, xe_shed = False\<rparr>"
definition cx_retry :: codex_end where "cx_retry = \<lparr>xe_retry = True, xe_done = False, xe_stale = False, xe_shed = False\<rparr>"

type_synonym exchanged = "codex_effect list \<times> codex_end"

definition invalid_request :: "string \<Rightarrow> response" where
  "invalid_request msg = (400, [(''error'', JObj [(''type'', JStr ''invalid_request_error''), (''message'', JStr msg)])])"

definition upstream_text :: "int \<Rightarrow> string" where "upstream_text status = ''upstream '' @ itoa status"

definition fault_text :: "read_fault option \<Rightarrow> string" where
  "fault_text f = (case f of None \<Rightarrow> [] | Some Read_eof \<Rightarrow> ''EOF'' | Some Read_stalled \<Rightarrow> ''stalled'' | Some (Read_failed e) \<Rightarrow> e)"

section \<open>Refusals\<close>

definition is_codex_capacity_error :: "string \<Rightarrow> bool" where
  "is_codex_capacity_error body = (contains_str (to_lower body) ''selected model is at capacity'' \<or> contains_str (to_lower body) ''model is at capacity'')"

text \<open>\<open>decode\<close> gives the type of an error, its \<open>resets_at\<close> and its \<open>resets_in_seconds\<close>.\<close>

definition parse_codex_reset_at :: "(string \<Rightarrow> (string \<times> int \<times> float64) option) \<Rightarrow> int \<Rightarrow> string \<Rightarrow> int" where
  "parse_codex_reset_at decode now body = (if body = [] then zero_time else case decode body of None \<Rightarrow> zero_time
     | Some (_, at_unix, in_seconds) \<Rightarrow> if 0 < at_unix then at_unix * second_ns
         else if 0 < in_seconds then now + \<lfloor>in_seconds\<rfloor> * second_ns else zero_time)"

definition is_codex_usage_limit_body :: "(string \<Rightarrow> (string \<times> int \<times> float64) option) \<Rightarrow> string \<Rightarrow> bool" where
  "is_codex_usage_limit_body decode body = (case decode body of None \<Rightarrow> False | Some (typ, _) \<Rightarrow> typ = ''usage_limit_reached'')"

text \<open>What a 429, 401 or 403 does to the credential.\<close>

definition codex_blame :: "('o, 'c) codex_env \<Rightarrow> int \<Rightarrow> codex_reply \<Rightarrow> codex_effect list" where
  "codex_blame env now u = (let r0 = parse_codex_reset_at (ce_reset env) now (cy_body u);
       reset_at = (if r0 = zero_time then parse_retry_after now (ce_http_time env) (cy_header u ''Retry-After'') else r0)
     in (if cy_status u = 429 \<and> reset_at \<noteq> zero_time \<and> is_codex_usage_limit_body (ce_reset env) (cy_body u)
         then [On_credential (MarkUsageLimitReached reset_at)] else []) @
        (if cy_status u = 401 then [Bearer_rejected (cy_body u)] else [On_credential (ReportUpstreamError (cy_status u) reset_at)]))"

definition codex_oauth_refused :: "('o, 'c) codex_env \<Rightarrow> int \<Rightarrow> codex_request \<Rightarrow> codex_reply \<Rightarrow> exchanged" where
  "codex_oauth_refused env now r u =
     (if cy_status u = 429 \<or> cy_status u = 401 \<or> cy_status u = 403
      then if cy_status u = 429 \<and> is_codex_capacity_error (cy_body u) then ([], cx_retry) else (codex_blame env now u, cx_retry)
      else if is_codex_capacity_error (cy_body u) then ([], cx_retry)
      else if cq_path r = ''/v1/chat/completions'' \<and> codex_model_unsupported (cy_status u) (cy_body u) then ([], cx_retry)
      else ([Headers (cy_status u), Body (cy_body u), Logged (cy_status u) False (upstream_text (cy_status u))], cx_done))"

section \<open>Paying\<close>

definition codex_billing_model :: "('o, 'c) codex_env \<Rightarrow> codex_request \<Rightarrow> string" where
  "codex_billing_model env r = (if \<not> pc_oauth (cq_cred r) then cq_model r else
     case ce_upstream_model env of Some m \<Rightarrow> if m \<noteq> [] then m else cq_model r | None \<Rightarrow> cq_model r)"

definition codex_charge :: "('o, 'c) codex_env \<Rightarrow> codex_request \<Rightarrow> string \<Rightarrow> string \<Rightarrow> codex_counts \<Rightarrow> codex_effect list" where
  "codex_charge env r price_model ref counts = (let cost = ce_price env price_model counts in
     [Used_by counts cost, Billed (cq_model r) cost (api_key_price_override (Some (cq_cred r))) (ref @ pc_id (cq_cred r))])"

text \<open>The end of an answered exchange; the credential has served when nothing went wrong in the stream.\<close>

definition codex_settle :: "('o, 'c) codex_env \<Rightarrow> codex_request \<Rightarrow> int \<Rightarrow> int \<Rightarrow> string \<Rightarrow> codex_counts \<Rightarrow> codex_effect list" where
  "codex_settle env r status log_status err counts =
     Used counts #
     (if status < 400 \<and> 0 < cc_requests counts \<and> cq_token r \<noteq> [] then codex_charge env r (codex_billing_model env r) ''codex-oauth:'' counts else []) @
     Logged log_status False err #
     (if status < 400 \<and> err = [] then [On_credential MarkSuccess, Served (cq_model r)] else [])"

section \<open>Delivering\<close>

definition deliver_compact :: "('o, 'c) codex_env \<Rightarrow> codex_request \<Rightarrow> codex_reply \<Rightarrow> exchanged" where
  "deliver_compact env r u = (case cy_body_error u of
       Some e \<Rightarrow> ([Answered (error_body 502 (''codex upstream: '' @ e)), Logged 502 False e], cx_done)
     | None \<Rightarrow> ([Headers (cy_status u), Body (cy_body u)] @
         codex_settle env r (cy_status u) (cy_status u) [] (cl_add (ce_lib env) zero_usage (extract_codex_backend_usage (ce_lib env) (cy_body u))), cx_done))"

definition codexCapacityShedCodes :: "string list" where
  "codexCapacityShedCodes = [''server_is_overloaded'', ''slow_down'']"

text \<open>A stream that ended before its last event and let nothing out.\<close>

definition nothing_out :: "codex_request \<Rightarrow> codex_reply \<Rightarrow> bool \<Rightarrow> codex_result \<Rightarrow> exchanged" where
  "nothing_out r u reused res =
     (if cr_shed res \<noteq> [] then ([Model_shed (cq_model r)], cx_retry\<lparr>xe_shed := cr_shed_code res \<in> set codexCapacityShedCodes\<rparr>)
      else if cr_fault res \<noteq> None \<and> cy_gone u
      then ([On_credential (MarkClientCancel (fault_text (cr_fault res))), Logged 499 False ''client canceled before first event''], cx_done)
      else ([], cx_retry\<lparr>xe_stale := reused\<rparr>))"

text \<open>How it goes into the log: the error and the status, and what the credential hears of it.\<close>

definition stream_verdict :: "codex_reply \<Rightarrow> codex_result \<Rightarrow> string \<times> int \<times> codex_effect list" where
  "stream_verdict u res =
     (let (err1, status1) = (case cr_failure res of Some e \<Rightarrow> (e, 502) | None \<Rightarrow> ([], cy_status u));
          err2 = (if sg_shed (cr_demoted res) then ''upstream shed the turn '' @ (if sg_capacity (cr_demoted res) then ''(capacity)'' else ''(quota/rate)'') else err1);
          after = '' mid-stream after '' @ itoa (int (cr_events res)) @ '' event(s)/'' @ itoa (int (cr_bytes res)) @ ''B''
      in if cr_terminal res then (err2, status1, [])
         else if cr_fault res \<noteq> None \<and> cy_gone u
         then (''client canceled'' @ after, 499, [On_credential (MarkClientCancel (fault_text (cr_fault res)))])
         else (''stream truncated mid-flight after '' @ itoa (int (cr_events res)) @ '' event(s)/'' @ itoa (int (cr_bytes res)) @ ''B: '' @
             fault_text (cr_fault res), status1, []))"

definition deliver_stream :: "('o, 'c) codex_env \<Rightarrow> codex_request \<Rightarrow> codex_reply \<Rightarrow> bool \<Rightarrow> exchanged" where
  "deliver_stream env r u reused =
     (let res = (if cq_path r = ''/v1/chat/completions'' then stream_codex_as_chat (ce_lib env) (ce_chat env) (ce_drain env) (ce_conv env) (cy_fin u) (cy_reads u)
            else stream_codex_backend (ce_lib env) (ce_drain env) (ce_acc env) (cy_fin u) (cy_at u) (cy_reads u));
          counts = (if cr_failure res \<noteq> None then (cr_counts res)\<lparr>cc_errors := cc_errors (cr_counts res) + 1\<rparr> else cr_counts res);
          out = (if cr_wrote_any res then [Headers (cy_status u), Body (cr_text res)] else []);
          shed = (if sg_shed (cr_demoted res) then [Model_shed (cq_model r)] else [])
      in if \<not> cr_terminal res \<and> \<not> cr_wrote_any res then (case nothing_out r u reused res of (effs, x) \<Rightarrow> (shed @ effs, x))
         else (case stream_verdict u res of (err, log_status, effs) \<Rightarrow>
           (out @ shed @ effs @ codex_settle env r (cy_status u) log_status err counts, cx_done)))"

definition interrupted_text :: string where
  "interrupted_text = ''The model service stopped before the image was finished. Please try again.''"

text \<open>Too late for another credential: the 200 is out.\<close>

definition fail_alive :: "codex_reply \<Rightarrow> aggregate_end \<Rightarrow> exchanged" where
  "fail_alive u e = (let gone = cy_gone u \<and> (case e of Agg_failed _ \<Rightarrow> True | _ \<Rightarrow> False) in
     ([Kept_alive] @ (if gone then [On_credential (MarkClientCancel ''client canceled during image generation'')] else []) @
      [Failed_alive interrupted_text,
       Logged (if gone then 499 else 502) False (if gone then ''client canceled during image generation''
         else case e of Agg_shed _ \<Rightarrow> ''upstream shed the turn during image generation'' | _ \<Rightarrow> ''image generation interrupted'')], cx_done))"

definition closed_text :: "aggregate_fault \<Rightarrow> string" where
  "closed_text f = (case f of Closed_early g \<Rightarrow> ''stream closed before response.completed: '' @ fault_text (Some g)
     | No_response \<Rightarrow> ''response.completed missing response field'' | Failed_response e \<Rightarrow> e | Unpatchable e \<Rightarrow> e)"

text \<open>A fault of the answer made from a stream, with nothing written yet.\<close>

definition aggregate_failed :: "('o, 'c) codex_env \<Rightarrow> codex_reply \<Rightarrow> aggregate_fault \<Rightarrow> exchanged" where
  "aggregate_failed env u f = (if cy_gone u then ([On_credential (MarkClientCancel (closed_text f)), Logged 499 False ''client canceled''], cx_done)
     else case f of Failed_response e \<Rightarrow> ([Answered (502, [(''error'', JStr e)]), Logged 502 False e], cx_done)
     | Closed_early Read_eof \<Rightarrow> ([], cx_retry) | Closed_early Read_stalled \<Rightarrow> ([], cx_retry)
     | _ \<Rightarrow> if ce_transient env (closed_text f) then ([], cx_retry)
         else ([Answered (error_body 502 (''codex upstream: '' @ closed_text f)), Logged 502 False (closed_text f)], cx_done))"

text \<open>A stream made into one answer; a chat answer that cannot be converted ends without being paid for.\<close>

definition deliver_aggregate :: "('o, 'c) codex_env \<Rightarrow> codex_request \<Rightarrow> codex_reply \<Rightarrow> exchanged" where
  "deliver_aggregate env r u =
     (case aggregate_codex (ce_lib env) (ce_agg env) (cy_fin u) (cy_reads u) \<lparr>as_acc = ce_acc env, as_counts = zero_usage, as_generating = False\<rparr> of (e, st) \<Rightarrow>
      let committed = as_generating st \<and> ce_heartbeat env in
      (case e of Agg_shed _ \<Rightarrow> if committed then fail_alive u e else ([], cx_retry)
       | Agg_failed f \<Rightarrow> if committed then fail_alive u e else aggregate_failed env u f
       | Aggregated payload \<Rightarrow>
          (case (if cq_path r = ''/v1/chat/completions'' then ce_to_chat env payload else Some payload) of
             None \<Rightarrow> (if committed then [Kept_alive, Failed_alive ''The model service returned an invalid response.'']
               else [Answered (502, [(''error'', JObj [(''type'', JStr ''server_error''), (''message'', JStr ''The model service returned an invalid response.'')])])], cx_done)
           | Some out \<Rightarrow> ((if committed then [Kept_alive] else [Headers 200]) @ [Body out] @
               codex_settle env r (cy_status u) (cy_status u) [] (as_counts st), cx_done))))"

section \<open>The OAuth exchange\<close>

definition codex_base :: "('o, 'c) codex_env \<Rightarrow> string" where
  "codex_base env = (let own = trim_right_byte CHR ''/'' (ce_cred_base env) in
     if own \<noteq> [] then own else trim_right_byte CHR ''/'' (ce_backend_base env) @ ''/codex'')"

definition conclude_codex_oauth :: "('o, 'c) codex_env \<Rightarrow> int \<Rightarrow> codex_request \<Rightarrow> bool \<Rightarrow> codex_reply \<Rightarrow> exchanged" where
  "conclude_codex_oauth env now r reused u = (case (if 400 \<le> cy_status u then codex_oauth_refused env now r u
       else if cq_path r = ''/v1/responses/compact'' then deliver_compact env r u
       else if cq_stream r then deliver_stream env r u reused else deliver_aggregate env r u) of (effs, x) \<Rightarrow> (Captured_limits # effs, x))"

text \<open>Over HTTP.\<close>

definition codex_over_http :: "('o, 'c) codex_env \<Rightarrow> int \<Rightarrow> codex_request \<Rightarrow> string \<Rightarrow> string \<Rightarrow> exchanged" where
  "codex_over_http env now r url body = (case ce_send env url body of
       Broken_off e gone \<Rightarrow> if gone then ([On_credential (MarkClientCancel e), Logged 499 False ''client canceled''], cx_done)
         else if ce_transient env e then ([], cx_retry) else ([On_credential (MarkFailure e)], cx_retry)
     | Answered_by u \<Rightarrow> conclude_codex_oauth env now r False u)"

text \<open>Over a websocket where the credential has one, with HTTP to fall back on.\<close>

definition codex_transport :: "('o, 'c) codex_env \<Rightarrow> int \<Rightarrow> codex_request \<Rightarrow> string \<Rightarrow> string \<Rightarrow> exchanged" where
  "codex_transport env now r url body = (if \<not> ce_eligible env then codex_over_http env now r url body
     else case ce_dial env body of Inr (u, reused) \<Rightarrow> conclude_codex_oauth env now r reused u
     | Inl e \<Rightarrow> if \<not> ce_http_fallback env then ([], cx_retry)
         else (case codex_over_http env now r url body of (effs, x) \<Rightarrow> (Egress_failed e # effs, x)))"

definition do_forward_codex_oauth :: "('o, 'c) codex_env \<Rightarrow> int \<Rightarrow> codex_request \<Rightarrow> exchanged" where
  "do_forward_codex_oauth env now r = (case ce_normalize env (cq_body r) of Inl e \<Rightarrow> ([Answered (invalid_request e)], cx_done)
     | Inr body \<Rightarrow> if cq_path r \<notin> {''/v1/chat/completions'', ''/v1/responses'', ''/v1/responses/compact''} then ([], cx_retry)
       else case ce_prepare env body (cq_path r) of Inl e \<Rightarrow> ([Answered (invalid_request e)], cx_done)
       | Inr (path, prepared) \<Rightarrow> (case ce_normalize env prepared of Inl e \<Rightarrow> ([Answered (invalid_request e)], cx_done)
         | Inr up_body \<Rightarrow> let url = codex_base env @ ce_codex_path env path in
           case ce_url_error env url of Some e \<Rightarrow> ([Answered (error_body 500 e)], cx_done)
           | None \<Rightarrow> codex_transport env now (r\<lparr>cq_body := body\<rparr>) url up_body))"

section \<open>The exchange of an API key\<close>

definition codexRelayBusyCooldown :: int where "codexRelayBusyCooldown = 20 * second_ns"

definition report_codex_api_key_fault :: "('o, 'c) codex_env \<Rightarrow> int \<Rightarrow> int \<Rightarrow> int \<Rightarrow> string \<Rightarrow> codex_effect list" where
  "report_codex_api_key_fault env now status reset_at body = (if \<not> ce_should_pause env status body then []
     else if status = 429 then [On_credential (ReportUpstreamError status reset_at)]
     else if status = 503 then [Rested (upstream_text status @ '' (relay at capacity)'') (now + codexRelayBusyCooldown)]
     else if classify_upstream_status status = FaultCredential then [On_credential (MarkHardFailure (upstream_text status))]
     else [On_credential (MarkFailure (upstream_text status))])"

text \<open>The body that goes out, and whether the model's name has to be put back.\<close>

definition api_key_body :: "('o, 'c) codex_env \<Rightarrow> codex_request \<Rightarrow> string \<times> bool" where
  "api_key_body env r = (let b1 = (if cq_stream r then (case ce_stream_usage env (cq_body r) of Some b \<Rightarrow> b | None \<Rightarrow> cq_body r) else cq_body r) in
     case ce_upstream_model env of None \<Rightarrow> (b1, False)
     | Some m \<Rightarrow> if m \<noteq> cq_model r \<and> m \<noteq> [] then (case ce_rewrite env b1 m of Some b \<Rightarrow> (b, True) | None \<Rightarrow> (b1, False)) else (b1, False))"

definition codexTruncatedStreamError :: string where
  "codexTruncatedStreamError = ''stream truncated before terminal event''"

text \<open>The end of an answered exchange of an API key: the health of the key, then the ledgers.\<close>

definition api_key_settle :: "('o, 'c) codex_env \<Rightarrow> codex_request \<Rightarrow> int \<Rightarrow> bool \<Rightarrow> stream_end \<Rightarrow> codex_counts \<Rightarrow> codex_effect list" where
  "api_key_settle env r log_status truncated outcome counts =
     (if outcome \<noteq> Stream_upstream_no_usage \<and> \<not> truncated then [On_credential MarkSuccess] else []) @ [Used counts] @
     (if ce_billable env outcome counts \<and> cq_token r \<noteq> [] then codex_charge env r (codex_billing_model env r) ''codex:'' counts else []) @
     [Logged log_status False (if truncated then codexTruncatedStreamError else ce_outcome_error env outcome)]"

definition api_key_stream :: "('o, 'c) codex_env \<Rightarrow> int \<Rightarrow> codex_request \<Rightarrow> bool \<Rightarrow> codex_reply \<Rightarrow> exchanged" where
  "api_key_stream env now r renames u =
     (let s = stream_sse_openai (ce_lib env) (ce_frame env) (if renames then Some (ce_rename env (cq_model r)) else None) (ce_drain env) (cy_gone u) (cy_fin u) (cy_reads u);
          outcome0 = ce_outcome env (oo_counts s) (oo_client_gone s);
          truncated = (outcome0 = Stream_upstream_no_usage \<and> \<not> oo_terminal s);
          outcome = (if truncated then Stream_complete else outcome0)
      in ([Headers (cy_status u), Body (oo_text s)] @
          (case outcome of Stream_client_canceled \<Rightarrow> [On_credential (MarkClientCancel (ce_canceled_error env))]
           | Stream_upstream_no_usage \<Rightarrow> report_codex_api_key_fault env now 502 zero_time []
           | Stream_complete \<Rightarrow> []) @
          api_key_settle env r (if outcome = Stream_client_canceled then 499 else cy_status u) truncated outcome (oo_counts s), cx_done))"

definition missing_usage_text :: string where
  "missing_usage_text = ''upstream response missing usage; billing cannot be computed''"

definition api_key_whole :: "('o, 'c) codex_env \<Rightarrow> int \<Rightarrow> codex_request \<Rightarrow> bool \<Rightarrow> codex_reply \<Rightarrow> exchanged" where
  "api_key_whole env now r renames u =
     (let body = (if renames then ce_rename env (cq_model r) (cy_body u) else cy_body u); parsed = extract_openai_usage (ce_lib env) body
      in if ce_missing env parsed
         then (report_codex_api_key_fault env now 502 zero_time [] @
             [Answered (error_body 502 missing_usage_text), Logged 502 False (ce_missing_error env)], cx_done)
         else ([Headers (cy_status u), Body body] @ api_key_settle env r (cy_status u) False Stream_complete (cl_add (ce_lib env) zero_usage parsed), cx_done))"

definition conclude_codex_api_key :: "('o, 'c) codex_env \<Rightarrow> int \<Rightarrow> codex_request \<Rightarrow> bool \<Rightarrow> codex_reply \<Rightarrow> exchanged" where
  "conclude_codex_api_key env now r renames u =
     (if retryable (classify_upstream_status (cy_status u))
      then (report_codex_api_key_fault env now (cy_status u) (parse_retry_after now (ce_http_time env) (cy_header u ''Retry-After'')) (cy_body u) @
          [Logged (cy_status u) True (upstream_text (cy_status u) @ '': '' @ truncate_bytes (cy_body u) 200)], cx_retry)
      else if 400 \<le> cy_status u
      then ([Headers (cy_status u), Body (cy_body u),
          Logged (cy_status u) False (upstream_text (cy_status u) @ '': '' @ truncate_bytes (truncate_bytes (cy_body u) 500) 200)], cx_done)
      else if cq_stream r \<and> (contains_str (cy_header u ''Content-Type'') ''text/event-stream'' \<or> looks_like_sse (concat (map rd_line (cy_reads u))))
      then api_key_stream env now r renames u
      else api_key_whole env now r renames u)"

definition do_forward_codex_api_key :: "('o, 'c) codex_env \<Rightarrow> int \<Rightarrow> codex_request \<Rightarrow> exchanged" where
  "do_forward_codex_api_key env now r =
     (let base = trim_right_byte CHR ''/'' (ce_cred_base env); (body, renames) = api_key_body env r;
          url = ce_join env (if base = [] then trim_right_byte CHR ''/'' (ce_openai_base env) else base) (cq_path r)
      in case ce_normalize env body of Inl e \<Rightarrow> ([Answered (invalid_request e)], cx_done)
      | Inr up_body \<Rightarrow> (case ce_url_error env url of Some e \<Rightarrow> ([Answered (error_body 500 e)], cx_done)
        | None \<Rightarrow> case ce_send env url up_body of
          Broken_off e gone \<Rightarrow> if gone then ([Logged 499 False ''client canceled''], cx_done)
            else (report_codex_api_key_fault env now 502 zero_time [] @ [Logged 502 True e], cx_retry)
        | Answered_by u \<Rightarrow> conclude_codex_api_key env now r renames u))"

section \<open>Images\<close>

text \<open>The body cannot be made: refused with a message of its own, or none.\<close>

definition image_refusal :: "image_lib \<Rightarrow> codex_request \<Rightarrow> string option" where
  "image_refusal im r = (if \<not> ci_model im (cq_model r)
       then Some (''Model '' @ [CHR 0x22] @ cq_model r @ [CHR 0x22] @ '' is not an image model this endpoint serves. Use gpt-image-2.'')
     else if ci_streams im (cq_body r) then Some ''Streaming image generation is not supported; send the request without `stream`.''
     else case ci_body im (cq_body r) of Inl (Some msg) \<Rightarrow> Some msg | Inl None \<Rightarrow> Some ''The request body could not be read.'' | Inr _ \<Rightarrow> None)"

definition image_interrupted_text :: string where
  "image_interrupted_text = ''The image service stopped before the image was finished. Please try again.''"

text \<open>A failure, with the 200 out or without.\<close>

definition image_failed :: "bool \<Rightarrow> int \<Rightarrow> string \<Rightarrow> exchanged" where
  "image_failed committed status reason = (if committed then ([Kept_alive, Failed_alive image_interrupted_text, Logged status False reason], cx_done) else ([], cx_retry))"

definition images_refused :: "('o, 'c) codex_env \<Rightarrow> bool \<Rightarrow> int \<Rightarrow> codex_reply \<Rightarrow> exchanged" where
  "images_refused env committed now u =
     (let failed = image_failed committed (cy_status u) (upstream_text (cy_status u)) in
      if is_codex_capacity_error (cy_body u) then image_failed committed (cy_status u) ''upstream capacity''
      else if cy_status u \<in> {429, 401, 403} then (case failed of (effs, x) \<Rightarrow> (codex_blame env now u @ effs, x))
      else if 500 \<le> cy_status u \<or> cy_status u = 404 \<or> cy_status u = 405 then failed
      else if committed then failed
      else ([Headers (cy_status u), Body (cy_body u), Logged (cy_status u) False (upstream_text (cy_status u))], cx_done))"

definition images_served :: "('o, 'c) codex_env \<Rightarrow> image_lib \<Rightarrow> bool \<Rightarrow> codex_request \<Rightarrow> codex_reply \<Rightarrow> exchanged" where
  "images_served env im committed r u =
     (let (counts0, priced) = ci_usage im (cy_body u); counts = counts0\<lparr>cc_requests := 1\<rparr>
      in ((if committed then [Kept_alive] else [Headers 200]) @ [Body (cy_body u), Used counts] @
          (if priced \<and> cq_token r \<noteq> [] then codex_charge env r (cq_model r) ''codex-images:'' counts else []) @
          [Logged 200 False (if priced then [] else ce_missing_error env), On_credential MarkSuccess], cx_done))"

definition conclude_images :: "('o, 'c) codex_env \<Rightarrow> image_lib \<Rightarrow> bool \<Rightarrow> int \<Rightarrow> codex_request \<Rightarrow> codex_reply \<Rightarrow> exchanged" where
  "conclude_images env im committed now r u =
     (if 400 \<le> cy_status u then images_refused env committed now u
      else if cy_body_error u \<noteq> None \<or> \<not> ci_valid im (cy_body u)
      then if cy_body_error u \<noteq> None \<and> cy_gone u
        then ((if committed then [Kept_alive] else []) @ [On_credential (MarkClientCancel ''client canceled during image generation''), Logged 499 False ''client canceled''], cx_done)
        else image_failed committed 502 (case cy_body_error u of Some e \<Rightarrow> e | None \<Rightarrow> ''image response unreadable'')
      else images_served env im committed r u)"

definition do_forward_codex_images :: "('o, 'c) codex_env \<Rightarrow> image_lib \<Rightarrow> int \<Rightarrow> codex_request \<Rightarrow> exchanged" where
  "do_forward_codex_images env im now r = (if \<not> pc_oauth (cq_cred r) then ([], cx_retry)
     else case image_refusal im r of Some msg \<Rightarrow> ([Answered (invalid_request msg), Logged 400 False msg], cx_done)
     | None \<Rightarrow> let url = codex_base env @ ci_backend im (cq_path r); body = (case ci_body im (cq_body r) of Inr b \<Rightarrow> b | Inl _ \<Rightarrow> []);
           committed = ci_slow im; alive = (if committed then [Kept_alive] else [])
       in case ce_url_error env url of Some e \<Rightarrow> ([Answered (error_body 500 e)], cx_done)
       | None \<Rightarrow> (case ce_send env url body of
           Broken_off e gone \<Rightarrow> if gone then (alive @ [On_credential (MarkClientCancel ''client canceled during image generation''), Logged 499 False ''client canceled''], cx_done)
             else if committed then image_failed True 502 e
             else ((if ce_transient env e then [] else [On_credential (MarkFailure e)]), cx_retry)
         | Answered_by u \<Rightarrow> (case conclude_images env im committed now r u of (effs, x) \<Rightarrow> (Captured_limits # effs, x))))"

section \<open>One attempt\<close>

definition do_forward_codex :: "('o, 'c) codex_env \<Rightarrow> image_lib \<Rightarrow> int \<Rightarrow> codex_request \<Rightarrow> exchanged" where
  "do_forward_codex env im now r = (if ci_path im (cq_path r) then do_forward_codex_images env im now r
     else case ce_normalize env (cq_body r) of Inl e \<Rightarrow> ([Answered (invalid_request e)], cx_done)
     | Inr body \<Rightarrow> if pc_oauth (cq_cred r) then do_forward_codex_oauth env now (r\<lparr>cq_body := body\<rparr>)
         else do_forward_codex_api_key env now (r\<lparr>cq_body := body\<rparr>))"

end
