(* ===== verification/CodexStreamFacts.thy ===== *)
theory CodexStreamFacts
  imports CodexStream
begin

text \<open>
  What the Codex relay guarantees: lines do not depend on how the bytes arrive; a refusal before any output leaves no
  trace of the stream, however it opened; and a stream without one reaches the caller byte for byte.
\<close>

section \<open>Lines\<close>

lemma split_lines_text: "split_lines s = (ls, rest) \<Longrightarrow> concat ls @ rest = s"
  by (induction s arbitrary: ls rest) (auto split: prod.splits if_splits list.splits)

lemma split_lines_append:
  "split_lines (a @ b) = (case split_lines a of (ls, rest) \<Rightarrow> case split_lines (rest @ b) of (ls', rest') \<Rightarrow> (ls @ ls', rest'))"
proof (induction a)
  case (Cons c a)
  obtain ls rest where a: "split_lines a = (ls, rest)" by force
  obtain ls' rest' where b: "split_lines (rest @ b) = (ls', rest')" by force
  from Cons a b have ab: "split_lines (a @ b) = (ls @ ls', rest')" by simp
  show ?case
  proof (cases "c = CHR 0x0A")
    case True with a b ab show ?thesis by simp
  next
    case False
    show ?thesis
    proof (cases ls)
      case Nil
      with a False have "split_lines (c # a) = ([], c # rest)" by simp
      with b ab False Nil show ?thesis by (cases ls') simp_all
    qed (use a b ab False in simp)
  qed
qed simp

lemma read_lines_split: "read_lines buf chunks = split_lines (buf @ concat chunks)"
proof (induction chunks arbitrary: buf)
  case (Cons chunk chunks)
  obtain ls rest where s: "split_lines buf = (ls, rest)" by force
  have "split_lines (buf @ concat (chunk # chunks)) = (case split_lines (rest @ concat (chunk # chunks)) of (ls', rest') \<Rightarrow> (ls @ ls', rest'))"
    by (subst split_lines_append) (simp only: s prod.case)
  with s Cons[of "rest @ chunk"] show ?case by simp
qed simp

text \<open>The reader frames the same lines however the connection cuts the bytes up, and lines and unfinished rest
  together are the bytes.\<close>

theorem framing_ignores_chunks:
  "read_lines buf chunks = split_lines (buf @ concat chunks) \<and>
   concat (fst (read_lines buf chunks)) @ snd (read_lines buf chunks) = buf @ concat chunks"
  using split_lines_text[of "buf @ concat chunks"] by (cases "split_lines (buf @ concat chunks)") (simp add: read_lines_split)

section \<open>Withholding\<close>

text \<open>An empty payload refuses nothing.\<close>

definition refusals_speak :: "'o codex_lib \<Rightarrow> bool" where
  "refusals_speak lib \<longleftrightarrow> cl_classify lib [] \<noteq> Class_retryable"

lemma truncated_empty [simp]: "0 < n \<Longrightarrow> truncate_bytes p n = [] \<longleftrightarrow> p = []"
  by (cases p) (auto simp: truncate_bytes_def)

lemma preview_positive [simp]: "0 < codexShedPreviewBytes" "codexStalledShedLabel \<noteq> []"
  by (simp_all add: codexShedPreviewBytes_def codexStalledShedLabel_def)

text \<open>What is withheld has not been sent, and only a stream that is withheld has a refusal to report.\<close>

definition withheld_ok :: "'o relay_state \<Rightarrow> bool" where
  "withheld_ok st \<longleftrightarrow> (rs_shedding st \<longrightarrow> \<not> rs_sent st) \<and> (rs_shed st \<noteq> [] \<longleftrightarrow> rs_shedding st)"

text \<open>How a state may go on while nothing is sent.\<close>

definition withholds :: "'o relay_state \<Rightarrow> 'o relay_state \<Rightarrow> bool" where
  "withholds st st' \<longleftrightarrow> rs_sent st' = rs_sent st \<and> (rs_shedding st \<longrightarrow> rs_shedding st') \<and> (withheld_ok st \<longrightarrow> withheld_ok st')"

lemma withholds_refl [simp]: "withholds st st"
  by (simp add: withholds_def)

lemma withholds_trans: "withholds a b \<Longrightarrow> withholds b c \<Longrightarrow> withholds a c"
  by (auto simp: withholds_def)

lemma withholds_update [simp]:
  "withholds st (st\<lparr>rs_held := h\<rparr>)" "withholds st (st\<lparr>rs_preamble := p\<rparr>)" "withholds st (st\<lparr>rs_preamble := p, rs_held := h\<rparr>)"
  "withholds st (st\<lparr>rs_terminal := b\<rparr>)" "withholds st (st\<lparr>rs_fatal := f\<rparr>)" "withholds st (st\<lparr>rs_demoted := d\<rparr>)" "withholds st (st\<lparr>rs_held := h, rs_terminal := b\<rparr>)"
  by (simp_all add: withholds_def withheld_ok_def)

lemma latch_stall_withholds: "withholds st (latch_stall rd st)"
  by (auto simp: latch_stall_def withholds_def withheld_ok_def withhold_def)

lemma observed_payload_withholds: "observed_payload lib line st = (l, p, st') \<Longrightarrow> withholds st st'"
  by (auto simp: observed_payload_def Let_def withholds_def withheld_ok_def split: prod.splits)

lemma on_refusal_withholds: "refusals_speak lib \<Longrightarrow> on_refusal lib line p st = (l, st') \<Longrightarrow> withholds st st'"
  by (auto simp: refusals_speak_def on_refusal_def withhold_def withholds_def withheld_ok_def split: if_splits option.splits)

lemma note_frame_withholds: "withholds st (note_frame lib p st)"
  by (auto simp: note_frame_def Let_def withholds_def withheld_ok_def)

lemma scrub_or_hold_withholds: "withholds st (snd (scrub_or_hold lib rd line p st))"
  by (auto simp: scrub_or_hold_def split: option.split)

lemma data_line_withholds:
  assumes sp: "refusals_speak lib"
  shows "withholds st (snd (data_line lib rd st))"
proof -
  obtain l1 p st1 where o1: "observed_payload lib (rd_line rd) st = (l1, p, st1)" by (metis prod_cases3)
  obtain l2 st2 where r: "on_refusal lib l1 p st1 = (l2, st2)" by force
  have "withholds st (snd (scrub_or_hold lib rd l2 p (note_frame lib p st2)))"
    using observed_payload_withholds[OF o1] on_refusal_withholds[OF sp r] note_frame_withholds scrub_or_hold_withholds
    by (blast intro: withholds_trans)
  then show ?thesis by (simp add: data_line_def Let_def o1 r)
qed

lemma take_line_withholds: "refusals_speak lib \<Longrightarrow> withholds st (snd (take_line lib rd st))"
  by (auto simp: take_line_def Let_def data_line_withholds)

text \<open>A step that lets something out ends the withholding for good.\<close>

lemma let_out_result:
  assumes "let_out fault line st = (out, st')"
  shows "(rs_shedding st' = rs_shedding st \<and> rs_shed st' = rs_shed st) \<and> (rs_sent st' \<longleftrightarrow> rs_sent st \<or> out \<noteq> []) \<and>
    (rs_shedding st \<and> line = [] \<longrightarrow> out = [])"
  using assms by (auto simp: let_out_def Let_def split: if_splits prod.splits)

lemma relay_step_ok:
  assumes sp: "refusals_speak lib" and ok: "withheld_ok st" and run: "relay_step lib rd st = (r, st')"
  shows "withheld_ok st' \<and> (rs_shedding st \<longrightarrow> rs_shedding st') \<and> (rs_sent st \<longrightarrow> rs_sent st') \<and>
    (case r of None \<Rightarrow> True | Some (out, tm, fault) \<Rightarrow> (fault = None \<longrightarrow> out \<noteq> []) \<and> (out \<noteq> [] \<longrightarrow> rs_sent st') \<and> (rs_shedding st' \<longrightarrow> out = [] \<and> \<not> tm))"
proof -
  obtain l st1 where t: "take_line lib rd (latch_stall rd st) = (l, st1)" by force
  have w: "withholds st st1" using latch_stall_withholds[of st rd] take_line_withholds[OF sp, of "latch_stall rd st" rd] t
    by (auto intro: withholds_trans)
  show ?thesis
  proof (cases l)
    case None
    with run t w ok show ?thesis by (auto simp: relay_step_def withholds_def)
  next
    case (Some line0)
    define line where "line = (if rs_shedding st1 then [] else line0)"
    define st2 where "st2 = (if rs_shedding st1 then st1\<lparr>rs_held := [], rs_terminal := False\<rparr> else st1)"
    have w2: "withholds st st2" using w by (auto simp: st2_def intro: withholds_trans)
    have sh: "rs_shedding st2 \<Longrightarrow> line = [] \<and> \<not> rs_terminal st2" by (auto simp: line_def st2_def split: if_splits)
    have run': "(if \<not> rs_sent st2 \<and> \<not> rs_shedding st2 \<and> line \<noteq> [] \<and> trim_space line = [] then (None, st2\<lparr>rs_preamble := rs_preamble st2 @ line\<rparr>)
       else (case let_out (rd_fault rd) line st2 of (out, st3) \<Rightarrow>
         if out \<noteq> [] \<or> rd_fault rd \<noteq> None then (Some (out, rs_terminal st3, rd_fault rd), st3\<lparr>rs_terminal := False\<rparr>) else (None, st3))) = (r, st')"
      using run t Some by (auto simp: relay_step_def line_def st2_def split: if_splits)
    show ?thesis
    proof (cases "\<not> rs_sent st2 \<and> \<not> rs_shedding st2 \<and> line \<noteq> [] \<and> trim_space line = []")
      case True
      with run' w2 ok show ?thesis by (auto simp: withholds_def withheld_ok_def)
    next
      case False
      obtain out st3 where lo: "let_out (rd_fault rd) line st2 = (out, st3)" by force
      have tm: "rs_terminal st3 = rs_terminal st2" using lo by (auto simp: let_out_def Let_def split: if_splits prod.splits)
      note res = let_out_result[OF lo]
      have ok2: "withheld_ok st2" using w2 ok by (simp add: withholds_def)
      have ok3: "withheld_ok st3" using res ok2 sh by (auto simp: withheld_ok_def)
      from run' False lo have "(r, st') = (if out \<noteq> [] \<or> rd_fault rd \<noteq> None then (Some (out, rs_terminal st3, rd_fault rd), st3\<lparr>rs_terminal := False\<rparr>) else (None, st3))"
        by (simp only: if_False prod.case)
      with ok3 res sh tm w2 show ?thesis
        by (auto simp: withholds_def withheld_ok_def split: if_splits)
    qed
  qed
qed

lemma relay_stream_ok:
  assumes sp: "refusals_speak lib" and "withheld_ok st" "relay_stream lib drain fin t rds st = ((outs, tm, fault), st')"
  shows "withheld_ok st' \<and> (rs_shedding st \<longrightarrow> rs_shedding st') \<and> (rs_sent st \<longrightarrow> rs_sent st') \<and> (rs_shedding st' \<longrightarrow> concat outs = [] \<and> \<not> tm)"
  using assms(2,3)
proof (induction rds arbitrary: st outs tm fault)
  case Nil
  obtain r st1 where s: "relay_step lib \<lparr>rd_line = [], rd_fault = Some fin, rd_elapsed = t\<rparr> st = (r, st1)" by force
  with Nil.prems relay_step_ok[OF sp Nil.prems(1) s] show ?case by (auto split: option.splits prod.splits)
next
  case (Cons rd rds)
  obtain r st1 where s: "relay_step lib rd st = (r, st1)" by force
  note step = relay_step_ok[OF sp Cons.prems(1) s]
  show ?case
  proof (cases r)
    case None
    with s step Cons show ?thesis by fastforce
  next
    case (Some x)
    obtain out tn f where x: "x = (out, tn, f)" by (metis prod_cases3)
    show ?thesis
    proof (cases "f \<noteq> None \<or> (tn \<and> \<not> drain)")
      case True
      with Cons.prems s Some x step show ?thesis by auto
    next
      case False
      obtain outs' te fault' where rest: "relay_stream lib drain fin t rds st1 = ((outs', te, fault'), st')"
        and eq: "outs = out # outs'" "tm = (tn \<or> te)"
        using Cons.prems(2) s Some x False by (auto split: prod.splits)
      from Cons.IH[OF _ rest] step have "withheld_ok st' \<and> (rs_shedding st1 \<longrightarrow> rs_shedding st') \<and> (rs_sent st1 \<longrightarrow> rs_sent st') \<and>
        (rs_shedding st' \<longrightarrow> concat outs' = [] \<and> \<not> te)" by blast
      moreover have "rs_shedding st' \<longrightarrow> out = [] \<and> \<not> tn"
      proof
        assume "rs_shedding st'"
        with calculation have "\<not> rs_sent st'" by (simp add: withheld_ok_def)
        with calculation step Some x False show "out = [] \<and> \<not> tn" by auto
      qed
      ultimately show ?thesis using step eq by auto
    qed
  qed
qed

lemma relay_start_ok: "withheld_ok (relay_start acc)"
  by (simp add: withheld_ok_def relay_start_def)

section \<open>Openings\<close>

text \<open>A payload on its line, as the accumulator leaves it.\<close>

definition carries :: "'o codex_lib \<Rightarrow> string \<Rightarrow> string \<Rightarrow> bool" where
  "carries lib line p \<longleftrightarrow> line \<noteq> [] \<and> has_prefix (trim_eol line) ''data:'' \<and> trim_space (drop 5 (trim_eol line)) = p \<and> p \<noteq> [] \<and> hd p = CHR ''{'' \<and>
     (\<forall>acc. fst (cl_observe lib p acc) = p)"

text \<open>A line that shows no output: the head of an event, the end of one, or an event without content in time.\<close>

definition opens :: "'o codex_lib \<Rightarrow> codex_read \<Rightarrow> bool" where
  "opens lib rd \<longleftrightarrow> rd_fault rd = None \<and> (rd_line rd \<in> {[CHR 0x0A], [CHR 0x0D, CHR 0x0A]} \<or>
     (rd_line rd \<noteq> [] \<and> has_prefix (trim_eol (rd_line rd)) ''event:'') \<or>
     (\<exists>p. carries lib (rd_line rd) p \<and> codex_preamble_event lib p \<and> cl_classify lib p \<noteq> Class_retryable \<and> rd_elapsed rd < codexPreOutputWithholdCap))"

definition undecided :: "'o relay_state \<Rightarrow> bool" where
  "undecided st \<longleftrightarrow> \<not> rs_sent st \<and> \<not> rs_shedding st \<and> rs_shed st = []"

lemma event_not_data: "has_prefix s ''event:'' \<Longrightarrow> \<not> has_prefix s ''data:''"
  by (auto simp: has_prefix_def split: option.splits) (cases s; auto)

lemma observed_carried:
  assumes "carries lib line p"
  shows "\<exists>st'. observed_payload lib line st = (line, p, st') \<and> rs_sent st' = rs_sent st \<and> rs_shedding st' = rs_shedding st \<and>
    rs_held st' = rs_held st \<and> rs_preamble st' = rs_preamble st \<and> rs_shed st' = rs_shed st"
proof -
  from assms have "fst (cl_observe lib p (rs_acc st)) = p" by (simp add: carries_def)
  then obtain acc where "cl_observe lib p (rs_acc st) = (p, acc)" by (metis prod.collapse)
  with assms show ?thesis by (simp add: observed_payload_def carries_def Let_def)
qed

lemma take_carried:
  "carries lib (rd_line rd) p \<Longrightarrow> take_line lib rd st = data_line lib rd st"
  using event_not_data by (auto simp: take_line_def carries_def Let_def)

lemma payload_of_Some: "payload_of l = Some p \<longleftrightarrow> l \<noteq> [] \<and> has_prefix (trim_eol l) ''data:'' \<and> trim_space (drop 5 (trim_eol l)) = p \<and> p \<noteq> [] \<and> hd p = CHR ''{''"
  by (auto simp: payload_of_def Let_def)

lemma carries_payload: "carries lib l p \<Longrightarrow> payload_of l = Some p"
  by (simp add: carries_def payload_of_Some)

lemma data_carried:
  assumes "payload_of (rd_line rd) = Some p" "observed_payload lib (rd_line rd) st = (rd_line rd, p, st1)"
  shows "data_line lib rd st = (case on_refusal lib (rd_line rd) p st1 of (line2, st2) \<Rightarrow> scrub_or_hold lib rd line2 p (note_frame lib p st2))"
  using assms by (auto simp: data_line_def payload_of_Some Let_def)

lemma opens_step:
  assumes op: "opens lib rd" and un: "undecided st"
  shows "\<exists>st'. relay_step lib rd st = (None, st') \<and> undecided st'"
proof -
  have latch: "latch_stall rd st = st" using op by (simp add: opens_def latch_stall_def)
  consider (blank) "rd_line rd \<in> {[CHR 0x0A], [CHR 0x0D, CHR 0x0A]}" | (event) "rd_line rd \<noteq> []" "has_prefix (trim_eol (rd_line rd)) ''event:''"
    | (data) p where "carries lib (rd_line rd) p" "codex_preamble_event lib p" "cl_classify lib p \<noteq> Class_retryable" "rd_elapsed rd < codexPreOutputWithholdCap"
    using op unfolding opens_def by blast
  then show ?thesis
  proof cases
    case blank
    have "trim_eol [CHR 0x0A] = []" "trim_eol [CHR 0x0D, CHR 0x0A] = []" "trim_space [CHR 0x0A] = []" "trim_space [CHR 0x0D, CHR 0x0A] = []" by code_simp+
    with blank un latch show ?thesis
      by (auto simp: relay_step_def take_line_def Let_def undecided_def has_prefix_def)
  next
    case event
    with un latch op show ?thesis
      by (auto simp: relay_step_def take_line_def Let_def undecided_def let_out_def opens_def)
  next
    case data
    obtain st1 where o1: "observed_payload lib (rd_line rd) st = (rd_line rd, p, st1)" and u1: "undecided st1"
      using observed_carried[OF data(1), of st] un by (auto simp: undecided_def)
    have "undecided (note_frame lib p st1)" using u1 by (auto simp: undecided_def note_frame_def Let_def)
    then have "\<exists>st'. scrub_or_hold lib rd (rd_line rd) p (note_frame lib p st1) = (None, st') \<and> undecided st'"
      using data by (auto simp: scrub_or_hold_def undecided_def split: option.split)
    with data show ?thesis
      by (auto simp: relay_step_def latch take_carried[OF data(1)] data_carried[OF carries_payload[OF data(1)] o1] on_refusal_def)
  qed
qed

lemma openings_stream:
  assumes "list_all (opens lib) pre" "undecided st"
  shows "\<exists>st'. relay_stream lib drain fin t (pre @ rest) st = relay_stream lib drain fin t rest st' \<and> undecided st'"
  using assms
proof (induction pre arbitrary: st)
  case (Cons rd pre)
  from opens_step[of lib rd st] Cons.prems obtain st1 where "relay_step lib rd st = (None, st1)" "undecided st1" by auto
  with Cons show ?case by auto
qed auto

lemma note_frame_keeps [simp]: "rs_shedding (note_frame lib p st) = rs_shedding st" "rs_shed (note_frame lib p st) = rs_shed st"
  by (simp_all add: note_frame_def Let_def)

lemma scrub_shedding:
  "rs_shedding st \<Longrightarrow> \<exists>l st'. scrub_or_hold lib rd line p st = (Some l, st') \<and> rs_shedding st' \<and> rs_shed st' = rs_shed st"
  by (auto simp: scrub_or_hold_def split: option.split)

lemma refused_step:
  assumes c: "carries lib (rd_line rd) p" and r: "cl_classify lib p = Class_retryable" and un: "undecided st" and f: "rd_fault rd = None"
  shows "\<exists>st'. relay_step lib rd st = (None, st') \<and> rs_shedding st' \<and> rs_shed st' = truncate_bytes p codexShedPreviewBytes"
proof -
  have latch: "latch_stall rd st = st" using f by (simp add: latch_stall_def)
  obtain st1 where o1: "observed_payload lib (rd_line rd) st = (rd_line rd, p, st1)" and u1: "undecided st1"
    using observed_carried[OF c, of st] un by (auto simp: undecided_def)
  define st2 where "st2 = (withhold (truncate_bytes p codexShedPreviewBytes) st1)\<lparr>rs_shed_code := codex_error_frame_code lib p\<rparr>"
  have "rs_shedding st2" "rs_shed st2 = truncate_bytes p codexShedPreviewBytes" by (simp_all add: st2_def withhold_def)
  then obtain l st3 where s: "scrub_or_hold lib rd [] p (note_frame lib p st2) = (Some l, st3)" and st3: "rs_shedding st3" "rs_shed st3 = truncate_bytes p codexShedPreviewBytes"
    using scrub_shedding[of "note_frame lib p st2" lib rd "[]" p] by auto
  have "on_refusal lib (rd_line rd) p st1 = ([], st2)" using u1 r by (simp add: on_refusal_def undecided_def st2_def)
  with s have "take_line lib rd (latch_stall rd st) = (Some l, st3)" by (simp add: latch take_carried[OF c] data_carried[OF carries_payload[OF c] o1])
  with st3 f show ?thesis by (auto simp: relay_step_def Let_def let_out_def)
qed

lemma stalled_step:
  "undecided st \<Longrightarrow> \<exists>st'. relay_step lib \<lparr>rd_line = [], rd_fault = Some Read_stalled, rd_elapsed = t\<rparr> st = (Some ([], False, Some Read_stalled), st') \<and>
     rs_shed st' = codexStalledShedLabel"
  by (auto simp: relay_step_def latch_stall_def withhold_def take_line_def Let_def let_out_def undecided_def)

lemma stream_codex_cases:
  assumes sp: "refusals_speak lib"
  shows "(cr_shed (stream_codex_backend lib drain acc fin t rds) \<noteq> [] \<longleftrightarrow> rs_shedding (snd (relay_stream lib drain fin t rds (relay_start acc)))) \<and>
    (rs_shedding (snd (relay_stream lib drain fin t rds (relay_start acc))) \<longrightarrow> cr_text (stream_codex_backend lib drain acc fin t rds) = [] \<and>
      \<not> cr_wrote_any (stream_codex_backend lib drain acc fin t rds) \<and> \<not> cr_terminal (stream_codex_backend lib drain acc fin t rds))"
proof -
  obtain outs tm fault st where run: "relay_stream lib drain fin t rds (relay_start acc) = ((outs, tm, fault), st)" by (metis prod_cases3 prod.exhaust)
  from relay_stream_ok[OF sp relay_start_ok run] have "withheld_ok st" "rs_shedding st \<longrightarrow> concat outs = [] \<and> \<not> tm" by auto
  with run show ?thesis by (auto simp: stream_codex_backend_def withheld_ok_def)
qed

lemma undecided_start: "undecided (relay_start acc)"
  by (simp add: undecided_def relay_start_def)

lemma undecided_ok: "undecided st \<Longrightarrow> withheld_ok st"
  by (simp add: undecided_def withheld_ok_def)

lemma refused_stream:
  assumes sp: "refusals_speak lib" and pre: "list_all (opens lib) pre" and c: "carries lib (rd_line rd) p"
    and r: "cl_classify lib p = Class_retryable" and f: "rd_fault rd = None"
  shows "cr_shed (stream_codex_backend lib drain acc fin t (pre @ rd # rest)) \<noteq> []"
proof -
  obtain st where st: "relay_stream lib drain fin t (pre @ rd # rest) (relay_start acc) = relay_stream lib drain fin t (rd # rest) st" "undecided st"
    using openings_stream[OF pre undecided_start] by blast
  obtain st1 where s: "relay_step lib rd st = (None, st1)" "rs_shedding st1" using refused_step[OF c r st(2) f] by blast
  have ok1: "withheld_ok st1" using relay_step_ok[OF sp undecided_ok[OF st(2)] s(1)] by simp
  obtain outs tm fault st2 where run: "relay_stream lib drain fin t rest st1 = ((outs, tm, fault), st2)" by (metis prod_cases3 prod.exhaust)
  have "rs_shedding st2" using relay_stream_ok[OF sp ok1 run] s(2) by blast
  with st s run show ?thesis by (subst stream_codex_cases[OF sp, THEN conjunct1]) simp
qed

lemma parked_stream:
  assumes "list_all (opens lib) pre"
  shows "cr_shed (stream_codex_backend lib drain acc Read_stalled t pre) = codexStalledShedLabel"
proof -
  obtain st where st: "relay_stream lib drain Read_stalled t (pre @ []) (relay_start acc) = relay_stream lib drain Read_stalled t [] st" "undecided st"
    using openings_stream[OF assms undecided_start] by blast
  with stalled_step[OF st(2), of lib t] show ?thesis by (auto simp: stream_codex_backend_def)
qed

text \<open>The vendor's code of a withheld refusal: the last one the stream brought, for what follows a refusal is still read.\<close>

definition frame_seen :: "'o codex_lib \<Rightarrow> codex_read \<Rightarrow> 'o \<Rightarrow> string \<Rightarrow> 'o \<times> string" where
  "frame_seen lib rd acc code = (case payload_of (rd_line rd) of None \<Rightarrow> (acc, code)
     | Some p \<Rightarrow> (case cl_observe lib p acc of (q, acc') \<Rightarrow> (acc', if cl_classify lib q = Class_retryable then codex_error_frame_code lib q else code)))"

fun last_refusal :: "'o codex_lib \<Rightarrow> 'o \<Rightarrow> string \<Rightarrow> codex_read list \<Rightarrow> string" where
  "last_refusal lib acc code [] = code"
| "last_refusal lib acc code (rd # rds) = (case frame_seen lib rd acc code of (acc', code') \<Rightarrow>
     if rd_fault rd \<noteq> None then code' else last_refusal lib acc' code' rds)"

lemma note_frame_seen [simp]: "rs_acc (note_frame lib p st) = rs_acc st" "rs_shed_code (note_frame lib p st) = rs_shed_code st"
  by (simp_all add: note_frame_def Let_def)

lemma scrub_seen: "scrub_or_hold lib rd line p st = (l, st') \<Longrightarrow> rs_acc st' = rs_acc st \<and> rs_shed_code st' = rs_shed_code st"
  by (auto simp: scrub_or_hold_def split: if_splits option.splits)

lemma let_out_seen: "let_out f line st = (out, st') \<Longrightarrow> rs_acc st' = rs_acc st \<and> rs_shed_code st' = rs_shed_code st \<and> (out \<noteq> [] \<longrightarrow> rs_sent st')"
  by (auto simp: let_out_def Let_def split: if_splits prod.splits)

lemma latch_seen [simp]: "rs_acc (latch_stall rd st) = rs_acc st" "rs_shed_code (latch_stall rd st) = rs_shed_code st" "rs_sent (latch_stall rd st) = rs_sent st"
  by (simp_all add: latch_stall_def withhold_def)

lemma data_line_seen:
  assumes "\<not> rs_sent st" "payload_of (rd_line rd) = Some p"
  shows "(rs_acc (snd (data_line lib rd st)), rs_shed_code (snd (data_line lib rd st))) = frame_seen lib rd (rs_acc st) (rs_shed_code st)"
proof -
  obtain q acc where q: "cl_observe lib p (rs_acc st) = (q, acc)" by force
  obtain line1 st1 where o1: "observed_payload lib (rd_line rd) st = (line1, q, st1)" and k: "rs_acc st1 = acc" "rs_shed_code st1 = rs_shed_code st" "\<not> rs_sent st1"
    using assms q by (auto simp: observed_payload_def payload_of_Some Let_def)
  obtain line2 st2 where r: "on_refusal lib line1 q st1 = (line2, st2)" by force
  have k2: "rs_acc st2 = acc" "rs_shed_code st2 = (if cl_classify lib q = Class_retryable then codex_error_frame_code lib q else rs_shed_code st)"
    using k r by (auto simp: on_refusal_def withhold_def split: if_splits)
  obtain l st3 where s: "scrub_or_hold lib rd line2 q (note_frame lib q st2) = (l, st3)" by force
  have "data_line lib rd st = (l, st3)" using assms(2) o1 r s by (auto simp: data_line_def payload_of_Some Let_def)
  with scrub_seen[OF s] k2 q assms(2) show ?thesis by (simp add: frame_seen_def)
qed

lemma take_line_seen:
  assumes "\<not> rs_sent st"
  shows "(rs_acc (snd (take_line lib rd st)), rs_shed_code (snd (take_line lib rd st))) = frame_seen lib rd (rs_acc st) (rs_shed_code st)"
proof (cases "payload_of (rd_line rd)")
  case None
  then show ?thesis using event_not_data[of "trim_eol (rd_line rd)"]
    by (auto simp: take_line_def data_line_def frame_seen_def payload_of_def Let_def split: if_splits)
next
  case (Some p)
  then have "take_line lib rd st = data_line lib rd st" using event_not_data[of "trim_eol (rd_line rd)"]
    by (auto simp: take_line_def payload_of_Some Let_def)
  with data_line_seen[OF assms Some] show ?thesis by simp
qed

lemma take_line_shedding:
  assumes "rs_shedding st"
  shows "\<exists>l st'. take_line lib rd st = (Some l, st') \<and> rs_shedding st'"
proof -
  have data: "\<exists>l st'. data_line lib rd st = (Some l, st') \<and> rs_shedding st'"
  proof (cases "trim_space (drop 5 (trim_eol (rd_line rd))) = [] \<or> hd (trim_space (drop 5 (trim_eol (rd_line rd)))) \<noteq> CHR ''{''")
    case False
    obtain line1 q st1 where o1: "observed_payload lib (rd_line rd) st = (line1, q, st1)" by (metis prod_cases3)
    then have "rs_shedding st1" using assms by (auto simp: observed_payload_def Let_def split: prod.splits)
    moreover obtain line2 st2 where r: "on_refusal lib line1 q st1 = (line2, st2)" by force
    ultimately have "rs_shedding st2" by (auto simp: on_refusal_def withhold_def split: if_splits option.splits)
    then have "rs_shedding (note_frame lib q st2)" by simp
    then obtain l st3 where "scrub_or_hold lib rd line2 q (note_frame lib q st2) = (Some l, st3)" "rs_shedding st3" using scrub_shedding by blast
    with False o1 r show ?thesis by (auto simp: data_line_def Let_def)
  qed (use assms in \<open>auto simp: data_line_def Let_def\<close>)
  with assms show ?thesis by (auto simp: take_line_def Let_def)
qed

lemma opens_no_refusal: "opens lib rd \<Longrightarrow> snd (frame_seen lib rd acc code) = code"
proof -
  assume op: "opens lib rd"
  show ?thesis
  proof (cases "payload_of (rd_line rd)")
    case (Some p)
    have nl: "payload_of [CHR 0x0A] = None" "payload_of [CHR 0x0D, CHR 0x0A] = None" by code_simp+
    from op Some obtain q where q: "carries lib (rd_line rd) q" "cl_classify lib q \<noteq> Class_retryable"
      unfolding opens_def using event_not_data by (cases "rd_line rd \<in> {[CHR 0x0A], [CHR 0x0D, CHR 0x0A]}") (use nl in auto, auto simp: payload_of_Some)
    from carries_payload[OF q(1)] Some have "q = p" by simp
    moreover from q(1) have "fst (cl_observe lib q acc) = q" by (simp add: carries_def)
    ultimately show ?thesis using q Some by (cases "cl_observe lib p acc") (simp add: frame_seen_def)
  qed (simp add: frame_seen_def)
qed

lemma relay_step_seen:
  assumes ns: "\<not> rs_sent st" and run: "relay_step lib rd st = (r, st')"
  shows "(rs_acc st', rs_shed_code st') = frame_seen lib rd (rs_acc st) (rs_shed_code st)"
proof -
  obtain lo st1 where t: "take_line lib rd (latch_stall rd st) = (lo, st1)" by force
  have k: "(rs_acc st1, rs_shed_code st1) = frame_seen lib rd (rs_acc st) (rs_shed_code st)"
    using take_line_seen[of "latch_stall rd st" lib rd] ns t by simp
  show ?thesis
  proof (cases lo)
    case None
    with run t k show ?thesis by (auto simp: relay_step_def)
  next
    case (Some line0)
    define x where "x = (if rs_shedding st1 then ([], st1\<lparr>rs_held := [], rs_terminal := False\<rparr>) else (line0, st1))"
    obtain line st2 where x2: "x = (line, st2)" by force
    have k2: "rs_acc st2 = rs_acc st1" "rs_shed_code st2 = rs_shed_code st1" using x2 by (auto simp: x_def split: if_splits)
    obtain out st3 where lo: "let_out (rd_fault rd) line st2 = (out, st3)" by force
    have run': "(r, st') = (if \<not> rs_sent st2 \<and> \<not> rs_shedding st2 \<and> line \<noteq> [] \<and> trim_space line = [] then (None, st2\<lparr>rs_preamble := rs_preamble st2 @ line\<rparr>)
       else if out \<noteq> [] \<or> rd_fault rd \<noteq> None then (Some (out, rs_terminal st3, rd_fault rd), st3\<lparr>rs_terminal := False\<rparr>) else (None, st3))"
      using run x2 lo by (cases "\<not> rs_sent st2 \<and> \<not> rs_shedding st2 \<and> line \<noteq> [] \<and> trim_space line = []")
        (auto simp: relay_step_def t Some x_def[symmetric] split: if_splits)
    have "rs_acc st' = rs_acc st2 \<and> rs_shed_code st' = rs_shed_code st2"
      using run' let_out_seen[OF lo] by (cases "out \<noteq> [] \<or> rd_fault rd \<noteq> None") (auto split: if_splits)
    with k k2 show ?thesis by simp
  qed
qed

lemma relay_step_withheld:
  assumes "rs_shedding st"
  shows "\<exists>st' tm. relay_step lib rd st = (if rd_fault rd = None then None else Some ([], tm, rd_fault rd), st') \<and> rs_shedding st'"
proof -
  have "latch_stall rd st = st" using assms by (simp add: latch_stall_def)
  then obtain l st1 where "take_line lib rd (latch_stall rd st) = (Some l, st1)" "rs_shedding st1" using take_line_shedding[OF assms, of lib rd] by auto
  then show ?thesis by (auto simp: relay_step_def Let_def let_out_def)
qed

lemma withheld_code:
  assumes sp: "refusals_speak lib"
  shows "\<lbrakk>withheld_ok st; rs_shedding st; relay_stream lib drain fin t rds st = (x, st')\<rbrakk> \<Longrightarrow>
    rs_shed_code st' = last_refusal lib (rs_acc st) (rs_shed_code st) rds"
proof (induction rds arbitrary: st x)
  case Nil
  obtain r st1 where s: "relay_step lib \<lparr>rd_line = [], rd_fault = Some fin, rd_elapsed = t\<rparr> st = (r, st1)" by force
  have "\<not> rs_sent st" using Nil.prems(1,2) by (simp add: withheld_ok_def)
  from relay_step_seen[OF this s] have "rs_shed_code st1 = rs_shed_code st" by (simp add: frame_seen_def payload_of_def)
  with s Nil.prems(3) show ?case by (auto split: option.splits prod.splits)
next
  case (Cons rd rds)
  have ns: "\<not> rs_sent st" using Cons.prems(1,2) by (simp add: withheld_ok_def)
  obtain st1 tm where s: "relay_step lib rd st = (if rd_fault rd = None then None else Some ([], tm, rd_fault rd), st1)" and sh: "rs_shedding st1"
    using relay_step_withheld[OF Cons.prems(2)] by blast
  note seen = relay_step_seen[OF ns s] and ok = relay_step_ok[OF sp Cons.prems(1) s]
  show ?case
  proof (cases "rd_fault rd = None")
    case True
    with Cons.prems(3) s have "relay_stream lib drain fin t rds st1 = (x, st')" by simp
    from Cons.IH[OF _ sh this] ok True seen show ?thesis by (auto simp: seen[symmetric])
  next
    case False
    with Cons.prems(3) s have "st' = st1" by auto
    with False seen show ?thesis by (auto simp: seen[symmetric])
  qed
qed

lemma openings_seen:
  assumes "list_all (opens lib) pre" "undecided st"
  shows "\<exists>st'. relay_stream lib drain fin t (pre @ rest) st = relay_stream lib drain fin t rest st' \<and> undecided st' \<and>
    last_refusal lib (rs_acc st) (rs_shed_code st) (pre @ rest) = last_refusal lib (rs_acc st') (rs_shed_code st') rest \<and> rs_shed_code st' = rs_shed_code st"
  using assms
proof (induction pre arbitrary: st)
  case (Cons rd pre)
  from opens_step[of lib rd st] Cons.prems obtain st1 where s: "relay_step lib rd st = (None, st1)" "undecided st1" by auto
  have ns: "\<not> rs_sent st" using Cons.prems(2) by (simp add: undecided_def)
  have f: "rd_fault rd = None" using Cons.prems(1) by (simp add: opens_def)
  note seen = relay_step_seen[OF ns s(1)]
  have c: "snd (frame_seen lib rd (rs_acc st) (rs_shed_code st)) = rs_shed_code st"
    using Cons.prems(1) opens_no_refusal by auto
  have "rs_shed_code st1 = rs_shed_code st" using c unfolding seen[symmetric] by simp
  moreover obtain st' where "relay_stream lib drain fin t (pre @ rest) st1 = relay_stream lib drain fin t rest st'" "undecided st'"
      "last_refusal lib (rs_acc st1) (rs_shed_code st1) (pre @ rest) = last_refusal lib (rs_acc st') (rs_shed_code st') rest" "rs_shed_code st' = rs_shed_code st1"
    using Cons.IH[OF _ s(2)] Cons.prems(1) by auto
  ultimately show ?case using s f seen by (intro exI[of _ st']) (auto simp: seen[symmetric])
qed auto

lemma refused_code:
  assumes sp: "refusals_speak lib" and pre: "list_all (opens lib) pre" and c: "carries lib (rd_line rd) p"
    and r: "cl_classify lib p = Class_retryable" and f: "rd_fault rd = None"
  shows "cr_shed_code (stream_codex_backend lib drain acc fin t (pre @ rd # rest)) = last_refusal lib acc [] (pre @ rd # rest)"
proof -
  obtain st where st: "relay_stream lib drain fin t (pre @ rd # rest) (relay_start acc) = relay_stream lib drain fin t (rd # rest) st" "undecided st"
      "last_refusal lib acc [] (pre @ rd # rest) = last_refusal lib (rs_acc st) (rs_shed_code st) (rd # rest)"
    using openings_seen[OF pre undecided_start, of drain fin t "rd # rest" acc] by (auto simp: relay_start_def)
  obtain st1 where s: "relay_step lib rd st = (None, st1)" "rs_shedding st1" using refused_step[OF c r st(2) f] by blast
  have ns: "\<not> rs_sent st" using st(2) by (simp add: undecided_def)
  have ok1: "withheld_ok st1" using relay_step_ok[OF sp undecided_ok[OF st(2)] s(1)] by simp
  obtain outs tm fault st2 where run: "relay_stream lib drain fin t rest st1 = ((outs, tm, fault), st2)" by (metis prod_cases3 prod.exhaust)
  have "rs_shed_code st2 = last_refusal lib acc [] (pre @ rd # rest)"
    using withheld_code[OF sp ok1 s(2) run] f by (simp add: st(3) relay_step_seen[OF ns s(1), symmetric])
  with st(1) s run show ?thesis by (simp add: stream_codex_backend_def)
qed

lemma parked_code:
  assumes pre: "list_all (opens lib) pre"
  shows "cr_shed_code (stream_codex_backend lib drain acc Read_stalled t pre) = []"
proof -
  obtain st where st: "relay_stream lib drain Read_stalled t (pre @ []) (relay_start acc) = relay_stream lib drain Read_stalled t [] st" "undecided st"
      "rs_shed_code st = []"
    using openings_seen[OF pre undecided_start, of drain Read_stalled t "[]" acc] by (auto simp: relay_start_def)
  obtain st' where s: "relay_step lib \<lparr>rd_line = [], rd_fault = Some Read_stalled, rd_elapsed = t\<rparr> st = (Some ([], False, Some Read_stalled), st')"
    using stalled_step[OF st(2)] by blast
  have "\<not> rs_sent st" using st(2) by (simp add: undecided_def)
  from relay_step_seen[OF this s] st(3) have "rs_shed_code st' = []" by (simp add: frame_seen_def payload_of_def)
  with st(1) s show ?thesis by (simp add: stream_codex_backend_def)
qed

text \<open>A refusal that comes before any output, behind whatever opening, and a turn the upstream parks there, is withheld
  with the rest of its stream, and a stream that is reported as refused has let nothing reach the caller: no byte, no
  end of stream, so that another credential can be asked. An empty payload refuses nothing.\<close>

theorem early_refusals_leave_no_trace:
  assumes sp: "refusals_speak lib"
  shows "(cr_shed (stream_codex_backend lib drain acc fin t rds) \<noteq> [] \<longrightarrow>
      cr_text (stream_codex_backend lib drain acc fin t rds) = [] \<and> \<not> cr_wrote_any (stream_codex_backend lib drain acc fin t rds) \<and>
      \<not> cr_terminal (stream_codex_backend lib drain acc fin t rds)) \<and>
    (list_all (opens lib) pre \<and> carries lib (rd_line rd) p \<and> cl_classify lib p = Class_retryable \<and> rd_fault rd = None \<longrightarrow>
      cr_shed (stream_codex_backend lib drain acc fin t (pre @ rd # rest)) \<noteq> []) \<and>
    (list_all (opens lib) pre \<longrightarrow> cr_shed (stream_codex_backend lib drain acc Read_stalled t pre) = codexStalledShedLabel)"
proof (intro conjI)
  show "cr_shed (stream_codex_backend lib drain acc fin t rds) \<noteq> [] \<longrightarrow> cr_text (stream_codex_backend lib drain acc fin t rds) = [] \<and>
      \<not> cr_wrote_any (stream_codex_backend lib drain acc fin t rds) \<and> \<not> cr_terminal (stream_codex_backend lib drain acc fin t rds)"
    using stream_codex_cases[OF sp, of drain acc fin t rds] by blast
  show "list_all (opens lib) pre \<and> carries lib (rd_line rd) p \<and> cl_classify lib p = Class_retryable \<and> rd_fault rd = None \<longrightarrow>
      cr_shed (stream_codex_backend lib drain acc fin t (pre @ rd # rest)) \<noteq> []"
    using refused_stream[OF sp] by blast
  show "list_all (opens lib) pre \<longrightarrow> cr_shed (stream_codex_backend lib drain acc Read_stalled t pre) = codexStalledShedLabel"
    by (intro impI parked_stream)
qed

text \<open>A stream that opens and is refused.\<close>

definition sample_lib :: "unit codex_lib" where
  "sample_lib = \<lparr>cl_type = (\<lambda>p. Some (if p = ''{1}'' then ''response.created'' else if p = ''{3}'' then ''response.completed'' else ''response.output_text.delta'')),
     cl_error = (\<lambda>_. None), cl_usage = (\<lambda>p. if p = ''{3}'' then Some (Some \<lparr>ou_prompt = 7, ou_completion = 5, ou_prompt_cached = 0, ou_completion_reasoning = 0,
       ou_input = 0, ou_output = 0, ou_input_cached = 0, ou_output_reasoning = 0\<rparr>, None) else None),
     cl_model = (\<lambda>_. None), cl_image = (\<lambda>c _. c), cl_add = (\<lambda>a b. if cc_requests b = 0 then a else b),
     cl_classify = (\<lambda>p. if p = ''{!}'' then Class_retryable else Class_none), cl_demote = (\<lambda>_. None), cl_scrub = Some, cl_observe = (\<lambda>p a. (p, a))\<rparr>"

definition sample_line :: "string \<Rightarrow> codex_read" where
  "sample_line l = \<lparr>rd_line = l @ [CHR 0x0A], rd_fault = None, rd_elapsed = 0\<rparr>"

lemma sample_framing: "has_prefix (trim_eol (''data: {1}'' @ [CHR 0x0A])) ''data:''" "has_prefix (trim_eol (''data: {!}'' @ [CHR 0x0A])) ''data:''"
  "trim_space (drop 5 (trim_eol (''data: {1}'' @ [CHR 0x0A]))) = ''{1}''" "trim_space (drop 5 (trim_eol (''data: {!}'' @ [CHR 0x0A]))) = ''{!}''"
  by code_simp+

lemma sample_opening: "list_all (opens sample_lib) [sample_line ''data: {1}'']"
proof -
  have "carries sample_lib (rd_line (sample_line ''data: {1}'')) ''{1}''" 
    using sample_framing by (simp add: carries_def sample_line_def sample_lib_def)
  then have "opens sample_lib (sample_line ''data: {1}'')" unfolding opens_def
    by (intro conjI disjI2 exI[of _ "''{1}''"]) (simp_all add: sample_line_def sample_lib_def codex_preamble_event_def codexContentFreeEvents_def codexPreOutputWithholdCap_def second_ns_def)
  then show ?thesis by simp
qed

lemma sample_refusal: "carries sample_lib (rd_line (sample_line ''data: {!}'')) ''{!}''" "cl_classify sample_lib ''{!}'' = Class_retryable" "refusals_speak sample_lib"
  using sample_framing by (simp_all add: carries_def sample_line_def sample_lib_def refusals_speak_def)

theorem early_refusals_leave_no_trace_witness:
  "cr_shed (stream_codex_backend sample_lib True () Read_eof 0 ([sample_line ''data: {1}''] @ sample_line ''data: {!}'' # [sample_line ''data: {2}''])) \<noteq> [] \<and>
   cr_text (stream_codex_backend sample_lib True () Read_eof 0 ([sample_line ''data: {1}''] @ sample_line ''data: {!}'' # [sample_line ''data: {2}''])) = [] \<and>
   cr_shed (stream_codex_backend sample_lib True () Read_stalled 0 [sample_line ''data: {1}'']) = codexStalledShedLabel"
proof -
  have "rd_fault (sample_line ''data: {!}'') = None" by (simp add: sample_line_def)
  then show ?thesis
    using early_refusals_leave_no_trace[OF sample_refusal(3), where drain = True and acc = "()" and fin = Read_eof and t = 0 and p = "''{!}''" and
        pre = "[sample_line ''data: {1}'']" and rd = "sample_line ''data: {!}''" and rest = "[sample_line ''data: {2}'']" and
        rds = "[sample_line ''data: {1}''] @ sample_line ''data: {!}'' # [sample_line ''data: {2}'']"]
      sample_opening sample_refusal(1,2) by blast
qed

section \<open>A plain stream\<close>

text \<open>A stream cc-core lets be: it repairs and scrubs no payload of these lines and takes none for a refusal.\<close>

fun untouched :: "'o codex_lib \<Rightarrow> 'o \<Rightarrow> string list \<Rightarrow> bool" where
  "untouched lib acc [] = True"
| "untouched lib acc (l # ls) = (case payload_of l of None \<Rightarrow> untouched lib acc ls
     | Some p \<Rightarrow> fst (cl_observe lib p acc) = p \<and> cl_scrub lib l = Some l \<and> cl_classify lib p \<noteq> Class_retryable \<and>
         untouched lib (snd (cl_observe lib p acc)) ls)"

definition event_head :: "string \<Rightarrow> bool" where "event_head l = has_prefix (trim_eol l) ''event:''"
definition data_head :: "string \<Rightarrow> bool" where "data_head l = has_prefix (trim_eol l) ''data:''"

text \<open>The head of an event comes before its data.\<close>

fun well_framed :: "string list \<Rightarrow> bool" where
  "well_framed [] = True"
| "well_framed [l] = (l \<noteq> [] \<and> \<not> event_head l)"
| "well_framed (l # m # ls) = (l \<noteq> [] \<and> (event_head l \<longrightarrow> data_head m) \<and> well_framed (m # ls))"

text \<open>A line that ends the turn.\<close>

definition ends_turn :: "'o codex_lib \<Rightarrow> string \<Rightarrow> bool" where
  "ends_turn lib l = (data_head l \<and> \<not> event_head l \<and> (let p = trim_space (drop 5 (trim_eol l)) in p \<noteq> [] \<and> hd p = CHR ''{'' \<and> codex_terminal_event lib p))"

fun upto_end :: "'o codex_lib \<Rightarrow> bool \<Rightarrow> string list \<Rightarrow> string list" where
  "upto_end lib drain [] = []"
| "upto_end lib drain (l # ls) = l # (if ends_turn lib l \<and> \<not> drain then [] else upto_end lib drain ls)"

text \<open>Nothing is withheld for good, and what is held back is the head of an event, or an opening before any output.\<close>

definition passing :: "'o relay_state \<Rightarrow> bool" where
  "passing st \<longleftrightarrow> \<not> rs_shedding st \<and> \<not> rs_terminal st \<and> (rs_sent st \<longrightarrow> rs_preamble st = [])"

definition pending :: "'o relay_state \<Rightarrow> string" where "pending st = rs_preamble st @ rs_held st"

lemma terminal_not_preamble: "codex_terminal_event lib p \<Longrightarrow> \<not> codex_preamble_event lib p"
  by (auto simp: codex_terminal_event_def codex_preamble_event_def codexContentFreeEvents_def split: option.splits)

lemma take_data:
  assumes pl: "untouched lib (rs_acc st) (rd_line rd # ls)" and d: "data_head (rd_line rd)" "rd_line rd \<noteq> []" and st: "passing st"
  shows "\<exists>st'. rs_shedding st' = False \<and> rs_sent st' = rs_sent st \<and> (rs_terminal st' \<longleftrightarrow> ends_turn lib (rd_line rd)) \<and> untouched lib (rs_acc st') ls \<and>
    (take_line lib rd st = (Some (rd_line rd), st') \<and> rs_preamble st' = rs_preamble st \<and> rs_held st' = rs_held st \<or>
     take_line lib rd st = (None, st') \<and> \<not> rs_sent st \<and> \<not> rs_terminal st' \<and> rs_preamble st' = rs_preamble st @ rs_held st @ rd_line rd \<and> rs_held st' = [])"
proof -
  have ne: "\<not> event_head (rd_line rd)" using d(1) event_not_data by (auto simp: data_head_def event_head_def)
  have take: "take_line lib rd st = data_line lib rd st" using d ne by (simp add: take_line_def Let_def data_head_def event_head_def)
  show ?thesis
  proof (cases "payload_of (rd_line rd)")
    case None
    then have np: "trim_space (drop 5 (trim_eol (rd_line rd))) = [] \<or> hd (trim_space (drop 5 (trim_eol (rd_line rd)))) \<noteq> CHR ''{''"
      using d by (auto simp: payload_of_def data_head_def Let_def split: if_splits)
    then have "data_line lib rd st = (Some (rd_line rd), st)" by (simp add: data_line_def)
    moreover have "\<not> ends_turn lib (rd_line rd)" using np by (auto simp: ends_turn_def Let_def)
    ultimately show ?thesis using take st pl None by (auto simp: passing_def)
  next
    case (Some p)
    obtain acc where obs: "cl_observe lib p (rs_acc st) = (p, acc)" and sc: "cl_scrub lib (rd_line rd) = Some (rd_line rd)"
      and cl: "cl_classify lib p \<noteq> Class_retryable" and rest: "untouched lib acc ls"
      using pl Some by (cases "cl_observe lib p (rs_acc st)") auto
    from Some have p: "trim_space (drop 5 (trim_eol (rd_line rd))) = p" "p \<noteq> []" "hd p = CHR ''{''" by (simp_all add: payload_of_Some)
    obtain st1 where o1: "observed_payload lib (rd_line rd) st = (rd_line rd, p, st1)" and k: "rs_sent st1 = rs_sent st" "rs_shedding st1 = rs_shedding st"
        "rs_held st1 = rs_held st" "rs_preamble st1 = rs_preamble st" "rs_terminal st1 = rs_terminal st" "rs_acc st1 = acc"
      using obs p by (simp add: observed_payload_def Let_def)
    define st2 where "st2 = note_frame lib p st1"
    have k2: "rs_sent st2 = rs_sent st" "\<not> rs_shedding st2" "rs_held st2 = rs_held st" "rs_preamble st2 = rs_preamble st" "rs_acc st2 = acc"
      "rs_terminal st2 \<longleftrightarrow> ends_turn lib (rd_line rd)"
      using k st p ne d(1) by (auto simp: st2_def note_frame_def Let_def passing_def ends_turn_def)
    have "data_line lib rd st = scrub_or_hold lib rd (rd_line rd) p st2"
      using cl by (simp add: data_carried[OF Some o1] on_refusal_def st2_def)
    moreover have "\<not> ends_turn lib (rd_line rd)" if "codex_preamble_event lib p"
      using that terminal_not_preamble p by (auto simp: ends_turn_def Let_def)
    ultimately show ?thesis using take k2 sc rest by (auto simp: scrub_or_hold_def)
  qed
qed

lemma untouched_other: "\<not> data_head l \<Longrightarrow> untouched lib acc (l # ls) = untouched lib acc ls"
  by (auto simp: data_head_def payload_of_Some split: option.split)

lemma drop_one_Some: "drop_one ps s = Some r \<Longrightarrow> \<exists>p \<in> set ps. s = p @ r"
  by (induction ps) (auto simp: strip_prefix_append split: option.splits)

lemma drop_runes_keeps:
  assumes "\<forall>p \<in> set ps. c \<notin> set p"
  shows "\<exists>xs'. drop_runes ps n (xs @ [c]) = xs' @ [c]"
proof (induction n arbitrary: xs)
  case (Suc n)
  show ?case
  proof (cases "drop_one ps (xs @ [c])")
    case (Some r)
    then obtain p where p: "p \<in> set ps" "xs @ [c] = p @ r" using drop_one_Some by blast
    with assms have "r \<noteq> []" by (metis append_Nil2 in_set_conv_decomp)
    with p(2) have "r = butlast r @ [c]" by (metis append_butlast_last_id last_appendR last_snoc)
    with Some Suc[of "butlast r"] show ?thesis by simp
  qed auto
qed simp

lemma trim_eol_prefix: "\<exists>e. l = trim_eol l @ e"
  unfolding trim_eol_def by (metis rev_append rev_rev_ident takeWhile_dropWhile_id)

lemma data_not_blank:
  assumes "data_head l"
  shows "trim_space l \<noteq> []"
proof -
  obtain r where "trim_eol l = ''data:'' @ r" using assms by (auto simp: data_head_def has_prefix_def strip_prefix_append)
  then obtain l' where l: "l = CHR ''d'' # l'" using trim_eol_prefix[of l] by auto
  have "trim_left_space l = l" by (simp add: trim_left_space_def l space_runes_def)
  moreover have "\<forall>p \<in> set (map rev space_runes). CHR ''d'' \<notin> set p" by (simp add: space_runes_def)
  ultimately show ?thesis
    using drop_runes_keeps[of "map rev space_runes" "CHR ''d''" "length l" "rev l'"] by (auto simp: trim_space_def trim_right_space_def l)
qed

text \<open>The line past the scrubber: out with what was held, or to the preamble when blank.\<close>

lemma relay_step_line:
  assumes f: "rd_fault rd = None" and t: "take_line lib rd st = (Some line, st1)" and sh: "\<not> rs_shedding st1"
  shows "relay_step lib rd st = (if \<not> rs_sent st1 \<and> line \<noteq> [] \<and> trim_space line = [] then (None, st1\<lparr>rs_preamble := rs_preamble st1 @ line\<rparr>)
       else case let_out None line st1 of (out, st3) \<Rightarrow> if out \<noteq> [] then (Some (out, rs_terminal st3, None), st3\<lparr>rs_terminal := False\<rparr>) else (None, st3))"
  using assms by (cases "let_out None line st1") (auto simp: relay_step_def latch_stall_def)

lemma let_out_line:
  assumes "line \<noteq> []" "\<not> rs_shedding st"
  shows "\<exists>st'. let_out None line st = (rs_preamble st @ rs_held st @ line, st') \<and> rs_preamble st' = [] \<and> rs_held st' = [] \<and> rs_sent st' \<and>
    \<not> rs_shedding st' \<and> rs_terminal st' = rs_terminal st \<and> rs_acc st' = rs_acc st"
  using assms by (cases "rs_preamble st = []") (simp_all add: let_out_def Let_def)

text \<open>One line of a plain stream: it comes out behind what was held back, or is held back itself.\<close>

lemma plain_step:
  assumes pl: "untouched lib (rs_acc st) (rd_line rd # ls)" and f: "rd_fault rd = None" and l: "rd_line rd \<noteq> []" and st: "passing st"
    and h: "rs_held st \<noteq> [] \<longrightarrow> data_head (rd_line rd)"
  shows "\<exists>r st'. relay_step lib rd st = (r, st') \<and> passing st' \<and> untouched lib (rs_acc st') ls \<and> (rs_held st' \<noteq> [] \<longrightarrow> event_head (rd_line rd)) \<and>
    (case r of None \<Rightarrow> pending st' = pending st @ rd_line rd \<and> \<not> ends_turn lib (rd_line rd)
     | Some (out, tm, fault) \<Rightarrow> fault = None \<and> out = pending st @ rd_line rd \<and> (tm \<longleftrightarrow> ends_turn lib (rd_line rd)) \<and> pending st' = [])"
proof -
  have latch: "latch_stall rd st = st" using f by (simp add: latch_stall_def)
  show ?thesis
  proof (cases "data_head (rd_line rd)")
    case True
    from take_data[OF pl True l st] obtain st1 where st1: "\<not> rs_shedding st1" "rs_sent st1 = rs_sent st" "rs_terminal st1 \<longleftrightarrow> ends_turn lib (rd_line rd)" "untouched lib (rs_acc st1) ls"
      and t: "take_line lib rd st = (Some (rd_line rd), st1) \<and> rs_preamble st1 = rs_preamble st \<and> rs_held st1 = rs_held st \<or>
        take_line lib rd st = (None, st1) \<and> \<not> rs_sent st \<and> \<not> rs_terminal st1 \<and> rs_preamble st1 = rs_preamble st @ rs_held st @ rd_line rd \<and> rs_held st1 = []"
      by blast
    from t show ?thesis
    proof
      assume t: "take_line lib rd st = (Some (rd_line rd), st1) \<and> rs_preamble st1 = rs_preamble st \<and> rs_held st1 = rs_held st"
      obtain st2 where "let_out None (rd_line rd) st1 = (rs_preamble st1 @ rs_held st1 @ rd_line rd, st2)" "rs_preamble st2 = []" "rs_held st2 = []"
          "rs_sent st2" "\<not> rs_shedding st2" "rs_terminal st2 = rs_terminal st1" "rs_acc st2 = rs_acc st1"
        using let_out_line[OF l st1(1)] by blast
      with t l st1 data_not_blank[OF True] show ?thesis
        by (auto simp: relay_step_line[OF f conjunct1[OF t] st1(1)] passing_def pending_def)
    next
      assume "take_line lib rd st = (None, st1) \<and> \<not> rs_sent st \<and> \<not> rs_terminal st1 \<and> rs_preamble st1 = rs_preamble st @ rs_held st @ rd_line rd \<and> rs_held st1 = []"
      with st1 show ?thesis by (auto simp: relay_step_def latch passing_def pending_def)
    qed
  next
    case False
    with h have held: "rs_held st = []" by blast
    have ne: "\<not> ends_turn lib (rd_line rd)" using False by (simp add: ends_turn_def)
    have u: "untouched lib (rs_acc st) ls" using pl unfolding untouched_other[OF False] .
    show ?thesis
    proof (cases "event_head (rd_line rd)")
      case True
      with l st ne u held show ?thesis
        by (auto simp: relay_step_def latch take_line_def Let_def event_head_def let_out_def f passing_def pending_def)
    next
      case False
      have t: "take_line lib rd st = (Some (rd_line rd), st)"
        using l False \<open>\<not> data_head (rd_line rd)\<close> by (simp add: take_line_def Let_def event_head_def data_head_def)
      have sh: "\<not> rs_shedding st" using st by (simp add: passing_def)
      obtain st2 where "let_out None (rd_line rd) st = (rs_preamble st @ rs_held st @ rd_line rd, st2)" "rs_preamble st2 = []" "rs_held st2 = []"
          "rs_sent st2" "\<not> rs_shedding st2" "rs_terminal st2 = rs_terminal st" "rs_acc st2 = rs_acc st"
        using let_out_line[OF l sh] by blast
      with l st ne u held show ?thesis by (auto simp: relay_step_line[OF f t sh] passing_def pending_def)
    qed
  qed
qed

lemma plain_end:
  assumes "passing st" "rs_held st = []" "fin \<noteq> Read_stalled"
  shows "\<exists>st'. relay_step lib \<lparr>rd_line = [], rd_fault = Some fin, rd_elapsed = t\<rparr> st = (Some (pending st, False, Some fin), st')"
  using assms by (auto simp: relay_step_def latch_stall_def take_line_def let_out_def passing_def pending_def Let_def)

lemma plain_stream:
  assumes fin: "fin \<noteq> Read_stalled"
  shows "\<lbrakk>\<forall>rd \<in> set rds. rd_fault rd = None; well_framed (map rd_line rds); untouched lib (rs_acc st) (map rd_line rds); passing st;
      rs_held st \<noteq> [] \<longrightarrow> rds \<noteq> [] \<and> data_head (rd_line (hd rds))\<rbrakk> \<Longrightarrow>
    \<exists>outs tm fault st'. relay_stream lib drain fin t rds st = ((outs, tm, fault), st') \<and> concat outs = pending st @ concat (upto_end lib drain (map rd_line rds)) \<and>
      (tm \<longleftrightarrow> list_ex (ends_turn lib) (map rd_line rds))"
proof (induction rds arbitrary: st)
  case Nil
  with plain_end[of st fin lib t] fin show ?case by auto
next
  case (Cons rd rds)
  have f: "rd_fault rd = None" using Cons.prems(1) by simp
  have l: "rd_line rd \<noteq> []" using Cons.prems(2) by (cases rds) auto
  obtain r st1 where s: "relay_step lib rd st = (r, st1)" and p1: "passing st1" and u1: "untouched lib (rs_acc st1) (map rd_line rds)" and h1: "rs_held st1 \<noteq> [] \<longrightarrow> event_head (rd_line rd)"
    and r: "(case r of None \<Rightarrow> pending st1 = pending st @ rd_line rd \<and> \<not> ends_turn lib (rd_line rd)
     | Some (out, tm, fault) \<Rightarrow> fault = None \<and> out = pending st @ rd_line rd \<and> (tm \<longleftrightarrow> ends_turn lib (rd_line rd)) \<and> pending st1 = [])"
    using plain_step[OF Cons.prems(3)[unfolded list.map(2)] f l Cons.prems(4)] Cons.prems(5) by auto
  have wf: "well_framed (map rd_line rds)" "event_head (rd_line rd) \<longrightarrow> rds \<noteq> [] \<and> data_head (rd_line (hd rds))"
    using Cons.prems(2) by (cases rds; auto)+
  obtain outs tm fault st' where rest: "relay_stream lib drain fin t rds st1 = ((outs, tm, fault), st')"
      "concat outs = pending st1 @ concat (upto_end lib drain (map rd_line rds))" "tm \<longleftrightarrow> list_ex (ends_turn lib) (map rd_line rds)"
    using Cons.IH[OF _ wf(1) u1 p1] Cons.prems(1) h1 wf(2) by auto
  show ?case
  proof (cases r)
    case None
    with s r rest show ?thesis by auto
  next
    case (Some x)
    obtain out tn where x: "x = (out, tn, None)" using r Some by (cases x) auto
    show ?thesis
    proof (cases "tn \<and> \<not> drain")
      case True
      with s r Some x show ?thesis by auto
    next
      case False
      with s r rest Some x show ?thesis by auto
    qed
  qed
qed

text \<open>C20. A stream of which cc-core repairs, scrubs and refuses no payload, each head of an event before its data, and which the
  upstream does not park, reaches the caller byte for byte and in order, up to the line that ends the turn, or to the
  last where the relay drains; the turn counts as ended exactly when such a line came. What was held back is lost
  nowhere, even if the stream breaks off inside its opening.\<close>

theorem plain_streams_pass_unchanged:
  assumes pl: "untouched lib acc (map rd_line rds)" and fin: "fin \<noteq> Read_stalled" and wf: "well_framed (map rd_line rds)"
    and nf: "\<forall>rd \<in> set rds. rd_fault rd = None"
  shows "cr_text (stream_codex_backend lib drain acc fin t rds) = concat (upto_end lib drain (map rd_line rds)) \<and>
    (cr_terminal (stream_codex_backend lib drain acc fin t rds) \<longleftrightarrow> list_ex (ends_turn lib) (map rd_line rds)) \<and>
    (drain \<longrightarrow> cr_text (stream_codex_backend lib drain acc fin t rds) = concat (map rd_line rds))"
proof -
  have start: "passing (relay_start acc)" "rs_held (relay_start acc) = []" "pending (relay_start acc) = []" "rs_acc (relay_start acc) = acc"
    by (simp_all add: passing_def pending_def relay_start_def)
  from plain_stream[OF fin nf wf _ start(1), of lib drain t] start pl obtain outs tm fault st' where
    "relay_stream lib drain fin t rds (relay_start acc) = ((outs, tm, fault), st')" "concat outs = concat (upto_end lib drain (map rd_line rds))"
    "tm \<longleftrightarrow> list_ex (ends_turn lib) (map rd_line rds)" by auto
  moreover have "upto_end lib True ls = ls" for ls by (induction ls) auto
  ultimately show ?thesis by (auto simp: stream_codex_backend_def)
qed

theorem plain_streams_pass_unchanged_witness:
  "cr_text (stream_codex_backend sample_lib True () Read_eof 0
     (map sample_line [''event: a'', ''data: {1}'', [], ''event: b'', ''data: {2}'', [], ''data: {3}'', []])) =
   concat (map rd_line (map sample_line [''event: a'', ''data: {1}'', [], ''event: b'', ''data: {2}'', [], ''data: {3}'', []]))"
proof -
  have "well_framed (map rd_line (map sample_line [''event: a'', ''data: {1}'', [], ''event: b'', ''data: {2}'', [], ''data: {3}'', []]))"
    "untouched sample_lib () (map rd_line (map sample_line [''event: a'', ''data: {1}'', [], ''event: b'', ''data: {2}'', [], ''data: {3}'', []]))"
    by code_simp+
  moreover have "\<forall>rd \<in> set (map sample_line [''event: a'', ''data: {1}'', [], ''event: b'', ''data: {2}'', [], ''data: {3}'', []]). rd_fault rd = None"
    by (simp add: sample_line_def)
  ultimately show ?thesis
    using plain_streams_pass_unchanged[of sample_lib "()" _ Read_eof True 0] by blast
qed

end
