(* ===== verification/CodexForwardFacts.thy ===== *)
theory CodexForwardFacts
  imports CodexForward CodexStreamFacts
begin

text \<open>
  What an exchange with a Codex upstream guarantees: moving on to another credential shows and costs nothing, a delivered
  answer is charged once for what was observed, and a refusal before any output moves on.
\<close>

section \<open>Moving on\<close>

text \<open>What the caller, the log of requests or a ledger of money can notice.\<close>

definition noticed :: "codex_effect \<Rightarrow> bool" where
  "noticed e = (case e of Headers _ \<Rightarrow> True | Body _ \<Rightarrow> True | Answered _ \<Rightarrow> True | Kept_alive \<Rightarrow> True | Failed_alive _ \<Rightarrow> True
     | Used _ \<Rightarrow> True | Used_by _ _ \<Rightarrow> True | Billed _ _ _ _ \<Rightarrow> True | Logged _ attempt_only _ \<Rightarrow> \<not> attempt_only | _ \<Rightarrow> False)"

text \<open>An attempt either ends the request or hands it back, and hands it back unnoticed.\<close>

definition clean_attempt :: "exchanged \<Rightarrow> bool" where
  "clean_attempt y \<longleftrightarrow> xe_done (snd y) = (\<not> xe_retry (snd y)) \<and> (xe_retry (snd y) \<longrightarrow> list_all (\<lambda>e. \<not> noticed e) (fst y))"

lemma noticed_simps [simp]: "\<not> noticed (On_credential a)" "\<not> noticed Captured_limits" "\<not> noticed (Model_shed m)" "\<not> noticed (Served m)"
  "\<not> noticed (Bearer_rejected b)" "\<not> noticed (Rested w t)" "\<not> noticed (Egress_failed w)" "noticed (Logged s quiet w) = (\<not> quiet)"
  by (simp_all add: noticed_def)

lemma clean_ends [simp]: "clean_attempt (effs, cx_done)" "clean_attempt (effs, cx_retry) = list_all (\<lambda>e. \<not> noticed e) effs"
  "clean_attempt (effs, cx_retry\<lparr>xe_shed := b\<rparr>) = list_all (\<lambda>e. \<not> noticed e) effs"
  "clean_attempt (effs, cx_retry\<lparr>xe_stale := b\<rparr>) = list_all (\<lambda>e. \<not> noticed e) effs"
  by (simp_all add: clean_attempt_def cx_done_def cx_retry_def)

lemma clean_prefix [simp]: "\<not> noticed e \<Longrightarrow> clean_attempt (case y of (effs, x) \<Rightarrow> (e # effs, x)) = clean_attempt y"
  by (simp add: clean_attempt_def split: prod.split)

lemma clean_prefixes [simp]: "list_all (\<lambda>e. \<not> noticed e) es \<Longrightarrow> clean_attempt (case y of (effs, x) \<Rightarrow> (es @ effs, x)) = clean_attempt y"
  by (simp add: clean_attempt_def split: prod.split)

lemma blame_unnoticed [simp]: "list_all (\<lambda>e. \<not> noticed e) (codex_blame env now u)"
  by (simp add: codex_blame_def Let_def)

lemma fault_unnoticed [simp]: "list_all (\<lambda>e. \<not> noticed e) (report_codex_api_key_fault env now status reset b)"
  by (simp add: report_codex_api_key_fault_def)

lemma refused_clean: "clean_attempt (codex_oauth_refused env now r u)"
  by (simp add: codex_oauth_refused_def)

lemma nothing_out_clean [simp]: "clean_attempt (nothing_out r u reused res)"
  by (simp add: nothing_out_def)

lemma deliver_stream_clean: "clean_attempt (deliver_stream env r u reused)"
  by (simp add: deliver_stream_def Let_def split: prod.split)

lemma aggregate_failed_clean: "clean_attempt (aggregate_failed env u f)"
  by (simp add: aggregate_failed_def split: aggregate_fault.split read_fault.split)

lemma deliver_aggregate_clean: "clean_attempt (deliver_aggregate env r u)"
  by (simp add: deliver_aggregate_def Let_def fail_alive_def aggregate_failed_clean split: prod.split aggregate_end.split option.split)

lemma conclude_oauth_clean: "clean_attempt (conclude_codex_oauth env now r reused u)"
proof -
  have "clean_attempt (deliver_compact env r u)" by (simp add: deliver_compact_def split: option.split)
  then show ?thesis by (simp add: conclude_codex_oauth_def refused_clean deliver_stream_clean deliver_aggregate_clean)
qed

lemma over_http_clean: "clean_attempt (codex_over_http env now r url b)"
  by (simp add: codex_over_http_def conclude_oauth_clean split: codex_sent.split)

lemma transport_clean: "clean_attempt (codex_transport env now r url b)"
  by (simp add: codex_transport_def conclude_oauth_clean over_http_clean split: sum.split prod.splits)

lemma oauth_clean: "clean_attempt (do_forward_codex_oauth env now r)"
  unfolding do_forward_codex_oauth_def Let_def by (auto simp: transport_clean simp del: insert_iff split: sum.split option.split)

lemma api_key_clean: "clean_attempt (do_forward_codex_api_key env now r)"
  by (simp add: do_forward_codex_api_key_def Let_def conclude_codex_api_key_def api_key_stream_def api_key_whole_def
      split: sum.split option.split prod.split codex_sent.split)

lemma image_failed_clean: "clean_attempt (image_failed committed status reason)"
  by (simp add: image_failed_def)

lemma conclude_images_clean: "clean_attempt (conclude_images env im committed now r u)"
  by (simp add: conclude_images_def images_refused_def images_served_def Let_def image_failed_clean split: prod.split)

lemma images_clean: "clean_attempt (do_forward_codex_images env im now r)"
  by (simp add: do_forward_codex_images_def Let_def conclude_images_clean image_failed_clean split: option.split codex_sent.split)

text \<open>C17. An attempt on a Codex credential, of any kind and over either transport, either ends the request or hands it to the
  next credential, and handing it on has shown the caller nothing, entered no finished request in the log, and recorded
  or charged no usage.\<close>

theorem retried_codex_attempt_is_unnoticed:
  "clean_attempt (do_forward_codex env im now r)"
  by (simp add: do_forward_codex_def images_clean oauth_clean api_key_clean split: sum.split)

section \<open>Paying\<close>

definition costs :: "codex_effect \<Rightarrow> bool" where
  "costs e = (case e of Used_by _ _ \<Rightarrow> True | Billed _ _ _ _ \<Rightarrow> True | _ \<Rightarrow> False)"

text \<open>At most one charge, of observed usage at its price, to a known client.\<close>

definition paid_once :: "('o, 'c) codex_env \<Rightarrow> codex_request \<Rightarrow> codex_effect list \<Rightarrow> bool" where
  "paid_once env r effs \<longleftrightarrow> filter costs effs = [] \<or> (\<exists>m ref counts. Used counts \<in> set effs \<and> 0 < cc_requests counts \<and> cq_token r \<noteq> [] \<and>
     filter costs effs = [Used_by counts (ce_price env m counts), Billed (cq_model r) (ce_price env m counts) (api_key_price_override (Some (cq_cred r))) ref])"

definition free :: "codex_effect list \<Rightarrow> bool" where
  "free effs \<longleftrightarrow> list_all (\<lambda>e. \<not> costs e) effs"

lemma costs_simps [simp]: "\<not> costs (On_credential a)" "\<not> costs Captured_limits" "\<not> costs (Model_shed m)" "\<not> costs (Served m)"
  "\<not> costs (Bearer_rejected b)" "\<not> costs (Rested w t)" "\<not> costs (Egress_failed w)" "\<not> costs (Headers s)" "\<not> costs (Body b)" "\<not> costs (Answered resp)"
  "\<not> costs Kept_alive" "\<not> costs (Failed_alive w)" "\<not> costs (Used c)" "\<not> costs (Logged s quiet w)" "costs (Used_by c x)" "costs (Billed m x y z)"
  by (simp_all add: costs_def)

lemma free_simps [simp]: "free []" "free (e # es) \<longleftrightarrow> \<not> costs e \<and> free es" "free (a @ b) \<longleftrightarrow> free a \<and> free b"
  by (simp_all add: free_def)


lemma filter_free: "free es \<Longrightarrow> filter costs es = []"
  by (simp add: free_def list_all_iff)

lemma paid_prefix [simp]: "free es \<Longrightarrow> paid_once env r effs \<Longrightarrow> paid_once env r (es @ effs)"
  by (auto simp: paid_once_def filter_free)

lemma paid_cons [simp]: "\<not> costs e \<Longrightarrow> paid_once env r effs \<Longrightarrow> paid_once env r (e # effs)"
  by (auto simp: paid_once_def)


lemma paid_case [simp]: "paid_once env r (fst y) \<Longrightarrow> \<not> costs e \<Longrightarrow> paid_once env r (fst (case y of (effs, x) \<Rightarrow> (e # effs, x)))"
  by (cases y) simp

lemma paid_nil [simp]: "paid_once env r []" "free effs \<Longrightarrow> paid_once env r effs"
  by (simp_all add: paid_once_def free_def list_all_iff)

lemma paid_charge:
  assumes "free es" "0 < cc_requests counts" "cq_token r \<noteq> []"
  shows "paid_once env r (Used counts # codex_charge env r m ref counts @ es)"
  using assms by (auto simp: paid_once_def codex_charge_def Let_def filter_free)

lemma paid_charge_if:
  assumes "free es" "b \<Longrightarrow> 0 < cc_requests counts \<and> cq_token r \<noteq> []"
  shows "paid_once env r (Used counts # (if b then codex_charge env r m ref counts else []) @ es)"
proof (cases b)
  case True
  with assms show ?thesis by (simp only: if_True) (intro paid_charge; simp)
qed (use assms in simp)

lemma settle_paid: "paid_once env r (codex_settle env r status log_status err counts)"
  unfolding codex_settle_def by (intro paid_charge_if) auto

lemma blame_free [simp]: "free (codex_blame env now u)"
  by (simp add: codex_blame_def Let_def)

lemma fault_free [simp]: "free (report_codex_api_key_fault env now status reset b)"
  by (simp add: report_codex_api_key_fault_def)

lemma api_key_settle_paid:
  assumes "\<And>oc c. ce_billable env oc c \<Longrightarrow> 0 < cc_requests c"
  shows "paid_once env r (api_key_settle env r log_status truncated outcome counts)"
  unfolding api_key_settle_def append.simps using assms by (intro paid_prefix paid_charge_if) auto

lemma stream_verdict_free [simp]: "free (snd (snd (stream_verdict u res)))"
  by (simp add: stream_verdict_def Let_def split_def)

lemma nothing_out_free [simp]: "free (fst (nothing_out r u reused res))"
  by (simp add: nothing_out_def)

lemma deliver_stream_paid: "paid_once env r (fst (deliver_stream env r u reused))"
proof -
  have "paid_once env r (out @ shed @ snd (snd (stream_verdict u res)) @ codex_settle env r status log_status err counts)" if "free out" "free shed"
    for out shed res status log_status err counts using that by (simp add: settle_paid)
  then show ?thesis unfolding deliver_stream_def Let_def by (simp add: split_def)
qed

lemma aggregate_failed_free [simp]: "free (fst (aggregate_failed env u f))"
  by (simp add: aggregate_failed_def split: aggregate_fault.split read_fault.split)

lemma deliver_aggregate_paid: "paid_once env r (fst (deliver_aggregate env r u))"
  by (simp add: deliver_aggregate_def Let_def fail_alive_def settle_paid split: prod.split aggregate_end.split option.split)

lemma conclude_oauth_paid: "paid_once env r (fst (conclude_codex_oauth env now r reused u))"
proof -
  have "paid_once env r (fst (deliver_compact env r u))" by (simp add: deliver_compact_def settle_paid split: option.split)
  moreover have "free (fst (codex_oauth_refused env now r u))" by (simp add: codex_oauth_refused_def)
  ultimately show ?thesis by (simp add: conclude_codex_oauth_def deliver_stream_paid deliver_aggregate_paid)
qed

lemma over_http_paid: "paid_once env r (fst (codex_over_http env now r' url b))" if "\<And>reused u. paid_once env r (fst (conclude_codex_oauth env now r' reused u))"
  by (simp add: codex_over_http_def that split: codex_sent.split)

lemma paid_body: "paid_once env (r\<lparr>cq_body := b\<rparr>) effs = paid_once env r effs"
  by (simp add: paid_once_def)

lemma conclude_oauth_paid_body: "paid_once env r (fst (conclude_codex_oauth env now (r\<lparr>cq_body := b\<rparr>) reused u))"
  using conclude_oauth_paid[of env "r\<lparr>cq_body := b\<rparr>" now reused u] by (simp add: paid_body)

lemma transport_paid: "paid_once env r (fst (codex_transport env now (r\<lparr>cq_body := b\<rparr>) url body))"
  by (auto simp: codex_transport_def conclude_oauth_paid_body over_http_paid[OF conclude_oauth_paid_body] split: sum.split)

lemma oauth_paid: "paid_once env r (fst (do_forward_codex_oauth env now r))"
  unfolding do_forward_codex_oauth_def Let_def by (auto simp: transport_paid simp del: insert_iff split: sum.split option.split)

lemma api_key_stream_paid:
  assumes "\<And>oc c. ce_billable env oc c \<Longrightarrow> 0 < cc_requests c"
  shows "paid_once env r (fst (api_key_stream env now r renames u))"
  by (simp add: api_key_stream_def Let_def api_key_settle_paid[OF assms] split: stream_end.split)

lemma api_key_whole_paid:
  assumes "\<And>oc c. ce_billable env oc c \<Longrightarrow> 0 < cc_requests c"
  shows "paid_once env r (fst (api_key_whole env now r renames u))"
  by (simp add: api_key_whole_def Let_def api_key_settle_paid[OF assms])

lemma api_key_paid:
  assumes "\<And>oc c. ce_billable env oc c \<Longrightarrow> 0 < cc_requests c"
  shows "paid_once env r (fst (do_forward_codex_api_key env now r))"
  by (simp add: do_forward_codex_api_key_def conclude_codex_api_key_def Let_def api_key_stream_paid[OF assms] api_key_whole_paid[OF assms]
      split: sum.split option.split prod.split codex_sent.split)

lemma image_failed_free [simp]: "free (fst (image_failed committed status reason))"
  by (simp add: image_failed_def)

lemma images_served_paid: "paid_once env r (fst (images_served env im committed r u))"
proof -
  obtain c0 priced where u: "ci_usage im (cy_body u) = (c0, priced)" by force
  define tail where "tail = [Logged 200 False (if priced then [] else ce_missing_error env), On_credential MarkSuccess]"
  have tail: "free tail" by (simp add: tail_def)
  have "paid_once env r (Used (c0\<lparr>cc_requests := 1\<rparr>) # (if priced \<and> cq_token r \<noteq> [] then codex_charge env r (cq_model r) ''codex-images:'' (c0\<lparr>cc_requests := 1\<rparr>) else []) @ tail)"
    by (intro paid_charge_if tail) simp
  then show ?thesis by (simp add: images_served_def u Let_def tail_def)
qed

lemma conclude_images_paid: "paid_once env r (fst (conclude_images env im committed now r u))"
  by (simp add: conclude_images_def images_refused_def Let_def split_def images_served_paid)

lemma images_paid: "paid_once env r (fst (do_forward_codex_images env im now r))"
  by (simp add: do_forward_codex_images_def Let_def conclude_images_paid split: option.split codex_sent.split)

text \<open>C18. An attempt on a Codex credential charges at most once: a known client, for usage that was observed and counts as a
  request, at its price, once to the ledger of usage and once to the wallet, and everything else it does is free.
  cc-core bills an outcome only when a request was counted.\<close>

theorem codex_charges_observed_usage_once:
  assumes "\<And>oc c. ce_billable env oc c \<Longrightarrow> 0 < cc_requests c"
  shows "paid_once env r (fst (do_forward_codex env im now r))"
proof (cases "ce_normalize env (cq_body r)")
  case (Inr body)
  have "paid_once env r (fst (do_forward_codex_oauth env now (r\<lparr>cq_body := body\<rparr>)))" "paid_once env r (fst (do_forward_codex_api_key env now (r\<lparr>cq_body := body\<rparr>)))"
    using oauth_paid[of env "r\<lparr>cq_body := body\<rparr>" now] api_key_paid[OF assms, where r = "r\<lparr>cq_body := body\<rparr>" and now = now] by (simp_all add: paid_body)
  with Inr show ?thesis by (simp add: do_forward_codex_def images_paid)
qed (simp add: do_forward_codex_def images_paid paid_nil)

text \<open>An upstream of an OAuth credential answers \<open>reads\<close>; the price of a request is one.\<close>

definition codex_sample_env :: "codex_reply \<Rightarrow> (unit, unit) codex_env" where
  "codex_sample_env u = \<lparr>ce_lib = sample_lib, ce_agg = \<lparr>ag_decodes = (\<lambda>_. True), ag_generates = (\<lambda>_. False), ag_add_item = (\<lambda>_ a. a), ag_response = Some, ag_patch = (\<lambda>p _. Inr p), ag_failure = (\<lambda>_. None)\<rparr>,
     ce_chat = \<lparr>ch_translate = (\<lambda>p c. ([p], c)), ch_is_done = (\<lambda>_. False), ch_failure = (\<lambda>_. None)\<rparr>, ce_acc = (), ce_conv = (), ce_drain = True,
     ce_normalize = Inr, ce_prepare = (\<lambda>b p. Inr (p, b)), ce_codex_path = (\<lambda>p. p), ce_backend_base = ''https://b'', ce_openai_base = ''https://o'', ce_cred_base = [],
     ce_eligible = False, ce_dial = (\<lambda>_. Inl ''closed''), ce_http_fallback = True, ce_url_error = (\<lambda>_. None), ce_send = (\<lambda>_ _. Answered_by u), ce_transient = (\<lambda>_. False),
     ce_reset = (\<lambda>_. None), ce_http_time = (\<lambda>_. None), ce_wants_usage = (\<lambda>_. False), ce_to_chat = Some, ce_heartbeat = False, ce_join = (\<lambda>a b. a @ b),
     ce_stream_usage = Some, ce_rewrite = (\<lambda>b _. Some b), ce_rename = (\<lambda>_ b. b), ce_frame = (\<lambda>p. (p, False, False)), ce_upstream_model = None,
     ce_should_pause = (\<lambda>_ _. False), ce_outcome = (\<lambda>_ _. Stream_complete), ce_billable = (\<lambda>_ c. 0 < cc_requests c), ce_missing = (\<lambda>c. cc_requests c = 0),
     ce_outcome_error = (\<lambda>_. []), ce_canceled_error = ''canceled'', ce_missing_error = ''missing'', ce_price = (\<lambda>_ _. 1)\<rparr>"

definition sample_reply :: "read_fault \<Rightarrow> codex_read list \<Rightarrow> codex_reply" where
  "sample_reply fin reads = \<lparr>cy_status = 200, cy_header = (\<lambda>_. []), cy_body = [], cy_body_error = None, cy_reads = reads, cy_fin = fin, cy_at = 0, cy_gone = False\<rparr>"

definition codex_sample_request :: codex_request where
  "codex_sample_request = \<lparr>cq_cred = one_credential, cq_path = ''/v1/responses'', cq_body = ''{}'', cq_stream = True, cq_model = ''gpt-5'', cq_token = ''sk-1''\<rparr>"

definition sample_images :: image_lib where
  "sample_images = \<lparr>ci_path = (\<lambda>_. False), ci_model = (\<lambda>_. True), ci_streams = (\<lambda>_. False), ci_body = Inr, ci_backend = (\<lambda>p. p), ci_slow = False, ci_valid = (\<lambda>_. True),
     ci_usage = (\<lambda>_. (zero_usage, False))\<rparr>"

theorem codex_charges_observed_usage_once_witness:
  "list_ex costs (fst (do_forward_codex (codex_sample_env (sample_reply Read_eof (map sample_line [''data: {2}'', [], ''data: {3}'', []]))) sample_images 0 codex_sample_request)) \<and>
   paid_once (codex_sample_env (sample_reply Read_eof (map sample_line [''data: {2}'', [], ''data: {3}'', []]))) codex_sample_request
     (fst (do_forward_codex (codex_sample_env (sample_reply Read_eof (map sample_line [''data: {2}'', [], ''data: {3}'', []]))) sample_images 0 codex_sample_request))"
proof
  show "list_ex costs (fst (do_forward_codex (codex_sample_env (sample_reply Read_eof (map sample_line [''data: {2}'', [], ''data: {3}'', []]))) sample_images 0 codex_sample_request))"
    by code_simp
  show "paid_once (codex_sample_env (sample_reply Read_eof (map sample_line [''data: {2}'', [], ''data: {3}'', []]))) codex_sample_request
     (fst (do_forward_codex (codex_sample_env (sample_reply Read_eof (map sample_line [''data: {2}'', [], ''data: {3}'', []]))) sample_images 0 codex_sample_request))"
    by (rule codex_charges_observed_usage_once) (simp add: codex_sample_env_def)
qed

section \<open>Refused early\<close>

lemma shed_moves_on:
  fixes env :: "('o, 'c) codex_env" and u :: codex_reply
  defines "res \<equiv> stream_codex_backend (ce_lib env) (ce_drain env) (ce_acc env) (cy_fin u) (cy_at u) (cy_reads u)"
  assumes "refusals_speak (ce_lib env)" "cr_shed res \<noteq> []" "cy_status u < 400" "cq_stream r" "cq_path r = ''/v1/responses''"
  shows "set (fst (conclude_codex_oauth env now r reused u)) = {Captured_limits, Model_shed (cq_model r)} \<and>
    snd (conclude_codex_oauth env now r reused u) = cx_retry\<lparr>xe_shed := cr_shed_code res \<in> set codexCapacityShedCodes\<rparr>"
proof -
  have "\<not> cr_wrote_any res" "\<not> cr_terminal res"
    using stream_codex_cases[OF assms(2), of "ce_drain env" "ce_acc env" "cy_fin u" "cy_at u" "cy_reads u"] assms(3) by (auto simp: res_def)
  then show ?thesis using assms(3-)
    by (auto simp: conclude_codex_oauth_def deliver_stream_def nothing_out_def Let_def res_def[symmetric])
qed

text \<open>C19. A streaming \<open>/v1/responses\<close> turn the backend answers below 400 and then refuses with a retryable frame, or parks, behind
  lines that show no output within the 240 seconds for which such lines are withheld, is handed back to the failover loop.
  The attempt did two things only, capturing the limits and noting that the model is being shed; no end of the caller's
  turn and no stale connection is reported; and the loop is told that the refusal was one of capacity, for which it may ask
  the same credential again, exactly if the code of the last refusal the stream brought is a capacity code. A parked turn
  has no code.\<close>

theorem early_refusal_moves_on:
  assumes sp: "refusals_speak (ce_lib env)" and u: "cy_status u < 400" and r: "cq_stream r" "cq_path r = ''/v1/responses''"
    and pre: "list_all (opens (ce_lib env)) pre"
    and refused: "cy_reads u = pre \<and> cy_fin u = Read_stalled \<and> code = [] \<or>
      cy_reads u = pre @ rd # rest \<and> carries (ce_lib env) (rd_line rd) p \<and> cl_classify (ce_lib env) p = Class_retryable \<and> rd_fault rd = None \<and>
      code = last_refusal (ce_lib env) (ce_acc env) [] (cy_reads u)"
  shows "set (fst (conclude_codex_oauth env now r reused u)) = {Captured_limits, Model_shed (cq_model r)} \<and>
    snd (conclude_codex_oauth env now r reused u) =
      \<lparr>xe_retry = True, xe_done = False, xe_stale = False, xe_shed = code \<in> {''server_is_overloaded'', ''slow_down''}\<rparr>"
proof -
  let ?res = "stream_codex_backend (ce_lib env) (ce_drain env) (ce_acc env) (cy_fin u) (cy_at u) (cy_reads u)"
  have "cr_shed ?res \<noteq> [] \<and> cr_shed_code ?res = code"
    using refused refused_stream[OF sp pre] parked_stream[OF pre] refused_code[OF sp pre] parked_code[OF pre] by (auto simp: codexStalledShedLabel_def)
  then show ?thesis using shed_moves_on[OF sp _ u r, of now reused] by (simp add: cx_retry_def codexCapacityShedCodes_def)
qed

text \<open>A refusal for want of capacity behind an opening.\<close>

definition overloaded_env :: "(unit, unit) codex_env" where
  "overloaded_env = (codex_sample_env (sample_reply Read_eof []))
     \<lparr>ce_lib := sample_lib\<lparr>cl_error := \<lambda>p. if p = ''{!}'' then Some (Some (''server_is_overloaded'', []), None) else None\<rparr>\<rparr>"

theorem early_refusal_moves_on_witness:
  "set (fst (conclude_codex_oauth overloaded_env 0 codex_sample_request True (sample_reply Read_eof [sample_line ''data: {1}'', sample_line ''data: {!}'', sample_line []]))) =
     {Captured_limits, Model_shed ''gpt-5''} \<and>
   snd (conclude_codex_oauth overloaded_env 0 codex_sample_request True (sample_reply Read_eof [sample_line ''data: {1}'', sample_line ''data: {!}'', sample_line []])) =
     \<lparr>xe_retry = True, xe_done = False, xe_stale = False, xe_shed = True\<rparr> \<and>
   set (fst (conclude_codex_oauth overloaded_env 0 codex_sample_request True (sample_reply Read_stalled [sample_line ''data: {1}'']))) =
     {Captured_limits, Model_shed ''gpt-5''} \<and>
   snd (conclude_codex_oauth overloaded_env 0 codex_sample_request True (sample_reply Read_stalled [sample_line ''data: {1}''])) =
     \<lparr>xe_retry = True, xe_done = False, xe_stale = False, xe_shed = False\<rparr>"
proof -
  let ?lib = "ce_lib overloaded_env"
  have lib: "cl_observe ?lib = cl_observe sample_lib" "cl_type ?lib = cl_type sample_lib" "cl_classify ?lib = cl_classify sample_lib" "refusals_speak ?lib"
    using sample_refusal(3) by (simp_all add: overloaded_env_def codex_sample_env_def refusals_speak_def)
  have pre: "list_all (opens ?lib) [sample_line ''data: {1}'']"
    using sample_opening by (simp add: opens_def carries_def codex_preamble_event_def lib)
  have c: "carries ?lib (rd_line (sample_line ''data: {!}'')) ''{!}''" "cl_classify ?lib ''{!}'' = Class_retryable"
    using sample_refusal by (simp_all add: carries_def lib)
  have code: "''server_is_overloaded'' = last_refusal ?lib (ce_acc overloaded_env) [] [sample_line ''data: {1}'', sample_line ''data: {!}'', sample_line []]"
    by code_simp
  have f: "rd_fault (sample_line ''data: {!}'') = None" by (simp add: sample_line_def)
  have r: "cq_stream codex_sample_request" "cq_path codex_sample_request = ''/v1/responses''" "cq_model codex_sample_request = ''gpt-5''"
    and u: "cy_status (sample_reply fin rds) < 400" "cy_reads (sample_reply fin rds) = rds" "cy_fin (sample_reply fin rds) = fin" for fin rds
    by (simp_all add: codex_sample_request_def sample_reply_def)
  have codes: "''server_is_overloaded'' \<in> {''server_is_overloaded'', ''slow_down''}" "[] \<notin> {''server_is_overloaded'', ''slow_down''}" by simp_all
  let ?refused = "sample_reply Read_eof [sample_line ''data: {1}'', sample_line ''data: {!}'', sample_line []]"
  have "cy_reads ?refused = [sample_line ''data: {1}''] @ sample_line ''data: {!}'' # [sample_line []] \<and> carries ?lib (rd_line (sample_line ''data: {!}'')) ''{!}'' \<and>
      cl_classify ?lib ''{!}'' = Class_retryable \<and> rd_fault (sample_line ''data: {!}'') = None \<and>
      ''server_is_overloaded'' = last_refusal ?lib (ce_acc overloaded_env) [] (cy_reads ?refused)"
    using c f code by (simp add: u)
  note refused = early_refusal_moves_on[OF lib(4) u(1) r(1,2) pre disjI2[OF this], of 0 True]
  note parked = early_refusal_moves_on[OF lib(4) u(1) r(1,2) pre disjI1[OF conjI[OF u(2) conjI[OF u(3) refl]]], of 0 True]
  show ?thesis using refused parked codes by (simp only: r conj_assoc simp_thms)
qed

end
