(* ===== verification/Paging.thy ===== *)
theory Paging
  imports GoLib
begin

text \<open>
  The newest rows of several lists without holding them all: \<open>team_requests.go\<close> and
  \<open>team_statement.go\<close> of \<open>internal/saas/billing\<close> ask each member for their newest rows, add each
  answer to a page as it arrives, and cut the page back to its limit every time. \<open>top_of\<close> says
  what a page of the newest is, and the lemmas that cutting early loses nothing.
\<close>

definition newest_first :: "('a \<Rightarrow> int) \<Rightarrow> 'a list \<Rightarrow> 'a list" where
  "newest_first ts = sort_key (\<lambda>r. - ts r)"

definition oldest_first :: "('a \<Rightarrow> int) \<Rightarrow> 'a list \<Rightarrow> 'a list" where
  "oldest_first ts = sort_key ts"

text \<open>The rows of a page are among all rows, as many as fit, and no row left out is newer than one
  that is in.\<close>

definition top_of :: "('a \<Rightarrow> int) \<Rightarrow> nat \<Rightarrow> 'a multiset \<Rightarrow> 'a multiset \<Rightarrow> bool" where
  "top_of ts n A P \<longleftrightarrow> P \<subseteq># A \<and> size P = min n (size A) \<and> (\<forall>x \<in># A - P. \<forall>y \<in># P. ts x \<le> ts y)"

lemma mset_newest_first [simp]: "mset (newest_first ts xs) = mset xs"
  by (simp add: newest_first_def)

lemma set_newest_first [simp]: "set (newest_first ts xs) = set xs"
  by (simp add: newest_first_def)

lemma length_newest_first [simp]: "length (newest_first ts xs) = length xs"
  by (simp add: newest_first_def)

lemma mset_oldest_first [simp]: "mset (oldest_first ts xs) = mset xs"
  by (simp add: oldest_first_def)

lemma newest_first_sorted: "sorted_wrt (\<lambda>a b. ts b \<le> ts a) (newest_first ts xs)"
proof -
  have "sorted (map (\<lambda>r. - ts r) (newest_first ts xs))" by (simp add: newest_first_def)
  then show ?thesis by (simp add: sorted_map)
qed

lemma top_of_prefix:
  assumes "sorted_wrt (\<lambda>a b. ts b \<le> ts a) ys"
  shows "top_of ts n (mset ys) (mset (take n ys))"
proof -
  have split: "mset ys = mset (take n ys) + mset (drop n ys)" by (metis append_take_drop_id mset_append)
  have "ts x \<le> ts y" if "x \<in> set (drop n ys)" "y \<in> set (take n ys)" for x y
  proof -
    have "sorted_wrt (\<lambda>a b. ts b \<le> ts a) (take n ys @ drop n ys)" using assms by simp
    with that show ?thesis unfolding sorted_wrt_append by blast
  qed
  then show ?thesis by (simp add: top_of_def split min.commute)
qed

lemma top_of_take: "top_of ts n (mset xs) (mset (take n (newest_first ts xs)))"
  using top_of_prefix[OF newest_first_sorted[of ts xs], of n] by simp

lemma top_of_refl: "size A \<le> n \<Longrightarrow> top_of ts n A A"
  by (simp add: top_of_def)

lemma top_of_empty: "top_of ts n {#} {#}"
  by (rule top_of_refl) simp

text \<open>Whatever an early cut dropped from one part is not newer than any row of the final page.\<close>

lemma top_of_outside:
  assumes A: "top_of ts n A P" and R: "top_of ts n (P + Q) R" and x: "x \<in># A - P" and y: "y \<in># R"
  shows "ts x \<le> ts y"
proof (rule ccontr)
  assume "\<not> ts x \<le> ts y"
  let ?F = "filter_mset (\<lambda>z. ts x \<le> ts z)"
  have "P \<subseteq># A" "P \<noteq> A" using A x by (auto simp: top_of_def)
  then have "size P < size A" by (meson subset_mset.le_neq_trans mset_subset_size)
  with A have n: "size P = n" by (auto simp: top_of_def)
  have "?F P = P" using A x by (auto simp: top_of_def filter_mset_eq_conv)
  then have "n \<le> size (?F (P + Q))" using n by simp
  moreover have "size (?F R) < n"
  proof -
    have "y \<in># R - ?F R" using y \<open>\<not> ts x \<le> ts y\<close> by (simp add: in_diff_count not_in_iff)
    then have "?F R \<noteq> R" by auto
    then have "size (?F R) < size R" using multiset_filter_subset by (metis mset_subset_size subset_mset.le_neq_trans)
    also have "size R \<le> n" using R by (simp add: top_of_def)
    finally show ?thesis .
  qed
  ultimately have "size (?F R) < size (?F (P + Q))" by linarith
  moreover have "?F (P + Q - R) = ?F (P + Q) - ?F R" by simp
  ultimately have "?F (P + Q - R) \<noteq> {#}" by (metis Diff_eq_empty_iff_mset leD size_mset_mono)
  then obtain z where "z \<in># ?F (P + Q - R)" by (meson multiset_nonemptyE)
  then have "z \<in># P + Q - R" "ts x \<le> ts z" unfolding set_mset_filter by blast+
  with R y \<open>\<not> ts x \<le> ts y\<close> show False by (fastforce simp: top_of_def)
qed

lemma top_of_merge:
  assumes A: "top_of ts n A P" and B: "top_of ts n B Q" and R: "top_of ts n (P + Q) R"
  shows "top_of ts n (A + B) R"
proof -
  have sub: "P \<subseteq># A" "Q \<subseteq># B" "R \<subseteq># P + Q" using assms by (auto simp: top_of_def)
  have split: "A + B - R = (A - P) + (B - Q) + (P + Q - R)"
  proof (rule multiset_eqI)
    fix z
    have "count P z \<le> count A z" "count Q z \<le> count B z" "count R z \<le> count P z + count Q z"
      using sub by (metis mset_subset_eq_count count_union)+
    then show "count (A + B - R) z = count ((A - P) + (B - Q) + (P + Q - R)) z" by simp
  qed
  have "size R = min n (size (A + B))" using assms by (auto simp: top_of_def min_def split: if_splits)
  moreover have "R \<subseteq># A + B" using sub by (meson subset_mset.add_mono subset_mset.order_trans)
  moreover have "ts x \<le> ts y" if "x \<in># A + B - R" "y \<in># R" for x y
  proof -
    from that(1) consider "x \<in># A - P" | "x \<in># B - Q" | "x \<in># P + Q - R" by (auto simp: split)
    then show ?thesis
    proof cases
      case 1 with top_of_outside[OF A R] that show ?thesis by blast
    next
      case 2 with top_of_outside[OF B, of P R] R that show ?thesis by (simp add: add.commute)
    next
      case 3 with R that show ?thesis by (auto simp: top_of_def)
    qed
  qed
  ultimately show ?thesis by (auto simp: top_of_def)
qed

lemma top_of_cut:
  assumes A: "top_of ts m A A'" and le: "n \<le> m" and P: "top_of ts n A' P"
  shows "top_of ts n A P"
proof -
  have sub: "A' \<subseteq># A" "P \<subseteq># A'" "size P = min n (size A)" using assms by (auto simp: top_of_def)
  have "ts x \<le> ts y" if "x \<in># A - P" "y \<in># P" for x y
  proof -
    have "count A' x \<le> count A x" "count P x \<le> count A' x" using sub by (metis mset_subset_eq_count)+
    with that(1) have "x \<in># A - A' \<or> x \<in># A' - P" by (auto simp: in_diff_count)
    with A P that(2) sub(2) show ?thesis by (auto simp: top_of_def dest: mset_subset_eqD)
  qed
  with sub show ?thesis by (auto simp: top_of_def intro: subset_mset.order_trans)
qed

end
