(* ===== verification/Usage.thy ===== *)
theory Usage
  imports WalletPages Credentials Paging
begin

text \<open>
  What a team really spent (\<open>internal/saas/billing/usage.go\<close>): windows of whole days, the sums over
  the request log with their cache, and the view both consoles render. The request log belongs to
  cc-core: \<open>usage_log\<close> holds its query (an answer for every filter, none for an error), the display
  zone as a fixed offset in seconds with its name, the values of the dimension flags, and the order
  in which the per-member queries of one fan-out complete. Counters are unbounded integers. The
  order of a Go map is not observable here: what is read out of one is sorted.
\<close>

section \<open>Days\<close>

text \<open>\<open>time.Parse("2006-01-02", s)\<close>, as days since 1970, and \<open>Format\<close> for the years 0 to 9999.\<close>

definition parse_two :: "string \<Rightarrow> int option" where
  "parse_two s = map_option int (digits_value 0 s)"

definition parse_date :: "string \<Rightarrow> int option" where
  "parse_date s = (if length s \<noteq> 10 \<or> s ! 4 \<noteq> CHR ''-'' \<or> s ! 7 \<noteq> CHR ''-'' then None
     else case (parse_two (take 4 s), parse_two (take 2 (drop 5 s)), parse_two (drop 8 s)) of
       (Some y, Some m, Some d) \<Rightarrow>
         if m < 1 \<or> 12 < m \<or> d < 1 \<or> month_lengths y ! nat (m - 1) < d then None else Some (date_days y m d)
     | _ \<Rightarrow> None)"

definition format_date :: "int \<Rightarrow> string" where
  "format_date z = (case civil z of (y, m, d) \<Rightarrow> int_pad 4 y @ ''-'' @ int_pad 2 m @ ''-'' @ int_pad 2 d)"

definition maxUsageWindowDays :: int where "maxUsageWindowDays = 92"
definition usageCacheTTL :: int where "usageCacheTTL = 30 * second_ns"
definition maxFanoutMembers :: nat where "maxFanoutMembers = 50"
definition usageCacheMaxEntries :: nat where "usageCacheMaxEntries = 2048"

datatype usage_error = Bad_day | From_after_to | Window_too_long int | Usage_store db_error

definition parse_day :: "string \<Rightarrow> usage_error + string" where
  "parse_day s = (case parse_date s of None \<Rightarrow> Inl Bad_day | Some z \<Rightarrow> Inr (format_date z))"

text \<open>The day an instant falls on in the display zone.\<close>

definition day_at :: "int \<Rightarrow> int \<Rightarrow> int" where
  "day_at offset now = (unix_seconds now + offset) div 86400"

definition default_usage_window :: "int \<Rightarrow> int \<Rightarrow> string \<times> string" where
  "default_usage_window offset now = (format_date (day_at offset now - 29), format_date (day_at offset now))"

text \<open>\<open>Sub\<close> saturates at \<open>2^63\<close> nanoseconds, a little under 106752 days.\<close>

definition days_between :: "int \<Rightarrow> int \<Rightarrow> int" where
  "days_between a b = max (-106751) (min 106751 (b - a))"

definition count_days :: "string \<Rightarrow> string \<Rightarrow> int" where
  "count_days from to' = (case (parse_date from, parse_date to') of
     (Some a, Some b) \<Rightarrow> days_between a b + 1 | _ \<Rightarrow> 0)"

definition normalize_window :: "int \<Rightarrow> int \<Rightarrow> string \<Rightarrow> string \<Rightarrow> usage_error + string \<times> string" where
  "normalize_window offset now from0 to0 =
     (let (df, dt) = default_usage_window offset now;
          from = (if from0 = [] then df else from0); to' = (if to0 = [] then dt else to0)
      in case parse_day from of Inl e \<Rightarrow> Inl e
       | Inr f \<Rightarrow> (case parse_day to' of Inl e \<Rightarrow> Inl e
         | Inr t \<Rightarrow> if text_less t f then Inl From_after_to
             else let days = count_days f t in
               if maxUsageWindowDays < days then Inl (Window_too_long days) else Inr (f, t)))"

text \<open>Unix seconds: the first instant of the first day, and the first after the last.\<close>

definition window_bounds :: "int \<Rightarrow> string \<Rightarrow> string \<Rightarrow> usage_error + int \<times> int" where
  "window_bounds offset from to' = (case (parse_date from, parse_date to') of
     (Some a, Some b) \<Rightarrow> Inr (a * 86400 - offset, (b + 1) * 86400 - offset) | _ \<Rightarrow> Inl Bad_day)"

section \<open>Sums over the log\<close>

record aggregate =
  ag_count :: int
  ag_input :: int
  ag_output :: int
  ag_cache_read :: int
  ag_cache_create :: int
  ag_cache_create_1h :: int
  ag_cost_usd :: float64
  ag_billed_usd :: float64
  ag_errors :: int
  ag_duration_ms :: int

definition zero_aggregate :: aggregate where
  "zero_aggregate = \<lparr>ag_count = 0, ag_input = 0, ag_output = 0, ag_cache_read = 0, ag_cache_create = 0,
     ag_cache_create_1h = 0, ag_cost_usd = 0, ag_billed_usd = 0, ag_errors = 0, ag_duration_ms = 0\<rparr>"

definition add_aggregate :: "aggregate \<Rightarrow> aggregate \<Rightarrow> aggregate" where
  "add_aggregate a b = \<lparr>ag_count = ag_count a + ag_count b, ag_input = ag_input a + ag_input b,
     ag_output = ag_output a + ag_output b, ag_cache_read = ag_cache_read a + ag_cache_read b,
     ag_cache_create = ag_cache_create a + ag_cache_create b,
     ag_cache_create_1h = ag_cache_create_1h a + ag_cache_create_1h b,
     ag_cost_usd = fadd (ag_cost_usd a) (ag_cost_usd b), ag_billed_usd = fadd (ag_billed_usd a) (ag_billed_usd b),
     ag_errors = ag_errors a + ag_errors b, ag_duration_ms = ag_duration_ms a + ag_duration_ms b\<rparr>"

type_synonym buckets = "(string \<times> aggregate) list"

definition bucket :: "buckets \<Rightarrow> string \<Rightarrow> aggregate" where
  "bucket bs k = (case map_of bs k of None \<Rightarrow> zero_aggregate | Some a \<Rightarrow> a)"

text \<open>\<open>m[k] = addAggregate(m[k], v)\<close>\<close>

fun add_bucket :: "string \<Rightarrow> aggregate \<Rightarrow> buckets \<Rightarrow> buckets" where
  "add_bucket k v [] = [(k, add_aggregate zero_aggregate v)]"
| "add_bucket k v ((k', a) # bs) = (if k' = k then (k', add_aggregate a v) # bs else (k', a) # add_bucket k v bs)"

definition merge_buckets :: "buckets \<Rightarrow> buckets \<Rightarrow> buckets" where
  "merge_buckets res acc = fold (\<lambda>(k, v). add_bucket k v) res acc"

text \<open>One row of the log, as far as this package reads it.\<close>

record log_row =
  lr_ts :: int
  lr_provider :: string
  lr_model :: string
  lr_input :: int
  lr_output :: int
  lr_cache_read :: int
  lr_cost_usd :: float64
  lr_billed_or_cost :: float64
  lr_status :: int

record log_filter =
  f_dir :: string
  f_from_day :: string
  f_to_day :: string
  f_client :: string
  f_dims :: int
  f_limit :: int
  f_page_only :: bool

record log_result =
  res_by_client :: buckets
  res_by_model :: buckets
  res_by_day :: buckets
  res_entries :: "log_row list"

record usage_log =
  ul_query :: "log_filter \<Rightarrow> log_result option"
  ul_offset :: int
  ul_zone :: string
  ul_by_client :: int
  ul_by_model_and_day :: int
  ul_completion :: "string list \<Rightarrow> string list"

definition usage_filter :: "string \<Rightarrow> string \<Rightarrow> string \<Rightarrow> string \<Rightarrow> int \<Rightarrow> log_filter" where
  "usage_filter dir from to' client dims = \<lparr>f_dir = dir, f_from_day = from, f_to_day = to', f_client = client,
     f_dims = dims, f_limit = 1, f_page_only = False\<rparr>"

section \<open>The query cache\<close>

record usage_result =
  ur_by_client :: buckets
  ur_by_model :: buckets
  ur_by_day :: buckets

type_synonym usage_cache = "(string \<times> usage_result \<times> int) list"

definition NUL :: string where "NUL = [CHR 0x00]"

definition usage_key :: "string \<Rightarrow> string \<Rightarrow> string \<Rightarrow> string \<Rightarrow> int \<Rightarrow> string" where
  "usage_key dir from to' client dims = dir @ NUL @ from @ NUL @ to' @ NUL @ client @ NUL @ itoa dims"

definition evict_expired :: "int \<Rightarrow> usage_cache \<Rightarrow> usage_cache" where
  "evict_expired now c = (if length c \<le> usageCacheMaxEntries then c else filter (\<lambda>(_, _, t). now - t < usageCacheTTL) c)"

text \<open>Concurrent callers of one key share one query, which a sequence of calls shows as one answer.\<close>

definition cached_dims_query :: "usage_log \<Rightarrow> int \<Rightarrow> string \<Rightarrow> string \<Rightarrow> string \<Rightarrow> string \<Rightarrow> int \<Rightarrow> usage_cache \<Rightarrow>
    usage_result option \<times> usage_cache" where
  "cached_dims_query ul now dir from to' client dims c = (let key = usage_key dir from to' client dims;
       fetch = (case ul_query ul (usage_filter dir from to' client dims) of None \<Rightarrow> (None, c)
         | Some r \<Rightarrow> let out = \<lparr>ur_by_client = res_by_client r, ur_by_model = res_by_model r, ur_by_day = res_by_day r\<rparr> in
             (Some out, evict_expired now ((key, out, now) # filter (\<lambda>e. fst e \<noteq> key) c)))
     in case map_of c key of None \<Rightarrow> fetch
        | Some (r, t) \<Rightarrow> if now - t < usageCacheTTL then (Some r, c) else fetch)"

definition cached_usage_query :: "usage_log \<Rightarrow> int \<Rightarrow> string \<Rightarrow> string \<Rightarrow> string \<Rightarrow> string \<Rightarrow> usage_cache \<Rightarrow>
    usage_result option \<times> usage_cache" where
  "cached_usage_query ul now dir from to' client = cached_dims_query ul now dir from to' client (ul_by_client ul)"

definition cached_member_breakdown :: "usage_log \<Rightarrow> int \<Rightarrow> string \<Rightarrow> string \<Rightarrow> string \<Rightarrow> string \<Rightarrow> usage_cache \<Rightarrow>
    usage_result option \<times> usage_cache" where
  "cached_member_breakdown ul now dir from to' msk = cached_dims_query ul now dir from to' msk (ul_by_model_and_day ul)"

section \<open>A team's usage\<close>

record group_member =
  gm_token :: string
  gm_label :: string
  gm_role :: string

record member_usage =
  mu_masked :: string
  mu_label :: string
  mu_role :: string
  mu_agg :: aggregate
  mu_pool_usd :: float64
  mu_personal_usd :: float64
  mu_unmeasurable :: bool

datatype usage_note = No_log | Log_unreadable | Unmeasurable_members nat | Pool_above_total | No_index
  | Breakdown_failed | Fanout_capped nat | Ledger_unreadable | Detail_unreadable

record group_usage =
  gu_from :: string
  gu_to :: string
  gu_timezone :: string
  gu_total :: aggregate
  gu_pool_usd :: float64
  gu_personal_usd :: float64
  gu_by_member :: "member_usage list"
  gu_by_model :: buckets
  gu_by_day :: buckets
  gu_partial :: bool
  gu_notes :: "usage_note list"

record group_usage_input =
  in_log_dir :: string
  in_log_indexed :: bool
  in_from :: string
  in_to :: string
  in_members :: "group_member list"
  in_pool :: "string \<rightharpoonup> float64"
  in_personal :: "string \<rightharpoonup> float64"
  in_breakdown :: bool

definition usd_of :: "(string \<rightharpoonup> float64) \<Rightarrow> string \<Rightarrow> float64" where
  "usd_of m k = (case m k of None \<Rightarrow> 0 | Some x \<Rightarrow> x)"

definition ledgerVsLogEpsilonUSD :: float64 where "ledgerVsLogEpsilonUSD = rnd (1 / 10000)"

definition degrade :: "usage_note \<Rightarrow> group_usage \<Rightarrow> group_usage" where
  "degrade n g = g\<lparr>gu_partial := True, gu_notes := gu_notes g @ [n]\<rparr>"

text \<open>One round of the loop over the members.\<close>

definition usage_member :: "group_usage_input \<Rightarrow> buckets \<Rightarrow> group_member \<Rightarrow> member_usage" where
  "usage_member inp by_client m = (let msk = token_mask (gm_token m) in
     \<lparr>mu_masked = msk, mu_label = gm_label m, mu_role = gm_role m,
      mu_agg = (if msk = Opaque then zero_aggregate else bucket by_client msk),
      mu_pool_usd = usd_of (in_pool inp) (gm_token m), mu_personal_usd = usd_of (in_personal inp) (gm_token m),
      mu_unmeasurable = (msk = Opaque)\<rparr>)"

definition count_member :: "member_usage \<Rightarrow> group_usage \<Rightarrow> group_usage" where
  "count_member mu g = (let g' = (if mu_unmeasurable mu then g else
       g\<lparr>gu_total := add_aggregate (gu_total g) (mu_agg mu), gu_pool_usd := fadd (gu_pool_usd g) (mu_pool_usd mu),
         gu_personal_usd := fadd (gu_personal_usd g) (mu_personal_usd mu)\<rparr>)
     in g'\<lparr>gu_by_member := gu_by_member g' @ [mu]\<rparr>)"

definition spends_more :: "('a \<Rightarrow> float64) \<Rightarrow> ('a \<Rightarrow> string) \<Rightarrow> 'a \<Rightarrow> 'a \<Rightarrow> bool" where
  "spends_more usd name a b = (usd b < usd a \<or> (usd a = usd b \<and> text_less (name a) (name b)))"

text \<open>Members that share the opaque mask and the zero tie; they keep their order.\<close>

definition sort_member_usage :: "member_usage list \<Rightarrow> member_usage list" where
  "sort_member_usage = order_by (spends_more (\<lambda>m. ag_billed_usd (mu_agg m)) mu_masked)"

definition sorted_models :: "buckets \<Rightarrow> buckets" where
  "sorted_models = order_by (spends_more (\<lambda>b. ag_billed_usd (snd b)) fst)"

definition zero_fill_days :: "string \<Rightarrow> string \<Rightarrow> buckets \<Rightarrow> buckets" where
  "zero_fill_days from to' have = (case (parse_date from, parse_date to') of
     (Some a, Some b) \<Rightarrow> map (\<lambda>z. (format_date z, bucket have (format_date z))) [a..b] | _ \<Rightarrow> [])"

fun active_masks :: "member_usage list \<Rightarrow> string list \<Rightarrow> nat \<Rightarrow> string list \<times> nat" where
  "active_masks [] active capped = (active, capped)"
| "active_masks (m # ms) active capped = (if mu_unmeasurable m \<or> ag_count (mu_agg m) = 0 then active_masks ms active capped
     else if maxFanoutMembers \<le> length active then active_masks ms active (capped + 1)
     else active_masks ms (active @ [mu_masked m]) capped)"

text \<open>The answers of the members in the order they arrive, each merged under the lock.\<close>

fun merge_members :: "usage_log \<Rightarrow> int \<Rightarrow> string \<Rightarrow> string \<Rightarrow> string \<Rightarrow> string list \<Rightarrow> buckets \<times> buckets \<times> bool \<Rightarrow> usage_cache \<Rightarrow>
    (buckets \<times> buckets \<times> bool) \<times> usage_cache" where
  "merge_members ul now dir from to' [] b c = (b, c)"
| "merge_members ul now dir from to' (msk # ms) (model, day, failed) c =
     (case cached_member_breakdown ul now dir from to' msk c of
        (None, c') \<Rightarrow> merge_members ul now dir from to' ms (model, day, True) c'
      | (Some r, c') \<Rightarrow> merge_members ul now dir from to' ms
          (merge_buckets (ur_by_model r) model, merge_buckets (ur_by_day r) day, failed) c')"

definition group_breakdown :: "usage_log \<Rightarrow> int \<Rightarrow> string \<Rightarrow> string \<Rightarrow> string \<Rightarrow> member_usage list \<Rightarrow> usage_cache \<Rightarrow>
    ((buckets \<times> buckets \<times> bool) \<times> nat) \<times> usage_cache" where
  "group_breakdown ul now dir from to' members c = (case active_masks members [] 0 of (active, capped) \<Rightarrow>
     (case merge_members ul now dir from to' (ul_completion ul active) ([], [], False) c of (b, c') \<Rightarrow> ((b, capped), c')))"

text \<open>The clients' buckets, read or found unreadable.\<close>

definition fleet_pass :: "usage_log \<Rightarrow> int \<Rightarrow> group_usage_input \<Rightarrow> string \<Rightarrow> string \<Rightarrow> usage_cache \<Rightarrow> (buckets \<times> usage_note list) \<times> usage_cache" where
  "fleet_pass ul now inp from to' c = (if in_log_dir inp = [] then (([], [No_log]), c)
     else case cached_usage_query ul now (in_log_dir inp) from to' [] c of
       (None, c') \<Rightarrow> (([], [Log_unreadable]), c') | (Some r, c') \<Rightarrow> ((ur_by_client r, []), c'))"

definition usage_totals :: "usage_log \<Rightarrow> group_usage_input \<Rightarrow> string \<Rightarrow> string \<Rightarrow> buckets \<times> usage_note list \<Rightarrow> group_usage" where
  "usage_totals ul inp from to' fleet = (case fleet of (by_client, notes) \<Rightarrow>
     let g = \<lparr>gu_from = from, gu_to = to', gu_timezone = ul_zone ul, gu_total = zero_aggregate, gu_pool_usd = 0,
              gu_personal_usd = 0, gu_by_member = [], gu_by_model = [], gu_by_day = [], gu_partial = notes \<noteq> [], gu_notes = notes\<rparr>;
         mus = map (usage_member inp by_client) (in_members inp);
         g = fold count_member mus g;
         n = length (filter mu_unmeasurable mus);
         g = (if 0 < n then degrade (Unmeasurable_members n) g else g);
         g = (if fadd (ag_billed_usd (gu_total g)) ledgerVsLogEpsilonUSD < gu_pool_usd g then degrade Pool_above_total g else g)
     in g\<lparr>gu_by_member := sort_member_usage (gu_by_member g)\<rparr>)"

definition usage_breakdown :: "usage_log \<Rightarrow> int \<Rightarrow> group_usage_input \<Rightarrow> group_usage \<Rightarrow> usage_cache \<Rightarrow> group_usage \<times> usage_cache" where
  "usage_breakdown ul now inp g c = (let from = gu_from g; to' = gu_to g in
     if \<not> in_breakdown inp then (g, c)
     else if in_log_dir inp = [] then (g\<lparr>gu_by_day := zero_fill_days from to' []\<rparr>, c)
     else if \<not> in_log_indexed inp then (degrade No_index (g\<lparr>gu_by_day := zero_fill_days from to' []\<rparr>), c)
     else case group_breakdown ul now (in_log_dir inp) from to' (gu_by_member g) c of (((model, day, failed), capped), c') \<Rightarrow>
       let g = g\<lparr>gu_by_model := sorted_models model, gu_by_day := zero_fill_days from to' day\<rparr>;
           g = (if failed then degrade Breakdown_failed g else g);
           g = (if 0 < capped then degrade (Fanout_capped capped) g else g)
       in (g, c'))"

definition compute_group_usage :: "usage_log \<Rightarrow> int \<Rightarrow> group_usage_input \<Rightarrow> usage_cache \<Rightarrow> (usage_error + group_usage) \<times> usage_cache" where
  "compute_group_usage ul now inp c = (case normalize_window (ul_offset ul) now (in_from inp) (in_to inp) of
     Inl e \<Rightarrow> (Inl e, c)
   | Inr (from, to') \<Rightarrow> (case fleet_pass ul now inp from to' c of (fleet, c1) \<Rightarrow>
       (case usage_breakdown ul now inp (usage_totals ul inp from to' fleet) c1 of (g, c2) \<Rightarrow> (Inr g, c2))))"

text \<open>The sentences of the notes, in UTF-8.\<close>

fun note_text :: "usage_note \<Rightarrow> string" where
  "note_text No_log = [CHR 0xE8, CHR 0xAF, CHR 0xB7, CHR 0xE6, CHR 0xB1, CHR 0x82, CHR 0xE6, CHR 0x97, CHR 0xA5, CHR 0xE5, CHR 0xBF, CHR
     0x97, CHR 0xE6, CHR 0x9C, CHR 0xAA, CHR 0xE5, CHR 0x90, CHR 0xAF, CHR 0xE7, CHR 0x94, CHR 0xA8, CHR 0xEF, CHR 0xBC,
     CHR 0x8C, CHR 0xE6, CHR 0x97, CHR 0xA0, CHR 0xE6, CHR 0xB3, CHR 0x95, CHR 0xE7, CHR 0xBB, CHR 0x9F, CHR 0xE8, CHR
     0xAE, CHR 0xA1, CHR 0xE5, CHR 0xAE, CHR 0x9E, CHR 0xE9, CHR 0x99, CHR 0x85, CHR 0xE6, CHR 0xB6, CHR 0x88, CHR 0xE8,
     CHR 0xB4, CHR 0xB9]"
| "note_text Log_unreadable = [CHR 0xE8, CHR 0xAF, CHR 0xBB, CHR 0xE5, CHR 0x8F, CHR 0x96, CHR 0xE8, CHR 0xAF, CHR 0xB7, CHR 0xE6, CHR 0xB1, CHR
     0x82, CHR 0xE6, CHR 0x97, CHR 0xA5, CHR 0xE5, CHR 0xBF, CHR 0x97, CHR 0xE5, CHR 0xA4, CHR 0xB1, CHR 0xE8, CHR 0xB4,
     CHR 0xA5, CHR 0xEF, CHR 0xBC, CHR 0x8C, CHR 0xE7, CHR 0x94, CHR 0xA8, CHR 0xE9, CHR 0x87, CHR 0x8F, CHR 0xE5, CHR
     0x8F, CHR 0xAF, CHR 0xE8, CHR 0x83, CHR 0xBD, CHR 0xE4, CHR 0xB8, CHR 0x8D, CHR 0xE5, CHR 0xAE, CHR 0x8C, CHR 0xE6,
     CHR 0x95, CHR 0xB4]"
| "note_text Pool_above_total = [CHR 0xE7, CHR 0xBB, CHR 0x84, CHR 0xE6, CHR 0xB1, CHR 0xA0, CHR 0xE6, CHR 0xB5, CHR 0x81, CHR 0xE6, CHR 0xB0, CHR
     0xB4, CHR 0xE5, CHR 0xA4, CHR 0xA7, CHR 0xE4, CHR 0xBA, CHR 0x8E, CHR 0xE8, CHR 0xAF, CHR 0xB7, CHR 0xE6, CHR 0xB1,
     CHR 0x82, CHR 0xE6, CHR 0x97, CHR 0xA5, CHR 0xE5, CHR 0xBF, CHR 0x97, CHR 0xE7, CHR 0xBB, CHR 0x9F, CHR 0xE8, CHR
     0xAE, CHR 0xA1, CHR 0xE5, CHR 0x88, CHR 0xB0, CHR 0xE7, CHR 0x9A, CHR 0x84, CHR 0xE6, CHR 0x80, CHR 0xBB, CHR 0xE6,
     CHR 0xB6, CHR 0x88, CHR 0xE8, CHR 0xB4, CHR 0xB9, CHR 0xEF, CHR 0xBC, CHR 0x8C, CHR 0xE4, CHR 0xB8, CHR 0xAA, CHR
     0xE4, CHR 0xBA, CHR 0xBA, CHR 0xE9, CHR 0x92, CHR 0xB1, CHR 0xE5, CHR 0x8C, CHR 0x85, CHR 0xE9, CHR 0x83, CHR 0xA8,
     CHR 0xE5, CHR 0x88, CHR 0x86, CHR 0xE6, CHR 0x97, CHR 0xA0, CHR 0xE6, CHR 0xB3, CHR 0x95, CHR 0xE6, CHR 0x8E, CHR
     0xA8, CHR 0xE7, CHR 0xAE, CHR 0x97, CHR 0xEF, CHR 0xBC, CHR 0x88, CHR 0xE8, CHR 0xB4, CHR 0xA6, CHR 0xE6, CHR 0x9C,
     CHR 0xAC, CHR 0xE4, CHR 0xB8, CHR 0x8E, CHR 0xE6, CHR 0x97, CHR 0xA5, CHR 0xE5, CHR 0xBF, CHR 0x97, CHR 0xE4, CHR
     0xB8, CHR 0x8D, CHR 0xE4, CHR 0xB8, CHR 0x80, CHR 0xE8, CHR 0x87, CHR 0xB4, CHR 0xEF, CHR 0xBC, CHR 0x89]"
| "note_text No_index = [CHR 0xE8, CHR 0xAF, CHR 0xB7, CHR 0xE6, CHR 0xB1, CHR 0x82, CHR 0xE6, CHR 0x97, CHR 0xA5, CHR 0xE5, CHR 0xBF, CHR
     0x97, CHR 0xE7, CHR 0xB4, CHR 0xA2, CHR 0xE5, CHR 0xBC, CHR 0x95, CHR 0xE4, CHR 0xB8, CHR 0x8D, CHR 0xE5, CHR 0x8F,
     CHR 0xAF, CHR 0xE7, CHR 0x94, CHR 0xA8, CHR 0xEF, CHR 0xBC, CHR 0x8C, CHR 0xE6, CHR 0xA8, CHR 0xA1, CHR 0xE5, CHR
     0x9E, CHR 0x8B] @ ''/'' @ [CHR 0xE6, CHR 0x97, CHR 0xA5, CHR 0xE6, CHR 0x9C, CHR 0x9F, CHR 0xE5, CHR 0x88, CHR 0x86,
     CHR 0xE5, CHR 0xB8, CHR 0x83, CHR 0xE6, CHR 0x9A, CHR 0x82, CHR 0xE6, CHR 0x97, CHR 0xA0, CHR 0xE6, CHR 0xB3, CHR
     0x95, CHR 0xE7, CHR 0xBB, CHR 0x9F, CHR 0xE8, CHR 0xAE, CHR 0xA1, CHR 0xEF, CHR 0xBC, CHR 0x88, CHR 0xE5, CHR 0x90,
     CHR 0x88, CHR 0xE8, CHR 0xAE, CHR 0xA1, CHR 0xE4, CHR 0xB8, CHR 0x8E, CHR 0xE6, CHR 0x88, CHR 0x90, CHR 0xE5, CHR
     0x91, CHR 0x98, CHR 0xE7, CHR 0x94, CHR 0xA8, CHR 0xE9, CHR 0x87, CHR 0x8F, CHR 0xE4, CHR 0xB8, CHR 0x8D, CHR 0xE5,
     CHR 0x8F, CHR 0x97, CHR 0xE5, CHR 0xBD, CHR 0xB1, CHR 0xE5, CHR 0x93, CHR 0x8D, CHR 0xEF, CHR 0xBC, CHR 0x89]"
| "note_text Breakdown_failed = [CHR 0xE9, CHR 0x83, CHR 0xA8, CHR 0xE5, CHR 0x88, CHR 0x86, CHR 0xE6, CHR 0x88, CHR 0x90, CHR 0xE5, CHR 0x91, CHR
     0x98, CHR 0xE7, CHR 0x9A, CHR 0x84, CHR 0xE6, CHR 0x98, CHR 0x8E, CHR 0xE7, CHR 0xBB, CHR 0x86, CHR 0xE7, CHR 0xBB,
     CHR 0x9F, CHR 0xE8, CHR 0xAE, CHR 0xA1, CHR 0xE5, CHR 0xA4, CHR 0xB1, CHR 0xE8, CHR 0xB4, CHR 0xA5, CHR 0xEF, CHR
     0xBC, CHR 0x8C, CHR 0xE6, CHR 0xA8, CHR 0xA1, CHR 0xE5, CHR 0x9E, CHR 0x8B] @ ''/'' @ [CHR 0xE6, CHR 0x97, CHR 0xA5,
     CHR 0xE6, CHR 0x9C, CHR 0x9F, CHR 0xE5, CHR 0x88, CHR 0x86, CHR 0xE5, CHR 0xB8, CHR 0x83, CHR 0xE5, CHR 0x8F, CHR
     0xAF, CHR 0xE8, CHR 0x83, CHR 0xBD, CHR 0xE4, CHR 0xB8, CHR 0x8D, CHR 0xE5, CHR 0xAE, CHR 0x8C, CHR 0xE6, CHR 0x95,
     CHR 0xB4]"
| "note_text Ledger_unreadable = [CHR 0xE8, CHR 0xAF, CHR 0xBB, CHR 0xE5, CHR 0x8F, CHR 0x96, CHR 0xE8, CHR 0xB4, CHR 0xA6, CHR 0xE5, CHR 0x8D, CHR
     0x95, CHR 0xE6, CHR 0xB5, CHR 0x81, CHR 0xE6, CHR 0xB0, CHR 0xB4, CHR 0xE5, CHR 0xA4, CHR 0xB1, CHR 0xE8, CHR 0xB4,
     CHR 0xA5, CHR 0xEF, CHR 0xBC, CHR 0x8C, CHR 0xE6, CHR 0xB1, CHR 0xA0, CHR 0xE6, CHR 0xB6, CHR 0x88, CHR 0xE8, CHR
     0xB4, CHR 0xB9] @ ''/'' @ [CHR 0xE4, CHR 0xB8, CHR 0xAA, CHR 0xE4, CHR 0xBA, CHR 0xBA, CHR 0xE6, CHR 0xB6, CHR 0x88,
     CHR 0xE8, CHR 0xB4, CHR 0xB9, CHR 0xE6, CHR 0x8B, CHR 0x86, CHR 0xE5, CHR 0x88, CHR 0x86, CHR 0xE4, CHR 0xB8, CHR
     0x8D, CHR 0xE5, CHR 0x8F, CHR 0xAF, CHR 0xE7, CHR 0x94, CHR 0xA8]"
| "note_text Detail_unreadable = [CHR 0xE8, CHR 0xAF, CHR 0xB7, CHR 0xE6, CHR 0xB1, CHR 0x82, CHR 0xE6, CHR 0x98, CHR 0x8E, CHR 0xE7, CHR 0xBB, CHR
     0x86, CHR 0xE8, CHR 0xAF, CHR 0xBB, CHR 0xE5, CHR 0x8F, CHR 0x96, CHR 0xE5, CHR 0xA4, CHR 0xB1, CHR 0xE8, CHR 0xB4,
     CHR 0xA5, CHR 0xEF, CHR 0xBC, CHR 0x8C, CHR 0xE6, CHR 0x9C, CHR 0xAC, CHR 0xE5, CHR 0xAF, CHR 0xB9, CHR 0xE8, CHR
     0xB4, CHR 0xA6, CHR 0xE5, CHR 0x8D, CHR 0x95, CHR 0xE4, CHR 0xBB, CHR 0x85, CHR 0xE5, CHR 0x90, CHR 0xAB, CHR 0xE6,
     CHR 0xB1, CHR 0x87, CHR 0xE6, CHR 0x80, CHR 0xBB]"
| "note_text (Unmeasurable_members n) = itoa (int n) @ '' '' @ [CHR 0xE4, CHR 0xB8, CHR 0xAA, CHR 0xE6, CHR 0x88, CHR 0x90, CHR 0xE5, CHR 0x91, CHR 0x98, CHR 0xE7, CHR 0x9A,
     CHR 0x84, CHR 0xE4, CHR 0xBB, CHR 0xA4, CHR 0xE7, CHR 0x89, CHR 0x8C, CHR 0xE8, CHR 0xBF, CHR 0x87, CHR 0xE7, CHR
     0x9F, CHR 0xAD, CHR 0xEF, CHR 0xBC, CHR 0x8C, CHR 0xE8, CHR 0x84, CHR 0xB1, CHR 0xE6, CHR 0x95, CHR 0x8F, CHR 0xE5,
     CHR 0x90, CHR 0x8E, CHR 0xE6, CHR 0x97, CHR 0xA0, CHR 0xE6, CHR 0xB3, CHR 0x95, CHR 0xE5, CHR 0x9C, CHR 0xA8, CHR
     0xE8, CHR 0xAF, CHR 0xB7, CHR 0xE6, CHR 0xB1, CHR 0x82, CHR 0xE6, CHR 0x97, CHR 0xA5, CHR 0xE5, CHR 0xBF, CHR 0x97,
     CHR 0xE4, CHR 0xB8, CHR 0xAD, CHR 0xE5, CHR 0x8C, CHR 0xBA, CHR 0xE5, CHR 0x88, CHR 0x86, CHR 0xEF, CHR 0xBC, CHR
     0x8C, CHR 0xE5, CHR 0x85, CHR 0xB6, CHR 0xE7, CHR 0x94, CHR 0xA8, CHR 0xE9, CHR 0x87, CHR 0x8F, CHR 0xE4, CHR 0xB8,
     CHR 0x8E, CHR 0xE8, CHR 0xB4, CHR 0xA6, CHR 0xE5, CHR 0x8D, CHR 0x95, CHR 0xE6, CHR 0xB5, CHR 0x81, CHR 0xE6, CHR
     0xB0, CHR 0xB4, CHR 0xE5, CHR 0x9D, CHR 0x87, CHR 0xE6, CHR 0x9C, CHR 0xAA, CHR 0xE8, CHR 0xAE, CHR 0xA1, CHR 0xE5,
     CHR 0x85, CHR 0xA5, CHR 0xE5, CHR 0x90, CHR 0x88, CHR 0xE8, CHR 0xAE, CHR 0xA1, CHR 0xEF, CHR 0xBC, CHR 0x88, CHR
     0xE6, CHR 0x98, CHR 0x8E, CHR 0xE7, CHR 0xBB, CHR 0x86, CHR 0xE8, CHR 0xA1, CHR 0x8C, CHR 0xE4, CHR 0xBB, CHR 0x8D,
     CHR 0xE4, CHR 0xBF, CHR 0x9D, CHR 0xE7, CHR 0x95, CHR 0x99, CHR 0xEF, CHR 0xBC, CHR 0x89]"
| "note_text (Fanout_capped n) = [CHR 0xE6, CHR 0x88, CHR 0x90, CHR 0xE5, CHR 0x91, CHR 0x98, CHR 0xE8, CHR 0xBF, CHR 0x87, CHR 0xE5, CHR 0xA4, CHR
     0x9A, CHR 0xEF, CHR 0xBC, CHR 0x8C, CHR 0xE6, CHR 0xA8, CHR 0xA1, CHR 0xE5, CHR 0x9E, CHR 0x8B] @ ''/'' @ [CHR 0xE6,
     CHR 0x97, CHR 0xA5, CHR 0xE6, CHR 0x9C, CHR 0x9F, CHR 0xE5, CHR 0x88, CHR 0x86, CHR 0xE5, CHR 0xB8, CHR 0x83, CHR
     0xE4, CHR 0xBB, CHR 0x85, CHR 0xE7, CHR 0xBB, CHR 0x9F, CHR 0xE8, CHR 0xAE, CHR 0xA1, CHR 0xE6, CHR 0xB6, CHR 0x88,
     CHR 0xE8, CHR 0xB4, CHR 0xB9, CHR 0xE6, CHR 0x9C, CHR 0x80, CHR 0xE9, CHR 0xAB, CHR 0x98, CHR 0xE7, CHR 0x9A, CHR
     0x84] @ '' '' @ itoa (int maxFanoutMembers) @ '' '' @ [CHR 0xE4, CHR 0xBA, CHR 0xBA, CHR 0xEF, CHR 0xBC, CHR 0x8C, CHR 0xE5, CHR 0x8F, CHR 0xA6, CHR 0xE6, CHR 0x9C,
     CHR 0x89] @ '' '' @ itoa (int n) @ '' '' @ [CHR 0xE4, CHR 0xBA, CHR 0xBA, CHR 0xE6, CHR 0x9C, CHR 0xAA, CHR 0xE8, CHR 0xAE, CHR 0xA1, CHR 0xE5, CHR 0x85,
     CHR 0xA5, CHR 0xEF, CHR 0xBC, CHR 0x88, CHR 0xE5, CHR 0x90, CHR 0x88, CHR 0xE8, CHR 0xAE, CHR 0xA1, CHR 0xE4, CHR
     0xB8, CHR 0x8E, CHR 0xE6, CHR 0x88, CHR 0x90, CHR 0xE5, CHR 0x91, CHR 0x98, CHR 0xE7, CHR 0x94, CHR 0xA8, CHR 0xE9,
     CHR 0x87, CHR 0x8F, CHR 0xE4, CHR 0xB8, CHR 0x8D, CHR 0xE5, CHR 0x8F, CHR 0x97, CHR 0xE5, CHR 0xBD, CHR 0xB1, CHR
     0xE5, CHR 0x93, CHR 0x8D, CHR 0xEF, CHR 0xBC, CHR 0x89]"

record group_usage_query =
  gq_log_dir :: string
  gq_log_indexed :: bool
  gq_workspace :: int
  gq_from :: string
  gq_to :: string
  gq_label :: "string \<Rightarrow> string"

text \<open>\<open>ledger\<close> reads the two ledgers; the error of the one that failed stops the other.\<close>

definition ledger_halves :: "sqlite \<Rightarrow> int \<Rightarrow> int \<Rightarrow> string \<Rightarrow> string \<Rightarrow>
    ((string \<rightharpoonup> float64) \<times> (string \<rightharpoonup> float64) \<times> bool) dbm" where
  "ledger_halves q wsid offset from to' = (case window_bounds offset from to' of
     Inl _ \<Rightarrow> ret (Map.empty, Map.empty, False)
   | Inr (start, stop) \<Rightarrow> bnd (attempt (member_pool_spend_between q wsid start stop)) (\<lambda>r. case r of
         Inl _ \<Rightarrow> ret (Map.empty, Map.empty, True)
       | Inr pool \<Rightarrow> bnd (attempt (member_personal_spend_between q wsid start stop)) (\<lambda>r. ret (case r of
             Inl _ \<Rightarrow> (pool, Map.empty, True) | Inr personal \<Rightarrow> (pool, personal, False)))))"

definition build_group_usage :: "sqlite \<Rightarrow> usage_log \<Rightarrow> int \<Rightarrow> group_usage_query \<Rightarrow> usage_cache \<Rightarrow>
    ((usage_error + group_usage) \<times> usage_cache) dbm" where
  "build_group_usage q ul now gq c = (case normalize_window (ul_offset ul) now (gq_from gq) (gq_to gq) of
     Inl e \<Rightarrow> ret (Inl e, c)
   | Inr (from, to') \<Rightarrow> bnd (attempt (list_members (gq_workspace gq))) (\<lambda>r. case r of Inl e \<Rightarrow> ret (Inl (Usage_store e), c)
     | Inr ms \<Rightarrow> bnd (ledger_halves q (gq_workspace gq) (ul_offset ul) from to') (\<lambda>(pool, personal, lost).
         let members = map (\<lambda>m. \<lparr>gm_token = m_token m, gm_label = gq_label gq (m_token m), gm_role = m_role m\<rparr>) ms;
             inp = \<lparr>in_log_dir = gq_log_dir gq, in_log_indexed = gq_log_indexed gq, in_from = from, in_to = to',
                    in_members = members, in_pool = pool, in_personal = personal, in_breakdown = True\<rparr>
         in case compute_group_usage ul now inp c of
              (Inl e, c') \<Rightarrow> ret (Inl e, c')
            | (Inr g, c') \<Rightarrow> ret (Inr (if lost then degrade Ledger_unreadable g else g), c'))))"

section \<open>Spend to date, and the wire\<close>

record member_spend =
  ms_day :: aggregate
  ms_month :: aggregate
  ms_measurable :: bool

definition month_first :: "int \<Rightarrow> string" where
  "month_first z = (case civil z of (y, m, _) \<Rightarrow> int_pad 4 y @ ''-'' @ int_pad 2 m @ ''-01'')"

text \<open>The result maps a mask to its spend; \<open>False\<close> says the log could not be read.\<close>

definition member_spend_to_date :: "usage_log \<Rightarrow> int \<Rightarrow> string \<Rightarrow> group_member list \<Rightarrow> usage_cache \<Rightarrow>
    ((string \<rightharpoonup> member_spend) \<times> bool) \<times> usage_cache" where
  "member_spend_to_date ul now dir members c =
     (let masks = map (token_mask \<circ> gm_token) members;
          blank = (\<lambda>msk. if msk \<in> set masks
            then Some \<lparr>ms_day = zero_aggregate, ms_month = zero_aggregate, ms_measurable = (msk \<noteq> Opaque)\<rparr> else None);
          z = day_at (ul_offset ul) now; today = format_date z;
          only = (case remdups masks of [msk] \<Rightarrow> if msk = Opaque then [] else msk | _ \<Rightarrow> [])
      in if dir = [] then ((blank, False), c)
         else case cached_usage_query ul now dir today today only c of
           (None, c1) \<Rightarrow> ((blank, False), c1)
         | (Some day, c1) \<Rightarrow> (case cached_usage_query ul now dir (month_first z) today only c1 of
             (None, c2) \<Rightarrow> ((blank, False), c2)
           | (Some month, c2) \<Rightarrow> ((\<lambda>msk. map_option (\<lambda>s. if ms_measurable s
                 then s\<lparr>ms_day := bucket (ur_by_client day) msk, ms_month := bucket (ur_by_client month) msk\<rparr> else s)
               (blank msk), True), c2)))"

definition non_negative :: "float64 \<Rightarrow> float64" where
  "non_negative v = (if v < 0 then 0 else v)"

definition aggregate_view :: "aggregate \<Rightarrow> (string \<times> json) list" where
  "aggregate_view a = [(''requests'', JInt (ag_count a)), (''billed_usd'', JNum (ag_billed_usd a)), (''cost_usd'', JNum (ag_cost_usd a)),
     (''input_tokens'', JInt (ag_input a)), (''output_tokens'', JInt (ag_output a)), (''cache_read_tokens'', JInt (ag_cache_read a)),
     (''cache_create_tokens'', JInt (ag_cache_create a)), (''errors'', JInt (ag_errors a))]"

definition member_usage_view :: "member_usage \<Rightarrow> json" where
  "member_usage_view m = JObj ([(''masked'', JStr (mu_masked m)), (''label'', JStr (mu_label m)), (''role'', JStr (mu_role m)),
     (''unmeasurable'', JBool (mu_unmeasurable m)), (''pool_billed_usd'', JNum (mu_pool_usd m)),
     (''personal_billed_usd'', JNum (non_negative (fsub (ag_billed_usd (mu_agg m)) (mu_pool_usd m)))),
     (''personal_ledger_usd'', JNum (mu_personal_usd m))] @ aggregate_view (mu_agg m))"

definition group_usage_json :: "group_usage \<Rightarrow> (string \<times> json) list" where
  "group_usage_json g = [(''from'', JStr (gu_from g)), (''to'', JStr (gu_to g)), (''timezone'', JStr (gu_timezone g)),
     (''currency'', JStr ''USD''), (''partial'', JBool (gu_partial g)), (''notes'', JArr (map (\<lambda>n. JStr (note_text n)) (gu_notes g))),
     (''total'', JObj (aggregate_view (gu_total g))), (''pool_billed_usd'', JNum (gu_pool_usd g)),
     (''personal_billed_usd'', JNum (non_negative (fsub (ag_billed_usd (gu_total g)) (gu_pool_usd g)))),
     (''personal_ledger_usd'', JNum (gu_personal_usd g)),
     (''by_member'', JArr (map member_usage_view (gu_by_member g))),
     (''by_model'', JArr (map (\<lambda>(k, a). JObj ((''model'', JStr k) # aggregate_view a)) (gu_by_model g))),
     (''by_day'', JArr (map (\<lambda>(k, a). JObj ((''day'', JStr k) # aggregate_view a)) (gu_by_day g)))]"

definition usage_error_text :: "usage_error \<Rightarrow> string" where
  "usage_error_text e = (case e of Bad_day \<Rightarrow> ''bad usage window: date must be YYYY-MM-DD in the display timezone''
     | From_after_to \<Rightarrow> ''bad usage window: from must not be after to''
     | Window_too_long n \<Rightarrow> ''bad usage window: '' @ itoa n @ '' days requested, max '' @ itoa maxUsageWindowDays
     | Usage_store x \<Rightarrow> db_error_text x)"

text \<open>How a handler answers an error of the usage layer.\<close>

definition usage_failure :: "usage_error \<Rightarrow> response" where
  "usage_failure e = error_body (case e of Usage_store _ \<Rightarrow> 500 | _ \<Rightarrow> 400) (usage_error_text e)"

end
