(* ===== verification/UsageFacts.thy ===== *)
theory UsageFacts
  imports Usage
begin

text \<open>
  What \<open>Usage\<close> guarantees: labels of days read back as written and compare as the days do, a window
  that passes the checks names whole days, the totals of a team are those of its own measurable
  members whatever else is in the log, and a cached answer is one the log gave to the same question
  less than half a minute ago.
\<close>

section \<open>Labels of days\<close>

lemma digits_value_snoc:
  "digits_value a (s @ [c]) = Some n \<longleftrightarrow>
     (\<exists>m. digits_value a s = Some m \<and> 48 \<le> (of_char c :: nat) \<and> of_char c \<le> (57 :: nat) \<and> n = m * 10 + (of_char c - 48))"
  by (auto simp: digits_value_append Let_def split: option.splits if_splits)

lemma pad_digits_value: "digits_value 0 s = Some n \<Longrightarrow> pad_digits (length s) n = s"
proof (induction s arbitrary: n rule: rev_induct)
  case (snoc c s)
  then obtain m where m: "digits_value 0 s = Some m" "48 \<le> (of_char c :: nat)" "of_char c \<le> (57 :: nat)"
    "n = m * 10 + (of_char c - 48)" unfolding digits_value_snoc by blast
  have "(of_char c - 48 :: nat) < 10" using m(2,3) by simp
  then have d: "n div 10 = m" "n mod 10 = of_char c - 48" unfolding m(4) by simp_all
  have "char_of (48 + (of_char c - 48 :: nat)) = c" by (simp only: le_add_diff_inverse[OF m(2)] char_of_char)
  with snoc.IH[OF m(1)] d show ?case by simp
qed simp

lemma digits_value_bounds:
  "digits_value a s = Some n \<Longrightarrow> a * 10 ^ length s \<le> n \<and> n < (a + 1) * 10 ^ length s"
proof (induction a s arbitrary: n rule: digits_value.induct)
  case (2 a c s)
  let ?d = "of_char c :: nat"
  from "2.prems" have d: "48 \<le> ?d" "?d \<le> 57" and v: "digits_value (a * 10 + (?d - 48)) s = Some n"
    by (simp_all add: Let_def split: if_splits)
  from "2.IH"[OF refl _ v] d have b: "(a * 10 + (?d - 48)) * 10 ^ length s \<le> n" "n < (a * 10 + (?d - 48) + 1) * 10 ^ length s"
    by simp_all
  have "a * 10 * 10 ^ length s \<le> (a * 10 + (?d - 48)) * 10 ^ length s"
    "(a * 10 + (?d - 48) + 1) * 10 ^ length s \<le> (a * 10 + 10) * 10 ^ length s"
    using d by (intro mult_right_mono; simp)+
  with b show ?case by (simp add: algebra_simps)
qed simp

lemma text_less_digits:
  assumes "length s = length t" "digits_value a s = Some n" "digits_value a t = Some m"
  shows "(text_less s t \<longleftrightarrow> n < m) \<and> (s = t \<longleftrightarrow> n = m)"
  using assms
proof (induction s t arbitrary: a rule: list_induct2)
  case (Cons c s e t)
  let ?c = "of_char c :: nat" and ?e = "of_char e :: nat"
  from Cons.prems have d: "48 \<le> ?c" "?c \<le> 57" "48 \<le> ?e" "?e \<le> 57"
    and v: "digits_value (a * 10 + (?c - 48)) s = Some n" "digits_value (a * 10 + (?e - 48)) t = Some m"
    by (simp_all add: Let_def split: if_splits)
  have lt: "x < y" if "digits_value p u = Some x" "digits_value q w = Some y" "p < q" "length u = length w"
    for p q u w x y
  proof -
    have "x < (p + 1) * 10 ^ length u" "q * 10 ^ length u \<le> y" using digits_value_bounds that by metis+
    moreover have "(p + 1) * 10 ^ length u \<le> q * 10 ^ length u" using that by (intro mult_right_mono) simp_all
    ultimately show ?thesis by linarith
  qed
  consider "?c < ?e" | "?e < ?c" | "c = e" by (metis linorder_neqE_nat of_char_eq_iff)
  then show ?case
  proof cases
    case 1
    then have "n < m" using d Cons.hyps by (intro lt[OF v]) simp_all
    with 1 show ?thesis by auto
  next
    case 2
    then have "m < n" using d Cons.hyps by (intro lt[OF v(2,1)]) simp_all
    with 2 show ?thesis by auto
  next
    case 3
    with Cons.IH[OF v(1)] v(2) show ?thesis by simp
  qed
qed simp

lemma text_less_append:
  "length a = length b \<Longrightarrow> text_less (a @ x) (b @ y) \<longleftrightarrow> text_less a b \<or> (a = b \<and> text_less x y)"
  by (induction a b rule: list_induct2) auto

text \<open>The parts of a label.\<close>

lemma parse_date_parts:
  assumes "parse_date s = Some z"
  obtains ys ms ds y m d where "s = ys @ ''-'' @ ms @ ''-'' @ ds" "length ys = 4" "length ms = 2" "length ds = 2"
    "digits_value 0 ys = Some y" "digits_value 0 ms = Some m" "digits_value 0 ds = Some d"
    "1 \<le> int m" "int m \<le> 12" "1 \<le> int d" "int d \<le> month_lengths (int y) ! nat (int m - 1)"
    "z = date_days (int y) (int m) (int d)"
proof -
  from assms have sep: "length s = 10" "s ! 4 = CHR ''-''" "s ! 7 = CHR ''-''" by (simp_all add: parse_date_def split: if_splits)
  have s: "s = take 4 s @ ''-'' @ take 2 (drop 5 s) @ ''-'' @ drop 8 s"
  proof -
    have "s = take 4 s @ s ! 4 # drop 5 s" by (rule id_take_nth_drop[of 4 s, simplified]) (use sep in simp)
    moreover have "drop 5 s = take 2 (drop 5 s) @ s ! 7 # drop 8 s"
      using id_take_nth_drop[of 2 "drop 5 s"] sep by simp
    ultimately show ?thesis using sep by simp
  qed
  from assms sep obtain y m d where "digits_value 0 (take 4 s) = Some y" "digits_value 0 (take 2 (drop 5 s)) = Some m"
    "digits_value 0 (drop 8 s) = Some d" "1 \<le> int m" "int m \<le> 12" "1 \<le> int d"
    "int d \<le> month_lengths (int y) ! nat (int m - 1)" "z = date_days (int y) (int m) (int d)"
    by (auto simp: parse_date_def parse_two_def split: option.splits if_splits)
  with s sep show thesis by (intro that[of "take 4 s" "take 2 (drop 5 s)" "drop 8 s" y m d]) simp_all
qed

lemma format_parse: "parse_date s = Some z \<Longrightarrow> format_date z = s"
proof (elim parse_date_parts)
  fix ys ms ds y m d
  assume a: "s = ys @ ''-'' @ ms @ ''-'' @ ds" "length ys = 4" "length ms = 2" "length ds = 2"
    "digits_value 0 ys = Some y" "digits_value 0 ms = Some m" "digits_value 0 ds = Some d"
    "1 \<le> int m" "int m \<le> 12" "1 \<le> int d" "int d \<le> month_lengths (int y) ! nat (int m - 1)" "z = date_days (int y) (int m) (int d)"
  have "civil z = (int y, int m, int d)" unfolding a(12) by (rule civil_date_days) (use a in simp_all)
  then show "format_date z = s"
    using pad_digits_value[OF a(5)] pad_digits_value[OF a(6)] pad_digits_value[OF a(7)] a
    by (simp add: format_date_def int_pad_def)
qed

definition dated :: "int \<Rightarrow> bool" where
  "dated z \<longleftrightarrow> days_before_year 0 \<le> z \<and> z < days_before_year 10000"

lemma civil_year_range: "dated z \<Longrightarrow> 0 \<le> civil_year z \<and> civil_year z < 10000"
proof -
  assume z: "dated z"
  note b = civil_year_bounds[of z]
  have "\<not> civil_year z + 1 \<le> 0"
    using b z days_before_year_mono_strict[of "civil_year z + 1" 0] by (auto simp: dated_def le_less)
  moreover have "\<not> 10000 \<le> civil_year z"
    using b z days_before_year_mono_strict[of 10000 "civil_year z"] by (auto simp: dated_def le_less)
  ultimately show ?thesis by simp
qed

lemma month_length_le: "l \<in> set (month_lengths y) \<Longrightarrow> l \<le> 31"
  by (auto simp: month_lengths_def split: if_splits)

lemma parse_format: "dated z \<Longrightarrow> parse_date (format_date z) = Some z"
proof -
  assume z: "dated z"
  obtain y m d where c: "civil z = (y, m, d)" by (cases "civil z")
  note cs = civil_spec[OF c]
  have y: "0 \<le> y" "y < 10000" using civil_year_range[OF z] cs(6) by simp_all
  have "nat (m - 1) < length (month_lengths y)" using cs by (simp add: month_lengths_def)
  then have d: "d \<le> 31" using month_length_le[OF nth_mem, of "nat (m - 1)" y] cs(5) by linarith
  have f: "format_date z = int_pad 4 y @ ''-'' @ int_pad 2 m @ ''-'' @ int_pad 2 d" by (simp add: format_date_def c)
  have l: "length (int_pad k i) = k" for k i by (simp add: int_pad_def)
  have v: "parse_two (int_pad k i) = Some i" if "0 \<le> i" "i < 10 ^ k" for k i
    using that by (simp add: parse_two_def int_pad_def digits_value_pad nat_less_iff)
  have p: "take 4 (format_date z) = int_pad 4 y" "format_date z ! 4 = CHR ''-''" "take 2 (drop 5 (format_date z)) = int_pad 2 m"
    "format_date z ! 7 = CHR ''-''" "drop 8 (format_date z) = int_pad 2 d" "length (format_date z) = 10"
    unfolding f by (simp_all add: l nth_append)
  show ?thesis unfolding parse_date_def p using y d cs(2-5) by (simp add: v cs(1)[symmetric])
qed

lemma date_days_lex:
  assumes "1 \<le> m" "m \<le> 12" "1 \<le> d" "d \<le> month_lengths y ! nat (m - 1)"
    "1 \<le> m'" "m' \<le> 12" "1 \<le> d'" "d' \<le> month_lengths y' ! nat (m' - 1)"
  shows "date_days y m d < date_days y' m' d' \<longleftrightarrow> y < y' \<or> (y = y' \<and> (m < m' \<or> (m = m' \<and> d < d')))"
proof -
  have less: "date_days a b c < date_days a' b' c'"
    if h: "a < a' \<or> (a = a' \<and> (b < b' \<or> (b = b' \<and> c < c')))" "1 \<le> b" "b \<le> 12" "1 \<le> c" "c \<le> month_lengths a ! nat (b - 1)"
      "1 \<le> b'" "b' \<le> 12" "1 \<le> c'" "c' \<le> month_lengths a' ! nat (b' - 1)" for a b c a' b' c'
  proof -
    consider "a + 1 \<le> a'" | "a = a'" "b < b'" | "a = a'" "b = b'" "c < c'" using h(1) by linarith
    then show ?thesis
    proof cases
      case 1
      have "days_before_year (a + 1) \<le> days_before_year a'"
        using days_before_year_mono_strict[of "a + 1" a'] 1 by (cases "a + 1 = a'") auto
      with date_days_in_year(2)[OF h(2-5)] date_days_in_year(1)[OF h(6-9)] show ?thesis by linarith
    next
      case 2 with date_days_month_mono[of b b' c a c'] h show ?thesis by simp
    qed (simp add: date_days_def)
  qed
  have "y < y' \<or> (y = y' \<and> (m < m' \<or> (m = m' \<and> d < d'))) \<or> y' < y \<or> (y' = y \<and> (m' < m \<or> (m' = m \<and> d' < d))) \<or>
      (y = y' \<and> m = m' \<and> d = d')" by linarith
  with less[OF _ assms] less[OF _ assms(5-8,1-4)] show ?thesis by (metis less_irrefl less_asym)
qed

lemma label_order:
  assumes "parse_date s = Some a" "parse_date t = Some b"
  shows "text_less s t \<longleftrightarrow> a < b"
proof -
  obtain ys ms ds y m d where s: "s = ys @ ''-'' @ ms @ ''-'' @ ds" "length ys = 4" "length ms = 2" "length ds = 2"
    "digits_value 0 ys = Some y" "digits_value 0 ms = Some m" "digits_value 0 ds = Some d"
    "1 \<le> int m" "int m \<le> 12" "1 \<le> int d" "int d \<le> month_lengths (int y) ! nat (int m - 1)" "a = date_days (int y) (int m) (int d)"
    by (rule parse_date_parts[OF assms(1)])
  obtain ys' ms' ds' y' m' d' where t: "t = ys' @ ''-'' @ ms' @ ''-'' @ ds'" "length ys' = 4" "length ms' = 2" "length ds' = 2"
    "digits_value 0 ys' = Some y'" "digits_value 0 ms' = Some m'" "digits_value 0 ds' = Some d'"
    "1 \<le> int m'" "int m' \<le> 12" "1 \<le> int d'" "int d' \<le> month_lengths (int y') ! nat (int m' - 1)" "b = date_days (int y') (int m') (int d')"
    by (rule parse_date_parts[OF assms(2)])
  have eqs: "(text_less ys ys' \<longleftrightarrow> y < y') \<and> (ys = ys' \<longleftrightarrow> y = y')" "(text_less ms ms' \<longleftrightarrow> m < m') \<and> (ms = ms' \<longleftrightarrow> m = m')"
    "(text_less ds ds' \<longleftrightarrow> d < d') \<and> (ds = ds' \<longleftrightarrow> d = d')"
    using s t by (intro text_less_digits; simp)+
  have "text_less s t \<longleftrightarrow> text_less ys ys' \<or> (ys = ys' \<and> (text_less ms ms' \<or> (ms = ms' \<and> text_less ds ds')))"
    unfolding s(1) t(1) using s(2,3) t(2,3) by (simp add: text_less_append)
  also have "\<dots> \<longleftrightarrow> a < b"
    unfolding s(12) t(12) date_days_lex[OF s(8-11) t(8-11)] using eqs by simp
  finally show ?thesis .
qed

section \<open>Windows\<close>

lemma parse_day_Inr: "parse_day s = Inr f \<longleftrightarrow> f = s \<and> parse_date s \<noteq> None"
  by (auto simp: parse_day_def format_parse split: option.splits)

lemma normalize_window_Inr:
  assumes "normalize_window off now from to' = Inr (f, t)"
  obtains a b where "parse_date f = Some a" "parse_date t = Some b" "a \<le> b" "b - a < maxUsageWindowDays"
    "f = (if from = [] then fst (default_usage_window off now) else from)"
    "t = (if to' = [] then snd (default_usage_window off now) else to')"
proof -
  let ?f = "if from = [] then fst (default_usage_window off now) else from"
  let ?t = "if to' = [] then snd (default_usage_window off now) else to'"
  from assms have eq: "f = ?f" "t = ?t" and nn: "parse_date ?f \<noteq> None" "parse_date ?t \<noteq> None"
    and ord: "\<not> text_less t f" and days: "count_days f t \<le> maxUsageWindowDays"
    by (auto simp: normalize_window_def Let_def default_usage_window_def parse_day_def format_parse split: sum.splits if_splits option.splits)
  then obtain a b where p: "parse_date f = Some a" "parse_date t = Some b" by auto
  have "a \<le> b" using ord label_order[OF p(2,1)] by simp
  moreover have "b - a < maxUsageWindowDays"
    using days by (simp add: count_days_def p days_between_def maxUsageWindowDays_def max_def min_def split: if_splits)
  ultimately show thesis using that p eq by blast
qed

lemma normalize_window_accepts:
  assumes "parse_date f = Some a" "parse_date t = Some b" "a \<le> b" "b - a < maxUsageWindowDays"
  shows "normalize_window off now f t = Inr (f, t)"
proof -
  have "f \<noteq> []" "t \<noteq> []" using assms(1,2) by (auto simp: parse_date_def)
  moreover have "\<not> text_less t f" using label_order[OF assms(2,1)] assms(3) by simp
  moreover have "count_days f t \<le> maxUsageWindowDays"
    using assms by (simp add: count_days_def days_between_def maxUsageWindowDays_def max_def min_def)
  ultimately show ?thesis using assms format_parse
    by (simp add: normalize_window_def Let_def parse_day_def default_usage_window_def)
qed

lemma zero_fill_labels:
  assumes "parse_date f = Some a" "parse_date t = Some b"
  shows "zero_fill_days f t have = map (\<lambda>z. (format_date z, bucket have (format_date z))) [a..b]"
  by (simp add: zero_fill_days_def assms)

lemma parse_date_dated: "parse_date s = Some z \<Longrightarrow> dated z"
proof (elim parse_date_parts)
  fix ys ms ds y m d
  assume a: "length ys = 4" "digits_value 0 ys = Some y"
    "1 \<le> int m" "int m \<le> 12" "1 \<le> int d" "int d \<le> month_lengths (int y) ! nat (int m - 1)" "z = date_days (int y) (int m) (int d)"
  have "y < 10000" using digits_value_bounds[OF a(2)] a(1) by simp
  then have "days_before_year (int y + 1) \<le> days_before_year 10000" "days_before_year 0 \<le> days_before_year (int y)"
    using days_before_year_mono_strict[of "int y + 1" 10000] days_before_year_mono_strict[of 0 "int y"]
    by (cases "y = 9999"; cases "y = 0"; simp)+
  with date_days_in_year[OF a(3-6)] show "dated z" by (simp add: dated_def a(7))
qed

lemma dated_between: "dated a \<Longrightarrow> dated b \<Longrightarrow> a \<le> z \<Longrightarrow> z \<le> b \<Longrightarrow> dated z"
  by (simp add: dated_def)

lemma format_date_inj: "dated a \<Longrightarrow> dated b \<Longrightarrow> format_date a = format_date b \<longleftrightarrow> a = b"
  by (metis option.inject parse_format)

lemma in_bounds_iff:
  "a * 86400 - off \<le> s \<and> s < (b + 1) * 86400 - off \<longleftrightarrow> a \<le> (s + off) div 86400 \<and> (s + off) div 86400 \<le> (b :: int)"
proof -
  define D M where "D = (s + off) div 86400" and "M = (s + off) mod 86400"
  have e: "s = 86400 * D + M - off" "0 \<le> M" "M < 86400" by (simp_all add: D_def M_def)
  have "a * 86400 - off \<le> s \<longleftrightarrow> a \<le> D" unfolding e(1) using e(2,3) by auto
  moreover have "s < (b + 1) * 86400 - off \<longleftrightarrow> D \<le> b" unfolding e(1) using e(2,3) by auto
  ultimately show ?thesis by (simp add: D_def)
qed

lemma zero_fill_sorted:
  assumes "dated a" "dated b"
  shows "sorted_wrt text_less (map format_date [a..b])"
proof -
  have "sorted_wrt (<) [a..b]" by simp
  then show ?thesis unfolding sorted_wrt_map
  proof (rule sorted_wrt_mono_rel[rotated])
    fix x y assume "x \<in> set [a..b]" "y \<in> set [a..b]" and xy: "x < y"
    then have "dated x" "dated y" using dated_between[OF assms] by simp_all
    then show "text_less (format_date x) (format_date y)"
      using label_order[OF parse_format parse_format, of x y] xy by blast
  qed
qed

text \<open>A window of given days is accepted exactly when both labels are dates, in order, and it is at most 92
  days long; an accepted one names whole days: an instant lies in its bounds exactly when its day in the
  display zone is one of the days \<open>by_day\<close> lists, which are all of them, once and in order.\<close>

theorem window_is_whole_days:
  "(from \<noteq> [] \<and> to' \<noteq> [] \<longrightarrow> (normalize_window off now from to' = Inr (from, to') \<longleftrightarrow>
      (\<exists>a b. parse_date from = Some a \<and> parse_date to' = Some b \<and> a \<le> b \<and> b - a < 92))) \<and>
   (normalize_window off now from to' = Inr (f, t) \<longrightarrow>
      (\<exists>lo hi. window_bounds off f t = Inr (lo, hi) \<and> lo < hi \<and>
         length (zero_fill_days f t have) \<le> 92 \<and> distinct (map fst (zero_fill_days f t have)) \<and>
         sorted_wrt text_less (map fst (zero_fill_days f t have)) \<and>
         (\<forall>now'. dated (day_at off now') \<longrightarrow>
            (format_date (day_at off now') \<in> fst ` set (zero_fill_days f t have) \<longleftrightarrow> lo \<le> unix_seconds now' \<and> unix_seconds now' < hi)) \<and>
         (\<forall>d x. (d, x) \<in> set (zero_fill_days f t have) \<longrightarrow> x = bucket have d)))"
proof (intro conjI impI)
  assume ne: "from \<noteq> [] \<and> to' \<noteq> []"
  show "normalize_window off now from to' = Inr (from, to') \<longleftrightarrow>
      (\<exists>a b. parse_date from = Some a \<and> parse_date to' = Some b \<and> a \<le> b \<and> b - a < 92)" (is "?L \<longleftrightarrow> ?R")
  proof
    assume ?L then show ?R unfolding maxUsageWindowDays_def[symmetric] by (rule normalize_window_Inr) blast
  next
    assume ?R then show ?L using normalize_window_accepts unfolding maxUsageWindowDays_def by blast
  qed
next
  assume "normalize_window off now from to' = Inr (f, t)"
  then obtain a b where p: "parse_date f = Some a" "parse_date t = Some b" and ab: "a \<le> b" "b - a < 92"
    unfolding maxUsageWindowDays_def[symmetric] by (rule normalize_window_Inr) blast
  note d = parse_date_dated[OF p(1)] parse_date_dated[OF p(2)]
  note z = zero_fill_labels[OF p, of "have"]
  have fsts: "map fst (zero_fill_days f t have) = map format_date [a..b]" by (simp add: z)
  have bounds: "window_bounds off f t = Inr (a * 86400 - off, (b + 1) * 86400 - off)" by (simp add: window_bounds_def p)
  have "a * 86400 - off < (b + 1) * 86400 - off" using ab by simp
  moreover have "length (zero_fill_days f t have) \<le> 92" using ab by (simp add: z)
  moreover have "sorted_wrt text_less (map fst (zero_fill_days f t have))" unfolding fsts by (rule zero_fill_sorted[OF d])
  moreover have in_range: "dated x" if "x \<in> {a..b}" for x using dated_between[OF d] that by simp
  have "inj_on format_date {a..b}" by (rule inj_onI) (simp add: format_date_inj in_range)
  then have "distinct (map fst (zero_fill_days f t have))" unfolding fsts by (simp add: distinct_map)
  moreover have "format_date (day_at off now') \<in> fst ` set (zero_fill_days f t have) \<longleftrightarrow>
      a * 86400 - off \<le> unix_seconds now' \<and> unix_seconds now' < (b + 1) * 86400 - off" if "dated (day_at off now')" for now'
  proof -
    have "fst ` set (zero_fill_days f t have) = format_date ` {a..b}" by (simp add: z image_image)
    then have "format_date (day_at off now') \<in> fst ` set (zero_fill_days f t have) \<longleftrightarrow> day_at off now' \<in> {a..b}"
      using format_date_inj[OF that in_range] by (metis image_iff)
    then show ?thesis unfolding in_bounds_iff by (simp add: day_at_def)
  qed
  moreover have "x = bucket have l" if "(l, x) \<in> set (zero_fill_days f t have)" for l x using that by (auto simp: z)
  ultimately show "\<exists>lo hi. window_bounds off f t = Inr (lo, hi) \<and> lo < hi \<and>
         length (zero_fill_days f t have) \<le> 92 \<and> distinct (map fst (zero_fill_days f t have)) \<and>
         sorted_wrt text_less (map fst (zero_fill_days f t have)) \<and>
         (\<forall>now'. dated (day_at off now') \<longrightarrow>
            (format_date (day_at off now') \<in> fst ` set (zero_fill_days f t have) \<longleftrightarrow> lo \<le> unix_seconds now' \<and> unix_seconds now' < hi)) \<and>
         (\<forall>d x. (d, x) \<in> set (zero_fill_days f t have) \<longrightarrow> x = bucket have d)"
    using bounds by blast
qed

theorem window_is_whole_days_witness:
  "normalize_window 28800 0 ''2024-02-28'' ''2024-03-01'' = Inr (''2024-02-28'', ''2024-03-01'') \<and>
   map fst (zero_fill_days ''2024-02-28'' ''2024-03-01'' []) = [''2024-02-28'', ''2024-02-29'', ''2024-03-01'']"
proof
  have p: "parse_date ''2024-02-28'' = Some 19781" "parse_date ''2024-03-01'' = Some 19783" by code_simp+
  show "normalize_window 28800 0 ''2024-02-28'' ''2024-03-01'' = Inr (''2024-02-28'', ''2024-03-01'')"
    by (rule window_is_whole_days[THEN conjunct1, rule_format, THEN iffD2]) (simp_all add: p)
  show "map fst (zero_fill_days ''2024-02-28'' ''2024-03-01'' []) = [''2024-02-28'', ''2024-02-29'', ''2024-03-01'']"
    by code_simp
qed

section \<open>The cache\<close>

definition unbroken :: "string \<Rightarrow> bool" where "unbroken s \<longleftrightarrow> CHR 0x00 \<notin> set s"

definition plain_filter :: "log_filter \<Rightarrow> bool" where
  "plain_filter f \<longleftrightarrow> unbroken (f_dir f) \<and> unbroken (f_from_day f) \<and> unbroken (f_to_day f) \<and> unbroken (f_client f)"

definition filter_key :: "log_filter \<Rightarrow> string" where
  "filter_key f = usage_key (f_dir f) (f_from_day f) (f_to_day f) (f_client f) (f_dims f)"

text \<open>Every question is about sums, as \<open>usage_filter\<close> asks it.\<close>

definition summing :: "log_filter \<Rightarrow> bool" where
  "summing f \<longleftrightarrow> f = usage_filter (f_dir f) (f_from_day f) (f_to_day f) (f_client f) (f_dims f)"

lemma nat_digits_unique: "nat_digits m = nat_digits n \<longleftrightarrow> m = n"
  by (metis digits_value_nat_digits option.inject)

lemma nat_digits_no_sign: "nat_digits n \<noteq> CHR ''-'' # s"
proof
  assume "nat_digits n = CHR ''-'' # s"
  then have "decimal_char CHR ''-''" using nat_digits_decimal[of "CHR ''-''" n] by simp
  then show False by (simp add: decimal_char_def)
qed

lemma itoa_unique: "itoa i = itoa j \<longleftrightarrow> i = j"
proof
  assume eq: "itoa i = itoa j"
  consider "i < 0" "j < 0" | "i < 0" "0 \<le> j" | "0 \<le> i" "j < 0" | "0 \<le> i" "0 \<le> j" by linarith
  then show "i = j"
  proof cases
    case 1 with eq show ?thesis by (simp add: itoa_def nat_digits_unique)
  next
    case 2
    then have "nat_digits (nat j) = CHR ''-'' # nat_digits (nat (- i))" using eq by (simp add: itoa_def)
    with nat_digits_no_sign show ?thesis by blast
  next
    case 3 with eq nat_digits_no_sign[of "nat i"] show ?thesis by (simp add: itoa_def)
  next
    case 4 with eq show ?thesis by (simp add: itoa_def nat_digits_unique)
  qed
qed simp

lemma split_at_byte: "x \<notin> set a \<Longrightarrow> x \<notin> set b \<Longrightarrow> a @ x # p = b @ x # q \<longleftrightarrow> a = b \<and> p = q"
  by (auto dest: split_at_char)

lemma filter_key_unique:
  assumes "plain_filter f" "plain_filter g" "summing f" "summing g"
  shows "filter_key f = filter_key g \<longleftrightarrow> f = g"
proof
  assume "filter_key f = filter_key g"
  then have "f_dir f = f_dir g \<and> f_from_day f = f_from_day g \<and> f_to_day f = f_to_day g \<and> f_client f = f_client g \<and> f_dims f = f_dims g"
    using assms(1,2) by (simp add: filter_key_def usage_key_def NUL_def plain_filter_def unbroken_def split_at_byte itoa_unique)
  then show "f = g" using assms(3,4) by (metis summing_def)
qed simp

lemma summing_usage_filter [simp]: "summing (usage_filter dir from to' client dims)"
  by (simp add: summing_def usage_filter_def)

text \<open>What the log said, to whom asking and when: the newest first.\<close>

definition log_says :: "usage_log \<Rightarrow> log_filter \<Rightarrow> usage_result option" where
  "log_says ul f = map_option (\<lambda>r. \<lparr>ur_by_client = res_by_client r, ur_by_model = res_by_model r, ur_by_day = res_by_day r\<rparr>) (ul_query ul f)"

type_synonym log_history = "(int \<times> log_filter \<times> usage_result option) list"

text \<open>The caches that come about: whoever asks, at any time, of a log that may change between questions.\<close>

inductive cache_run :: "log_history \<Rightarrow> usage_cache \<Rightarrow> bool" where
  fresh: "cache_run [] []"
| asked: "cache_run h c \<Longrightarrow> plain_filter (usage_filter dir from to' client dims) \<Longrightarrow>
    cache_run ((now, usage_filter dir from to' client dims, log_says ul (usage_filter dir from to' client dims)) # h)
      (snd (cached_dims_query ul now dir from to' client dims c))"

definition cache_backed :: "log_history \<Rightarrow> usage_cache \<Rightarrow> bool" where
  "cache_backed h c \<longleftrightarrow> (\<forall>(k, r, t) \<in> set c. \<exists>f. (t, f, Some r) \<in> set h \<and> plain_filter f \<and> summing f \<and> k = filter_key f)"

lemma cached_dims_cases:
  "cached_dims_query ul now dir from to' client dims c =
     (let f = usage_filter dir from to' client dims; key = filter_key f in
      case map_of c key of
        Some (r, t) \<Rightarrow> if now - t < usageCacheTTL then (Some r, c)
          else (case log_says ul f of None \<Rightarrow> (None, c) | Some out \<Rightarrow> (Some out, evict_expired now ((key, out, now) # filter (\<lambda>e. fst e \<noteq> key) c)))
      | None \<Rightarrow> (case log_says ul f of None \<Rightarrow> (None, c) | Some out \<Rightarrow> (Some out, evict_expired now ((key, out, now) # filter (\<lambda>e. fst e \<noteq> key) c))))"
  by (simp add: cached_dims_query_def log_says_def filter_key_def usage_filter_def Let_def split: option.split prod.split)

lemma evict_expired_subset: "set (evict_expired now c) \<subseteq> set c"
  by (auto simp: evict_expired_def)

lemma cache_run_backed: "cache_run h c \<Longrightarrow> cache_backed h c"
proof (induction rule: cache_run.induct)
  case (asked h c dir "from" to' client dims now ul)
  let ?f = "usage_filter dir from to' client dims"
  let ?new = "\<lambda>out. evict_expired now ((filter_key ?f, out, now) # filter (\<lambda>e. fst e \<noteq> filter_key ?f) c)"
  have old: "cache_backed ((now, ?f, log_says ul ?f) # h) c" using asked.IH by (fastforce simp: cache_backed_def)
  moreover have "cache_backed ((now, ?f, log_says ul ?f) # h) (?new out)" if "log_says ul ?f = Some out" for out
    unfolding cache_backed_def
  proof clarify
    fix k r t assume "(k, r, t) \<in> set (?new out)"
    with evict_expired_subset have "(k, r, t) \<in> set ((filter_key ?f, out, now) # filter (\<lambda>e. fst e \<noteq> filter_key ?f) c)" by blast
    then consider "k = filter_key ?f" "r = out" "t = now" | "(k, r, t) \<in> set c" by auto
    then show "\<exists>f. (t, f, Some r) \<in> set ((now, ?f, log_says ul ?f) # h) \<and> plain_filter f \<and> summing f \<and> k = filter_key f"
    proof cases
      case 1 with that asked.hyps(2) show ?thesis by (intro exI[of _ ?f]) simp
    next
      case 2 with old show ?thesis by (auto simp: cache_backed_def)
    qed
  qed
  ultimately show ?case
    by (cases "log_says ul ?f") (auto simp: cached_dims_cases Let_def split: option.split)
qed (simp add: cache_backed_def)

text \<open>C26. Whatever is asked of the cache and however the log changes meanwhile, an answer is what the log says
  now or what it said to the very same question less than half a minute ago, never what it said to
  another, and the log failing is the only way to get none.\<close>

theorem cached_answer_is_the_logs:
  assumes run: "cache_run h c" and plain: "plain_filter (usage_filter dir from to' client dims)"
  shows "(\<exists>r. fst (cached_dims_query ul now dir from to' client dims c) = Some r \<and>
      (log_says ul (usage_filter dir from to' client dims) = Some r \<or>
       (\<exists>t. now - t < 30 * second_ns \<and> (t, usage_filter dir from to' client dims, Some r) \<in> set h))) \<or>
    (fst (cached_dims_query ul now dir from to' client dims c) = None \<and> log_says ul (usage_filter dir from to' client dims) = None)"
proof -
  let ?f = "usage_filter dir from to' client dims"
  have hit: "(t, ?f, Some r) \<in> set h" if "map_of c (filter_key ?f) = Some (r, t)" for r t
  proof -
    from map_of_SomeD[OF that] cache_run_backed[OF run] obtain g where g: "(t, g, Some r) \<in> set h" "plain_filter g" "summing g"
      "filter_key ?f = filter_key g" by (fastforce simp: cache_backed_def)
    then show ?thesis using filter_key_unique[OF plain g(2) _ g(3)] by simp
  qed
  show ?thesis
    using hit by (auto simp: cached_dims_cases Let_def usageCacheTTL_def split: option.splits if_splits)
qed

definition sample_log :: usage_log where
  "sample_log = \<lparr>ul_query = (\<lambda>f. Some \<lparr>res_by_client = [], res_by_model = [], res_by_day = [], res_entries = []\<rparr>),
     ul_offset = 28800, ul_zone = ''Asia/Shanghai'', ul_by_client = 1, ul_by_model_and_day = 6, ul_completion = rev\<rparr>"

theorem cached_answer_is_the_logs_witness:
  "fst (cached_dims_query sample_log 5 ''logs'' ''2024-03-01'' ''2024-03-01'' [] 1 []) \<noteq> None"
  using cached_answer_is_the_logs[OF cache_run.fresh, of "''logs''" "''2024-03-01''" "''2024-03-01''" "[]" 1 sample_log 5]
  by (auto simp: plain_filter_def usage_filter_def unbroken_def log_says_def sample_log_def)

section \<open>A team sees only itself\<close>

definition masks_of :: "group_member list \<Rightarrow> string set" where
  "masks_of ms = (\<lambda>m. token_mask (gm_token m)) ` set ms - {Opaque}"

text \<open>Two logs agree on some masks when the fleet's sums give each of them the same bucket, and every question
  about one of them alone has the same answer. What other tokens have spent may differ in any way.\<close>

definition agree_on :: "string set \<Rightarrow> usage_log \<Rightarrow> usage_log \<Rightarrow> bool" where
  "agree_on M ul ul' \<longleftrightarrow> ul_offset ul' = ul_offset ul \<and> ul_zone ul' = ul_zone ul \<and> ul_by_client ul' = ul_by_client ul \<and>
     ul_by_model_and_day ul' = ul_by_model_and_day ul \<and> ul_completion ul' = ul_completion ul \<and>
     ul_by_client ul \<noteq> ul_by_model_and_day ul \<and> (\<forall>xs. set (ul_completion ul xs) \<subseteq> set xs) \<and>
     (\<forall>f. (f_client f = [] \<longrightarrow> (case (ul_query ul f, ul_query ul' f) of
          (None, None) \<Rightarrow> True | (Some r, Some r') \<Rightarrow> \<forall>k \<in> M. bucket (res_by_client r) k = bucket (res_by_client r') k | _ \<Rightarrow> False)) \<and>
        (f_client f \<in> M \<longrightarrow> ul_query ul f = ul_query ul' f))"

text \<open>Caches that differ in the fleet's sums only.\<close>

definition similar :: "string \<Rightarrow> usage_cache \<Rightarrow> usage_cache \<Rightarrow> bool" where
  "similar fk c c' \<longleftrightarrow> list_all2 (\<lambda>(k, r, t) (k', r', t'). k = k' \<and> t = t' \<and> (k \<noteq> fk \<longrightarrow> r = r')) c c'"

lemma similar_refl [simp]: "similar fk c c"
  by (auto simp: similar_def intro!: list.rel_refl)

lemma similar_Cons: "similar fk ((k, r, t) # c) ((k, r', t) # c') \<longleftrightarrow> (k \<noteq> fk \<longrightarrow> r = r') \<and> similar fk c c'"
  by (simp add: similar_def)

lemma similar_filter:
  assumes "similar fk c c'" "\<And>k r r' t. P (k, r, t) = P (k, r', t)"
  shows "similar fk (filter P c) (filter P c')"
  using assms(1) unfolding similar_def
proof (induction rule: list_all2_induct)
  case (Cons x xs y ys) then show ?case using assms(2) by (cases x; cases y) force
qed simp

lemma similar_evict: "similar fk c c' \<Longrightarrow> similar fk (evict_expired now c) (evict_expired now c')"
  using list_all2_lengthD[of _ c c'] by (auto simp: evict_expired_def similar_def[of _ c c'] intro: similar_filter[unfolded similar_def[of _ c c']])

lemma similar_lookup: "similar fk c c' \<Longrightarrow> k \<noteq> fk \<Longrightarrow> map_of c k = map_of c' k"
  unfolding similar_def
proof (induction rule: list_all2_induct)
  case (Cons x xs y ys) then show ?case by (cases x; cases y) auto
qed simp

text \<open>Keys of different dimensions differ, whatever the other parts hold.\<close>

lemma last_part_unique:
  assumes "a @ x # p = b @ x # q" "x \<notin> set p" "x \<notin> set q"
  shows "p = q"
proof -
  have "rev p @ x # rev a = rev q @ x # rev b" using arg_cong[OF assms(1), of rev] by simp
  then have "rev p = rev q" using assms(2,3) by (simp add: split_at_byte)
  then show ?thesis by simp
qed

lemma itoa_no_nul: "CHR 0x00 \<notin> set (itoa i)"
proof
  assume "CHR 0x00 \<in> set (itoa i)"
  then have "CHR 0x00 \<in> set (nat_digits (nat i)) \<or> CHR 0x00 \<in> set (nat_digits (nat (- i)))"
    by (auto simp: itoa_def split: if_splits)
  then have "decimal_char CHR 0x00" using nat_digits_decimal by blast
  then show False by (simp add: decimal_char_def)
qed

lemma usage_key_dims: "usage_key dir from to' client dims = usage_key dir' from' to'' client' dims' \<Longrightarrow> dims = dims'"
  using last_part_unique[of "dir @ NUL @ from @ NUL @ to' @ NUL @ client" "CHR 0x00" "itoa dims"
      "dir' @ NUL @ from' @ NUL @ to'' @ NUL @ client'" "itoa dims'"]
  by (simp add: usage_key_def NUL_def itoa_no_nul itoa_unique)

lemma member_query_agrees:
  assumes ag: "agree_on M ul ul'" and sim: "similar fk c c'" and m: "msk \<in> M"
    and fk: "fk = usage_key dir0 from0 to0 client0 (ul_by_client ul)"
  shows "fst (cached_member_breakdown ul now dir from to' msk c) = fst (cached_member_breakdown ul' now dir from to' msk c') \<and>
    similar fk (snd (cached_member_breakdown ul now dir from to' msk c)) (snd (cached_member_breakdown ul' now dir from to' msk c'))"
proof -
  let ?d = "ul_by_model_and_day ul"
  let ?f = "usage_filter dir from to' msk ?d"
  have d: "ul_by_model_and_day ul' = ?d" "ul_by_client ul \<noteq> ?d" using ag by (auto simp: agree_on_def)
  have "filter_key ?f = usage_key dir from to' msk ?d" by (simp add: filter_key_def usage_filter_def)
  then have key: "filter_key ?f \<noteq> fk" using usage_key_dims d(2) unfolding fk by metis
  have "f_client ?f = msk" by (simp add: usage_filter_def)
  with ag m have says: "log_says ul ?f = log_says ul' ?f" by (simp add: agree_on_def log_says_def)
  have look: "map_of c (filter_key ?f) = map_of c' (filter_key ?f)" by (rule similar_lookup[OF sim key])
  have new: "similar fk (evict_expired now ((filter_key ?f, out, now) # filter (\<lambda>e. fst e \<noteq> filter_key ?f) c))
      (evict_expired now ((filter_key ?f, out, now) # filter (\<lambda>e. fst e \<noteq> filter_key ?f) c'))" for out
    by (rule similar_evict) (simp add: similar_Cons similar_filter[OF sim])
  show ?thesis unfolding cached_member_breakdown_def d(1) cached_dims_cases Let_def look says
    using sim new by (auto split: option.splits)
qed

lemma fleet_query_agrees:
  assumes ag: "agree_on M ul ul'" and fk_def: "fk = usage_key dir from to' [] (ul_by_client ul)"
  shows "(case (fst (cached_usage_query ul now dir from to' [] c), fst (cached_usage_query ul' now dir from to' [] c)) of
        (None, None) \<Rightarrow> True | (Some r, Some r') \<Rightarrow> \<forall>k \<in> M. bucket (ur_by_client r) k = bucket (ur_by_client r') k | _ \<Rightarrow> False) \<and>
      similar fk (snd (cached_usage_query ul now dir from to' [] c)) (snd (cached_usage_query ul' now dir from to' [] c))"
proof -
  let ?f = "usage_filter dir from to' [] (ul_by_client ul)"
  have d: "ul_by_client ul' = ul_by_client ul" using ag by (auto simp: agree_on_def)
  have key: "filter_key ?f = fk" by (simp add: fk_def filter_key_def usage_filter_def)
  have "f_client ?f = []" by (simp add: usage_filter_def)
  with ag have q: "case (ul_query ul ?f, ul_query ul' ?f) of
      (None, None) \<Rightarrow> True | (Some r, Some r') \<Rightarrow> \<forall>k \<in> M. bucket (res_by_client r) k = bucket (res_by_client r') k | _ \<Rightarrow> False"
    by (simp add: agree_on_def)
  have new: "similar fk (evict_expired now ((fk, out, now) # filter (\<lambda>e. fst e \<noteq> fk) c))
      (evict_expired now ((fk, out', now) # filter (\<lambda>e. fst e \<noteq> fk) c))" for out out'
    by (rule similar_evict) (simp add: similar_Cons)
  show ?thesis unfolding cached_usage_query_def d cached_dims_cases Let_def key
    using q new by (auto simp: log_says_def split: option.splits)
qed

lemma merge_members_agree:
  assumes ag: "agree_on M ul ul'" and fk: "fk = usage_key dir0 from0 to0 client0 (ul_by_client ul)"
  shows "set ms \<subseteq> M \<Longrightarrow> similar fk c c' \<Longrightarrow> fst (merge_members ul now dir from to' ms b c) = fst (merge_members ul' now dir from to' ms b c')"
proof (induction ms arbitrary: b c c')
  case (Cons m ms)
  obtain model day failed where b: "b = (model, day, failed)" by (cases b)
  note q = member_query_agrees[OF ag Cons.prems(2) _ fk, of m now dir "from" to']
  obtain r c1 where q1: "cached_member_breakdown ul now dir from to' m c = (r, c1)" by fastforce
  obtain r' c1' where q2: "cached_member_breakdown ul' now dir from to' m c' = (r', c1')" by fastforce
  have "r' = r" "similar fk c1 c1'" using q Cons.prems(1) by (simp_all add: q1 q2)
  with Cons show ?case by (simp add: b q1 q2 split: option.split)
qed simp

lemma active_masks_subset:
  "set (fst (active_masks ms active capped)) \<subseteq> set active \<union> mu_masked ` {m \<in> set ms. \<not> mu_unmeasurable m}"
  by (induction ms active capped rule: active_masks.induct) auto

lemma fold_count_member:
  "gu_by_member (fold count_member mus g) = gu_by_member g @ mus \<and> gu_notes (fold count_member mus g) = gu_notes g \<and>
   gu_partial (fold count_member mus g) = gu_partial g \<and>
   ag_count (gu_total (fold count_member mus g)) = ag_count (gu_total g) + (\<Sum>m \<leftarrow> filter (\<lambda>m. \<not> mu_unmeasurable m) mus. ag_count (mu_agg m))"
  by (induction mus arbitrary: g) (simp_all add: count_member_def Let_def add_aggregate_def)

lemma fold_count_frame: "gu_from (fold count_member mus g) = gu_from g" "gu_to (fold count_member mus g) = gu_to g"
  by (induction mus arbitrary: g) (simp_all add: count_member_def Let_def)

lemma usage_totals_members:
  "mset (gu_by_member (usage_totals ul inp f t fleet)) = mset (map (usage_member inp (fst fleet)) (in_members inp))"
  by (cases fleet)
    (simp add: usage_totals_def Let_def sort_member_usage_def mset_order_by degrade_def fold_count_member)

lemma usage_member_agrees:
  assumes "m \<in> set ms" "\<forall>k \<in> masks_of ms. bucket b k = bucket b' k"
  shows "usage_member inp b m = usage_member inp b' m"
  using assms by (auto simp: usage_member_def Let_def masks_of_def)

text \<open>What a team is shown is a function of its own members' rows: two logs that agree on the masks of
  its measurable members give the same view (totals, rows, models, days, notes), however much they
  differ on anybody else, short tokens that share the opaque mask included.\<close>

theorem team_sees_only_itself:
  assumes "agree_on (masks_of (in_members inp)) ul ul'"
  shows "fst (compute_group_usage ul now inp c) = fst (compute_group_usage ul' now inp c)"
proof -
  let ?M = "masks_of (in_members inp)"
  note ag = assms
  have conf: "ul_offset ul' = ul_offset ul" "ul_zone ul' = ul_zone ul" "ul_completion ul' = ul_completion ul"
    and honest: "set (ul_completion ul xs) \<subseteq> set xs" for xs
    using ag by (auto simp: agree_on_def)
  have step: "fst (usage_breakdown ul now inp (usage_totals ul inp f t fl) c1) = fst (usage_breakdown ul' now inp (usage_totals ul' inp f t fl') c1')"
    if fl: "fleet_pass ul now inp f t c = (fl, c1)" "fleet_pass ul' now inp f t c = (fl', c1')" for f t fl fl' c1 c1'
  proof -
    define fk where "fk = usage_key (in_log_dir inp) f t [] (ul_by_client ul)"
    have fleet: "snd fl' = snd fl \<and> (\<forall>k \<in> ?M. bucket (fst fl) k = bucket (fst fl') k) \<and> similar fk c1 c1'"
      using fl fleet_query_agrees[OF ag fk_def, of now c]
      by (auto simp: fleet_pass_def split: if_splits prod.splits option.splits)
    obtain b n b' where e: "fl = (b, n)" "fl' = (b', n)" using fleet by (cases fl; cases fl') auto
    have mus: "map (usage_member inp b') (in_members inp) = map (usage_member inp b) (in_members inp)"
      using fleet usage_member_agrees[of _ "in_members inp" b b' inp] by (simp add: e)
    have g: "usage_totals ul' inp f t fl' = usage_totals ul inp f t fl"
      unfolding e usage_totals_def prod.case mus conf ..
    let ?g = "usage_totals ul inp f t fl"
    have from_to: "gu_from ?g = f" "gu_to ?g = t"
      by (cases fl; simp add: usage_totals_def Let_def degrade_def fold_count_frame)+
    have rows: "mu_masked m \<in> ?M" if "m \<in> set (gu_by_member ?g)" "\<not> mu_unmeasurable m" for m
    proof -
      from that(1) have "m \<in> set (map (usage_member inp (fst fl)) (in_members inp))"
        unfolding mset_eq_setD[OF usage_totals_members] .
      with that(2) show ?thesis by (auto simp: usage_member_def Let_def masks_of_def)
    qed
    obtain act capped where act: "active_masks (gu_by_member ?g) [] 0 = (act, capped)" by fastforce
    have "set act \<subseteq> ?M" using active_masks_subset[of "gu_by_member ?g" "[]" 0] rows act by auto
    then have "set (ul_completion ul act) \<subseteq> ?M" using honest by blast
    then have "fst (merge_members ul now (in_log_dir inp) f t (ul_completion ul act) ([], [], False) c1) =
        fst (merge_members ul' now (in_log_dir inp) f t (ul_completion ul act) ([], [], False) c1')"
      using fleet by (intro merge_members_agree[OF ag fk_def]) simp_all
    then show ?thesis unfolding g usage_breakdown_def from_to Let_def
      by (auto simp: group_breakdown_def act conf split: prod.splits)
  qed
  show ?thesis
  proof (cases "normalize_window (ul_offset ul) now (in_from inp) (in_to inp)")
    case (Inr ft)
    obtain f t where ft: "ft = (f, t)" by (cases ft)
    obtain fl c1 fl' c1' where "fleet_pass ul now inp f t c = (fl, c1)" "fleet_pass ul' now inp f t c = (fl', c1')" by fastforce
    with step[OF this] Inr ft conf(1) show ?thesis by (simp add: compute_group_usage_def split: prod.splits) (metis fst_conv)
  qed (simp add: compute_group_usage_def conf)
qed

definition sample_team :: group_usage_input where
  "sample_team = \<lparr>in_log_dir = ''logs'', in_log_indexed = True, in_from = ''2024-03-01'', in_to = ''2024-03-01'',
     in_members = [\<lparr>gm_token = ''sk-alice-0001'', gm_label = ''Alice'', gm_role = ''admin''\<rparr>, \<lparr>gm_token = ''short'', gm_label = ''Bob'', gm_role = ''member''\<rparr>],
     in_pool = Map.empty, in_personal = Map.empty, in_breakdown = True\<rparr>"

definition busy_log :: usage_log where
  "busy_log = sample_log\<lparr>ul_query := (\<lambda>f. Some \<lparr>res_by_client = (if f_client f = [] then [(''***'', zero_aggregate\<lparr>ag_count := 7\<rparr>)] else []),
     res_by_model = [], res_by_day = [], res_entries = []\<rparr>)\<rparr>"

theorem team_sees_only_itself_witness:
  "fst (compute_group_usage sample_log 0 sample_team []) = fst (compute_group_usage busy_log 0 sample_team [])"
proof (rule team_sees_only_itself)
  have "masks_of (in_members sample_team) = {token_mask ''sk-alice-0001''}"
    by (auto simp: masks_of_def sample_team_def token_mask_def MinDistinguishableLen_def Opaque_def)
  moreover have "token_mask ''sk-alice-0001'' \<noteq> ''***''" "token_mask ''sk-alice-0001'' \<noteq> []" by code_simp+
  ultimately show "agree_on (masks_of (in_members sample_team)) sample_log busy_log"
    by (auto simp: agree_on_def sample_log_def busy_log_def bucket_def)
qed

section \<open>The totals\<close>

definition flags_agree :: "group_usage \<Rightarrow> bool" where
  "flags_agree g \<longleftrightarrow> (gu_partial g \<longleftrightarrow> gu_notes g \<noteq> [])"

lemma degrade_frame [simp]:
  "gu_by_member (degrade n g) = gu_by_member g" "gu_total (degrade n g) = gu_total g" "flags_agree (degrade n g)"
  "gu_notes (degrade n g) = gu_notes g @ [n]"
  by (simp_all add: degrade_def flags_agree_def)

lemma usage_breakdown_frame:
  "gu_by_member (fst (usage_breakdown ul now inp g c)) = gu_by_member g"
  "gu_total (fst (usage_breakdown ul now inp g c)) = gu_total g"
  "flags_agree g \<Longrightarrow> flags_agree (fst (usage_breakdown ul now inp g c))"
  "set (gu_notes g) \<subseteq> set (gu_notes (fst (usage_breakdown ul now inp g c)))"
  by (auto simp: usage_breakdown_def Let_def flags_agree_def degrade_def split: prod.splits)

lemma sum_list_measured:
  "(\<And>m. m \<in> set ms \<Longrightarrow> mu_unmeasurable m \<Longrightarrow> ag_count (mu_agg m) = 0) \<Longrightarrow>
   (\<Sum>m \<leftarrow> filter (\<lambda>m. \<not> mu_unmeasurable m) ms. ag_count (mu_agg m)) = (\<Sum>m \<leftarrow> ms. ag_count (mu_agg m))"
  by (induction ms) auto

lemma usage_totals_frame:
  fixes ul inp f t fleet
  defines "g \<equiv> usage_totals ul inp f t fleet" and "mus \<equiv> map (usage_member inp (fst fleet)) (in_members inp)"
  shows "flags_agree g" "set (snd fleet) \<subseteq> set (gu_notes g)"
    "ag_count (gu_total g) = (\<Sum>m \<leftarrow> filter (\<lambda>m. \<not> mu_unmeasurable m) mus. ag_count (mu_agg m))"
    "\<exists>m \<in> set mus. mu_unmeasurable m \<Longrightarrow> gu_notes g \<noteq> []"
proof -
  obtain b n where fleet: "fleet = (b, n)" by (cases fleet)
  define g0 where "g0 = \<lparr>gu_from = f, gu_to = t, gu_timezone = ul_zone ul, gu_total = zero_aggregate, gu_pool_usd = 0,
              gu_personal_usd = 0, gu_by_member = [], gu_by_model = [], gu_by_day = [], gu_partial = n \<noteq> [], gu_notes = n\<rparr>"
  define g1 where "g1 = fold count_member mus g0"
  have g1: "flags_agree g1" "gu_notes g1 = n"
    "ag_count (gu_total g1) = (\<Sum>m \<leftarrow> filter (\<lambda>m. \<not> mu_unmeasurable m) mus. ag_count (mu_agg m))"
    by (simp_all add: g1_def fold_count_member flags_agree_def g0_def zero_aggregate_def)
  define g2 where "g2 = (if 0 < length (filter mu_unmeasurable mus) then degrade (Unmeasurable_members (length (filter mu_unmeasurable mus))) g1 else g1)"
  define g3 where "g3 = (if fadd (ag_billed_usd (gu_total g2)) ledgerVsLogEpsilonUSD < gu_pool_usd g2 then degrade Pool_above_total g2 else g2)"
  have g: "g = g3\<lparr>gu_by_member := sort_member_usage (gu_by_member g3)\<rparr>"
    unfolding g_def fleet usage_totals_def g3_def g2_def g1_def g0_def mus_def by (simp only: Let_def prod.case fst_conv)
  have g2: "flags_agree g2" "set n \<subseteq> set (gu_notes g2)" "gu_total g2 = gu_total g1"
    "\<exists>m \<in> set mus. mu_unmeasurable m \<Longrightarrow> gu_notes g2 \<noteq> []"
    using g1(1,2) by (auto simp: g2_def filter_empty_conv)
  have g3: "flags_agree g3" "set n \<subseteq> set (gu_notes g3)" "gu_total g3 = gu_total g1"
    "\<exists>m \<in> set mus. mu_unmeasurable m \<Longrightarrow> gu_notes g3 \<noteq> []"
    using g2 by (auto simp: g3_def)
  show "flags_agree g" "set (snd fleet) \<subseteq> set (gu_notes g)"
    "ag_count (gu_total g) = (\<Sum>m \<leftarrow> filter (\<lambda>m. \<not> mu_unmeasurable m) mus. ag_count (mu_agg m))"
    "\<exists>m \<in> set mus. mu_unmeasurable m \<Longrightarrow> gu_notes g \<noteq> []"
    using g3 g1(3) by (simp_all add: g flags_agree_def fleet)
qed

lemma text_less_asym: "text_less s t \<Longrightarrow> \<not> text_less t s"
  using text_less_trans text_less_irrefl by blast

lemma text_less_trans_neg: "text_less s t \<Longrightarrow> \<not> text_less u t \<Longrightarrow> text_less s u"
  by (metis text_less_total text_less_trans)

lemma order_by_sorted:
  assumes "\<And>a b. lt a b \<Longrightarrow> \<not> lt b a" "\<And>a b c. lt a b \<Longrightarrow> \<not> lt c b \<Longrightarrow> lt a c"
  shows "sorted_wrt (\<lambda>a b. \<not> lt b a) (order_by lt xs)"
proof -
  have ins: "sorted_wrt (\<lambda>a b. \<not> lt b a) (order_insert lt x ys)" if "sorted_wrt (\<lambda>a b. \<not> lt b a) ys" for x ys
    using that
  proof (induction ys)
    case (Cons y ys)
    show ?case
    proof (cases "lt y x")
      case True with Cons assms(1) show ?thesis by auto
    next
      case False
      have "\<not> lt z x" if "z \<in> set ys" for z
        using that Cons.prems False assms(2)[of z x y] by auto
      with False Cons.prems show ?thesis by auto
    qed
  qed simp
  show ?thesis by (induction xs) (simp_all add: order_by_def ins)
qed

text \<open>Every member has one row; a row counts requests of that member alone, and none for a member that cannot
  be told apart; the team's requests are the sum of the rows; the rows come in order of spend; and
  the view says it is partial when a note says why, always if the log was unreadable or a member
  could not be measured.\<close>

theorem team_usage_adds_up:
  assumes "compute_group_usage ul now inp c = (Inr g, c')"
  shows "mset (map (\<lambda>m. (mu_masked m, mu_label m, mu_role m)) (gu_by_member g)) =
      mset (map (\<lambda>m. (token_mask (gm_token m), gm_label m, gm_role m)) (in_members inp)) \<and>
    (\<forall>m \<in> set (gu_by_member g). (mu_unmeasurable m \<longleftrightarrow> mu_masked m = Opaque) \<and> (mu_unmeasurable m \<longrightarrow> mu_agg m = zero_aggregate)) \<and>
    ag_count (gu_total g) = (\<Sum>m \<leftarrow> gu_by_member g. ag_count (mu_agg m)) \<and>
    sorted_wrt (\<lambda>a b. ag_billed_usd (mu_agg b) \<le> ag_billed_usd (mu_agg a)) (gu_by_member g) \<and>
    (gu_partial g \<longleftrightarrow> gu_notes g \<noteq> []) \<and>
    ((\<exists>m \<in> set (gu_by_member g). mu_unmeasurable m) \<or> in_log_dir inp = [] \<longrightarrow> gu_partial g)"
proof -
  from assms obtain f t fleet c1 where fl: "fleet_pass ul now inp f t c = (fleet, c1)"
    and g: "g = fst (usage_breakdown ul now inp (usage_totals ul inp f t fleet) c1)"
    by (auto simp: compute_group_usage_def split: sum.splits prod.splits)
  let ?t = "usage_totals ul inp f t fleet" and ?mus = "map (usage_member inp (fst fleet)) (in_members inp)"
  have rows: "gu_by_member g = gu_by_member ?t" "gu_total g = gu_total ?t" by (simp_all add: g usage_breakdown_frame)
  have perm: "mset (gu_by_member g) = mset ?mus" by (simp only: rows usage_totals_members)
  then have set_rows: "set (gu_by_member g) = set ?mus" by (metis set_mset_mset)
  have "mset (map (\<lambda>m. (mu_masked m, mu_label m, mu_role m)) (gu_by_member g)) = mset (map (\<lambda>m. (mu_masked m, mu_label m, mu_role m)) ?mus)"
    using perm by (metis mset_map)
  then have 1: "mset (map (\<lambda>m. (mu_masked m, mu_label m, mu_role m)) (gu_by_member g)) =
      mset (map (\<lambda>m. (token_mask (gm_token m), gm_label m, gm_role m)) (in_members inp))"
    by (simp only: map_map comp_def usage_member_def Let_def member_usage.simps)
  have 2: "(mu_unmeasurable m \<longleftrightarrow> mu_masked m = Opaque) \<and> (mu_unmeasurable m \<longrightarrow> mu_agg m = zero_aggregate)"
    if "m \<in> set (gu_by_member g)" for m
    using that unfolding set_rows by (auto simp: usage_member_def Let_def)
  have "(\<Sum>m \<leftarrow> filter (\<lambda>m. \<not> mu_unmeasurable m) ?mus. ag_count (mu_agg m)) = (\<Sum>m \<leftarrow> ?mus. ag_count (mu_agg m))"
  proof (rule sum_list_measured)
    fix m assume "m \<in> set ?mus" "mu_unmeasurable m"
    then have "mu_agg m = zero_aggregate" using 2 unfolding set_rows by blast
    then show "ag_count (mu_agg m) = 0" by (simp add: zero_aggregate_def)
  qed
  also have "\<dots> = (\<Sum>m \<leftarrow> gu_by_member g. ag_count (mu_agg m))"
    by (simp only: sum_mset_sum_list[symmetric] mset_map perm)
  finally have 3: "ag_count (gu_total g) = (\<Sum>m \<leftarrow> gu_by_member g. ag_count (mu_agg m))"
    unfolding rows(2) usage_totals_frame(3) .
  have "\<exists>ms. gu_by_member ?t = sort_member_usage ms" by (cases fleet) (auto simp: usage_totals_def Let_def)
  then obtain ms where ms: "gu_by_member g = sort_member_usage ms" using rows by auto
  have 4: "sorted_wrt (\<lambda>a b. ag_billed_usd (mu_agg b) \<le> ag_billed_usd (mu_agg a)) (gu_by_member g)"
    unfolding ms sort_member_usage_def
    by (rule sorted_wrt_mono_rel[OF _ order_by_sorted]) (auto simp: spends_more_def text_less_asym dest: text_less_trans_neg)
  have 5: "gu_partial g \<longleftrightarrow> gu_notes g \<noteq> []"
    using usage_breakdown_frame(3)[OF usage_totals_frame(1)] unfolding g flags_agree_def .
  have kept: "set (gu_notes ?t) \<subseteq> set (gu_notes g)" unfolding g by (rule usage_breakdown_frame(4))
  have "gu_notes ?t \<noteq> []" if "(\<exists>m \<in> set (gu_by_member g). mu_unmeasurable m) \<or> in_log_dir inp = []"
    using that
  proof
    assume "\<exists>m \<in> set (gu_by_member g). mu_unmeasurable m"
    then show ?thesis unfolding set_rows by (rule usage_totals_frame(4))
  next
    assume "in_log_dir inp = []"
    then have "snd fleet \<noteq> []" using fl by (auto simp: fleet_pass_def)
    then show ?thesis using usage_totals_frame(2)[of fleet ul inp f t] by auto
  qed
  then have 6: "(\<exists>m \<in> set (gu_by_member g). mu_unmeasurable m) \<or> in_log_dir inp = [] \<longrightarrow> gu_partial g"
    using 5 kept by (metis subset_empty set_empty)
  from 1 2 3 4 5 6 show ?thesis by blast
qed

lemma compute_group_usage_ok:
  "normalize_window (ul_offset ul) now (in_from inp) (in_to inp) = Inr (f, t) \<Longrightarrow> \<exists>g c'. compute_group_usage ul now inp c = (Inr g, c')"
  by (simp add: compute_group_usage_def split: prod.splits)

theorem team_usage_adds_up_witness:
  "(case compute_group_usage busy_log 0 sample_team [] of (Inr g, _) \<Rightarrow> gu_partial g \<and> length (gu_by_member g) = 2 | _ \<Rightarrow> False)"
proof -
  have p: "parse_date ''2024-03-01'' = Some 19783" by code_simp
  have w: "normalize_window 28800 0 ''2024-03-01'' ''2024-03-01'' = Inr (''2024-03-01'', ''2024-03-01'')"
    by (rule normalize_window_accepts[OF p p]) (simp_all add: maxUsageWindowDays_def)
  obtain g c where g: "compute_group_usage busy_log 0 sample_team [] = (Inr g, c)"
    using compute_group_usage_ok[of busy_log 0 sample_team "''2024-03-01''" "''2024-03-01''" "[]"] w
    by (auto simp: sample_team_def busy_log_def sample_log_def)
  have "size (mset (map (\<lambda>m. (mu_masked m, mu_label m, mu_role m)) (gu_by_member g))) = 2"
    unfolding team_usage_adds_up[OF g, THEN conjunct1] by (simp add: sample_team_def)
  moreover have "Opaque \<in> mu_masked ` set (gu_by_member g)"
  proof -
    have "(Opaque, ''Bob'', ''member'') \<in># mset (map (\<lambda>m. (mu_masked m, mu_label m, mu_role m)) (gu_by_member g))"
      unfolding team_usage_adds_up[OF g, THEN conjunct1] by (simp add: sample_team_def token_mask_def MinDistinguishableLen_def)
    then show ?thesis by auto
  qed
  ultimately show ?thesis using team_usage_adds_up[OF g] by (auto simp: g)
qed

end
