(* ===== verification/Statement.thy ===== *)
theory Statement
  imports UsageFacts
begin

text \<open>
  The documents that itemise what was spent (\<open>internal/statement/statement.go\<close> and \<open>group.go\<close>): a
  token's statement, filled row by row (\<open>observe\<close>) or from figures summed elsewhere
  (\<open>set_range_totals\<close>), and a team's. The tally of models is a Go map; its entries are kept in the
  order of insertion here, and \<open>rollup\<close> sorts them by spend and name, which leaves no tie.
  Instants are nanoseconds since 1970; the zero time is none.
\<close>

definition MaxDetailLines :: nat where "MaxDetailLines = 3000"

record line =
  ln_ts :: int
  ln_provider :: string
  ln_model :: string
  ln_input :: int
  ln_output :: int
  ln_cache_read :: int
  ln_billed_cny :: float64
  ln_status :: int
  ln_member :: string
  ln_member_label :: string

record model_row =
  mr_model :: string
  mr_requests :: int
  mr_billed_cny :: float64

section \<open>A token's statement\<close>

record statement =
  st_token_masked :: string
  st_token_name :: string
  st_group :: string
  st_from_day :: string
  st_to_day :: string
  st_tz_name :: string
  st_generated_at :: int
  st_by_target :: bool
  st_target_cny :: float64
  st_range :: "(int \<times> int) option"
  st_total_paid_cny :: float64
  st_cny_per_usd :: float64
  st_requests :: int
  st_billed_cny :: float64
  st_lifetime_requests :: int
  st_lifetime_billed_cny :: float64
  st_lifetime_days :: int
  st_unitemised_cny :: float64
  st_charged_cny :: float64
  st_by_model :: "model_row list"
  st_tally :: "model_row list"
  st_lines :: "line list"
  st_lines_truncated :: bool
  st_has_token_detail :: bool

definition unknown_model :: string where "unknown_model = ''(unknown)''"

definition model_name :: "string \<Rightarrow> string" where
  "model_name m = (if m = [] then unknown_model else m)"

text \<open>Adding to the row of a model, which is created when it is missing.\<close>

fun tally :: "string \<Rightarrow> int \<Rightarrow> float64 \<Rightarrow> model_row list \<Rightarrow> model_row list" where
  "tally m n x [] = [\<lparr>mr_model = m, mr_requests = n, mr_billed_cny = x\<rparr>]"
| "tally m n x (r # rs) = (if mr_model r = m
     then r\<lparr>mr_requests := mr_requests r + n, mr_billed_cny := fadd (mr_billed_cny r) x\<rparr> # rs
     else r # tally m n x rs)"

text \<open>A new row of \<open>Observe\<close> starts from zero and the charge is added to it; one of \<open>SetRangeTotals\<close> is copied.\<close>

definition observe :: "string \<Rightarrow> float64 \<Rightarrow> statement \<Rightarrow> statement" where
  "observe model billed s = s\<lparr>st_requests := st_requests s + 1, st_billed_cny := fadd (st_billed_cny s) billed,
     st_tally := (let m = model_name model in
       if \<exists>r \<in> set (st_tally s). mr_model r = m then tally m 1 billed (st_tally s) else tally m 1 (fadd 0 billed) (st_tally s))\<rparr>"

definition set_range_totals :: "int \<Rightarrow> float64 \<Rightarrow> model_row list \<Rightarrow> statement \<Rightarrow> statement" where
  "set_range_totals n billed rows s = s\<lparr>st_requests := n, st_billed_cny := billed,
     st_tally := fold (\<lambda>r. tally (model_name (mr_model r)) (mr_requests r) (mr_billed_cny r)) rows []\<rparr>"

definition dearer_model :: "model_row \<Rightarrow> model_row \<Rightarrow> bool" where
  "dearer_model = spends_more mr_billed_cny mr_model"

definition has_tokens :: "line \<Rightarrow> bool" where
  "has_tokens l \<longleftrightarrow> ln_input l \<noteq> 0 \<or> ln_output l \<noteq> 0 \<or> ln_cache_read l \<noteq> 0"

definition rollup :: "statement \<Rightarrow> statement" where
  "rollup s = s\<lparr>st_has_token_detail := list_ex has_tokens (st_lines s), st_by_model := order_by dearer_model (st_tally s)\<rparr>"

section \<open>A team's statement\<close>

record member_line =
  ml_masked :: string
  ml_label :: string
  ml_role :: string
  ml_requests :: int
  ml_billed_cny :: float64
  ml_pool_ledger_cny :: float64
  ml_personal_ledger_cny :: float64
  ml_unmeasurable :: bool

record group_statement =
  gs_workspace_id :: int
  gs_workspace_name :: string
  gs_admin_masked :: string
  gs_admin_label :: string
  gs_from_day :: string
  gs_to_day :: string
  gs_tz_name :: string
  gs_generated_at :: int
  gs_purpose :: string
  gs_cny_per_usd :: float64
  gs_requests :: int
  gs_billed_cny :: float64
  gs_lifetime_requests :: int
  gs_lifetime_billed_cny :: float64
  gs_lifetime_days :: int
  gs_unitemised_cny :: float64
  gs_charged_cny :: float64
  gs_partial :: bool
  gs_notes :: "usage_note list"
  gs_by_member :: "member_line list"
  gs_by_model :: "model_row list"
  gs_itemised :: bool
  gs_lines :: "line list"
  gs_lines_truncated :: bool

definition member_count :: "group_statement \<Rightarrow> nat" where
  "member_count g = length (gs_by_member g)"

definition set_group_totals :: "int \<Rightarrow> float64 \<Rightarrow> member_line list \<Rightarrow> model_row list \<Rightarrow> group_statement \<Rightarrow> group_statement" where
  "set_group_totals n billed members models g = g\<lparr>gs_requests := n, gs_billed_cny := billed,
     gs_by_member := members, gs_by_model := models\<rparr>"

text \<open>Both sorts are stable.\<close>

definition group_rollup :: "group_statement \<Rightarrow> group_statement" where
  "group_rollup g = g\<lparr>gs_by_member := order_by (spends_more ml_billed_cny ml_masked) (gs_by_member g),
     gs_by_model := order_by dearer_model (map (\<lambda>r. r\<lparr>mr_model := model_name (mr_model r)\<rparr>) (gs_by_model g))\<rparr>"

section \<open>Both ways of filling a statement agree\<close>

text \<open>\<open>per_model rows\<close> is what a log sums beforehand: for each name the number of its rows and their
  charges added in the order of the rows.\<close>

definition charges_of :: "string \<Rightarrow> (string \<times> float64) list \<Rightarrow> float64 list" where
  "charges_of m rows = map snd (filter (\<lambda>r. model_name (fst r) = m) rows)"

definition summed_row :: "(string \<times> float64) list \<Rightarrow> string \<Rightarrow> model_row" where
  "summed_row rows m = \<lparr>mr_model = m, mr_requests = int (length (charges_of m rows)), mr_billed_cny = foldl fadd 0 (charges_of m rows)\<rparr>"

definition is_summed :: "(string \<times> float64) list \<Rightarrow> model_row list \<Rightarrow> bool" where
  "is_summed rows t \<longleftrightarrow> distinct (map mr_model t) \<and> set t = summed_row rows ` (model_name \<circ> fst) ` set rows"

lemma tally_new: "(\<forall>r \<in> set t. mr_model r \<noteq> m) \<Longrightarrow> tally m n x t = t @ [\<lparr>mr_model = m, mr_requests = n, mr_billed_cny = x\<rparr>]"
  by (induction t) auto

lemma tally_known:
  "distinct (map mr_model t) \<Longrightarrow> r \<in> set t \<Longrightarrow> mr_model r = m \<Longrightarrow> tally m n x t = map (\<lambda>r. if mr_model r = m
     then r\<lparr>mr_requests := mr_requests r + n, mr_billed_cny := fadd (mr_billed_cny r) x\<rparr> else r) t"
proof (induction t)
  case (Cons a t)
  show ?case
  proof (cases "mr_model a = m")
    case True
    from Cons.prems(1) have "mr_model a \<notin> mr_model ` set t" by simp
    with True have "\<forall>r \<in> set t. mr_model r \<noteq> m" by (metis imageI)
    then have "map (\<lambda>r. if mr_model r = m then r\<lparr>mr_requests := mr_requests r + n, mr_billed_cny := fadd (mr_billed_cny r) x\<rparr> else r) t = t"
      by (intro map_idI) auto
    with True show ?thesis by simp
  qed (use Cons in auto)
qed simp

lemma sum_tally: "sum_list (map mr_requests (tally m n x t)) = sum_list (map mr_requests t) + n"
  by (induction t) auto

lemma is_summed_Nil: "is_summed [] []"
  by (simp add: is_summed_def)

lemma charges_of_snoc: "charges_of m (rows @ [(k, x)]) = charges_of m rows @ (if model_name k = m then [x] else [])"
  by (simp add: charges_of_def)

lemma charges_of_none: "m \<notin> (model_name \<circ> fst) ` set rows \<Longrightarrow> charges_of m rows = []"
  by (auto simp: charges_of_def filter_empty_conv)

lemma summed_row_other: "model_name k \<noteq> m \<Longrightarrow> summed_row (rows @ [(k, x)]) m = summed_row rows m"
  by (simp add: summed_row_def charges_of_snoc)

lemma names_summed: "is_summed rows t \<Longrightarrow> set (map mr_model t) = (model_name \<circ> fst) ` set rows"
  by (simp add: is_summed_def image_image summed_row_def)

lemma observe_summed:
  assumes t: "is_summed rows (st_tally s)"
  shows "is_summed (rows @ [(k, x)]) (st_tally (observe k x s))"
proof (cases "\<exists>r \<in> set (st_tally s). mr_model r = model_name k")
  case True
  then obtain r where r: "r \<in> set (st_tally s)" "mr_model r = model_name k" by blast
  let ?f = "\<lambda>r. if mr_model r = model_name k then r\<lparr>mr_requests := mr_requests r + 1, mr_billed_cny := fadd (mr_billed_cny r) x\<rparr> else r"
  have d: "distinct (map mr_model (st_tally s))" using t by (simp add: is_summed_def)
  have o: "st_tally (observe k x s) = map ?f (st_tally s)"
    using True tally_known[OF d r] by (simp add: observe_def Let_def)
  have same: "mr_model \<circ> ?f = mr_model" by auto
  have "distinct (map mr_model (map ?f (st_tally s)))" unfolding map_map same by (rule d)
  moreover have f: "?f (summed_row rows m) = summed_row (rows @ [(k, x)]) m" for m
    by (auto simp: summed_row_def charges_of_snoc)
  have "model_name k \<in> (model_name \<circ> fst) ` set rows" using names_summed[OF t] r by force
  then have n: "(model_name \<circ> fst) ` set (rows @ [(k, x)]) = (model_name \<circ> fst) ` set rows" by auto
  have "?f ` summed_row rows ` (model_name \<circ> fst) ` set rows = summed_row (rows @ [(k, x)]) ` (model_name \<circ> fst) ` set rows"
    unfolding image_image using f by (intro image_cong refl) blast
  then have "set (map ?f (st_tally s)) = summed_row (rows @ [(k, x)]) ` (model_name \<circ> fst) ` set rows"
    using t unfolding is_summed_def by (simp only: set_map)
  then have "set (map ?f (st_tally s)) = summed_row (rows @ [(k, x)]) ` (model_name \<circ> fst) ` set (rows @ [(k, x)])"
    unfolding n .
  ultimately show ?thesis by (simp add: is_summed_def o)
next
  case False
  let ?new = "\<lparr>mr_model = model_name k, mr_requests = 1, mr_billed_cny = fadd 0 x\<rparr>"
  have o: "st_tally (observe k x s) = st_tally s @ [?new]"
    using False tally_new[of "st_tally s" "model_name k"] by (auto simp: observe_def Let_def)
  have n: "model_name k \<notin> (model_name \<circ> fst) ` set rows" using names_summed[OF t] False by force
  then have "summed_row (rows @ [(k, x)]) (model_name k) = ?new" by (simp add: summed_row_def charges_of_snoc charges_of_none)
  moreover have "summed_row (rows @ [(k, x)]) ` (model_name \<circ> fst) ` set rows = summed_row rows ` (model_name \<circ> fst) ` set rows"
    using n by (intro image_cong summed_row_other) auto
  moreover have "model_name k \<notin> mr_model ` set (st_tally s)" using False by auto
  ultimately show ?thesis using t by (auto simp: is_summed_def o)
qed

definition observe_all :: "(string \<times> float64) list \<Rightarrow> statement \<Rightarrow> statement" where
  "observe_all rows s = fold (\<lambda>(m, x). observe m x) rows s"

definition blank :: "statement \<Rightarrow> bool" where
  "blank s \<longleftrightarrow> st_requests s = 0 \<and> st_billed_cny s = 0 \<and> st_tally s = []"

lemma observe_all_totals:
  assumes "blank s"
  shows "is_summed rows (st_tally (observe_all rows s)) \<and> st_requests (observe_all rows s) = int (length rows) \<and>
    st_billed_cny (observe_all rows s) = foldl fadd 0 (map snd rows) \<and>
    sum_list (map mr_requests (st_tally (observe_all rows s))) = int (length rows)"
proof (induction rows rule: rev_induct)
  case Nil with assms show ?case by (simp add: observe_all_def blank_def is_summed_Nil)
next
  case (snoc r rows)
  obtain k x where r: "r = (k, x)" by (cases r)
  have "observe_all (rows @ [r]) s = observe k x (observe_all rows s)" by (simp add: observe_all_def r)
  with snoc observe_summed[of rows "observe_all rows s" k x] show ?case
    by (simp add: r) (simp add: observe_def Let_def sum_tally)
qed

lemma set_range_totals_tally:
  assumes "distinct (map (model_name \<circ> mr_model) t)"
  shows "st_tally (set_range_totals n b t s) = map (\<lambda>r. r\<lparr>mr_model := model_name (mr_model r)\<rparr>) t"
proof -
  have "fold (\<lambda>r. tally (model_name (mr_model r)) (mr_requests r) (mr_billed_cny r)) t acc = acc @ map (\<lambda>r. r\<lparr>mr_model := model_name (mr_model r)\<rparr>) t"
    if "distinct (map mr_model acc @ map (model_name \<circ> mr_model) t)" for acc
    using that
  proof (induction t arbitrary: acc)
    case (Cons r t)
    have "model_name (mr_model r) \<notin> mr_model ` set acc" using Cons.prems by auto
    then have "\<forall>q \<in> set acc. mr_model q \<noteq> model_name (mr_model r)" by (metis imageI)
    then have "tally (model_name (mr_model r)) (mr_requests r) (mr_billed_cny r) acc = acc @ [r\<lparr>mr_model := model_name (mr_model r)\<rparr>]"
      by (subst tally_new) simp_all
    with Cons show ?case by simp
  qed simp
  from this[of "[]"] assms show ?thesis by (simp add: set_range_totals_def)
qed

lemma sorted_unique:
  assumes "sorted_wrt P xs" "sorted_wrt P ys" "mset xs = mset ys" and anti: "\<And>a b. a \<in> set xs \<Longrightarrow> b \<in> set xs \<Longrightarrow> P a b \<Longrightarrow> P b a \<Longrightarrow> a = b"
  shows "xs = ys"
  using assms
proof (induction xs arbitrary: ys)
  case (Cons x xs)
  from Cons.prems(3) obtain y ys' where ys: "ys = y # ys'" by (cases ys) auto
  have sets: "set (x # xs) = set (y # ys')" using Cons.prems(3) ys by (metis set_mset_mset)
  have "x = y"
  proof (rule ccontr)
    assume "x \<noteq> y"
    with sets have "y \<in> set xs" "x \<in> set ys'" by auto
    then have "P x y" "P y x" using Cons.prems(1,2) ys by auto
    with Cons.prems(4)[of x y] \<open>y \<in> set xs\<close> \<open>x \<noteq> y\<close> show False by auto
  qed
  moreover have "xs = ys'"
  proof (rule Cons.IH)
    show "mset xs = mset ys'" using Cons.prems(3) ys \<open>x = y\<close> by simp
  qed (use Cons.prems ys in auto)
  ultimately show ?case using ys by simp
qed simp

lemma dearer_model_order: "\<not> dearer_model b a \<Longrightarrow> \<not> dearer_model a b \<Longrightarrow> mr_model a = mr_model b"
  by (auto simp: dearer_model_def spends_more_def dest: text_less_total)

lemma order_by_dearer: "sorted_wrt (\<lambda>a b. \<not> dearer_model b a) (order_by dearer_model xs)"
  by (rule order_by_sorted) (auto simp: dearer_model_def spends_more_def text_less_asym dest: text_less_trans_neg)

text \<open>The table does not depend on the order in which the map of names is visited.\<close>

lemma model_table_unique:
  assumes "distinct (map mr_model xs)" "distinct (map mr_model ys)" "set xs = set ys"
  shows "order_by dearer_model xs = order_by dearer_model ys"
proof (rule sorted_unique[OF order_by_dearer order_by_dearer])
  show "mset (order_by dearer_model xs) = mset (order_by dearer_model ys)"
    using assms by (simp add: mset_order_by set_eq_iff_mset_eq_distinct[symmetric] distinct_map)
  fix a b assume "a \<in> set (order_by dearer_model xs)" "b \<in> set (order_by dearer_model xs)" "\<not> dearer_model b a" "\<not> dearer_model a b"
  moreover from this have "mr_model a = mr_model b" by (intro dearer_model_order)
  ultimately have "a \<in> set xs" "b \<in> set xs" "mr_model a = mr_model b" by simp_all
  with assms(1) show "a = b" by (auto simp: distinct_map inj_on_def)
qed

text \<open>A statement over rows is the same whether every row is observed or the figures were summed before, in
  whatever order the sums are listed: the same totals and the same table, dearest model first; and the
  requests of the table add up to the requests of the statement.\<close>

theorem both_fillings_agree:
  assumes "blank s" and summed: "is_summed rows (map (\<lambda>r. r\<lparr>mr_model := model_name (mr_model r)\<rparr>) t)"
  shows "let a = rollup (observe_all rows s); b = rollup (set_range_totals (int (length rows)) (foldl fadd 0 (map snd rows)) t s)
    in st_by_model a = st_by_model b \<and> st_requests a = st_requests b \<and> st_billed_cny a = st_billed_cny b \<and>
       sum_list (map mr_requests (st_by_model a)) = st_requests a \<and> sorted_wrt (\<lambda>x y. \<not> dearer_model y x) (st_by_model a)"
proof -
  let ?t = "map (\<lambda>r. r\<lparr>mr_model := model_name (mr_model r)\<rparr>) t"
  note o = observe_all_totals[OF assms(1), of rows]
  have "distinct (map (model_name \<circ> mr_model) t)" using summed by (simp add: is_summed_def comp_def)
  then have b: "st_tally (set_range_totals n x t s) = ?t" for n x by (rule set_range_totals_tally)
  have "order_by dearer_model (st_tally (observe_all rows s)) = order_by dearer_model ?t"
    using o summed by (intro model_table_unique) (auto simp: is_summed_def)
  moreover have "sum_list (map mr_requests (order_by dearer_model (st_tally (observe_all rows s)))) = int (length rows)"
    using o by (simp only: sum_mset_sum_list[symmetric] mset_map mset_order_by)
  ultimately show ?thesis using o order_by_dearer by (simp add: rollup_def Let_def b) (simp add: set_range_totals_def)
qed

definition empty_statement :: statement where
  "empty_statement = \<lparr>st_token_masked = [], st_token_name = [], st_group = [], st_from_day = [], st_to_day = [], st_tz_name = [],
     st_generated_at = 0, st_by_target = False, st_target_cny = 0, st_range = None, st_total_paid_cny = 0, st_cny_per_usd = 7,
     st_requests = 0, st_billed_cny = 0, st_lifetime_requests = 0, st_lifetime_billed_cny = 0, st_lifetime_days = 90,
     st_unitemised_cny = 0, st_charged_cny = 0, st_by_model = [], st_tally = [], st_lines = [], st_lines_truncated = False,
     st_has_token_detail = False\<rparr>"

theorem both_fillings_agree_witness:
  "st_by_model (rollup (observe_all [(''m'', 1), ([], 3), (''m'', 2)] empty_statement)) =
   st_by_model (rollup (set_range_totals 3 6 [\<lparr>mr_model = [], mr_requests = 1, mr_billed_cny = 3\<rparr>,
      \<lparr>mr_model = ''m'', mr_requests = 2, mr_billed_cny = 3\<rparr>] empty_statement))"
proof -
  let ?rows = "[(''m'', 1), ([], 3), (''m'', 2)] :: (string \<times> float64) list"
  let ?t = "[\<lparr>mr_model = [], mr_requests = 1, mr_billed_cny = 3\<rparr>, \<lparr>mr_model = ''m'', mr_requests = 2, mr_billed_cny = 3\<rparr>]"
  have f: "foldl fadd 0 [1, 2] = (3 :: float64)" "foldl fadd 0 [3] = (3 :: float64)" "foldl fadd 0 [1, 3, 2] = (6 :: float64)"
    by code_simp+
  have "blank empty_statement" by (simp add: blank_def empty_statement_def)
  moreover have "is_summed ?rows (map (\<lambda>r. r\<lparr>mr_model := model_name (mr_model r)\<rparr>) ?t)"
    using f by (auto simp: is_summed_def summed_row_def charges_of_def model_name_def unknown_model_def)
  ultimately show ?thesis using both_fillings_agree[of empty_statement ?rows ?t] f(3) by (simp add: Let_def)
qed

end
