(* ===== verification/AdminLog.thy ===== *)
theory AdminLog
  imports Statement
begin

text \<open>
  How the panel reads the request log (\<open>internal/admin/admin.go\<close>): one cache of results shared by
  every endpoint, keyed by the text of the filter, holding at most \<open>requestsCacheMax\<close> answers. The
  log itself is cc-core's: \<open>rl_query\<close> answers a filter or fails with a text; the display zone is a fixed offset in
  seconds. Instants are nanoseconds since 1970; callers that ask for one key at the same time share
  one query, which a sequence of calls shows as one answer.
\<close>

section \<open>Filters and results\<close>

record query_filter =
  qf_from :: int
  qf_to :: int
  qf_from_day :: string
  qf_to_day :: string
  qf_client :: string
  qf_client_token :: string
  qf_model :: string
  qf_provider :: string
  qf_auth_id :: string
  qf_user_id :: int
  qf_status :: int
  qf_limit :: int
  qf_offset :: int
  qf_page_only :: bool
  qf_dims :: int

text \<open>The empty filter of a composite literal.\<close>

definition no_filter :: query_filter where
  "no_filter = \<lparr>qf_from = zero_time, qf_to = zero_time, qf_from_day = [], qf_to_day = [], qf_client = [], qf_client_token = [],
     qf_model = [], qf_provider = [], qf_auth_id = [], qf_user_id = 0, qf_status = 0, qf_limit = 0, qf_offset = 0,
     qf_page_only = False, qf_dims = 0\<rparr>"

record log_entry = log_row +
  le_client :: string
  le_client_token :: string
  le_auth_id :: string
  le_auth_label :: string
  le_auth_kind :: string
  le_cache_create :: int
  le_billed_usd :: float64
  le_multiplier :: float64
  le_duration_ms :: int
  le_stream :: bool

record query_result =
  qr_summary :: aggregate
  qr_by_client :: buckets
  qr_by_model :: buckets
  qr_by_day :: buckets
  qr_entries :: "log_entry list"

record request_log =
  rl_query :: "query_filter \<Rightarrow> string + query_result"
  rl_offset :: int
  rl_zone :: string

section \<open>The cache\<close>

definition requestsCacheTTL :: int where "requestsCacheTTL = 15 * second_ns"
definition requestsCacheMax :: nat where "requestsCacheMax = 256"
definition statusCacheTTL :: int where "statusCacheTTL = 60 * second_ns"

text \<open>\<open>t.UTC().Format(time.RFC3339)\<close>\<close>

definition format_instant :: "int \<Rightarrow> string" where
  "format_instant t = (let s = unix_seconds t; h = s mod 86400 in
     format_date (s div 86400) @ ''T'' @ int_pad 2 (h div 3600) @ '':'' @ int_pad 2 (h div 60 mod 60) @ '':'' @ int_pad 2 (h mod 60) @ ''Z'')"

definition req_cache_key :: "query_filter \<Rightarrow> string" where
  "req_cache_key f = join_with ''|'' [format_instant (qf_from f), format_instant (qf_to f), qf_from_day f, qf_to_day f, qf_client f,
     qf_client_token f, qf_model f, qf_provider f, qf_auth_id f, itoa (qf_user_id f), itoa (qf_status f), itoa (qf_limit f),
     itoa (qf_offset f), if qf_page_only f then ''true'' else ''false'']"

text \<open>An entry: key, answer, when it was put, when it expires.\<close>

type_synonym query_cache = "(string \<times> query_result \<times> int \<times> int) list"

definition make_room :: "int \<Rightarrow> query_cache \<Rightarrow> query_cache" where
  "make_room now c = (if length c < requestsCacheMax then c
     else let live = filter (\<lambda>(_, _, _, expires). now \<le> expires) c in if length live < requestsCacheMax then live else [])"

definition cached_query_shared :: "request_log \<Rightarrow> int \<Rightarrow> query_filter \<Rightarrow> int \<Rightarrow> query_cache \<Rightarrow> (string + query_result) \<times> query_cache" where
  "cached_query_shared rl now f ttl c = (let key = req_cache_key f;
       fetch = (case rl_query rl f of Inl e \<Rightarrow> (Inl e, c)
         | Inr r \<Rightarrow> (Inr r, (key, r, now, now + ttl) # filter (\<lambda>e. fst e \<noteq> key) (make_room now c)))
     in case map_of c key of None \<Rightarrow> fetch
        | Some (r, put, _) \<Rightarrow> if now - put < ttl then (Inr r, c) else fetch)"

text \<open>The copy \<open>cachedQuery\<close> makes is the same value.\<close>

definition cached_query :: "request_log \<Rightarrow> int \<Rightarrow> query_filter \<Rightarrow> query_cache \<Rightarrow> (string + query_result) \<times> query_cache" where
  "cached_query rl now f c = cached_query_shared rl now f requestsCacheTTL c"

section \<open>Display names\<close>

text \<open>A token of the panel, as far as it is read here, and the masks of the named ones; a later token
  overwrites an earlier one with the same mask.\<close>

record panel_token =
  pt_token :: string
  pt_name :: string

definition name_by_masked :: "panel_token list \<Rightarrow> string \<rightharpoonup> string" where
  "name_by_masked ts = map_of (rev (map (\<lambda>t. (token_mask (pt_token t), trim_space (pt_name t))) (filter (\<lambda>t. trim_space (pt_name t) \<noteq> []) ts)))"

text \<open>Merging two buckets of the same name: the billed amount and the hour-long cache writes stay those
  of the first.\<close>

definition merge_display :: "aggregate \<Rightarrow> aggregate \<Rightarrow> aggregate" where
  "merge_display a b = a\<lparr>ag_count := ag_count a + ag_count b, ag_input := ag_input a + ag_input b, ag_output := ag_output a + ag_output b,
     ag_cache_read := ag_cache_read a + ag_cache_read b, ag_cache_create := ag_cache_create a + ag_cache_create b,
     ag_cost_usd := fadd (ag_cost_usd a) (ag_cost_usd b), ag_errors := ag_errors a + ag_errors b,
     ag_duration_ms := ag_duration_ms a + ag_duration_ms b\<rparr>"

fun put_display :: "string \<Rightarrow> aggregate \<Rightarrow> buckets \<Rightarrow> buckets" where
  "put_display k v [] = [(k, v)]"
| "put_display k v ((k', a) # bs) = (if k' = k then (k', merge_display a v) # bs else (k', a) # put_display k v bs)"

text \<open>Rebuilding the buckets under other names, in the order the map is visited.\<close>

definition rename_buckets :: "(string \<Rightarrow> string) \<Rightarrow> buckets \<Rightarrow> buckets" where
  "rename_buckets name bs = fold (\<lambda>(k, v). put_display (name k) v) bs []"

definition remap_by_client :: "panel_token list \<Rightarrow> buckets \<Rightarrow> buckets" where
  "remap_by_client ts bs = rename_buckets (\<lambda>k. case name_by_masked ts k of None \<Rightarrow> k | Some n \<Rightarrow> n) bs"

text \<open>\<open>labels\<close> is the pool's index of a credential's current label and kind.\<close>

definition remap_display_names :: "panel_token list \<Rightarrow> (string \<rightharpoonup> string \<times> string) \<Rightarrow> log_entry list \<Rightarrow> log_entry list" where
  "remap_display_names ts labels es = map (\<lambda>e.
     let e1 = (case name_by_masked ts (le_client_token e) of None \<Rightarrow> e | Some n \<Rightarrow> e\<lparr>le_client := n\<rparr>) in
     if le_auth_id e1 = [] then e1
     else case labels (le_auth_id e1) of None \<Rightarrow> e1 | Some (label, kind) \<Rightarrow> e1\<lparr>le_auth_label := label, le_auth_kind := kind\<rparr>) es"

end
