(* ===== verification/InvoicePages.thy ===== *)
theory InvoicePages
  imports WalletPages Invoices
begin

text \<open>
  The invoice endpoints of a user (\<open>internal/saas/billing/invoices.go\<close>): the summary, saved titles
  with the remote name lookup and its cache, filing a request, the history and the download.
  The remote lookup's answer and the presence of a PDF on disk are arguments; mail to the
  operator is not modelled. \<open>now\<close> is a Unix second, and nanoseconds in the cache of the lookup.
\<close>

section \<open>Checking what was typed\<close>

definition is_likely_tax_no :: "string \<Rightarrow> bool" where
  "is_likely_tax_no s = (15 \<le> length s \<and> length s \<le> 20 \<and>
     list_all (\<lambda>c. let n = (of_char c :: nat) in (48 \<le> n \<and> n \<le> 57) \<or> (65 \<le> n \<and> n \<le> 90)) s)"

definition is_likely_email :: "string \<Rightarrow> bool" where
  "is_likely_email s0 = (let s = trim_space s0; pos = index_byte s CHR ''@'' in
     5 \<le> length s \<and> length s \<le> 254 \<and> 0 < pos \<and> pos \<noteq> int (length s) - 1 \<and>
     0 \<le> index_byte (drop (nat pos + 1) s) CHR ''.'')"

record title_body =
  tb_name :: string
  tb_tax_no :: string
  tb_address :: string
  tb_phone :: string
  tb_bank :: string
  tb_bank_account :: string

record create_invoice_body =
  cb_cny_amount :: float64
  cb_title :: title_body
  cb_contact_email :: string

definition title_of :: "string \<Rightarrow> title_body \<Rightarrow> invoice_title" where
  "title_of tok b = \<lparr>it_id = 0, it_token = tok, it_name = tb_name b, it_tax_no = tb_tax_no b, it_address = tb_address b,
     it_phone = tb_phone b, it_bank = tb_bank b, it_bank_account = tb_bank_account b, it_last_used_at = 0, it_created_at = 0\<rparr>"

definition amount_too_small :: string where
  "amount_too_small = ''cny_amount must be at least '' @ [CHR 0xC2, CHR 0xA5] @ ''0.01''"

definition tax_no_required :: string where
  "tax_no_required = ''title.tax_no required ('' @ [CHR 0xE7, CHR 0xBB, CHR 0x9F, CHR 0xE4, CHR 0xB8, CHR 0x80, CHR 0xE7, CHR 0xA4, CHR 0xBE, CHR 0xE4,
     CHR 0xBC, CHR 0x9A, CHR 0xE4, CHR 0xBF, CHR 0xA1, CHR 0xE7, CHR 0x94, CHR 0xA8, CHR 0xE4, CHR 0xBB, CHR 0xA3, CHR 0xE7, CHR 0xA0,
     CHR 0x81] @ '', 15-20 '' @ [CHR 0xE4, CHR 0xBD, CHR 0x8D, CHR 0xE5, CHR 0xAD, CHR 0x97, CHR 0xE6, CHR 0xAF, CHR 0x8D, CHR 0xE6,
     CHR 0x95, CHR 0xB0, CHR 0xE5, CHR 0xAD, CHR 0x97] @ '')''"

text \<open>The checks both invoice forms share: an error, or the amount in fen, the title and the address.\<close>

definition check_invoice_body :: "create_invoice_body \<Rightarrow> string + float64 \<times> invoice_title \<times> string" where
  "check_invoice_body b = (let cny = billing_round2 (cb_cny_amount b); tax = to_upper (trim_space (tb_tax_no (cb_title b))) in
     if cny < min_invoice_cny then Inl amount_too_small
     else if \<not> is_likely_email (cb_contact_email b) then Inl ''contact_email invalid''
     else if trim_space (tb_name (cb_title b)) = [] then Inl ''title.name required''
     else if \<not> is_likely_tax_no tax then Inl tax_no_required
     else Inr (cny, title_of [] ((cb_title b)\<lparr>tb_tax_no := tax\<rparr>), trim_space (cb_contact_email b)))"

section \<open>Views\<close>

definition invoice_user_view :: "invoice \<Rightarrow> (string \<times> json) list" where
  "invoice_user_view v =
     [(''id'', JInt (i_id v)), (''cny_amount'', JNum (i_cny_amount v)), (''title_name'', JStr (i_title_name v)),
      (''contact_email'', JStr (i_contact_email v)), (''status'', JStr (i_status v)), (''note'', JStr (i_note v)),
      (''created_at'', JInt (i_created_at v)), (''title'', JObj (map (\<lambda>(k, x). (k, JStr x)) (i_title_snapshot v)))] @
     (if 0 < i_issued_at v then [(''issued_at'', JInt (i_issued_at v)), (''downloadable'', JBool (i_pdf_path v \<noteq> []))] else []) @
     (if 0 < i_rejected_at v then [(''rejected_at'', JInt (i_rejected_at v))] else [])"

definition summary_view :: "invoice_summary \<Rightarrow> (string \<times> json) list" where
  "summary_view s = [(''paid_cny'', JNum (billing_round2 (paid_cny s))), (''locked_cny'', JNum (billing_round2 (locked_cny s))),
     (''issued_cny'', JNum (billing_round2 (issued_cny s))), (''available_cny'', JNum (billing_round2 (available_cny s)))]"

definition title_view :: "invoice_title \<Rightarrow> (string \<times> json) list" where
  "title_view t = [(''name'', JStr (it_name t)), (''tax_no'', JStr (it_tax_no t)), (''address'', JStr (it_address t)),
     (''phone'', JStr (it_phone t)), (''bank'', JStr (it_bank t)), (''bank_account'', JStr (it_bank_account t)), (''source'', JStr ''local'')]"

section \<open>Endpoints\<close>

definition invoice_summary_page :: "sqlite \<Rightarrow> string \<Rightarrow> response dbm" where
  "invoice_summary_page q tok = (if tok = [] then ret unauthorized
     else bnd (attempt (invoiceable_cny q tok)) (\<lambda>r. ret (case r of Inl e \<Rightarrow> store_error e | Inr s \<Rightarrow> (200, summary_view s))))"

definition list_titles_page :: "sqlite \<Rightarrow> string \<Rightarrow> string \<Rightarrow> response dbm" where
  "list_titles_page q tok search = (if tok = [] then ret unauthorized
     else bnd (attempt (list_invoice_titles q tok search 20)) (\<lambda>r. ret (case r of Inl e \<Rightarrow> store_error e
       | Inr ts \<Rightarrow> (200, [(''titles'', JArr (map (\<lambda>t. JObj ((''id'', JInt (it_id t)) # title_view t @ [(''last_used_at'', JInt (it_last_used_at t))])) ts))]))))"

text \<open>A body that does not bind is none.\<close>

definition save_title_page :: "int \<Rightarrow> string \<Rightarrow> title_body option \<Rightarrow> response dbm" where
  "save_title_page now tok body = (if tok = [] then ret unauthorized
     else case body of None \<Rightarrow> ret (error_body 400 ''bad request'')
     | Some b \<Rightarrow> if trim_space (tb_name b) = [] then ret (error_body 400 ''name required'')
         else bnd (attempt (upsert_invoice_title now (title_of tok b))) (\<lambda>r. ret (case r of
             Inl e \<Rightarrow> store_error e | Inr _ \<Rightarrow> (200, [(''status'', JStr ''ok'')]))))"

text \<open>The id is what \<open>strconv.ParseInt\<close> makes of the path, none on an error.\<close>

definition delete_title_page :: "string \<Rightarrow> int option \<Rightarrow> response dbm" where
  "delete_title_page tok tid = (if tok = [] then ret unauthorized
     else case tid of None \<Rightarrow> ret (error_body 400 ''bad id'')
     | Some i \<Rightarrow> bnd (attempt (delete_invoice_title tok i)) (\<lambda>r. ret (case r of
         Inl e \<Rightarrow> store_error e | Inr _ \<Rightarrow> (200, [(''status'', JStr ''ok'')]))))"

definition invoice_error :: "db_error \<Rightarrow> response" where
  "invoice_error e = error_body (case e of ErrInsufficientInvoiceable _ _ \<Rightarrow> 400 | _ \<Rightarrow> 500) (db_error_text e)"

definition create_invoice_page :: "sqlite \<Rightarrow> int \<Rightarrow> string \<Rightarrow> create_invoice_body option \<Rightarrow> response dbm" where
  "create_invoice_page q now tok body = (if tok = [] then ret unauthorized
     else case body of None \<Rightarrow> ret (error_body 400 ''bad request'')
     | Some b \<Rightarrow> (case check_invoice_body b of Inl msg \<Rightarrow> ret (error_body 400 msg)
       | Inr (cny, title, email) \<Rightarrow> bnd (attempt (create_invoice q now tok cny title email)) (\<lambda>r. case r of
             Inl e \<Rightarrow> ret (invoice_error e)
           | Inr iv \<Rightarrow> ret (200, invoice_user_view iv))))"

definition list_invoices_page :: "string \<Rightarrow> response dbm" where
  "list_invoices_page tok = (if tok = [] then ret unauthorized
     else bnd (attempt (list_invoices_by_token tok 200)) (\<lambda>r. ret (case r of Inl e \<Rightarrow> store_error e
       | Inr vs \<Rightarrow> (200, [(''invoices'', JArr (map (\<lambda>(v, alloc, wname). JObj (invoice_user_view v @
            (if is_team v then [(''scope'', JStr ''team''), (''workspace_name'', JStr wname)] else [(''scope'', JStr ''personal'')]) @
            [(''allocated_cny'', JNum (billing_round2 alloc))])) vs))]))))"

datatype download = Answered response | SendFile string string

definition has_allocation :: "invoice \<Rightarrow> string \<Rightarrow> bool dbm" where
  "has_allocation iv tok = (if \<not> is_team iv then ret False
     else bnd (attempt (invoice_allocations_of (i_id iv))) (\<lambda>r. ret (case r of Inl _ \<Rightarrow> False
       | Inr allocs \<Rightarrow> list_ex (\<lambda>a. a_token a = tok) allocs)))"

definition invoice_filename :: "invoice \<Rightarrow> string" where
  "invoice_filename iv = ''invoice-'' @ itoa (i_id iv) @ ''.pdf''"

definition send_pdf :: "(string \<Rightarrow> bool) \<Rightarrow> invoice \<Rightarrow> download" where
  "send_pdf on_disk iv = (if i_status iv \<noteq> InvoiceIssued \<or> i_pdf_path iv = [] then Answered (error_body 404 ''invoice not issued yet'')
     else if \<not> on_disk (i_pdf_path iv) then Answered (error_body 404 ''pdf file missing'')
     else SendFile (invoice_filename iv) (i_pdf_path iv))"

definition download_page :: "(string \<Rightarrow> bool) \<Rightarrow> string \<Rightarrow> int option \<Rightarrow> download dbm" where
  "download_page on_disk tok iid = (if tok = [] then ret (Answered unauthorized)
     else case iid of None \<Rightarrow> ret (Answered (error_body 400 ''bad id''))
     | Some i \<Rightarrow> bnd (attempt (get_invoice i)) (\<lambda>r. case r of Inl _ \<Rightarrow> ret (Answered (error_body 404 ''not found''))
       | Inr iv \<Rightarrow> bnd (if i_token iv = tok then ret True else has_allocation iv tok) (\<lambda>mine.
           ret (if mine then send_pdf on_disk iv else Answered (error_body 404 ''not found'')))))"

section \<open>Suggesting names\<close>

text \<open>\<open>strings.ReplaceAll(s, t, "")\<close>.\<close>

function delete_all :: "string \<Rightarrow> string \<Rightarrow> string" where
  "delete_all t [] = []"
| "delete_all t (c # s) = (case strip_prefix t (c # s) of
       Some r \<Rightarrow> if t = [] then c # s else delete_all t r
     | None \<Rightarrow> c # delete_all t s)"
  by pat_completeness auto
termination
proof (relation "measure (\<lambda>(_, s). length s)")
  fix t s r :: string and c
  assume "strip_prefix t (c # s) = Some r" "t \<noteq> []"
  then have "length (c # s) = length t + length r" "0 < length t" by (simp_all add: strip_prefix_append)
  then show "((t, r), t, c # s) \<in> measure (\<lambda>(_, s). length s)" by simp
qed simp_all

definition strip_html :: "string \<Rightarrow> string" where
  "strip_html s = trim_space (fold delete_all [''<em>'', ''</em>'', ''<br>'', ''<br/>''] s)"

text \<open>A remote row: the string-valued entries of a JSON object.\<close>

fun pick_str :: "(string \<rightharpoonup> string) \<Rightarrow> string list \<Rightarrow> string" where
  "pick_str m [] = []"
| "pick_str m (k # ks) = (case m k of Some s \<Rightarrow> if trim_space s \<noteq> [] then s else pick_str m ks | None \<Rightarrow> pick_str m ks)"

definition suggest_rows :: "(string \<rightharpoonup> string) list \<Rightarrow> (string \<times> string) list" where
  "suggest_rows rows = concat (map (\<lambda>r. let name = pick_str r [''comName'', ''resultStr'', ''entName'', ''name'', ''company''] in
     if name = [] then [] else [(strip_html name, pick_str r [''taxCode'', ''creditCode'', ''regNo'', ''creditNo'', ''taxNo''])]) rows)"

text \<open>The cache: keyword, rows, expiry. The entry an overflow evicts is the one the map yields first,
  the argument \<open>evict\<close>.\<close>

type_synonym suggest_cache = "(string \<times> (string \<times> string) list \<times> int) list"

definition suggest_cache_get :: "int \<Rightarrow> string \<Rightarrow> suggest_cache \<Rightarrow> (string \<times> string) list option" where
  "suggest_cache_get now q cache = (case map_of cache q of None \<Rightarrow> None
     | Some (rows, expires) \<Rightarrow> if expires < now then None else Some rows)"

definition suggest_cache_put :: "(suggest_cache \<Rightarrow> string) \<Rightarrow> int \<Rightarrow> string \<Rightarrow> (string \<times> string) list \<Rightarrow> suggest_cache \<Rightarrow> suggest_cache" where
  "suggest_cache_put evict now q rows cache0 =
     (let cache = (if 512 \<le> length cache0 then filter (\<lambda>e. fst e \<noteq> evict cache0) cache0 else cache0) in
     (q, rows, now + 3600 * second_ns) # filter (\<lambda>e. fst e \<noteq> q) cache)"

text \<open>The remote answer, decoded, is none for any failure.\<close>

definition fetch_remote_suggest :: "(suggest_cache \<Rightarrow> string) \<Rightarrow> (string \<Rightarrow> (string \<rightharpoonup> string) list option) \<Rightarrow> int \<Rightarrow> string \<Rightarrow> suggest_cache \<Rightarrow>
    (string \<times> string) list option \<times> suggest_cache" where
  "fetch_remote_suggest evict remote now q cache = (case suggest_cache_get now q cache of Some rows \<Rightarrow> (Some rows, cache)
     | None \<Rightarrow> (case remote q of None \<Rightarrow> (None, cache)
         | Some rs \<Rightarrow> (Some (suggest_rows rs), suggest_cache_put evict now q (suggest_rows rs) cache)))"

type_synonym suggestions = "string list \<times> (string \<times> json) list list"

definition add_local :: "invoice_title \<Rightarrow> suggestions \<Rightarrow> suggestions" where
  "add_local t acc = (case acc of (seen, out) \<Rightarrow> let key = to_lower (it_name t) in
     if key \<in> set seen then acc else (key # seen, out @ [title_view t]))"

fun add_remote :: "(string \<times> string) list \<Rightarrow> suggestions \<Rightarrow> suggestions" where
  "add_remote [] acc = acc"
| "add_remote ((name0, tax) # rows) (seen, out) = (let name = trim_space name0; key = to_lower name in
     if name = [] \<or> key \<in> set seen then add_remote rows (seen, out)
     else let acc = (key # seen, out @ [[(''name'', JStr name), (''tax_no'', JStr tax), (''source'', JStr ''remote'')]]) in
       if 20 \<le> length (snd acc) then acc else add_remote rows acc)"

definition title_suggest_page :: "sqlite \<Rightarrow> (suggest_cache \<Rightarrow> string) \<Rightarrow> (string \<Rightarrow> (string \<rightharpoonup> string) list option) \<Rightarrow> bool \<Rightarrow> int \<Rightarrow> string \<Rightarrow> string \<Rightarrow> suggest_cache \<Rightarrow>
    (response \<times> suggest_cache) dbm" where
  "title_suggest_page q evict remote has_url now tok search0 cache = (if tok = [] then ret (unauthorized, cache)
     else let search = trim_space search0 in
     bnd (attempt (list_invoice_titles q tok search 8)) (\<lambda>r.
       let acc = fold add_local (case r of Inl _ \<Rightarrow> [] | Inr ts \<Rightarrow> ts) ([], []);
           fetched = (if search \<noteq> [] \<and> has_url then fetch_remote_suggest evict remote now search cache else (None, cache));
           acc = (case fst fetched of None \<Rightarrow> acc | Some rows \<Rightarrow> add_remote rows acc) in
       ret ((200, [(''titles'', JArr (map JObj (snd acc)))]), snd fetched)))"

section \<open>Who gets an invoice\<close>

text \<open>An invoice is the token's when the token filed it or its quota paid for a part of it.\<close>

definition entitled :: "db \<Rightarrow> string \<Rightarrow> invoice \<Rightarrow> bool" where
  "entitled d tok v \<longleftrightarrow> i_token v = tok \<or>
     (is_team v \<and> (\<exists>a \<in> set (invoice_allocations d). a_invoice_id a = i_id v \<and> a_token a = tok))"

definition deliverable :: "(string \<Rightarrow> bool) \<Rightarrow> invoice \<Rightarrow> bool" where
  "deliverable on_disk v \<longleftrightarrow> i_status v = InvoiceIssued \<and> i_pdf_path v \<noteq> [] \<and> on_disk (i_pdf_path v)"

lemma bnd_ret_Inr: "bnd m (\<lambda>x. ret (g x)) s = (Inr y, s') \<longleftrightarrow> (\<exists>x. m s = (Inr x, s') \<and> g x = y)"
  by (auto simp: bnd_Inr ret_iff)

lemma send_pdf_iff: "send_pdf on_disk v = SendFile f p \<longleftrightarrow> deliverable on_disk v \<and> f = invoice_filename v \<and> p = i_pdf_path v"
  by (auto simp: send_pdf_def deliverable_def)

lemma invoice_row_set: "invoice_row d k = Some v \<Longrightarrow> v \<in> set (invoices d) \<and> i_id v = k"
  by (auto simp: invoice_row_def find_Some_iff)

lemma read_only_has_allocation [atomic_intros]: "read_only (has_allocation v tok)"
  unfolding has_allocation_def invoice_allocations_of_def by (auto intro!: atomic_intros)

lemma has_allocation_True:
  assumes "has_allocation v tok s = (Inr True, s')"
  shows "is_team v \<and> (\<exists>a \<in> set (invoice_allocations (store s)). a_invoice_id a = i_id v \<and> a_token a = tok)"
  using assms by (auto simp: has_allocation_def invoice_allocations_of_def bnd_def attempt_def ret_def query_def stmt_def list_ex_iff
      split: if_splits)

lemma has_allocation_calm:
  assumes "\<not> faulty s"
  shows "\<exists>s'. has_allocation v tok s = (Inr (is_team v \<and>
     (\<exists>a \<in> set (invoice_allocations (store s)). a_invoice_id a = i_id v \<and> a_token a = tok)), s')"
  using assms by (auto simp: has_allocation_def invoice_allocations_of_def bnd_def attempt_def ret_def query_def stmt_def list_ex_iff)

text \<open>Through the download of the wallet a PDF leaves only for an issued invoice, and only to a token that filed it or
  whose quota paid for part of it; with a sound driver every such token gets it, and nothing is changed by asking.\<close>

theorem pdf_reaches_its_payers:
  "(download_page on_disk tok iid s = (Inr (SendFile f p), s') \<longrightarrow>
      (\<exists>v. iid = Some (i_id v) \<and> v \<in> set (invoices (store s)) \<and> tok \<noteq> [] \<and> entitled (store s) tok v \<and>
           deliverable on_disk v \<and> f = invoice_filename v \<and> p = i_pdf_path v)) \<and>
   (plan s = [] \<and> tok \<noteq> [] \<and> invoice_row (store s) k = Some v \<and> entitled (store s) tok v \<and> deliverable on_disk v \<longrightarrow>
      fst (download_page on_disk tok (Some k) s) = Inr (SendFile (invoice_filename v) (i_pdf_path v))) \<and>
   read_only (download_page on_disk tok iid)"
proof (intro conjI impI)
  assume run: "download_page on_disk tok iid s = (Inr (SendFile f p), s')"
  then obtain k where t: "tok \<noteq> []" "iid = Some k"
    by (auto simp: download_page_def ret_iff split: if_splits option.splits)
  from run t obtain v where v: "invoice_row (store s) k = Some v"
    and rest: "bnd (if i_token v = tok then ret True else has_allocation v tok) (\<lambda>mine.
           ret (if mine then send_pdf on_disk v else Answered (error_body 404 ''not found''))) (tick s) = (Inr (SendFile f p), s')"
    by (cases "invoice_row (store s) k")
      (auto simp: download_page_def bnd_def attempt_def ret_def get_invoice_def query_row_def stmt_def split: if_splits)
  from rest obtain mine s2 where m: "(if i_token v = tok then ret True else has_allocation v tok) (tick s) = (Inr mine, s2)"
    and out: "(if mine then send_pdf on_disk v else Answered (error_body 404 ''not found'')) = SendFile f p"
    by (auto simp: bnd_ret_Inr)
  from out have "mine" "send_pdf on_disk v = SendFile f p" by (simp_all split: if_splits)
  with m have "entitled (store s) tok v"
    by (auto simp: entitled_def ret_iff split: if_splits dest!: has_allocation_True)
  with t invoice_row_set[OF v] \<open>send_pdf on_disk v = SendFile f p\<close>
  show "\<exists>v. iid = Some (i_id v) \<and> v \<in> set (invoices (store s)) \<and> tok \<noteq> [] \<and> entitled (store s) tok v \<and>
           deliverable on_disk v \<and> f = invoice_filename v \<and> p = i_pdf_path v"
    by (auto simp: send_pdf_iff)
next
  assume a: "plan s = [] \<and> tok \<noteq> [] \<and> invoice_row (store s) k = Some v \<and> entitled (store s) tok v \<and> deliverable on_disk v"
  then have f: "\<not> faulty s" "\<not> faulty (tick s)" by (simp_all add: faulty_def tick_def)
  from has_allocation_calm[OF f(2), of v tok]
  obtain s2 where h: "has_allocation v tok (tick s) = (Inr (is_team v \<and>
     (\<exists>a \<in> set (invoice_allocations (store s)). a_invoice_id a = i_id v \<and> a_token a = tok)), s2)" by auto
  have "send_pdf on_disk v = SendFile (invoice_filename v) (i_pdf_path v)" using a by (simp add: send_pdf_iff)
  with a f h show "fst (download_page on_disk tok (Some k) s) = Inr (SendFile (invoice_filename v) (i_pdf_path v))"
    by (auto simp: download_page_def bnd_def attempt_def ret_def get_invoice_def query_row_def stmt_def entitled_def split: if_splits)
next
  show "read_only (download_page on_disk tok iid)"
    unfolding download_page_def get_invoice_def by (auto split: option.split sum.split intro!: atomic_intros)
qed

theorem pdf_reaches_its_payers_witness:
  "fst (download_page (\<lambda>_. True) ''alice'' (Some 1) (fresh_session demo_issued_db)) = Inr (SendFile ''invoice-1.pdf'' ''p'')"
proof -
  let ?v = "hd (invoices demo_issued_db)"
  have "invoice_row demo_issued_db 1 = Some ?v" "entitled demo_issued_db ''alice'' ?v" "deliverable (\<lambda>_. True) ?v"
    by (simp_all add: demo_issued_db_def invoice_row_def entitled_def deliverable_def InvoiceIssued_def)
  moreover have "invoice_filename ?v = ''invoice-1.pdf''" "i_pdf_path ?v = ''p''" by code_simp+
  ultimately show ?thesis
    using pdf_reaches_its_payers[THEN conjunct2, THEN conjunct1, of "fresh_session demo_issued_db" "''alice''" 1 ?v "\<lambda>_. True"]
    by (simp add: fresh_session_def)
qed

section \<open>What is filed\<close>

lemma check_invoice_body_Inr:
  "check_invoice_body b = Inr (cny, title, email) \<Longrightarrow> cny = billing_round2 (cb_cny_amount b) \<and> min_invoice_cny \<le> cny \<and>
     is_likely_email (cb_contact_email b) \<and> it_name title = tb_name (cb_title b) \<and>
     trim_space (tb_name (cb_title b)) \<noteq> [] \<and> is_likely_tax_no (to_upper (trim_space (tb_tax_no (cb_title b))))"
  by (auto simp: check_invoice_body_def Let_def title_of_def split: if_splits)

lemma invoices_upsert [simp]: "invoices (upsert_title_row tok t now d) = invoices d"
  "invoice_allocations (upsert_title_row tok t now d) = invoice_allocations d"
  by (simp_all add: upsert_title_row_def Let_def)

lemma insert_invoice_appends:
  "invoices (insert_invoice tok cny t email wsid now d) = invoices d @ [last (invoices (insert_invoice tok cny t email wsid now d))]"
  by (simp add: insert_invoice_def)

lemma fst_error_body: "fst (error_body st m) = st"
  by (simp add: error_body_def)

text \<open>The shape of both filing endpoints: check, file, answer; \<open>create\<close> stands for either method of the store.\<close>

lemma filing_page_200:
  assumes run: "(case body of None \<Rightarrow> ret (error_body 400 ''bad request'')
     | Some b \<Rightarrow> (case check_invoice_body b of Inl msg \<Rightarrow> ret (error_body 400 msg)
       | Inr (cny, title, email) \<Rightarrow> bnd (attempt (create cny title email)) (\<lambda>r. case r of
             Inl e \<Rightarrow> ret (invoice_error e) | Inr iv \<Rightarrow> answer iv))) s = (Inr (200, view), s')"
  obtains b cny title email v s1 where "body = Some b" "check_invoice_body b = Inr (cny, title, email)"
    "create cny title email s = (Inr v, s1)" "answer v s1 = (Inr (200, view), s')"
proof (cases body)
  case None with run show thesis by (simp add: ret_def error_body_def)
next
  case (Some b)
  show thesis
  proof (cases "check_invoice_body b")
    case (Inl msg) with run Some show thesis by (simp add: ret_def error_body_def)
  next
    case (Inr c)
    obtain cny title email where c: "c = (cny, title, email)" by (cases c)
    obtain r s1 where r: "create cny title email s = (r, s1)" by fastforce
    from run Some Inr c r have "(case r of Inl e \<Rightarrow> ret (invoice_error e) | Inr iv \<Rightarrow> answer iv) s1 = (Inr (200, view), s')"
      by (simp add: bnd_def attempt_def)
    with Some Inr c r show thesis
      by (cases r) (auto simp: ret_def invoice_error_def error_body_def intro: that split: db_error.splits)
  qed
qed

end
