(* ===== verification/TeamConsole.thy ===== *)
theory TeamConsole
  imports Usage InvoicePages
begin

text \<open>
  The console of a workspace's admin (\<open>internal/saas/billing/team.go\<close>, \<open>team_invoices.go\<close>,
  \<open>team_requests.go\<close>). Every request passes \<open>team_auth\<close>, which finds the workspace the token
  administers; the handlers are given that workspace and never one the caller names. A body that
  does not bind is the library's error text. A handler that dereferences the row a failed read did
  not return panics, which gin's recovery answers with 500 and no body (\<open>recovered\<close>).
\<close>

record team_handler =
  th_log_dir :: string
  th_log_indexed :: bool
  th_label :: "string \<Rightarrow> string"
  th_exists :: "string \<Rightarrow> bool"
  th_retention_days :: int
  th_rate :: "rate_cache option"

section \<open>The gate\<close>

definition team_auth :: "string \<Rightarrow> (response + workspace) dbm" where
  "team_auth tok = (if tok = [] then ret (Inl unauthorized)
     else bnd (attempt (workspace_admin_for tok)) (\<lambda>r. ret (case r of
         Inl _ \<Rightarrow> Inl (error_body 403 ''not a workspace admin'') | Inr ws \<Rightarrow> Inr ws)))"

definition behind_gate :: "string \<Rightarrow> (response \<Rightarrow> 'a) \<Rightarrow> (workspace \<Rightarrow> 'a dbm) \<Rightarrow> 'a dbm" where
  "behind_gate tok refuse page = bnd (team_auth tok) (\<lambda>r. case r of Inl resp \<Rightarrow> ret (refuse resp) | Inr ws \<Rightarrow> page ws)"

definition team_me :: "workspace \<Rightarrow> response dbm" where
  "team_me ws0 = bnd (attempt (get_workspace (ws_id ws0))) (\<lambda>r. let ws = (case r of Inl _ \<Rightarrow> ws0 | Inr w \<Rightarrow> w) in
     ret (200, [(''workspace'', JObj [(''id'', JInt (ws_id ws)), (''name'', JStr (ws_name ws)),
       (''balance_usd'', JNum (ws_balance_usd ws)), (''disabled'', JBool (ws_disabled ws))]), (''role'', JStr WSRoleAdmin)]))"

section \<open>Members\<close>

definition group_members :: "team_handler \<Rightarrow> workspace_member list \<Rightarrow> group_member list" where
  "group_members t ms = map (\<lambda>m. \<lparr>gm_token = m_token m, gm_label = th_label t (m_token m), gm_role = m_role m\<rparr>) ms"

definition spend_view :: "member_spend option \<Rightarrow> bool \<Rightarrow> (string \<times> json) list" where
  "spend_view sp ok = (if \<not> ok then [(''spend_source'', JStr ''unavailable'')]
     else case sp of None \<Rightarrow> [(''spend_source'', JStr ''unmeasurable'')]
     | Some s \<Rightarrow> if \<not> ms_measurable s then [(''spend_source'', JStr ''unmeasurable'')]
         else [(''spend_source'', JStr ''requestlog''), (''spend_day_usd'', JNum (ag_billed_usd (ms_day s))),
           (''spend_month_usd'', JNum (ag_billed_usd (ms_month s))), (''spend_day_requests'', JInt (ag_count (ms_day s))),
           (''spend_month_requests'', JInt (ag_count (ms_month s)))])"

definition member_view :: "sqlite \<Rightarrow> team_handler \<Rightarrow> int \<Rightarrow> workspace_member \<Rightarrow> member_spend option \<Rightarrow> bool \<Rightarrow> (string \<times> json) list dbm" where
  "member_view q t now m sp ok = bnd (member_period_pool_spend q (unix_seconds now) (m_token m)) (\<lambda>(day, month).
     ret ([(''masked'', JStr (token_mask (m_token m))), (''label'', JStr (th_label t (m_token m))), (''role'', JStr (m_role m)),
       (''daily_usd_cap'', JNum (m_daily_usd_cap m)), (''monthly_usd_cap'', JNum (m_monthly_usd_cap m)),
       (''used_day_usd'', JNum day), (''used_month_usd'', JNum month), (''created_at'', JInt (m_created_at m))] @ spend_view sp ok))"

definition member_spend_for :: "team_handler \<Rightarrow> usage_log \<Rightarrow> int \<Rightarrow> workspace_member list \<Rightarrow> usage_cache \<Rightarrow>
    ((string \<rightharpoonup> member_spend) \<times> bool) \<times> usage_cache" where
  "member_spend_for t ul now ms c = member_spend_to_date ul now (th_log_dir t) (group_members t ms) c"

definition list_members_page :: "sqlite \<Rightarrow> team_handler \<Rightarrow> usage_log \<Rightarrow> int \<Rightarrow> workspace \<Rightarrow> usage_cache \<Rightarrow> (response \<times> usage_cache) dbm" where
  "list_members_page q t ul now ws c = bnd (attempt (list_members (ws_id ws))) (\<lambda>r. case r of Inl e \<Rightarrow> ret (store_error e, c)
     | Inr ms \<Rightarrow> (case member_spend_for t ul now ms c of ((spend, ok), c') \<Rightarrow>
         bnd (dbm_map (\<lambda>m. member_view q t now m (spend (token_mask (m_token m))) ok) ms) (\<lambda>rows.
         ret ((200, [(''members'', JArr (map JObj rows)), (''timezone'', JStr (ul_zone ul)), (''spend_partial'', JBool (\<not> ok))]), c'))))"

text \<open>The row of one member after a change, read back; a failed read is a panic.\<close>

definition recovered :: response where "recovered = (500, [])"

definition member_row_page :: "sqlite \<Rightarrow> team_handler \<Rightarrow> usage_log \<Rightarrow> int \<Rightarrow> string \<Rightarrow> usage_cache \<Rightarrow> (response \<times> usage_cache) dbm" where
  "member_row_page q t ul now tok c = bnd (attempt (member_for tok)) (\<lambda>r. case r of Inl _ \<Rightarrow> ret (recovered, c)
     | Inr m \<Rightarrow> (case member_spend_for t ul now [m] c of ((spend, ok), c') \<Rightarrow>
         bnd (member_view q t now m (spend (token_mask (m_token m))) ok) (\<lambda>row. ret ((200, row), c'))))"

record add_member_body =
  ab_token :: string
  ab_role :: string
  ab_daily :: float64
  ab_monthly :: float64

definition unknown_token_text :: string where
  "unknown_token_text = ''unknown client token '' @ [CHR 0xE2, CHR 0x80, CHR 0x94] @ '' create it in the admin panel first''"

definition add_member_page :: "sqlite \<Rightarrow> team_handler \<Rightarrow> usage_log \<Rightarrow> int \<Rightarrow> workspace \<Rightarrow> string + add_member_body \<Rightarrow> usage_cache \<Rightarrow>
    (response \<times> usage_cache) dbm" where
  "add_member_page q t ul now ws body c = (case body of Inl msg \<Rightarrow> ret (error_body 400 msg, c)
     | Inr b \<Rightarrow> let tok = trim_space (ab_token b) in
         if tok = [] then ret (error_body 400 ''token required'', c)
         else if \<not> th_exists t tok then ret (error_body 400 unknown_token_text, c)
         else bnd (attempt (add_member (unix_seconds now) (ws_id ws) tok (ab_role b) (ab_daily b) (ab_monthly b))) (\<lambda>r. case r of
             Inl e \<Rightarrow> ret (if e = ErrMemberExists then error_body 409 ''that token already belongs to a workspace''
                           else error_body 400 (db_error_text e), c)
           | Inr _ \<Rightarrow> member_row_page q t ul now tok c))"

text \<open>A mask in the path names the one member of this workspace that has it.\<close>

definition resolve_member :: "workspace \<Rightarrow> string \<Rightarrow> (response + workspace_member) dbm" where
  "resolve_member ws masked = bnd (attempt (list_members (ws_id ws))) (\<lambda>r. ret (case r of Inl e \<Rightarrow> Inl (store_error e)
     | Inr ms \<Rightarrow> (case filter (\<lambda>m. token_mask (m_token m) = masked) ms of
           [] \<Rightarrow> Inl (error_body 404 ''member not found'')
         | [m] \<Rightarrow> Inr m
         | _ \<Rightarrow> Inl (error_body 409 ''ambiguous masked token''))))"

record patch_member_body =
  pb_role :: "string option"
  pb_daily :: "float64 option"
  pb_monthly :: "float64 option"

text \<open>The count of admins, zero when it cannot be read.\<close>

definition only_admin :: "workspace_member \<Rightarrow> bool dbm" where
  "only_admin m = bnd (or_zero 0 (count_workspace_admins (m_workspace_id m))) (\<lambda>n. ret (n \<le> 1))"

definition patch_member_page :: "sqlite \<Rightarrow> team_handler \<Rightarrow> usage_log \<Rightarrow> int \<Rightarrow> workspace \<Rightarrow> string \<Rightarrow> string + patch_member_body \<Rightarrow> usage_cache \<Rightarrow>
    (response \<times> usage_cache) dbm" where
  "patch_member_page q t ul now ws masked body c = bnd (resolve_member ws masked) (\<lambda>r. case r of Inl resp \<Rightarrow> ret (resp, c)
     | Inr m \<Rightarrow> (case body of Inl msg \<Rightarrow> ret (error_body 400 msg, c)
       | Inr b \<Rightarrow> bnd (if pb_role b \<noteq> None \<and> pb_role b \<noteq> Some WSRoleAdmin \<and> m_role m = WSRoleAdmin then only_admin m else ret False) (\<lambda>stop.
           if stop then ret (error_body 400 ''cannot demote the only admin; promote another member first'', c)
           else bnd (attempt (update_member (unix_seconds now) (m_token m) (pb_role b) (pb_daily b) (pb_monthly b))) (\<lambda>r. case r of
               Inl e \<Rightarrow> ret (error_body 400 (db_error_text e), c)
             | Inr _ \<Rightarrow> member_row_page q t ul now (m_token m) c))))"

definition remove_member_page :: "workspace \<Rightarrow> string \<Rightarrow> response dbm" where
  "remove_member_page ws masked = bnd (resolve_member ws masked) (\<lambda>r. case r of Inl resp \<Rightarrow> ret resp
     | Inr m \<Rightarrow> bnd (if m_role m = WSRoleAdmin then only_admin m else ret False) (\<lambda>stop.
         if stop then ret (error_body 400 ''cannot remove the only admin; promote another member first'')
         else bnd (attempt (remove_member (m_token m))) (\<lambda>r. ret (case r of
             Inl e \<Rightarrow> error_body 400 (db_error_text e) | Inr _ \<Rightarrow> (200, [(''status'', JStr ''ok'')])))))"

section \<open>Ledger, usage and top-up\<close>

definition ledger_view :: "workspace_tx \<Rightarrow> json" where
  "ledger_view x = JObj ([(''kind'', JStr (wst_kind x)), (''amount_usd'', JNum (wst_amount_usd x)), (''note'', JStr (wst_note x)),
     (''created_at'', JInt (wst_created_at x))] @ (if wst_token x \<noteq> [] then [(''member'', JStr (token_mask (wst_token x)))] else []))"

definition ledger_page :: "workspace \<Rightarrow> response dbm" where
  "ledger_page ws = bnd (attempt (list_workspace_tx (ws_id ws) 200)) (\<lambda>r. ret (case r of Inl e \<Rightarrow> store_error e
     | Inr txs \<Rightarrow> (200, [(''ledger'', JArr (map ledger_view txs))])))"

definition team_query :: "team_handler \<Rightarrow> workspace \<Rightarrow> string \<Rightarrow> string \<Rightarrow> group_usage_query" where
  "team_query t ws from to' = \<lparr>gq_log_dir = th_log_dir t, gq_log_indexed = th_log_indexed t, gq_workspace = ws_id ws,
     gq_from = from, gq_to = to', gq_label = th_label t\<rparr>"

definition usage_page :: "sqlite \<Rightarrow> team_handler \<Rightarrow> usage_log \<Rightarrow> int \<Rightarrow> workspace \<Rightarrow> string \<Rightarrow> string \<Rightarrow> usage_cache \<Rightarrow> (response \<times> usage_cache) dbm" where
  "usage_page q t ul now ws from to' c = bnd (build_group_usage q ul now (team_query t ws from to') c) (\<lambda>(r, c').
     ret (case r of Inl e \<Rightarrow> usage_failure e | Inr g \<Rightarrow> (200, group_usage_json g), c'))"

definition team_topup :: "handler \<Rightarrow> topup_env \<Rightarrow> rate_cache \<Rightarrow> int \<Rightarrow> string \<Rightarrow> workspace \<Rightarrow> float64 option \<Rightarrow> stamps \<Rightarrow> (response \<times> stamps) dbm" where
  "team_topup h env rc now tok ws body st = (case body of None \<Rightarrow> ret (error_body 400 ''bad request'', st)
     | Some usd \<Rightarrow> bnd (create_topup h env rc now tok (ws_id ws) usd st) (\<lambda>((status, r), st'). ret (case r of
           Inl e \<Rightarrow> error_body status (topup_error_text (h_max_pending h) e) | Inr rep \<Rightarrow> (status, reply_body rep), st')))"

section \<open>Invoices of the team\<close>

definition member_invoice_view :: "team_handler \<Rightarrow> member_invoice_summary \<Rightarrow> json" where
  "member_invoice_view t m = JObj ([(''masked'', JStr (token_mask (im_token (mis_member m)))), (''label'', JStr (th_label t (im_token (mis_member m)))),
     (''role'', JStr (im_role (mis_member m)))] @ summary_view (mis_summary m))"

definition team_invoice_summary :: "sqlite \<Rightarrow> team_handler \<Rightarrow> workspace \<Rightarrow> response dbm" where
  "team_invoice_summary q t ws = bnd (attempt (workspace_invoiceable_cny q (ws_id ws))) (\<lambda>r. ret (case r of Inl e \<Rightarrow> store_error e
     | Inr s \<Rightarrow> (200, [(''workspace'', JObj [(''id'', JInt (ws_id ws)), (''name'', JStr (ws_name ws))]),
         (''total'', JObj (summary_view (wis_total s))), (''members'', JArr (map (member_invoice_view t) (wis_members s)))])))"

definition allocation_views :: "team_handler \<Rightarrow> invoice_allocation list \<Rightarrow> json" where
  "allocation_views t allocs = JArr (map (\<lambda>a. JObj [(''masked'', JStr (token_mask (a_token a))), (''label'', JStr (th_label t (a_token a))),
     (''cny_amount'', JNum (billing_round2 (a_cny_amount a)))]) allocs)"

definition team_list_invoices :: "team_handler \<Rightarrow> workspace \<Rightarrow> response dbm" where
  "team_list_invoices t ws = bnd (attempt (list_workspace_invoices (ws_id ws) 200)) (\<lambda>r. case r of Inl e \<Rightarrow> ret (store_error e)
     | Inr vs \<Rightarrow> bnd (attempt (allocations_by_invoice (map i_id vs))) (\<lambda>r. ret (case r of Inl e \<Rightarrow> store_error e
       | Inr by_invoice \<Rightarrow> (200, [(''invoices'', JArr (map (\<lambda>v. JObj (invoice_user_view v @
            [(''allocations'', allocation_views t (by_invoice (i_id v)))])) vs))]))))"

definition team_create_invoice :: "sqlite \<Rightarrow> team_handler \<Rightarrow> int \<Rightarrow> string \<Rightarrow> workspace \<Rightarrow> create_invoice_body option \<Rightarrow> response dbm" where
  "team_create_invoice q t now tok ws body = (case body of None \<Rightarrow> ret (error_body 400 ''bad request'')
     | Some b \<Rightarrow> (case check_invoice_body b of Inl msg \<Rightarrow> ret (error_body 400 msg)
       | Inr (cny, title, email) \<Rightarrow> bnd (attempt (create_workspace_invoice q (unix_seconds now) (ws_id ws) tok cny title email)) (\<lambda>r. case r of
             Inl e \<Rightarrow> ret (invoice_error e)
           | Inr iv \<Rightarrow> bnd (or_zero [] (invoice_allocations_of (i_id iv))) (\<lambda>allocs.
               ret (200, invoice_user_view iv @ [(''allocations'', allocation_views t allocs)])))))"

definition team_download_invoice :: "(string \<Rightarrow> bool) \<Rightarrow> workspace \<Rightarrow> int option \<Rightarrow> download dbm" where
  "team_download_invoice on_disk ws iid = (case iid of None \<Rightarrow> ret (Answered (error_body 400 ''bad id''))
     | Some i \<Rightarrow> bnd (attempt (get_invoice i)) (\<lambda>r. ret (case r of Inl _ \<Rightarrow> Answered (error_body 404 ''not found'')
       | Inr iv \<Rightarrow> if i_workspace_id iv \<noteq> ws_id ws then Answered (error_body 404 ''not found'') else send_pdf on_disk iv)))"

section \<open>The requests behind a number\<close>

definition teamRequestsDefaultLimit :: int where "teamRequestsDefaultLimit = 200"
definition teamRequestsMaxLimit :: int where "teamRequestsMaxLimit = 500"

text \<open>Either bound alone is kept as an open one; the labels compare as strings.\<close>

definition window_bound :: "string \<Rightarrow> usage_error + string" where
  "window_bound v = (if v = [] then Inr [] else parse_day v)"

definition requests_window :: "string \<Rightarrow> string \<Rightarrow> response + string \<times> string" where
  "requests_window from0 to0 = (case window_bound from0 of Inl e \<Rightarrow> Inl (error_body 400 (usage_error_text e))
     | Inr from \<Rightarrow> (case window_bound to0 of Inl e \<Rightarrow> Inl (error_body 400 (usage_error_text e))
       | Inr to' \<Rightarrow> if from \<noteq> [] \<and> to' \<noteq> [] \<and> text_less to' from then Inl (error_body 400 ''from must not be after to'') else Inr (from, to')))"

definition team_requests_limit :: "string \<Rightarrow> response + int" where
  "team_requests_limit v = (if v = [] then Inr teamRequestsDefaultLimit
     else case parse_int64 v of None \<Rightarrow> Inl (error_body 400 ''limit must be a positive integer'')
     | Some n \<Rightarrow> if n \<le> 0 then Inl (error_body 400 ''limit must be a positive integer'') else Inr (min n teamRequestsMaxLimit))"

definition top_spenders :: "team_handler \<Rightarrow> usage_log \<Rightarrow> int \<Rightarrow> workspace_member list \<Rightarrow> string \<Rightarrow> string \<Rightarrow> usage_cache \<Rightarrow>
    workspace_member list \<times> usage_cache" where
  "top_spenders t ul now ms from to' c = (case cached_usage_query ul now (th_log_dir t) from to' [] c of
       (None, c') \<Rightarrow> (take maxFanoutMembers ms, c')
     | (Some r, c') \<Rightarrow> (take maxFanoutMembers (sort_key (\<lambda>m. - ag_billed_usd (bucket (ur_by_client r) (token_mask (m_token m)))) ms), c'))"

definition resolve_roster_member :: "team_handler \<Rightarrow> usage_log \<Rightarrow> int \<Rightarrow> workspace_member list \<Rightarrow> string \<Rightarrow> string \<Rightarrow> string \<Rightarrow> usage_cache \<Rightarrow>
    (workspace_member list \<times> bool \<times> nat) \<times> usage_cache" where
  "resolve_roster_member t ul now ms masked from to' c =
     (let measurable = filter (\<lambda>m. token_mask (m_token m) \<noteq> Opaque) ms;
          opaque = length (filter (\<lambda>m. token_mask (m_token m) = Opaque) ms)
      in if masked \<noteq> [] then ((filter (\<lambda>m. token_mask (m_token m) = masked) measurable, False, opaque), c)
         else if maxFanoutMembers < length measurable
         then (case top_spenders t ul now measurable from to' c of (best, c') \<Rightarrow> ((best, True, opaque), c'))
         else ((measurable, False, opaque), c))"

definition page_filter :: "string \<Rightarrow> string \<Rightarrow> string \<Rightarrow> string \<Rightarrow> int \<Rightarrow> log_filter" where
  "page_filter dir from to' client limit = \<lparr>f_dir = dir, f_from_day = from, f_to_day = to', f_client = client, f_dims = 0,
     f_limit = limit, f_page_only = True\<rparr>"

text \<open>A row of the page, still with the log's row in it: the mask, the label and the request.\<close>

type_synonym request_entry = "string \<times> string \<times> log_row"

definition entry_ts :: "request_entry \<Rightarrow> int" where "entry_ts e = lr_ts (snd (snd e))"

text \<open>The answer of one member arrives: its sentinel is cut, its rows join the page, the page is cut.\<close>

definition member_answer :: "int \<Rightarrow> string \<times> string \<Rightarrow> log_row list \<Rightarrow> request_entry list \<times> bool \<Rightarrow> request_entry list \<times> bool" where
  "member_answer limit who rows acc = (case acc of (page, truncated) \<Rightarrow>
     let more_than = limit < int (length rows);
         kept = (if more_than then take (nat limit) rows else rows);
         page' = newest_first entry_ts (page @ map (\<lambda>r. (fst who, snd who, r)) kept)
     in (take (nat limit) page', truncated \<or> more_than \<or> limit < int (length page')))"

fun merge_requests :: "usage_log \<Rightarrow> string \<Rightarrow> string \<Rightarrow> string \<Rightarrow> int \<Rightarrow> (string \<times> string) list \<Rightarrow> request_entry list \<times> bool \<Rightarrow>
    request_entry list \<times> bool" where
  "merge_requests ul dir from to' limit [] acc = acc"
| "merge_requests ul dir from to' limit (who # ms) acc =
     (case ul_query ul (page_filter dir from to' (fst who) (limit + 1)) of
        None \<Rightarrow> merge_requests ul dir from to' limit ms acc
      | Some r \<Rightarrow> merge_requests ul dir from to' limit ms (member_answer limit who (res_entries r) acc))"

definition DefaultCNYPerUSD :: float64 where "DefaultCNYPerUSD = rnd (72 / 10)"

definition statement_rate :: "team_handler \<Rightarrow> float64" where
  "statement_rate t = (case th_rate t of None \<Rightarrow> DefaultCNYPerUSD
     | Some rc \<Rightarrow> if 0 < cny_per_usd rc then cny_per_usd rc else DefaultCNYPerUSD)"

definition request_view :: "float64 \<Rightarrow> request_entry \<Rightarrow> json" where
  "request_view rate e = (case e of (masked, label, r) \<Rightarrow> JObj [(''member'', JStr masked), (''label'', JStr label),
     (''ts'', JInt (unix_seconds (lr_ts r))), (''provider'', JStr (lr_provider r)), (''model'', JStr (lr_model r)),
     (''status'', JInt (lr_status r)), (''input_tokens'', JInt (lr_input r)), (''output_tokens'', JInt (lr_output r)),
     (''billed_usd'', JNum (lr_billed_or_cost r)), (''billed_cny'', JNum (fmul (lr_billed_or_cost r) rate))])"

text \<open>\<open>order\<close> is the order in which the members' queries complete.\<close>

definition merge_member_requests :: "team_handler \<Rightarrow> usage_log \<Rightarrow> ((string \<times> string) list \<Rightarrow> (string \<times> string) list) \<Rightarrow>
    workspace_member list \<Rightarrow> string \<Rightarrow> string \<Rightarrow> int \<Rightarrow> request_entry list \<times> bool" where
  "merge_member_requests t ul order ms from to' limit =
     merge_requests ul (th_log_dir t) from to' limit (order (map (\<lambda>m. (token_mask (m_token m), th_label t (m_token m))) ms)) ([], False)"

definition no_index_text :: string where
  "no_index_text = [CHR 0xE8, CHR 0xAF, CHR 0xB7, CHR 0xE6, CHR 0xB1, CHR 0x82, CHR 0xE6, CHR 0x97, CHR 0xA5, CHR 0xE5, CHR 0xBF, CHR
     0x97, CHR 0xE7, CHR 0xB4, CHR 0xA2, CHR 0xE5, CHR 0xBC, CHR 0x95, CHR 0xE4, CHR 0xB8, CHR 0x8D, CHR 0xE5, CHR 0x8F,
     CHR 0xAF, CHR 0xE7, CHR 0x94, CHR 0xA8, CHR 0xEF, CHR 0xBC, CHR 0x8C, CHR 0xE6, CHR 0x97, CHR 0xA0, CHR 0xE6, CHR
     0xB3, CHR 0x95, CHR 0xE6, CHR 0x8C, CHR 0x89, CHR 0xE6, CHR 0x88, CHR 0x90, CHR 0xE5, CHR 0x91, CHR 0x98, CHR 0xE6,
     CHR 0xB1, CHR 0x87, CHR 0xE6, CHR 0x80, CHR 0xBB, CHR 0xE6, CHR 0x98, CHR 0x8E, CHR 0xE7, CHR 0xBB, CHR 0x86, CHR
     0xEF, CHR 0xBC, CHR 0x9B, CHR 0xE8, CHR 0xAF, CHR 0xB7, CHR 0xE6, CHR 0x8C, CHR 0x87, CHR 0xE5, CHR 0xAE, CHR 0x9A,
     CHR 0xE5, CHR 0x8D, CHR 0x95, CHR 0xE4, CHR 0xB8, CHR 0xAA, CHR 0xE6, CHR 0x88, CHR 0x90, CHR 0xE5, CHR 0x91, CHR
     0x98, CHR 0xE6, CHR 0x9F, CHR 0xA5, CHR 0xE7, CHR 0x9C, CHR 0x8B]"

definition requests_page :: "team_handler \<Rightarrow> usage_log \<Rightarrow> ((string \<times> string) list \<Rightarrow> (string \<times> string) list) \<Rightarrow> int \<Rightarrow> workspace \<Rightarrow>
    string \<Rightarrow> string \<Rightarrow> string \<Rightarrow> string \<Rightarrow> usage_cache \<Rightarrow> (response \<times> usage_cache) dbm" where
  "requests_page t ul order now ws from0 to0 limit0 masked c =
     (if th_log_dir t = [] then ret ((200, [(''requests'', JArr []), (''truncated'', JBool False), (''timezone'', JStr (ul_zone ul))]), c)
      else case requests_window from0 to0 of Inl resp \<Rightarrow> ret (resp, c)
      | Inr (from, to') \<Rightarrow> (case team_requests_limit limit0 of Inl resp \<Rightarrow> ret (resp, c)
        | Inr limit \<Rightarrow> if \<not> th_log_indexed t \<and> masked = [] then ret (error_body 503 no_index_text, c)
          else bnd (attempt (list_members (ws_id ws))) (\<lambda>r. case r of Inl e \<Rightarrow> ret (store_error e, c)
            | Inr ms \<Rightarrow> (case resolve_roster_member t ul now ms masked from to' c of ((who, capped, opaque), c') \<Rightarrow>
                (case merge_member_requests t ul order who from to' limit of (rows, truncated) \<Rightarrow>
                  ret ((200, [(''requests'', JArr (map (request_view (statement_rate t)) rows)), (''truncated'', JBool (truncated \<or> capped)),
                    (''unmeasurable_members'', JInt (int opaque)), (''timezone'', JStr (ul_zone ul))]), c'))))))"

end
