(* ===== verification/TeamStatement.thy ===== *)
theory TeamStatement
  imports Statement TeamConsole
begin

text \<open>
  The document a team hands to finance (\<open>internal/saas/billing/team_statement.go\<close>): the checks of the
  request, the totals from the usage view, the running total, the comparison with the two ledgers
  and the itemised rows, merged from one query per member. \<open>order\<close> is the order in which those
  queries complete. Drawing the pages is not modelled; the document is its data.
\<close>

section \<open>The request\<close>

text \<open>\<open>len([]rune(s))\<close>: a byte that starts no valid UTF-8 sequence counts for itself.\<close>

definition byte_between :: "nat \<Rightarrow> nat \<Rightarrow> string \<Rightarrow> bool" where
  "byte_between lo hi s = (case s of [] \<Rightarrow> False | c # _ \<Rightarrow> lo \<le> of_char c \<and> (of_char c :: nat) \<le> hi)"

definition rune_leads :: "(nat \<times> nat \<times> nat \<times> nat \<times> nat) list" where
  "rune_leads = [(0xC2, 0xDF, 0x80, 0xBF, 2), (0xE0, 0xE0, 0xA0, 0xBF, 3), (0xE1, 0xEC, 0x80, 0xBF, 3), (0xED, 0xED, 0x80, 0x9F, 3),
     (0xEE, 0xEF, 0x80, 0xBF, 3), (0xF0, 0xF0, 0x90, 0xBF, 4), (0xF1, 0xF3, 0x80, 0xBF, 4), (0xF4, 0xF4, 0x80, 0x8F, 4)]"

definition rune_width :: "string \<Rightarrow> nat" where
  "rune_width s = (case find (\<lambda>(lo, hi, lo2, hi2, n). byte_between lo hi s \<and> byte_between lo2 hi2 (drop 1 s) \<and>
       (2 < n \<longrightarrow> byte_between 0x80 0xBF (drop 2 s)) \<and> (3 < n \<longrightarrow> byte_between 0x80 0xBF (drop 3 s))) rune_leads of
     None \<Rightarrow> 1 | Some (_, _, _, _, n) \<Rightarrow> n)"

fun rune_count :: "string \<Rightarrow> nat" where
  "rune_count [] = 0"
| "rune_count (c # s) = Suc (rune_count (drop (rune_width (c # s) - 1) s))"

record team_statement_body =
  tsb_from :: string
  tsb_to :: string
  tsb_detail :: string
  tsb_purpose :: string
  tsb_target_cny :: float64

definition maxPurposeRunes :: nat where "maxPurposeRunes = 120"

definition no_target_text :: string where
  "no_target_text = [CHR 0xE5, CHR 0x9B, CHR 0xA2, CHR 0xE9, CHR 0x98, CHR 0x9F, CHR 0xE5, CHR 0xAF, CHR 0xB9, CHR 0xE8, CHR 0xB4, CHR
     0xA6, CHR 0xE5, CHR 0x8D, CHR 0x95, CHR 0xE4, CHR 0xB8, CHR 0x8D, CHR 0xE6, CHR 0x94, CHR 0xAF, CHR 0xE6, CHR 0x8C,
     CHR 0x81, CHR 0xE6, CHR 0x8C, CHR 0x89, CHR 0xE7, CHR 0x9B, CHR 0xAE, CHR 0xE6, CHR 0xA0, CHR 0x87, CHR 0xE9, CHR
     0x87, CHR 0x91, CHR 0xE9, CHR 0xA2, CHR 0x9D, CHR 0xE7, CHR 0x94, CHR 0x9F, CHR 0xE6, CHR 0x88, CHR 0x90]"

definition purpose_too_long_text :: string where
  "purpose_too_long_text = [CHR 0xE7, CHR 0x94, CHR 0xA8, CHR 0xE9, CHR 0x80, CHR 0x94, CHR 0xE8, CHR 0xAF, CHR 0xB4, CHR 0xE6, CHR 0x98, CHR
     0x8E, CHR 0xE8, CHR 0xBF, CHR 0x87, CHR 0xE9, CHR 0x95, CHR 0xBF, CHR 0xEF, CHR 0xBC, CHR 0x88, CHR 0xE6, CHR 0x9C,
     CHR 0x80, CHR 0xE5, CHR 0xA4, CHR 0x9A] @ '' '' @ itoa (int maxPurposeRunes) @ '' '' @ [CHR 0xE5, CHR 0xAD, CHR 0x97, CHR 0xEF, CHR 0xBC, CHR 0x89]"

definition no_index_statement_text :: string where
  "no_index_statement_text = [CHR 0xE8, CHR 0xAF, CHR 0xB7, CHR 0xE6, CHR 0xB1, CHR 0x82, CHR 0xE6, CHR 0x97, CHR 0xA5, CHR 0xE5, CHR 0xBF, CHR
     0x97, CHR 0xE7, CHR 0xB4, CHR 0xA2, CHR 0xE5, CHR 0xBC, CHR 0x95, CHR 0xE4, CHR 0xB8, CHR 0x8D, CHR 0xE5, CHR 0x8F,
     CHR 0xAF, CHR 0xE7, CHR 0x94, CHR 0xA8, CHR 0xEF, CHR 0xBC, CHR 0x8C, CHR 0xE6, CHR 0x9A, CHR 0x82, CHR 0xE6, CHR
     0x97, CHR 0xB6, CHR 0xE6, CHR 0x97, CHR 0xA0, CHR 0xE6, CHR 0xB3, CHR 0x95, CHR 0xE7, CHR 0x94, CHR 0x9F, CHR 0xE6,
     CHR 0x88, CHR 0x90, CHR 0xE5, CHR 0x9B, CHR 0xA2, CHR 0xE9, CHR 0x98, CHR 0x9F, CHR 0xE5, CHR 0xAF, CHR 0xB9, CHR
     0xE8, CHR 0xB4, CHR 0xA6, CHR 0xE5, CHR 0x8D, CHR 0x95]"

text \<open>What a body asks for: the purpose, and whether the rows are wanted.\<close>

definition check_statement_body :: "team_statement_body \<Rightarrow> response + string \<times> bool" where
  "check_statement_body b = (let purpose = trim_space (tsb_purpose b); detail = trim_space (tsb_detail b) in
     if tsb_target_cny b \<noteq> 0 then Inl (error_body 400 no_target_text)
     else if maxPurposeRunes < rune_count purpose then Inl (error_body 400 purpose_too_long_text)
     else if detail \<notin> {[], ''summary'', ''full''} then Inl (error_body 400 (''detail must be '' @ [CHR 0x22] @ ''summary'' @ [CHR 0x22] @ '' or '' @ [CHR 0x22] @ ''full'' @ [CHR 0x22]))
     else Inr (purpose, detail = ''full''))"

section \<open>The running total and the ledgers\<close>

definition retention_days :: "team_handler \<Rightarrow> int" where
  "retention_days t = (let d = (if th_retention_days t \<le> 0 then 90 else th_retention_days t) in
     if maxUsageWindowDays < d then maxUsageWindowDays else d)"

definition measurable :: "group_usage \<Rightarrow> member_usage list" where
  "measurable gu = filter (\<lambda>m. \<not> mu_unmeasurable m) (gu_by_member gu)"

definition fill_group_lifetime :: "team_handler \<Rightarrow> usage_log \<Rightarrow> int \<Rightarrow> group_usage \<Rightarrow> float64 \<Rightarrow> group_statement \<Rightarrow> usage_cache \<Rightarrow>
    group_statement \<times> usage_cache" where
  "fill_group_lifetime t ul now gu rate g c = (let days = retention_days t; today = day_at (ul_offset ul) now in
     case cached_usage_query ul now (th_log_dir t) (format_date (today - (days - 1))) (format_date today) [] c of
       (None, c') \<Rightarrow> (g, c')
     | (Some r, c') \<Rightarrow> let as = map (\<lambda>m. bucket (ur_by_client r) (mu_masked m)) (measurable gu) in
         (g\<lparr>gs_lifetime_requests := sum_list (map ag_count as),
            gs_lifetime_billed_cny := fmul (foldl fadd 0 (map ag_billed_usd as)) rate, gs_lifetime_days := days\<rparr>, c'))"

definition groupLedgerGapEpsilonUSD :: float64 where "groupLedgerGapEpsilonUSD = rnd (1 / 10000)"
definition groupUnitemisedFloorCNY :: float64 where "groupUnitemisedFloorCNY = rnd (5 / 1000)"

definition roster_charged :: "group_usage \<Rightarrow> float64" where
  "roster_charged gu = foldl (\<lambda>s m. fadd s (fadd (mu_pool_usd m) (mu_personal_usd m))) 0 (gu_by_member gu)"

definition reconcile_group :: "group_usage \<Rightarrow> float64 \<Rightarrow> group_statement \<Rightarrow> group_statement" where
  "reconcile_group gu rate g = (if rate \<le> 0 then g
     else let charged = roster_charged gu in
       if charged \<le> 0 then g
       else let gap = fsub charged (ag_billed_usd (gu_total gu)) in
         if groupLedgerGapEpsilonUSD < gap \<and> groupUnitemisedFloorCNY \<le> fmul gap rate
         then g\<lparr>gs_charged_cny := fmul charged rate, gs_unitemised_cny := fmul gap rate\<rparr>
         else g\<lparr>gs_charged_cny := gs_billed_cny g\<rparr>)"

section \<open>The itemised rows\<close>

definition page_limit_for :: "int \<Rightarrow> int" where
  "page_limit_for n = (if n \<le> 0 \<or> int MaxDetailLines < n then int MaxDetailLines else n)"

definition trim_newest :: "line list \<Rightarrow> line list" where
  "trim_newest ls = (if length ls \<le> MaxDetailLines then ls else take MaxDetailLines (newest_first ln_ts ls))"

definition detail_line :: "float64 \<Rightarrow> string \<Rightarrow> string \<Rightarrow> log_row \<Rightarrow> line" where
  "detail_line rate msk label r = \<lparr>ln_ts = lr_ts r, ln_provider = lr_provider r, ln_model = lr_model r, ln_input = lr_input r,
     ln_output = lr_output r, ln_cache_read = lr_cache_read r, ln_billed_cny = fmul (lr_billed_or_cost r) rate,
     ln_status = lr_status r, ln_member = msk, ln_member_label = label\<rparr>"

text \<open>The maps of counts and labels by mask: the last member of a mask decides.\<close>

definition member_of_mask :: "group_usage \<Rightarrow> string \<Rightarrow> member_usage option" where
  "member_of_mask gu msk = find (\<lambda>m. mu_masked m = msk) (rev (gu_by_member gu))"

definition count_of :: "group_usage \<Rightarrow> string \<Rightarrow> int" where
  "count_of gu msk = (case member_of_mask gu msk of None \<Rightarrow> 0 | Some m \<Rightarrow> ag_count (mu_agg m))"

definition label_of :: "group_usage \<Rightarrow> string \<Rightarrow> string" where
  "label_of gu msk = (case member_of_mask gu msk of None \<Rightarrow> [] | Some m \<Rightarrow> mu_label m)"

fun merge_lines :: "usage_log \<Rightarrow> string \<Rightarrow> group_usage \<Rightarrow> float64 \<Rightarrow> string list \<Rightarrow> line list \<times> bool \<Rightarrow> line list \<times> bool" where
  "merge_lines ul dir gu rate [] acc = acc"
| "merge_lines ul dir gu rate (msk # ms) (merged, failed) =
     (case ul_query ul (page_filter dir (gu_from gu) (gu_to gu) msk (page_limit_for (count_of gu msk))) of
        None \<Rightarrow> merge_lines ul dir gu rate ms (merged, True)
      | Some r \<Rightarrow> merge_lines ul dir gu rate ms
          (trim_newest (merged @ map (detail_line rate msk (label_of gu msk)) (res_entries r)), failed))"

definition group_detail_lines :: "usage_log \<Rightarrow> (string list \<Rightarrow> string list) \<Rightarrow> string \<Rightarrow> group_usage \<Rightarrow> float64 \<Rightarrow> (line list \<times> bool) option" where
  "group_detail_lines ul order dir gu rate = (case active_masks (gu_by_member gu) [] 0 of (active, _) \<Rightarrow>
     if active = [] then Some ([], False)
     else case merge_lines ul dir gu rate (order active) ([], False) of (merged, failed) \<Rightarrow>
       if failed then None else Some (oldest_first ln_ts merged, int (length merged) < ag_count (gu_total gu)))"

section \<open>The document\<close>

definition statement_member :: "float64 \<Rightarrow> member_usage \<Rightarrow> member_line" where
  "statement_member rate m = \<lparr>ml_masked = mu_masked m, ml_label = mu_label m, ml_role = mu_role m, ml_requests = ag_count (mu_agg m),
     ml_billed_cny = fmul (ag_billed_usd (mu_agg m)) rate, ml_pool_ledger_cny = fmul (mu_pool_usd m) rate,
     ml_personal_ledger_cny = fmul (mu_personal_usd m) rate, ml_unmeasurable = mu_unmeasurable m\<rparr>"

definition statement_model :: "float64 \<Rightarrow> string \<times> aggregate \<Rightarrow> model_row" where
  "statement_model rate m = \<lparr>mr_model = fst m, mr_requests = ag_count (snd m), mr_billed_cny = fmul (ag_billed_usd (snd m)) rate\<rparr>"

definition statement_head :: "team_handler \<Rightarrow> int \<Rightarrow> string \<Rightarrow> workspace \<Rightarrow> string \<Rightarrow> bool \<Rightarrow> group_usage \<Rightarrow> group_statement" where
  "statement_head t now admin ws purpose want gu = \<lparr>gs_workspace_id = ws_id ws, gs_workspace_name = ws_name ws,
     gs_admin_masked = token_mask admin, gs_admin_label = th_label t admin, gs_from_day = gu_from gu, gs_to_day = gu_to gu,
     gs_tz_name = gu_timezone gu, gs_generated_at = now, gs_purpose = purpose, gs_cny_per_usd = statement_rate t,
     gs_requests = 0, gs_billed_cny = 0, gs_lifetime_requests = 0, gs_lifetime_billed_cny = 0, gs_lifetime_days = retention_days t,
     gs_unitemised_cny = 0, gs_charged_cny = 0, gs_partial = gu_partial gu, gs_notes = gu_notes gu, gs_by_member = [], gs_by_model = [],
     gs_itemised = want, gs_lines = [], gs_lines_truncated = False\<rparr>"

definition add_detail :: "usage_log \<Rightarrow> (string list \<Rightarrow> string list) \<Rightarrow> string \<Rightarrow> bool \<Rightarrow> bool \<Rightarrow> group_usage \<Rightarrow> float64 \<Rightarrow> group_statement \<Rightarrow> group_statement" where
  "add_detail ul order dir want with_lines gu rate g = (if want \<and> with_lines
     then case group_detail_lines ul order dir gu rate of
            None \<Rightarrow> g\<lparr>gs_partial := True, gs_notes := gs_notes g @ [Detail_unreadable]\<rparr>
          | Some (ls, truncated) \<Rightarrow> g\<lparr>gs_lines := ls, gs_lines_truncated := truncated\<rparr>
     else if want then g\<lparr>gs_lines_truncated := int MaxDetailLines < gs_requests g\<rparr> else g)"

definition assemble_statement :: "team_handler \<Rightarrow> usage_log \<Rightarrow> (string list \<Rightarrow> string list) \<Rightarrow> int \<Rightarrow> string \<Rightarrow> workspace \<Rightarrow> string \<Rightarrow> bool \<Rightarrow> bool \<Rightarrow>
    group_usage \<Rightarrow> usage_cache \<Rightarrow> group_statement \<times> usage_cache" where
  "assemble_statement t ul order now admin ws purpose want with_lines gu c =
     (let rate = statement_rate t;
          g = set_group_totals (ag_count (gu_total gu)) (fmul (ag_billed_usd (gu_total gu)) rate)
                (map (statement_member rate) (gu_by_member gu)) (map (statement_model rate) (gu_by_model gu))
                (statement_head t now admin ws purpose want gu)
      in case fill_group_lifetime t ul now gu rate g c of (g1, c') \<Rightarrow>
           (group_rollup (add_detail ul order (th_log_dir t) want with_lines gu rate (reconcile_group gu rate g1)), c'))"

text \<open>A request without a body asks for the default window and the summary.\<close>

definition empty_statement_body :: team_statement_body where
  "empty_statement_body = \<lparr>tsb_from = [], tsb_to = [], tsb_detail = [], tsb_purpose = [], tsb_target_cny = 0\<rparr>"

definition build_group_statement :: "sqlite \<Rightarrow> team_handler \<Rightarrow> usage_log \<Rightarrow> (string list \<Rightarrow> string list) \<Rightarrow> int \<Rightarrow> string \<Rightarrow> workspace \<Rightarrow>
    (string + team_statement_body) option \<Rightarrow> bool \<Rightarrow> usage_cache \<Rightarrow> ((response + group_statement) \<times> usage_cache) dbm" where
  "build_group_statement q t ul order now admin ws body with_lines c =
     (case (case body of None \<Rightarrow> Inr empty_statement_body | Some b \<Rightarrow> b) of Inl msg \<Rightarrow> ret (Inl (error_body 400 msg), c)
      | Inr b \<Rightarrow> (case check_statement_body b of Inl resp \<Rightarrow> ret (Inl resp, c)
        | Inr (purpose, want) \<Rightarrow>
            if th_log_dir t = [] then ret (Inl (error_body 503 ''log_dir not configured''), c)
            else if \<not> th_log_indexed t then ret (Inl (error_body 503 no_index_statement_text), c)
            else bnd (build_group_usage q ul now (team_query t ws (tsb_from b) (tsb_to b)) c) (\<lambda>(r, c1).
              case r of Inl e \<Rightarrow> ret (Inl (usage_failure e), c1)
              | Inr gu \<Rightarrow> (case assemble_statement t ul order now admin ws purpose want with_lines gu c1 of
                  (g, c2) \<Rightarrow> ret (Inr g, c2)))))"

section \<open>The two endpoints\<close>

definition share :: "float64 \<Rightarrow> float64 \<Rightarrow> float64" where
  "share part whole = (if whole \<le> 0 then 0 else fdiv part whole)"

definition min64 :: "int \<Rightarrow> int \<Rightarrow> int" where
  "min64 a b = (if a < b then a else b)"

definition statement_member_view :: "group_statement \<Rightarrow> member_line \<Rightarrow> json" where
  "statement_member_view g m = JObj [(''masked'', JStr (ml_masked m)), (''label'', JStr (ml_label m)), (''role'', JStr (ml_role m)),
     (''unmeasurable'', JBool (ml_unmeasurable m)), (''requests'', JInt (ml_requests m)), (''billed_cny'', JNum (ml_billed_cny m)),
     (''share'', JNum (share (ml_billed_cny m) (gs_billed_cny g))), (''pool_ledger_cny'', JNum (ml_pool_ledger_cny m)),
     (''personal_ledger_cny'', JNum (ml_personal_ledger_cny m))]"

definition team_statement_json :: "group_statement \<Rightarrow> (string \<times> json) list" where
  "team_statement_json g = (let n = int (length (gs_lines g));
       detail = (if n = 0 \<and> gs_itemised g then min64 (gs_requests g) (int MaxDetailLines) else n) in
     [(''workspace'', JObj [(''id'', JInt (gs_workspace_id g)), (''name'', JStr (gs_workspace_name g))]), (''from'', JStr (gs_from_day g)),
      (''to'', JStr (gs_to_day g)), (''timezone'', JStr (gs_tz_name g)), (''cny_per_usd'', JNum (gs_cny_per_usd g)),
      (''purpose'', JStr (gs_purpose g)), (''requests'', JInt (gs_requests g)), (''billed_cny'', JNum (gs_billed_cny g)),
      (''unitemised_cny'', JNum (gs_unitemised_cny g)), (''charged_cny'', JNum (gs_charged_cny g)),
      (''lifetime_requests'', JInt (gs_lifetime_requests g)), (''lifetime_billed_cny'', JNum (gs_lifetime_billed_cny g)),
      (''lifetime_days'', JInt (gs_lifetime_days g)), (''member_count'', JInt (int (member_count g))),
      (''by_member'', JArr (map (statement_member_view g) (gs_by_member g))),
      (''by_model'', JArr (map (\<lambda>m. JObj [(''model'', JStr (mr_model m)), (''requests'', JInt (mr_requests m)),
         (''billed_cny'', JNum (mr_billed_cny m))]) (gs_by_model g))),
      (''detail_lines'', JInt detail), (''truncated'', JBool (gs_lines_truncated g)), (''partial'', JBool (gs_partial g)),
      (''notes'', JArr (map (\<lambda>n. JStr (note_text n)) (gs_notes g)))])"

definition team_statement_preview :: "sqlite \<Rightarrow> team_handler \<Rightarrow> usage_log \<Rightarrow> (string list \<Rightarrow> string list) \<Rightarrow> int \<Rightarrow> string \<Rightarrow> workspace \<Rightarrow>
    (string + team_statement_body) option \<Rightarrow> usage_cache \<Rightarrow> (response \<times> usage_cache) dbm" where
  "team_statement_preview q t ul order now admin ws body c = bnd (build_group_statement q t ul order now admin ws body False c) (\<lambda>(r, c').
     ret (case r of Inl resp \<Rightarrow> resp | Inr g \<Rightarrow> (200, team_statement_json g), c'))"

text \<open>The file's name and the document that is drawn.\<close>

definition team_statement_file :: "group_statement \<Rightarrow> string" where
  "team_statement_file g = ''team-statement-'' @ itoa (gs_workspace_id g) @ ''-'' @ gs_from_day g @ ''_'' @ gs_to_day g @ ''.pdf''"

definition team_statement_pdf :: "sqlite \<Rightarrow> team_handler \<Rightarrow> usage_log \<Rightarrow> (string list \<Rightarrow> string list) \<Rightarrow> int \<Rightarrow> string \<Rightarrow> workspace \<Rightarrow>
    (string + team_statement_body) option \<Rightarrow> usage_cache \<Rightarrow> ((response + string \<times> group_statement) \<times> usage_cache) dbm" where
  "team_statement_pdf q t ul order now admin ws body c = bnd (build_group_statement q t ul order now admin ws body True c) (\<lambda>(r, c').
     ret (case r of Inl resp \<Rightarrow> Inl resp | Inr g \<Rightarrow> Inr (team_statement_file g, g), c'))"

end
