(* ===== verification/AdminStatement.thy ===== *)
theory AdminStatement
  imports AdminLog TeamStatement
begin

text \<open>
  The statement a token's holder exports (\<open>internal/admin/statement.go\<close>), over named days or back from
  now until a target amount is reached. Totals of named days come from pre-summed answers of the
  log; a target walks the rows. The ledger is compared at the end. Reading the wallet database is
  skipped when there is none; its failures cost a figure, never the document. \<open>sh_lookup\<close> is the store
  of client tokens of cc-core: the name and group of a known token.
\<close>

record statement_handler =
  sh_log_dir :: string
  sh_retention :: int
  sh_lookup :: "string \<Rightarrow> (string \<times> string) option"
  sh_wallets :: bool
  sh_rate :: "rate_cache option"
  sh_fallback :: float64
  sh_max_rows :: int

record statement_body =
  sb_token :: string
  sb_from :: string
  sb_to :: string
  sb_target_cny :: float64

definition ledgerGapEpsilonUSD :: float64 where "ledgerGapEpsilonUSD = rnd (1 / 10000)"
definition unitemisedFloorCNY :: float64 where "unitemisedFloorCNY = rnd (5 / 1000)"
definition statementMaxRows :: int where "statementMaxRows = 500000"
definition statementScanCacheTTL :: int where "statementScanCacheTTL = 10 * second_ns"
definition statementDefaultDays :: int where "statementDefaultDays = 30"
definition statementMaxRangeDays :: int where "statementMaxRangeDays = 400"

section \<open>The window\<close>

text \<open>A field of the request: its day, or none when it is empty or names the zero instant.\<close>

definition range_field :: "int \<Rightarrow> string \<Rightarrow> string \<Rightarrow> string + int option" where
  "range_field offset field s = (let v = trim_space s in
     if v = [] then Inr None
     else case parse_date v of None \<Rightarrow> Inl (field @ '' must be YYYY-MM-DD'')
     | Some z \<Rightarrow> Inr (if (z * 86400 - offset) * second_ns = zero_time then None else Some z))"

definition range_too_wide :: "int \<Rightarrow> string" where
  "range_too_wide days = ''range too wide: '' @ itoa days @ '' days (max '' @ itoa statementMaxRangeDays @ '')''"

text \<open>The two labels and the half-open window in nanoseconds; days the wrong way round are swapped.\<close>

definition statement_range :: "int \<Rightarrow> int \<Rightarrow> string \<Rightarrow> string \<Rightarrow> string + string \<times> string \<times> int \<times> int" where
  "statement_range offset now from0 to0 = (case range_field offset ''from'' from0 of Inl e \<Rightarrow> Inl e
     | Inr f0 \<Rightarrow> (case range_field offset ''to'' to0 of Inl e \<Rightarrow> Inl e
       | Inr t0 \<Rightarrow> let t1 = (case t0 of None \<Rightarrow> day_at offset now | Some z \<Rightarrow> z);
             f1 = (case f0 of None \<Rightarrow> t1 - (statementDefaultDays - 1) | Some z \<Rightarrow> z);
             (f, t) = (if t1 < f1 then (t1, f1) else (f1, t1));
             days = days_between f t + 1
           in if statementMaxRangeDays < days then Inl (range_too_wide days)
              else Inr (format_date f, format_date t, (f * 86400 - offset) * second_ns, ((t + 1) * 86400 - offset) * second_ns)))"

text \<open>From the newest row back: the start of the window and what was reached, or what there is in all.\<close>

fun statement_range_for_target :: "log_entry list \<Rightarrow> string \<Rightarrow> float64 \<Rightarrow> float64 \<Rightarrow> int \<Rightarrow> float64 \<Rightarrow> float64 + int \<times> float64" where
  "statement_range_for_target [] masked target rate now achieved = Inl achieved"
| "statement_range_for_target (rec # es) masked target rate now achieved =
     (if le_client_token rec \<noteq> masked \<or> \<not> lr_ts rec < now then statement_range_for_target es masked target rate now achieved
      else let a = fadd achieved (fmul (lr_billed_or_cost rec) rate) in
        if target \<le> a then Inr (lr_ts rec, a) else statement_range_for_target es masked target rate now a)"

section \<open>Rows and totals\<close>

definition admin_statement_rate :: "statement_handler \<Rightarrow> float64" where
  "admin_statement_rate h = (case sh_rate h of
     Some rc \<Rightarrow> if 0 < cny_per_usd rc then cny_per_usd rc else if 0 < sh_fallback h then sh_fallback h else DefaultCNYPerUSD
   | None \<Rightarrow> if 0 < sh_fallback h then sh_fallback h else DefaultCNYPerUSD)"

definition statement_line :: "log_entry \<Rightarrow> float64 \<Rightarrow> line" where
  "statement_line rec cny = \<lparr>ln_ts = lr_ts rec, ln_provider = lr_provider rec, ln_model = lr_model rec, ln_input = lr_input rec,
     ln_output = lr_output rec, ln_cache_read = lr_cache_read rec, ln_billed_cny = cny, ln_status = lr_status rec,
     ln_member = [], ln_member_label = []\<rparr>"

text \<open>One row of the walk over a target's window.\<close>

definition target_row :: "bool \<Rightarrow> float64 \<Rightarrow> int \<Rightarrow> int \<Rightarrow> log_entry \<Rightarrow> statement \<times> float64 \<times> line list \<Rightarrow> statement \<times> float64 \<times> line list" where
  "target_row with_lines rate start stop rec acc = (case acc of (s, usd, ls) \<Rightarrow>
     if lr_ts rec < start \<or> \<not> lr_ts rec < stop then acc
     else let cny = fmul (lr_billed_or_cost rec) rate in
       (observe (lr_model rec) cny s, fadd usd (lr_billed_or_cost rec),
        if with_lines \<and> length ls < MaxDetailLines then ls @ [statement_line rec cny] else ls))"

definition range_filter :: "string \<Rightarrow> string \<Rightarrow> string \<Rightarrow> int \<Rightarrow> query_filter" where
  "range_filter masked from to' limit = no_filter\<lparr>qf_client_token := masked, qf_from_day := from, qf_to_day := to', qf_limit := limit\<rparr>"

definition reconcile_against_ledger :: "sqlite \<Rightarrow> bool \<Rightarrow> string \<Rightarrow> statement \<Rightarrow> float64 \<Rightarrow> int \<Rightarrow> int \<Rightarrow> float64 \<Rightarrow> statement dbm" where
  "reconcile_against_ledger q have_db tok s usd start stop rate = (if \<not> have_db then ret s
     else bnd (attempt (charged_usd_between q tok (unix_seconds start) (unix_seconds stop))) (\<lambda>r. ret (case r of Inl _ \<Rightarrow> s
       | Inr charged \<Rightarrow> if charged \<le> 0 \<or> rate \<le> 0 then s
           else let gap = fsub charged usd in
             if ledgerGapEpsilonUSD < gap \<and> unitemisedFloorCNY \<le> fmul gap rate
             then s\<lparr>st_charged_cny := fmul charged rate, st_unitemised_cny := fmul gap rate\<rparr>
             else s\<lparr>st_charged_cny := st_billed_cny s\<rparr>)))"

text \<open>The name of the pricing group replaces the token's own group when both reads succeed.\<close>

definition holder_group :: "bool \<Rightarrow> string \<Rightarrow> string \<Rightarrow> string dbm" where
  "holder_group have_db tok grp = (if \<not> have_db then ret grp
     else bnd (attempt (get_wallet tok)) (\<lambda>r. case r of Inl _ \<Rightarrow> ret grp
       | Inr w \<Rightarrow> bnd (attempt (get_group (w_group_id w))) (\<lambda>r. ret (case r of Inl _ \<Rightarrow> grp
           | Inr g \<Rightarrow> if g_name g \<noteq> [] then g_name g else grp))))"

section \<open>The two readings of the log\<close>

definition too_many_rows_text :: "int \<Rightarrow> int \<Rightarrow> string" where
  "too_many_rows_text n cap = [CHR 0xE8, CHR 0xAF, CHR 0xA5, CHR 0xE4, CHR 0xBB, CHR 0xA4, CHR 0xE7, CHR 0x89, CHR 0x8C, CHR 0xE5, CHR 0x9C, CHR
     0xA8, CHR 0xE7, CHR 0x95, CHR 0x99, CHR 0xE5, CHR 0xAD, CHR 0x98, CHR 0xE7, CHR 0xAA, CHR 0x97, CHR 0xE5, CHR 0x8F,
     CHR 0xA3, CHR 0xE5, CHR 0x86, CHR 0x85, CHR 0xE6, CHR 0x9C, CHR 0x89] @ '' '' @ itoa n @ '' '' @ [CHR 0xE6, CHR 0x9D, CHR 0xA1, CHR 0xE8, CHR 0xAE, CHR 0xB0, CHR 0xE5, CHR 0xBD, CHR 0x95, CHR 0xEF, CHR 0xBC,
     CHR 0x8C, CHR 0xE8, CHR 0xB6, CHR 0x85, CHR 0xE8, CHR 0xBF, CHR 0x87, CHR 0xE6, CHR 0x8C, CHR 0x89, CHR 0xE7, CHR
     0x9B, CHR 0xAE, CHR 0xE6, CHR 0xA0, CHR 0x87, CHR 0xE9, CHR 0x87, CHR 0x91, CHR 0xE9, CHR 0xA2, CHR 0x9D, CHR 0xE7,
     CHR 0x94, CHR 0x9F, CHR 0xE6, CHR 0x88, CHR 0x90, CHR 0xE7, CHR 0x9A, CHR 0x84, CHR 0xE5, CHR 0xA4, CHR 0x84, CHR
     0xE7, CHR 0x90, CHR 0x86, CHR 0xE4, CHR 0xB8, CHR 0x8A, CHR 0xE9, CHR 0x99, CHR 0x90] @ '' '' @ itoa cap @ '' '' @ [CHR 0xE6, CHR 0x9D, CHR 0xA1, CHR 0xEF, CHR 0xBC, CHR 0x8C, CHR 0xE8, CHR 0xAF, CHR 0xB7, CHR 0xE6, CHR 0x94,
     CHR 0xB9, CHR 0xE7, CHR 0x94, CHR 0xA8, CHR 0xE6, CHR 0x97, CHR 0xA5, CHR 0xE6, CHR 0x9C, CHR 0x9F, CHR 0xE5, CHR
     0x8C, CHR 0xBA, CHR 0xE9, CHR 0x97, CHR 0xB4, CHR 0xE5, CHR 0xAF, CHR 0xBC, CHR 0xE5, CHR 0x87, CHR 0xBA]"

definition unreachable_text :: "float64 \<Rightarrow> float64 \<Rightarrow> string" where
  "unreachable_text got want = [CHR 0xE8, CHR 0xAF, CHR 0xA5, CHR 0xE8, CHR 0xB4, CHR 0xA6, CHR 0xE6, CHR 0x88, CHR 0xB7, CHR 0xE5, CHR 0x9C, CHR
     0xA8, CHR 0xE5, CHR 0x8F, CHR 0xAF, CHR 0xE6, CHR 0x9F, CHR 0xA5, CHR 0xE8, CHR 0xAF, CHR 0xA2, CHR 0xE7, CHR 0x9A,
     CHR 0x84, CHR 0xE6, CHR 0x97, CHR 0xA5, CHR 0xE5, CHR 0xBF, CHR 0x97, CHR 0xE7, CHR 0x95, CHR 0x99, CHR 0xE5, CHR
     0xAD, CHR 0x98, CHR 0xE7, CHR 0xAA, CHR 0x97, CHR 0xE5, CHR 0x8F, CHR 0xA3, CHR 0xE5, CHR 0x86, CHR 0x85, CHR 0xE5,
     CHR 0x90, CHR 0x88, CHR 0xE8, CHR 0xAE, CHR 0xA1, CHR 0xE6, CHR 0xB6, CHR 0x88, CHR 0xE8, CHR 0xB4, CHR 0xB9] @ '' ''
     @ [CHR 0xC2, CHR 0xA5] @ fmt_fixed 2 got @ [CHR 0xEF, CHR 0xBC, CHR 0x8C, CHR 0xE4, CHR 0xB8, CHR 0x8D, CHR 0xE8, CHR 0xB6, CHR 0xB3, CHR 0xE4, CHR 0xBB, CHR
     0xA5, CHR 0xE7, CHR 0x94, CHR 0x9F, CHR 0xE6, CHR 0x88, CHR 0x90] @ '' '' @ [CHR 0xC2, CHR 0xA5] @ fmt_fixed 2 want @ '' '' @ [CHR 0xE7, CHR 0x9A, CHR 0x84, CHR 0xE8, CHR 0xB4, CHR 0xA6, CHR 0xE5, CHR 0x8D, CHR 0x95]"

definition retention_of :: "statement_handler \<Rightarrow> int" where
  "retention_of h = (if sh_retention h \<le> 0 then 90 else sh_retention h)"

text \<open>Day the retained log starts on.\<close>

definition retained_from :: "statement_handler \<Rightarrow> int \<Rightarrow> int \<Rightarrow> string" where
  "retained_from h offset now = format_date (day_at offset now - (retention_of h - 1))"

text \<open>The running total; a failed query leaves zeroes.\<close>

definition lifetime_totals :: "statement_handler \<Rightarrow> request_log \<Rightarrow> int \<Rightarrow> string \<Rightarrow> query_cache \<Rightarrow> (int \<times> float64) \<times> query_cache" where
  "lifetime_totals h rl now masked c =
     (case cached_query_shared rl now (range_filter masked (retained_from h (rl_offset rl) now) [] 1) statusCacheTTL c of
        (Inl _, c') \<Rightarrow> ((0, 0), c') | (Inr r, c') \<Rightarrow> ((ag_count (qr_summary r), ag_billed_usd (qr_summary r)), c'))"

text \<open>A target: the rows of the whole retained log, and the window found in them.\<close>

definition target_scan :: "statement_handler \<Rightarrow> request_log \<Rightarrow> int \<Rightarrow> string \<Rightarrow> float64 \<Rightarrow> float64 \<Rightarrow> query_cache \<Rightarrow>
    (response + log_entry list \<times> int) \<times> query_cache" where
  "target_scan h rl now masked target rate c =
     (case cached_query_shared rl now (range_filter masked (retained_from h (rl_offset rl) now) [] (sh_max_rows h)) statementScanCacheTTL c of
        (Inl e, c') \<Rightarrow> (Inl (error_body 500 e), c')
      | (Inr r, c') \<Rightarrow> let n = ag_count (qr_summary r) in
          if int (length (qr_entries r)) < n then (Inl (error_body 413 (too_many_rows_text n (sh_max_rows h))), c')
          else (case statement_range_for_target (qr_entries r) masked target rate now 0 of
              Inl got \<Rightarrow> (Inl (error_body 400 (unreachable_text got target)), c')
            | Inr (start, _) \<Rightarrow> (Inr (qr_entries r, start), c')))"

text \<open>Named days: the totals and, for the document, as many rows as it prints, oldest first.\<close>

definition range_totals :: "request_log \<Rightarrow> int \<Rightarrow> string \<Rightarrow> string \<Rightarrow> string \<Rightarrow> bool \<Rightarrow> float64 \<Rightarrow> statement \<Rightarrow> query_cache \<Rightarrow>
    (response + statement \<times> float64 \<times> line list) \<times> query_cache" where
  "range_totals rl now masked from to' with_lines rate s c =
     (case cached_query_shared rl now (range_filter masked from to' 1) statusCacheTTL c of (Inl e, c1) \<Rightarrow> (Inl (error_body 500 e), c1)
      | (Inr agg, c1) \<Rightarrow> let usd = ag_billed_usd (qr_summary agg);
            s1 = set_range_totals (ag_count (qr_summary agg)) (fmul usd rate) (map (statement_model rate) (qr_by_model agg)) s
          in if \<not> with_lines then (Inr (s1, usd, []), c1)
             else case cached_query_shared rl now (range_filter masked from to' (int MaxDetailLines)) statementScanCacheTTL c1 of
                 (Inl e, c2) \<Rightarrow> (Inl (error_body 500 e), c2)
               | (Inr det, c2) \<Rightarrow> (Inr (s1, usd, rev (map (\<lambda>rec. statement_line rec (fmul (lr_billed_or_cost rec) rate)) (qr_entries det))), c2))"

section \<open>The document\<close>

definition zero_line :: line where
  "zero_line = \<lparr>ln_ts = zero_time, ln_provider = [], ln_model = [], ln_input = 0, ln_output = 0, ln_cache_read = 0, ln_billed_cny = 0,
     ln_status = 0, ln_member = [], ln_member_label = []\<rparr>"

text \<open>The preview reports how many rows the document will carry without having them.\<close>

definition placeholder_lines :: "statement \<Rightarrow> statement" where
  "placeholder_lines s = (if int MaxDetailLines < st_requests s
     then s\<lparr>st_lines := replicate MaxDetailLines zero_line, st_lines_truncated := True\<rparr>
     else s\<lparr>st_lines := replicate (nat (st_requests s)) zero_line\<rparr>)"

definition both_given_text :: string where "both_given_text = ''target_cny '' @ [CHR 0xE4, CHR 0xB8, CHR 0x8D, CHR 0xE8, CHR 0x83, CHR 0xBD, CHR 0xE4, CHR 0xB8, CHR 0x8E] @ ''
     from/to '' @ [CHR 0xE5, CHR 0x90, CHR 0x8C, CHR 0xE6, CHR 0x97, CHR 0xB6, CHR 0xE6, CHR 0x8C, CHR 0x87, CHR 0xE5, CHR
     0xAE, CHR 0x9A]"
definition negative_text :: string where "negative_text = ''target_cny '' @ [CHR 0xE4, CHR 0xB8, CHR 0x8D, CHR 0xE8, CHR 0x83, CHR 0xBD, CHR 0xE4, CHR 0xB8, CHR 0xBA, CHR 0xE8,
     CHR 0xB4, CHR 0x9F, CHR 0xE6, CHR 0x95, CHR 0xB0]"

text \<open>What is refused before anything is read.\<close>

definition check_statement :: "statement_handler \<Rightarrow> string + statement_body \<Rightarrow> response + (string \<times> string \<times> string) \<times> statement_body" where
  "check_statement h body = (if sh_log_dir h = [] then Inl (error_body 503 ''log_dir not configured'')
     else case body of Inl msg \<Rightarrow> Inl (error_body 400 msg)
     | Inr b \<Rightarrow> let tok = trim_space (sb_token b) in
         if tok = [] then Inl (error_body 400 ''token required'')
         else case sh_lookup h tok of None \<Rightarrow> Inl (error_body 404 ''token not found'')
         | Some (name, grp) \<Rightarrow>
             if 0 < sb_target_cny b \<and> (trim_space (sb_from b) \<noteq> [] \<or> trim_space (sb_to b) \<noteq> []) then Inl (error_body 400 both_given_text)
             else if sb_target_cny b < 0 then Inl (error_body 400 negative_text)
             else Inr ((tok, name, grp), b))"

definition statement_start :: "request_log \<Rightarrow> statement_handler \<Rightarrow> int \<Rightarrow> string \<times> string \<times> string \<Rightarrow> string \<Rightarrow> string \<Rightarrow> float64 \<Rightarrow>
    float64 \<Rightarrow> (int \<times> int) option \<Rightarrow> string \<Rightarrow> statement" where
  "statement_start rl h now who from to' target paid window grp = (case who of (tok, name, _) \<Rightarrow>
     \<lparr>st_token_masked = token_mask tok, st_token_name = name, st_group = grp, st_from_day = from, st_to_day = to',
      st_tz_name = rl_zone rl, st_generated_at = now, st_by_target = (0 < target), st_target_cny = target, st_range = window,
      st_total_paid_cny = paid, st_cny_per_usd = admin_statement_rate h, st_requests = 0, st_billed_cny = 0, st_lifetime_requests = 0,
      st_lifetime_billed_cny = 0, st_lifetime_days = retention_of h, st_unitemised_cny = 0, st_charged_cny = 0, st_by_model = [],
      st_tally = [], st_lines = [], st_lines_truncated = False, st_has_token_detail = False\<rparr>)"

text \<open>The end both readings share: lines, table, running total, ledger, and the preview's line count.\<close>

definition finish_statement :: "sqlite \<Rightarrow> statement_handler \<Rightarrow> string \<Rightarrow> int \<times> float64 \<Rightarrow> bool \<Rightarrow> int \<Rightarrow> int \<Rightarrow> statement \<times> float64 \<times> line list \<Rightarrow> statement dbm" where
  "finish_statement q h tok life with_lines start stop found = (case found of (s, usd, ls) \<Rightarrow>
     let rate = admin_statement_rate h;
         s1 = rollup (s\<lparr>st_lines := ls, st_lines_truncated := with_lines \<and> int (length ls) < st_requests s\<rparr>);
         s2 = s1\<lparr>st_lifetime_requests := fst life, st_lifetime_billed_cny := fmul (snd life) rate\<rparr>
     in bnd (reconcile_against_ledger q (sh_wallets h) tok s2 usd start stop rate) (\<lambda>s3.
          ret (if with_lines then s3 else placeholder_lines s3)))"

definition statement_by_target :: "sqlite \<Rightarrow> statement_handler \<Rightarrow> request_log \<Rightarrow> int \<Rightarrow> string \<times> string \<times> string \<Rightarrow> float64 \<Rightarrow> float64 \<Rightarrow> bool \<Rightarrow> query_cache \<Rightarrow>
    ((response + statement) \<times> query_cache) dbm" where
  "statement_by_target q h rl now who target paid with_lines c = (case who of (tok, _, grp) \<Rightarrow>
     let masked = token_mask tok; rate = admin_statement_rate h; day = (\<lambda>t. format_date (day_at (rl_offset rl) t)) in
     case lifetime_totals h rl now masked c of (life, c1) \<Rightarrow>
       (case target_scan h rl now masked target rate c1 of
          (Inl resp, c2) \<Rightarrow> ret (Inl resp, c2)
        | (Inr (es, start), c2) \<Rightarrow> bnd (holder_group (sh_wallets h) tok grp) (\<lambda>grp'.
            let s0 = statement_start rl h now who (day start) (day now) target paid (Some (start, now)) grp';
                found = (case fold (target_row with_lines rate start now) es (s0, 0, []) of (s, usd, ls) \<Rightarrow> (s, usd, rev ls))
            in bnd (finish_statement q h tok life with_lines start now found) (\<lambda>s. ret (Inr s, c2)))))"

definition statement_by_days :: "sqlite \<Rightarrow> statement_handler \<Rightarrow> request_log \<Rightarrow> int \<Rightarrow> string \<times> string \<times> string \<Rightarrow> statement_body \<Rightarrow> float64 \<Rightarrow> bool \<Rightarrow> query_cache \<Rightarrow>
    ((response + statement) \<times> query_cache) dbm" where
  "statement_by_days q h rl now who b paid with_lines c = (case who of (tok, _, grp) \<Rightarrow>
     case statement_range (rl_offset rl) now (sb_from b) (sb_to b) of Inl e \<Rightarrow> ret (Inl (error_body 400 e), c)
     | Inr (from, to', start, stop) \<Rightarrow> (case lifetime_totals h rl now (token_mask tok) c of (life, c1) \<Rightarrow>
         bnd (holder_group (sh_wallets h) tok grp) (\<lambda>grp'.
           case range_totals rl now (token_mask tok) from to' with_lines (admin_statement_rate h)
                  (statement_start rl h now who from to' (sb_target_cny b) paid None grp') c1 of
             (Inl resp, c2) \<Rightarrow> ret (Inl resp, c2)
           | (Inr found, c2) \<Rightarrow> bnd (finish_statement q h tok life with_lines start stop found) (\<lambda>s. ret (Inr s, c2)))))"

definition build_statement :: "sqlite \<Rightarrow> statement_handler \<Rightarrow> request_log \<Rightarrow> int \<Rightarrow> string + statement_body \<Rightarrow> bool \<Rightarrow> query_cache \<Rightarrow>
    ((response + statement) \<times> query_cache) dbm" where
  "build_statement q h rl now body with_lines c = (case check_statement h body of Inl resp \<Rightarrow> ret (Inl resp, c)
     | Inr (who, b) \<Rightarrow> bnd (if sh_wallets h then or_zero 0 (total_paid_cny q (fst who)) else ret 0) (\<lambda>paid.
         if 0 < sb_target_cny b then statement_by_target q h rl now who (sb_target_cny b) paid with_lines c
         else statement_by_days q h rl now who b paid with_lines c))"

section \<open>The two endpoints\<close>

text \<open>\<open>omitempty\<close> leaves out a zero or a false.\<close>

definition unless_zero :: "string \<Rightarrow> float64 \<Rightarrow> (string \<times> json) list" where
  "unless_zero k x = (if x = 0 then [] else [(k, JNum x)])"

definition statement_preview_json :: "statement \<Rightarrow> (string \<times> json) list" where
  "statement_preview_json s = [(''from'', JStr (st_from_day s)), (''to'', JStr (st_to_day s)), (''timezone'', JStr (st_tz_name s)),
     (''requests'', JInt (st_requests s)), (''billed_cny'', JNum (st_billed_cny s))] @
     unless_zero ''unitemised_cny'' (st_unitemised_cny s) @ unless_zero ''charged_cny'' (st_charged_cny s) @
     [(''lifetime_requests'', JInt (st_lifetime_requests s)), (''lifetime_billed_cny'', JNum (st_lifetime_billed_cny s)),
      (''lifetime_days'', JInt (st_lifetime_days s))] @
     (if st_by_target s then [(''by_target'', JBool True)] else []) @
     unless_zero ''target_cny'' (st_target_cny s) @ unless_zero ''total_paid_cny'' (st_total_paid_cny s) @
     [(''detail_lines'', JInt (int (length (st_lines s)))), (''truncated'', JBool (st_lines_truncated s)),
      (''by_model'', JArr (map (\<lambda>m. JObj [(''model'', JStr (mr_model m)), (''requests'', JInt (mr_requests m)),
        (''billed_cny'', JNum (mr_billed_cny m))]) (st_by_model s)))]"

definition statement_preview :: "sqlite \<Rightarrow> statement_handler \<Rightarrow> request_log \<Rightarrow> int \<Rightarrow> string + statement_body \<Rightarrow> query_cache \<Rightarrow>
    (response \<times> query_cache) dbm" where
  "statement_preview q h rl now body c = bnd (build_statement q h rl now body False c) (\<lambda>(r, c').
     ret (case r of Inl resp \<Rightarrow> resp | Inr s \<Rightarrow> (200, statement_preview_json s), c'))"

definition statement_file :: "statement \<Rightarrow> string" where
  "statement_file s = ''usage-statement-'' @ (if st_by_target s then ''target-'' else []) @ st_from_day s @ ''_'' @ st_to_day s @ ''.pdf''"

definition statement_pdf :: "sqlite \<Rightarrow> statement_handler \<Rightarrow> request_log \<Rightarrow> int \<Rightarrow> string + statement_body \<Rightarrow> query_cache \<Rightarrow>
    ((response + string \<times> statement) \<times> query_cache) dbm" where
  "statement_pdf q h rl now body c = bnd (build_statement q h rl now body True c) (\<lambda>(r, c').
     ret (case r of Inl resp \<Rightarrow> Inl resp | Inr s \<Rightarrow> Inr (statement_file s, s), c'))"

end
