(* ===== verification/TeamFacts.thy ===== *)
theory TeamFacts
  imports UsageFacts TeamConsole
begin

text \<open>
  What the team console guarantees: the page of requests is the newest of the team's own rows in
  whatever order the members' answers arrive, no change through the console leaves a workspace
  without an admin, an admin downloads only the invoices of their own workspace, and what is filed
  has passed the checks.
\<close>

section \<open>The page of requests\<close>

text \<open>What is relied on of the request log: a page query answers the newest rows of its client in its window,
  newest first and no more than asked for. \<open>rows\<close> are all of a client's rows in the window.\<close>

definition serves_newest :: "usage_log \<Rightarrow> string \<Rightarrow> string \<Rightarrow> string \<Rightarrow> (string \<Rightarrow> log_row list) \<Rightarrow> bool" where
  "serves_newest ul dir from to' rows \<longleftrightarrow> (\<forall>client limit r. ul_query ul (page_filter dir from to' client limit) = Some r \<longrightarrow>
     res_entries r = take (nat limit) (newest_first lr_ts (rows client)))"

text \<open>All rows of the members whose query answered.\<close>

definition answered_rows :: "usage_log \<Rightarrow> string \<Rightarrow> string \<Rightarrow> string \<Rightarrow> int \<Rightarrow> (string \<Rightarrow> log_row list) \<Rightarrow> (string \<times> string) list \<Rightarrow> request_entry list" where
  "answered_rows ul dir from to' limit rows whos = concat (map (\<lambda>who.
     if ul_query ul (page_filter dir from to' (fst who) (limit + 1)) = None then []
     else map (\<lambda>r. (fst who, snd who, r)) (newest_first lr_ts (rows (fst who)))) whos)"

definition newest_page :: "int \<Rightarrow> request_entry multiset \<Rightarrow> request_entry list \<times> bool \<Rightarrow> bool" where
  "newest_page limit A acc \<longleftrightarrow> top_of entry_ts (nat limit) A (mset (fst acc)) \<and>
     sorted_wrt (\<lambda>a b. entry_ts b \<le> entry_ts a) (fst acc) \<and> (snd acc \<longleftrightarrow> nat limit < size A)"

lemma newest_page_empty: "newest_page limit {#} ([], False)"
  by (simp add: newest_page_def top_of_empty)

lemma member_answer_newest:
  assumes acc: "newest_page limit A acc" and limit: "0 < limit"
    and rows: "res = take (nat (limit + 1)) R" and R: "sorted_wrt (\<lambda>a b. lr_ts b \<le> lr_ts a) R"
  shows "newest_page limit (A + mset (map (\<lambda>r. (fst who, snd who, r)) R)) (member_answer limit who res acc)"
proof -
  let ?n = "nat limit" and ?tag = "\<lambda>r. (fst who, snd who, r)"
  obtain page tr where a: "acc = (page, tr)" by (cases acc)
  have n1: "nat (limit + 1) = Suc ?n" using limit by simp
  define kept where "kept = take ?n R"
  have kept: "(if limit < int (length res) then take ?n res else res) = kept"
    using limit by (auto simp: rows n1 kept_def min_def)
  have more: "limit < int (length res) \<longleftrightarrow> ?n < length R" using limit by (auto simp: rows n1)
  have tagged: "top_of entry_ts ?n (mset (map ?tag R)) (mset (map ?tag kept))"
    using top_of_prefix[of entry_ts "map ?tag R" ?n] R by (simp add: kept_def take_map sorted_wrt_map entry_ts_def)
  define page' where "page' = newest_first entry_ts (page @ map ?tag kept)"
  have out: "member_answer limit who res acc = (take ?n page', tr \<or> ?n < length R \<or> ?n < length page')"
    using limit kept more by (auto simp: member_answer_def a Let_def page'_def)
  have old: "top_of entry_ts ?n A (mset page)" "tr \<longleftrightarrow> ?n < size A" using acc by (simp_all add: newest_page_def a)
  have "top_of entry_ts ?n (mset page + mset (map ?tag kept)) (mset (take ?n page'))"
    using top_of_take[of entry_ts ?n "page @ map ?tag kept"] by (simp add: page'_def)
  with old tagged have "top_of entry_ts ?n (A + mset (map ?tag R)) (mset (take ?n page'))" by (blast intro: top_of_merge)
  moreover have "sorted_wrt (\<lambda>a b. entry_ts b \<le> entry_ts a) (take ?n page')"
    unfolding page'_def by (intro sorted_wrt_take newest_first_sorted)
  moreover have "tr \<or> ?n < length R \<or> ?n < length page' \<longleftrightarrow> ?n < size (A + mset (map ?tag R))"
  proof -
    have "length page = min ?n (size A)" using old(1) by (simp add: top_of_def)
    moreover have "length page' = length page + min (length R) ?n" by (simp add: page'_def kept_def)
    ultimately show ?thesis using old(2) by (auto simp: min_def)
  qed
  ultimately show ?thesis by (simp add: newest_page_def out)
qed

lemma merge_requests_newest:
  assumes "serves_newest ul dir from to' rows" "0 < limit"
  shows "newest_page limit A acc \<Longrightarrow> newest_page limit (A + mset (answered_rows ul dir from to' limit rows whos)) (merge_requests ul dir from to' limit whos acc)"
proof (induction whos arbitrary: A acc)
  case (Cons who whos)
  show ?case
  proof (cases "ul_query ul (page_filter dir from to' (fst who) (limit + 1))")
    case None with Cons show ?thesis by (simp add: answered_rows_def)
  next
    case (Some r)
    have "res_entries r = take (nat (limit + 1)) (newest_first lr_ts (rows (fst who)))" using assms(1) Some by (auto simp: serves_newest_def)
    from Cons.IH[OF member_answer_newest[OF Cons.prems assms(2) this newest_first_sorted]] Some
    show ?thesis by (simp add: answered_rows_def add.assoc)
  qed
qed (simp add: answered_rows_def)

lemma mset_concat_map: "mset (concat (map f xs)) = (\<Sum>x \<in># mset xs. mset (f x))"
  by (induction xs) simp_all

lemma resolved_members:
  assumes "resolve_roster_member t ul now ms masked from to' c = ((who, capped, opaque), c')"
  shows "set who \<subseteq> {m \<in> set ms. token_mask (m_token m) \<noteq> Opaque}" "masked \<noteq> [] \<Longrightarrow> \<forall>m \<in> set who. token_mask (m_token m) = masked"
    "length who \<le> maxFanoutMembers \<or> masked \<noteq> []"
  using assms
  by (auto simp: resolve_roster_member_def top_spenders_def Let_def split: if_splits prod.splits option.splits dest: in_set_takeD)

text \<open>Whose rows a page is put together from: the members under the mask asked for, or all who have a mask of their own,
  or, where these are more than fifty, fifty of them, who spent most where the spend is known.\<close>

definition asked_members :: "workspace_member list \<Rightarrow> string \<Rightarrow> (workspace_member \<Rightarrow> float64) option \<Rightarrow> workspace_member list \<Rightarrow> bool \<Rightarrow> bool" where
  "asked_members ms masked spent who capped \<longleftrightarrow> (let measurable = filter (\<lambda>m. token_mask (m_token m) \<noteq> Opaque) ms in
     if masked \<noteq> [] then who = filter (\<lambda>m. token_mask (m_token m) = masked) measurable \<and> \<not> capped
     else (capped \<longleftrightarrow> 50 < length measurable) \<and> (\<not> capped \<longrightarrow> who = measurable) \<and>
       (capped \<longrightarrow> length who = 50 \<and> (\<exists>out. mset measurable = mset who + mset out \<and>
          (case spent of None \<Rightarrow> True | Some usd \<Rightarrow> \<forall>m \<in> set out. \<forall>w \<in> set who. usd m \<le> usd w))))"

definition known_spend :: "team_handler \<Rightarrow> usage_log \<Rightarrow> int \<Rightarrow> string \<Rightarrow> string \<Rightarrow> usage_cache \<Rightarrow> (workspace_member \<Rightarrow> float64) option" where
  "known_spend t ul now from to' c = map_option (\<lambda>r m. ag_billed_usd (bucket (ur_by_client r) (token_mask (m_token m))))
     (fst (cached_usage_query ul now (th_log_dir t) from to' [] c))"

lemma take_sorted_split:
  fixes f :: "'a \<Rightarrow> float64"
  shows "\<exists>out. mset xs = mset (take n (sort_key (\<lambda>m. - f m) xs)) + mset out \<and>
    (\<forall>m \<in> set out. \<forall>w \<in> set (take n (sort_key (\<lambda>m. - f m) xs)). f m \<le> f w)"
proof (intro exI conjI ballI)
  let ?s = "sort_key (\<lambda>m. - f m) xs"
  have "mset (take n ?s) + mset (drop n ?s) = mset ?s" by (metis append_take_drop_id mset_append)
  then show "mset xs = mset (take n ?s) + mset (drop n ?s)" by simp
  obtain a b where ab: "a = take n ?s" "b = drop n ?s" by blast
  then have "sorted (map (\<lambda>m. - f m) (a @ b))" by (simp only: append_take_drop_id sorted_sort_key)
  then show "f m \<le> f w" if "m \<in> set (drop n ?s)" "w \<in> set (take n ?s)" for m w
    using that unfolding ab[symmetric] by (auto simp: sorted_append)
qed

lemma resolved_asked:
  assumes "resolve_roster_member t ul now ms masked from to' c = ((who, capped, opaque), c')"
  shows "asked_members ms masked (known_spend t ul now from to' c) who capped \<and> opaque = length (filter (\<lambda>m. token_mask (m_token m) = Opaque) ms)"
proof -
  let ?ok = "filter (\<lambda>m. token_mask (m_token m) \<noteq> Opaque) ms"
  show ?thesis
  proof (cases "masked = [] \<and> 50 < length ?ok")
    case True
    obtain r c1 where q: "cached_usage_query ul now (th_log_dir t) from to' [] c = (r, c1)" by force
    from True assms q have r: "capped" "opaque = length (filter (\<lambda>m. token_mask (m_token m) = Opaque) ms)"
        "who = (case r of None \<Rightarrow> take 50 ?ok | Some u \<Rightarrow> take 50 (sort_key (\<lambda>m. - ag_billed_usd (bucket (ur_by_client u) (token_mask (m_token m)))) ?ok))"
      by (auto simp: resolve_roster_member_def top_spenders_def maxFanoutMembers_def Let_def split: option.splits)
    have "length who = 50" using True r(3) by (auto split: option.split)
    moreover have "\<exists>out. mset ?ok = mset who + mset out \<and> (case known_spend t ul now from to' c of None \<Rightarrow> True | Some usd \<Rightarrow> \<forall>m \<in> set out. \<forall>w \<in> set who. usd m \<le> usd w)"
    proof (cases r)
      case None
      have "who = take 50 ?ok" using r(3) None by simp
      moreover have "known_spend t ul now from to' c = None" using q None by (simp add: known_spend_def)
      moreover have "mset ?ok = mset (take 50 ?ok) + mset (drop 50 ?ok)" by (metis append_take_drop_id mset_append)
      ultimately show ?thesis by (simp only: option.case) blast
    next
      case (Some u)
      let ?usd = "\<lambda>m. ag_billed_usd (bucket (ur_by_client u) (token_mask (m_token m)))"
      have "who = take 50 (sort_key (\<lambda>m. - ?usd m) ?ok)" using r(3) Some by simp
      moreover have "known_spend t ul now from to' c = Some ?usd" using q Some by (simp add: known_spend_def)
      ultimately show ?thesis using take_sorted_split[of ?ok 50 ?usd] by (simp only: option.case)
    qed
    ultimately show ?thesis using True r(1,2) by (simp add: asked_members_def Let_def)
  qed (use assms in \<open>auto simp: resolve_roster_member_def asked_members_def maxFanoutMembers_def Let_def split: if_splits\<close>)
qed

lemma merged_page:
  assumes serves: "serves_newest ul (th_log_dir t) from to' rows" and limit: "0 < limit"
    and order: "\<And>xs. mset (order xs) = mset xs"
    and page: "merge_member_requests t ul order who from to' limit = (page, beyond)"
  shows "newest_page limit (mset (answered_rows ul (th_log_dir t) from to' limit rows (map (\<lambda>m. (token_mask (m_token m), th_label t (m_token m))) who))) (page, beyond)"
proof -
  let ?who = "map (\<lambda>m. (token_mask (m_token m), th_label t (m_token m))) who"
  let ?all = "answered_rows ul (th_log_dir t) from to' limit rows"
  have perm: "mset (?all xs) = mset (?all ys)" if "mset xs = mset ys" for xs ys
    using that by (simp only: answered_rows_def mset_concat_map)
  have "newest_page limit ({#} + mset (?all (order ?who))) (page, beyond)"
    using merge_requests_newest[OF serves limit newest_page_empty, of "order ?who"] page by (simp add: merge_member_requests_def)
  then show ?thesis using perm[OF order] by simp
qed

lemma team_requests_limit_bounds: "team_requests_limit v = Inr n \<Longrightarrow> 0 < n \<and> n \<le> 500"
  by (auto simp: team_requests_limit_def teamRequestsDefaultLimit_def teamRequestsMaxLimit_def split: if_splits option.splits)

text \<open>C27. A page of requests the console answers with holds the newest rows, in whatever order the members' queries complete.
  The roster is that of the caller's workspace. Asked are the members under the mask the caller named; or, where none is
  named, all who have a mask of their own, and no one behind the mask short tokens share; or, where these are more than
  fifty, fifty of them, none of whom is known to have spent less than one left out. Among the rows of those asked whose
  query answered the page shows the newest, newest first, one to five hundred as asked for; it is called truncated exactly
  when such a row did not fit or not all members were asked; and those left out for their mask are counted. A member whose
  query fails is missing without a word.\<close>

theorem request_page_is_the_newest:
  assumes serves: "serves_newest ul (th_log_dir t) from to' rows" and order: "\<And>xs. mset (order xs) = mset xs"
    and indexed: "th_log_dir t \<noteq> []" and window: "requests_window from0 to0 = Inr (from, to')" and limit: "team_requests_limit limit0 = Inr limit"
    and answer: "requests_page t ul order now ws from0 to0 limit0 masked c s = (Inr ((200, body), c'), s')"
  shows "\<exists>ms who capped page. mset ms = mset (filter (\<lambda>m. m_workspace_id m = ws_id ws) (workspace_members (store s))) \<and>
    asked_members ms masked (known_spend t ul now from to' c) who capped \<and> 0 < limit \<and> limit \<le> 500 \<and>
    (let found = answered_rows ul (th_log_dir t) from to' limit rows (map (\<lambda>m. (token_mask (m_token m), th_label t (m_token m))) who) in
     top_of entry_ts (nat limit) (mset found) (mset page) \<and> sorted_wrt (\<lambda>a b. entry_ts b \<le> entry_ts a) page \<and>
     body = [(''requests'', JArr (map (request_view (statement_rate t)) page)), (''truncated'', JBool (nat limit < length found \<or> capped)),
       (''unmeasurable_members'', JInt (int (length (filter (\<lambda>m. token_mask (m_token m) = Opaque) ms)))), (''timezone'', JStr (ul_zone ul))])"
proof -
  let ?ms = "order_by (\<lambda>a b. text_less (m_role b) (m_role a) \<or> (m_role a = m_role b \<and> m_created_at a < m_created_at b))
     (filter (\<lambda>m. m_workspace_id m = ws_id ws) (workspace_members (store s)))"
  obtain x c1 where "resolve_roster_member t ul now ?ms masked from to' c = (x, c1)" by fastforce
  then obtain who capped opaque where who: "resolve_roster_member t ul now ?ms masked from to' c = ((who, capped, opaque), c1)" by (cases x) simp
  obtain page beyond where page: "merge_member_requests t ul order who from to' limit = (page, beyond)" by fastforce
  have "th_log_indexed t \<or> masked \<noteq> []"
  proof (rule ccontr)
    assume "\<not> ?thesis"
    then have "ret (error_body 503 no_index_text, c) s = (Inr ((200, body), c'), s')"
      using answer indexed unfolding requests_page_def window limit by simp
    then show False by (simp add: ret_def error_body_def)
  qed
  then have "bnd (attempt (list_members (ws_id ws))) (\<lambda>r. case r of Inl e \<Rightarrow> ret (store_error e, c)
            | Inr ms \<Rightarrow> (case resolve_roster_member t ul now ms masked from to' c of ((who, capped, opaque), c') \<Rightarrow>
                (case merge_member_requests t ul order who from to' limit of (rows, truncated) \<Rightarrow>
                  ret ((200, [(''requests'', JArr (map (request_view (statement_rate t)) rows)), (''truncated'', JBool (truncated \<or> capped)),
                    (''unmeasurable_members'', JInt (int opaque)), (''timezone'', JStr (ul_zone ul))]), c')))) s = (Inr ((200, body), c'), s')"
    using answer indexed unfolding requests_page_def window limit by (simp only: sum.case prod.case if_False) auto
  moreover have "list_members (ws_id ws) s = (if faulty s then Inl DriverError else Inr ?ms, tick s)" by (simp add: list_members_def query_def stmt_def)
  ultimately have body: "body = [(''requests'', JArr (map (request_view (statement_rate t)) page)), (''truncated'', JBool (beyond \<or> capped)),
       (''unmeasurable_members'', JInt (int opaque)), (''timezone'', JStr (ul_zone ul))]"
    by (cases "faulty s") (simp_all add: bnd_def attempt_def ret_def store_error_def error_body_def who page)
  note n = team_requests_limit_bounds[OF limit]
  from merged_page[OF serves conjunct1[OF n] order page] resolved_asked[OF who] body n
  show ?thesis by (intro exI[of _ ?ms] exI[of _ who] exI[of _ capped] exI[of _ page]) (simp add: newest_page_def Let_def mset_order_by)
qed

definition sample_row :: "int \<Rightarrow> log_row" where
  "sample_row ts = \<lparr>lr_ts = ts, lr_provider = ''openai'', lr_model = ''m'', lr_input = 1, lr_output = 1, lr_cache_read = 0,
     lr_cost_usd = 1, lr_billed_or_cost = 1, lr_status = 200\<rparr>"

definition paged_log :: usage_log where
  "paged_log = sample_log\<lparr>ul_query := (\<lambda>f. Some \<lparr>res_by_client = [], res_by_model = [], res_by_day = [],
     res_entries = take (nat (f_limit f)) [sample_row 2, sample_row 1]\<rparr>)\<rparr>"

definition sample_handler :: team_handler where
  "sample_handler = \<lparr>th_log_dir = ''logs'', th_log_indexed = True, th_label = (\<lambda>_. []), th_exists = (\<lambda>_. True),
     th_retention_days = 90, th_rate = None\<rparr>"

definition sample_member :: "string \<Rightarrow> workspace_member" where
  "sample_member tok = \<lparr>m_workspace_id = 1, m_token = tok, m_role = WSRoleMember, m_daily_usd_cap = 0, m_monthly_usd_cap = 0,
     m_created_at = 0, m_updated_at = 0\<rparr>"

definition roster_db :: db where
  "roster_db = demo_db\<lparr>workspace_members := [sample_member ''sk-alice-0001'', sample_member ''sk-bobby-0002'', sample_member ''sk-1'']\<rparr>"

theorem request_page_is_the_newest_witness:
  "\<exists>page. fst (requests_page sample_handler paged_log rev 0 (hd (workspaces demo_db)) [] [] ''3'' [] [] (fresh_session roster_db)) =
     Inr ((200, [(''requests'', JArr (map (request_view (statement_rate sample_handler)) page)), (''truncated'', JBool True),
       (''unmeasurable_members'', JInt 1), (''timezone'', JStr (ul_zone paged_log))]), []) \<and> length page = 3 \<and>
     sorted_wrt (\<lambda>a b. entry_ts b \<le> entry_ts a) page"
proof -
  have serves: "serves_newest paged_log (th_log_dir sample_handler) [] [] (\<lambda>_. [sample_row 2, sample_row 1])"
    by (simp add: serves_newest_def paged_log_def page_filter_def newest_first_def sample_row_def)
  have masks: "token_mask ''sk-alice-0001'' \<noteq> Opaque" "token_mask ''sk-bobby-0002'' \<noteq> Opaque" "token_mask ''sk-1'' = Opaque" by code_simp+
  have limit: "team_requests_limit ''3'' = Inr 3" and window: "requests_window [] [] = Inr ([], [])" by code_simp+
  have ws: "ws_id (hd (workspaces demo_db)) = 1" by (simp add: demo_db_def)
  let ?run = "requests_page sample_handler paged_log rev 0 (hd (workspaces demo_db)) [] [] ''3'' [] [] (fresh_session roster_db)"
  have "\<exists>body s'. ?run = (Inr ((200, body), []), s')"
    using masks by (auto simp: requests_page_def window limit bnd_def attempt_def list_members_def query_def stmt_def faulty_def fresh_session_def ret_def ws
        sample_handler_def resolve_roster_member_def order_by_def roster_db_def demo_db_def sample_member_def maxFanoutMembers_def split: prod.split)
  then obtain body s' where run: "?run = (Inr ((200, body), []), s')" by blast
  have indexed: "th_log_dir sample_handler \<noteq> []" by (simp add: sample_handler_def)
  obtain ms who capped page where ms: "mset ms = mset (filter (\<lambda>m. m_workspace_id m = ws_id (hd (workspaces demo_db))) (workspace_members (store (fresh_session roster_db))))"
    and who: "asked_members ms [] (known_spend sample_handler paged_log 0 [] [] []) who capped"
    and page: "top_of entry_ts (nat 3) (mset (answered_rows paged_log (th_log_dir sample_handler) [] [] 3 (\<lambda>_. [sample_row 2, sample_row 1])
        (map (\<lambda>m. (token_mask (m_token m), th_label sample_handler (m_token m))) who))) (mset page)" "sorted_wrt (\<lambda>a b. entry_ts b \<le> entry_ts a) page"
    and body: "body = [(''requests'', JArr (map (request_view (statement_rate sample_handler)) page)),
       (''truncated'', JBool (nat 3 < length (answered_rows paged_log (th_log_dir sample_handler) [] [] 3 (\<lambda>_. [sample_row 2, sample_row 1])
        (map (\<lambda>m. (token_mask (m_token m), th_label sample_handler (m_token m))) who)) \<or> capped)),
       (''unmeasurable_members'', JInt (int (length (filter (\<lambda>m. token_mask (m_token m) = Opaque) ms)))), (''timezone'', JStr (ul_zone paged_log))]"
    using request_page_is_the_newest[OF serves _ indexed window limit run] by (auto simp: Let_def)
  have roster: "mset ms = {#sample_member ''sk-alice-0001'', sample_member ''sk-bobby-0002'', sample_member ''sk-1''#}"
    using ms by (simp add: ws fresh_session_def roster_db_def sample_member_def)
  have counts: "length (filter P ms) = size (filter_mset P {#sample_member ''sk-alice-0001'', sample_member ''sk-bobby-0002'', sample_member ''sk-1''#})" for P
    by (metis roster mset_filter size_mset)
  have n: "length (filter (\<lambda>m. token_mask (m_token m) \<noteq> Opaque) ms) = 2" "length (filter (\<lambda>m. token_mask (m_token m) = Opaque) ms) = 1"
    using masks by (simp_all add: counts sample_member_def)
  have "length who = 2 \<and> \<not> capped" using who n by (auto simp: asked_members_def Let_def)
  moreover have "length (answered_rows paged_log (th_log_dir sample_handler) [] [] 3 (\<lambda>_. [sample_row 2, sample_row 1]) ws) = 2 * length ws" for ws
    by (induction ws) (simp_all add: answered_rows_def paged_log_def newest_first_def)
  ultimately show ?thesis using run page body n(2) by (auto simp: top_of_def)
qed

section \<open>A workspace keeps an admin\<close>

definition has_admin :: "int \<Rightarrow> db \<Rightarrow> bool" where
  "has_admin wsid d \<longleftrightarrow> (\<exists>m \<in> set (workspace_members d). m_workspace_id m = wsid \<and> m_role m = WSRoleAdmin)"

definition is_admin_of :: "int \<Rightarrow> workspace_member \<Rightarrow> bool" where
  "is_admin_of wsid m \<longleftrightarrow> m_workspace_id m = wsid \<and> m_role m = WSRoleAdmin"

lemma has_admin_count: "has_admin wsid d \<longleftrightarrow> 0 < sql_count (is_admin_of wsid) (workspace_members d)"
  using sql_count_0_iff[of "is_admin_of wsid" "workspace_members d"] by (auto simp: has_admin_def is_admin_of_def)

text \<open>Tokens are the primary key of the table, so a change of one token's row takes away at most one admin.\<close>

lemma second_admin:
  assumes "distinct (map m_token ms)" "1 < sql_count (is_admin_of wsid) ms"
  shows "\<exists>m \<in> set ms. is_admin_of wsid m \<and> m_token m \<noteq> tok"
proof (rule ccontr)
  assume no: "\<not> ?thesis"
  have "distinct (filter (is_admin_of wsid) ms)" using assms(1) by (simp add: distinct_map)
  then have "card (set (filter (is_admin_of wsid) ms)) = sql_count (is_admin_of wsid) ms" by (simp only: distinct_card sql_count_def)
  moreover have "card (set (filter (is_admin_of wsid) ms)) \<le> 1"
  proof (rule card_le_Suc0_iff_eq[THEN iffD2, simplified One_nat_def[symmetric]])
    show "\<forall>x \<in> set (filter (is_admin_of wsid) ms). \<forall>y \<in> set (filter (is_admin_of wsid) ms). x = y"
      using no assms(1) by (auto simp: distinct_map inj_on_def)
  qed simp
  ultimately show False using assms(2) by simp
qed

definition tokens_keyed :: "db \<Rightarrow> bool" where
  "tokens_keyed d \<longleftrightarrow> distinct (map m_token (workspace_members d))"

definition staffed :: "int \<Rightarrow> db \<Rightarrow> bool" where
  "staffed k d \<longleftrightarrow> tokens_keyed d \<and> has_admin k d"

definition staffed_without :: "string \<Rightarrow> int \<Rightarrow> db \<Rightarrow> bool" where
  "staffed_without tok k d \<longleftrightarrow> tokens_keyed d \<and> (\<exists>m \<in> set (workspace_members d). is_admin_of k m \<and> m_token m \<noteq> tok)"

lemma staffed_without_staffed: "staffed_without tok k d \<Longrightarrow> staffed k d"
  by (auto simp: staffed_without_def staffed_def has_admin_def is_admin_of_def)

lemma tokens_keyed_update:
  "(\<And>m. m_token (f m) = m_token m) \<Longrightarrow> tokens_keyed (update_member_row tok f d) = tokens_keyed d"
  by (simp add: tokens_keyed_def update_member_row_def map_sql_update_same)

lemma staffed_without_update:
  "(\<And>m. m_token (f m) = m_token m) \<Longrightarrow> staffed_without tok k d \<Longrightarrow> staffed_without tok k (update_member_row tok f d)"
  by (simp add: staffed_without_def tokens_keyed_update) (force simp: update_member_row_def set_sql_update)

lemma staffed_update:
  assumes "\<And>m. m_token (f m) = m_token m" "\<And>m. is_admin_of k m \<Longrightarrow> is_admin_of k (f m)" "staffed k d"
  shows "staffed k (update_member_row tok f d)"
proof -
  from assms(3) obtain a where a: "a \<in> set (workspace_members d)" "is_admin_of k a" by (auto simp: staffed_def has_admin_def is_admin_of_def)
  have "(if m_token a = tok then f a else a) \<in> set (workspace_members (update_member_row tok f d))"
    using a(1) by (auto simp: update_member_row_def set_sql_update)
  moreover have "is_admin_of k (if m_token a = tok then f a else a)" using a(2) assms(2) by simp
  ultimately have "has_admin k (update_member_row tok f d)" by (auto simp: has_admin_def is_admin_of_def)
  with assms(1,3) show ?thesis by (simp add: staffed_def tokens_keyed_update)
qed

lemma read_only_member_for [atomic_intros]: "read_only (member_for tok)"
  unfolding member_for_def by (intro atomic_intros)

lemma update_member_staffed_without: "maintains (staffed_without tok k) (update_member now tok role daily monthly)"
  unfolding update_member_def
  by (auto intro!: maintains_bnd maintains_exec staffed_without_update simp: maintains_read_only atomic_intros Let_def split: option.split)

lemma update_member_staffed:
  "role = None \<or> role = Some WSRoleAdmin \<Longrightarrow> maintains (staffed k) (update_member now tok role daily monthly)"
  unfolding update_member_def
  by (auto intro!: maintains_bnd maintains_exec staffed_update simp: maintains_read_only atomic_intros is_admin_of_def Let_def split: option.split)

lemma remove_member_staffed:
  assumes "staffed_without tok k (store s)" "remove_member tok s = (r, s')"
  shows "staffed k (store s')"
proof -
  from assms(2) have "store s' = store s \<or> store s' = (store s)\<lparr>workspace_members := sql_delete (\<lambda>m. m_token m = tok) (workspace_members (store s))\<rparr>"
    by (auto simp: remove_member_def bnd_def exec_count_def stmt_def throw_def ret_def split: if_splits)
  then show ?thesis
  proof
    assume "store s' = store s" with assms(1) show ?thesis by (auto dest: staffed_without_staffed)
  next
    assume "store s' = (store s)\<lparr>workspace_members := sql_delete (\<lambda>m. m_token m = tok) (workspace_members (store s))\<rparr>"
    with assms(1) show ?thesis
      by (auto simp: staffed_def staffed_without_def tokens_keyed_def has_admin_def is_admin_of_def sql_delete_def distinct_map_filter)
  qed
qed

lemma read_only_list_members [atomic_intros]: "read_only (list_members wsid)"
  unfolding list_members_def by (intro atomic_intros)

lemma read_only_resolve_member [atomic_intros]: "read_only (resolve_member ws masked)"
  unfolding resolve_member_def by (intro atomic_intros)

lemma resolve_member_Inr:
  assumes "resolve_member ws masked s = (Inr (Inr m), s')"
  shows "m \<in> set (workspace_members (store s)) \<and> m_workspace_id m = ws_id ws \<and> token_mask (m_token m) = masked"
proof -
  from assms obtain ms where ms: "list_members (ws_id ws) s = (Inr ms, s')" and f: "filter (\<lambda>m. token_mask (m_token m) = masked) ms = [m]"
    by (auto simp: resolve_member_def bnd_def attempt_def ret_def split: prod.splits sum.splits list.splits)
  from arg_cong[OF f, of set] have "m \<in> set ms" "token_mask (m_token m) = masked" by auto
  with ms show ?thesis by (auto simp: list_members_def query_Inr)
qed

lemma read_only_only_admin [atomic_intros]: "read_only (only_admin m)"
  unfolding only_admin_def count_workspace_admins_def by (intro atomic_intros)

lemma only_admin_False:
  assumes "only_admin m s = (Inr False, s')"
  shows "1 < sql_count (is_admin_of (m_workspace_id m)) (workspace_members (store s))"
  using assms
  by (auto simp: only_admin_def count_workspace_admins_def or_zero_def bnd_def attempt_def query_def stmt_def ret_def is_admin_of_def[abs_def]
      split: if_splits)

text \<open>A member the guard lets go is not needed: every staffed workspace stays staffed without it.\<close>

lemma spared_member:
  assumes st: "staffed k (store s)" and m: "m \<in> set (workspace_members (store s))"
    and guard: "(if m_role m = WSRoleAdmin then only_admin m else ret False) s = (Inr False, s')"
  shows "staffed_without (m_token m) k (store s)"
proof -
  from st have d: "distinct (map m_token (workspace_members (store s)))" by (simp add: staffed_def tokens_keyed_def)
  from st obtain a where a: "a \<in> set (workspace_members (store s))" "is_admin_of k a"
    by (auto simp: staffed_def has_admin_def is_admin_of_def)
  have "\<exists>b \<in> set (workspace_members (store s)). is_admin_of k b \<and> m_token b \<noteq> m_token m"
  proof (cases "a = m")
    case True
    with a guard have "only_admin m s = (Inr False, s')" "k = m_workspace_id m" by (auto simp: is_admin_of_def)
    with second_admin[OF d] only_admin_False show ?thesis by blast
  next
    case False
    with a m d have "m_token a \<noteq> m_token m" by (auto simp: distinct_map inj_on_def)
    with a show ?thesis by blast
  qed
  with st show ?thesis by (simp add: staffed_without_def staffed_def)
qed

lemma read_only_member_period [atomic_intros]: "read_only (member_period_pool_spend q now tok)"
  unfolding member_period_pool_spend_def by (intro atomic_intros)

lemma read_only_member_view [atomic_intros]: "read_only (member_view q t now m sp ok)"
  unfolding member_view_def by (auto intro!: atomic_intros)

lemma read_only_member_row_page [atomic_intros]: "read_only (member_row_page q t ul now tok c)"
  unfolding member_row_page_def by (auto intro!: atomic_intros split: sum.split prod.split)

text \<open>Both changes have one shape: resolve the member, let the guard speak, then change.\<close>

lemma resolved_staffed:
  assumes "\<And>m s r s'. staffed k (store s) \<Longrightarrow> m \<in> set (workspace_members (store s)) \<Longrightarrow> F m s = (r, s') \<Longrightarrow> staffed k (store s')"
  shows "maintains (staffed k) (bnd (resolve_member ws masked) (\<lambda>r. case r of Inl resp \<Rightarrow> ret (g resp) | Inr m \<Rightarrow> F m))"
  unfolding maintains_def
proof (intro allI impI)
  fix s r s' assume st: "staffed k (store s)"
    and "bnd (resolve_member ws masked) (\<lambda>r. case r of Inl resp \<Rightarrow> ret (g resp) | Inr m \<Rightarrow> F m) s = (r, s')"
  from this(2) show "staffed k (store s')"
  proof (cases rule: bnd_cases)
    case (Stop e) with st show ?thesis by (metis read_only_resolve_member read_onlyD)
  next
    case (Go x s1)
    have s1: "store s1 = store s" using read_only_resolve_member Go(1) by (rule read_onlyD)
    show ?thesis
    proof (cases x)
      case (Inl resp) with Go st s1 show ?thesis by (simp add: ret_def)
    next
      case (Inr m) with Go resolve_member_Inr[of ws masked s m s1] assms[of s1 m] st s1 show ?thesis by simp
    qed
  qed
qed

lemma guarded_staffed:
  assumes st: "staffed k (store s)" and m: "m \<in> set (workspace_members (store s))"
    and run: "bnd (if leaves \<and> m_role m = WSRoleAdmin then only_admin m else ret False) (\<lambda>stop. if stop then ret x else change) s = (r, s')"
    and change: "leaves \<Longrightarrow> (\<And>s r s'. staffed_without (m_token m) k (store s) \<Longrightarrow> change s = (r, s') \<Longrightarrow> staffed k (store s'))"
      "\<not> leaves \<Longrightarrow> maintains (staffed k) change"
  shows "staffed k (store s')"
proof -
  have ro: "read_only (if leaves \<and> m_role m = WSRoleAdmin then only_admin m else ret False)" by (auto intro: atomic_intros)
  from run show ?thesis
  proof (cases rule: bnd_cases)
    case (Stop e) with st ro show ?thesis by (metis read_onlyD)
  next
    case (Go stop s2)
    have s2: "store s2 = store s" using read_onlyD[OF ro Go(1)] .
    consider "stop" | "\<not> stop" "leaves" | "\<not> stop" "\<not> leaves" by blast
    then show ?thesis
    proof cases
      case 1 with Go st s2 show ?thesis by (simp add: ret_def)
    next
      case 2 with Go spared_member[OF st m, of s2] s2 change(1)[of s2 r s'] show ?thesis by simp
    next
      case 3 with Go(2) st s2 maintainsD[OF change(2), of s2] show ?thesis by simp
    qed
  qed
qed

lemma patch_member_staffed: "maintains (staffed k) (patch_member_page q t ul now ws masked body c)"
  unfolding patch_member_page_def
proof (rule resolved_staffed)
  fix m s r s'
  assume st: "staffed k (store s)" and m: "m \<in> set (workspace_members (store s))"
    and run: "(case body of Inl msg \<Rightarrow> ret (error_body 400 msg, c)
       | Inr b \<Rightarrow> bnd (if pb_role b \<noteq> None \<and> pb_role b \<noteq> Some WSRoleAdmin \<and> m_role m = WSRoleAdmin then only_admin m else ret False) (\<lambda>stop.
           if stop then ret (error_body 400 ''cannot demote the only admin; promote another member first'', c)
           else bnd (attempt (update_member (unix_seconds now) (m_token m) (pb_role b) (pb_daily b) (pb_monthly b))) (\<lambda>r. case r of
               Inl e \<Rightarrow> ret (error_body 400 (db_error_text e), c)
             | Inr _ \<Rightarrow> member_row_page q t ul now (m_token m) c))) s = (r, s')"
  show "staffed k (store s')"
  proof (cases body)
    case (Inl msg) with run st show ?thesis by (simp add: ret_def)
  next
    case (Inr b)
    define change where "change = bnd (attempt (update_member (unix_seconds now) (m_token m) (pb_role b) (pb_daily b) (pb_monthly b))) (\<lambda>r. case r of
               Inl e \<Rightarrow> ret (error_body 400 (db_error_text e), c)
             | Inr _ \<Rightarrow> member_row_page q t ul now (m_token m) c)"
    have tail: "maintains P change" if "maintains P (update_member (unix_seconds now) (m_token m) (pb_role b) (pb_daily b) (pb_monthly b))" for P
      unfolding change_def using that
      by (auto intro!: maintains_bnd maintains_attempt simp: maintains_read_only atomic_intros split: sum.split)
    show ?thesis
    proof (rule guarded_staffed[OF st m run[unfolded Inr sum.case change_def[symmetric] conj_assoc[symmetric]]])
      fix s r s' assume "staffed_without (m_token m) k (store s)" "change s = (r, s')"
      then show "staffed k (store s')"
        using maintainsD[OF tail[OF update_member_staffed_without]] staffed_without_staffed by metis
    next
      assume "\<not> (pb_role b \<noteq> None \<and> pb_role b \<noteq> Some WSRoleAdmin)"
      then show "maintains (staffed k) change" by (intro tail update_member_staffed) auto
    qed
  qed
qed

lemma remove_member_page_staffed: "maintains (staffed k) (remove_member_page ws masked)"
  unfolding remove_member_page_def
proof (rule resolved_staffed)
  fix m s r s'
  assume st: "staffed k (store s)" and m: "m \<in> set (workspace_members (store s))"
    and run: "bnd (if m_role m = WSRoleAdmin then only_admin m else ret False) (\<lambda>stop.
         if stop then ret (error_body 400 ''cannot remove the only admin; promote another member first'')
         else bnd (attempt (remove_member (m_token m))) (\<lambda>r. ret (case r of
             Inl e \<Rightarrow> error_body 400 (db_error_text e) | Inr _ \<Rightarrow> (200, [(''status'', JStr ''ok'')])))) s = (r, s')"
  show "staffed k (store s')"
  proof (rule guarded_staffed[OF st m, of True])
    fix s r s' assume "staffed_without (m_token m) k (store s)"
      and "bnd (attempt (remove_member (m_token m))) (\<lambda>r. ret (case r of
             Inl e \<Rightarrow> error_body 400 (db_error_text e) | Inr _ \<Rightarrow> (200, [(''status'', JStr ''ok'')]))) s = (r, s')"
    then show "staffed k (store s')"
      using remove_member_staffed[of "m_token m" k s] by (auto simp: bnd_def attempt_def ret_def split: prod.splits)
  qed (use run in simp_all)
qed

lemma add_member_page_staffed: "maintains (staffed k) (add_member_page q t ul now ws body c)"
proof -
  have ins: "staffed k d'" if "staffed k d" "insert_member m d = Inr (x, d')" for m d x d'
  proof -
    have "\<forall>y\<in>set (workspace_members d). m_token y \<noteq> m_token m" "d' = d\<lparr>workspace_members := workspace_members d @ [m]\<rparr>"
      using that(2) by (auto simp: insert_member_def member_row_def find_None_iff split: if_splits)
    then show ?thesis using that(1) by (auto simp: staffed_def tokens_keyed_def has_admin_def)
  qed
  have "maintains (staffed k) (add_member now' wsid tok role daily monthly)" for now' wsid tok role daily monthly
    unfolding add_member_def Let_def get_workspace_def
    by (intro maintains_bnd maintains_attempt maintains_stmt) (auto simp: maintains_read_only atomic_intros split: sum.split dest: ins)
  then show ?thesis unfolding add_member_page_def Let_def
    by (auto intro!: maintains_bnd maintains_attempt simp: maintains_read_only atomic_intros split: sum.split)
qed

text \<open>C28. Whatever an admin does to the members through the console, and whatever the driver does meanwhile, a
  workspace that has an admin still has one, and the tokens of the members stay distinct.\<close>

theorem console_keeps_an_admin:
  "maintains (staffed k) (patch_member_page q t ul now ws masked body c) \<and> maintains (staffed k) (remove_member_page ws masked) \<and>
   maintains (staffed k) (add_member_page q t ul now ws body' c)"
  by (simp add: patch_member_staffed remove_member_page_staffed add_member_page_staffed)

section \<open>Invoices through the console\<close>

lemma team_auth_Inr:
  assumes "team_auth tok s = (Inr (Inr ws), s')"
  shows "tok \<noteq> [] \<and> store s' = store s \<and> (\<exists>m \<in> set (workspace_members (store s)).
     m_token m = tok \<and> m_role m = WSRoleAdmin \<and> m_workspace_id m = ws_id ws)"
proof -
  from assms obtain s1 where t: "tok \<noteq> []" and w: "workspace_admin_for tok s = (Inr ws, s1)" and s1: "s' = s1"
    by (auto simp: team_auth_def bnd_def attempt_def ret_def split: if_splits prod.splits sum.splits)
  from w obtain m where m: "find (\<lambda>m. m_token m = tok \<and> m_role m = WSRoleAdmin) (workspace_members (store s)) = Some m"
      "workspace_row (store s) (m_workspace_id m) = Some ws" and st: "store s1 = store s"
    by (auto simp: workspace_admin_for_def get_workspace_def bnd_Inr query_row_Inr)
  from m(2) have "ws_id ws = m_workspace_id m" by (auto simp: workspace_row_def find_Some_iff)
  with m(1) t st s1 show ?thesis by (auto simp: find_Some_iff)
qed

text \<open>Through the team's download an invoice leaves only when it is a team invoice of the workspace the
  caller administers, issued, and its file is where the store says.\<close>

theorem team_pdf_stays_in_the_team:
  assumes "behind_gate tok Answered (\<lambda>ws. team_download_invoice on_disk ws iid) s = (Inr (SendFile f p), s')"
  shows "\<exists>v m. v \<in> set (invoices (store s)) \<and> iid = Some (i_id v) \<and> deliverable on_disk v \<and> f = invoice_filename v \<and> p = i_pdf_path v \<and>
    m \<in> set (workspace_members (store s)) \<and> m_token m = tok \<and> m_role m = WSRoleAdmin \<and> m_workspace_id m = i_workspace_id v"
proof -
  from assms obtain x s1 where x: "team_auth tok s = (Inr x, s1)"
    and rest: "(case x of Inl resp \<Rightarrow> ret (Answered resp) | Inr ws \<Rightarrow> team_download_invoice on_disk ws iid) s1 = (Inr (SendFile f p), s')"
    by (auto simp: behind_gate_def bnd_Inr)
  from rest obtain ws where "x = Inr ws" by (cases x) (auto simp: ret_def)
  with x rest have w: "team_auth tok s = (Inr (Inr ws), s1)" and run: "team_download_invoice on_disk ws iid s1 = (Inr (SendFile f p), s')"
    by simp_all
  from run obtain k where k: "iid = Some k" by (cases iid) (auto simp: team_download_invoice_def ret_def)
  obtain r s2 where g: "get_invoice k s1 = (r, s2)" by fastforce
  with run k obtain v where v: "r = Inr v" "i_workspace_id v = ws_id ws" "send_pdf on_disk v = SendFile f p"
    by (cases r) (auto simp: team_download_invoice_def bnd_def attempt_def ret_def split: if_splits)
  from g v(1) have "invoice_row (store s1) k = Some v" by (simp add: get_invoice_def query_row_Inr)
  with team_auth_Inr[OF w] have "v \<in> set (invoices (store s))" "i_id v = k" by (auto dest: invoice_row_set)
  moreover have "deliverable on_disk v \<and> f = invoice_filename v \<and> p = i_pdf_path v" using v(3) by (simp add: send_pdf_iff)
  ultimately show ?thesis using k v(2) team_auth_Inr[OF w] by metis
qed

definition demo_team_db :: db where
  "demo_team_db = demo_issued_db\<lparr>invoices := map (\<lambda>v. v\<lparr>i_workspace_id := 1\<rparr>) (invoices demo_issued_db)\<rparr>"

theorem team_pdf_stays_in_the_team_witness:
  "fst (behind_gate ''alice'' Answered (\<lambda>ws. team_download_invoice (\<lambda>_. True) ws (Some 1)) (fresh_session demo_team_db)) =
     Inr (SendFile ''invoice-1.pdf'' ''p'') \<and>
   (\<exists>v m. v \<in> set (invoices demo_team_db) \<and> m \<in> set (workspace_members demo_team_db) \<and> m_token m = ''alice'' \<and>
     m_role m = WSRoleAdmin \<and> m_workspace_id m = i_workspace_id v)"
proof -
  define r where "r = behind_gate ''alice'' Answered (\<lambda>ws. team_download_invoice (\<lambda>_. True) ws (Some 1)) (fresh_session demo_team_db)"
  have st: "store (fresh_session demo_team_db) = demo_team_db" by (simp add: fresh_session_def)
  let ?v = "(hd (invoices demo_issued_db))\<lparr>i_workspace_id := 1\<rparr>"
  have "invoice_filename ?v = ''invoice-1.pdf''" by code_simp
  then have "fst r = Inr (SendFile ''invoice-1.pdf'' ''p'')"
    by (simp add: r_def behind_gate_def team_auth_def workspace_admin_for_def get_workspace_def team_download_invoice_def get_invoice_def
        bnd_def attempt_def ret_def query_row_def stmt_def faulty_def tick_def fresh_session_def demo_team_db_def demo_issued_db_def
        demo_paid_db_def pay_order_def demo_db_def workspace_row_def invoice_row_def WSRoleAdmin_def send_pdf_def deliverable_def InvoiceIssued_def)
  moreover from this have run: "r = (Inr (SendFile ''invoice-1.pdf'' ''p''), snd r)" by (metis prod.collapse)
  ultimately show ?thesis using team_pdf_stays_in_the_team[OF run[unfolded r_def]] unfolding r_def st by blast
qed

text \<open>The workspace whose console a token opens.\<close>

definition console_of :: "db \<Rightarrow> string \<Rightarrow> workspace option" where
  "console_of d tok = (case find (\<lambda>m. m_token m = tok \<and> m_role m = WSRoleAdmin) (workspace_members d) of None \<Rightarrow> None
     | Some m \<Rightarrow> workspace_row d (m_workspace_id m))"

definition administers :: "db \<Rightarrow> string \<Rightarrow> int \<Rightarrow> bool" where
  "administers d tok w \<longleftrightarrow> (\<exists>m \<in> set (workspace_members d). m_token m = tok \<and> m_role m = WSRoleAdmin \<and> m_workspace_id m = w)"

lemma team_pdf_calm:
  assumes "plan s = []" "tok \<noteq> []" "invoice_row (store s) k = Some v" "console_of (store s) tok = Some ws" "i_workspace_id v = ws_id ws" "deliverable on_disk v"
  shows "fst (behind_gate tok Answered (\<lambda>ws. team_download_invoice on_disk ws (Some k)) s) = Inr (SendFile (invoice_filename v) (i_pdf_path v))"
proof -
  obtain m where m: "find (\<lambda>m. m_token m = tok \<and> m_role m = WSRoleAdmin) (workspace_members (store s)) = Some m" "workspace_row (store s) (m_workspace_id m) = Some ws"
    using assms(4) by (auto simp: console_of_def split: option.splits)
  have "send_pdf on_disk v = SendFile (invoice_filename v) (i_pdf_path v)" using assms(6) by (simp add: send_pdf_iff)
  with assms m show ?thesis
    by (simp add: behind_gate_def team_auth_def workspace_admin_for_def get_workspace_def team_download_invoice_def get_invoice_def
        bnd_def attempt_def ret_def query_row_def stmt_def faulty_def tick_def)
qed

text \<open>C25. Clients fetch PDFs through two endpoints, that of the wallet and that of the team console; the operator's panel has
  one of its own, of which nothing is said here. Through either of the two a PDF leaves only for an issued invoice whose
  file is where the row says: through the wallet only to a token that filed it or whose quota paid for part of it, through
  the console only to an admin of the workspace the invoice was filed for. With a sound driver each of these gets it, an
  admin through the console that token opens, and neither endpoint changes the database.\<close>

theorem client_pdfs_reach_their_owners:
  "(download_page on_disk tok iid s = (Inr (SendFile f p), s') \<longrightarrow>
      (\<exists>v. iid = Some (i_id v) \<and> v \<in> set (invoices (store s)) \<and> tok \<noteq> [] \<and> entitled (store s) tok v \<and>
           deliverable on_disk v \<and> f = invoice_filename v \<and> p = i_pdf_path v)) \<and>
   (behind_gate tok Answered (\<lambda>ws. team_download_invoice on_disk ws iid) s = (Inr (SendFile f p), s') \<longrightarrow>
      (\<exists>v. iid = Some (i_id v) \<and> v \<in> set (invoices (store s)) \<and> administers (store s) tok (i_workspace_id v) \<and>
           deliverable on_disk v \<and> f = invoice_filename v \<and> p = i_pdf_path v)) \<and>
   (plan s = [] \<and> tok \<noteq> [] \<and> invoice_row (store s) k = Some v \<and> deliverable on_disk v \<longrightarrow>
      (entitled (store s) tok v \<longrightarrow> fst (download_page on_disk tok (Some k) s) = Inr (SendFile (invoice_filename v) (i_pdf_path v))) \<and>
      (console_of (store s) tok = Some ws \<and> i_workspace_id v = ws_id ws \<longrightarrow>
         fst (behind_gate tok Answered (\<lambda>ws. team_download_invoice on_disk ws (Some k)) s) = Inr (SendFile (invoice_filename v) (i_pdf_path v)))) \<and>
   read_only (download_page on_disk tok iid) \<and> read_only (behind_gate tok Answered (\<lambda>ws. team_download_invoice on_disk ws iid))"
proof (intro conjI impI)
  assume "behind_gate tok Answered (\<lambda>ws. team_download_invoice on_disk ws iid) s = (Inr (SendFile f p), s')"
  from team_pdf_stays_in_the_team[OF this]
  show "\<exists>v. iid = Some (i_id v) \<and> v \<in> set (invoices (store s)) \<and> administers (store s) tok (i_workspace_id v) \<and>
           deliverable on_disk v \<and> f = invoice_filename v \<and> p = i_pdf_path v"
    unfolding administers_def by blast
next
  show "read_only (behind_gate tok Answered (\<lambda>ws. team_download_invoice on_disk ws iid))"
    unfolding behind_gate_def team_auth_def workspace_admin_for_def get_workspace_def team_download_invoice_def get_invoice_def
    by (auto split: option.split sum.split intro!: atomic_intros)
qed (use pdf_reaches_its_payers[of on_disk tok iid s f p s' k v] team_pdf_calm[of s tok k v ws on_disk] in blast)+

theorem client_pdfs_reach_their_owners_witness:
  "fst (download_page (\<lambda>_. True) ''alice'' (Some 1) (fresh_session demo_team_db)) = Inr (SendFile ''invoice-1.pdf'' ''p'') \<and>
   fst (behind_gate ''alice'' Answered (\<lambda>ws. team_download_invoice (\<lambda>_. True) ws (Some 1)) (fresh_session demo_team_db)) = Inr (SendFile ''invoice-1.pdf'' ''p'')"
proof -
  let ?v = "hd (invoices demo_team_db)"
  have v: "invoice_row demo_team_db 1 = Some ?v" "entitled demo_team_db ''alice'' ?v" "deliverable (\<lambda>_. True) ?v" "i_workspace_id ?v = 1"
    by (simp_all add: demo_team_db_def demo_issued_db_def invoice_row_def entitled_def deliverable_def InvoiceIssued_def)
  have f: "invoice_filename ?v = ''invoice-1.pdf''" "i_pdf_path ?v = ''p''" by code_simp+
  have "\<exists>ws. console_of demo_team_db ''alice'' = Some ws \<and> ws_id ws = 1"
    by (simp add: console_of_def demo_team_db_def demo_issued_db_def demo_paid_db_def pay_order_def demo_db_def workspace_row_def WSRoleAdmin_def)
  then obtain ws where ws: "console_of demo_team_db ''alice'' = Some ws" "ws_id ws = 1" by blast
  have s: "store (fresh_session demo_team_db) = demo_team_db" "plan (fresh_session demo_team_db) = []" by (simp_all add: fresh_session_def)
  from client_pdfs_reach_their_owners[THEN conjunct2, THEN conjunct2, THEN conjunct1, rule_format, of "fresh_session demo_team_db" "''alice''" 1 ?v "\<lambda>_. True", unfolded s]
    v ws f show ?thesis by auto
qed

text \<open>A row the checks let through: the amount the caller named in whole fen and above the minimum, a title
  with a name and a taxpayer number, an address to mail to.\<close>

definition checked_filing :: "create_invoice_body \<Rightarrow> string \<Rightarrow> int \<Rightarrow> invoice \<Rightarrow> bool" where
  "checked_filing b tok wsid v \<longleftrightarrow> i_token v = tok \<and> i_workspace_id v = wsid \<and> i_status v = InvoicePending \<and>
     i_cny_amount v = billing_round2 (cb_cny_amount b) \<and> min_invoice_cny \<le> i_cny_amount v \<and> is_likely_email (cb_contact_email b) \<and>
     i_title_name v = trim_space (tb_name (cb_title b)) \<and> i_title_name v \<noteq> [] \<and>
     is_likely_tax_no (to_upper (trim_space (tb_tax_no (cb_title b))))"

lemma checked_filing_row:
  assumes "check_invoice_body b = Inr (cny, title, email)"
  shows "\<exists>v. invoices (insert_invoice tok cny title email wsid now d) = invoices d @ [v] \<and> checked_filing b tok wsid v"
  using check_invoice_body_Inr[OF assms] by (simp add: insert_invoice_def checked_filing_def)

lemma personal_filing:
  assumes "create_invoice_page q now tok body s = (Inr (200, view), s')"
  shows "\<exists>b v. tok \<noteq> [] \<and> body = Some b \<and> invoices (store s') = invoices (store s) @ [v] \<and> checked_filing b tok 0 v"
proof -
  have t: "tok \<noteq> []" using assms by (auto simp: create_invoice_page_def unauthorized_def error_body_def ret_def split: if_splits)
  from assms t obtain b cny title email v s1 where b: "body = Some b" "check_invoice_body b = Inr (cny, title, email)"
    and c: "create_invoice q now tok cny title email s = (Inr v, s1)" and a: "ret (200 :: int, invoice_user_view v) s1 = (Inr (200, view), s')"
    unfolding create_invoice_page_def by (simp only: if_False) (erule filing_page_200)
  from a have "s' = s1" by (simp add: ret_def)
  with create_invoice_Inr[OF c] have "invoices (store s') = invoices (insert_invoice tok cny title email 0 now (store s))" by simp
  with checked_filing_row[OF b(2)] b(1) t show ?thesis by metis
qed

lemma team_filing:
  assumes "team_create_invoice q t now tok ws body s = (Inr (200, view), s')" and ok: "invoices_ok (store s)"
  shows "\<exists>b v. body = Some b \<and> invoices (store s') = invoices (store s) @ [v] \<and> checked_filing b tok (ws_id ws) v"
proof -
  from assms(1) obtain b cny title email v s1 where b: "body = Some b" "check_invoice_body b = Inr (cny, title, email)"
    and c: "create_workspace_invoice q (unix_seconds now) (ws_id ws) tok cny title email s = (Inr v, s1)"
    and a: "bnd (or_zero [] (invoice_allocations_of (i_id v))) (\<lambda>allocs.
       ret (200 :: int, invoice_user_view v @ [(''allocations'', allocation_views t allocs)])) s1 = (Inr (200, view), s')"
    unfolding team_create_invoice_def by (rule filing_page_200)
  have "read_only (or_zero [] (invoice_allocations_of (i_id v)))"
    by (auto simp: or_zero_def invoice_allocations_of_def intro!: atomic_intros split: sum.split)
  with a have s': "store s' = store s1" by (auto simp: bnd_Inr ret_iff dest: read_onlyD)
  from c obtain s3 iid where ws: "0 < ws_id ws" and s2: "store (tick s) = store s"
    and tx: "workspace_invoice_tx q (unix_seconds now) (ws_id ws) tok cny title email (tick s) = (Inr iid, s3)" and s3: "store s1 = store s3"
    by (auto simp: create_workspace_invoice_split throw_def bnd_Inr query_Inr get_invoice_def query_row_Inr split: if_splits)
  from workspace_invoice_tx_Inr[OF tx _ ws] ok s2 s3 s'
  have "invoices (store s') = invoices (insert_invoice tok cny title email (ws_id ws) (unix_seconds now) (store s))" by simp
  with checked_filing_row[OF b(2)] b(1) show ?thesis by metis
qed

text \<open>Both filing endpoints answer 200 only after storing one invoice, of the caller and of the workspace
  the gate found, pending, for the amount asked in whole fen and no less than the minimum, with a
  taxpayer number and an address that pass the checks.\<close>

theorem filed_invoices_passed_the_checks:
  assumes "invoices_ok (store s)"
    and "create_invoice_page q now tok body s = (Inr (200, view), s') \<and> wsid = 0 \<or>
         team_create_invoice q t now' tok ws body s = (Inr (200, view), s') \<and> wsid = ws_id ws"
  shows "\<exists>b v. body = Some b \<and> invoices (store s') = invoices (store s) @ [v] \<and> checked_filing b tok wsid v"
  using assms personal_filing[of q now tok body s view s'] team_filing[of q t now' tok ws body s view s'] by blast

definition demo_filing :: create_invoice_body where
  "demo_filing = \<lparr>cb_cny_amount = 14, cb_title = \<lparr>tb_name = ''ACME'', tb_tax_no = ''91110000ABCDEF1234'', tb_address = [], tb_phone = [],
     tb_bank = [], tb_bank_account = []\<rparr>, cb_contact_email = ''a@b.cn''\<rparr>"

theorem filed_invoices_passed_the_checks_witness:
  "\<exists>v. invoices (store (snd (create_invoice_page demo_sqlite 960 ''alice'' (Some demo_filing) (fresh_session demo_paid_db)))) =
     invoices demo_paid_db @ [v] \<and> checked_filing demo_filing ''alice'' 0 v"
proof -
  define r where "r = create_invoice_page demo_sqlite 960 ''alice'' (Some demo_filing) (fresh_session demo_paid_db)"
  have "(case check_invoice_body demo_filing of Inl _ \<Rightarrow> 0 | Inr (cny, _) \<Rightarrow> cny) = 14" by code_simp
  then obtain title email where c: "check_invoice_body demo_filing = Inr (14, title, email)"
    by (cases "check_invoice_body demo_filing") auto
  have "14 \<le> fadd (available_cny (summary_at demo_sqlite ''alice'' demo_paid_db)) invoice_epsilon" by code_simp
  then obtain v s1 where "create_invoice demo_sqlite 960 ''alice'' 14 title email (fresh_session demo_paid_db) = (Inr v, s1)"
    using create_invoice_calm[of "fresh_session demo_paid_db" 14 demo_sqlite "''alice''" 960 title email] by (auto simp: fresh_session_def)
  with c have "r = (Inr (200, invoice_user_view v), s1)" by (simp add: r_def create_invoice_page_def bnd_def attempt_def ret_def)
  moreover have st: "store (fresh_session demo_paid_db) = demo_paid_db" by (simp add: fresh_session_def)
  ultimately show ?thesis
    using filed_invoices_passed_the_checks[OF _ disjI1, of "fresh_session demo_paid_db" demo_sqlite 960 "''alice''" "Some demo_filing"
        "invoice_user_view v" s1 0] demo_invoices_ok(2) by (simp add: r_def)
qed

end
