(* ===== verification/StatementFacts.thy ===== *)
theory StatementFacts
  imports TeamStatement TeamFacts
begin

text \<open>
  What the team's document guarantees: the rows it lists are the newest of the team's in whatever
  order the members' answers arrive, one missing answer gives no listing rather than a short one,
  and a difference from the ledgers is either a printable shortfall or not shown at all.
\<close>

section \<open>The itemised rows\<close>

definition lines_of :: "float64 \<Rightarrow> group_usage \<Rightarrow> (string \<Rightarrow> log_row list) \<Rightarrow> string list \<Rightarrow> line list" where
  "lines_of rate gu rows masks = concat (map (\<lambda>msk. map (detail_line rate msk (label_of gu msk)) (newest_first lr_ts (rows msk))) masks)"

definition query_fails :: "usage_log \<Rightarrow> string \<Rightarrow> group_usage \<Rightarrow> string \<Rightarrow> bool" where
  "query_fails ul dir gu msk \<longleftrightarrow> ul_query ul (page_filter dir (gu_from gu) (gu_to gu) msk (page_limit_for (count_of gu msk))) = None"

lemma trim_newest_top: "top_of ln_ts MaxDetailLines (mset ls) (mset (trim_newest ls))"
  by (simp add: trim_newest_def top_of_refl top_of_take)

text \<open>Asking for as many rows as the member has, or for a whole document's worth, brings the newest.\<close>

lemma page_limit_top:
  assumes "n = int (length rs)"
  shows "top_of ln_ts MaxDetailLines (mset (map (detail_line rate msk lb) (newest_first lr_ts rs)))
    (mset (map (detail_line rate msk lb) (take (nat (page_limit_for n)) (newest_first lr_ts rs))))"
proof -
  let ?R = "map (detail_line rate msk lb) (newest_first lr_ts rs)"
  have sorted: "sorted_wrt (\<lambda>a b. ln_ts b \<le> ln_ts a) ?R"
    using newest_first_sorted[of lr_ts rs] by (simp add: sorted_wrt_map detail_line_def)
  consider "0 < n \<and> n \<le> int MaxDetailLines" | "n \<le> 0" | "int MaxDetailLines < n" by linarith
  then show ?thesis
  proof cases
    case 1
    then have "nat (page_limit_for n) = length rs" using assms by (simp add: page_limit_for_def)
    then show ?thesis using 1 assms by (simp add: top_of_refl)
  next
    case 2 then show ?thesis using assms by (simp add: top_of_empty)
  next
    case 3
    then have "nat (page_limit_for n) = MaxDetailLines" by (simp add: page_limit_for_def)
    then show ?thesis using top_of_prefix[OF sorted, of MaxDetailLines] by (simp add: take_map)
  qed
qed

lemma merge_lines_fails: "snd (merge_lines ul dir gu rate ms (merged, failed)) \<longleftrightarrow> failed \<or> (\<exists>m \<in> set ms. query_fails ul dir gu m)"
  by (induction ms arbitrary: merged failed) (auto simp: query_fails_def split: option.split)

lemma merge_lines_newest:
  assumes serves: "serves_newest ul dir (gu_from gu) (gu_to gu) rows" and counts: "\<forall>m \<in> set ms. count_of gu m = int (length (rows m))"
    and ok: "\<not> snd (merge_lines ul dir gu rate ms (merged, failed))" and acc: "top_of ln_ts MaxDetailLines A (mset merged)"
  shows "top_of ln_ts MaxDetailLines (A + mset (lines_of rate gu rows ms)) (mset (fst (merge_lines ul dir gu rate ms (merged, failed))))"
  using counts ok acc
proof (induction ms arbitrary: A merged)
  case (Cons m ms)
  from Cons.prems(2) have "\<not> query_fails ul dir gu m" unfolding merge_lines_fails by simp
  then obtain r where r: "ul_query ul (page_filter dir (gu_from gu) (gu_to gu) m (page_limit_for (count_of gu m))) = Some r"
    by (auto simp: query_fails_def)
  have res: "res_entries r = take (nat (page_limit_for (count_of gu m))) (newest_first lr_ts (rows m))"
    using serves r by (auto simp: serves_newest_def)
  let ?new = "map (detail_line rate m (label_of gu m)) (res_entries r)"
  let ?all = "map (detail_line rate m (label_of gu m)) (newest_first lr_ts (rows m))"
  have "top_of ln_ts MaxDetailLines (mset ?all) (mset ?new)"
    unfolding res by (rule page_limit_top) (use Cons.prems(1) in simp)
  moreover have "top_of ln_ts MaxDetailLines (mset merged + mset ?new) (mset (trim_newest (merged @ ?new)))"
    using trim_newest_top[of "merged @ ?new"] by simp
  ultimately have "top_of ln_ts MaxDetailLines (A + mset ?all) (mset (trim_newest (merged @ ?new)))"
    using Cons.prems(3) by (blast intro: top_of_merge)
  from Cons.IH[OF _ _ this] Cons.prems(1,2) r show ?case by (simp add: lines_of_def add.assoc)
qed (simp add: lines_of_def)

text \<open>The rows of a team's statement are the newest of all rows of the members it asks, no more than the
  document holds, in the order of time, whichever order the answers arrive in; if one of the members
  cannot be read there is no listing at all; and the listing is called truncated exactly when it
  has fewer rows than the team made requests.\<close>

theorem statement_lists_the_newest:
  assumes serves: "serves_newest ul dir (gu_from gu) (gu_to gu) rows" and order: "\<And>xs. mset (order xs) = mset xs"
    and active: "active_masks (gu_by_member gu) [] 0 = (active, capped)" "\<forall>m \<in> set active. count_of gu m = int (length (rows m))"
  shows "case group_detail_lines ul order dir gu rate of
      None \<Rightarrow> \<exists>m \<in> set active. query_fails ul dir gu m
    | Some (ls, truncated) \<Rightarrow> (\<forall>m \<in> set active. \<not> query_fails ul dir gu m) \<and>
        top_of ln_ts MaxDetailLines (mset (lines_of rate gu rows active)) (mset ls) \<and> sorted (map ln_ts ls) \<and>
        (active \<noteq> [] \<longrightarrow> (truncated \<longleftrightarrow> int (length ls) < ag_count (gu_total gu)))"
proof (cases "active = []")
  case True then show ?thesis by (simp add: group_detail_lines_def active(1) lines_of_def top_of_empty)
next
  case False
  have sets: "set (order active) = set active" using order by (metis set_mset_mset)
  obtain merged failed where m: "merge_lines ul dir gu rate (order active) ([], False) = (merged, failed)" by fastforce
  have f: "failed \<longleftrightarrow> (\<exists>m \<in> set active. query_fails ul dir gu m)"
    using merge_lines_fails[of ul dir gu rate "order active" "[]" False] m sets by simp
  show ?thesis
  proof (cases failed)
    case True then show ?thesis using False f by (simp add: group_detail_lines_def active(1) m)
  next
    case ok: False
    have "mset (lines_of rate gu rows (order active)) = mset (lines_of rate gu rows active)"
      using order[of active] by (simp only: lines_of_def mset_concat_map)
    then have "top_of ln_ts MaxDetailLines (mset (lines_of rate gu rows active)) (mset merged)"
      using merge_lines_newest[OF serves, of "order active" rate "[]" False "{#}"] active(2) sets ok m by (simp add: top_of_empty)
    moreover have "length (oldest_first ln_ts merged) = length merged" by (metis mset_oldest_first size_mset)
    ultimately show ?thesis using False ok f by (simp add: group_detail_lines_def active(1) m oldest_first_def)
  qed
qed

definition sample_usage_member :: "string \<Rightarrow> int \<Rightarrow> float64 \<Rightarrow> float64 \<Rightarrow> member_usage" where
  "sample_usage_member msk n billed charged = \<lparr>mu_masked = msk, mu_label = [], mu_role = WSRoleMember,
     mu_agg = zero_aggregate\<lparr>ag_count := n, ag_billed_usd := billed\<rparr>, mu_pool_usd = charged, mu_personal_usd = 0, mu_unmeasurable = False\<rparr>"

definition sample_group_usage :: group_usage where
  "sample_group_usage = \<lparr>gu_from = ''2024-03-01'', gu_to = ''2024-03-01'', gu_timezone = ''UTC'',
     gu_total = zero_aggregate\<lparr>ag_count := 4, ag_billed_usd := 2\<rparr>, gu_pool_usd = 0, gu_personal_usd = 0,
     gu_by_member = [sample_usage_member ''a'' 2 1 2, sample_usage_member ''b'' 2 1 1], gu_by_model = [], gu_by_day = [],
     gu_partial = False, gu_notes = []\<rparr>"

theorem statement_lists_the_newest_witness:
  "map_option snd (group_detail_lines paged_log rev ''logs'' sample_group_usage 7) = Some False \<and>
   (\<exists>ls. group_detail_lines paged_log rev ''logs'' sample_group_usage 7 = Some (ls, False) \<and> length ls = 4 \<and> sorted (map ln_ts ls))"
proof -
  let ?rows = "\<lambda>_ :: string. [sample_row 2, sample_row 1]"
  let ?out = "group_detail_lines paged_log rev ''logs'' sample_group_usage 7"
  have serves: "serves_newest paged_log ''logs'' (gu_from sample_group_usage) (gu_to sample_group_usage) ?rows"
    by (simp add: serves_newest_def paged_log_def page_filter_def newest_first_def sample_row_def)
  have active: "active_masks (gu_by_member sample_group_usage) [] 0 = ([''a'', ''b''], 0)"
    by (simp add: sample_group_usage_def sample_usage_member_def maxFanoutMembers_def)
  have "\<forall>m \<in> set [''a'', ''b'']. count_of sample_group_usage m = int (length (?rows m))"
    by (simp add: sample_group_usage_def sample_usage_member_def count_of_def member_of_mask_def)
  note n = statement_lists_the_newest[OF serves _ active this, of rev 7, simplified]
  have "\<not> query_fails paged_log ''logs'' sample_group_usage m" for m by (simp add: query_fails_def paged_log_def)
  with n obtain ls tr where ls: "?out = Some (ls, tr)"
    "top_of ln_ts MaxDetailLines (mset (lines_of 7 sample_group_usage ?rows [''a'', ''b''])) (mset ls)"
    "sorted (map ln_ts ls)" "tr \<longleftrightarrow> int (length ls) < ag_count (gu_total sample_group_usage)"
    by (auto split: option.splits)
  from ls(2) have "length ls = 4" by (simp add: top_of_def lines_of_def MaxDetailLines_def)
  with ls show ?thesis by (simp add: sample_group_usage_def)
qed

section \<open>The comparison with the ledgers\<close>

lemma fmt_zero_small:
  assumes "0 \<le> x" "fmt_fixed 2 x = ''0.00''"
  shows "rne (x * 100) = 0"
proof -
  have z: "fmt_fixed 2 0 = ''0.00''" by code_simp
  have p: "parse_float (fmt_fixed 2 x) = parse_float (fmt_fixed 2 0)" using assms(2) z by simp
  let ?v = "of_int (rne (x * 100)) / 100 :: rat"
  have "finite_float ?v = finite_float 0" using p parse_fmt_fixed[of x 2] parse_fmt_fixed[of 0 2] assms(1) rne_of_int[of 0] by simp
  then have "rnd ?v = 0" by (auto simp: finite_float_def Let_def max_float_def split: if_splits)
  moreover have "0 \<le> rne (x * 100)" using rne_ge_of_int[of 0 "x * 100"] assms(1) by simp
  ultimately show ?thesis
  proof (cases "rne (x * 100) = 0")
    case False
    then have "1 / 100 \<le> ?v" using \<open>0 \<le> rne (x * 100)\<close> by (simp add: divide_right_mono)
    then have "rnd (1 / 100) \<le> rnd ?v" by (rule rnd_mono)
    moreover have "0 < rnd (1 / 100)" by code_simp
    ultimately show ?thesis using \<open>rnd ?v = 0\<close> by simp
  qed simp
qed

lemma floor_is_printed:
  assumes "groupUnitemisedFloorCNY \<le> x"
  shows "fmt_fixed 2 x \<noteq> ''0.00''"
proof
  assume f: "fmt_fixed 2 x = ''0.00''"
  have g: "1 / 200 < groupUnitemisedFloorCNY" by code_simp
  then have x: "1 / 2 < x * 100" "0 \<le> x" using assms by simp_all
  from fmt_zero_small[OF x(2) f] rne_bounds[of "x * 100"] x(1) show False by simp
qed

text \<open>C30. A team's document shows a shortfall only when both ledgers together debited more than the log
  accounts for, and then one that does not print as nothing; otherwise the amount charged is left
  open or is exactly the itemised total. A log that accounts for more is never shown as a shortfall.\<close>

theorem shortfall_is_real_and_visible:
  assumes "gs_unitemised_cny g = 0" "gs_charged_cny g = 0"
  shows "let g' = reconcile_group gu rate g; charged = roster_charged gu; gap = fsub charged (ag_billed_usd (gu_total gu)) in
    (gs_unitemised_cny g' = 0 \<and> gs_charged_cny g' \<in> {0, gs_billed_cny g} \<or>
     gs_unitemised_cny g' = fmul gap rate \<and> gs_charged_cny g' = fmul charged rate \<and> ag_billed_usd (gu_total gu) < charged \<and>
       fmt_fixed 2 (gs_unitemised_cny g') \<noteq> ''0.00'') \<and>
    g'\<lparr>gs_unitemised_cny := 0, gs_charged_cny := 0\<rparr> = g\<lparr>gs_unitemised_cny := 0, gs_charged_cny := 0\<rparr>"
proof -
  have pos: "ag_billed_usd (gu_total gu) < charged"
    if "groupLedgerGapEpsilonUSD < fsub charged (ag_billed_usd (gu_total gu))" for charged
  proof (rule ccontr)
    assume "\<not> ag_billed_usd (gu_total gu) < charged"
    then have "fsub charged (ag_billed_usd (gu_total gu)) \<le> 0" by (simp add: fsub_def rnd_nonpos)
    moreover have "0 < groupLedgerGapEpsilonUSD" by code_simp
    ultimately show False using that by simp
  qed
  show ?thesis using assms pos[of "roster_charged gu"] floor_is_printed
    by (simp add: reconcile_group_def Let_def)
qed

definition demo_workspace :: workspace where "demo_workspace = hd (workspaces demo_db)"

theorem shortfall_is_real_and_visible_witness:
  "gs_unitemised_cny (reconcile_group sample_group_usage 7 (statement_head sample_handler 0 [] demo_workspace [] False sample_group_usage)) = 7 \<and>
   fmt_fixed 2 (gs_unitemised_cny (reconcile_group sample_group_usage 7
     (statement_head sample_handler 0 [] demo_workspace [] False sample_group_usage))) \<noteq> ''0.00''"
proof -
  let ?g = "statement_head sample_handler 0 [] demo_workspace [] False sample_group_usage"
  have z: "gs_unitemised_cny ?g = 0" "gs_charged_cny ?g = 0" by (simp_all add: statement_head_def)
  have "groupLedgerGapEpsilonUSD < fsub (roster_charged sample_group_usage) (ag_billed_usd (gu_total sample_group_usage)) \<and>
    groupUnitemisedFloorCNY \<le> fmul (fsub (roster_charged sample_group_usage) (ag_billed_usd (gu_total sample_group_usage))) 7 \<and>
    0 < roster_charged sample_group_usage \<and> fmul (fsub (roster_charged sample_group_usage) (ag_billed_usd (gu_total sample_group_usage))) 7 = 7"
    by code_simp
  then have "gs_unitemised_cny (reconcile_group sample_group_usage 7 ?g) = 7" by (simp add: reconcile_group_def Let_def)
  with shortfall_is_real_and_visible[OF z, of sample_group_usage 7] show ?thesis by (auto simp: Let_def)
qed

end
