(* ===== verification/TargetFacts.thy ===== *)
theory TargetFacts
  imports AdminStatement StatementFacts
begin

text \<open>
  What a statement by target amount guarantees: the window found from the newest row back is the
  shortest that reaches the target, every row in it is counted, and what is printed as the total is
  what the search has seen, so it never falls short.
\<close>

section \<open>The search\<close>

definition in_yuan :: "float64 \<Rightarrow> log_entry list \<Rightarrow> float64 list" where
  "in_yuan rate es = map (\<lambda>r. fmul (lr_billed_or_cost r) rate) es"

definition before :: "string \<Rightarrow> int \<Rightarrow> log_entry \<Rightarrow> bool" where
  "before masked now r \<longleftrightarrow> le_client_token r = masked \<and> lr_ts r < now"

lemma search_found:
  assumes "statement_range_for_target es masked target rate now a = Inr (start, got)"
  shows "\<exists>pre rec post. es = pre @ rec # post \<and> lr_ts rec = start \<and> before masked now rec \<and> target \<le> got \<and>
    got = foldl fadd a (in_yuan rate (filter (before masked now) (pre @ [rec]))) \<and>
    (filter (before masked now) pre \<noteq> [] \<longrightarrow> foldl fadd a (in_yuan rate (filter (before masked now) pre)) < target)"
  using assms
proof (induction es arbitrary: a)
  case (Cons r es)
  show ?case
  proof (cases "before masked now r")
    case False
    then have "statement_range_for_target es masked target rate now a = Inr (start, got)" using Cons.prems by (auto simp: before_def)
    from Cons.IH[OF this] obtain pre rec post where e: "es = pre @ rec # post" "lr_ts rec = start" "before masked now rec" "target \<le> got"
      "got = foldl fadd a (in_yuan rate (filter (before masked now) (pre @ [rec])))"
      "filter (before masked now) pre \<noteq> [] \<longrightarrow> foldl fadd a (in_yuan rate (filter (before masked now) pre)) < target" by blast
    show ?thesis by (rule exI[of _ "r # pre"], rule exI[of _ rec], rule exI[of _ post]) (use e False in simp)
  next
    case True
    let ?a = "fadd a (fmul (lr_billed_or_cost r) rate)"
    show ?thesis
    proof (cases "target \<le> ?a")
      case hit: True
      then have "lr_ts r = start" "got = ?a" using Cons.prems True by (simp_all add: before_def)
      then show ?thesis using True hit
        by (intro exI[of _ "[]"] exI[of _ r] exI[of _ es]) (simp add: in_yuan_def)
    next
      case on: False
      then have "statement_range_for_target es masked target rate now ?a = Inr (start, got)" using Cons.prems True by (simp add: before_def)
      from Cons.IH[OF this] obtain pre rec post where e: "es = pre @ rec # post" "lr_ts rec = start" "before masked now rec" "target \<le> got"
        "got = foldl fadd ?a (in_yuan rate (filter (before masked now) (pre @ [rec])))"
        "filter (before masked now) pre \<noteq> [] \<longrightarrow> foldl fadd ?a (in_yuan rate (filter (before masked now) pre)) < target" by blast
      have "foldl fadd ?a (in_yuan rate (filter (before masked now) pre)) < target"
        using e(6) on by (cases "filter (before masked now) pre = []") (simp_all add: in_yuan_def)
      then show ?thesis using e(1-5) True
        by (intro exI[of _ "r # pre"] exI[of _ rec] exI[of _ post]) (simp add: in_yuan_def)
    qed
  qed
qed simp

text \<open>Adding charges never takes away from a sum that is a \<open>float64\<close>.\<close>

lemma fadd_grows: "rnd a = a \<Longrightarrow> 0 \<le> x \<Longrightarrow> a \<le> fadd a x"
  using rnd_mono[of a "a + x"] by (simp add: fadd_def)

lemma foldl_fadd_grows:
  "rnd a = a \<Longrightarrow> \<forall>x \<in> set xs. 0 \<le> x \<Longrightarrow> a \<le> foldl fadd a xs"
proof (induction xs arbitrary: a)
  case (Cons x xs)
  have "a \<le> fadd a x" using Cons.prems by (simp add: fadd_grows)
  also have "\<dots> \<le> foldl fadd (fadd a x) xs" using Cons.prems by (intro Cons.IH) (simp_all add: fadd_def)
  finally show ?case by simp
qed simp

lemma rnd_foldl_fadd: "rnd a = a \<Longrightarrow> rnd (foldl fadd a xs) = foldl fadd a xs"
  by (induction xs arbitrary: a) (simp_all add: fadd_def)

section \<open>The document of a window\<close>

definition in_window :: "int \<Rightarrow> int \<Rightarrow> log_entry \<Rightarrow> bool" where
  "in_window start stop r \<longleftrightarrow> start \<le> lr_ts r \<and> lr_ts r < stop"

lemma fold_target_row:
  "fold (target_row with_lines rate start stop) es (s, usd, ls) = (s', usd', ls') \<Longrightarrow>
     s' = observe_all (map (\<lambda>r. (lr_model r, fmul (lr_billed_or_cost r) rate)) (filter (in_window start stop) es)) s \<and>
     (with_lines \<and> length ls \<le> MaxDetailLines \<longrightarrow> ls' = take MaxDetailLines (ls @
        map (\<lambda>r. statement_line r (fmul (lr_billed_or_cost r) rate)) (filter (in_window start stop) es)))"
proof (induction es arbitrary: s usd ls)
  case (Cons r es)
  show ?case
  proof (cases "in_window start stop r")
    case False
    then have "target_row with_lines rate start stop r (s, usd, ls) = (s, usd, ls)" by (auto simp: target_row_def in_window_def)
    with Cons.prems have "fold (target_row with_lines rate start stop) es (s, usd, ls) = (s', usd', ls')" by simp
    from Cons.IH[OF this] False show ?thesis by simp
  next
    case True
    let ?cny = "fmul (lr_billed_or_cost r) rate"
    define ls1 where "ls1 = (if with_lines \<and> length ls < MaxDetailLines then ls @ [statement_line r ?cny] else ls)"
    have "target_row with_lines rate start stop r (s, usd, ls) = (observe (lr_model r) ?cny s, fadd usd (lr_billed_or_cost r), ls1)"
      using True by (auto simp: target_row_def in_window_def Let_def ls1_def)
    with Cons.prems have "fold (target_row with_lines rate start stop) es (observe (lr_model r) ?cny s, fadd usd (lr_billed_or_cost r), ls1) = (s', usd', ls')"
      by simp
    note ih = Cons.IH[OF this]
    have "take MaxDetailLines (ls1 @ xs) = take MaxDetailLines (ls @ statement_line r ?cny # xs)" if "with_lines" "length ls \<le> MaxDetailLines" for xs
      using that by (cases "length ls < MaxDetailLines") (simp_all add: ls1_def take_Cons' Suc_diff_Suc flip: Suc_diff_Suc)
    moreover have "length ls1 \<le> MaxDetailLines" if "length ls \<le> MaxDetailLines" using that by (simp add: ls1_def)
    ultimately show ?thesis using ih True by (simp add: observe_all_def)
  qed
qed (simp add: observe_all_def)

text \<open>Rows as the log answers them for one token: newest first, the token's own, and no credits.\<close>

definition sound_rows :: "string \<Rightarrow> log_entry list \<Rightarrow> bool" where
  "sound_rows masked es \<longleftrightarrow> sorted_wrt (\<lambda>a b. lr_ts b \<le> lr_ts a) es \<and> (\<forall>r \<in> set es. le_client_token r = masked \<and> 0 \<le> lr_billed_or_cost r)"

lemma newer_rows_lead:
  assumes "sound_rows masked pre" "\<forall>r \<in> set pre. start \<le> lr_ts r"
  shows "filter (before masked now) pre = filter (in_window (start + 1) now) pre @ filter (\<lambda>r. before masked now r \<and> lr_ts r = start) pre"
  using assms
proof (induction pre)
  case (Cons r pre)
  then have ih: "filter (before masked now) pre = filter (in_window (start + 1) now) pre @ filter (\<lambda>r. before masked now r \<and> lr_ts r = start) pre"
    by (simp add: sound_rows_def)
  show ?case
  proof (cases "lr_ts r = start")
    case True
    then have "\<forall>x \<in> set pre. lr_ts x = start" using Cons.prems by (force simp: sound_rows_def)
    then have "filter (in_window (start + 1) now) (r # pre) = []" using True by (auto simp: filter_empty_conv in_window_def)
    moreover have "filter (before masked now) (r # pre) = filter (\<lambda>r. before masked now r \<and> lr_ts r = start) (r # pre)"
      using \<open>\<forall>x \<in> set pre. lr_ts x = start\<close> True by (intro filter_cong) auto
    ultimately show ?thesis by simp
  next
    case False
    then have "in_window (start + 1) now r \<longleftrightarrow> before masked now r" using Cons.prems by (auto simp: in_window_def before_def sound_rows_def)
    with ih False show ?thesis by simp
  qed
qed simp

lemma charges_nonneg:
  assumes "sound_rows masked es" "0 \<le> rate" "set es' \<subseteq> set es" "x \<in> set (in_yuan rate es')"
  shows "0 \<le> x"
  using assms by (auto simp: sound_rows_def in_yuan_def fmul_def intro!: rnd_nonneg mult_nonneg_nonneg)

text \<open>The rows strictly newer than the one that reached the target did not reach it.\<close>

lemma newer_rows_miss:
  assumes pre: "sound_rows masked pre" "\<forall>r \<in> set pre. start \<le> lr_ts r" and rate: "0 \<le> rate" and target: "0 < target"
    and less: "filter (before masked now) pre \<noteq> [] \<longrightarrow> foldl fadd 0 (in_yuan rate (filter (before masked now) pre)) < target"
  shows "foldl fadd 0 (in_yuan rate (filter (in_window (start + 1) now) pre)) < target"
proof (cases "filter (before masked now) pre = []")
  case True
  then have "filter (in_window (start + 1) now) pre = []"
    using pre(1) by (auto simp: filter_empty_conv before_def in_window_def sound_rows_def)
  then show ?thesis using target by (simp add: in_yuan_def)
next
  case False
  define tl where "tl = filter (\<lambda>r. before masked now r \<and> lr_ts r = start) pre"
  define newer where "newer = foldl fadd 0 (in_yuan rate (filter (in_window (start + 1) now) pre))"
  have "foldl fadd 0 (in_yuan rate (filter (before masked now) pre)) = foldl fadd newer (in_yuan rate tl)"
    unfolding newer_rows_lead[OF pre, of now] by (simp add: in_yuan_def tl_def newer_def)
  moreover have "newer \<le> foldl fadd newer (in_yuan rate tl)"
  proof (rule foldl_fadd_grows)
    show "rnd newer = newer" unfolding newer_def by (rule rnd_foldl_fadd) simp
    show "\<forall>x \<in> set (in_yuan rate tl). 0 \<le> x" using charges_nonneg[OF pre(1) rate, of tl] by (auto simp: tl_def)
  qed
  ultimately show ?thesis using less False by (simp add: newer_def)
qed

lemma window_total:
  assumes es: "sound_rows masked es" and rate: "0 \<le> rate" and target: "0 < target"
    and found: "statement_range_for_target es masked target rate now 0 = Inr (start, got)"
  shows "start < now \<and> target \<le> foldl fadd 0 (in_yuan rate (filter (in_window start now) es)) \<and>
    foldl fadd 0 (in_yuan rate (filter (in_window (start + 1) now) es)) < target"
proof -
  from search_found[OF found] obtain pre rec post where e: "es = pre @ rec # post" "lr_ts rec = start" "before masked now rec" "target \<le> got"
    and got: "got = foldl fadd 0 (in_yuan rate (filter (before masked now) (pre @ [rec])))"
    and less: "filter (before masked now) pre \<noteq> [] \<longrightarrow> foldl fadd 0 (in_yuan rate (filter (before masked now) pre)) < target" by blast
  have ord: "\<forall>r \<in> set pre. start \<le> lr_ts r" "\<forall>r \<in> set post. lr_ts r \<le> start"
    using es by (auto simp: sound_rows_def e(1) sorted_wrt_append simp flip: e(2))
  have pre: "sound_rows masked pre" using es by (simp add: sound_rows_def e(1) sorted_wrt_append)
  have same: "filter (in_window start now) (pre @ [rec]) = filter (before masked now) (pre @ [rec])"
    using pre ord(1) e(2,3) by (intro filter_cong refl) (auto simp: in_window_def before_def sound_rows_def)
  have r0: "rnd got = got" unfolding got by (rule rnd_foldl_fadd) simp
  have "filter (in_window start now) es = filter (before masked now) (pre @ [rec]) @ filter (in_window start now) post"
    unfolding e(1) same[symmetric] by simp
  then have "foldl fadd 0 (in_yuan rate (filter (in_window start now) es)) = foldl fadd got (in_yuan rate (filter (in_window start now) post))"
    by (simp only: got in_yuan_def map_append foldl_append)
  moreover have "got \<le> foldl fadd got (in_yuan rate (filter (in_window start now) post))"
    by (rule foldl_fadd_grows[OF r0]) (use charges_nonneg[OF es rate, of "filter (in_window start now) post"] in \<open>auto simp: e(1)\<close>)
  moreover have "filter (in_window (start + 1) now) es = filter (in_window (start + 1) now) pre"
    using ord(2) e(2) by (fastforce simp: e(1) filter_empty_conv in_window_def)
  ultimately show ?thesis using newer_rows_miss[OF pre ord(1) rate target less] e(3,2,4) by (simp add: before_def)
qed

section \<open>The statement\<close>

lemma rate_positive: "0 < admin_statement_rate h"
proof -
  have "0 < DefaultCNYPerUSD" by code_simp
  then show ?thesis by (auto simp: admin_statement_rate_def split: option.split)
qed

lemma finish_statement_keeps:
  assumes "finish_statement q h tok life with_lines start stop (s, usd, ls) st = (Inr s', st')"
  shows "st_requests s' = st_requests s \<and> st_billed_cny s' = st_billed_cny s \<and> st_by_target s' = st_by_target s \<and> st_range s' = st_range s \<and>
    st_by_model s' = order_by dearer_model (st_tally s) \<and> (with_lines \<longrightarrow> st_lines s' = ls)"
  using assms
  by (auto simp: finish_statement_def Let_def rollup_def reconcile_against_ledger_def placeholder_lines_def bnd_def attempt_def ret_def
      split: if_splits prod.splits sum.splits)

text \<open>C29. A statement by target is dated from an instant before it was made, counts every row of its window, and
  totals at least the target; the rows after its first instant alone would not have; and as a
  document it lists the newest rows of the window, oldest first.\<close>

theorem target_statement_reaches_its_target:
  assumes run: "statement_by_target q h rl now who target paid with_lines c st = (Inr (Inr s, c2), st')"
    and scan: "target_scan h rl now (token_mask (fst who)) target (admin_statement_rate h)
       (snd (lifetime_totals h rl now (token_mask (fst who)) c)) = (Inr (es, start), c1)"
    and es: "sound_rows (token_mask (fst who)) es" and target: "0 < target"
  shows "let cny = (\<lambda>r. fmul (lr_billed_or_cost r) (admin_statement_rate h)); window = filter (in_window start now) es in
    st_by_target s \<and> st_range s = Some (start, now) \<and> start < now \<and> st_requests s = int (length window) \<and>
    st_billed_cny s = foldl fadd 0 (map cny window) \<and> target \<le> st_billed_cny s \<and>
    foldl fadd 0 (map cny (filter (in_window (start + 1) now) es)) < target \<and>
    (with_lines \<longrightarrow> st_lines s = rev (take MaxDetailLines (map (\<lambda>r. statement_line r (cny r)) window)))"
proof -
  obtain tok name grp where who: "who = (tok, name, grp)" by (cases who)
  let ?rate = "admin_statement_rate h" and ?w = "filter (in_window start now) es"
  obtain life cl where life: "lifetime_totals h rl now (token_mask tok) c = (life, cl)" by fastforce
  from run scan obtain s0 st1 usd ls s1 st2 where s0: "s0 = statement_start rl h now who
         (format_date (day_at (rl_offset rl) start)) (format_date (day_at (rl_offset rl) now)) target paid (Some (start, now)) s1"
    and fin: "finish_statement q h tok life with_lines start now (case fold (target_row with_lines ?rate start now) es (s0, 0, []) of
         (s, usd, ls) \<Rightarrow> (s, usd, rev ls)) st1 = (Inr s, st2)"
    by (auto simp: statement_by_target_def who life Let_def bnd_Inr ret_iff)
  obtain s' usd' ls' where f: "fold (target_row with_lines ?rate start now) es (s0, 0, []) = (s', usd', ls')" by (metis prod_cases3)
  have s': "s' = observe_all (map (\<lambda>r. (lr_model r, fmul (lr_billed_or_cost r) ?rate)) ?w) s0"
    and ls': "with_lines \<longrightarrow> ls' = take MaxDetailLines (map (\<lambda>r. statement_line r (fmul (lr_billed_or_cost r) ?rate)) ?w)"
    using fold_target_row[OF f] by simp_all
  have b: "blank s0" by (simp add: s0 statement_start_def who blank_def)
  have kept: "st_by_target s' = st_by_target s0 \<and> st_range s' = st_range s0"
    unfolding s' observe_all_def by (rule fold_invariant[where Q = "\<lambda>_. True"]) (auto simp: observe_def)
  from scan obtain got where "statement_range_for_target es (token_mask tok) target ?rate now 0 = Inr (start, got)"
    by (auto simp: target_scan_def who Let_def split: prod.splits sum.splits if_splits)
  from window_total[OF es[unfolded who fst_conv] _ target this] rate_positive[of h]
  have win: "start < now \<and> target \<le> foldl fadd 0 (in_yuan ?rate ?w) \<and> foldl fadd 0 (in_yuan ?rate (filter (in_window (start + 1) now) es)) < target"
    by simp
  have totals: "st_requests s' = int (length ?w) \<and> st_billed_cny s' = foldl fadd 0 (map (\<lambda>r. fmul (lr_billed_or_cost r) ?rate) ?w)"
    using observe_all_totals[OF b, of "map (\<lambda>r. (lr_model r, fmul (lr_billed_or_cost r) ?rate)) ?w"] by (simp add: s' comp_def)
  show ?thesis
    using finish_statement_keeps[OF fin[unfolded f prod.case]] kept win totals ls' target
    by (simp add: Let_def in_yuan_def s0 statement_start_def who)
qed

text \<open>Without a wallet database nothing of it can fail.\<close>

lemma statement_by_target_offline:
  assumes off: "\<not> sh_wallets h" and life: "lifetime_totals h rl now (token_mask tok) c = (life, c1)"
    and scan: "target_scan h rl now (token_mask tok) target (admin_statement_rate h) c1 = (Inr (es, start), c2)"
  shows "\<exists>s. statement_by_target q h rl now (tok, name, grp) target paid with_lines c st = (Inr (Inr s, c2), st)"
proof -
  let ?day = "\<lambda>t. format_date (day_at (rl_offset rl) t)"
  let ?s0 = "statement_start rl h now (tok, name, grp) (?day start) (?day now) target paid (Some (start, now)) grp"
  obtain s1 usd ls where f: "fold (target_row with_lines (admin_statement_rate h) start now) es (?s0, 0, []) = (s1, usd, ls)" by (metis prod_cases3)
  have "\<exists>s. finish_statement q h tok life with_lines start now (s1, usd, rev ls) st = (Inr s, st)"
    using off by (simp add: finish_statement_def Let_def reconcile_against_ledger_def bnd_def ret_def)
  then obtain s where fin: "finish_statement q h tok life with_lines start now (s1, usd, rev ls) st = (Inr s, st)" by blast
  have hold: "holder_group (sh_wallets h) tok grp = ret grp" using off by (simp add: holder_group_def)
  have "statement_by_target q h rl now (tok, name, grp) target paid with_lines c st = (Inr (Inr s, c2), st)"
    by (simp add: statement_by_target_def Let_def life scan hold bnd_def[of "ret grp"] ret_def[of grp] f fin bnd_def ret_def)
  then show ?thesis by blast
qed

definition sample_entry :: "string \<Rightarrow> int \<Rightarrow> log_entry" where
  "sample_entry masked ts = log_row.extend (sample_row ts) \<lparr>le_client = [], le_client_token = masked, le_auth_id = [], le_auth_label = [],
     le_auth_kind = [], le_cache_create = 0, le_billed_usd = 1, le_multiplier = 1, le_duration_ms = 0, le_stream = False\<rparr>"

definition sample_masked :: string where "sample_masked = token_mask ''sk-alice-0001''"

definition sample_request_log :: request_log where
  "sample_request_log = \<lparr>rl_query = (\<lambda>f. Inr \<lparr>qr_summary = zero_aggregate\<lparr>ag_count := 3, ag_billed_usd := 3\<rparr>, qr_by_client = [],
     qr_by_model = [(''m'', zero_aggregate\<lparr>ag_count := 3, ag_billed_usd := 3\<rparr>)], qr_by_day = [],
     qr_entries = map (sample_entry sample_masked) [30, 20, 10]\<rparr>), rl_offset = 0, rl_zone = ''UTC''\<rparr>"

definition sample_statement_handler :: statement_handler where
  "sample_statement_handler = \<lparr>sh_log_dir = ''logs'', sh_retention = 90, sh_lookup = (\<lambda>_. Some ([], [])), sh_wallets = False,
     sh_rate = None, sh_fallback = 7, sh_max_rows = statementMaxRows\<rparr>"

lemma sample_sums: "fadd 0 7 = (7 :: float64)" "fadd 7 7 = (14 :: float64)" "fmul 1 7 = (7 :: float64)"
  by code_simp+

theorem target_statement_reaches_its_target_witness:
  "\<exists>s c2 st'. statement_by_target demo_sqlite sample_statement_handler sample_request_log 40 (''sk-alice-0001'', [], []) 10 0 True []
     (fresh_session demo_db) = (Inr (Inr s, c2), st') \<and> 10 \<le> st_billed_cny s \<and> st_requests s = 2 \<and> st_range s = Some (20, 40)"
proof -
  let ?h = sample_statement_handler and ?rl = sample_request_log and ?who = "(''sk-alice-0001'', [] :: string, [] :: string)"
  let ?es = "map (sample_entry sample_masked) [30, 20, 10]"
  have rate: "admin_statement_rate ?h = 7" by (simp add: admin_statement_rate_def sample_statement_handler_def)
  obtain c1 where life: "snd (lifetime_totals ?h ?rl 40 (token_mask (fst ?who)) []) = c1" by blast
  have any: "\<exists>r c'. cached_query_shared ?rl 40 f ttl c = (Inr r, c') \<and> qr_entries r = ?es \<and> ag_count (qr_summary r) = 3"
    if "\<forall>e \<in> set c. qr_entries (fst (snd e)) = ?es \<and> ag_count (qr_summary (fst (snd e))) = 3" for f ttl c
    using that by (auto simp: cached_query_shared_def Let_def sample_request_log_def zero_aggregate_def dest!: map_of_SomeD split: option.split)
  have "\<forall>e \<in> set c1. qr_entries (fst (snd e)) = ?es \<and> ag_count (qr_summary (fst (snd e))) = 3"
    using life by (auto simp: lifetime_totals_def cached_query_shared_def Let_def sample_request_log_def make_room_def requestsCacheMax_def zero_aggregate_def)
  from any[OF this] obtain r c2 where r: "cached_query_shared ?rl 40 (range_filter (token_mask (fst ?who)) (retained_from ?h (rl_offset ?rl) 40) []
       (sh_max_rows ?h)) statementScanCacheTTL c1 = (Inr r, c2)" "qr_entries r = ?es" "ag_count (qr_summary r) = 3" by blast
  have found: "statement_range_for_target ?es (token_mask (fst ?who)) 10 7 40 0 = Inr (20, 14)"
    by (simp add: sample_entry_def sample_row_def log_row.extend_def sample_masked_def sample_sums)
  have scan: "target_scan ?h ?rl 40 (token_mask (fst ?who)) 10 (admin_statement_rate ?h) c1 = (Inr (?es, 20), c2)"
    unfolding target_scan_def rate r(1) using r(2,3) found by simp
  obtain lf where life': "lifetime_totals ?h ?rl 40 (token_mask ''sk-alice-0001'') [] = (lf, c1)" using life by (metis fst_conv prod.collapse)
  have "\<exists>s st'. statement_by_target demo_sqlite ?h ?rl 40 ?who 10 0 True [] (fresh_session demo_db) = (Inr (Inr s, c2), st')"
  proof -
    have "\<not> sh_wallets ?h" by (simp add: sample_statement_handler_def)
    from statement_by_target_offline[OF this life' scan[unfolded fst_conv]] show ?thesis by blast
  qed
  then obtain s st' where run: "statement_by_target demo_sqlite ?h ?rl 40 ?who 10 0 True [] (fresh_session demo_db) = (Inr (Inr s, c2), st')" by blast
  have sound: "sound_rows (token_mask (fst ?who)) ?es"
    by (simp add: sound_rows_def sample_entry_def sample_row_def log_row.extend_def sample_masked_def)
  from target_statement_reaches_its_target[OF run scan[folded life] sound] run show ?thesis
    by (auto simp: Let_def in_window_def sample_entry_def sample_row_def log_row.extend_def)
qed

section \<open>Tokens that share a mask\<close>

text \<open>What a statement over named days holds depends on the token only through its mask, so two tokens too
  short to be told apart are given the same figures, those of both.\<close>

lemma short_tokens_share_a_statement:
  assumes "length tok \<le> MinDistinguishableLen" "length tok' \<le> MinDistinguishableLen"
    and "statement_by_days q h rl now (tok, name, grp) b paid with_lines c st = (Inr (Inr s, c1), st1)"
    and "statement_by_days q h rl now (tok', name', grp') b paid' with_lines c st' = (Inr (Inr s', c1'), st1')"
  shows "st_requests s = st_requests s' \<and> st_billed_cny s = st_billed_cny s' \<and> st_by_model s = st_by_model s' \<and>
    (with_lines \<longrightarrow> st_lines s = st_lines s')"
proof -
  have m: "token_mask tok = Opaque" "token_mask tok' = Opaque" using assms(1,2) by (simp_all add: token_mask_def)
  obtain lo hi start stop where w: "statement_range (rl_offset rl) now (sb_from b) (sb_to b) = Inr (lo, hi, start, stop)"
    using assms(3) by (cases "statement_range (rl_offset rl) now (sb_from b) (sb_to b)") (auto simp: statement_by_days_def ret_def)
  obtain life c0 where l: "lifetime_totals h rl now Opaque c = (life, c0)" by fastforce
  have gen: "\<exists>s0 found st2 st3. range_totals rl now Opaque lo hi with_lines (admin_statement_rate h) s0 c0 = (Inr found, k) \<and>
      finish_statement q h tk life with_lines start stop found st2 = (Inr s, st3)"
    if "statement_by_days q h rl now (tk, nm, gr) b pd with_lines c st = (Inr (Inr s, k), st9)" "token_mask tk = Opaque" for tk nm gr pd st s k st9
  proof -
    have "statement_by_days q h rl now (tk, nm, gr) b pd with_lines c = bnd (holder_group (sh_wallets h) tk gr) (\<lambda>grp'.
        case range_totals rl now Opaque lo hi with_lines (admin_statement_rate h)
               (statement_start rl h now (tk, nm, gr) lo hi (sb_target_cny b) pd None grp') c0 of
          (Inl resp, c2) \<Rightarrow> ret (Inl resp, c2)
        | (Inr found, c2) \<Rightarrow> bnd (finish_statement q h tk life with_lines start stop found) (\<lambda>s. ret (Inr s, c2)))"
      by (simp add: statement_by_days_def w l that(2))
    with that(1) obtain g st2 where r: "(case range_totals rl now Opaque lo hi with_lines (admin_statement_rate h)
        (statement_start rl h now (tk, nm, gr) lo hi (sb_target_cny b) pd None g) c0 of
          (Inl resp, c2) \<Rightarrow> ret (Inl resp, c2)
        | (Inr found, c2) \<Rightarrow> bnd (finish_statement q h tk life with_lines start stop found) (\<lambda>s. ret (Inr s, c2))) st2 = (Inr (Inr s, k), st9)"
      by (auto simp: bnd_Inr)
    obtain x c2 where x: "range_totals rl now Opaque lo hi with_lines (admin_statement_rate h)
        (statement_start rl h now (tk, nm, gr) lo hi (sb_target_cny b) pd None g) c0 = (x, c2)" by fastforce
    show ?thesis using r x by (cases x) (auto simp: bnd_Inr ret_iff, blast)
  qed
  from gen[OF assms(3) m(1)] gen[OF assms(4) m(2)] show ?thesis
    by (auto simp: range_totals_def Let_def set_range_totals_def split: prod.splits sum.splits if_splits dest!: finish_statement_keeps)
qed

end
