(* ===== verification/Sha256.thy ===== *)
theory Sha256
  imports Md5
begin

text \<open>
  \<open>crypto/sha256\<close>, \<open>crypto/hmac\<close> over it and \<open>encoding/base64\<close>, under the signature of a webhook
  (\<open>internal/saas/resend/inbound.go\<close>): the padding to blocks of 64 bytes, the message schedule and
  64 steps of a block on eight 32-bit words, the keyed digest, and the standard alphabet with
  padding, whose decoder skips line breaks and refuses everything else it does not know.
\<close>

section \<open>The digest\<close>

text \<open>The constants are the first 32 bits behind the point of the square and cube roots of small
  primes: \<open>nth_root k x n r\<close> is the largest \<open>r + i\<close> with \<open>i < 2 ^ n\<close> whose \<open>k\<close>-th power is at most \<open>x\<close>.\<close>

fun nth_root :: "nat \<Rightarrow> int \<Rightarrow> nat \<Rightarrow> int \<Rightarrow> int" where
  "nth_root k x 0 r = r"
| "nth_root k x (Suc n) r = nth_root k x n (if (r + 2 ^ n) ^ k \<le> x then r + 2 ^ n else r)"

definition root_bits :: "nat \<Rightarrow> int \<Rightarrow> word32" where
  "root_bits k p = word_of_int (nth_root k (p * 2 ^ (32 * k)) 37 0)"

definition small_primes :: "int list" where
  "small_primes = [2, 3, 5, 7, 11, 13, 17, 19, 23, 29, 31, 37, 41, 43, 47, 53, 59, 61, 67, 71, 73, 79, 83, 89, 97,
     101, 103, 107, 109, 113, 127, 131, 137, 139, 149, 151, 157, 163, 167, 173, 179, 181, 191, 193,
     197, 199, 211, 223, 227, 229, 233, 239, 241, 251, 257, 263, 269, 271, 277, 281, 283, 293, 307,
     311]"

definition sha_constants :: "word32 list" where
  "sha_constants = map (root_bits 3) small_primes"

definition sha_initial :: "word32 list" where
  "sha_initial = map (root_bits 2) (take 8 small_primes)"

definition rotr32 :: "nat \<Rightarrow> word32 \<Rightarrow> word32" where
  "rotr32 n w = (drop_bit n w OR push_bit (32 - n) w)"

text \<open>The words of the schedule, the newest first.\<close>

fun sha_schedule :: "nat \<Rightarrow> word32 list \<Rightarrow> word32 list" where
  "sha_schedule 0 ws = ws"
| "sha_schedule (Suc n) ws = (let x = ws ! 14; y = ws ! 1;
     s0 = xor (xor (rotr32 7 x) (rotr32 18 x)) (drop_bit 3 x); s1 = xor (xor (rotr32 17 y) (rotr32 19 y)) (drop_bit 10 y)
   in sha_schedule n ((ws ! 15 + s0 + ws ! 6 + s1) # ws))"

definition sha_step :: "word32 \<times> word32 \<Rightarrow> word32 list \<Rightarrow> word32 list" where
  "sha_step kw st = (case kw of (k, w) \<Rightarrow> let a = st ! 0; b = st ! 1; c = st ! 2; e = st ! 4; f = st ! 5; g = st ! 6;
       t1 = st ! 7 + xor (xor (rotr32 6 e) (rotr32 11 e)) (rotr32 25 e) + xor (e AND f) (NOT e AND g) + k + w;
       t2 = xor (xor (rotr32 2 a) (rotr32 13 a)) (rotr32 22 a) + xor (xor (a AND b) (a AND c)) (b AND c)
     in [t1 + t2, a, b, c, st ! 3 + t1, e, f, g])"

definition sha_block :: "word32 list \<Rightarrow> word32 list \<Rightarrow> word32 list" where
  "sha_block st blk = map2 (+) st (fold sha_step (zip sha_constants (rev (sha_schedule 48 (rev blk)))) st)"

fun be_words :: "byte list \<Rightarrow> word32 list" where
  "be_words (a # b # c # d # r) = (push_bit 24 (ucast a) OR push_bit 16 (ucast b) OR push_bit 8 (ucast c) OR ucast d) # be_words r"
| "be_words _ = []"

definition be_bytes :: "nat \<Rightarrow> 'a::len word \<Rightarrow> byte list" where
  "be_bytes k w = rev (le_bytes k w)"

definition sha_pad :: "byte list \<Rightarrow> byte list" where
  "sha_pad bs = (let r = length bs mod 64 in
     bs @ [128] @ replicate (if r < 56 then 55 - r else 119 - r) 0 @ be_bytes 8 (word_of_nat (8 * length bs) :: 64 word))"

fun sha_blocks :: "nat \<Rightarrow> word32 list \<Rightarrow> word32 list \<Rightarrow> word32 list" where
  "sha_blocks 0 st ws = st"
| "sha_blocks (Suc n) st ws = sha_blocks n (sha_block st (take 16 ws)) (drop 16 ws)"

definition sha256_sum :: "byte list \<Rightarrow> byte list" where
  "sha256_sum msg = (let bs = sha_pad msg in
     concat (map (be_bytes 4) (sha_blocks (length bs div 64) sha_initial (be_words bs))))"

text \<open>A key longer than a block is hashed first.\<close>

definition hmac_sha256 :: "byte list \<Rightarrow> byte list \<Rightarrow> byte list" where
  "hmac_sha256 key msg = (let k0 = (if 64 < length key then sha256_sum key else key);
       k = k0 @ replicate (64 - length k0) 0
     in sha256_sum (map (xor 0x5c) k @ sha256_sum (map (xor 0x36) k @ msg)))"

section \<open>Base64\<close>

definition base64_alphabet :: string where
  "base64_alphabet = ''ABCDEFGHIJKLMNOPQRSTUVWXYZabcdefghijklmnopqrstuvwxyz0123456789+/''"

definition sextet_char :: "nat \<Rightarrow> char" where
  "sextet_char n = base64_alphabet ! (n mod 64)"

definition sextet :: "char \<Rightarrow> nat option" where
  "sextet c = (let i = length (takeWhile (\<lambda>x. x \<noteq> c) base64_alphabet) in if i < 64 then Some i else None)"

fun base64_encode :: "byte list \<Rightarrow> string" where
  "base64_encode [] = []"
| "base64_encode [a] = (let n = unat a * 16 in [sextet_char (n div 64), sextet_char n, CHR ''='', CHR ''=''])"
| "base64_encode [a, b] = (let n = (unat a * 256 + unat b) * 4 in
     [sextet_char (n div 4096), sextet_char (n div 64), sextet_char n, CHR ''=''])"
| "base64_encode (a # b # c # r) = (let n = unat a * 65536 + unat b * 256 + unat c in
     [sextet_char (n div 262144), sextet_char (n div 4096), sextet_char (n div 64), sextet_char n] @ base64_encode r)"

definition quartet :: "string \<Rightarrow> nat option" where
  "quartet s = foldl (\<lambda>acc c. case (acc, sextet c) of (Some n, Some k) \<Rightarrow> Some (n * 64 + k) | _ \<Rightarrow> None) (Some 0) s"

text \<open>Line breaks are already gone.\<close>

fun base64_groups :: "string \<Rightarrow> byte list option" where
  "base64_groups [] = Some []"
| "base64_groups (a # b # c # d # r) =
     (if d = CHR ''='' \<and> c = CHR ''='' \<and> r = [] then map_option (\<lambda>n. [word_of_nat (n div 16 mod 256)]) (quartet [a, b])
      else if d = CHR ''='' \<and> r = [] then map_option (\<lambda>n. [word_of_nat (n div 1024 mod 256), word_of_nat (n div 4 mod 256)]) (quartet [a, b, c])
      else case (quartet [a, b, c, d], base64_groups r) of
          (Some n, Some bs) \<Rightarrow> Some ([word_of_nat (n div 65536 mod 256), word_of_nat (n div 256 mod 256), word_of_nat (n mod 256)] @ bs) | _ \<Rightarrow> None)"
| "base64_groups _ = None"

definition base64_decode :: "string \<Rightarrow> byte list option" where
  "base64_decode s = base64_groups (filter (\<lambda>c. c \<noteq> CHR 0x0D \<and> c \<noteq> CHR 0x0A) s)"

section \<open>Decoding what was encoded\<close>

lemma base64_alphabet_facts:
  "length base64_alphabet = 64" "distinct base64_alphabet"
  "CHR ''='' \<notin> set base64_alphabet" "CHR 0x0D \<notin> set base64_alphabet" "CHR 0x0A \<notin> set base64_alphabet"
  by (simp_all add: base64_alphabet_def)

lemma first_index:
  assumes "distinct xs" "n < length xs"
  shows "length (takeWhile (\<lambda>x. x \<noteq> xs ! n) xs) = n"
proof -
  have "takeWhile (\<lambda>x. x \<noteq> xs ! n) xs = take n xs"
    by (rule takeWhile_eq_take_P_nth) (use assms in \<open>auto simp: nth_eq_iff_index_eq\<close>)
  then show ?thesis using assms by simp
qed

lemma sextet_char_table:
  assumes "n < 64"
  shows "sextet (sextet_char n) = Some n" "sextet_char n \<in> set base64_alphabet"
  using assms first_index[OF base64_alphabet_facts(2), of n]
  by (simp_all add: sextet_def sextet_char_def base64_alphabet_facts(1) Let_def)

lemma sextet_char_mod [simp]: "sextet_char (n mod 64) = sextet_char n"
  by (simp add: sextet_char_def)

lemma sextet_char [simp]: "sextet (sextet_char n) = Some (n mod 64)" "sextet_char n \<noteq> CHR ''=''" "sextet_char n \<noteq> CHR 0x0D" "sextet_char n \<noteq> CHR 0x0A"
  using sextet_char_table[of "n mod 64"] base64_alphabet_facts(3-5) by auto

lemma byte_bound: "unat (b :: byte) < 256"
  using unsigned_less[of b, where 'a = nat] by simp

lemma group_digits:
  fixes n :: nat
  shows "n < 4096 \<Longrightarrow> n div 64 mod 64 * 64 + n mod 64 = n"
    and "n < 262144 \<Longrightarrow> (n div 4096 mod 64 * 64 + n div 64 mod 64) * 64 + n mod 64 = n"
    and "n < 16777216 \<Longrightarrow> ((n div 262144 mod 64 * 64 + n div 4096 mod 64) * 64 + n div 64 mod 64) * 64 + n mod 64 = n"
proof -
  have split: "n div 262144 = n div 64 div 64 div 64" "n div 4096 = n div 64 div 64"
    by (simp_all add: div_mult2_eq[symmetric])
  show "n < 4096 \<Longrightarrow> n div 64 mod 64 * 64 + n mod 64 = n" by simp
  show "n < 262144 \<Longrightarrow> (n div 4096 mod 64 * 64 + n div 64 mod 64) * 64 + n mod 64 = n"
    using split by (metis div_mult_mod_eq mod_less less_mult_imp_div_less[of n 64 4096, simplified])
  show "n < 16777216 \<Longrightarrow> ((n div 262144 mod 64 * 64 + n div 4096 mod 64) * 64 + n div 64 mod 64) * 64 + n mod 64 = n"
    using split by (metis div_mult_mod_eq mod_less less_mult_imp_div_less[of n 64 262144, simplified])
qed

lemma byte_digit: "c < 256 \<Longrightarrow> (x * 256 + c) div 256 = x" "c < 256 \<Longrightarrow> (x * 256 + c) mod 256 = (c :: nat)"
  by simp_all

lemma quartet_digits:
  "n < 4096 \<Longrightarrow> quartet [sextet_char (n div 64), sextet_char n] = Some n"
  "n < 262144 \<Longrightarrow> quartet [sextet_char (n div 4096), sextet_char (n div 64), sextet_char n] = Some n"
  "n < 16777216 \<Longrightarrow> quartet [sextet_char (n div 262144), sextet_char (n div 4096), sextet_char (n div 64), sextet_char n] = Some n"
  using group_digits[of n] by (simp_all add: quartet_def)

lemma base64_groups_encode: "base64_groups (base64_encode bs) = Some bs"
proof (induction bs rule: base64_encode.induct)
  case (2 a)
  have "quartet [sextet_char (unat a * 16 div 64), sextet_char (unat a * 16)] = Some (unat a * 16)"
    using byte_bound[of a] by (intro quartet_digits) simp
  then show ?case using byte_bound[of a] by (simp add: Let_def)
next
  case (3 a b)
  let ?n = "(unat a * 256 + unat b) * 4"
  have "?n div 1024 mod 256 = unat a" "?n div 4 mod 256 = unat b" using byte_bound[of a] byte_bound[of b] by simp_all
  moreover have "quartet [sextet_char (?n div 4096), sextet_char (?n div 64), sextet_char ?n] = Some ?n"
    using byte_bound[of a] byte_bound[of b] by (intro quartet_digits) simp
  ultimately show ?case by (simp add: Let_def)
next
  case (4 a b c r)
  let ?n = "unat a * 65536 + unat b * 256 + unat c"
  have e: "?n = (unat a * 256 + unat b) * 256 + unat c" by simp
  have "?n div 256 = unat a * 256 + unat b" "?n mod 256 = unat c"
    unfolding e using byte_digit[OF byte_bound] by blast+
  moreover have "?n div 65536 = (unat a * 256 + unat b) div 256"
    using calculation(1) by (simp add: div_mult2_eq[of _ 256 256, simplified])
  ultimately have "?n div 65536 mod 256 = unat a" "?n div 256 mod 256 = unat b" "?n mod 256 = unat c"
    using byte_bound[of a] byte_bound[of b] by simp_all
  moreover have "quartet [sextet_char (?n div 262144), sextet_char (?n div 4096), sextet_char (?n div 64), sextet_char ?n] = Some ?n"
    using byte_bound[of a] byte_bound[of b] byte_bound[of c] by (intro quartet_digits) simp
  ultimately show ?case using 4 by (simp add: Let_def)
qed simp

lemma base64_encode_plain: "c \<in> set (base64_encode bs) \<Longrightarrow> c \<noteq> CHR 0x0D \<and> c \<noteq> CHR 0x0A"
  by (induction bs rule: base64_encode.induct) (auto simp: Let_def)

lemma base64_decode_encode: "base64_decode (base64_encode bs) = Some bs"
proof -
  have "filter (\<lambda>c. c \<noteq> CHR 0x0D \<and> c \<noteq> CHR 0x0A) (base64_encode bs) = base64_encode bs"
    by (rule filter_True) (use base64_encode_plain in auto)
  then show ?thesis by (simp add: base64_decode_def base64_groups_encode)
qed

lemma base64_encode_inj: "base64_encode a = base64_encode b \<Longrightarrow> a = b"
  by (metis base64_decode_encode option.inject)

end
