(* ===== verification/InboundMail.thy ===== *)
theory InboundMail
  imports Inbox Usage Upstream Sha256
begin

text \<open>
  Mail from and to Resend: the client (\<open>internal/saas/resend/client.go\<close>), the signature of its webhooks
  and the fetch of a mail's body (\<open>resend/inbound.go\<close>), and the endpoint that stores inbound mail
  (\<open>internal/saas/billing/inbox.go\<close>). The transport and the decoding of JSON are arguments; an instant is
  in seconds since 1970.
\<close>

section \<open>Timestamps\<close>

definition digit_of :: "char \<Rightarrow> int" where
  "digit_of c = of_char c - 48"

text \<open>Two digits, or one when the layout lets it stand alone.\<close>

definition get_num :: "bool \<Rightarrow> string \<Rightarrow> (int \<times> string) option" where
  "get_num fixed s = (case s of
       [] \<Rightarrow> None
     | [a] \<Rightarrow> if decimal_char a \<and> \<not> fixed then Some (digit_of a, []) else None
     | a # b # r \<Rightarrow> if \<not> decimal_char a then None
         else if decimal_char b then Some (10 * digit_of a + digit_of b, r)
         else if fixed then None else Some (digit_of a, b # r))"

definition skip_char :: "char \<Rightarrow> string \<Rightarrow> string option" where
  "skip_char c s = (case s of x # r \<Rightarrow> if x = c then Some r else None | [] \<Rightarrow> None)"

definition number_in :: "int \<Rightarrow> int \<Rightarrow> (int \<times> string) option \<Rightarrow> (int \<times> string) option" where
  "number_in lo hi r = (case r of Some (n, s) \<Rightarrow> if lo \<le> n \<and> n \<le> hi then r else None | None \<Rightarrow> None)"

definition parse_year :: "string \<Rightarrow> (int \<times> string) option" where
  "parse_year s = (if length s < 4 then None else map_option (\<lambda>y. (y, drop 4 s)) (parse_two (take 4 s)))"

text \<open>A fraction may be left out, starts with a point or a comma and counts to the ninth digit.\<close>

definition parse_fraction :: "string \<Rightarrow> int \<times> string" where
  "parse_fraction s = (case s of
       c # d # r \<Rightarrow> if (c = CHR ''.'' \<or> c = CHR '','') \<and> decimal_char d
         then let ds = takeWhile decimal_char (d # r); ns = take 9 ds in
           (foldl (\<lambda>v x. 10 * v + digit_of x) 0 ns * 10 ^ (9 - length ns), drop (length ds) (d # r))
         else (0, s)
     | _ \<Rightarrow> (0, s))"

text \<open>The offset of a zone in seconds; hours up to 24 and minutes up to 60 pass.\<close>

definition parse_zone :: "string \<Rightarrow> (int \<times> string) option" where
  "parse_zone s = (case s of
       CHR ''Z'' # r \<Rightarrow> Some (0, r)
     | sg # h1 # h2 # c # m1 # m2 # r \<Rightarrow>
         if c \<noteq> CHR '':'' then None
         else (case (number_in 0 24 (get_num True [h1, h2]), number_in 0 60 (get_num True [m1, m2])) of
             (Some (hr, _), Some (mm, _)) \<Rightarrow> let off = (hr * 60 + mm) * 60 in
               if sg = CHR ''+'' then Some (off, r) else if sg = CHR ''-'' then Some (- off, r) else None
           | _ \<Rightarrow> None)
     | _ \<Rightarrow> None)"

definition parse_clock :: "string \<Rightarrow> ((int \<times> int) \<times> string) option" where
  "parse_clock s =
     Option.bind (number_in 0 23 (get_num False s)) (\<lambda>(h, s).
     Option.bind (skip_char CHR '':'' s) (\<lambda>s.
     Option.bind (number_in 0 59 (get_num True s)) (\<lambda>(mi, s).
     Option.bind (skip_char CHR '':'' s) (\<lambda>s.
     Option.bind (number_in 0 59 (get_num True s)) (\<lambda>(sec, s).
     case parse_fraction s of (ns, s) \<Rightarrow> Some (((h * 60 + mi) * 60 + sec, ns), s))))))"

text \<open>Seconds since 1970 and nanoseconds. The layouts of \<open>parseResendTime\<close> differ in how many digits of a
  fraction they print and in whether \<open>Z\<close> is read; what the second and third read, the first reads alike.\<close>

definition parse_instant :: "string \<Rightarrow> (int \<times> int) option" where
  "parse_instant s =
     Option.bind (parse_year s) (\<lambda>(y, s).
     Option.bind (skip_char CHR ''-'' s) (\<lambda>s.
     Option.bind (number_in 1 12 (get_num True s)) (\<lambda>(m, s).
     Option.bind (skip_char CHR ''-'' s) (\<lambda>s.
     Option.bind (get_num True s) (\<lambda>(d, s).
     Option.bind (skip_char CHR ''T'' s) (\<lambda>s.
     Option.bind (parse_clock s) (\<lambda>((sec, ns), s).
     Option.bind (parse_zone s) (\<lambda>(off, s).
       if s = [] \<and> 1 \<le> d \<and> d \<le> month_lengths y ! nat (m - 1)
       then Some (date_days y m d * 86400 + sec - off, ns) else None))))))))"

text \<open>The zero instant is 1 January of year 1.\<close>

definition parse_resend_time :: "string \<Rightarrow> int option" where
  "parse_resend_time s = (case parse_instant s of Some (sec, ns) \<Rightarrow> if sec = -62135596800 \<and> ns = 0 then None else Some sec
     | None \<Rightarrow> None)"

section \<open>The signature\<close>

datatype webhook_reject = No_secret | Missing_headers | Bad_timestamp | Outside_window int | Bad_secret | No_match

definition svix_signature :: "byte list \<Rightarrow> string \<Rightarrow> string \<Rightarrow> string \<Rightarrow> string" where
  "svix_signature key mid ts body = base64_encode (hmac_sha256 key (map of_char (mid @ ''.'' @ ts @ ''.'' @ body)))"

text \<open>\<open>strings.Split\<close> at a byte.\<close>

fun split_at_byte :: "char \<Rightarrow> string \<Rightarrow> string list" where
  "split_at_byte c [] = [[]]"
| "split_at_byte c (x # s) = (if x = c then [] # split_at_byte c s
     else case split_at_byte c s of p # ps \<Rightarrow> (x # p) # ps | [] \<Rightarrow> [[x]])"

definition vouches :: "string \<Rightarrow> string \<Rightarrow> bool" where
  "vouches want part = (let v = takeWhile (\<lambda>c. c \<noteq> CHR '','') part in
     v \<noteq> part \<and> v = ''v1'' \<and> drop (Suc (length v)) part = want)"

definition verify_webhook :: "string \<Rightarrow> (string \<Rightarrow> string) \<Rightarrow> int \<Rightarrow> string \<Rightarrow> webhook_reject option" where
  "verify_webhook secret headers now body =
     (if trim_space secret = [] then Some No_secret
      else let mid = headers ''Svix-Id''; ts = headers ''Svix-Timestamp''; sig = headers ''Svix-Signature'' in
        if mid = [] \<or> ts = [] \<or> sig = [] then Some Missing_headers
        else case parse_int64 ts of None \<Rightarrow> Some Bad_timestamp
          | Some t \<Rightarrow> let delta = int64_of (now - t) in
              if 300 < delta \<or> delta < - 300 then Some (Outside_window delta)
              else case base64_decode (case strip_prefix ''whsec_'' secret of Some r \<Rightarrow> r | None \<Rightarrow> secret) of
                  None \<Rightarrow> Some Bad_secret
                | Some key \<Rightarrow>
                    if \<exists>part \<in> set (split_at_byte CHR '' '' sig). vouches (svix_signature key mid ts body) part then None
                    else Some No_match)"

section \<open>The client\<close>

record attachment_meta =
  am_id :: string
  am_filename :: string
  am_content_type :: string
  am_content_disposition :: string
  am_content_id :: string

record inbound_event =
  ev_type :: string
  ev_email_id :: string
  ev_created_at :: string
  ev_from :: string
  ev_to :: "string list"
  ev_cc :: "string list"
  ev_subject :: string
  ev_message_id :: string
  ev_attachments :: "attachment_meta list"

record received_email =
  re_html :: string
  re_text :: string
  re_attachments :: "attachment_meta list"

text \<open>A client is its API key, empty or missing when mail is off. A transport answers a URL with an error
  or a status and a body.\<close>

type_synonym transport = "string \<Rightarrow> string + int \<times> string"

definition mail_off :: string where "mail_off = ''resend: api_key not configured''"

definition received_url :: "string \<Rightarrow> string" where
  "received_url mid = ''https://api.resend.com/emails/receiving/'' @ mid"

definition get_received_email :: "string option \<Rightarrow> transport \<Rightarrow> (string \<Rightarrow> string + received_email) \<Rightarrow> string \<Rightarrow> string + received_email" where
  "get_received_email key get decode mid =
     (if key = None \<or> key = Some [] then Inl mail_off
      else case get (received_url mid) of Inl e \<Rightarrow> Inl e
        | Inr (status, full) \<Rightarrow> let body = take (2 ^ 23) full in
            if 300 \<le> status then Inl (''resend: GET received/'' @ mid @ '': status '' @ itoa status @ '': '' @ body)
            else case decode body of Inl e \<Rightarrow> Inl (''resend: decode received/'' @ mid @ '': '' @ e) | Inr r \<Rightarrow> Inr r)"

text \<open>The answer carries its content type beside the body.\<close>

definition get_received_attachment ::
  "string option \<Rightarrow> (string \<Rightarrow> string + int \<times> string \<times> string) \<Rightarrow> string \<Rightarrow> string \<Rightarrow> string + string \<times> string" where
  "get_received_attachment key get mid att =
     (if key = None \<or> key = Some [] then Inl mail_off
      else case get (received_url mid @ ''/attachments/'' @ att) of Inl e \<Rightarrow> Inl e
        | Inr (status, ctype, full) \<Rightarrow> let data = take (2 ^ 25) full in
            if 300 \<le> status then Inl (''resend: attachment '' @ mid @ ''/'' @ att @ '': status '' @ itoa status @ '': '' @ data)
            else Inr (ctype, data))"

record email =
  em_to :: "string list"
  em_subject :: string
  em_html :: string
  em_text :: string
  em_reply_to :: string
  em_attachments :: "(string \<times> byte list) list"

record wire_body =
  wb_from :: string
  wb_to :: "string list"
  wb_subject :: string
  wb_html :: string
  wb_text :: string
  wb_reply_to :: string
  wb_attachments :: "(string \<times> string) list"

definition wire_of :: "string \<Rightarrow> email \<Rightarrow> wire_body" where
  "wire_of from e = \<lparr>wb_from = from, wb_to = em_to e, wb_subject = em_subject e, wb_html = em_html e, wb_text = em_text e,
     wb_reply_to = em_reply_to e, wb_attachments = map (\<lambda>(name, content). (name, base64_encode content)) (em_attachments e)\<rparr>"

definition send_email :: "string option \<Rightarrow> string \<Rightarrow> (wire_body \<Rightarrow> string + int \<times> string) \<Rightarrow> email \<Rightarrow> string option" where
  "send_email key from post e =
     (if key = None \<or> key = Some [] then Some mail_off
      else if em_to e = [] then Some ''resend: to list empty''
      else case post (wire_of from e) of Inl err \<Rightarrow> Some err
        | Inr (status, body) \<Rightarrow>
            if 300 \<le> status then Some (''resend: status '' @ itoa status @ '': '' @ take 4096 body) else None)"

section \<open>The endpoint\<close>

definition to_attachment :: "attachment_meta \<Rightarrow> inbound_attachment" where
  "to_attachment a = \<lparr>ia_id = am_id a, ia_filename = am_filename a, ia_content_type = am_content_type a,
     ia_content_disposition = am_content_disposition a, ia_content_id = am_content_id a\<rparr>"

definition inbound_of_event :: "int \<Rightarrow> string \<Rightarrow> inbound_event \<Rightarrow> inbound_email" where
  "inbound_of_event now body ev = \<lparr>ie_id = 0, ie_resend_email_id = ev_email_id ev, ie_message_id = ev_message_id ev,
     ie_from = ev_from ev, ie_to = ev_to ev, ie_cc = ev_cc ev, ie_subject = ev_subject ev,
     ie_received_at = (case parse_resend_time (ev_created_at ev) of Some t \<Rightarrow> t | None \<Rightarrow> now),
     ie_body_html = [], ie_body_text = [], ie_attachments = map to_attachment (ev_attachments ev), ie_raw_event = body,
     ie_fetched_at = 0, ie_read_at = 0, ie_created_at = 0\<rparr>"

definition webhook_limit :: nat where "webhook_limit = 2 ^ 20"

text \<open>The answer, and the fetch it starts: the row and the mail.\<close>

definition handle_webhook ::
  "string \<Rightarrow> (string \<Rightarrow> string + inbound_event) \<Rightarrow> int \<Rightarrow> (string \<Rightarrow> string) \<Rightarrow> string + string \<Rightarrow> (response \<times> (int \<times> string) option) dbm" where
  "handle_webhook secret decode now headers read =
     (if secret = [] then ret (error_body 503 ''inbound webhook not configured'', None)
      else case read of Inl e \<Rightarrow> ret (error_body 400 (''read body: '' @ e), None)
        | Inr full \<Rightarrow> let body = take webhook_limit full in
            if verify_webhook secret headers now body \<noteq> None then ret (error_body 401 ''bad signature'', None)
            else case decode body of Inl e \<Rightarrow> ret (error_body 400 (''bad json: '' @ e), None)
              | Inr ev \<Rightarrow>
                  if ev_type ev \<noteq> ''email.received'' then ret ((200, [(''ok'', JBool True), (''ignored'', JStr (ev_type ev))]), None)
                  else bnd (attempt (insert_inbound now (inbound_of_event now body ev))) (\<lambda>r. case r of
                      Inl e \<Rightarrow> ret (store_error e, None)
                    | Inr mid \<Rightarrow> ret ((200, [(''ok'', JBool True), (''id'', JInt mid)]), Some (mid, ev_email_id ev))))"

definition fetch_body ::
  "string option \<Rightarrow> transport \<Rightarrow> (string \<Rightarrow> string + received_email) \<Rightarrow> int \<Rightarrow> int \<times> string \<Rightarrow> unit dbm" where
  "fetch_body key get decode now job = (case get_received_email key get decode (snd job) of Inl _ \<Rightarrow> ret ()
     | Inr r \<Rightarrow> bnd (attempt (patch_inbound_body now (fst job) (re_html r) (re_text r) (map to_attachment (re_attachments r)))) (\<lambda>_. ret ()))"

end
