(* ===== verification/MailFacts.thy ===== *)
theory MailFacts
  imports InboundMail
begin

text \<open>
  What holds of inbound mail: the webhook stores exactly what Resend signed within five minutes, a mail that
  is signed is accepted, and the body that is fetched later goes to the row of its mail.
\<close>

lemma int64_of_id: "- (2 ^ 63) \<le> n \<Longrightarrow> n < 2 ^ 63 \<Longrightarrow> int64_of n = n"
  unfolding int64_of_def by (subst signed_of_int) (simp add: signed_take_bit_int_eq_self)

lemma int64_of_period: "int64_of (n + k * 2 ^ 64) = int64_of n"
proof -
  have "(word_of_int (n + k * 2 ^ 64) :: 64 word) = word_of_int n"
    unfolding word_of_int_eq_iff by (simp add: take_bit_eq_mod)
  then show ?thesis by (simp only: int64_of_def)
qed

text \<open>The subtraction of two \<open>int64\<close> may wrap, but never into the window.\<close>

lemma small_difference:
  assumes "0 \<le> now" "now < 2 ^ 62" "- (2 ^ 63) \<le> t" "t < 2 ^ 63" "\<bar>int64_of (now - t)\<bar> \<le> 300"
  shows "int64_of (now - t) = now - t"
proof (cases "now - t < 2 ^ 63")
  case True
  with assms show ?thesis by (intro int64_of_id) simp_all
next
  case False
  have "int64_of (now - t) = int64_of (now - t - 2 ^ 64)" using int64_of_period[of "now - t - 2 ^ 64" 1] by simp
  also have "\<dots> = now - t - 2 ^ 64" using False assms by (intro int64_of_id) simp_all
  finally show ?thesis using assms False by simp
qed

lemma parse_int64_range: "parse_int64 s = Some t \<Longrightarrow> - (2 ^ 63) \<le> t \<and> t < 2 ^ 63"
  by (auto simp: parse_int64_def Let_def split: prod.splits if_splits option.splits)

text \<open>What it takes to be let in.\<close>

definition signed_by :: "string \<Rightarrow> (string \<Rightarrow> string) \<Rightarrow> int \<Rightarrow> string \<Rightarrow> bool" where
  "signed_by secret headers now body \<longleftrightarrow> (\<exists>t key.
     parse_int64 (headers ''Svix-Timestamp'') = Some t \<and> \<bar>now - t\<bar> \<le> 300 \<and>
     base64_decode (case strip_prefix ''whsec_'' secret of Some r \<Rightarrow> r | None \<Rightarrow> secret) = Some key \<and>
     ''v1,'' @ svix_signature key (headers ''Svix-Id'') (headers ''Svix-Timestamp'') body
       \<in> set (split_at_byte CHR '' '' (headers ''Svix-Signature'')) \<and>
     trim_space secret \<noteq> [] \<and> headers ''Svix-Id'' \<noteq> [] \<and> headers ''Svix-Timestamp'' \<noteq> [] \<and> headers ''Svix-Signature'' \<noteq> [])"

lemma vouches_iff: "vouches want part \<longleftrightarrow> part = ''v1,'' @ want"
proof
  assume v: "vouches want part"
  let ?v = "takeWhile (\<lambda>c. c \<noteq> CHR '','') part"
  from v have cut: "?v \<noteq> part" "?v = ''v1''" "drop (Suc (length ?v)) part = want"
    unfolding vouches_def Let_def by blast+
  then have "drop 3 part = want" by (simp add: eval_nat_numeral)
  obtain r where r: "part = ?v @ r" by (metis takeWhile_dropWhile_id)
  moreover have "r = dropWhile (\<lambda>c. c \<noteq> CHR '','') part" using r by (metis append_same_eq same_append_eq takeWhile_dropWhile_id)
  ultimately have "r \<noteq> []" "hd r = CHR '',''" using cut(1) r hd_dropWhile[of "\<lambda>c. c \<noteq> CHR '',''" part] by auto
  then obtain r' where "r = CHR '','' # r'" by (cases r) auto
  with r cut(2) \<open>drop 3 part = want\<close> show "part = ''v1,'' @ want" by simp
qed (simp add: vouches_def)

lemma verify_webhook_iff:
  assumes "0 \<le> now" "now < 2 ^ 62"
  shows "verify_webhook secret headers now body = None \<longleftrightarrow> signed_by secret headers now body"
proof
  assume v: "verify_webhook secret headers now body = None"
  then obtain t where t: "parse_int64 (headers ''Svix-Timestamp'') = Some t"
    by (auto simp: verify_webhook_def Let_def split: if_splits option.splits)
  with v have "\<bar>int64_of (now - t)\<bar> \<le> 300"
    by (auto simp: verify_webhook_def Let_def abs_le_iff split: if_splits option.splits)
  with small_difference[OF assms, of t] parse_int64_range[OF t] have "\<bar>now - t\<bar> \<le> 300" by simp
  with v t show "signed_by secret headers now body"
    by (auto simp: verify_webhook_def signed_by_def vouches_iff Let_def split: if_splits option.splits)
next
  assume "signed_by secret headers now body"
  then obtain t where t: "parse_int64 (headers ''Svix-Timestamp'') = Some t" "\<bar>now - t\<bar> \<le> 300"
    and s: "signed_by secret headers now body" by (auto simp: signed_by_def)
  have "int64_of (now - t) = now - t" using t(2) assms by (intro int64_of_id) simp_all
  with t s show "verify_webhook secret headers now body = None"
    by (auto simp: verify_webhook_def signed_by_def vouches_iff Let_def abs_le_iff split: if_splits option.splits)
qed

section \<open>What the webhook stores\<close>

lemma insert_inbound_cases:
  assumes "insert_inbound now e s = (r, s')"
  shows "store s' = store s \<or> inbound_by_resend (store s) (ie_resend_email_id e) = None \<and>
    insert_inbound_row now e (store s) = Inr (Some (next_id Seq_inbound (store s)), store s')"
  using assms
  by (auto simp: insert_inbound_def bnd_def stmt_def insert_inbound_row_def or_zero_def attempt_def query_row_def ret_def
      split: if_splits option.splits sum.splits prod.splits)

text \<open>C40. Whatever is sent to the webhook and whatever the driver does, the store stays as it is or exactly one row is
  appended to the mail box: for a mail not stored before, with the event as it was sent, under a
  signature over the id, the time and the body with the configured key, at most five minutes away
  from the server's clock; nothing else of the database changes.\<close>

theorem stored_mail_was_signed:
  assumes run: "handle_webhook secret decode now headers read s = (r, s')" and now: "0 \<le> now" "now < 2 ^ 62"
  shows "store s' = store s \<or> (\<exists>full ev row. read = Inr full \<and> signed_by secret headers now (take webhook_limit full) \<and>
    decode (take webhook_limit full) = Inr ev \<and> ev_type ev = ''email.received'' \<and>
    ie_resend_email_id row = ev_email_id ev \<and> ie_raw_event row = take webhook_limit full \<and>
    inbound_by_resend (store s) (ev_email_id ev) = None \<and>
    store s' = (bump_seq Seq_inbound (store s))\<lparr>inbound_emails := inbound_emails (store s) @ [row]\<rparr>)"
proof (cases "\<exists>full ev. secret \<noteq> [] \<and> read = Inr full \<and> verify_webhook secret headers now (take webhook_limit full) = None \<and>
    decode (take webhook_limit full) = Inr ev \<and> ev_type ev = ''email.received''")
  case False
  with run show ?thesis by (auto simp: handle_webhook_def ret_def Let_def split: if_splits sum.splits)
next
  case True
  then obtain full ev body where w: "secret \<noteq> []" "read = Inr full" "verify_webhook secret headers now body = None"
    "decode body = Inr ev" "ev_type ev = ''email.received''" and body: "take webhook_limit full = body" by blast
  let ?e = "inbound_of_event now body ev"
  obtain x s1 where i: "insert_inbound now ?e s = (x, s1)" by fastforce
  have s': "s' = s1" using run w i unfolding handle_webhook_def
    by (auto simp: body bnd_def attempt_def ret_def Let_def split: sum.splits)
  define row where "row = ?e\<lparr>ie_id := next_id Seq_inbound (store s), ie_body_html := [], ie_body_text := [],
      ie_fetched_at := 0, ie_read_at := 0, ie_created_at := now\<rparr>"
  have row: "ie_resend_email_id row = ev_email_id ev" "ie_raw_event row = body" "ie_resend_email_id ?e = ev_email_id ev"
    by (simp_all add: row_def inbound_of_event_def)
  from insert_inbound_cases[OF i] show ?thesis
  proof
    assume "inbound_by_resend (store s) (ie_resend_email_id ?e) = None \<and>
      insert_inbound_row now ?e (store s) = Inr (Some (next_id Seq_inbound (store s)), store s1)"
    then have new: "inbound_by_resend (store s) (ev_email_id ev) = None"
      and ins: "insert_inbound_row now ?e (store s) = Inr (Some (next_id Seq_inbound (store s)), store s1)" unfolding row(3) by blast+
    have "insert_inbound_row now ?e (store s) = Inr (Some (next_id Seq_inbound (store s)),
        (bump_seq Seq_inbound (store s))\<lparr>inbound_emails := inbound_emails (store s) @ [row]\<rparr>)"
      using new by (simp add: insert_inbound_row_def row(3) row_def)
    with ins have "store s1 = (bump_seq Seq_inbound (store s))\<lparr>inbound_emails := inbound_emails (store s) @ [row]\<rparr>" by simp
    moreover have "signed_by secret headers now body" using w(3) verify_webhook_iff[OF now] by blast
    ultimately show ?thesis unfolding s' body[symmetric]
      by (intro disjI2 exI[of _ full] exI[of _ ev] exI[of _ row]) (simp add: w row new body)
  qed (simp add: s')
qed

definition demo_event :: inbound_event where
  "demo_event = \<lparr>ev_type = ''email.received'', ev_email_id = ''r1'', ev_created_at = ''2026-01-02T03:04:05Z'', ev_from = ''a'', ev_to = [''b''],
     ev_cc = [], ev_subject = ''hi'', ev_message_id = ''m'', ev_attachments = []\<rparr>"

theorem stored_mail_was_signed_witness:
  "store (snd (handle_webhook ''whsec_AQI='' (\<lambda>_. Inr demo_event) 100 (\<lambda>k. if k = ''Svix-Signature'' then ''v1,AAAA'' else ''401'') (Inr ''body'')
     (fresh_session (initial_db 0)))) = initial_db 0"
proof -
  let ?h = "\<lambda>k. if k = ''Svix-Signature'' then ''v1,AAAA'' else ''401''"
  have "parse_int64 ''401'' = Some 401" by code_simp
  then have "\<not> signed_by ''whsec_AQI='' ?h 100 b" for b by (simp add: signed_by_def)
  then show ?thesis
    using stored_mail_was_signed[OF prod.collapse[symmetric], of 100 "''whsec_AQI=''" "\<lambda>_. Inr demo_event" ?h "Inr ''body''" "fresh_session (initial_db 0)"]
    by (simp add: fresh_session_def)
qed

section \<open>What Resend signs is accepted\<close>

lemma event_id: "ie_resend_email_id (inbound_of_event now body ev) = ev_email_id ev"
  by (simp add: inbound_of_event_def)

lemma insert_inbound_sound:
  assumes "plan s = []"
  shows "\<exists>mid s' row. insert_inbound now e s = (Inr mid, s') \<and> plan s' = [] \<and>
    inbound_by_resend (store s') (ie_resend_email_id e) = Some row \<and> ie_id row = mid \<and>
    (inbound_by_resend (store s) (ie_resend_email_id e) \<noteq> None \<longrightarrow> store s' = store s)"
proof -
  have f: "\<not> faulty s" "\<not> faulty (tick s)" "plan (tick s) = []" using assms by (simp_all add: not_faulty)
  show ?thesis
  proof (cases "inbound_by_resend (store s) (ie_resend_email_id e)")
    case None
    with f show ?thesis
      by (auto simp: insert_inbound_def bnd_def stmt_def insert_inbound_row_def ret_def inbound_by_resend_def find_append)
  next
    case (Some m)
    with f show ?thesis
      by (auto simp: insert_inbound_def bnd_def stmt_def insert_inbound_row_def or_zero_def attempt_def query_row_def ret_def not_faulty)
  qed
qed

text \<open>With a sound driver a mail signed with the configured key and sent in time is answered with status 200 and the
  id of a row of that mail, the first one it was stored in, whichever other signatures the header
  carries; and a fetch of its body is started for that row.\<close>

theorem signed_mail_is_stored:
  assumes driver: "plan s = []" and now: "0 \<le> now" "now < 2 ^ 62"
    and secret: "trim_space (''whsec_'' @ base64_encode key) \<noteq> []"
    and headers: "headers ''Svix-Id'' \<noteq> []" "headers ''Svix-Timestamp'' \<noteq> []" "parse_int64 (headers ''Svix-Timestamp'') = Some t" "\<bar>now - t\<bar> \<le> 300"
      "''v1,'' @ svix_signature key (headers ''Svix-Id'') (headers ''Svix-Timestamp'') body
         \<in> set (split_at_byte CHR '' '' (headers ''Svix-Signature''))"
    and sent: "length body \<le> webhook_limit" "decode body = Inr ev" "ev_type ev = ''email.received''"
  shows "\<exists>mid s' row. handle_webhook (''whsec_'' @ base64_encode key) decode now headers (Inr body) s =
      (Inr ((200, [(''ok'', JBool True), (''id'', JInt mid)]), Some (mid, ev_email_id ev)), s') \<and> plan s' = [] \<and>
    inbound_by_resend (store s') (ev_email_id ev) = Some row \<and> ie_id row = mid \<and>
    (inbound_by_resend (store s) (ev_email_id ev) \<noteq> None \<longrightarrow> store s' = store s)"
proof -
  define secret' where "secret' = ''whsec_'' @ base64_encode key"
  then have cut: "strip_prefix ''whsec_'' secret' = Some (base64_encode key)" by (simp only: strip_prefix_append)
  have ne: "secret' \<noteq> []" by (simp add: secret'_def)
  note fold = secret'_def[symmetric]
  have whole: "take webhook_limit body = body" using sent(1) by simp
  have "headers ''Svix-Signature'' \<noteq> []" using headers(5) by auto
  with secret[folded secret'_def] headers have "signed_by secret' headers now body"
    by (simp add: fold signed_by_def cut base64_decode_encode)
  then have ok: "verify_webhook secret' headers now body = None" using verify_webhook_iff[OF now] by simp
  have page: "handle_webhook secret' decode now headers (Inr body) s = bnd (attempt (insert_inbound now (inbound_of_event now body ev)))
      (\<lambda>r. case r of Inl e \<Rightarrow> ret (store_error e, None)
        | Inr mid \<Rightarrow> ret ((200, [(''ok'', JBool True), (''id'', JInt mid)]), Some (mid, ev_email_id ev))) s"
    by (simp add: handle_webhook_def ne whole ok sent(2,3))
  have "\<exists>mid s' row. insert_inbound now (inbound_of_event now body ev) s = (Inr mid, s') \<and> plan s' = [] \<and>
      inbound_by_resend (store s') (ev_email_id ev) = Some row \<and> ie_id row = mid \<and>
      (inbound_by_resend (store s) (ev_email_id ev) \<noteq> None \<longrightarrow> store s' = store s)"
    by (rule insert_inbound_sound[OF driver, of now "inbound_of_event now body ev", unfolded event_id])
  then show ?thesis unfolding fold page by (fastforce simp: bnd_def attempt_def ret_def)
qed

definition demo_key :: "byte list" where "demo_key = [1, 2]"

definition demo_headers :: "string \<Rightarrow> string" where
  "demo_headers k = (if k = ''Svix-Id'' then ''msg_1'' else if k = ''Svix-Timestamp'' then ''100''
     else ''v1,'' @ svix_signature demo_key ''msg_1'' ''100'' ''body'')"

lemma split_at_byte_none: "c \<notin> set s \<Longrightarrow> split_at_byte c s = [s]"
  by (induction s) auto

lemma base64_encode_chars: "set (base64_encode bs) \<subseteq> insert CHR ''='' (set base64_alphabet)"
  by (induction bs rule: base64_encode.induct) (auto simp: Let_def sextet_char_def base64_alphabet_facts(1) intro: nth_mem)

theorem signed_mail_is_stored_witness:
  "\<exists>mid s'. handle_webhook (''whsec_'' @ base64_encode demo_key) (\<lambda>_. Inr demo_event) 130 demo_headers (Inr ''body'')
     (fresh_session (initial_db 0)) = (Inr ((200, [(''ok'', JBool True), (''id'', JInt mid)]), Some (mid, ''r1'')), s')"
proof -
  have t: "parse_int64 (demo_headers ''Svix-Timestamp'') = Some 100"
    by (simp add: demo_headers_def) code_simp
  have secret: "trim_space (''whsec_'' @ base64_encode demo_key) \<noteq> []" by code_simp
  have "CHR '' '' \<notin> set base64_alphabet" by (simp add: base64_alphabet_def)
  then have "CHR '' '' \<notin> set (''v1,'' @ svix_signature demo_key ''msg_1'' ''100'' ''body'')"
    using base64_encode_chars by (fastforce simp: svix_signature_def)
  then have "''v1,'' @ svix_signature demo_key (demo_headers ''Svix-Id'') (demo_headers ''Svix-Timestamp'') ''body''
      \<in> set (split_at_byte CHR '' '' (demo_headers ''Svix-Signature''))"
    by (simp add: demo_headers_def split_at_byte_none)
  note ok = signed_mail_is_stored[OF _ _ _ secret _ _ t _ this, of "fresh_session (initial_db 0)" 130 "\<lambda>_. Inr demo_event" demo_event]
  have "ev_email_id demo_event = ''r1''" "ev_type demo_event = ''email.received''" by (simp_all add: demo_event_def)
  with ok show ?thesis by (fastforce simp: fresh_session_def demo_headers_def webhook_limit_def)
qed

section \<open>The mail box in between\<close>

lemma maintains_ret: "maintains P (ret x)"
  by (rule maintains_read_only) (rule read_only_ret)

text \<open>Deliveries, deliveries again and the fetches they start may come in any order: each keeps the
  mails apart.\<close>

lemma mail_maintains:
  "maintains inbox_ok (handle_webhook secret decode now headers read)"
  "maintains inbox_ok (fetch_body key get decode' now job)"
  unfolding handle_webhook_def fetch_body_def Let_def
  by (auto intro!: maintains_bnd maintains_attempt maintains_ret inbox_maintains split: sum.split)

end
