(* ===== verification/OperatorPages.thy ===== *)
theory OperatorPages
  imports InboundMail TeamStatement AdminLog
begin

text \<open>
  The operator's pages over the store: pricing groups, orders, wallets and workspaces
  (\<open>internal/admin/saas_admin.go\<close>), invoices (\<open>admin/invoices.go\<close>) and the mail box (\<open>admin/inbox.go\<close>). An
  upload is issued in three steps, because two uploads may interleave between them. The disk is a
  map from paths to contents.
\<close>

record operator_panel =
  op_saas :: bool
  op_tokens :: "panel_token list"
  op_invoice :: "(string \<times> string option) option"
  op_log_dir :: string
  op_log_indexed :: bool

text \<open>\<open>op_saas\<close> is false without wallets; \<open>op_invoice\<close> holds the directory of PDFs and the key of the mail
  client, none for no client.\<close>

definition billing_off :: response where "billing_off = error_body 503 ''saas billing disabled''"

definition bad_id :: response where "bad_id = error_body 400 ''bad id''"

definition refused :: "db_error \<Rightarrow> response" where "refused e = error_body 400 (db_error_text e)"

definition with_id :: "string \<Rightarrow> (response \<Rightarrow> 'a) \<Rightarrow> (int \<Rightarrow> 'a dbm) \<Rightarrow> 'a dbm" where
  "with_id param out page = (case parse_int64 param of None \<Rightarrow> ret (out bad_id) | Some i \<Rightarrow> page i)"

text \<open>The names of the registered tokens; a later entry of the list replaces an earlier one.\<close>

definition panel_label :: "panel_token list \<Rightarrow> string \<Rightarrow> string" where
  "panel_label ts tok = (case map_of (rev (map (\<lambda>t. (pt_token t, pt_name t)) (filter (\<lambda>t. pt_name t \<noteq> []) ts))) tok of
     None \<Rightarrow> [] | Some n \<Rightarrow> n)"

section \<open>Pricing groups\<close>

definition group_view :: "pricing_group \<Rightarrow> (string \<times> json) list" where
  "group_view g = [(''id'', JInt (g_id g)), (''name'', JStr (g_name g)), (''description'', JStr (g_description g)),
     (''codex_multiplier'', JNum (g_codex_multiplier g)), (''claude_multiplier'', JNum (g_claude_multiplier g)),
     (''credential_group'', JStr (g_credential_group g)), (''is_default'', JBool (g_is_default g)),
     (''created_at'', JInt (g_created_at g)), (''updated_at'', JInt (g_updated_at g))]"

definition list_groups_page :: "operator_panel \<Rightarrow> response dbm" where
  "list_groups_page p = (if \<not> op_saas p then ret (200, [(''groups'', JArr []), (''enabled'', JBool False)])
     else bnd (attempt list_groups) (\<lambda>r. ret (case r of Inl e \<Rightarrow> store_error e
       | Inr gs \<Rightarrow> (200, [(''groups'', JArr (map (\<lambda>g. JObj (group_view g)) gs)), (''enabled'', JBool True)]))))"

definition create_group_page :: "operator_panel \<Rightarrow> int \<Rightarrow> string + group_params \<Rightarrow> response dbm" where
  "create_group_page p now body = (if \<not> op_saas p then ret billing_off
     else case body of Inl e \<Rightarrow> ret (error_body 400 e)
       | Inr b \<Rightarrow> bnd (attempt (create_group now b)) (\<lambda>r. ret (case r of Inl e \<Rightarrow> refused e | Inr g \<Rightarrow> (200, group_view g))))"

definition patch_group_page :: "operator_panel \<Rightarrow> int \<Rightarrow> string \<Rightarrow> string + group_params \<Rightarrow> response dbm" where
  "patch_group_page p now param body = (if \<not> op_saas p then ret billing_off
     else with_id param (\<lambda>r. r) (\<lambda>i. case body of Inl e \<Rightarrow> ret (error_body 400 e)
       | Inr b \<Rightarrow> bnd (attempt (update_group now i b)) (\<lambda>r. ret (case r of Inl e \<Rightarrow> refused e | Inr g \<Rightarrow> (200, group_view g)))))"

definition delete_group_page :: "operator_panel \<Rightarrow> string \<Rightarrow> response dbm" where
  "delete_group_page p param = (if \<not> op_saas p then ret billing_off
     else with_id param (\<lambda>r. r) (\<lambda>i. bnd (attempt (delete_group i)) (\<lambda>r. ret (case r of Inl e \<Rightarrow> refused e
       | Inr _ \<Rightarrow> (200, [(''status'', JStr ''ok'')])))))"

section \<open>Orders and wallets\<close>

definition order_limit :: "string \<Rightarrow> int" where
  "order_limit v = (case parse_int64 v of Some n \<Rightarrow> if 0 < n \<and> n \<le> 2000 then n else 500 | None \<Rightarrow> 500)"

definition operator_order_view :: "panel_token list \<Rightarrow> alipay_order \<Rightarrow> json" where
  "operator_order_view ts ord = JObj [(''out_trade_no'', JStr (o_out_trade_no ord)), (''token'', JStr (token_mask (o_token ord))),
     (''label'', JStr (panel_label ts (o_token ord))), (''cny_amount'', JNum (o_cny_amount ord)), (''usd_credit'', JNum (o_usd_credit ord)),
     (''rate'', JNum (o_rate ord)), (''status'', JStr (o_status ord)), (''trade_no'', JStr (o_trade_no ord)),
     (''created_at'', JInt (o_created_at ord)), (''paid_at'', JInt (o_paid_at ord))]"

definition list_all_orders_page :: "sqlite \<Rightarrow> operator_panel \<Rightarrow> string \<Rightarrow> string \<Rightarrow> response dbm" where
  "list_all_orders_page q p lim0 status = (if \<not> op_saas p then ret (200, [(''orders'', JArr [])])
     else bnd (attempt (list_all_orders status (order_limit lim0))) (\<lambda>r. case r of Inl e \<Rightarrow> ret (store_error e)
       | Inr os \<Rightarrow> bnd (attempt (paid_order_totals q)) (\<lambda>r. ret (case r of Inl e \<Rightarrow> store_error e
           | Inr (cny, usd, paid) \<Rightarrow> (200, [(''orders'', JArr (map (operator_order_view (op_tokens p)) os)), (''total_cny'', JNum cny),
               (''total_usd'', JNum usd), (''count'', JInt (int (length os))), (''paid_count'', JInt (int paid))])))))"

text \<open>The wording of a failed reconciliation is an argument.\<close>

definition reconcile_page :: "handler option \<Rightarrow> (reconcile_error \<Rightarrow> string) \<Rightarrow> int \<Rightarrow> (string \<Rightarrow> query_response option) \<Rightarrow>
    string + string \<Rightarrow> response dbm" where
  "reconcile_page billing wording now unmarshal fetched = (case billing of None \<Rightarrow> ret billing_off
     | Some h \<Rightarrow> bnd (reconcile_order h now unmarshal fetched) (\<lambda>r. ret (case r of Inl e \<Rightarrow> error_body 400 (wording e)
         | Inr result \<Rightarrow> (200, [(''result'', JStr result)]))))"

definition wallet_order_view :: "alipay_order \<Rightarrow> json" where
  "wallet_order_view ord = JObj [(''out_trade_no'', JStr (o_out_trade_no ord)), (''cny_amount'', JNum (o_cny_amount ord)),
     (''usd_credit'', JNum (o_usd_credit ord)), (''rate'', JNum (o_rate ord)), (''status'', JStr (o_status ord)),
     (''trade_no'', JStr (o_trade_no ord)), (''created_at'', JInt (o_created_at ord))]"

definition admin_wallet_page :: "operator_panel \<Rightarrow> string \<Rightarrow> response dbm" where
  "admin_wallet_page p tok = (if \<not> op_saas p then ret billing_off
     else bnd (attempt (get_wallet tok)) (\<lambda>r. case r of Inl e \<Rightarrow> ret (error_body 404 (db_error_text e))
       | Inr w \<Rightarrow> bnd (attempt (get_group (w_group_id w))) (\<lambda>g.
           bnd (or_zero [] (list_wallet_tx tok 100)) (\<lambda>txs.
           bnd (or_zero [] (list_orders tok 50)) (\<lambda>os.
           ret (200, [(''balance_usd'', JNum (w_balance_usd w)), (''group_id'', JInt (w_group_id w)),
             (''transactions'', JArr (map transaction_view txs)), (''orders'', JArr (map wallet_order_view os))] @
             (case g of Inl _ \<Rightarrow> [] | Inr g \<Rightarrow> [(''group_name'', JStr (g_name g)),
                (''claude_multiplier'', JNum (g_claude_multiplier g)), (''codex_multiplier'', JNum (g_codex_multiplier g))])))))))"

section \<open>Workspaces\<close>

definition operator_workspace_view :: "workspace \<times> nat \<times> nat \<Rightarrow> json" where
  "operator_workspace_view x = (case x of (w, members, admins) \<Rightarrow> JObj [(''id'', JInt (ws_id w)), (''name'', JStr (ws_name w)),
     (''balance_usd'', JNum (ws_balance_usd w)), (''disabled'', JBool (ws_disabled w)), (''member_count'', JInt (int members)),
     (''admin_count'', JInt (int admins)), (''created_at'', JInt (ws_created_at w)), (''updated_at'', JInt (ws_updated_at w))])"

definition list_workspaces_page :: "operator_panel \<Rightarrow> response dbm" where
  "list_workspaces_page p = (if \<not> op_saas p then ret (200, [(''workspaces'', JArr []), (''enabled'', JBool False)])
     else bnd (attempt list_workspaces) (\<lambda>r. ret (case r of Inl e \<Rightarrow> store_error e
       | Inr ws \<Rightarrow> (200, [(''workspaces'', JArr (map operator_workspace_view ws)), (''enabled'', JBool True)]))))"

record create_workspace_body =
  cw_name :: string
  cw_admin_token :: string
  cw_initial_usd :: float64

definition seed_balance :: "int \<Rightarrow> workspace \<Rightarrow> float64 \<Rightarrow> response dbm" where
  "seed_balance now ws usd = (let ok = (200, [(''id'', JInt (ws_id ws)), (''name'', JStr (ws_name ws))]) in
     if 0 < usd then bnd (attempt (adjust_workspace_balance now (ws_id ws) usd TxKindTopup ''admin-create'' ''initial pool credit''))
       (\<lambda>r. ret (case r of Inl e \<Rightarrow> error_body 500 (''seed balance: '' @ db_error_text e) | Inr _ \<Rightarrow> ok))
     else ret ok)"

text \<open>A workspace whose admin could not be added is disabled, whatever comes of that.\<close>

definition create_workspace_page :: "operator_panel \<Rightarrow> int \<Rightarrow> string + create_workspace_body \<Rightarrow> response dbm" where
  "create_workspace_page p now body = (if \<not> op_saas p then ret billing_off
     else case body of Inl e \<Rightarrow> ret (error_body 400 e)
       | Inr b \<Rightarrow> let tok = trim_space (cw_admin_token b) in
           if tok = [] then ret (error_body 400 ''admin_token required'')
           else if tok \<notin> pt_token ` set (op_tokens p) then ret (error_body 400 ''admin_token is not a registered client token'')
           else bnd (attempt (create_workspace now (cw_name b))) (\<lambda>r. case r of Inl e \<Rightarrow> ret (refused e)
             | Inr ws \<Rightarrow> bnd (attempt (add_member now (ws_id ws) tok WSRoleAdmin 0 0)) (\<lambda>r. case r of
                 Inl e \<Rightarrow> bnd (attempt (update_workspace now (ws_id ws) None (Some True))) (\<lambda>_.
                   ret (if e = ErrMemberExists then error_body 409 ''that token already belongs to a workspace''
                        else error_body 400 (''assign admin: '' @ db_error_text e)))
               | Inr _ \<Rightarrow> seed_balance now ws (cw_initial_usd b))))"

record patch_workspace_body =
  pw_name :: "string option"
  pw_disabled :: "bool option"
  pw_balance_delta :: "float64 option"
  pw_balance_note :: string

definition patch_balance :: "int \<Rightarrow> int \<Rightarrow> patch_workspace_body \<Rightarrow> response dbm" where
  "patch_balance now i b = (let ok = (200, [(''status'', JStr ''ok'')]) in
     case pw_balance_delta b of None \<Rightarrow> ret ok
     | Some delta \<Rightarrow> if delta = 0 then ret ok
         else let memo = (if pw_balance_note b = [] then ''admin manual adjustment'' else pw_balance_note b);
                  kind = (if 0 < delta then TxKindTopup else TxKindAdjust) in
           bnd (attempt (adjust_workspace_balance now i delta kind ''admin-patch'' memo)) (\<lambda>r. ret (case r of
               Inl e \<Rightarrow> error_body 400 (''balance: '' @ db_error_text e) | Inr _ \<Rightarrow> ok)))"

definition patch_workspace_page :: "operator_panel \<Rightarrow> int \<Rightarrow> string \<Rightarrow> string + patch_workspace_body \<Rightarrow> response dbm" where
  "patch_workspace_page p now param body = (if \<not> op_saas p then ret billing_off
     else with_id param (\<lambda>r. r) (\<lambda>i. case body of Inl e \<Rightarrow> ret (error_body 400 e)
       | Inr b \<Rightarrow> bnd (attempt (if pw_name b = None \<and> pw_disabled b = None then ret ()
                                else update_workspace now i (pw_name b) (pw_disabled b))) (\<lambda>r. case r of
             Inl e \<Rightarrow> ret (refused e) | Inr _ \<Rightarrow> patch_balance now i b)))"

definition operator_member_view :: "sqlite \<Rightarrow> operator_panel \<Rightarrow> int \<Rightarrow> workspace_member \<Rightarrow> member_spend option \<Rightarrow> bool \<Rightarrow> json dbm" where
  "operator_member_view q p now m sp ok = bnd (member_period_pool_spend q (unix_seconds now) (m_token m)) (\<lambda>(day, month).
     ret (JObj ([(''masked'', JStr (token_mask (m_token m))), (''label'', JStr (panel_label (op_tokens p) (m_token m))),
       (''role'', JStr (m_role m)), (''daily_usd_cap'', JNum (m_daily_usd_cap m)), (''monthly_usd_cap'', JNum (m_monthly_usd_cap m)),
       (''used_day_usd'', JNum day), (''used_month_usd'', JNum month)] @ spend_view sp ok)))"

definition workspace_members_page :: "sqlite \<Rightarrow> operator_panel \<Rightarrow> usage_log \<Rightarrow> int \<Rightarrow> string \<Rightarrow> usage_cache \<Rightarrow> (response \<times> usage_cache) dbm" where
  "workspace_members_page q p ul now param c = (if \<not> op_saas p then ret (billing_off, c)
     else with_id param (\<lambda>r. (r, c)) (\<lambda>i. bnd (attempt (list_members i)) (\<lambda>r. case r of Inl e \<Rightarrow> ret (store_error e, c)
       | Inr ms \<Rightarrow>
         let gms = map (\<lambda>m. \<lparr>gm_token = m_token m, gm_label = panel_label (op_tokens p) (m_token m), gm_role = m_role m\<rparr>) ms in
         (case member_spend_to_date ul now (op_log_dir p) gms c of ((spend, ok), c') \<Rightarrow>
           bnd (dbm_map (\<lambda>m. operator_member_view q p now m (spend (token_mask (m_token m))) ok) ms) (\<lambda>rows.
           ret ((200, [(''members'', JArr rows), (''timezone'', JStr (ul_zone ul)), (''spend_partial'', JBool (\<not> ok))]), c'))))))"

definition workspace_usage_page :: "sqlite \<Rightarrow> operator_panel \<Rightarrow> usage_log \<Rightarrow> int \<Rightarrow> string \<Rightarrow> string \<Rightarrow> string \<Rightarrow> usage_cache \<Rightarrow>
    (response \<times> usage_cache) dbm" where
  "workspace_usage_page q p ul now param from to' c = (if \<not> op_saas p then ret (billing_off, c)
     else with_id param (\<lambda>r. (r, c)) (\<lambda>i. bnd (build_group_usage q ul now
         \<lparr>gq_log_dir = op_log_dir p, gq_log_indexed = op_log_indexed p, gq_workspace = i, gq_from = from, gq_to = to',
          gq_label = panel_label (op_tokens p)\<rparr> c) (\<lambda>(r, c'). ret (case r of Inl e \<Rightarrow> usage_failure e | Inr g \<Rightarrow> (200, group_usage_json g), c'))))"

end
