(* ===== verification/InvoiceDesk.thy ===== *)
theory InvoiceDesk
  imports OperatorPages
begin

text \<open>
  The operator's side of invoices (\<open>internal/admin/invoices.go\<close>) and of the mail box (\<open>admin/inbox.go\<close>). An
  upload is issued in three steps, because two uploads may interleave between them: it is checked
  against the invoice, written to disk, and the invoice is marked. The disk is a map from paths to
  contents.
\<close>

section \<open>The list of invoices\<close>

text \<open>The title is kept as the entries its JSON encodes.\<close>

definition operator_allocation_view :: "panel_token list \<Rightarrow> invoice_allocation \<Rightarrow> json" where
  "operator_allocation_view ts a = JObj [(''token'', JStr (token_mask (a_token a))), (''label'', JStr (panel_label ts (a_token a))),
     (''cny_amount'', JNum (a_cny_amount a))]"

definition operator_invoice_view :: "panel_token list \<Rightarrow> (int \<Rightarrow> invoice_allocation list) \<Rightarrow> invoice \<times> string \<Rightarrow> json" where
  "operator_invoice_view ts allocs x = (case x of (v, wsname) \<Rightarrow> JObj [(''id'', JInt (i_id v)), (''token'', JStr (token_mask (i_token v))),
     (''label'', JStr (panel_label ts (i_token v))), (''cny_amount'', JNum (i_cny_amount v)), (''title_name'', JStr (i_title_name v)),
     (''title'', JObj (map (\<lambda>(k, t). (k, JStr t)) (i_title_snapshot v))), (''contact_email'', JStr (i_contact_email v)),
     (''status'', JStr (i_status v)), (''pdf_uploaded'', JBool (i_pdf_path v \<noteq> [])), (''note'', JStr (i_note v)),
     (''created_at'', JInt (i_created_at v)), (''issued_at'', JInt (i_issued_at v)), (''rejected_at'', JInt (i_rejected_at v)),
     (''workspace_id'', JInt (i_workspace_id v)), (''workspace_name'', JStr wsname),
     (''allocations'', JArr (map (operator_allocation_view ts) (allocs (i_id v))))])"

definition admin_invoices_page :: "sqlite \<Rightarrow> operator_panel \<Rightarrow> string \<Rightarrow> string \<Rightarrow> string \<Rightarrow> response dbm" where
  "admin_invoices_page q p status search ws = (if \<not> op_saas p then ret (200, [(''invoices'', JArr [])])
     else let wsid = (case parse_int64 (trim_space ws) of Some n \<Rightarrow> n | None \<Rightarrow> 0) in
       bnd (attempt (list_invoices q (trim_space status) search wsid 500)) (\<lambda>r. case r of Inl e \<Rightarrow> ret (store_error e)
       | Inr invs \<Rightarrow> bnd (attempt (allocations_by_invoice (map (i_id \<circ> fst) (filter (is_team \<circ> fst) invs)))) (\<lambda>r. ret (case r of
             Inl e \<Rightarrow> store_error e
           | Inr allocs \<Rightarrow> (200, [(''invoices'', JArr (map (operator_invoice_view (op_tokens p) allocs) invs))])))))"

section \<open>Issuing\<close>

type_synonym disk = "string \<rightharpoonup> string"

text \<open>What the file system does: an error of MkdirAll, an error of WriteFile with what it leaves behind,
  and whether Remove fails.\<close>

record disk_faults =
  df_mkdir :: "string option"
  df_write :: "(string \<times> string option) option"
  df_remove :: bool

datatype upload = Form_broken string | No_file | File_unreadable string | Uploaded string string

definition upload_limit :: nat where "upload_limit = 16 * 2 ^ 20"

definition checked_upload :: "upload \<Rightarrow> response + string \<times> string" where
  "checked_upload u = (case u of Form_broken e \<Rightarrow> Inl (error_body 400 (''multipart parse: '' @ e))
     | No_file \<Rightarrow> Inl (error_body 400 ''pdf file required'')
     | File_unreadable e \<Rightarrow> Inl (error_body 400 (''read pdf: '' @ e))
     | Uploaded memo full \<Rightarrow> let data = take upload_limit full in
         if length data < 5 \<or> take 4 data \<noteq> ''%PDF'' then Inl (error_body 400 ''not a PDF file'')
         else Inr (trim_space memo, data))"

definition invoice_path :: "string \<Rightarrow> int \<Rightarrow> string" where
  "invoice_path dir i = trim_right_byte CHR ''/'' dir @ ''/invoice-'' @ itoa i @ ''.pdf''"

definition issue_check :: "string \<Rightarrow> int \<Rightarrow> (response + string) dbm" where
  "issue_check dir i = bnd (attempt (get_invoice i)) (\<lambda>r. ret (case r of Inl e \<Rightarrow> Inl (error_body 404 ''invoice not found'')
     | Inr v \<Rightarrow> if i_status v \<noteq> InvoicePending then Inl (error_body 400 (''invoice is '' @ i_status v @ '', expected pending''))
         else if dir = [] then Inl (error_body 500 ''pdf_dir not configured'')
         else Inr (invoice_path dir i)))"

definition issue_write :: "disk_faults \<Rightarrow> string \<Rightarrow> string \<Rightarrow> disk \<Rightarrow> response option \<times> disk" where
  "issue_write f path data files = (case df_mkdir f of Some e \<Rightarrow> (Some (error_body 500 (''mkdir: '' @ e)), files)
     | None \<Rightarrow> (case df_write f of Some (e, left) \<Rightarrow> (Some (error_body 500 (''write pdf: '' @ e)), files(path := left))
         | None \<Rightarrow> (None, files(path \<mapsto> data))))"

text \<open>The mail the last step starts, if the client exists.\<close>

definition issue_mark :: "string option \<Rightarrow> int \<Rightarrow> disk_faults \<Rightarrow> int \<Rightarrow> string \<Rightarrow> string \<Rightarrow> string \<Rightarrow> disk \<Rightarrow>
    (response \<times> (invoice \<times> string) option \<times> disk) dbm" where
  "issue_mark key now f i path memo data files = bnd (attempt (mark_invoice_issued now i path memo)) (\<lambda>r. ret (case r of
       Inl e \<Rightarrow> (if e = ErrNotFound then error_body 400 ''invoice not pending (concurrent change?)'' else store_error e,
                 None, if df_remove f then files else files(path := None))
     | Inr v \<Rightarrow> ((200, [(''id'', JInt (i_id v)), (''status'', JStr (i_status v)), (''pdf_path'', JStr path), (''issued_at'', JInt (i_issued_at v)),
            (''email_sent'', JBool (key \<noteq> None \<and> key \<noteq> Some []))]),
          if key = None then None else Some (v, data), files)))"

definition issue_invoice_page :: "operator_panel \<Rightarrow> int \<Rightarrow> disk_faults \<Rightarrow> string \<Rightarrow> upload \<Rightarrow> disk \<Rightarrow>
    (response \<times> (invoice \<times> string) option \<times> disk) dbm" where
  "issue_invoice_page p now f param up files = (case op_invoice p of None \<Rightarrow> ret (billing_off, None, files)
     | Some (dir, key) \<Rightarrow> if \<not> op_saas p then ret (billing_off, None, files)
         else with_id param (\<lambda>r. (r, None, files)) (\<lambda>i. case checked_upload up of Inl r \<Rightarrow> ret (r, None, files)
           | Inr (memo, data) \<Rightarrow> bnd (issue_check dir i) (\<lambda>r. case r of Inl resp \<Rightarrow> ret (resp, None, files)
               | Inr path \<Rightarrow> (case issue_write f path data files of
                     (Some resp, files') \<Rightarrow> ret (resp, None, files')
                   | (None, files') \<Rightarrow> issue_mark key now f i path memo data files'))))"

definition mail_subject :: "invoice \<Rightarrow> string" where
  "mail_subject v = [CHR 0xE6, CHR 0x82, CHR 0xA8, CHR 0xE7, CHR 0x9A, CHR 0x84, CHR 0xE5, CHR 0x8F, CHR 0x91, CHR 0xE7, CHR 0xA5,
     CHR 0xA8] @ '' '' @ [CHR 0xE2, CHR 0x80, CHR 0x94] @ '' '' @ [CHR 0xC2, CHR 0xA5] @
     fmt_fixed 2 (i_cny_amount v) @ '' ('' @ i_title_name v @ '')''"

definition mail_html :: "invoice \<Rightarrow> string" where
  "mail_html v = ''<p>'' @ [CHR 0xE6, CHR 0x82, CHR 0xA8, CHR 0xE5, CHR 0xA5, CHR 0xBD] @ '',</p><p>'' @ [CHR 0xE6, CHR 0x84, CHR 0x9F,
     CHR 0xE8, CHR 0xB0, CHR 0xA2, CHR 0xE6, CHR 0x82, CHR 0xA8, CHR 0xE4, CHR 0xBD, CHR 0xBF, CHR 0xE7, CHR 0x94,
     CHR 0xA8] @ '' CPA-Claude'' @ [CHR 0xE3, CHR 0x80, CHR 0x82, CHR 0xE6, CHR 0x82, CHR 0xA8, CHR 0xE7, CHR 0x94,
     CHR 0xB3, CHR 0xE8, CHR 0xAF, CHR 0xB7, CHR 0xE7, CHR 0x9A, CHR 0x84, CHR 0xE5, CHR 0x8F, CHR 0x91, CHR 0xE7,
     CHR 0xA5, CHR 0xA8, CHR 0xE5, CHR 0xB7, CHR 0xB2, CHR 0xE5, CHR 0xBC, CHR 0x80, CHR 0xE5, CHR 0x85, CHR 0xB7] @ '',''
     @ [CHR 0xE8, CHR 0xAF, CHR 0xA6, CHR 0xE8, CHR 0xA7, CHR 0x81, CHR 0xE9, CHR 0x99, CHR 0x84, CHR 0xE4, CHR 0xBB,
     CHR 0xB6] @ '' PDF'' @ [CHR 0xE3, CHR 0x80, CHR 0x82] @ ''</p><ul><li>'' @ [CHR 0xE5, CHR 0x8F, CHR 0x91, CHR 0xE7,
     CHR 0xA5, CHR 0xA8, CHR 0xE7, CHR 0xBC, CHR 0x96, CHR 0xE5, CHR 0x8F, CHR 0xB7] @ '': #'' @
     itoa (i_id v) @ ''</li><li>'' @ [CHR 0xE5, CHR 0xBC, CHR 0x80, CHR 0xE7, CHR 0xA5, CHR 0xA8, CHR 0xE9, CHR 0x87, CHR 0x91, CHR 0xE9,
     CHR 0xA2, CHR 0x9D] @ '': '' @ [CHR 0xC2, CHR 0xA5] @ fmt_fixed 2 (i_cny_amount v) @
     ''</li><li>'' @ [CHR 0xE6, CHR 0x8A, CHR 0xAC, CHR 0xE5, CHR 0xA4, CHR 0xB4] @ '': '' @ i_title_name v @
     ''</li></ul><p>'' @ [CHR 0xE5, CHR 0xA6, CHR 0x82, CHR 0xE6, CHR 0x9C, CHR 0x89, CHR 0xE4, CHR 0xBB, CHR 0xBB,
     CHR 0xE4, CHR 0xBD, CHR 0x95, CHR 0xE9, CHR 0x97, CHR 0xAE, CHR 0xE9, CHR 0xA2, CHR 0x98] @ '','' @ [CHR 0xE8,
     CHR 0xAF, CHR 0xB7, CHR 0xE5, CHR 0x9B, CHR 0x9E, CHR 0xE5, CHR 0xA4, CHR 0x8D, CHR 0xE6, CHR 0x9C, CHR 0xAC,
     CHR 0xE9, CHR 0x82, CHR 0xAE, CHR 0xE4, CHR 0xBB, CHR 0xB6, CHR 0xE3, CHR 0x80, CHR 0x82] @ ''</p>''"

definition invoice_mail :: "invoice \<Rightarrow> string \<Rightarrow> email" where
  "invoice_mail v pdf = \<lparr>em_to = [i_contact_email v], em_subject = mail_subject v, em_html = mail_html v, em_text = [], em_reply_to = [],
     em_attachments = [(''invoice-'' @ itoa (i_id v) @ ''.pdf'', map of_char pdf)]\<rparr>"

definition deliver_invoice_email :: "operator_panel \<Rightarrow> string \<Rightarrow> (wire_body \<Rightarrow> string + int \<times> string) \<Rightarrow> invoice \<times> string \<Rightarrow> string option" where
  "deliver_invoice_email p from post job = (case op_invoice p of None \<Rightarrow> None
     | Some (_, None) \<Rightarrow> None
     | Some (_, Some key) \<Rightarrow> send_email (Some key) from post (invoice_mail (fst job) (snd job)))"

section \<open>Rejecting and downloading\<close>

text \<open>A body that does not bind is ignored, but binding has already answered it with status 400; what is
  written later keeps that status.\<close>

definition reject_invoice_page :: "operator_panel \<Rightarrow> int \<Rightarrow> string \<Rightarrow> string option \<Rightarrow> response dbm" where
  "reject_invoice_page p now param body = (if \<not> op_saas p then ret billing_off
     else with_id param (\<lambda>r. r) (\<lambda>i.
       let memo = trim_space (case body of None \<Rightarrow> [] | Some b \<Rightarrow> b); status = (\<lambda>n. if body = None then 400 else n) in
       bnd (attempt (mark_invoice_rejected now i (if memo = [] then ''rejected by admin'' else memo))) (\<lambda>r. ret (case r of
           Inl e \<Rightarrow> if e = ErrNotFound then error_body 400 ''invoice not pending'' else (status 500, snd (store_error e))
         | Inr v \<Rightarrow> (status 200, [(''id'', JInt (i_id v)), (''status'', JStr (i_status v)), (''note'', JStr (i_note v))])))))"

definition admin_download_page :: "operator_panel \<Rightarrow> string \<Rightarrow> disk \<Rightarrow> download dbm" where
  "admin_download_page p param files = (if \<not> op_saas p then ret (Answered billing_off)
     else with_id param Answered (\<lambda>i. bnd (attempt (get_invoice i)) (\<lambda>r. ret (case r of Inl _ \<Rightarrow> Answered (error_body 404 ''not found'')
       | Inr v \<Rightarrow> if i_pdf_path v = [] then Answered (error_body 404 ''no pdf attached'')
           else if files (i_pdf_path v) = None then Answered (error_body 404 ''pdf missing on disk'')
           else SendFile (''invoice-'' @ itoa (i_id v) @ ''.pdf'') (i_pdf_path v)))))"

section \<open>The mail box\<close>

definition inbox_row_view :: "inbound_email \<Rightarrow> json" where
  "inbox_row_view v = JObj [(''id'', JInt (ie_id v)), (''resend_email_id'', JStr (ie_resend_email_id v)), (''from'', JStr (ie_from v)),
     (''to'', JArr (map JStr (ie_to v))), (''subject'', JStr (ie_subject v)), (''received_at'', JInt (ie_received_at v)),
     (''fetched'', JBool (ie_fetched_at v \<noteq> 0)), (''unread'', JBool (ie_read_at v = 0)), (''has_attachments'', JBool (ie_attachments v \<noteq> []))]"

definition inbox_list_page :: "sqlite \<Rightarrow> operator_panel \<Rightarrow> string \<Rightarrow> string \<Rightarrow> response dbm" where
  "inbox_list_page q p status search = (if \<not> op_saas p then ret (200, [(''emails'', JArr []), (''unread'', JInt 0)])
     else bnd (attempt (list_inbound q (trim_space status) search 200)) (\<lambda>r. case r of Inl e \<Rightarrow> ret (store_error e)
       | Inr rows \<Rightarrow> bnd (or_zero 0 count_inbound_unread) (\<lambda>n.
           ret (200, [(''emails'', JArr (map inbox_row_view rows)), (''unread'', JInt (int n))]))))"

definition attachment_view :: "inbound_attachment \<Rightarrow> json" where
  "attachment_view a = JObj [(''id'', JStr (ia_id a)), (''filename'', JStr (ia_filename a)), (''content_type'', JStr (ia_content_type a)),
     (''disposition'', JStr (ia_content_disposition a)), (''content_id'', JStr (ia_content_id a))]"

definition inbox_mail_view :: "inbound_email \<Rightarrow> (string \<times> json) list" where
  "inbox_mail_view v = [(''id'', JInt (ie_id v)), (''resend_email_id'', JStr (ie_resend_email_id v)), (''message_id'', JStr (ie_message_id v)),
     (''from'', JStr (ie_from v)), (''to'', JArr (map JStr (ie_to v))), (''cc'', JArr (map JStr (ie_cc v))), (''subject'', JStr (ie_subject v)),
     (''received_at'', JInt (ie_received_at v)), (''body_html'', JStr (ie_body_html v)), (''body_text'', JStr (ie_body_text v)),
     (''attachments'', JArr (map attachment_view (ie_attachments v))), (''fetched'', JBool (ie_fetched_at v \<noteq> 0))]"

definition saas_off :: response where "saas_off = error_body 404 ''saas disabled''"

definition inbox_get_page :: "operator_panel \<Rightarrow> int \<Rightarrow> string \<Rightarrow> response dbm" where
  "inbox_get_page p now param = (if \<not> op_saas p then ret saas_off
     else with_id param (\<lambda>r. r) (\<lambda>i. bnd (attempt (get_inbound i)) (\<lambda>r. case r of Inl e \<Rightarrow> ret (error_body 404 (db_error_text e))
       | Inr v \<Rightarrow> bnd (attempt (mark_inbound_read now i)) (\<lambda>_. ret (200, inbox_mail_view v)))))"

definition inbox_delete_page :: "operator_panel \<Rightarrow> string \<Rightarrow> response dbm" where
  "inbox_delete_page p param = (if \<not> op_saas p then ret saas_off
     else with_id param (\<lambda>r. r) (\<lambda>i. bnd (attempt (delete_inbound i)) (\<lambda>r. ret (case r of Inl e \<Rightarrow> store_error e
       | Inr _ \<Rightarrow> (200, [(''ok'', JBool True)])))))"

text \<open>Runes outside the safe set become underscores, one for each rune.\<close>

definition safe_file_char :: "char \<Rightarrow> bool" where
  "safe_file_char c \<longleftrightarrow> decimal_char c \<or> c \<in> set ''abcdefghijklmnopqrstuvwxyzABCDEFGHIJKLMNOPQRSTUVWXYZ._- ''"

fun mask_runes :: "string \<Rightarrow> string" where
  "mask_runes [] = []"
| "mask_runes (c # s) = (if safe_file_char c then c # mask_runes s
     else CHR ''_'' # mask_runes (drop (rune_width (c # s) - 1) s))"

definition sanitize_filename :: "string \<Rightarrow> string" where
  "sanitize_filename name = (if mask_runes name = [] then ''attachment'' else mask_runes name)"

datatype attachment_answer = Refuse response | Attach string string string

definition inbox_attachment_page :: "operator_panel \<Rightarrow> (string \<Rightarrow> string + int \<times> string \<times> string) \<Rightarrow> string \<Rightarrow> string \<Rightarrow> attachment_answer dbm" where
  "inbox_attachment_page p get param aid0 = (case op_invoice p of
       Some (_, Some key) \<Rightarrow> if \<not> op_saas p then ret (Refuse (error_body 503 ''resend client not configured''))
         else with_id param Refuse (\<lambda>i. let aid = trim_space aid0 in
           if aid = [] then ret (Refuse (error_body 400 ''bad aid''))
           else bnd (attempt (get_inbound i)) (\<lambda>r. ret (case r of Inl e \<Rightarrow> Refuse (error_body 404 (db_error_text e))
             | Inr v \<Rightarrow> (case find (\<lambda>a. ia_id a = aid) (ie_attachments v) of
                   None \<Rightarrow> Refuse (error_body 404 ''attachment not found'')
                 | Some a \<Rightarrow> if ia_filename a = [] then Refuse (error_body 404 ''attachment not found'')
                     else (case get_received_attachment (Some key) get (ie_resend_email_id v) aid of Inl e \<Rightarrow> Refuse (error_body 502 e)
                       | Inr (ct, data) \<Rightarrow> Attach (''attachment; filename='' @ [CHR 0x22] @ sanitize_filename (ia_filename a) @ [CHR 0x22])
                           (if ct \<noteq> [] then ct else if ia_content_type a \<noteq> [] then ia_content_type a else ''application/octet-stream'') data)))))
     | _ \<Rightarrow> ret (Refuse (error_body 503 ''resend client not configured'')))"

end
