(* ===== verification/DeskFacts.thy ===== *)
theory DeskFacts
  imports InvoiceDesk UsageFacts
begin

text \<open>
  What holds of the operator's desk: uploads one after the other leave every issued invoice with its PDF; two
  at once do not, and neither does a read that fails after the invoice was marked.
\<close>

section \<open>Paths\<close>

lemma invoice_path_inj: "invoice_path dir i = invoice_path dir j \<longleftrightarrow> i = j"
  by (simp add: invoice_path_def itoa_unique)

lemma invoice_path_nonempty: "invoice_path dir i \<noteq> []"
  by (simp add: invoice_path_def)

text \<open>Every issued invoice names the file of its number, and the file is there.\<close>

definition pdfs_filed :: "string \<Rightarrow> db \<Rightarrow> disk \<Rightarrow> bool" where
  "pdfs_filed dir d files \<longleftrightarrow> (\<forall>v \<in> set (invoices d). i_status v = InvoiceIssued \<longrightarrow>
     i_pdf_path v = invoice_path dir (i_id v) \<and> files (i_pdf_path v) \<noteq> None)"

lemma pdfs_filed_other:
  assumes "pdfs_filed dir d files" "invoice_row d i = Some v" "i_status v \<noteq> InvoiceIssued" "invoices_ok d"
  shows "pdfs_filed dir d (files(invoice_path dir i := x))"
proof -
  have "i_id w \<noteq> i" if "w \<in> set (invoices d)" "i_status w = InvoiceIssued" for w
    using that assms(2-4)
    by (auto simp: invoice_row_def invoices_ok_def strict_sorted_iff dest: find_key_unique)
  with assms(1) show ?thesis by (auto simp: pdfs_filed_def invoice_path_inj)
qed

section \<open>One step of an upload\<close>

definition issued_as :: "int \<Rightarrow> string \<Rightarrow> string \<Rightarrow> invoice \<Rightarrow> invoice" where
  "issued_as now path memo v = v\<lparr>i_status := InvoiceIssued, i_pdf_path := path, i_note := memo, i_issued_at := now\<rparr>"

lemma find_sql_update_key:
  assumes "find (\<lambda>i. i_id i = k) rows = Some v" "invoice_pending k v" "distinct (map i_id rows)" "\<And>i. i_id (f i) = i_id i"
  shows "find (\<lambda>i. i_id i = k) (sql_update (invoice_pending k) f rows) = Some (f v)"
  using assms by (induction rows) (auto simp: invoice_pending_def image_iff split: if_splits)

lemma mark_issued_sound:
  assumes "plan s = []" "invoices_ok (store s)" "invoice_row (store s) i = Some v" "i_status v = InvoicePending"
  shows "\<exists>s'. mark_invoice_issued now i path memo s = (Inr (issued_as now path memo v), s') \<and> plan s' = [] \<and>
    store s' = (store s)\<lparr>invoices := sql_update (invoice_pending i) (issued_as now path memo) (invoices (store s))\<rparr> \<and>
    invoice_row (store s') i = Some (issued_as now path memo v)"
proof -
  have p: "invoice_pending i v" and mem: "v \<in> set (invoices (store s))"
    using assms(3,4) by (auto simp: invoice_pending_def invoice_row_def dest: find_Some_mem)
  then have n: "sql_count (invoice_pending i) (invoices (store s)) \<noteq> 0" by (auto simp: sql_count_0_iff)
  have d: "distinct (map i_id (invoices (store s)))"
    using assms(2) by (simp add: invoices_ok_def strict_sorted_iff)
  let ?d = "(store s)\<lparr>invoices := sql_update (invoice_pending i) (issued_as now path memo) (invoices (store s))\<rparr>"
  have row: "invoice_row ?d i = Some (issued_as now path memo v)"
    using find_sql_update_key[OF _ p d] assms(3) by (simp add: invoice_row_def issued_as_def)
  have "mark_invoice_issued now i path memo s = (Inr (issued_as now path memo v), tick ((tick s)\<lparr>store := ?d\<rparr>))"
    using assms(1) n row
    by (simp add: mark_invoice_issued_def transition_invoice_def issued_as_def[abs_def] bnd_def exec_count_def stmt_def
        get_invoice_def query_row_def ret_def throw_def not_faulty)
  then show ?thesis using row assms(1) by (simp add: not_faulty)
qed

lemma mark_issued_filed:
  assumes "pdfs_filed dir d files" "invoice_row d i = Some v" "i_status v = InvoicePending" "invoices_ok d"
  shows "pdfs_filed dir (d\<lparr>invoices := sql_update (invoice_pending i) (issued_as now (invoice_path dir i) memo) (invoices d)\<rparr>)
    (files(invoice_path dir i \<mapsto> data))"
  using assms(1) by (auto simp: pdfs_filed_def set_sql_update issued_as_def invoice_pending_def)

lemma issue_check_sound:
  assumes "plan s = []"
  shows "issue_check dir i s = (Inr (case invoice_row (store s) i of None \<Rightarrow> Inl (error_body 404 ''invoice not found'')
    | Some v \<Rightarrow> if i_status v \<noteq> InvoicePending then Inl (error_body 400 (''invoice is '' @ i_status v @ '', expected pending''))
        else if dir = [] then Inl (error_body 500 ''pdf_dir not configured'') else Inr (invoice_path dir i)), tick s)"
  using assms by (cases "invoice_row (store s) i")
    (simp_all add: issue_check_def get_invoice_def query_row_def stmt_def bnd_def attempt_def ret_def not_faulty)

lemma issue_mark_sound:
  assumes "plan s = []" "invoices_ok (store s)" "invoice_row (store s) i = Some v" "i_status v = InvoicePending"
  shows "\<exists>body job s'. issue_mark key now f i path memo data files s = (Inr ((200, body), job, files), s') \<and> plan s' = [] \<and>
    store s' = (store s)\<lparr>invoices := sql_update (invoice_pending i) (issued_as now path memo) (invoices (store s))\<rparr> \<and>
    invoice_row (store s') i = Some (issued_as now path memo v)"
  using mark_issued_sound[OF assms, of now path memo] by (auto simp: issue_mark_def bnd_def attempt_def ret_def)

text \<open>A decision on an invoice that is no longer pending is refused, and the file at the path goes.\<close>

lemma issue_mark_late:
  assumes "plan s = []" "invoices_ok (store s)" "invoice_row (store s) i = Some v" "i_status v \<noteq> InvoicePending" "\<not> df_remove f"
  shows "\<exists>s' body. issue_mark key now f i path memo data files s = (Inr ((400, body), None, files(path := None)), s') \<and> store s' = store s"
proof -
  have "sql_count (invoice_pending i) (invoices (store s)) = 0" using invoice_pending_count_0[OF assms(2-4)] .
  moreover from this have "sql_update (invoice_pending i) g (invoices (store s)) = invoices (store s)" for g
    by (intro sql_update_id) (auto simp: sql_count_0_iff)
  ultimately have "mark_invoice_issued now i path memo s = (Inl ErrNotFound, tick s)"
    using assms(1) by (simp add: mark_invoice_issued_def transition_invoice_def bnd_def exec_count_def stmt_def throw_def not_faulty)
  with assms(5) show ?thesis by (simp add: issue_mark_def bnd_def attempt_def ret_def error_body_def)
qed

lemma issue_refused:
  assumes "plan s = []" "op_invoice p = Some (dir, key)" and run: "issue_invoice_page p now f param up files s = (r, s')"
    and no: "\<not> (op_saas p \<and> dir \<noteq> [] \<and> df_mkdir f = None \<and> df_write f = None \<and> (\<exists>i v a. parse_int64 param = Some i \<and> checked_upload up = Inr a \<and>
      invoice_row (store s) i = Some v \<and> i_status v = InvoicePending))"
  shows "\<exists>resp files'. r = Inr (resp, None, files') \<and> fst resp \<noteq> 200 \<and> store s' = store s \<and> plan s' = [] \<and>
    (files' = files \<or> (\<exists>i v x. files' = files(invoice_path dir i := x) \<and> invoice_row (store s) i = Some v \<and> i_status v = InvoicePending))"
proof (cases "op_saas p \<and> (\<exists>i a. parse_int64 param = Some i \<and> checked_upload up = Inr a)")
  case False
  with run assms(1,2) show ?thesis
    by (auto simp: issue_invoice_page_def with_id_def ret_def billing_off_def bad_id_def error_body_def checked_upload_def Let_def
        split: option.splits sum.splits upload.splits if_splits)
next
  case True
  then obtain i memo data where i: "op_saas p" "parse_int64 param = Some i" "checked_upload up = Inr (memo, data)" by auto
  note page = issue_invoice_page_def with_id_def bnd_def issue_check_sound[OF assms(1)] ret_def issue_write_def error_body_def not_faulty
  show ?thesis
  proof (cases "\<exists>v. invoice_row (store s) i = Some v \<and> i_status v = InvoicePending \<and> dir \<noteq> []")
    case False
    with run assms(1,2) i show ?thesis by (auto simp: page split: option.splits if_splits)
  next
    case True
    with run assms(1,2) i no show ?thesis by (auto simp: page split: option.splits prod.splits) blast+
  qed
qed

section \<open>Uploads one after the other\<close>

lemma mark_keeps_invoices_ok:
  assumes "invoices_ok d"
  shows "invoices_ok (d\<lparr>invoices := sql_update (invoice_pending i) (issued_as now path memo) (invoices d)\<rparr>)"
proof -
  have "map i_id (sql_update (invoice_pending i) (issued_as now path memo) (invoices d)) = map i_id (invoices d)"
    by (rule map_sql_update_same) (simp add: issued_as_def)
  moreover have "\<exists>v \<in> set (sql_update (invoice_pending i) (issued_as now path memo) (invoices d)). i_id v = k \<and> 0 < i_workspace_id v"
    if known: "\<exists>v \<in> set (invoices d). i_id v = k \<and> 0 < i_workspace_id v" for k
  proof -
    from known obtain v where v: "v \<in> set (invoices d)" "i_id v = k" "0 < i_workspace_id v" by blast
    show ?thesis unfolding set_sql_update
      by (rule bexI[OF _ imageI[OF v(1)]]) (use v in \<open>simp add: issued_as_def\<close>)
  qed
  moreover have "i_id ` set (sql_update (invoice_pending i) (issued_as now path memo) (invoices d)) = i_id ` set (invoices d)"
    using calculation(1) by (metis set_map)
  moreover have "\<forall>v \<in> set (sql_update (invoice_pending i) (issued_as now path memo) (invoices d)).
      i_status v \<in> {InvoicePending, InvoiceIssued, InvoiceRejected}"
    using assms by (auto simp: invoices_ok_def set_sql_update issued_as_def)
  ultimately show ?thesis using assms unfolding invoices_ok_def by simp
qed

text \<open>C31. With a sound driver an upload, whatever the file system does, leaves every issued invoice with the file of its
  number on disk. It is answered 200 exactly when it issued a pending invoice, whose file then holds the
  uploaded PDF; any other answer leaves the invoices as they are.\<close>

theorem issued_invoices_keep_their_pdfs:
  assumes driver: "plan s = []" and ok: "invoices_ok (store s)" and filed: "pdfs_filed dir (store s) files"
    and panel: "op_invoice p = Some (dir, key)" and run: "issue_invoice_page p now f param up files s = (r, s')"
  shows "\<exists>resp job files'. r = Inr (resp, job, files') \<and> plan s' = [] \<and> invoices_ok (store s') \<and> pdfs_filed dir (store s') files' \<and>
    (fst resp \<noteq> 200 \<and> store s' = store s \<or>
     fst resp = 200 \<and> (\<exists>i v memo data. parse_int64 param = Some i \<and> checked_upload up = Inr (memo, data) \<and>
       invoice_row (store s) i = Some v \<and> i_status v = InvoicePending \<and>
       invoice_row (store s') i = Some (issued_as now (invoice_path dir i) memo v) \<and> files' (invoice_path dir i) = Some data))"
proof (cases "op_saas p \<and> dir \<noteq> [] \<and> df_mkdir f = None \<and> df_write f = None \<and> (\<exists>i v a. parse_int64 param = Some i \<and> checked_upload up = Inr a \<and>
      invoice_row (store s) i = Some v \<and> i_status v = InvoicePending)")
  case False
  from issue_refused[OF driver panel run this] obtain resp files' where r: "r = Inr (resp, None, files')" "fst resp \<noteq> 200"
    "store s' = store s" "plan s' = []" and f: "files' = files \<or> (\<exists>i v x. files' = files(invoice_path dir i := x) \<and>
      invoice_row (store s) i = Some v \<and> i_status v = InvoicePending)" by blast
  from f filed ok have "pdfs_filed dir (store s') files'" unfolding r(3)
    by (auto intro!: pdfs_filed_other simp: invoice_states)
  with r ok show ?thesis by auto
next
  case True
  then obtain i v memo data where i: "parse_int64 param = Some i" "checked_upload up = Inr (memo, data)"
    "invoice_row (store s) i = Some v" "i_status v = InvoicePending" by auto
  let ?path = "invoice_path dir i"
  have t: "plan (tick s) = []" "invoices_ok (store (tick s))" "invoice_row (store (tick s)) i = Some v"
    using driver ok i by (simp_all add: not_faulty)
  from issue_mark_sound[OF t i(4), of key now f ?path memo data "files(?path \<mapsto> data)"]
  obtain body job s1 where m: "issue_mark key now f i ?path memo data (files(?path \<mapsto> data)) (tick s) = (Inr ((200, body), job, files(?path \<mapsto> data)), s1)"
    "plan s1 = []" "store s1 = (store s)\<lparr>invoices := sql_update (invoice_pending i) (issued_as now ?path memo) (invoices (store s))\<rparr>"
    "invoice_row (store s1) i = Some (issued_as now ?path memo v)" by auto
  have "r = Inr ((200, body), job, files(?path \<mapsto> data))" "s' = s1"
    using run True i m(1) panel issue_check_sound[OF driver, of dir i]
    by (simp_all add: issue_invoice_page_def with_id_def bnd_def issue_write_def)
  moreover have "pdfs_filed dir (store s1) (files(?path \<mapsto> data))" "invoices_ok (store s1)"
    unfolding m(3) using mark_issued_filed[OF filed i(3,4) ok] mark_keeps_invoices_ok[OF ok] by blast+
  ultimately show ?thesis using m i by auto
qed

definition demo_pending :: invoice where
  "demo_pending = \<lparr>i_id = 1, i_token = ''alice'', i_cny_amount = 14, i_title_name = ''ACME'', i_title_snapshot = [], i_contact_email = ''a'',
     i_status = InvoicePending, i_pdf_path = [], i_note = [], i_created_at = 960, i_issued_at = 0, i_rejected_at = 0, i_workspace_id = 0\<rparr>"

definition demo_desk_db :: db where
  "demo_desk_db = demo_paid_db\<lparr>invoices := [demo_pending], sequences := (sequences demo_paid_db)(Seq_invoices := 1)\<rparr>"

definition demo_panel :: operator_panel where
  "demo_panel = \<lparr>op_saas = True, op_tokens = [], op_invoice = Some (''/pdf'', None), op_log_dir = [], op_log_indexed = False\<rparr>"

definition sound_disk :: disk_faults where "sound_disk = \<lparr>df_mkdir = None, df_write = None, df_remove = False\<rparr>"

lemma demo_desk:
  "invoices_ok demo_desk_db" "invoice_row demo_desk_db 1 = Some demo_pending" "i_status demo_pending = InvoicePending"
  "pdfs_filed ''/pdf'' demo_desk_db Map.empty"
  by (simp_all add: invoices_ok_def demo_desk_db_def demo_pending_def invoice_row_def pdfs_filed_def demo_paid_db_def pay_order_def
      demo_db_def initial_db_def)

theorem issued_invoices_keep_their_pdfs_witness:
  "\<exists>resp job files'. fst (issue_invoice_page demo_panel 980 sound_disk ''1'' (Uploaded [] ''%PDF-1'') Map.empty (fresh_session demo_desk_db)) =
     Inr (resp, job, files') \<and>
   pdfs_filed ''/pdf'' (store (snd (issue_invoice_page demo_panel 980 sound_disk ''1'' (Uploaded [] ''%PDF-1'') Map.empty (fresh_session demo_desk_db)))) files'"
  using issued_invoices_keep_their_pdfs[OF _ _ _ _ prod.collapse[symmetric],
      of "fresh_session demo_desk_db" "''/pdf''" Map.empty demo_panel None 980 sound_disk "''1''" "Uploaded [] ''%PDF-1''"] demo_desk
  by (auto simp: fresh_session_def demo_panel_def)

section \<open>Two uploads at once\<close>

text \<open>Both are checked before either is marked.\<close>

definition two_uploads :: "string option \<Rightarrow> int \<Rightarrow> disk_faults \<Rightarrow> string \<Rightarrow> int \<Rightarrow> string \<times> string \<Rightarrow> string \<times> string \<Rightarrow> disk \<Rightarrow>
    (int \<times> int \<times> disk) option dbm" where
  "two_uploads key now f dir i a b files =
     bnd (issue_check dir i) (\<lambda>r1. bnd (issue_check dir i) (\<lambda>r2. case (r1, r2) of
       (Inr path, Inr path') \<Rightarrow>
         bnd (issue_mark key now f i path (fst a) (snd a) (snd (issue_write f path' (snd b) (snd (issue_write f path (snd a) files))))) (\<lambda>(ra, _, fs).
         bnd (issue_mark key now f i path' (fst b) (snd b) fs) (\<lambda>(rb, _, fs'). ret (Some (fst ra, fst rb, fs'))))
     | _ \<Rightarrow> ret None))"

text \<open>Of two uploads for a pending invoice that overlap, the first to be marked is answered 200 and the invoice is
  issued; the second is refused and removes the file both wrote, so the issued invoice has no PDF.\<close>

theorem racing_upload_removes_the_pdf:
  assumes driver: "plan s = []" and ok: "invoices_ok (store s)" and row: "invoice_row (store s) i = Some v" "i_status v = InvoicePending"
    and dir: "dir \<noteq> []" and disk: "\<not> df_remove f"
  shows "\<exists>s' files'. two_uploads key now f dir i a b files s = (Inr (Some (200, 400, files')), s') \<and>
    invoice_row (store s') i = Some (issued_as now (invoice_path dir i) (fst a) v) \<and> files' (invoice_path dir i) = None"
proof -
  let ?path = "invoice_path dir i"
  define fs where "fs = snd (issue_write f ?path (snd b) (snd (issue_write f ?path (snd a) files)))"
  have c: "issue_check dir i s = (Inr (Inr ?path), tick s)" "issue_check dir i (tick s) = (Inr (Inr ?path), tick (tick s))"
    using issue_check_sound[OF driver, of dir i] issue_check_sound[of "tick s" dir i] driver row dir by (simp_all add: not_faulty)
  have t: "plan (tick (tick s)) = []" "invoices_ok (store (tick (tick s)))" "invoice_row (store (tick (tick s))) i = Some v"
    using driver ok row by (simp_all add: not_faulty)
  from issue_mark_sound[OF t row(2), of key now f ?path "fst a" "snd a" fs]
  obtain body job s1 where m: "issue_mark key now f i ?path (fst a) (snd a) fs (tick (tick s)) = (Inr ((200, body), job, fs), s1)"
    "plan s1 = []" "store s1 = (store s)\<lparr>invoices := sql_update (invoice_pending i) (issued_as now ?path (fst a)) (invoices (store s))\<rparr>"
    "invoice_row (store s1) i = Some (issued_as now ?path (fst a) v)" by auto
  have "invoices_ok (store s1)" unfolding m(3) by (rule mark_keeps_invoices_ok[OF ok])
  moreover have "i_status (issued_as now ?path (fst a) v) \<noteq> InvoicePending" by (simp add: issued_as_def invoice_states)
  ultimately obtain s2 body' where l: "issue_mark key now f i ?path (fst b) (snd b) fs s1 = (Inr ((400, body'), None, fs(?path := None)), s2)"
    "store s2 = store s1" using issue_mark_late[OF m(2) _ m(4) _ disk, of key now ?path "fst b" "snd b" fs] by blast
  from c m(1) l(1) have "two_uploads key now f dir i a b files s = (Inr (Some (200, 400, fs(?path := None))), s2)"
    by (simp add: two_uploads_def bnd_def ret_def fs_def[symmetric])
  with l(2) m(4) show ?thesis by simp
qed

theorem racing_upload_removes_the_pdf_witness:
  "\<exists>s' files'. two_uploads None 980 sound_disk ''/pdf'' 1 ([], ''%PDF-1'') ([], ''%PDF-2'') Map.empty (fresh_session demo_desk_db) =
     (Inr (Some (200, 400, files')), s') \<and> files' (invoice_path ''/pdf'' 1) = None"
  using racing_upload_removes_the_pdf[of "fresh_session demo_desk_db" 1 demo_pending "''/pdf''" sound_disk None 980 "([], ''%PDF-1'')"
      "([], ''%PDF-2'')" Map.empty] demo_desk
  by (auto simp: fresh_session_def sound_disk_def)

text \<open>The same happens to a single upload when the invoice cannot be read back after it was marked.\<close>

theorem failed_read_back_removes_the_pdf:
  assumes plan: "plan s = [False, True]" and ok: "invoices_ok (store s)" and row: "invoice_row (store s) i = Some v" "i_status v = InvoicePending"
    and disk: "\<not> df_remove f"
  shows "\<exists>s' body. issue_mark key now f i path memo data files s = (Inr ((500, body), None, files(path := None)), s') \<and>
    invoice_row (store s') i = Some (issued_as now path memo v)"
proof -
  have p: "invoice_pending i v" and mem: "v \<in> set (invoices (store s))"
    using row by (auto simp: invoice_pending_def invoice_row_def dest: find_Some_mem)
  then have n: "sql_count (invoice_pending i) (invoices (store s)) \<noteq> 0" by (auto simp: sql_count_0_iff)
  have d: "distinct (map i_id (invoices (store s)))" using ok by (simp add: invoices_ok_def strict_sorted_iff)
  let ?d = "(store s)\<lparr>invoices := sql_update (invoice_pending i) (issued_as now path memo) (invoices (store s))\<rparr>"
  have "mark_invoice_issued now i path memo s = (Inl DriverError, tick ((tick s)\<lparr>store := ?d\<rparr>))"
    using n plan by (simp add: mark_invoice_issued_def transition_invoice_def issued_as_def[abs_def] bnd_def exec_count_def stmt_def
        get_invoice_def query_row_def faulty_def tick_def)
  moreover have "invoice_row ?d i = Some (issued_as now path memo v)"
    using find_sql_update_key[OF _ p d] row(1) by (simp add: invoice_row_def issued_as_def)
  ultimately show ?thesis using disk by (simp add: issue_mark_def bnd_def attempt_def ret_def store_error_def error_body_def)
qed

theorem failed_read_back_removes_the_pdf_witness:
  "\<exists>s' body. issue_mark None 980 sound_disk 1 ''p'' [] ''%PDF-1'' [''p'' \<mapsto> ''%PDF-1''] \<lparr>store = demo_desk_db, plan = [False, True]\<rparr> =
     (Inr ((500, body), None, [''p'' \<mapsto> ''%PDF-1''](''p'' := None)), s')"
proof -
  let ?s = "\<lparr>store = demo_desk_db, plan = [False, True]\<rparr>"
  have "plan ?s = [False, True]" "invoices_ok (store ?s)" "invoice_row (store ?s) 1 = Some demo_pending" "\<not> df_remove sound_disk"
    using demo_desk by (simp_all add: sound_disk_def)
  from failed_read_back_removes_the_pdf[OF this(1-3) demo_desk(3) this(4)] show ?thesis by blast
qed

section \<open>File names\<close>

text \<open>The name an attachment is downloaded under cannot leave its header: it is never empty and every byte is a
  letter, a digit or one of a few marks.\<close>

lemma underscore_is_safe: "safe_file_char CHR ''_''"
  by (simp add: safe_file_char_def)

lemma mask_runes_safe: "c \<in> set (mask_runes s) \<Longrightarrow> safe_file_char c"
  by (induction s rule: mask_runes.induct) (auto split: if_splits simp: underscore_is_safe)

lemma attachment_is_safe: "list_all safe_file_char ''attachment''"
  by (simp add: safe_file_char_def)

lemma sanitized_name_is_safe: "sanitize_filename s \<noteq> [] \<and> list_all safe_file_char (sanitize_filename s)"
proof (cases "mask_runes s")
  case Nil
  then show ?thesis using attachment_is_safe by (simp only: sanitize_filename_def if_True) simp
next
  case (Cons c r)
  have "list_all safe_file_char (mask_runes s)" unfolding list_all_iff using mask_runes_safe by blast
  with Cons show ?thesis by (simp only: sanitize_filename_def) simp
qed

end
