(* ===== verification/Monitor.thy ===== *)
theory Monitor
  imports Usage
begin

text \<open>
  The uptime monitor (\<open>internal/monitor/monitor.go\<close>): what the pool can serve right now, the probes of API
  keys, and their history of two days of samples and ninety days of totals. The pool is cc-core's: a
  snapshot of its credentials, their live reports by id and the aggregation of reports are fields of
  \<open>pool_api\<close>. Instants are nanoseconds since 1970, \<open>zone\<close> the offset of the server's zone in seconds.
\<close>

section \<open>Health reports\<close>

definition HealthHealthy :: string where "HealthHealthy = ''healthy''"
definition HealthHalfOpen :: string where "HealthHalfOpen = ''half_open''"
definition HealthDegraded :: string where "HealthDegraded = ''degraded''"
definition HealthQuota :: string where "HealthQuota = ''quota''"
definition HealthCooling :: string where "HealthCooling = ''cooling''"
definition HealthHardFailed :: string where "HealthHardFailed = ''hard_failed''"
definition HealthDisabled :: string where "HealthDisabled = ''disabled''"

lemmas health_states = HealthHealthy_def HealthHalfOpen_def HealthDegraded_def HealthQuota_def HealthCooling_def
  HealthHardFailed_def HealthDisabled_def

definition AllStates :: "string list" where
  "AllStates = [HealthHealthy, HealthHalfOpen, HealthDegraded, HealthQuota, HealthCooling, HealthHardFailed, HealthDisabled]"

record health_report =
  hr_state :: string
  hr_serving :: bool
  hr_reason :: string
  hr_retry_after :: int
  hr_failures :: int
  hr_429s :: int
  hr_401s :: int
  hr_last_success :: int
  hr_last_failure :: int
  hr_last_failure_reason :: string
  hr_hard_failure_at :: int
  hr_quota_reset_at :: int
  hr_quarantine_until :: int
  hr_quarantine_strikes :: int

record auth_info =
  ai_id :: string
  ai_api_key :: bool
  ai_provider :: string
  ai_label :: string
  ai_group :: string
  ai_max_concurrent :: int
  ai_state :: string
  ai_failures :: int
  ai_429s :: int
  ai_401s :: int
  ai_last_success :: int
  ai_last_failure :: int
  ai_last_failure_reason :: string
  ai_hard_failure_at :: int
  ai_quota_reset_at :: int
  ai_quarantine_until :: int
  ai_quarantine_strikes :: int

record pool_health =
  ph_total :: int
  ph_serving :: int
  ph_by_state :: "string \<Rightarrow> int"
  ph_worst :: string
  ph_available :: bool

text \<open>\<open>pa_status\<close> pairs a credential with its active clients; \<open>pa_live\<close> is the report of a credential still in
  the pool.\<close>

record pool_api =
  pa_normalize :: "string \<Rightarrow> string"
  pa_status :: "(auth_info \<times> int) list"
  pa_live :: "string \<Rightarrow> health_report option"
  pa_new_health :: "string \<Rightarrow> health_report list \<Rightarrow> pool_health"

definition ProviderOpenAI :: string where "ProviderOpenAI = ''openai''"

text \<open>\<open>time.Until\<close>, which saturates, when it is positive.\<close>

definition remaining :: "int \<Rightarrow> int \<Rightarrow> int" where
  "remaining now t = (if 0 < t - now then min (2 ^ 63 - 1) (t - now) else 0)"

definition report_from_info :: "int \<Rightarrow> auth_info \<Rightarrow> health_report" where
  "report_from_info now i = (let state = (if ai_state i = [] then HealthHealthy else ai_state i) in
     \<lparr>hr_state = state,
      hr_serving = (state \<notin> {HealthDisabled, HealthHardFailed, HealthQuota, HealthCooling}),
      hr_reason = (if state = HealthDisabled then ''disabled by operator'' else ai_last_failure_reason i),
      hr_retry_after = (if state = HealthQuota then remaining now (ai_quota_reset_at i)
        else if state = HealthCooling then remaining now (ai_quarantine_until i) else 0),
      hr_failures = ai_failures i, hr_429s = ai_429s i, hr_401s = ai_401s i, hr_last_success = ai_last_success i,
      hr_last_failure = ai_last_failure i, hr_last_failure_reason = ai_last_failure_reason i,
      hr_hard_failure_at = ai_hard_failure_at i, hr_quota_reset_at = ai_quota_reset_at i,
      hr_quarantine_until = ai_quarantine_until i, hr_quarantine_strikes = ai_quarantine_strikes i\<rparr>)"

text \<open>The pool may be missing.\<close>

definition health_report_for :: "pool_api option \<Rightarrow> int \<Rightarrow> auth_info \<Rightarrow> health_report" where
  "health_report_for pool now i = (case pool of None \<Rightarrow> report_from_info now i
     | Some p \<Rightarrow> (case pa_live p (ai_id i) of Some r \<Rightarrow> r | None \<Rightarrow> report_from_info now i))"

definition free_slot :: "auth_info \<times> int \<Rightarrow> bool" where
  "free_slot st = (ai_max_concurrent (fst st) = 0 \<or> snd st < ai_max_concurrent (fst st))"

definition provider_members :: "pool_api \<Rightarrow> string \<Rightarrow> (auth_info \<times> int) list" where
  "provider_members p provider = filter (\<lambda>st. pa_normalize p (ai_provider (fst st)) = pa_normalize p provider) (pa_status p)"

definition pool_health_for :: "pool_api \<Rightarrow> int \<Rightarrow> string \<Rightarrow> pool_health \<times> bool" where
  "pool_health_for p now provider =
     (let sts = provider_members p provider; report = (\<lambda>st. health_report_for (Some p) now (fst st))
      in (pa_new_health p (pa_normalize p provider) (map report sts),
          \<exists>st \<in> set sts. hr_serving (report st) \<and> free_slot st))"

record pool_health_view =
  pv_available :: bool
  pv_total :: int
  pv_serving :: int
  pv_worst_state :: string
  pv_by_state :: "(string \<times> int) list"

definition new_pool_health_view :: "pool_health \<Rightarrow> pool_health_view" where
  "new_pool_health_view p = \<lparr>pv_available = ph_available p, pv_total = ph_total p, pv_serving = ph_serving p,
     pv_worst_state = (if ph_worst p = [] then HealthHealthy else ph_worst p),
     pv_by_state = map (\<lambda>s. (s, ph_by_state p s)) AllStates\<rparr>"

section \<open>Samples\<close>

text \<open>The deprecated field of a sample is not written and left out.\<close>

record sample =
  sa_ts :: int
  sa_ok :: bool
  sa_status :: int
  sa_latency_ms :: int
  sa_err :: string

definition real_failure :: "sample \<Rightarrow> bool" where
  "real_failure s = (if 520 \<le> sa_status s \<and> sa_status s \<le> 527 then False else 500 \<le> sa_status s)"

definition healthy_signal :: "sample \<Rightarrow> bool" where "healthy_signal s = sa_ok s"

text \<open>The first API key of the provider that is still in the pool and serving.\<close>

definition pick_api_key_cred :: "pool_api \<Rightarrow> string \<Rightarrow> string option" where
  "pick_api_key_cred p provider = map_option (\<lambda>st. ai_id (fst st)) (find (\<lambda>st. ai_api_key (fst st) \<and>
     pa_normalize p (ai_provider (fst st)) = pa_normalize p provider \<and>
     (case pa_live p (ai_id (fst st)) of Some r \<Rightarrow> hr_serving r | None \<Rightarrow> False)) (pa_status p))"

definition passive_sample :: "pool_api \<Rightarrow> int \<Rightarrow> string \<Rightarrow> sample" where
  "passive_sample p now provider = (let ph = fst (pool_health_for p now provider);
       s = \<lparr>sa_ts = now, sa_ok = False, sa_status = 503, sa_latency_ms = 0, sa_err = ''no serving credentials''\<rparr>
     in if 0 < ph_by_state ph HealthHealthy then s\<lparr>sa_ok := True, sa_status := 200, sa_err := []\<rparr>
        else if 0 < ph_serving ph then s\<lparr>sa_err := ''no verified credentials ('' @ ph_worst ph @ '')''\<rparr>
        else s)"

record probe_request =
  pq_url :: string
  pq_model :: string
  pq_headers :: "(string \<times> string) list"

text \<open>The body is one message of the user, \<open>ping\<close>, for at most one token of the model.\<close>

definition direct_probe_request :: "string \<Rightarrow> string \<Rightarrow> string \<Rightarrow> string \<Rightarrow> probe_request" where
  "direct_probe_request provider base0 token model = (let base = trim_right_byte CHR ''/'' base0 in
     if provider = ProviderOpenAI
     then \<lparr>pq_url = (if base = [] then ''https://api.openai.com'' else base) @ ''/v1/chat/completions'', pq_model = model,
           pq_headers = [(''Content-Type'', ''application/json''), (''Authorization'', ''Bearer '' @ token)]\<rparr>
     else \<lparr>pq_url = (if base = [] then ''https://api.anthropic.com'' else base) @ ''/v1/messages'', pq_model = model,
           pq_headers = [(''Content-Type'', ''application/json''), (''anthropic-version'', ''2023-06-01''), (''x-api-key'', token)]\<rparr>)"

record probe_target =
  pt_base_url :: string
  pt_secret :: string
  pt_upstream_model :: "string \<Rightarrow> string option"

text \<open>A request that cannot be built, one that gets no answer, or a status, the last two after a time.\<close>

datatype probe_outcome = Not_built string | No_answer int string | Got_status int int

definition probe :: "(probe_request \<Rightarrow> probe_outcome) \<Rightarrow> int \<Rightarrow> string \<Rightarrow> probe_target \<Rightarrow> string \<Rightarrow> sample" where
  "probe send start provider cred model =
     (let um = (case pt_upstream_model cred model of Some m \<Rightarrow> if m = [] then model else m | None \<Rightarrow> model);
          s = \<lparr>sa_ts = start, sa_ok = False, sa_status = 0, sa_latency_ms = 0, sa_err = []\<rparr>
      in case send (direct_probe_request provider (pt_base_url cred) (pt_secret cred) um) of
           Not_built e \<Rightarrow> s\<lparr>sa_err := e\<rparr>
         | No_answer ms e \<Rightarrow> s\<lparr>sa_latency_ms := ms, sa_err := e\<rparr>
         | Got_status ms st \<Rightarrow> let ok = 200 \<le> st \<and> st < 300 in
             s\<lparr>sa_latency_ms := ms, sa_status := st, sa_ok := ok, sa_err := (if ok then [] else ''http '' @ itoa st)\<rparr>)"

section \<open>History\<close>

record day_stat =
  dt_date :: string
  dt_total :: int
  dt_ok :: int

record prov_store =
  ps_recent :: "sample list"
  ps_days :: "(string \<times> day_stat) list"
  ps_last :: "sample option"

definition new_prov_store :: prov_store where
  "new_prov_store = \<lparr>ps_recent = [], ps_days = [], ps_last = None\<rparr>"

definition recentRetention :: int where "recentRetention = 48 * 3600 * second_ns"
definition dayRetention :: nat where "dayRetention = 90"

fun count_day :: "string \<Rightarrow> bool \<Rightarrow> (string \<times> day_stat) list \<Rightarrow> (string \<times> day_stat) list" where
  "count_day key ok [] = [(key, \<lparr>dt_date = key, dt_total = 1, dt_ok = (if ok then 1 else 0)\<rparr>)]"
| "count_day key ok ((k, d) # ds) = (if k = key
     then (k, d\<lparr>dt_total := dt_total d + 1, dt_ok := (if ok then dt_ok d + 1 else dt_ok d)\<rparr>) # ds
     else (k, d) # count_day key ok ds)"

text \<open>Keys are days as text, and compared as text.\<close>

definition newest_key :: "(string \<times> day_stat) list \<Rightarrow> string" where
  "newest_key ds = foldl (\<lambda>n (k, _). if text_less n k then k else n) [] ds"

definition prune_days :: "(string \<times> day_stat) list \<Rightarrow> (string \<times> day_stat) list" where
  "prune_days ds = (if length ds \<le> dayRetention then ds
     else case parse_date (newest_key ds) of None \<Rightarrow> ds
       | Some z \<Rightarrow> let cutoff = format_date (z - (int dayRetention - 1)) in filter (\<lambda>(k, _). \<not> text_less k cutoff) ds)"

definition record_sample :: "int \<Rightarrow> sample \<Rightarrow> prov_store \<Rightarrow> prov_store" where
  "record_sample zone s st = (let recent = ps_recent st @ [s];
       latest = foldl (\<lambda>t x. max t (sa_ts x)) (sa_ts s) recent;
       days = count_day (format_date (day_at zone (sa_ts s))) (healthy_signal s) (ps_days st)
     in \<lparr>ps_recent = filter (\<lambda>x. latest - recentRetention < sa_ts x) recent, ps_days = prune_days days, ps_last = Some s\<rparr>)"

type_synonym histories = "string \<rightharpoonup> prov_store"

definition monitor_record :: "int \<Rightarrow> string \<Rightarrow> sample \<Rightarrow> histories \<Rightarrow> histories" where
  "monitor_record zone provider s stores =
     stores(provider \<mapsto> record_sample zone s (case stores provider of None \<Rightarrow> new_prov_store | Some st \<Rightarrow> st))"

record monitor_target =
  mt_provider :: string
  mt_model :: string

record monitor_config =
  mc_enabled :: bool
  mc_interval :: int
  mc_state_file :: string
  mc_targets :: "monitor_target list"

text \<open>One round: for each target with a model, what it is observed at. \<open>observe\<close> stands for the pool and
  the probe of that moment.\<close>

definition take_sample :: "pool_api \<Rightarrow> (string \<Rightarrow> probe_target) \<Rightarrow> (probe_request \<Rightarrow> probe_outcome) \<Rightarrow> int \<Rightarrow> monitor_target \<Rightarrow> sample" where
  "take_sample p creds send now t = (let provider = pa_normalize p (mt_provider t) in
     case pick_api_key_cred p provider of Some i \<Rightarrow> probe send now provider (creds i) (mt_model t)
     | None \<Rightarrow> passive_sample p now provider)"

fun probe_all :: "int \<Rightarrow> (string \<Rightarrow> string) \<Rightarrow> (monitor_target \<Rightarrow> sample) \<Rightarrow> monitor_target list \<Rightarrow> histories \<Rightarrow> histories" where
  "probe_all zone canon observe [] stores = stores"
| "probe_all zone canon observe (t # ts) stores = probe_all zone canon observe ts
     (if mt_model t = [] then stores else monitor_record zone (canon (mt_provider t)) (observe t) stores)"

text \<open>When rounds begin and how often they come, in nanoseconds; none while monitoring is off.\<close>

definition monitor_schedule :: "monitor_config \<Rightarrow> (int \<times> int) option" where
  "monitor_schedule cfg = (if \<not> mc_enabled cfg then None
     else Some (15 * second_ns, if mc_interval cfg \<le> 0 then 10 * 60 * second_ns else mc_interval cfg))"

section \<open>Persistence\<close>

text \<open>The decoded state file, none for a file that is missing or does not decode; each provider of it replaces
  the history under its normalized name.\<close>

definition load_histories :: "(string \<Rightarrow> string) \<Rightarrow> monitor_config \<Rightarrow> (string \<times> prov_store) list option \<Rightarrow> histories \<Rightarrow> histories" where
  "load_histories canon cfg file stores = (if mc_state_file cfg = [] then stores
     else case file of None \<Rightarrow> stores | Some ps \<Rightarrow> fold (\<lambda>(prov, st) m. m(canon prov \<mapsto> st)) ps stores)"

definition new_monitor :: "(string \<Rightarrow> string) \<Rightarrow> monitor_config \<Rightarrow> (string \<times> prov_store) list option \<Rightarrow> histories" where
  "new_monitor canon cfg file = load_histories canon cfg file
     (fold (\<lambda>t m. m(canon (mt_provider t) \<mapsto> new_prov_store)) (mc_targets cfg) Map.empty)"

text \<open>The new file takes the old one's place only when it was written whole.\<close>

definition save_histories :: "monitor_config \<Rightarrow> bool \<Rightarrow> bool \<Rightarrow> histories \<Rightarrow> histories option \<Rightarrow> histories option" where
  "save_histories cfg written renamed stores file = (if mc_state_file cfg = [] then file
     else if written \<and> renamed then Some stores else file)"

section \<open>The snapshot\<close>

record provider_snapshot =
  sn_name :: string
  sn_provider :: string
  sn_operational :: string
  sn_slot_available :: bool
  sn_healthy_creds :: int
  sn_serving_creds :: int
  sn_cooling_creds :: int
  sn_worst_state :: string
  sn_by_state :: "(string \<times> int) list"
  sn_total_creds :: int
  sn_probe_enabled :: bool
  sn_last_probe :: "sample option"
  sn_uptime_90d :: "day_stat list"
  sn_uptime_pct :: float64
  sn_timeline_24h :: "sample list"

definition display_name :: "(string \<Rightarrow> string) \<Rightarrow> string \<Rightarrow> string" where
  "display_name canon provider = (if canon provider = ProviderOpenAI then ''OpenAI'' else ''Claude'')"

definition state_count :: "(string \<times> int) list \<Rightarrow> string \<Rightarrow> int" where
  "state_count by s = (case map_of by s of None \<Rightarrow> 0 | Some n \<Rightarrow> n)"

definition derive_status :: "provider_snapshot \<Rightarrow> string" where
  "derive_status ps = (if sn_total_creds ps = 0 \<or> sn_serving_creds ps = 0 then ''down''
     else if 0 < state_count (sn_by_state ps) HealthHalfOpen \<or> 0 < state_count (sn_by_state ps) HealthDegraded \<or> 0 < sn_cooling_creds ps
     then ''degraded''
     else if sn_slot_available ps then ''operational'' else ''degraded'')"

definition last_days :: "int \<Rightarrow> (string \<times> day_stat) list \<Rightarrow> nat \<Rightarrow> int \<Rightarrow> day_stat list" where
  "last_days zone days n now = map (\<lambda>i. let key = format_date (day_at zone now - int i) in
     case map_of days key of Some d \<Rightarrow> d | None \<Rightarrow> \<lparr>dt_date = key, dt_total = 0, dt_ok = 0\<rparr>) (rev [0..<n])"

definition uptime_pct :: "day_stat list \<Rightarrow> float64" where
  "uptime_pct days = (let total = sum_list (map dt_total days); ok = sum_list (map dt_ok days) in
     if total = 0 then 0 else fmul (fdiv (of_int ok) (of_int total)) 100)"

definition recent_window :: "sample list \<Rightarrow> int \<Rightarrow> int \<Rightarrow> sample list" where
  "recent_window samples window now = filter (\<lambda>s. now - window < sa_ts s) samples"

definition provider_view :: "int \<Rightarrow> pool_api \<Rightarrow> monitor_config \<Rightarrow> int \<Rightarrow> histories \<Rightarrow> monitor_target \<Rightarrow> provider_snapshot" where
  "provider_view zone p cfg now stores t =
     (let provider = pa_normalize p (mt_provider t); (ph, slot) = pool_health_for p now provider; view = new_pool_health_view ph;
          st = stores provider;
          days = (case st of None \<Rightarrow> [] | Some h \<Rightarrow> last_days zone (ps_days h) dayRetention now);
          ps = \<lparr>sn_name = display_name (pa_normalize p) provider, sn_provider = provider, sn_operational = [], sn_slot_available = slot,
            sn_healthy_creds = ph_by_state ph HealthHealthy, sn_serving_creds = ph_serving ph, sn_cooling_creds = ph_by_state ph HealthCooling,
            sn_worst_state = pv_worst_state view, sn_by_state = pv_by_state view, sn_total_creds = ph_total ph,
            sn_probe_enabled = (mc_enabled cfg \<and> mt_model t \<noteq> [] \<and> pick_api_key_cred p provider \<noteq> None),
            sn_last_probe = Option.bind st ps_last, sn_uptime_90d = days, sn_uptime_pct = uptime_pct days,
            sn_timeline_24h = (case st of None \<Rightarrow> [] | Some h \<Rightarrow> recent_window (ps_recent h) (24 * 3600 * second_ns) now)\<rparr>
      in ps\<lparr>sn_operational := derive_status ps\<rparr>)"

text \<open>The interval in minutes, and the providers.\<close>

definition get_snapshot :: "int \<Rightarrow> pool_api \<Rightarrow> monitor_config \<Rightarrow> int \<Rightarrow> histories \<Rightarrow> int \<times> provider_snapshot list" where
  "get_snapshot zone p cfg now stores =
     (let minutes = to_int64 (of_int (mc_interval cfg) / of_int (60 * second_ns)) in
      (if minutes = 0 then 10 else minutes, map (provider_view zone p cfg now stores) (mc_targets cfg)))"

end
