(* ===== verification/MonitorFacts.thy ===== *)
theory MonitorFacts
  imports Monitor UsageFacts
begin

text \<open>
  The monitor's history is a summary of the samples it was given: what it shows of the last ninety days and the
  last day is what an unbounded log of all samples would show.
\<close>

section \<open>The totals of a day\<close>

definition sample_day :: "int \<Rightarrow> sample \<Rightarrow> int" where
  "sample_day zone s = day_at zone (sa_ts s)"

definition day_of :: "int \<Rightarrow> sample list \<Rightarrow> int \<Rightarrow> sample list" where
  "day_of zone hs z = filter (\<lambda>s. sample_day zone s = z) hs"

definition stat_of :: "int \<Rightarrow> sample list \<Rightarrow> int \<Rightarrow> day_stat" where
  "stat_of zone hs z = \<lparr>dt_date = format_date z, dt_total = int (length (day_of zone hs z)),
     dt_ok = int (length (filter sa_ok (day_of zone hs z)))\<rparr>"

definition tallied :: "int \<Rightarrow> sample list \<Rightarrow> int \<Rightarrow> day_stat option" where
  "tallied zone hs z = (if day_of zone hs z = [] then None else Some (stat_of zone hs z))"

lemma count_day_keys: "fst ` set (count_day k ok ds) = insert k (fst ` set ds)"
  by (induction k ok ds rule: count_day.induct) auto

lemma count_day_distinct: "distinct (map fst ds) \<Longrightarrow> distinct (map fst (count_day k ok ds))"
  by (induction k ok ds rule: count_day.induct) (auto simp: count_day_keys)

lemma map_of_count_day:
  "map_of (count_day key ok ds) k = (if k = key then Some (case map_of ds key of
       None \<Rightarrow> \<lparr>dt_date = key, dt_total = 1, dt_ok = (if ok then 1 else 0)\<rparr>
     | Some d \<Rightarrow> d\<lparr>dt_total := dt_total d + 1, dt_ok := (if ok then dt_ok d + 1 else dt_ok d)\<rparr>) else map_of ds k)"
  by (induction key ok ds rule: count_day.induct) auto

lemma map_of_filter_key: "map_of (filter (\<lambda>(k, _). P k) ds) k = (if P k then map_of ds k else None)"
  by (induction ds) auto

lemma tallied_snoc:
  "tallied zone (hs @ [s]) z = (if sample_day zone s = z then Some (case tallied zone hs z of
       None \<Rightarrow> \<lparr>dt_date = format_date z, dt_total = 1, dt_ok = (if sa_ok s then 1 else 0)\<rparr>
     | Some d \<Rightarrow> d\<lparr>dt_total := dt_total d + 1, dt_ok := (if sa_ok s then dt_ok d + 1 else dt_ok d)\<rparr>) else tallied zone hs z)"
  by (auto simp: tallied_def stat_of_def day_of_def filter_empty_conv)

section \<open>Pruning\<close>

lemma text_less_format: "dated a \<Longrightarrow> dated b \<Longrightarrow> text_less (format_date a) (format_date b) \<longleftrightarrow> a < b"
  by (rule label_order) (rule parse_format, assumption)+

lemma newest_key_max:
  assumes "ds \<noteq> []" "\<forall>k \<in> fst ` set ds. \<exists>z. dated z \<and> k = format_date z"
  shows "\<exists>z. dated z \<and> newest_key ds = format_date z \<and> format_date z \<in> fst ` set ds \<and>
    (\<forall>y. dated y \<and> format_date y \<in> fst ` set ds \<longrightarrow> y \<le> z)"
  using assms
proof (induction ds rule: rev_induct)
  case (snoc x ds)
  obtain b where b: "dated b" "fst x = format_date b" using snoc.prems(2) by auto
  have step: "newest_key (ds @ [x]) = (if text_less (newest_key ds) (fst x) then fst x else newest_key ds)"
    by (simp add: newest_key_def case_prod_beta)
  have new: "y = b" if "dated y" "format_date y = fst x" for y using that b format_date_inj by metis
  show ?case
  proof (cases "ds = []")
    case True
    have "format_date b \<noteq> []" using parse_format[OF b(1)] by (auto simp: parse_date_def)
    then have "text_less [] (fst x)" using b(2) by (cases "format_date b") simp_all
    then have n: "newest_key (ds @ [x]) = format_date b" unfolding step using True b(2) by (simp add: newest_key_def)
    have "y \<le> b" if "dated y" "format_date y \<in> fst ` set (ds @ [x])" for y using new[of y] that True by simp
    with n b True show ?thesis by (intro exI[of _ b]) auto
  next
    case False
    then obtain z where z: "dated z" "newest_key ds = format_date z" "format_date z \<in> fst ` set ds"
      "\<forall>y. dated y \<and> format_date y \<in> fst ` set ds \<longrightarrow> y \<le> z" using snoc by auto
    show ?thesis
    proof (cases "z < b")
      case True
      then have n: "newest_key (ds @ [x]) = format_date b" unfolding step using b z text_less_format[OF z(1) b(1)] by simp
      have "y \<le> b" if "dated y" "format_date y \<in> fst ` set (ds @ [x])" for y using new[of y] that z(4) True by fastforce
      with n b show ?thesis by (intro exI[of _ b]) auto
    next
      case False
      then have n: "newest_key (ds @ [x]) = format_date z" unfolding step using b z text_less_format[OF z(1) b(1)] by simp
      have "y \<le> z" if "dated y" "format_date y \<in> fst ` set (ds @ [x])" for y using new[of y] that z(4) False by fastforce
      with n z show ?thesis by (intro exI[of _ z]) auto
    qed
  qed
qed simp

text \<open>The days a history is kept for end with the newest one.\<close>

definition keeps_days :: "int \<Rightarrow> sample list \<Rightarrow> (string \<times> day_stat) list \<Rightarrow> bool" where
  "keeps_days zone hs ds \<longleftrightarrow> distinct (map fst ds) \<and> length ds \<le> dayRetention \<and>
     (\<forall>k \<in> fst ` set ds. \<exists>s \<in> set hs. k = format_date (sample_day zone s)) \<and>
     (\<forall>z. dated z \<and> (\<forall>s \<in> set hs. sample_day zone s - int dayRetention < z) \<longrightarrow> map_of ds (format_date z) = tallied zone hs z)"

definition datable :: "int \<Rightarrow> sample \<Rightarrow> bool" where
  "datable zone s \<longleftrightarrow> dated (sample_day zone s) \<and> dated (sample_day zone s - (int dayRetention - 1))"


lemma keeps_count:
  assumes "keeps_days zone hs ds" "\<forall>x \<in> set (hs @ [s]). datable zone x" "dated z"
    "\<forall>x \<in> set (hs @ [s]). sample_day zone x - int dayRetention < z"
  shows "map_of (count_day (format_date (sample_day zone s)) (sa_ok s) ds) (format_date z) = tallied zone (hs @ [s]) z"
proof -
  have "map_of ds (format_date z) = tallied zone hs z" using assms unfolding keeps_days_def by simp
  moreover have "dated (sample_day zone s)" using assms(2) by (simp add: datable_def)
  then have "format_date z = format_date (sample_day zone s) \<longleftrightarrow> sample_day zone s = z" using assms(3) format_date_inj by metis
  ultimately show ?thesis unfolding map_of_count_day tallied_snoc by auto
qed

lemma days_of_range:
  assumes "distinct (map fst ds)" "\<forall>k \<in> fst ` set ds. \<exists>z. a \<le> z \<and> z \<le> b \<and> k = format_date z" "b - a < int n"
  shows "length ds \<le> n"
proof -
  have "fst ` set ds \<subseteq> format_date ` {a..b}" using assms(2) by fastforce
  then have "card (fst ` set ds) \<le> card {a..b}" by (rule surj_card_le[OF finite_atLeastAtMost_int])
  moreover have "card (fst ` set ds) = length ds" using distinct_card[OF assms(1)] by simp
  ultimately show ?thesis using assms(3) by simp
qed

lemma pruned_days:
  assumes ds: "distinct (map fst ds)" "dayRetention < length ds"
    and keys: "\<forall>k \<in> fst ` set ds. \<exists>s \<in> set hs. k = format_date (sample_day zone s)" and d: "\<forall>x \<in> set hs. datable zone x"
  shows "length (prune_days ds) \<le> dayRetention \<and> (\<forall>z. dated z \<and> (\<forall>s \<in> set hs. sample_day zone s - int dayRetention < z) \<longrightarrow>
    map_of (prune_days ds) (format_date z) = map_of ds (format_date z))"
proof -
  have dk: "\<forall>k \<in> fst ` set ds. \<exists>z. dated z \<and> k = format_date z" using keys d unfolding datable_def by blast
  have "ds \<noteq> []" using ds(2) by auto
  from newest_key_max[OF this dk] obtain n where n: "dated n" "newest_key ds = format_date n" "format_date n \<in> fst ` set ds"
    "\<forall>y. dated y \<and> format_date y \<in> fst ` set ds \<longrightarrow> y \<le> n" by blast
  from keys n(3) obtain s where s: "s \<in> set hs" "format_date n = format_date (sample_day zone s)" by blast
  then have sn: "sample_day zone s = n" using d n(1) format_date_inj unfolding datable_def by metis
  then have cut: "dated (n - (int dayRetention - 1))" using d s(1) by (auto simp: datable_def)
  have p: "prune_days ds = filter (\<lambda>(k, _). \<not> text_less k (format_date (n - (int dayRetention - 1)))) ds"
    using ds(2) parse_format[OF n(1)] by (simp add: prune_days_def n(2) Let_def)
  have "\<exists>z. n - (int dayRetention - 1) \<le> z \<and> z \<le> n \<and> k = format_date z" if k: "k \<in> fst ` set (prune_days ds)" for k
  proof -
    from k have k': "k \<in> fst ` set ds" "\<not> text_less k (format_date (n - (int dayRetention - 1)))" unfolding p by auto
    with dk obtain z where z: "dated z" "k = format_date z" by blast
    then have "z \<le> n" "n - (int dayRetention - 1) \<le> z" using n(4) k' text_less_format[OF z(1) cut] by auto
    with z(2) show ?thesis by blast
  qed
  moreover have "distinct (map fst (prune_days ds))" unfolding p using ds(1) by (induction ds) auto
  ultimately have "length (prune_days ds) \<le> dayRetention" by (intro days_of_range) auto
  moreover have "map_of (prune_days ds) (format_date z) = map_of ds (format_date z)"
    if "dated z" "\<forall>s \<in> set hs. sample_day zone s - int dayRetention < z" for z
    unfolding p map_of_filter_key text_less_format[OF that(1) cut] using that(2) s(1) sn by fastforce
  ultimately show ?thesis by blast
qed

lemma keeps_days_step:
  assumes k: "keeps_days zone hs ds" and d: "\<forall>x \<in> set (hs @ [s]). datable zone x"
  shows "keeps_days zone (hs @ [s]) (prune_days (count_day (format_date (sample_day zone s)) (sa_ok s) ds))"
proof -
  define ds' where "ds' = count_day (format_date (sample_day zone s)) (sa_ok s) ds"
  have dist: "distinct (map fst ds')" using k unfolding ds'_def keeps_days_def by (simp add: count_day_distinct)
  have keys: "\<forall>k \<in> fst ` set ds'. \<exists>x \<in> set (hs @ [s]). k = format_date (sample_day zone x)"
    using k unfolding ds'_def keeps_days_def count_day_keys by auto
  have look: "map_of ds' (format_date z) = tallied zone (hs @ [s]) z"
    if "dated z" "\<forall>x \<in> set (hs @ [s]). sample_day zone x - int dayRetention < z" for z
    unfolding ds'_def using keeps_count[OF k d that] .
  have sub: "set (prune_days ds') \<subseteq> set ds'" "distinct (map fst (prune_days ds'))"
    using dist by (auto simp: prune_days_def Let_def distinct_map_filter split: option.splits)
  have len: "length (prune_days ds') \<le> dayRetention" and pl: "\<And>z. dated z \<Longrightarrow> \<forall>x \<in> set (hs @ [s]). sample_day zone x - int dayRetention < z \<Longrightarrow>
      map_of (prune_days ds') (format_date z) = map_of ds' (format_date z)"
    using pruned_days[OF dist _ keys d] by (cases "length ds' \<le> dayRetention", simp_all add: prune_days_def)
  have ks: "\<forall>k \<in> fst ` set (prune_days ds'). \<exists>x \<in> set (hs @ [s]). k = format_date (sample_day zone x)"
    using keys image_mono[OF sub(1), of fst] by blast
  show ?thesis unfolding keeps_days_def ds'_def[symmetric] using sub(2) len ks pl look by simp
qed

section \<open>A history of samples\<close>

definition record_all :: "int \<Rightarrow> sample list \<Rightarrow> prov_store" where
  "record_all zone hs = foldl (\<lambda>st s. record_sample zone s st) new_prov_store hs"

definition latest :: "sample list \<Rightarrow> int" where "latest hs = Max (sa_ts ` set hs)"

lemma record_all_snoc: "record_all zone (hs @ [s]) = record_sample zone s (record_all zone hs)"
  by (simp add: record_all_def)

lemma record_all_days: "\<forall>x \<in> set hs. datable zone x \<Longrightarrow> keeps_days zone hs (ps_days (record_all zone hs))"
proof (induction hs rule: rev_induct)
  case Nil
  show ?case by (simp add: record_all_def new_prov_store_def keeps_days_def tallied_def day_of_def)
next
  case (snoc s hs)
  then have "keeps_days zone hs (ps_days (record_all zone hs))" by simp
  from keeps_days_step[OF this snoc.prems] show ?case
    by (simp add: record_all_snoc record_sample_def Let_def sample_day_def healthy_signal_def)
qed

lemma foldl_max: "foldl (\<lambda>t x. max t (sa_ts x)) a xs = Max (insert a (sa_ts ` set xs))"
proof (induction xs arbitrary: a)
  case (Cons x xs)
  have "Max (insert (max a (sa_ts x)) (sa_ts ` set xs)) = Max (insert a (insert (sa_ts x) (sa_ts ` set xs)))"
    by (cases "xs = []") (simp_all add: max.assoc)
  with Cons show ?case by simp
qed simp

lemma record_all_recent: "ps_recent (record_all zone hs) = filter (\<lambda>x. latest hs - recentRetention < sa_ts x) hs"
proof (induction hs rule: rev_induct)
  case (snoc s hs)
  define r where "r = filter (\<lambda>x. latest hs - recentRetention < sa_ts x) hs"
  have pos: "0 < recentRetention" by (simp add: recentRetention_def second_ns_def)
  have l: "Max (insert (sa_ts s) (sa_ts ` set (r @ [s]))) = latest (hs @ [s])"
  proof (cases "hs = []")
    case False
    then have "latest hs \<in> sa_ts ` set hs" unfolding latest_def by (intro Max_in) auto
    then obtain m where m: "m \<in> set hs" "sa_ts m = latest hs" by auto
    then have mr: "m \<in> set r" using pos by (simp add: r_def)
    have "sa_ts x \<le> sa_ts m" if "x \<in> set hs" for x unfolding m(2) latest_def using that by simp
    then show ?thesis unfolding latest_def using mr m(1)
      by (intro Max_eq_if) (auto simp: r_def)
  qed (simp add: r_def latest_def)
  have le: "latest hs \<le> latest (hs @ [s])" if "hs \<noteq> []" unfolding latest_def using that by (intro Max_mono) auto
  have "filter (\<lambda>x. latest (hs @ [s]) - recentRetention < sa_ts x) r = filter (\<lambda>x. latest (hs @ [s]) - recentRetention < sa_ts x) hs"
    unfolding r_def filter_filter using le by (intro filter_cong) (auto, force)
  moreover have "ps_recent (record_all zone hs) = r" using snoc.IH unfolding r_def .
  ultimately show ?case unfolding record_all_snoc record_sample_def Let_def foldl_max
    by (simp add: l[simplified])
qed (simp add: record_all_def new_prov_store_def)

section \<open>What the page shows\<close>

text \<open>The same figures from an unbounded log of the provider's samples.\<close>

definition log_days :: "int \<Rightarrow> sample list \<Rightarrow> nat \<Rightarrow> int \<Rightarrow> day_stat list" where
  "log_days zone hs n now = map (\<lambda>i. stat_of zone hs (day_at zone now - int i)) (rev [0..<n])"

definition monitor_run :: "int \<Rightarrow> (string \<times> sample) list \<Rightarrow> histories \<Rightarrow> histories" where
  "monitor_run zone evs m = foldl (\<lambda>m (p, s). monitor_record zone p s m) m evs"

definition samples_of :: "string \<Rightarrow> (string \<times> sample) list \<Rightarrow> sample list" where
  "samples_of p evs = map snd (filter (\<lambda>e. fst e = p) evs)"

definition history_at :: "histories \<Rightarrow> string \<Rightarrow> prov_store" where
  "history_at m p = (case m p of None \<Rightarrow> new_prov_store | Some st \<Rightarrow> st)"

lemma history_at_run:
  assumes "history_at m p = new_prov_store"
  shows "history_at (monitor_run zone evs m) p = record_all zone (samples_of p evs)"
proof (induction evs rule: rev_induct)
  case Nil
  show ?case using assms by (simp add: monitor_run_def samples_of_def record_all_def)
next
  case (snoc e evs)
  then show ?case
    by (cases "fst e = p")
      (auto simp: monitor_run_def samples_of_def history_at_def monitor_record_def case_prod_beta record_all_snoc)
qed

lemma run_keeps_providers: "m p \<noteq> None \<Longrightarrow> monitor_run zone evs m p \<noteq> None"
  by (induction evs rule: rev_induct) (auto simp: monitor_run_def monitor_record_def case_prod_beta)

lemma fresh_histories: "fold (\<lambda>t m. m(canon (mt_provider t) \<mapsto> new_prov_store)) ts m p =
    (if p \<in> (\<lambda>t. canon (mt_provider t)) ` set ts then Some new_prov_store else m p)"
  by (induction ts arbitrary: m) auto

lemma fresh_monitor: "new_monitor canon cfg None p =
    (if p \<in> (\<lambda>t. canon (mt_provider t)) ` set (mc_targets cfg) then Some new_prov_store else None)"
  by (simp add: new_monitor_def load_histories_def fresh_histories)

lemma day_at_mono: "s \<le> t \<Longrightarrow> day_at zone s \<le> day_at zone t"
  by (simp add: day_at_def unix_seconds_def second_ns_def zdiv_mono1)

lemma shown_days:
  assumes d: "\<forall>x \<in> set hs. datable zone x \<and> sa_ts x \<le> now"
    and n: "dated (day_at zone now)" "dated (day_at zone now - (int dayRetention - 1))"
  shows "last_days zone (ps_days (record_all zone hs)) dayRetention now = log_days zone hs dayRetention now"
proof -
  have k: "keeps_days zone hs (ps_days (record_all zone hs))" using d by (intro record_all_days) auto
  have "(case map_of (ps_days (record_all zone hs)) (format_date z) of Some d \<Rightarrow> d
      | None \<Rightarrow> \<lparr>dt_date = format_date z, dt_total = 0, dt_ok = 0\<rparr>) = stat_of zone hs z"
    if i: "i < dayRetention" and z: "z = day_at zone now - int i" for i z
  proof -
    have dz: "dated z" by (rule dated_between[OF n(2,1)]) (use i in \<open>simp_all add: z\<close>)
    have "sample_day zone s - int dayRetention < z" if "s \<in> set hs" for s
      using d that i day_at_mono[of "sa_ts s" now zone] unfolding z sample_day_def by fastforce
    then have "map_of (ps_days (record_all zone hs)) (format_date z) = tallied zone hs z"
      using k dz unfolding keeps_days_def by blast
    then show ?thesis by (simp add: tallied_def stat_of_def)
  qed
  then show ?thesis unfolding last_days_def log_days_def Let_def by simp
qed

lemma shown_window:
  assumes "\<forall>x \<in> set hs. sa_ts x \<le> now"
  shows "recent_window (ps_recent (record_all zone hs)) (24 * 3600 * second_ns) now = recent_window hs (24 * 3600 * second_ns) now"
proof (cases "hs = []")
  case False
  then have "latest hs \<le> now" using assms by (simp add: latest_def)
  then show ?thesis unfolding record_all_recent recent_window_def filter_filter
    by (intro filter_cong) (auto simp: recentRetention_def second_ns_def)
qed (simp add: record_all_recent)

lemma shown_last: "ps_last (record_all zone hs) = (if hs = [] then None else Some (last hs))"
  by (induction hs rule: rev_induct) (simp_all add: record_all_snoc record_sample_def Let_def record_all_def[of _ "[]"] new_prov_store_def)

lemma provider_view_history:
  assumes "stores (pa_normalize p (mt_provider t)) \<noteq> None"
  defines "h \<equiv> history_at stores (pa_normalize p (mt_provider t))"
  shows "sn_uptime_90d (provider_view zone p cfg now stores t) = last_days zone (ps_days h) dayRetention now"
    "sn_timeline_24h (provider_view zone p cfg now stores t) = recent_window (ps_recent h) (24 * 3600 * second_ns) now"
    "sn_last_probe (provider_view zone p cfg now stores t) = ps_last h"
  using assms by (auto simp: provider_view_def Let_def history_at_def case_prod_beta)

text \<open>C39. Whatever samples a fresh monitor recorded for its providers, none later than now, the page of a provider
  shows ninety days, the last day and the last sample exactly as an unbounded log of that provider's samples would,
  though no history holds more than ninety days of totals.\<close>

lemma uptime_is_the_history:
  assumes "t \<in> set (mc_targets cfg)" "hs = samples_of (pa_normalize p (mt_provider t)) evs"
    and "\<forall>x \<in> set hs. datable zone x \<and> sa_ts x \<le> now"
    and "dated (day_at zone now)" "dated (day_at zone now - (int dayRetention - 1))"
    and "stores = monitor_run zone evs (new_monitor (pa_normalize p) cfg None)"
  shows "sn_uptime_90d (provider_view zone p cfg now stores t) = log_days zone hs dayRetention now \<and>
    sn_timeline_24h (provider_view zone p cfg now stores t) = recent_window hs (24 * 3600 * second_ns) now \<and>
    sn_last_probe (provider_view zone p cfg now stores t) = (if hs = [] then None else Some (last hs)) \<and>
    (\<forall>st. stores (pa_normalize p (mt_provider t)) = Some st \<longrightarrow> length (ps_days st) \<le> dayRetention)"
proof -
  define q where "q = pa_normalize p (mt_provider t)"
  have f: "new_monitor (pa_normalize p) cfg None q = Some new_prov_store" using assms(1) by (auto simp: fresh_monitor q_def)
  then have h: "history_at stores q = record_all zone hs"
    unfolding assms(2,6) q_def[symmetric] by (intro history_at_run) (simp add: history_at_def)
  have s: "stores q \<noteq> None" unfolding assms(6) using f by (intro run_keeps_providers) simp
  have "length (ps_days (history_at stores q)) \<le> dayRetention"
    using record_all_days[of hs zone] assms(3) unfolding h keeps_days_def by auto
  then have l: "stores q = Some st \<Longrightarrow> length (ps_days st) \<le> dayRetention" for st by (simp add: history_at_def)
  note v = provider_view_history[of stores p t, folded q_def, OF s]
  show ?thesis unfolding v h using shown_days[OF assms(3-5)] shown_window[of hs now zone] shown_last[of zone hs] assms(3) l
    by (simp add: q_def)
qed

definition demo_sample :: sample where
  "demo_sample = \<lparr>sa_ts = 1750000000 * second_ns, sa_ok = False, sa_status = 0, sa_latency_ms = 15000, sa_err = ''timeout''\<rparr>"

lemma uptime_is_the_history_witness:
  "\<exists>p cfg t. sn_last_probe (provider_view 0 p cfg (1750000060 * second_ns)
      (monitor_run 0 [(''openai'', demo_sample)] (new_monitor (pa_normalize p) cfg None)) t) = Some demo_sample"
proof -
  define p where "p = \<lparr>pa_normalize = (\<lambda>s. s), pa_status = [], pa_live = Map.empty, pa_new_health = (\<lambda>_ _. undefined)\<rparr>"
  define t where "t = \<lparr>mt_provider = ''openai'', mt_model = ''m''\<rparr>"
  define cfg where "cfg = \<lparr>mc_enabled = True, mc_interval = 0, mc_state_file = [], mc_targets = [t]\<rparr>"
  have d: "dated (sample_day 0 demo_sample)" "dated (sample_day 0 demo_sample - (int dayRetention - 1))" "sample_day 0 demo_sample = 20254"
    by (simp_all add: demo_sample_def sample_day_def day_at_def unix_seconds_def second_ns_def dated_def dayRetention_def days_before_year_def)
  have n: "day_at 0 (1750000060 * second_ns) = 20254" by (simp add: day_at_def unix_seconds_def second_ns_def)
  have hs: "[demo_sample] = samples_of (pa_normalize p (mt_provider t)) [(''openai'', demo_sample)]" by (simp add: samples_of_def p_def t_def)
  have "sn_last_probe (provider_view 0 p cfg (1750000060 * second_ns)
      (monitor_run 0 [(''openai'', demo_sample)] (new_monitor (pa_normalize p) cfg None)) t) = Some demo_sample"
    using uptime_is_the_history[OF _ hs _ _ _ refl, where cfg = cfg and now = "1750000060 * second_ns" and zone = 0] d n
    by (auto simp: cfg_def datable_def demo_sample_def second_ns_def)
  then show ?thesis by blast
qed

section \<open>What makes a sample green\<close>

lemma count_day_length: "length (count_day k ok ds) \<le> Suc (length ds)"
  by (induction k ok ds rule: count_day.induct) auto

definition day_counts :: "(string \<times> day_stat) list \<Rightarrow> string \<Rightarrow> int \<times> int" where
  "day_counts ds k = (case map_of ds k of None \<Rightarrow> (0, 0) | Some d \<Rightarrow> (dt_total d, dt_ok d))"

lemma sample_is_counted:
  assumes "length (ps_days st) < dayRetention"
  shows "day_counts (ps_days (record_sample zone s st)) (format_date (day_at zone (sa_ts s))) =
    (let (n, k) = day_counts (ps_days st) (format_date (day_at zone (sa_ts s))) in (n + 1, if sa_ok s then k + 1 else k))"
proof -
  have "length (count_day (format_date (day_at zone (sa_ts s))) (sa_ok s) (ps_days st)) \<le> dayRetention"
    using assms count_day_length[of "format_date (day_at zone (sa_ts s))" "sa_ok s" "ps_days st"] by linarith
  then show ?thesis by (auto simp: record_sample_def Let_def prune_days_def healthy_signal_def day_counts_def map_of_count_day
      split: option.splits)
qed

lemma probe_ok: "sa_ok (probe send start provider cred model) \<longleftrightarrow>
    (\<exists>ms st. send (direct_probe_request provider (pt_base_url cred) (pt_secret cred)
      (case pt_upstream_model cred model of Some m \<Rightarrow> if m = [] then model else m | None \<Rightarrow> model)) = Got_status ms st \<and>
      200 \<le> st \<and> st < 300)"
  by (auto simp: probe_def Let_def split: probe_outcome.splits)

lemma passive_ok: "sa_ok (passive_sample p now provider) \<longleftrightarrow> 0 < ph_by_state (fst (pool_health_for p now provider)) HealthHealthy"
  by (simp add: passive_sample_def Let_def)

text \<open>A probe of an API key that is not answered with a 2xx (a timeout, a refused connection and a 4xx among
  them) counts against its day, whatever the pool says of the other credentials.\<close>

lemma failed_probe_docks_the_day:
  assumes "pick_api_key_cred p (pa_normalize p (mt_provider t)) = Some i"
    and "\<And>q ms st. send q = Got_status ms st \<Longrightarrow> st < 200 \<or> 300 \<le> st"
    and "length (ps_days h) < dayRetention" "s = take_sample p creds send now t"
  shows "\<not> sa_ok s \<and> sa_ts s = now \<and> (\<forall>n k. day_counts (ps_days h) (format_date (day_at zone now)) = (n, k) \<longrightarrow>
    day_counts (ps_days (record_sample zone s h)) (format_date (day_at zone now)) = (n + 1, k))"
proof -
  have "\<not> sa_ok s" unfolding assms(4) take_sample_def Let_def assms(1) option.case probe_ok using assms(2) by fastforce
  moreover have "sa_ts s = now" unfolding assms(4) take_sample_def Let_def assms(1) option.case
    by (simp add: probe_def Let_def split: probe_outcome.splits)
  ultimately show ?thesis using sample_is_counted[OF assms(3), of zone s] by simp
qed

lemma failed_probe_docks_the_day_witness:
  "\<exists>p t h s. \<not> sa_ok s \<and> s = take_sample p (\<lambda>_. \<lparr>pt_base_url = [], pt_secret = ''k'', pt_upstream_model = Map.empty\<rparr>)
     (\<lambda>_. No_answer 15000 ''timeout'') 0 t \<and>
     day_counts (ps_days (record_sample 0 s h)) (format_date (day_at 0 0)) = (1, 0)"
proof -
  define r where "r = (undefined :: health_report)\<lparr>hr_serving := True\<rparr>"
  define a where "a = (undefined :: auth_info)\<lparr>ai_id := ''k'', ai_api_key := True, ai_provider := ''openai''\<rparr>"
  define p where "p = \<lparr>pa_normalize = (\<lambda>s. s), pa_status = [(a, 0)], pa_live = (\<lambda>_. Some r), pa_new_health = (\<lambda>_ _. undefined)\<rparr>"
  define t where "t = \<lparr>mt_provider = ''openai'', mt_model = ''m''\<rparr>"
  have "pick_api_key_cred p (pa_normalize p (mt_provider t)) = Some ''k''"
    by (simp add: pick_api_key_cred_def p_def t_def a_def r_def)
  from failed_probe_docks_the_day[OF this, of "\<lambda>_. No_answer 15000 ''timeout''" new_prov_store _
      "\<lambda>_. \<lparr>pt_base_url = [], pt_secret = ''k'', pt_upstream_model = Map.empty\<rparr>" 0 0, OF _ _ refl]
  show ?thesis by (intro exI[of _ p] exI[of _ t] exI[of _ new_prov_store] exI)
    (auto simp: new_prov_store_def dayRetention_def day_counts_def)
qed

section \<open>The state of a provider\<close>

text \<open>The page never calls a provider up that the router has no credential for, and calls it operational only with
  a free slot and no credential half open, degraded or cooling.\<close>

lemma operational_can_serve:
  assumes "\<And>prov rs. ph_total (pa_new_health p prov rs) = int (length rs) \<and>
      ph_serving (pa_new_health p prov rs) = int (length (filter hr_serving rs))"
    and "v = provider_view zone p cfg now stores t"
  shows "(sn_operational v = ''down'' \<longleftrightarrow> (\<forall>st \<in> set (provider_members p (pa_normalize p (mt_provider t))).
      \<not> hr_serving (health_report_for (Some p) now (fst st)))) \<and>
    (sn_operational v = ''operational'' \<longrightarrow>
      (\<exists>st \<in> set (provider_members p (pa_normalize p (mt_provider t))). hr_serving (health_report_for (Some p) now (fst st)) \<and> free_slot st))"
  unfolding assms(2) provider_view_def Let_def pool_health_for_def new_pool_health_view_def derive_status_def
  by (auto simp: assms(1) filter_empty_conv filter_map o_def Bex_def)

end
