(* ===== verification/StatusPage.thy ===== *)
theory StatusPage
  imports AdminStatement Monitor InboundMail
begin

text \<open>
  The public status page (\<open>internal/admin/status.go\<close>) and the reading of its date bounds (\<open>admin.go\<close>): the census of
  the pool, the dashboard with its anonymous names, the lookup of tokens and their paged history. Nobody signs in
  here; a token is looked up by whoever knows it. The pool, the usage ledger, the price list and the request log
  belong to cc-core and are fields of \<open>status_env\<close>. Instants are nanoseconds since 1970.
\<close>

section \<open>Anonymous names\<close>

definition statusPseudonyms :: "string list" where
  "statusPseudonyms = [''Alice'', ''Bob'', ''Carol'', ''Dave'', ''Eve'', ''Frank'', ''Grace'', ''Heidi'',
     ''Ivan'', ''Judy'', ''Mallory'', ''Niaj'', ''Olivia'', ''Peggy'', ''Quentin'', ''Rupert'',
     ''Sybil'', ''Trent'', ''Uma'', ''Victor'', ''Walter'', ''Xena'', ''Yvonne'', ''Zach'',
     ''Aria'', ''Blake'', ''Cleo'', ''Dax'', ''Enzo'', ''Faye'', ''Gus'', ''Hana'',
     ''Iris'', ''Jace'', ''Kai'', ''Luna'', ''Milo'', ''Nova'', ''Otto'', ''Pia'',
     ''Quill'', ''Remy'', ''Sage'', ''Tess'', ''Ulli'', ''Vera'', ''Wren'', ''Yuri'']"

definition fnv1a :: "string \<Rightarrow> 32 word" where
  "fnv1a key = foldl (\<lambda>h c. xor h (of_nat (of_char c)) * 16777619) 2166136261 key"

definition pseudonym_for :: "string \<Rightarrow> string" where
  "pseudonym_for key = (if key = [] then ''Anon'' else statusPseudonyms ! (unat (fnv1a key) mod length statusPseudonyms))"

definition anonymize_by_client :: "buckets \<Rightarrow> buckets" where
  "anonymize_by_client bs = rename_buckets pseudonym_for bs"

section \<open>Health on the wire\<close>

record auth_health =
  ah_state :: string
  ah_serving :: bool
  ah_reason :: string
  ah_retry_seconds :: int
  ah_failures :: int
  ah_strikes :: int
  ah_until :: "int option"
  ah_last_success :: "int option"

definition optional_time :: "int \<Rightarrow> int option" where
  "optional_time t = (if t = zero_time then None else Some t)"

text \<open>The sum is a 64-bit duration and may wrap.\<close>

definition seconds_up :: "int \<Rightarrow> int" where
  "seconds_up d = (let n = signed_take_bit 63 (d + second_ns - 1) in if n < 0 then - ((- n) div second_ns) else n div second_ns)"

definition new_auth_health :: "health_report \<Rightarrow> auth_health" where
  "new_auth_health r = \<lparr>ah_state = (if hr_state r = [] then HealthHealthy else hr_state r), ah_serving = hr_serving r, ah_reason = hr_reason r,
     ah_retry_seconds = (if 0 < hr_retry_after r then seconds_up (hr_retry_after r) else 0), ah_failures = hr_failures r,
     ah_strikes = hr_quarantine_strikes r, ah_until = optional_time (hr_quarantine_until r), ah_last_success = optional_time (hr_last_success r)\<rparr>"

section \<open>The census\<close>

record status_counts =
  ct_total :: int
  ct_healthy :: int
  ct_half_open :: int
  ct_degraded :: int
  ct_quota :: int
  ct_cooling :: int
  ct_unhealthy :: int
  ct_disabled :: int
  ct_serving :: int
  ct_oauth :: int
  ct_apikey :: int
  ct_models :: int

definition no_counts :: status_counts where
  "no_counts = \<lparr>ct_total = 0, ct_healthy = 0, ct_half_open = 0, ct_degraded = 0, ct_quota = 0, ct_cooling = 0, ct_unhealthy = 0,
     ct_disabled = 0, ct_serving = 0, ct_oauth = 0, ct_apikey = 0, ct_models = 0\<rparr>"

record overview_auth =
  oa_kind :: string
  oa_label :: string
  oa_group :: string
  oa_healthy :: bool
  oa_disabled :: bool
  oa_quota_exceeded :: bool
  oa_hard_failure :: bool
  oa_health :: auth_health

text \<open>What cc-core publishes of one client: its total, the weeks newest first, and what a week cost.\<close>

record client_usage =
  cu_total :: json
  cu_weekly_ordered :: "int \<Rightarrow> json list"
  cu_last_used :: int
  cu_week_cost :: "string \<Rightarrow> float64 option"

record status_log = request_log +
  sl_hourly :: "int \<Rightarrow> string + json list"
  sl_by_auth :: "int \<Rightarrow> string + (string \<times> aggregate) list"

record status_env =
  se_pool :: pool_api
  se_report_healthy :: "health_report \<Rightarrow> bool"
  se_models :: nat
  se_pricing :: "(string \<times> json) list option"
  se_labels :: "string \<rightharpoonup> string \<times> bool"
  se_clients :: "string \<Rightarrow> client_usage option"
  se_week :: string

definition count_state :: "string \<Rightarrow> status_counts \<Rightarrow> status_counts" where
  "count_state s c = (if s = HealthHealthy then c\<lparr>ct_healthy := ct_healthy c + 1\<rparr>
     else if s = HealthHalfOpen then c\<lparr>ct_half_open := ct_half_open c + 1\<rparr>
     else if s = HealthDegraded then c\<lparr>ct_degraded := ct_degraded c + 1\<rparr>
     else if s = HealthQuota then c\<lparr>ct_quota := ct_quota c + 1\<rparr>
     else if s = HealthCooling then c\<lparr>ct_cooling := ct_cooling c + 1\<rparr>
     else if s = HealthHardFailed then c\<lparr>ct_unhealthy := ct_unhealthy c + 1\<rparr>
     else if s = HealthDisabled then c\<lparr>ct_disabled := ct_disabled c + 1\<rparr> else c)"

definition count_auth :: "auth_info \<Rightarrow> health_report \<Rightarrow> status_counts \<Rightarrow> status_counts" where
  "count_auth i rep c =
     (let c1 = (if ai_api_key i then c\<lparr>ct_apikey := ct_apikey c + 1\<rparr> else c\<lparr>ct_oauth := ct_oauth c + 1\<rparr>);
          c2 = c1\<lparr>ct_total := ct_total c1 + 1\<rparr>;
          c3 = (if hr_serving rep then c2\<lparr>ct_serving := ct_serving c2 + 1\<rparr> else c2)
      in count_state (hr_state rep) c3)"

text \<open>The tags of the request log.\<close>

definition auth_kind_string :: "bool \<Rightarrow> string" where
  "auth_kind_string api_key = (if api_key then ''apikey'' else ''oauth'')"

text \<open>Forty-eight bytes and an ellipsis.\<close>

definition short_label :: "string \<Rightarrow> string" where
  "short_label s = (if 48 < length s then take 48 s @ [CHR 0xE2, CHR 0x80, CHR 0xA6] else s)"

definition overview_row :: "(health_report \<Rightarrow> bool) \<Rightarrow> auth_info \<Rightarrow> health_report \<Rightarrow> overview_auth" where
  "overview_row healthy i rep = \<lparr>oa_kind = auth_kind_string (ai_api_key i), oa_label = short_label (ai_label i), oa_group = ai_group i,
     oa_healthy = healthy rep, oa_disabled = (hr_state rep = HealthDisabled), oa_quota_exceeded = (hr_state rep = HealthQuota),
     oa_hard_failure = (hr_state rep = HealthHardFailed), oa_health = new_auth_health rep\<rparr>"

fun add_report :: "string \<Rightarrow> health_report \<Rightarrow> (string \<times> health_report list) list \<Rightarrow> (string \<times> health_report list) list" where
  "add_report prov r [] = [(prov, [r])]"
| "add_report prov r ((k, rs) # bs) = (if k = prov then (k, rs @ [r]) # bs else (k, rs) # add_report prov r bs)"

record status_census =
  cn_counts :: status_counts
  cn_pools :: "(string \<times> pool_health_view) list"
  cn_auths :: "overview_auth list"

definition census_reports :: "status_env \<Rightarrow> int \<Rightarrow> (auth_info \<times> health_report) list" where
  "census_reports e now = map (\<lambda>(i, _). (i, health_report_for (Some (se_pool e)) now i)) (pa_status (se_pool e))"

definition take_census :: "status_env \<Rightarrow> int \<Rightarrow> status_census" where
  "take_census e now = (let reps = census_reports e now; prov = (\<lambda>i. pa_normalize (se_pool e) (ai_provider i)) in
     \<lparr>cn_counts = (fold (\<lambda>(i, r). count_auth i r) reps no_counts)\<lparr>ct_models := int (se_models e)\<rparr>,
      cn_pools = map (\<lambda>(k, rs). (k, new_pool_health_view (pa_new_health (se_pool e) k rs)))
        (fold (\<lambda>(i, r). add_report (prov i) r) reps []),
      cn_auths = map (\<lambda>(i, r). overview_row (se_report_healthy e) i r) reps\<rparr>)"

section \<open>Dashboard and overview\<close>

text \<open>The state of the handler that these pages share: answers of the log, the hourly buckets and the totals of the
  last day, each with when it was fetched.\<close>

record status_window24 =
  sw_requests :: int
  sw_cost_usd :: float64
  sw_errors :: int

record status_caches =
  st_queries :: query_cache
  st_hourly :: "(json list \<times> int) option"
  st_window24 :: "(status_window24 \<times> int) option"

definition fresh :: "int \<Rightarrow> ('a \<times> int) option \<Rightarrow> 'a option" where
  "fresh now c = (case c of Some (v, put) \<Rightarrow> if now - put < statusCacheTTL then Some v else None | None \<Rightarrow> None)"

definition status_hourly24 :: "status_log \<Rightarrow> int \<Rightarrow> status_caches \<Rightarrow> json list \<times> status_caches" where
  "status_hourly24 rl now sc = (case fresh now (st_hourly sc) of Some b \<Rightarrow> (b, sc)
     | None \<Rightarrow> (case sl_hourly rl 24 of Inl _ \<Rightarrow> ([], sc) | Inr b \<Rightarrow> (b, sc\<lparr>st_hourly := Some (b, now)\<rparr>)))"

definition day_ns :: int where "day_ns = 86400 * second_ns"

definition no_window24 :: status_window24 where
  "no_window24 = \<lparr>sw_requests = 0, sw_cost_usd = 0, sw_errors = 0\<rparr>"

definition add_window24 :: "aggregate \<Rightarrow> status_window24 \<Rightarrow> status_window24" where
  "add_window24 a w = w\<lparr>sw_requests := sw_requests w + ag_count a, sw_cost_usd := fadd (sw_cost_usd w) (ag_cost_usd a),
     sw_errors := sw_errors w + ag_errors a\<rparr>"

definition status_window24h :: "status_log \<Rightarrow> int \<Rightarrow> status_caches \<Rightarrow> status_window24 \<times> status_caches" where
  "status_window24h rl now sc = (case fresh now (st_window24 sc) of Some w \<Rightarrow> (w, sc)
     | None \<Rightarrow> (case sl_by_auth rl (now - day_ns) of Inl _ \<Rightarrow> (no_window24, sc)
       | Inr agg \<Rightarrow> let w = fold (\<lambda>(_, a). add_window24 a) agg no_window24 in (w, sc\<lparr>st_window24 := Some (w, now)\<rparr>)))"

text \<open>One query of the log through the shared cache.\<close>

definition status_ask :: "status_log \<Rightarrow> int \<Rightarrow> query_filter \<Rightarrow> status_caches \<Rightarrow> (string + query_result) \<times> status_caches" where
  "status_ask rl now f sc = (case cached_query_shared (request_log.truncate rl) now f statusCacheTTL (st_queries sc) of
     (r, c) \<Rightarrow> (r, sc\<lparr>st_queries := c\<rparr>))"

record dashboard_requests =
  dr_summary :: aggregate
  dr_by_client :: buckets
  dr_by_model :: buckets
  dr_by_day :: buckets

definition no_requests :: dashboard_requests where
  "no_requests = \<lparr>dr_summary = zero_aggregate, dr_by_client = [], dr_by_model = [], dr_by_day = []\<rparr>"

definition dashboard_answer :: "string + query_result \<Rightarrow> dashboard_requests" where
  "dashboard_answer r = (case r of Inl _ \<Rightarrow> no_requests
     | Inr q \<Rightarrow> \<lparr>dr_summary = qr_summary q, dr_by_client = anonymize_by_client (qr_by_client q), dr_by_model = qr_by_model q,
         dr_by_day = qr_by_day q\<rparr>)"

record status_dashboard =
  sd_counts :: status_counts
  sd_pool :: "(string \<times> pool_health_view) list"
  sd_pricing :: "(string \<times> json) list option"
  sd_requests_14d :: dashboard_requests
  sd_requests_all :: dashboard_requests
  sd_hourly_24h :: "json list"

definition status_dashboard_page :: "statement_handler \<Rightarrow> status_env \<Rightarrow> status_log \<Rightarrow> int \<Rightarrow> status_caches \<Rightarrow> status_dashboard \<times> status_caches" where
  "status_dashboard_page h e rl now sc =
     (let census = take_census e now; today = day_at (rl_offset rl) now;
          out = \<lparr>sd_counts = cn_counts census, sd_pool = cn_pools census, sd_pricing = se_pricing e,
            sd_requests_14d = no_requests, sd_requests_all = no_requests, sd_hourly_24h = []\<rparr>
      in if sh_log_dir h = [] then (out, sc)
         else case status_ask rl now (no_filter\<lparr>qf_from_day := format_date (today - 13), qf_to_day := format_date today, qf_limit := 1\<rparr>) sc of
           (r1, sc1) \<Rightarrow> (case status_ask rl now (no_filter\<lparr>qf_limit := 1\<rparr>) sc1 of
           (r2, sc2) \<Rightarrow> (case status_hourly24 rl now sc2 of
           (hours, sc3) \<Rightarrow> (out\<lparr>sd_requests_14d := dashboard_answer r1, sd_requests_all := dashboard_answer r2, sd_hourly_24h := hours\<rparr>, sc3))))"

record status_overview =
  sv_counts :: status_counts
  sv_pool :: "(string \<times> pool_health_view) list"
  sv_window :: status_window24
  sv_auths :: "overview_auth list"

definition status_overview_page :: "statement_handler \<Rightarrow> status_env \<Rightarrow> status_log \<Rightarrow> int \<Rightarrow> status_caches \<Rightarrow> status_overview \<times> status_caches" where
  "status_overview_page h e rl now sc =
     (let census = take_census e now; (w, sc') = (if sh_log_dir h = [] then (no_window24, sc) else status_window24h rl now sc)
      in (\<lparr>sv_counts = cn_counts census, sv_pool = cn_pools census, sv_window = w, sv_auths = cn_auths census\<rparr>, sc'))"

text \<open>The monitor's page; a server without one answers no providers.\<close>

definition status_monitor_page :: "int \<Rightarrow> pool_api \<Rightarrow> (monitor_config \<times> histories) option \<Rightarrow> int \<Rightarrow> int \<times> provider_snapshot list" where
  "status_monitor_page zone p mon now = (case mon of None \<Rightarrow> (0, []) | Some (cfg, stores) \<Rightarrow> get_snapshot zone p cfg now stores)"

section \<open>Looking tokens up\<close>

record recent_entry =
  re_ts :: int
  re_provider :: string
  re_model :: string
  re_input :: int
  re_output :: int
  re_cache_read :: int
  re_cache_write :: int
  re_cost_usd :: float64
  re_billed_usd :: float64
  re_multiplier :: float64
  re_status :: int
  re_duration_ms :: int
  re_stream :: bool
  re_auth_label :: string
  re_auth_kind :: string

text \<open>The current label and kind of the credential, or what the log has.\<close>

definition recent_of :: "(string \<rightharpoonup> string \<times> bool) \<Rightarrow> log_entry \<Rightarrow> recent_entry" where
  "recent_of labels rec = (let (label, kind) = (case labels (le_auth_id rec) of None \<Rightarrow> (le_auth_label rec, le_auth_kind rec)
       | Some (l, k) \<Rightarrow> (l, auth_kind_string k)) in
     \<lparr>re_ts = lr_ts rec, re_provider = lr_provider rec, re_model = lr_model rec, re_input = lr_input rec, re_output = lr_output rec,
      re_cache_read = lr_cache_read rec, re_cache_write = le_cache_create rec, re_cost_usd = lr_cost_usd rec,
      re_billed_usd = le_billed_usd rec, re_multiplier = le_multiplier rec, re_status = lr_status rec,
      re_duration_ms = le_duration_ms rec, re_stream = le_stream rec, re_auth_label = label, re_auth_kind = kind\<rparr>)"

record daily_entry =
  de_date :: string
  de_cost_usd :: float64
  de_requests :: int

record token_result =
  tr_masked :: string
  tr_found :: bool
  tr_name :: string
  tr_group :: string
  tr_balance_usd :: float64
  tr_blocked :: bool
  tr_workspace :: string
  tr_pool_avail_usd :: float64
  tr_team_admin :: bool
  tr_team_member :: bool
  tr_weekly_used_usd :: float64
  tr_pricing_group :: string
  tr_group_id :: int
  tr_total :: "json option"
  tr_weekly :: "json list"
  tr_last_used :: "int option"
  tr_recent :: "recent_entry list"
  tr_recent_total :: int
  tr_daily :: "daily_entry list"
  tr_window_24h :: "aggregate option"

definition blank_result :: "string \<Rightarrow> token_result" where
  "blank_result masked = \<lparr>tr_masked = masked, tr_found = False, tr_name = [], tr_group = [], tr_balance_usd = 0, tr_blocked = False,
     tr_workspace = [], tr_pool_avail_usd = 0, tr_team_admin = False, tr_team_member = False, tr_weekly_used_usd = 0,
     tr_pricing_group = [], tr_group_id = 0, tr_total = None, tr_weekly = [], tr_last_used = None, tr_recent = [], tr_recent_total = 0,
     tr_daily = [], tr_window_24h = None\<rparr>"

definition statusRecentLimit :: int where "statusRecentLimit = 60"
definition statusTokensPerRequest :: nat where "statusTokensPerRequest = 20"
definition statusDailyWindowDays :: nat where "statusDailyWindowDays = 14"

text \<open>Trimmed, without blanks and repetitions, and no more than twenty.\<close>

fun wanted_tokens :: "string list \<Rightarrow> string list \<Rightarrow> string list" where
  "wanted_tokens [] acc = acc"
| "wanted_tokens (t # ts) acc = (let t' = trim_space t in
     if t' = [] \<or> t' \<in> set acc then wanted_tokens ts acc
     else if statusTokensPerRequest \<le> length acc + 1 then acc @ [t'] else wanted_tokens ts (acc @ [t']))"

definition with_usage :: "status_env \<Rightarrow> string \<Rightarrow> token_result \<Rightarrow> token_result" where
  "with_usage e tok r = (case se_clients e tok of None \<Rightarrow> r
     | Some u \<Rightarrow> r\<lparr>tr_total := Some (cu_total u), tr_weekly := cu_weekly_ordered u 8, tr_last_used := optional_time (cu_last_used u),
         tr_weekly_used_usd := (case cu_week_cost u (se_week e) of Some x \<Rightarrow> x | None \<Rightarrow> tr_weekly_used_usd r)\<rparr>)"

definition with_pool :: "sqlite \<Rightarrow> int \<Rightarrow> string \<Rightarrow> token_result \<Rightarrow> (float64 \<times> token_result) dbm" where
  "with_pool q now tok r = bnd (attempt (member_for tok)) (\<lambda>m. case m of Inl _ \<Rightarrow> ret (0, r)
     | Inr m \<Rightarrow> bnd (attempt (get_workspace (m_workspace_id m))) (\<lambda>w.
         bnd (member_pool_avail q (unix_seconds now) tok) (\<lambda>avail.
         ret (avail, r\<lparr>tr_team_member := True, tr_team_admin := (m_role m = WSRoleAdmin),
           tr_workspace := (case w of Inl _ \<Rightarrow> tr_workspace r | Inr w \<Rightarrow> ws_name w), tr_pool_avail_usd := avail\<rparr>))))"

definition with_wallet :: "sqlite \<Rightarrow> bool \<Rightarrow> int \<Rightarrow> string \<Rightarrow> token_result \<Rightarrow> token_result dbm" where
  "with_wallet q have_db now tok r = (if \<not> have_db then ret r
     else bnd (attempt (get_wallet tok)) (\<lambda>w. case w of Inl _ \<Rightarrow> ret r
       | Inr w \<Rightarrow> bnd (attempt (get_group (w_group_id w))) (\<lambda>g.
           bnd (with_pool q now tok (r\<lparr>tr_balance_usd := w_balance_usd w, tr_group_id := w_group_id w,
             tr_pricing_group := (case g of Inl _ \<Rightarrow> tr_pricing_group r | Inr g \<Rightarrow> g_name g)\<rparr>)) (\<lambda>(avail, r').
           ret (if w_balance_usd w \<le> 0 \<and> avail \<le> 0 then r'\<lparr>tr_blocked := True\<rparr> else r')))))"

definition resolve_token :: "sqlite \<Rightarrow> statement_handler \<Rightarrow> status_env \<Rightarrow> int \<Rightarrow> string \<Rightarrow> token_result dbm" where
  "resolve_token q h e now tok = (case sh_lookup h tok of None \<Rightarrow> ret (blank_result (token_mask tok))
     | Some (name, grp) \<Rightarrow> with_wallet q (sh_wallets h) now tok
         (with_usage e tok ((blank_result (token_mask tok))\<lparr>tr_found := True, tr_name := name, tr_group := grp\<rparr>)))"

fun resolve_tokens :: "sqlite \<Rightarrow> statement_handler \<Rightarrow> status_env \<Rightarrow> int \<Rightarrow> string list \<Rightarrow> token_result list dbm" where
  "resolve_tokens q h e now [] = ret []"
| "resolve_tokens q h e now (t # ts) = bnd (resolve_token q h e now t) (\<lambda>r.
     bnd (resolve_tokens q h e now ts) (\<lambda>rs. ret (r # rs)))"

text \<open>The index of the result each mask is filled in at: of two tokens with one mask, the later.\<close>

definition masked_index :: "token_result list \<Rightarrow> (string \<times> nat) list" where
  "masked_index rs = fold (\<lambda>(r, i) idx. if tr_found r then filter (\<lambda>x. fst x \<noteq> tr_masked r) idx @ [(tr_masked r, i)] else idx)
     (zip rs [0..<length rs]) []"

definition seed_days :: "int \<Rightarrow> string list" where
  "seed_days today = map (\<lambda>i. format_date (today - int i)) (rev [0..<statusDailyWindowDays])"

definition daily_of :: "buckets \<Rightarrow> string \<Rightarrow> daily_entry" where
  "daily_of bs day = (case map_of bs day of None \<Rightarrow> \<lparr>de_date = day, de_cost_usd = 0, de_requests = 0\<rparr>
     | Some a \<Rightarrow> \<lparr>de_date = day, de_cost_usd = ag_cost_usd a, de_requests = ag_count a\<rparr>)"

text \<open>Two queries of the log for one mask.\<close>

definition window_filter :: "statement_handler \<Rightarrow> int \<Rightarrow> int \<Rightarrow> string \<Rightarrow> query_filter" where
  "window_filter h offset now masked = no_filter\<lparr>qf_client_token := masked, qf_from_day := retained_from h offset now,
     qf_to_day := format_date (day_at offset now), qf_limit := statusRecentLimit\<rparr>"

definition last_day_filter :: "int \<Rightarrow> string \<Rightarrow> query_filter" where
  "last_day_filter now masked = (let t = now - day_ns in
     no_filter\<lparr>qf_client_token := masked, qf_from := t - t mod (60 * second_ns), qf_limit := 1\<rparr>)"

definition with_log :: "(string \<rightharpoonup> string \<times> bool) \<Rightarrow> string list \<Rightarrow> string + query_result \<Rightarrow> string + query_result \<Rightarrow> token_result \<Rightarrow> token_result" where
  "with_log labels days r1 r2 r = (let
       r' = (case r1 of Inl _ \<Rightarrow> r\<lparr>tr_daily := map (daily_of []) days\<rparr>
         | Inr q \<Rightarrow> r\<lparr>tr_daily := map (daily_of (qr_by_day q)) days, tr_recent_total := ag_count (qr_summary q),
             tr_recent := map (recent_of labels) (qr_entries q)\<rparr>)
     in case r2 of Inl _ \<Rightarrow> r' | Inr q \<Rightarrow> if 0 < ag_count (qr_summary q) then r'\<lparr>tr_window_24h := Some (qr_summary q)\<rparr> else r')"

definition fill_result :: "statement_handler \<Rightarrow> status_env \<Rightarrow> status_log \<Rightarrow> int \<Rightarrow> string \<times> nat \<Rightarrow> token_result list \<times> status_caches \<Rightarrow> token_result list \<times> status_caches" where
  "fill_result h e rl now x acc = (case (x, acc) of ((masked, i), (rs, sc)) \<Rightarrow>
     (case status_ask rl now (window_filter h (rl_offset rl) now masked) sc of (r1, sc1) \<Rightarrow>
      (case status_ask rl now (last_day_filter now masked) sc1 of (r2, sc2) \<Rightarrow>
        (rs[i := with_log (se_labels e) (seed_days (day_at (rl_offset rl) now)) r1 r2 (rs ! i)], sc2))))"

text \<open>\<open>visit\<close> is the order in which the map of masks is walked.\<close>

definition status_query :: "sqlite \<Rightarrow> statement_handler \<Rightarrow> status_env \<Rightarrow> status_log \<Rightarrow> ((string \<times> nat) list \<Rightarrow> (string \<times> nat) list) \<Rightarrow>
    int \<Rightarrow> string + string list \<Rightarrow> status_caches \<Rightarrow> ((response + token_result list) \<times> status_caches) dbm" where
  "status_query q h e rl visit now body sc = (case body of Inl msg \<Rightarrow> ret (Inl (error_body 400 msg), sc)
     | Inr ts \<Rightarrow> bnd (resolve_tokens q h e now (wanted_tokens ts [])) (\<lambda>rs.
         if sh_log_dir h = [] \<or> masked_index rs = [] then ret (Inr rs, sc)
         else case fold (fill_result h e rl now) (visit (masked_index rs)) (rs, sc) of (rs', sc') \<Rightarrow> ret (Inr rs', sc')))"

section \<open>The paged history\<close>

definition is_day_label :: "string \<Rightarrow> bool" where
  "is_day_label s = (parse_date s \<noteq> None)"

text \<open>An instant, or a day of the display zone: its first second or its last.\<close>

definition parse_date_bound :: "int \<Rightarrow> string \<Rightarrow> bool \<Rightarrow> int option" where
  "parse_date_bound offset s end_of_day = (case parse_instant s of Some (sec, ns) \<Rightarrow> Some (sec * second_ns + ns)
     | None \<Rightarrow> map_option (\<lambda>z. (z * 86400 - offset) * second_ns + (if end_of_day then day_ns - second_ns else 0)) (parse_date s))"

definition apply_date_bounds :: "int \<Rightarrow> string \<Rightarrow> string \<Rightarrow> query_filter \<Rightarrow> query_filter" where
  "apply_date_bounds offset from0 to0 f = (let from = trim_space from0; to' = trim_space to0 in
     if (is_day_label from \<and> is_day_label to') \<or> (is_day_label from \<and> to' = []) \<or> (from = [] \<and> is_day_label to')
     then f\<lparr>qf_from_day := from, qf_to_day := to'\<rparr>
     else let f1 = (if from = [] then f else case parse_date_bound offset from False of Some t \<Rightarrow> f\<lparr>qf_from := t\<rparr> | None \<Rightarrow> f)
       in if to' = [] then f1 else case parse_date_bound offset to' True of Some t \<Rightarrow> f1\<lparr>qf_to := t\<rparr> | None \<Rightarrow> f1)"

record history_body =
  hb_token :: string
  hb_from :: string
  hb_to :: string
  hb_offset :: int
  hb_limit :: int

record history_page =
  hp_entries :: "recent_entry list"
  hp_total :: int
  hp_offset :: int
  hp_limit :: int

definition history_limit :: "int \<Rightarrow> int" where
  "history_limit n = (let l = (if n \<le> 0 then 50 else n) in if 200 < l then 200 else l)"

text \<open>The total when the count fails: a full page suggests there is more.\<close>

definition guessed_total :: "int \<Rightarrow> int \<Rightarrow> int \<Rightarrow> int" where
  "guessed_total n offset limit = (if n = limit then n + offset + 1 else n + offset)"

definition check_history :: "statement_handler \<Rightarrow> string + history_body \<Rightarrow> response + string \<times> history_body" where
  "check_history h body = (if sh_log_dir h = [] then Inl (error_body 503 ''log_dir not configured'')
     else case body of Inl msg \<Rightarrow> Inl (error_body 400 msg)
     | Inr b \<Rightarrow> let tok = trim_space (hb_token b) in
         if tok = [] then Inl (error_body 400 ''token required'')
         else if sh_lookup h tok = None then Inl (error_body 404 ''token not found'')
         else Inr (tok, b))"

definition status_history :: "statement_handler \<Rightarrow> status_env \<Rightarrow> status_log \<Rightarrow> int \<Rightarrow> string + history_body \<Rightarrow> status_caches \<Rightarrow>
    (response + history_page) \<times> status_caches" where
  "status_history h e rl now body sc = (case check_history h body of Inl resp \<Rightarrow> (Inl resp, sc)
     | Inr (tok, b) \<Rightarrow>
         let limit = history_limit (hb_limit b); offset = max 0 (hb_offset b);
             base = apply_date_bounds (rl_offset rl) (hb_from b) (hb_to b) (no_filter\<lparr>qf_client_token := token_mask tok\<rparr>)
         in case status_ask rl now (base\<lparr>qf_limit := limit, qf_offset := offset, qf_page_only := True\<rparr>) sc of
              (Inl msg, sc1) \<Rightarrow> (Inl (error_body 500 msg), sc1)
            | (Inr res, sc1) \<Rightarrow> (case status_ask rl now (base\<lparr>qf_limit := 1\<rparr>) sc1 of (cnt, sc2) \<Rightarrow>
                (Inr \<lparr>hp_entries = map (recent_of (se_labels e)) (qr_entries res),
                   hp_total = (case cnt of Inr c \<Rightarrow> ag_count (qr_summary c)
                     | Inl _ \<Rightarrow> guessed_total (int (length (qr_entries res))) offset limit),
                   hp_offset = offset, hp_limit = limit\<rparr>, sc2)))"

end
