(* ===== verification/TokenDesk.thy ===== *)
theory TokenDesk
  imports OperatorPages Rekey StatusPage
begin

text \<open>
  The token desk of the console (\<open>internal/admin/admin.go\<close>): the operator's credential, the register of client tokens with
  their wallets, the rotation of a token across wallet, register, usage and log, and the queries of the log. The
  token register, the usage ledger and the request log belong to cc-core: \<open>token_ops\<close> holds their operations over
  states of their own, where a reported error leaves the state as it was. \<open>saas\<close> says that there are wallets.
\<close>

section \<open>The operator\<close>

definition admin_token_of :: "string \<Rightarrow> string \<Rightarrow> string" where
  "admin_token_of x_admin authorization = (let got = trim_space x_admin; v = trim_space authorization in
     if got \<noteq> [] then got else if has_prefix (to_lower v) ''bearer '' then trim_space (drop 7 v) else [])"

definition admin_auth :: "string \<Rightarrow> string \<Rightarrow> string \<Rightarrow> response option" where
  "admin_auth configured x_admin authorization = (let got = admin_token_of x_admin authorization in
     if got = [] \<or> got \<noteq> trim_space configured then Some (error_body 401 ''invalid admin token'') else None)"

section \<open>The register\<close>

record store_token =
  sk_token :: string
  sk_name :: string
  sk_max_concurrent :: int
  sk_rpm :: int
  sk_group :: string
  sk_providers :: "string list"
  sk_created_at :: int

record token_patch =
  tp_name :: "string option"
  tp_max_concurrent :: "int option"
  tp_rpm :: "int option"
  tp_group :: "string option"
  tp_providers :: "string list option"

record orphan_usage =
  ou_label :: string
  ou_total :: json
  ou_last_used :: int

record ('t, 'u, 'l) token_ops =
  to_list :: "'t \<Rightarrow> store_token list"
  to_known :: "string \<Rightarrow> 't \<Rightarrow> store_token option"
  to_add :: "store_token \<Rightarrow> 't \<Rightarrow> string + 't"
  to_update :: "string \<Rightarrow> token_patch \<Rightarrow> 't \<Rightarrow> string + 't"
  to_delete :: "string \<Rightarrow> 't \<Rightarrow> string + 't"
  to_reset :: "string \<Rightarrow> string \<Rightarrow> 't \<Rightarrow> string + 't"
  us_weekly :: "string \<Rightarrow> 'u \<Rightarrow> float64"
  us_clients :: "'u \<Rightarrow> (string \<times> orphan_usage) list"
  us_rename :: "string \<Rightarrow> string \<Rightarrow> 'u \<Rightarrow> string + 'u"
  us_merge :: "string \<Rightarrow> string \<Rightarrow> 'u \<Rightarrow> string + 'u"
  lw_rewrite :: "(string \<Rightarrow> string \<Rightarrow> 'l \<Rightarrow> string + int \<times> 'l) option"

text \<open>Aggregates per credential, cached by the name of their window, with when they were read.\<close>

type_synonym by_auth_cache = "(string \<times> buckets \<times> int) list"

record ('t, 'u, 'l) desk =
  dk_tokens :: 't
  dk_usage :: 'u
  dk_log :: 'l
  dk_by_auth :: by_auth_cache
  dk_queries :: query_cache

definition status_ok :: response where "status_ok = (200, [(''status'', JStr ''ok'')])"

section \<open>Listing\<close>

record token_view =
  tv_token :: string
  tv_masked :: string
  tv_name :: string
  tv_max_concurrent :: int
  tv_rpm :: int
  tv_group :: string
  tv_providers :: "string list"
  tv_created_at :: "int option"
  tv_balance_usd :: float64
  tv_group_id :: int
  tv_pricing_group :: string
  tv_weekly_used_usd :: float64

definition token_view_of :: "bool \<Rightarrow> (string \<rightharpoonup> wallet) \<Rightarrow> (int \<rightharpoonup> string) \<Rightarrow> float64 \<Rightarrow> store_token \<Rightarrow> token_view" where
  "token_view_of full wallet_of group_name weekly t = (let w = wallet_of (sk_token t) in
     \<lparr>tv_token = (if full then sk_token t else []), tv_masked = token_mask (sk_token t), tv_name = sk_name t,
      tv_max_concurrent = sk_max_concurrent t, tv_rpm = sk_rpm t, tv_group = sk_group t, tv_providers = sk_providers t,
      tv_created_at = optional_time (sk_created_at t), tv_balance_usd = (case w of None \<Rightarrow> 0 | Some w \<Rightarrow> w_balance_usd w),
      tv_group_id = (case w of None \<Rightarrow> 0 | Some w \<Rightarrow> w_group_id w),
      tv_pricing_group = (case w of None \<Rightarrow> [] | Some w \<Rightarrow> (case group_name (w_group_id w) of None \<Rightarrow> [] | Some n \<Rightarrow> n)),
      tv_weekly_used_usd = weekly\<rparr>)"

text \<open>Two queries for all rows; one that fails leaves its columns empty.\<close>

definition prefetch_wallets :: "bool \<Rightarrow> ((string \<rightharpoonup> wallet) \<times> (int \<rightharpoonup> string)) dbm" where
  "prefetch_wallets saas = (if \<not> saas then ret (Map.empty, Map.empty)
     else bnd (attempt all_wallets) (\<lambda>w. bnd (attempt list_groups) (\<lambda>g.
       ret (case w of Inl _ \<Rightarrow> Map.empty | Inr m \<Rightarrow> m,
            case g of Inl _ \<Rightarrow> Map.empty | Inr gs \<Rightarrow> map_of (rev (map (\<lambda>g. (g_id g, g_name g)) gs))))))"

definition list_tokens_page :: "('t, 'u, 'l) token_ops \<Rightarrow> bool \<Rightarrow> string \<Rightarrow> ('t, 'u, 'l) desk \<Rightarrow> token_view list dbm" where
  "list_tokens_page ops saas full_param dk = bnd (prefetch_wallets saas) (\<lambda>(wallet_of, group_name).
     ret (map (\<lambda>t. token_view_of (full_param = ''1'') wallet_of group_name (us_weekly ops (sk_token t) (dk_usage dk)) t)
       (to_list ops (dk_tokens dk))))"

record orphan_token =
  ot_token :: string
  ot_masked :: string
  ot_label :: string
  ot_total :: json
  ot_last_used :: "int option"

definition list_orphans_page :: "('t, 'u, 'l) token_ops \<Rightarrow> ('t, 'u, 'l) desk \<Rightarrow> orphan_token list" where
  "list_orphans_page ops dk = map (\<lambda>(tok, u). \<lparr>ot_token = tok, ot_masked = token_mask tok, ot_label = ou_label u,
       ot_total = ou_total u, ot_last_used = optional_time (ou_last_used u)\<rparr>)
     (filter (\<lambda>(tok, _). tok \<notin> sk_token ` set (to_list ops (dk_tokens dk))) (us_clients ops (dk_usage dk)))"

section \<open>Creating, changing, deleting\<close>

record create_token_body =
  nt_token :: string
  nt_name :: string
  nt_max_concurrent :: int
  nt_rpm :: int
  nt_group :: string
  nt_providers :: "string list"
  nt_group_id :: int
  nt_initial_usd :: float64
  nt_generate :: bool

text \<open>The token to create; \<open>minted\<close> is what generating one answers.\<close>

definition token_to_create :: "string + string \<Rightarrow> create_token_body \<Rightarrow> response + string" where
  "token_to_create minted b = (let given = trim_space (nt_token b);
       tok = (if given \<noteq> [] then Inr given
         else if \<not> nt_generate b then Inl (error_body 400 ''token required (or set generate:true)'')
         else case minted of Inl e \<Rightarrow> Inl (error_body 500 (''generate: '' @ e)) | Inr t \<Rightarrow> Inr t)
     in case tok of Inl r \<Rightarrow> Inl r | Inr t \<Rightarrow> if length t \<le> MinDistinguishableLen
       then Inl (error_body 400 ''token too short: usage keyed on the masked token could not be told apart from other short tokens'')
       else Inr t)"

text \<open>The wallet of a new token, as far as it can be made.\<close>

definition furnish_wallet :: "int \<Rightarrow> string \<Rightarrow> create_token_body \<Rightarrow> unit dbm" where
  "furnish_wallet now tok b = bnd (attempt (ensure_wallet now tok)) (\<lambda>r. case r of Inl _ \<Rightarrow> ret ()
     | Inr _ \<Rightarrow> bnd (if 0 < nt_group_id b then bnd (attempt (set_wallet_group now tok (nt_group_id b))) (\<lambda>_. ret ()) else ret ()) (\<lambda>_.
         if 0 < nt_initial_usd b
         then bnd (attempt (add_balance now tok ''adjust'' (nt_initial_usd b) ''admin-create'' ''initial credit'' True)) (\<lambda>_. ret ())
         else ret ()))"

definition create_token_page :: "('t, 'u, 'l) token_ops \<Rightarrow> bool \<Rightarrow> int \<Rightarrow> string + string \<Rightarrow> string + create_token_body \<Rightarrow> ('t, 'u, 'l) desk \<Rightarrow>
    (response \<times> ('t, 'u, 'l) desk) dbm" where
  "create_token_page ops saas now minted body dk = (case body of Inl e \<Rightarrow> ret (error_body 400 e, dk)
     | Inr b \<Rightarrow> (case token_to_create minted b of Inl r \<Rightarrow> ret (r, dk)
       | Inr tok \<Rightarrow> (case to_add ops \<lparr>sk_token = tok, sk_name = nt_name b, sk_max_concurrent = nt_max_concurrent b, sk_rpm = nt_rpm b,
             sk_group = nt_group b, sk_providers = nt_providers b, sk_created_at = zero_time\<rparr> (dk_tokens dk) of
           Inl e \<Rightarrow> ret (error_body 400 e, dk)
         | Inr ts \<Rightarrow> bnd (if saas then furnish_wallet now tok b else ret ()) (\<lambda>_.
             ret ((200, [(''status'', JStr ''ok''), (''token'', JStr tok), (''name'', JStr (nt_name b))]), dk\<lparr>dk_tokens := ts\<rparr>)))))"

record patch_token_body =
  pb_patch :: token_patch
  pb_group_id :: "int option"
  pb_balance_delta :: "float64 option"
  pb_balance_note :: string

text \<open>The wallet's part of a change: its group, then its balance, each with the error that ends it.\<close>

definition patch_wallet :: "int \<Rightarrow> string \<Rightarrow> patch_token_body \<Rightarrow> response dbm" where
  "patch_wallet now tok b =
     bnd (case pb_group_id b of Some g \<Rightarrow> if 0 < g then attempt (set_wallet_group now tok g) else ret (Inr ()) | None \<Rightarrow> ret (Inr ())) (\<lambda>r.
     case r of Inl e \<Rightarrow> ret (error_body 400 (''group: '' @ db_error_text e))
     | Inr _ \<Rightarrow> (case pb_balance_delta b of None \<Rightarrow> ret status_ok
         | Some x \<Rightarrow> if x = 0 then ret status_ok
             else bnd (attempt (add_balance now tok ''adjust'' x ''admin-patch''
                 (if pb_balance_note b = [] then ''admin manual adjustment'' else pb_balance_note b) True)) (\<lambda>r. ret (case r of
               Inl e \<Rightarrow> error_body 400 (''balance: '' @ db_error_text e) | Inr _ \<Rightarrow> status_ok))))"

definition patch_token_page :: "('t, 'u, 'l) token_ops \<Rightarrow> bool \<Rightarrow> int \<Rightarrow> string \<Rightarrow> string + patch_token_body \<Rightarrow> ('t, 'u, 'l) desk \<Rightarrow>
    (response \<times> ('t, 'u, 'l) desk) dbm" where
  "patch_token_page ops saas now tok body dk = (case body of Inl e \<Rightarrow> ret (error_body 400 e, dk)
     | Inr b \<Rightarrow> (case to_update ops tok (pb_patch b) (dk_tokens dk) of Inl e \<Rightarrow> ret (error_body 400 e, dk)
       | Inr ts \<Rightarrow> bnd (if saas then patch_wallet now tok b else ret status_ok) (\<lambda>r. ret (r, dk\<lparr>dk_tokens := ts\<rparr>))))"

definition sole_admin_text :: string where
  "sole_admin_text = ''token is the only admin of a workspace; reassign the admin role before deleting''"

text \<open>The guard looks away when its query fails.\<close>

definition delete_guard :: "bool \<Rightarrow> string \<Rightarrow> response option dbm" where
  "delete_guard saas tok = (if \<not> saas then ret None
     else bnd (attempt (sole_admin_workspace tok)) (\<lambda>r. ret (case r of Inl _ \<Rightarrow> None
       | Inr (wsid, sole) \<Rightarrow> if sole then Some (400, [(''error'', JStr sole_admin_text), (''workspace_id'', JInt wsid)]) else None)))"

definition delete_token_page :: "('t, 'u, 'l) token_ops \<Rightarrow> bool \<Rightarrow> string \<Rightarrow> ('t, 'u, 'l) desk \<Rightarrow> (response \<times> ('t, 'u, 'l) desk) dbm" where
  "delete_token_page ops saas tok dk = bnd (delete_guard saas tok) (\<lambda>g. case g of Some r \<Rightarrow> ret (r, dk)
     | None \<Rightarrow> (case to_delete ops tok (dk_tokens dk) of Inl e \<Rightarrow> ret (error_body 400 e, dk)
       | Inr ts \<Rightarrow> bnd (if saas then bnd (attempt (remove_member tok)) (\<lambda>_. ret ()) else ret ()) (\<lambda>_.
           ret (status_ok, dk\<lparr>dk_tokens := ts\<rparr>))))"

section \<open>Rotating\<close>

text \<open>Wallet first, then the register; a register that refuses has the wallet moved back.\<close>

definition rekey_wallet :: "bool \<Rightarrow> string \<Rightarrow> string \<Rightarrow> int \<Rightarrow> string \<Rightarrow> string \<Rightarrow> response option dbm" where
  "rekey_wallet saas path stamp now tok new = (if \<not> saas then ret None
     else bnd (attempt (rekey_token path stamp now tok new)) (\<lambda>r. ret (case r of
       Inl e \<Rightarrow> Some (500, [(''error'', JStr ''wallet rekey failed; token NOT rotated (no state changed)''), (''detail'', JStr (db_error_text e)),
         (''old_token'', JStr (token_mask tok))])
     | Inr _ \<Rightarrow> None)))"

definition rekey_back :: "bool \<Rightarrow> string \<Rightarrow> string \<Rightarrow> int \<Rightarrow> string \<Rightarrow> string \<Rightarrow> string \<Rightarrow> response dbm" where
  "rekey_back saas path stamp now tok new e = (if \<not> saas then ret (error_body 400 e)
     else bnd (attempt (rekey_token path stamp now new tok)) (\<lambda>r. ret (case r of
       Inl e' \<Rightarrow> (500, [(''error'', JStr ''token rotation failed AND wallet rollback failed''), (''token_store_error'', JStr e),
         (''rollback_error'', JStr (db_error_text e'))])
     | Inr _ \<Rightarrow> error_body 400 e)))"

text \<open>What is stitched together afterwards, as far as it goes.\<close>

definition stitch_history :: "('t, 'u, 'l) token_ops \<Rightarrow> string \<Rightarrow> string \<Rightarrow> ('t, 'u, 'l) desk \<Rightarrow> ('t, 'u, 'l) desk" where
  "stitch_history ops tok new dk =
     (let dk1 = (case us_rename ops tok new (dk_usage dk) of Inl _ \<Rightarrow> dk | Inr u \<Rightarrow> dk\<lparr>dk_usage := u\<rparr>);
          old_mask = token_mask tok; new_mask = token_mask new
      in case lw_rewrite ops of None \<Rightarrow> dk1
         | Some rewrite \<Rightarrow> if old_mask = new_mask \<or> old_mask = ''***'' then dk1
             else (case rewrite old_mask new_mask (dk_log dk1) of Inl _ \<Rightarrow> dk1
               | Inr (n, l) \<Rightarrow> if 0 < n then dk1\<lparr>dk_log := l, dk_by_auth := [], dk_queries := []\<rparr> else dk1\<lparr>dk_log := l\<rparr>))"

text \<open>\<open>stamps\<close> are the times of the two backups.\<close>

definition reset_token_page :: "('t, 'u, 'l) token_ops \<Rightarrow> bool \<Rightarrow> string \<Rightarrow> string \<times> string \<Rightarrow> int \<Rightarrow> string + string \<Rightarrow> string \<Rightarrow>
    ('t, 'u, 'l) desk \<Rightarrow> (response \<times> ('t, 'u, 'l) desk) dbm" where
  "reset_token_page ops saas path stamps now minted tok dk = (case minted of Inl e \<Rightarrow> ret (error_body 500 (''generate: '' @ e), dk)
     | Inr new \<Rightarrow> bnd (rekey_wallet saas path (fst stamps) now tok new) (\<lambda>w. case w of Some r \<Rightarrow> ret (r, dk)
       | None \<Rightarrow> (case to_reset ops tok new (dk_tokens dk) of
           Inl e \<Rightarrow> bnd (rekey_back saas path (snd stamps) now tok new e) (\<lambda>r. ret (r, dk))
         | Inr ts \<Rightarrow> ret ((200, [(''status'', JStr ''ok''), (''token'', JStr new)]),
             stitch_history ops tok new (dk\<lparr>dk_tokens := ts\<rparr>)))))"

definition inherit_token_page :: "('t, 'u, 'l) token_ops \<Rightarrow> string \<Rightarrow> string + string \<Rightarrow> ('t, 'u, 'l) desk \<Rightarrow> response \<times> ('t, 'u, 'l) desk" where
  "inherit_token_page ops dst body dk = (case body of Inl e \<Rightarrow> (error_body 400 e, dk)
     | Inr from \<Rightarrow> let src = trim_space from in
         if src = [] then (error_body 400 ''from required'', dk)
         else if to_known ops dst (dk_tokens dk) = None then (error_body 404 ''destination token not registered'', dk)
         else if to_known ops src (dk_tokens dk) \<noteq> None
           then (error_body 400 ''source token is still registered; delete it first or pick an orphan'', dk)
         else case us_merge ops src dst (dk_usage dk) of Inl e \<Rightarrow> (error_body 400 e, dk)
           | Inr u \<Rightarrow> (status_ok, dk\<lparr>dk_usage := u\<rparr>))"

section \<open>Labels of the clients of a credential\<close>

fun count_label :: "string \<Rightarrow> (string \<times> nat) list \<Rightarrow> (string \<times> nat) list" where
  "count_label l [] = [(l, 1)]"
| "count_label l ((k, n) # ls) = (if k = l then (k, n + 1) # ls else (k, n) # count_label l ls)"

definition client_label :: "(string \<Rightarrow> store_token option) \<Rightarrow> string \<Rightarrow> string" where
  "client_label known t = (let label = (case known t of Some e \<Rightarrow> if trim_space (sk_name e) \<noteq> [] then sk_name e else [] | None \<Rightarrow> [])
     in if label = [] then token_mask t else label)"

definition resolve_client_labels :: "(string \<Rightarrow> store_token option) \<Rightarrow> string list \<Rightarrow> string list" where
  "resolve_client_labels known ts = map (\<lambda>(l, n). if 1 < n then l @ [CHR '' '', CHR 0xC3, CHR 0x97] @ itoa (int n) else l)
     (foldl (\<lambda>ls t. count_label (client_label known t) ls) [] ts)"

section \<open>Aggregates per credential\<close>

definition lifetimeCacheTTL :: int where "lifetimeCacheTTL = 15 * second_ns"

text \<open>\<open>aggregate_by\<close> is the log's answer for the window; an old answer is better than none.\<close>

definition cached_by_auth :: "(int \<Rightarrow> int \<Rightarrow> string + buckets) \<Rightarrow> int \<Rightarrow> string \<Rightarrow> int \<Rightarrow> int \<Rightarrow> by_auth_cache \<Rightarrow> buckets \<times> by_auth_cache" where
  "cached_by_auth aggregate_by now key from to' c = (let old = map_of c key;
       fetch = (case aggregate_by from to' of Inr m \<Rightarrow> (m, (key, m, now) # filter (\<lambda>e. fst e \<noteq> key) c)
         | Inl _ \<Rightarrow> (case old of Some (m, _) \<Rightarrow> (m, c) | None \<Rightarrow> ([], c)))
     in case old of Some (m, put) \<Rightarrow> if now - put < lifetimeCacheTTL then (m, c) else fetch | None \<Rightarrow> fetch)"

definition lifetime_by_auth :: "(int \<Rightarrow> int \<Rightarrow> string + buckets) \<Rightarrow> int \<Rightarrow> by_auth_cache \<Rightarrow> buckets \<times> by_auth_cache" where
  "lifetime_by_auth aggregate_by now c = cached_by_auth aggregate_by now ''lifetime'' zero_time zero_time c"

section \<open>Queries of the log\<close>

text \<open>\<open>fmt.Sscanf(v, "%d", &n)\<close>: what it reads, none when it leaves the variable alone.\<close>

definition scan_int :: "string \<Rightarrow> int option" where
  "scan_int v = (let s = trim_left_space v; skipped = take (length v - length s) v;
       (neg, ds0) = (case s of CHR ''-'' # r \<Rightarrow> (True, r) | CHR ''+'' # r \<Rightarrow> (False, r) | _ \<Rightarrow> (False, s));
       ds = takeWhile decimal_char ds0
     in if CHR 0x0A \<in> set skipped \<or> ds = [] then None else parse_int64 ((if neg then ''-'' else []) @ ds))"

definition scanned :: "string \<Rightarrow> int \<Rightarrow> int" where
  "scanned v n = (case scan_int v of Some k \<Rightarrow> k | None \<Rightarrow> n)"

definition requests_hourly_page :: "string \<Rightarrow> (int \<Rightarrow> string + json list) \<Rightarrow> string \<Rightarrow> response" where
  "requests_hourly_page log_dir hourly param = (if log_dir = [] then (200, [(''buckets'', JArr [])])
     else let v = trim_space param; hours = (if v = [] then 24 else min 168 (max 1 (scanned v 24)))
       in case hourly hours of Inl e \<Rightarrow> error_body 500 e | Inr bs \<Rightarrow> (200, [(''buckets'', JArr bs)]))"

definition auth_daily_cost_page :: "string \<Rightarrow> request_log \<Rightarrow> int \<Rightarrow> int \<Rightarrow> string \<Rightarrow> query_cache \<Rightarrow> (response + daily_entry list) \<times> query_cache" where
  "auth_daily_cost_page log_dir rl by_day now i c = (if log_dir = [] then (Inr [], c)
     else let today = day_at (rl_offset rl) now in
       (case cached_query rl now (no_filter\<lparr>qf_auth_id := i, qf_from_day := format_date (today - 13), qf_to_day := format_date today, qf_dims := by_day\<rparr>) c of
          (Inl e, c') \<Rightarrow> (Inl (error_body 500 e), c')
        | (Inr res, c') \<Rightarrow> (Inr (map (\<lambda>i. daily_of (qr_by_day res) (format_date (today - int i))) (rev [0..<14])), c')))"

definition requests_clients_page :: "store_token list \<Rightarrow> response" where
  "requests_clients_page ts = (200, [(''clients'', JArr (map JStr (order_by text_less
     (remdups (filter (\<lambda>n. n \<noteq> []) (map (\<lambda>t. trim_space (sk_name t)) ts))))))])"

record log_query =
  lq_model :: string
  lq_client :: string
  lq_from :: string
  lq_to :: string
  lq_limit :: string
  lq_offset :: string
  lq_status :: string

text \<open>A current name stands for its token's mask, any other for itself.\<close>

definition client_filter :: "store_token list \<Rightarrow> string \<Rightarrow> query_filter \<Rightarrow> query_filter" where
  "client_filter ts param f = (let name = trim_space param in if name = [] then f
     else case find (\<lambda>t. to_lower (trim_space (sk_name t)) = to_lower name) ts of
         Some t \<Rightarrow> f\<lparr>qf_client_token := token_mask (sk_token t)\<rparr> | None \<Rightarrow> f\<lparr>qf_client := name\<rparr>)"

definition scanned_field :: "string \<Rightarrow> int" where "scanned_field v = (if v = [] then 0 else scanned v 0)"

definition requests_filter :: "store_token list \<Rightarrow> int \<Rightarrow> log_query \<Rightarrow> query_filter" where
  "requests_filter ts off q = (apply_date_bounds off (lq_from q) (lq_to q) (client_filter ts (lq_client q) (no_filter\<lparr>qf_model := trim_space (lq_model q)\<rparr>)))
     \<lparr>qf_limit := scanned_field (lq_limit q), qf_offset := scanned_field (lq_offset q), qf_status := scanned_field (lq_status q)\<rparr>"

text \<open>\<open>labels\<close> is the pool's index of current labels and kinds.\<close>

definition requests_query_page :: "string \<Rightarrow> request_log \<Rightarrow> store_token list \<Rightarrow> (string \<rightharpoonup> string \<times> bool) \<Rightarrow> int \<Rightarrow> log_query \<Rightarrow> query_cache \<Rightarrow>
    (response + query_result) \<times> query_cache" where
  "requests_query_page log_dir rl ts labels now q c = (if log_dir = [] then (Inl (error_body 503 ''log_dir not configured''), c)
     else let ps = map (\<lambda>t. \<lparr>pt_token = sk_token t, pt_name = sk_name t\<rparr>) ts;
         kinds = (\<lambda>i. map_option (\<lambda>(l, k). (l, auth_kind_string k)) (labels i))
       in case cached_query rl now (requests_filter ts (rl_offset rl) q) c of (Inl e, c') \<Rightarrow> (Inl (error_body 500 e), c')
        | (Inr res, c') \<Rightarrow> (Inr (res\<lparr>qr_entries := remap_display_names ps kinds (qr_entries res),
              qr_by_client := remap_by_client ps (qr_by_client res)\<rparr>), c'))"

end
