(* ===== verification/StatusFacts.thy ===== *)
theory StatusFacts
  imports TokenDesk Settlement UsageFacts
begin

text \<open>
  What the public page shows: its anonymous names keep the totals, its census partitions the pool, an unregistered
  token reveals nothing, a token called blocked is refused by the proxy, and a page of history holds rows of the token
  that asked for it whatever the shared cache has answered before.
\<close>

section \<open>Anonymous names\<close>

lemma length_pseudonyms: "length statusPseudonyms = 48"
  by (simp add: statusPseudonyms_def)

lemma pseudonym_known: "pseudonym_for k \<in> insert ''Anon'' (set statusPseudonyms)"
proof -
  have "unat (fnv1a k) mod length statusPseudonyms < length statusPseudonyms" by (simp add: length_pseudonyms)
  then show ?thesis by (auto simp: pseudonym_for_def simp del: length_pseudonyms)
qed

definition bucket_totals :: "(aggregate \<Rightarrow> int) \<Rightarrow> buckets \<Rightarrow> int" where
  "bucket_totals g bs = sum_list (map (\<lambda>(_, a). g a) bs)"

text \<open>The counters a merge adds up.\<close>

definition merged_counters :: "(aggregate \<Rightarrow> int) set" where
  "merged_counters = {ag_count, ag_input, ag_output, ag_cache_read, ag_cache_create, ag_errors, ag_duration_ms}"

lemma merged_counter: "g \<in> merged_counters \<Longrightarrow> g (merge_display a b) = g a + g b"
  by (auto simp: merged_counters_def merge_display_def)

lemma put_display_total: "g \<in> merged_counters \<Longrightarrow> bucket_totals g (put_display k v bs) = g v + bucket_totals g bs"
  by (induction k v bs rule: put_display.induct) (auto simp: bucket_totals_def merged_counter)

lemma put_display_keys: "fst ` set (put_display k v bs) = insert k (fst ` set bs)"
  by (induction k v bs rule: put_display.induct) auto

lemma put_display_distinct: "distinct (map fst bs) \<Longrightarrow> distinct (map fst (put_display k v bs))"
  by (induction k v bs rule: put_display.induct) (auto simp: put_display_keys)

lemma fold_put_display:
  "(g \<in> merged_counters \<longrightarrow> bucket_totals g (fold (\<lambda>(k, v). put_display (name k) v) bs acc) = bucket_totals g bs + bucket_totals g acc) \<and>
   fst ` set (fold (\<lambda>(k, v). put_display (name k) v) bs acc) = name ` fst ` set bs \<union> fst ` set acc \<and>
   (distinct (map fst acc) \<longrightarrow> distinct (map fst (fold (\<lambda>(k, v). put_display (name k) v) bs acc)))"
proof (induction bs arbitrary: acc)
  case (Cons b bs)
  have "bucket_totals g (b # bs) = g (snd b) + bucket_totals g bs" by (simp add: bucket_totals_def case_prod_beta)
  with Cons show ?case
    by (cases b) (auto simp: put_display_total put_display_keys put_display_distinct)
qed (simp add: bucket_totals_def)

text \<open>The dashboard names clients by the pseudonyms only, at most one bucket each, and every counter adds up to what the
  log holds of all clients.\<close>

lemma dashboard_is_anonymous:
  assumes "r = Inr q" "g \<in> merged_counters"
  shows "fst ` set (dr_by_client (dashboard_answer r)) \<subseteq> insert ''Anon'' (set statusPseudonyms) \<and>
    distinct (map fst (dr_by_client (dashboard_answer r))) \<and>
    bucket_totals g (dr_by_client (dashboard_answer r)) = bucket_totals g (qr_by_client q)"
  using fold_put_display[of g pseudonym_for "qr_by_client q" "[]"] assms pseudonym_known
  by (auto simp: dashboard_answer_def anonymize_by_client_def rename_buckets_def bucket_totals_def)

section \<open>The census\<close>

definition in_state :: "string \<Rightarrow> (auth_info \<times> health_report) list \<Rightarrow> int" where
  "in_state s reps = int (length (filter (\<lambda>(_, r). hr_state r = s) reps))"

lemma states_distinct: "distinct AllStates"
  by (simp add: AllStates_def health_states)

lemma count_auth_fields:
  "ct_healthy (count_auth i r c) = ct_healthy c + (if hr_state r = HealthHealthy then 1 else 0)"
  "ct_half_open (count_auth i r c) = ct_half_open c + (if hr_state r = HealthHalfOpen then 1 else 0)"
  "ct_degraded (count_auth i r c) = ct_degraded c + (if hr_state r = HealthDegraded then 1 else 0)"
  "ct_quota (count_auth i r c) = ct_quota c + (if hr_state r = HealthQuota then 1 else 0)"
  "ct_cooling (count_auth i r c) = ct_cooling c + (if hr_state r = HealthCooling then 1 else 0)"
  "ct_unhealthy (count_auth i r c) = ct_unhealthy c + (if hr_state r = HealthHardFailed then 1 else 0)"
  "ct_disabled (count_auth i r c) = ct_disabled c + (if hr_state r = HealthDisabled then 1 else 0)"
  "ct_total (count_auth i r c) = ct_total c + 1"
  "ct_serving (count_auth i r c) = ct_serving c + (if hr_serving r then 1 else 0)"
  "ct_oauth (count_auth i r c) = ct_oauth c + (if ai_api_key i then 0 else 1)"
  "ct_apikey (count_auth i r c) = ct_apikey c + (if ai_api_key i then 1 else 0)"
  by (auto simp: count_auth_def count_state_def Let_def health_states)

lemma census_fields:
  defines "f \<equiv> fold (\<lambda>(i, r). count_auth i r)"
  shows "ct_healthy (f reps c) = ct_healthy c + in_state HealthHealthy reps"
    "ct_half_open (f reps c) = ct_half_open c + in_state HealthHalfOpen reps"
    "ct_degraded (f reps c) = ct_degraded c + in_state HealthDegraded reps"
    "ct_quota (f reps c) = ct_quota c + in_state HealthQuota reps"
    "ct_cooling (f reps c) = ct_cooling c + in_state HealthCooling reps"
    "ct_unhealthy (f reps c) = ct_unhealthy c + in_state HealthHardFailed reps"
    "ct_disabled (f reps c) = ct_disabled c + in_state HealthDisabled reps"
    "ct_total (f reps c) = ct_total c + int (length reps)"
    "ct_serving (f reps c) = ct_serving c + int (length (filter (\<lambda>(_, r). hr_serving r) reps))"
    "ct_oauth (f reps c) + ct_apikey (f reps c) = ct_oauth c + ct_apikey c + int (length reps)"
  unfolding f_def by (induction reps arbitrary: c) (auto simp: count_auth_fields in_state_def case_prod_beta)

lemma states_partition:
  assumes "\<forall>x \<in> set reps. hr_state (snd x) \<in> set AllStates"
  shows "(\<Sum>s \<leftarrow> AllStates. in_state s reps) = int (length reps)"
  using assms
proof (induction reps)
  case Nil
  show ?case by (simp add: AllStates_def in_state_def)
next
  case (Cons x reps)
  have "in_state s (x # reps) = in_state s reps + (if hr_state (snd x) = s then 1 else 0)" for s
    by (simp add: in_state_def case_prod_beta)
  then have "(\<Sum>s \<leftarrow> AllStates. in_state s (x # reps)) = (\<Sum>s \<leftarrow> AllStates. in_state s reps) + (\<Sum>s \<leftarrow> AllStates. if hr_state (snd x) = s then 1 else 0)"
    by (simp add: sum_list_addf)
  moreover have "(\<Sum>s \<leftarrow> AllStates. if hr_state (snd x) = s then 1 else 0) = (1 :: int)"
    using Cons.prems by (auto simp: AllStates_def health_states)
  ultimately show ?case using Cons by simp
qed

text \<open>The seven buckets of the census are the numbers of credentials in each state and add up to the pool, as do the two
  kinds; the number serving is that of the credentials the router offers traffic to.\<close>

lemma census_partitions_the_pool:
  assumes "\<forall>x \<in> set (census_reports e now). hr_state (snd x) \<in> set AllStates"
    and "c = cn_counts (take_census e now)"
  shows "ct_healthy c + ct_half_open c + ct_degraded c + ct_quota c + ct_cooling c + ct_unhealthy c + ct_disabled c = ct_total c \<and>
    ct_oauth c + ct_apikey c = ct_total c \<and> ct_total c = int (length (pa_status (se_pool e))) \<and>
    ct_serving c = int (length (filter (\<lambda>(_, r). hr_serving r) (census_reports e now)))"
  unfolding assms(2) using states_partition[OF assms(1)]
  by (simp add: take_census_def Let_def census_fields no_counts_def AllStates_def census_reports_def)

section \<open>Unregistered tokens\<close>

definition is_wanted :: "string list \<Rightarrow> bool" where
  "is_wanted ts \<longleftrightarrow> distinct ts \<and> length ts \<le> statusTokensPerRequest \<and> [] \<notin> set ts"

lemma wanted_tokens_wanted: "is_wanted acc \<Longrightarrow> length acc < statusTokensPerRequest \<Longrightarrow> is_wanted (wanted_tokens ts acc)"
  by (induction ts acc rule: wanted_tokens.induct) (auto simp: is_wanted_def Let_def)

lemma resolve_tokens_each:
  "resolve_tokens q h e now ts s = (Inr rs, s') \<Longrightarrow> length rs = length ts \<and>
    (\<forall>i < length ts. \<exists>s1 s2. resolve_token q h e now (ts ! i) s1 = (Inr (rs ! i), s2))"
proof (induction ts arbitrary: s rs)
  case (Cons t ts)
  then obtain r rs' s1 where 1: "resolve_token q h e now t s = (Inr r, s1)" "resolve_tokens q h e now ts s1 = (Inr rs', s')" "rs = r # rs'"
    by (auto simp: outcome_simps)
  from Cons.IH[OF 1(2)] 1(1) show ?case unfolding 1(3) by (auto simp: nth_Cons split: nat.split)
qed (simp add: outcome_simps)

lemma with_usage_who: "tr_masked (with_usage e t r) = tr_masked r" "tr_found (with_usage e t r) = tr_found r"
  by (simp_all add: with_usage_def split: option.split)

lemma with_pool_run:
  assumes "with_pool q now t r s = (Inr (avail, r'), s')"
  shows "(avail = 0 \<and> r' = r \<and> (\<exists>e. member_for t s = (Inl e, s'))) \<or> (\<exists>m s0 w s1. member_for t s = (Inr m, s0) \<and>
    get_workspace (m_workspace_id m) s0 = (w, s1) \<and> member_pool_avail q (unix_seconds now) t s1 = (Inr avail, s') \<and>
    tr_masked r' = tr_masked r \<and> tr_found r' = tr_found r \<and> tr_blocked r' = tr_blocked r)"
proof -
  obtain m s1 where mf: "member_for t s = (m, s1)" and m: "(case m of Inl _ \<Rightarrow> ret (0, r) | Inr m \<Rightarrow> bnd (attempt (get_workspace (m_workspace_id m))) (\<lambda>w.
         bnd (member_pool_avail q (unix_seconds now) t) (\<lambda>avail.
         ret (avail, r\<lparr>tr_team_member := True, tr_team_admin := (m_role m = WSRoleAdmin),
           tr_workspace := (case w of Inl _ \<Rightarrow> tr_workspace r | Inr w \<Rightarrow> ws_name w), tr_pool_avail_usd := avail\<rparr>)))) s1
      = (Inr (avail, r'), s')"
    using assms unfolding with_pool_def bnd_attempt by (elim exE conjE) (rule that)
  show ?thesis
  proof (cases m)
    case (Inl e) with m mf show ?thesis by (simp add: outcome_simps)
  next
    case (Inr x)
    from m[unfolded this sum.case bnd_attempt] mf Inr show ?thesis by (auto simp: bnd_Inr ret_iff)
  qed
qed

lemma with_pool_who: "with_pool q now t r s = (Inr (avail, r'), s') \<Longrightarrow> tr_masked r' = tr_masked r \<and> tr_found r' = tr_found r"
  using with_pool_run by blast

lemma with_wallet_run:
  assumes "with_wallet q True now t r s = (Inr r', s')"
  shows "r' = r \<or> (\<exists>w gr g s1 s2 r1 avail. get_wallet t s = (Inr w, s1) \<and> get_group (w_group_id w) s1 = (gr, s2) \<and> with_pool q now t (r\<lparr>tr_balance_usd := w_balance_usd w,
      tr_group_id := w_group_id w, tr_pricing_group := g\<rparr>) s2 = (Inr (avail, r1), s') \<and>
      r' = (if w_balance_usd w \<le> 0 \<and> avail \<le> 0 then r1\<lparr>tr_blocked := True\<rparr> else r1))"
proof -
  obtain w s1 where w: "get_wallet t s = (w, s1)" and k: "(case w of Inl _ \<Rightarrow> ret r
       | Inr w \<Rightarrow> bnd (attempt (get_group (w_group_id w))) (\<lambda>g.
           bnd (with_pool q now t (r\<lparr>tr_balance_usd := w_balance_usd w, tr_group_id := w_group_id w,
             tr_pricing_group := (case g of Inl _ \<Rightarrow> tr_pricing_group r | Inr g \<Rightarrow> g_name g)\<rparr>)) (\<lambda>(avail, r').
           ret (if w_balance_usd w \<le> 0 \<and> avail \<le> 0 then r'\<lparr>tr_blocked := True\<rparr> else r')))) s1 = (Inr r', s')"
    using assms unfolding with_wallet_def by (simp only: not_True_eq_False if_False bnd_attempt) (elim exE conjE, rule that)
  show ?thesis
  proof (cases w)
    case (Inl e) with k show ?thesis by (simp add: outcome_simps)
  next
    case (Inr w1)
    from k[unfolded this sum.case bnd_attempt] obtain gr g s2 avail r1 where
      "get_group (w_group_id w1) s1 = (gr, s2)" "with_pool q now t (r\<lparr>tr_balance_usd := w_balance_usd w1, tr_group_id := w_group_id w1, tr_pricing_group := g\<rparr>) s2 = (Inr (avail, r1), s')"
      "r' = (if w_balance_usd w1 \<le> 0 \<and> avail \<le> 0 then r1\<lparr>tr_blocked := True\<rparr> else r1)"
      by (auto simp: bnd_Inr ret_iff)
    with w Inr show ?thesis by blast
  qed
qed

lemma with_wallet_who:
  assumes "with_wallet q db now t r s = (Inr r', s')"
  shows "tr_masked r' = tr_masked r \<and> tr_found r' = tr_found r"
proof (cases db)
  case True
  with assms have "with_wallet q True now t r s = (Inr r', s')" by simp
  from with_wallet_run[OF this] show ?thesis by (auto dest!: with_pool_who split: if_splits)
next
  case False
  with assms show ?thesis by (simp add: with_wallet_def outcome_simps)
qed

lemma resolve_token_found: "resolve_token q h e now t s = (Inr r, s') \<Longrightarrow> (sh_lookup h t = None \<longrightarrow> r = blank_result (token_mask t)) \<and>
    (sh_lookup h t \<noteq> None \<longrightarrow> tr_masked r = token_mask t \<and> tr_found r)"
  by (auto simp: resolve_token_def with_usage_who blank_result_def outcome_simps dest!: with_wallet_who split: option.splits)

lemma masked_index_found: "(msk, i) \<in> set (masked_index rs) \<Longrightarrow> i < length rs \<and> tr_found (rs ! i) \<and> msk = tr_masked (rs ! i)"
proof -
  have "\<forall>x \<in> set (fold (\<lambda>(r, i) idx. if tr_found r then filter (\<lambda>x. fst x \<noteq> tr_masked r) idx @ [(tr_masked r, i)] else idx) zs acc).
      x \<in> set acc \<or> (\<exists>(r, i) \<in> set zs. tr_found r \<and> x = (tr_masked r, i))" for zs :: "(token_result \<times> nat) list" and acc
  proof (induction zs arbitrary: acc)
    case (Cons z zs)
    then show ?case by (cases z) (fastforce split: if_splits)
  qed simp
  from this[where acc = "[]" and zs = "zip rs [0..<length rs]"] show "(msk, i) \<in> set (masked_index rs) \<Longrightarrow> ?thesis"
    unfolding masked_index_def by (auto simp: set_zip dest!: bspec)
qed

lemma fill_result_length: "length (fst (fill_result h e rl now x acc)) = length (fst acc)"
  by (simp add: fill_result_def case_prod_beta)

lemma fill_result_other: "snd x \<noteq> j \<Longrightarrow> fst (fill_result h e rl now x acc) ! j = fst acc ! j"
  by (simp add: fill_result_def case_prod_beta)

lemma fill_all_other:
  "j \<notin> snd ` set xs \<Longrightarrow> fst (fold (fill_result h e rl now) xs acc) ! j = fst acc ! j \<and>
     length (fst (fold (fill_result h e rl now) xs acc)) = length (fst acc)"
  by (induction xs arbitrary: acc) (auto simp: fill_result_length fill_result_other)

lemma status_query_results:
  assumes "status_query q h e rl visit now (Inr ts) sc s = (Inr (Inr rs, sc'), s')"
  shows "\<exists>rs0 s0. resolve_tokens q h e now (wanted_tokens ts []) s = (Inr rs0, s0) \<and>
    (rs = rs0 \<or> rs = fst (fold (fill_result h e rl now) (visit (masked_index rs0)) (rs0, sc)))"
  using assms by (auto simp: status_query_def outcome_simps case_prod_beta split: if_splits prod.splits)

text \<open>C33. One request looks at no more than twenty different tokens, and for one that is not registered the answer is its mask and
  nothing else, whatever the database, the usage ledger, the pool and the request log hold.\<close>

lemma unregistered_tokens_reveal_nothing:
  assumes run: "status_query q h e rl visit now (Inr ts) sc s = (Inr (Inr rs, sc'), s')"
    and visit: "\<And>xs. set (visit xs) = set xs"
  shows "is_wanted (wanted_tokens ts []) \<and> length rs = length (wanted_tokens ts []) \<and>
    (\<forall>i < length rs. sh_lookup h (wanted_tokens ts [] ! i) = None \<longrightarrow> rs ! i = blank_result (token_mask (wanted_tokens ts [] ! i)))"
proof -
  from status_query_results[OF run] obtain rs0 s0 where
    r: "resolve_tokens q h e now (wanted_tokens ts []) s = (Inr rs0, s0)" and
    rs: "rs = rs0 \<or> rs = fst (fold (fill_result h e rl now) (visit (masked_index rs0)) (rs0, sc))" by blast
  note each = resolve_tokens_each[OF r]
  have len: "length (fst (fold (fill_result h e rl now) xs (rs0, sc))) = length rs0" for xs
    by (induction xs rule: rev_induct) (simp_all add: fill_result_length)
  have "rs ! i = blank_result (token_mask (wanted_tokens ts [] ! i))"
    if i: "i < length rs0" and n: "sh_lookup h (wanted_tokens ts [] ! i) = None" for i
  proof -
    from each i obtain s1 s2 where "resolve_token q h e now (wanted_tokens ts [] ! i) s1 = (Inr (rs0 ! i), s2)" by auto
    from resolve_token_found[OF this] n have b: "rs0 ! i = blank_result (token_mask (wanted_tokens ts [] ! i))" by simp
    then have "\<not> tr_found (rs0 ! i)" by (simp add: blank_result_def)
    then have "i \<notin> snd ` set (visit (masked_index rs0))" unfolding visit using masked_index_found by fastforce
    from fill_all_other[OF this, of h e rl now "(rs0, sc)"] rs b show ?thesis by auto
  qed
  moreover have "is_wanted (wanted_tokens ts [])"
    by (rule wanted_tokens_wanted) (simp_all add: is_wanted_def statusTokensPerRequest_def)
  ultimately show ?thesis using rs len each by auto
qed

section \<open>Blocked tokens\<close>

lemma quiet_query_row: "query_row e f s = (r, s') \<Longrightarrow> plan s = [] \<Longrightarrow> s' = s"
  by (cases r) (auto simp: outcome_simps tick_def)

lemma quiet_reads:
  "get_wallet tok s = (r1, s') \<Longrightarrow> plan s = [] \<Longrightarrow> s' = s"
  "get_group gid s = (r2, s') \<Longrightarrow> plan s = [] \<Longrightarrow> s' = s"
  "member_for tok s = (r3, s') \<Longrightarrow> plan s = [] \<Longrightarrow> s' = s"
  "get_workspace wsid s = (r4, s') \<Longrightarrow> plan s = [] \<Longrightarrow> s' = s"
  unfolding get_wallet_def get_group_def member_for_def get_workspace_def by (rule quiet_query_row; assumption)+

lemma outsider_draws_nothing:
  assumes "plan s = []" "member_for tok s = (Inl e, s1)"
  shows "member_pool_avail q now tok s = (Inr 0, s)"
  using assms by (simp add: member_pool_avail_def or_zero_def bnd_def attempt_def query_row_def stmt_def not_faulty member_for_def ret_def
      tick_def split: option.splits)

lemma blocked_run:
  assumes quiet: "plan s = []" and run: "with_wallet q True now t r s = (Inr r', s')" and "tr_blocked r'" "\<not> tr_blocked r"
  shows "\<exists>w avail. get_wallet t s = (Inr w, s) \<and> w_balance_usd w \<le> 0 \<and> avail \<le> 0 \<and>
    member_pool_avail q (unix_seconds now) t s = (Inr avail, s')"
proof -
  from with_wallet_run[OF run] assms(3,4) obtain w gr g s1 s2 r1 avail where
    w: "get_wallet t s = (Inr w, s1)" "get_group (w_group_id w) s1 = (gr, s2)" and
    p: "with_pool q now t (r\<lparr>tr_balance_usd := w_balance_usd w, tr_group_id := w_group_id w, tr_pricing_group := g\<rparr>) s2 = (Inr (avail, r1), s')" and
    r': "r' = (if w_balance_usd w \<le> 0 \<and> avail \<le> 0 then r1\<lparr>tr_blocked := True\<rparr> else r1)" by blast
  have s1: "s1 = s" using quiet_reads(1)[OF w(1)] quiet by simp
  have s2: "s2 = s" using quiet_reads(2)[OF w(2)] quiet s1 by simp
  from with_pool_run[OF p] assms(3,4) r' have b: "w_balance_usd w \<le> 0" "avail \<le> 0" by (auto split: if_splits)
  have "member_pool_avail q (unix_seconds now) t s = (Inr avail, s')"
  proof -
    from with_pool_run[OF p[unfolded s2]] consider e where "avail = 0" "member_for t s = (Inl e, s')"
      | m s0 w' s1 where "member_for t s = (Inr m, s0)" "get_workspace (m_workspace_id m) s0 = (w', s1)"
        "member_pool_avail q (unix_seconds now) t s1 = (Inr avail, s')" by blast
    then show ?thesis
    proof cases
      case 1
      with outsider_draws_nothing[OF quiet 1(2)] quiet_reads(3)[OF 1(2) quiet] show ?thesis by simp
    next
      case 2
      have "s0 = s" using quiet_reads(3)[OF 2(1) quiet] .
      with quiet_reads(4)[OF 2(2)] quiet 2(3) show ?thesis by simp
    qed
  qed
  with w b s1 show ?thesis by blast
qed

text \<open>On a sound driver a token the page calls blocked is one whose next request the proxy refuses: what the proxy
  looks at before forwarding, wallet and pool together, is not above zero.\<close>

lemma blocked_tokens_are_refused:
  assumes "plan s = []" "sh_wallets h" "resolve_token q h e now tok s = (Inr r, s1)" "tr_blocked r"
  shows "\<exists>x s2. precheck_balance q (Some b) now tok s = (Inr x, s2) \<and> x \<le> 0"
proof -
  from assms(3,4) obtain name grp where "with_wallet q True now tok
      (with_usage e tok ((blank_result (token_mask tok))\<lparr>tr_found := True, tr_name := name, tr_group := grp\<rparr>)) s = (Inr r, s1)"
    using assms(2) by (auto simp: resolve_token_def outcome_simps blank_result_def split: option.splits)
  moreover have "\<not> tr_blocked (with_usage e tok ((blank_result (token_mask tok))\<lparr>tr_found := True, tr_name := name, tr_group := grp\<rparr>))"
    by (simp add: with_usage_def blank_result_def split: option.split)
  ultimately obtain w avail where w: "get_wallet tok s = (Inr w, s)" "w_balance_usd w \<le> 0" "avail \<le> 0"
    "member_pool_avail q (unix_seconds now) tok s = (Inr avail, s1)" using blocked_run[OF assms(1) _ assms(4)] by blast
  have "fadd (w_balance_usd w) avail \<le> fadd 0 0" using w(2,3) by (rule fadd_mono)
  then have "fadd (w_balance_usd w) avail \<le> 0" by simp
  moreover have "ensure_wallet (unix_seconds now) tok s = (Inr w, s)"
    by (simp add: ensure_wallet_def bnd_def attempt_def w(1) ret_def)
  ultimately show ?thesis by (simp add: precheck_balance_def bnd_def w(4) ret_def)
qed

definition demo_page :: statement_handler where
  "demo_page = \<lparr>sh_log_dir = ''logs'', sh_retention = 90, sh_lookup = (\<lambda>t. if t = ''alice'' then Some (''Alice'', ''g'') else None),
     sh_wallets = True, sh_rate = None, sh_fallback = 7, sh_max_rows = 10\<rparr>"

definition demo_health :: pool_health where
  "demo_health = \<lparr>ph_total = 0, ph_serving = 0, ph_by_state = (\<lambda>_. 0), ph_worst = [], ph_available = False\<rparr>"

definition demo_cred :: auth_info where
  "demo_cred = \<lparr>ai_id = ''k'', ai_api_key = True, ai_provider = ''openai'', ai_label = ''relay'', ai_group = [], ai_max_concurrent = 0,
     ai_state = HealthCooling, ai_failures = 0, ai_429s = 0, ai_401s = 0, ai_last_success = 0, ai_last_failure = 0,
     ai_last_failure_reason = [], ai_hard_failure_at = 0, ai_quota_reset_at = 0, ai_quarantine_until = 0, ai_quarantine_strikes = 1\<rparr>"

definition demo_status :: status_env where
  "demo_status = \<lparr>se_pool = \<lparr>pa_normalize = (\<lambda>s. s), pa_status = [(demo_cred, 0)], pa_live = (\<lambda>_. None), pa_new_health = (\<lambda>_ _. demo_health)\<rparr>,
     se_report_healthy = hr_serving, se_models = 0, se_pricing = None, se_labels = (\<lambda>_. None), se_clients = (\<lambda>_. None), se_week = []\<rparr>"

text \<open>A database with the given balance of the member's wallet.\<close>

definition owing_db :: "float64 \<Rightarrow> db" where
  "owing_db b = demo_db\<lparr>wallets := [\<lparr>w_token = ''alice'', w_balance_usd = b, w_group_id = 1, w_created_at = 0, w_updated_at = 0\<rparr>]\<rparr>"

definition demo_lookup :: "float64 \<Rightarrow> int \<Rightarrow> db_error + token_result" where
  "demo_lookup b now = fst (resolve_token demo_sqlite demo_page demo_status (now * second_ns) ''alice'' (fresh_session (owing_db b)))"

definition demo_precheck :: "float64 \<Rightarrow> int \<Rightarrow> db_error + float64" where
  "demo_precheck b now = fst (precheck_balance demo_sqlite (Some \<lparr>sb_promos = []\<rparr>) (now * second_ns) ''alice'' (fresh_session (owing_db b)))"

definition says_blocked :: "db_error + token_result \<Rightarrow> bool" where
  "says_blocked r = (case r of Inr t \<Rightarrow> tr_found t \<and> tr_blocked t | Inl _ \<Rightarrow> False)"

text \<open>The page says blocked only when wallet and pool are each spent, the proxy adds them up: a member who owes more than
  the pool still gives is refused and not shown as blocked.\<close>

lemma owing_member_is_not_shown_blocked:
  "\<not> says_blocked (demo_lookup (-5) 2000) \<and> demo_precheck (-5) 2000 = Inr (-3)"
proof
  show "\<not> says_blocked (demo_lookup (-5) 2000)" by code_simp
  show "demo_precheck (-5) 2000 = Inr (-3)" by code_simp
qed

section \<open>One cache for all tokens\<close>

abbreviation bar :: char where "bar \<equiv> CHR ''|''"

lemma decimal_no_bar: "decimal_char c \<Longrightarrow> c \<noteq> bar"
  by (auto simp: decimal_char_def)

lemma itoa_no_bar: "bar \<notin> set (itoa i)"
  by (auto simp: itoa_def dest: nat_digits_decimal decimal_no_bar)

lemma int_pad_no_bar: "bar \<notin> set (int_pad k i)"
  by (auto simp: int_pad_def dest: pad_digits_decimal decimal_no_bar)

lemma format_date_no_bar: "bar \<notin> set (format_date z)"
  by (auto simp: format_date_def int_pad_no_bar split: prod.split)

lemma format_instant_no_bar: "bar \<notin> set (format_instant t)"
  by (simp add: format_instant_def Let_def int_pad_no_bar format_date_no_bar)

lemma head_field: "a @ bar # x = b @ bar # y \<Longrightarrow> bar \<notin> set a \<Longrightarrow> bar \<notin> set b \<Longrightarrow> a = b \<and> x = y"
  by (induction a arbitrary: b) (auto simp: Cons_eq_append_conv append_eq_Cons_conv)

text \<open>Fields without a bar are read back from the key, whatever the other filter holds: a bar more in its fields would be a
  bar more in its key.\<close>

lemma count_join: "xs \<noteq> [] \<Longrightarrow> count_list (join_with ''|'' xs) bar + 1 = length xs + sum_list (map (\<lambda>x. count_list x bar) xs)"
  by (induction "''|''" xs rule: join_with.induct) auto

lemma join_inj_plain:
  "\<lbrakk>length xs = length ys; \<forall>x \<in> set xs \<union> set ys. bar \<notin> set x; join_with ''|'' xs = join_with ''|'' ys\<rbrakk> \<Longrightarrow> xs = ys"
proof (induction xs ys rule: list_induct2)
  case (Cons x xs y ys)
  show ?case
  proof (cases "xs = []")
    case True
    with Cons.hyps Cons.prems show ?thesis by simp
  next
    case False
    then obtain x' xs' y' ys' where xs: "xs = x' # xs'" "ys = y' # ys'" using Cons.hyps by (metis length_0_conv list.exhaust)
    with Cons.prems have "x = y \<and> join_with ''|'' xs = join_with ''|'' ys" using head_field[of x "join_with ''|'' xs" y "join_with ''|'' ys"] by simp
    with Cons.IH Cons.prems show ?thesis by simp
  qed
qed simp

lemma join_inj:
  assumes l: "length xs = length ys" and p: "\<forall>x \<in> set xs. bar \<notin> set x" and j: "join_with ''|'' xs = join_with ''|'' ys"
  shows "xs = ys"
proof (cases "xs = []")
  case False
  with l have ne: "ys \<noteq> []" by auto
  have "sum_list (map (\<lambda>x. count_list x bar) xs) = 0" using p by (simp add: sum_list_nonneg_eq_0_iff count_list_0_iff)
  with count_join[OF False] count_join[OF ne] l j have "sum_list (map (\<lambda>x. count_list x bar) ys) = 0" by simp
  then have "\<forall>y \<in> set ys. bar \<notin> set y" by (simp add: sum_list_nonneg_eq_0_iff count_list_0_iff)
  with l p j show ?thesis by (intro join_inj_plain) auto
qed (use l in simp)

text \<open>A query of whose fields none holds a bar.\<close>

definition plain_query :: "query_filter \<Rightarrow> bool" where
  "plain_query f \<longleftrightarrow> bar \<notin> set (qf_from_day f) \<and> bar \<notin> set (qf_to_day f) \<and> bar \<notin> set (qf_client f) \<and> bar \<notin> set (qf_client_token f) \<and>
     bar \<notin> set (qf_model f) \<and> bar \<notin> set (qf_provider f) \<and> bar \<notin> set (qf_auth_id f)"

lemma cache_key_fields:
  assumes "req_cache_key f = req_cache_key g" "plain_query f"
  shows "qf_client_token g = qf_client_token f \<and> qf_limit g = qf_limit f"
  using join_inj[OF _ _ assms(1)[unfolded req_cache_key_def]] assms(2)
  by (simp add: plain_query_def format_instant_no_bar itoa_no_bar itoa_unique)

text \<open>What is relied on of the log: a query for a token is answered with rows of that token, and with no more rows than the
  limit it gives.\<close>

definition answers :: "query_filter \<Rightarrow> query_result \<Rightarrow> bool" where
  "answers f r \<longleftrightarrow> (qf_client_token f \<noteq> [] \<longrightarrow> (\<forall>e \<in> set (qr_entries r). le_client_token e = qf_client_token f)) \<and>
     (0 < qf_limit f \<longrightarrow> int (length (qr_entries r)) \<le> qf_limit f)"

definition honest_log :: "request_log \<Rightarrow> bool" where
  "honest_log rl \<longleftrightarrow> (\<forall>f r. rl_query rl f = Inr r \<longrightarrow> answers f r)"

text \<open>A cache that began empty and has since answered any queries whatever, at any times, for any lifetimes, out of whatever
  the log then held.\<close>

inductive after_queries :: "query_cache \<Rightarrow> bool" where
  nothing_asked: "after_queries []"
| one_more: "after_queries c \<Longrightarrow> honest_log rl \<Longrightarrow> cached_query_shared rl now f ttl c = (r, c') \<Longrightarrow> after_queries c'"

definition keeps_tokens :: "query_cache \<Rightarrow> bool" where
  "keeps_tokens c \<longleftrightarrow> (\<forall>(k, r, _, _) \<in> set c. \<forall>f. plain_query f \<longrightarrow> k = req_cache_key f \<longrightarrow> answers f r)"

lemma make_room_sub: "set (make_room now c) \<subseteq> set c"
  by (auto simp: make_room_def Let_def)

lemma keeps_tokens_ask:
  assumes "honest_log rl" "keeps_tokens c" "cached_query_shared rl now f ttl c = (r, c')"
  shows "keeps_tokens c' \<and> (\<forall>q. r = Inr q \<longrightarrow> plain_query f \<longrightarrow> answers f q)"
proof -
  have fetch: "answers g q" if "rl_query rl f = Inr q" "plain_query g" "req_cache_key f = req_cache_key g" for q g
    using assms(1) that(1) cache_key_fields[OF that(3)[symmetric] that(2)] unfolding honest_log_def answers_def by fastforce
  have kept: "keeps_tokens ((req_cache_key f, q, now, now + ttl) # filter (\<lambda>e. fst e \<noteq> req_cache_key f) (make_room now c))"
    if "rl_query rl f = Inr q" for q
    using assms(2) make_room_sub[of now c] fetch[OF that] unfolding keeps_tokens_def by fastforce
  show ?thesis
  proof (cases "map_of c (req_cache_key f)")
    case None
    then show ?thesis using assms(2,3) kept fetch
      by (auto simp: cached_query_shared_def Let_def split: sum.splits)
  next
    case (Some v)
    obtain q put exp where v: "v = (q, put, exp)" by (cases v)
    have "plain_query f \<longrightarrow> answers f q" using assms(2) map_of_SomeD[OF Some] unfolding keeps_tokens_def v by fastforce
    then show ?thesis using assms(2,3) kept fetch Some unfolding v
      by (auto simp: cached_query_shared_def Let_def split: sum.splits if_splits)
  qed
qed

lemma after_queries_keeps: "after_queries c \<Longrightarrow> keeps_tokens c"
  by (induction rule: after_queries.induct) (simp add: keeps_tokens_def, use keeps_tokens_ask in blast)

lemma after_queries_ask:
  assumes "after_queries c" "honest_log rl" "cached_query_shared rl now f ttl c = (r, c')"
  shows "after_queries c' \<and> (\<forall>q. r = Inr q \<longrightarrow> plain_query f \<longrightarrow> answers f q)"
  using after_queries.one_more[OF assms] keeps_tokens_ask[OF assms(2) after_queries_keeps[OF assms(1)] assms(3)] by blast

lemma after_queries_status:
  assumes "honest_log (request_log.truncate rl)" "after_queries (st_queries sc)" "status_ask rl now f sc = (r, sc')"
  shows "after_queries (st_queries sc') \<and> (\<forall>q. r = Inr q \<longrightarrow> plain_query f \<longrightarrow> answers f q)"
  using after_queries_ask[OF assms(2,1)] assms(3) by (auto simp: status_ask_def split: prod.splits)

text \<open>Every endpoint that shares the cache, the operator's own included, leaves one of these.\<close>

lemma operator_queries:
  assumes "after_queries c" "honest_log rl"
  shows "after_queries (snd (requests_query_page dir rl ts labels now q c))" "after_queries (snd (auth_daily_cost_page dir rl by_day now i c))"
    "after_queries (snd (lifetime_totals h rl now masked c))" "after_queries (snd (target_scan h rl now masked target rate c))"
    "after_queries (snd (range_totals rl now masked from to' with_lines rate s c))"
proof -
  have ask: "after_queries (snd (cached_query_shared rl now f ttl c'))" if "after_queries c'" for f ttl c'
    using after_queries_ask[OF that assms(2)] by (metis prod.collapse)
  show "after_queries (snd (range_totals rl now masked from to' with_lines rate s c))"
    unfolding range_totals_def by (auto simp: Let_def split: prod.split sum.split) (metis ask assms(1) snd_conv)+
  show "after_queries (snd (target_scan h rl now masked target rate c))"
    unfolding target_scan_def by (auto simp: Let_def split: prod.split sum.split) (metis ask assms(1) snd_conv)+
  show "after_queries (snd (lifetime_totals h rl now masked c))"
    unfolding lifetime_totals_def by (auto split: prod.split sum.split) (metis ask assms(1) snd_conv)+
  show "after_queries (snd (auth_daily_cost_page dir rl by_day now i c))"
    using assms(1) unfolding auth_daily_cost_page_def cached_query_def by (auto simp: Let_def split: prod.split sum.split) (metis ask assms(1) snd_conv)+
  show "after_queries (snd (requests_query_page dir rl ts labels now q c))"
    using assms(1) unfolding requests_query_page_def cached_query_def by (auto simp: Let_def split: prod.split sum.split) (metis ask assms(1) snd_conv)+
qed

section \<open>Histories\<close>

lemma day_label_no_bar: "is_day_label s \<Longrightarrow> bar \<notin> set s"
  using format_date_no_bar format_parse unfolding is_day_label_def by (metis not_None_eq)

lemma plain_bounds: "plain_query f \<Longrightarrow> plain_query (apply_date_bounds off a b f) \<and>
    qf_client_token (apply_date_bounds off a b f) = qf_client_token f"
  by (auto simp: apply_date_bounds_def Let_def plain_query_def day_label_no_bar split: option.splits)

lemma plain_updates [simp]:
  "plain_query (f\<lparr>qf_limit := l\<rparr>) = plain_query f" "plain_query (f\<lparr>qf_offset := l\<rparr>) = plain_query f"
  "plain_query (f\<lparr>qf_page_only := b\<rparr>) = plain_query f" "plain_query (no_filter\<lparr>qf_client_token := t\<rparr>) \<longleftrightarrow> bar \<notin> set t"
  by (simp_all add: plain_query_def no_filter_def)

lemma mask_not_empty: "token_mask t \<noteq> []"
  by (simp add: token_mask_def Opaque_def)

text \<open>C32. A page of history answers a registered token whose mask holds no bar with one to two hundred rows at most, as many
  as the page says, and every row was logged under that token's mask, whatever queries of whatever endpoints the shared
  cache has answered since the server started; and the cache remains one of these.\<close>

lemma history_stays_with_its_token:
  assumes "honest_log (request_log.truncate rl)" "after_queries (st_queries sc)" "bar \<notin> set (token_mask (trim_space (hb_token b)))"
    and "status_history h e rl now (Inr b) sc = (Inr page, sc')"
  shows "sh_lookup h (trim_space (hb_token b)) \<noteq> None \<and> 1 \<le> hp_limit page \<and> hp_limit page \<le> 200 \<and> 0 \<le> hp_offset page \<and>
    int (length (hp_entries page)) \<le> hp_limit page \<and>
    (\<exists>es. hp_entries page = map (recent_of (se_labels e)) es \<and> (\<forall>x \<in> set es. le_client_token x = token_mask (trim_space (hb_token b)))) \<and>
    after_queries (st_queries sc')"
proof -
  define tok where "tok = trim_space (hb_token b)"
  define f where "f = apply_date_bounds (rl_offset rl) (hb_from b) (hb_to b) (no_filter\<lparr>qf_client_token := token_mask tok\<rparr>)"
  define g where "g = f\<lparr>qf_limit := history_limit (hb_limit b), qf_offset := max 0 (hb_offset b), qf_page_only := True\<rparr>"
  have f: "plain_query f" "qf_client_token f = token_mask tok"
    using plain_bounds[of "no_filter\<lparr>qf_client_token := token_mask tok\<rparr>"] assms(3) unfolding f_def tok_def by simp_all
  have g: "plain_query g" "qf_client_token g = token_mask tok" "qf_limit g = history_limit (hb_limit b)" using f by (simp_all add: g_def)
  obtain r1 sc1 where a1: "status_ask rl now g sc = (r1, sc1)" by fastforce
  obtain r2 sc2 where a2: "status_ask rl now (f\<lparr>qf_limit := 1\<rparr>) sc1 = (r2, sc2)" by fastforce
  from assms(4) obtain q where q: "sh_lookup h tok \<noteq> None" "r1 = Inr q" "sc' = sc2" "hp_entries page = map (recent_of (se_labels e)) (qr_entries q)"
    "hp_limit page = history_limit (hb_limit b)" "hp_offset page = max 0 (hb_offset b)"
    using a1 a2 unfolding g_def f_def
    by (auto simp: status_history_def check_history_def Let_def tok_def split: if_splits sum.splits)
  have k1: "after_queries (st_queries sc1)" "answers g q" using after_queries_status[OF assms(1,2) a1] q(2) g(1) by auto
  have "after_queries (st_queries sc2)" using after_queries_status[OF assms(1) k1(1) a2] by simp
  moreover have limit: "1 \<le> history_limit (hb_limit b) \<and> history_limit (hb_limit b) \<le> 200" by (simp add: history_limit_def Let_def)
  moreover have "(\<forall>x \<in> set (qr_entries q). le_client_token x = token_mask tok) \<and> int (length (qr_entries q)) \<le> history_limit (hb_limit b)"
    using k1(2) g mask_not_empty limit unfolding answers_def by simp
  ultimately show ?thesis using q by (auto simp: tok_def[symmetric])
qed

text \<open>The other public endpoints that share the cache.\<close>

lemma fill_result_keeps:
  "honest_log (request_log.truncate rl) \<Longrightarrow> after_queries (st_queries (snd acc)) \<Longrightarrow>
     after_queries (st_queries (snd (fill_result h e rl now x acc)))"
  unfolding fill_result_def case_prod_beta snd_conv
  by (metis after_queries_status prod.collapse)

lemma status_query_keeps:
  assumes "honest_log (request_log.truncate rl)" "after_queries (st_queries sc)"
    and "status_query q h e rl visit now body sc s = (Inr (r, sc'), s')"
  shows "after_queries (st_queries sc')"
proof -
  have "after_queries (st_queries (snd (fold (fill_result h e rl now) xs (rs, sc))))" for xs rs
    using assms(2) by (induction xs rule: rev_induct) (simp_all add: fill_result_keeps[OF assms(1)])
  then show ?thesis using assms(2,3)
    by (auto simp: status_query_def outcome_simps case_prod_beta split: sum.splits if_splits)
qed

lemma hourly_leaves_queries: "st_queries (snd (status_hourly24 rl now sc)) = st_queries sc"
  by (auto simp: status_hourly24_def split: option.split sum.split)

lemma dashboard_keeps:
  assumes "honest_log (request_log.truncate rl)" "after_queries (st_queries sc)"
  shows "after_queries (st_queries (snd (status_dashboard_page h e rl now sc)))"
proof -
  have ask: "after_queries (st_queries (snd (status_ask rl now f sc')))" if "after_queries (st_queries sc')" for f sc'
    using after_queries_status[OF assms(1) that] by (metis prod.collapse)
  show ?thesis using assms(2)
    by (simp add: status_dashboard_page_def Let_def case_prod_beta hourly_leaves_queries ask)
qed

section \<open>Witnesses\<close>

definition demo_row :: "query_filter \<Rightarrow> log_entry" where
  "demo_row f = \<lparr>lr_ts = 0, lr_provider = [], lr_model = [], lr_input = 1, lr_output = 1, lr_cache_read = 0, lr_cost_usd = 0,
     lr_billed_or_cost = 0, lr_status = 200, le_client = [], le_client_token = qf_client_token f, le_auth_id = [], le_auth_label = [],
     le_auth_kind = [], le_cache_create = 0, le_billed_usd = 0, le_multiplier = 1, le_duration_ms = 0, le_stream = False\<rparr>"

definition demo_status_log :: status_log where
  "demo_status_log = \<lparr>rl_query = (\<lambda>f. Inr \<lparr>qr_summary = zero_aggregate, qr_by_client = [], qr_by_model = [], qr_by_day = [], qr_entries = [demo_row f]\<rparr>),
     rl_offset = 0, rl_zone = [], sl_hourly = (\<lambda>_. Inl []), sl_by_auth = (\<lambda>_. Inl [])\<rparr>"

definition no_caches :: status_caches where
  "no_caches = \<lparr>st_queries = [], st_hourly = None, st_window24 = None\<rparr>"

lemma demo_log_honest: "honest_log (request_log.truncate demo_status_log)"
  by (auto simp: honest_log_def answers_def demo_status_log_def request_log.truncate_def demo_row_def)

lemma history_stays_with_its_token_witness:
  "\<exists>page sc'. status_history demo_page demo_status demo_status_log 0 (Inr \<lparr>hb_token = ''alice'', hb_from = [], hb_to = [], hb_offset = 0, hb_limit = 0\<rparr>)
     no_caches = (Inr page, sc') \<and> length (hp_entries page) = 1 \<and> after_queries (st_queries sc')"
proof -
  let ?b = "\<lparr>hb_token = ''alice'', hb_from = [], hb_to = [], hb_offset = 0, hb_limit = 0\<rparr>"
  obtain r sc' where r: "status_history demo_page demo_status demo_status_log 0 (Inr ?b) no_caches = (r, sc')" by fastforce
  have "trim_space ''alice'' = ''alice''" by code_simp
  then have "\<exists>page. r = Inr page \<and> length (hp_entries page) = 1" using r
    by (auto simp: status_history_def check_history_def Let_def status_ask_def cached_query_shared_def no_caches_def demo_page_def
        demo_status_log_def request_log.truncate_def split: prod.splits sum.splits if_splits)
  moreover have "after_queries (st_queries no_caches)" by (simp add: no_caches_def after_queries.nothing_asked)
  moreover have "bar \<notin> set (token_mask (trim_space (hb_token ?b)))" by code_simp
  ultimately show ?thesis using history_stays_with_its_token[OF demo_log_honest] r by blast
qed

lemma unregistered_tokens_reveal_nothing_witness:
  "\<exists>rs sc' s'. status_query demo_sqlite demo_page demo_status demo_status_log (\<lambda>x. x) 0 (Inr [''bob'']) no_caches (fresh_session demo_db) =
     (Inr (Inr rs, sc'), s') \<and> rs = [blank_result (token_mask ''bob'')]"
proof -
  have w: "wanted_tokens [''bob''] [] = [''bob'']" by code_simp
  have n: "sh_lookup demo_page ''bob'' = None" by (simp add: demo_page_def)
  have m: "masked_index [blank_result (token_mask ''bob'')] = []" by (simp add: masked_index_def blank_result_def)
  have run: "status_query demo_sqlite demo_page demo_status demo_status_log (\<lambda>x. x) 0 (Inr [''bob'']) no_caches (fresh_session demo_db) =
      (Inr (Inr [blank_result (token_mask ''bob'')], no_caches), fresh_session demo_db)"
    by (simp add: status_query_def w n m resolve_token_def bnd_def ret_def del: wanted_tokens.simps)
  have "[blank_result (token_mask ''bob'')] ! 0 = blank_result (token_mask ([''bob''] ! 0))"
    using unregistered_tokens_reveal_nothing[OF run] unfolding w using n by simp
  with run show ?thesis by blast
qed

definition spent_db :: db where
  "spent_db = (owing_db 0)\<lparr>workspaces := []\<rparr>"

lemma blocked_tokens_are_refused_witness:
  "\<exists>x s2. precheck_balance demo_sqlite (Some \<lparr>sb_promos = []\<rparr>) (2000 * second_ns) ''alice'' (fresh_session spent_db) = (Inr x, s2) \<and> x \<le> 0"
proof -
  let ?run = "resolve_token demo_sqlite demo_page demo_status (2000 * second_ns) ''alice'' (fresh_session spent_db)"
  have "says_blocked (fst ?run)" by code_simp
  then obtain r s1 where r: "?run = (Inr r, s1)" "tr_blocked r" by (cases ?run) (auto simp: says_blocked_def split: sum.splits)
  have "plan (fresh_session spent_db) = []" "sh_wallets demo_page" by (simp_all add: fresh_session_def demo_page_def)
  then show ?thesis using blocked_tokens_are_refused[OF _ _ r] by blast
qed

lemma census_partitions_the_pool_witness:
  "ct_total (cn_counts (take_census demo_status 0)) = 1 \<and> ct_cooling (cn_counts (take_census demo_status 0)) = 1"
proof -
  have r: "census_reports demo_status 0 = [(demo_cred, report_from_info 0 demo_cred)]"
    by (simp add: census_reports_def demo_status_def health_report_for_def)
  have st: "hr_state (report_from_info 0 demo_cred) = HealthCooling"
    by (simp add: report_from_info_def Let_def demo_cred_def health_states)
  then have "\<forall>x \<in> set (census_reports demo_status 0). hr_state (snd x) \<in> set AllStates" by (simp add: r AllStates_def)
  from census_partitions_the_pool[OF this refl] have "ct_total (cn_counts (take_census demo_status 0)) = 1" by (simp add: demo_status_def)
  moreover have "ct_cooling (cn_counts (take_census demo_status 0)) = 1"
    by (simp add: take_census_def Let_def count_auth_fields r st no_counts_def)
  ultimately show ?thesis ..
qed

end
