(* ===== verification/TokenFacts.thy ===== *)
theory TokenFacts
  imports TokenDesk TeamFacts
begin

text \<open>
  What the token desk guarantees: a rotation carries the account and the registration together or leaves both, but for the
  one outcome the console reports as such; a deletion its guard has seen through leaves every workspace an admin.
\<close>

section \<open>An account\<close>

definition account_of :: "db \<Rightarrow> string \<Rightarrow> float64 option \<times> float64 list \<times> rat \<times> workspace_member option" where
  "account_of d k = (wallet_balance d k, wallet_entries d k, claimed_total k d,
     map_option (\<lambda>m. m\<lparr>m_token := [], m_updated_at := 0\<rparr>) (member_row d k))"

definition no_account :: "float64 option \<times> float64 list \<times> rat \<times> workspace_member option" where
  "no_account = (None, [], 0, None)"

definition account_moved :: "string \<Rightarrow> string \<Rightarrow> db \<Rightarrow> db \<Rightarrow> bool" where
  "account_moved old new d d' \<longleftrightarrow> account_of d' = (account_of d)(old := no_account, new := account_of d old) \<and> pool_balance d' = pool_balance d"

definition accounts_kept :: "db \<Rightarrow> db \<Rightarrow> bool" where
  "accounts_kept d d' \<longleftrightarrow> account_of d' = account_of d \<and> pool_balance d' = pool_balance d"

lemma accounts_kept_store: "d' = d \<Longrightarrow> accounts_kept d d'"
  by (simp add: accounts_kept_def)

definition books_ok :: "db \<Rightarrow> bool" where
  "books_ok d \<longleftrightarrow> accounts_ok d \<and> invoices_ok d"

text \<open>A token that is free has no account.\<close>

lemma token_free_account:
  assumes "books_ok d" "token_free new d"
  shows "account_of d new = no_account"
proof -
  have "wallets_ok d" using assms(1) by (simp add: books_ok_def accounts_ok_def)
  moreover have "own_claims st new d = []" "team_claims st new d = []" for st
    using assms(2) by (simp_all add: token_free_def own_claims_def team_claims_def filter_empty_conv)
  ultimately show ?thesis
    using assms(2) by (simp add: account_of_def no_account_def token_free_entries claimed_total_def) (simp add: token_free_def)
qed

lemma rekeyed_account_moved:
  assumes ok: "books_ok (store s)" and run: "rekey_token path stamp now old new s = (Inr rep, s')"
  shows "books_ok (store s') \<and> account_moved old new (store s) (store s') \<and> account_of (store s) new = no_account \<and> old \<noteq> new"
proof -
  from rekey_token_Inr[OF run] have ne: "old \<noteq> new" and free: "token_free new (store s)" and s': "store s' = rekeyed now old new (store s)"
    by auto
  from rekeyed_ok[OF _ _ free ne] ok have "books_ok (store s')" by (simp add: books_ok_def s')
  moreover from rekeyed_account[OF _ run] ok have "account_moved old new (store s) (store s')"
    by (auto simp: account_moved_def account_of_def no_account_def books_ok_def fun_eq_iff s' rekeyed_member[OF free ne]
        option.map_comp comp_def)
  ultimately show ?thesis using token_free_account[OF ok free] ne by simp
qed

text \<open>Forth and back is nothing.\<close>

lemma account_moved_back:
  assumes "account_moved old new d d1" "account_moved new old d1 d2" "account_of d new = no_account" "old \<noteq> new"
  shows "accounts_kept d d2"
  using assms by (auto simp: account_moved_def accounts_kept_def fun_eq_iff)

section \<open>Rotation\<close>

lemma rekey_wallet_run:
  assumes "rekey_wallet True path stamp now tok new s = (Inr w, s')"
  shows "(\<exists>rep. w = None \<and> rekey_token path stamp now tok new s = (Inr rep, s')) \<or>
    (\<exists>b. w = Some (500, b) \<and> store s' = store s)"
proof -
  obtain x where "rekey_token path stamp now tok new s = (x, s')" and "w = (case x of
       Inl e \<Rightarrow> Some (500, [(''error'', JStr ''wallet rekey failed; token NOT rotated (no state changed)''), (''detail'', JStr (db_error_text e)),
         (''old_token'', JStr (token_mask tok))])
     | Inr _ \<Rightarrow> None)"
    using assms unfolding rekey_wallet_def by (auto simp: bnd_attempt ret_iff)
  then show ?thesis using atomicD[OF atomic_rekey_token] by (cases x) auto
qed

lemma rekey_back_run:
  assumes "rekey_back True path stamp now tok new e s = (Inr r, s')"
  shows "(\<exists>rep. fst r = 400 \<and> rekey_token path stamp now new tok s = (Inr rep, s')) \<or>
    (fst r = 500 \<and> map_of (snd r) ''error'' = Some (JStr ''token rotation failed AND wallet rollback failed'') \<and> store s' = store s)"
proof -
  obtain x where "rekey_token path stamp now new tok s = (x, s')" and "r = (case x of
       Inl e' \<Rightarrow> (500, [(''error'', JStr ''token rotation failed AND wallet rollback failed''), (''token_store_error'', JStr e),
         (''rollback_error'', JStr (db_error_text e'))])
     | Inr _ \<Rightarrow> error_body 400 e)"
    using assms unfolding rekey_back_def by (auto simp: bnd_attempt ret_iff)
  then show ?thesis using atomicD[OF atomic_rekey_token] by (cases x) (auto simp: error_body_def)
qed

lemma stitch_history_tokens [simp]: "dk_tokens (stitch_history ops tok new dk) = dk_tokens dk"
  by (simp add: stitch_history_def Let_def split: sum.split option.split)

text \<open>C34. However a rotation ends, at whatever statement the driver fails and whatever the register answers: either the
  account (balance, ledger, invoice claims and membership) and the registration are both with the new token, or both
  with the old one as before, but for the one outcome that the answer names, the wallet being with the new token and
  the registration with the old. The books stay balanced and no workspace's pool moves.\<close>

theorem rotation_is_whole_or_reported:
  assumes ok: "books_ok (store s)"
    and run: "reset_token_page ops True path stamps now minted tok dk s = (Inr ((code, body), dk'), s')"
  shows "books_ok (store s') \<and>
    ((\<exists>new. minted = Inr new \<and> code = 200 \<and> map_of body ''token'' = Some (JStr new) \<and>
        account_moved tok new (store s) (store s') \<and> to_reset ops tok new (dk_tokens dk) = Inr (dk_tokens dk')) \<or>
     (code \<in> {400, 500} \<and> dk' = dk \<and> accounts_kept (store s) (store s')) \<or>
     (\<exists>new. minted = Inr new \<and> code = 500 \<and> map_of body ''error'' = Some (JStr ''token rotation failed AND wallet rollback failed'') \<and>
        dk' = dk \<and> account_moved tok new (store s) (store s')))"
proof (cases minted)
  case (Inl e)
  with run ok show ?thesis by (auto simp: reset_token_page_def ret_iff error_body_def accounts_kept_def)
next
  case (Inr new)
  from run[unfolded reset_token_page_def Inr sum.case] obtain w s1 where w: "rekey_wallet True path (fst stamps) now tok new s = (Inr w, s1)"
    and k: "(case w of Some r \<Rightarrow> ret (r, dk)
       | None \<Rightarrow> (case to_reset ops tok new (dk_tokens dk) of
           Inl e \<Rightarrow> bnd (rekey_back True path (snd stamps) now tok new e) (\<lambda>r. ret (r, dk))
         | Inr ts \<Rightarrow> ret ((200, [(''status'', JStr ''ok''), (''token'', JStr new)]),
             stitch_history ops tok new (dk\<lparr>dk_tokens := ts\<rparr>)))) s1 = (Inr ((code, body), dk'), s')"
    unfolding bnd_Inr by (elim exE conjE) (rule that)
  from rekey_wallet_run[OF w] show ?thesis
  proof (elim disjE exE conjE)
    fix b assume "w = Some (500, b)" "store s1 = store s"
    with k ok show ?thesis by (auto simp: ret_iff accounts_kept_def)
  next
    fix rep assume none: "w = None" and run1: "rekey_token path (fst stamps) now tok new s = (Inr rep, s1)"
    note moved = rekeyed_account_moved[OF ok run1]
    show ?thesis
    proof (cases "to_reset ops tok new (dk_tokens dk)")
      case (Inr ts)
      with k none moved \<open>minted = Inr new\<close> show ?thesis by (auto simp: ret_iff)
    next
      case (Inl e)
      with k none obtain r where r: "rekey_back True path (snd stamps) now tok new e s1 = (Inr r, s')" "r = (code, body)" "dk' = dk"
        by (auto simp: bnd_Inr ret_iff)
      from rekey_back_run[OF r(1)] show ?thesis
      proof (elim disjE exE conjE)
        fix rep' assume "fst r = 400" and run2: "rekey_token path (snd stamps) now new tok s1 = (Inr rep', s')"
        moreover from rekeyed_account_moved[OF _ run2] moved have "books_ok (store s')" "account_moved new tok (store s1) (store s')" by auto
        ultimately show ?thesis using r moved account_moved_back by auto
      qed (use r moved \<open>minted = Inr new\<close> in auto)
    qed
  qed
qed

section \<open>A register to try it on\<close>

definition demo_ops :: "(store_token list, unit, unit) token_ops" where
  "demo_ops = \<lparr>to_list = (\<lambda>ts. ts), to_known = (\<lambda>t. find (\<lambda>k. sk_token k = t)), to_add = (\<lambda>t ts. Inr (ts @ [t])),
     to_update = (\<lambda>_ _. Inr), to_delete = (\<lambda>t ts. if t \<in> sk_token ` set ts then Inr (filter (\<lambda>k. sk_token k \<noteq> t) ts) else Inl ''not found''),
     to_reset = (\<lambda>t n ts. if t \<in> sk_token ` set ts then Inr (map (\<lambda>k. if sk_token k = t then k\<lparr>sk_token := n\<rparr> else k) ts) else Inl ''not found''),
     us_weekly = (\<lambda>_ _. 0), us_clients = (\<lambda>_. []), us_rename = (\<lambda>_ _. Inr), us_merge = (\<lambda>_ _. Inr), lw_rewrite = None\<rparr>"

definition demo_token :: store_token where
  "demo_token = \<lparr>sk_token = ''alice'', sk_name = ''Alice'', sk_max_concurrent = 0, sk_rpm = 0, sk_group = [], sk_providers = [],
     sk_created_at = 0\<rparr>"

definition demo_desk :: "(store_token list, unit, unit) desk" where
  "demo_desk = \<lparr>dk_tokens = [demo_token], dk_usage = (), dk_log = (), dk_by_auth = [], dk_queries = []\<rparr>"

lemma demo_books_ok: "books_ok demo_db"
  by (simp add: books_ok_def demo_accounts_ok demo_invoices_ok)

theorem rotation_is_whole_or_reported_witness:
  "\<exists>s'. reset_token_page demo_ops True ''db'' (''now'', ''now'') 2000 (Inr ''bob'') ''alice'' demo_desk (fresh_session demo_db) =
     (Inr ((200, [(''status'', JStr ''ok''), (''token'', JStr ''bob'')]),
       demo_desk\<lparr>dk_tokens := [demo_token\<lparr>sk_token := ''bob''\<rparr>]\<rparr>), s') \<and>
     account_moved ''alice'' ''bob'' demo_db (store s')"
proof -
  obtain rep s' where run: "rekey_token ''db'' ''now'' 2000 ''alice'' ''bob'' (fresh_session demo_db) = (Inr rep, s')"
    using demo_rekey by blast
  then have page: "reset_token_page demo_ops True ''db'' (''now'', ''now'') 2000 (Inr ''bob'') ''alice'' demo_desk (fresh_session demo_db) =
     (Inr ((200, [(''status'', JStr ''ok''), (''token'', JStr ''bob'')]),
       demo_desk\<lparr>dk_tokens := [demo_token\<lparr>sk_token := ''bob''\<rparr>]\<rparr>), s')"
    by (simp add: reset_token_page_def rekey_wallet_def bnd_def attempt_def ret_def demo_ops_def demo_desk_def demo_token_def
        stitch_history_def Let_def)
  have "books_ok (store (fresh_session demo_db))" by (simp add: demo_fresh demo_books_ok)
  from rotation_is_whole_or_reported[OF this page] page show ?thesis by (auto simp: demo_fresh)
qed

section \<open>Deletion\<close>

lemma read_only_sole_admin_workspace [atomic_intros]: "read_only (sole_admin_workspace tok)"
  unfolding sole_admin_workspace_def count_workspace_admins_def
  by (intro atomic_intros) (auto intro!: atomic_intros split: sum.split)

text \<open>A guard that got its answers and lets go of a token: no workspace needs it.\<close>

lemma guarded_token_is_spare:
  assumes st: "staffed k (store s)" and guard: "sole_admin_workspace tok s = (Inr (wsid, False), s')"
  shows "staffed_without tok k (store s)"
proof -
  from st obtain a where a: "a \<in> set (workspace_members (store s))" "is_admin_of k a" and
    d: "distinct (map m_token (workspace_members (store s)))"
    by (auto simp: staffed_def has_admin_def is_admin_of_def tokens_keyed_def)
  have "\<exists>b \<in> set (workspace_members (store s)). is_admin_of k b \<and> m_token b \<noteq> tok"
  proof (cases "m_token a = tok")
    case True
    then have "find (\<lambda>m. m_token m = tok) (workspace_members (store s)) = Some a"
      using a(1) d by (auto simp: find_Some_iff in_set_conv_nth distinct_map nth_eq_iff_index_eq inj_on_def)
        (metis less_trans nat_neq_iff nth_eq_iff_index_eq nth_mem)
    then have m: "member_row (store s) tok = Some a" by (simp add: member_row_def)
    obtain r s1 where mf: "member_for tok s = (r, s1)" and g: "(case r of
       Inl e \<Rightarrow> if e = ErrNotFound then ret (0, False) else throw e
     | Inr m \<Rightarrow> if m_role m \<noteq> WSRoleAdmin then ret (0, False)
         else bnd (count_workspace_admins (m_workspace_id m)) (\<lambda>n. ret (m_workspace_id m, n \<le> 1))) s1 = (Inr (wsid, False), s')"
      using guard unfolding sole_admin_workspace_def bnd_attempt by (elim exE conjE) (rule that)
    have "r = Inl DriverError \<or> r = Inr a" "store s1 = store s"
      using mf m by (cases r; auto simp: member_for_def query_row_Inr query_row_Inl split: if_splits)+
    with g a(2) have "1 < sql_count (is_admin_of k) (workspace_members (store s))"
      by (auto simp: throw_iff ret_iff bnd_Inr count_workspace_admins_def query_Inr is_admin_of_def[abs_def])
    with second_admin[OF d] show ?thesis by blast
  qed (use a in blast)
  with st show ?thesis by (simp add: staffed_without_def staffed_def)
qed

lemma delete_guard_spares:
  assumes "delete_guard True tok s = (Inr None, s')" "\<exists>g s1. sole_admin_workspace tok s = (Inr g, s1)"
  shows "\<exists>wsid. sole_admin_workspace tok s = (Inr (wsid, False), s')"
proof -
  from assms(2) obtain wsid sole s1 where g: "sole_admin_workspace tok s = (Inr (wsid, sole), s1)" by auto
  with assms(1) have "\<not> sole" "s1 = s'" by (auto simp: delete_guard_def bnd_attempt ret_iff split: if_splits)
  with g show ?thesis by simp
qed

text \<open>C35. Deleting a token through the operator's desk leaves every workspace that has an admin with one, whatever the driver
  does after the guard, provided the guard's own statements succeeded.\<close>

theorem guarded_deletion_keeps_an_admin:
  assumes st: "staffed k (store s)" and seen: "sole_admin_workspace tok s = (Inr g, s1)"
    and run: "delete_token_page ops True tok dk s = (Inr (r, dk'), s')"
  shows "staffed k (store s')"
proof -
  from seen have s1: "store s1 = store s" by (rule read_onlyD[OF read_only_sole_admin_workspace])
  from run[unfolded delete_token_page_def] obtain gd s2 where gd: "delete_guard True tok s = (Inr gd, s2)"
    and k: "(case gd of Some r \<Rightarrow> ret (r, dk)
     | None \<Rightarrow> (case to_delete ops tok (dk_tokens dk) of Inl e \<Rightarrow> ret (error_body 400 e, dk)
       | Inr ts \<Rightarrow> bnd (bnd (attempt (remove_member tok)) (\<lambda>_. ret ())) (\<lambda>_.
           ret (status_ok, dk\<lparr>dk_tokens := ts\<rparr>)))) s2 = (Inr (r, dk'), s')"
    unfolding bnd_Inr if_True by (elim exE conjE) (rule that)
  have s2: "store s2 = store s" using gd seen s1 by (auto simp: delete_guard_def bnd_attempt ret_iff)
  show ?thesis
  proof (cases gd)
    case (Some r) with k s2 st show ?thesis by (auto simp: ret_iff)
  next
    case None
    with gd seen delete_guard_spares obtain wsid where "sole_admin_workspace tok s = (Inr (wsid, False), s2)" by blast
    with st guarded_token_is_spare have spare: "staffed_without tok k (store s2)" by (simp add: s2)
    show ?thesis
    proof (cases "to_delete ops tok (dk_tokens dk)")
      case (Inl e) with k None s2 st show ?thesis by (auto simp: ret_iff)
    next
      case (Inr ts)
      with k None obtain x where "remove_member tok s2 = (x, s')" by (auto simp: bnd_Inr bnd_attempt ret_iff attempt_iff)
      with spare remove_member_staffed show ?thesis by blast
    qed
  qed
qed

lemma demo_staffed: "staffed 1 demo_db"
  by (simp add: staffed_def tokens_keyed_def has_admin_def demo_db_def WSRoleAdmin_def)

text \<open>The guard looks away when its query fails: on a driver that misses one statement the only admin of a workspace is
  deleted, the answer is the ordinary one, and the workspace has nobody to manage it.\<close>

theorem unseen_deletion_orphans_the_workspace:
  "\<exists>s dk dk' s'. staffed 1 (store s) \<and> delete_token_page demo_ops True ''alice'' dk s = (Inr (status_ok, dk'), s') \<and>
     \<not> has_admin 1 (store s')"
proof -
  note demo_staffed
  moreover have "fst (delete_token_page demo_ops True ''alice'' demo_desk \<lparr>store = demo_db, plan = [True]\<rparr>) =
      Inr (status_ok, demo_desk\<lparr>dk_tokens := []\<rparr>)"
    "\<not> has_admin 1 (store (snd (delete_token_page demo_ops True ''alice'' demo_desk \<lparr>store = demo_db, plan = [True]\<rparr>)))"
    by (simp_all add: delete_token_page_def delete_guard_def sole_admin_workspace_def member_for_def query_row_def stmt_def faulty_def tick_def
        bnd_def attempt_def ret_def throw_def remove_member_def exec_count_def demo_ops_def demo_desk_def demo_token_def demo_db_def
        sql_delete_def sql_count_def has_admin_def)
  ultimately show ?thesis by (metis prod.collapse session.select_convs(1))
qed

text \<open>Of two admins one is deleted, and the other is left.\<close>

definition two_admins_db :: db where
  "two_admins_db = demo_db\<lparr>workspace_members := workspace_members demo_db @ [(hd (workspace_members demo_db))\<lparr>m_token := ''carol''\<rparr>]\<rparr>"

theorem guarded_deletion_keeps_an_admin_witness:
  "\<exists>dk' s'. delete_token_page demo_ops True ''alice'' demo_desk (fresh_session two_admins_db) = (Inr (status_ok, dk'), s') \<and>
     dk_tokens dk' = [] \<and> staffed 1 (store s') \<and> length (workspace_members (store s')) = 1"
proof -
  let ?run = "delete_token_page demo_ops True ''alice'' demo_desk (fresh_session two_admins_db)"
  have st: "staffed 1 (store (fresh_session two_admins_db))"
    by (simp add: demo_fresh fresh_session_def two_admins_db_def staffed_def tokens_keyed_def has_admin_def demo_db_def WSRoleAdmin_def)
  have "fst (sole_admin_workspace ''alice'' (fresh_session two_admins_db)) = Inr (1, False)" by code_simp
  then obtain s1 where seen: "sole_admin_workspace ''alice'' (fresh_session two_admins_db) = (Inr (1, False), s1)" by (metis prod.collapse)
  have "(case fst ?run of Inr (r, dk') \<Rightarrow> fst r = 200 \<and> dk_tokens dk' = [] | Inl _ \<Rightarrow> False) \<and> length (workspace_members (store (snd ?run))) = 1"
    by code_simp
  then obtain r dk' s' where run: "?run = (Inr (r, dk'), s')" "fst r = 200" "dk_tokens dk' = []" "length (workspace_members (store s')) = 1"
    by (cases ?run) (auto split: sum.splits)
  have "dk_tokens demo_desk \<noteq> []" by (simp add: demo_desk_def)
  then have "r = status_ok" using run(1,2,3) by (auto simp: delete_token_page_def bnd_Inr ret_iff error_body_def split: option.splits sum.splits)
  with guarded_deletion_keeps_an_admin[OF st seen run(1)] run show ?thesis by blast
qed

end
