(* ===== verification/Config.thy ===== *)
theory Config
  imports TeamConsole
begin

text \<open>
  The configuration (\<open>internal/config/config.go\<close>, \<open>backup.go\<close>): its structs, the defaults, the checks of \<open>Load\<close>. Decoding the
  YAML file belongs to a library and is an argument, as are the price table of cc-core and the zone database.
  Integers of the file are unbounded; a duration wraps at 64 bits. A float of the file may be no number or infinite.
\<close>

section \<open>Paths\<close>

text \<open>\<open>filepath.IsAbs\<close>, \<open>Clean\<close>, \<open>Join\<close> of two elements and \<open>Dir\<close>, on Unix.\<close>

definition is_abs :: "string \<Rightarrow> bool" where "is_abs p = has_prefix p ''/''"

fun path_parts :: "string \<Rightarrow> string list" where
  "path_parts [] = [[]]"
| "path_parts (c # s) = (if c = CHR ''/'' then [] # path_parts s
     else case path_parts s of [] \<Rightarrow> [[c]] | p # ps \<Rightarrow> (c # p) # ps)"

text \<open>The kept elements, the last first.\<close>

definition clean_step :: "bool \<Rightarrow> string \<Rightarrow> string list \<Rightarrow> string list" where
  "clean_step rooted p acc = (if p = [] \<or> p = ''.'' then acc
     else if p = ''..'' then (case acc of [] \<Rightarrow> if rooted then [] else [p] | x # xs \<Rightarrow> if x = ''..'' then p # acc else xs)
     else p # acc)"

fun join_path :: "string list \<Rightarrow> string" where
  "join_path [] = []"
| "join_path [p] = p"
| "join_path (p # ps) = p @ ''/'' @ join_path ps"

definition path_clean :: "string \<Rightarrow> string" where
  "path_clean p = (if p = [] then ''.''
     else let parts = rev (fold (clean_step (is_abs p)) (path_parts p) []) in
       if is_abs p then ''/'' @ join_path parts else if parts = [] then ''.'' else join_path parts)"

definition path_join :: "string \<Rightarrow> string \<Rightarrow> string" where
  "path_join a b = (if a \<noteq> [] then path_clean (a @ ''/'' @ b) else if b \<noteq> [] then path_clean b else [])"

definition path_dir :: "string \<Rightarrow> string" where
  "path_dir p = path_clean (rev (dropWhile (\<lambda>c. c \<noteq> CHR ''/'') (rev p)))"

section \<open>The WebSocket egress of Codex\<close>

record codex_ws_upstream =
  wu_mode :: string
  wu_pool_idle :: int
  wu_pool_max_age :: int
  wu_pool_max_entries :: int
  wu_read_timeout :: int
  wu_stall_timeout :: int
  wu_committed_stall_timeout :: int
  wu_auth_ids :: "string list"
  wu_fallback_cooldown :: int

definition CodexWSUpstreamSSE :: string where "CodexWSUpstreamSSE = ''sse''"
definition CodexWSUpstreamAuto :: string where "CodexWSUpstreamAuto = ''auto''"
definition CodexWSUpstreamWS :: string where "CodexWSUpstreamWS = ''ws''"

lemmas ws_modes = CodexWSUpstreamSSE_def CodexWSUpstreamAuto_def CodexWSUpstreamWS_def

definition positive_or :: "int \<Rightarrow> int \<Rightarrow> int" where "positive_or d n = (if n \<le> 0 then d else n)"
definition nonzero_or :: "int \<Rightarrow> int \<Rightarrow> int" where "nonzero_or d n = (if n = 0 then d else n)"

definition ws_mode :: "string \<Rightarrow> string" where
  "ws_mode m = (let k = to_lower (trim_space m) in
     if k = CodexWSUpstreamAuto then CodexWSUpstreamAuto else if k = CodexWSUpstreamWS then CodexWSUpstreamWS else CodexWSUpstreamSSE)"

definition ws_normalize :: "codex_ws_upstream \<Rightarrow> codex_ws_upstream" where
  "ws_normalize u = u\<lparr>wu_mode := ws_mode (wu_mode u),
     wu_pool_idle := positive_or 300 (wu_pool_idle u), wu_pool_max_age := positive_or 3300 (wu_pool_max_age u),
     wu_pool_max_entries := positive_or 512 (wu_pool_max_entries u), wu_read_timeout := positive_or 180 (wu_read_timeout u),
     wu_stall_timeout := nonzero_or 120 (wu_stall_timeout u), wu_committed_stall_timeout := nonzero_or 240 (wu_committed_stall_timeout u),
     wu_fallback_cooldown := positive_or 600 (wu_fallback_cooldown u)\<rparr>"

definition ws_egress_enabled :: "codex_ws_upstream \<Rightarrow> bool" where
  "ws_egress_enabled u = (wu_mode u = CodexWSUpstreamAuto \<or> wu_mode u = CodexWSUpstreamWS)"

definition allows_auth :: "codex_ws_upstream \<Rightarrow> string \<Rightarrow> bool" where
  "allows_auth u i = (wu_auth_ids u = [] \<or> i \<in> set (wu_auth_ids u))"

definition http_fallback_allowed :: "codex_ws_upstream \<Rightarrow> bool" where
  "http_fallback_allowed u = (wu_mode u \<noteq> CodexWSUpstreamWS)"

definition seconds_ns :: "int \<Rightarrow> int" where "seconds_ns n = signed_take_bit 63 (n * second_ns)"

definition pool_idle :: "codex_ws_upstream \<Rightarrow> int" where "pool_idle u = seconds_ns (wu_pool_idle u)"
definition pool_max_age :: "codex_ws_upstream \<Rightarrow> int" where "pool_max_age u = seconds_ns (wu_pool_max_age u)"
definition read_timeout :: "codex_ws_upstream \<Rightarrow> int" where "read_timeout u = seconds_ns (wu_read_timeout u)"
definition fallback_cooldown :: "codex_ws_upstream \<Rightarrow> int" where "fallback_cooldown u = seconds_ns (wu_fallback_cooldown u)"

definition stall_timeout :: "codex_ws_upstream \<Rightarrow> int" where
  "stall_timeout u = (if wu_stall_timeout u < 0 then 0 else seconds_ns (wu_stall_timeout u))"

definition committed_stall_timeout :: "codex_ws_upstream \<Rightarrow> int" where
  "committed_stall_timeout u = (if wu_committed_stall_timeout u < 0 then 0 else seconds_ns (wu_committed_stall_timeout u))"

section \<open>Floats of the file\<close>

text \<open>YAML writes \<open>.nan\<close>, \<open>.inf\<close> and \<open>-.inf\<close>; no comparison holds of what is no number.\<close>

datatype yaml_float = Number float64 | Not_a_number | Infinite | Minus_infinite

text \<open>\<open>x <= 0\<close>\<close>

definition not_positive :: "yaml_float \<Rightarrow> bool" where
  "not_positive x = (case x of Number r \<Rightarrow> r \<le> 0 | Not_a_number \<Rightarrow> False | Infinite \<Rightarrow> False | Minus_infinite \<Rightarrow> True)"

section \<open>The structs\<close>

record promotion_config =
  pg_name :: string
  pg_provider :: string
  pg_multiplier :: yaml_float
  pg_start :: int
  pg_end :: int

text \<open>\<open>Covers\<close> of a promotion as it was read; with a multiplier that is a number it is that of \<open>Settlement\<close>.\<close>

definition read_covers :: "promotion_config \<Rightarrow> string \<Rightarrow> int \<Rightarrow> bool" where
  "read_covers p provider now =
     (if pg_provider p \<noteq> provider \<or> not_positive (pg_multiplier p) then False
      else if pg_start p = zero_time \<or> pg_end p = zero_time \<or> \<not> pg_start p < pg_end p then False
      else \<not> now < pg_start p \<and> now < pg_end p)"

definition priced_at :: "promotion_config \<Rightarrow> float64 \<Rightarrow> pricing_promotion" where
  "priced_at p x = \<lparr>pp_name = pg_name p, pp_provider = pg_provider p, pp_multiplier = x, pp_start = pg_start p, pp_end = pg_end p\<rparr>"

lemma read_covers_priced: "pg_multiplier p = Number x \<Longrightarrow> read_covers p provider now = covers (priced_at p x) provider now"
  by (auto simp: read_covers_def covers_def priced_at_def not_positive_def)

record codex_ws_config =
  cw_enabled :: bool
  cw_force_http :: bool
  cw_beta_version :: string
  cw_read_limit :: int
  cw_upstream :: codex_ws_upstream

record api_key_config =
  ak_key :: string
  ak_provider :: string
  ak_proxy_url :: string
  ak_label :: string
  ak_base_url :: string
  ak_group :: string
  ak_model_map :: "(string \<times> string) list"

record endpoint_config =
  ep_host :: string
  ep_port :: int
  ep_disabled :: bool

definition endpoint_enabled :: "endpoint_config \<Rightarrow> bool" where
  "endpoint_enabled e = (\<not> ep_disabled e \<and> 0 < ep_port e)"

record client_guard_config =
  cg_enabled :: bool
  cg_extra_blocked :: "string list"
  cg_allow_empty :: bool

record monitor_settings =
  ms_enabled :: bool
  ms_interval_minutes :: int
  ms_client_token :: string
  ms_claude_model :: string
  ms_openai_model :: string
  ms_state_file :: string

record invoice_config =
  ic_pdf_dir :: string
  ic_title_url :: string
  ic_resend_key :: string
  ic_resend_from :: string
  ic_ops_email :: string
  ic_webhook_secret :: string

record payment_config =
  pm_base_url :: string
  pm_pid :: string
  pm_key :: string
  pm_notify_url :: string
  pm_return_url :: string

record exchange_config =
  ec_url :: string
  ec_refresh_minutes :: int
  ec_fallback :: yaml_float

record saas_config =
  sc_enabled :: bool
  sc_db_path :: string
  sc_site :: string
  sc_payment :: payment_config
  sc_exchange :: exchange_config
  sc_invoice :: invoice_config
  sc_promotions :: "promotion_config list"

record backup_s3 =
  s3_endpoint :: string
  s3_region :: string
  s3_bucket :: string
  s3_prefix :: string
  s3_access_key :: string
  s3_secret_key :: string

record backup_config =
  bk_enabled :: bool
  bk_retention_days :: int
  bk_recipient :: string
  bk_s3 :: backup_s3

record config =
  cf_log_level :: string
  cf_claude :: endpoint_config
  cf_codex :: endpoint_config
  cf_auth_dir :: string
  cf_state_file :: string
  cf_backup :: backup_config
  cf_active_window :: int
  cf_display_timezone :: string
  cf_admin_token :: string
  cf_admin_path :: string
  cf_api_keys :: "api_key_config list"
  cf_default_proxy :: string
  cf_anthropic_url :: string
  cf_openai_url :: string
  cf_chatgpt_url :: string
  cf_use_utls :: bool
  cf_codex_ws :: codex_ws_config
  cf_codex_sidecar :: bool
  cf_log_dir :: string
  cf_client_max_concurrent :: int
  cf_client_max_sessions :: int
  cf_codex_multiplier :: int
  cf_client_rpm :: int
  cf_log_retention :: int
  cf_log_index_disabled :: bool
  cf_log_jsonl_disabled :: bool
  cf_pricing :: json
  cf_saas :: saas_config
  cf_monitor :: monitor_settings
  cf_client_guard :: client_guard_config

section \<open>Defaults\<close>

definition text_or :: "string \<Rightarrow> string \<Rightarrow> string" where "text_or d s = (if s = [] then d else s)"

text \<open>A file the configuration names, a default name in its directory, or a path relative to it.\<close>

definition located :: "string \<Rightarrow> string \<Rightarrow> string \<Rightarrow> string" where
  "located dir name p = (if p = [] then path_join dir name else if is_abs p then p else path_join dir p)"

definition backup_defaults :: "backup_config \<Rightarrow> backup_config" where
  "backup_defaults b = b\<lparr>bk_retention_days := nonzero_or 7 (bk_retention_days b),
     bk_s3 := (if trim_space (s3_endpoint (bk_s3 b)) = [] then (bk_s3 b)\<lparr>s3_endpoint := ''s3.bitiful.net''\<rparr> else bk_s3 b)\<rparr>"

definition DefaultCodexConcurrencyMultiplier :: int where "DefaultCodexConcurrencyMultiplier = 5"

definition claude_defaults :: "endpoint_config \<Rightarrow> endpoint_config" where
  "claude_defaults e = e\<lparr>ep_port := nonzero_or 8317 (ep_port e), ep_host := text_or ''0.0.0.0'' (ep_host e)\<rparr>"

definition codex_defaults :: "endpoint_config \<Rightarrow> endpoint_config" where
  "codex_defaults e = (let e1 = (if ep_port e = 0 then e\<lparr>ep_port := 8318, ep_disabled := True\<rparr> else e)
     in e1\<lparr>ep_host := text_or ''0.0.0.0'' (ep_host e1)\<rparr>)"

definition ws_defaults :: "codex_ws_config \<Rightarrow> codex_ws_config" where
  "ws_defaults w = w\<lparr>cw_beta_version := text_or ''v2'' (cw_beta_version w), cw_read_limit := nonzero_or (2 ^ 24) (cw_read_limit w),
     cw_upstream := ws_normalize (cw_upstream w)\<rparr>"

definition title_service_url :: string where
  "title_service_url = ''https://capi.tianyancha.com/cloud-tempest/search/suggest/v2''"

definition invoice_defaults :: "string \<Rightarrow> invoice_config \<Rightarrow> invoice_config" where
  "invoice_defaults dir i = i\<lparr>ic_pdf_dir := located dir ''invoices'' (ic_pdf_dir i), ic_ops_email := text_or ''907401616@qq.com'' (ic_ops_email i),
     ic_resend_from := text_or ''CPA-Claude <onboarding@resend.dev>'' (ic_resend_from i), ic_title_url := text_or title_service_url (ic_title_url i)\<rparr>"

definition exchange_defaults :: "exchange_config \<Rightarrow> exchange_config" where
  "exchange_defaults x = x\<lparr>ec_refresh_minutes := nonzero_or 60 (ec_refresh_minutes x),
     ec_fallback := (if not_positive (ec_fallback x) then Number DefaultCNYPerUSD else ec_fallback x)\<rparr>"

definition saas_defaults :: "string \<Rightarrow> saas_config \<Rightarrow> saas_config" where
  "saas_defaults dir s = s\<lparr>sc_db_path := located dir ''saas.db'' (sc_db_path s), sc_site := text_or ''CPA-Claude'' (sc_site s),
     sc_exchange := exchange_defaults (sc_exchange s), sc_invoice := invoice_defaults dir (sc_invoice s)\<rparr>"

definition monitor_defaults :: "string \<Rightarrow> monitor_settings \<Rightarrow> monitor_settings" where
  "monitor_defaults dir m = m\<lparr>ms_interval_minutes := nonzero_or 10 (ms_interval_minutes m),
     ms_claude_model := text_or ''claude-haiku-4-5'' (ms_claude_model m), ms_openai_model := text_or ''gpt-5.3-codex'' (ms_openai_model m),
     ms_state_file := located dir ''monitor.json'' (ms_state_file m)\<rparr>"

definition default_admin_path :: string where "default_admin_path = ''/mgmt-console''"

definition admin_path :: "string \<Rightarrow> string" where
  "admin_path p0 = (let p1 = trim_space p0; p2 = text_or default_admin_path p1;
       p3 = (if has_prefix p2 ''/'' then p2 else ''/'' @ p2); p4 = trim_right_byte CHR ''/'' p3
     in text_or default_admin_path p4)"

definition apply_defaults :: "config \<Rightarrow> string \<Rightarrow> config" where
  "apply_defaults c path = (let dir = path_dir path in c\<lparr>
     cf_claude := claude_defaults (cf_claude c), cf_codex := codex_defaults (cf_codex c), cf_log_level := text_or ''info'' (cf_log_level c),
     cf_active_window := nonzero_or 5 (cf_active_window c), cf_client_max_concurrent := nonzero_or 15 (cf_client_max_concurrent c),
     cf_codex_multiplier := nonzero_or DefaultCodexConcurrencyMultiplier (cf_codex_multiplier c), cf_client_rpm := nonzero_or 60 (cf_client_rpm c),
     cf_anthropic_url := text_or ''https://api.anthropic.com'' (cf_anthropic_url c), cf_openai_url := text_or ''https://api.openai.com'' (cf_openai_url c),
     cf_chatgpt_url := text_or ''https://chatgpt.com/backend-api'' (cf_chatgpt_url c), cf_codex_ws := ws_defaults (cf_codex_ws c),
     cf_auth_dir := located dir ''auths'' (cf_auth_dir c), cf_state_file := located dir ''state.json'' (cf_state_file c),
     cf_log_dir := (if cf_log_dir c \<noteq> [] \<and> \<not> is_abs (cf_log_dir c) then path_join dir (cf_log_dir c) else cf_log_dir c),
     cf_log_retention := nonzero_or 90 (cf_log_retention c), cf_backup := backup_defaults (cf_backup c),
     cf_saas := saas_defaults dir (cf_saas c), cf_monitor := monitor_defaults dir (cf_monitor c), cf_admin_path := admin_path (cf_admin_path c)\<rparr>)"

section \<open>Loading\<close>

text \<open>The label of a promotion in a message is its name, or its place.\<close>

datatype promotion_fault = No_provider | Bad_multiplier yaml_float | Dates_missing | Ends_before_start int int

datatype config_error = Unreadable string | Unparsable string | No_request_log | Bad_promotion string promotion_fault

definition promotion_fault_of :: "promotion_config \<Rightarrow> promotion_fault option" where
  "promotion_fault_of p = (if pg_provider p = [] then Some No_provider
     else if not_positive (pg_multiplier p) then Some (Bad_multiplier (pg_multiplier p))
     else if pg_start p = zero_time \<or> pg_end p = zero_time then Some Dates_missing
     else if \<not> pg_start p < pg_end p then Some (Ends_before_start (pg_end p) (pg_start p)) else None)"

fun normalize_promotions :: "cc_core \<Rightarrow> nat \<Rightarrow> promotion_config list \<Rightarrow> config_error + promotion_config list" where
  "normalize_promotions cc i [] = Inr []"
| "normalize_promotions cc i (p # ps) = (let p' = p\<lparr>pg_provider := normalize_provider cc (trim_space (pg_provider p))\<rparr> in
     case promotion_fault_of p' of Some f \<Rightarrow> Inl (Bad_promotion (if pg_name p = [] then ''#'' @ itoa (int i + 1) else pg_name p) f)
     | None \<Rightarrow> (case normalize_promotions cc (Suc i) ps of Inl e \<Rightarrow> Inl e | Inr ps' \<Rightarrow> Inr (p' # ps')))"

definition load_config :: "cc_core \<Rightarrow> (string \<Rightarrow> string + string) \<Rightarrow> (string \<Rightarrow> string + config) \<Rightarrow> string \<Rightarrow> config_error + config" where
  "load_config cc read decode path = (case read path of Inl e \<Rightarrow> Inl (Unreadable e)
     | Inr data \<Rightarrow> (case decode data of Inl e \<Rightarrow> Inl (Unparsable e)
       | Inr c0 \<Rightarrow> let c = apply_defaults c0 path in
           if cf_log_jsonl_disabled c \<and> cf_log_index_disabled c then Inl No_request_log
           else case normalize_promotions cc 0 (sc_promotions (cf_saas c)) of Inl e \<Rightarrow> Inl e
             | Inr ps \<Rightarrow> Inr (c\<lparr>cf_saas := (cf_saas c)\<lparr>sc_promotions := ps\<rparr>\<rparr>)))"

text \<open>The display zone, none when the zone database does not have it.\<close>

definition display_location :: "(string \<Rightarrow> 'z option) \<Rightarrow> config \<Rightarrow> 'z option" where
  "display_location zones c = zones (text_or ''Asia/Shanghai'' (trim_space (cf_display_timezone c)))"

end
