(* ===== verification/CredentialDesk.thy ===== *)
theory CredentialDesk
  imports Config StatusPage
begin

text \<open>
  The credential desk of the console (\<open>internal/admin/admin.go\<close>): changing, removing, refreshing and adding the
  credentials of the pool, and the files they are kept in. Credentials and pool belong to cc-core: \<open>auth_ops\<close> holds what
  the desk asks of them, over states of their own. The disk maps paths to files: a file is the JSON object written to it,
  or the bytes a write that failed midway left behind. Whether a directory can be made, whether a file can be written
  and what a failed write leaves are arguments.
\<close>

section \<open>What the desk asks of cc-core\<close>

record ('a, 'p) auth_ops =
  ao_id :: "'a \<Rightarrow> string"
  ao_email :: "'a \<Rightarrow> string"
  ao_api_key :: "'a \<Rightarrow> bool"
  ao_file :: "'a \<Rightarrow> string"
  ao_set_explicit :: "bool \<Rightarrow> 'a \<Rightarrow> 'a"
  ao_set_disabled :: "bool \<Rightarrow> 'a \<Rightarrow> 'a"
  ao_set_max :: "int \<Rightarrow> 'a \<Rightarrow> 'a"
  ao_set_proxy :: "string \<Rightarrow> 'a \<Rightarrow> 'a"
  ao_set_base :: "string \<Rightarrow> 'a \<Rightarrow> 'a"
  ao_set_label :: "string \<Rightarrow> 'a \<Rightarrow> 'a"
  ao_set_group :: "string \<Rightarrow> 'a \<Rightarrow> 'a"
  ao_set_price :: "float64 \<Rightarrow> 'a \<Rightarrow> 'a"
  ao_set_models :: "(string \<times> string) list \<Rightarrow> 'a \<Rightarrow> 'a"
  ao_persist :: "'a \<Rightarrow> string option"
  ao_parse :: "string \<Rightarrow> (string \<times> json) list \<Rightarrow> string + 'a"
  ao_clear_quota :: "'a \<Rightarrow> 'a"
  ao_clear_failure :: "'a \<Rightarrow> 'a"
  ao_refresh :: "'a \<Rightarrow> string + int \<times> 'a"
  po_find :: "string \<Rightarrow> 'p \<Rightarrow> 'a option"
  po_put :: "'a \<Rightarrow> 'p \<Rightarrow> 'p"
  po_remove :: "string \<Rightarrow> 'p \<Rightarrow> ('a \<times> 'p) option"
  po_add_oauth :: "'a \<Rightarrow> 'p \<Rightarrow> string option \<times> 'p"
  po_add_api_key :: "'a \<Rightarrow> 'p \<Rightarrow> 'p"
  po_reorder :: "string list \<Rightarrow> 'p \<Rightarrow> string option \<times> 'p"
  no_provider :: "string \<Rightarrow> string"
  no_group :: "string \<Rightarrow> string"

datatype auth_file = Object "(string \<times> json) list" | Remains string

type_synonym disk = "string \<rightharpoonup> auth_file"

text \<open>What the file system does: an error of MkdirAll, and an error of WriteFile with the file it leaves at the path, which may
  be what was there, nothing, or a part of what was to be written.\<close>

record auth_faults =
  af_mkdir :: "string option"
  af_write :: "(string \<times> auth_file option) option"

text \<open>The error of \<open>AddOAuth\<close> is dropped.\<close>

definition add_oauth :: "('a, 'p) auth_ops \<Rightarrow> 'a \<Rightarrow> 'p \<Rightarrow> 'p" where
  "add_oauth ops a p = snd (po_add_oauth ops a p)"

definition desk_ok :: response where "desk_ok = (200, [(''status'', JStr ''ok'')])"

definition no_auth :: response where "no_auth = error_body 404 ''auth not found''"

section \<open>Changing a credential\<close>

record patch_auth_body =
  pa_explicit :: "bool option"
  pa_disabled :: "bool option"
  pa_max :: "int option"
  pa_proxy :: "string option"
  pa_base :: "string option"
  pa_label :: "string option"
  pa_group :: "string option"
  pa_models :: "(string \<times> string) list option"
  pa_price :: "float64 option"

definition when_some :: "'b option \<Rightarrow> ('b \<Rightarrow> 'a \<Rightarrow> 'a) \<Rightarrow> 'a \<Rightarrow> 'a" where
  "when_some x f a = (case x of None \<Rightarrow> a | Some v \<Rightarrow> f v a)"

definition patched_auth :: "('a, 'p) auth_ops \<Rightarrow> patch_auth_body \<Rightarrow> 'a \<Rightarrow> 'a" where
  "patched_auth ops b a = (let
       a1 = when_some (pa_explicit b) (ao_set_explicit ops) a;
       a2 = when_some (pa_disabled b) (ao_set_disabled ops) a1;
       a3 = when_some (pa_max b) (ao_set_max ops) a2;
       a4 = when_some (pa_proxy b) (\<lambda>v. ao_set_proxy ops (trim_space v)) a3;
       a5 = when_some (pa_base b) (\<lambda>v. ao_set_base ops (trim_right_byte CHR ''/'' (trim_space v))) a4;
       a6 = when_some (pa_label b) (\<lambda>v a. if trim_space v \<noteq> [] then ao_set_label ops (trim_space v) a else a) a5;
       a7 = when_some (pa_group b) (ao_set_group ops) a6;
       a8 = when_some (pa_price b) (ao_set_price ops) a7
     in when_some (pa_models b) (ao_set_models ops) a8)"

definition read_only_key_text :: string where
  "read_only_key_text = ''config.yaml-defined API keys are read-only; edit the YAML and restart, or add the key via the panel instead''"

text \<open>The change stays in the pool also when it cannot be written.\<close>

definition patch_auth_page :: "('a, 'p) auth_ops \<Rightarrow> string \<Rightarrow> string + patch_auth_body \<Rightarrow> 'p \<Rightarrow> response \<times> 'p" where
  "patch_auth_page ops i body p = (case po_find ops i p of None \<Rightarrow> (no_auth, p)
     | Some a \<Rightarrow> if ao_api_key ops a \<and> ao_file ops a = [] then (error_body 400 read_only_key_text, p)
       else case body of Inl e \<Rightarrow> (error_body 400 e, p)
       | Inr b \<Rightarrow> if pa_explicit b \<noteq> None \<and> \<not> ao_api_key ops a then (error_body 400 ''explicit_failures_only is API-key-only'', p)
           else let a' = patched_auth ops b a; p' = po_put ops a' p in
             (case ao_persist ops a' of Some e \<Rightarrow> (error_body 500 (''persist failed: '' @ e), p') | None \<Rightarrow> (desk_ok, p')))"

definition reorder_keys_page :: "('a, 'p) auth_ops \<Rightarrow> string + string list \<Rightarrow> 'p \<Rightarrow> response \<times> 'p" where
  "reorder_keys_page ops body p = (case body of Inl e \<Rightarrow> (error_body 400 e, p)
     | Inr ids \<Rightarrow> (case po_reorder ops ids p of (Some e, p') \<Rightarrow> (error_body 500 (''persist failed: '' @ e), p') | (None, p') \<Rightarrow> (desk_ok, p')))"

text \<open>A file that cannot be removed stays.\<close>

definition delete_auth_page :: "('a, 'p) auth_ops \<Rightarrow> bool \<Rightarrow> string \<Rightarrow> 'p \<times> disk \<Rightarrow> response \<times> 'p \<times> disk" where
  "delete_auth_page ops removable i pd = (case po_remove ops i (fst pd) of None \<Rightarrow> (no_auth, pd)
     | Some (a, p) \<Rightarrow> (desk_ok, p, if ao_file ops a \<noteq> [] \<and> removable then (snd pd)(ao_file ops a := None) else snd pd))"

definition refresh_auth_page :: "('a, 'p) auth_ops \<Rightarrow> string \<Rightarrow> 'p \<Rightarrow> response \<times> 'p" where
  "refresh_auth_page ops i p = (case po_find ops i p of None \<Rightarrow> (error_body 404 ''oauth not found'', p)
     | Some a \<Rightarrow> if ao_api_key ops a then (error_body 404 ''oauth not found'', p)
       else case ao_refresh ops a of Inl e \<Rightarrow> (error_body 502 e, p)
       | Inr (expires, a') \<Rightarrow> ((200, [(''status'', JStr ''ok''), (''expires_at'', JInt expires)]), po_put ops a' p))"

definition on_auth :: "('a, 'p) auth_ops \<Rightarrow> ('a \<Rightarrow> 'a) \<Rightarrow> string \<Rightarrow> 'p \<Rightarrow> response \<times> 'p" where
  "on_auth ops f i p = (case po_find ops i p of None \<Rightarrow> (no_auth, p) | Some a \<Rightarrow> (desk_ok, po_put ops (f a) p))"

definition clear_quota_page :: "('a, 'p) auth_ops \<Rightarrow> string \<Rightarrow> 'p \<Rightarrow> response \<times> 'p" where
  "clear_quota_page ops = on_auth ops (ao_clear_quota ops)"

definition clear_failure_page :: "('a, 'p) auth_ops \<Rightarrow> string \<Rightarrow> 'p \<Rightarrow> response \<times> 'p" where
  "clear_failure_page ops = on_auth ops (ao_clear_failure ops)"

section \<open>Names of files\<close>

text \<open>\<open>ReplaceAll(s, "..", "")\<close>\<close>

fun drop_dots :: "string \<Rightarrow> string" where
  "drop_dots (c # d # s) = (if c = CHR ''.'' \<and> d = CHR ''.'' then drop_dots s else c # drop_dots (d # s))"
| "drop_dots s = s"

definition desk_filename :: "string \<Rightarrow> string" where
  "desk_filename s = map (\<lambda>c. if c = CHR ''/'' \<or> c = CHR 0x5C then CHR ''_'' else c) (drop_dots (trim_space s))"

definition json_suffixed :: "string \<Rightarrow> string" where
  "json_suffixed name = (if drop (length name - 5) (to_lower name) = ''.json'' then name else name @ ''.json'')"

section \<open>Adding credentials\<close>

text \<open>\<open>m[k] = v\<close> and \<open>m[k].(string)\<close> of a decoded object.\<close>

fun put_field :: "string \<Rightarrow> json \<Rightarrow> (string \<times> json) list \<Rightarrow> (string \<times> json) list" where
  "put_field k v [] = [(k, v)]"
| "put_field k v ((k', w) # m) = (if k' = k then (k, v) # m else (k', w) # put_field k v m)"

definition text_field :: "string \<Rightarrow> (string \<times> json) list \<Rightarrow> string" where
  "text_field k m = (case map_of m k of Some (JStr s) \<Rightarrow> s | _ \<Rightarrow> [])"

definition put_when :: "bool \<Rightarrow> string \<Rightarrow> json \<Rightarrow> (string \<times> json) list \<Rightarrow> (string \<times> json) list" where
  "put_when b k v m = (if b then put_field k v m else m)"

record upload_body =
  up_provider :: string
  up_filename :: string
  up_content :: "(string + (string \<times> json) list) option"
  up_label :: string
  up_max_concurrent :: int
  up_proxy_url :: string
  up_disabled :: bool
  up_group :: string

text \<open>\<open>%q\<close> of a text whose bytes from 0x80 on are of printable characters.\<close>

definition hex_digit :: "nat \<Rightarrow> char" where
  "hex_digit n = char_of (if n < 10 then n + 48 else n + 87)"

definition quote_char :: "char \<Rightarrow> string" where
  "quote_char c = (let n = of_char c :: nat; named = [(7, CHR ''a''), (8, CHR ''b''), (9, CHR ''t''), (10, CHR ''n''), (11, CHR ''v''),
       (12, CHR ''f''), (13, CHR ''r''), (0x22, CHR 0x22), (0x5C, CHR 0x5C)] in
     case map_of named n of Some e \<Rightarrow> [CHR 0x5C, e]
     | None \<Rightarrow> if n < 32 \<or> n = 127 then [CHR 0x5C, CHR ''x'', hex_digit (n div 16), hex_digit (n mod 16)] else [c])"

definition go_quote :: "string \<Rightarrow> string" where
  "go_quote s = CHR 0x22 # concat (map quote_char s) @ [CHR 0x22]"

text \<open>The provider of the tab and that of the file.\<close>

definition wrong_tab_text :: "string \<Rightarrow> string \<Rightarrow> string" where
  "wrong_tab_text existing want = ''uploaded file declares provider='' @ go_quote existing @ '' but the '' @ want @ '' tab was active '' @
     [CHR 0xE2, CHR 0x80, CHR 0x94] @ '' open the matching tab and try again''"

definition reconcile_provider :: "('a, 'p) auth_ops \<Rightarrow> string \<Rightarrow> (string \<times> json) list \<Rightarrow> response + (string \<times> json) list" where
  "reconcile_provider ops tab m = (let want = no_provider ops tab; existing = text_field ''provider'' m in
     if tab = [] then Inr m
     else if existing = [] then Inr (put_field ''provider'' (JStr want) m)
     else if no_provider ops existing \<noteq> want then Inl (error_body 400 (wrong_tab_text existing want))
     else Inr m)"

definition stamp_upload :: "('a, 'p) auth_ops \<Rightarrow> upload_body \<Rightarrow> (string \<times> json) list \<Rightarrow> (string \<times> json) list" where
  "stamp_upload ops b m =
     put_when (no_group ops (up_group b) \<noteq> []) ''group'' (JStr (no_group ops (up_group b)))
    (put_when (up_disabled b) ''disabled'' (JBool True)
    (put_when (trim_space (up_proxy_url b) \<noteq> []) ''proxy_url'' (JStr (trim_space (up_proxy_url b)))
    (put_when (0 < up_max_concurrent b) ''max_concurrent'' (JInt (up_max_concurrent b))
    (put_when (up_label b \<noteq> []) ''label'' (JStr (up_label b)) m))))"

definition upload_name :: "('a, 'p) auth_ops \<Rightarrow> int \<Rightarrow> string \<Rightarrow> (string \<times> json) list \<Rightarrow> string" where
  "upload_name ops now filename m =
     (let prefix = (if no_provider ops (text_field ''provider'' m) = ProviderOpenAI then ''codex'' else ''claude'');
          name = desk_filename filename; email = text_field ''email'' m
      in json_suffixed (if name \<noteq> [] then name
         else if email \<noteq> [] then prefix @ ''-'' @ desk_filename email @ ''.json''
         else prefix @ ''-'' @ itoa (unix_seconds now) @ ''.json''))"

text \<open>Making the directory, reading the credential from what will be written, writing it. WriteFile cuts the file before it
  writes, so a failure midway leaves its mark.\<close>

definition store_auth :: "('a, 'p) auth_ops \<Rightarrow> ('a \<Rightarrow> 'p \<Rightarrow> 'p) \<Rightarrow> string \<Rightarrow> auth_faults \<Rightarrow> string \<Rightarrow> string \<Rightarrow> (string \<times> json) list \<Rightarrow>
    'p \<times> disk \<Rightarrow> response \<times> 'p \<times> disk" where
  "store_auth ops add dir faults parse_error name m pd = (case af_mkdir faults of Some e \<Rightarrow> (error_body 500 e, pd)
     | None \<Rightarrow> let full = path_join dir name in
         (case ao_parse ops full m of Inl e \<Rightarrow> (error_body 400 (parse_error @ e), pd)
          | Inr a \<Rightarrow> (case af_write faults of Some (e, left) \<Rightarrow> (error_body 500 e, fst pd, (snd pd)(full := left))
            | None \<Rightarrow> ((200, [(''status'', JStr ''ok''), (''id'', JStr (ao_id ops a))]), add a (fst pd), (snd pd)(full \<mapsto> Object m)))))"

definition upload_page :: "('a, 'p) auth_ops \<Rightarrow> string \<Rightarrow> auth_faults \<Rightarrow> int \<Rightarrow> string + upload_body \<Rightarrow> 'p \<times> disk \<Rightarrow> response \<times> 'p \<times> disk" where
  "upload_page ops dir faults now body pd = (case body of Inl e \<Rightarrow> (error_body 400 e, pd)
     | Inr b \<Rightarrow> (case up_content b of None \<Rightarrow> (error_body 400 ''missing content'', pd)
       | Some (Inl e) \<Rightarrow> (error_body 400 (''invalid JSON: '' @ e), pd)
       | Some (Inr m0) \<Rightarrow> (case reconcile_provider ops (up_provider b) m0 of Inl r \<Rightarrow> (r, pd)
         | Inr m1 \<Rightarrow> let m = stamp_upload ops b m1 in
             store_auth ops (add_oauth ops) dir faults ''parse: '' (upload_name ops now (up_filename b) m) m pd)))"

record create_key_body =
  ck_provider :: string
  ck_api_key :: string
  ck_label :: string
  ck_proxy_url :: string
  ck_base_url :: string
  ck_filename :: string
  ck_group :: string
  ck_model_map :: "(string \<times> string) list"
  ck_price :: float64

definition key_name :: "int \<Rightarrow> create_key_body \<Rightarrow> string" where
  "key_name now b = (let label = trim_space (ck_label b); name = desk_filename (ck_filename b) in
     json_suffixed (if name \<noteq> [] then name else if label \<noteq> [] then desk_filename (''apikey-'' @ label) @ ''.json''
       else ''apikey-'' @ itoa (unix_seconds now) @ ''.json''))"

text \<open>Names of models that are blank are left out; of names that trim alike one stays.\<close>

definition clean_models :: "(string \<times> string) list \<Rightarrow> (string \<times> json) list" where
  "clean_models mm = fold (\<lambda>(k, v) m. if trim_space k = [] then m else put_field (trim_space k) (JStr (trim_space v)) m) mm []"

definition key_file :: "('a, 'p) auth_ops \<Rightarrow> create_key_body \<Rightarrow> (string \<times> json) list" where
  "key_file ops b = (let provider = no_provider ops (ck_provider b); label = trim_space (ck_label b); models = clean_models (ck_model_map b) in
     put_when (models \<noteq> []) ''model_map'' (JObj models)
    (put_when (0 < ck_price b) ''price_multiplier'' (JNum (ck_price b))
    (put_when (no_group ops (ck_group b) \<noteq> []) ''group'' (JStr (no_group ops (ck_group b)))
    (put_when (trim_space (ck_base_url b) \<noteq> []) ''base_url'' (JStr (trim_right_byte CHR ''/'' (trim_space (ck_base_url b))))
    (put_when (trim_space (ck_proxy_url b) \<noteq> []) ''proxy_url'' (JStr (trim_space (ck_proxy_url b)))
    (put_when (label \<noteq> []) ''label'' (JStr label)
      [(''type'', JStr (if provider = ProviderOpenAI then ''openai_api_key'' else ''apikey'')), (''provider'', JStr provider),
       (''api_key'', JStr (trim_space (ck_api_key b)))]))))))"

definition create_key_page :: "('a, 'p) auth_ops \<Rightarrow> string \<Rightarrow> auth_faults \<Rightarrow> int \<Rightarrow> string + create_key_body \<Rightarrow> 'p \<times> disk \<Rightarrow> response \<times> 'p \<times> disk" where
  "create_key_page ops dir faults now body pd = (case body of Inl e \<Rightarrow> (error_body 400 e, pd)
     | Inr b \<Rightarrow> if trim_space (ck_api_key b) = [] then (error_body 400 ''missing api_key'', pd)
         else store_auth ops (po_add_api_key ops) dir faults [] (key_name now b) (key_file ops b) pd)"

section \<open>Signing a credential in\<close>

text \<open>Starting a login, reading a callback, finishing and the login by cookie are cc-core's.\<close>

record finish_body =
  fb_session :: string
  fb_callback :: string
  fb_code :: string
  fb_state :: string
  fb_max_concurrent :: int
  fb_group :: string

definition oauth_start_page :: "('a, 'p) auth_ops \<Rightarrow> (string \<Rightarrow> string + string \<times> string) \<Rightarrow> (string \<Rightarrow> string) \<Rightarrow> string \<Rightarrow> response" where
  "oauth_start_page ops start redirect provider0 = (let provider = no_provider ops provider0 in
     case start provider of Inl e \<Rightarrow> error_body 500 e
     | Inr (session, url) \<Rightarrow> (200, [(''session_id'', JStr session), (''provider'', JStr provider), (''auth_url'', JStr url),
         (''redirect_uri'', JStr (redirect provider))]))"

text \<open>The code and the state to finish with.\<close>

definition finish_code :: "(string \<Rightarrow> string + string \<times> string) \<Rightarrow> finish_body \<Rightarrow> string + string \<times> string" where
  "finish_code parse_callback b = (let code = trim_space (fb_code b); state = trim_space (fb_state b) in
     if code = [] \<and> trim_space (fb_callback b) \<noteq> []
     then (case parse_callback (fb_callback b) of Inl e \<Rightarrow> Inl e | Inr (c, st) \<Rightarrow> Inr (c, if state = [] then st else state))
     else Inr (code, state))"

definition signed_in :: "('a, 'p) auth_ops \<Rightarrow> string + 'a \<Rightarrow> 'p \<Rightarrow> response \<times> 'p" where
  "signed_in ops r p = (case r of Inl e \<Rightarrow> (error_body 502 e, p)
     | Inr a \<Rightarrow> ((200, [(''status'', JStr ''ok''), (''id'', JStr (ao_id ops a)), (''email'', JStr (ao_email ops a))]), add_oauth ops a p))"

definition oauth_finish_page :: "('a, 'p) auth_ops \<Rightarrow> (string \<Rightarrow> string + string \<times> string) \<Rightarrow> (string \<Rightarrow> string \<Rightarrow> finish_body \<Rightarrow> string + 'a) \<Rightarrow>
    string + finish_body \<Rightarrow> 'p \<Rightarrow> response \<times> 'p" where
  "oauth_finish_page ops parse_callback finish body p = (case body of Inl e \<Rightarrow> (error_body 400 e, p)
     | Inr b \<Rightarrow> if trim_space (fb_session b) = [] then (error_body 400 ''missing session_id'', p)
         else case finish_code parse_callback b of Inl e \<Rightarrow> (error_body 400 e, p)
         | Inr (code, state) \<Rightarrow> signed_in ops (finish code state b) p)"

definition oauth_cookie_page :: "('a, 'p) auth_ops \<Rightarrow> string + (string + 'a) \<Rightarrow> 'p \<Rightarrow> response \<times> 'p" where
  "oauth_cookie_page ops body p = (case body of Inl e \<Rightarrow> (error_body 400 e, p) | Inr r \<Rightarrow> signed_in ops r p)"

end
