(* ===== verification/CredentialFacts.thy ===== *)
theory CredentialFacts
  imports CredentialDesk
begin

text \<open>
  Where the credential desk writes: one file directly in the directory of credentials, under a name that ends in
  \<open>.json\<close>, whole with an answer of success and perhaps broken with one of a failed write; and the provider that file
  is read as.
\<close>

section \<open>Paths\<close>

definition clean_parts :: "string \<Rightarrow> string list" where
  "clean_parts p = rev (fold (clean_step (is_abs p)) (path_parts p) [])"

text \<open>The path of an entry of a directory, in its shortest form.\<close>

definition file_in :: "string \<Rightarrow> string \<Rightarrow> string" where
  "file_in dir name = (if is_abs dir then ''/'' else []) @ join_path (clean_parts dir @ [name])"

definition plain_name :: "string \<Rightarrow> bool" where
  "plain_name n \<longleftrightarrow> n \<noteq> [] \<and> CHR ''/'' \<notin> set n \<and> n \<noteq> ''.'' \<and> n \<noteq> ''..''"

lemma path_parts_ne [simp]: "path_parts p \<noteq> []"
  by (induction p) (auto split: list.split)

lemma path_parts_append: "path_parts (a @ CHR ''/'' # b) = path_parts a @ path_parts b"
  by (induction a) (auto split: list.split)

lemma path_parts_plain: "CHR ''/'' \<notin> set n \<Longrightarrow> path_parts n = [n]"
  by (induction n) auto

lemma is_abs_append: "dir \<noteq> [] \<Longrightarrow> is_abs (dir @ s) = is_abs dir"
  by (cases dir) (auto simp: is_abs_def has_prefix_def)

lemma clean_parts_entry:
  assumes "dir \<noteq> []" "plain_name n"
  shows "clean_parts (dir @ ''/'' @ n) = clean_parts dir @ [n]"
  using assms by (simp add: clean_parts_def path_parts_append path_parts_plain is_abs_append plain_name_def clean_step_def)

lemma path_join_entry:
  assumes "dir \<noteq> []" "plain_name n"
  shows "path_join dir n = file_in dir n"
proof -
  have "path_clean (dir @ ''/'' @ n) = (let parts = clean_parts (dir @ ''/'' @ n) in
      if is_abs dir then ''/'' @ join_path parts else if parts = [] then ''.'' else join_path parts)"
    using assms(1) by (simp add: path_clean_def clean_parts_def is_abs_append)
  with assms(1) show ?thesis unfolding clean_parts_entry[OF assms] by (simp add: path_join_def file_in_def)
qed

section \<open>Names\<close>

definition json_name :: "string \<Rightarrow> bool" where
  "json_name n \<longleftrightarrow> CHR ''/'' \<notin> set n \<and> CHR 0x5C \<notin> set n \<and> 5 \<le> length n \<and> to_lower (drop (length n - 5) n) = ''.json''"

lemma desk_filename_plain: "CHR ''/'' \<notin> set (desk_filename s) \<and> CHR 0x5C \<notin> set (desk_filename s)"
  by (auto simp: desk_filename_def)

lemma json_suffixed_name:
  assumes "CHR ''/'' \<notin> set n" "CHR 0x5C \<notin> set n"
  shows "json_name (json_suffixed n)"
proof (cases "drop (length n - 5) (to_lower n) = ''.json''")
  case True
  then have "length (drop (length n - 5) (to_lower n)) = 5" by simp
  then have "5 \<le> length n" by (simp add: to_lower_def)
  with True assms show ?thesis by (simp add: json_suffixed_def json_name_def to_lower_def drop_map)
next
  case False
  have "to_lower ''.json'' = ''.json''" by code_simp
  with False assms show ?thesis by (simp add: json_suffixed_def json_name_def)
qed

lemma json_name_plain: "json_name n \<Longrightarrow> plain_name n"
  by (auto simp: json_name_def plain_name_def)

lemma itoa_no_slash [simp]: "CHR ''/'' \<notin> set (itoa i)" "CHR 0x5C \<notin> set (itoa i)"
  by (auto simp: itoa_def dest: nat_digits_decimal simp: decimal_char_def)

lemma upload_name_json: "json_name (upload_name ops now f m)"
  unfolding upload_name_def Let_def
  by (rule json_suffixed_name) (auto simp: desk_filename_plain itoa_no_slash)

lemma key_name_json: "json_name (key_name now b)"
  unfolding key_name_def Let_def
  by (rule json_suffixed_name) (auto simp: desk_filename_plain itoa_no_slash)

section \<open>Writing\<close>

text \<open>What an addition may do: write one file of the directory and put the credential read from it into the pool; or fail at
  writing that one file, the pool untouched; or nothing.\<close>

definition added_in_place :: "('a, 'p) auth_ops \<Rightarrow> string \<Rightarrow> auth_faults \<Rightarrow> ('a \<Rightarrow> 'p \<Rightarrow> 'p) \<Rightarrow> 'p \<times> disk \<Rightarrow> response \<times> 'p \<times> disk \<Rightarrow> bool" where
  "added_in_place ops dir faults add pd r \<longleftrightarrow> (if fst (fst r) = 200
     then af_mkdir faults = None \<and> af_write faults = None \<and> (\<exists>name m a. json_name name \<and> ao_parse ops (file_in dir name) m = Inr a \<and>
       map_of (snd (fst r)) ''id'' = Some (JStr (ao_id ops a)) \<and> snd r = (add a (fst pd), (snd pd)(file_in dir name \<mapsto> Object m)))
     else snd r = pd \<or> (\<exists>name e left. json_name name \<and> af_write faults = Some (e, left) \<and> fst r = error_body 500 e \<and>
       snd r = (fst pd, (snd pd)(file_in dir name := left))))"

lemma refused_in_place: "c \<noteq> 200 \<Longrightarrow> added_in_place ops dir faults add pd (error_body c e, pd)"
  by (simp add: added_in_place_def error_body_def)

lemma broken_in_place:
  "json_name name \<Longrightarrow> af_write faults = Some (e, left) \<Longrightarrow>
    added_in_place ops dir faults add pd (error_body 500 e, fst pd, (snd pd)(file_in dir name := left))"
  by (auto simp: added_in_place_def error_body_def)

lemma store_auth_in_place:
  assumes "dir \<noteq> []" "json_name name"
  shows "added_in_place ops dir faults add pd (store_auth ops add dir faults pe name m pd)"
proof -
  have "path_join dir name = file_in dir name" using assms by (intro path_join_entry json_name_plain)
  with assms(2) show ?thesis
    by (auto simp: store_auth_def Let_def refused_in_place broken_in_place split: option.split sum.split) (auto simp: added_in_place_def)
qed

lemma upload_in_place:
  assumes "dir \<noteq> []"
  shows "added_in_place ops dir faults (add_oauth ops) pd (upload_page ops dir faults now body pd)"
proof -
  have "added_in_place ops dir faults add pd (r, pd)" if "reconcile_provider ops tab m = Inl r" for add tab m r
    using that by (auto simp: reconcile_provider_def Let_def refused_in_place split: if_splits)
  then show ?thesis
    by (simp add: upload_page_def Let_def refused_in_place store_auth_in_place[OF assms upload_name_json] split: option.split sum.split)
qed

lemma create_key_in_place:
  assumes "dir \<noteq> []"
  shows "added_in_place ops dir faults (po_add_api_key ops) pd (create_key_page ops dir faults now body pd)"
  by (simp add: create_key_page_def refused_in_place store_auth_in_place[OF assms key_name_json] split: sum.split)

text \<open>C36. Whatever name, provider and content an upload or a new API key comes with, the desk touches one file at most, directly
  in the directory of credentials and under a name ending in \<open>.json\<close>. With an answer of success that file is what was
  stored, the credential read from it went to the pool, and the answer names it. With any other answer the pool is as it
  was, and so is the disk, unless the write itself failed: then that one file is whatever the failed write left of it.\<close>

theorem credentials_stay_in_their_directory:
  assumes "dir \<noteq> []"
  shows "added_in_place ops dir faults (add_oauth ops) pd (upload_page ops dir faults now body pd) \<and>
    added_in_place ops dir faults (po_add_api_key ops) pd (create_key_page ops dir faults now body' pd)"
  using upload_in_place[OF assms] create_key_in_place[OF assms] by blast

section \<open>The provider of an upload\<close>

lemma map_of_put_field: "map_of (put_field k v m) k' = (if k' = k then Some v else map_of m k')"
  by (induction k v m rule: put_field.induct) auto

lemma text_field_put_when: "k \<noteq> k' \<Longrightarrow> text_field k (put_when b k' v m) = text_field k m"
  by (simp add: put_when_def text_field_def map_of_put_field)

lemma stamp_upload_provider: "text_field ''provider'' (stamp_upload ops b m) = text_field ''provider'' m"
  by (simp add: stamp_upload_def text_field_put_when)

lemma reconcile_provider_Inr:
  assumes "reconcile_provider ops tab m = Inr m'" "tab \<noteq> []" "\<And>x. no_provider ops (no_provider ops x) = no_provider ops x"
  shows "no_provider ops (text_field ''provider'' m') = no_provider ops tab"
  using assms by (auto simp: reconcile_provider_def Let_def text_field_def map_of_put_field split: if_splits)

lemma store_auth_200:
  assumes "store_auth ops add dir faults pe name m pd = ((200, b), p', d')"
  shows "d' = (snd pd)(path_join dir name \<mapsto> Object m)"
  using assms by (auto simp: store_auth_def Let_def error_body_def split: option.splits sum.splits)

text \<open>An upload from a provider's tab is stored as a file of that provider, whatever the file said of itself: a file that
  names another provider is refused. Normalising a provider twice is normalising it once.\<close>

theorem uploads_match_their_tab:
  assumes norm: "\<And>x. no_provider ops (no_provider ops x) = no_provider ops x" and tab: "up_provider b \<noteq> []"
    and run: "upload_page ops dir faults now (Inr b) (p, d) = ((200, body), p', d')"
  shows "\<exists>path m. d' = d(path \<mapsto> Object m) \<and> no_provider ops (text_field ''provider'' m) = no_provider ops (up_provider b)"
proof -
  from run obtain m0 m1 where c: "up_content b = Some (Inr m0)" and r: "reconcile_provider ops (up_provider b) m0 = Inr m1"
    by (auto simp: upload_page_def error_body_def reconcile_provider_def Let_def split: option.splits sum.splits if_splits)
  with run have "d' = d(path_join dir (upload_name ops now (up_filename b) (stamp_upload ops b m1)) \<mapsto> Object (stamp_upload ops b m1))"
    by (auto simp: upload_page_def Let_def dest: store_auth_200)
  moreover have "no_provider ops (text_field ''provider'' (stamp_upload ops b m1)) = no_provider ops (up_provider b)"
    using reconcile_provider_Inr[OF r tab norm] by (simp add: stamp_upload_provider)
  ultimately show ?thesis by blast
qed

section \<open>A pool to try it on\<close>

definition demo_auth_ops :: "(string, string list) auth_ops" where
  "demo_auth_ops = \<lparr>ao_id = (\<lambda>a. a), ao_email = (\<lambda>_. []), ao_api_key = (\<lambda>_. False), ao_file = (\<lambda>a. a), ao_set_explicit = (\<lambda>_ a. a),
     ao_set_disabled = (\<lambda>_ a. a), ao_set_max = (\<lambda>_ a. a), ao_set_proxy = (\<lambda>_ a. a), ao_set_base = (\<lambda>_ a. a), ao_set_label = (\<lambda>_ a. a),
     ao_set_group = (\<lambda>_ a. a), ao_set_price = (\<lambda>_ a. a), ao_set_models = (\<lambda>_ a. a), ao_persist = (\<lambda>_. None), ao_parse = (\<lambda>f _. Inr f),
     ao_clear_quota = (\<lambda>a. a), ao_clear_failure = (\<lambda>a. a), ao_refresh = (\<lambda>a. Inr (0, a)),
     po_find = (\<lambda>i p. find (\<lambda>a. a = i) p), po_put = (\<lambda>a p. if a \<in> set p then p else a # p), po_remove = (\<lambda>i p. if i \<in> set p then Some (i, removeAll i p) else None),
     po_add_oauth = (\<lambda>a p. (None, a # p)), po_add_api_key = (#), po_reorder = (\<lambda>_ p. (None, p)),
     no_provider = (\<lambda>s. if s = ''openai'' \<or> s = ''codex'' then ''openai'' else ''anthropic''), no_group = (\<lambda>s. s)\<rparr>"

definition demo_upload :: upload_body where
  "demo_upload = \<lparr>up_provider = ''codex'', up_filename = ''../../etc/x'', up_content = Some (Inr [(''email'', JStr ''a@b'')]), up_label = [],
     up_max_concurrent = 2, up_proxy_url = [], up_disabled = False, up_group = []\<rparr>"

definition no_faults :: auth_faults where "no_faults = \<lparr>af_mkdir = None, af_write = None\<rparr>"

text \<open>The write fails midway over a credential that is already there.\<close>

definition full_disk :: auth_faults where "full_disk = \<lparr>af_mkdir = None, af_write = Some (''no space left'', Some (Remains ''{''))\<rparr>"

definition demo_file :: "(string \<times> json) list" where
  "demo_file = [(''email'', JStr ''a@b''), (''provider'', JStr ''openai''), (''max_concurrent'', JInt 2)]"

lemma demo_upload_steps:
  "reconcile_provider demo_auth_ops ''codex'' [(''email'', JStr ''a@b'')] = Inr [(''email'', JStr ''a@b''), (''provider'', JStr ''openai'')]"
  "stamp_upload demo_auth_ops demo_upload [(''email'', JStr ''a@b''), (''provider'', JStr ''openai'')] = demo_file"
  "upload_name demo_auth_ops 0 ''../../etc/x'' demo_file = ''__etc_x.json''"
  "path_join ''/auths'' ''__etc_x.json'' = ''/auths/__etc_x.json''"
  by code_simp+

lemma demo_upload_run:
  "upload_page demo_auth_ops ''/auths'' no_faults 0 (Inr demo_upload) ([], Map.empty) =
     ((200, [(''status'', JStr ''ok''), (''id'', JStr ''/auths/__etc_x.json'')]), [''/auths/__etc_x.json''],
      Map.empty(''/auths/__etc_x.json'' \<mapsto> Object demo_file))"
proof -
  have b: "up_provider demo_upload = ''codex''" "up_filename demo_upload = ''../../etc/x''"
    "up_content demo_upload = Some (Inr [(''email'', JStr ''a@b'')])" by (simp_all add: demo_upload_def)
  have o: "ao_parse demo_auth_ops = (\<lambda>f _. Inr f)" "ao_id demo_auth_ops = (\<lambda>a. a)" "add_oauth demo_auth_ops = (#)"
    by (simp_all add: demo_auth_ops_def add_oauth_def fun_eq_iff)
  show ?thesis by (simp add: upload_page_def b demo_upload_steps store_auth_def o no_faults_def Let_def)
qed

text \<open>An upload that fails so breaks the file of a credential the pool goes on using: after a restart it is gone.\<close>

lemma failed_upload_breaks_a_stored_credential:
  "upload_page demo_auth_ops ''/auths'' full_disk 0 (Inr demo_upload) ([''/auths/__etc_x.json''], Map.empty(''/auths/__etc_x.json'' \<mapsto> Object demo_file)) =
     (error_body 500 ''no space left'', [''/auths/__etc_x.json''], Map.empty(''/auths/__etc_x.json'' \<mapsto> Remains ''{''))"
proof -
  have b: "up_provider demo_upload = ''codex''" "up_filename demo_upload = ''../../etc/x''"
    "up_content demo_upload = Some (Inr [(''email'', JStr ''a@b'')])" by (simp_all add: demo_upload_def)
  have o: "ao_parse demo_auth_ops = (\<lambda>f _. Inr f)" by (simp add: demo_auth_ops_def)
  show ?thesis by (simp add: upload_page_def b demo_upload_steps store_auth_def o full_disk_def Let_def)
qed

theorem credentials_stay_in_their_directory_witness:
  "(\<exists>name m. json_name name \<and> snd (upload_page demo_auth_ops ''/auths'' no_faults 0 (Inr demo_upload) ([], Map.empty)) =
     ([file_in ''/auths'' name], Map.empty(file_in ''/auths'' name \<mapsto> Object m))) \<and>
   (\<exists>name. json_name name \<and> snd (upload_page demo_auth_ops ''/auths'' full_disk 0 (Inr demo_upload) ([''/auths/__etc_x.json''], Map.empty(''/auths/__etc_x.json'' \<mapsto> Object demo_file))) =
     ([''/auths/__etc_x.json''], (Map.empty(''/auths/__etc_x.json'' \<mapsto> Object demo_file))(file_in ''/auths'' name := Some (Remains ''{''))))"
proof -
  have o: "ao_parse demo_auth_ops = (\<lambda>f _. Inr f)" "add_oauth demo_auth_ops = (#)" by (simp_all add: demo_auth_ops_def add_oauth_def fun_eq_iff)
  have "''/auths'' \<noteq> ([] :: string)" by simp
  note at_dir = conjunct1[OF credentials_stay_in_their_directory[OF this, of demo_auth_ops _ _ 0 "Inr demo_upload" "Inl []"]]
  from at_dir[of no_faults "([], Map.empty)"] have "\<exists>name m. json_name name \<and> snd (upload_page demo_auth_ops ''/auths'' no_faults 0 (Inr demo_upload) ([], Map.empty)) =
     ([file_in ''/auths'' name], Map.empty(file_in ''/auths'' name \<mapsto> Object m))"
    unfolding added_in_place_def demo_upload_run by (auto simp: o)
  moreover from at_dir[of full_disk "([''/auths/__etc_x.json''], Map.empty(''/auths/__etc_x.json'' \<mapsto> Object demo_file))"]
  have "\<exists>name. json_name name \<and> snd (upload_page demo_auth_ops ''/auths'' full_disk 0 (Inr demo_upload) ([''/auths/__etc_x.json''], Map.empty(''/auths/__etc_x.json'' \<mapsto> Object demo_file))) =
     ([''/auths/__etc_x.json''], (Map.empty(''/auths/__etc_x.json'' \<mapsto> Object demo_file))(file_in ''/auths'' name := Some (Remains ''{'')))"
    unfolding added_in_place_def failed_upload_breaks_a_stored_credential
    by (auto simp: error_body_def full_disk_def dest!: fun_cong[of _ _ "''/auths/__etc_x.json''"] split: if_splits)
  ultimately show ?thesis by blast
qed

theorem uploads_match_their_tab_witness:
  "\<exists>path m. fst (snd (upload_page demo_auth_ops ''/auths'' no_faults 0 (Inr demo_upload) ([], Map.empty))) = [path] \<and>
     snd (snd (upload_page demo_auth_ops ''/auths'' no_faults 0 (Inr demo_upload) ([], Map.empty))) path = Some (Object m) \<and>
     no_provider demo_auth_ops (text_field ''provider'' m) = ''openai''"
proof -
  have norm: "no_provider demo_auth_ops (no_provider demo_auth_ops x) = no_provider demo_auth_ops x" for x by (simp add: demo_auth_ops_def)
  have tab: "up_provider demo_upload \<noteq> []" "no_provider demo_auth_ops (up_provider demo_upload) = ''openai''"
    by (simp_all add: demo_upload_def demo_auth_ops_def)
  from uploads_match_their_tab[OF norm tab(1) demo_upload_run] obtain path m where
    "Map.empty(''/auths/__etc_x.json'' \<mapsto> Object demo_file) = Map.empty(path \<mapsto> Object m)" "no_provider demo_auth_ops (text_field ''provider'' m) = ''openai''"
    using tab(2) by auto
  moreover from fun_cong[OF this(1), of "''/auths/__etc_x.json''"] have "path = ''/auths/__etc_x.json''" "m = demo_file"
    by (simp_all split: if_splits)
  ultimately show ?thesis by (simp add: demo_upload_run)
qed

end
