(* ===== verification/FrontDoor.thy ===== *)
theory FrontDoor
  imports Config Monitor
begin

text \<open>
  The server's front (\<open>internal/server/server.go\<close>): which endpoints a configuration brings up, the routes of each engine
  with their guards, the recognition of a client token, the limits of a client, the health probe and the
  diagnostic list of credentials. Routes are data; what a handler does is the subject of the other theories. The
  token store and the pool of cc-core are arguments.
\<close>

section \<open>Recognising a client\<close>

text \<open>The headers of a request, empty where absent.\<close>

record request_head =
  rq_method :: string
  rq_path :: string
  rq_authorization :: string
  rq_api_key :: string

definition split_once :: "char \<Rightarrow> string \<Rightarrow> (string \<times> string) option" where
  "split_once c s = (case dropWhile (\<lambda>x. x \<noteq> c) s of [] \<Rightarrow> None | _ # rest \<Rightarrow> Some (takeWhile (\<lambda>x. x \<noteq> c) s, rest))"

definition extract_client_token :: "request_head \<Rightarrow> string" where
  "extract_client_token r = (let v = trim_space (rq_authorization r) in
     if v \<noteq> [] then (case split_once CHR '' '' v of
         Some (scheme, rest) \<Rightarrow> if to_lower scheme = ''bearer'' then trim_space rest else v
       | None \<Rightarrow> v)
     else trim_space (rq_api_key r))"

record token_entry =
  te_name :: string
  te_max_concurrent :: int

definition client_auth :: "(string \<Rightarrow> token_entry option) \<Rightarrow> request_head \<Rightarrow> response + string \<times> string" where
  "client_auth known r = (let tok = extract_client_token r in
     if tok = [] then Inl (error_body 401 ''missing bearer token'')
     else case known tok of None \<Rightarrow> Inl (error_body 401 ''invalid token'') | Some e \<Rightarrow> Inr (tok, te_name e))"

definition client_max_concurrent :: "(string \<Rightarrow> token_entry option) \<Rightarrow> config \<Rightarrow> string \<Rightarrow> int" where
  "client_max_concurrent known cfg tok = (case known tok of
     Some e \<Rightarrow> if 0 < te_max_concurrent e then te_max_concurrent e else cf_client_max_concurrent cfg
   | None \<Rightarrow> cf_client_max_concurrent cfg)"

definition client_rpm :: "(string \<Rightarrow> int option) \<Rightarrow> config \<Rightarrow> string \<Rightarrow> int" where
  "client_rpm rpm cfg tok = (case rpm tok of Some n \<Rightarrow> if 0 < n then n else cf_client_rpm cfg | None \<Rightarrow> cf_client_rpm cfg)"

section \<open>Routes\<close>

datatype front_handler = Healthz string string | Messages | Count_tokens | Status_json | Chat_completions | Responses
  | Responses_compact | Input_tokens | Images_generations | Images_edits | Models | Responses_ws | Panel string

record route =
  rt_method :: string
  rt_path :: string
  rt_guarded :: bool
  rt_handler :: front_handler

definition route_at :: "string \<Rightarrow> string \<Rightarrow> bool \<Rightarrow> front_handler \<Rightarrow> route" where
  "route_at m p g h = \<lparr>rt_method = m, rt_path = p, rt_guarded = g, rt_handler = h\<rparr>"

definition ProviderAnthropic :: string where "ProviderAnthropic = ''anthropic''"

text \<open>\<open>panel\<close> holds the routes of the status page, the console and billing, which the primary endpoint mounts and which
  guard themselves.\<close>

definition claude_routes :: "bool \<Rightarrow> (string \<times> string \<times> string) list \<Rightarrow> route list" where
  "claude_routes primary panel = [route_at ''GET'' ''/healthz'' False (Healthz ''claude'' ProviderAnthropic),
     route_at ''POST'' ''/v1/messages'' True Messages, route_at ''POST'' ''/v1/messages/count_tokens'' True Count_tokens,
     route_at ''GET'' ''/status.json'' True Status_json] @
     (if primary then map (\<lambda>(m, p, h). route_at m p False (Panel h)) panel else [])"

definition codex_routes :: "bool \<Rightarrow> bool \<Rightarrow> (string \<times> string \<times> string) list \<Rightarrow> route list" where
  "codex_routes ws primary panel = [route_at ''GET'' ''/healthz'' False (Healthz ''codex'' ProviderOpenAI),
     route_at ''POST'' ''/v1/chat/completions'' True Chat_completions, route_at ''POST'' ''/v1/responses'' True Responses,
     route_at ''POST'' ''/v1/responses/compact'' True Responses_compact, route_at ''POST'' ''/v1/responses/input_tokens'' True Input_tokens,
     route_at ''POST'' ''/v1/images/generations'' True Images_generations, route_at ''POST'' ''/v1/images/edits'' True Images_edits,
     route_at ''GET'' ''/v1/models'' True Models] @
     (if ws then [route_at ''GET'' ''/v1/responses'' True Responses_ws] else []) @
     [route_at ''GET'' ''/backend-api/codex/models'' True Models] @
     (if primary then map (\<lambda>(m, p, h). route_at m p False (Panel h)) panel else [])"

text \<open>A preflight is answered before the routes are looked at; a guarded handler sees the token and the name.\<close>

datatype front_answer = Preflight | No_route | Turned_away response | Handled front_handler "(string \<times> string) option"

definition dispatch :: "route list \<Rightarrow> (string \<Rightarrow> token_entry option) \<Rightarrow> request_head \<Rightarrow> front_answer" where
  "dispatch routes known r = (if rq_method r = ''OPTIONS'' then Preflight
     else case find (\<lambda>t. rt_method t = rq_method r \<and> rt_path t = rq_path r) routes of None \<Rightarrow> No_route
     | Some t \<Rightarrow> if \<not> rt_guarded t then Handled (rt_handler t) None
         else (case client_auth known r of Inl resp \<Rightarrow> Turned_away resp | Inr who \<Rightarrow> Handled (rt_handler t) (Some who)))"

section \<open>Endpoints\<close>

definition pick_primary :: "config \<Rightarrow> string" where
  "pick_primary cfg = (if endpoint_enabled (cf_claude cfg) then ''claude''
     else if endpoint_enabled (cf_codex cfg) then ''codex'' else [])"

record endpoint_info =
  ei_name :: string
  ei_provider :: string
  ei_addr :: string
  ei_primary :: bool

definition endpoint_addr :: "endpoint_config \<Rightarrow> string" where
  "endpoint_addr e = ep_host e @ '':'' @ itoa (ep_port e)"

definition server_endpoints :: "config \<Rightarrow> endpoint_info list" where
  "server_endpoints cfg =
     (if endpoint_enabled (cf_claude cfg) then [\<lparr>ei_name = ''claude'', ei_provider = ProviderAnthropic, ei_addr = endpoint_addr (cf_claude cfg),
        ei_primary = (pick_primary cfg = ''claude'')\<rparr>] else []) @
     (if endpoint_enabled (cf_codex cfg) then [\<lparr>ei_name = ''codex'', ei_provider = ProviderOpenAI, ei_addr = endpoint_addr (cf_codex cfg),
        ei_primary = (pick_primary cfg = ''codex'')\<rparr>] else [])"

definition engine_routes :: "config \<Rightarrow> (string \<times> string \<times> string) list \<Rightarrow> endpoint_info \<Rightarrow> route list" where
  "engine_routes cfg panel e = (if ei_name e = ''claude'' then claude_routes (ei_primary e) panel
     else codex_routes (cw_enabled (cf_codex_ws cfg)) (ei_primary e) panel)"

text \<open>The probe targets of the monitor.\<close>

definition server_monitor :: "config \<Rightarrow> monitor_config" where
  "server_monitor cfg = \<lparr>mc_enabled = ms_enabled (cf_monitor cfg),
     mc_interval = signed_take_bit 63 (ms_interval_minutes (cf_monitor cfg) * (60 * second_ns)),
     mc_state_file = ms_state_file (cf_monitor cfg),
     mc_targets = (if endpoint_enabled (cf_claude cfg) then [\<lparr>mt_provider = ProviderAnthropic, mt_model = ms_claude_model (cf_monitor cfg)\<rparr>] else []) @
       (if endpoint_enabled (cf_codex cfg) then [\<lparr>mt_provider = ProviderOpenAI, mt_model = ms_openai_model (cf_monitor cfg)\<rparr>] else [])\<rparr>"

definition no_endpoints_text :: string where
  "no_endpoints_text = ''no endpoints enabled '' @ [CHR 0xE2, CHR 0x80, CHR 0x94] @ '' set endpoints.claude.port or endpoints.codex.port in config.yaml''"

text \<open>How the listeners ended, in the order they did: none for a clean shutdown.\<close>

definition server_start :: "endpoint_info list \<Rightarrow> string option list \<Rightarrow> string option" where
  "server_start eps ended = (if eps = [] then Some no_endpoints_text
     else foldl (\<lambda>first e. if first = None then e else first) None (take (length eps) ended))"

text \<open>How the endpoints shut down, in the order of the list.\<close>

definition server_shutdown :: "string option list \<Rightarrow> string option" where
  "server_shutdown errs = (case filter (\<lambda>e. e \<noteq> None) errs of [] \<Rightarrow> None | e # _ \<Rightarrow> e)"

section \<open>Health and diagnostics\<close>

definition pool_view_json :: "pool_health_view \<Rightarrow> json" where
  "pool_view_json v = JObj [(''available'', JBool (pv_available v)), (''total'', JInt (pv_total v)), (''serving'', JInt (pv_serving v)),
     (''worst_state'', JStr (pv_worst_state v)), (''by_state'', JObj (map (\<lambda>(s, n). (s, JInt n)) (pv_by_state v)))]"

definition healthz_payload :: "pool_api \<Rightarrow> int \<Rightarrow> string \<Rightarrow> string \<Rightarrow> response" where
  "healthz_payload p now endpoint provider =
     (let (ph, slot) = pool_health_for p now provider; view = new_pool_health_view ph;
          body = [(''endpoint'', JStr endpoint), (''provider'', JStr (pa_normalize p provider)), (''pool'', pool_view_json view),
            (''slot_available'', JBool slot)]
      in if \<not> ph_available ph
         then (503, body @ [(''status'', JStr ''unavailable''), (''reason'', JStr (if ph_total ph = 0
            then ''no credentials configured for this provider''
            else ''no credential can serve (worst state: '' @ pv_worst_state view @ '')''))])
         else (200, body @ [(''status'', JStr ''ok'')]))"

text \<open>A credential as the diagnostics list it, before and after masking.\<close>

record listed_auth =
  la_id :: string
  la_api_key :: bool
  la_provider :: string
  la_label :: string
  la_email :: string
  la_proxy_url :: string
  la_max_concurrent :: int
  la_active_clients :: int
  la_client_tokens :: "string list"
  la_disabled :: bool
  la_quota_exceeded_at :: int
  la_quota_reset_at :: int
  la_expires_at :: int

record status_row =
  ar_id :: string
  ar_kind :: string
  ar_provider :: string
  ar_label :: string
  ar_email :: string
  ar_proxy_url :: string
  ar_max_concurrent :: int
  ar_active_clients :: int
  ar_client_tokens :: "string list"
  ar_disabled :: bool
  ar_quota_exceeded :: bool
  ar_quota_reset_at :: int
  ar_expires_at :: int

definition status_row_of :: "(string \<Rightarrow> string) \<Rightarrow> (string \<Rightarrow> string) \<Rightarrow> listed_auth \<Rightarrow> status_row" where
  "status_row_of canon msk a = \<lparr>ar_id = la_id a, ar_kind = (if la_api_key a then ''apikey'' else ''oauth''), ar_provider = canon (la_provider a),
     ar_label = la_label a, ar_email = la_email a, ar_proxy_url = la_proxy_url a, ar_max_concurrent = la_max_concurrent a,
     ar_active_clients = la_active_clients a, ar_client_tokens = map msk (la_client_tokens a), ar_disabled = la_disabled a,
     ar_quota_exceeded = (la_quota_exceeded_at a \<noteq> zero_time), ar_quota_reset_at = la_quota_reset_at a, ar_expires_at = la_expires_at a\<rparr>"

record status_answer =
  an_window_minutes :: int
  an_auths :: "status_row list"
  an_usage :: json
  an_endpoints :: "endpoint_info list"

definition status_json :: "(string \<Rightarrow> string) \<Rightarrow> (string \<Rightarrow> string) \<Rightarrow> config \<Rightarrow> int \<Rightarrow> listed_auth list \<Rightarrow> json \<Rightarrow> status_answer" where
  "status_json canon msk cfg window auths used = \<lparr>an_window_minutes = to_int64 (of_int window / of_int (60 * second_ns)),
     an_auths = map (status_row_of canon msk) auths, an_usage = used, an_endpoints = server_endpoints cfg\<rparr>"

end
