(* ===== verification/FrontFacts.thy ===== *)
theory FrontFacts
  imports FrontDoor
begin

text \<open>
  A configuration that loads is sound: its files, its modes and budgets, its promotions and the path of its console. The
  routes let no request past without a registered token, and one endpoint carries the console.
\<close>

section \<open>Paths\<close>






section \<open>The console's path\<close>




section \<open>A loaded configuration\<close>









text \<open>The check for a multiplier that is zero or less lets through one that is no number, and the promotion covers its window.\<close>

definition nan_promotion :: promotion_config where
  "nan_promotion = \<lparr>pg_name = ''spring'', pg_provider = ''anthropic'', pg_multiplier = Not_a_number, pg_start = 10, pg_end = 20\<rparr>"

lemma no_number_passes_for_a_multiplier:
  "normalize_promotions demo_cc 0 [nan_promotion] = Inr [nan_promotion] \<and> read_covers nan_promotion ''anthropic'' 15"
  by code_simp

text \<open>Zero stands for unlimited, or for keeping logs forever, in no loaded configuration: it is replaced by a limit.\<close>

lemma zero_is_never_unlimited:
  "cf_client_rpm (apply_defaults c path) \<noteq> 0 \<and> cf_client_max_concurrent (apply_defaults c path) \<noteq> 0 \<and>
   cf_log_retention (apply_defaults c path) \<noteq> 0 \<and> wu_stall_timeout (cw_upstream (cf_codex_ws (apply_defaults c path))) \<noteq> 0"
  by (simp add: apply_defaults_def Let_def nonzero_or_def ws_defaults_def ws_normalize_def)

section \<open>The routes\<close>

lemma dispatched:
  assumes "dispatch routes known r = Handled h who"
  shows "\<exists>t \<in> set routes. rt_handler t = h \<and> (if rt_guarded t then \<exists>tok name. who = Some (tok, name) \<and> client_auth known r = Inr (tok, name)
    else who = None)"
  using assms by (auto simp: dispatch_def find_Some_iff split: if_splits option.splits sum.splits dest: nth_mem)

lemma authenticated: "client_auth known r = Inr (tok, name) \<Longrightarrow> tok = extract_client_token r \<and> tok \<noteq> [] \<and> known tok \<noteq> None"
  by (auto simp: client_auth_def Let_def split: if_splits option.splits)

text \<open>C37. On every endpoint a request that reaches a handler bears a registered token, or asks for the health of the endpoint,
  or for a route of the console on the primary endpoint; there is at most one such endpoint.\<close>

lemma only_known_tokens_are_served:
  assumes "ep \<in> set (server_endpoints cfg)" "dispatch (engine_routes cfg panel ep) known r = Handled h who"
  shows "(\<exists>tok name. who = Some (tok, name) \<and> tok = extract_client_token r \<and> known tok \<noteq> None) \<or>
    (who = None \<and> h = Healthz (ei_name ep) (ei_provider ep)) \<or>
    (who = None \<and> (\<exists>x. h = Panel x) \<and> ei_primary ep \<and> ei_name ep = pick_primary cfg)"
proof -
  from dispatched[OF assms(2)] obtain t where t: "t \<in> set (engine_routes cfg panel ep)" "rt_handler t = h"
    "if rt_guarded t then \<exists>tok name. who = Some (tok, name) \<and> client_auth known r = Inr (tok, name) else who = None" by blast
  show ?thesis
  proof (cases "rt_guarded t")
    case True
    with t(3) authenticated show ?thesis by fastforce
  next
    case False
    then show ?thesis using t assms(1)
      by (auto simp: engine_routes_def server_endpoints_def claude_routes_def codex_routes_def route_at_def pick_primary_def split: if_splits)
  qed
qed

lemma one_primary:
  "server_endpoints cfg \<noteq> [] \<Longrightarrow> length (filter ei_primary (server_endpoints cfg)) = 1"
  by (auto simp: server_endpoints_def pick_primary_def split: if_splits)

text \<open>A loaded configuration gives the monitor a model for each endpoint that is up.\<close>

lemma loaded_targets_have_models:
  "t \<in> set (mc_targets (server_monitor (apply_defaults c path))) \<Longrightarrow> mt_model t \<noteq> []"
  by (auto simp: server_monitor_def apply_defaults_def Let_def monitor_defaults_def text_or_def split: if_splits)

section \<open>Witnesses\<close>

text \<open>A file that sets a promotion and nothing else.\<close>

definition blank_config :: config where
  "blank_config = \<lparr>cf_log_level = [], cf_claude = \<lparr>ep_host = [], ep_port = 0, ep_disabled = False\<rparr>,
     cf_codex = \<lparr>ep_host = [], ep_port = 0, ep_disabled = False\<rparr>, cf_auth_dir = [], cf_state_file = [],
     cf_backup = \<lparr>bk_enabled = False, bk_retention_days = 0, bk_recipient = [],
       bk_s3 = \<lparr>s3_endpoint = [], s3_region = [], s3_bucket = [], s3_prefix = [], s3_access_key = [], s3_secret_key = []\<rparr>\<rparr>,
     cf_active_window = 0, cf_display_timezone = [], cf_admin_token = [], cf_admin_path = ''panel/'', cf_api_keys = [], cf_default_proxy = [],
     cf_anthropic_url = [], cf_openai_url = [], cf_chatgpt_url = [], cf_use_utls = False,
     cf_codex_ws = \<lparr>cw_enabled = False, cw_force_http = False, cw_beta_version = [], cw_read_limit = 0,
       cw_upstream = \<lparr>wu_mode = '' Auto'', wu_pool_idle = 0, wu_pool_max_age = 0, wu_pool_max_entries = 0, wu_read_timeout = 0,
         wu_stall_timeout = 0, wu_committed_stall_timeout = 0, wu_auth_ids = [], wu_fallback_cooldown = 0\<rparr>\<rparr>,
     cf_codex_sidecar = False, cf_log_dir = ''logs'', cf_client_max_concurrent = 0, cf_client_max_sessions = 0, cf_codex_multiplier = 0,
     cf_client_rpm = 0, cf_log_retention = 0, cf_log_index_disabled = False, cf_log_jsonl_disabled = False, cf_pricing = JNull,
     cf_saas = \<lparr>sc_enabled = True, sc_db_path = [], sc_site = [],
       sc_payment = \<lparr>pm_base_url = [], pm_pid = [], pm_key = [], pm_notify_url = [], pm_return_url = []\<rparr>,
       sc_exchange = \<lparr>ec_url = [], ec_refresh_minutes = 0, ec_fallback = Number 0\<rparr>,
       sc_invoice = \<lparr>ic_pdf_dir = ''../pdf'', ic_title_url = [], ic_resend_key = [], ic_resend_from = [], ic_ops_email = [], ic_webhook_secret = []\<rparr>,
       sc_promotions = [\<lparr>pg_name = [], pg_provider = '' claude '', pg_multiplier = Number 1, pg_start = 10, pg_end = 20\<rparr>]\<rparr>,
     cf_monitor = \<lparr>ms_enabled = True, ms_interval_minutes = 0, ms_client_token = [], ms_claude_model = [], ms_openai_model = [], ms_state_file = []\<rparr>,
     cf_client_guard = \<lparr>cg_enabled = False, cg_extra_blocked = [], cg_allow_empty = False\<rparr>\<rparr>"

definition demo_config :: config where
  "demo_config = apply_defaults blank_config ''/etc/cpa/config.yaml''"

lemma demo_config_values: "cf_admin_path demo_config = ''/panel''" "wu_mode (cw_upstream (cf_codex_ws demo_config)) = ''auto''"
  "ic_pdf_dir (sc_invoice (cf_saas demo_config)) = ''/etc/pdf''" "cf_auth_dir demo_config = ''/etc/cpa/auths''"
  unfolding demo_config_def by code_simp+



lemma only_known_tokens_are_served_witness:
  "\<exists>ep h who. ep \<in> set (server_endpoints demo_config) \<and> dispatch (engine_routes demo_config [] ep)
     (\<lambda>t. if t = ''sk'' then Some \<lparr>te_name = ''a'', te_max_concurrent = 0\<rparr> else None)
     \<lparr>rq_method = ''POST'', rq_path = ''/v1/messages'', rq_authorization = ''Bearer sk'', rq_api_key = []\<rparr> = Handled h who \<and> who \<noteq> None"
proof -
  let ?known = "\<lambda>t. if t = ''sk'' then Some \<lparr>te_name = ''a'', te_max_concurrent = 0\<rparr> else None"
  let ?r = "\<lparr>rq_method = ''POST'', rq_path = ''/v1/messages'', rq_authorization = ''Bearer sk'', rq_api_key = []\<rparr>"
  define ep where "ep = hd (server_endpoints demo_config)"
  have c: "endpoint_enabled (cf_claude demo_config)"
    by (simp add: demo_config_def apply_defaults_def Let_def blank_config_def claude_defaults_def endpoint_enabled_def nonzero_or_def)
  then have ep: "ep \<in> set (server_endpoints demo_config)" "ei_name ep = ''claude''" by (simp_all add: ep_def server_endpoints_def)
  have "extract_client_token ?r = ''sk''" by code_simp
  then have "dispatch (engine_routes demo_config [] ep) ?known ?r = Handled Messages (Some (''sk'', ''a''))"
    by (simp add: dispatch_def engine_routes_def ep(2) claude_routes_def route_at_def client_auth_def)
  with only_known_tokens_are_served[OF ep(1) this] ep(1) show ?thesis by blast
qed

end
