(* ===== verification/Spec2Isabelle.thy ===== *)
theory Spec2Isabelle
  imports System Inbox Migrate WalletPages Payments CodexForwardFacts TargetFacts MailFacts DeskFacts MonitorFacts StatusFacts TokenFacts CredentialFacts FrontFacts
begin

text \<open>
  A verification development for CPA-Claude, a metering proxy in front of the Claude and Codex
  APIs that sells its capacity by prepaid balance. The Go program has three layers. The proxy
  (\<^verbatim>\<open>internal/server\<close>) authenticates a client token, forwards the request on a pooled credential
  and settles its cost. The billing layer (\<^verbatim>\<open>internal/saas/billing\<close>) takes payments, answers the
  wallet, team and invoice endpoints, and prices requests. The store (\<^verbatim>\<open>internal/saas/db\<close>) keeps
  wallets, workspaces with a shared pool, orders, invoices and the inbox in SQLite, where every
  balance is mirrored by a ledger. The proxy calls \<^verbatim>\<open>PrecheckBalance\<close> before and \<^verbatim>\<open>SettleCharge\<close>
  after a request; the gateway's webhook and the operator's reconciliation credit orders through
  one funnel; all of them meet in the store.

  \<^bold>\<open>Theories and the code they model.\<close>
  \<^item> \<^verbatim>\<open>Prelude\<close>, \<^verbatim>\<open>GoLib\<close>, \<^verbatim>\<open>Float64\<close>, \<^verbatim>\<open>GoTime\<close>, \<^verbatim>\<open>Md5\<close>: tables as lists of rows, Go strings as lists
    of bytes, \<^verbatim>\<open>float64\<close> as rationals with IEEE rounding after every operation, the printing and
    parsing of decimals, the Gregorian calendar, \<^verbatim>\<open>crypto/md5\<close> on 32-bit words.
  \<^item> \<^verbatim>\<open>Store\<close>: the rows of \<^verbatim>\<open>migrations.go\<close> as records, the database as a record of tables, and an
    operation as a function of a session, the database with a plan of the driver failures to come.
    \<^verbatim>\<open>bnd\<close> is \<^verbatim>\<open>if err != nil { return err }\<close>, \<^verbatim>\<open>in_tx\<close> a transaction, \<^verbatim>\<open>attempt\<close> an error the code looks at.
  \<^item> \<^verbatim>\<open>Ledger\<close>: the contract of a balance with its ledger, a locale interpreted for wallets
    (\<^verbatim>\<open>wallet_ledger\<close>) and for workspace pools (\<^verbatim>\<open>pool_ledger\<close>); what an operation preserves; runs
    without driver failures.
  \<^item> \<^verbatim>\<open>PricingGroups\<close>, \<^verbatim>\<open>Wallet\<close>, \<^verbatim>\<open>Orders\<close>, \<^verbatim>\<open>Workspace\<close>, \<^verbatim>\<open>Invoices\<close>, \<^verbatim>\<open>Rekey\<close>, \<^verbatim>\<open>Inbox\<close>, \<^verbatim>\<open>Migrate\<close>: the
    files of \<^verbatim>\<open>internal/saas/db\<close>, one definition per method under the method's name in snake case.
  \<^item> \<^verbatim>\<open>System\<close>: the invariant of the whole database, every operation as a step, the inbox included, reachability, and
    that an order once paid stays paid.
  \<^item> \<^verbatim>\<open>Settlement\<close>: \<^verbatim>\<open>cost.go\<close>, \<^verbatim>\<open>promo.go\<close>, \<^verbatim>\<open>saas_billing.go\<close> and the promotions of \<^verbatim>\<open>config.go\<close>.
  \<^item> \<^verbatim>\<open>ZPay\<close>, \<^verbatim>\<open>ExchangeRate\<close>, \<^verbatim>\<open>Topup\<close>, \<^verbatim>\<open>WalletPages\<close>, \<^verbatim>\<open>Payments\<close>: \<^verbatim>\<open>zpay.go\<close>, \<^verbatim>\<open>exchange.go\<close> and
    \<^verbatim>\<open>handlers.go\<close>; the last theory holds what the payment flow guarantees.
  \<^item> \<^verbatim>\<open>ModelGuard\<close>, \<^verbatim>\<open>CodexSession\<close>, \<^verbatim>\<open>Upstream\<close>, \<^verbatim>\<open>Credentials\<close>: \<^verbatim>\<open>codex_model_guard.go\<close>, \<^verbatim>\<open>relay_fanout.go\<close> and
    \<^verbatim>\<open>codex_session.go\<close>, \<^verbatim>\<open>upstream_health.go\<close> with the quota parsing of \<^verbatim>\<open>proxy.go\<close>, \<^verbatim>\<open>codex_auth_reject.go\<close>,
    \<^verbatim>\<open>token_count.go\<close>, \<^verbatim>\<open>codexquota\<close> and \<^verbatim>\<open>tokenmask\<close>.
  \<^item> \<^verbatim>\<open>Failover\<close>, \<^verbatim>\<open>Exchange\<close>: the gates of \<^verbatim>\<open>forward\<close>, the loop of \<^verbatim>\<open>forwardWithFailover\<close> over a world that the
    pool, the clock and the upstream advance (\<^verbatim>\<open>played\<close> says which rounds a run of it went through), and one exchange (\<^verbatim>\<open>doForward\<close>, \<^verbatim>\<open>doForwardAnthropicAPIKey\<close>)
    as the list of its effects.
  \<^item> \<^verbatim>\<open>CodexStream\<close>, \<^verbatim>\<open>CodexStreamFacts\<close>, \<^verbatim>\<open>CodexForward\<close>, \<^verbatim>\<open>CodexForwardFacts\<close>: the relays and exchanges of
    \<^verbatim>\<open>codex_oauth_proxy.go\<close>, \<^verbatim>\<open>codex_proxy.go\<close>, \<^verbatim>\<open>codex_chat_bridge.go\<close> and \<^verbatim>\<open>codex_images.go\<close>, over what cc-core
    says of a payload (\<^verbatim>\<open>codex_lib\<close>) and what an upstream sends (\<^verbatim>\<open>codex_env\<close>).
  \<^item> \<^verbatim>\<open>InvoicePages\<close>: the endpoints of \<^verbatim>\<open>billing/invoices.go\<close>. \<^verbatim>\<open>Paging\<close>, \<^verbatim>\<open>Usage\<close>, \<^verbatim>\<open>UsageFacts\<close>: \<^verbatim>\<open>billing/usage.go\<close>, with the
    request log of cc-core as the parameter \<^verbatim>\<open>usage_log\<close>.
  \<^item> \<^verbatim>\<open>TeamConsole\<close>, \<^verbatim>\<open>TeamFacts\<close>: \<^verbatim>\<open>billing/team.go\<close>, \<^verbatim>\<open>team_invoices.go\<close>, \<^verbatim>\<open>team_requests.go\<close>. The fan-out over members is
    folded over its answers in an arbitrary order.
  \<^item> \<^verbatim>\<open>Statement\<close>, \<^verbatim>\<open>TeamStatement\<close>, \<^verbatim>\<open>StatementFacts\<close>: \<^verbatim>\<open>internal/statement\<close> without its PDF, \<^verbatim>\<open>team_statement.go\<close>.
  \<^item> \<^verbatim>\<open>AdminLog\<close>, \<^verbatim>\<open>AdminStatement\<close>, \<^verbatim>\<open>TargetFacts\<close>: the request-log cache of \<^verbatim>\<open>admin/admin.go\<close> and \<^verbatim>\<open>admin/statement.go\<close>.
  \<^item> \<^verbatim>\<open>Sha256\<close>: \<^verbatim>\<open>crypto/sha256\<close>, \<^verbatim>\<open>crypto/hmac\<close> and \<^verbatim>\<open>encoding/base64\<close>.
  \<^item> \<^verbatim>\<open>InboundMail\<close>, \<^verbatim>\<open>MailFacts\<close>: \<^verbatim>\<open>resend/client.go\<close>, \<^verbatim>\<open>resend/inbound.go\<close> and \<^verbatim>\<open>billing/inbox.go\<close>.
  \<^item> \<^verbatim>\<open>OperatorPages\<close>, \<^verbatim>\<open>InvoiceDesk\<close>, \<^verbatim>\<open>DeskFacts\<close>: \<^verbatim>\<open>admin/saas_admin.go\<close>, \<^verbatim>\<open>admin/invoices.go\<close>, \<^verbatim>\<open>admin/inbox.go\<close>.
  \<^item> \<^verbatim>\<open>Monitor\<close>, \<^verbatim>\<open>MonitorFacts\<close>: \<^verbatim>\<open>internal/monitor/monitor.go\<close>.
  \<^item> \<^verbatim>\<open>StatusPage\<close>, \<^verbatim>\<open>StatusFacts\<close>: \<^verbatim>\<open>admin/status.go\<close> and the date bounds of \<^verbatim>\<open>admin.go\<close>.
  \<^item> \<^verbatim>\<open>Config\<close>, \<^verbatim>\<open>FrontDoor\<close>, \<^verbatim>\<open>FrontFacts\<close>: \<^verbatim>\<open>internal/config\<close> and \<^verbatim>\<open>server/server.go\<close>. Floats of the
    YAML file may be no number or infinite; a promotion that has a number is priced by \<^verbatim>\<open>Settlement\<close>.
  \<^item> \<^verbatim>\<open>TokenDesk\<close>, \<^verbatim>\<open>TokenFacts\<close>, \<^verbatim>\<open>CredentialDesk\<close>, \<^verbatim>\<open>CredentialFacts\<close>: the client tokens, the log queries and the
    credentials of \<^verbatim>\<open>admin.go\<close>, over the registers of cc-core; a failed write may leave part of a file.
  \<^bold>\<open>What the lemmas show.\<close> Every operation keeps the invariant of its tables whatever statement fails,
  and therefore every reachable database has balances equal to the \<^verbatim>\<open>float64\<close> sum of their ledgers
  (\<^verbatim>\<open>System\<close>); a charge moves exactly its cost and respects the caps (\<^verbatim>\<open>Workspace\<close>); a settlement bills
  what it moved (\<^verbatim>\<open>Settlement\<close>); money follows an order once and only on a verified notification
  (\<^verbatim>\<open>Payments\<close>); invoices stay within what was paid (\<^verbatim>\<open>Invoices\<close>); a key rotation moves an account whole
  (\<^verbatim>\<open>Rekey\<close>); the payment signature is independent of map order and unambiguous (\<^verbatim>\<open>ZPay\<close>). A request reaches a
  credential only past every gate, the loop is bounded and fails only when nothing is left
  (\<^verbatim>\<open>Failover\<close>); a retry is invisible and an exchange charges observed usage once (\<^verbatim>\<open>Exchange\<close>, \<^verbatim>\<open>CodexForwardFacts\<close>); a refusal behind any opening moves on and a
  plain stream passes byte for byte (\<^verbatim>\<open>CodexForwardFacts\<close>, \<^verbatim>\<open>CodexStreamFacts\<close>); tenants
  never share the text of a session and the response store refines its history (\<^verbatim>\<open>CodexSession\<close>); the model guard
  refuses on full knowledge only (\<^verbatim>\<open>ModelGuard\<close>). A team's
  pages show the newest of its own rows in whatever order they arrive, its console keeps an admin
  (\<^verbatim>\<open>UsageFacts\<close>, \<^verbatim>\<open>TeamFacts\<close>, \<^verbatim>\<open>StatementFacts\<close>); a statement by target is the shortest run of rows
  that reaches it (\<^verbatim>\<open>TargetFacts\<close>). Mail is stored exactly when its webhook is
  signed (\<^verbatim>\<open>MailFacts\<close>), an issued invoice has its PDF (\<^verbatim>\<open>DeskFacts\<close>), and the bounded history of the monitor
  refines the log of its samples (\<^verbatim>\<open>MonitorFacts\<close>). The public page keeps the tokens it is asked about apart
  behind a cache that has answered anything, and tells nothing of one it does not know (\<^verbatim>\<open>StatusFacts\<close>); no route serves a request
  without a registered token and a configuration that loads has its paths, limits and promotions in order (\<^verbatim>\<open>FrontFacts\<close>). The rotation of a token through the
  console is whole or reported, its deletions spare a workspace's last admin (\<^verbatim>\<open>TokenFacts\<close>), and its uploads
  touch one file of the directory of credentials (\<^verbatim>\<open>CredentialFacts\<close>).

  \<^bold>\<open>Bounds and fuel.\<close> \<^verbatim>\<open>drop_runes\<close> has the length of its string as fuel, and each step drops a byte;
  \<^verbatim>\<open>md5_blocks\<close> has the number of whole blocks; the credential loop has the twelve rounds of the code; every other recursion is structural or has a measure.
  Overflow of \<^verbatim>\<open>float64\<close> to infinity is outside the model; the closeness lemmas hold up to \<^verbatim>\<open>10^12\<close>. The ledgers hold numbers
  only: JSON bodies cannot carry a NaN, but a promotion of \<^verbatim>\<open>config.yaml\<close> can, and loading accepts it (\<^verbatim>\<open>FrontFacts\<close>); what
  is proved of prices is proved for multipliers that are numbers.

  \<^bold>\<open>What is assumed of code outside the repository.\<close> SQLite: \<^verbatim>\<open>SUM\<close> and \<^verbatim>\<open>LIKE\<close> are the fields of
  \<^verbatim>\<open>sqlite\<close>; rows that tie in an ORDER BY keep their order; a COMMIT that fails rolls back; the write
  lock is taken at BEGIN. The library cc-core: provider aliases and the quantisation of a charge
  are the fields of \<^verbatim>\<open>cc_core\<close>. The network, the random bytes and the decoding of JSON are arguments;
  the pool hands out no credential it was told to leave out (\<^verbatim>\<open>honours_exclusion\<close>); the request log answers a query for a
  token with that token's rows and no more than the limit (\<^verbatim>\<open>honest_log\<close>).
  One operation reads the clock once. Letters outside ASCII have no case.

  \<^bold>\<open>Not modelled.\<close> \<^verbatim>\<open>db.Open\<close>, file backups and the command line (I/O on files), the summary view of the admin console,
  PDF rendering, headers, the websocket server and sockets of the proxy, and logging (calls
  into libraries with no state of their own). The component list of the manifest names each with
  its reason. Error texts are kept where a caller compares or shows them.
\<close>

end
